(* ===== verification/Prelude.thy ===== *)
theory Prelude
  imports Main "HOL-Library.Word"
begin

section \<open>Shared vocabulary of the 68k engine model\<close>

text \<open>
  Machine integers of the C source (\<open>uint8\<close>, \<open>uint16\<close>, \<open>uint32\<close>/\<open>uint\<close>, \<open>uint64\<close> of
  m68kcpu.h) are words of their width.  A C \<open>int\<close> is a 32-bit word too; where the source
  compares or divides it as a signed number the model uses the signed order and the truncating
  division of this theory.  The theory also holds the facts on words that the component proofs
  share: how a sum or difference sets carry and overflow, and how fields of a word are replaced.
\<close>

unbundle bit_operations_syntax

type_synonym u8 = "8 word"
type_synonym u16 = "16 word"
type_synonym u32 = "32 word"
type_synonym u64 = "64 word"

named_theorems engine_defs \<open>definitions of the engine that proofs unfold freely\<close>
named_theorems flag_simps \<open>what the flag macros compute\<close>

subsection \<open>Masks\<close>

text \<open>The mask literals of the source as \<open>mask n\<close>, for which the bit lemmas are stated.\<close>

lemma mask_8: "(0xff :: 'a :: len word) = mask 8"
  and mask_16: "(0xffff :: 'a word) = mask 16"
  and mask_32: "(0xffffffff :: 'a word) = mask 32"
  and mask_4: "(0xf :: 'a word) = mask 4"
  and mask_3: "(7 :: 'a word) = mask 3"
  by (simp_all add: mask_eq_exp_minus_1)

lemma take_bit_eq_self_u32: "take_bit 32 (A :: u32) = A"
  by (rule bit_word_eqI) (simp add: bit_simps)

subsection \<open>Bits\<close>

text \<open>Equality of words of known width, bit by bit.\<close>

lemma all_less_Suc_conj: "(\<forall>n<Suc k. P n) \<longleftrightarrow> (\<forall>n<k. P n) \<and> P k"
  by (auto simp: less_Suc_eq)

lemma all_less_8:
  "(\<forall>n<8. P (n :: nat)) \<longleftrightarrow>
     P 0 \<and> P 1 \<and> P 2 \<and> P 3 \<and> P 4 \<and> P 5 \<and> P 6 \<and> P 7"
  by (simp add: numeral_eq_Suc all_less_Suc_conj conj_assoc)

lemma all_less_16:
  "(\<forall>n<16. P (n :: nat)) \<longleftrightarrow>
     P 0 \<and> P 1 \<and> P 2 \<and> P 3 \<and> P 4 \<and> P 5 \<and> P 6 \<and> P 7 \<and>
     P 8 \<and> P 9 \<and> P 10 \<and> P 11 \<and> P 12 \<and> P 13 \<and> P 14 \<and> P 15"
  by (simp add: numeral_eq_Suc all_less_Suc_conj conj_assoc)

lemma all_less_32:
  "(\<forall>n<32. P (n :: nat)) \<longleftrightarrow>
     P 0 \<and> P 1 \<and> P 2 \<and> P 3 \<and> P 4 \<and> P 5 \<and> P 6 \<and> P 7 \<and>
     P 8 \<and> P 9 \<and> P 10 \<and> P 11 \<and> P 12 \<and> P 13 \<and> P 14 \<and> P 15 \<and>
     P 16 \<and> P 17 \<and> P 18 \<and> P 19 \<and> P 20 \<and> P 21 \<and> P 22 \<and> P 23 \<and>
     P 24 \<and> P 25 \<and> P 26 \<and> P 27 \<and> P 28 \<and> P 29 \<and> P 30 \<and> P 31"
  by (simp add: numeral_eq_Suc all_less_Suc_conj conj_assoc)

lemma word8_bits: "(x :: u8) = y \<longleftrightarrow> (\<forall>n<8. bit x n = bit y n)"
  by (auto simp: bit_eq_iff dest: bit_imp_le_length)

lemma word16_bits: "(x :: u16) = y \<longleftrightarrow> (\<forall>n<16. bit x n = bit y n)"
  by (auto simp: bit_eq_iff dest: bit_imp_le_length)

lemma word32_bits: "(x :: u32) = y \<longleftrightarrow> (\<forall>n<32. bit x n = bit y n)"
  by (auto simp: bit_eq_iff dest: bit_imp_le_length)

text \<open>No bit beyond the width.\<close>

lemma not_bit_8: "8 \<le> n \<Longrightarrow> \<not> bit (v :: u8) n"
  and not_bit_16: "16 \<le> n \<Longrightarrow> \<not> bit (w :: u16) n"
  by (auto dest: bit_imp_le_length)

lemmas word8_eq = word8_bits [unfolded all_less_8]
lemmas word16_eq = word16_bits [unfolded all_less_16]
lemmas word32_eq = word32_bits [unfolded all_less_32]

subsection \<open>C conversions and arithmetic\<close>

text \<open>A C truth value used as a number.\<close>

definition bool_word :: "bool \<Rightarrow> u32" where
  "bool_word b = (if b then 1 else 0)"

lemma bool_word_simps [simp]:
  "bool_word True = 1" "bool_word False = 0"
  by (simp_all add: bool_word_def)

lemma bool_word_eq_0 [simp]: "bool_word b = 0 \<longleftrightarrow> \<not> b"
  by (simp add: bool_word_def)

text \<open>Signed division and remainder of C: the quotient is truncated towards zero.\<close>

definition trunc_quot :: "int \<Rightarrow> int \<Rightarrow> int" where
  "trunc_quot a b = sgn a * sgn b * (\<bar>a\<bar> div \<bar>b\<bar>)"

definition trunc_rem :: "int \<Rightarrow> int \<Rightarrow> int" where
  "trunc_rem a b = a - b * trunc_quot a b"

lemma trunc_rem_eq: "trunc_rem a b = sgn a * (\<bar>a\<bar> mod \<bar>b\<bar>)"
proof -
  have "b * (sgn a * sgn b * (\<bar>a\<bar> div \<bar>b\<bar>)) = sgn a * (\<bar>b\<bar> * (\<bar>a\<bar> div \<bar>b\<bar>))"
    by (simp add: sgn_if abs_if)
  moreover have "a = sgn a * \<bar>a\<bar>" by (simp add: sgn_if abs_if)
  moreover have "\<bar>a\<bar> mod \<bar>b\<bar> = \<bar>a\<bar> - \<bar>b\<bar> * (\<bar>a\<bar> div \<bar>b\<bar>)" by (simp add: minus_mult_div_eq_mod)
  ultimately show ?thesis by (simp add: trunc_rem_def trunc_quot_def right_diff_distrib)
qed

lemma trunc_quot_rem: "b * trunc_quot a b + trunc_rem a b = a"
  by (simp add: trunc_rem_def)

lemma abs_trunc_rem_less: "b \<noteq> 0 \<Longrightarrow> \<bar>trunc_rem a b\<bar> < \<bar>b\<bar>"
  by (simp add: trunc_rem_eq abs_mult sgn_if)

definition sdiv32 :: "u32 \<Rightarrow> u32 \<Rightarrow> u32" where
  "sdiv32 a b = word_of_int (trunc_quot (sint a) (sint b))"

definition smod32 :: "u32 \<Rightarrow> u32 \<Rightarrow> u32" where
  "smod32 a b = word_of_int (trunc_rem (sint a) (sint b))"

definition sdiv64 :: "u64 \<Rightarrow> u64 \<Rightarrow> u64" where
  "sdiv64 a b = word_of_int (trunc_quot (sint a) (sint b))"

definition smod64 :: "u64 \<Rightarrow> u64 \<Rightarrow> u64" where
  "smod64 a b = word_of_int (trunc_rem (sint a) (sint b))"

text \<open>The casts \<open>(sint8)\<close>, \<open>(sint16)\<close> and \<open>(sint32)\<close> followed by the integral promotion.\<close>

definition MAKE_INT_8 :: "u32 \<Rightarrow> u32" where
  "MAKE_INT_8 A = scast (ucast A :: u8)"

definition MAKE_INT_16 :: "u32 \<Rightarrow> u32" where
  "MAKE_INT_16 A = scast (ucast A :: u16)"

definition MAKE_INT_32 :: "u32 \<Rightarrow> u32" where
  "MAKE_INT_32 A = A"

definition sext_32_64 :: "u64 \<Rightarrow> u64" where
  "sext_32_64 A = scast (ucast A :: u32)"

end
