(* ===== verification/FloatTypes.thy ===== *)
theory FloatTypes
  imports Prelude
begin

section \<open>Floating point values\<close>

text \<open>
  \<open>softfloat.h\<close>: the extended format and the global variables of the library, which are part of the
  state of the processor.
\<close>

record floatx80 =
  fx_high :: u16
  fx_low :: u64

record float_status =
  float_rounding_mode :: u8
  float_exception_flags :: u8

end
