(* ===== verification/CpuState.thy ===== *)
theory CpuState
  imports FloatTypes
begin

section \<open>State of the 68k engine\<close>

text \<open>
  The state of \<open>src/cpu/m68k/engine\<close>: the structure \<open>m68ki_cpu_core\<close> (m68kcpu.h), the engine's
  file-level variables, and the host side of \<open>M68kCpuCore.cpp\<close> (the active bus and the function
  code last announced to it).  The record \<open>'b m68k_bus\<close> holds the virtual methods of
  \<open>M68kBus\<close> (M68kBus.h); \<open>'b\<close> is the state of the object behind the interface.  Every engine
  operation is a function of the state; \<open>result\<close> says whether it returned or left through one
  of the engine's \<open>longjmp\<close>s.
\<close>

subsection \<open>The bus interface\<close>

text \<open>
  \<open>ReadResult\<close> is a value and a bus-error flag.  The write methods return whether the access
  succeeded.
\<close>

type_synonym 'v read_result = "'v \<times> bool"

record 'b m68k_bus =
  readPhysical8 :: "u32 \<Rightarrow> 'b \<Rightarrow> u8 read_result \<times> 'b"
  readPhysical16 :: "u32 \<Rightarrow> 'b \<Rightarrow> u16 read_result \<times> 'b"
  readPhysical32 :: "u32 \<Rightarrow> 'b \<Rightarrow> u32 read_result \<times> 'b"
  readProgram8 :: "u32 \<Rightarrow> 'b \<Rightarrow> u8 read_result \<times> 'b"
  readProgram16 :: "u32 \<Rightarrow> 'b \<Rightarrow> u16 read_result \<times> 'b"
  readProgram32 :: "u32 \<Rightarrow> 'b \<Rightarrow> u32 read_result \<times> 'b"
  writePhysical8 :: "u32 \<Rightarrow> u8 \<Rightarrow> 'b \<Rightarrow> bool \<times> 'b"
  writePhysical16 :: "u32 \<Rightarrow> u16 \<Rightarrow> 'b \<Rightarrow> bool \<times> 'b"
  writePhysical32 :: "u32 \<Rightarrow> u32 \<Rightarrow> 'b \<Rightarrow> bool \<times> 'b"

subsection \<open>Address translation cache entry\<close>

record m68ki_mmu_atc_entry =
  logical_page :: u32
  physical_page :: u32
  page_shift :: u8
  function_code :: u8
  write_protect :: u8
  modified :: u8
  fault :: u8
  valid :: u8

subsection \<open>The CPU core\<close>

text \<open>
  The fields keep the names of the C structure.  The register arrays are functions of the index;
  the engine indexes them with masked values only (\<open>REG_D\<close>, \<open>REG_A\<close>, \<open>REG_DA\<close> below).  The
  cycle tables \<open>cyc_instruction\<close> and \<open>cyc_exception\<close> are the functions the C pointers stand for.
  The callbacks that m68kconf.h switches off are not part of the record.
\<close>

record m68ki_cpu_core =
  cpu_type :: u32
  dar :: "nat \<Rightarrow> u32"
  dar_save :: "nat \<Rightarrow> u32"
  ppc :: u32
  pc :: u32
  sp :: "nat \<Rightarrow> u32"
  vbr :: u32
  sfc :: u32
  dfc :: u32
  cacr :: u32
  caar :: u32
  ir :: u32
  fpr :: "nat \<Rightarrow> floatx80"
  fpiar :: u32
  fpsr :: u32
  fpcr :: u32
  t1_flag :: u32
  t0_flag :: u32
  s_flag :: u32
  m_flag :: u32
  x_flag :: u32
  n_flag :: u32
  not_z_flag :: u32
  v_flag :: u32
  c_flag :: u32
  int_mask :: u32
  int_level :: u32
  stopped :: u32
  pref_addr :: u32
  pref_data :: u32
  address_mask :: u32
  sr_mask :: u32
  instr_mode :: u32
  run_mode :: u32
  has_pmmu :: u32
  pmmu_enabled :: u32
  mmu_kind :: u32
  fpu_just_reset :: u32
  fpu_model :: u32
  reset_cycles :: u32
  cyc_bcc_notake_b :: u32
  cyc_bcc_notake_w :: u32
  cyc_dbcc_f_noexp :: u32
  cyc_dbcc_f_exp :: u32
  cyc_scc_r_true :: u32
  cyc_movem_w :: u32
  cyc_movem_l :: u32
  cyc_shift :: u32
  cyc_reset :: u32
  virq_state :: u32
  nmi_pending :: u32
  mmu_crp_aptr :: u32
  mmu_crp_limit :: u32
  mmu_srp_aptr :: u32
  mmu_srp_limit :: u32
  mmu_tt0 :: u32
  mmu_tt1 :: u32
  mmu_itt0 :: u32
  mmu_itt1 :: u32
  mmu_dtt0 :: u32
  mmu_dtt1 :: u32
  mmu_urp_aptr :: u32
  mmu_tc :: u32
  mmu_sr :: u16
  mmu_sr_040 :: u32
  mmu_tmp_sr :: u16
  mmu_last_logical_addr :: u32
  mmu_fault_address :: u32
  mmu_fault_fc :: u8
  mmu_fault_rw :: u8
  mmu_fault_size :: u8
  mmu_fault_is_mmu :: u8
  mmu_tablewalk :: u8
  mmu_atc :: "nat \<Rightarrow> m68ki_mmu_atc_entry"
  mmu_atc_hits :: u32
  mmu_atc_misses :: u32
  cyc_instruction :: "u32 \<Rightarrow> u8"
  cyc_exception :: "u32 \<Rightarrow> u8"

text \<open>
  File-level variables of m68kcpu.c (\<open>m68ki_remaining_cycles\<close>, \dots), the counter
  \<open>replacement\<close> of \<open>pmmu_atc_add\<close>, the globals of SoftFloat, and the host variables of
  M68kCpuCore.cpp.
\<close>

record 'b machine = m68ki_cpu_core +
  initial_cycles :: u32
  remaining_cycles :: u32
  address_space :: u32
  aerr_address :: u32
  aerr_write_mode :: u32
  aerr_fc :: u32
  atc_replacement :: u32
  softfloat :: float_status
  activeFunctionCode :: u32
  instructionHookBudget :: u32
  activeBus :: "'b m68k_bus option"
  bus_state :: 'b

subsection \<open>Returning and jumping\<close>

text \<open>
  An engine function returns a value in a new state, or leaves through
  \<open>longjmp(m68ki_aerr_trap)\<close> or \<open>longjmp(m68ki_bus_error_jmp_buf)\<close>, or stops at a failed
  \<open>assert\<close>, or does not return at all (\<open>Diverged\<close>, only from the frame loop of RTE).  \<open>chain\<close> is the sequencing of C statements: it passes the value and the state on
  and skips the rest after a jump.
\<close>

datatype jump = AddressErrorTrap | BusErrorTrap | AssertionFailed | Diverged

datatype ('b, 'a) result = Ret 'a "'b machine" | Jump jump "'b machine"

type_synonym 'b op = "'b machine \<Rightarrow> ('b, unit) result"

fun chain :: "('b, 'a) result \<Rightarrow> ('a \<Rightarrow> 'b machine \<Rightarrow> ('b, 'c) result) \<Rightarrow> ('b, 'c) result" where
  "chain (Ret a s) f = f a s"
| "chain (Jump j s) f = Jump j s"

fun result_state :: "('b, 'a) result \<Rightarrow> 'b machine" where
  "result_state (Ret a s) = s"
| "result_state (Jump j s) = s"

lemma chain_assoc: "chain (chain r f) g = chain r (\<lambda>a s. chain (f a s) g)"
  by (cases r) auto

lemma chain_Ret [simp]: "chain r Ret = r"
  by (cases r) auto

lemma chain_eq_Ret:
  "chain r f = Ret b t \<longleftrightarrow> (\<exists>a s. r = Ret a s \<and> f a s = Ret b t)"
  by (cases r) auto

lemma chain_cong [fundef_cong]:
  "r = r' \<Longrightarrow> (\<And>a s. r' = Ret a s \<Longrightarrow> f a s = g a s) \<Longrightarrow> chain r f = chain r' g"
  by (cases r') auto

lemma chain_if: "chain (if b then r else q) f = (if b then chain r f else chain q f)"
  by simp

subsection \<open>Reasoning about results\<close>

text \<open>
  \<open>holds P Q r\<close>: if \<open>r\<close> returned then its value and state satisfy \<open>P\<close>, if it jumped then the jump
  and the state satisfy \<open>Q\<close>.  The rules follow the shape of the definitions.
\<close>

fun holds ::
    "('a \<Rightarrow> 'b machine \<Rightarrow> bool) \<Rightarrow> (jump \<Rightarrow> 'b machine \<Rightarrow> bool) \<Rightarrow> ('b, 'a) result \<Rightarrow> bool" where
  "holds P Q (Ret a s) = P a s"
| "holds P Q (Jump j s) = Q j s"

named_theorems holds_rules \<open>rules for \<open>holds\<close> on the constructs of the definitions\<close>

lemma holds_chain:
  assumes "holds R Q r" and "\<And>a s. R a s \<Longrightarrow> holds P Q (f a s)"
  shows "holds P Q (chain r f)"
  using assms by (cases r) auto

lemma holds_if [holds_rules]:
  "(b \<Longrightarrow> holds P Q r) \<Longrightarrow> (\<not> b \<Longrightarrow> holds P Q r') \<Longrightarrow> holds P Q (if b then r else r')"
  by simp

lemma holds_let [holds_rules]: "(\<And>x. x = a \<Longrightarrow> holds P Q (f x)) \<Longrightarrow> holds P Q (let x = a in f x)"
  by simp

lemma holds_case_option [holds_rules]:
  "(x = None \<Longrightarrow> holds P Q r) \<Longrightarrow> (\<And>a. x = Some a \<Longrightarrow> holds P Q (f a)) \<Longrightarrow>
   holds P Q (case x of None \<Rightarrow> r | Some a \<Rightarrow> f a)"
  by (cases x) auto

lemma holds_case_prod [holds_rules]:
  "(\<And>a b. x = (a, b) \<Longrightarrow> holds P Q (f a b)) \<Longrightarrow> holds P Q (case x of (a, b) \<Rightarrow> f a b)"
  by (cases x) auto

lemma holds_case_prod_apply [holds_rules]:
  "(\<And>a b. x = (a, b) \<Longrightarrow> holds P Q (f a b s)) \<Longrightarrow> holds P Q ((case x of (a, b) \<Rightarrow> f a b) s)"
  by (cases x) auto

lemma holds_Ret [holds_rules]: "P a s \<Longrightarrow> holds P Q (Ret a s)"
  by simp

lemma holds_mono:
  assumes "holds P Q r" and "\<And>a s. P a s \<Longrightarrow> P' a s" and "\<And>j s. Q j s \<Longrightarrow> Q' j s"
  shows "holds P' Q' r"
  using assms by (cases r) auto

lemma holds_True [simp]: "holds (\<lambda>_ _. True) (\<lambda>_ _. True) r"
  by (cases r) auto

lemma holds_iff:
  "holds P Q r \<longleftrightarrow> (\<forall>a s. r = Ret a s \<longrightarrow> P a s) \<and> (\<forall>j s. r = Jump j s \<longrightarrow> Q j s)"
  by (cases r) auto

end
