(* ===== verification/CpuAccess.thy ===== *)
theory CpuAccess
  imports CpuState
begin

section \<open>Constants, processor types and register access\<close>

text \<open>
  The macros of m68kcpu.h that the rest of the engine is written in: vectors, function codes,
  processor types and the predicates on them (\<open>CPU_TYPE_IS_010_LESS\<close>, \<dots>), and register access
  (\<open>DX\<close>, \<open>AY\<close>, \<open>REG_D\<close>, \<dots>) with the laws of reading a register after writing one.
\<close>

unbundle bit_operations_syntax

subsection \<open>Constants\<close>

definition EXCEPTION_BUS_ERROR :: u32 where "EXCEPTION_BUS_ERROR = 2"
definition EXCEPTION_ADDRESS_ERROR :: u32 where "EXCEPTION_ADDRESS_ERROR = 3"
definition EXCEPTION_ILLEGAL_INSTRUCTION :: u32 where "EXCEPTION_ILLEGAL_INSTRUCTION = 4"
definition EXCEPTION_ZERO_DIVIDE :: u32 where "EXCEPTION_ZERO_DIVIDE = 5"
definition EXCEPTION_CHK :: u32 where "EXCEPTION_CHK = 6"
definition EXCEPTION_TRAPV :: u32 where "EXCEPTION_TRAPV = 7"
definition EXCEPTION_PRIVILEGE_VIOLATION :: u32 where "EXCEPTION_PRIVILEGE_VIOLATION = 8"
definition EXCEPTION_1010 :: u32 where "EXCEPTION_1010 = 10"
definition EXCEPTION_1111 :: u32 where "EXCEPTION_1111 = 11"
definition EXCEPTION_FORMAT_ERROR :: u32 where "EXCEPTION_FORMAT_ERROR = 14"
definition EXCEPTION_UNINITIALIZED_INTERRUPT :: u32 where "EXCEPTION_UNINITIALIZED_INTERRUPT = 15"
definition EXCEPTION_SPURIOUS_INTERRUPT :: u32 where "EXCEPTION_SPURIOUS_INTERRUPT = 24"
definition EXCEPTION_INTERRUPT_AUTOVECTOR :: u32 where "EXCEPTION_INTERRUPT_AUTOVECTOR = 24"
definition EXCEPTION_TRAP_BASE :: u32 where "EXCEPTION_TRAP_BASE = 32"

definition FUNCTION_CODE_USER_DATA :: u32 where "FUNCTION_CODE_USER_DATA = 1"
definition FUNCTION_CODE_USER_PROGRAM :: u32 where "FUNCTION_CODE_USER_PROGRAM = 2"
definition FUNCTION_CODE_SUPERVISOR_PROGRAM :: u32 where "FUNCTION_CODE_SUPERVISOR_PROGRAM = 6"

definition CPU_TYPE_000 :: u32 where "CPU_TYPE_000 = 0x001"
definition CPU_TYPE_008 :: u32 where "CPU_TYPE_008 = 0x002"
definition CPU_TYPE_010 :: u32 where "CPU_TYPE_010 = 0x004"
definition CPU_TYPE_EC020 :: u32 where "CPU_TYPE_EC020 = 0x008"
definition CPU_TYPE_020 :: u32 where "CPU_TYPE_020 = 0x010"
definition CPU_TYPE_EC030 :: u32 where "CPU_TYPE_EC030 = 0x020"
definition CPU_TYPE_030 :: u32 where "CPU_TYPE_030 = 0x040"
definition CPU_TYPE_EC040 :: u32 where "CPU_TYPE_EC040 = 0x080"
definition CPU_TYPE_LC040 :: u32 where "CPU_TYPE_LC040 = 0x100"
definition CPU_TYPE_040 :: u32 where "CPU_TYPE_040 = 0x200"
definition CPU_TYPE_SCC070 :: u32 where "CPU_TYPE_SCC070 = 0x400"

definition STOP_LEVEL_STOP :: u32 where "STOP_LEVEL_STOP = 1"
definition STOP_LEVEL_HALT :: u32 where "STOP_LEVEL_HALT = 2"

definition INSTRUCTION_YES :: u32 where "INSTRUCTION_YES = 0"
definition INSTRUCTION_NO :: u32 where "INSTRUCTION_NO = 8"
definition MODE_READ :: u32 where "MODE_READ = 0x10"
definition MODE_WRITE :: u32 where "MODE_WRITE = 0"

definition RUN_MODE_NORMAL :: u32 where "RUN_MODE_NORMAL = 0"
definition RUN_MODE_BERR_AERR_RESET_WSF :: u32 where "RUN_MODE_BERR_AERR_RESET_WSF = 1"
definition RUN_MODE_BERR_AERR_RESET :: u32 where "RUN_MODE_BERR_AERR_RESET = 2"

definition M68K_MMU_KIND_NONE :: u32 where "M68K_MMU_KIND_NONE = 0"
definition M68K_MMU_KIND_68851 :: u32 where "M68K_MMU_KIND_68851 = 1"
definition M68K_MMU_KIND_68030 :: u32 where "M68K_MMU_KIND_68030 = 2"
definition M68K_MMU_KIND_68040 :: u32 where "M68K_MMU_KIND_68040 = 3"

definition M68K_INT_ACK_AUTOVECTOR :: u32 where "M68K_INT_ACK_AUTOVECTOR = 0xffffffff"
definition M68K_INT_ACK_SPURIOUS :: u32 where "M68K_INT_ACK_SPURIOUS = 0xfffffffe"

lemmas exception_numbers =
  EXCEPTION_BUS_ERROR_def EXCEPTION_ADDRESS_ERROR_def EXCEPTION_ILLEGAL_INSTRUCTION_def
  EXCEPTION_ZERO_DIVIDE_def EXCEPTION_CHK_def EXCEPTION_TRAPV_def EXCEPTION_PRIVILEGE_VIOLATION_def
  EXCEPTION_1010_def EXCEPTION_1111_def EXCEPTION_FORMAT_ERROR_def
  EXCEPTION_UNINITIALIZED_INTERRUPT_def EXCEPTION_SPURIOUS_INTERRUPT_def
  EXCEPTION_INTERRUPT_AUTOVECTOR_def EXCEPTION_TRAP_BASE_def

lemmas cpu_types =
  CPU_TYPE_000_def CPU_TYPE_008_def CPU_TYPE_010_def CPU_TYPE_EC020_def CPU_TYPE_020_def
  CPU_TYPE_EC030_def CPU_TYPE_030_def CPU_TYPE_EC040_def CPU_TYPE_LC040_def CPU_TYPE_040_def
  CPU_TYPE_SCC070_def

lemmas run_modes =
  RUN_MODE_NORMAL_def RUN_MODE_BERR_AERR_RESET_WSF_def RUN_MODE_BERR_AERR_RESET_def

subsection \<open>Predicates on the CPU type\<close>

definition CPU_TYPE_IS_040_PLUS :: "u32 \<Rightarrow> bool" where
  "CPU_TYPE_IS_040_PLUS A \<longleftrightarrow> A AND (CPU_TYPE_040 OR CPU_TYPE_EC040) \<noteq> 0"

definition CPU_TYPE_IS_030_PLUS :: "u32 \<Rightarrow> bool" where
  "CPU_TYPE_IS_030_PLUS A \<longleftrightarrow>
     A AND (CPU_TYPE_030 OR CPU_TYPE_EC030 OR CPU_TYPE_040 OR CPU_TYPE_EC040) \<noteq> 0"

definition CPU_TYPE_IS_EC020_PLUS :: "u32 \<Rightarrow> bool" where
  "CPU_TYPE_IS_EC020_PLUS A \<longleftrightarrow>
     A AND (CPU_TYPE_EC020 OR CPU_TYPE_020 OR CPU_TYPE_030 OR CPU_TYPE_EC030 OR CPU_TYPE_040
       OR CPU_TYPE_EC040) \<noteq> 0"

definition CPU_TYPE_IS_010 :: "u32 \<Rightarrow> bool" where
  "CPU_TYPE_IS_010 A \<longleftrightarrow> A = CPU_TYPE_010"

definition CPU_TYPE_IS_010_PLUS :: "u32 \<Rightarrow> bool" where
  "CPU_TYPE_IS_010_PLUS A \<longleftrightarrow>
     A AND (CPU_TYPE_010 OR CPU_TYPE_EC020 OR CPU_TYPE_020 OR CPU_TYPE_EC030 OR CPU_TYPE_030
       OR CPU_TYPE_040 OR CPU_TYPE_EC040) \<noteq> 0"

definition CPU_TYPE_IS_010_LESS :: "u32 \<Rightarrow> bool" where
  "CPU_TYPE_IS_010_LESS A \<longleftrightarrow> A AND (CPU_TYPE_000 OR CPU_TYPE_008 OR CPU_TYPE_010) \<noteq> 0"

definition CPU_TYPE_IS_020_VARIANT :: "u32 \<Rightarrow> bool" where
  "CPU_TYPE_IS_020_VARIANT A \<longleftrightarrow> A AND (CPU_TYPE_EC020 OR CPU_TYPE_020) \<noteq> 0"

definition CPU_TYPE_IS_000 :: "u32 \<Rightarrow> bool" where
  "CPU_TYPE_IS_000 A \<longleftrightarrow> A = CPU_TYPE_000"

lemmas cpu_type_tests =
  CPU_TYPE_IS_040_PLUS_def CPU_TYPE_IS_030_PLUS_def CPU_TYPE_IS_EC020_PLUS_def CPU_TYPE_IS_010_def
  CPU_TYPE_IS_010_PLUS_def CPU_TYPE_IS_010_LESS_def CPU_TYPE_IS_020_VARIANT_def CPU_TYPE_IS_000_def

subsection \<open>Registers\<close>

text \<open>
  \<open>REG_DA\<close> is the array of the sixteen data and address registers; \<open>REG_A\<close> starts at its ninth
  element.  \<open>DX\<close>/\<open>AX\<close> select with bits 9 to 11 of the instruction register, \<open>DY\<close>/\<open>AY\<close> with bits
  0 to 2.
\<close>

definition REG_DA :: "'b machine \<Rightarrow> u32 \<Rightarrow> u32" where
  "REG_DA s i = dar s (unat i)"

definition REG_D :: "'b machine \<Rightarrow> u32 \<Rightarrow> u32" where
  "REG_D s i = dar s (unat i)"

definition REG_A :: "'b machine \<Rightarrow> u32 \<Rightarrow> u32" where
  "REG_A s i = dar s (8 + unat i)"

definition set_REG_DA :: "u32 \<Rightarrow> u32 \<Rightarrow> 'b machine \<Rightarrow> 'b machine" where
  "set_REG_DA i v s = s\<lparr>dar := (dar s)(unat i := v)\<rparr>"

definition set_REG_D :: "u32 \<Rightarrow> u32 \<Rightarrow> 'b machine \<Rightarrow> 'b machine" where
  "set_REG_D i v s = s\<lparr>dar := (dar s)(unat i := v)\<rparr>"

definition set_REG_A :: "u32 \<Rightarrow> u32 \<Rightarrow> 'b machine \<Rightarrow> 'b machine" where
  "set_REG_A i v s = s\<lparr>dar := (dar s)(8 + unat i := v)\<rparr>"

definition regX :: "'b machine \<Rightarrow> u32" where
  "regX s = drop_bit 9 (ir s) AND 7"

definition regY :: "'b machine \<Rightarrow> u32" where
  "regY s = ir s AND 7"

definition DX :: "'b machine \<Rightarrow> u32" where "DX s = REG_D s (regX s)"
definition DY :: "'b machine \<Rightarrow> u32" where "DY s = REG_D s (regY s)"
definition AX :: "'b machine \<Rightarrow> u32" where "AX s = REG_A s (regX s)"
definition AY :: "'b machine \<Rightarrow> u32" where "AY s = REG_A s (regY s)"

definition set_DX :: "u32 \<Rightarrow> 'b machine \<Rightarrow> 'b machine" where "set_DX v s = set_REG_D (regX s) v s"
definition set_DY :: "u32 \<Rightarrow> 'b machine \<Rightarrow> 'b machine" where "set_DY v s = set_REG_D (regY s) v s"
definition set_AX :: "u32 \<Rightarrow> 'b machine \<Rightarrow> 'b machine" where "set_AX v s = set_REG_A (regX s) v s"
definition set_AY :: "u32 \<Rightarrow> 'b machine \<Rightarrow> 'b machine" where "set_AY v s = set_REG_A (regY s) v s"

definition REG_SP :: "'b machine \<Rightarrow> u32" where
  "REG_SP s = dar s 15"

definition set_REG_SP :: "u32 \<Rightarrow> 'b machine \<Rightarrow> 'b machine" where
  "set_REG_SP v s = s\<lparr>dar := (dar s)(15 := v)\<rparr>"

lemmas register_defs =
  REG_DA_def REG_D_def REG_A_def set_REG_DA_def set_REG_D_def set_REG_A_def
  DX_def DY_def AX_def AY_def set_DX_def set_DY_def set_AX_def set_AY_def
  REG_SP_def set_REG_SP_def

subsection \<open>Bit and mask macros\<close>

definition MASK_OUT_ABOVE_8 :: "u32 \<Rightarrow> u32" where "MASK_OUT_ABOVE_8 A = A AND 0xff"
definition MASK_OUT_ABOVE_16 :: "u32 \<Rightarrow> u32" where "MASK_OUT_ABOVE_16 A = A AND 0xffff"
definition MASK_OUT_ABOVE_32 :: "u32 \<Rightarrow> u32" where "MASK_OUT_ABOVE_32 A = A AND 0xffffffff"
definition MASK_OUT_BELOW_8 :: "u32 \<Rightarrow> u32" where "MASK_OUT_BELOW_8 A = A AND NOT 0xff"
definition MASK_OUT_BELOW_16 :: "u32 \<Rightarrow> u32" where "MASK_OUT_BELOW_16 A = A AND NOT 0xffff"
definition LOW_NIBBLE :: "u32 \<Rightarrow> u32" where "LOW_NIBBLE A = A AND 0x0f"
definition HIGH_NIBBLE :: "u32 \<Rightarrow> u32" where "HIGH_NIBBLE A = A AND 0xf0"

text \<open>On 32-bit values \<open>MASK_OUT_ABOVE_32\<close> keeps everything.\<close>

lemma MASK_OUT_ABOVE_32_id [simp]: "MASK_OUT_ABOVE_32 A = A"
  by (simp add: MASK_OUT_ABOVE_32_def mask_32 take_bit_eq_self_u32 flip: take_bit_eq_mask)

text \<open>\<open>BIT_n\<close> isolates bit \<open>n\<close>; \<open>GET_MSB_n\<close> is the top bit of an \<open>n\<close>-bit value.\<close>

definition BIT :: "nat \<Rightarrow> u32 \<Rightarrow> u32" where
  "BIT n A = A AND push_bit n 1"

lemma bit_BIT_iff [bit_simps]: "bit (BIT k A) n \<longleftrightarrow> n = k \<and> bit A n"
  by (auto simp: BIT_def bit_simps dest: bit_imp_le_length)

lemma BIT_eq_0_iff [simp]: "n < 32 \<Longrightarrow> BIT n A = 0 \<longleftrightarrow> \<not> bit A n"
  by (auto simp: BIT_def and_exp_eq_0_iff_not_bit push_bit_of_1)

end
