(* ===== verification/Flags.thy ===== *)
theory Flags
  imports CpuAccess
begin

section \<open>Condition codes and the status register\<close>

text \<open>
  The engine keeps each condition code in a word of its own and reads one bit of it: carry and
  extend at bit 8 (\<open>0x100\<close>), overflow and negative at bit 7 (\<open>0x80\<close>), and zero inverted, as
  ``the word is not zero''.  The flag macros leave garbage in the other bits.  \<open>ccr_of\<close> is the
  abstract condition code register these words stand for.
\<close>

unbundle bit_operations_syntax

subsection \<open>Flag calculation macros\<close>

definition CFLAG_8 :: "u32 \<Rightarrow> u32" where "CFLAG_8 A = A"
definition CFLAG_16 :: "u32 \<Rightarrow> u32" where "CFLAG_16 A = drop_bit 8 A"

definition CFLAG_ADD_32 :: "u32 \<Rightarrow> u32 \<Rightarrow> u32 \<Rightarrow> u32" where
  "CFLAG_ADD_32 S D R = drop_bit 23 ((S AND D) OR (NOT R AND (S OR D)))"

definition CFLAG_SUB_32 :: "u32 \<Rightarrow> u32 \<Rightarrow> u32 \<Rightarrow> u32" where
  "CFLAG_SUB_32 S D R = drop_bit 23 ((S AND R) OR (NOT D AND (S OR R)))"

definition VFLAG_ADD_8 :: "u32 \<Rightarrow> u32 \<Rightarrow> u32 \<Rightarrow> u32" where
  "VFLAG_ADD_8 S D R = (S XOR R) AND (D XOR R)"

definition VFLAG_ADD_16 :: "u32 \<Rightarrow> u32 \<Rightarrow> u32 \<Rightarrow> u32" where
  "VFLAG_ADD_16 S D R = drop_bit 8 ((S XOR R) AND (D XOR R))"

definition VFLAG_ADD_32 :: "u32 \<Rightarrow> u32 \<Rightarrow> u32 \<Rightarrow> u32" where
  "VFLAG_ADD_32 S D R = drop_bit 24 ((S XOR R) AND (D XOR R))"

definition VFLAG_SUB_8 :: "u32 \<Rightarrow> u32 \<Rightarrow> u32 \<Rightarrow> u32" where
  "VFLAG_SUB_8 S D R = (S XOR D) AND (R XOR D)"

definition VFLAG_SUB_16 :: "u32 \<Rightarrow> u32 \<Rightarrow> u32 \<Rightarrow> u32" where
  "VFLAG_SUB_16 S D R = drop_bit 8 ((S XOR D) AND (R XOR D))"

definition VFLAG_SUB_32 :: "u32 \<Rightarrow> u32 \<Rightarrow> u32 \<Rightarrow> u32" where
  "VFLAG_SUB_32 S D R = drop_bit 24 ((S XOR D) AND (R XOR D))"

definition NFLAG_8 :: "u32 \<Rightarrow> u32" where "NFLAG_8 A = A"
definition NFLAG_16 :: "u32 \<Rightarrow> u32" where "NFLAG_16 A = drop_bit 8 A"
definition NFLAG_32 :: "u32 \<Rightarrow> u32" where "NFLAG_32 A = drop_bit 24 A"
definition NFLAG_64 :: "u64 \<Rightarrow> u64" where "NFLAG_64 A = drop_bit 56 A"

definition ZFLAG_8 :: "u32 \<Rightarrow> u32" where "ZFLAG_8 A = MASK_OUT_ABOVE_8 A"
definition ZFLAG_16 :: "u32 \<Rightarrow> u32" where "ZFLAG_16 A = MASK_OUT_ABOVE_16 A"
definition ZFLAG_32 :: "u32 \<Rightarrow> u32" where "ZFLAG_32 A = MASK_OUT_ABOVE_32 A"

definition NFLAG_SET :: u32 where "NFLAG_SET = 0x80"
definition NFLAG_CLEAR :: u32 where "NFLAG_CLEAR = 0"
definition CFLAG_SET :: u32 where "CFLAG_SET = 0x100"
definition CFLAG_CLEAR :: u32 where "CFLAG_CLEAR = 0"
definition XFLAG_SET :: u32 where "XFLAG_SET = 0x100"
definition XFLAG_CLEAR :: u32 where "XFLAG_CLEAR = 0"
definition VFLAG_SET :: u32 where "VFLAG_SET = 0x80"
definition VFLAG_CLEAR :: u32 where "VFLAG_CLEAR = 0"
definition ZFLAG_SET :: u32 where "ZFLAG_SET = 0"
definition ZFLAG_CLEAR :: u32 where "ZFLAG_CLEAR = 0xffffffff"
definition SFLAG_SET :: u32 where "SFLAG_SET = 4"
definition MFLAG_SET :: u32 where "MFLAG_SET = 2"

lemmas flag_values =
  NFLAG_SET_def NFLAG_CLEAR_def CFLAG_SET_def CFLAG_CLEAR_def XFLAG_SET_def XFLAG_CLEAR_def
  VFLAG_SET_def VFLAG_CLEAR_def ZFLAG_SET_def ZFLAG_CLEAR_def SFLAG_SET_def MFLAG_SET_def

definition XFLAG_AS_1 :: "'b machine \<Rightarrow> u32" where
  "XFLAG_AS_1 s = drop_bit 8 (x_flag s) AND 1"

subsection \<open>Conditions\<close>

definition COND_CS :: "'b machine \<Rightarrow> bool" where "COND_CS s \<longleftrightarrow> c_flag s AND 0x100 \<noteq> 0"
definition COND_CC :: "'b machine \<Rightarrow> bool" where "COND_CC s \<longleftrightarrow> \<not> COND_CS s"
definition COND_VS :: "'b machine \<Rightarrow> bool" where "COND_VS s \<longleftrightarrow> v_flag s AND 0x80 \<noteq> 0"
definition COND_VC :: "'b machine \<Rightarrow> bool" where "COND_VC s \<longleftrightarrow> \<not> COND_VS s"
definition COND_NE :: "'b machine \<Rightarrow> bool" where "COND_NE s \<longleftrightarrow> not_z_flag s \<noteq> 0"
definition COND_EQ :: "'b machine \<Rightarrow> bool" where "COND_EQ s \<longleftrightarrow> \<not> COND_NE s"
definition COND_MI :: "'b machine \<Rightarrow> bool" where "COND_MI s \<longleftrightarrow> n_flag s AND 0x80 \<noteq> 0"
definition COND_PL :: "'b machine \<Rightarrow> bool" where "COND_PL s \<longleftrightarrow> \<not> COND_MI s"

definition COND_LT :: "'b machine \<Rightarrow> bool" where
  "COND_LT s \<longleftrightarrow> (n_flag s XOR v_flag s) AND 0x80 \<noteq> 0"

definition COND_GE :: "'b machine \<Rightarrow> bool" where "COND_GE s \<longleftrightarrow> \<not> COND_LT s"
definition COND_HI :: "'b machine \<Rightarrow> bool" where "COND_HI s \<longleftrightarrow> COND_CC s \<and> COND_NE s"
definition COND_LS :: "'b machine \<Rightarrow> bool" where "COND_LS s \<longleftrightarrow> COND_CS s \<or> COND_EQ s"
definition COND_GT :: "'b machine \<Rightarrow> bool" where "COND_GT s \<longleftrightarrow> COND_GE s \<and> COND_NE s"
definition COND_LE :: "'b machine \<Rightarrow> bool" where "COND_LE s \<longleftrightarrow> COND_LT s \<or> COND_EQ s"

lemmas cond_defs =
  COND_CC_def COND_VC_def COND_EQ_def COND_PL_def COND_GE_def COND_HI_def COND_LS_def COND_GT_def
  COND_LE_def

subsection \<open>The abstract condition code register\<close>

record ccr =
  ccX :: bool
  ccN :: bool
  ccZ :: bool
  ccV :: bool
  ccC :: bool

definition ccr_of :: "'b machine \<Rightarrow> ccr" where
  "ccr_of s = \<lparr>ccX = bit (x_flag s) 8, ccN = bit (n_flag s) 7, ccZ = not_z_flag s = 0,
     ccV = bit (v_flag s) 7, ccC = bit (c_flag s) 8\<rparr>"

lemma and_0x100_eq_0 [simp]: "(A :: u32) AND 0x100 = 0 \<longleftrightarrow> \<not> bit A 8"
  and and_0x80_eq_0 [simp]: "A AND 0x80 = 0 \<longleftrightarrow> \<not> bit A 7"
  using and_exp_eq_0_iff_not_bit [of A 8] and_exp_eq_0_iff_not_bit [of A 7] by simp_all

lemma cond_ccr:
  "COND_CS s = ccC (ccr_of s)" "COND_VS s = ccV (ccr_of s)" "COND_NE s = (\<not> ccZ (ccr_of s))"
  "COND_MI s = ccN (ccr_of s)" "COND_LT s = (ccN (ccr_of s) \<noteq> ccV (ccr_of s))"
  by (simp_all add: COND_CS_def COND_VS_def COND_NE_def COND_MI_def COND_LT_def ccr_of_def
      bit_xor_iff)

text \<open>The conditions are the formulas of the programmer's reference manual.\<close>

lemma cond_formulas:
  "COND_CC s = (\<not> ccC (ccr_of s))" "COND_VC s = (\<not> ccV (ccr_of s))" "COND_EQ s = ccZ (ccr_of s)"
  "COND_PL s = (\<not> ccN (ccr_of s))" "COND_GE s = (ccN (ccr_of s) = ccV (ccr_of s))"
  "COND_HI s = (\<not> ccC (ccr_of s) \<and> \<not> ccZ (ccr_of s))" "COND_LS s = (ccC (ccr_of s) \<or> ccZ (ccr_of s))"
  "COND_GT s = (ccN (ccr_of s) = ccV (ccr_of s) \<and> \<not> ccZ (ccr_of s))"
  "COND_LE s = (ccN (ccr_of s) \<noteq> ccV (ccr_of s) \<or> ccZ (ccr_of s))"
  by (auto simp: cond_defs cond_ccr)

lemma XFLAG_AS_1_ccr: "XFLAG_AS_1 s = bool_word (ccX (ccr_of s))"
proof -
  have "drop_bit 8 (x_flag s) AND 1 = of_bool (bit (x_flag s) 8)"
    by (simp add: and_one_eq bit_iff_odd_drop_bit mod2_eq_if)
  then show ?thesis by (simp add: XFLAG_AS_1_def ccr_of_def bool_word_def)
qed

subsection \<open>Condition code and status register\<close>

definition m68ki_get_ccr :: "'b machine \<Rightarrow> u32" where
  "m68ki_get_ccr s =
     drop_bit 4 (x_flag s AND 0x100) OR
     drop_bit 4 (n_flag s AND 0x80) OR
     push_bit 2 (bool_word (COND_EQ s)) OR
     drop_bit 6 (v_flag s AND 0x80) OR
     drop_bit 8 (c_flag s AND 0x100)"

definition m68ki_get_sr :: "'b machine \<Rightarrow> u32" where
  "m68ki_get_sr s =
     t1_flag s OR t0_flag s OR push_bit 11 (s_flag s) OR push_bit 11 (m_flag s) OR int_mask s OR
     m68ki_get_ccr s"

text \<open>Index of the stack pointer bank of the current mode: 0 user, 4 interrupt, 6 master.\<close>

definition sp_bank :: "'b machine \<Rightarrow> nat" where
  "sp_bank s = unat (s_flag s OR (drop_bit 1 (s_flag s) AND m_flag s))"

definition m68ki_set_s_flag :: "u32 \<Rightarrow> 'b machine \<Rightarrow> 'b machine" where
  "m68ki_set_s_flag value s =
    (let s = s\<lparr>sp := (sp s)(sp_bank s := REG_SP s)\<rparr>;
         s = s\<lparr>s_flag := value\<rparr>
     in set_REG_SP (sp s (sp_bank s)) s)"

definition m68ki_set_sm_flag :: "u32 \<Rightarrow> 'b machine \<Rightarrow> 'b machine" where
  "m68ki_set_sm_flag value s =
    (let s = s\<lparr>sp := (sp s)(sp_bank s := REG_SP s)\<rparr>;
         s = s\<lparr>s_flag := value AND SFLAG_SET, m_flag := value AND MFLAG_SET\<rparr>
     in set_REG_SP (sp s (sp_bank s)) s)"

definition m68ki_set_sm_flag_nosp :: "u32 \<Rightarrow> 'b machine \<Rightarrow> 'b machine" where
  "m68ki_set_sm_flag_nosp value s =
     s\<lparr>s_flag := value AND SFLAG_SET, m_flag := value AND MFLAG_SET\<rparr>"

definition m68ki_set_ccr :: "u32 \<Rightarrow> 'b machine \<Rightarrow> 'b machine" where
  "m68ki_set_ccr value s =
     s\<lparr>x_flag := push_bit 4 (BIT 4 value),
       n_flag := push_bit 4 (BIT 3 value),
       not_z_flag := bool_word (BIT 2 value = 0),
       v_flag := push_bit 6 (BIT 1 value),
       c_flag := push_bit 8 (BIT 0 value)\<rparr>"

definition m68ki_set_sr_noint :: "u32 \<Rightarrow> 'b machine \<Rightarrow> 'b machine" where
  "m68ki_set_sr_noint value s =
    (let value = value AND sr_mask s;
         s = s\<lparr>t1_flag := BIT 15 value, t0_flag := BIT 14 value, int_mask := value AND 0x0700\<rparr>;
         s = m68ki_set_ccr value s
     in m68ki_set_sm_flag (drop_bit 11 value AND 6) s)"

definition m68ki_set_sr_noint_nosp :: "u32 \<Rightarrow> 'b machine \<Rightarrow> 'b machine" where
  "m68ki_set_sr_noint_nosp value s =
    (let value = value AND sr_mask s;
         s = s\<lparr>t1_flag := BIT 15 value, t0_flag := BIT 14 value, int_mask := value AND 0x0700\<rparr>;
         s = m68ki_set_ccr value s
     in m68ki_set_sm_flag_nosp (drop_bit 11 value AND 6) s)"

subsection \<open>The status register survives a write and a read\<close>

lemma ccr_of_set_ccr:
  "ccr_of (m68ki_set_ccr v s) =
     \<lparr>ccX = bit v 4, ccN = bit v 3, ccZ = bit v 2, ccV = bit v 1, ccC = bit v 0\<rparr>"
  by (simp add: ccr_of_def m68ki_set_ccr_def bit_simps)

lemma m68ki_get_ccr_eq:
  "m68ki_get_ccr s =
     (let c = ccr_of s in
      (if ccX c then 16 else 0) OR (if ccN c then 8 else 0) OR (if ccZ c then 4 else 0) OR
      (if ccV c then 2 else 0) OR (if ccC c then 1 else 0))"
proof -
  have "(x :: u32) AND 0x100 = (if bit x 8 then 0x100 else 0)"
    "x AND 0x80 = (if bit x 7 then 0x80 else 0)" for x
    by (simp_all add: word32_eq bit_simps)
  then show ?thesis
    by (simp add: m68ki_get_ccr_def Let_def ccr_of_def COND_EQ_def COND_NE_def bool_word_def)
qed

lemma m68ki_get_ccr_set_ccr: "m68ki_get_ccr (m68ki_set_ccr v s) = v AND 0x1f"
proof -
  have "v AND 0x1f = (if bit v 4 then 16 else 0) OR (if bit v 3 then 8 else 0) OR
      (if bit v 2 then 4 else 0) OR (if bit v 1 then 2 else 0) OR (if bit v 0 then 1 else 0)"
    by (simp add: word32_eq bit_simps)
  then show ?thesis by (simp add: m68ki_get_ccr_eq Let_def ccr_of_set_ccr)
qed

text \<open>\<open>sr_mask\<close> never holds bits outside \<open>T1 T0 S M I2 I1 I0 X N Z V C\<close>.\<close>

definition sr_mask_ok :: "'b machine \<Rightarrow> bool" where
  "sr_mask_ok s \<longleftrightarrow> sr_mask s AND 0xf71f = sr_mask s"

lemma sr_fields_or:
  "BIT 15 v OR BIT 14 v OR push_bit 11 ((drop_bit 11 v AND 6) AND 4) OR
   push_bit 11 ((drop_bit 11 v AND 6) AND 2) OR (v AND 0x0700) OR (v AND 0x1f) = v AND 0xf71f"
  for v :: u32
  by (simp add: word32_eq bit_simps)

lemma m68ki_get_sr_set_sm_flag:
  "m68ki_get_sr (m68ki_set_sm_flag v s) =
   t1_flag s OR t0_flag s OR push_bit 11 (v AND 4) OR push_bit 11 (v AND 2) OR int_mask s OR
   m68ki_get_ccr s"
  by (simp add: m68ki_get_sr_def m68ki_set_sm_flag_def Let_def set_REG_SP_def flag_values
      m68ki_get_ccr_def COND_EQ_def COND_NE_def)

lemma m68ki_get_sr_set_sm_flag_nosp:
  "m68ki_get_sr (m68ki_set_sm_flag_nosp v s) = m68ki_get_sr (m68ki_set_sm_flag v s)"
  by (simp add: m68ki_get_sr_def m68ki_set_sm_flag_def m68ki_set_sm_flag_nosp_def Let_def
      set_REG_SP_def flag_values m68ki_get_ccr_def COND_EQ_def COND_NE_def)

lemma get_sr_after_set:
  assumes "sr_mask_ok s"
  shows "m68ki_get_sr (m68ki_set_sr_noint v s) = v AND sr_mask s"
    and "m68ki_get_sr (m68ki_set_sr_noint_nosp v s) = v AND sr_mask s"
proof -
  let ?v = "v AND sr_mask s"
  have v: "?v AND 0xf71f = ?v"
    using assms by (metis sr_mask_ok_def and.assoc)
  have ccr: "m68ki_get_ccr (m68ki_set_ccr ?v t) = ?v AND 0x1f" for t :: "'a machine"
    by (rule m68ki_get_ccr_set_ccr)
  have frame: "t1_flag (m68ki_set_ccr ?v t) = t1_flag t" "t0_flag (m68ki_set_ccr ?v t) = t0_flag t"
    "int_mask (m68ki_set_ccr ?v t) = int_mask t" for t :: "'a machine"
    by (simp_all add: m68ki_set_ccr_def)
  show "m68ki_get_sr (m68ki_set_sr_noint v s) = ?v"
    unfolding m68ki_set_sr_noint_def Let_def m68ki_get_sr_set_sm_flag ccr frame
    using sr_fields_or [of ?v] by (simp add: v)
  then show "m68ki_get_sr (m68ki_set_sr_noint_nosp v s) = ?v"
    by (simp add: m68ki_set_sr_noint_nosp_def m68ki_set_sr_noint_def Let_def
        m68ki_get_sr_set_sm_flag_nosp)
qed

subsection \<open>The stack pointer banks\<close>

text \<open>
  \<open>A7\<close> is the stack pointer of the current mode; the other modes' pointers wait in \<open>sp\<close>.
  \<open>usp_of\<close>, \<open>isp_of\<close> and \<open>msp_of\<close> are the three pointers wherever they are kept.
\<close>

definition wf_mode :: "'b machine \<Rightarrow> bool" where
  "wf_mode s \<longleftrightarrow> s_flag s \<in> {0, 4} \<and> m_flag s \<in> {0, 2}"

definition usp_of :: "'b machine \<Rightarrow> u32" where
  "usp_of s = (if s_flag s \<noteq> 0 then sp s 0 else dar s 15)"

definition isp_of :: "'b machine \<Rightarrow> u32" where
  "isp_of s = (if s_flag s \<noteq> 0 \<and> m_flag s = 0 then dar s 15 else sp s 4)"

definition msp_of :: "'b machine \<Rightarrow> u32" where
  "msp_of s = (if s_flag s \<noteq> 0 \<and> m_flag s \<noteq> 0 then dar s 15 else sp s 6)"

lemma sp_bank_cases:
  "wf_mode s \<Longrightarrow> sp_bank s = (if s_flag s = 0 then 0 else if m_flag s = 0 then 4 else 6)"
  by (auto simp: wf_mode_def sp_bank_def)

lemma sm_values:
  fixes v :: u32
  shows "v AND 4 \<in> {0, 4}" "v AND 2 \<in> {0, 2}"
proof -
  have "v AND 4 = (if bit v 2 then 4 else 0)" "v AND 2 = (if bit v 1 then 2 else 0)"
    by (simp_all add: word32_eq bit_simps)
  then show "v AND 4 \<in> {0, 4}" "v AND 2 \<in> {0, 2}" by auto
qed

lemma wf_mode_set_sm_flag: "wf_mode (m68ki_set_sm_flag v s)"
  using sm_values [of v]
  by (simp add: wf_mode_def m68ki_set_sm_flag_def Let_def set_REG_SP_def flag_values)

lemma stack_pointers_switch:
  fixes s :: "'b machine"
  assumes s: "wf_mode s" and f: "f \<in> {0, 4}" "m \<in> {0, 2}"
  defines "t \<equiv> s\<lparr>sp := (sp s)(sp_bank s := REG_SP s)\<rparr>\<lparr>s_flag := f, m_flag := m\<rparr>"
  shows "wf_mode (set_REG_SP (sp t (sp_bank t)) t)"
    and "usp_of (set_REG_SP (sp t (sp_bank t)) t) = usp_of s"
    and "isp_of (set_REG_SP (sp t (sp_bank t)) t) = isp_of s"
    and "msp_of (set_REG_SP (sp t (sp_bank t)) t) = msp_of s"
proof -
  have t: "wf_mode t" using f by (simp add: wf_mode_def t_def)
  have b: "sp_bank s = (if s_flag s = 0 then 0 else if m_flag s = 0 then 4 else 6)"
    "sp_bank t = (if f = 0 then 0 else if m = 0 then 4 else 6)"
    using sp_bank_cases [OF s] sp_bank_cases [OF t] by (simp_all add: t_def)
  have tf: "s_flag t = f" "m_flag t = m" "sp t = (sp s)(sp_bank s := REG_SP s)" by (simp_all add: t_def)
  show "wf_mode (set_REG_SP (sp t (sp_bank t)) t)" using f by (simp add: wf_mode_def set_REG_SP_def tf)
  show "usp_of (set_REG_SP (sp t (sp_bank t)) t) = usp_of s"
    unfolding usp_of_def set_REG_SP_def REG_SP_def b by (simp add: tf b REG_SP_def)
  show "isp_of (set_REG_SP (sp t (sp_bank t)) t) = isp_of s"
    unfolding isp_of_def set_REG_SP_def REG_SP_def b by (simp add: tf b REG_SP_def)
  show "msp_of (set_REG_SP (sp t (sp_bank t)) t) = msp_of s"
    unfolding msp_of_def set_REG_SP_def REG_SP_def b by (simp add: tf b REG_SP_def)
qed

lemma stack_pointers_set_sm_flag:
  assumes "wf_mode s"
  shows "usp_of (m68ki_set_sm_flag v s) = usp_of s" "isp_of (m68ki_set_sm_flag v s) = isp_of s"
    "msp_of (m68ki_set_sm_flag v s) = msp_of s"
  using stack_pointers_switch [OF assms sm_values [of v]]
  by (simp_all add: m68ki_set_sm_flag_def Let_def flag_values)

lemma stack_pointers_set_s_flag:
  assumes s: "wf_mode s" and v: "v \<in> {0, 4}"
  shows "wf_mode (m68ki_set_s_flag v s)"
    "usp_of (m68ki_set_s_flag v s) = usp_of s" "isp_of (m68ki_set_s_flag v s) = isp_of s"
    "msp_of (m68ki_set_s_flag v s) = msp_of s"
proof -
  have m: "m_flag s \<in> {0, 2}" using s by (simp add: wf_mode_def)
  have "m68ki_set_s_flag v s =
    (let t = s\<lparr>sp := (sp s)(sp_bank s := REG_SP s)\<rparr>\<lparr>s_flag := v, m_flag := m_flag s\<rparr>
     in set_REG_SP (sp t (sp_bank t)) t)"
    by (simp add: m68ki_set_s_flag_def Let_def set_REG_SP_def)
  then show "wf_mode (m68ki_set_s_flag v s)"
    "usp_of (m68ki_set_s_flag v s) = usp_of s" "isp_of (m68ki_set_s_flag v s) = isp_of s"
    "msp_of (m68ki_set_s_flag v s) = msp_of s"
    using stack_pointers_switch [OF s v m] by (simp_all add: Let_def)
qed

end
