(* ===== verification/Memory.thy ===== *)
theory Memory
  imports Flags
begin

section \<open>Memory access and the address translation unit\<close>

text \<open>
  The host side of a memory access (M68kCpuCore.cpp), the PMMU of m68kmmu.h and the top level
  accesses \<open>m68ki_read_8_fc\<close> \dots \<open>m68ki_write_32_fc\<close> of m68kcpu.h.

  A failing access calls \<open>m68ki_exception_bus_error\<close>, which itself pushes an exception frame
  through these accesses.  The C code closes that cycle by a guard on \<open>run_mode\<close>.  Here every
  operation below the exception takes the handler as its argument \<open>berr\<close> (names in \<open>_via\<close>); the
  theory BusError closes the cycle.

  Shifts by the width of the word or more, which C leaves undefined, give zero.
\<close>

unbundle bit_operations_syntax

subsection \<open>Host callbacks\<close>

definition m68ki_set_fc :: "u32 \<Rightarrow> 'b machine \<Rightarrow> 'b machine" where
  "m68ki_set_fc functionCode s = s\<lparr>activeFunctionCode := functionCode\<rparr>"

definition isProgramFunctionCode :: "'b machine \<Rightarrow> bool" where
  "isProgramFunctionCode s \<longleftrightarrow> activeFunctionCode s AND 3 = 2"

definition ADDRESS_68K :: "'b machine \<Rightarrow> u32 \<Rightarrow> u32" where
  "ADDRESS_68K s A = A AND address_mask s"

definition M68K_MMU_SR_BUS_ERROR :: u16 where "M68K_MMU_SR_BUS_ERROR = 0x8000"
definition M68K_MMU_SR_SUPERVISOR_ONLY :: u16 where "M68K_MMU_SR_SUPERVISOR_ONLY = 0x2000"
definition M68K_MMU_SR_WRITE_PROTECT :: u16 where "M68K_MMU_SR_WRITE_PROTECT = 0x0800"
definition M68K_MMU_SR_INVALID :: u16 where "M68K_MMU_SR_INVALID = 0x0400"
definition M68K_MMU_SR_MODIFIED :: u16 where "M68K_MMU_SR_MODIFIED = 0x0200"
definition M68K_MMU_SR_TRANSPARENT :: u16 where "M68K_MMU_SR_TRANSPARENT = 0x0040"

lemmas mmu_sr_bits =
  M68K_MMU_SR_BUS_ERROR_def M68K_MMU_SR_SUPERVISOR_ONLY_def M68K_MMU_SR_WRITE_PROTECT_def
  M68K_MMU_SR_INVALID_def M68K_MMU_SR_MODIFIED_def M68K_MMU_SR_TRANSPARENT_def

definition m68k_report_physical_bus_error_via ::
    "'b op \<Rightarrow> u32 \<Rightarrow> bool \<Rightarrow> u8 \<Rightarrow> 'b op" where
  "m68k_report_physical_bus_error_via berr address is_write sz s =
    (if mmu_tablewalk s \<noteq> 0
     then Ret () (s\<lparr>mmu_tmp_sr := mmu_tmp_sr s OR (M68K_MMU_SR_BUS_ERROR OR M68K_MMU_SR_INVALID)\<rparr>)
     else berr (s\<lparr>mmu_fault_address := address,
                  mmu_fault_fc := ucast (s_flag s OR FUNCTION_CODE_USER_DATA),
                  mmu_fault_rw := (if is_write then 0 else 1),
                  mmu_fault_size := sz,
                  mmu_fault_is_mmu := 0\<rparr>))"

text \<open>The common part of the three reads: take the value, report a bus error.\<close>

definition finish_read :: "'b op \<Rightarrow> u32 \<Rightarrow> u8 \<Rightarrow> u32 \<Rightarrow> bool \<Rightarrow> 'b machine \<Rightarrow> ('b, u32) result" where
  "finish_read berr address sz value busError s =
    (if busError
     then chain (m68k_report_physical_bus_error_via berr address False sz s) (\<lambda>_. Ret value)
     else Ret value s)"

definition m68k_read_memory_8_via :: "'b op \<Rightarrow> u32 \<Rightarrow> 'b machine \<Rightarrow> ('b, u32) result" where
  "m68k_read_memory_8_via berr address s =
    (case activeBus s of
       None \<Rightarrow> Ret 0xff s
     | Some bus \<Rightarrow>
         (let ((value, busError), b) =
            (if isProgramFunctionCode s then readProgram8 bus address (bus_state s)
             else readPhysical8 bus address (bus_state s))
          in finish_read berr address 1 (ucast value) busError (s\<lparr>bus_state := b\<rparr>)))"

definition m68k_read_memory_16_via :: "'b op \<Rightarrow> u32 \<Rightarrow> 'b machine \<Rightarrow> ('b, u32) result" where
  "m68k_read_memory_16_via berr address s =
    (case activeBus s of
       None \<Rightarrow> Ret 0xffff s
     | Some bus \<Rightarrow>
         (let ((value, busError), b) =
            (if isProgramFunctionCode s then readProgram16 bus address (bus_state s)
             else readPhysical16 bus address (bus_state s))
          in finish_read berr address 2 (ucast value) busError (s\<lparr>bus_state := b\<rparr>)))"

definition m68k_read_memory_32_via :: "'b op \<Rightarrow> u32 \<Rightarrow> 'b machine \<Rightarrow> ('b, u32) result" where
  "m68k_read_memory_32_via berr address s =
    (case activeBus s of
       None \<Rightarrow> Ret 0xffffffff s
     | Some bus \<Rightarrow>
         (let ((value, busError), b) =
            (if isProgramFunctionCode s then readProgram32 bus address (bus_state s)
             else readPhysical32 bus address (bus_state s))
          in finish_read berr address 4 value busError (s\<lparr>bus_state := b\<rparr>)))"

definition finish_write :: "'b op \<Rightarrow> u32 \<Rightarrow> u8 \<Rightarrow> bool \<times> 'b \<Rightarrow> 'b op" where
  "finish_write berr address sz r s =
    (let s = s\<lparr>bus_state := snd r\<rparr>
     in if fst r then Ret () s else m68k_report_physical_bus_error_via berr address True sz s)"

definition m68k_write_memory_8_via :: "'b op \<Rightarrow> u32 \<Rightarrow> u32 \<Rightarrow> 'b op" where
  "m68k_write_memory_8_via berr address value s =
    (case activeBus s of
       None \<Rightarrow> Ret () s
     | Some bus \<Rightarrow>
         finish_write berr address 1 (writePhysical8 bus address (ucast value) (bus_state s)) s)"

definition m68k_write_memory_16_via :: "'b op \<Rightarrow> u32 \<Rightarrow> u32 \<Rightarrow> 'b op" where
  "m68k_write_memory_16_via berr address value s =
    (case activeBus s of
       None \<Rightarrow> Ret () s
     | Some bus \<Rightarrow>
         finish_write berr address 2 (writePhysical16 bus address (ucast value) (bus_state s)) s)"

definition m68k_write_memory_32_via :: "'b op \<Rightarrow> u32 \<Rightarrow> u32 \<Rightarrow> 'b op" where
  "m68k_write_memory_32_via berr address value s =
    (case activeBus s of
       None \<Rightarrow> Ret () s
     | Some bus \<Rightarrow>
         finish_write berr address 4 (writePhysical32 bus address value (bus_state s)) s)"

lemmas memory_defs =
  m68k_report_physical_bus_error_via_def finish_read_def finish_write_def
  m68k_read_memory_8_via_def m68k_read_memory_16_via_def m68k_read_memory_32_via_def
  m68k_write_memory_8_via_def m68k_write_memory_16_via_def m68k_write_memory_32_via_def

end
