(* ===== verification/Mmu.thy ===== *)
theory Mmu
  imports Memory
begin

section \<open>The paged memory management unit\<close>

text \<open>
  m68kmmu.h: the translation cache of 22 entries, transparent translation, the table walk of the
  68851/68030 and the three-level walk of the 68040, and the translation that the memory accesses
  use.
\<close>

unbundle bit_operations_syntax

subsection \<open>Constants and results\<close>

definition M68K_MMU_ATC_ENTRIES :: nat where "M68K_MMU_ATC_ENTRIES = 22"

definition M68K_MMU_DF_DT :: u32 where "M68K_MMU_DF_DT = 3"
definition M68K_MMU_DF_DT_INVALID :: u32 where "M68K_MMU_DF_DT_INVALID = 0"
definition M68K_MMU_DF_DT_PAGE :: u32 where "M68K_MMU_DF_DT_PAGE = 1"
definition M68K_MMU_DF_DT_TABLE_4BYTE :: u32 where "M68K_MMU_DF_DT_TABLE_4BYTE = 2"
definition M68K_MMU_DF_DT_TABLE_8BYTE :: u32 where "M68K_MMU_DF_DT_TABLE_8BYTE = 3"
definition M68K_MMU_DF_WP :: u32 where "M68K_MMU_DF_WP = 4"
definition M68K_MMU_DF_USED :: u32 where "M68K_MMU_DF_USED = 8"
definition M68K_MMU_DF_MODIFIED :: u32 where "M68K_MMU_DF_MODIFIED = 0x10"
definition M68K_MMU_DF_SUPERVISOR :: u32 where "M68K_MMU_DF_SUPERVISOR = 0x100"
definition M68K_MMU_DF_ADDR_MASK :: u32 where "M68K_MMU_DF_ADDR_MASK = 0xfffffff0"
definition M68K_MMU_DF_IND_ADDR_MASK :: u32 where "M68K_MMU_DF_IND_ADDR_MASK = 0xfffffffc"
definition M68K_MMU_TC_SRE :: u32 where "M68K_MMU_TC_SRE = 0x02000000"
definition M68K_MMU_TC_FCL :: u32 where "M68K_MMU_TC_FCL = 0x01000000"
definition M68K_MMU_040_SUPERVISOR :: u32 where "M68K_MMU_040_SUPERVISOR = 0x80"
definition M68K_MMU_040_TT_ENABLE :: u32 where "M68K_MMU_040_TT_ENABLE = 0x8000"
definition M68K_MMU_040_TT_HIT :: u16 where "M68K_MMU_040_TT_HIT = 2"
definition M68K_MMU_040_RESIDENT :: u16 where "M68K_MMU_040_RESIDENT = 1"

lemmas mmu_constants =
  M68K_MMU_DF_DT_def M68K_MMU_DF_DT_INVALID_def M68K_MMU_DF_DT_PAGE_def
  M68K_MMU_DF_DT_TABLE_4BYTE_def M68K_MMU_DF_DT_TABLE_8BYTE_def M68K_MMU_DF_WP_def
  M68K_MMU_DF_USED_def M68K_MMU_DF_MODIFIED_def M68K_MMU_DF_SUPERVISOR_def
  M68K_MMU_DF_ADDR_MASK_def M68K_MMU_DF_IND_ADDR_MASK_def M68K_MMU_TC_SRE_def
  M68K_MMU_TC_FCL_def M68K_MMU_040_SUPERVISOR_def M68K_MMU_040_TT_ENABLE_def
  M68K_MMU_040_TT_HIT_def M68K_MMU_040_RESIDENT_def

datatype pmmu_intent =
    PMMU_INTENT_NORMAL
  | PMMU_INTENT_PLOAD
  | PMMU_INTENT_PTEST
  | PMMU_INTENT_DEBUG
  | PMMU_INTENT_PROBE

record pmmu_translation_result =
  physical_address :: u32
  descriptor_address :: u32
  pt_status :: u16
  pt_level :: u8
  pt_fault :: u8
  transparent :: u8

text \<open>The structure after \<open>memset\<close> and \<open>result.physical_address = logical\<close>.\<close>

definition fresh_translation :: "u32 \<Rightarrow> pmmu_translation_result" where
  "fresh_translation logical =
     \<lparr>physical_address = logical, descriptor_address = 0, pt_status = 0, pt_level = 0,
      pt_fault = 0, transparent = 0\<rparr>"

subsection \<open>Page size and function codes\<close>

definition pmmu_page_shift :: "'b machine \<Rightarrow> u32" where
  "pmmu_page_shift s =
    (let ps = drop_bit 20 (mmu_tc s) AND 0xf
     in if 8 \<le> ps then ps
        else let used = (drop_bit 16 (mmu_tc s) AND 0xf) + (drop_bit 12 (mmu_tc s) AND 0xf)
                + (drop_bit 8 (mmu_tc s) AND 0xf) + (drop_bit 4 (mmu_tc s) AND 0xf)
                + (mmu_tc s AND 0xf)
             in if used < 32 then 32 - used else 8)"

definition pmmu_page_mask :: "u32 \<Rightarrow> u32" where
  "pmmu_page_mask shift = drop_bit (unat (32 - shift)) 0xffffffff"

definition pmmu_fc_from_modes :: "u32 \<Rightarrow> 'b machine \<Rightarrow> u32" where
  "pmmu_fc_from_modes modes s =
    (if modes AND 0x1f = 0 then dfc s AND 7
     else if modes AND 0x1f = 1 then sfc s AND 7
     else if drop_bit 3 modes AND 3 = 1 then REG_D s (modes AND 7) AND 7
     else if drop_bit 3 modes AND 3 = 2 then modes AND 7
     else 0)"

subsection \<open>Transparent translation\<close>

definition pmmu_match_tt :: "u32 \<Rightarrow> u32 \<Rightarrow> u32 \<Rightarrow> u32 \<Rightarrow> u16 \<Rightarrow> bool \<times> u16" where
  "pmmu_match_tt addr fc tt rw stat =
    (if tt AND 0x00008000 = 0 then (False, stat)
     else
       let address_base = tt AND 0xff000000;
           addr_mask = (push_bit 8 tt AND 0xff000000) XOR 0xff000000;
           fc_mask = NOT tt AND 7;
           fc_bits = drop_bit 4 tt AND 7;
           rw_mask = NOT tt AND 0x100;
           rw_bit = tt AND 0x200
       in if addr AND addr_mask \<noteq> address_base AND addr_mask then (False, stat)
          else if fc AND fc_mask \<noteq> fc_bits AND fc_mask then (False, stat)
          else if push_bit 8 (bool_word (rw \<noteq> 0)) AND rw_mask \<noteq> rw_bit AND rw_mask then (False, stat)
          else (True, stat OR M68K_MMU_SR_TRANSPARENT))"

definition tt_040_fc_mask :: "u32 list" where "tt_040_fc_mask = [4, 4, 0, 0]"
definition tt_040_fc_match :: "u32 list" where "tt_040_fc_match = [0, 4, 0, 0]"

definition pmmu_match_tt_040 ::
    "u32 \<Rightarrow> u32 \<Rightarrow> u32 \<Rightarrow> u32 \<Rightarrow> pmmu_translation_result \<Rightarrow> bool \<times> pmmu_translation_result" where
  "pmmu_match_tt_040 logical fc tt rw r =
    (if tt AND M68K_MMU_040_TT_ENABLE = 0 then (False, r)
     else
       let msk = push_bit 24 (NOT (drop_bit 16 tt) AND 0xff);
           k = unat (drop_bit 13 tt AND 3)
       in if logical AND msk \<noteq> tt AND msk \<or> fc AND tt_040_fc_mask ! k \<noteq> tt_040_fc_match ! k
          then (False, r)
          else
            let r = r\<lparr>transparent := 1, pt_status := M68K_MMU_040_TT_HIT OR M68K_MMU_040_RESIDENT\<rparr>;
                r = (if rw = 0 \<and> tt AND M68K_MMU_DF_WP \<noteq> 0
                     then r\<lparr>pt_status := pt_status r OR M68K_MMU_SR_WRITE_PROTECT, pt_fault := 1\<rparr>
                     else r)
            in (True, r))"

subsection \<open>The address translation cache\<close>

definition set_atc :: "nat \<Rightarrow> m68ki_mmu_atc_entry \<Rightarrow> 'b machine \<Rightarrow> 'b machine" where
  "set_atc i e s = s\<lparr>mmu_atc := (mmu_atc s)(i := e)\<rparr>"

primrec pmmu_atc_flush_from :: "nat list \<Rightarrow> 'b machine \<Rightarrow> 'b machine" where
  "pmmu_atc_flush_from [] s = s"
| "pmmu_atc_flush_from (i # is) s =
     pmmu_atc_flush_from is (set_atc i (mmu_atc s i\<lparr>valid := 0\<rparr>) s)"

definition pmmu_atc_flush :: "'b machine \<Rightarrow> 'b machine" where
  "pmmu_atc_flush = pmmu_atc_flush_from [0..<M68K_MMU_ATC_ENTRIES]"

definition atc_match :: "u32 \<Rightarrow> u32 \<Rightarrow> u32 \<Rightarrow> m68ki_mmu_atc_entry \<Rightarrow> bool" where
  "atc_match shift address fc e \<longleftrightarrow>
     valid e \<noteq> 0 \<and> ucast (page_shift e) = shift \<and> ucast (function_code e) = fc AND 7 \<and>
     logical_page e = address AND NOT (pmmu_page_mask shift)"

text \<open>
  The loop of \<open>pmmu_atc_lookup\<close> over the remaining indices: an unmodified entry hit by a write is
  dropped and the search goes on.
\<close>

primrec pmmu_atc_lookup_from ::
    "nat list \<Rightarrow> u32 \<Rightarrow> u32 \<Rightarrow> u32 \<Rightarrow> u32 \<Rightarrow> bool \<Rightarrow> pmmu_translation_result \<Rightarrow> 'b machine \<Rightarrow>
     bool \<times> pmmu_translation_result \<times> 'b machine" where
  "pmmu_atc_lookup_from [] shift address fc rw ptest r s =
    (let s = s\<lparr>mmu_atc_misses := mmu_atc_misses s + 1\<rparr>
     in (False, if ptest then r\<lparr>pt_status := M68K_MMU_SR_INVALID, pt_fault := 1\<rparr> else r, s))"
| "pmmu_atc_lookup_from (i # is) shift address fc rw ptest r s =
    (let e = mmu_atc s i
     in if \<not> atc_match shift address fc e
        then pmmu_atc_lookup_from is shift address fc rw ptest r s
        else if \<not> ptest \<and> rw = 0 \<and> modified e = 0 \<and> write_protect e = 0
        then pmmu_atc_lookup_from is shift address fc rw ptest r (set_atc i (e\<lparr>valid := 0\<rparr>) s)
        else
          let r = r\<lparr>physical_address := physical_page e OR (address AND pmmu_page_mask shift),
                pt_status := pt_status r OR (if modified e \<noteq> 0 then M68K_MMU_SR_MODIFIED else 0)
                  OR (if write_protect e \<noteq> 0 then M68K_MMU_SR_WRITE_PROTECT else 0)
                  OR (if fault e \<noteq> 0 then M68K_MMU_SR_INVALID else 0),
                pt_fault := (if fault e \<noteq> 0 \<or> rw = 0 \<and> write_protect e \<noteq> 0 then 1 else 0)\<rparr>
          in (True, r, s\<lparr>mmu_atc_hits := mmu_atc_hits s + 1\<rparr>))"

definition pmmu_atc_lookup ::
    "u32 \<Rightarrow> u32 \<Rightarrow> u32 \<Rightarrow> bool \<Rightarrow> pmmu_translation_result \<Rightarrow> 'b machine \<Rightarrow>
     bool \<times> pmmu_translation_result \<times> 'b machine" where
  "pmmu_atc_lookup address fc rw ptest r s =
     pmmu_atc_lookup_from [0..<M68K_MMU_ATC_ENTRIES] (pmmu_page_shift s) address fc rw ptest r s"

text \<open>
  The slot \<open>pmmu_atc_add\<close> fills: a valid entry for the page stops the search; otherwise the first
  invalid entry seen is taken.
\<close>

primrec atc_select ::
    "nat list \<Rightarrow> u32 \<Rightarrow> u32 \<Rightarrow> (nat \<Rightarrow> m68ki_mmu_atc_entry) \<Rightarrow> nat \<Rightarrow> nat" where
  "atc_select [] page fc atc selected = selected"
| "atc_select (i # is) page fc atc selected =
    (if valid (atc i) \<noteq> 0 \<and> ucast (function_code (atc i)) = fc AND 7 \<and> logical_page (atc i) = page
     then i
     else atc_select is page fc atc
       (if valid (atc i) = 0 \<and> selected = M68K_MMU_ATC_ENTRIES then i else selected))"

definition pmmu_atc_add ::
    "u32 \<Rightarrow> u32 \<Rightarrow> u32 \<Rightarrow> pmmu_translation_result \<Rightarrow> 'b machine \<Rightarrow> 'b machine" where
  "pmmu_atc_add logical physical fc r s =
    (let shift = pmmu_page_shift s;
         msk = pmmu_page_mask shift;
         selected = atc_select [0..<M68K_MMU_ATC_ENTRIES] (logical AND NOT msk) fc (mmu_atc s)
           M68K_MMU_ATC_ENTRIES;
         (selected, s) =
           (if selected = M68K_MMU_ATC_ENTRIES
            then (unat (atc_replacement s mod 22), s\<lparr>atc_replacement := atc_replacement s + 1\<rparr>)
            else (selected, s))
     in set_atc selected
          \<lparr>logical_page = logical AND NOT msk, physical_page = physical AND NOT msk,
           page_shift = ucast shift, function_code = ucast (fc AND 7),
           write_protect = (if pt_status r AND M68K_MMU_SR_WRITE_PROTECT \<noteq> 0 then 1 else 0),
           modified = (if pt_status r AND M68K_MMU_SR_MODIFIED \<noteq> 0 then 1 else 0),
           fault = pt_fault r, valid = 1\<rparr> s)"


subsection \<open>The table walk of the 68851 and the 68030\<close>

definition pmmu_status_from_descriptor :: "u32 \<Rightarrow> u32 \<Rightarrow> bool \<Rightarrow> u32 \<Rightarrow> u16 \<Rightarrow> u16" where
  "pmmu_status_from_descriptor type first is_long fc stat =
    (let stat = (if type = M68K_MMU_DF_DT_PAGE \<and> first AND M68K_MMU_DF_MODIFIED \<noteq> 0
                 then stat OR M68K_MMU_SR_MODIFIED else stat);
         stat = (if type \<noteq> M68K_MMU_DF_DT_INVALID \<and> first AND M68K_MMU_DF_WP \<noteq> 0
                 then stat OR M68K_MMU_SR_WRITE_PROTECT else stat)
     in if is_long \<and> fc AND 4 = 0 \<and> first AND M68K_MMU_DF_SUPERVISOR \<noteq> 0
        then stat OR M68K_MMU_SR_SUPERVISOR_ONLY else stat)"

definition pmmu_update_descriptor_via :: "'b op \<Rightarrow> u32 \<Rightarrow> u32 \<Rightarrow> u32 \<Rightarrow> u32 \<Rightarrow> 'b op" where
  "pmmu_update_descriptor_via berr address type first rw s =
    (if type = M68K_MMU_DF_DT_INVALID then Ret () s
     else
       let updated = first OR M68K_MMU_DF_USED;
           updated = (if type = M68K_MMU_DF_DT_PAGE \<and> rw = 0 \<and> first AND M68K_MMU_DF_WP = 0
                      then updated OR M68K_MMU_DF_MODIFIED else updated)
       in if updated \<noteq> first then m68k_write_memory_32_via berr address updated s else Ret () s)"

text \<open>The variables of the walk that its loop changes.\<close>

record pmmu_walk =
  walk_type :: u32
  walk_table :: u32
  walk_address_work :: u32
  walk_pageshift :: u32
  walk_bitpos :: u32
  walk_level :: u32
  walk_resolved :: bool
  walk_result :: pmmu_translation_result

text \<open>
  Reading one descriptor: a second word for the long format.  \<open>indirect\<close> is the flag the loop
  computes; the loop gets the address, type, first and second word and format back.
\<close>

definition read_descriptor_via ::
    "'b op \<Rightarrow> u32 \<Rightarrow> bool \<Rightarrow> 'b machine \<Rightarrow> ('b, u32 \<times> u32) result" where
  "read_descriptor_via berr address is_long s =
     chain (m68k_read_memory_32_via berr address s) (\<lambda>first s.
     if is_long
     then chain (m68k_read_memory_32_via berr (address + 4) s) (\<lambda>second. Ret (first, second))
     else Ret (first, 0) s)"

definition walk_bus_error :: "pmmu_walk \<Rightarrow> 'b machine \<Rightarrow> pmmu_walk" where
  "walk_bus_error w s =
     w\<lparr>walk_result := walk_result w\<lparr>pt_status := pt_status (walk_result w) OR mmu_tmp_sr s\<rparr>,
       walk_resolved := True\<rparr>"

text \<open>The end of the loop body: \<open>level\<close> counts the descriptors read so far.\<close>

definition walk_descend_via ::
    "'b op \<Rightarrow> u32 \<Rightarrow> u32 \<Rightarrow> bool \<Rightarrow> u32 \<Rightarrow> u32 \<Rightarrow> u32 \<Rightarrow> u32 \<Rightarrow> bool \<Rightarrow> pmmu_walk \<Rightarrow> 'b machine \<Rightarrow>
     ('b, pmmu_walk) result" where
  "walk_descend_via berr fc rw side_effects indexbits address first second is_long w s =
    (let type = first AND M68K_MMU_DF_DT;
         r = walk_result w;
         w = w\<lparr>walk_type := type,
               walk_result := r\<lparr>descriptor_address := address,
                 pt_status := pmmu_status_from_descriptor type first is_long fc (pt_status r)\<rparr>\<rparr>
     in chain (if side_effects then pmmu_update_descriptor_via berr address type first rw s else Ret () s)
        (\<lambda>_. Ret (w\<lparr>walk_table := (if is_long then second else first) AND M68K_MMU_DF_ADDR_MASK,
                    walk_address_work := push_bit (unat indexbits) (walk_address_work w),
                    walk_pageshift := walk_pageshift w + indexbits\<rparr>)))"

text \<open>
  One pass through the body of the \<open>do\<close> loop.  The flag returned with the variables is set when
  the body left the loop with \<open>break\<close> before the limit test.
\<close>

definition walk_step_via ::
    "'b op \<Rightarrow> u32 \<Rightarrow> u32 \<Rightarrow> u32 \<Rightarrow> bool \<Rightarrow> pmmu_walk \<Rightarrow> 'b machine \<Rightarrow> ('b, pmmu_walk) result" where
  "walk_step_via berr bits fc rw side_effects w s =
    (let bitpos = walk_bitpos w;
         indexbits = (if bitpos \<le> 16 then drop_bit (unat bitpos) bits AND 0xf else 0);
         index = (if bitpos = 16 then fc AND 7
                  else if indexbits \<noteq> 0 then drop_bit (unat (32 - indexbits)) (walk_address_work w)
                  else 0);
         indirect = (indexbits \<noteq> 0 \<and> (bitpos = 0 \<or> bits AND (push_bit (unat bitpos) 1 - 1) = 0));
         w = w\<lparr>walk_bitpos := (if 4 \<le> bitpos then bitpos - 4 else 0xffffffff)\<rparr>;
         r = walk_result w
     in if walk_type w = M68K_MMU_DF_DT_INVALID
        then Ret (w\<lparr>walk_result := r\<lparr>pt_status := pt_status r OR M68K_MMU_SR_INVALID\<rparr>,
                    walk_resolved := True\<rparr>) s
        else if walk_type w = M68K_MMU_DF_DT_PAGE
        then Ret (w\<lparr>walk_result := r\<lparr>physical_address :=
                      (walk_table w AND push_bit (unat (pmmu_page_shift s)) 0xffffffff)
                      + drop_bit (unat (walk_pageshift w)) (walk_address_work w)\<rparr>,
                    walk_resolved := True\<rparr>) s
        else
          let is_long = (walk_type w = M68K_MMU_DF_DT_TABLE_8BYTE);
              address = walk_table w + index * (if is_long then 8 else 4)
          in chain (read_descriptor_via berr address is_long s) (\<lambda>(first, second) s.
             if mmu_tmp_sr s AND M68K_MMU_SR_BUS_ERROR \<noteq> 0 then Ret (walk_bus_error w s) s
             else
               let type = first AND M68K_MMU_DF_DT;
                   w = w\<lparr>walk_type := type, walk_level := walk_level w + 1\<rparr>
               in if indirect \<and> (type = M68K_MMU_DF_DT_TABLE_4BYTE \<or> type = M68K_MMU_DF_DT_TABLE_8BYTE)
                  then
                    let indirect_long = (type = M68K_MMU_DF_DT_TABLE_8BYTE);
                        address = (if is_long then second else first) AND M68K_MMU_DF_IND_ADDR_MASK
                    in chain (read_descriptor_via berr address indirect_long s) (\<lambda>(first, second) s.
                       if mmu_tmp_sr s AND M68K_MMU_SR_BUS_ERROR \<noteq> 0 then Ret (walk_bus_error w s) s
                       else walk_descend_via berr fc rw side_effects indexbits address first second
                              indirect_long (w\<lparr>walk_level := walk_level w + 1\<rparr>) s)
                  else walk_descend_via berr fc rw side_effects indexbits address first second
                         is_long w s))"

lemma walk_descend_level:
  "holds (\<lambda>w' s'. walk_level w' = walk_level w) (\<lambda>_ _. True)
     (walk_descend_via berr fc rw se indexbits address first second is_long w s)"
  unfolding walk_descend_via_def Let_def
  by (rule holds_chain [where R = "\<lambda>_ _. True"]) simp_all

lemma walk_step_holds:
  "holds (\<lambda>w' s'. walk_resolved w' \<or> walk_level w' = walk_level w + 1 \<or> walk_level w' = walk_level w + 2)
     (\<lambda>_ _. True) (walk_step_via berr bits fc rw se w s)"
proof -
  have d: "holds (\<lambda>w' s'. walk_resolved w' \<or> walk_level w' = k + 1 \<or> walk_level w' = k + 2)
     (\<lambda>_ _. True) (walk_descend_via berr fc rw se indexbits address first second is_long v t)"
    if "walk_level v = k + 1 \<or> walk_level v = k + 2"
    for k indexbits address first second is_long v t
    by (rule holds_mono [OF walk_descend_level]) (use that in auto)
  show ?thesis
    unfolding walk_step_via_def
    by (intro holds_rules holds_chain [where R = "\<lambda>_ _. True"] d) (simp_all add: walk_bus_error_def)
qed

lemma walk_step_level:
  assumes "walk_step_via berr bits fc rw se w s = Ret w' s'" and "\<not> walk_resolved w'"
  shows "walk_level w' = walk_level w + 1 \<or> walk_level w' = walk_level w + 2"
  using walk_step_holds [of w berr bits fc rw se s] assms by simp

definition walk_measure :: "u32 \<Rightarrow> nat" where
  "walk_measure level = (if level < 7 then 7 - unat level else 8)"

lemma walk_measure_less:
  assumes "k' = k + 1 \<or> k' = k + 2" and "k' < 7"
  shows "walk_measure k' < walk_measure k"
proof (cases "k < 7")
  case True
  then have "unat k < 7" by (simp add: word_less_nat_alt)
  with assms have "unat k' = unat k + 1 \<or> unat k' = unat k + 2"
    by (auto simp: unat_word_ariths)
  with assms True show ?thesis by (auto simp: walk_measure_def word_less_nat_alt)
next
  case False
  with assms show ?thesis by (simp add: walk_measure_def)
qed

text \<open>
  The loop.  It ends because every pass that does not leave it raises \<open>level\<close>, which the loop
  condition keeps below 7.
\<close>

function pmmu_walk_loop_via ::
    "'b op \<Rightarrow> u32 \<Rightarrow> u32 \<Rightarrow> u32 \<Rightarrow> u32 \<Rightarrow> bool \<Rightarrow> pmmu_walk \<Rightarrow> 'b machine \<Rightarrow> ('b, pmmu_walk) result" where
  "pmmu_walk_loop_via berr bits fc rw limit side_effects w s =
     chain (walk_step_via berr bits fc rw side_effects w s) (\<lambda>w s.
     if walk_resolved w \<or> limit \<le> walk_level w \<or> 7 \<le> walk_level w
     then Ret w s
     else pmmu_walk_loop_via berr bits fc rw limit side_effects w s)"
  by pat_completeness auto

termination
proof (relation "measure (\<lambda>(_, _, _, _, _, _, w, _). walk_measure (walk_level w))", goal_cases)
  case 1
  show ?case by simp
next
  case (2 berr bits fc rw limit se w s w' s')
  then have "walk_level w' = walk_level w + 1 \<or> walk_level w' = walk_level w + 2" and "walk_level w' < 7"
    using walk_step_level by (blast, simp add: not_le)
  then show ?case by (simp add: walk_measure_less)
qed

declare pmmu_walk_loop_via.simps [simp del]


text \<open>Fields after the first zero \<open>TI\<close> field are dropped.\<close>

primrec trim_ti_fields :: "nat list \<Rightarrow> u32 \<Rightarrow> u32" where
  "trim_ti_fields [] bits = bits"
| "trim_ti_fields (shift # shifts) bits =
    (if drop_bit shift bits AND 0xf = 0 then bits AND NOT (push_bit (shift + 4) 1 - 1)
     else trim_ti_fields shifts bits)"

definition pmmu_walk_tables_via ::
    "'b op \<Rightarrow> u32 \<Rightarrow> u32 \<Rightarrow> u32 \<Rightarrow> u32 \<Rightarrow> bool \<Rightarrow> pmmu_translation_result \<Rightarrow> 'b machine \<Rightarrow>
     ('b, pmmu_translation_result) result" where
  "pmmu_walk_tables_via berr logical fc rw limit side_effects r s =
    (let bits = trim_ti_fields [12, 8, 4, 0] (mmu_tc s AND 0xffff);
         use_srp = (mmu_tc s AND M68K_MMU_TC_SRE \<noteq> 0 \<and> fc AND 4 \<noteq> 0);
         type = (if use_srp then mmu_srp_limit s else mmu_crp_limit s) AND M68K_MMU_DF_DT;
         table = (if use_srp then mmu_srp_aptr s else mmu_crp_aptr s) AND M68K_MMU_DF_ADDR_MASK;
         pageshift = drop_bit 16 (mmu_tc s) AND 0xf;
         w = \<lparr>walk_type = type, walk_table = table,
              walk_address_work = push_bit (unat pageshift) logical, walk_pageshift = pageshift,
              walk_bitpos = (if mmu_tc s AND M68K_MMU_TC_FCL \<noteq> 0 then 16 else 12),
              walk_level = 0, walk_resolved = False, walk_result = r\<rparr>;
         s = s\<lparr>mmu_tablewalk := 1\<rparr>
     in chain (pmmu_walk_loop_via berr bits fc rw limit side_effects w s) (\<lambda>w s.
        let r = walk_result w;
            stat = (if \<not> walk_resolved w \<and> 7 \<le> limit then pt_status r OR M68K_MMU_SR_INVALID
                    else pt_status r);
            stat = (stat AND 0xfff0) OR ucast (walk_level w AND 7);
            flt = (stat AND (M68K_MMU_SR_BUS_ERROR OR M68K_MMU_SR_INVALID OR M68K_MMU_SR_SUPERVISOR_ONLY) \<noteq> 0
                   \<or> rw = 0 \<and> stat AND M68K_MMU_SR_WRITE_PROTECT \<noteq> 0)
        in Ret (r\<lparr>pt_level := ucast (walk_level w), pt_status := stat, pt_fault := (if flt then 1 else 0)\<rparr>)
             (s\<lparr>mmu_tablewalk := 0\<rparr>)))"

subsection \<open>The three-level walk of the 68040\<close>

definition finish_040 :: "pmmu_translation_result \<Rightarrow> 'b machine \<Rightarrow> ('b, pmmu_translation_result) result" where
  "finish_040 r s = Ret r (s\<lparr>mmu_tablewalk := 0\<rparr>)"

definition protected_page_040 ::
    "pmmu_translation_result \<Rightarrow> 'b machine \<Rightarrow> ('b, pmmu_translation_result) result" where
  "protected_page_040 r =
     finish_040 (r\<lparr>pt_status := pt_status r OR M68K_MMU_SR_WRITE_PROTECT, pt_fault := 1\<rparr>)"

definition invalid_040 ::
    "pmmu_translation_result \<Rightarrow> 'b machine \<Rightarrow> ('b, pmmu_translation_result) result" where
  "invalid_040 r s =
     finish_040 (r\<lparr>pt_status := pt_status r OR (M68K_MMU_SR_INVALID OR mmu_tmp_sr s), pt_fault := 1\<rparr>) s"

text \<open>
  A table of the first two levels: read the entry, leave on an invalid or protected one, mark it
  used, and go on with the entry.
\<close>

definition table_level_040_via ::
    "'b op \<Rightarrow> u32 \<Rightarrow> u32 \<Rightarrow> u32 \<Rightarrow> pmmu_translation_result \<Rightarrow>
     (u32 \<Rightarrow> 'b machine \<Rightarrow> ('b, pmmu_translation_result) result) \<Rightarrow> 'b machine \<Rightarrow>
     ('b, pmmu_translation_result) result" where
  "table_level_040_via berr address rw side_effects r next_level s =
     chain (m68k_read_memory_32_via berr address s) (\<lambda>entry s.
     if mmu_tmp_sr s AND M68K_MMU_SR_BUS_ERROR \<noteq> 0 \<or> entry AND 2 = 0 then invalid_040 r s
     else if rw = 0 \<and> entry AND M68K_MMU_DF_WP \<noteq> 0 then protected_page_040 r s
     else if side_effects \<noteq> 0 \<and> entry AND M68K_MMU_DF_USED = 0
     then chain (m68k_write_memory_32_via berr address (entry OR M68K_MMU_DF_USED) s)
            (\<lambda>_. next_level (entry OR M68K_MMU_DF_USED))
     else next_level entry s)"

definition page_level_040_via ::
    "'b op \<Rightarrow> u32 \<Rightarrow> u32 \<Rightarrow> u32 \<Rightarrow> u32 \<Rightarrow> u32 \<Rightarrow> pmmu_translation_result \<Rightarrow> u32 \<Rightarrow> u32 \<Rightarrow> 'b machine \<Rightarrow>
     ('b, pmmu_translation_result) result" where
  "page_level_040_via berr fc rw side_effects page_mask page_offset r page_address page_entry s =
    (if mmu_tmp_sr s AND M68K_MMU_SR_BUS_ERROR \<noteq> 0 \<or> page_entry AND 1 = 0 then invalid_040 r s
     else if rw = 0 \<and> page_entry AND M68K_MMU_DF_WP \<noteq> 0
       \<or> fc AND 4 = 0 \<and> page_entry AND M68K_MMU_040_SUPERVISOR \<noteq> 0 then protected_page_040 r s
     else
       let r = r\<lparr>physical_address := (page_entry AND page_mask) OR page_offset,
                 pt_status := M68K_MMU_040_RESIDENT\<rparr>;
           updated = page_entry OR M68K_MMU_DF_USED;
           updated = (if rw = 0 then updated OR M68K_MMU_DF_MODIFIED else updated)
       in if side_effects \<noteq> 0 \<and> updated \<noteq> page_entry
          then chain (m68k_write_memory_32_via berr page_address updated s) (\<lambda>_. finish_040 r)
          else finish_040 r s)"

definition pmmu_translate_040_via ::
    "'b op \<Rightarrow> u32 \<Rightarrow> u32 \<Rightarrow> u32 \<Rightarrow> u32 \<Rightarrow> 'b machine \<Rightarrow> ('b, pmmu_translation_result) result" where
  "pmmu_translate_040_via berr logical fc rw side_effects s =
    (let r = fresh_translation logical
     in if fc AND 3 = 0 then Ret (r\<lparr>pt_status := M68K_MMU_SR_INVALID, pt_fault := 1\<rparr>) s
        else
          let tt0 = (if fc AND 1 \<noteq> 0 then mmu_dtt0 s else mmu_itt0 s);
              tt1 = (if fc AND 1 \<noteq> 0 then mmu_dtt1 s else mmu_itt1 s);
              (hit0, r) = pmmu_match_tt_040 logical fc tt0 rw r;
              (hit, r) = (if hit0 then (True, r) else pmmu_match_tt_040 logical fc tt1 rw r)
          in if hit then Ret r s
             else if pmmu_enabled s = 0 then Ret r s
             else
               let big = mmu_tc s AND 0x4000 \<noteq> 0;
                   root_index = drop_bit 25 logical AND 0x7f;
                   pointer_index = drop_bit 18 logical AND 0x7f;
                   page_index = (if big then drop_bit 13 logical AND 0x1f else drop_bit 12 logical AND 0x3f);
                   page_offset = (if big then logical AND 0x1fff else logical AND 0x0fff);
                   s = s\<lparr>mmu_tmp_sr := 0, mmu_tablewalk := 1\<rparr>;
                   root_address = (if fc AND 4 \<noteq> 0 then mmu_srp_aptr s else mmu_urp_aptr s) + root_index * 4
               in table_level_040_via berr root_address rw side_effects r (\<lambda>root_entry s.
                  table_level_040_via berr ((root_entry AND NOT 0x1ff) + pointer_index * 4) rw side_effects r
                  (\<lambda>pointer_entry s.
                  let page_address = (pointer_entry AND (if big then NOT 0x7f else NOT 0xff)) + page_index * 4;
                      page_mask = (if big then NOT 0x1fff else NOT 0x0fff)
                  in chain (m68k_read_memory_32_via berr page_address s) (\<lambda>page_entry s.
                     if page_entry AND 3 = 2
                     then
                       let page_address = page_entry AND NOT 3
                       in chain (m68k_read_memory_32_via berr page_address s) (\<lambda>page_entry s.
                          page_level_040_via berr fc rw side_effects page_mask page_offset r page_address
                            (if page_entry AND 3 = 2 then 0 else page_entry) s)
                     else page_level_040_via berr fc rw side_effects page_mask page_offset r page_address
                            page_entry s)) s) s)"

subsection \<open>Translation of an access\<close>

definition pmmu_fault_via :: "'b op \<Rightarrow> u32 \<Rightarrow> u32 \<Rightarrow> u32 \<Rightarrow> u8 \<Rightarrow> 'b op" where
  "pmmu_fault_via berr logical fc rw sz s =
     berr (s\<lparr>mmu_fault_address := logical, mmu_fault_fc := ucast (fc AND 7), mmu_fault_rw := ucast rw,
             mmu_fault_size := sz, mmu_fault_is_mmu := 1\<rparr>)"

text \<open>What follows the label \<open>finished\<close>.\<close>

definition pmmu_finished_via ::
    "'b op \<Rightarrow> u32 \<Rightarrow> u32 \<Rightarrow> u32 \<Rightarrow> u8 \<Rightarrow> pmmu_intent \<Rightarrow> pmmu_translation_result \<Rightarrow> 'b machine \<Rightarrow>
     ('b, pmmu_translation_result) result" where
  "pmmu_finished_via berr logical fc rw sz intent r s =
    (let s = s\<lparr>mmu_tmp_sr := pt_status r\<rparr>
     in if pt_fault r \<noteq> 0 \<and> intent = PMMU_INTENT_NORMAL
        then chain (pmmu_fault_via berr logical fc rw sz s) (\<lambda>_. Ret r)
        else Ret r s)"

definition pmmu_translate_via ::
    "'b op \<Rightarrow> u32 \<Rightarrow> u32 \<Rightarrow> u32 \<Rightarrow> u8 \<Rightarrow> pmmu_intent \<Rightarrow> u32 \<Rightarrow> 'b machine \<Rightarrow>
     ('b, pmmu_translation_result) result" where
  "pmmu_translate_via berr logical fc rw sz intent limit s =
    (if mmu_kind s = M68K_MMU_KIND_68040
     then chain (pmmu_translate_040_via berr logical fc rw
              (bool_word (intent = PMMU_INTENT_NORMAL \<or> intent = PMMU_INTENT_PLOAD)) s)
            (pmmu_finished_via berr logical fc rw sz intent)
     else
       let r = fresh_translation logical;
           s = s\<lparr>mmu_last_logical_addr := logical, mmu_tmp_sr := 0\<rparr>;
           (hit0, stat) = pmmu_match_tt logical fc (mmu_tt0 s) rw (pt_status r);
           (hit, stat) = (if hit0 then (True, stat) else pmmu_match_tt logical fc (mmu_tt1 s) rw stat);
           r = r\<lparr>pt_status := stat\<rparr>
       in if hit \<or> fc = 7 then Ret (r\<lparr>transparent := 1\<rparr>) s
          else if intent = PMMU_INTENT_PTEST \<and> limit = 0
          then let (_, r, s) = pmmu_atc_lookup logical fc rw True r s in Ret r s
          else
            let (found, r, s) =
                  (if intent = PMMU_INTENT_NORMAL \<or> intent = PMMU_INTENT_PROBE
                   then pmmu_atc_lookup logical fc rw False r s else (False, r, s))
            in if found then pmmu_finished_via berr logical fc rw sz intent r s
               else chain (pmmu_walk_tables_via berr logical fc rw limit
                      (intent = PMMU_INTENT_NORMAL \<or> intent = PMMU_INTENT_PLOAD) r s) (\<lambda>r s.
                    let s = (if intent = PMMU_INTENT_NORMAL \<or> intent = PMMU_INTENT_PLOAD
                               \<or> intent = PMMU_INTENT_PROBE
                             then pmmu_atc_add logical (physical_address r) fc r s else s)
                    in pmmu_finished_via berr logical fc rw sz intent r s))"

definition pmmu_translate_addr_fc_size_via ::
    "'b op \<Rightarrow> u32 \<Rightarrow> u32 \<Rightarrow> u32 \<Rightarrow> u8 \<Rightarrow> 'b machine \<Rightarrow> ('b, u32) result" where
  "pmmu_translate_addr_fc_size_via berr address fc rw sz s =
     chain (pmmu_translate_via berr address fc rw sz PMMU_INTENT_NORMAL 7 s)
       (\<lambda>r. Ret (physical_address r))"

subsection \<open>Validation of the translation control register\<close>

primrec sum_ti_fields :: "nat list \<Rightarrow> u32 \<Rightarrow> u32 \<Rightarrow> u32" where
  "sum_ti_fields [] tc bits = bits"
| "sum_ti_fields (shift # shifts) tc bits =
    (let ti = drop_bit shift tc AND 0xf
     in if ti = 0 then bits else sum_ti_fields shifts tc (bits + ti))"

definition pmmu_validate_tc :: "u32 \<Rightarrow> bool" where
  "pmmu_validate_tc tc =
    (if tc AND 0x80000000 = 0 then True
     else
       let bits = (drop_bit 20 tc AND 0xf) + (drop_bit 16 tc AND 0xf)
       in if drop_bit 20 tc AND 0xf < 8 then False
          else sum_ti_fields [12, 8, 4, 0] tc bits = 32)"

end
