(* ===== verification/BusError.thy ===== *)
theory BusError
  imports Mmu
begin

section \<open>Top level memory access, the stack, and the bus error exception\<close>

text \<open>
  \<open>m68ki_read_8_fc\<close> \dots \<open>m68ki_write_32_fc\<close>, pushes, the stack frames of the bus error and
  \<open>m68ki_exception_bus_error\<close> itself (m68kcpu.h).  The handler is defined in two steps: its body
  \<open>bus_error_body\<close> with the handler of nested faults as a parameter, and the handler, which gives
  the body the branch that halts the processor.  \<open>m68ki_exception_bus_error_unfold\<close> shows that this
  is the recursive C function.  The names without \<open>_via\<close> are the accesses with that handler.
\<close>

unbundle bit_operations_syntax

subsection \<open>Sequences of statements\<close>

primrec seq :: "'b op list \<Rightarrow> 'b op" where
  "seq [] s = Ret () s"
| "seq (f # fs) s = chain (f s) (\<lambda>_. seq fs)"

definition step :: "('b machine \<Rightarrow> 'b machine) \<Rightarrow> 'b op" where
  "step f s = Ret () (f s)"

lemma seq_append: "seq (fs @ gs) s = chain (seq fs s) (\<lambda>_. seq gs)"
  by (induction fs arbitrary: s) (auto simp: chain_assoc intro!: chain_cong)

subsection \<open>Address errors\<close>

definition m68ki_check_address_error :: "u32 \<Rightarrow> u32 \<Rightarrow> u32 \<Rightarrow> 'b op" where
  "m68ki_check_address_error ADDR WRITE_MODE FC s =
    (if ADDR AND 1 \<noteq> 0
     then Jump AddressErrorTrap
            (s\<lparr>aerr_address := ADDR, aerr_write_mode := WRITE_MODE, aerr_fc := FC\<rparr>)
     else Ret () s)"

definition m68ki_check_address_error_010_less :: "u32 \<Rightarrow> u32 \<Rightarrow> u32 \<Rightarrow> 'b op" where
  "m68ki_check_address_error_010_less ADDR WRITE_MODE FC s =
    (if CPU_TYPE_IS_010_LESS (cpu_type s) then m68ki_check_address_error ADDR WRITE_MODE FC s
     else Ret () s)"

subsection \<open>Accesses with a function code\<close>

text \<open>The translation step that the six accesses share.\<close>

definition translate_if_enabled_via ::
    "'b op \<Rightarrow> u32 \<Rightarrow> u32 \<Rightarrow> u32 \<Rightarrow> u8 \<Rightarrow> 'b machine \<Rightarrow> ('b, u32) result" where
  "translate_if_enabled_via berr address fc rw sz s =
    (if has_pmmu s \<noteq> 0 \<and> (pmmu_enabled s \<noteq> 0 \<or> mmu_kind s = M68K_MMU_KIND_68040)
     then pmmu_translate_addr_fc_size_via berr address fc rw sz s
     else Ret address s)"

definition m68ki_read_8_fc_via :: "'b op \<Rightarrow> u32 \<Rightarrow> u32 \<Rightarrow> 'b machine \<Rightarrow> ('b, u32) result" where
  "m68ki_read_8_fc_via berr address fc s =
    (let s = m68ki_set_fc fc s
     in chain (translate_if_enabled_via berr address fc 1 1 s) (\<lambda>address s.
        m68k_read_memory_8_via berr (ADDRESS_68K s address) s))"

definition m68ki_read_16_fc_via :: "'b op \<Rightarrow> u32 \<Rightarrow> u32 \<Rightarrow> 'b machine \<Rightarrow> ('b, u32) result" where
  "m68ki_read_16_fc_via berr address fc s =
    (let s = m68ki_set_fc fc s
     in chain (m68ki_check_address_error_010_less address MODE_READ fc s) (\<lambda>_ s.
        chain (translate_if_enabled_via berr address fc 1 2 s) (\<lambda>address s.
        m68k_read_memory_16_via berr (ADDRESS_68K s address) s)))"

definition m68ki_read_32_fc_via :: "'b op \<Rightarrow> u32 \<Rightarrow> u32 \<Rightarrow> 'b machine \<Rightarrow> ('b, u32) result" where
  "m68ki_read_32_fc_via berr address fc s =
    (let s = m68ki_set_fc fc s
     in chain (m68ki_check_address_error_010_less address MODE_READ fc s) (\<lambda>_ s.
        chain (translate_if_enabled_via berr address fc 1 4 s) (\<lambda>address s.
        m68k_read_memory_32_via berr (ADDRESS_68K s address) s)))"

definition m68ki_write_8_fc_via :: "'b op \<Rightarrow> u32 \<Rightarrow> u32 \<Rightarrow> u32 \<Rightarrow> 'b op" where
  "m68ki_write_8_fc_via berr address fc value s =
    (let s = m68ki_set_fc fc s
     in chain (translate_if_enabled_via berr address fc 0 1 s) (\<lambda>address s.
        m68k_write_memory_8_via berr (ADDRESS_68K s address) value s))"

definition m68ki_write_16_fc_via :: "'b op \<Rightarrow> u32 \<Rightarrow> u32 \<Rightarrow> u32 \<Rightarrow> 'b op" where
  "m68ki_write_16_fc_via berr address fc value s =
    (let s = m68ki_set_fc fc s
     in chain (m68ki_check_address_error_010_less address MODE_WRITE fc s) (\<lambda>_ s.
        chain (translate_if_enabled_via berr address fc 0 2 s) (\<lambda>address s.
        m68k_write_memory_16_via berr (ADDRESS_68K s address) value s)))"

definition m68ki_write_32_fc_via :: "'b op \<Rightarrow> u32 \<Rightarrow> u32 \<Rightarrow> u32 \<Rightarrow> 'b op" where
  "m68ki_write_32_fc_via berr address fc value s =
    (let s = m68ki_set_fc fc s
     in chain (m68ki_check_address_error_010_less address MODE_WRITE fc s) (\<lambda>_ s.
        chain (translate_if_enabled_via berr address fc 0 4 s) (\<lambda>address s.
        m68k_write_memory_32_via berr (ADDRESS_68K s address) value s)))"

subsection \<open>Pushing\<close>

definition m68ki_push_16_via :: "'b op \<Rightarrow> u32 \<Rightarrow> 'b op" where
  "m68ki_push_16_via berr value s =
    (let s = set_REG_SP (MASK_OUT_ABOVE_32 (REG_SP s - 2)) s
     in m68ki_write_16_fc_via berr (REG_SP s) (s_flag s OR FUNCTION_CODE_USER_DATA) value s)"

definition m68ki_push_32_via :: "'b op \<Rightarrow> u32 \<Rightarrow> 'b op" where
  "m68ki_push_32_via berr value s =
    (let s = set_REG_SP (MASK_OUT_ABOVE_32 (REG_SP s - 4)) s
     in m68ki_write_32_fc_via berr (REG_SP s) (s_flag s OR FUNCTION_CODE_USER_DATA) value s)"

definition m68ki_fake_push_16 :: "'b machine \<Rightarrow> 'b machine" where
  "m68ki_fake_push_16 s = set_REG_SP (MASK_OUT_ABOVE_32 (REG_SP s - 2)) s"

definition m68ki_fake_push_32 :: "'b machine \<Rightarrow> 'b machine" where
  "m68ki_fake_push_32 s = set_REG_SP (MASK_OUT_ABOVE_32 (REG_SP s - 4)) s"

definition m68ki_fake_pull_16 :: "'b machine \<Rightarrow> 'b machine" where
  "m68ki_fake_pull_16 s = set_REG_SP (MASK_OUT_ABOVE_32 (REG_SP s + 2)) s"

definition m68ki_fake_pull_32 :: "'b machine \<Rightarrow> 'b machine" where
  "m68ki_fake_pull_32 s = set_REG_SP (MASK_OUT_ABOVE_32 (REG_SP s + 4)) s"

subsection \<open>Stack frames of the bus error\<close>

definition m68ki_stack_frame_1000_via :: "'b op \<Rightarrow> u32 \<Rightarrow> u32 \<Rightarrow> u32 \<Rightarrow> 'b op" where
  "m68ki_stack_frame_1000_via berr frame_pc sr vector =
     seq (replicate 8 (step m68ki_fake_push_32)
       @ [m68ki_push_16_via berr 0, step m68ki_fake_push_16,
          m68ki_push_16_via berr 0, step m68ki_fake_push_16,
          m68ki_push_16_via berr 0, step m68ki_fake_push_16,
          m68ki_push_32_via berr 0,
          m68ki_push_16_via berr 0,
          m68ki_push_16_via berr (0x8000 OR push_bit 2 vector),
          m68ki_push_32_via berr frame_pc,
          m68ki_push_16_via berr sr])"

definition m68ki_stack_frame_1010_via :: "'b op \<Rightarrow> u32 \<Rightarrow> u32 \<Rightarrow> u32 \<Rightarrow> u32 \<Rightarrow> u32 \<Rightarrow> 'b op" where
  "m68ki_stack_frame_1010_via berr sr vector frame_pc fault_address ssw =
     seq [m68ki_push_16_via berr 0, m68ki_push_16_via berr 0,
          m68ki_push_32_via berr 0,
          m68ki_push_16_via berr 0, m68ki_push_16_via berr 0,
          m68ki_push_32_via berr fault_address,
          m68ki_push_16_via berr 0, m68ki_push_16_via berr 0,
          m68ki_push_16_via berr ssw,
          m68ki_push_16_via berr 0,
          m68ki_push_16_via berr (0xa000 OR push_bit 2 vector),
          m68ki_push_32_via berr frame_pc,
          m68ki_push_16_via berr sr]"

definition m68ki_stack_frame_1011_via :: "'b op \<Rightarrow> u32 \<Rightarrow> u32 \<Rightarrow> u32 \<Rightarrow> u32 \<Rightarrow> u32 \<Rightarrow> 'b op" where
  "m68ki_stack_frame_1011_via berr sr vector frame_pc fault_address ssw =
     seq (replicate 9 (m68ki_push_32_via berr 0)
       @ [m68ki_push_16_via berr 0,
          m68ki_push_32_via berr 0, m68ki_push_16_via berr 0,
          m68ki_push_32_via berr 0,
          m68ki_push_32_via berr 0,
          m68ki_push_32_via berr 0,
          m68ki_push_32_via berr 0, m68ki_push_32_via berr 0,
          m68ki_push_32_via berr 0,
          m68ki_push_16_via berr 0, m68ki_push_16_via berr 0,
          m68ki_push_32_via berr fault_address,
          m68ki_push_16_via berr 0, m68ki_push_16_via berr 0,
          m68ki_push_16_via berr ssw,
          m68ki_push_16_via berr 0,
          m68ki_push_16_via berr (0xb000 OR push_bit 2 vector),
          m68ki_push_32_via berr frame_pc,
          m68ki_push_16_via berr sr])"

definition m68ki_stack_frame_0111_via :: "'b op \<Rightarrow> u32 \<Rightarrow> u32 \<Rightarrow> u32 \<Rightarrow> u32 \<Rightarrow> u32 \<Rightarrow> 'b op" where
  "m68ki_stack_frame_0111_via berr sr vector frame_pc fault_address ssw =
     seq (replicate 9 (step m68ki_fake_push_32)
       @ [m68ki_push_32_via berr fault_address,
          m68ki_push_16_via berr 0, m68ki_push_16_via berr 0, m68ki_push_16_via berr 0,
          m68ki_push_16_via berr ssw,
          m68ki_push_32_via berr fault_address,
          m68ki_push_16_via berr (0x7000 OR push_bit 2 vector),
          m68ki_push_32_via berr frame_pc,
          m68ki_push_16_via berr sr])"

subsection \<open>Entering an exception\<close>

definition m68ki_init_exception :: "'b machine \<Rightarrow> u32 \<times> 'b machine" where
  "m68ki_init_exception s =
    (let sr = m68ki_get_sr s;
         s = s\<lparr>t1_flag := 0, t0_flag := 0\<rparr>
     in (sr, m68ki_set_s_flag SFLAG_SET s))"

definition m68ki_jump :: "u32 \<Rightarrow> 'b machine \<Rightarrow> 'b machine" where
  "m68ki_jump new_pc s = s\<lparr>pc := new_pc\<rparr>"

definition m68ki_jump_vector_via :: "'b op \<Rightarrow> u32 \<Rightarrow> 'b op" where
  "m68ki_jump_vector_via berr vector s =
    (let s = s\<lparr>pc := push_bit 2 vector + vbr s\<rparr>
     in chain (m68ki_read_32_fc_via berr (pc s) (s_flag s OR FUNCTION_CODE_USER_DATA) s)
        (\<lambda>v s. Ret () (s\<lparr>pc := v\<rparr>)))"

definition USE_CYCLES :: "u32 \<Rightarrow> 'b machine \<Rightarrow> 'b machine" where
  "USE_CYCLES A s = s\<lparr>remaining_cycles := remaining_cycles s - A\<rparr>"

definition CYC_EXCEPTION :: "u32 \<Rightarrow> 'b machine \<Rightarrow> u32" where
  "CYC_EXCEPTION vector s = ucast (cyc_exception s vector)"

definition CYC_INSTRUCTION :: "'b machine \<Rightarrow> u32" where
  "CYC_INSTRUCTION s = ucast (cyc_instruction s (ir s))"

primrec restore_dar :: "nat list \<Rightarrow> 'b machine \<Rightarrow> 'b machine" where
  "restore_dar [] s = s"
| "restore_dar (i # is) s = restore_dar is (s\<lparr>dar := (dar s)(i := dar_save s i)\<rparr>)"

primrec save_dar :: "nat list \<Rightarrow> 'b machine \<Rightarrow> 'b machine" where
  "save_dar [] s = s"
| "save_dar (i # is) s = save_dar is (s\<lparr>dar_save := (dar_save s)(i := dar s i)\<rparr>)"

subsection \<open>The bus error exception\<close>

definition ssw_040 :: "'b machine \<Rightarrow> u32" where
  "ssw_040 s = (if mmu_fault_is_mmu s \<noteq> 0 then 0x0400 else 0)
     OR (if mmu_fault_rw s \<noteq> 0 then 0x0100 else 0) OR (ucast (mmu_fault_fc s) AND 7)"

definition ssw_020 :: "'b machine \<Rightarrow> u32" where
  "ssw_020 s = 0x0100 OR (if mmu_fault_rw s \<noteq> 0 then 0x0040 else 0) OR (ucast (mmu_fault_fc s) AND 7)
     OR (if mmu_fault_size s = 2 then 0x0010 else if mmu_fault_size s = 4 then 0x0020 else 0)"

definition bus_error_halt :: "'b op" where
  "bus_error_halt s = Ret () (s\<lparr>stopped := STOP_LEVEL_HALT\<rparr>)"

definition bus_error_body :: "'b op \<Rightarrow> 'b op" where
  "bus_error_body berr s =
    (let s = s\<lparr>run_mode := RUN_MODE_BERR_AERR_RESET_WSF\<rparr>;
         s = USE_CYCLES (CYC_EXCEPTION EXCEPTION_BUS_ERROR s - CYC_INSTRUCTION s) s;
         s = restore_dar (rev [0..<16]) s;
         (sr, s) = m68ki_init_exception s
     in chain
         (if CPU_TYPE_IS_040_PLUS (cpu_type s)
          then m68ki_stack_frame_0111_via berr sr EXCEPTION_BUS_ERROR (ppc s) (mmu_fault_address s)
                 (ssw_040 s) s
          else if CPU_TYPE_IS_EC020_PLUS (cpu_type s)
          then (if mmu_fault_is_mmu s \<noteq> 0
                then m68ki_stack_frame_1010_via berr sr EXCEPTION_BUS_ERROR (ppc s)
                       (mmu_fault_address s) (ssw_020 s) s
                else m68ki_stack_frame_1011_via berr sr EXCEPTION_BUS_ERROR (ppc s)
                       (mmu_fault_address s) (ssw_020 s) s)
          else m68ki_stack_frame_1000_via berr (ppc s) sr EXCEPTION_BUS_ERROR s)
         (\<lambda>_ s. chain (m68ki_jump_vector_via berr EXCEPTION_BUS_ERROR s)
         (\<lambda>_ s. Jump BusErrorTrap (s\<lparr>run_mode := RUN_MODE_BERR_AERR_RESET\<rparr>))))"

definition m68ki_exception_bus_error :: "'b op" where
  "m68ki_exception_bus_error s =
    (if run_mode s = RUN_MODE_BERR_AERR_RESET_WSF then bus_error_halt s
     else bus_error_body bus_error_halt s)"


subsection \<open>Nested faults\<close>

text \<open>
  Two handlers that agree on the states of a fault in progress cannot be told apart by the
  operations below the handler when these start in such a state.  \<open>same\<close> relates the two results:
  they are equal, a fault is still in progress, and the only jump is that of an address error.
\<close>

abbreviation in_fault :: "'b machine \<Rightarrow> bool" where
  "in_fault s \<equiv> run_mode s = RUN_MODE_BERR_AERR_RESET_WSF"

definition same :: "('b, 'a) result \<Rightarrow> ('b, 'a) result \<Rightarrow> bool" where
  "same r r' \<longleftrightarrow> r = r' \<and> holds (\<lambda>_ t. in_fault t) (\<lambda>j t. j = AddressErrorTrap \<and> in_fault t) r"

named_theorems same_rules \<open>rules for \<open>same\<close>\<close>

lemma same_chain [same_rules]:
  assumes "same r r'" and "\<And>a t. in_fault t \<Longrightarrow> same (f a t) (f' a t)"
  shows "same (chain r f) (chain r' f')"
proof (cases r)
  case (Ret a t)
  with assms(1) have "r' = Ret a t" "in_fault t" by (auto simp: same_def)
  with Ret assms(2) [of t a] show ?thesis by simp
next
  case (Jump j t)
  with assms(1) show ?thesis by (auto simp: same_def)
qed

lemma same_Ret [same_rules]: "in_fault s \<Longrightarrow> same (Ret a s) (Ret a s)"
  by (simp add: same_def)

lemma same_Jump [same_rules]: "in_fault s \<Longrightarrow> same (Jump AddressErrorTrap s) (Jump AddressErrorTrap s)"
  by (simp add: same_def)

lemma same_if [same_rules]:
  "(b \<Longrightarrow> same r r') \<Longrightarrow> (\<not> b \<Longrightarrow> same q q') \<Longrightarrow> same (if b then r else q) (if b then r' else q')"
  by simp

lemma same_let [same_rules]:
  "(\<And>x. x = a \<Longrightarrow> same (f x) (f' x)) \<Longrightarrow> same (let x = a in f x) (let x = a in f' x)"
  by simp

lemma same_option [same_rules]:
  "(x = None \<Longrightarrow> same r r') \<Longrightarrow> (\<And>a. x = Some a \<Longrightarrow> same (f a) (f' a)) \<Longrightarrow>
   same (case x of None \<Rightarrow> r | Some a \<Rightarrow> f a) (case x of None \<Rightarrow> r' | Some a \<Rightarrow> f' a)"
  by (cases x) auto

lemma same_prod [same_rules]:
  "(\<And>a b. x = (a, b) \<Longrightarrow> same (f a b) (f' a b)) \<Longrightarrow>
   same (case x of (a, b) \<Rightarrow> f a b) (case x of (a, b) \<Rightarrow> f' a b)"
  by (cases x) auto

lemma same_prod_apply [same_rules]:
  "(\<And>a b. x = (a, b) \<Longrightarrow> same (f a b s) (f' a b s)) \<Longrightarrow>
   same ((case x of (a, b) \<Rightarrow> f a b) s) ((case x of (a, b) \<Rightarrow> f' a b) s)"
  by (cases x) auto

lemma run_mode_simps [simp]:
  "run_mode (set_REG_SP v s) = run_mode s"
  "run_mode (m68ki_set_fc fc s) = run_mode s"
  "run_mode (set_atc i e s) = run_mode s"
  "run_mode (m68ki_fake_push_16 s) = run_mode s"
  "run_mode (m68ki_fake_push_32 s) = run_mode s"
  by (simp_all add: set_REG_SP_def m68ki_set_fc_def set_atc_def m68ki_fake_push_16_def
      m68ki_fake_push_32_def)

lemma run_mode_pmmu_atc_add [simp]: "run_mode (pmmu_atc_add logical physical fc r s) = run_mode s"
  by (simp add: pmmu_atc_add_def Let_def)

lemma run_mode_pmmu_atc_lookup_from:
  "pmmu_atc_lookup_from is shift address fc rw ptest r s = (found, r', s') \<Longrightarrow> run_mode s' = run_mode s"
  by (induction "is" arbitrary: s) (auto simp: Let_def split: if_splits)

lemma run_mode_pmmu_atc_lookup:
  "pmmu_atc_lookup address fc rw ptest r s = (found, r', s') \<Longrightarrow> run_mode s' = run_mode s"
  unfolding pmmu_atc_lookup_def by (rule run_mode_pmmu_atc_lookup_from)

text \<open>The body in two parts: the frame, and the vector with the jump.\<close>

definition bus_error_frame :: "'b op \<Rightarrow> 'b op" where
  "bus_error_frame berr s =
    (let s = s\<lparr>run_mode := RUN_MODE_BERR_AERR_RESET_WSF\<rparr>;
         s = USE_CYCLES (CYC_EXCEPTION EXCEPTION_BUS_ERROR s - CYC_INSTRUCTION s) s;
         s = restore_dar (rev [0..<16]) s;
         (sr, s) = m68ki_init_exception s
     in if CPU_TYPE_IS_040_PLUS (cpu_type s)
        then m68ki_stack_frame_0111_via berr sr EXCEPTION_BUS_ERROR (ppc s) (mmu_fault_address s)
               (ssw_040 s) s
        else if CPU_TYPE_IS_EC020_PLUS (cpu_type s)
        then (if mmu_fault_is_mmu s \<noteq> 0
              then m68ki_stack_frame_1010_via berr sr EXCEPTION_BUS_ERROR (ppc s)
                     (mmu_fault_address s) (ssw_020 s) s
              else m68ki_stack_frame_1011_via berr sr EXCEPTION_BUS_ERROR (ppc s)
                     (mmu_fault_address s) (ssw_020 s) s)
        else m68ki_stack_frame_1000_via berr (ppc s) sr EXCEPTION_BUS_ERROR s)"

lemma bus_error_body_eq:
  "bus_error_body berr s =
     chain (chain (bus_error_frame berr s) (\<lambda>_. m68ki_jump_vector_via berr EXCEPTION_BUS_ERROR))
       (\<lambda>_ s. Jump BusErrorTrap (s\<lparr>run_mode := RUN_MODE_BERR_AERR_RESET\<rparr>))"
  by (simp add: bus_error_body_def bus_error_frame_def Let_def chain_assoc split: prod.splits)

locale nested_fault =
  fixes berr berr' :: "'b op"
  assumes agree: "in_fault s \<Longrightarrow> same (berr s) (berr' s)"
begin

lemma report: "in_fault s \<Longrightarrow>
  same (m68k_report_physical_bus_error_via berr address w sz s)
       (m68k_report_physical_bus_error_via berr' address w sz s)"
  unfolding m68k_report_physical_bus_error_via_def by (intro same_rules agree) simp_all

lemma finish_read: "in_fault s \<Longrightarrow>
  same (finish_read berr address sz v e s) (finish_read berr' address sz v e s)"
  unfolding finish_read_def by (intro same_rules report) simp_all

lemma finish_write: "in_fault s \<Longrightarrow>
  same (finish_write berr address sz r s) (finish_write berr' address sz r s)"
  unfolding finish_write_def by (intro same_rules report) simp_all

lemma read_memory: "in_fault s \<Longrightarrow>
  same (m68k_read_memory_8_via berr address s) (m68k_read_memory_8_via berr' address s)"
  "in_fault s \<Longrightarrow>
  same (m68k_read_memory_16_via berr address s) (m68k_read_memory_16_via berr' address s)"
  "in_fault s \<Longrightarrow>
  same (m68k_read_memory_32_via berr address s) (m68k_read_memory_32_via berr' address s)"
  unfolding m68k_read_memory_8_via_def m68k_read_memory_16_via_def m68k_read_memory_32_via_def
  by (intro same_rules finish_read; simp)+

lemma write_memory: "in_fault s \<Longrightarrow>
  same (m68k_write_memory_8_via berr address v s) (m68k_write_memory_8_via berr' address v s)"
  "in_fault s \<Longrightarrow>
  same (m68k_write_memory_16_via berr address v s) (m68k_write_memory_16_via berr' address v s)"
  "in_fault s \<Longrightarrow>
  same (m68k_write_memory_32_via berr address v s) (m68k_write_memory_32_via berr' address v s)"
  unfolding m68k_write_memory_8_via_def m68k_write_memory_16_via_def m68k_write_memory_32_via_def
  by (intro same_rules finish_write; simp)+

lemma read_descriptor: "in_fault s \<Longrightarrow>
  same (read_descriptor_via berr address l s) (read_descriptor_via berr' address l s)"
  unfolding read_descriptor_via_def by (intro same_rules read_memory) simp_all

lemma update_descriptor: "in_fault s \<Longrightarrow>
  same (pmmu_update_descriptor_via berr address type first rw s)
       (pmmu_update_descriptor_via berr' address type first rw s)"
  unfolding pmmu_update_descriptor_via_def by (intro same_rules write_memory) simp_all

lemma walk_descend: "in_fault s \<Longrightarrow>
  same (walk_descend_via berr fc rw se ib address first second l w s)
       (walk_descend_via berr' fc rw se ib address first second l w s)"
  unfolding walk_descend_via_def by (intro same_rules update_descriptor) simp_all

lemma walk_step: "in_fault s \<Longrightarrow>
  same (walk_step_via berr bits fc rw se w s) (walk_step_via berr' bits fc rw se w s)"
  unfolding walk_step_via_def by (intro same_rules read_descriptor walk_descend) simp_all

lemma walk_loop: "in_fault s \<Longrightarrow>
  same (pmmu_walk_loop_via berr bits fc rw limit se w s) (pmmu_walk_loop_via berr' bits fc rw limit se w s)"
proof (induction "walk_measure (walk_level w)" arbitrary: w s rule: less_induct)
  case less
  have step: "same (walk_step_via berr bits fc rw se w s) (walk_step_via berr' bits fc rw se w s)"
    using less.prems by (rule walk_step)
  then have eq: "walk_step_via berr bits fc rw se w s = walk_step_via berr' bits fc rw se w s"
    by (simp add: same_def)
  show ?case
  proof (cases "walk_step_via berr bits fc rw se w s")
    case (Jump j t)
    then have "walk_step_via berr' bits fc rw se w s = Jump j t" "j = AddressErrorTrap" "in_fault t"
      using step by (simp_all add: eq) (simp_all add: same_def)
    with Jump show ?thesis
      by (simp add: pmmu_walk_loop_via.simps [of _ bits fc rw limit se w s] same_Jump)
  next
    case (Ret w' t)
    with step have t: "in_fault t" by (simp add: same_def)
    show ?thesis
    proof (cases "walk_resolved w' \<or> limit \<le> walk_level w' \<or> 7 \<le> walk_level w'")
      case True
      with Ret eq t show ?thesis
        by (simp add: pmmu_walk_loop_via.simps [of _ bits fc rw limit se w s] same_Ret)
    next
      case False
      then have "walk_measure (walk_level w') < walk_measure (walk_level w)"
        using walk_step_level [OF Ret] walk_measure_less by (simp add: not_le)
      from less.hyps [OF this t] False Ret eq show ?thesis
        by (simp add: pmmu_walk_loop_via.simps [of _ bits fc rw limit se w s])
    qed
  qed
qed

lemma walk_tables: "in_fault s \<Longrightarrow>
  same (pmmu_walk_tables_via berr logical fc rw limit se r s)
       (pmmu_walk_tables_via berr' logical fc rw limit se r s)"
  unfolding pmmu_walk_tables_via_def by (intro same_rules walk_loop) simp_all

lemma table_level_040:
  assumes "\<And>e t. in_fault t \<Longrightarrow> same (f e t) (f' e t)" and "in_fault s"
  shows "same (table_level_040_via berr address rw se r f s) (table_level_040_via berr' address rw se r f' s)"
  unfolding table_level_040_via_def invalid_040_def protected_page_040_def finish_040_def
  by (intro same_rules read_memory write_memory assms) (simp_all add: assms)

lemma page_level_040: "in_fault s \<Longrightarrow>
  same (page_level_040_via berr fc rw se m po r pa pe s) (page_level_040_via berr' fc rw se m po r pa pe s)"
  unfolding page_level_040_via_def invalid_040_def protected_page_040_def finish_040_def
  by (intro same_rules write_memory) simp_all

lemma translate_040: "in_fault s \<Longrightarrow>
  same (pmmu_translate_040_via berr logical fc rw se s) (pmmu_translate_040_via berr' logical fc rw se s)"
  unfolding pmmu_translate_040_via_def
  by (intro same_rules table_level_040 page_level_040 read_memory) simp_all

lemma finished: "in_fault s \<Longrightarrow>
  same (pmmu_finished_via berr logical fc rw sz i r s) (pmmu_finished_via berr' logical fc rw sz i r s)"
  unfolding pmmu_finished_via_def pmmu_fault_via_def by (intro same_rules agree) simp_all

lemma pmmu_translate: "in_fault s \<Longrightarrow>
  same (pmmu_translate_via berr logical fc rw sz i limit s) (pmmu_translate_via berr' logical fc rw sz i limit s)"
  unfolding pmmu_translate_via_def
  by (intro same_rules translate_040 finished walk_tables)
    (auto dest!: run_mode_pmmu_atc_lookup run_mode_pmmu_atc_lookup [OF sym] split: if_splits)

lemma translate_if_enabled: "in_fault s \<Longrightarrow>
  same (translate_if_enabled_via berr address fc rw sz s) (translate_if_enabled_via berr' address fc rw sz s)"
  unfolding translate_if_enabled_via_def pmmu_translate_addr_fc_size_via_def
  by (intro same_rules pmmu_translate) simp_all

lemma address_error_010: "in_fault s \<Longrightarrow>
  same (m68ki_check_address_error_010_less a m fc s) (m68ki_check_address_error_010_less a m fc s)"
  unfolding m68ki_check_address_error_010_less_def m68ki_check_address_error_def
  by (intro same_rules) simp_all

lemma read_fc: "in_fault s \<Longrightarrow>
  same (m68ki_read_32_fc_via berr address fc s) (m68ki_read_32_fc_via berr' address fc s)"
  unfolding m68ki_read_32_fc_via_def
  by (intro same_rules translate_if_enabled address_error_010 read_memory) simp_all

lemma write_fc: "in_fault s \<Longrightarrow>
  same (m68ki_write_16_fc_via berr address fc v s) (m68ki_write_16_fc_via berr' address fc v s)"
  "in_fault s \<Longrightarrow>
  same (m68ki_write_32_fc_via berr address fc v s) (m68ki_write_32_fc_via berr' address fc v s)"
  unfolding m68ki_write_16_fc_via_def m68ki_write_32_fc_via_def
  by (intro same_rules translate_if_enabled address_error_010 write_memory; simp)+

lemma push: "in_fault s \<Longrightarrow> same (m68ki_push_16_via berr v s) (m68ki_push_16_via berr' v s)"
  "in_fault s \<Longrightarrow> same (m68ki_push_32_via berr v s) (m68ki_push_32_via berr' v s)"
  unfolding m68ki_push_16_via_def m68ki_push_32_via_def
  by (intro same_rules write_fc; simp)+

lemma same_seq:
  assumes "list_all2 (\<lambda>f g. \<forall>t. in_fault t \<longrightarrow> same (f t) (g t)) fs gs" and "in_fault s"
  shows "same (seq fs s) (seq gs s)"
  using assms by (induction arbitrary: s rule: list_all2_induct) (auto intro!: same_rules)

lemma fake_push: "in_fault s \<Longrightarrow> same (step m68ki_fake_push_16 s) (step m68ki_fake_push_16 s)"
  "in_fault s \<Longrightarrow> same (step m68ki_fake_push_32 s) (step m68ki_fake_push_32 s)"
  unfolding step_def by (intro same_rules; simp)+

lemma frames:
  "in_fault s \<Longrightarrow> same (m68ki_stack_frame_0111_via berr sr v p a ssw s)
     (m68ki_stack_frame_0111_via berr' sr v p a ssw s)"
  "in_fault s \<Longrightarrow> same (m68ki_stack_frame_1010_via berr sr v p a ssw s)
     (m68ki_stack_frame_1010_via berr' sr v p a ssw s)"
  "in_fault s \<Longrightarrow> same (m68ki_stack_frame_1011_via berr sr v p a ssw s)
     (m68ki_stack_frame_1011_via berr' sr v p a ssw s)"
  "in_fault s \<Longrightarrow> same (m68ki_stack_frame_1000_via berr p sr v s)
     (m68ki_stack_frame_1000_via berr' p sr v s)"
  unfolding m68ki_stack_frame_0111_via_def m68ki_stack_frame_1010_via_def
    m68ki_stack_frame_1011_via_def m68ki_stack_frame_1000_via_def
  by (intro same_seq; simp add: numeral_eq_Suc push fake_push)+

lemma jump_vector: "in_fault s \<Longrightarrow>
  same (m68ki_jump_vector_via berr v s) (m68ki_jump_vector_via berr' v s)"
  unfolding m68ki_jump_vector_via_def by (intro same_rules read_fc) simp_all

lemma run_mode_restore_dar: "run_mode (restore_dar is s) = run_mode s"
  by (induction "is" arbitrary: s) simp_all

text \<open>The body up to the jump that ends it.\<close>

lemma body_start: "same
    (chain (bus_error_frame berr s) (\<lambda>_. m68ki_jump_vector_via berr EXCEPTION_BUS_ERROR))
    (chain (bus_error_frame berr' s) (\<lambda>_. m68ki_jump_vector_via berr' EXCEPTION_BUS_ERROR))"
  unfolding bus_error_frame_def
  by (intro same_rules frames jump_vector)
    (auto simp: USE_CYCLES_def m68ki_init_exception_def m68ki_set_s_flag_def Let_def
      run_mode_restore_dar)

lemma body: "bus_error_body berr s = bus_error_body berr' s"
  using body_start [of s] by (simp add: bus_error_body_eq same_def)

lemma body_outcome: "holds (\<lambda>_ _. False)
    (\<lambda>j t. if j = BusErrorTrap then run_mode t = RUN_MODE_BERR_AERR_RESET
           else j = AddressErrorTrap \<and> in_fault t) (bus_error_body berr s)"
proof -
  have "holds (\<lambda>_ t. in_fault t) (\<lambda>j t. j = AddressErrorTrap \<and> in_fault t)
      (chain (bus_error_frame berr s) (\<lambda>_. m68ki_jump_vector_via berr EXCEPTION_BUS_ERROR))"
    using body_start [of s] by (auto simp: same_def)
  then show ?thesis
    unfolding bus_error_body_eq by (rule holds_chain [OF holds_mono]) simp_all
qed

end

lemma nested_fault_halt: "nested_fault bus_error_halt m68ki_exception_bus_error"
proof
  fix s :: "'a machine"
  assume "in_fault s"
  then show "same (bus_error_halt s) (m68ki_exception_bus_error s)"
    by (simp add: same_def m68ki_exception_bus_error_def bus_error_halt_def)
qed

interpretation halting: nested_fault bus_error_halt m68ki_exception_bus_error
  by (rule nested_fault_halt)

text \<open>The handler satisfies the recursion of the C function: nested faults call the handler.\<close>

lemma m68ki_exception_bus_error_unfold:
  "m68ki_exception_bus_error s =
    (if run_mode s = RUN_MODE_BERR_AERR_RESET_WSF
     then Ret () (s\<lparr>stopped := STOP_LEVEL_HALT\<rparr>)
     else bus_error_body m68ki_exception_bus_error s)"
  using halting.body [of s] by (simp add: m68ki_exception_bus_error_def bus_error_halt_def)

text \<open>It never returns unless a fault is in progress already.\<close>

lemma bus_error_no_return:
  "\<not> in_fault s \<Longrightarrow> holds (\<lambda>_ _. False)
     (\<lambda>j t. if j = BusErrorTrap then run_mode t = RUN_MODE_BERR_AERR_RESET
            else j = AddressErrorTrap \<and> in_fault t) (m68ki_exception_bus_error s)"
  using halting.body_outcome [of s] by (simp add: m68ki_exception_bus_error_def)

end
