(* ===== verification/Operands.thy ===== *)
theory Operands
  imports BusError
begin

section \<open>Accesses, instruction fetch and effective addresses\<close>

text \<open>
  The accesses of the instruction handlers (m68kcpu.h): the top level reads and writes with the bus
  error handler in place, immediate reads through the two-word prefetch queue, the effective address
  macros \<open>EA_*\<close>, indexed addressing in its brief and full formats, the operand readers \<open>OPER_*\<close>,
  the stack, jumps and branches.
\<close>

unbundle bit_operations_syntax

subsection \<open>Accesses\<close>

definition m68ki_read_8_fc :: "u32 \<Rightarrow> u32 \<Rightarrow> 'b machine \<Rightarrow> ('b, u32) result" where
  "m68ki_read_8_fc = m68ki_read_8_fc_via m68ki_exception_bus_error"

definition m68ki_read_16_fc :: "u32 \<Rightarrow> u32 \<Rightarrow> 'b machine \<Rightarrow> ('b, u32) result" where
  "m68ki_read_16_fc = m68ki_read_16_fc_via m68ki_exception_bus_error"

definition m68ki_read_32_fc :: "u32 \<Rightarrow> u32 \<Rightarrow> 'b machine \<Rightarrow> ('b, u32) result" where
  "m68ki_read_32_fc = m68ki_read_32_fc_via m68ki_exception_bus_error"

definition m68ki_write_8_fc :: "u32 \<Rightarrow> u32 \<Rightarrow> u32 \<Rightarrow> 'b op" where
  "m68ki_write_8_fc = m68ki_write_8_fc_via m68ki_exception_bus_error"

definition m68ki_write_16_fc :: "u32 \<Rightarrow> u32 \<Rightarrow> u32 \<Rightarrow> 'b op" where
  "m68ki_write_16_fc = m68ki_write_16_fc_via m68ki_exception_bus_error"

definition m68ki_write_32_fc :: "u32 \<Rightarrow> u32 \<Rightarrow> u32 \<Rightarrow> 'b op" where
  "m68ki_write_32_fc = m68ki_write_32_fc_via m68ki_exception_bus_error"

definition m68ki_read_8 :: "u32 \<Rightarrow> 'b machine \<Rightarrow> ('b, u32) result" where
  "m68ki_read_8 A s = m68ki_read_8_fc A (s_flag s OR address_space s) s"

definition m68ki_read_16 :: "u32 \<Rightarrow> 'b machine \<Rightarrow> ('b, u32) result" where
  "m68ki_read_16 A s = m68ki_read_16_fc A (s_flag s OR address_space s) s"

definition m68ki_read_32 :: "u32 \<Rightarrow> 'b machine \<Rightarrow> ('b, u32) result" where
  "m68ki_read_32 A s = m68ki_read_32_fc A (s_flag s OR address_space s) s"

definition m68ki_read_program_8 :: "u32 \<Rightarrow> 'b machine \<Rightarrow> ('b, u32) result" where
  "m68ki_read_program_8 A s = m68ki_read_8_fc A (s_flag s OR FUNCTION_CODE_USER_PROGRAM) s"

definition m68ki_read_program_16 :: "u32 \<Rightarrow> 'b machine \<Rightarrow> ('b, u32) result" where
  "m68ki_read_program_16 A s = m68ki_read_16_fc A (s_flag s OR FUNCTION_CODE_USER_PROGRAM) s"

definition m68ki_read_program_32 :: "u32 \<Rightarrow> 'b machine \<Rightarrow> ('b, u32) result" where
  "m68ki_read_program_32 A s = m68ki_read_32_fc A (s_flag s OR FUNCTION_CODE_USER_PROGRAM) s"

definition m68ki_read_pcrel_8 :: "u32 \<Rightarrow> 'b machine \<Rightarrow> ('b, u32) result" where
  "m68ki_read_pcrel_8 A = m68ki_read_program_8 A"

definition m68ki_read_pcrel_16 :: "u32 \<Rightarrow> 'b machine \<Rightarrow> ('b, u32) result" where
  "m68ki_read_pcrel_16 A = m68ki_read_program_16 A"

definition m68ki_read_pcrel_32 :: "u32 \<Rightarrow> 'b machine \<Rightarrow> ('b, u32) result" where
  "m68ki_read_pcrel_32 A = m68ki_read_program_32 A"

definition m68ki_read_data_32 :: "u32 \<Rightarrow> 'b machine \<Rightarrow> ('b, u32) result" where
  "m68ki_read_data_32 A s = m68ki_read_32_fc A (s_flag s OR FUNCTION_CODE_USER_DATA) s"

definition m68ki_write_8 :: "u32 \<Rightarrow> u32 \<Rightarrow> 'b op" where
  "m68ki_write_8 A V s = m68ki_write_8_fc A (s_flag s OR FUNCTION_CODE_USER_DATA) V s"

definition m68ki_write_16 :: "u32 \<Rightarrow> u32 \<Rightarrow> 'b op" where
  "m68ki_write_16 A V s = m68ki_write_16_fc A (s_flag s OR FUNCTION_CODE_USER_DATA) V s"

definition m68ki_write_32 :: "u32 \<Rightarrow> u32 \<Rightarrow> 'b op" where
  "m68ki_write_32 A V s = m68ki_write_32_fc A (s_flag s OR FUNCTION_CODE_USER_DATA) V s"

definition m68ki_use_data_space :: "'b machine \<Rightarrow> 'b machine" where
  "m68ki_use_data_space s = s\<lparr>address_space := FUNCTION_CODE_USER_DATA\<rparr>"

definition m68ki_use_program_space :: "'b machine \<Rightarrow> 'b machine" where
  "m68ki_use_program_space s = s\<lparr>address_space := FUNCTION_CODE_USER_PROGRAM\<rparr>"

subsection \<open>The stack\<close>

definition m68ki_push_16 :: "u32 \<Rightarrow> 'b op" where
  "m68ki_push_16 = m68ki_push_16_via m68ki_exception_bus_error"

definition m68ki_push_32 :: "u32 \<Rightarrow> 'b op" where
  "m68ki_push_32 = m68ki_push_32_via m68ki_exception_bus_error"

definition m68ki_pull_16 :: "'b machine \<Rightarrow> ('b, u32) result" where
  "m68ki_pull_16 s =
    (let s = set_REG_SP (MASK_OUT_ABOVE_32 (REG_SP s + 2)) s in m68ki_read_16 (REG_SP s - 2) s)"

definition m68ki_pull_32 :: "'b machine \<Rightarrow> ('b, u32) result" where
  "m68ki_pull_32 s =
    (let s = set_REG_SP (MASK_OUT_ABOVE_32 (REG_SP s + 4)) s in m68ki_read_32 (REG_SP s - 4) s)"

subsection \<open>Immediate reads\<close>

text \<open>Loading \<open>CPU_PREF_DATA\<close> from \<open>CPU_PREF_ADDR\<close>.\<close>

definition m68ki_prefetch :: "'b op" where
  "m68ki_prefetch s =
     chain (m68ki_read_program_16 (ADDRESS_68K s (pref_addr s)) s) (\<lambda>v s. Ret () (s\<lparr>pref_data := v\<rparr>))"

text \<open>What the immediate reads do first: check the address and fill the queue if it is stale.\<close>

definition m68ki_fetch_start :: "'b op" where
  "m68ki_fetch_start s =
    (let s = m68ki_set_fc (s_flag s OR FUNCTION_CODE_USER_PROGRAM) s
     in chain (m68ki_check_address_error (pc s) MODE_READ (s_flag s OR FUNCTION_CODE_USER_PROGRAM) s)
        (\<lambda>_ s. if pc s \<noteq> pref_addr s then m68ki_prefetch (s\<lparr>pref_addr := pc s\<rparr>) else Ret () s))"

text \<open>Step over the word in the queue and fetch the next one.\<close>

definition m68ki_fetch_next :: "'b op" where
  "m68ki_fetch_next s =
    (let s = s\<lparr>pc := pc s + 2\<rparr>; s = s\<lparr>pref_addr := pc s\<rparr> in m68ki_prefetch s)"

definition m68ki_read_imm_16 :: "'b machine \<Rightarrow> ('b, u32) result" where
  "m68ki_read_imm_16 s =
     chain (m68ki_fetch_start s) (\<lambda>_ s.
     let r = MASK_OUT_ABOVE_16 (pref_data s)
     in chain (m68ki_fetch_next s) (\<lambda>_. Ret r))"

definition m68ki_read_imm_8 :: "'b machine \<Rightarrow> ('b, u32) result" where
  "m68ki_read_imm_8 s = chain (m68ki_read_imm_16 s) (\<lambda>v. Ret (MASK_OUT_ABOVE_8 v))"

definition m68ki_read_imm_32 :: "'b machine \<Rightarrow> ('b, u32) result" where
  "m68ki_read_imm_32 s =
     chain (m68ki_fetch_start s) (\<lambda>_ s.
     let temp_val = MASK_OUT_ABOVE_16 (pref_data s)
     in chain (m68ki_fetch_next s) (\<lambda>_ s.
        let temp_val = MASK_OUT_ABOVE_32 (push_bit 16 temp_val OR MASK_OUT_ABOVE_16 (pref_data s))
        in chain (m68ki_fetch_next s) (\<lambda>_. Ret temp_val)))"

subsection \<open>Indexed addressing\<close>

definition m68ki_ea_idx_cycle_table :: "u32 list" where
  "m68ki_ea_idx_cycle_table =
     replicate 16 0
     @ [0, 5, 7, 7, 0, 5, 7, 7, 0, 5, 7, 7, 0, 5, 7, 7]
     @ [2, 7, 9, 9, 0, 7, 9, 9, 0, 7, 9, 9, 0, 7, 9, 9]
     @ [6, 11, 13, 13, 0, 11, 13, 13, 0, 11, 13, 13, 0, 11, 13, 13]"

text \<open>The displacement that \<open>present\<close> selects: a long or a sign-extended word.\<close>

definition ea_displacement :: "bool \<Rightarrow> bool \<Rightarrow> 'b machine \<Rightarrow> ('b, u32) result" where
  "ea_displacement present long s =
    (if \<not> present then Ret 0 s
     else if long then m68ki_read_imm_32 s
     else chain (m68ki_read_imm_16 s) (\<lambda>v. Ret (MAKE_INT_16 v)))"

definition m68ki_get_ea_ix :: "u32 \<Rightarrow> 'b machine \<Rightarrow> ('b, u32) result" where
  "m68ki_get_ea_ix An s =
     chain (m68ki_read_imm_16 s) (\<lambda>extension s.
     let Xn = REG_DA s (drop_bit 12 extension);
         Xn = (if BIT 11 extension = 0 then MAKE_INT_16 Xn else Xn);
         scale = unat (drop_bit 9 extension AND 3)
     in if CPU_TYPE_IS_010_LESS (cpu_type s) then Ret (An + Xn + MAKE_INT_8 extension) s
        else if BIT 8 extension = 0
        then (let Xn = (if CPU_TYPE_IS_EC020_PLUS (cpu_type s) then push_bit scale Xn else Xn)
              in Ret (An + Xn + MAKE_INT_8 extension) s)
        else
          let s = USE_CYCLES (m68ki_ea_idx_cycle_table ! unat (extension AND 0x3f)) s;
              An = (if BIT 7 extension \<noteq> 0 then 0 else An);
              Xn = (if BIT 6 extension = 0 then push_bit scale Xn else 0)
          in chain (ea_displacement (BIT 5 extension \<noteq> 0) (BIT 4 extension \<noteq> 0) s) (\<lambda>bd s.
             if extension AND 7 = 0 then Ret (An + bd + Xn) s
             else chain (ea_displacement (BIT 1 extension \<noteq> 0) (BIT 0 extension \<noteq> 0) s) (\<lambda>od s.
               if BIT 2 extension \<noteq> 0
               then chain (m68ki_read_32 (An + bd) s) (\<lambda>v. Ret (v + Xn + od))
               else chain (m68ki_read_32 (An + bd + Xn) s) (\<lambda>v. Ret (v + od)))))"

definition m68ki_get_ea_pcdi :: "'b machine \<Rightarrow> ('b, u32) result" where
  "m68ki_get_ea_pcdi s =
    (let old_pc = pc s; s = m68ki_use_program_space s
     in chain (m68ki_read_imm_16 s) (\<lambda>v. Ret (old_pc + MAKE_INT_16 v)))"

definition m68ki_get_ea_pcix :: "'b machine \<Rightarrow> ('b, u32) result" where
  "m68ki_get_ea_pcix s = (let s = m68ki_use_program_space s in m68ki_get_ea_ix (pc s) s)"

subsection \<open>Effective addresses\<close>

definition EA_AY_AI_8 :: "'b machine \<Rightarrow> ('b, u32) result" where
  "EA_AY_AI_8 s = Ret (AY s) s"

definition EA_AY_PI_8 :: "'b machine \<Rightarrow> ('b, u32) result" where
  "EA_AY_PI_8 s = Ret (AY s) (set_AY (AY s + 1) s)"

definition EA_AY_PD_8 :: "'b machine \<Rightarrow> ('b, u32) result" where
  "EA_AY_PD_8 s = (let s = set_AY (AY s - 1) s in Ret (AY s) s)"

definition EA_AY_DI_8 :: "'b machine \<Rightarrow> ('b, u32) result" where
  "EA_AY_DI_8 s = (let base = AY s in chain (m68ki_read_imm_16 s) (\<lambda>v. Ret (base + MAKE_INT_16 v)))"

definition EA_AY_IX_8 :: "'b machine \<Rightarrow> ('b, u32) result" where
  "EA_AY_IX_8 s = m68ki_get_ea_ix (AY s) s"

definition EA_AY_AI_16 :: "'b machine \<Rightarrow> ('b, u32) result" where
  "EA_AY_AI_16 s = Ret (AY s) s"

definition EA_AY_PI_16 :: "'b machine \<Rightarrow> ('b, u32) result" where
  "EA_AY_PI_16 s = Ret (AY s) (set_AY (AY s + 2) s)"

definition EA_AY_PD_16 :: "'b machine \<Rightarrow> ('b, u32) result" where
  "EA_AY_PD_16 s = (let s = set_AY (AY s - 2) s in Ret (AY s) s)"

definition EA_AY_DI_16 :: "'b machine \<Rightarrow> ('b, u32) result" where
  "EA_AY_DI_16 s = (let base = AY s in chain (m68ki_read_imm_16 s) (\<lambda>v. Ret (base + MAKE_INT_16 v)))"

definition EA_AY_IX_16 :: "'b machine \<Rightarrow> ('b, u32) result" where
  "EA_AY_IX_16 s = m68ki_get_ea_ix (AY s) s"

definition EA_AY_AI_32 :: "'b machine \<Rightarrow> ('b, u32) result" where
  "EA_AY_AI_32 s = Ret (AY s) s"

definition EA_AY_PI_32 :: "'b machine \<Rightarrow> ('b, u32) result" where
  "EA_AY_PI_32 s = Ret (AY s) (set_AY (AY s + 4) s)"

definition EA_AY_PD_32 :: "'b machine \<Rightarrow> ('b, u32) result" where
  "EA_AY_PD_32 s = (let s = set_AY (AY s - 4) s in Ret (AY s) s)"

definition EA_AY_DI_32 :: "'b machine \<Rightarrow> ('b, u32) result" where
  "EA_AY_DI_32 s = (let base = AY s in chain (m68ki_read_imm_16 s) (\<lambda>v. Ret (base + MAKE_INT_16 v)))"

definition EA_AY_IX_32 :: "'b machine \<Rightarrow> ('b, u32) result" where
  "EA_AY_IX_32 s = m68ki_get_ea_ix (AY s) s"

definition EA_AX_AI_8 :: "'b machine \<Rightarrow> ('b, u32) result" where
  "EA_AX_AI_8 s = Ret (AX s) s"

definition EA_AX_PI_8 :: "'b machine \<Rightarrow> ('b, u32) result" where
  "EA_AX_PI_8 s = Ret (AX s) (set_AX (AX s + 1) s)"

definition EA_AX_PD_8 :: "'b machine \<Rightarrow> ('b, u32) result" where
  "EA_AX_PD_8 s = (let s = set_AX (AX s - 1) s in Ret (AX s) s)"

definition EA_AX_DI_8 :: "'b machine \<Rightarrow> ('b, u32) result" where
  "EA_AX_DI_8 s = (let base = AX s in chain (m68ki_read_imm_16 s) (\<lambda>v. Ret (base + MAKE_INT_16 v)))"

definition EA_AX_IX_8 :: "'b machine \<Rightarrow> ('b, u32) result" where
  "EA_AX_IX_8 s = m68ki_get_ea_ix (AX s) s"

definition EA_AX_AI_16 :: "'b machine \<Rightarrow> ('b, u32) result" where
  "EA_AX_AI_16 s = Ret (AX s) s"

definition EA_AX_PI_16 :: "'b machine \<Rightarrow> ('b, u32) result" where
  "EA_AX_PI_16 s = Ret (AX s) (set_AX (AX s + 2) s)"

definition EA_AX_PD_16 :: "'b machine \<Rightarrow> ('b, u32) result" where
  "EA_AX_PD_16 s = (let s = set_AX (AX s - 2) s in Ret (AX s) s)"

definition EA_AX_DI_16 :: "'b machine \<Rightarrow> ('b, u32) result" where
  "EA_AX_DI_16 s = (let base = AX s in chain (m68ki_read_imm_16 s) (\<lambda>v. Ret (base + MAKE_INT_16 v)))"

definition EA_AX_IX_16 :: "'b machine \<Rightarrow> ('b, u32) result" where
  "EA_AX_IX_16 s = m68ki_get_ea_ix (AX s) s"

definition EA_AX_AI_32 :: "'b machine \<Rightarrow> ('b, u32) result" where
  "EA_AX_AI_32 s = Ret (AX s) s"

definition EA_AX_PI_32 :: "'b machine \<Rightarrow> ('b, u32) result" where
  "EA_AX_PI_32 s = Ret (AX s) (set_AX (AX s + 4) s)"

definition EA_AX_PD_32 :: "'b machine \<Rightarrow> ('b, u32) result" where
  "EA_AX_PD_32 s = (let s = set_AX (AX s - 4) s in Ret (AX s) s)"

definition EA_AX_DI_32 :: "'b machine \<Rightarrow> ('b, u32) result" where
  "EA_AX_DI_32 s = (let base = AX s in chain (m68ki_read_imm_16 s) (\<lambda>v. Ret (base + MAKE_INT_16 v)))"

definition EA_AX_IX_32 :: "'b machine \<Rightarrow> ('b, u32) result" where
  "EA_AX_IX_32 s = m68ki_get_ea_ix (AX s) s"

definition EA_A7_PI_8 :: "'b machine \<Rightarrow> ('b, u32) result" where
  "EA_A7_PI_8 s = Ret (REG_A s 7) (set_REG_A 7 (REG_A s 7 + 2) s)"

definition EA_A7_PD_8 :: "'b machine \<Rightarrow> ('b, u32) result" where
  "EA_A7_PD_8 s = (let s = set_REG_A 7 (REG_A s 7 - 2) s in Ret (REG_A s 7) s)"

definition EA_AW_8 :: "'b machine \<Rightarrow> ('b, u32) result" where
  "EA_AW_8 s = chain (m68ki_read_imm_16 s) (\<lambda>v. Ret (MAKE_INT_16 v))"

definition EA_AL_8 :: "'b machine \<Rightarrow> ('b, u32) result" where
  "EA_AL_8 s = m68ki_read_imm_32 s"

definition EA_PCDI_8 :: "'b machine \<Rightarrow> ('b, u32) result" where
  "EA_PCDI_8 s = m68ki_get_ea_pcdi s"

definition EA_PCIX_8 :: "'b machine \<Rightarrow> ('b, u32) result" where
  "EA_PCIX_8 s = m68ki_get_ea_pcix s"

definition EA_AW_16 :: "'b machine \<Rightarrow> ('b, u32) result" where
  "EA_AW_16 s = chain (m68ki_read_imm_16 s) (\<lambda>v. Ret (MAKE_INT_16 v))"

definition EA_AL_16 :: "'b machine \<Rightarrow> ('b, u32) result" where
  "EA_AL_16 s = m68ki_read_imm_32 s"

definition EA_PCDI_16 :: "'b machine \<Rightarrow> ('b, u32) result" where
  "EA_PCDI_16 s = m68ki_get_ea_pcdi s"

definition EA_PCIX_16 :: "'b machine \<Rightarrow> ('b, u32) result" where
  "EA_PCIX_16 s = m68ki_get_ea_pcix s"

definition EA_AW_32 :: "'b machine \<Rightarrow> ('b, u32) result" where
  "EA_AW_32 s = chain (m68ki_read_imm_16 s) (\<lambda>v. Ret (MAKE_INT_16 v))"

definition EA_AL_32 :: "'b machine \<Rightarrow> ('b, u32) result" where
  "EA_AL_32 s = m68ki_read_imm_32 s"

definition EA_PCDI_32 :: "'b machine \<Rightarrow> ('b, u32) result" where
  "EA_PCDI_32 s = m68ki_get_ea_pcdi s"

definition EA_PCIX_32 :: "'b machine \<Rightarrow> ('b, u32) result" where
  "EA_PCIX_32 s = m68ki_get_ea_pcix s"

subsection \<open>Operands\<close>

definition OPER_I_8 :: "'b machine \<Rightarrow> ('b, u32) result" where
  "OPER_I_8 s = m68ki_read_imm_8 s"

definition OPER_I_16 :: "'b machine \<Rightarrow> ('b, u32) result" where
  "OPER_I_16 s = m68ki_read_imm_16 s"

definition OPER_I_32 :: "'b machine \<Rightarrow> ('b, u32) result" where
  "OPER_I_32 s = m68ki_read_imm_32 s"

definition OPER_AY_AI_8 :: "'b machine \<Rightarrow> ('b, u32) result" where
  "OPER_AY_AI_8 s = chain (EA_AY_AI_8 s) (\<lambda>ea. m68ki_read_8 ea)"

definition OPER_AY_AI_16 :: "'b machine \<Rightarrow> ('b, u32) result" where
  "OPER_AY_AI_16 s = chain (EA_AY_AI_16 s) (\<lambda>ea. m68ki_read_16 ea)"

definition OPER_AY_AI_32 :: "'b machine \<Rightarrow> ('b, u32) result" where
  "OPER_AY_AI_32 s = chain (EA_AY_AI_32 s) (\<lambda>ea. m68ki_read_32 ea)"

definition OPER_AY_PI_8 :: "'b machine \<Rightarrow> ('b, u32) result" where
  "OPER_AY_PI_8 s = chain (EA_AY_PI_8 s) (\<lambda>ea. m68ki_read_8 ea)"

definition OPER_AY_PI_16 :: "'b machine \<Rightarrow> ('b, u32) result" where
  "OPER_AY_PI_16 s = chain (EA_AY_PI_16 s) (\<lambda>ea. m68ki_read_16 ea)"

definition OPER_AY_PI_32 :: "'b machine \<Rightarrow> ('b, u32) result" where
  "OPER_AY_PI_32 s = chain (EA_AY_PI_32 s) (\<lambda>ea. m68ki_read_32 ea)"

definition OPER_AY_PD_8 :: "'b machine \<Rightarrow> ('b, u32) result" where
  "OPER_AY_PD_8 s = chain (EA_AY_PD_8 s) (\<lambda>ea. m68ki_read_8 ea)"

definition OPER_AY_PD_16 :: "'b machine \<Rightarrow> ('b, u32) result" where
  "OPER_AY_PD_16 s = chain (EA_AY_PD_16 s) (\<lambda>ea. m68ki_read_16 ea)"

definition OPER_AY_PD_32 :: "'b machine \<Rightarrow> ('b, u32) result" where
  "OPER_AY_PD_32 s = chain (EA_AY_PD_32 s) (\<lambda>ea. m68ki_read_32 ea)"

definition OPER_AY_DI_8 :: "'b machine \<Rightarrow> ('b, u32) result" where
  "OPER_AY_DI_8 s = chain (EA_AY_DI_8 s) (\<lambda>ea. m68ki_read_8 ea)"

definition OPER_AY_DI_16 :: "'b machine \<Rightarrow> ('b, u32) result" where
  "OPER_AY_DI_16 s = chain (EA_AY_DI_16 s) (\<lambda>ea. m68ki_read_16 ea)"

definition OPER_AY_DI_32 :: "'b machine \<Rightarrow> ('b, u32) result" where
  "OPER_AY_DI_32 s = chain (EA_AY_DI_32 s) (\<lambda>ea. m68ki_read_32 ea)"

definition OPER_AY_IX_8 :: "'b machine \<Rightarrow> ('b, u32) result" where
  "OPER_AY_IX_8 s = chain (EA_AY_IX_8 s) (\<lambda>ea. m68ki_read_8 ea)"

definition OPER_AY_IX_16 :: "'b machine \<Rightarrow> ('b, u32) result" where
  "OPER_AY_IX_16 s = chain (EA_AY_IX_16 s) (\<lambda>ea. m68ki_read_16 ea)"

definition OPER_AY_IX_32 :: "'b machine \<Rightarrow> ('b, u32) result" where
  "OPER_AY_IX_32 s = chain (EA_AY_IX_32 s) (\<lambda>ea. m68ki_read_32 ea)"

definition OPER_AX_AI_8 :: "'b machine \<Rightarrow> ('b, u32) result" where
  "OPER_AX_AI_8 s = chain (EA_AX_AI_8 s) (\<lambda>ea. m68ki_read_8 ea)"

definition OPER_AX_AI_16 :: "'b machine \<Rightarrow> ('b, u32) result" where
  "OPER_AX_AI_16 s = chain (EA_AX_AI_16 s) (\<lambda>ea. m68ki_read_16 ea)"

definition OPER_AX_AI_32 :: "'b machine \<Rightarrow> ('b, u32) result" where
  "OPER_AX_AI_32 s = chain (EA_AX_AI_32 s) (\<lambda>ea. m68ki_read_32 ea)"

definition OPER_AX_PI_8 :: "'b machine \<Rightarrow> ('b, u32) result" where
  "OPER_AX_PI_8 s = chain (EA_AX_PI_8 s) (\<lambda>ea. m68ki_read_8 ea)"

definition OPER_AX_PI_16 :: "'b machine \<Rightarrow> ('b, u32) result" where
  "OPER_AX_PI_16 s = chain (EA_AX_PI_16 s) (\<lambda>ea. m68ki_read_16 ea)"

definition OPER_AX_PI_32 :: "'b machine \<Rightarrow> ('b, u32) result" where
  "OPER_AX_PI_32 s = chain (EA_AX_PI_32 s) (\<lambda>ea. m68ki_read_32 ea)"

definition OPER_AX_PD_8 :: "'b machine \<Rightarrow> ('b, u32) result" where
  "OPER_AX_PD_8 s = chain (EA_AX_PD_8 s) (\<lambda>ea. m68ki_read_8 ea)"

definition OPER_AX_PD_16 :: "'b machine \<Rightarrow> ('b, u32) result" where
  "OPER_AX_PD_16 s = chain (EA_AX_PD_16 s) (\<lambda>ea. m68ki_read_16 ea)"

definition OPER_AX_PD_32 :: "'b machine \<Rightarrow> ('b, u32) result" where
  "OPER_AX_PD_32 s = chain (EA_AX_PD_32 s) (\<lambda>ea. m68ki_read_32 ea)"

definition OPER_AX_DI_8 :: "'b machine \<Rightarrow> ('b, u32) result" where
  "OPER_AX_DI_8 s = chain (EA_AX_DI_8 s) (\<lambda>ea. m68ki_read_8 ea)"

definition OPER_AX_DI_16 :: "'b machine \<Rightarrow> ('b, u32) result" where
  "OPER_AX_DI_16 s = chain (EA_AX_DI_16 s) (\<lambda>ea. m68ki_read_16 ea)"

definition OPER_AX_DI_32 :: "'b machine \<Rightarrow> ('b, u32) result" where
  "OPER_AX_DI_32 s = chain (EA_AX_DI_32 s) (\<lambda>ea. m68ki_read_32 ea)"

definition OPER_AX_IX_8 :: "'b machine \<Rightarrow> ('b, u32) result" where
  "OPER_AX_IX_8 s = chain (EA_AX_IX_8 s) (\<lambda>ea. m68ki_read_8 ea)"

definition OPER_AX_IX_16 :: "'b machine \<Rightarrow> ('b, u32) result" where
  "OPER_AX_IX_16 s = chain (EA_AX_IX_16 s) (\<lambda>ea. m68ki_read_16 ea)"

definition OPER_AX_IX_32 :: "'b machine \<Rightarrow> ('b, u32) result" where
  "OPER_AX_IX_32 s = chain (EA_AX_IX_32 s) (\<lambda>ea. m68ki_read_32 ea)"

definition OPER_A7_PI_8 :: "'b machine \<Rightarrow> ('b, u32) result" where
  "OPER_A7_PI_8 s = chain (EA_A7_PI_8 s) (\<lambda>ea. m68ki_read_8 ea)"

definition OPER_A7_PD_8 :: "'b machine \<Rightarrow> ('b, u32) result" where
  "OPER_A7_PD_8 s = chain (EA_A7_PD_8 s) (\<lambda>ea. m68ki_read_8 ea)"

definition OPER_AW_8 :: "'b machine \<Rightarrow> ('b, u32) result" where
  "OPER_AW_8 s = chain (EA_AW_8 s) (\<lambda>ea. m68ki_read_8 ea)"

definition OPER_AW_16 :: "'b machine \<Rightarrow> ('b, u32) result" where
  "OPER_AW_16 s = chain (EA_AW_16 s) (\<lambda>ea. m68ki_read_16 ea)"

definition OPER_AW_32 :: "'b machine \<Rightarrow> ('b, u32) result" where
  "OPER_AW_32 s = chain (EA_AW_32 s) (\<lambda>ea. m68ki_read_32 ea)"

definition OPER_AL_8 :: "'b machine \<Rightarrow> ('b, u32) result" where
  "OPER_AL_8 s = chain (EA_AL_8 s) (\<lambda>ea. m68ki_read_8 ea)"

definition OPER_AL_16 :: "'b machine \<Rightarrow> ('b, u32) result" where
  "OPER_AL_16 s = chain (EA_AL_16 s) (\<lambda>ea. m68ki_read_16 ea)"

definition OPER_AL_32 :: "'b machine \<Rightarrow> ('b, u32) result" where
  "OPER_AL_32 s = chain (EA_AL_32 s) (\<lambda>ea. m68ki_read_32 ea)"

definition OPER_PCDI_8 :: "'b machine \<Rightarrow> ('b, u32) result" where
  "OPER_PCDI_8 s = chain (EA_PCDI_8 s) (\<lambda>ea. m68ki_read_pcrel_8 ea)"

definition OPER_PCDI_16 :: "'b machine \<Rightarrow> ('b, u32) result" where
  "OPER_PCDI_16 s = chain (EA_PCDI_16 s) (\<lambda>ea. m68ki_read_pcrel_16 ea)"

definition OPER_PCDI_32 :: "'b machine \<Rightarrow> ('b, u32) result" where
  "OPER_PCDI_32 s = chain (EA_PCDI_32 s) (\<lambda>ea. m68ki_read_pcrel_32 ea)"

definition OPER_PCIX_8 :: "'b machine \<Rightarrow> ('b, u32) result" where
  "OPER_PCIX_8 s = chain (EA_PCIX_8 s) (\<lambda>ea. m68ki_read_pcrel_8 ea)"

definition OPER_PCIX_16 :: "'b machine \<Rightarrow> ('b, u32) result" where
  "OPER_PCIX_16 s = chain (EA_PCIX_16 s) (\<lambda>ea. m68ki_read_pcrel_16 ea)"

definition OPER_PCIX_32 :: "'b machine \<Rightarrow> ('b, u32) result" where
  "OPER_PCIX_32 s = chain (EA_PCIX_32 s) (\<lambda>ea. m68ki_read_pcrel_32 ea)"

subsection \<open>Jumps and branches\<close>

definition m68ki_jump_vector :: "u32 \<Rightarrow> 'b op" where
  "m68ki_jump_vector = m68ki_jump_vector_via m68ki_exception_bus_error"

definition m68ki_branch_8 :: "u32 \<Rightarrow> 'b machine \<Rightarrow> 'b machine" where
  "m68ki_branch_8 offset s = s\<lparr>pc := pc s + MAKE_INT_8 offset\<rparr>"

definition m68ki_branch_16 :: "u32 \<Rightarrow> 'b machine \<Rightarrow> 'b machine" where
  "m68ki_branch_16 offset s = s\<lparr>pc := pc s + MAKE_INT_16 offset\<rparr>"

definition m68ki_branch_32 :: "u32 \<Rightarrow> 'b machine \<Rightarrow> 'b machine" where
  "m68ki_branch_32 offset s = s\<lparr>pc := pc s + offset\<rparr>"

end
