(* ===== verification/Exceptions.thy ===== *)
theory Exceptions
  imports Operands
begin

section \<open>Exceptions and interrupts\<close>

text \<open>
  The exception functions of m68kcpu.h: the stack frames, the group 1 and 2 exceptions, the address
  error, interrupts, and the write to the status register that checks for interrupts.  The
  callbacks for trap and illegal instructions are configured out and answer ``not handled''.
\<close>

unbundle bit_operations_syntax

definition EXCEPTION_TRACE :: u32 where "EXCEPTION_TRACE = 9"

subsection \<open>Stack frames\<close>

definition m68ki_stack_frame_3word :: "u32 \<Rightarrow> u32 \<Rightarrow> 'b op" where
  "m68ki_stack_frame_3word frame_pc sr = seq [m68ki_push_32 frame_pc, m68ki_push_16 sr]"

definition m68ki_stack_frame_0000 :: "u32 \<Rightarrow> u32 \<Rightarrow> u32 \<Rightarrow> 'b op" where
  "m68ki_stack_frame_0000 frame_pc sr vector s =
    (if cpu_type s = CPU_TYPE_000 then m68ki_stack_frame_3word frame_pc sr s
     else seq [m68ki_push_16 (push_bit 2 vector), m68ki_push_32 frame_pc, m68ki_push_16 sr] s)"

definition m68ki_stack_frame_0001 :: "u32 \<Rightarrow> u32 \<Rightarrow> u32 \<Rightarrow> 'b op" where
  "m68ki_stack_frame_0001 frame_pc sr vector =
     seq [m68ki_push_16 (0x1000 OR push_bit 2 vector), m68ki_push_32 frame_pc, m68ki_push_16 sr]"

definition m68ki_stack_frame_0010 :: "u32 \<Rightarrow> u32 \<Rightarrow> 'b op" where
  "m68ki_stack_frame_0010 sr vector =
     seq [\<lambda>s. m68ki_push_32 (ppc s) s, m68ki_push_16 (0x2000 OR push_bit 2 vector),
          \<lambda>s. m68ki_push_32 (pc s) s, m68ki_push_16 sr]"

definition m68ki_stack_frame_buserr :: "u32 \<Rightarrow> 'b op" where
  "m68ki_stack_frame_buserr sr =
     seq [\<lambda>s. m68ki_push_32 (pc s) s, m68ki_push_16 sr, \<lambda>s. m68ki_push_16 (ir s) s,
          \<lambda>s. m68ki_push_32 (aerr_address s) s,
          \<lambda>s. m68ki_push_16 (aerr_write_mode s OR instr_mode s OR aerr_fc s) s]"

definition m68ki_stack_frame_1000 :: "u32 \<Rightarrow> u32 \<Rightarrow> u32 \<Rightarrow> 'b op" where
  "m68ki_stack_frame_1000 = m68ki_stack_frame_1000_via m68ki_exception_bus_error"

definition m68ki_stack_frame_1010 :: "u32 \<Rightarrow> u32 \<Rightarrow> u32 \<Rightarrow> u32 \<Rightarrow> u32 \<Rightarrow> 'b op" where
  "m68ki_stack_frame_1010 = m68ki_stack_frame_1010_via m68ki_exception_bus_error"

definition m68ki_stack_frame_1011 :: "u32 \<Rightarrow> u32 \<Rightarrow> u32 \<Rightarrow> u32 \<Rightarrow> u32 \<Rightarrow> 'b op" where
  "m68ki_stack_frame_1011 = m68ki_stack_frame_1011_via m68ki_exception_bus_error"

subsection \<open>Instruction exceptions\<close>

text \<open>\<open>USE_CYCLES(CYC_EXCEPTION[vector] - CYC_INSTRUCTION[REG_IR])\<close>\<close>

definition use_exception_cycles :: "u32 \<Rightarrow> 'b machine \<Rightarrow> 'b machine" where
  "use_exception_cycles vector s = USE_CYCLES (CYC_EXCEPTION vector s - CYC_INSTRUCTION s) s"

definition m68ki_exception_trap :: "u32 \<Rightarrow> 'b op" where
  "m68ki_exception_trap vector s =
    (let (sr, s) = m68ki_init_exception s
     in chain (if CPU_TYPE_IS_010_LESS (cpu_type s) then m68ki_stack_frame_0000 (pc s) sr vector s
               else m68ki_stack_frame_0010 sr vector s)
        (\<lambda>_ s. chain (m68ki_jump_vector vector s)
        (\<lambda>_ s. Ret () (use_exception_cycles vector s))))"

definition m68ki_exception_trapN :: "u32 \<Rightarrow> 'b op" where
  "m68ki_exception_trapN vector s =
    (let (sr, s) = m68ki_init_exception s
     in chain (m68ki_stack_frame_0000 (pc s) sr vector s)
        (\<lambda>_ s. chain (m68ki_jump_vector vector s)
        (\<lambda>_ s. Ret () (use_exception_cycles vector s))))"

text \<open>On a 68000 the exceptions of group 1 leave instruction mode.\<close>

definition leave_instr_mode :: "'b machine \<Rightarrow> 'b machine" where
  "leave_instr_mode s =
    (if CPU_TYPE_IS_000 (cpu_type s) then s\<lparr>instr_mode := INSTRUCTION_NO\<rparr> else s)"

definition m68ki_exception_trace :: "'b op" where
  "m68ki_exception_trace s =
    (let (sr, s) = m68ki_init_exception s
     in chain (if CPU_TYPE_IS_010_LESS (cpu_type s)
               then (let s = leave_instr_mode s in m68ki_stack_frame_0000 (pc s) sr EXCEPTION_TRACE s)
               else m68ki_stack_frame_0010 sr EXCEPTION_TRACE s)
        (\<lambda>_ s. chain (m68ki_jump_vector EXCEPTION_TRACE s)
        (\<lambda>_ s. let s = s\<lparr>stopped := stopped s AND NOT STOP_LEVEL_STOP\<rparr>
               in Ret () (USE_CYCLES (CYC_EXCEPTION EXCEPTION_TRACE s) s))))"

definition m68ki_exception_privilege_violation :: "'b op" where
  "m68ki_exception_privilege_violation s =
    (let (sr, s) = m68ki_init_exception s;
         s = leave_instr_mode s
     in chain (m68ki_stack_frame_0000 (ppc s) sr EXCEPTION_PRIVILEGE_VIOLATION s)
        (\<lambda>_ s. chain (m68ki_jump_vector EXCEPTION_PRIVILEGE_VIOLATION s)
        (\<lambda>_ s. Ret () (use_exception_cycles EXCEPTION_PRIVILEGE_VIOLATION s))))"

definition m68ki_exception_1010 :: "'b op" where
  "m68ki_exception_1010 s =
    (let (sr, s) = m68ki_init_exception s
     in chain (m68ki_stack_frame_0000 (ppc s) sr EXCEPTION_1010 s)
        (\<lambda>_ s. chain (m68ki_jump_vector EXCEPTION_1010 s)
        (\<lambda>_ s. Ret () (use_exception_cycles EXCEPTION_1010 s))))"

definition m68ki_exception_1111 :: "'b op" where
  "m68ki_exception_1111 s =
    (let (sr, s) = m68ki_init_exception s
     in chain (m68ki_stack_frame_0000 (ppc s) sr EXCEPTION_1111 s)
        (\<lambda>_ s. chain (m68ki_jump_vector EXCEPTION_1111 s)
        (\<lambda>_ s. Ret () (use_exception_cycles EXCEPTION_1111 s))))"

definition m68ki_exception_illegal :: "'b op" where
  "m68ki_exception_illegal s =
    (let (sr, s) = m68ki_init_exception s;
         s = leave_instr_mode s
     in chain (m68ki_stack_frame_0000 (ppc s) sr EXCEPTION_ILLEGAL_INSTRUCTION s)
        (\<lambda>_ s. chain (m68ki_jump_vector EXCEPTION_ILLEGAL_INSTRUCTION s)
        (\<lambda>_ s. Ret () (use_exception_cycles EXCEPTION_ILLEGAL_INSTRUCTION s))))"

definition m68ki_exception_format_error :: "'b op" where
  "m68ki_exception_format_error s =
    (let (sr, s) = m68ki_init_exception s
     in chain (m68ki_stack_frame_0000 (pc s) sr EXCEPTION_FORMAT_ERROR s)
        (\<lambda>_ s. chain (m68ki_jump_vector EXCEPTION_FORMAT_ERROR s)
        (\<lambda>_ s. Ret () (use_exception_cycles EXCEPTION_FORMAT_ERROR s))))"

subsection \<open>The address error\<close>

definition aerr_ssw :: "'b machine \<Rightarrow> u32" where
  "aerr_ssw s = 0x0100 OR 0x0040 OR
     (if aerr_fc s AND 7 \<noteq> 0 then aerr_fc s AND 7 else FUNCTION_CODE_SUPERVISOR_PROGRAM)"

definition m68ki_exception_address_error :: "'b op" where
  "m68ki_exception_address_error s =
    (let (sr, s) = m68ki_init_exception s
     in if run_mode s = RUN_MODE_BERR_AERR_RESET_WSF
        then chain (m68k_read_memory_8_via m68ki_exception_bus_error 0x00ffff01 s)
               (\<lambda>_ s. Ret () (s\<lparr>stopped := STOP_LEVEL_HALT\<rparr>))
        else
          let s = s\<lparr>run_mode := RUN_MODE_BERR_AERR_RESET_WSF\<rparr>
          in chain
              (if CPU_TYPE_IS_000 (cpu_type s) then m68ki_stack_frame_buserr sr s
               else if CPU_TYPE_IS_010 (cpu_type s)
               then m68ki_stack_frame_1000 (ppc s) sr EXCEPTION_ADDRESS_ERROR s
               else if aerr_address s = ppc s
               then m68ki_stack_frame_1010 sr EXCEPTION_ADDRESS_ERROR (ppc s) (aerr_address s) (aerr_ssw s) s
               else m68ki_stack_frame_1011 sr EXCEPTION_ADDRESS_ERROR (ppc s) (aerr_address s) (aerr_ssw s) s)
              (\<lambda>_ s. chain (m68ki_jump_vector EXCEPTION_ADDRESS_ERROR s)
              (\<lambda>_ s. let s = s\<lparr>run_mode := RUN_MODE_BERR_AERR_RESET\<rparr>
                     in Ret () (USE_CYCLES (CYC_EXCEPTION EXCEPTION_ADDRESS_ERROR s) s))))"

subsection \<open>Interrupts\<close>

text \<open>The interrupt acknowledge callback is configured out: every interrupt is autovectored.\<close>

definition m68ki_int_ack :: "u32 \<Rightarrow> u32" where
  "m68ki_int_ack level = M68K_INT_ACK_AUTOVECTOR"

definition m68ki_exception_interrupt :: "u32 \<Rightarrow> 'b op" where
  "m68ki_exception_interrupt level s =
    (let s = leave_instr_mode s;
         s = s\<lparr>stopped := stopped s AND NOT STOP_LEVEL_STOP\<rparr>
     in if stopped s \<noteq> 0 then Ret () s
        else
          let ack = m68ki_int_ack level
          in if ack \<noteq> M68K_INT_ACK_AUTOVECTOR \<and> ack \<noteq> M68K_INT_ACK_SPURIOUS \<and> 255 < ack then Ret () s
             else
               let vector = (if ack = M68K_INT_ACK_AUTOVECTOR then EXCEPTION_INTERRUPT_AUTOVECTOR + level
                             else if ack = M68K_INT_ACK_SPURIOUS then EXCEPTION_SPURIOUS_INTERRUPT
                             else ack);
                   (sr, s) = m68ki_init_exception s;
                   s = s\<lparr>int_mask := push_bit 8 level\<rparr>
               in chain (m68ki_read_data_32 (push_bit 2 vector + vbr s) s) (\<lambda>new_pc s.
                  chain (if new_pc = 0
                         then m68ki_read_data_32 (push_bit 2 EXCEPTION_UNINITIALIZED_INTERRUPT + vbr s) s
                         else Ret new_pc s) (\<lambda>new_pc s.
                  chain (m68ki_stack_frame_0000 (pc s) sr vector s) (\<lambda>_ s.
                  chain (if m_flag s \<noteq> 0 \<and> CPU_TYPE_IS_EC020_PLUS (cpu_type s)
                         then (let s = m68ki_set_sm_flag (s_flag s) s
                               in m68ki_stack_frame_0001 (pc s) (sr OR 0x2000) vector s)
                         else Ret () s) (\<lambda>_ s.
                  let s = m68ki_jump new_pc s;
                      s = USE_CYCLES (CYC_EXCEPTION vector s) s
                  in Ret () (s\<lparr>int_level := 0\<rparr>))))))"

definition m68ki_check_interrupts :: "'b op" where
  "m68ki_check_interrupts s =
    (if nmi_pending s \<noteq> 0 then m68ki_exception_interrupt 7 (s\<lparr>nmi_pending := 0\<rparr>)
     else if int_mask s < int_level s then m68ki_exception_interrupt (drop_bit 8 (int_level s)) s
     else Ret () s)"

definition m68ki_set_sr :: "u32 \<Rightarrow> 'b op" where
  "m68ki_set_sr value s = m68ki_check_interrupts (m68ki_set_sr_noint value s)"

end
