(* ===== verification/OpsBase.thy ===== *)
theory OpsBase
  imports Exceptions
begin

section \<open>Helpers of the instruction handlers\<close>

text \<open>
  What the handlers of m68kops.c use besides the operands: the negated conditions, rotations
  (m68kcpu.h), the shift tables (m68kcpu.c), the loops of the handlers as recursive functions, and
  the bit field accesses of m68kcpu.h.
\<close>

unbundle bit_operations_syntax

subsection \<open>Negated conditions\<close>

definition COND_NOT_CS :: "'b machine \<Rightarrow> bool" where "COND_NOT_CS s = COND_CC s"
definition COND_NOT_CC :: "'b machine \<Rightarrow> bool" where "COND_NOT_CC s = COND_CS s"
definition COND_NOT_VS :: "'b machine \<Rightarrow> bool" where "COND_NOT_VS s = COND_VC s"
definition COND_NOT_VC :: "'b machine \<Rightarrow> bool" where "COND_NOT_VC s = COND_VS s"
definition COND_NOT_NE :: "'b machine \<Rightarrow> bool" where "COND_NOT_NE s = COND_EQ s"
definition COND_NOT_EQ :: "'b machine \<Rightarrow> bool" where "COND_NOT_EQ s = COND_NE s"
definition COND_NOT_MI :: "'b machine \<Rightarrow> bool" where "COND_NOT_MI s = COND_PL s"
definition COND_NOT_PL :: "'b machine \<Rightarrow> bool" where "COND_NOT_PL s = COND_MI s"
definition COND_NOT_LT :: "'b machine \<Rightarrow> bool" where "COND_NOT_LT s = COND_GE s"
definition COND_NOT_GE :: "'b machine \<Rightarrow> bool" where "COND_NOT_GE s = COND_LT s"
definition COND_NOT_HI :: "'b machine \<Rightarrow> bool" where "COND_NOT_HI s = COND_LS s"
definition COND_NOT_LS :: "'b machine \<Rightarrow> bool" where "COND_NOT_LS s = COND_HI s"
definition COND_NOT_GT :: "'b machine \<Rightarrow> bool" where "COND_NOT_GT s = COND_LE s"
definition COND_NOT_LE :: "'b machine \<Rightarrow> bool" where "COND_NOT_LE s = COND_GT s"

lemmas cond_not_defs =
  COND_NOT_CS_def COND_NOT_CC_def COND_NOT_VS_def COND_NOT_VC_def COND_NOT_NE_def COND_NOT_EQ_def
  COND_NOT_MI_def COND_NOT_PL_def COND_NOT_LT_def COND_NOT_GE_def COND_NOT_HI_def COND_NOT_LS_def
  COND_NOT_GT_def COND_NOT_LE_def

lemma cond_not:
  "COND_NOT_CS s = (\<not> COND_CS s)" "COND_NOT_CC s = (\<not> COND_CC s)"
  "COND_NOT_VS s = (\<not> COND_VS s)" "COND_NOT_VC s = (\<not> COND_VC s)"
  "COND_NOT_NE s = (\<not> COND_NE s)" "COND_NOT_EQ s = (\<not> COND_EQ s)"
  "COND_NOT_MI s = (\<not> COND_MI s)" "COND_NOT_PL s = (\<not> COND_PL s)"
  "COND_NOT_LT s = (\<not> COND_LT s)" "COND_NOT_GE s = (\<not> COND_GE s)"
  "COND_NOT_HI s = (\<not> COND_HI s)" "COND_NOT_LS s = (\<not> COND_LS s)"
  "COND_NOT_GT s = (\<not> COND_GT s)" "COND_NOT_LE s = (\<not> COND_LE s)"
  by (auto simp: cond_not_defs cond_defs)

subsection \<open>Rotations\<close>

definition ROL_8 :: "u32 \<Rightarrow> u32 \<Rightarrow> u32" where
  "ROL_8 A C = MASK_OUT_ABOVE_8 (push_bit (unat C) A OR drop_bit (unat (8 - C)) A)"
definition ROL_9 :: "u32 \<Rightarrow> u32 \<Rightarrow> u32" where
  "ROL_9 A C = push_bit (unat C) A OR drop_bit (unat (9 - C)) A"
definition ROL_16 :: "u32 \<Rightarrow> u32 \<Rightarrow> u32" where
  "ROL_16 A C = MASK_OUT_ABOVE_16 (push_bit (unat C) A OR drop_bit (unat (16 - C)) A)"
definition ROL_17 :: "u32 \<Rightarrow> u32 \<Rightarrow> u32" where
  "ROL_17 A C = push_bit (unat C) A OR drop_bit (unat (17 - C)) A"
definition ROL_32 :: "u32 \<Rightarrow> u32 \<Rightarrow> u32" where
  "ROL_32 A C = MASK_OUT_ABOVE_32 (push_bit (unat C) A OR drop_bit (unat (32 - C)) A)"
definition ROL_33_64 :: "u64 \<Rightarrow> u32 \<Rightarrow> u64" where
  "ROL_33_64 A C = push_bit (unat C) A OR drop_bit (unat (33 - C)) A"

definition ROR_8 :: "u32 \<Rightarrow> u32 \<Rightarrow> u32" where
  "ROR_8 A C = MASK_OUT_ABOVE_8 (drop_bit (unat C) A OR push_bit (unat (8 - C)) A)"
definition ROR_9 :: "u32 \<Rightarrow> u32 \<Rightarrow> u32" where
  "ROR_9 A C = drop_bit (unat C) A OR push_bit (unat (9 - C)) A"
definition ROR_16 :: "u32 \<Rightarrow> u32 \<Rightarrow> u32" where
  "ROR_16 A C = MASK_OUT_ABOVE_16 (drop_bit (unat C) A OR push_bit (unat (16 - C)) A)"
definition ROR_17 :: "u32 \<Rightarrow> u32 \<Rightarrow> u32" where
  "ROR_17 A C = drop_bit (unat C) A OR push_bit (unat (17 - C)) A"
definition ROR_32 :: "u32 \<Rightarrow> u32 \<Rightarrow> u32" where
  "ROR_32 A C = MASK_OUT_ABOVE_32 (drop_bit (unat C) A OR push_bit (unat (32 - C)) A)"
definition ROR_33_64 :: "u64 \<Rightarrow> u32 \<Rightarrow> u64" where
  "ROR_33_64 A C = drop_bit (unat C) A OR push_bit (unat (33 - C)) A"

text \<open>The macros \<open>ROL_32\<close> and \<open>ROR_32\<close> on a \<open>uint64\<close> argument.\<close>

definition ROL_32_u64 :: "u64 \<Rightarrow> u32 \<Rightarrow> u64" where
  "ROL_32_u64 A C = (push_bit (unat C) A OR drop_bit (unat (32 - C)) A) AND 0xffffffff"
definition ROR_32_u64 :: "u64 \<Rightarrow> u32 \<Rightarrow> u64" where
  "ROR_32_u64 A C = (drop_bit (unat C) A OR push_bit (unat (32 - C)) A) AND 0xffffffff"

subsection \<open>Shift tables\<close>

definition m68ki_shift_8_table :: "u32 list" where
  "m68ki_shift_8_table = [0x00, 0x80, 0xc0, 0xe0, 0xf0, 0xf8, 0xfc, 0xfe] @ replicate 57 0xff"

definition m68ki_shift_16_table :: "u32 list" where
  "m68ki_shift_16_table =
     [0x0000, 0x8000, 0xc000, 0xe000, 0xf000, 0xf800, 0xfc00, 0xfe00,
      0xff00, 0xff80, 0xffc0, 0xffe0, 0xfff0, 0xfff8, 0xfffc, 0xfffe] @ replicate 49 0xffff"

definition m68ki_shift_32_table :: "u32 list" where
  "m68ki_shift_32_table =
     [0x00000000, 0x80000000, 0xc0000000, 0xe0000000, 0xf0000000, 0xf8000000, 0xfc000000, 0xfe000000,
      0xff000000, 0xff800000, 0xffc00000, 0xffe00000, 0xfff00000, 0xfff80000, 0xfffc0000, 0xfffe0000,
      0xffff0000, 0xffff8000, 0xffffc000, 0xffffe000, 0xfffff000, 0xfffff800, 0xfffffc00, 0xfffffe00,
      0xffffff00, 0xffffff80, 0xffffffc0, 0xffffffe0, 0xfffffff0, 0xfffffff8, 0xfffffffc, 0xfffffffe]
     @ replicate 33 0xffffffff"

subsection \<open>Loops\<close>

text \<open>The loop \<open>for(i = 0; i < 16; i++)\<close> of MOVEM; the body may change variables and the state.\<close>

definition indices16 :: "u32 list" where
  "indices16 = [0, 1, 2, 3, 4, 5, 6, 7, 8, 9, 10, 11, 12, 13, 14, 15]"

primrec for_each ::
    "u32 list \<Rightarrow> (u32 \<Rightarrow> 'v \<Rightarrow> 'b machine \<Rightarrow> ('b, 'v) result) \<Rightarrow> 'v \<Rightarrow> 'b machine \<Rightarrow> ('b, 'v) result" where
  "for_each [] body v s = Ret v s"
| "for_each (i # is) body v s = chain (body i v s) (for_each is body)"

text \<open>The bit scan of BFFFO: \<open>for(bit = 1<<(width-1); bit && !(data & bit); bit >>= 1) offset++\<close>.\<close>

lemma unat_drop_bit_1_less: "b \<noteq> 0 \<Longrightarrow> unat (drop_bit (Suc 0) b) < unat b" for b :: u32
proof -
  assume "b \<noteq> 0"
  then have "0 < unat b" by (simp add: unat_gt_0)
  then show ?thesis by (simp add: drop_bit_Suc unat_div)
qed

function bfffo_scan :: "u32 \<Rightarrow> u64 \<Rightarrow> u32 \<Rightarrow> u32" where
  "bfffo_scan b data offset =
    (if b \<noteq> 0 \<and> data AND ucast b = 0 then bfffo_scan (drop_bit 1 b) data (offset + 1) else offset)"
  by pat_completeness auto
termination
  by (relation "measure (\<lambda>(b, _). unat b)") (simp_all add: unat_drop_bit_1_less)

text \<open>The cycle counts of MULU and MULS on the 68000 and 68010.\<close>

function mulu_cycle_count :: "u32 \<Rightarrow> u32 \<Rightarrow> u32" where
  "mulu_cycle_count y c =
    (if y \<noteq> 0 then mulu_cycle_count (drop_bit 1 y) (if y AND 1 \<noteq> 0 then c + 2 else c) else c)"
  by pat_completeness auto
termination
  by (relation "measure (\<lambda>(y, _). unat y)") (simp_all add: unat_drop_bit_1_less)

function muls_cycle_count :: "u32 \<Rightarrow> u32 \<Rightarrow> u32 \<Rightarrow> u32" where
  "muls_cycle_count y f c =
    (if y \<noteq> 0
     then (if y AND 1 \<noteq> f then muls_cycle_count (drop_bit 1 y) (1 - f) (c + 2)
           else muls_cycle_count (drop_bit 1 y) f c)
     else c)"
  by pat_completeness auto
termination
  by (relation "measure (\<lambda>(y, _, _). unat y)") (simp_all add: unat_drop_bit_1_less)

declare bfffo_scan.simps [simp del] mulu_cycle_count.simps [simp del] muls_cycle_count.simps [simp del]

text \<open>The TAS callback is configured out: the write is always allowed.\<close>

definition m68ki_tas_callback :: u32 where "m68ki_tas_callback = 1"

definition M68K_FPU_MODEL_NONE :: u32 where "M68K_FPU_MODEL_NONE = 0"

definition USE_ALL_CYCLES :: "'b machine \<Rightarrow> 'b machine" where
  "USE_ALL_CYCLES s = s\<lparr>remaining_cycles := smod32 (remaining_cycles s) (CYC_INSTRUCTION s)\<rparr>"

subsection \<open>Bit fields in memory\<close>

record m68ki_bitfield_t =
  bf_field :: u32
  bf_lo :: u32
  bf_hi :: u8

definition m68ki_make_bf :: "u32 \<Rightarrow> u8 \<Rightarrow> u32 \<Rightarrow> m68ki_bitfield_t" where
  "m68ki_make_bf lo hi offset =
     \<lparr>bf_field = push_bit (unat offset) lo OR drop_bit (unat (8 - offset)) (ucast hi),
      bf_lo = lo, bf_hi = hi\<rparr>"

definition bf_byte_count :: "u32 \<Rightarrow> u32 \<Rightarrow> u32" where
  "bf_byte_count offset width = (offset + width + 7) div 8"

definition bf_assert :: "u32 \<Rightarrow> u32 \<Rightarrow> bool" where
  "bf_assert offset width \<longleftrightarrow>
     offset < 8 \<and> bf_byte_count offset width \<le> 5 \<and> 0 < bf_byte_count offset width"

definition m68ki_load_bitfield ::
    "u32 \<Rightarrow> u32 \<Rightarrow> u32 \<Rightarrow> 'b machine \<Rightarrow> ('b, m68ki_bitfield_t) result" where
  "m68ki_load_bitfield addr offset width s =
    (let bcount = bf_byte_count offset width
     in if \<not> bf_assert offset width then Jump AssertionFailed s
        else if bcount = 1
        then chain (m68ki_read_8 addr s) (\<lambda>lo.
             Ret (m68ki_make_bf (push_bit 24 (ucast (ucast lo :: u8))) 0 offset))
        else if bcount < 4
        then chain (m68ki_read_16 addr s) (\<lambda>lo1 s.
             let lo1 = (ucast lo1 :: u16)
             in if bcount = 2 then Ret (m68ki_make_bf (push_bit 16 (ucast lo1)) 0 offset) s
                else chain (m68ki_read_8 (addr + 2) s) (\<lambda>lo2.
                     Ret (m68ki_make_bf (push_bit 16 (ucast lo1) OR push_bit 8 (ucast (ucast lo2 :: u8)))
                       0 offset)))
        else chain (m68ki_read_32 addr s) (\<lambda>lo s.
             if bcount = 4 then Ret (m68ki_make_bf lo 0 offset) s
             else chain (m68ki_read_8 (addr + 4) s) (\<lambda>hi. Ret (m68ki_make_bf lo (ucast hi) offset))))"

definition lshift32_safe :: "u32 \<Rightarrow> u32 \<Rightarrow> u32" where
  "lshift32_safe val shift = (if shift < 32 then push_bit (unat shift) val else 0)"

definition m68ki_bitfield_patch_offset :: "u32 \<Rightarrow> u32" where
  "m68ki_bitfield_patch_offset offset = offset mod 8"

definition m68ki_bitfield_patch_ea :: "u32 \<Rightarrow> u32 \<Rightarrow> u32" where
  "m68ki_bitfield_patch_ea ea offset =
     ea + (if word_sle 0 offset then sdiv32 offset 8 else - sdiv32 (7 - offset) 8)"

definition m68ki_store_bitfield :: "u32 \<Rightarrow> u32 \<Rightarrow> u32 \<Rightarrow> u32 \<Rightarrow> m68ki_bitfield_t \<Rightarrow> 'b op" where
  "m68ki_store_bitfield addr offset width res bf s =
    (let bcount = bf_byte_count offset width;
         lomask = lshift32_safe 0xffffffff (32 - offset);
         himask = (ucast (drop_bit (unat offset) (0xff :: u32) AND 0xff) :: u8);
         lo = (bf_lo bf AND lomask) OR drop_bit (unat offset) res;
         hi = (bf_hi bf AND himask) OR ucast (push_bit (unat (8 - offset)) res AND 0xff)
     in if \<not> bf_assert offset width then Jump AssertionFailed s
        else if bcount = 1 then m68ki_write_8 addr (drop_bit 24 lo AND 0xff) s
        else if bcount < 4
        then chain (m68ki_write_16 addr (drop_bit 16 lo AND 0xffff) s) (\<lambda>_ s.
             if bcount = 2 then Ret () s
             else m68ki_write_8 (addr + 2) (drop_bit 8 lo AND 0xff) s)
        else chain (m68ki_write_32 addr lo s) (\<lambda>_ s.
             if bcount = 4 then Ret () s else m68ki_write_8 (addr + 4) (ucast hi) s))"

end
