(* ===== verification/MemoryContract.thy ===== *)
theory MemoryContract
  imports OpsBase
begin

section \<open>The contract between the engine and a memory\<close>

text \<open>
  What the engine relies on when a bus has plain memory behind some of its addresses: reads return
  the bytes in big-endian order, writes change exactly the bytes written, and neither reports a
  bus error.  The locale \<open>readable_bus\<close> states the laws of reading, \<open>memory_bus\<close> extends it by those
  of writing; their lemmas carry them through the access functions, the stack, the instruction fetch
  and the vector fetch of the engine.  MacPlusBus interprets both at once.
\<close>

unbundle bit_operations_syntax

subsection \<open>Big-endian words\<close>

definition be16 :: "(u32 \<Rightarrow> u8) \<Rightarrow> u32 \<Rightarrow> u16" where
  "be16 f a = push_bit 8 (ucast (f a)) OR ucast (f (a + 1))"

definition be32 :: "(u32 \<Rightarrow> u8) \<Rightarrow> u32 \<Rightarrow> u32" where
  "be32 f a = push_bit 16 (ucast (be16 f a)) OR ucast (be16 f (a + 2))"

definition put16 :: "u32 \<Rightarrow> u16 \<Rightarrow> (u32 \<Rightarrow> u8) \<Rightarrow> u32 \<Rightarrow> u8" where
  "put16 a v f = f(a := ucast (drop_bit 8 v), a + 1 := ucast v)"

definition put32 :: "u32 \<Rightarrow> u32 \<Rightarrow> (u32 \<Rightarrow> u8) \<Rightarrow> u32 \<Rightarrow> u8" where
  "put32 a v f = put16 (a + 2) (ucast v) (put16 a (ucast (drop_bit 16 v)) f)"

definition ram16 :: "(u32 \<Rightarrow> bool) \<Rightarrow> u32 \<Rightarrow> bool" where
  "ram16 r a \<longleftrightarrow> r a \<and> r (a + 1)"

definition ram32 :: "(u32 \<Rightarrow> bool) \<Rightarrow> u32 \<Rightarrow> bool" where
  "ram32 r a \<longleftrightarrow> ram16 r a \<and> ram16 r (a + 2)"

text \<open>The \<open>m\<close> bytes from \<open>a\<close> and the \<open>n\<close> bytes from \<open>b\<close> do not meet.\<close>

definition apart :: "u32 \<Rightarrow> nat \<Rightarrow> u32 \<Rightarrow> nat \<Rightarrow> bool" where
  "apart a m b n \<longleftrightarrow> (\<forall>i\<in>set [0..<m]. \<forall>j\<in>set [0..<n]. a + of_nat i \<noteq> b + of_nat j)"

lemma ball_2: "(\<forall>i\<in>{0..<2}. P (i :: nat)) \<longleftrightarrow> P 0 \<and> P 1"
  and ball_4: "(\<forall>i\<in>{0..<4}. P (i :: nat)) \<longleftrightarrow> P 0 \<and> P 1 \<and> P 2 \<and> P 3"
  by (simp_all add: Ball_def numeral_eq_Suc all_less_Suc_conj)

lemma apartD: "apart a m b n \<Longrightarrow> i < m \<Longrightarrow> j < n \<Longrightarrow> a + of_nat i \<noteq> b + of_nat j"
  by (simp add: apart_def)

lemma be16_put16 [simp]: "be16 (put16 a v f) a = v"
  by (simp add: be16_def put16_def) (simp add: word16_eq bit_simps)

lemma be16_put16_apart: "apart a 2 b 2 \<Longrightarrow> be16 (put16 b v f) a = be16 f a"
  using apartD [of a 2 b 2 0 0] apartD [of a 2 b 2 1 0] apartD [of a 2 b 2 0 1]
    apartD [of a 2 b 2 1 1]
  by (simp add: be16_def put16_def)

lemma apart_self: "apart a 2 (a + 2) 2" "apart (a + 2) 2 a 2"
  by (simp_all add: apart_def ball_2)

lemma halves_u32: "push_bit 16 (ucast (ucast (drop_bit 16 v) :: u16)) OR ucast (ucast v :: u16) = v"
  for v :: u32
  by (simp add: word32_eq bit_simps)

lemma be32_put32 [simp]: "be32 (put32 a v f) a = v"
  by (simp add: be32_def put32_def be16_put16_apart apart_self halves_u32)

lemma apart_half:
  assumes "apart a m b 4"
  shows "apart a m b 2" and "apart a m (b + 2) 2"
proof -
  show "apart a m b 2" using assms by (auto simp: apart_def)
  have "a + of_nat i \<noteq> (b + 2) + of_nat j" if "i < m" "j < 2" for i j
    using apartD [OF assms that(1), of "j + 2"] that(2) by (simp add: algebra_simps)
  then show "apart a m (b + 2) 2" by (simp add: apart_def)
qed

lemma apart_sym: "apart a m b n \<Longrightarrow> apart b n a m"
  by (simp add: apart_def) metis

lemma apart_halves:
  assumes "apart a 4 b 4"
  shows "apart a 2 b 2" "apart a 2 (b + 2) 2" "apart (a + 2) 2 b 2" "apart (a + 2) 2 (b + 2) 2"
  using apart_half [OF assms] apart_half [OF apart_sym [OF assms]]
    apart_half [OF apart_sym [OF apart_half(1) [OF assms]]]
    apart_half [OF apart_sym [OF apart_half(2) [OF assms]]]
  by (simp_all add: apart_sym)

lemma be32_put32_apart: "apart a 4 b 4 \<Longrightarrow> be32 (put32 b v f) a = be32 f a"
  by (simp add: be32_def put32_def be16_put16_apart apart_halves)

lemma be32_put16_apart: "apart a 4 b 2 \<Longrightarrow> be32 (put16 b v f) a = be32 f a"
  by (simp add: be32_def be16_put16_apart apart_sym apart_half)

lemma be16_put32_apart: "apart a 2 b 4 \<Longrightarrow> be16 (put32 b v f) a = be16 f a"
  by (simp add: put32_def be16_put16_apart apart_half)

lemmas be_put_apart = be16_put16_apart be32_put32_apart be32_put16_apart be16_put32_apart

text \<open>Addresses that differ by constants, as on the stack, are compared by \<open>apart_def\<close>.\<close>

lemma apart_offsets: "apart (a + x) m (a + y) n \<longleftrightarrow> apart x m y n"
  by (simp add: apart_def add.assoc)

subsection \<open>The contract\<close>

text \<open>
  \<open>b'\<close> has the same readable addresses and the same RAM as \<open>b\<close>, and holds the bytes \<open>f\<close> at the
  readable ones.
\<close>

definition holding ::
    "('b \<Rightarrow> u32 \<Rightarrow> bool) \<Rightarrow> ('b \<Rightarrow> u32 \<Rightarrow> bool) \<Rightarrow> ('b \<Rightarrow> u32 \<Rightarrow> u8) \<Rightarrow> 'b \<Rightarrow> (u32 \<Rightarrow> u8) \<Rightarrow> 'b \<Rightarrow> bool" where
  "holding readable ram peek b f b' \<longleftrightarrow>
     readable b' = readable b \<and> ram b' = ram b \<and> (\<forall>a. readable b a \<longrightarrow> peek b' a = f a)"

text \<open>Reading: \<open>readable\<close> are the addresses of plain memory, RAM or ROM.\<close>

locale readable_bus =
  fixes bus :: "'b m68k_bus"
    and readable :: "'b \<Rightarrow> u32 \<Rightarrow> bool"
    and ram :: "'b \<Rightarrow> u32 \<Rightarrow> bool"
    and peek :: "'b \<Rightarrow> u32 \<Rightarrow> u8"
  assumes read8: "readable b a \<Longrightarrow>
      \<exists>b'. readPhysical8 bus a b = ((peek b a, False), b') \<and> holding readable ram peek b (peek b) b'"
    and read16: "ram16 (readable b) a \<Longrightarrow>
      \<exists>b'. readPhysical16 bus a b = ((be16 (peek b) a, False), b') \<and> holding readable ram peek b (peek b) b'"
    and read32: "ram32 (readable b) a \<Longrightarrow>
      \<exists>b'. readPhysical32 bus a b = ((be32 (peek b) a, False), b') \<and> holding readable ram peek b (peek b) b'"
    and program8: "readable b a \<Longrightarrow> readProgram8 bus a b = readPhysical8 bus a b"
    and program16: "ram16 (readable b) a \<Longrightarrow> readProgram16 bus a b = readPhysical16 bus a b"
    and program32: "ram32 (readable b) a \<Longrightarrow> readProgram32 bus a b = readPhysical32 bus a b"

text \<open>Writing: \<open>ram\<close> are the readable addresses that can be written.\<close>

locale memory_bus = readable_bus +
  assumes ram_readable: "ram b a \<Longrightarrow> readable b a"
    and write8: "ram b a \<Longrightarrow>
      \<exists>b'. writePhysical8 bus a v b = (True, b') \<and> holding readable ram peek b ((peek b)(a := v)) b'"
    and write16: "ram16 (ram b) a \<Longrightarrow>
      \<exists>b'. writePhysical16 bus a w b = (True, b') \<and> holding readable ram peek b (put16 a w (peek b)) b'"
    and write32: "ram32 (ram b) a \<Longrightarrow>
      \<exists>b'. writePhysical32 bus a x b = (True, b') \<and> holding readable ram peek b (put32 a x (peek b)) b'"

subsection \<open>The engine on such a memory\<close>

text \<open>
  \<open>plain bus s\<close>: the engine is connected to \<open>bus\<close> and does not translate addresses.
  \<open>may_access s a\<close>: the address reaches the bus unchanged, and words at \<open>a\<close> are allowed, which on
  the processors before the 68020 needs an even address.
\<close>

definition plain :: "'b m68k_bus \<Rightarrow> 'b machine \<Rightarrow> bool" where
  "plain bus s \<longleftrightarrow> activeBus s = Some bus \<and> has_pmmu s = 0"

definition may_access :: "'b machine \<Rightarrow> u32 \<Rightarrow> bool" where
  "may_access s a \<longleftrightarrow> ADDRESS_68K s a = a \<and> (CPU_TYPE_IS_010_LESS (cpu_type s) \<longrightarrow> a AND 1 = 0)"

lemma translate_if_enabled_plain: "plain bus s \<Longrightarrow> translate_if_enabled_via berr a fc rw sz s = Ret a s"
  by (simp add: plain_def translate_if_enabled_via_def)

lemma address_check_passes:
  "may_access s a \<Longrightarrow> m68ki_check_address_error_010_less a mode fc s = Ret () s"
  by (simp add: may_access_def m68ki_check_address_error_010_less_def m68ki_check_address_error_def)

lemma plain_set_fc [simp]: "plain bus (m68ki_set_fc fc s) \<longleftrightarrow> plain bus s"
  "may_access (m68ki_set_fc fc s) a \<longleftrightarrow> may_access s a"
  by (simp_all add: plain_def may_access_def m68ki_set_fc_def ADDRESS_68K_def)

lemmas plain_access_defs =
  m68ki_read_8_fc_via_def m68ki_read_16_fc_via_def m68ki_read_32_fc_via_def
  m68ki_write_8_fc_via_def m68ki_write_16_fc_via_def m68ki_write_32_fc_via_def

text \<open>A plain engine hands every allowed access to its bus.\<close>

lemma read_8_plain:
  assumes "plain bus s" "ADDRESS_68K s a = a"
    and "readPhysical8 bus a (bus_state s) = ((v, False), b')"
    and "readProgram8 bus a (bus_state s) = readPhysical8 bus a (bus_state s)"
  shows "m68ki_read_8_fc_via berr a fc s =
    Ret (ucast v) (s\<lparr>activeFunctionCode := fc, bus_state := b'\<rparr>)"
  using assms
  by (simp add: plain_access_defs translate_if_enabled_plain Let_def m68k_read_memory_8_via_def)
    (simp add: finish_read_def plain_def ADDRESS_68K_def m68ki_set_fc_def)

lemma read_16_plain:
  assumes "plain bus s" "may_access s a"
    and "readPhysical16 bus a (bus_state s) = ((v, False), b')"
    and "readProgram16 bus a (bus_state s) = readPhysical16 bus a (bus_state s)"
  shows "m68ki_read_16_fc_via berr a fc s =
    Ret (ucast v) (s\<lparr>activeFunctionCode := fc, bus_state := b'\<rparr>)"
  using assms
  by (simp add: plain_access_defs translate_if_enabled_plain address_check_passes Let_def
      m68k_read_memory_16_via_def)
    (simp add: finish_read_def plain_def may_access_def ADDRESS_68K_def m68ki_set_fc_def)

lemma read_32_plain:
  assumes "plain bus s" "may_access s a"
    and "readPhysical32 bus a (bus_state s) = ((v, False), b')"
    and "readProgram32 bus a (bus_state s) = readPhysical32 bus a (bus_state s)"
  shows "m68ki_read_32_fc_via berr a fc s =
    Ret v (s\<lparr>activeFunctionCode := fc, bus_state := b'\<rparr>)"
  using assms
  by (simp add: plain_access_defs translate_if_enabled_plain address_check_passes Let_def
      m68k_read_memory_32_via_def)
    (simp add: finish_read_def plain_def may_access_def ADDRESS_68K_def m68ki_set_fc_def)

lemma write_8_plain:
  assumes "plain bus s" "ADDRESS_68K s a = a"
    and "writePhysical8 bus a (ucast v) (bus_state s) = (True, b')"
  shows "m68ki_write_8_fc_via berr a fc v s =
    Ret () (s\<lparr>activeFunctionCode := fc, bus_state := b'\<rparr>)"
  using assms
  by (simp add: plain_access_defs translate_if_enabled_plain Let_def m68k_write_memory_8_via_def)
    (simp add: finish_write_def plain_def ADDRESS_68K_def m68ki_set_fc_def)

lemma write_16_plain:
  assumes "plain bus s" "may_access s a"
    and "writePhysical16 bus a (ucast v) (bus_state s) = (True, b')"
  shows "m68ki_write_16_fc_via berr a fc v s =
    Ret () (s\<lparr>activeFunctionCode := fc, bus_state := b'\<rparr>)"
  using assms
  by (simp add: plain_access_defs translate_if_enabled_plain address_check_passes Let_def
      m68k_write_memory_16_via_def)
    (simp add: finish_write_def plain_def may_access_def ADDRESS_68K_def m68ki_set_fc_def)

lemma write_32_plain:
  assumes "plain bus s" "may_access s a"
    and "writePhysical32 bus a v (bus_state s) = (True, b')"
  shows "m68ki_write_32_fc_via berr a fc v s =
    Ret () (s\<lparr>activeFunctionCode := fc, bus_state := b'\<rparr>)"
  using assms
  by (simp add: plain_access_defs translate_if_enabled_plain address_check_passes Let_def
      m68k_write_memory_32_via_def)
    (simp add: finish_write_def plain_def may_access_def ADDRESS_68K_def m68ki_set_fc_def)

text \<open>
  With the contract: what the engine's reads, writes, pushes and pulls do to plain memory.  Each
  lemma starts from a bus that holds the bytes \<open>f\<close> of a memory \<open>b\<close> and says which bytes it
  holds afterwards, so that sequences of accesses compose.
\<close>

lemmas contract_ops =
  m68ki_read_8_def m68ki_read_16_def m68ki_read_32_def m68ki_read_data_32_def
  m68ki_write_8_def m68ki_write_16_def m68ki_write_32_def
  m68ki_read_8_fc_def m68ki_read_16_fc_def m68ki_read_32_fc_def
  m68ki_write_8_fc_def m68ki_write_16_fc_def m68ki_write_32_fc_def

lemma plain_cong:
  "activeBus t = activeBus s \<Longrightarrow> has_pmmu t = has_pmmu s \<Longrightarrow> plain bus t = plain bus s"
  by (simp add: plain_def)

lemma may_access_cong:
  "address_mask t = address_mask s \<Longrightarrow> cpu_type t = cpu_type s \<Longrightarrow> may_access t a = may_access s a"
  by (simp add: may_access_def ADDRESS_68K_def)

lemma holding_refl [simp]: "holding readable ram peek b (peek b) b"
  by (simp add: holding_def)

lemma holding_trans:
  assumes "holding readable ram peek b f b'" "holding readable ram peek b' g b''"
    and "\<And>a. readable b a \<Longrightarrow> g a = h a"
  shows "holding readable ram peek b h b''"
  using assms by (simp add: holding_def)

lemma holding_be:
  assumes "holding readable ram peek b f b'"
  shows "readable b a \<Longrightarrow> peek b' a = f a"
    and "ram16 (readable b) a \<Longrightarrow> be16 (peek b') a = be16 f a"
    and "ram32 (readable b) a \<Longrightarrow> be32 (peek b') a = be32 f a"
  using assms by (simp_all add: holding_def be16_def be32_def ram16_def ram32_def)

lemma holding_put:
  assumes "holding readable ram peek b f b'"
  shows "readable b x \<Longrightarrow> put16 a v (peek b') x = put16 a v f x"
    and "readable b x \<Longrightarrow> put32 a w (peek b') x = put32 a w f x"
  using assms by (simp_all add: holding_def put16_def put32_def)

text \<open>
  \<open>in_step f s\<close>: the word in the prefetch queue, if it is meant for the program counter, is the one
  in memory.  \<open>may_fetch\<close>: a word can be fetched at an address.
\<close>

definition in_step :: "(u32 \<Rightarrow> u8) \<Rightarrow> 'b machine \<Rightarrow> bool" where
  "in_step f s \<longleftrightarrow> (pref_addr s = pc s \<longrightarrow> MASK_OUT_ABOVE_16 (pref_data s) = ucast (be16 f (pc s)))"

definition may_fetch :: "('b \<Rightarrow> u32 \<Rightarrow> bool) \<Rightarrow> 'b \<Rightarrow> 'b machine \<Rightarrow> u32 \<Rightarrow> bool" where
  "may_fetch readable b s a \<longleftrightarrow> a AND 1 = 0 \<and> ADDRESS_68K s a = a \<and> ram16 (readable b) a"

lemma low_ucast_16 [simp]: "MASK_OUT_ABOVE_16 (ucast (x :: u16)) = ucast x"
proof -
  have "MASK_OUT_ABOVE_16 (ucast x) = take_bit 16 (ucast x :: u32)"
    by (simp add: MASK_OUT_ABOVE_16_def take_bit_eq_mask mask_eq_exp_minus_1)
  also have "\<dots> = ucast x"
    by (rule bit_word_eqI) (auto simp: bit_simps dest: bit_imp_le_length)
  finally show ?thesis .
qed

context readable_bus
begin

lemma read_32_fc:
  assumes "plain bus s" "may_access s a" "holding readable ram peek b f (bus_state s)" "ram32 (readable b) a"
  obtains b' where "m68ki_read_32_fc_via berr a fc s =
      Ret (be32 f a) (s\<lparr>activeFunctionCode := fc, bus_state := b'\<rparr>)"
    and "holding readable ram peek b f b'"
proof -
  have r: "ram32 (readable (bus_state s)) a" using assms(3,4) by (simp add: holding_def)
  obtain b' where b': "readPhysical32 bus a (bus_state s) = ((be32 (peek (bus_state s)) a, False), b')"
      "holding readable ram peek (bus_state s) (peek (bus_state s)) b'"
    using read32 [OF r] by blast
  have "holding readable ram peek b f b'"
    by (rule holding_trans [OF assms(3) b'(2)]) (rule holding_be(1) [OF assms(3)])
  moreover have "be32 (peek (bus_state s)) a = be32 f a"
    by (rule holding_be(3) [OF assms(3,4)])
  ultimately show thesis
    using that read_32_plain [OF assms(1,2) b'(1) program32 [OF r]] by simp
qed

lemma read_16_fc:
  assumes "plain bus s" "may_access s a" "holding readable ram peek b f (bus_state s)" "ram16 (readable b) a"
  obtains b' where "m68ki_read_16_fc_via berr a fc s =
      Ret (ucast (be16 f a)) (s\<lparr>activeFunctionCode := fc, bus_state := b'\<rparr>)"
    and "holding readable ram peek b f b'"
proof -
  have r: "ram16 (readable (bus_state s)) a" using assms(3,4) by (simp add: holding_def)
  obtain b' where b': "readPhysical16 bus a (bus_state s) = ((be16 (peek (bus_state s)) a, False), b')"
      "holding readable ram peek (bus_state s) (peek (bus_state s)) b'"
    using read16 [OF r] by blast
  have "holding readable ram peek b f b'"
    by (rule holding_trans [OF assms(3) b'(2)]) (rule holding_be(1) [OF assms(3)])
  moreover have "be16 (peek (bus_state s)) a = be16 f a"
    by (rule holding_be(2) [OF assms(3,4)])
  ultimately show thesis
    using that read_16_plain [OF assms(1,2) b'(1) program16 [OF r]] by simp
qed

lemma read_8_fc:
  assumes "plain bus s" "ADDRESS_68K s a = a" "holding readable ram peek b f (bus_state s)" "readable b a"
  obtains b' where "m68ki_read_8_fc_via berr a fc s =
      Ret (ucast (f a)) (s\<lparr>activeFunctionCode := fc, bus_state := b'\<rparr>)"
    and "holding readable ram peek b f b'"
proof -
  have r: "readable (bus_state s) a" using assms(3,4) by (simp add: holding_def)
  obtain b' where b': "readPhysical8 bus a (bus_state s) = ((peek (bus_state s) a, False), b')"
      "holding readable ram peek (bus_state s) (peek (bus_state s)) b'"
    using read8 [OF r] by blast
  have "holding readable ram peek b f b'"
    by (rule holding_trans [OF assms(3) b'(2)]) (rule holding_be(1) [OF assms(3)])
  moreover have "peek (bus_state s) a = f a"
    by (rule holding_be(1) [OF assms(3,4)])
  ultimately show thesis
    using that read_8_plain [OF assms(1,2) b'(1) program8 [OF r]] by simp
qed

lemma pull_32:
  assumes "plain bus s" "may_access s (dar s 15)" "holding readable ram peek b f (bus_state s)"
    and "ram32 (readable b) (dar s 15)"
  obtains b' where "m68ki_pull_32 s = Ret (be32 f (dar s 15))
      (s\<lparr>dar := (dar s)(15 := dar s 15 + 4),
         activeFunctionCode := s_flag s OR address_space s, bus_state := b'\<rparr>)"
    and "holding readable ram peek b f b'"
proof -
  let ?s = "s\<lparr>dar := (dar s)(15 := dar s 15 + 4)\<rparr>"
  have "plain bus ?s" "may_access ?s (dar s 15)" "holding readable ram peek b f (bus_state ?s)"
    using assms(1-3) by (simp_all add: plain_def may_access_def ADDRESS_68K_def)
  from this assms(4) obtain b' where
    "m68ki_read_32_fc_via m68ki_exception_bus_error (dar s 15) (s_flag s OR address_space s) ?s =
      Ret (be32 f (dar s 15)) (?s\<lparr>activeFunctionCode := s_flag s OR address_space s, bus_state := b'\<rparr>)"
    and "holding readable ram peek b f b'"
    by (rule read_32_fc)
  then show thesis
    using that by (simp add: m68ki_pull_32_def contract_ops Let_def register_defs)
qed

lemma pull_16:
  assumes "plain bus s" "may_access s (dar s 15)" "holding readable ram peek b f (bus_state s)"
    and "ram16 (readable b) (dar s 15)"
  obtains b' where "m68ki_pull_16 s = Ret (ucast (be16 f (dar s 15)))
      (s\<lparr>dar := (dar s)(15 := dar s 15 + 2),
         activeFunctionCode := s_flag s OR address_space s, bus_state := b'\<rparr>)"
    and "holding readable ram peek b f b'"
proof -
  let ?s = "s\<lparr>dar := (dar s)(15 := dar s 15 + 2)\<rparr>"
  have "plain bus ?s" "may_access ?s (dar s 15)" "holding readable ram peek b f (bus_state ?s)"
    using assms(1-3) by (simp_all add: plain_def may_access_def ADDRESS_68K_def)
  from this assms(4) obtain b' where
    "m68ki_read_16_fc_via m68ki_exception_bus_error (dar s 15) (s_flag s OR address_space s) ?s =
      Ret (ucast (be16 f (dar s 15))) (?s\<lparr>activeFunctionCode := s_flag s OR address_space s, bus_state := b'\<rparr>)"
    and "holding readable ram peek b f b'"
    by (rule read_16_fc)
  then show thesis
    using that by (simp add: m68ki_pull_16_def contract_ops Let_def register_defs)
qed

text \<open>Instruction fetch.\<close>

lemma prefetch:
  assumes "plain bus s" "may_fetch readable b s (pref_addr s)" "holding readable ram peek b f (bus_state s)"
  obtains b' where "m68ki_prefetch s = Ret () (s\<lparr>pref_data := ucast (be16 f (pref_addr s)),
      activeFunctionCode := s_flag s OR FUNCTION_CODE_USER_PROGRAM, bus_state := b'\<rparr>)"
    and "holding readable ram peek b f b'"
proof -
  have a: "ADDRESS_68K s (pref_addr s) = pref_addr s" "may_access s (pref_addr s)"
      "ram16 (readable b) (pref_addr s)"
    using assms(2) by (simp_all add: may_fetch_def may_access_def)
  obtain b' where "m68ki_read_16_fc_via m68ki_exception_bus_error (pref_addr s)
      (s_flag s OR FUNCTION_CODE_USER_PROGRAM) s = Ret (ucast (be16 f (pref_addr s)))
        (s\<lparr>activeFunctionCode := s_flag s OR FUNCTION_CODE_USER_PROGRAM, bus_state := b'\<rparr>)"
    and h: "holding readable ram peek b f b'"
    by (rule read_16_fc [OF assms(1) a(2) assms(3) a(3)])
  then have "m68ki_prefetch s = Ret () (s\<lparr>pref_data := ucast (be16 f (pref_addr s)),
      activeFunctionCode := s_flag s OR FUNCTION_CODE_USER_PROGRAM, bus_state := b'\<rparr>)"
    by (simp add: m68ki_prefetch_def a m68ki_read_program_16_def contract_ops)
  then show thesis by (rule that) (rule h)
qed

lemma fetch_start:
  assumes "plain bus s" "may_fetch readable b s (pc s)" "holding readable ram peek b f (bus_state s)" "in_step f s"
  obtains b' d where "m68ki_fetch_start s = Ret () (s\<lparr>pref_addr := pc s, pref_data := d,
      activeFunctionCode := s_flag s OR FUNCTION_CODE_USER_PROGRAM, bus_state := b'\<rparr>)"
    and "MASK_OUT_ABOVE_16 d = ucast (be16 f (pc s))" and "holding readable ram peek b f b'"
proof -
  let ?t = "m68ki_set_fc (s_flag s OR FUNCTION_CODE_USER_PROGRAM) s"
  have start: "m68ki_fetch_start s =
      (if pc s \<noteq> pref_addr s then m68ki_prefetch (?t\<lparr>pref_addr := pc s\<rparr>) else Ret () ?t)"
    using assms(2)
    by (simp add: m68ki_fetch_start_def may_fetch_def m68ki_check_address_error_def m68ki_set_fc_def Let_def)
  show thesis
  proof (cases "pc s = pref_addr s")
    case True
    then have "?t = s\<lparr>pref_addr := pc s, pref_data := pref_data s,
        activeFunctionCode := s_flag s OR FUNCTION_CODE_USER_PROGRAM, bus_state := bus_state s\<rparr>"
      by (simp add: m68ki_set_fc_def)
    with True assms(3,4) show thesis
      by (intro that [of "bus_state s" "pref_data s"]) (simp_all add: start in_step_def)
  next
    case False
    let ?u = "?t\<lparr>pref_addr := pc s\<rparr>"
    have "plain bus ?u" "may_fetch readable b ?u (pref_addr ?u)" "holding readable ram peek b f (bus_state ?u)"
      using assms(1-3)
      by (simp_all add: plain_def may_fetch_def ADDRESS_68K_def m68ki_set_fc_def)
    from prefetch [OF this] obtain b' where
      "m68ki_prefetch ?u = Ret () (?u\<lparr>pref_data := ucast (be16 f (pref_addr ?u)),
        activeFunctionCode := s_flag ?u OR FUNCTION_CODE_USER_PROGRAM, bus_state := b'\<rparr>)"
      "holding readable ram peek b f b'" by blast
    with False show thesis
      by (intro that [of b' "ucast (be16 f (pc s))"]) (simp_all add: start m68ki_set_fc_def)
  qed
qed

lemma fetch_next:
  assumes "plain bus s" "may_fetch readable b s (pc s + 2)" "holding readable ram peek b f (bus_state s)"
  obtains b' where "m68ki_fetch_next s = Ret () (s\<lparr>pc := pc s + 2, pref_addr := pc s + 2,
      pref_data := ucast (be16 f (pc s + 2)),
      activeFunctionCode := s_flag s OR FUNCTION_CODE_USER_PROGRAM, bus_state := b'\<rparr>)"
    and "holding readable ram peek b f b'"
proof -
  let ?u = "s\<lparr>pc := pc s + 2, pref_addr := pc s + 2\<rparr>"
  have "plain bus ?u" "may_fetch readable b ?u (pref_addr ?u)" "holding readable ram peek b f (bus_state ?u)"
    using assms by (simp_all add: plain_def may_fetch_def ADDRESS_68K_def)
  from prefetch [OF this] obtain b' where "m68ki_prefetch ?u = Ret () (?u\<lparr>pref_data := ucast (be16 f (pref_addr ?u)),
      activeFunctionCode := s_flag ?u OR FUNCTION_CODE_USER_PROGRAM, bus_state := b'\<rparr>)"
    and h: "holding readable ram peek b f b'" by blast
  then have "m68ki_fetch_next s = Ret () (s\<lparr>pc := pc s + 2, pref_addr := pc s + 2,
      pref_data := ucast (be16 f (pc s + 2)),
      activeFunctionCode := s_flag s OR FUNCTION_CODE_USER_PROGRAM, bus_state := b'\<rparr>)"
    by (simp add: m68ki_fetch_next_def Let_def)
  then show thesis by (rule that) (rule h)
qed

text \<open>An immediate word and an immediate long word are the big-endian values at the program counter.\<close>

lemma imm_16:
  assumes "plain bus s" "\<forall>i\<in>{0, 2}. may_fetch readable b s (pc s + i)"
    and "holding readable ram peek b f (bus_state s)" "in_step f s"
  obtains b' where "m68ki_read_imm_16 s = Ret (ucast (be16 f (pc s))) (s\<lparr>pc := pc s + 2,
      pref_addr := pc s + 2, pref_data := ucast (be16 f (pc s + 2)),
      activeFunctionCode := s_flag s OR FUNCTION_CODE_USER_PROGRAM, bus_state := b'\<rparr>)"
    and "holding readable ram peek b f b'"
proof -
  have a: "may_fetch readable b s (pc s)" "may_fetch readable b s (pc s + 2)" using assms(2) by simp_all
  obtain b' d where d: "m68ki_fetch_start s = Ret () (s\<lparr>pref_addr := pc s, pref_data := d,
      activeFunctionCode := s_flag s OR FUNCTION_CODE_USER_PROGRAM, bus_state := b'\<rparr>)" (is "_ = Ret () ?t")
    "MASK_OUT_ABOVE_16 d = ucast (be16 f (pc s))" "holding readable ram peek b f b'"
    by (rule fetch_start [OF assms(1) a(1) assms(3,4)])
  have "plain bus ?t" "may_fetch readable b ?t (pc ?t + 2)" "holding readable ram peek b f (bus_state ?t)"
    using assms(1) a(2) d(3) by (simp_all add: plain_def may_fetch_def ADDRESS_68K_def)
  from fetch_next [OF this] obtain b'' where "m68ki_fetch_next ?t = Ret () (?t\<lparr>pc := pc ?t + 2,
      pref_addr := pc ?t + 2, pref_data := ucast (be16 f (pc ?t + 2)),
      activeFunctionCode := s_flag ?t OR FUNCTION_CODE_USER_PROGRAM, bus_state := b''\<rparr>)"
    and h: "holding readable ram peek b f b''" by blast
  then have "m68ki_read_imm_16 s = Ret (ucast (be16 f (pc s))) (s\<lparr>pc := pc s + 2,
      pref_addr := pc s + 2, pref_data := ucast (be16 f (pc s + 2)),
      activeFunctionCode := s_flag s OR FUNCTION_CODE_USER_PROGRAM, bus_state := b''\<rparr>)"
    by (simp add: m68ki_read_imm_16_def d Let_def)
  then show thesis by (rule that) (rule h)
qed

lemma imm_32:
  assumes "plain bus s" "\<forall>i\<in>{0, 2, 4}. may_fetch readable b s (pc s + i)"
    and "holding readable ram peek b f (bus_state s)" "in_step f s"
  obtains b' where "m68ki_read_imm_32 s = Ret (be32 f (pc s)) (s\<lparr>pc := pc s + 4,
      pref_addr := pc s + 4, pref_data := ucast (be16 f (pc s + 4)),
      activeFunctionCode := s_flag s OR FUNCTION_CODE_USER_PROGRAM, bus_state := b'\<rparr>)"
    and "holding readable ram peek b f b'"
proof -
  have a: "may_fetch readable b s (pc s)" "may_fetch readable b s (pc s + 2)"
      "may_fetch readable b s (pc s + 4)" using assms(2) by simp_all
  obtain b' d where d: "m68ki_fetch_start s = Ret () (s\<lparr>pref_addr := pc s, pref_data := d,
      activeFunctionCode := s_flag s OR FUNCTION_CODE_USER_PROGRAM, bus_state := b'\<rparr>)" (is "_ = Ret () ?t")
    "MASK_OUT_ABOVE_16 d = ucast (be16 f (pc s))" "holding readable ram peek b f b'"
    by (rule fetch_start [OF assms(1) a(1) assms(3,4)])
  have "plain bus ?t" "may_fetch readable b ?t (pc ?t + 2)" "holding readable ram peek b f (bus_state ?t)"
    using assms(1) a(2) d(3) by (simp_all add: plain_def may_fetch_def ADDRESS_68K_def)
  from fetch_next [OF this] obtain b2 where n1: "m68ki_fetch_next ?t = Ret () (?t\<lparr>pc := pc ?t + 2,
      pref_addr := pc ?t + 2, pref_data := ucast (be16 f (pc ?t + 2)),
      activeFunctionCode := s_flag ?t OR FUNCTION_CODE_USER_PROGRAM, bus_state := b2\<rparr>)" (is "_ = Ret () ?u")
    and h2: "holding readable ram peek b f b2" by blast
  have "plain bus ?u" "may_fetch readable b ?u (pc ?u + 2)" "holding readable ram peek b f (bus_state ?u)"
    using assms(1) a(3) h2 by (simp_all add: plain_def may_fetch_def ADDRESS_68K_def add.commute)
  from fetch_next [OF this] obtain b3 where "m68ki_fetch_next ?u = Ret () (?u\<lparr>pc := pc ?u + 2,
      pref_addr := pc ?u + 2, pref_data := ucast (be16 f (pc ?u + 2)),
      activeFunctionCode := s_flag ?u OR FUNCTION_CODE_USER_PROGRAM, bus_state := b3\<rparr>)"
    and h: "holding readable ram peek b f b3" by blast
  then have "m68ki_read_imm_32 s = Ret (be32 f (pc s)) (s\<lparr>pc := pc s + 4,
      pref_addr := pc s + 4, pref_data := ucast (be16 f (pc s + 4)),
      activeFunctionCode := s_flag s OR FUNCTION_CODE_USER_PROGRAM, bus_state := b3\<rparr>)"
    using n1 by (simp add: m68ki_read_imm_32_def d Let_def be32_def add.commute)
  then show thesis by (rule that) (rule h)
qed

lemma jump_vector:
  assumes "plain bus s" "may_access s (push_bit 2 v + vbr s)" "holding readable ram peek b f (bus_state s)"
    and "ram32 (readable b) (push_bit 2 v + vbr s)"
  obtains b' where "m68ki_jump_vector v s = Ret () (s\<lparr>activeFunctionCode := s_flag s OR FUNCTION_CODE_USER_DATA,
      bus_state := b', pc := be32 f (push_bit 2 v + vbr s)\<rparr>)"
    and "holding readable ram peek b f b'"
proof -
  let ?s = "s\<lparr>pc := push_bit 2 v + vbr s\<rparr>"
  have "plain bus ?s" "may_access ?s (push_bit 2 v + vbr s)" "holding readable ram peek b f (bus_state ?s)"
    using assms(1-3) by (simp_all add: plain_def may_access_def ADDRESS_68K_def)
  from this assms(4) obtain b' where
    "m68ki_read_32_fc_via m68ki_exception_bus_error (push_bit 2 v + vbr s)
       (s_flag s OR FUNCTION_CODE_USER_DATA) ?s =
      Ret (be32 f (push_bit 2 v + vbr s))
        (?s\<lparr>activeFunctionCode := s_flag s OR FUNCTION_CODE_USER_DATA, bus_state := b'\<rparr>)"
    and "holding readable ram peek b f b'"
    by (rule read_32_fc)
  then show thesis
    using that by (simp add: m68ki_jump_vector_def m68ki_jump_vector_via_def Let_def)
qed

end

context memory_bus
begin

lemma write_32_fc:
  assumes "plain bus s" "may_access s a" "holding readable ram peek b f (bus_state s)" "ram32 (ram b) a"
  obtains b' where "m68ki_write_32_fc_via berr a fc v s =
      Ret () (s\<lparr>activeFunctionCode := fc, bus_state := b'\<rparr>)"
    and "holding readable ram peek b (put32 a v f) b'"
proof -
  have r: "ram32 (ram (bus_state s)) a" using assms(3,4) by (simp add: holding_def)
  obtain b' where b': "writePhysical32 bus a v (bus_state s) = (True, b')"
      "holding readable ram peek (bus_state s) (put32 a v (peek (bus_state s))) b'"
    using write32 [OF r] by blast
  have "holding readable ram peek b (put32 a v f) b'"
    by (rule holding_trans [OF assms(3) b'(2)]) (rule holding_put(2) [OF assms(3)])
  then show thesis using that write_32_plain [OF assms(1,2) b'(1)] by blast
qed

lemma write_16_fc:
  assumes "plain bus s" "may_access s a" "holding readable ram peek b f (bus_state s)" "ram16 (ram b) a"
  obtains b' where "m68ki_write_16_fc_via berr a fc v s =
      Ret () (s\<lparr>activeFunctionCode := fc, bus_state := b'\<rparr>)"
    and "holding readable ram peek b (put16 a (ucast v) f) b'"
proof -
  have r: "ram16 (ram (bus_state s)) a" using assms(3,4) by (simp add: holding_def)
  obtain b' where b': "writePhysical16 bus a (ucast v) (bus_state s) = (True, b')"
      "holding readable ram peek (bus_state s) (put16 a (ucast v) (peek (bus_state s))) b'"
    using write16 [OF r] by blast
  have "holding readable ram peek b (put16 a (ucast v) f) b'"
    by (rule holding_trans [OF assms(3) b'(2)]) (rule holding_put(1) [OF assms(3)])
  then show thesis using that write_16_plain [OF assms(1,2) b'(1)] by blast
qed

lemma write_8_fc:
  assumes "plain bus s" "ADDRESS_68K s a = a" "holding readable ram peek b f (bus_state s)" "ram b a"
  obtains b' where "m68ki_write_8_fc_via berr a fc v s =
      Ret () (s\<lparr>activeFunctionCode := fc, bus_state := b'\<rparr>)"
    and "holding readable ram peek b (f(a := ucast v)) b'"
proof -
  have r: "ram (bus_state s) a" using assms(3,4) by (simp add: holding_def)
  obtain b' where b': "writePhysical8 bus a (ucast v) (bus_state s) = (True, b')"
      "holding readable ram peek (bus_state s) ((peek (bus_state s))(a := ucast v)) b'"
    using write8 [OF r] by blast
  have "holding readable ram peek b (f(a := ucast v)) b'"
    using holding_trans [OF assms(3) b'(2)] assms(3) by (simp add: holding_def)
  then show thesis using that write_8_plain [OF assms(1,2) b'(1)] by blast
qed

lemma push_32:
  assumes "plain bus s" "may_access s (dar s 15 - 4)" "holding readable ram peek b f (bus_state s)"
    and "ram32 (ram b) (dar s 15 - 4)"
  obtains b' where "m68ki_push_32 v s = Ret () (s\<lparr>dar := (dar s)(15 := dar s 15 - 4),
      activeFunctionCode := s_flag s OR FUNCTION_CODE_USER_DATA, bus_state := b'\<rparr>)"
    and "holding readable ram peek b (put32 (dar s 15 - 4) v f) b'"
proof -
  let ?s = "s\<lparr>dar := (dar s)(15 := dar s 15 - 4)\<rparr>"
  have "plain bus ?s" "may_access ?s (dar s 15 - 4)" "holding readable ram peek b f (bus_state ?s)"
    using assms(1-3) by (simp_all add: plain_def may_access_def ADDRESS_68K_def)
  from this assms(4) obtain b' where
    "m68ki_write_32_fc_via m68ki_exception_bus_error (dar s 15 - 4)
       (s_flag s OR FUNCTION_CODE_USER_DATA) v ?s =
      Ret () (?s\<lparr>activeFunctionCode := s_flag s OR FUNCTION_CODE_USER_DATA, bus_state := b'\<rparr>)"
    and "holding readable ram peek b (put32 (dar s 15 - 4) v f) b'"
    by (rule write_32_fc)
  then show thesis
    using that by (simp add: m68ki_push_32_def m68ki_push_32_via_def Let_def register_defs)
qed

lemma push_16:
  assumes "plain bus s" "may_access s (dar s 15 - 2)" "holding readable ram peek b f (bus_state s)"
    and "ram16 (ram b) (dar s 15 - 2)"
  obtains b' where "m68ki_push_16 v s = Ret () (s\<lparr>dar := (dar s)(15 := dar s 15 - 2),
      activeFunctionCode := s_flag s OR FUNCTION_CODE_USER_DATA, bus_state := b'\<rparr>)"
    and "holding readable ram peek b (put16 (dar s 15 - 2) (ucast v) f) b'"
proof -
  let ?s = "s\<lparr>dar := (dar s)(15 := dar s 15 - 2)\<rparr>"
  have "plain bus ?s" "may_access ?s (dar s 15 - 2)" "holding readable ram peek b f (bus_state ?s)"
    using assms(1-3) by (simp_all add: plain_def may_access_def ADDRESS_68K_def)
  from this assms(4) obtain b' where
    "m68ki_write_16_fc_via m68ki_exception_bus_error (dar s 15 - 2)
       (s_flag s OR FUNCTION_CODE_USER_DATA) v ?s =
      Ret () (?s\<lparr>activeFunctionCode := s_flag s OR FUNCTION_CODE_USER_DATA, bus_state := b'\<rparr>)"
    and "holding readable ram peek b (put16 (dar s 15 - 2) (ucast v) f) b'"
    by (rule write_16_fc)
  then show thesis
    using that by (simp add: m68ki_push_16_def m68ki_push_16_via_def Let_def register_defs)
qed

end

end
