(* ===== verification/MacPlusBus.thy ===== *)
theory MacPlusBus
  imports MemoryContract
begin

section \<open>The memory bus of the Macintosh Plus\<close>

text \<open>
  The \<open>M68kBus\<close> that \<open>MacPlusMachine\<close> (MacPlusMachine.cpp) gives the engine: the address decoder
  \<open>regionFor\<close> with the ROM overlay, RAM, ROM, and the dispatch of device accesses.  The chips
  behind SCC, IWM, VIA and SCSI are the argument \<open>dev\<close>; an access to one of them may change any
  part of the machine (the VIA switches the overlay).  The event log, the bus trace and the sound
  capture, which nothing reads back, are left out.
\<close>

unbundle bit_operations_syntax

datatype Model = Macintosh128K | Macintosh512K | Macintosh512Ke | MacintoshPlus

datatype Region = Ram | Rom | Scc | Iwm | Via | Scsi | Configuration | Unmapped

datatype BusAccessKind = DataRead | DataWrite | InstructionFetch | DebugRead | DebugWrite

record BusTransaction =
  bt_address :: u32
  bt_value :: u32
  bt_size :: u8
  bt_byteEnable :: u8
  bt_kind :: BusAccessKind

record AccessSummary =
  ramReads :: u64
  ramWrites :: u64
  romReads :: u64
  sccReads :: u64
  sccWrites :: u64
  iwmReads :: u64
  iwmWrites :: u64
  viaReads :: u64
  viaWrites :: u64
  scsiReads :: u64
  scsiWrites :: u64
  configurationReads :: u64
  unmappedReads :: u64
  unmappedWrites :: u64

text \<open>The part of the machine object the bus uses; \<open>'d\<close> is the state of the chips.\<close>

record 'd mac_plus =
  m_model :: Model
  m_overlayEnabled :: bool
  m_ram :: "u8 list"
  m_rom :: "u8 list"
  m_accessSummary :: AccessSummary
  m_devices :: 'd

record 'd device_buses =
  sccBus_access :: "u32 \<Rightarrow> BusTransaction \<Rightarrow> 'd mac_plus \<Rightarrow> u32 \<times> 'd mac_plus"
  iwmBus_access :: "u32 \<Rightarrow> BusTransaction \<Rightarrow> 'd mac_plus \<Rightarrow> u32 \<times> 'd mac_plus"
  viaBus_access :: "u32 \<Rightarrow> BusTransaction \<Rightarrow> 'd mac_plus \<Rightarrow> u32 \<times> 'd mac_plus"
  scsi_readRegister :: "u8 \<Rightarrow> u8 \<Rightarrow> 'd mac_plus \<Rightarrow> u32 \<times> 'd mac_plus"
  scsi_writeRegister :: "u8 \<Rightarrow> u8 \<Rightarrow> u32 \<Rightarrow> 'd mac_plus \<Rightarrow> 'd mac_plus"
  scsi_readPseudoDma :: "u8 \<Rightarrow> 'd mac_plus \<Rightarrow> u32 \<times> 'd mac_plus"
  scsi_writePseudoDma :: "u8 \<Rightarrow> u32 \<Rightarrow> 'd mac_plus \<Rightarrow> 'd mac_plus"

subsection \<open>Address map\<close>

definition ramBase :: u32 where "ramBase = 0x000000"
definition romBase :: u32 where "romBase = 0x400000"
definition overlayRamBase :: u32 where "overlayRamBase = 0x600000"
definition overlayRamWindowBytes :: u32 where "overlayRamWindowBytes = 0x100000"
definition scsiBase :: u32 where "scsiBase = 0x580000"
definition sccReadBase :: u32 where "sccReadBase = 0x9ffff8"
definition sccWriteBase :: u32 where "sccWriteBase = 0xbffff9"
definition iwmBase :: u32 where "iwmBase = 0xdfe1ff"
definition viaBase :: u32 where "viaBase = 0xefe1fe"
definition ramConfigBase :: u32 where "ramConfigBase = 0xf00000"
definition diagnosticVectorBase :: u32 where "diagnosticVectorBase = 0xf80000"
definition regionMask :: u32 where "regionMask = 0xc00000"
definition offset4MiBMask :: u32 where "offset4MiBMask = 0x3fffff"

lemmas map_constants =
  ramBase_def romBase_def overlayRamBase_def overlayRamWindowBytes_def scsiBase_def sccReadBase_def
  sccWriteBase_def iwmBase_def viaBase_def ramConfigBase_def diagnosticVectorBase_def
  regionMask_def offset4MiBMask_def

definition modelHasScsi :: "Model \<Rightarrow> bool" where
  "modelHasScsi model \<longleftrightarrow> model = MacintoshPlus"

definition regionFor :: "u32 \<Rightarrow> 'd mac_plus \<Rightarrow> Region" where
  "regionFor address m =
    (if address < romBase then (if m_overlayEnabled m then Rom else Ram)
     else if overlayRamBase \<le> address \<and> address < overlayRamBase + overlayRamWindowBytes then Ram
     else if address AND regionMask = romBase then
       (let offset = address AND offset4MiBMask
        in if modelHasScsi (m_model m) \<and> scsiBase - romBase \<le> offset
              \<and> offset < scsiBase - romBase + 0x1000
           then Scsi else Rom)
     else if address AND regionMask = 0x800000 then Scc
     else if address AND 0xf00000 = 0xd00000 then Iwm
     else if address AND 0xf00000 = 0xe00000 then Via
     else if ramConfigBase \<le> address \<and> address < ramConfigBase + 8 then Configuration
     else if diagnosticVectorBase \<le> address \<and> address < diagnosticVectorBase + 0x100
     then Configuration
     else Unmapped)"

definition ramOffset :: "u32 \<Rightarrow> 'd mac_plus \<Rightarrow> u32" where
  "ramOffset address m =
    (if m_overlayEnabled m \<and> overlayRamBase \<le> address
     then (address - overlayRamBase) mod of_nat (length (m_ram m))
     else (address - ramBase) mod of_nat (length (m_ram m)))"

definition readRomByte :: "u32 \<Rightarrow> 'd mac_plus \<Rightarrow> u8" where
  "readRomByte address m =
    (let offset = (if m_overlayEnabled m \<and> address < romBase then address
                   else (address - romBase) AND offset4MiBMask)
     in if m_model m = Macintosh512Ke \<and> 0x20000 \<le> offset \<and> offset < 0x20002 then 0xff
        else if m_model m = Macintosh512Ke \<and> 0x40000 \<le> offset \<and> offset < 0x40002 then 0xaa
        else m_rom m ! unat (offset mod of_nat (length (m_rom m))))"

subsection \<open>Device accesses\<close>

definition count :: "(AccessSummary \<Rightarrow> AccessSummary) \<Rightarrow> 'd mac_plus \<Rightarrow> 'd mac_plus" where
  "count f m = m\<lparr>m_accessSummary := f (m_accessSummary m)\<rparr>"

definition accessScsi :: "'d device_buses \<Rightarrow> BusTransaction \<Rightarrow> bool \<Rightarrow> 'd mac_plus \<Rightarrow> u32 \<times> 'd mac_plus" where
  "accessScsi dev t wr m =
    (let registerIndex = (ucast (drop_bit 4 (bt_address t) AND 7) :: u8);
         dack = bt_address t AND 0x0200 \<noteq> 0
     in if wr
        then (0, if dack then scsi_writePseudoDma dev (bt_size t) (bt_value t) m
                 else scsi_writeRegister dev registerIndex (bt_size t) (bt_value t) m)
        else if dack then scsi_readPseudoDma dev (bt_size t) m
        else scsi_readRegister dev registerIndex (bt_size t) m)"

text \<open>The value of the response and the machine; no access to a device reports a bus error.\<close>

definition accessDevice ::
    "'d device_buses \<Rightarrow> BusTransaction \<Rightarrow> Region \<Rightarrow> 'd mac_plus \<Rightarrow> u32 \<times> 'd mac_plus" where
  "accessDevice dev t region m =
    (let wr = (bt_kind t = DataWrite \<or> bt_kind t = DebugWrite)
     in case region of
          Scc \<Rightarrow>
            (let m = count (\<lambda>a. if wr then a\<lparr>sccWrites := sccWrites a + 1\<rparr>
                                else a\<lparr>sccReads := sccReads a + 1\<rparr>) m
             in sccBus_access dev (bt_address t - (if wr then sccWriteBase else sccReadBase)) t m)
        | Iwm \<Rightarrow>
            (let m = count (\<lambda>a. if wr then a\<lparr>iwmWrites := iwmWrites a + 1\<rparr>
                                else a\<lparr>iwmReads := iwmReads a + 1\<rparr>) m
             in iwmBus_access dev (bt_address t - iwmBase) t m)
        | Via \<Rightarrow>
            (let m = count (\<lambda>a. if wr then a\<lparr>viaWrites := viaWrites a + 1\<rparr>
                                else a\<lparr>viaReads := viaReads a + 1\<rparr>) m
             in viaBus_access dev (bt_address t - viaBase) t m)
        | Scsi \<Rightarrow>
            (let m = count (\<lambda>a. if wr then a\<lparr>scsiWrites := scsiWrites a + 1\<rparr>
                                else a\<lparr>scsiReads := scsiReads a + 1\<rparr>) m
             in accessScsi dev t wr m)
        | Configuration \<Rightarrow>
            (0, if wr then m
                else count (\<lambda>a. a\<lparr>configurationReads := configurationReads a + 1\<rparr>) m)
        | _ \<Rightarrow>
            (0xffffffff, count (\<lambda>a. if wr then a\<lparr>unmappedWrites := unmappedWrites a + 1\<rparr>
                                    else a\<lparr>unmappedReads := unmappedReads a + 1\<rparr>) m))"

definition readDevice8 :: "'d device_buses \<Rightarrow> u32 \<Rightarrow> Region \<Rightarrow> 'd mac_plus \<Rightarrow> u8 \<times> 'd mac_plus" where
  "readDevice8 dev address region m =
    (let (v, m) = accessDevice dev
           \<lparr>bt_address = address, bt_value = 0, bt_size = 1, bt_byteEnable = 1, bt_kind = DataRead\<rparr>
           region m
     in (ucast v, m))"

definition writeDevice8 :: "'d device_buses \<Rightarrow> u32 \<Rightarrow> Region \<Rightarrow> u8 \<Rightarrow> 'd mac_plus \<Rightarrow> 'd mac_plus" where
  "writeDevice8 dev address region value m =
    (if region = Rom then m
     else snd (accessDevice dev
           \<lparr>bt_address = address, bt_value = ucast value, bt_size = 1, bt_byteEnable = 1,
            bt_kind = DataWrite\<rparr> region m))"

subsection \<open>Reads and writes\<close>

definition bus_address :: "u32 \<Rightarrow> u32" where
  "bus_address address = address AND 0x00ffffff"

definition is_device :: "Region \<Rightarrow> bool" where
  "is_device region \<longleftrightarrow> region \<noteq> Ram \<and> region \<noteq> Rom \<and> region \<noteq> Unmapped"

definition mac_read8 :: "'d device_buses \<Rightarrow> u32 \<Rightarrow> 'd mac_plus \<Rightarrow> u8 \<times> 'd mac_plus" where
  "mac_read8 dev address m =
    (let address = bus_address address;
         region = regionFor address m
     in if region = Ram
        then (m_ram m ! unat (ramOffset address m), count (\<lambda>a. a\<lparr>ramReads := ramReads a + 1\<rparr>) m)
        else if region = Rom
        then (readRomByte address m, count (\<lambda>a. a\<lparr>romReads := romReads a + 1\<rparr>) m)
        else readDevice8 dev address region m)"

definition mac_read16 :: "'d device_buses \<Rightarrow> u32 \<Rightarrow> 'd mac_plus \<Rightarrow> u16 \<times> 'd mac_plus" where
  "mac_read16 dev address m =
    (let address = bus_address address;
         region = regionFor address m
     in if is_device region
        then (let (v, m) = accessDevice dev
                    \<lparr>bt_address = address, bt_value = 0, bt_size = 2, bt_byteEnable = 3,
                     bt_kind = DataRead\<rparr> region m
              in (ucast v, m))
        else (let (hi, m) = mac_read8 dev address m;
                  (lo, m) = mac_read8 dev (address + 1) m
              in (push_bit 8 (ucast hi) OR ucast lo, m)))"

definition mac_read32 :: "'d device_buses \<Rightarrow> u32 \<Rightarrow> 'd mac_plus \<Rightarrow> u32 \<times> 'd mac_plus" where
  "mac_read32 dev address m =
    (let address = bus_address address;
         (hi, m) = mac_read16 dev address m;
         (lo, m) = mac_read16 dev (address + 2) m
     in (push_bit 16 (ucast hi) OR ucast lo, m))"

definition mac_write8 :: "'d device_buses \<Rightarrow> u32 \<Rightarrow> u8 \<Rightarrow> 'd mac_plus \<Rightarrow> 'd mac_plus" where
  "mac_write8 dev address value m =
    (let address = bus_address address;
         region = regionFor address m
     in if region = Ram
        then (let m = count (\<lambda>a. a\<lparr>ramWrites := ramWrites a + 1\<rparr>) m
              in m\<lparr>m_ram := (m_ram m)[unat (ramOffset address m) := value]\<rparr>)
        else writeDevice8 dev address region value m)"

definition mac_write16 :: "'d device_buses \<Rightarrow> u32 \<Rightarrow> u16 \<Rightarrow> 'd mac_plus \<Rightarrow> 'd mac_plus" where
  "mac_write16 dev address value m =
    (let address = bus_address address;
         region = regionFor address m
     in if is_device region
        then snd (accessDevice dev
               \<lparr>bt_address = address, bt_value = ucast value, bt_size = 2, bt_byteEnable = 3,
                bt_kind = DataWrite\<rparr> region m)
        else mac_write8 dev (address + 1) (ucast value)
               (mac_write8 dev address (ucast (drop_bit 8 value)) m))"

definition mac_write32 :: "'d device_buses \<Rightarrow> u32 \<Rightarrow> u32 \<Rightarrow> 'd mac_plus \<Rightarrow> 'd mac_plus" where
  "mac_write32 dev address value m =
     mac_write16 dev (address + 2) (ucast value)
       (mac_write16 dev address (ucast (drop_bit 16 value)) m)"

text \<open>The virtual methods of \<open>M68kBus\<close>: the defaults of the header over the machine's accesses.\<close>

definition unfaulted :: "'v \<times> 'b \<Rightarrow> 'v read_result \<times> 'b" where
  "unfaulted r = ((fst r, False), snd r)"

definition macplus_bus :: "'d device_buses \<Rightarrow> 'd mac_plus m68k_bus" where
  "macplus_bus dev =
    \<lparr>readPhysical8 = \<lambda>a m. unfaulted (mac_read8 dev a m),
     readPhysical16 = \<lambda>a m. unfaulted (mac_read16 dev a m),
     readPhysical32 = \<lambda>a m. unfaulted (mac_read32 dev a m),
     readProgram8 = \<lambda>a m. unfaulted (mac_read8 dev a m),
     readProgram16 = \<lambda>a m. unfaulted (mac_read16 dev a m),
     readProgram32 = \<lambda>a m. unfaulted (mac_read32 dev a m),
     writePhysical8 = \<lambda>a v m. (True, mac_write8 dev a v m),
     writePhysical16 = \<lambda>a v m. (True, mac_write16 dev a v m),
     writePhysical32 = \<lambda>a v m. (True, mac_write32 dev a v m)\<rparr>"

subsection \<open>RAM as the engine sees it\<close>

text \<open>
  The addresses at which RAM appears once: from 0 with the overlay off, in the window at
  \<open>overlayRamBase\<close> with the overlay on.  Beyond its size RAM repeats.
\<close>

definition ram_start :: "'d mac_plus \<Rightarrow> u32" where
  "ram_start m = (if m_overlayEnabled m then overlayRamBase else ramBase)"

definition ram_window :: "'d mac_plus \<Rightarrow> nat" where
  "ram_window m = min (length (m_ram m)) (if m_overlayEnabled m then 0x100000 else 0x400000)"

definition mac_ram :: "'d mac_plus \<Rightarrow> u32 \<Rightarrow> bool" where
  "mac_ram m a \<longleftrightarrow> ram_start m \<le> a \<and> unat (a - ram_start m) < ram_window m
     \<and> length (m_ram m) < 2 ^ 32"

definition mac_peek :: "'d mac_plus \<Rightarrow> u32 \<Rightarrow> u8" where
  "mac_peek m a = m_ram m ! unat (a - ram_start m)"

lemma mac_ram_region:
  assumes "mac_ram m a"
  shows "regionFor a m = Ram" "a < 0x700000"
    and "unat (ramOffset a m) = unat (a - ram_start m)" "unat (a - ram_start m) < length (m_ram m)"
proof -
  show l: "unat (a - ram_start m) < length (m_ram m)"
    using assms by (simp add: mac_ram_def ram_window_def)
  have "a - ram_start m < (if m_overlayEnabled m then 0x100000 else 0x400000)"
    using assms by (simp add: mac_ram_def ram_window_def word_less_nat_alt split: if_splits)
  then have "unat a < unat (ram_start m) + (if m_overlayEnabled m then 0x100000 else 0x400000)"
    using assms by (simp add: mac_ram_def word_less_nat_alt unat_sub word_le_nat_alt split: if_splits)
  then show "regionFor a m = Ram" "a < 0x700000"
    using assms
    by (auto simp: regionFor_def ram_start_def map_constants mac_ram_def word_less_nat_alt
        word_le_nat_alt split: if_splits)
  have "unat (of_nat (length (m_ram m)) :: u32) = length (m_ram m)"
    using assms by (simp add: mac_ram_def unat_of_nat)
  then have "unat ((a - ram_start m) mod of_nat (length (m_ram m))) = unat (a - ram_start m)"
    using l by (simp add: unat_mod)
  then show "unat (ramOffset a m) = unat (a - ram_start m)"
    using assms by (auto simp: ramOffset_def ram_start_def mac_ram_def)
qed

lemma bus_address_small: "a < 0x700000 \<Longrightarrow> bus_address a = a"
proof -
  assume "a < 0x700000"
  then have "a < 2 ^ 24" by (rule order.strict_trans) simp
  then have "a AND mask 24 = a" by (rule less_mask_eq)
  moreover have "(0x00ffffff :: u32) = mask 24" by (simp add: mask_eq_exp_minus_1)
  ultimately show ?thesis by (simp add: bus_address_def)
qed

lemmas mac_ram_simps = mac_ram_region(1,3,4) bus_address_small [OF mac_ram_region(2)]

lemma mac_read8_ram: "mac_ram m a \<Longrightarrow> mac_read8 dev a m =
    (mac_peek m a, count (\<lambda>a. a\<lparr>ramReads := ramReads a + 1\<rparr>) m)"
  by (simp add: mac_read8_def mac_ram_simps mac_peek_def)

lemma count_frame [simp]:
  "m_ram (count g m) = m_ram m" "m_overlayEnabled (count g m) = m_overlayEnabled m"
  "mac_ram (count g m) = mac_ram m" "mac_peek (count g m) = mac_peek m"
  "ram_start (count g m) = ram_start m" "regionFor a (count g m) = regionFor a m"
  by (simp_all add: count_def mac_ram_def mac_peek_def ram_start_def ram_window_def regionFor_def
      fun_eq_iff)

lemma ramOffset_count [simp]: "ramOffset a (count g m) = ramOffset a m"
  by (simp add: ramOffset_def count_def)

lemma mac_read16_ram: "ram16 (mac_ram m) a \<Longrightarrow>
    \<exists>m'. mac_read16 dev a m = (be16 (mac_peek m) a, m') \<and> mac_ram m' = mac_ram m
      \<and> mac_peek m' = mac_peek m"
  by (auto simp: mac_read16_def mac_ram_simps is_device_def ram16_def mac_read8_ram be16_def Let_def)

lemma mac_read32_ram: "ram32 (mac_ram m) a \<Longrightarrow>
    \<exists>m'. mac_read32 dev a m = (be32 (mac_peek m) a, m') \<and> mac_ram m' = mac_ram m
      \<and> mac_peek m' = mac_peek m"
proof -
  assume r: "ram32 (mac_ram m) a"
  then have r1: "ram16 (mac_ram m) a" and "mac_ram m a"
    by (simp_all add: ram32_def ram16_def)
  then have a: "bus_address a = a" by (rule_tac bus_address_small [OF mac_ram_region(2)])
  from mac_read16_ram [OF r1] obtain m1 where m1: "mac_read16 dev a m = (be16 (mac_peek m) a, m1)"
      "mac_ram m1 = mac_ram m" "mac_peek m1 = mac_peek m" by blast
  with r have "ram16 (mac_ram m1) (a + 2)" by (simp add: ram32_def)
  from mac_read16_ram [OF this] obtain m2 where "mac_read16 dev (a + 2) m1 = (be16 (mac_peek m1) (a + 2), m2)"
      "mac_ram m2 = mac_ram m1" "mac_peek m2 = mac_peek m1" by blast
  with m1 a show ?thesis by (simp add: mac_read32_def be32_def)
qed

lemma mac_write8_ram:
  assumes "mac_ram m a"
  shows "mac_ram (mac_write8 dev a v m) = mac_ram m"
    and "mac_ram m x \<Longrightarrow> mac_peek (mac_write8 dev a v m) x = ((mac_peek m)(a := v)) x"
proof -
  have w: "mac_write8 dev a v m = (count (\<lambda>a. a\<lparr>ramWrites := ramWrites a + 1\<rparr>) m)
      \<lparr>m_ram := (m_ram m)[unat (a - ram_start m) := v]\<rparr>"
    using assms by (simp add: mac_write8_def mac_ram_simps Let_def ramOffset_count)
  show "mac_ram (mac_write8 dev a v m) = mac_ram m"
    by (simp add: w fun_eq_iff mac_ram_def ram_start_def ram_window_def count_def)
  assume "mac_ram m x"
  then show "mac_peek (mac_write8 dev a v m) x = ((mac_peek m)(a := v)) x"
    using assms mac_ram_region(4) [OF assms]
    by (auto simp: w mac_peek_def ram_start_def count_def nth_list_update word_unat_eq_iff [symmetric])
qed

lemma mac_write16_ram:
  assumes "ram16 (mac_ram m) a"
  shows "mac_ram (mac_write16 dev a v m) = mac_ram m"
    and "mac_ram m x \<Longrightarrow> mac_peek (mac_write16 dev a v m) x = put16 a v (mac_peek m) x"
proof -
  have r: "mac_ram m a" "mac_ram m (a + 1)" using assms by (simp_all add: ram16_def)
  let ?m = "mac_write8 dev a (ucast (drop_bit 8 v)) m"
  have w: "mac_write16 dev a v m = mac_write8 dev (a + 1) (ucast v) ?m"
    using r by (simp add: mac_write16_def mac_ram_simps is_device_def Let_def)
  have m: "mac_ram ?m = mac_ram m" by (rule mac_write8_ram(1) [OF r(1)])
  then have r1: "mac_ram ?m (a + 1)" using r(2) by simp
  show "mac_ram (mac_write16 dev a v m) = mac_ram m"
    unfolding w mac_write8_ram(1) [OF r1] by (rule m)
  assume x: "mac_ram m x"
  then show "mac_peek (mac_write16 dev a v m) x = put16 a v (mac_peek m) x"
    using mac_write8_ram(2) [OF r1, of x] mac_write8_ram(2) [OF r(1) x]
    by (simp add: w m put16_def)
qed

lemma mac_write32_ram:
  assumes "ram32 (mac_ram m) a"
  shows "mac_ram (mac_write32 dev a v m) = mac_ram m"
    and "mac_ram m x \<Longrightarrow> mac_peek (mac_write32 dev a v m) x = put32 a v (mac_peek m) x"
proof -
  have r: "ram16 (mac_ram m) a" "ram16 (mac_ram m) (a + 2)" using assms by (simp_all add: ram32_def)
  let ?m = "mac_write16 dev a (ucast (drop_bit 16 v)) m"
  have m: "mac_ram ?m = mac_ram m" by (rule mac_write16_ram(1) [OF r(1)])
  then have r1: "ram16 (mac_ram ?m) (a + 2)" using r(2) by simp
  show "mac_ram (mac_write32 dev a v m) = mac_ram m"
    unfolding mac_write32_def mac_write16_ram(1) [OF r1] by (rule m)
  assume x: "mac_ram m x"
  then show "mac_peek (mac_write32 dev a v m) x = put32 a v (mac_peek m) x"
    using mac_write16_ram(2) [OF r1, of x] mac_write16_ram(2) [OF r(1) x]
    by (simp add: mac_write32_def m put32_def put16_def)
qed

subsection \<open>ROM and RAM together\<close>

text \<open>The addresses at which the processor reads ROM, and what it reads there.\<close>

definition mac_rom :: "'d mac_plus \<Rightarrow> u32 \<Rightarrow> bool" where
  "mac_rom m a \<longleftrightarrow> bus_address a = a \<and> regionFor a m = Rom"

definition mac_readable :: "'d mac_plus \<Rightarrow> u32 \<Rightarrow> bool" where
  "mac_readable m a \<longleftrightarrow> mac_ram m a \<or> mac_rom m a"

definition mac_bytes :: "'d mac_plus \<Rightarrow> u32 \<Rightarrow> u8" where
  "mac_bytes m a = (if mac_ram m a then mac_peek m a else readRomByte a m)"

text \<open>Machines with the same ROM, overlay and model, and the same RAM size.\<close>

definition same_map :: "'d mac_plus \<Rightarrow> 'd mac_plus \<Rightarrow> bool" where
  "same_map m m' \<longleftrightarrow> m_model m' = m_model m \<and> m_overlayEnabled m' = m_overlayEnabled m \<and>
     m_rom m' = m_rom m \<and> length (m_ram m') = length (m_ram m)"

lemma same_map_refl [simp]: "same_map m m"
  and same_map_count [simp]: "same_map m (count g m') = same_map m m'"
  and same_map_ram [simp]: "length xs = length (m_ram m') \<Longrightarrow> same_map m (m'\<lparr>m_ram := xs\<rparr>) = same_map m m'"
  by (simp_all add: same_map_def count_def)

lemma same_map_trans: "same_map a b \<Longrightarrow> same_map b c \<Longrightarrow> same_map a c"
  by (simp add: same_map_def)

lemma same_mapD:
  assumes "same_map m m'"
  shows "mac_ram m' = mac_ram m" "mac_rom m' = mac_rom m" "mac_readable m' = mac_readable m"
    "ram_start m' = ram_start m" "readRomByte a m' = readRomByte a m"
proof -
  show "mac_ram m' = mac_ram m" "ram_start m' = ram_start m"
    using assms by (simp_all add: fun_eq_iff mac_ram_def ram_start_def ram_window_def same_map_def)
  show "mac_rom m' = mac_rom m"
    using assms by (simp add: fun_eq_iff mac_rom_def regionFor_def same_map_def)
  with \<open>mac_ram m' = mac_ram m\<close> show "mac_readable m' = mac_readable m"
    by (simp add: mac_readable_def fun_eq_iff)
  show "readRomByte a m' = readRomByte a m"
    using assms by (simp only: readRomByte_def same_map_def)
qed

lemma mac_rom_not_ram: "mac_rom m a \<Longrightarrow> \<not> mac_ram m a"
  using mac_ram_region(1) [of m a] by (auto simp: mac_rom_def)

lemma mac_rom_region: "mac_rom m a \<Longrightarrow> bus_address a = a" "mac_rom m a \<Longrightarrow> regionFor a m = Rom"
  by (simp_all add: mac_rom_def)

lemma mac_readable_region:
  assumes "mac_readable m a"
  shows "bus_address a = a" "\<not> is_device (regionFor a m)"
  using assms mac_ram_region [of m a] bus_address_small [of a]
  by (auto simp: mac_readable_def mac_rom_def is_device_def)

lemma mac_read8_bytes:
  "mac_readable m a \<Longrightarrow> \<exists>g. mac_read8 dev a m = (mac_bytes m a, count g m)"
  using mac_read8_ram [of m a dev]
  by (auto simp: mac_readable_def mac_bytes_def mac_read8_def mac_rom_region mac_rom_not_ram Let_def)

lemma mac_read16_bytes:
  assumes "ram16 (mac_readable m) a"
  shows "\<exists>g h. mac_read16 dev a m = (be16 (mac_bytes m) a, count g (count h m))"
proof -
  have r: "mac_readable m a" "mac_readable m (a + 1)" using assms by (simp_all add: ram16_def)
  obtain h where h: "mac_read8 dev a m = (mac_bytes m a, count h m)"
    using mac_read8_bytes [OF r(1)] by blast
  have "mac_readable (count h m) (a + 1)" and b: "mac_bytes (count h m) (a + 1) = mac_bytes m (a + 1)"
    using r(2) same_mapD [of m "count h m"] by (simp_all add: mac_bytes_def)
  then obtain g where "mac_read8 dev (a + 1) (count h m) = (mac_bytes m (a + 1), count g (count h m))"
    using mac_read8_bytes by metis
  with h show ?thesis
    by (auto simp: mac_read16_def mac_readable_region [OF r(1)] be16_def Let_def)
qed

lemma mac_bytes_count [simp]: "mac_bytes (count g m) = mac_bytes m" "mac_readable (count g m) = mac_readable m"
  using same_mapD [of m "count g m"] by (simp_all add: mac_bytes_def fun_eq_iff)

lemma mac_read32_bytes:
  assumes "ram32 (mac_readable m) a"
  shows "\<exists>m'. mac_read32 dev a m = (be32 (mac_bytes m) a, m') \<and> same_map m m' \<and> mac_bytes m' = mac_bytes m"
proof -
  have r: "ram16 (mac_readable m) a" "ram16 (mac_readable m) (a + 2)" "mac_readable m a"
    using assms by (simp_all add: ram32_def ram16_def)
  obtain g h where m1: "mac_read16 dev a m = (be16 (mac_bytes m) a, count g (count h m))"
    using mac_read16_bytes [OF r(1)] by blast
  have "ram16 (mac_readable (count g (count h m))) (a + 2)" using r(2) by simp
  then obtain g' h' where "mac_read16 dev (a + 2) (count g (count h m)) =
      (be16 (mac_bytes m) (a + 2), count g' (count h' (count g (count h m))))"
    using mac_read16_bytes by (metis mac_bytes_count(1))
  with m1 show ?thesis
    by (simp add: mac_read32_def mac_readable_region [OF r(3)] be32_def Let_def)
qed

lemma mac_write8_map: "mac_ram m a \<Longrightarrow> same_map m (mac_write8 dev a v m)"
  by (simp add: mac_write8_def mac_ram_simps Let_def)

lemma mac_write16_map:
  assumes "ram16 (mac_ram m) a"
  shows "same_map m (mac_write16 dev a v m)"
proof -
  have r: "mac_ram m a" "mac_ram m (a + 1)" using assms by (simp_all add: ram16_def)
  let ?m = "mac_write8 dev a (ucast (drop_bit 8 v)) m"
  have m: "same_map m ?m" by (rule mac_write8_map [OF r(1)])
  then have "mac_ram ?m (a + 1)" using r(2) by (simp add: same_mapD)
  then have "same_map m (mac_write8 dev (a + 1) (ucast v) ?m)"
    by (intro same_map_trans [OF m] mac_write8_map)
  then show ?thesis using r by (simp add: mac_write16_def mac_ram_simps is_device_def Let_def)
qed

lemma mac_write32_map:
  assumes "ram32 (mac_ram m) a"
  shows "same_map m (mac_write32 dev a v m)"
proof -
  have r: "ram16 (mac_ram m) a" "ram16 (mac_ram m) (a + 2)" using assms by (simp_all add: ram32_def)
  have m: "same_map m (mac_write16 dev a (ucast (drop_bit 16 v)) m)" by (rule mac_write16_map [OF r(1)])
  then show ?thesis
    using r(2) unfolding mac_write32_def
    by (intro same_map_trans [OF m] mac_write16_map) (simp add: same_mapD)
qed

text \<open>A change of RAM bytes seen through \<open>mac_bytes\<close>.\<close>

lemma holding_bytes:
  assumes "same_map m m'" "\<And>x. mac_ram m x \<Longrightarrow> mac_peek m' x = f x"
    and "\<And>x. mac_rom m x \<Longrightarrow> f x = readRomByte x m"
  shows "holding mac_readable mac_ram mac_bytes m f m'"
  using assms same_mapD [OF assms(1)] mac_rom_not_ram [of m]
  by (auto simp: holding_def mac_bytes_def mac_readable_def)

lemma mac_bytes_put:
  "mac_ram m x \<Longrightarrow> ((mac_bytes m)(a := v)) x = ((mac_peek m)(a := v)) x"
  "mac_ram m x \<Longrightarrow> put16 a w (mac_bytes m) x = put16 a w (mac_peek m) x"
  "mac_ram m x \<Longrightarrow> put32 a y (mac_bytes m) x = put32 a y (mac_peek m) x"
  by (simp_all add: mac_bytes_def put16_def put32_def)

lemma mac_rom_put:
  "mac_ram m a \<Longrightarrow> mac_rom m x \<Longrightarrow> ((mac_bytes m)(a := v)) x = readRomByte x m"
  "ram16 (mac_ram m) a \<Longrightarrow> mac_rom m x \<Longrightarrow> put16 a w (mac_bytes m) x = readRomByte x m"
  "ram32 (mac_ram m) a \<Longrightarrow> mac_rom m x \<Longrightarrow> put32 a y (mac_bytes m) x = readRomByte x m"
  using mac_rom_not_ram [of m x]
  by (auto simp: mac_bytes_def put16_def put32_def ram16_def ram32_def add.assoc)

text \<open>The machine keeps the contract of a memory.\<close>

interpretation mac: memory_bus "macplus_bus dev" mac_readable mac_ram mac_bytes for dev
proof
  fix b :: "'a mac_plus" and a v w x
  show "mac_readable b a \<Longrightarrow> \<exists>b'. readPhysical8 (macplus_bus dev) a b = ((mac_bytes b a, False), b')
      \<and> holding mac_readable mac_ram mac_bytes b (mac_bytes b) b'"
    using mac_read8_bytes [of b a dev] by (auto simp: macplus_bus_def unfaulted_def holding_def)
  show "ram16 (mac_readable b) a \<Longrightarrow>
      \<exists>b'. readPhysical16 (macplus_bus dev) a b = ((be16 (mac_bytes b) a, False), b')
      \<and> holding mac_readable mac_ram mac_bytes b (mac_bytes b) b'"
    using mac_read16_bytes [of b a dev] by (auto simp: macplus_bus_def unfaulted_def holding_def)
  show "ram32 (mac_readable b) a \<Longrightarrow>
      \<exists>b'. readPhysical32 (macplus_bus dev) a b = ((be32 (mac_bytes b) a, False), b')
      \<and> holding mac_readable mac_ram mac_bytes b (mac_bytes b) b'"
    using mac_read32_bytes [of b a dev]
    by (auto simp: macplus_bus_def unfaulted_def holding_def same_mapD)
  show "mac_ram b a \<Longrightarrow> mac_readable b a" by (simp add: mac_readable_def)
  show "mac_ram b a \<Longrightarrow> \<exists>b'. writePhysical8 (macplus_bus dev) a v b = (True, b')
      \<and> holding mac_readable mac_ram mac_bytes b ((mac_bytes b)(a := v)) b'"
    using mac_write8_ram(2) [of b a _ dev v] mac_bytes_put(1) [of b _ a v] mac_rom_put(1) [of b a _ v]
    by (auto simp: macplus_bus_def intro!: holding_bytes mac_write8_map)
  show "ram16 (mac_ram b) a \<Longrightarrow> \<exists>b'. writePhysical16 (macplus_bus dev) a w b = (True, b')
      \<and> holding mac_readable mac_ram mac_bytes b (put16 a w (mac_bytes b)) b'"
    using mac_write16_ram(2) [of b a _ dev w]
    by (auto simp: macplus_bus_def mac_bytes_put mac_rom_put intro!: holding_bytes mac_write16_map)
  show "ram32 (mac_ram b) a \<Longrightarrow> \<exists>b'. writePhysical32 (macplus_bus dev) a x b = (True, b')
      \<and> holding mac_readable mac_ram mac_bytes b (put32 a x (mac_bytes b)) b'"
    using mac_write32_ram(2) [of b a _ dev x]
    by (auto simp: macplus_bus_def mac_bytes_put mac_rom_put intro!: holding_bytes mac_write32_map)
qed (simp_all add: macplus_bus_def)

end
