(* ===== verification/Samples.thy ===== *)
theory Samples
  imports MacPlusBus
begin

section \<open>Concrete machines\<close>

text \<open>
  The engine's variables as C initialises them, all zero, with a bus connected, and a Macintosh Plus
  with zeroed RAM and devices that do nothing.  The witnesses of the properties start here.
\<close>

definition empty_atc_entry :: m68ki_mmu_atc_entry where
  "empty_atc_entry =
     \<lparr>logical_page = 0, physical_page = 0, page_shift = 0, function_code = 0, write_protect = 0,
      modified = 0, fault = 0, valid = 0\<rparr>"

definition zero_machine :: "'b m68k_bus \<Rightarrow> 'b \<Rightarrow> 'b machine" where
  "zero_machine bus b =
   \<lparr>cpu_type = 0, dar = \<lambda>_. 0, dar_save = \<lambda>_. 0, ppc = 0, pc = 0,
    sp = \<lambda>_. 0, vbr = 0, sfc = 0, dfc = 0, cacr = 0, caar = 0, ir = 0,
    fpr = \<lambda>_. \<lparr>fx_high = 0, fx_low = 0\<rparr>, fpiar = 0, fpsr = 0, fpcr = 0, t1_flag = 0,
    t0_flag = 0, s_flag = 0, m_flag = 0, x_flag = 0, n_flag = 0, not_z_flag = 0, v_flag = 0,
    c_flag = 0, int_mask = 0, int_level = 0, stopped = 0, pref_addr = 0, pref_data = 0,
    address_mask = 0, sr_mask = 0, instr_mode = 0, run_mode = 0, has_pmmu = 0, pmmu_enabled = 0,
    mmu_kind = 0, fpu_just_reset = 0, fpu_model = 0, reset_cycles = 0, cyc_bcc_notake_b = 0, cyc_bcc_notake_w = 0,
    cyc_dbcc_f_noexp = 0, cyc_dbcc_f_exp = 0, cyc_scc_r_true = 0, cyc_movem_w = 0,
    cyc_movem_l = 0, cyc_shift = 0, cyc_reset = 0, virq_state = 0, nmi_pending = 0,
    mmu_crp_aptr = 0, mmu_crp_limit = 0, mmu_srp_aptr = 0, mmu_srp_limit = 0, mmu_tt0 = 0,
    mmu_tt1 = 0, mmu_itt0 = 0, mmu_itt1 = 0, mmu_dtt0 = 0, mmu_dtt1 = 0, mmu_urp_aptr = 0,
    mmu_tc = 0, mmu_sr = 0, mmu_sr_040 = 0, mmu_tmp_sr = 0, mmu_last_logical_addr = 0,
    mmu_fault_address = 0, mmu_fault_fc = 0, mmu_fault_rw = 0, mmu_fault_size = 0,
    mmu_fault_is_mmu = 0, mmu_tablewalk = 0, mmu_atc = \<lambda>_. empty_atc_entry,
    mmu_atc_hits = 0, mmu_atc_misses = 0, cyc_instruction = \<lambda>_. 0,
    cyc_exception = \<lambda>_. 0, initial_cycles = 0, remaining_cycles = 0, address_space = 0,
    aerr_address = 0, aerr_write_mode = 0, aerr_fc = 0, atc_replacement = 0,
    softfloat = \<lparr>float_rounding_mode = 0, float_exception_flags = 0\<rparr>,
    activeFunctionCode = 0, instructionHookBudget = 0, activeBus = Some bus,
    bus_state = b\<rparr>"

text \<open>A bus without memory: reads return zero, writes vanish.\<close>

definition null_bus :: "'b m68k_bus" where
  "null_bus =
     \<lparr>readPhysical8 = \<lambda>_ b. ((0, False), b), readPhysical16 = \<lambda>_ b. ((0, False), b),
      readPhysical32 = \<lambda>_ b. ((0, False), b), readProgram8 = \<lambda>_ b. ((0, False), b),
      readProgram16 = \<lambda>_ b. ((0, False), b), readProgram32 = \<lambda>_ b. ((0, False), b),
      writePhysical8 = \<lambda>_ _ b. (True, b), writePhysical16 = \<lambda>_ _ b. (True, b),
      writePhysical32 = \<lambda>_ _ b. (True, b)\<rparr>"

definition sample :: "unit machine" where
  "sample = zero_machine null_bus ()"

definition no_devices :: "unit device_buses" where
  "no_devices =
     \<lparr>sccBus_access = \<lambda>_ _ m. (0, m), iwmBus_access = \<lambda>_ _ m. (0, m),
      viaBus_access = \<lambda>_ _ m. (0, m), scsi_readRegister = \<lambda>_ _ m. (0, m),
      scsi_writeRegister = \<lambda>_ _ _ m. m, scsi_readPseudoDma = \<lambda>_ m. (0, m),
      scsi_writePseudoDma = \<lambda>_ _ m. m\<rparr>"

definition no_accesses :: AccessSummary where
  "no_accesses =
     \<lparr>ramReads = 0, ramWrites = 0, romReads = 0, sccReads = 0, sccWrites = 0, iwmReads = 0,
      iwmWrites = 0, viaReads = 0, viaWrites = 0, scsiReads = 0, scsiWrites = 0,
      configurationReads = 0, unmappedReads = 0, unmappedWrites = 0\<rparr>"

definition sample_mac :: "unit mac_plus" where
  "sample_mac =
     \<lparr>m_model = MacintoshPlus, m_overlayEnabled = False, m_ram = replicate 0x100000 0,
      m_rom = replicate 0x20000 0, m_accessSummary = no_accesses, m_devices = ()\<rparr>"

lemmas sample_simps = sample_def zero_machine_def

end
