(* ===== verification/AccessFrame.thy ===== *)
theory AccessFrame
  imports Samples
begin

section \<open>What a memory access can change\<close>

text \<open>
  A memory access of the processor runs the memory management unit, which may walk tables, update
  descriptors and raise a bus error.  This theory shows what all of that leaves alone: an access
  that returns has changed nothing the program can see in a register, and a bus error that is not
  nested in another one never returns.  The locale \<open>access_frame\<close> holds the proof for any handler
  of bus errors that does not return to an undisturbed processor; it is interpreted on the handler
  of the engine.
\<close>

unbundle bit_operations_syntax

subsection \<open>The frame\<close>

text \<open>
  \<open>hide s t\<close> is \<open>t\<close> with the bus, the announced function code and the working fields of the memory
  management unit taken from \<open>s\<close>; \<open>quiet s t\<close> says that nothing else differs.
\<close>

definition hide :: "'b machine \<Rightarrow> 'b machine \<Rightarrow> 'b machine" where
  "hide s t = t\<lparr>mmu_tmp_sr := mmu_tmp_sr s, mmu_last_logical_addr := mmu_last_logical_addr s,
     mmu_fault_address := mmu_fault_address s, mmu_fault_fc := mmu_fault_fc s,
     mmu_fault_rw := mmu_fault_rw s, mmu_fault_size := mmu_fault_size s,
     mmu_fault_is_mmu := mmu_fault_is_mmu s, mmu_tablewalk := mmu_tablewalk s, mmu_atc := mmu_atc s,
     mmu_atc_hits := mmu_atc_hits s, mmu_atc_misses := mmu_atc_misses s,
     atc_replacement := atc_replacement s, activeFunctionCode := activeFunctionCode s,
     bus_state := bus_state s\<rparr>"

definition quiet :: "'b machine \<Rightarrow> 'b machine \<Rightarrow> bool" where
  "quiet s t \<longleftrightarrow> hide s t = s \<and> run_mode s \<noteq> RUN_MODE_BERR_AERR_RESET_WSF"

lemma quiet_refl [simp]: "quiet s s \<longleftrightarrow> \<not> in_fault s"
  by (simp add: quiet_def hide_def)

lemma quiet_update [simp]:
  "quiet s (t\<lparr>mmu_tmp_sr := a\<rparr>) = quiet s t" "quiet s (t\<lparr>mmu_last_logical_addr := b\<rparr>) = quiet s t"
  "quiet s (t\<lparr>mmu_fault_address := b\<rparr>) = quiet s t" "quiet s (t\<lparr>mmu_fault_fc := c\<rparr>) = quiet s t"
  "quiet s (t\<lparr>mmu_fault_rw := c\<rparr>) = quiet s t" "quiet s (t\<lparr>mmu_fault_size := c\<rparr>) = quiet s t"
  "quiet s (t\<lparr>mmu_fault_is_mmu := c\<rparr>) = quiet s t" "quiet s (t\<lparr>mmu_tablewalk := c\<rparr>) = quiet s t"
  "quiet s (t\<lparr>mmu_atc := d\<rparr>) = quiet s t" "quiet s (t\<lparr>mmu_atc_hits := b\<rparr>) = quiet s t"
  "quiet s (t\<lparr>mmu_atc_misses := b\<rparr>) = quiet s t" "quiet s (t\<lparr>atc_replacement := b\<rparr>) = quiet s t"
  "quiet s (t\<lparr>activeFunctionCode := b\<rparr>) = quiet s t" "quiet s (t\<lparr>bus_state := e\<rparr>) = quiet s t"
  by (simp_all add: quiet_def hide_def)

lemma quiet_mmu [simp]:
  "quiet s (m68ki_set_fc fc t) = quiet s t" "quiet s (set_atc i e t) = quiet s t"
  "quiet s (pmmu_atc_add logical physical fc r t) = quiet s t"
  by (simp_all add: m68ki_set_fc_def set_atc_def pmmu_atc_add_def Let_def)

lemma quiet_lookup_from:
  "pmmu_atc_lookup_from is shift address fc rw ptest r t = (found, r', t') \<Longrightarrow> quiet s t' = quiet s t"
  by (induction "is" arbitrary: t) (auto simp: Let_def split: if_splits)

lemma quiet_lookup:
  "pmmu_atc_lookup address fc rw ptest r t = (found, r', t') \<Longrightarrow> quiet s t' = quiet s t"
  unfolding pmmu_atc_lookup_def by (rule quiet_lookup_from)

text \<open>The registers the program sees are among the fields that are kept.\<close>

lemma quiet_fields:
  assumes "quiet s t"
  shows "dar t = dar s" "pc t = pc s" "ppc t = ppc s" "sp t = sp s" "ir t = ir s" "vbr t = vbr s"
    "run_mode t = run_mode s" "stopped t = stopped s" "cpu_type t = cpu_type s"
    "m68ki_get_sr t = m68ki_get_sr s" "remaining_cycles t = remaining_cycles s"
    "activeBus t = activeBus s" "mmu_tc t = mmu_tc s"
proof -
  have "s = hide s t" using assms by (simp add: quiet_def)
  then have "f (hide s t) = f s" for f :: "'a machine \<Rightarrow> 'c" by simp
  note this [of dar] this [of pc] this [of ppc] this [of sp] this [of ir] this [of vbr]
    this [of run_mode] this [of stopped] this [of cpu_type] this [of m68ki_get_sr]
    this [of remaining_cycles] this [of activeBus] this [of mmu_tc]
  then show "dar t = dar s" "pc t = pc s" "ppc t = ppc s" "sp t = sp s" "ir t = ir s" "vbr t = vbr s"
    "run_mode t = run_mode s" "stopped t = stopped s" "cpu_type t = cpu_type s"
    "m68ki_get_sr t = m68ki_get_sr s" "remaining_cycles t = remaining_cycles s"
    "activeBus t = activeBus s" "mmu_tc t = mmu_tc s"
    by (simp_all add: hide_def m68ki_get_sr_def m68ki_get_ccr_def COND_EQ_def COND_NE_def)
qed

subsection \<open>Accesses keep the frame\<close>

abbreviation quietly :: "'b machine \<Rightarrow> ('b, 'a) result \<Rightarrow> bool" where
  "quietly s \<equiv> holds (\<lambda>_. quiet s) (\<lambda>_ _. True)"

lemma quietly_chain:
  "quietly s r \<Longrightarrow> (\<And>a t. quiet s t \<Longrightarrow> quietly s (f a t)) \<Longrightarrow> quietly s (chain r f)"
  by (rule holds_chain)

lemmas quiet_rules = holds_rules quietly_chain

locale access_frame =
  fixes berr :: "'b op"
  assumes no_return: "\<not> in_fault t \<Longrightarrow> holds (\<lambda>_ _. False) (\<lambda>_ _. True) (berr t)"
begin

lemma berr: "quiet s t \<Longrightarrow> quietly s (berr t)"
  by (rule holds_mono [OF no_return]) (auto simp: quiet_fields, simp add: quiet_def)

lemma report: "quiet s t \<Longrightarrow> quietly s (m68k_report_physical_bus_error_via berr address w sz t)"
  unfolding m68k_report_physical_bus_error_via_def by (intro quiet_rules berr) simp_all

lemma read_memory: "quiet s t \<Longrightarrow> quietly s (m68k_read_memory_8_via berr address t)"
  "quiet s t \<Longrightarrow> quietly s (m68k_read_memory_16_via berr address t)"
  "quiet s t \<Longrightarrow> quietly s (m68k_read_memory_32_via berr address t)"
  unfolding m68k_read_memory_8_via_def m68k_read_memory_16_via_def m68k_read_memory_32_via_def
    finish_read_def
  by (intro quiet_rules report; simp)+

lemma write_memory: "quiet s t \<Longrightarrow> quietly s (m68k_write_memory_8_via berr address v t)"
  "quiet s t \<Longrightarrow> quietly s (m68k_write_memory_16_via berr address v t)"
  "quiet s t \<Longrightarrow> quietly s (m68k_write_memory_32_via berr address v t)"
  unfolding m68k_write_memory_8_via_def m68k_write_memory_16_via_def m68k_write_memory_32_via_def
    finish_write_def
  by (intro quiet_rules report; simp)+

lemma read_descriptor: "quiet s t \<Longrightarrow> quietly s (read_descriptor_via berr address l t)"
  unfolding read_descriptor_via_def by (intro quiet_rules read_memory) simp_all

lemma update_descriptor: "quiet s t \<Longrightarrow> quietly s (pmmu_update_descriptor_via berr address type first rw t)"
  unfolding pmmu_update_descriptor_via_def by (intro quiet_rules write_memory) simp_all

lemma walk_descend: "quiet s t \<Longrightarrow>
  quietly s (walk_descend_via berr fc rw se ib address first second l w t)"
  unfolding walk_descend_via_def by (intro quiet_rules update_descriptor) simp_all

lemma walk_step: "quiet s t \<Longrightarrow> quietly s (walk_step_via berr bits fc rw se w t)"
  unfolding walk_step_via_def by (intro quiet_rules read_descriptor walk_descend) simp_all

lemma walk_loop: "quiet s t \<Longrightarrow> quietly s (pmmu_walk_loop_via berr bits fc rw limit se w t)"
proof (induction "walk_measure (walk_level w)" arbitrary: w t rule: less_induct)
  case less
  have "holds (\<lambda>w' t'. quiet s t' \<and> (walk_resolved w' \<or> walk_level w' = walk_level w + 1
      \<or> walk_level w' = walk_level w + 2)) (\<lambda>_ _. True) (walk_step_via berr bits fc rw se w t)"
    using walk_step [OF less.prems, of bits fc rw se w] walk_step_holds [of w berr bits fc rw se t]
    by (simp add: holds_iff)
  then show ?case
    unfolding pmmu_walk_loop_via.simps [of _ _ _ _ _ _ w]
    by (rule holds_chain) (auto simp: not_le intro!: holds_rules less.hyps walk_measure_less)
qed

lemma walk_tables: "quiet s t \<Longrightarrow> quietly s (pmmu_walk_tables_via berr logical fc rw limit se r t)"
  unfolding pmmu_walk_tables_via_def by (intro quiet_rules walk_loop) simp_all

lemma table_level_040:
  assumes "\<And>e u. quiet s u \<Longrightarrow> quietly s (f e u)" and "quiet s t"
  shows "quietly s (table_level_040_via berr address rw se r f t)"
  unfolding table_level_040_via_def invalid_040_def protected_page_040_def finish_040_def
  by (intro quiet_rules read_memory write_memory assms) (simp_all add: assms)

lemma page_level_040: "quiet s t \<Longrightarrow> quietly s (page_level_040_via berr fc rw se m po r pa pe t)"
  unfolding page_level_040_via_def invalid_040_def protected_page_040_def finish_040_def
  by (intro quiet_rules write_memory) simp_all

lemma translate_040: "quiet s t \<Longrightarrow> quietly s (pmmu_translate_040_via berr logical fc rw se t)"
  unfolding pmmu_translate_040_via_def
  by (intro quiet_rules table_level_040 page_level_040 read_memory) simp_all

lemma finished: "quiet s t \<Longrightarrow> quietly s (pmmu_finished_via berr logical fc rw sz i r t)"
  unfolding pmmu_finished_via_def pmmu_fault_via_def by (intro quiet_rules berr) simp_all

lemma translate: "quiet s t \<Longrightarrow> quietly s (pmmu_translate_via berr logical fc rw sz i limit t)"
  unfolding pmmu_translate_via_def
  by (intro quiet_rules translate_040 finished walk_tables)
    (auto dest!: quiet_lookup [where s = s] quiet_lookup [OF sym, where s = s] split: if_splits)

lemma translate_if_enabled: "quiet s t \<Longrightarrow> quietly s (translate_if_enabled_via berr address fc rw sz t)"
  unfolding translate_if_enabled_via_def pmmu_translate_addr_fc_size_via_def
  by (intro quiet_rules translate) simp_all

lemma address_error: "quiet s t \<Longrightarrow> quietly s (m68ki_check_address_error_010_less a m fc t)"
  unfolding m68ki_check_address_error_010_less_def m68ki_check_address_error_def
  by (intro quiet_rules) simp_all

lemma read_fc: "quiet s t \<Longrightarrow> quietly s (m68ki_read_8_fc_via berr address fc t)"
  "quiet s t \<Longrightarrow> quietly s (m68ki_read_16_fc_via berr address fc t)"
  "quiet s t \<Longrightarrow> quietly s (m68ki_read_32_fc_via berr address fc t)"
  unfolding m68ki_read_8_fc_via_def m68ki_read_16_fc_via_def m68ki_read_32_fc_via_def
  by (intro quiet_rules translate_if_enabled address_error read_memory; simp)+

lemma write_fc: "quiet s t \<Longrightarrow> quietly s (m68ki_write_8_fc_via berr address fc v t)"
  "quiet s t \<Longrightarrow> quietly s (m68ki_write_16_fc_via berr address fc v t)"
  "quiet s t \<Longrightarrow> quietly s (m68ki_write_32_fc_via berr address fc v t)"
  unfolding m68ki_write_8_fc_via_def m68ki_write_16_fc_via_def m68ki_write_32_fc_via_def
  by (intro quiet_rules translate_if_enabled address_error write_memory; simp)+

end

subsection \<open>The handler of the engine\<close>

interpretation engine: access_frame m68ki_exception_bus_error
  by unfold_locales (rule holds_mono [OF bus_error_no_return], simp_all)

subsection \<open>Address errors of the bus error exception\<close>

text \<open>
  An address error comes only from an access to an odd address on a processor before the 68020.  \<open>odd_only c r\<close>
  says so of a result, and that the processor type stays \<open>c\<close>.
\<close>

abbreviation odd_only :: "u32 \<Rightarrow> ('b, 'a) result \<Rightarrow> bool" where
  "odd_only c \<equiv> holds (\<lambda>_ t. cpu_type t = c)
     (\<lambda>j t. j = AddressErrorTrap \<longrightarrow> CPU_TYPE_IS_010_LESS c \<and> aerr_address t AND 1 \<noteq> 0)"

lemma odd_only_chain:
  "odd_only c r \<Longrightarrow> (\<And>a t. cpu_type t = c \<Longrightarrow> odd_only c (f a t)) \<Longrightarrow> odd_only c (chain r f)"
  by (rule holds_chain)

lemmas odd_rules = holds_rules odd_only_chain

lemma cpu_type_simps [simp]:
  "cpu_type (set_REG_SP v t) = cpu_type t" "cpu_type (m68ki_set_fc fc t) = cpu_type t"
  "cpu_type (set_atc i e t) = cpu_type t" "cpu_type (m68ki_fake_push_16 t) = cpu_type t"
  "cpu_type (m68ki_fake_push_32 t) = cpu_type t" "cpu_type (pmmu_atc_add logical physical fc r t) = cpu_type t"
  by (simp_all add: set_REG_SP_def m68ki_set_fc_def set_atc_def m68ki_fake_push_16_def m68ki_fake_push_32_def
      pmmu_atc_add_def Let_def)

lemma cpu_type_lookup:
  "pmmu_atc_lookup address fc rw ptest r t = (found, r', t') \<Longrightarrow> cpu_type t' = cpu_type t"
proof -
  have "pmmu_atc_lookup_from is shift address fc rw ptest r t = (found, r', t') \<Longrightarrow> cpu_type t' = cpu_type t"
    for "is" shift address t
    by (induction "is" arbitrary: t) (auto simp: Let_def split: if_splits)
  then show "pmmu_atc_lookup address fc rw ptest r t = (found, r', t') \<Longrightarrow> cpu_type t' = cpu_type t"
    unfolding pmmu_atc_lookup_def .
qed

locale odd_handler =
  fixes berr :: "'b op"
  assumes handled: "cpu_type t = c \<Longrightarrow> odd_only c (berr t)"
begin

lemma odd_report: "cpu_type t = c \<Longrightarrow> odd_only c (m68k_report_physical_bus_error_via berr address w sz t)"
  unfolding m68k_report_physical_bus_error_via_def by (intro odd_rules handled) simp_all

lemma odd_read_memory: "cpu_type t = c \<Longrightarrow> odd_only c (m68k_read_memory_32_via berr address t)"
  unfolding m68k_read_memory_32_via_def finish_read_def by (intro odd_rules odd_report) simp_all

lemma odd_write_memory: "cpu_type t = c \<Longrightarrow> odd_only c (m68k_write_memory_16_via berr address v t)"
  "cpu_type t = c \<Longrightarrow> odd_only c (m68k_write_memory_32_via berr address v t)"
  unfolding m68k_write_memory_16_via_def m68k_write_memory_32_via_def finish_write_def
  by (intro odd_rules odd_report; simp)+

lemma odd_read_descriptor: "cpu_type t = c \<Longrightarrow> odd_only c (read_descriptor_via berr address l t)"
  unfolding read_descriptor_via_def by (intro odd_rules odd_read_memory) simp_all

lemma odd_update_descriptor:
  "cpu_type t = c \<Longrightarrow> odd_only c (pmmu_update_descriptor_via berr address type first rw t)"
  unfolding pmmu_update_descriptor_via_def by (intro odd_rules odd_write_memory) simp_all

lemma odd_walk_step: "cpu_type t = c \<Longrightarrow> odd_only c (walk_step_via berr bits fc rw se w t)"
  unfolding walk_step_via_def walk_descend_via_def
  by (intro odd_rules odd_read_descriptor odd_update_descriptor) simp_all

lemma odd_walk_loop: "cpu_type t = c \<Longrightarrow> odd_only c (pmmu_walk_loop_via berr bits fc rw limit se w t)"
proof (induction "walk_measure (walk_level w)" arbitrary: w t rule: less_induct)
  case less
  have "holds (\<lambda>w' t'. cpu_type t' = c \<and> (walk_resolved w' \<or> walk_level w' = walk_level w + 1
      \<or> walk_level w' = walk_level w + 2)) (\<lambda>j t. j = AddressErrorTrap \<longrightarrow> CPU_TYPE_IS_010_LESS c \<and> aerr_address t AND 1 \<noteq> 0)
      (walk_step_via berr bits fc rw se w t)"
    using odd_walk_step [OF less.prems, of bits fc rw se w] walk_step_holds [of w berr bits fc rw se t]
    by (simp add: holds_iff)
  then show ?case
    unfolding pmmu_walk_loop_via.simps [of _ _ _ _ _ _ w]
    by (rule holds_chain) (intro holds_rules less.hyps walk_measure_less; auto simp: not_le)
qed

lemma odd_walk_tables: "cpu_type t = c \<Longrightarrow> odd_only c (pmmu_walk_tables_via berr logical fc rw limit se r t)"
  unfolding pmmu_walk_tables_via_def by (intro odd_rules odd_walk_loop) simp_all

lemma odd_table_level_040:
  assumes "\<And>e u. cpu_type u = c \<Longrightarrow> odd_only c (f e u)" and "cpu_type t = c"
  shows "odd_only c (table_level_040_via berr address rw se r f t)"
  unfolding table_level_040_via_def invalid_040_def protected_page_040_def finish_040_def
  by (intro odd_rules odd_read_memory odd_write_memory assms) (simp_all add: assms)

lemma odd_translate_040: "cpu_type t = c \<Longrightarrow> odd_only c (pmmu_translate_040_via berr logical fc rw se t)"
  unfolding pmmu_translate_040_via_def page_level_040_via_def invalid_040_def protected_page_040_def finish_040_def
  by (intro odd_rules odd_table_level_040 odd_read_memory odd_write_memory) simp_all

lemma odd_finished: "cpu_type t = c \<Longrightarrow> odd_only c (pmmu_finished_via berr logical fc rw sz i r t)"
  unfolding pmmu_finished_via_def pmmu_fault_via_def by (intro odd_rules handled) simp_all

lemma odd_translate_if_enabled: "cpu_type t = c \<Longrightarrow> odd_only c (translate_if_enabled_via berr address fc rw sz t)"
  unfolding translate_if_enabled_via_def pmmu_translate_addr_fc_size_via_def pmmu_translate_via_def
  by (intro odd_rules odd_translate_040 odd_finished odd_walk_tables)
    (auto dest!: cpu_type_lookup cpu_type_lookup [OF sym] split: if_splits)

lemma odd_address_error: "cpu_type t = c \<Longrightarrow> odd_only c (m68ki_check_address_error_010_less a m fc t)"
  by (simp add: m68ki_check_address_error_010_less_def m68ki_check_address_error_def)

lemma odd_push: "cpu_type t = c \<Longrightarrow> odd_only c (m68ki_push_16_via berr v t)"
  "cpu_type t = c \<Longrightarrow> odd_only c (m68ki_push_32_via berr v t)"
  unfolding m68ki_push_16_via_def m68ki_push_32_via_def m68ki_write_16_fc_via_def m68ki_write_32_fc_via_def
  by (intro odd_rules odd_translate_if_enabled odd_address_error odd_write_memory; simp)+

lemma odd_seq: "\<forall>f\<in>set fs. \<forall>t. cpu_type t = c \<longrightarrow> odd_only c (f t) \<Longrightarrow> cpu_type t = c \<Longrightarrow> odd_only c (seq fs t)"
  by (induction fs arbitrary: t) (auto intro!: odd_rules)

lemma odd_frames:
  "cpu_type t = c \<Longrightarrow> odd_only c (m68ki_stack_frame_0111_via berr sr v p a ssw t)"
  "cpu_type t = c \<Longrightarrow> odd_only c (m68ki_stack_frame_1010_via berr sr v p a ssw t)"
  "cpu_type t = c \<Longrightarrow> odd_only c (m68ki_stack_frame_1011_via berr sr v p a ssw t)"
  "cpu_type t = c \<Longrightarrow> odd_only c (m68ki_stack_frame_1000_via berr p sr v t)"
  unfolding m68ki_stack_frame_0111_via_def m68ki_stack_frame_1010_via_def
    m68ki_stack_frame_1011_via_def m68ki_stack_frame_1000_via_def
  by (rule odd_seq; auto simp: step_def odd_push)+

lemma odd_jump_vector: "cpu_type t = c \<Longrightarrow> odd_only c (m68ki_jump_vector_via berr v t)"
  unfolding m68ki_jump_vector_via_def m68ki_read_32_fc_via_def
  by (intro odd_rules odd_translate_if_enabled odd_address_error odd_read_memory) simp_all

lemma cpu_type_restore_dar: "cpu_type (restore_dar is t) = cpu_type t"
  by (induction "is" arbitrary: t) simp_all

lemma odd_body: "odd_only (cpu_type s) (bus_error_body berr s)"
  unfolding bus_error_body_eq bus_error_frame_def
  by (intro odd_rules odd_frames odd_jump_vector)
    (auto simp: USE_CYCLES_def m68ki_init_exception_def m68ki_set_s_flag_def cpu_type_restore_dar Let_def)

end

interpretation halted: odd_handler bus_error_halt
  by unfold_locales (simp add: bus_error_halt_def)

text \<open>
  C9. The bus error exception.  It satisfies the recursion of the C function, whose body pushes
  its frame through accesses that may raise a bus error again.  It returns only when it was entered
  while a fault frame was being written, and then it has halted the processor and done nothing else;
  otherwise it leaves to the recovery point of the loop with the run mode of a finished frame, or with an address error
  reported for an odd address, which is possible only on the processors before the 68020.
\<close>

theorem bus_error_recursion:
  "m68ki_exception_bus_error s =
    (if run_mode s = RUN_MODE_BERR_AERR_RESET_WSF then Ret () (s\<lparr>stopped := STOP_LEVEL_HALT\<rparr>)
     else bus_error_body m68ki_exception_bus_error s) \<and>
   (case m68ki_exception_bus_error s of
      Ret _ t \<Rightarrow> run_mode s = RUN_MODE_BERR_AERR_RESET_WSF \<and> t = s\<lparr>stopped := STOP_LEVEL_HALT\<rparr>
    | Jump j t \<Rightarrow> run_mode s \<noteq> RUN_MODE_BERR_AERR_RESET_WSF \<and>
        (if j = BusErrorTrap then run_mode t = RUN_MODE_BERR_AERR_RESET
         else j = AddressErrorTrap \<and> run_mode t = RUN_MODE_BERR_AERR_RESET_WSF \<and>
              CPU_TYPE_IS_010_LESS (cpu_type s) \<and> aerr_address t AND 1 \<noteq> 0))"
proof (cases "in_fault s")
  case True
  then show ?thesis by (simp add: m68ki_exception_bus_error_unfold)
next
  case False
  then have "m68ki_exception_bus_error s = bus_error_body bus_error_halt s"
    by (simp add: m68ki_exception_bus_error_def)
  with bus_error_no_return [OF False] halted.odd_body [of s] False show ?thesis
    by (auto simp: holds_iff m68ki_exception_bus_error_unfold split: result.splits)
qed

lemma read_16_sample: "\<exists>v t. m68ki_read_16_fc 4 5 sample = Ret v t"
  by (simp add: m68ki_read_16_fc_def plain_access_defs m68ki_check_address_error_010_less_def
      m68ki_check_address_error_def translate_if_enabled_via_def memory_defs Let_def
      m68ki_set_fc_def sample_simps null_bus_def ADDRESS_68K_def isProgramFunctionCode_def
      cpu_type_tests cpu_types)

text \<open>
  C8. Outside a fault, a read or write of the processor that returns has changed only the bus and
  the working fields of the memory management unit: all data, address and control registers, the
  stack pointer banks, flags, cycle counters and configuration are as before, whatever tables were
  walked.
\<close>

theorem access_keeps_registers:
  assumes "run_mode s \<noteq> RUN_MODE_BERR_AERR_RESET_WSF"
  shows "holds (\<lambda>_ t. hide s t = s) (\<lambda>_ _. True) (m68ki_read_8_fc address fc s) \<and>
    holds (\<lambda>_ t. hide s t = s) (\<lambda>_ _. True) (m68ki_read_16_fc address fc s) \<and>
    holds (\<lambda>_ t. hide s t = s) (\<lambda>_ _. True) (m68ki_read_32_fc address fc s) \<and>
    holds (\<lambda>_ t. hide s t = s) (\<lambda>_ _. True) (m68ki_write_8_fc address fc v s) \<and>
    holds (\<lambda>_ t. hide s t = s) (\<lambda>_ _. True) (m68ki_write_16_fc address fc v s) \<and>
    holds (\<lambda>_ t. hide s t = s) (\<lambda>_ _. True) (m68ki_write_32_fc address fc v s)"
  unfolding m68ki_read_8_fc_def m68ki_read_16_fc_def m68ki_read_32_fc_def
    m68ki_write_8_fc_def m68ki_write_16_fc_def m68ki_write_32_fc_def
  using assms
  by (auto intro!: holds_mono [OF engine.read_fc(1)] holds_mono [OF engine.read_fc(2)]
      holds_mono [OF engine.read_fc(3)] holds_mono [OF engine.write_fc(1)]
      holds_mono [OF engine.write_fc(2)] holds_mono [OF engine.write_fc(3)] simp: quiet_def)

lemma access_keeps_registers_witness:
  "\<exists>v t. m68ki_read_16_fc 4 5 sample = Ret v t \<and> hide sample t = sample"
proof -
  have "run_mode sample \<noteq> RUN_MODE_BERR_AERR_RESET_WSF"
    by (simp add: sample_simps RUN_MODE_BERR_AERR_RESET_WSF_def)
  then have "holds (\<lambda>_ t. hide sample t = sample) (\<lambda>_ _. True) (m68ki_read_16_fc 4 5 sample)"
    using access_keeps_registers by blast
  moreover obtain v t where "m68ki_read_16_fc 4 5 sample = Ret v t"
    using read_16_sample by blast
  ultimately show ?thesis by simp
qed

end
