(* ===== verification/AdbTransceiver.thy ===== *)
theory AdbTransceiver
  imports Prelude
begin

section \<open>The transceiver of the Apple Desktop Bus\<close>

text \<open>
  \<open>AdbTransceiver.cpp\<close>: the microcontroller between the VIA's shift register and the keyboard and mouse.
  The callbacks of the machine are functions on the host's state \<open>'h\<close>, which the record carries; none of
  them calls the transceiver.  The trace for the debugger is left out.
\<close>

unbundle bit_operations_syntax

definition viaByteCycles :: int where "viaByteCycles = 1200"
definition stableStateRetryCycles :: int where "stableStateRetryCycles = 1082000"
definition adbTransactionCycles :: int where "adbTransactionCycles = 30000"

lemmas adb_times = viaByteCycles_def stableStateRetryCycles_def adbTransactionCycles_def

datatype adb_transfer = NoTransfer | HostToController | ControllerToHost | AutoPollCommand

datatype adb_phase = Idle | Command | Listen | Reply | AutoPoll

record 'h adb =
  adb_response :: "u8 list"
  adb_state :: u8
  adb_command :: u8
  adb_transferCycles :: int
  adb_retryCycles :: int
  adb_deferredTalkCycles :: int
  adb_responseDelayCycles :: int
  adb_commandPending :: bool
  adb_transmittingFromVia :: bool
  adb_receivingListenByte :: bool
  adb_autoWakePending :: bool
  adb_autoPollRequested :: bool
  adb_error :: bool
  adb_serviceRequest :: bool
  adb_transferStatus :: bool
  adb_retryPending :: bool
  adb_deferredTalkPending :: bool
  adb_talkTimedOut :: bool
  adb_errorReportPending :: bool
  adb_latchedHostByte :: u8
  adb_latchedControllerByte :: u8
  adb_lastTransferredState :: u8
  adb_transfer_kind :: adb_transfer
  adb_phase :: adb_phase
  adb_cycle :: u64
  adb_listenAddress :: u8
  adb_listenBytes :: "u8 list"
  adb_keyboardAddress :: u8
  adb_mouseAddress :: u8
  adb_keyboardHandler :: u8
  adb_mouseHandler :: u8
  adb_keyEvents :: "u8 list"
  adb_mouseButtonEvents :: "bool list"
  adb_mouseDx :: int
  adb_mouseDy :: int
  adb_mouseButton :: bool
  adb_keyboardPolled :: bool
  adb_mousePolled :: bool
  adb_host :: 'h

record 'h adb_callbacks =
  receiveByte :: "(u8 \<Rightarrow> 'h \<Rightarrow> 'h) option"
  irq :: "(bool \<Rightarrow> 'h \<Rightarrow> 'h) option"
  transmitComplete :: "('h \<Rightarrow> 'h) option"

subsection \<open>Callbacks and transfers\<close>

definition adb_setStatus :: "'h adb_callbacks \<Rightarrow> bool \<Rightarrow> 'h adb \<Rightarrow> 'h adb" where
  "adb_setStatus cb asserted s =
    (case irq cb of None \<Rightarrow> s | Some f \<Rightarrow> s\<lparr>adb_host := f asserted (adb_host s)\<rparr>)"

definition adb_startHostTransfer :: "u8 \<Rightarrow> 'h adb \<Rightarrow> 'h adb" where
  "adb_startHostTransfer v s =
     s\<lparr>adb_latchedHostByte := v, adb_transfer_kind := HostToController, adb_transmittingFromVia := True,
       adb_transferCycles := viaByteCycles, adb_retryCycles := 0, adb_retryPending := False\<rparr>"

definition adb_startControllerTransfer :: "u8 \<Rightarrow> bool \<Rightarrow> adb_transfer \<Rightarrow> 'h adb \<Rightarrow> 'h adb" where
  "adb_startControllerTransfer v status kind s =
     s\<lparr>adb_latchedControllerByte := v, adb_transferStatus := status, adb_lastTransferredState := adb_state s,
       adb_transfer_kind := kind, adb_transmittingFromVia := False, adb_transferCycles := viaByteCycles,
       adb_retryCycles := 0, adb_retryPending := False\<rparr>"

subsection \<open>Commands to the devices\<close>

definition clamp_move :: "int \<Rightarrow> int" where
  "clamp_move d = min 63 (max (- 64) d)"

definition mouse_report :: "'h adb \<Rightarrow> 'h adb" where
  "mouse_report s =
    (let dx = clamp_move (adb_mouseDx s);
         dy = clamp_move (adb_mouseDy s);
         reportedButton = (case adb_mouseButtonEvents s of [] \<Rightarrow> adb_mouseButton s | b # _ \<Rightarrow> b);
         button = (if reportedButton then 0x00 else 0x80)
     in s\<lparr>adb_mouseDx := adb_mouseDx s - dx, adb_mouseDy := adb_mouseDy s - dy,
          adb_mouseButtonEvents := tl (adb_mouseButtonEvents s),
          adb_response := [button OR (word_of_int dy AND 0x7f), 0x80 OR (word_of_int dx AND 0x7f)],
          adb_mousePolled := True\<rparr>)"

definition keyboard_report :: "'h adb \<Rightarrow> 'h adb" where
  "keyboard_report s =
    (case adb_keyEvents s of
       first # rest \<Rightarrow>
         s\<lparr>adb_keyEvents := tl rest,
           adb_response := [first, case rest of [] \<Rightarrow> 0xff | second # _ \<Rightarrow> second],
           adb_keyboardPolled := True\<rparr>
     | [] \<Rightarrow>
         if \<not> adb_keyboardPolled s then s\<lparr>adb_response := [0xff, 0xff], adb_keyboardPolled := True\<rparr> else s)"

definition adb_talk :: "u8 \<Rightarrow> u8 \<Rightarrow> 'h adb \<Rightarrow> 'h adb" where
  "adb_talk address reg s =
    (if reg = 3 \<and> address = adb_keyboardAddress s then s\<lparr>adb_response := [adb_keyboardHandler s, 0x01]\<rparr>
     else if reg = 3 \<and> address = adb_mouseAddress s then s\<lparr>adb_response := [adb_mouseHandler s, 0x01]\<rparr>
     else if reg = 0 \<and> address = adb_keyboardAddress s then keyboard_report s
     else if reg = 0 \<and> address = adb_mouseAddress s then
       (if adb_mouseDx s \<noteq> 0 \<or> adb_mouseDy s \<noteq> 0 \<or> adb_mouseButtonEvents s \<noteq> [] \<or> \<not> adb_mousePolled s
        then mouse_report s else s)
     else s)"

definition adb_prepareResponse :: "u8 \<Rightarrow> 'h adb \<Rightarrow> 'h adb" where
  "adb_prepareResponse command s =
    (let address = drop_bit 4 command;
         operation = drop_bit 2 command AND 3;
         reg = command AND 3;
         s = s\<lparr>adb_response := [], adb_error := False, adb_serviceRequest := False, adb_talkTimedOut := False,
               adb_errorReportPending := False\<rparr>
     in if command AND 0x0f = 0
        then s\<lparr>adb_listenAddress := 0, adb_listenBytes := [], adb_keyboardAddress := 2, adb_mouseAddress := 3,
               adb_keyboardHandler := 0x22, adb_mouseHandler := 0x23, adb_keyboardPolled := False,
               adb_mousePolled := False\<rparr>
        else if operation = 1
        then let s = (if address = adb_keyboardAddress s then s\<lparr>adb_keyEvents := []\<rparr> else s)
             in if address = adb_mouseAddress s
                then s\<lparr>adb_mouseDx := 0, adb_mouseDy := 0, adb_mouseButtonEvents := []\<rparr> else s
        else if operation = 2 \<and> reg = 3 \<and> (address = adb_keyboardAddress s \<or> address = adb_mouseAddress s)
        then s\<lparr>adb_listenAddress := address, adb_listenBytes := []\<rparr>
        else if operation \<noteq> 3 then s
        else let s = adb_talk address reg s
             in if adb_response s = []
                then s\<lparr>adb_response := [0xff, 0xff], adb_talkTimedOut := True, adb_errorReportPending := True\<rparr>
                else s)"

definition adb_completeListen :: "'h adb \<Rightarrow> 'h adb" where
  "adb_completeListen s =
    (let v = adb_listenBytes s ! 0;
         mode = adb_listenBytes s ! 1;
         s = (if adb_listenAddress s = adb_keyboardAddress s
              then let s = (if mode = 0x00 then s\<lparr>adb_keyboardHandler := v AND 0x7f\<rparr> else s)
                   in if mode = 0x00 \<or> mode = 0xfe
                      then s\<lparr>adb_keyboardAddress := v AND 0x0f,
                             adb_keyboardHandler := (adb_keyboardHandler s AND 0xf0) OR (v AND 0x0f)\<rparr>
                      else s
              else if adb_listenAddress s = adb_mouseAddress s
              then let s = (if mode = 0x00 then s\<lparr>adb_mouseHandler := v AND 0x7f\<rparr> else s)
                   in if mode = 0x00 \<or> mode = 0xfe
                      then s\<lparr>adb_mouseAddress := v AND 0x0f,
                             adb_mouseHandler := (adb_mouseHandler s AND 0xf0) OR (v AND 0x0f)\<rparr>
                      else s
              else s)
     in s\<lparr>adb_listenAddress := 0, adb_listenBytes := []\<rparr>)"

subsection \<open>The protocol with the VIA\<close>

definition adb_requestAutoPoll :: "'h adb \<Rightarrow> 'h adb" where
  "adb_requestAutoPoll s =
    (let s = s\<lparr>adb_autoPollRequested := True\<rparr>;
         operation = drop_bit 2 (adb_command s) AND 3
     in if adb_state s \<noteq> 3 \<or> adb_transferCycles s \<noteq> 0 \<or> adb_commandPending s \<or> operation \<noteq> 3 then s
        else let s = adb_prepareResponse (adb_command s) s
             in if adb_talkTimedOut s then s\<lparr>adb_response := [], adb_errorReportPending := False\<rparr>
                else adb_startControllerTransfer (adb_command s) True AutoPollCommand
                       (s\<lparr>adb_autoPollRequested := adb_keyEvents s \<noteq> [] \<or> adb_mouseButtonEvents s \<noteq> [] \<or>
                             adb_mouseDx s \<noteq> 0 \<or> adb_mouseDy s \<noteq> 0,
                          adb_autoWakePending := True, adb_serviceRequest := True, adb_phase := AutoPoll\<rparr>))"

definition adb_transferByte :: "'h adb \<Rightarrow> 'h adb" where
  "adb_transferByte s =
    (let endOfFrame = (adb_response s = []);
         v = (if endOfFrame then 0xff else hd (adb_response s));
         errorStatus = adb_errorReportPending s
     in adb_startControllerTransfer v (endOfFrame \<or> errorStatus) ControllerToHost
          (s\<lparr>adb_response := tl (adb_response s), adb_errorReportPending := False,
             adb_error := endOfFrame \<or> errorStatus, adb_serviceRequest := False, adb_phase := Reply\<rparr>))"

definition adb_scheduleForState :: "'h adb \<Rightarrow> 'h adb" where
  "adb_scheduleForState s =
    (if adb_transferCycles s \<noteq> 0 then s
     else if adb_commandPending s \<and> (adb_state s = 0 \<or> adb_listenAddress s \<noteq> 0)
     then adb_startHostTransfer (adb_latchedHostByte s) s
     else if adb_listenAddress s \<noteq> 0 then s
     else let operation = drop_bit 2 (adb_command s) AND 3
          in if (adb_state s = 1 \<or> adb_state s = 2) \<and> operation \<noteq> 2 \<and> adb_responseDelayCycles s = 0
             then adb_transferByte s
             else if adb_state s = 3 \<and> adb_autoPollRequested s then adb_requestAutoPoll s else s)"

text \<open>The two outcomes of a transfer.\<close>

definition host_byte_received :: "'h adb_callbacks \<Rightarrow> 'h adb \<Rightarrow> 'h adb" where
  "host_byte_received cb s =
    (let s = s\<lparr>adb_transmittingFromVia := False, adb_commandPending := False\<rparr>;
         s = (if adb_listenAddress s \<noteq> 0
              then let s = s\<lparr>adb_listenBytes := adb_listenBytes s @ [adb_latchedHostByte s],
                             adb_receivingListenByte := False\<rparr>
                   in if length (adb_listenBytes s) = 2 then (adb_completeListen s)\<lparr>adb_phase := Idle\<rparr>
                      else s\<lparr>adb_receivingListenByte := True, adb_phase := Listen\<rparr>
              else let s = adb_prepareResponse (adb_latchedHostByte s) (s\<lparr>adb_command := adb_latchedHostByte s\<rparr>);
                       s = s\<lparr>adb_phase := (if adb_listenAddress s \<noteq> 0 then Listen else Reply),
                             adb_deferredTalkPending := (drop_bit 2 (adb_command s) AND 3 = 3)\<rparr>
                   in if adb_listenAddress s = 0 then s\<lparr>adb_responseDelayCycles := adbTransactionCycles\<rparr> else s);
         s = (case transmitComplete cb of None \<Rightarrow> s | Some f \<Rightarrow> s\<lparr>adb_host := f (adb_host s)\<rparr>)
     in adb_scheduleForState s)"

definition controller_byte_sent :: "'h adb_callbacks \<Rightarrow> adb_transfer \<Rightarrow> 'h adb \<Rightarrow> 'h adb" where
  "controller_byte_sent cb completed s =
    (let s = (case receiveByte cb of None \<Rightarrow> s
              | Some f \<Rightarrow> s\<lparr>adb_host := f (adb_latchedControllerByte s) (adb_host s)\<rparr>);
         s = adb_setStatus cb (adb_transferStatus s) s;
         s = (if completed = AutoPollCommand then s\<lparr>adb_autoWakePending := False, adb_phase := AutoPoll\<rparr> else s)
     in s\<lparr>adb_retryPending := True, adb_retryCycles := stableStateRetryCycles\<rparr>)"

definition adb_finishTransfer :: "'h adb_callbacks \<Rightarrow> 'h adb \<Rightarrow> 'h adb" where
  "adb_finishTransfer cb s =
    (let completed = adb_transfer_kind s;
         s = s\<lparr>adb_transfer_kind := NoTransfer\<rparr>
     in if completed = HostToController then host_byte_received cb s else controller_byte_sent cb completed s)"

definition adb_setViaState :: "'h adb_callbacks \<Rightarrow> u8 \<Rightarrow> 'h adb \<Rightarrow> 'h adb" where
  "adb_setViaState cb state s =
    (let state = state AND 3
     in if state = adb_state s then s
        else let s = adb_setStatus cb False s;
                 s = s\<lparr>adb_retryCycles := 0, adb_retryPending := False, adb_state := state\<rparr>;
                 s = (if state = 1 \<or> state = 2
                      then s\<lparr>adb_deferredTalkPending := False, adb_deferredTalkCycles := 0\<rparr>
                      else if state = 3 \<and> adb_deferredTalkPending s \<and> adb_deferredTalkCycles s = 0
                      then s\<lparr>adb_responseDelayCycles := 0,
                             adb_deferredTalkCycles := stableStateRetryCycles + adbTransactionCycles\<rparr>
                      else s)
             in adb_scheduleForState s)"

definition adb_shiftRegisterWritten :: "u8 \<Rightarrow> 'h adb \<Rightarrow> 'h adb" where
  "adb_shiftRegisterWritten v s =
    (let s = s\<lparr>adb_latchedHostByte := v, adb_commandPending := True\<rparr>
     in if adb_transferCycles s = 0 \<and> (adb_state s = 0 \<or> adb_listenAddress s \<noteq> 0)
        then adb_startHostTransfer v s else s)"

definition adb_tick :: "'h adb_callbacks \<Rightarrow> int \<Rightarrow> 'h adb \<Rightarrow> 'h adb" where
  "adb_tick cb cycles s =
    (if cycles \<le> 0 then s
     else let s = s\<lparr>adb_cycle := adb_cycle s + word_of_int cycles\<rparr>
     in if 0 < adb_transferCycles s then
          (if adb_transferCycles s - cycles \<le> 0 then adb_finishTransfer cb (s\<lparr>adb_transferCycles := 0\<rparr>)
           else s\<lparr>adb_transferCycles := adb_transferCycles s - cycles\<rparr>)
        else if 0 < adb_retryCycles s then
          (if adb_retryCycles s - cycles \<le> 0
           then let s = s\<lparr>adb_retryCycles := 0\<rparr>
                in if adb_retryPending s \<and> adb_state s = adb_lastTransferredState s
                   then adb_startControllerTransfer (adb_latchedControllerByte s) (adb_transferStatus s) ControllerToHost s
                   else s
           else s\<lparr>adb_retryCycles := adb_retryCycles s - cycles\<rparr>)
        else if 0 < adb_responseDelayCycles s then
          (if adb_responseDelayCycles s - cycles \<le> 0 then adb_scheduleForState (s\<lparr>adb_responseDelayCycles := 0\<rparr>)
           else s\<lparr>adb_responseDelayCycles := adb_responseDelayCycles s - cycles\<rparr>)
        else if 0 < adb_deferredTalkCycles s then
          (if adb_deferredTalkCycles s - cycles \<le> 0
           then let s = s\<lparr>adb_deferredTalkCycles := 0\<rparr>
                in if adb_deferredTalkPending s \<and> adb_state s = 3
                   then adb_startControllerTransfer (adb_command s) True AutoPollCommand
                          (s\<lparr>adb_deferredTalkPending := False, adb_phase := AutoPoll, adb_serviceRequest := True\<rparr>)
                   else s
           else s\<lparr>adb_deferredTalkCycles := adb_deferredTalkCycles s - cycles\<rparr>)
        else if adb_state s = 3 \<and> adb_autoPollRequested s then adb_requestAutoPoll s
        else s)"

subsection \<open>Input and reset\<close>

definition adb_queueKey :: "u8 \<Rightarrow> bool \<Rightarrow> 'h adb \<Rightarrow> 'h adb" where
  "adb_queueKey keyCode pressed s =
     adb_requestAutoPoll (s\<lparr>adb_keyEvents := adb_keyEvents s @ [(keyCode AND 0x7f) OR (if pressed then 0 else 0x80)],
       adb_keyboardPolled := False\<rparr>)"

definition adb_moveMouse :: "16 word \<Rightarrow> 16 word \<Rightarrow> 'h adb \<Rightarrow> 'h adb" where
  "adb_moveMouse dx dy s =
    (let s = s\<lparr>adb_mouseDx := min 4096 (max (- 4096) (adb_mouseDx s + sint dx)),
               adb_mouseDy := min 4096 (max (- 4096) (adb_mouseDy s + sint dy))\<rparr>
     in if dx \<noteq> 0 \<or> dy \<noteq> 0 then adb_requestAutoPoll s else s)"

definition adb_setMouseButton :: "bool \<Rightarrow> 'h adb \<Rightarrow> 'h adb" where
  "adb_setMouseButton pressed s =
    (if adb_mouseButton s = pressed then s
     else adb_requestAutoPoll (s\<lparr>adb_mouseButton := pressed,
            adb_mouseButtonEvents := adb_mouseButtonEvents s @ [pressed], adb_mousePolled := False\<rparr>))"

definition adb_resetInput :: "'h adb \<Rightarrow> 'h adb" where
  "adb_resetInput s =
     s\<lparr>adb_keyEvents := [], adb_mouseButtonEvents := [], adb_mouseDx := 0, adb_mouseDy := 0,
       adb_mouseButton := False, adb_keyboardPolled := False, adb_mousePolled := False\<rparr>"

definition adb_init :: "'h \<Rightarrow> 'h adb" where
  "adb_init w =
    \<lparr>adb_response = [], adb_state = 3, adb_command = 0, adb_transferCycles = 0, adb_retryCycles = 0,
     adb_deferredTalkCycles = 0, adb_responseDelayCycles = 0, adb_commandPending = False,
     adb_transmittingFromVia = False, adb_receivingListenByte = False, adb_autoWakePending = False,
     adb_autoPollRequested = False, adb_error = False, adb_serviceRequest = False, adb_transferStatus = False,
     adb_retryPending = False, adb_deferredTalkPending = False, adb_talkTimedOut = False,
     adb_errorReportPending = False, adb_latchedHostByte = 0, adb_latchedControllerByte = 0xff,
     adb_lastTransferredState = 3, adb_transfer_kind = NoTransfer, adb_phase = Idle, adb_cycle = 0,
     adb_listenAddress = 0, adb_listenBytes = [], adb_keyboardAddress = 2, adb_mouseAddress = 3,
     adb_keyboardHandler = 0x22, adb_mouseHandler = 0x23, adb_keyEvents = [], adb_mouseButtonEvents = [],
     adb_mouseDx = 0, adb_mouseDy = 0, adb_mouseButton = False, adb_keyboardPolled = False,
     adb_mousePolled = False, adb_host = w\<rparr>"

definition adb_reset :: "'h adb_callbacks \<Rightarrow> 'h adb \<Rightarrow> 'h adb" where
  "adb_reset cb s = adb_setStatus cb False (adb_init (adb_host s))"



section \<open>What the host receives from the keyboard and the mouse\<close>

unbundle bit_operations_syntax

text \<open>The host's part of a TALK: the command in state 0, then the two bytes in states 1 and 2.\<close>

definition talk_steps :: "'h adb_callbacks \<Rightarrow> u8 \<Rightarrow> ('h adb \<Rightarrow> 'h adb) list" where
  "talk_steps cb c = [adb_setViaState cb 0, adb_shiftRegisterWritten c, adb_tick cb 1200, adb_tick cb 30000,
     adb_setViaState cb 1, adb_tick cb 1200, adb_setViaState cb 2, adb_tick cb 1200]"

definition host_talk :: "'h adb_callbacks \<Rightarrow> u8 \<Rightarrow> 'h adb \<Rightarrow> 'h adb" where
  "host_talk cb c s = fold (\<lambda>f. f) (talk_steps cb c) s"

definition adb_idle :: "'h adb \<Rightarrow> bool" where
  "adb_idle s \<longleftrightarrow> adb_transferCycles s = 0 \<and> adb_responseDelayCycles s = 0 \<and> \<not> adb_commandPending s \<and>
     adb_listenAddress s = 0"

text \<open>A host that collects the bytes it receives.\<close>

definition collecting :: "u8 list adb_callbacks" where
  "collecting = \<lparr>receiveByte = Some (\<lambda>v h. h @ [v]), irq = None, transmitComplete = None\<rparr>"

lemma talk_fields:
  assumes "drop_bit 2 c AND 3 = (3 :: u8)"
  shows "c AND 0x0f \<noteq> 0"
proof
  assume "c AND 0x0f = 0"
  then have "drop_bit 2 (c AND 0x0f) = 0"
    by simp
  then have "drop_bit 2 c AND 3 = 0"
    by (simp add: drop_bit_and)
  then show False
    using assms by simp
qed

text \<open>What the steps need of the state, and what they keep: the queue of keys, the address and the host.\<close>

definition keys :: "'h adb \<Rightarrow> u8 list \<times> u8 \<times> 'h" where
  "keys s = (adb_keyEvents s, adb_keyboardAddress s, adb_host s)"

lemma state_zero:
  assumes "adb_idle s" and "t = adb_setViaState collecting 0 s"
  shows "adb_idle t \<and> adb_state t = 0 \<and> keys t = keys s"
  using assms by (auto simp: adb_setViaState_def adb_setStatus_def collecting_def adb_scheduleForState_def adb_idle_def
      keys_def Let_def)

lemma command_written:
  assumes "adb_idle s" and "adb_state s = 0" and "t = adb_shiftRegisterWritten c s"
  shows "adb_transferCycles t = 1200 \<and> adb_transfer_kind t = HostToController \<and> adb_latchedHostByte t = c \<and>
    adb_retryCycles t = 0 \<and> adb_listenAddress t = 0 \<and> adb_state t = 0 \<and> keys t = keys s"
  using assms by (simp add: adb_shiftRegisterWritten_def adb_startHostTransfer_def adb_idle_def keys_def viaByteCycles_def Let_def)

lemma command_received:
  assumes "adb_transferCycles s = 1200" and "adb_transfer_kind s = HostToController" and "adb_latchedHostByte s = c"
    and "adb_retryCycles s = 0" and "adb_listenAddress s = 0" and "adb_state s = 0"
    and "drop_bit 2 c AND 3 = 3" and "c AND 3 = 0" and "drop_bit 4 c = adb_keyboardAddress s" and "adb_keyEvents s = k # ks"
    and "t = adb_tick collecting 1200 s"
  shows "adb_transferCycles t = 0 \<and> adb_retryCycles t = 0 \<and> adb_responseDelayCycles t = 30000 \<and> \<not> adb_commandPending t \<and>
    adb_listenAddress t = 0 \<and> adb_state t = 0 \<and> adb_command t = c \<and> \<not> adb_errorReportPending t \<and>
    adb_response t = [k, case ks of [] \<Rightarrow> 0xff | x # _ \<Rightarrow> x] \<and> keys t = (tl ks, adb_keyboardAddress s, adb_host s)"
proof -
  let ?s = "s\<lparr>adb_cycle := adb_cycle s + 1200, adb_transferCycles := 0, adb_transfer_kind := NoTransfer,
      adb_transmittingFromVia := False, adb_commandPending := False, adb_command := c\<rparr>"
  have p: "adb_prepareResponse c ?s = ?s\<lparr>adb_response := [k, case ks of [] \<Rightarrow> 0xff | x # _ \<Rightarrow> x], adb_error := False,
      adb_serviceRequest := False, adb_talkTimedOut := False, adb_errorReportPending := False,
      adb_keyEvents := tl ks, adb_keyboardPolled := True\<rparr>"
    using assms(7-10) talk_fields [OF assms(7)] by (simp add: adb_prepareResponse_def adb_talk_def keyboard_report_def Let_def)
  have "t = host_byte_received collecting (s\<lparr>adb_cycle := adb_cycle s + 1200, adb_transferCycles := 0, adb_transfer_kind := NoTransfer\<rparr>)"
    using assms by (simp add: adb_tick_def adb_finishTransfer_def Let_def)
  then have "t = (adb_prepareResponse c ?s)\<lparr>adb_phase := Reply, adb_deferredTalkPending := True, adb_responseDelayCycles := 30000\<rparr>"
    using assms(3,5,6,7)
    by (simp add: host_byte_received_def collecting_def p adb_scheduleForState_def adbTransactionCycles_def)
  then show ?thesis
    using assms(4-6) by (simp add: p keys_def)
qed

definition replying :: "u8 \<Rightarrow> u8 list \<Rightarrow> 'h adb \<Rightarrow> bool" where
  "replying x bs s \<longleftrightarrow> adb_idle s \<and> adb_state s = x \<and> drop_bit 2 (adb_command s) AND 3 = 3 \<and>
     \<not> adb_errorReportPending s \<and> adb_response s = bs"

lemma response_ready:
  assumes "adb_transferCycles s = 0" and "adb_retryCycles s = 0" and "adb_responseDelayCycles s = 30000"
    and "\<not> adb_commandPending s" and "adb_listenAddress s = 0" and "adb_state s = 0" and "t = adb_tick collecting 30000 s"
    and "drop_bit 2 (adb_command s) AND 3 = 3" and "\<not> adb_errorReportPending s"
  shows "replying 0 (adb_response s) t \<and> keys t = keys s"
  using assms by (simp add: adb_tick_def adb_scheduleForState_def replying_def adb_idle_def keys_def Let_def)

lemma byte_to_host:
  assumes "replying x (b # bs) s" and "y \<noteq> x" and "y = 1 \<or> y = 2"
    and "t = adb_tick collecting 1200 (adb_setViaState collecting y s)"
  shows "replying y bs t \<and> keys t = (adb_keyEvents s, adb_keyboardAddress s, adb_host s @ [b])"
proof -
  have y: "y AND 3 = y"
    using assms(3) by auto
  have "adb_setViaState collecting y s =
      adb_startControllerTransfer b False ControllerToHost
        (s\<lparr>adb_retryCycles := 0, adb_retryPending := False, adb_state := y, adb_deferredTalkPending := False,
           adb_deferredTalkCycles := 0, adb_response := bs, adb_errorReportPending := False, adb_error := False,
           adb_serviceRequest := False, adb_phase := Reply\<rparr>)"
    using assms(1-3) y
    by (simp add: replying_def adb_idle_def adb_setViaState_def adb_setStatus_def collecting_def adb_scheduleForState_def
        adb_transferByte_def Let_def)
  then show ?thesis
    using assms(1,4) by (simp add: adb_startControllerTransfer_def adb_tick_def adb_finishTransfer_def controller_byte_sent_def
        collecting_def adb_setStatus_def viaByteCycles_def replying_def adb_idle_def keys_def Let_def)
qed

lemma host_talk_key:
  assumes "adb_idle s" and "drop_bit 2 c AND 3 = 3" and "c AND 3 = 0" and "drop_bit 4 c = adb_keyboardAddress s"
    and "adb_keyEvents s = k # ks"
  shows "adb_idle (host_talk collecting c s) \<and> keys (host_talk collecting c s) =
    (tl ks, adb_keyboardAddress s, adb_host s @ [k, case ks of [] \<Rightarrow> 0xff | x # _ \<Rightarrow> x])"
proof -
  define s1 where "s1 = adb_setViaState collecting 0 s"
  define s2 where "s2 = adb_shiftRegisterWritten c s1"
  define s3 where "s3 = adb_tick collecting 1200 s2"
  define s4 where "s4 = adb_tick collecting 30000 s3"
  define s5 where "s5 = adb_tick collecting 1200 (adb_setViaState collecting 1 s4)"
  define s6 where "s6 = adb_tick collecting 1200 (adb_setViaState collecting 2 s5)"
  note 1 = state_zero [OF assms(1) s1_def]
  note 2 = command_written [of s1, OF _ _ s2_def]
  have 3: "adb_transferCycles s3 = 0 \<and> adb_retryCycles s3 = 0 \<and> adb_responseDelayCycles s3 = 30000 \<and> \<not> adb_commandPending s3 \<and>
    adb_listenAddress s3 = 0 \<and> adb_state s3 = 0 \<and> adb_command s3 = c \<and> \<not> adb_errorReportPending s3 \<and>
    adb_response s3 = [k, case ks of [] \<Rightarrow> 0xff | x # _ \<Rightarrow> x] \<and> keys s3 = (tl ks, adb_keyboardAddress s, adb_host s)"
    using command_received [where s = s2 and c = c and k = k and ks = ks, OF _ _ _ _ _ _ assms(2,3) _ _ s3_def] 1 2 assms(4,5)
    by (simp add: keys_def)
  then have 4: "replying 0 (adb_response s3) s4 \<and> keys s4 = keys s3"
    using response_ready [of s3, OF _ _ _ _ _ _ s4_def] assms(2) by simp
  then have 5: "replying 1 [case ks of [] \<Rightarrow> 0xff | x # _ \<Rightarrow> x] s5 \<and> keys s5 = (tl ks, adb_keyboardAddress s, adb_host s @ [k])"
    using byte_to_host [of 0 k "[case ks of [] \<Rightarrow> 0xff | x # _ \<Rightarrow> x]" s4 1, OF _ _ _ s5_def] 3 by (simp add: keys_def)
  then have "replying 2 [] s6 \<and> keys s6 = (tl ks, adb_keyboardAddress s, adb_host s @ [k, case ks of [] \<Rightarrow> 0xff | x # _ \<Rightarrow> x])"
    using byte_to_host [of 1 "case ks of [] \<Rightarrow> 0xff | x # _ \<Rightarrow> x" "[]" s5 2, OF _ _ _ s6_def] by (simp add: keys_def)
  moreover have "host_talk collecting c s = s6"
    by (simp add: host_talk_def talk_steps_def s1_def s2_def s3_def s4_def s5_def s6_def)
  ultimately show ?thesis
    by (simp add: replying_def)
qed

text \<open>
  C17. Keys over the desktop bus: while the transceiver is idle, each TALK of register 0 of the keyboard that
  the host clocks through the VIA returns the next two queued key transitions, so \<open>n\<close> of them return the
  first \<open>2 * n\<close> in order and each once, the missing half of the last pair being 0xff, and leave the rest queued.
\<close>

theorem keys_over_adb:
  assumes "adb_idle s" and "c = push_bit 4 (adb_keyboardAddress s) OR 0x0c" and "adb_keyboardAddress s < 16"
    and "2 * n \<le> length (adb_keyEvents s) + 1"
  shows "let s' = (host_talk collecting c ^^ n) s
         in adb_host s' = adb_host s @ take (2 * n) (adb_keyEvents s @ [0xff]) \<and>
            adb_keyEvents s' = drop (2 * n) (adb_keyEvents s) \<and> adb_idle s'"
proof -
  define k where "k = unat (adb_keyboardAddress s)"
  have k: "adb_keyboardAddress s = of_nat k" "k < 16"
    using assms(3) by (simp_all add: k_def word_less_nat_alt)
  then have "k = 0 \<or> k = 1 \<or> k = 2 \<or> k = 3 \<or> k = 4 \<or> k = 5 \<or> k = 6 \<or> k = 7 \<or>
      k = 8 \<or> k = 9 \<or> k = 10 \<or> k = 11 \<or> k = 12 \<or> k = 13 \<or> k = 14 \<or> k = 15"
    by presburger
  then have c: "drop_bit 2 c AND 3 = 3" "c AND 3 = 0" "drop_bit 4 c = adb_keyboardAddress s"
    unfolding assms(2) k(1) by (elim disjE; simp)+
  have "drop_bit 4 c = adb_keyboardAddress s \<Longrightarrow> adb_idle s \<Longrightarrow> 2 * n \<le> length (adb_keyEvents s) + 1 \<Longrightarrow>
      (let s' = (host_talk collecting c ^^ n) s
         in adb_host s' = adb_host s @ take (2 * n) (adb_keyEvents s @ [0xff]) \<and>
            adb_keyEvents s' = drop (2 * n) (adb_keyEvents s) \<and> adb_idle s')" for s
  proof (induction n arbitrary: s)
    case (Suc n)
    then obtain k ks where e: "adb_keyEvents s = k # ks"
      by (cases "adb_keyEvents s") auto
    note t = host_talk_key [OF Suc.prems(2) c(1,2) Suc.prems(1) e]
    show ?case
      using Suc.IH [of "host_talk collecting c s"] t Suc.prems e
      by (cases ks) (simp_all add: keys_def funpow_swap1 Let_def)
  qed simp
  then show ?thesis
    using assms(1,4) c(3) by blast
qed

lemma keys_over_adb_witness:
  "adb_host ((host_talk collecting 0x2c ^^ 2) (adb_queueKey 3 False (adb_queueKey 2 True (adb_queueKey 1 True (adb_init []))))) =
     [0x01, 0x02, 0x83, 0xff]"
proof -
  let ?s = "adb_queueKey 3 False (adb_queueKey 2 True (adb_queueKey 1 True (adb_init []))) :: u8 list adb"
  have "adb_idle ?s" "adb_keyboardAddress ?s = 2" "adb_keyEvents ?s = [0x01, 0x02, 0x83]" "adb_host ?s = []"
    by (simp_all add: adb_queueKey_def adb_requestAutoPoll_def adb_init_def adb_idle_def Let_def)
  then show ?thesis
    using keys_over_adb [of ?s "0x2c" 2] by (simp add: Let_def)
qed

end
