(* ===== verification/AppleSoundChip.thy ===== *)
theory AppleSoundChip
  imports Prelude
begin

section \<open>The Apple sound chip\<close>

text \<open>
  \<open>AppleSoundChip.cpp\<close>: the two FIFOs of the ASC and the EASC with their status bits and the interrupt.
  Sound output itself is not part of the chip in this program.
\<close>

unbundle bit_operations_syntax

definition modeRegister :: u16 where "modeRegister = 0x801"
definition controlRegister :: u16 where "controlRegister = 0x802"
definition fifoModeRegister :: u16 where "fifoModeRegister = 0x803"
definition fifoStatusRegister :: u16 where "fifoStatusRegister = 0x804"
definition clockRegister :: u16 where "clockRegister = 0x807"
definition fifoAIrqControlRegister :: u16 where "fifoAIrqControlRegister = 0xf09"
definition fifoBIrqControlRegister :: u16 where "fifoBIrqControlRegister = 0xf29"
definition cpuClock :: u64 where "cpuClock = 15667200"
definition originalSampleRate :: u64 where "originalSampleRate = 22257"
definition enhancedSampleRate :: u64 where "enhancedSampleRate = 44100"

lemmas asc_registers = modeRegister_def controlRegister_def fifoModeRegister_def fifoStatusRegister_def
  clockRegister_def fifoAIrqControlRegister_def fifoBIrqControlRegister_def

datatype AscModel = Original | Enhanced

text \<open>The channels of the arrays are \<open>False\<close> for the first and \<open>True\<close> for the second.\<close>

record asc =
  asc_model :: AscModel
  asc_memory :: "u16 \<Rightarrow> u8"
  asc_fifo :: "bool \<Rightarrow> u16 \<Rightarrow> u8"
  asc_readPointer :: "bool \<Rightarrow> u16"
  asc_writePointer :: "bool \<Rightarrow> u16"
  asc_capacity :: "bool \<Rightarrow> u16"
  asc_sampleCycleAccumulator :: u64
  asc_irq :: bool

definition set_memory :: "u16 \<Rightarrow> u8 \<Rightarrow> asc \<Rightarrow> asc" where
  "set_memory i v s = s\<lparr>asc_memory := (asc_memory s)(i := v)\<rparr>"

definition asc_status :: "asc \<Rightarrow> u8" where
  "asc_status s = asc_memory s fifoStatusRegister"

definition set_status :: "u8 \<Rightarrow> asc \<Rightarrow> asc" where
  "set_status b s = set_memory fifoStatusRegister (asc_status s OR b) s"

definition clear_status :: "u8 \<Rightarrow> asc \<Rightarrow> asc" where
  "clear_status b s = set_memory fifoStatusRegister (asc_status s AND NOT b) s"

definition empty_fifos :: "asc \<Rightarrow> asc" where
  "empty_fifos s = s\<lparr>asc_readPointer := \<lambda>_. 0, asc_writePointer := \<lambda>_. 0, asc_capacity := \<lambda>_. 0\<rparr>"

definition asc_reset :: "asc \<Rightarrow> asc" where
  "asc_reset s =
    (let s = (empty_fifos s)\<lparr>asc_memory := \<lambda>_. 0, asc_fifo := \<lambda>_ _. 0, asc_sampleCycleAccumulator := 0, asc_irq := False\<rparr>
     in if asc_model s = Enhanced
        then set_memory fifoBIrqControlRegister 1 (set_memory fifoAIrqControlRegister 1 (set_memory fifoStatusRegister 0x0f s))
        else s)"

definition asc_read :: "u16 \<Rightarrow> asc \<Rightarrow> u8 \<times> asc" where
  "asc_read offset s =
    (let offset = offset AND 0x0fff
     in if offset < 0x400 then (asc_fifo s False offset, s)
        else if offset < 0x800 then (asc_fifo s True (offset - 0x400), s)
        else if offset = 0x800 then (if asc_model s = Enhanced then 0xb0 else 0, s)
        else if asc_model s = Enhanced \<and> offset = clockRegister then (3, s)
        else if offset = fifoStatusRegister
        then (asc_memory s offset,
              (if asc_model s = Original then set_memory offset 0 s else s)\<lparr>asc_irq := False\<rparr>)
        else (asc_memory s offset, s))"

definition half_bit :: "bool \<Rightarrow> u8" where
  "half_bit ch = (if \<not> ch then 0x01 else 0x04)"

definition edge_bit :: "bool \<Rightarrow> u8" where
  "edge_bit ch = (if \<not> ch then 0x02 else 0x08)"

definition asc_push :: "bool \<Rightarrow> u8 \<Rightarrow> asc \<Rightarrow> asc" where
  "asc_push ch v s =
    (let s = s\<lparr>asc_fifo := (asc_fifo s)(ch := (asc_fifo s ch)(asc_writePointer s ch := v)),
               asc_writePointer := (asc_writePointer s)(ch := (asc_writePointer s ch + 1) AND 0x3ff)\<rparr>;
         s = (if asc_capacity s ch < 0x400 then s\<lparr>asc_capacity := (asc_capacity s)(ch := asc_capacity s ch + 1)\<rparr> else s);
         s = (if 0x200 \<le> asc_capacity s ch then clear_status (half_bit ch) s else s)
     in if 0x3ff \<le> asc_capacity s ch then set_status (edge_bit ch) s
        else if 0 < asc_capacity s ch then clear_status (edge_bit ch) s
        else s)"

definition asc_write :: "u16 \<Rightarrow> u8 \<Rightarrow> asc \<Rightarrow> asc" where
  "asc_write offset v s =
    (let offset = offset AND 0x0fff
     in if offset < 0x800 then asc_push (\<not> offset < 0x400) v s
        else if offset = 0x800 then s
        else if asc_model s = Enhanced \<and> offset = controlRegister then s
        else
          let s = (if offset = modeRegister \<and> v AND 3 \<noteq> asc_memory s offset AND 3
                   then (empty_fifos s)\<lparr>asc_sampleCycleAccumulator := 0\<rparr> else s);
              (v, s) = (if asc_model s = Enhanced \<and> offset = modeRegister then (v AND 1, set_status 0x08 s) else (v, s));
              v = (if asc_model s = Enhanced \<and> (offset = fifoAIrqControlRegister \<or> offset = fifoBIrqControlRegister)
                   then v AND 1 else v);
              s = (if offset = fifoModeRegister \<and> v AND 0x80 \<noteq> 0 then set_status 0x0a (empty_fifos s) else s)
          in set_memory offset v s)"

definition asc_consume :: "bool \<Rightarrow> asc \<Rightarrow> asc" where
  "asc_consume ch s =
    (let oldCapacity = asc_capacity s ch;
         s = (if oldCapacity \<noteq> 0
              then s\<lparr>asc_readPointer := (asc_readPointer s)(ch := (asc_readPointer s ch + 1) AND 0x3ff),
                     asc_capacity := (asc_capacity s)(ch := oldCapacity - 1)\<rparr>
              else s);
         s = (if oldCapacity = 0x200
              then (clear_status (edge_bit ch) (set_status (half_bit ch) s))\<lparr>asc_irq := True\<rparr> else s)
     in if oldCapacity \<noteq> 0 \<and> asc_capacity s ch = 0
        then (set_status (half_bit ch OR edge_bit ch) s)\<lparr>asc_irq := True\<rparr> else s)"

definition asc_sample :: "bool \<Rightarrow> asc \<Rightarrow> asc" where
  "asc_sample stereo s = (let s = asc_consume False s in if stereo then asc_consume True s else s)"

definition asc_tick :: "u64 \<Rightarrow> asc \<Rightarrow> asc" where
  "asc_tick cpuCycles s =
    (if asc_memory s modeRegister AND 3 \<noteq> 1 then s
     else
       let sampleRate = (if asc_model s = Enhanced then enhancedSampleRate else originalSampleRate);
           total = asc_sampleCycleAccumulator s + cpuCycles * sampleRate;
           s = s\<lparr>asc_sampleCycleAccumulator := total mod cpuClock\<rparr>;
           stereo = (asc_model s = Enhanced \<or> asc_memory s controlRegister AND 1 \<noteq> 0)
       in (asc_sample stereo ^^ unat (total div cpuClock)) s)"

definition asc_interruptActive :: "asc \<Rightarrow> bool" where
  "asc_interruptActive s \<longleftrightarrow> asc_irq s"

end
