(* ===== verification/Via6522.thy ===== *)
theory Via6522
  imports Prelude
begin

section \<open>The VIA 6522\<close>

text \<open>
  \<open>Via6522.cpp\<close>: two ports, two timers, the shift register with the keyboard of the compact
  Macintoshes behind it, and the interrupt flags.  The callbacks a machine installs may call the chip
  again (the port B callback of the Macintosh Plus sets an input bit of port B), so they are functions
  on the pair of the chip and the rest of the machine, \<open>'h\<close>; \<open>None\<close> is a callback that is not set.
\<close>

unbundle bit_operations_syntax

definition registerB :: nat where "registerB = 0"
definition registerAHandshake :: nat where "registerAHandshake = 1"
definition dataDirectionB :: nat where "dataDirectionB = 2"
definition dataDirectionA :: nat where "dataDirectionA = 3"
definition timer1CounterLow :: nat where "timer1CounterLow = 4"
definition timer1CounterHigh :: nat where "timer1CounterHigh = 5"
definition timer1LatchLow :: nat where "timer1LatchLow = 6"
definition timer1LatchHigh :: nat where "timer1LatchHigh = 7"
definition timer2CounterLow :: nat where "timer2CounterLow = 8"
definition timer2CounterHigh :: nat where "timer2CounterHigh = 9"
definition auxiliaryControl :: nat where "auxiliaryControl = 11"
definition shiftRegister :: nat where "shiftRegister = 10"
definition peripheralControl :: nat where "peripheralControl = 12"
definition interruptFlag :: nat where "interruptFlag = 13"
definition interruptEnable :: nat where "interruptEnable = 14"
definition registerA :: nat where "registerA = 15"

lemmas via_registers [simp] = registerB_def registerAHandshake_def dataDirectionB_def dataDirectionA_def
  timer1CounterLow_def timer1CounterHigh_def timer1LatchLow_def timer1LatchHigh_def timer2CounterLow_def
  timer2CounterHigh_def auxiliaryControl_def shiftRegister_def peripheralControl_def interruptFlag_def
  interruptEnable_def registerA_def

definition overlayBit :: u8 where "overlayBit = 0x10"
definition vblInterruptBit :: u8 where "vblInterruptBit = 0x02"
definition cb1InterruptBit :: u8 where "cb1InterruptBit = 0x10"
definition cb2InterruptBit :: u8 where "cb2InterruptBit = 0x08"
definition timer1InterruptBit :: u8 where "timer1InterruptBit = 0x40"
definition timer2InterruptBit :: u8 where "timer2InterruptBit = 0x20"
definition shiftRegisterInterruptBit :: u8 where "shiftRegisterInterruptBit = 0x04"
definition keyboardByteCycles :: int where "keyboardByteCycles = 80"
definition keyboardInquiryTimeoutCycles :: int where "keyboardInquiryTimeoutCycles = 1958400"

lemmas via_bits [simp] = overlayBit_def vblInterruptBit_def cb1InterruptBit_def cb2InterruptBit_def
  timer1InterruptBit_def timer2InterruptBit_def shiftRegisterInterruptBit_def keyboardByteCycles_def
  keyboardInquiryTimeoutCycles_def

text \<open>The members of the class; the counters of type \<open>int\<close> stay far from its bounds.\<close>

record via =
  via_regs :: "nat \<Rightarrow> u8"
  via_initialPortA :: u8
  via_initialPortB :: u8
  via_initialDdrA :: u8
  via_initialDdrB :: u8
  via_portAInputs :: u8
  via_portBInputs :: u8
  via_interruptEnable :: u8
  via_timer1Counter :: int
  via_timer1Latch :: int
  via_timer1FreeCounter :: int
  via_timer1Running :: bool
  via_timer1Pb7 :: bool
  via_timer2Counter :: int
  via_timer2FreeCounter :: int
  via_timer2Running :: bool
  via_vblCycles :: int
  via_automaticCa1Period :: int
  via_ca1 :: bool
  via_cb1 :: bool
  via_cb2 :: bool
  via_keyboardTransitions :: "u8 list"
  via_keyboardCommand :: u8
  via_shiftCycles :: int
  via_keyboardCommandPending :: bool
  via_keyboardResponseReady :: bool

record 'h via_callbacks =
  portAChanged :: "(u8 \<Rightarrow> via \<times> 'h \<Rightarrow> via \<times> 'h) option"
  portBChanged :: "(u8 \<Rightarrow> u8 \<Rightarrow> via \<times> 'h \<Rightarrow> via \<times> 'h) option"
  shiftRegisterWrite :: "(u8 \<Rightarrow> via \<times> 'h \<Rightarrow> via \<times> 'h) option"
  shiftRegisterRead :: "(via \<times> 'h \<Rightarrow> via \<times> 'h) option"

definition via_init :: via where
  "via_init =
    \<lparr>via_regs = (\<lambda>_. 0), via_initialPortA = 0x7b, via_initialPortB = 0x8f, via_initialDdrA = 0x7f,
     via_initialDdrB = 0x87, via_portAInputs = 0xff, via_portBInputs = 0xff, via_interruptEnable = 0,
     via_timer1Counter = 0, via_timer1Latch = 0, via_timer1FreeCounter = 0xffff, via_timer1Running = False,
     via_timer1Pb7 = False, via_timer2Counter = 0, via_timer2FreeCounter = 0xffff, via_timer2Running = False,
     via_vblCycles = 0, via_automaticCa1Period = 130560, via_ca1 = True, via_cb1 = True, via_cb2 = True,
     via_keyboardTransitions = [], via_keyboardCommand = 0, via_shiftCycles = 0,
     via_keyboardCommandPending = False, via_keyboardResponseReady = False\<rparr>"

definition set_via_reg :: "nat \<Rightarrow> u8 \<Rightarrow> via \<Rightarrow> via" where
  "set_via_reg i v s = s\<lparr>via_regs := (via_regs s)(i := v)\<rparr>"

definition raise_flag :: "u8 \<Rightarrow> via \<Rightarrow> via" where
  "raise_flag b s = set_via_reg interruptFlag (via_regs s interruptFlag OR b) s"

definition clear_flag :: "u8 \<Rightarrow> via \<Rightarrow> via" where
  "clear_flag b s = set_via_reg interruptFlag (via_regs s interruptFlag AND NOT b) s"

subsection \<open>Ports and interrupts\<close>

definition via_portA :: "via \<Rightarrow> u8" where
  "via_portA s =
    (let outputs = via_regs s registerA AND via_regs s dataDirectionA;
         inputs = via_portAInputs s AND NOT (via_regs s dataDirectionA)
     in outputs OR inputs)"

definition via_portB :: "via \<Rightarrow> u8" where
  "via_portB s =
    (let outputs = via_regs s registerB AND via_regs s dataDirectionB;
         outputs = (if via_regs s auxiliaryControl AND 0x80 \<noteq> 0
                    then if via_timer1Pb7 s then outputs OR 0x80 else outputs AND NOT 0x80
                    else outputs);
         inputs = via_portBInputs s AND NOT (via_regs s dataDirectionB)
     in outputs OR inputs)"

definition via_setPortAInputBit :: "u8 \<Rightarrow> bool \<Rightarrow> via \<Rightarrow> via" where
  "via_setPortAInputBit b high s =
    (if 8 \<le> b then s
     else let m = push_bit (unat b) 1
          in s\<lparr>via_portAInputs := (if high then via_portAInputs s OR m else via_portAInputs s AND NOT m)\<rparr>)"

definition via_setPortBInputBit :: "u8 \<Rightarrow> bool \<Rightarrow> via \<Rightarrow> via" where
  "via_setPortBInputBit b high s =
    (if 8 \<le> b then s
     else let m = push_bit (unat b) 1
          in s\<lparr>via_portBInputs := (if high then via_portBInputs s OR m else via_portBInputs s AND NOT m)\<rparr>)"

definition via_interruptActive :: "via \<Rightarrow> bool" where
  "via_interruptActive s \<longleftrightarrow> via_regs s interruptFlag AND via_interruptEnable s \<noteq> 0"

definition via_interruptFlagRegister :: "via \<Rightarrow> u8" where
  "via_interruptFlagRegister s =
    (let active = via_regs s interruptFlag AND via_interruptEnable s
     in if active = 0 then via_regs s interruptFlag else via_regs s interruptFlag OR 0x80)"

definition via_overlayEnabled :: "via \<Rightarrow> bool" where
  "via_overlayEnabled s \<longleftrightarrow> via_portA s AND overlayBit \<noteq> 0"

definition via_notifyPortAChanged :: "'h via_callbacks \<Rightarrow> via \<times> 'h \<Rightarrow> via \<times> 'h" where
  "via_notifyPortAChanged cb p =
    (case portAChanged cb of None \<Rightarrow> p | Some f \<Rightarrow> f (via_portA (fst p)) p)"

text \<open>The two ways port B is reported: the latched output register, or the pins.\<close>

definition notifyPortB_register :: "'h via_callbacks \<Rightarrow> via \<times> 'h \<Rightarrow> via \<times> 'h" where
  "notifyPortB_register cb p =
    (case portBChanged cb of None \<Rightarrow> p
     | Some f \<Rightarrow> f (via_regs (fst p) registerB) (via_regs (fst p) dataDirectionB) p)"

definition notifyPortB_pins :: "'h via_callbacks \<Rightarrow> via \<times> 'h \<Rightarrow> via \<times> 'h" where
  "notifyPortB_pins cb p =
    (case portBChanged cb of None \<Rightarrow> p
     | Some f \<Rightarrow> f (via_portB (fst p)) (via_regs (fst p) dataDirectionB) p)"

subsection \<open>Reset\<close>

definition via_cleared :: "via \<Rightarrow> via" where
  "via_cleared s =
    s\<lparr>via_regs := (\<lambda>_. 0)(registerA := via_initialPortA s, registerB := via_initialPortB s,
        dataDirectionA := via_initialDdrA s, dataDirectionB := via_initialDdrB s),
      via_interruptEnable := 0, via_timer1Counter := 0, via_timer1Latch := 0,
      via_timer1FreeCounter := 0xffff, via_timer1Running := False, via_timer1Pb7 := False,
      via_timer2Counter := 0, via_timer2FreeCounter := 0xffff, via_timer2Running := False,
      via_vblCycles := via_automaticCa1Period s, via_ca1 := True, via_cb1 := True, via_cb2 := True,
      via_keyboardTransitions := [], via_keyboardCommand := 0, via_shiftCycles := 0,
      via_keyboardCommandPending := False, via_keyboardResponseReady := False\<rparr>"

definition via_reset :: "'h via_callbacks \<Rightarrow> via \<times> 'h \<Rightarrow> via \<times> 'h" where
  "via_reset cb p = notifyPortB_register cb (via_notifyPortAChanged cb (apfst via_cleared p))"

subsection \<open>Reading a register\<close>

definition via_readShift :: "via \<Rightarrow> via" where
  "via_readShift s =
    (if via_keyboardResponseReady s
     then s\<lparr>via_keyboardResponseReady := False, via_keyboardCommandPending := False\<rparr>
     else if via_keyboardCommandPending s \<and> via_regs s auxiliaryControl AND 0x10 = 0 \<and> via_shiftCycles s = 0
     then s\<lparr>via_shiftCycles :=
            (if via_keyboardCommand s = 0x10 \<and> via_keyboardTransitions s = []
             then keyboardInquiryTimeoutCycles else keyboardByteCycles)\<rparr>
     else s)"

definition via_readRegister :: "'h via_callbacks \<Rightarrow> u8 \<Rightarrow> via \<times> 'h \<Rightarrow> u8 \<times> via \<times> 'h" where
  "via_readRegister cb index p =
    (let s = fst p; h = snd p; i = unat (index AND 0x0f)
     in if i = registerB then
          let s = clear_flag cb1InterruptBit s;
              cb2Mode = drop_bit 5 (via_regs s peripheralControl) AND 7;
              s = (if cb2Mode \<noteq> 1 \<and> cb2Mode \<noteq> 3 then clear_flag cb2InterruptBit s else s)
          in (via_portB s, s, h)
        else if i = registerAHandshake then let s = clear_flag 0x03 s in (via_portA s, s, h)
        else if i = registerA then (via_portA s, s, h)
        else if i = shiftRegister then
          let s = clear_flag shiftRegisterInterruptBit s;
              v = via_regs s shiftRegister;
              s = via_readShift s
          in (v, case shiftRegisterRead cb of None \<Rightarrow> (s, h) | Some f \<Rightarrow> f (s, h))
        else if i = timer1CounterLow then
          let s = clear_flag timer1InterruptBit s
          in (if \<not> via_timer1Running s then word_of_int (via_timer1FreeCounter s) else via_regs s i, s, h)
        else if i = timer1CounterHigh then
          (if \<not> via_timer1Running s then word_of_int (drop_bit 8 (via_timer1FreeCounter s)) else via_regs s i, s, h)
        else if i = timer2CounterLow then
          let s = clear_flag timer2InterruptBit s
          in (if \<not> via_timer2Running s \<and> via_regs s auxiliaryControl AND 0x20 = 0
              then word_of_int (via_timer2FreeCounter s) else via_regs s i, s, h)
        else if i = timer2CounterHigh then
          (if \<not> via_timer2Running s \<and> via_regs s auxiliaryControl AND 0x20 = 0
           then word_of_int (drop_bit 8 (via_timer2FreeCounter s)) else via_regs s i, s, h)
        else if i = interruptFlag then (via_interruptFlagRegister s, s, h)
        else if i = interruptEnable then (0x80 OR via_interruptEnable s, s, h)
        else (via_regs s i, s, h))"

subsection \<open>Writing a register\<close>

definition latch_low :: "u8 \<Rightarrow> via \<Rightarrow> via" where
  "latch_low v s = s\<lparr>via_timer1Latch := (via_timer1Latch s AND 0xff00) OR uint v\<rparr>"

definition latch_high :: "u8 \<Rightarrow> via \<Rightarrow> via" where
  "latch_high v s = s\<lparr>via_timer1Latch := push_bit 8 (uint v) OR (via_timer1Latch s AND 0x00ff)\<rparr>"

text \<open>A latch of 0 counts a full round.\<close>

definition timer1_reload :: "via \<Rightarrow> int" where
  "timer1_reload s = (if via_timer1Latch s = 0 then 0x10000 else via_timer1Latch s)"

definition start_timer1 :: "'h via_callbacks \<Rightarrow> u8 \<Rightarrow> via \<times> 'h \<Rightarrow> via \<times> 'h" where
  "start_timer1 cb v p =
    (let p = apfst (\<lambda>s. let s = latch_high v (set_via_reg timer1CounterHigh v s)
                        in s\<lparr>via_timer1Counter := timer1_reload s, via_timer1Running := True\<rparr>) p;
         p = (if via_regs (fst p) auxiliaryControl AND 0x80 \<noteq> 0
              then notifyPortB_pins cb (apfst (\<lambda>s. s\<lparr>via_timer1Pb7 := False\<rparr>) p)
              else p)
     in apfst (clear_flag timer1InterruptBit) p)"

definition write_shift :: "'h via_callbacks \<Rightarrow> u8 \<Rightarrow> via \<times> 'h \<Rightarrow> via \<times> 'h" where
  "write_shift cb v p =
    (let s = clear_flag shiftRegisterInterruptBit (set_via_reg shiftRegister v (fst p));
         s = (if via_regs s auxiliaryControl AND 0x1c = 0x1c \<and> shiftRegisterWrite cb = None
              then s\<lparr>via_keyboardCommand := v, via_keyboardCommandPending := True,
                     via_keyboardResponseReady := False, via_shiftCycles := keyboardByteCycles\<rparr>
              else s)
     in case shiftRegisterWrite cb of
          Some f \<Rightarrow> if via_regs s auxiliaryControl AND 0x10 \<noteq> 0 then f v (s, snd p) else (s, snd p)
        | None \<Rightarrow> (s, snd p))"

definition via_writeRegister :: "'h via_callbacks \<Rightarrow> u8 \<Rightarrow> u8 \<Rightarrow> via \<times> 'h \<Rightarrow> via \<times> 'h" where
  "via_writeRegister cb index v p =
    (let i = unat (index AND 0x0f)
     in if i = interruptFlag then apfst (clear_flag v) p
        else if i = interruptEnable then
          apfst (\<lambda>s. s\<lparr>via_interruptEnable :=
            (if v AND 0x80 \<noteq> 0 then via_interruptEnable s OR (v AND 0x7f) else via_interruptEnable s AND NOT v)\<rparr>) p
        else if i = timer1CounterLow then apfst (\<lambda>s. latch_low v (set_via_reg i v s)) p
        else if i = timer1CounterHigh then start_timer1 cb v p
        else if i = timer1LatchLow then apfst (\<lambda>s. latch_low v (set_via_reg i v s)) p
        else if i = timer1LatchHigh then apfst (\<lambda>s. latch_high v (set_via_reg i v s)) p
        else if i = timer2CounterLow then apfst (\<lambda>s. clear_flag timer2InterruptBit (set_via_reg i v s)) p
        else if i = shiftRegister then write_shift cb v p
        else if i = timer2CounterHigh then
          apfst (\<lambda>s. let s = set_via_reg i v s
             in clear_flag timer2InterruptBit
                  (s\<lparr>via_timer2Counter := push_bit 8 (uint (via_regs s timer2CounterHigh)) OR
                       uint (via_regs s timer2CounterLow),
                     via_timer2Running := True\<rparr>)) p
        else
          let p = apfst (set_via_reg (if i = registerAHandshake then registerA else i) v) p
          in if i = registerA \<or> i = registerAHandshake \<or> i = dataDirectionA then via_notifyPortAChanged cb p
             else if i = registerB \<or> i = dataDirectionB then notifyPortB_register cb p
             else p)"

subsection \<open>Time\<close>

text \<open>
  The loop that adds a period until the counter is positive, with the number of rounds.  The periods
  of the chip are positive (\<open>via_ok\<close> below), so the test for it never decides.
\<close>

function reload_rounds :: "int \<Rightarrow> int \<Rightarrow> nat \<Rightarrow> int \<times> nat" where
  "reload_rounds period c n = (if c \<le> 0 \<and> 0 < period then reload_rounds period (c + period) (Suc n) else (c, n))"
  by pat_completeness auto
termination by (relation "measure (\<lambda>(period, c, n). nat (1 - c))") auto

declare reload_rounds.simps [simp del]

definition tick_vbl :: "int \<Rightarrow> via \<Rightarrow> via" where
  "tick_vbl cycles s =
    (if 0 < via_automaticCa1Period s
     then let (c, n) = reload_rounds (via_automaticCa1Period s) (via_vblCycles s - cycles) 0;
              s = s\<lparr>via_vblCycles := c\<rparr>
          in if 0 < n then raise_flag vblInterruptBit s else s
     else s)"

definition expire_timer1 :: "'h via_callbacks \<Rightarrow> via \<times> 'h \<Rightarrow> via \<times> 'h" where
  "expire_timer1 cb p =
    (let s = raise_flag timer1InterruptBit (fst p); h = snd p
     in if via_regs s auxiliaryControl AND 0x40 \<noteq> 0
        then let (c, expirations) = reload_rounds (timer1_reload s) (via_timer1Counter s) 0;
                 s = s\<lparr>via_timer1Counter := c\<rparr>
             in if via_regs s auxiliaryControl AND 0x80 \<noteq> 0 \<and> odd expirations
                then notifyPortB_pins cb (s\<lparr>via_timer1Pb7 := \<not> via_timer1Pb7 s\<rparr>, h)
                else (s, h)
        else let s = s\<lparr>via_timer1Counter := 0, via_timer1Running := False\<rparr>
             in if via_regs s auxiliaryControl AND 0x80 \<noteq> 0
                then notifyPortB_pins cb (s\<lparr>via_timer1Pb7 := True\<rparr>, h)
                else (s, h))"

definition show_timer1 :: "via \<Rightarrow> via" where
  "show_timer1 s =
    (let counter = word_of_int (max 0 (via_timer1Counter s)) :: u16
     in set_via_reg timer1CounterHigh (ucast (drop_bit 8 counter)) (set_via_reg timer1CounterLow (ucast counter) s))"

definition tick_timer1 :: "'h via_callbacks \<Rightarrow> int \<Rightarrow> via \<times> 'h \<Rightarrow> via \<times> 'h" where
  "tick_timer1 cb cycles p =
    (if via_timer1Running (fst p)
     then let p = apfst (\<lambda>s. s\<lparr>via_timer1Counter := via_timer1Counter s - cycles\<rparr>) p;
              p = (if via_timer1Counter (fst p) \<le> 0 then expire_timer1 cb p else p)
          in apfst show_timer1 p
     else apfst (\<lambda>s. s\<lparr>via_timer1FreeCounter := (via_timer1FreeCounter s - cycles) AND 0xffff\<rparr>) p)"

definition tick_timer2 :: "int \<Rightarrow> via \<Rightarrow> via" where
  "tick_timer2 cycles s =
    (if via_timer2Running s
     then let s = s\<lparr>via_timer2Counter := via_timer2Counter s - cycles\<rparr>
          in if 0 < via_timer2Counter s
             then let counter = word_of_int (via_timer2Counter s) :: u16
                  in set_via_reg timer2CounterHigh (ucast (drop_bit 8 counter))
                       (set_via_reg timer2CounterLow (ucast counter) s)
             else raise_flag timer2InterruptBit
                    (set_via_reg timer2CounterHigh 0
                      (set_via_reg timer2CounterLow 0 (s\<lparr>via_timer2Counter := 0, via_timer2Running := False\<rparr>)))
     else if via_regs s auxiliaryControl AND 0x20 = 0
     then s\<lparr>via_timer2FreeCounter := (via_timer2FreeCounter s - cycles) AND 0xffff\<rparr>
     else s)"

text \<open>The answer of the keyboard when its byte has been shifted in.\<close>

definition keyboard_response :: "via \<Rightarrow> via" where
  "keyboard_response s =
    (let s = (if via_keyboardCommand s = 0x16 then set_via_reg shiftRegister 0x03 s
              else case via_keyboardTransitions s of
                     t # ts \<Rightarrow> set_via_reg shiftRegister t s\<lparr>via_keyboardTransitions := ts\<rparr>
                   | [] \<Rightarrow> set_via_reg shiftRegister 0x7b s)
     in s\<lparr>via_keyboardResponseReady := True\<rparr>)"

definition tick_shift :: "int \<Rightarrow> via \<Rightarrow> via" where
  "tick_shift cycles s =
    (if 0 < via_shiftCycles s
     then let s = s\<lparr>via_shiftCycles := via_shiftCycles s - cycles\<rparr>
          in if via_shiftCycles s \<le> 0
             then let s = s\<lparr>via_shiftCycles := 0\<rparr>;
                      s = (if via_regs s auxiliaryControl AND 0x10 = 0 \<and> via_keyboardCommandPending s
                           then keyboard_response s else s)
                  in raise_flag shiftRegisterInterruptBit s
             else s
     else s)"

definition via_tick :: "'h via_callbacks \<Rightarrow> int \<Rightarrow> via \<times> 'h \<Rightarrow> via \<times> 'h" where
  "via_tick cb cycles p =
    (if cycles \<le> 0 then p
     else apfst (tick_shift cycles) (apfst (tick_timer2 cycles)
            (tick_timer1 cb cycles (apfst (tick_vbl cycles) p))))"

subsection \<open>The lines from outside\<close>

definition via_externalShiftIn :: "u8 \<Rightarrow> via \<Rightarrow> via" where
  "via_externalShiftIn v s = raise_flag shiftRegisterInterruptBit (set_via_reg shiftRegister v s)"

definition via_externalShiftOutComplete :: "via \<Rightarrow> via" where
  "via_externalShiftOutComplete s = raise_flag shiftRegisterInterruptBit s"

definition via_setPowerOnState :: "u8 \<Rightarrow> u8 \<Rightarrow> u8 \<Rightarrow> u8 \<Rightarrow> via \<Rightarrow> via" where
  "via_setPowerOnState portA portB ddrA ddrB s =
    s\<lparr>via_initialPortA := portA, via_initialPortB := portB, via_initialDdrA := ddrA, via_initialDdrB := ddrB\<rparr>"

definition via_setAutomaticCa1Period :: "int \<Rightarrow> via \<Rightarrow> via" where
  "via_setAutomaticCa1Period cycles s =
    s\<lparr>via_automaticCa1Period := max 0 cycles, via_vblCycles := max 0 cycles\<rparr>"

definition via_setCa1 :: "bool \<Rightarrow> via \<Rightarrow> via" where
  "via_setCa1 high s = (if via_ca1 s \<and> \<not> high then raise_flag vblInterruptBit s else s)\<lparr>via_ca1 := high\<rparr>"

definition via_setCb1 :: "bool \<Rightarrow> via \<Rightarrow> via" where
  "via_setCb1 high s = (if via_cb1 s \<and> \<not> high then raise_flag cb1InterruptBit s else s)\<lparr>via_cb1 := high\<rparr>"

definition via_setCb2 :: "bool \<Rightarrow> via \<Rightarrow> via" where
  "via_setCb2 high s = (if via_cb2 s \<and> \<not> high then raise_flag cb2InterruptBit s else s)\<lparr>via_cb2 := high\<rparr>"

definition via_queueKeyboardTransition :: "u8 \<Rightarrow> bool \<Rightarrow> via \<Rightarrow> via" where
  "via_queueKeyboardTransition keyCode pressed s =
    (let keyCode = keyCode AND 0x3f;
         s = s\<lparr>via_keyboardTransitions := via_keyboardTransitions s @
               [push_bit 1 keyCode OR (if pressed then 0x00 else 0x80)]\<rparr>
     in if via_keyboardCommandPending s \<and> via_keyboardCommand s = 0x10 \<and> \<not> via_keyboardResponseReady s \<and>
           via_regs s auxiliaryControl AND 0x10 = 0
        then s\<lparr>via_shiftCycles := keyboardByteCycles\<rparr>
        else s)"

subsection \<open>The loops of the timers\<close>

lemma reload_rounds_value:
  assumes "0 < period" and "c \<le> 0"
  shows "reload_rounds period c n = ((c - 1) mod period + 1, n + nat ((- c) div period + 1))"
  using assms
proof (induction period c n rule: reload_rounds.induct)
  case (1 period c n)
  show ?case
  proof (cases "c + period \<le> 0")
    case True
    then have "(- (c + period)) div period + 1 = (- c) div period"
      using 1(2) div_add_self2 [of period "- c - period"] by simp
    moreover have "0 \<le> (- (c + period)) div period"
      using True 1(2) by (simp add: pos_imp_zdiv_nonneg_iff)
    moreover have "(c + period - 1) mod period = (c - 1) mod period"
      using mod_add_self2 [of "c - 1" period] by (simp add: algebra_simps)
    ultimately show ?thesis
      using 1 True by (simp add: reload_rounds.simps [of period c] nat_add_distrib)
  next
    case False
    then have "(- c) div period = 0"
      using 1(2,3) by (intro div_pos_pos_trivial) simp_all
    moreover have "(c - 1) mod period = c - 1 + period"
    proof -
      have "(c - 1 + period) mod period = c - 1 + period"
        using False 1(2,3) by (intro mod_pos_pos_trivial) simp_all
      then show ?thesis
        by simp
    qed
    ultimately show ?thesis
      using False 1(2,3) by (simp add: reload_rounds.simps [of period c] reload_rounds.simps [of period "c + period"])
  qed
qed

lemma reload_rounds_bounds:
  assumes "0 < period" and "c \<le> period" and "reload_rounds period c n = (c', n')"
  shows "0 < c'" "c' \<le> period" "n \<le> n'"
proof -
  have "0 < c' \<and> c' \<le> period \<and> n \<le> n'"
  proof (cases "c \<le> 0")
    case True
    have "(c - 1) mod period < period" "0 \<le> (c - 1) mod period"
      using assms(1) by simp_all
    then show ?thesis
      using assms(3) reload_rounds_value [OF assms(1) True] by simp
  next
    case False
    then show ?thesis
      using assms(2,3) by (simp add: reload_rounds.simps [of period c])
  qed
  then show "0 < c'" "c' \<le> period" "n \<le> n'"
    by simp_all
qed

subsection \<open>The well-formed chip\<close>

definition via_ok :: "via \<Rightarrow> bool" where
  "via_ok s \<longleftrightarrow>
    (0 \<le> via_timer1Latch s \<and> via_timer1Latch s < 0x10000) \<and>
    (0 \<le> via_timer1Counter s \<and> via_timer1Counter s \<le> 0x10000 \<and> (via_timer1Running s \<longrightarrow> 0 < via_timer1Counter s)) \<and>
    (0 \<le> via_timer2Counter s \<and> via_timer2Counter s < 0x10000) \<and>
    (0 \<le> via_timer1FreeCounter s \<and> via_timer1FreeCounter s < 0x10000) \<and>
    (0 \<le> via_timer2FreeCounter s \<and> via_timer2FreeCounter s < 0x10000) \<and>
    (0 \<le> via_vblCycles s \<and> via_vblCycles s \<le> via_automaticCa1Period s) \<and>
    (0 \<le> via_shiftCycles s \<and> via_shiftCycles s \<le> keyboardInquiryTimeoutCycles) \<and>
    \<not> bit (via_regs s interruptFlag) 7 \<and> \<not> bit (via_interruptEnable s) 7 \<and>
    (via_keyboardResponseReady s \<longrightarrow> via_keyboardCommandPending s)"

named_theorems via_keeps

lemma ok_set_reg [via_keeps]: "via_ok s \<Longrightarrow> i \<noteq> interruptFlag \<Longrightarrow> via_ok (set_via_reg i v s)"
  by (simp add: via_ok_def set_via_reg_def)

lemma ok_clear_flag [via_keeps]: "via_ok s \<Longrightarrow> via_ok (clear_flag b s)"
  by (simp add: via_ok_def set_via_reg_def clear_flag_def bit_simps)

lemma ok_raise_flag [via_keeps]: "via_ok s \<Longrightarrow> \<not> bit b 7 \<Longrightarrow> via_ok (raise_flag b s)"
  by (simp add: via_ok_def set_via_reg_def raise_flag_def bit_simps)

lemma flag_bits [simp]:
  "\<not> bit vblInterruptBit 7" "\<not> bit cb1InterruptBit 7" "\<not> bit cb2InterruptBit 7" "\<not> bit timer1InterruptBit 7"
  "\<not> bit timer2InterruptBit 7" "\<not> bit shiftRegisterInterruptBit 7"
  by (simp_all add: bit_simps)

lemma ok_words: "(x AND 0xff00) OR uint v < 0x10000 \<and> 0 \<le> (x AND 0xff00) OR uint v"
    "push_bit 8 (uint v) OR (x AND 0x00ff) < 0x10000 \<and> 0 \<le> push_bit 8 (uint v) OR (x AND 0x00ff)"
    "push_bit 8 (uint v) OR uint w < 0x10000 \<and> 0 \<le> push_bit 8 (uint v) OR uint w"
  if "0 \<le> x" for v w :: u8
proof -
  have v: "0 \<le> uint v" "uint v < 2 ^ 16" "0 \<le> uint w" "uint w < 2 ^ 16" "uint v < 2 ^ 8"
    using uint_bounded [of v] uint_bounded [of w] by simp_all
  have p: "0 \<le> push_bit 8 (uint v)" "push_bit 8 (uint v) < 2 ^ 16"
    using v by (simp_all add: push_bit_eq_mult)
  have x: "0 \<le> x AND 0xff00" "x AND 0xff00 < 2 ^ 16" "0 \<le> x AND 0x00ff" "x AND 0x00ff < 2 ^ 16"
    using AND_upper2 [of "0xff00" x] AND_upper2 [of "0x00ff" x] that by simp_all
  show "(x AND 0xff00) OR uint v < 0x10000 \<and> 0 \<le> (x AND 0xff00) OR uint v"
    "push_bit 8 (uint v) OR (x AND 0x00ff) < 0x10000 \<and> 0 \<le> push_bit 8 (uint v) OR (x AND 0x00ff)"
    "push_bit 8 (uint v) OR uint w < 0x10000 \<and> 0 \<le> push_bit 8 (uint v) OR uint w"
    using OR_upper [OF x(1,2) v(2)] OR_upper [OF p x(4)] OR_upper [OF p v(4)] x p v by simp_all
qed

lemma ok_latch [via_keeps]:
  "via_ok s \<Longrightarrow> via_ok (latch_low v s)" "via_ok s \<Longrightarrow> via_ok (latch_high v s)"
  using ok_words [of "via_timer1Latch s" v] by (simp_all add: via_ok_def latch_low_def latch_high_def)

lemma timer1_reload_bounds: "via_ok s \<Longrightarrow> 0 < timer1_reload s \<and> timer1_reload s \<le> 0x10000"
  by (auto simp: via_ok_def timer1_reload_def)

text \<open>What can happen to the chip.\<close>

datatype via_event =
  ViaReset | ViaRead u8 | ViaWrite u8 u8 | ViaTick int | ViaShiftIn u8 | ViaShiftOutComplete
| ViaCa1 bool | ViaCb1 bool | ViaCb2 bool | ViaPortAInput u8 bool | ViaPortBInput u8 bool
| ViaKey u8 bool | ViaPeriod int | ViaPowerOn u8 u8 u8 u8

fun via_perform :: "'h via_callbacks \<Rightarrow> via_event \<Rightarrow> via \<times> 'h \<Rightarrow> via \<times> 'h" where
  "via_perform cb ViaReset p = via_reset cb p"
| "via_perform cb (ViaRead i) p = snd (via_readRegister cb i p)"
| "via_perform cb (ViaWrite i v) p = via_writeRegister cb i v p"
| "via_perform cb (ViaTick n) p = via_tick cb n p"
| "via_perform cb (ViaShiftIn v) p = apfst (via_externalShiftIn v) p"
| "via_perform cb ViaShiftOutComplete p = apfst via_externalShiftOutComplete p"
| "via_perform cb (ViaCa1 h) p = apfst (via_setCa1 h) p"
| "via_perform cb (ViaCb1 h) p = apfst (via_setCb1 h) p"
| "via_perform cb (ViaCb2 h) p = apfst (via_setCb2 h) p"
| "via_perform cb (ViaPortAInput b h) p = apfst (via_setPortAInputBit b h) p"
| "via_perform cb (ViaPortBInput b h) p = apfst (via_setPortBInputBit b h) p"
| "via_perform cb (ViaKey k d) p = apfst (via_queueKeyboardTransition k d) p"
| "via_perform cb (ViaPeriod n) p = apfst (via_setAutomaticCa1Period n) p"
| "via_perform cb (ViaPowerOn a b c d) p = apfst (via_setPowerOnState a b c d) p"

lemma ok_lines [via_keeps]:
  assumes "via_ok s"
  shows "via_ok (via_externalShiftIn v s)" "via_ok (via_externalShiftOutComplete s)"
    "via_ok (via_setCa1 h s)" "via_ok (via_setCb1 h s)" "via_ok (via_setCb2 h s)"
    "via_ok (via_setPortAInputBit b h s)" "via_ok (via_setPortBInputBit b h s)"
    "via_ok (via_queueKeyboardTransition k d s)" "via_ok (via_setAutomaticCa1Period n s)"
    "via_ok (via_setPowerOnState x y z w s)"
proof -
  have raised: "via_ok (raise_flag c s)" if "\<not> bit c 7" for c
    using assms that by (rule ok_raise_flag)
  show "via_ok (via_externalShiftIn v s)" "via_ok (via_externalShiftOutComplete s)"
    using assms by (simp_all add: via_externalShiftIn_def via_externalShiftOutComplete_def ok_raise_flag ok_set_reg
        del: via_bits)
  have lines: "via_ok (t\<lparr>via_ca1 := h\<rparr>)" "via_ok (t\<lparr>via_cb1 := h\<rparr>)" "via_ok (t\<lparr>via_cb2 := h\<rparr>)"
    if "via_ok t" for t
    using that by (simp_all add: via_ok_def)
  show "via_ok (via_setCa1 h s)" "via_ok (via_setCb1 h s)" "via_ok (via_setCb2 h s)"
    using assms by (simp_all add: via_setCa1_def via_setCb1_def via_setCb2_def lines raised del: via_bits)
  show "via_ok (via_setPortAInputBit b h s)" "via_ok (via_setPortBInputBit b h s)"
    "via_ok (via_queueKeyboardTransition k d s)" "via_ok (via_setAutomaticCa1Period n s)"
    "via_ok (via_setPowerOnState x y z w s)"
    using assms by (auto simp: via_ok_def via_setPortAInputBit_def via_setPortBInputBit_def
        via_queueKeyboardTransition_def via_setAutomaticCa1Period_def via_setPowerOnState_def Let_def)
qed

subsection \<open>The chip in a machine\<close>

text \<open>What the chip asks of the machine it is built into: its callbacks leave the chip well-formed.\<close>

locale via_machine =
  fixes cb :: "'h via_callbacks"
  assumes portA_ok: "portAChanged cb = Some f \<Longrightarrow> via_ok (fst p) \<Longrightarrow> via_ok (fst (f v p))"
    and portB_ok: "portBChanged cb = Some g \<Longrightarrow> via_ok (fst p) \<Longrightarrow> via_ok (fst (g v d p))"
    and write_ok: "shiftRegisterWrite cb = Some f \<Longrightarrow> via_ok (fst p) \<Longrightarrow> via_ok (fst (f v p))"
    and read_ok: "shiftRegisterRead cb = Some k \<Longrightarrow> via_ok (fst p) \<Longrightarrow> via_ok (fst (k p))"
begin

lemma ok_notify [via_keeps]:
  assumes "via_ok (fst p)"
  shows "via_ok (fst (via_notifyPortAChanged cb p))" "via_ok (fst (notifyPortB_register cb p))"
    "via_ok (fst (notifyPortB_pins cb p))"
  using assms by (auto simp: via_notifyPortAChanged_def notifyPortB_register_def notifyPortB_pins_def
      intro: portA_ok portB_ok split: option.split)

lemma ok_reset: "via_ok (fst p) \<Longrightarrow> via_ok (fst (via_reset cb p))"
  unfolding via_reset_def by (intro ok_notify) (simp add: via_ok_def via_cleared_def)

lemma ok_read: "via_ok (fst p) \<Longrightarrow> via_ok (fst (snd (via_readRegister cb i p)))"
proof -
  assume ok: "via_ok (fst p)"
  have shift: "via_ok (via_readShift s)" if "via_ok s" for s
    using that by (simp add: via_ok_def via_readShift_def)
  then show ?thesis
    using ok by (auto simp: via_readRegister_def Let_def via_keeps intro: read_ok split: option.split)
qed

lemma ok_start_timer1: "via_ok (fst p) \<Longrightarrow> via_ok (fst (start_timer1 cb v p))"
proof -
  assume ok: "via_ok (fst p)"
  have start: "via_ok (let s = latch_high v (set_via_reg timer1CounterHigh v s)
      in s\<lparr>via_timer1Counter := timer1_reload s, via_timer1Running := True\<rparr>)" if "via_ok s" for s
  proof -
    have "via_ok (latch_high v (set_via_reg timer1CounterHigh v s))"
      using that by (simp add: via_keeps)
    then show ?thesis
      using timer1_reload_bounds [of "latch_high v (set_via_reg timer1CounterHigh v s)"] by (simp add: via_ok_def Let_def)
  qed
  have pb7: "via_ok s \<Longrightarrow> via_ok (s\<lparr>via_timer1Pb7 := b\<rparr>)" for s b
    by (simp add: via_ok_def)
  show ?thesis
    unfolding start_timer1_def Let_def [of "apfst _ _"] using start [OF ok]
    by (simp add: ok_clear_flag ok_notify pb7 Let_def)
qed

lemma ok_write_shift: "via_ok (fst p) \<Longrightarrow> via_ok (fst (write_shift cb v p))"
proof -
  assume ok: "via_ok (fst p)"
  define s where "s = clear_flag shiftRegisterInterruptBit (set_via_reg shiftRegister v (fst p))"
  have "via_ok s"
    using ok by (simp add: s_def via_keeps)
  moreover have "via_ok (s\<lparr>via_keyboardCommand := v, via_keyboardCommandPending := True,
      via_keyboardResponseReady := False, via_shiftCycles := keyboardByteCycles\<rparr>)"
    using \<open>via_ok s\<close> by (simp add: via_ok_def)
  ultimately show ?thesis
    unfolding write_shift_def s_def [symmetric] Let_def
    by (auto simp del: via_bits intro: write_ok split: option.split)
qed

lemma ok_write: "via_ok (fst p) \<Longrightarrow> via_ok (fst (via_writeRegister cb i v p))"
proof -
  assume ok: "via_ok (fst p)"
  have enable: "via_ok (s\<lparr>via_interruptEnable := if v AND 0x80 \<noteq> 0 then via_interruptEnable s OR (v AND 0x7f)
      else via_interruptEnable s AND NOT v\<rparr>)" if "via_ok s" for s
    using that by (auto simp: via_ok_def bit_simps)
  have timer2: "via_ok (s\<lparr>via_timer2Counter := push_bit 8 (uint x) OR uint y, via_timer2Running := True\<rparr>)"
    if "via_ok s" for s and x y :: u8
    using that ok_words(3) [of 0] by (simp add: via_ok_def)
  show ?thesis
    using ok unfolding via_writeRegister_def
    by (auto simp: Let_def ok_notify ok_start_timer1 ok_write_shift enable timer2 ok_set_reg ok_clear_flag ok_latch
        simp del: via_bits)
qed

lemma ok_tick_vbl: "via_ok s \<Longrightarrow> via_ok (tick_vbl n s)" if "0 < n"
proof -
  assume ok: "via_ok s"
  show ?thesis
  proof (cases "0 < via_automaticCa1Period s")
    case True
    obtain c k where r: "reload_rounds (via_automaticCa1Period s) (via_vblCycles s - n) 0 = (c, k)"
      by fastforce
    have "0 < c" "c \<le> via_automaticCa1Period s"
      using reload_rounds_bounds [OF True _ r] ok that by (simp_all add: via_ok_def)
    then have "via_ok (s\<lparr>via_vblCycles := c\<rparr>)"
      using ok by (simp add: via_ok_def)
    then show ?thesis
      using True r by (simp add: tick_vbl_def ok_raise_flag Let_def del: via_bits)
  qed (use ok in \<open>simp add: tick_vbl_def\<close>)
qed

lemma ok_expire_timer1:
  assumes ok: "via_ok (s\<lparr>via_timer1Counter := 0\<rparr>\<lparr>via_timer1Running := False\<rparr>)" and c: "via_timer1Counter s \<le> 0"
  shows "via_ok (fst (expire_timer1 cb (s, h)))"
proof -
  define r where "r = raise_flag timer1InterruptBit s"
  have regs: "via_timer1Counter r = via_timer1Counter s" "timer1_reload r = timer1_reload s"
    by (simp_all add: r_def raise_flag_def set_via_reg_def timer1_reload_def)
  have stop: "via_ok (r\<lparr>via_timer1Counter := 0, via_timer1Running := False\<rparr>)"
    using ok by (simp add: r_def via_ok_def raise_flag_def set_via_reg_def bit_simps)
  obtain c k where rr: "reload_rounds (timer1_reload r) (via_timer1Counter r) 0 = (c, k)"
    by fastforce
  have period: "0 < timer1_reload r" "timer1_reload r \<le> 0x10000"
    using stop by (auto simp: timer1_reload_def via_ok_def)
  then have "0 < c" "c \<le> 0x10000"
    using reload_rounds_bounds [OF period(1) _ rr] c by (simp_all add: regs)
  then have loop: "via_ok (r\<lparr>via_timer1Counter := c\<rparr>)"
    using stop by (simp add: via_ok_def)
  have pb7: "via_ok t \<Longrightarrow> via_ok (t\<lparr>via_timer1Pb7 := b\<rparr>)" for t b
    by (simp add: via_ok_def)
  show ?thesis
    using stop loop pb7 [OF loop] pb7 [OF stop] rr
    by (simp add: expire_timer1_def r_def [symmetric] Let_def ok_notify del: via_bits)
qed

lemma ok_tick_timer1:
  assumes "via_ok (fst p)" and "0 < n"
  shows "via_ok (fst (tick_timer1 cb n p))"
proof -
  obtain s h where p: "p = (s, h)"
    by fastforce
  have ok: "via_ok s"
    using assms(1) by (simp add: p)
  have mask: "0 \<le> c AND 0xffff \<and> c AND 0xffff < 0x10000" for c :: int
    using AND_upper2 [of "0xffff" c] by simp
  have shown: "via_ok t \<Longrightarrow> via_ok (show_timer1 t)" for t
    by (simp add: show_timer1_def ok_set_reg Let_def)
  have expired: "via_ok (fst (expire_timer1 cb (s\<lparr>via_timer1Counter := via_timer1Counter s - n\<rparr>, h)))"
      if "via_timer1Counter s - n \<le> 0"
    using that ok by (intro ok_expire_timer1) (simp_all add: via_ok_def)
  have going: "via_ok (s\<lparr>via_timer1Counter := via_timer1Counter s - n\<rparr>)" if "\<not> via_timer1Counter s - n \<le> 0"
    using that ok assms(2) by (simp add: via_ok_def)
  have free: "via_ok (s\<lparr>via_timer1FreeCounter := c AND 0xffff\<rparr>)" for c
    using ok mask by (simp add: via_ok_def)
  show ?thesis
    using expired going free by (simp add: p tick_timer1_def shown Let_def)
qed

lemma ok_tick_timer2: "via_ok s \<Longrightarrow> 0 < n \<Longrightarrow> via_ok (tick_timer2 n s)"
proof -
  assume ok: "via_ok s" and n: "0 < n"
  have "0 \<le> c AND 0xffff \<and> c AND 0xffff < 0x10000" for c :: int
    using AND_upper2 [of "0xffff" c] by simp
  then have free: "via_ok (s\<lparr>via_timer2FreeCounter := c AND 0xffff\<rparr>)" for c
    using ok by (simp add: via_ok_def)
  have "via_ok (s\<lparr>via_timer2Counter := 0, via_timer2Running := False\<rparr>)"
    using ok by (simp add: via_ok_def)
  moreover have "0 < via_timer2Counter s - n \<Longrightarrow> via_ok (s\<lparr>via_timer2Counter := via_timer2Counter s - n\<rparr>)"
    using ok n by (simp add: via_ok_def)
  ultimately show ?thesis
    using ok free by (simp add: tick_timer2_def Let_def ok_set_reg ok_raise_flag del: via_bits)
qed

lemma ok_tick_shift: "via_ok s \<Longrightarrow> 0 < n \<Longrightarrow> via_ok (tick_shift n s)"
proof -
  assume ok: "via_ok s" and n: "0 < n"
  have "via_ok (s\<lparr>via_shiftCycles := 0\<rparr>)"
      "\<not> via_shiftCycles s - n \<le> 0 \<Longrightarrow> via_ok (s\<lparr>via_shiftCycles := via_shiftCycles s - n\<rparr>)"
    using ok n by (simp_all add: via_ok_def)
  moreover have "via_ok (keyboard_response t)" if "via_ok t" "via_keyboardCommandPending t" for t
    using that by (auto simp: keyboard_response_def via_ok_def set_via_reg_def Let_def split: list.split)
  ultimately show ?thesis
    using ok by (simp add: tick_shift_def Let_def ok_raise_flag del: via_bits)
qed

lemma ok_tick: "via_ok (fst p) \<Longrightarrow> via_ok (fst (via_tick cb n p))"
  by (simp add: via_tick_def ok_tick_vbl ok_tick_timer1 ok_tick_timer2 ok_tick_shift)

lemma ok_event: "via_ok (fst p) \<Longrightarrow> via_ok (fst (via_perform cb e p))"
  by (cases e) (simp_all add: ok_reset ok_read ok_write ok_tick ok_lines)

lemma ok_events: "via_ok (fst p) \<Longrightarrow> via_ok (fst (fold (via_perform cb) es p))"
  by (induction es arbitrary: p) (simp_all add: ok_event)

end

subsection \<open>Timer 1\<close>

lemma other_registers [simp]:
  "via_regs (raise_flag b s) i = (if i = 13 then via_regs s 13 OR b else via_regs s i)"
  "via_regs (clear_flag b s) i = (if i = 13 then via_regs s 13 AND NOT b else via_regs s i)"
  "via_regs (set_via_reg j v s) i = (if i = j then v else via_regs s i)"
  by (simp_all add: raise_flag_def clear_flag_def set_via_reg_def)

text \<open>What the flags and registers do not touch.\<close>

lemma flag_keeps [simp]:
  "via_timer1Counter (raise_flag b s) = via_timer1Counter s" "via_timer1Running (raise_flag b s) = via_timer1Running s"
  "via_timer1Latch (raise_flag b s) = via_timer1Latch s" "via_timer1Pb7 (raise_flag b s) = via_timer1Pb7 s"
  "via_timer1Counter (set_via_reg j v s) = via_timer1Counter s" "via_timer1Running (set_via_reg j v s) = via_timer1Running s"
  "via_timer1Latch (set_via_reg j v s) = via_timer1Latch s" "via_timer1Pb7 (set_via_reg j v s) = via_timer1Pb7 s"
  "via_keyboardTransitions (raise_flag b s) = via_keyboardTransitions s"
  "via_keyboardCommand (raise_flag b s) = via_keyboardCommand s"
  "via_keyboardCommandPending (raise_flag b s) = via_keyboardCommandPending s"
  "via_keyboardResponseReady (raise_flag b s) = via_keyboardResponseReady s"
  "via_shiftCycles (raise_flag b s) = via_shiftCycles s"
  "via_keyboardTransitions (set_via_reg j v s) = via_keyboardTransitions s"
  "via_keyboardCommand (set_via_reg j v s) = via_keyboardCommand s"
  "via_keyboardCommandPending (set_via_reg j v s) = via_keyboardCommandPending s"
  "via_keyboardResponseReady (set_via_reg j v s) = via_keyboardResponseReady s"
  "via_shiftCycles (set_via_reg j v s) = via_shiftCycles s"
  "via_keyboardTransitions (clear_flag b s) = via_keyboardTransitions s"
  "via_keyboardCommand (clear_flag b s) = via_keyboardCommand s"
  "via_keyboardCommandPending (clear_flag b s) = via_keyboardCommandPending s"
  "via_keyboardResponseReady (clear_flag b s) = via_keyboardResponseReady s"
  "via_shiftCycles (clear_flag b s) = via_shiftCycles s"
  by (simp_all add: raise_flag_def clear_flag_def set_via_reg_def)

definition same_timer1 :: "via \<Rightarrow> via \<Rightarrow> bool" where
  "same_timer1 s t \<longleftrightarrow> via_timer1Counter t = via_timer1Counter s \<and> via_timer1Running t = via_timer1Running s \<and>
     via_timer1Latch t = via_timer1Latch s \<and> via_timer1Pb7 t = via_timer1Pb7 s \<and>
     via_regs t 11 = via_regs s 11 \<and> via_regs t 4 = via_regs s 4 \<and> via_regs t 5 = via_regs s 5 \<and>
     (bit (via_regs t 13) 6 \<longleftrightarrow> bit (via_regs s 13) 6)"

lemma tick_parts_timer1:
  "same_timer1 s (tick_vbl n s)" "same_timer1 s (tick_timer2 n s)" "same_timer1 s (tick_shift n s)"
  by (auto simp: same_timer1_def tick_vbl_def tick_timer2_def tick_shift_def keyboard_response_def Let_def bit_simps
      split: prod.split list.split)

text \<open>
  The counter that stood at \<open>c\<close>, after \<open>n\<close> cycles with a period of \<open>R\<close>, and how often it ran out in them.  Both
  add up over portions of time.
\<close>

definition timer_count :: "int \<Rightarrow> int \<Rightarrow> int \<Rightarrow> int" where
  "timer_count R c n = (if n < c then c - n else (c - n - 1) mod R + 1)"

definition expirations :: "int \<Rightarrow> int \<Rightarrow> int \<Rightarrow> int" where
  "expirations R c n = (if n < c then 0 else (n - c) div R + 1)"

lemma timer_portions:
  assumes "0 < R" and "0 < n"
  shows "timer_count R (timer_count R c k) n = timer_count R c (k + n)"
    and "expirations R c k + expirations R (timer_count R c k) n = expirations R c (k + n)"
    and "timer_count R c k \<le> n \<or> c \<le> k \<longleftrightarrow> c \<le> k + n"
proof -
  have "timer_count R (timer_count R c k) n = timer_count R c (k + n) \<and>
    expirations R c k + expirations R (timer_count R c k) n = expirations R c (k + n) \<and>
    (timer_count R c k \<le> n \<or> c \<le> k \<longleftrightarrow> c \<le> k + n)"
  proof (cases "k < c")
    case True
    then show ?thesis by (auto simp: timer_count_def expirations_def algebra_simps)
  next
    case False
    define d where "d = (c - k - 1) mod R"
    define r where "r = (k - c) mod R"
    define q where "q = (k - c) div R"
    have d: "d = R - 1 - r"
    proof -
      have "c - k - 1 = (R - 1 - r) + R * (- 1 - q)"
        using mult_div_mod_eq [of R "k - c"] by (simp add: r_def q_def algebra_simps)
      then have "(c - k - 1) mod R = (R - 1 - r) mod R" by (simp only: mod_mult_self2)
      also have "\<dots> = R - 1 - r"
        using pos_mod_sign [OF assms(1), of "k - c"] pos_mod_bound [OF assms(1), of "k - c"]
        by (intro mod_pos_pos_trivial; unfold r_def; linarith)
      finally show ?thesis by (simp add: d_def)
    qed
    have kc: "k - c = q * R + r" "0 \<le> r" "r < R" using assms(1) by (simp_all add: q_def r_def)
    have count: "timer_count R c k = d + 1" "timer_count R c (k + n) = (c - k - n - 1) mod R + 1"
      "expirations R c k = q + 1" "expirations R c (k + n) = (k - c + n) div R + 1"
      using False assms(2) by (simp_all add: timer_count_def expirations_def d_def q_def algebra_simps)
    have wrap: "(c - k - n - 1) mod R = (d - n) mod R"
      unfolding d_def mod_diff_left_eq by (simp add: algebra_simps)
    have total: "(k - c + n) div R = q + (r + n) div R"
      using assms(1) by (simp add: kc(1) add.assoc)
    show ?thesis
    proof (cases "n < d + 1")
      case True
      then have "(d - n) mod R = d - n" "(r + n) div R = 0"
        using assms d kc by (simp_all add: div_pos_pos_trivial)
      then show ?thesis
        using True False assms(2) unfolding count wrap total by (simp add: timer_count_def expirations_def)
    next
      case n: False
      have "n - (d + 1) = r + n - R" using d by simp
      moreover have "(r + n) div R = (r + n - R) div R + 1"
        using assms(1) div_add_self2 [of R "r + n - R"] by simp
      ultimately have "(r + n) div R = (n - (d + 1)) div R + 1" by (simp only:)
      then show ?thesis
        using n False assms(2) unfolding count wrap total
        by (simp add: timer_count_def expirations_def)
    qed
  qed
  then show "timer_count R (timer_count R c k) n = timer_count R c (k + n)"
    and "expirations R c k + expirations R (timer_count R c k) n = expirations R c (k + n)"
    and "timer_count R c k \<le> n \<or> c \<le> k \<longleftrightarrow> c \<le> k + n"
    by blast+
qed

text \<open>
  What the two properties of the chip in a machine need: whoever watches port B changes no more of the chip than
  the input pins of that port.
\<close>

locale via_pins =
  fixes cb :: "'h via_callbacks"
  assumes pins: "portBChanged cb = Some g \<Longrightarrow> \<exists>b. fst (g v d p) = (fst p)\<lparr>via_portBInputs := b\<rparr>"
begin

lemma pins_notify: "\<exists>b. fst (notifyPortB_pins cb p) = (fst p)\<lparr>via_portBInputs := b\<rparr>"
  using pins by (auto simp: notifyPortB_pins_def split: option.split intro: exI [of _ "via_portBInputs (fst p)"])

lemma pins_keep [simp]:
  "via_timer1Running (fst (notifyPortB_pins cb p)) = via_timer1Running (fst p)"
  "via_timer1Counter (fst (notifyPortB_pins cb p)) = via_timer1Counter (fst p)"
  "via_timer1Latch (fst (notifyPortB_pins cb p)) = via_timer1Latch (fst p)"
  "via_timer1Pb7 (fst (notifyPortB_pins cb p)) = via_timer1Pb7 (fst p)"
  "via_regs (fst (notifyPortB_pins cb p)) = via_regs (fst p)"
  "via_keyboardTransitions (fst (notifyPortB_pins cb p)) = via_keyboardTransitions (fst p)"
  "via_keyboardCommand (fst (notifyPortB_pins cb p)) = via_keyboardCommand (fst p)"
  "via_keyboardCommandPending (fst (notifyPortB_pins cb p)) = via_keyboardCommandPending (fst p)"
  "via_keyboardResponseReady (fst (notifyPortB_pins cb p)) = via_keyboardResponseReady (fst p)"
  "via_shiftCycles (fst (notifyPortB_pins cb p)) = via_shiftCycles (fst p)"
  using pins_notify [of p] by auto

lemma pins_timer1:
  fixes n :: int
  assumes run: "via_timer1Running (fst p)" and free: "via_regs (fst p) 11 AND 0x40 \<noteq> 0"
    and R: "R = timer1_reload (fst p)" "0 < R"
  defines "c \<equiv> via_timer1Counter (fst p)" and "s' \<equiv> fst (tick_timer1 cb n p)"
  shows "via_timer1Running s' \<and> via_timer1Counter s' = timer_count R c n \<and> via_timer1Latch s' = via_timer1Latch (fst p) \<and>
    via_regs s' 11 = via_regs (fst p) 11 \<and>
    (bit (via_regs s' 13) 6 \<longleftrightarrow> bit (via_regs (fst p) 13) 6 \<or> c \<le> n) \<and>
    (via_timer1Pb7 s' \<longleftrightarrow> via_timer1Pb7 (fst p) \<noteq> (via_regs (fst p) 11 AND 0x80 \<noteq> 0 \<and> odd (expirations R c n))) \<and>
    via_regs s' 4 = ucast (word_of_int (timer_count R c n) :: u16) \<and>
    via_regs s' 5 = ucast (drop_bit 8 (word_of_int (timer_count R c n) :: u16))"
proof -
  have reload: "timer1_reload (raise_flag b t) = timer1_reload t" "timer1_reload (t\<lparr>via_timer1Counter := x\<rparr>) = timer1_reload t"
    for b x t
    by (simp_all add: timer1_reload_def)
  have pos: "0 < timer_count R c n"
    using R(2) pos_mod_sign [of R "c - n - 1"] by (simp add: timer_count_def)
  show ?thesis
  proof (cases "c \<le> n")
    case True
    have q: "0 \<le> (n - c) div R"
      using True R(2) by (simp add: pos_imp_zdiv_nonneg_iff)
    then have "odd (nat ((n - c) div R + 1)) \<longleftrightarrow> odd ((n - c) div R + 1)"
      by (simp add: even_nat_iff)
    then show ?thesis
      using True run free R q reload_rounds_value [of R "c - n" 0] pos
      by (simp add: s'_def tick_timer1_def expire_timer1_def c_def [symmetric] reload show_timer1_def Let_def bit_simps
          timer_count_def expirations_def)
  next
    case False
    then show ?thesis
      using run pos by (simp add: s'_def tick_timer1_def c_def [symmetric] show_timer1_def Let_def timer_count_def expirations_def)
  qed
qed

text \<open>One portion of time on the whole chip, while timer 1 is in its free-running mode.\<close>

lemma pins_tick_timer1:
  fixes n :: int
  assumes run: "via_timer1Running (fst p)" and free: "via_regs (fst p) 11 AND 0x40 \<noteq> 0"
    and R: "R = timer1_reload (fst p)" "0 < R" and n: "0 < n"
  defines "c \<equiv> via_timer1Counter (fst p)" and "s' \<equiv> fst (via_tick cb n p)"
  shows "via_timer1Running s' \<and> via_timer1Counter s' = timer_count R c n \<and> via_timer1Latch s' = via_timer1Latch (fst p) \<and>
    via_regs s' 11 = via_regs (fst p) 11 \<and>
    (bit (via_regs s' 13) 6 \<longleftrightarrow> bit (via_regs (fst p) 13) 6 \<or> c \<le> n) \<and>
    (via_timer1Pb7 s' \<longleftrightarrow> via_timer1Pb7 (fst p) \<noteq> (via_regs (fst p) 11 AND 0x80 \<noteq> 0 \<and> odd (expirations R c n))) \<and>
    via_regs s' 4 = ucast (word_of_int (timer_count R c n) :: u16) \<and>
    via_regs s' 5 = ucast (drop_bit 8 (word_of_int (timer_count R c n) :: u16))"
proof -
  define q where "q = apfst (tick_vbl n) p"
  have q: "same_timer1 (fst p) (fst q)"
    using tick_parts_timer1(1) by (simp add: q_def)
  define t where "t = fst (tick_timer1 cb n q)"
  have "s' = tick_shift n (tick_timer2 n t)"
    using n by (simp add: s'_def via_tick_def q_def t_def)
  then have "same_timer1 t s'"
    using tick_parts_timer1(2) [of t n] tick_parts_timer1(3) [of "tick_timer2 n t" n] by (simp add: same_timer1_def)
  moreover have "R = timer1_reload (fst q)"
    using q R(1) by (simp add: same_timer1_def timer1_reload_def)
  ultimately show ?thesis
    using q pins_timer1 [of q R n] run free R(2) unfolding t_def [symmetric]
    by (simp add: same_timer1_def c_def)
qed

end

subsection \<open>The keyboard\<close>

definition keyboard_fields :: "via \<Rightarrow> u8 list \<times> u8 \<times> bool \<times> bool \<times> int \<times> u8 \<times> u8" where
  "keyboard_fields s = (via_keyboardTransitions s, via_keyboardCommand s, via_keyboardCommandPending s,
     via_keyboardResponseReady s, via_shiftCycles s, via_regs s 11, via_regs s 10)"

lemma tick_parts_keyboard:
  "keyboard_fields (tick_vbl n s) = keyboard_fields s" "keyboard_fields (tick_timer2 n s) = keyboard_fields s"
  by (auto simp: keyboard_fields_def tick_vbl_def tick_timer2_def Let_def split: prod.split)

context via_pins
begin

lemma pins_tick_timer1_keyboard: "keyboard_fields (fst (tick_timer1 cb n p)) = keyboard_fields (fst p)"
  by (auto simp: keyboard_fields_def tick_timer1_def expire_timer1_def show_timer1_def Let_def split: prod.split)

text \<open>When the shift register's byte time passes, the answer to the command is in it.\<close>

lemma pins_tick_keyboard:
  assumes "keyboard_fields (fst p) = (ts, c, pending, ready, n, acr, sr)" and "0 < n" and "n \<le> k"
  shows "keyboard_fields (fst (via_tick cb k p)) =
    (if acr AND 0x10 = 0 \<and> pending
     then (if c = 0x16 then ts else tl ts, c, pending, True, 0, acr,
           if c = 0x16 then 0x03 else if ts = [] then 0x7b else hd ts)
     else (ts, c, pending, ready, 0, acr, sr))"
proof -
  define s where "s = tick_timer2 k (fst (tick_timer1 cb k (apfst (tick_vbl k) p)))"
  have "keyboard_fields s = (ts, c, pending, ready, n, acr, sr)"
    using assms by (simp add: s_def tick_parts_keyboard pins_tick_timer1_keyboard)
  then have "keyboard_fields (tick_shift k s) = (if acr AND 0x10 = 0 \<and> pending
     then (if c = 0x16 then ts else tl ts, c, pending, True, 0, acr,
           if c = 0x16 then 0x03 else if ts = [] then 0x7b else hd ts)
     else (ts, c, pending, ready, 0, acr, sr))"
    using assms(2,3) by (auto simp: keyboard_fields_def tick_shift_def keyboard_response_def Let_def split: list.split)
  then show ?thesis
    using assms(2,3) by (simp add: via_tick_def s_def)
qed

end

lemma write_keyboard:
  assumes "shiftRegisterWrite cb = None" and "keyboard_fields (fst p) = (ts, c, pending, ready, n, acr, sr)"
  shows "keyboard_fields (fst (via_writeRegister cb 11 v p)) = (ts, c, pending, ready, n, v, sr)"
    and "acr AND 0x1c = 0x1c \<Longrightarrow> keyboard_fields (fst (via_writeRegister cb 10 v p)) = (ts, v, True, False, 80, acr, v)"
  using assms by (auto simp: keyboard_fields_def via_writeRegister_def write_shift_def Let_def)

lemma read_keyboard:
  assumes "shiftRegisterRead cb = None" and "keyboard_fields (fst p) = (ts, c, pending, ready, n, acr, sr)"
  shows "fst (via_readRegister cb 10 p) = sr"
    and "keyboard_fields (fst (snd (via_readRegister cb 10 p))) =
      (if ready then (ts, c, False, False, n, acr, sr)
       else if pending \<and> acr AND 0x10 = 0 \<and> n = 0
       then (ts, c, pending, ready, if c = 0x10 \<and> ts = [] then 1958400 else 80, acr, sr)
       else (ts, c, pending, ready, n, acr, sr))"
  using assms by (auto simp: keyboard_fields_def via_readRegister_def via_readShift_def Let_def)

end
