(* ===== verification/CudaController.thy ===== *)
theory CudaController
  imports Via6522
begin

section \<open>The Cuda microcontroller\<close>

text \<open>
  \<open>CudaController.cpp\<close>: packets between the host and the Cuda through the shift register and port B of a VIA.
  The VIA the controller is attached to is the member \<open>cuda_via\<close>; \<open>now\<close> is the host's clock in seconds of
  Unix time.
\<close>

unbundle bit_operations_syntax

definition tip :: u8 where "tip = 0x20"
definition byteAck :: u8 where "byteAck = 0x10"
definition treqBit :: u8 where "treqBit = 3"
definition pseudoPacket :: u8 where "pseudoPacket = 1"
definition unixToMacintoshEpoch :: int where "unixToMacintoshEpoch = 2082844800"
definition pramMcuBase :: u16 where "pramMcuBase = 0x0100"

lemmas cuda_constants = tip_def byteAck_def treqBit_def pseudoPacket_def unixToMacintoshEpoch_def pramMcuBase_def

record cuda_debug =
  dbg_transitions :: u64
  dbg_attentions :: u64
  dbg_output :: u8
  dbg_direction :: u8
  dbg_lastType :: u8
  dbg_lastCommand :: u8
  dbg_lastPacketSize :: u16
  dbg_lastAddress :: u16
  dbg_packets :: u64
  dbg_commandCounts :: "u8 \<Rightarrow> u32"
  dbg_tip :: bool
  dbg_byteAck :: bool

record cuda =
  cuda_via :: "via option"
  cuda_pram :: "u8 \<Rightarrow> u8"
  cuda_input :: "u8 list"
  cuda_output :: "u8 list"
  cuda_outputPosition :: nat
  cuda_lastTip :: bool
  cuda_lastByteAck :: bool
  cuda_synchronousAttention :: bool
  cuda_attentionFollowupPending :: bool
  cuda_idleAckCycles :: int
  cuda_responseTreqCycles :: int
  cuda_shiftCycles :: int
  cuda_shiftOutCompletion :: bool
  cuda_releaseTreqAfterShift :: bool
  cuda_pendingShiftValue :: u8
  cuda_stagedInput :: "u8 option"
  cuda_debug :: cuda_debug

definition on_via :: "(via \<Rightarrow> via) \<Rightarrow> cuda \<Rightarrow> cuda" where
  "on_via f s = s\<lparr>cuda_via := map_option f (cuda_via s)\<rparr>"

definition set_treq :: "bool \<Rightarrow> cuda \<Rightarrow> cuda" where
  "set_treq high = on_via (via_setPortBInputBit treqBit high)"

definition cuda_attach :: "via option \<Rightarrow> cuda \<Rightarrow> cuda" where
  "cuda_attach v s = s\<lparr>cuda_via := v\<rparr>"

definition no_debug :: cuda_debug where
  "no_debug = \<lparr>dbg_transitions = 0, dbg_attentions = 0, dbg_output = 0, dbg_direction = 0, dbg_lastType = 0,
     dbg_lastCommand = 0, dbg_lastPacketSize = 0, dbg_lastAddress = 0, dbg_packets = 0,
     dbg_commandCounts = (\<lambda>_. 0), dbg_tip = True, dbg_byteAck = True\<rparr>"

definition cuda_reset :: "cuda \<Rightarrow> cuda" where
  "cuda_reset s =
     set_treq True (s\<lparr>cuda_input := [], cuda_output := [], cuda_outputPosition := 0, cuda_lastTip := True,
       cuda_lastByteAck := True, cuda_synchronousAttention := False, cuda_attentionFollowupPending := False,
       cuda_idleAckCycles := 0, cuda_responseTreqCycles := 0, cuda_shiftCycles := 0,
       cuda_shiftOutCompletion := False, cuda_releaseTreqAfterShift := False, cuda_stagedInput := None,
       cuda_debug := no_debug\<rparr>)"

subsection \<open>Time\<close>

definition tick_response :: "int \<Rightarrow> cuda \<Rightarrow> cuda" where
  "tick_response cycles s =
    (if 0 < cuda_responseTreqCycles s
     then let s = s\<lparr>cuda_responseTreqCycles := cuda_responseTreqCycles s - cycles\<rparr>
          in if cuda_responseTreqCycles s \<le> 0 then set_treq False s else s
     else s)"

definition tick_idle :: "int \<Rightarrow> cuda \<Rightarrow> cuda" where
  "tick_idle cycles s =
    (if 0 < cuda_idleAckCycles s
     then let s = s\<lparr>cuda_idleAckCycles := cuda_idleAckCycles s - cycles\<rparr>
          in if cuda_idleAckCycles s \<le> 0 then on_via (via_externalShiftIn 0) s else s
     else s)"

definition cuda_shift_done :: "cuda \<Rightarrow> cuda" where
  "cuda_shift_done s =
    (if cuda_shiftOutCompletion s then on_via via_externalShiftOutComplete s
     else let s = on_via (via_externalShiftIn (cuda_pendingShiftValue s)) s
          in if cuda_releaseTreqAfterShift s then set_treq True (s\<lparr>cuda_releaseTreqAfterShift := False\<rparr>) else s)"

definition cuda_tick_shift :: "int \<Rightarrow> cuda \<Rightarrow> cuda" where
  "cuda_tick_shift cycles s =
    (if 0 < cuda_shiftCycles s
     then let s = s\<lparr>cuda_shiftCycles := cuda_shiftCycles s - cycles\<rparr>
          in if cuda_shiftCycles s \<le> 0 then cuda_shift_done s else s
     else s)"

definition cuda_tick :: "int \<Rightarrow> cuda \<Rightarrow> cuda" where
  "cuda_tick cycles s =
    (if cuda_via s = None then s else cuda_tick_shift cycles (tick_idle cycles (tick_response cycles s)))"

subsection \<open>Packets\<close>

definition cuda_shiftByteFromHost :: "u8 \<Rightarrow> cuda \<Rightarrow> cuda" where
  "cuda_shiftByteFromHost v s = s\<lparr>cuda_stagedInput := Some v\<rparr>"

definition cuda_shiftByteToHostConsumed :: "cuda \<Rightarrow> cuda" where
  "cuda_shiftByteToHostConsumed s =
    (if \<not> cuda_attentionFollowupPending s \<or> cuda_via s = None then s
     else s\<lparr>cuda_attentionFollowupPending := False\<rparr>)"

definition cuda_macintoshTime :: "int \<Rightarrow> u32" where
  "cuda_macintoshTime now = word_of_int (now + unixToMacintoshEpoch)"

definition put_output :: "u8 list \<Rightarrow> cuda \<Rightarrow> cuda" where
  "put_output bytes s = s\<lparr>cuda_output := bytes, cuda_outputPosition := 0\<rparr>"

definition cuda_makeResponse :: "u8 \<Rightarrow> u8 \<Rightarrow> cuda \<Rightarrow> cuda" where
  "cuda_makeResponse type command = put_output [type, 0, command]"

definition packet_address :: "u8 list \<Rightarrow> u16" where
  "packet_address input = push_bit 8 (ucast (input ! 2)) OR ucast (input ! 3)"

text \<open>The parameter RAM from an address on, once around.\<close>

definition pram_from :: "u8 \<Rightarrow> cuda \<Rightarrow> u8 list" where
  "pram_from start s = map (\<lambda>i. cuda_pram s (start + of_nat i)) [0..<256]"

fun pram_write :: "u16 \<Rightarrow> u8 list \<Rightarrow> (u8 \<Rightarrow> u8) \<Rightarrow> u8 \<Rightarrow> u8" where
  "pram_write address [] ram = ram"
| "pram_write address (v # vs) ram =
    (if address < 256 then pram_write (address + 1) vs (ram(ucast address := v)) else ram)"

fun mcu_write :: "u16 \<Rightarrow> u8 list \<Rightarrow> (u8 \<Rightarrow> u8) \<Rightarrow> u8 \<Rightarrow> u8" where
  "mcu_write address [] ram = ram"
| "mcu_write address (v # vs) ram =
    mcu_write (address + 1) vs
      (if pramMcuBase \<le> address \<and> address < pramMcuBase + 256 then ram(ucast (address - pramMcuBase) := v) else ram)"

definition append_output :: "u8 list \<Rightarrow> cuda \<Rightarrow> cuda" where
  "append_output bytes s = s\<lparr>cuda_output := cuda_output s @ bytes\<rparr>"

definition pseudo_command :: "int \<Rightarrow> u8 \<Rightarrow> u8 list \<Rightarrow> cuda \<Rightarrow> cuda" where
  "pseudo_command now command input s =
    (let address = packet_address input; addressed = (4 \<le> length input)
     in if command = 0x02 then
          (if \<not> addressed then s
           else if pramMcuBase \<le> address \<and> address < pramMcuBase + 256
           then append_output (pram_from (ucast (address - pramMcuBase)) s) s
           else if 0x0f00 \<le> address then append_output [0, 0, 0x19, 0, 2, 0, 0x29] s
           else s)
        else if command = 0x03 then
          (let v = cuda_macintoshTime now
           in append_output [ucast (drop_bit 24 v), ucast (drop_bit 16 v), ucast (drop_bit 8 v), ucast v] s)
        else if command = 0x07 then
          (if addressed \<and> address < 256 then append_output (pram_from (ucast address) s) s else s)
        else if command = 0x08 then
          (if addressed then s\<lparr>cuda_pram := mcu_write address (drop 4 input) (cuda_pram s)\<rparr> else s)
        else if command = 0x0c then
          (if addressed then s\<lparr>cuda_pram := pram_write address (drop 4 input) (cuda_pram s)\<rparr> else s)
        else s)"

definition note_packet :: "u8 list \<Rightarrow> cuda_debug \<Rightarrow> cuda_debug" where
  "note_packet input d =
    (let type = input ! 0; command = input ! 1;
         d = d\<lparr>dbg_packets := dbg_packets d + 1,
               dbg_commandCounts := (dbg_commandCounts d)(command := dbg_commandCounts d command + 1),
               dbg_lastType := type, dbg_lastCommand := command, dbg_lastPacketSize := of_nat (length input)\<rparr>
     in if 4 \<le> length input then d\<lparr>dbg_lastAddress := packet_address input\<rparr> else d)"

definition cuda_finishPacket :: "int \<Rightarrow> cuda \<Rightarrow> cuda" where
  "cuda_finishPacket now s =
    (let input = cuda_input s
     in if length input < 2 then put_output [2, 3, 0, 0] s
        else
          let type = input ! 0; command = input ! 1;
              s = s\<lparr>cuda_debug := note_packet input (cuda_debug s)\<rparr>
          in if type = 0 then cuda_makeResponse 0 command s
             else if type \<noteq> pseudoPacket then put_output [2, 1, type, command] s
             else pseudo_command now command input (cuda_makeResponse pseudoPacket command s))"

definition cuda_sendNextByte :: "cuda \<Rightarrow> cuda" where
  "cuda_sendNextByte s =
    (let more = (cuda_outputPosition s < length (cuda_output s));
         v = (if more then cuda_output s ! cuda_outputPosition s else 0);
         s = (if more then s\<lparr>cuda_outputPosition := cuda_outputPosition s + 1\<rparr> else s)
     in s\<lparr>cuda_pendingShiftValue := v, cuda_shiftOutCompletion := False, cuda_shiftCycles := 7040,
          cuda_releaseTreqAfterShift := (length (cuda_output s) \<le> cuda_outputPosition s)\<rparr>)"

subsection \<open>Handshake on port B\<close>

text \<open>The three cases: attention, the end of a transaction, a byte.\<close>

definition cuda_attention :: "cuda \<Rightarrow> cuda" where
  "cuda_attention s =
    (let s = s\<lparr>cuda_debug := (cuda_debug s)\<lparr>dbg_attentions := dbg_attentions (cuda_debug s) + 1\<rparr>,
               cuda_input := [], cuda_output := [], cuda_outputPosition := 0, cuda_stagedInput := None,
               cuda_synchronousAttention := True\<rparr>
     in if cuda_via s = None then s else (set_treq False s)\<lparr>cuda_idleAckCycles := 4880\<rparr>)"

definition cuda_end_transaction :: "int \<Rightarrow> cuda \<Rightarrow> cuda" where
  "cuda_end_transaction now s =
    (let completedRequest = (cuda_input s \<noteq> []);
         s = (if cuda_via s = None then s else (set_treq True s)\<lparr>cuda_idleAckCycles := 4880\<rparr>);
         s = s\<lparr>cuda_synchronousAttention := False\<rparr>;
         s = (if completedRequest then cuda_finishPacket now s else s);
         s = s\<lparr>cuda_input := []\<rparr>
     in if completedRequest \<and> cuda_output s \<noteq> [] \<and> cuda_via s \<noteq> None then s\<lparr>cuda_responseTreqCycles := 1040\<rparr>
        else if \<not> completedRequest then s\<lparr>cuda_output := [], cuda_outputPosition := 0\<rparr>
        else s)"

definition cuda_byte :: "cuda \<Rightarrow> cuda" where
  "cuda_byte s =
    (case cuda_via s of
       None \<Rightarrow> s
     | Some v \<Rightarrow>
         if via_regs v auxiliaryControl AND 0x10 \<noteq> 0
         then let s = (case cuda_stagedInput s of None \<Rightarrow> s
                       | Some b \<Rightarrow> s\<lparr>cuda_input := cuda_input s @ [b], cuda_stagedInput := None\<rparr>)
              in s\<lparr>cuda_shiftOutCompletion := True, cuda_shiftCycles := 5680\<rparr>
         else cuda_sendNextByte s)"

definition cuda_portBChanged :: "int \<Rightarrow> u8 \<Rightarrow> u8 \<Rightarrow> cuda \<Rightarrow> cuda" where
  "cuda_portBChanged now output direction s =
    (let pins = output AND direction;
         newTip = (pins AND tip \<noteq> 0);
         newByteAck = (pins AND byteAck \<noteq> 0);
         s = s\<lparr>cuda_debug := (cuda_debug s)\<lparr>dbg_output := output, dbg_direction := direction, dbg_tip := newTip,
                 dbg_byteAck := newByteAck\<rparr>\<rparr>
     in if newTip = cuda_lastTip s \<and> newByteAck = cuda_lastByteAck s then s
        else
          let s = s\<lparr>cuda_debug := (cuda_debug s)\<lparr>dbg_transitions := dbg_transitions (cuda_debug s) + 1\<rparr>,
                    cuda_lastTip := newTip, cuda_lastByteAck := newByteAck\<rparr>
          in if newTip \<and> \<not> newByteAck then cuda_attention s
             else if newTip \<and> newByteAck then cuda_end_transaction now s
             else cuda_byte s)"



section \<open>Packets over the wires of the Cuda\<close>

text \<open>
  The host's part: a packet is sent byte by byte through the shift register with the byte acknowledge line
  toggled for each, then both lines go up; the answer is read the same way with the shift register turned
  around, each byte after the time the Cuda takes to clock it.
\<close>

unbundle bit_operations_syntax

definition ack_pins :: "bool \<Rightarrow> u8" where
  "ack_pins ack = (if ack then 0x10 else 0)"

definition shift_direction :: "u8 \<Rightarrow> cuda \<Rightarrow> cuda" where
  "shift_direction acr = on_via (set_via_reg auxiliaryControl acr)"

fun send_bytes :: "int \<Rightarrow> bool \<Rightarrow> u8 list \<Rightarrow> cuda \<Rightarrow> cuda" where
  "send_bytes now ack [] s = s"
| "send_bytes now ack (b # bs) s =
    send_bytes now (\<not> ack) bs (cuda_portBChanged now (ack_pins ack) 0x30 (cuda_shiftByteFromHost b s))"

definition send_packet :: "int \<Rightarrow> u8 list \<Rightarrow> cuda \<Rightarrow> cuda" where
  "send_packet now bytes s = cuda_portBChanged now 0x30 0x30 (send_bytes now True bytes (shift_direction 0x10 s))"

fun receive_bytes :: "int \<Rightarrow> bool \<Rightarrow> nat \<Rightarrow> cuda \<Rightarrow> u8 list \<times> cuda" where
  "receive_bytes now ack 0 s = ([], s)"
| "receive_bytes now ack (Suc k) s =
    (let s = cuda_tick 7040 (cuda_portBChanged now (ack_pins ack) 0x30 s);
         (bs, t) = receive_bytes now (\<not> ack) k s
     in (via_regs (the (cuda_via s)) shiftRegister # bs, t))"

definition acr_of :: "cuda \<Rightarrow> u8" where
  "acr_of s = via_regs (the (cuda_via s)) auxiliaryControl"

lemma on_via_fields [simp]:
  "cuda_via (on_via f s) = map_option f (cuda_via s)" "cuda_input (on_via f s) = cuda_input s"
  "cuda_output (on_via f s) = cuda_output s" "cuda_outputPosition (on_via f s) = cuda_outputPosition s"
  "cuda_pram (on_via f s) = cuda_pram s" "cuda_lastTip (on_via f s) = cuda_lastTip s"
  "cuda_lastByteAck (on_via f s) = cuda_lastByteAck s" "cuda_shiftCycles (on_via f s) = cuda_shiftCycles s"
  "cuda_shiftOutCompletion (on_via f s) = cuda_shiftOutCompletion s"
  "cuda_pendingShiftValue (on_via f s) = cuda_pendingShiftValue s"
  "cuda_releaseTreqAfterShift (on_via f s) = cuda_releaseTreqAfterShift s"
  "cuda_stagedInput (on_via f s) = cuda_stagedInput s"
  by (simp_all add: on_via_def)

lemma pins [simp]: "ack_pins a AND tip = 0" "(ack_pins a AND byteAck = 0) = (\<not> a)" "ack_pins a AND 0x30 = ack_pins a"
  "(0x30 :: u8) AND tip \<noteq> 0" "(0x30 :: u8) AND byteAck \<noteq> 0"
  by (simp_all add: ack_pins_def tip_def byteAck_def)

subsection \<open>Sending\<close>

lemma byte_sent:
  assumes "cuda_via s = Some v" and "via_regs v auxiliaryControl AND 0x10 \<noteq> 0" and "\<not> (\<not> cuda_lastTip s \<and> cuda_lastByteAck s = a)"
    and "t = cuda_portBChanged now (ack_pins a) 0x30 (cuda_shiftByteFromHost b s)"
  shows "cuda_via t = Some v" "cuda_input t = cuda_input s @ [b]" "cuda_pram t = cuda_pram s"
    "\<not> cuda_lastTip t" "cuda_lastByteAck t = a"
  using assms(1-3) by (auto simp: assms(4) cuda_portBChanged_def cuda_shiftByteFromHost_def cuda_byte_def Let_def)

lemma bytes_sent:
  assumes "cuda_via s = Some v" and "via_regs v auxiliaryControl AND 0x10 \<noteq> 0" and "\<not> (\<not> cuda_lastTip s \<and> cuda_lastByteAck s = a)"
  shows "cuda_via (send_bytes now a bs s) = Some v \<and> cuda_input (send_bytes now a bs s) = cuda_input s @ bs \<and>
    cuda_pram (send_bytes now a bs s) = cuda_pram s \<and> (bs \<noteq> [] \<longrightarrow> \<not> cuda_lastTip (send_bytes now a bs s))"
  using assms
proof (induction bs arbitrary: a s)
  case (Cons b bs)
  let ?t = "cuda_portBChanged now (ack_pins a) 0x30 (cuda_shiftByteFromHost b s)"
  note t = byte_sent [OF Cons.prems refl, of now b]
  then show ?case
    using Cons.IH [of ?t "\<not> a"] Cons.prems(2) by (cases bs) auto
qed simp

text \<open>An idle Cuda: both lines up, nothing received.\<close>

definition cuda_idle :: "cuda \<Rightarrow> bool" where
  "cuda_idle s \<longleftrightarrow> cuda_via s \<noteq> None \<and> cuda_lastTip s \<and> cuda_lastByteAck s \<and> cuda_input s = []"

lemma finish_fields:
  "cuda_via (cuda_finishPacket now s) = cuda_via s" "cuda_lastTip (cuda_finishPacket now s) = cuda_lastTip s"
  "cuda_lastByteAck (cuda_finishPacket now s) = cuda_lastByteAck s" "cuda_outputPosition (cuda_finishPacket now s) = 0"
  by (simp_all add: cuda_finishPacket_def Let_def put_output_def cuda_makeResponse_def pseudo_command_def append_output_def)

lemma packet_sent:
  assumes "cuda_idle s" and "bs \<noteq> []" and "t = send_packet now bs s"
  shows "cuda_idle t" "cuda_outputPosition t = 0"
    "\<exists>u. cuda_input u = bs \<and> cuda_pram u = cuda_pram s \<and> cuda_output t = cuda_output (cuda_finishPacket now u) \<and>
      cuda_pram t = cuda_pram (cuda_finishPacket now u)"
proof -
  obtain v where v: "cuda_via s = Some v"
    using assms(1) by (auto simp: cuda_idle_def)
  let ?s = "shift_direction 0x10 s"
  define u where "u = send_bytes now True bs ?s"
  have u: "cuda_via u = Some (set_via_reg auxiliaryControl 0x10 v)" "cuda_input u = bs" "cuda_pram u = cuda_pram s" "\<not> cuda_lastTip u"
    using bytes_sent [of ?s "set_via_reg auxiliaryControl 0x10 v" True now bs] assms(1,2) v
    by (auto simp: u_def shift_direction_def cuda_idle_def set_via_reg_def)
  define w where "w = (set_treq True (u\<lparr>cuda_debug := (cuda_debug u)\<lparr>dbg_output := 0x30, dbg_direction := 0x30, dbg_tip := True,
      dbg_byteAck := True, dbg_transitions := dbg_transitions (cuda_debug u) + 1\<rparr>, cuda_lastTip := True,
      cuda_lastByteAck := True\<rparr>))\<lparr>cuda_idleAckCycles := 4880, cuda_synchronousAttention := False\<rparr>"
  have w: "cuda_input w = bs" "cuda_pram w = cuda_pram s" "cuda_via w \<noteq> None" "cuda_lastTip w" "cuda_lastByteAck w"
    using u by (simp_all add: w_def set_treq_def)
  have "t = cuda_end_transaction now (u\<lparr>cuda_debug := (cuda_debug u)\<lparr>dbg_output := 0x30, dbg_direction := 0x30, dbg_tip := True,
      dbg_byteAck := True, dbg_transitions := dbg_transitions (cuda_debug u) + 1\<rparr>, cuda_lastTip := True,
      cuda_lastByteAck := True\<rparr>)"
    using u by (simp add: assms(3) send_packet_def u_def [symmetric] cuda_portBChanged_def Let_def)
  then have t: "t = (let x = (cuda_finishPacket now w)\<lparr>cuda_input := []\<rparr>
      in if cuda_output x \<noteq> [] \<and> cuda_via x \<noteq> None then x\<lparr>cuda_responseTreqCycles := 1040\<rparr> else x)"
    using u assms(2) by (simp add: cuda_end_transaction_def w_def Let_def)
  then show "cuda_idle t" "cuda_outputPosition t = 0"
    using w by (auto simp: cuda_idle_def finish_fields Let_def)
  show "\<exists>u. cuda_input u = bs \<and> cuda_pram u = cuda_pram s \<and> cuda_output t = cuda_output (cuda_finishPacket now u) \<and>
      cuda_pram t = cuda_pram (cuda_finishPacket now u)"
    using w t by (intro exI [of _ w]) (simp add: Let_def)
qed

subsection \<open>Receiving\<close>

lemma byte_received:
  assumes "cuda_via s = Some v" and "via_regs v auxiliaryControl AND 0x10 = 0" and "\<not> (\<not> cuda_lastTip s \<and> cuda_lastByteAck s = a)"
    and "cuda_outputPosition s < length (cuda_output s)" and "t = cuda_tick 7040 (cuda_portBChanged now (ack_pins a) 0x30 s)"
  shows "\<exists>w. cuda_via t = Some w \<and> via_regs w auxiliaryControl = via_regs v auxiliaryControl \<and>
      via_regs w shiftRegister = cuda_output s ! cuda_outputPosition s"
    "cuda_output t = cuda_output s" "cuda_outputPosition t = cuda_outputPosition s + 1"
    "\<not> cuda_lastTip t" "cuda_lastByteAck t = a"
proof -
  define u where "u = cuda_portBChanged now (ack_pins a) 0x30 s"
  have u: "cuda_via u = Some v" "cuda_output u = cuda_output s" "cuda_outputPosition u = cuda_outputPosition s + 1"
    "\<not> cuda_lastTip u" "cuda_lastByteAck u = a" "cuda_pendingShiftValue u = cuda_output s ! cuda_outputPosition s"
    "\<not> cuda_shiftOutCompletion u" "cuda_shiftCycles u = 7040"
    using assms(1-4) by (auto simp: u_def cuda_portBChanged_def cuda_byte_def cuda_sendNextByte_def Let_def)
  define x where "x = tick_idle 7040 (tick_response 7040 u)"
  have "\<exists>w. cuda_via x = Some w \<and> via_regs w auxiliaryControl = via_regs v auxiliaryControl"
    using u(1) by (auto simp: x_def tick_idle_def tick_response_def set_treq_def via_setPortBInputBit_def
        via_externalShiftIn_def raise_flag_def set_via_reg_def Let_def)
  moreover have x: "cuda_output x = cuda_output s" "cuda_outputPosition x = cuda_outputPosition s + 1"
    "\<not> cuda_lastTip x" "cuda_lastByteAck x = a" "cuda_pendingShiftValue x = cuda_output s ! cuda_outputPosition s"
    "\<not> cuda_shiftOutCompletion x" "cuda_shiftCycles x = 7040"
    using u by (simp_all add: x_def tick_idle_def tick_response_def set_treq_def Let_def)
  moreover have "t = cuda_shift_done (x\<lparr>cuda_shiftCycles := 0\<rparr>)"
    using u(1) x(7) unfolding assms(5) u_def [symmetric] cuda_tick_def by (simp add: x_def [symmetric] cuda_tick_shift_def)
  ultimately show "\<exists>w. cuda_via t = Some w \<and> via_regs w auxiliaryControl = via_regs v auxiliaryControl \<and>
      via_regs w shiftRegister = cuda_output s ! cuda_outputPosition s"
    "cuda_output t = cuda_output s" "cuda_outputPosition t = cuda_outputPosition s + 1"
    "\<not> cuda_lastTip t" "cuda_lastByteAck t = a"
    by (auto simp: cuda_shift_done_def set_treq_def via_setPortBInputBit_def via_externalShiftIn_def raise_flag_def
        set_via_reg_def treqBit_def Let_def)
qed

lemma bytes_received:
  assumes "cuda_via s = Some v" and "via_regs v auxiliaryControl AND 0x10 = 0" and "\<not> (\<not> cuda_lastTip s \<and> cuda_lastByteAck s = a)"
    and "cuda_outputPosition s + k \<le> length (cuda_output s)"
  shows "fst (receive_bytes now a k s) = take k (drop (cuda_outputPosition s) (cuda_output s))"
  using assms
proof (induction k arbitrary: a s v)
  case (Suc k)
  define t where "t = cuda_tick 7040 (cuda_portBChanged now (ack_pins a) 0x30 s)"
  have p: "cuda_outputPosition s < length (cuda_output s)"
    using Suc.prems(4) by simp
  note t = byte_received [OF Suc.prems(1-3) p t_def]
  obtain w where w: "cuda_via t = Some w" "via_regs w auxiliaryControl = via_regs v auxiliaryControl"
    "via_regs w shiftRegister = cuda_output s ! cuda_outputPosition s"
    using t(1) by blast
  have "fst (receive_bytes now (\<not> a) k t) = take k (drop (cuda_outputPosition t) (cuda_output t))"
    using Suc.IH [OF w(1)] w(2) t(2-5) Suc.prems(2,4) by simp
  then show ?case
    using t(2,3) w p by (simp add: t_def [symmetric] split_beta Let_def Cons_nth_drop_Suc [symmetric])
qed simp

subsection \<open>The parameter RAM\<close>

lemma address_widths: "unat (ucast (a :: u8) :: u16) = unat a" "unat w < 256 \<Longrightarrow> unat (ucast (w :: u16) :: u8) = unat w"
  using unsigned_less [of a, where ?'a = nat] by (simp_all add: unsigned_ucast_eq take_bit_nat_eq_self_iff)

lemma address_byte: "ucast (ucast (a :: u8) :: u16) = a" "unat a < 256"
  using unsigned_less [of a, where ?'a = nat] by (simp_all add: word_unat_eq_iff address_widths)

lemma pram_length [simp]: "length (pram_from address s) = 256" "pram_from a (s\<lparr>cuda_debug := d, cuda_output := x, cuda_outputPosition := k\<rparr>) = pram_from a s"
  by (simp_all add: pram_from_def)

lemma pram_written:
  assumes "unat address + length data \<le> 256"
  shows "pram_write address data ram x =
    (if unat address \<le> unat x \<and> unat x < unat address + length data then data ! (unat x - unat address) else ram x)"
  using assms
proof (induction data arbitrary: address ram)
  case (Cons b bs)
  then have a: "unat address < 256" "address < 256"
    by (auto simp: word_less_nat_alt)
  then have s: "unat (address + 1) = unat address + 1" "unat (ucast address :: u8) = unat address"
    by (simp_all add: unat_word_ariths address_widths)
  then have x: "x = ucast address \<longleftrightarrow> unat x = unat address"
    by (simp add: word_unat_eq_iff)
  have w: "pram_write address (b # bs) ram x =
      (if unat address + 1 \<le> unat x \<and> unat x < unat address + 1 + length bs then bs ! (unat x - (unat address + 1))
       else (ram(ucast address := b)) x)"
    using Cons.IH [of "address + 1" "ram(ucast address := b)"] Cons.prems a(2) unfolding s(1) by (simp del: fun_upd_apply)
  consider "unat x = unat address" | "unat x < unat address" | k where "unat x = Suc (unat address + k)"
    by (metis linorder_less_linear less_natE)
  then show ?case
    unfolding w by cases (use x in auto)
qed auto

lemma pram_read_back:
  assumes "unat address + length data \<le> 256" and "cuda_pram s = pram_write (ucast address) data ram"
  shows "take (length data) (pram_from address s) = data"
proof (rule nth_equalityI)
  show "length (take (length data) (pram_from address s)) = length data"
    using assms(1) by (simp add: pram_from_def)
next
  fix i assume "i < length (take (length data) (pram_from address s))"
  then have i: "i < length data" "i < 256"
    by (simp_all add: pram_from_def)
  have u: "unat (address + of_nat i) = unat address + i"
    using assms(1) i by (simp add: unat_word_ariths unat_of_nat)
  show "take (length data) (pram_from address s) ! i = data ! i"
    using pram_written [of "ucast address" data ram "address + of_nat i"] assms i u by (simp add: pram_from_def address_widths)
qed

text \<open>
  C15. The parameter RAM of the Cuda over its wires: bytes that a packet writes at an address, each clocked
  through the shift register of the VIA, are what a read packet then returns byte by byte behind the header of
  its answer.
\<close>

theorem cuda_pram_round_trip:
  assumes "cuda_idle s" and "unat address + length data \<le> 256"
  shows "let t = send_packet now [1, 0x07, 0, address] (send_packet now ([1, 0x0c, 0, address] @ data) s)
         in fst (receive_bytes now True (3 + length data) (shift_direction 0 t)) = [1, 0, 0x07] @ data"
proof -
  have adr: "packet_address (1 # b # 0 # address # xs) = ucast address" for b xs
    by (simp add: packet_address_def)
  define t1 where "t1 = send_packet now ([1, 0x0c, 0, address] @ data) s"
  define t2 where "t2 = send_packet now [1, 0x07, 0, address] t1"
  note p1 = packet_sent [OF assms(1) _ t1_def]
  then have r1: "cuda_pram t1 = pram_write (ucast address) data (cuda_pram s)"
    by (auto simp: cuda_finishPacket_def pseudo_command_def cuda_makeResponse_def put_output_def pseudoPacket_def adr Let_def)
  have i1: "cuda_idle t1"
    using p1 by simp
  note p2 = packet_sent [OF i1 _ t2_def]
  then have o2: "cuda_output t2 = [1, 0, 0x07] @ pram_from address t1"
    by (auto simp: cuda_finishPacket_def pseudo_command_def cuda_makeResponse_def put_output_def append_output_def
        pseudoPacket_def adr Let_def word_less_nat_alt address_widths address_byte) (simp add: pram_from_def)
  obtain v where v: "cuda_via t2 = Some v"
    using p2(1) by (auto simp: cuda_idle_def)
  have "take (3 + length data) (cuda_output t2) = [1, 0, 0x07] @ data"
    using pram_read_back [OF assms(2) r1] by (simp add: o2 numeral_3_eq_3)
  then show ?thesis
    unfolding Let_def t1_def [symmetric] t2_def [symmetric]
    using bytes_received [of "shift_direction 0 t2" "set_via_reg auxiliaryControl 0 v" True "3 + length data" now] v p2(1,2) o2 assms(2)
    by (simp add: shift_direction_def cuda_idle_def set_via_reg_def)
qed

definition sample_cuda :: cuda where
  "sample_cuda = cuda_reset
    \<lparr>cuda_via = Some via_init, cuda_pram = (\<lambda>_. 0), cuda_input = [], cuda_output = [], cuda_outputPosition = 0,
     cuda_lastTip = True, cuda_lastByteAck = True, cuda_synchronousAttention = False,
     cuda_attentionFollowupPending = False, cuda_idleAckCycles = 0, cuda_responseTreqCycles = 0,
     cuda_shiftCycles = 0, cuda_shiftOutCompletion = False, cuda_releaseTreqAfterShift = False,
     cuda_pendingShiftValue = 0, cuda_stagedInput = None, cuda_debug = no_debug\<rparr>"

lemma cuda_pram_round_trip_witness:
  "fst (receive_bytes 0 True (length [1, 0, 7, 0xa8, 0x17 :: u8]) (shift_direction 0 (send_packet 0 [1, 0x07, 0, 0x10]
     (send_packet 0 [1, 0x0c, 0, 0x10, 0xa8, 0x17] sample_cuda)))) = [1, 0, 7, 0xa8, 0x17]"
proof -
  have "cuda_idle sample_cuda"
    by (simp add: sample_cuda_def cuda_reset_def set_treq_def on_via_def cuda_idle_def)
  then show ?thesis
    using cuda_pram_round_trip [of sample_cuda "0x10" "[0xa8, 0x17]" 0] by (simp add: Let_def numeral_3_eq_3 del: receive_bytes.simps)
qed

end
