(* ===== verification/SonoraVideo.thy ===== *)
theory SonoraVideo
  imports Prelude
begin

section \<open>Video frames\<close>

text \<open>\<open>VideoFrame.h\<close>: what a video device hands to the display, with the defaults of its members.\<close>

datatype PixelStorage = IndexedPixels | DirectPixels

datatype ByteOrder = BigEndian | LittleEndian

datatype BitOrder = MostSignificantFirst | LeastSignificantFirst

record ChannelLayout =
  redMask :: u32
  greenMask :: u32
  blueMask :: u32
  alphaMask :: u32

record VideoFrame =
  frame_width :: int
  frame_height :: int
  frame_strideBytes :: int
  frame_storage :: PixelStorage
  frame_bitsPerPixel :: int
  frame_byteOrder :: ByteOrder
  frame_bitOrder :: BitOrder
  frame_pixels :: "u8 list"
  frame_colorTable :: "u32 list"
  frame_pixelToColorIndex :: "u16 list"
  frame_channels :: ChannelLayout
  frame_grabbable :: bool

definition no_channels :: ChannelLayout where
  "no_channels = \<lparr>redMask = 0, greenMask = 0, blueMask = 0, alphaMask = 0\<rparr>"

definition empty_frame :: VideoFrame where
  "empty_frame = \<lparr>frame_width = 0, frame_height = 0, frame_strideBytes = 0, frame_storage = IndexedPixels,
     frame_bitsPerPixel = 1, frame_byteOrder = BigEndian, frame_bitOrder = MostSignificantFirst, frame_pixels = [],
     frame_colorTable = [], frame_pixelToColorIndex = [], frame_channels = no_channels, frame_grabbable = False\<rparr>"

definition frame_valid :: "VideoFrame \<Rightarrow> bool" where
  "frame_valid f \<longleftrightarrow>
    (let supportedDepth = (if frame_storage f = IndexedPixels then frame_bitsPerPixel f \<in> {1, 2, 4, 8}
                           else frame_bitsPerPixel f \<in> {15, 16, 24, 32})
     in 0 < frame_width f \<and> 0 < frame_height f \<and> 0 < frame_strideBytes f \<and> supportedDepth \<and>
        frame_strideBytes f * frame_height f \<le> int (length (frame_pixels f)))"

section \<open>The Sonora video controller\<close>

text \<open>
  \<open>SonoraVideo.cpp\<close>: the control registers, the palette behind its address counter, and the frame taken from
  main memory.  The palette is a function of the entry and the component (red, green, blue).
\<close>

unbundle bit_operations_syntax

record sonora_mode =
  mode_id :: u8
  mode_width :: int
  mode_height :: int
  mode_sixteenBit :: bool

record sonora =
  son_mode :: u8
  son_depth :: u8
  son_monitorDrive :: u8
  son_test :: u8
  son_paletteAddress :: u8
  son_paletteComponent :: u8
  son_paletteControl :: u8
  son_colorKey :: u8
  son_vramOffset :: u64
  son_palette :: "u8 \<Rightarrow> u8 \<Rightarrow> u8"

definition son_init :: sonora where
  "son_init = \<lparr>son_mode = 0x9f, son_depth = 0, son_monitorDrive = 8, son_test = 0, son_paletteAddress = 0,
     son_paletteComponent = 0, son_paletteControl = 0, son_colorKey = 0, son_vramOffset = 0,
     son_palette = (\<lambda>_ _. 0)\<rparr>"

definition son_reset :: "sonora \<Rightarrow> sonora" where
  "son_reset s = s\<lparr>son_mode := 0x9f, son_depth := 0, son_monitorDrive := 8, son_test := 0, son_paletteAddress := 0,
     son_paletteComponent := 0, son_paletteControl := 0, son_colorKey := 0, son_vramOffset := 0,
     son_palette := (\<lambda>index _. index)\<rparr>"

definition son_setVramOffset :: "u64 \<Rightarrow> sonora \<Rightarrow> sonora" where
  "son_setVramOffset offset s = s\<lparr>son_vramOffset := offset\<rparr>"

definition son_modes :: "sonora_mode list" where
  "son_modes =
    [\<lparr>mode_id = 0x02, mode_width = 512, mode_height = 384, mode_sixteenBit = True\<rparr>,
     \<lparr>mode_id = 0x06, mode_width = 640, mode_height = 480, mode_sixteenBit = True\<rparr>,
     \<lparr>mode_id = 0x01, mode_width = 640, mode_height = 870, mode_sixteenBit = False\<rparr>,
     \<lparr>mode_id = 0x09, mode_width = 832, mode_height = 624, mode_sixteenBit = False\<rparr>,
     \<lparr>mode_id = 0x0b, mode_width = 640, mode_height = 480, mode_sixteenBit = False\<rparr>]"

definition son_activeMode :: "sonora \<Rightarrow> sonora_mode option" where
  "son_activeMode s = find (\<lambda>mode. mode_id mode = son_mode s AND 0x1f) son_modes"

definition son_enabled :: "sonora \<Rightarrow> bool" where
  "son_enabled s \<longleftrightarrow>
    (case son_activeMode s of
       None \<Rightarrow> False
     | Some mode \<Rightarrow> son_mode s AND 0x80 = 0 \<and> son_depth s \<le> 4 \<and> (son_depth s \<noteq> 4 \<or> mode_sixteenBit mode))"

definition son_readControl :: "u32 \<Rightarrow> sonora \<Rightarrow> u8" where
  "son_readControl offset s =
    (let r = offset AND 7
     in if r = 0 then son_mode s
        else if r = 1 then son_depth s
        else if r = 2 then
          (let sense = (if son_monitorDrive s AND 8 = 0 then 6 AND (son_monitorDrive s AND 7) else 6)
           in son_monitorDrive s OR push_bit 4 sense)
        else if r = 3 then son_test s
        else 0)"

definition son_writeControl :: "u32 \<Rightarrow> u8 \<Rightarrow> sonora \<Rightarrow> sonora" where
  "son_writeControl offset v s =
    (let r = offset AND 7
     in if r = 0 then s\<lparr>son_mode := v AND 0x9f\<rparr>
        else if r = 1 then s\<lparr>son_depth := v AND 7\<rparr>
        else if r = 2 then s\<lparr>son_monitorDrive := v AND 0x0f\<rparr>
        else if r = 3 then s\<lparr>son_test := v AND 1\<rparr>
        else s)"

definition son_readDac :: "u32 \<Rightarrow> sonora \<Rightarrow> u8" where
  "son_readDac offset s = (if offset AND 3 = 2 then son_paletteControl s else 0)"

definition son_writeDac :: "u32 \<Rightarrow> u8 \<Rightarrow> sonora \<Rightarrow> sonora" where
  "son_writeDac offset v s =
    (let r = offset AND 3; address = son_paletteAddress s; component = son_paletteComponent s
     in if r = 0 then s\<lparr>son_paletteAddress := v, son_paletteComponent := 0\<rparr>
        else if r = 1 then
          (let s = s\<lparr>son_palette := (son_palette s)(address := (son_palette s address)(component := v)),
                     son_paletteComponent := component + 1\<rparr>
           in if son_paletteComponent s = 3 then s\<lparr>son_paletteComponent := 0, son_paletteAddress := address + 1\<rparr> else s)
        else if r = 2 then s\<lparr>son_paletteControl := v\<rparr>
        else s\<lparr>son_colorKey := v\<rparr>)"

definition son_paletteIndex :: "int \<Rightarrow> nat \<Rightarrow> u8" where
  "son_paletteIndex bitsPerPixel value =
    (if bitsPerPixel = 1 then (if value \<noteq> 0 then 127 else 255)
     else if bitsPerPixel = 2 then push_bit 6 (of_nat value) OR 0x3f
     else if bitsPerPixel = 4 then push_bit 4 (of_nat value) OR 0x0f
     else of_nat value)"

definition son_color :: "u8 \<Rightarrow> sonora \<Rightarrow> u32" where
  "son_color i s =
     0xff000000 OR push_bit 16 (ucast (son_palette s i 0)) OR push_bit 8 (ucast (son_palette s i 1)) OR
     ucast (son_palette s i 2)"

definition son_frame :: "u8 list \<Rightarrow> sonora \<Rightarrow> VideoFrame" where
  "son_frame ram s =
    (case son_activeMode s of
       None \<Rightarrow> empty_frame
     | Some mode \<Rightarrow>
         if \<not> son_enabled s then empty_frame
         else
           let bits = 2 ^ unat (son_depth s);
               storage = (if bits \<le> 8 then IndexedPixels else DirectPixels);
               stride = (mode_width mode * bits + 7) div 8;
               byteCount = stride * mode_height mode
           in if of_nat (length ram) < son_vramOffset s + of_int byteCount then empty_frame
              else empty_frame
                \<lparr>frame_width := mode_width mode, frame_height := mode_height mode, frame_bitsPerPixel := bits,
                 frame_storage := storage, frame_byteOrder := BigEndian, frame_bitOrder := MostSignificantFirst,
                 frame_strideBytes := stride,
                 frame_pixels := take (nat byteCount) (drop (unat (son_vramOffset s)) ram),
                 frame_colorTable := (if storage = IndexedPixels
                                      then map (\<lambda>v. son_color (son_paletteIndex bits v) s) [0..<2 ^ nat bits]
                                      else []),
                 frame_channels := (if storage = IndexedPixels then no_channels
                                    else \<lparr>redMask = 0x7c00, greenMask = 0x03e0, blueMask = 0x001f, alphaMask = 0\<rparr>)\<rparr>)"

subsection \<open>What is displayed\<close>

lemma active_mode_listed: "son_activeMode s = Some mode \<Longrightarrow> mode \<in> set son_modes"
  by (auto simp: son_activeMode_def find_Some_iff)

lemma depths: "(d :: u8) \<le> 4 \<Longrightarrow> unat d \<in> {0, 1, 2, 3, 4}"
  by (auto simp: word_le_nat_alt)

lemma picture_size:
  assumes "son_activeMode s = Some mode" and "son_enabled s"
    and "bits = 2 ^ unat (son_depth s)" and "stride = (mode_width mode * bits + 7) div 8"
  shows "bits \<in> {1, 2, 4, 8, 16}" "0 < mode_width mode" "0 < mode_height mode" "0 < stride"
    "0 < stride * mode_height mode" "stride * mode_height mode \<le> 614400"
proof -
  have m: "mode \<in> set son_modes" "son_depth s = 4 \<longrightarrow> mode_sixteenBit mode"
    and d: "unat (son_depth s) \<in> {0, 1, 2, 3, 4}"
    using assms(1,2) active_mode_listed depths by (auto simp: son_enabled_def)
  have four: "unat (son_depth s) = 4 \<longleftrightarrow> son_depth s = 4"
    by (simp add: word_unat_eq_iff)
  have "bits \<in> {1, 2, 4, 8, 16} \<and> 0 < mode_width mode \<and> 0 < mode_height mode \<and> 0 < stride \<and>
      stride * mode_height mode \<le> 614400"
    using m d unfolding assms(3,4) four [symmetric] son_modes_def by (elim insertE; auto)
  then show "bits \<in> {1, 2, 4, 8, 16}" "0 < mode_width mode" "0 < mode_height mode" "0 < stride"
    "0 < stride * mode_height mode" "stride * mode_height mode \<le> 614400"
    by simp_all
qed

lemma picture_fits:
  assumes "unat (offset :: u64) < 2 ^ 62" and "n < 2 ^ 62" and "0 \<le> k" and "k \<le> 614400"
  shows "of_nat n < offset + of_int k \<longleftrightarrow> n < unat offset + nat k"
proof -
  obtain j where j: "k = int j" "j \<le> 614400"
    using assms(3,4) nonneg_int_cases by fastforce
  have "unat (of_nat n :: u64) = n" "unat (of_nat j :: u64) = j"
    using assms(2) j by (simp_all add: unat_of_nat)
  moreover from this have "unat (offset + of_nat j) = unat offset + j"
    using assms(1) j by (simp add: unat_word_ariths)
  ultimately show ?thesis
    by (simp add: j word_less_nat_alt)
qed

text \<open>The palette entry of a pixel value and the colour of an entry, as numbers.\<close>

lemma filled_low_bits: "push_bit k (x :: u8) OR mask k = push_bit k x + mask k"
  by (rule disjunctive_add [symmetric]) (auto simp: bit_simps)

lemma palette_index:
  assumes "d \<le> 3" and "v < 2 ^ 2 ^ d"
  shows "son_paletteIndex (2 ^ d) v =
    of_nat (if d = 0 then (if v = 0 then 255 else 127) else if d = 1 then 64 * v + 63
            else if d = 2 then 16 * v + 15 else v)"
proof -
  have m: "push_bit 6 (of_nat v :: u8) OR 0x3f = of_nat (64 * v + 63)"
    "push_bit 4 (of_nat v :: u8) OR 0x0f = of_nat (16 * v + 15)"
    using filled_low_bits [of 6 "of_nat v"] filled_low_bits [of 4 "of_nat v"]
    by (simp_all add: mask_eq_exp_minus_1 push_bit_eq_mult mult.commute)
  consider "d = 0" | "d = 1" | "d = 2" | "d = 3" using assms(1) by linarith
  then show ?thesis
    by cases (simp_all add: son_paletteIndex_def m del: of_nat_add of_nat_mult)
qed

lemma byte_word_add:
  fixes a b c d :: u8
  shows "push_bit 24 (ucast a :: u32) OR push_bit 16 (ucast b) OR push_bit 8 (ucast c) OR ucast d =
    push_bit 24 (ucast a) + push_bit 16 (ucast b) + push_bit 8 (ucast c) + ucast d"
proof -
  have low: "bit x n \<Longrightarrow> n < 8" for x :: u8 and n using bit_imp_le_length [of x n] by simp
  show ?thesis
    by ((subst disjunctive_add, auto simp: bit_simps dest: low)+, simp only: or.assoc)
qed

lemma color_sum:
  "son_color i s = 0xff000000 + 65536 * ucast (son_palette s i 0) + 256 * ucast (son_palette s i 1) +
     ucast (son_palette s i 2)"
  using byte_word_add [of "0xff" "son_palette s i 0" "son_palette s i 1" "son_palette s i 2"]
  by (simp add: son_color_def push_bit_eq_mult mult.commute)

text \<open>When the controller is enabled, in terms of its two control registers.\<close>

definition sonora_picture :: "sonora \<Rightarrow> int \<Rightarrow> int \<Rightarrow> bool" where
  "sonora_picture s w h \<longleftrightarrow>
    (son_mode s AND 0x9f, w, h) \<in>
      {(0x02, 512, 384), (0x06, 640, 480), (0x01, 640, 870), (0x09, 832, 624), (0x0b, 640, 480)} \<and>
    unat (son_depth s) \<le> 4 \<and> (unat (son_depth s) = 4 \<longrightarrow> son_mode s AND 0x9f \<in> {0x02, 0x06})"

lemma mode_register:
  "m \<in> {0x02, 0x06, 0x01, 0x09, 0x0b} \<Longrightarrow> (x :: u8) AND 0x9f = m \<longleftrightarrow> x AND 0x1f = m \<and> x AND 0x80 = 0"
proof -
  assume m: "m \<in> {0x02, 0x06, 0x01, 0x09, 0x0b}"
  have "x AND 0x9f = x AND (0x1f OR 0x80)" by simp
  also have "\<dots> = (x AND 0x1f) OR (x AND 0x80)" by (simp only: bit.conj_disj_distrib)
  finally have sum: "x AND 0x9f = (x AND 0x1f) OR (x AND 0x80)" .
  have "x AND 0x1f = (x AND 0x9f) AND 0x1f" "x AND 0x80 = (x AND 0x9f) AND 0x80"
    by (simp_all add: and.assoc)
  with m sum show ?thesis by auto
qed

lemma enabled_picture:
  "son_enabled s \<and> son_activeMode s = Some mode \<and> w = mode_width mode \<and> h = mode_height mode
   \<Longrightarrow> sonora_picture s w h"
  "sonora_picture s w h \<Longrightarrow>
   son_enabled s \<and> (\<exists>mode. son_activeMode s = Some mode \<and> w = mode_width mode \<and> h = mode_height mode)"
proof -
  have d: "unat (son_depth s) \<le> 4 \<longleftrightarrow> son_depth s \<le> 4" "unat (son_depth s) = 4 \<longleftrightarrow> son_depth s = 4"
    by (simp_all add: word_le_nat_alt word_unat_eq_iff)
  show "son_enabled s \<and> son_activeMode s = Some mode \<and> w = mode_width mode \<and> h = mode_height mode
      \<Longrightarrow> sonora_picture s w h"
    by (auto simp: son_enabled_def son_activeMode_def son_modes_def sonora_picture_def d mode_register
        split: if_splits)
  show "sonora_picture s w h \<Longrightarrow>
      son_enabled s \<and> (\<exists>mode. son_activeMode s = Some mode \<and> w = mode_width mode \<and> h = mode_height mode)"
    by (auto simp: son_enabled_def son_activeMode_def son_modes_def sonora_picture_def d mode_register)
qed

text \<open>The frame of a selected picture.\<close>

definition shown_frame :: "u8 list \<Rightarrow> sonora \<Rightarrow> int \<Rightarrow> int \<Rightarrow> VideoFrame" where
  "shown_frame ram s w h =
    (let d = unat (son_depth s); stride = (w * 2 ^ d + 7) div 8
     in empty_frame
          \<lparr>frame_width := w, frame_height := h, frame_bitsPerPixel := 2 ^ d,
           frame_storage := (if d < 4 then IndexedPixels else DirectPixels),
           frame_strideBytes := stride,
           frame_pixels := take (nat (stride * h)) (drop (unat (son_vramOffset s)) ram),
           frame_colorTable := (if d < 4 then
             map (\<lambda>v. let i = of_nat (if d = 0 then (if v = 0 then 255 else 127) else if d = 1 then 64 * v + 63
                                    else if d = 2 then 16 * v + 15 else v)
                      in 0xff000000 + 65536 * ucast (son_palette s i 0) + 256 * ucast (son_palette s i 1) +
                         ucast (son_palette s i 2)) [0..<2 ^ 2 ^ d] else []),
           frame_channels := (if d < 4 then no_channels
                              else \<lparr>redMask = 0x7c00, greenMask = 0x03e0, blueMask = 0x001f, alphaMask = 0\<rparr>)\<rparr>)"

lemma depth_cases:
  assumes "sonora_picture s w h"
  shows "unat (son_depth s) \<in> {0, 1, 2, 3, 4}"
  using assms by (auto simp: sonora_picture_def)

lemma picture_fits_memory:
  assumes "unat (son_vramOffset s) < 2 ^ 62" and "length ram < 2 ^ 62" and "sonora_picture s w h"
  shows "of_nat (length ram) < son_vramOffset s + of_int ((w * 2 ^ unat (son_depth s) + 7) div 8 * h) \<longleftrightarrow>
    length ram < unat (son_vramOffset s) + nat ((w * 2 ^ unat (son_depth s) + 7) div 8 * h)"
proof -
  obtain mode where "son_enabled s" "son_activeMode s = Some mode" "w = mode_width mode" "h = mode_height mode"
    using enabled_picture(2) [OF assms(3)] by blast
  with picture_size(5,6) [of s mode, OF _ _ refl refl]
  have "0 \<le> (w * 2 ^ unat (son_depth s) + 7) div 8 * h" "(w * 2 ^ unat (son_depth s) + 7) div 8 * h \<le> 614400"
    by simp_all
  then show ?thesis by (rule picture_fits [OF assms(1,2)])
qed

lemma shown_picture:
  assumes "unat (son_vramOffset s) < 2 ^ 62" and "length ram < 2 ^ 62" and "sonora_picture s w h"
    and "unat (son_vramOffset s) + nat ((w * 2 ^ unat (son_depth s) + 7) div 8 * h) \<le> length ram"
  shows "son_frame ram s = shown_frame ram s w h \<and> frame_valid (shown_frame ram s w h)"
proof -
  obtain mode where m: "son_enabled s" "son_activeMode s = Some mode" "w = mode_width mode" "h = mode_height mode"
    using enabled_picture(2) [OF assms(3)] by blast
  define d where "d = unat (son_depth s)"
  note p = picture_size [OF m(2,1) refl refl, folded m(3,4) d_def]
  have d: "d \<in> {0, 1, 2, 3, 4}"
    using depth_cases [OF assms(3)] by (simp add: d_def)
  then have depth: "(2 :: int) ^ d \<le> 8 \<longleftrightarrow> d < 4" "nat (2 ^ d) = 2 ^ d"
    by auto
  have palette: "d < 4 \<Longrightarrow> v < 2 ^ 2 ^ d \<Longrightarrow> son_paletteIndex (2 ^ d) v =
      of_nat (if d = 0 then (if v = 0 then 255 else 127) else if d = 1 then 64 * v + 63
              else if d = 2 then 16 * v + 15 else v)" for v
    by (rule palette_index) simp_all
  have "son_frame ram s = shown_frame ram s w h"
    using m picture_fits_memory [OF assms(1-3)] assms(4)
    by (simp add: son_frame_def shown_frame_def d_def [symmetric] Let_def color_sum empty_frame_def depth palette
        cong: map_cong)
  moreover have "frame_valid (shown_frame ram s w h)"
    using p d assms(4) by (auto simp: frame_valid_def shown_frame_def Let_def d_def [symmetric])
  ultimately show ?thesis by simp
qed

lemma hidden_picture:
  assumes "unat (son_vramOffset s) < 2 ^ 62" and "length ram < 2 ^ 62"
    and "\<And>w h. sonora_picture s w h \<Longrightarrow>
      \<not> unat (son_vramOffset s) + nat ((w * 2 ^ unat (son_depth s) + 7) div 8 * h) \<le> length ram"
  shows "son_frame ram s = empty_frame"
proof (cases "son_enabled s")
  case True
  then obtain mode where mode: "son_activeMode s = Some mode"
    by (auto simp: son_enabled_def split: option.splits)
  with True have p: "sonora_picture s (mode_width mode) (mode_height mode)"
    using enabled_picture(1) by blast
  then show ?thesis
    using mode assms(3) [OF p] picture_fits_memory [OF assms(1,2) p] by (simp add: son_frame_def Let_def)
qed (simp add: son_frame_def split: option.split)

text \<open>
  C18. What the Sonora controller displays.  Mode register and depth register select a picture of one of
  five sizes (512 x 384, 640 x 480, 640 x 870, 832 x 624, 640 x 480), 16 bits deep in the first two only;
  whenever such a picture is selected and memory holds it from the video base on, the frame has that width
  and height, the depth selected, rows rounded up to whole bytes, exactly those bytes of memory as pixels and, for
  indexed pixels, one colour per pixel value taken from the palette; otherwise the frame is empty.
\<close>

theorem sonora_frame:
  assumes "unat (son_vramOffset s) < 2 ^ 62" and "length ram < 2 ^ 62"
  shows "let f = son_frame ram s; base = unat (son_vramOffset s); d = unat (son_depth s);
             stride = (\<lambda>w. (w * 2 ^ d + 7) div 8);
             shown = (\<lambda>w h.
               (son_mode s AND 0x9f, w, h) \<in>
                 {(0x02, 512, 384), (0x06, 640, 480), (0x01, 640, 870), (0x09, 832, 624), (0x0b, 640, 480)} \<and>
               d \<le> 4 \<and> (d = 4 \<longrightarrow> son_mode s AND 0x9f \<in> {0x02, 0x06}) \<and>
               base + nat (stride w * h) \<le> length ram)
         in (if \<exists>w h. shown w h then frame_valid f else f = empty_frame) \<and>
            (\<forall>w h. shown w h \<longrightarrow>
               frame_width f = w \<and> frame_height f = h \<and> frame_bitsPerPixel f = 2 ^ d \<and>
               frame_strideBytes f = stride w \<and>
               frame_storage f = (if d < 4 then IndexedPixels else DirectPixels) \<and>
               frame_pixels f = take (nat (stride w * h)) (drop base ram) \<and>
               (d < 4 \<longrightarrow> frame_colorTable f =
                  map (\<lambda>v. let i = of_nat (if d = 0 then (if v = 0 then 255 else 127) else if d = 1 then 64 * v + 63
                                         else if d = 2 then 16 * v + 15 else v)
                           in 0xff000000 + 65536 * ucast (son_palette s i 0) + 256 * ucast (son_palette s i 1) +
                              ucast (son_palette s i 2)) [0..<2 ^ 2 ^ d]))"
proof -
  define d where "d = unat (son_depth s)"
  define base where "base = unat (son_vramOffset s)"
  define stride :: "int \<Rightarrow> int" where "stride w = (w * 2 ^ d + 7) div 8" for w
  have shown: "son_frame ram s = shown_frame ram s w h \<and> frame_valid (shown_frame ram s w h)"
    if "sonora_picture s w h" and "base + nat (stride w * h) \<le> length ram" for w h
    using that shown_picture [OF assms, of w h] by (simp add: d_def base_def stride_def)
  have hidden: "son_frame ram s = empty_frame"
    if "\<And>w h. sonora_picture s w h \<Longrightarrow> \<not> base + nat (stride w * h) \<le> length ram"
    using that hidden_picture [OF assms] by (simp add: d_def base_def stride_def)
  let ?f = "son_frame ram s" and ?shown = "\<lambda>w h. sonora_picture s w h \<and> base + nat (stride w * h) \<le> length ram"
  have "if \<exists>w h. ?shown w h then frame_valid ?f else ?f = empty_frame"
    using shown hidden by (metis (no_types, lifting))
  moreover have "\<forall>w h. ?shown w h \<longrightarrow> ?f = shown_frame ram s w h"
    using shown by blast
  ultimately show ?thesis
    unfolding Let_def d_def [symmetric] base_def [symmetric] stride_def [symmetric] sonora_picture_def conj_assoc
    by (intro conjI allI impI) (assumption, (drule spec, drule spec, drule (1) mp,
      simp add: shown_frame_def Let_def d_def base_def stride_def)+)
qed

lemma sonora_frame_witness:
  "frame_width (son_frame (replicate 700000 0)
     (son_setVramOffset 0x1000 (son_writeControl 1 4 (son_writeControl 0 6 (son_reset son_init))))) = 640"
proof -
  let ?s = "son_setVramOffset 0x1000 (son_writeControl 1 4 (son_writeControl 0 6 (son_reset son_init)))"
  have "unat (son_vramOffset ?s) = 0x1000" "son_mode ?s = 6" "son_depth ?s = 4"
    by (simp_all add: son_setVramOffset_def son_writeControl_def son_reset_def)
  then show ?thesis
    using sonora_frame [of ?s "replicate 700000 0"] by (simp add: Let_def)
qed

end
