(* ===== verification/HostFiles.thy ===== *)
theory HostFiles
  imports Prelude
begin

section \<open>The host's files and clock\<close>

text \<open>
  What the devices use of Qt: \<open>QFile\<close>, \<open>QSaveFile\<close>, \<open>QFileInfo\<close>, \<open>QDir\<close> and \<open>QDateTime\<close>.  Qt is not
  part of the sources, so it is a parameter: a record of functions over a host state of any type.
  \<open>save_file\<close> is the sequence open, write, commit of a \<open>QSaveFile\<close> and answers whether all of it
  succeeded; \<open>write_at\<close> opens a \<open>QFile\<close> for reading and writing, seeks and writes; \<open>read_file\<close> is
  \<open>None\<close> where the file cannot be opened.
\<close>

record 'h host_files =
  file_exists :: "string \<Rightarrow> 'h \<Rightarrow> bool"
  read_file :: "string \<Rightarrow> 'h \<Rightarrow> u8 list option"
  is_writable :: "string \<Rightarrow> 'h \<Rightarrow> bool"
  save_file :: "string \<Rightarrow> u8 list \<Rightarrow> 'h \<Rightarrow> bool \<times> 'h"
  write_at :: "string \<Rightarrow> nat \<Rightarrow> u8 list \<Rightarrow> 'h \<Rightarrow> bool \<times> 'h"
  make_parent :: "string \<Rightarrow> 'h \<Rightarrow> bool \<times> 'h"
  absolute_path :: "string \<Rightarrow> 'h \<Rightarrow> string"
  date_time :: "'h \<Rightarrow> int \<times> int"

text \<open>A small host for examples: files in a map, every operation succeeds, the clock at noon.\<close>

definition map_host :: "(string \<rightharpoonup> u8 list) host_files" where
  "map_host = \<lparr>file_exists = (\<lambda>p w. w p \<noteq> None), read_file = (\<lambda>p w. w p), is_writable = (\<lambda>_ _. True),
     save_file = (\<lambda>p b w. (True, w(p \<mapsto> b))),
     write_at = (\<lambda>p n b w. case w p of None \<Rightarrow> (False, w)
       | Some f \<Rightarrow> (True, w(p \<mapsto> take n f @ b @ drop (n + length b) f))),
     make_parent = (\<lambda>_ w. (True, w)),
     absolute_path = (\<lambda>p _. p), date_time = (\<lambda>_. (43200, 0))\<rparr>"

lemma map_host_simps [simp]:
  "file_exists map_host p w \<longleftrightarrow> w p \<noteq> None"
  "read_file map_host p w = w p"
  "is_writable map_host p w"
  "save_file map_host p b w = (True, w(p \<mapsto> b))"
  "write_at map_host p n b w = (case w p of None \<Rightarrow> (False, w)
       | Some f \<Rightarrow> (True, w(p \<mapsto> take n f @ b @ drop (n + length b) f)))"
  "make_parent map_host p w = (True, w)"
  "absolute_path map_host p w = p"
  "date_time map_host w = (43200, 0)"
  by (simp_all add: map_host_def)



section \<open>Targets on the SCSI bus\<close>

text \<open>
  \<open>ScsiTarget.h\<close>: what the controller calls on a target, a record of functions over the states of all
  targets of a machine, and the answer to a command.  The locale states what the controller relies on.
\<close>

record ScsiCommandResult =
  result_data :: "u8 list"
  result_status :: u8
  result_message :: u8
  result_senseKey :: u8

record 't ScsiTarget =
  target_ready :: "'t \<Rightarrow> bool"
  target_selectable :: "'t \<Rightarrow> bool"
  target_executeCommand :: "u8 list \<Rightarrow> u8 list \<Rightarrow> 't \<Rightarrow> ScsiCommandResult \<times> 't"

text \<open>
  The contract: a command ends with status GOOD or CHECK CONDITION and the message COMMAND COMPLETE,
  no data follow a CHECK CONDITION, and the invariant of the target holds afterwards.
\<close>

locale scsi_contract =
  fixes target :: "'t ScsiTarget"
    and target_ok :: "'t \<Rightarrow> bool"
  assumes status: "target_ok t \<Longrightarrow> result_status (fst (target_executeCommand target cdb out t)) \<in> {0, 2}"
    and message: "target_ok t \<Longrightarrow> result_message (fst (target_executeCommand target cdb out t)) = 0"
    and no_data: "target_ok t \<Longrightarrow> result_status (fst (target_executeCommand target cdb out t)) = 2 \<Longrightarrow>
      result_data (fst (target_executeCommand target cdb out t)) = []"
    and invariant: "target_ok t \<Longrightarrow> target_ok (snd (target_executeCommand target cdb out t))"

end
