(* ===== verification/Ncr53c94.thy ===== *)
theory Ncr53c94
  imports HostFiles
begin

section \<open>The SCSI controller NCR 53C94\<close>

text \<open>
  \<open>Ncr53c94.cpp\<close>: the controller of the Quadra, which runs whole phases of the bus from a FIFO of command
  bytes, a transfer count and a DMA port.  Targets are objects with a number, as for the NCR 5380.
\<close>

unbundle bit_operations_syntax

definition terminalCount :: u8 where "terminalCount = 0x10"
definition interruptPending :: u8 where "interruptPending = 0x80"
definition interruptReset :: u8 where "interruptReset = 0x80"
definition interruptDisconnected :: u8 where "interruptDisconnected = 0x20"
definition interruptService :: u8 where "interruptService = 0x10"
definition interruptSuccess :: u8 where "interruptSuccess = 0x08"
definition busResetDelayCycles :: u32 where "busResetDelayCycles = 130"

lemmas n96_constants = terminalCount_def interruptPending_def interruptReset_def interruptDisconnected_def
  interruptService_def interruptSuccess_def busResetDelayCycles_def

record 't ncr96 =
  n96_targets :: "u8 \<Rightarrow> nat option"
  n96_objects :: "nat \<Rightarrow> 't"
  n96_registers :: "u8 \<Rightarrow> u8"
  n96_fifo :: "u8 list"
  n96_cdb :: "u8 list"
  n96_data :: "u8 list"
  n96_dataOut :: "u8 list"
  n96_dataPosition :: nat
  n96_startTransferCount :: u32
  n96_transferCount :: u32
  n96_targetId :: u8
  n96_status :: u8
  n96_interruptStatus :: u8
  n96_sequenceStep :: u8
  n96_scsiStatus :: u8
  n96_message :: u8
  n96_dataIn :: bool
  n96_dataOutPhase :: bool
  n96_commandPhase :: bool
  n96_dmaActive :: bool
  n96_busResetCycles :: u32
  n96_controllerCommandCounts :: "u8 \<Rightarrow> u64"
  n96_scsiCommandCounts :: "u8 \<Rightarrow> u64"

definition n96_init :: "(nat \<Rightarrow> 't) \<Rightarrow> 't ncr96" where
  "n96_init objects =
    \<lparr>n96_targets = (\<lambda>_. None), n96_objects = objects, n96_registers = (\<lambda>_. 0), n96_fifo = [], n96_cdb = [],
     n96_data = [], n96_dataOut = [], n96_dataPosition = 0, n96_startTransferCount = 0, n96_transferCount = 0,
     n96_targetId = 0, n96_status = 0, n96_interruptStatus = 0, n96_sequenceStep = 0, n96_scsiStatus = 0,
     n96_message = 0, n96_dataIn = False, n96_dataOutPhase = False, n96_commandPhase = False,
     n96_dmaActive = False, n96_busResetCycles = 0, n96_controllerCommandCounts = (\<lambda>_. 0),
     n96_scsiCommandCounts = (\<lambda>_. 0)\<rparr>"

definition n96_reset :: "'t ncr96 \<Rightarrow> 't ncr96" where
  "n96_reset s = (n96_init (n96_objects s))\<lparr>n96_targets := n96_targets s\<rparr>"

definition n96_attachTarget :: "u8 \<Rightarrow> nat \<Rightarrow> 't ncr96 \<Rightarrow> 't ncr96" where
  "n96_attachTarget i object s = (if i < 8 then s\<lparr>n96_targets := (n96_targets s)(i := Some object)\<rparr> else s)"

definition n96_detachTarget :: "u8 \<Rightarrow> 't ncr96 \<Rightarrow> 't ncr96" where
  "n96_detachTarget i s = (if i < 8 then s\<lparr>n96_targets := (n96_targets s)(i := None)\<rparr> else s)"

definition n96_interruptActive :: "'t ncr96 \<Rightarrow> bool" where
  "n96_interruptActive s \<longleftrightarrow> n96_status s AND 0x80 \<noteq> 0"

definition n96_dmaRequest :: "'t ncr96 \<Rightarrow> bool" where
  "n96_dmaRequest s \<longleftrightarrow> n96_dmaActive s \<and> n96_transferCount s \<noteq> 0 \<and>
     (n96_dataIn s \<or> n96_dataOutPhase s \<or> n96_commandPhase s)"

subsection \<open>Reading a register\<close>

definition n96_readRegister :: "u8 \<Rightarrow> 't ncr96 \<Rightarrow> u8 \<times> 't ncr96" where
  "n96_readRegister index s =
    (let index = index AND 15
     in if index = 0 then (ucast (n96_transferCount s), s)
        else if index = 1 then (ucast (drop_bit 8 (n96_transferCount s)), s)
        else if index = 2 then
          (if n96_fifo s = [] then (0, s)
           else let v = hd (n96_fifo s); s = s\<lparr>n96_fifo := tl (n96_fifo s)\<rparr>
                in (v, if n96_dmaActive s \<and> n96_transferCount s \<noteq> 0
                       then s\<lparr>n96_transferCount := n96_transferCount s - 1\<rparr> else s))
        else if index = 3 then (n96_registers s 3, s)
        else if index = 4 then (n96_status s, s)
        else if index = 5 then
          (n96_interruptStatus s,
           s\<lparr>n96_interruptStatus := 0, n96_sequenceStep := 0, n96_status := n96_status s AND 0x1f\<rparr>)
        else if index = 6 then (n96_sequenceStep s, s)
        else if index = 7 then
          (if n96_dmaActive s \<and> n96_dataIn s \<and> n96_dataPosition s < length (n96_data s)
           then (of_nat (min 16 (min (unat (n96_transferCount s)) (length (n96_data s) - n96_dataPosition s))), s)
           else (of_nat (length (n96_fifo s)) AND 0x1f, s))
        else if index = 8 \<or> index = 0xb \<or> index = 0xc \<or> index = 0xd then (n96_registers s index, s)
        else if index = 0xe then (ucast (drop_bit 16 (n96_transferCount s)), s)
        else (0, s))"

subsection \<open>Commands to the target\<close>

definition n96_raiseInterrupt :: "u8 \<Rightarrow> 't ncr96 \<Rightarrow> 't ncr96" where
  "n96_raiseInterrupt cause s =
     s\<lparr>n96_interruptStatus := cause, n96_status := n96_status s OR interruptPending\<rparr>"

definition n96_tick :: "u32 \<Rightarrow> 't ncr96 \<Rightarrow> 't ncr96" where
  "n96_tick controllerCycles s =
    (if n96_busResetCycles s = 0 then s
     else if controllerCycles < n96_busResetCycles s
     then s\<lparr>n96_busResetCycles := n96_busResetCycles s - controllerCycles\<rparr>
     else let s = s\<lparr>n96_busResetCycles := 0\<rparr>
          in if n96_registers s 8 AND 0x40 = 0 then n96_raiseInterrupt interruptReset s else s)"

definition n96_commandLength :: "u8 \<Rightarrow> nat" where
  "n96_commandLength opcode =
    (let g = drop_bit 5 opcode
     in if g = 0 then 6 else if g = 1 \<or> g = 2 then 10 else if g = 5 then 12 else 6)"

definition n96_target :: "'t ScsiTarget \<Rightarrow> 't ncr96 \<Rightarrow> nat option" where
  "n96_target target s =
    (case n96_targets s (n96_targetId s) of
       None \<Rightarrow> None
     | Some n \<Rightarrow> if target_selectable target (n96_objects s n) then Some n else None)"

definition n96_run :: "'t ScsiTarget \<Rightarrow> nat \<Rightarrow> u8 list \<Rightarrow> u8 list \<Rightarrow> 't ncr96 \<Rightarrow> ScsiCommandResult \<times> 't ncr96" where
  "n96_run target n cdb out s =
    (let (result, t) = target_executeCommand target cdb out (n96_objects s n)
     in (result, s\<lparr>n96_objects := (n96_objects s)(n := t)\<rparr>))"

definition n96_executeCdb :: "'t ScsiTarget \<Rightarrow> 't ncr96 \<Rightarrow> 't ncr96" where
  "n96_executeCdb target s =
    (case n96_target target s of
       None \<Rightarrow> n96_raiseInterrupt interruptDisconnected (s\<lparr>n96_fifo := []\<rparr>)
     | Some n \<Rightarrow>
         if n96_cdb s = [] \<and> n96_fifo s = [] then s
         else
           let s = (if n96_cdb s = []
                    then let len = min (n96_commandLength (hd (n96_fifo s))) (length (n96_fifo s))
                         in s\<lparr>n96_cdb := take len (n96_fifo s), n96_fifo := drop len (n96_fifo s)\<rparr>
                    else s);
               opcode = hd (n96_cdb s);
               s = s\<lparr>n96_scsiCommandCounts := (n96_scsiCommandCounts s)(opcode := n96_scsiCommandCounts s opcode + 1),
                     n96_transferCount := 0, n96_dmaActive := False,
                     n96_dataOutPhase := (opcode = 0x0a \<or> opcode = 0x2a \<or> opcode = 0x15)\<rparr>;
               s = (if n96_dataOutPhase s
                    then s\<lparr>n96_dataOut := [], n96_data := [], n96_dataPosition := 0, n96_dataIn := False\<rparr>
                    else let (result, s) = n96_run target n (n96_cdb s) [] s
                         in s\<lparr>n96_data := result_data result, n96_dataPosition := 0,
                              n96_scsiStatus := result_status result, n96_message := result_message result,
                              n96_dataIn := (result_data result \<noteq> [])\<rparr>)
           in n96_raiseInterrupt (interruptService OR interruptSuccess)
                (s\<lparr>n96_sequenceStep := 4,
                   n96_status := (n96_status s AND 0xe8) OR
                     (if n96_dataIn s then 1 else if n96_dataOutPhase s then 0 else 3)\<rparr>))"

definition n96_selectTarget :: "'t ScsiTarget \<Rightarrow> 't ncr96 \<Rightarrow> 't ncr96" where
  "n96_selectTarget target s =
    (if n96_target target s = None then n96_raiseInterrupt interruptDisconnected (s\<lparr>n96_fifo := []\<rparr>)
     else
       let s = s\<lparr>n96_cdb := []\<rparr>;
           s = (if n96_fifo s \<noteq> [] \<and> hd (n96_fifo s) AND 0x80 \<noteq> 0 then s\<lparr>n96_fifo := tl (n96_fifo s)\<rparr> else s)
       in if n96_fifo s = []
          then s\<lparr>n96_commandPhase := True, n96_sequenceStep := 2, n96_status := (n96_status s AND 0xf8) OR 2\<rparr>
          else n96_executeCdb target s)"

text \<open>The loop ends when a command runs: that leaves the command phase.\<close>

function n96_consumeCommandFifo :: "'t ScsiTarget \<Rightarrow> 't ncr96 \<Rightarrow> 't ncr96" where
  "n96_consumeCommandFifo target s =
    (if \<not> n96_commandPhase s \<or> n96_fifo s = [] then s
     else let v = hd (n96_fifo s); s = s\<lparr>n96_fifo := tl (n96_fifo s)\<rparr>
          in if n96_cdb s = [] \<and> v AND 0x80 \<noteq> 0 then n96_consumeCommandFifo target s
             else let s = s\<lparr>n96_cdb := n96_cdb s @ [v]\<rparr>
                  in if n96_commandLength (hd (n96_cdb s)) \<le> length (n96_cdb s)
                     then n96_executeCdb target (s\<lparr>n96_commandPhase := False\<rparr>)
                     else n96_consumeCommandFifo target s)"
  by pat_completeness auto
termination
  by (relation "measure (\<lambda>(target, s). length (n96_fifo s))") auto

declare n96_consumeCommandFifo.simps [simp del]

definition n96_no_result :: ScsiCommandResult where
  "n96_no_result = \<lparr>result_data = [], result_status = 0, result_message = 0, result_senseKey = 0\<rparr>"

definition n96_completeTransfer :: "'t ScsiTarget \<Rightarrow> 't ncr96 \<Rightarrow> 't ncr96" where
  "n96_completeTransfer target s =
    (let s = s\<lparr>n96_transferCount := 0, n96_dmaActive := False, n96_status := n96_status s OR terminalCount\<rparr>
     in if n96_commandPhase s then
          (if n96_fifo s \<noteq> [] \<and> n96_commandLength (hd (n96_fifo s)) \<le> length (n96_fifo s)
           then n96_selectTarget target (s\<lparr>n96_commandPhase := False\<rparr>)
           else n96_raiseInterrupt interruptService (s\<lparr>n96_status := (n96_status s AND 0xf8) OR 2\<rparr>))
        else
          let s = (if n96_dataOutPhase s
                   then let (result, s) = (case n96_targets s (n96_targetId s) of
                                             None \<Rightarrow> (n96_no_result, s)
                                           | Some n \<Rightarrow> n96_run target n (n96_cdb s) (n96_dataOut s) s)
                        in s\<lparr>n96_scsiStatus := result_status result, n96_message := result_message result,
                             n96_dataOutPhase := False\<rparr>
                   else s)
          in n96_raiseInterrupt interruptService
               (s\<lparr>n96_dataIn := False, n96_status := (n96_status s AND 0xf8) OR 3\<rparr>))"

subsection \<open>Commands to the controller\<close>

definition start_count :: "'t ncr96 \<Rightarrow> u32" where
  "start_count s = (if n96_startTransferCount s \<noteq> 0 then n96_startTransferCount s else 0x10000)"

definition transfer_information :: "'t ScsiTarget \<Rightarrow> bool \<Rightarrow> 't ncr96 \<Rightarrow> 't ncr96" where
  "transfer_information target dma s =
    (if n96_commandPhase s \<and> \<not> dma \<and> n96_fifo s \<noteq> [] \<and> n96_commandLength (hd (n96_fifo s)) \<le> length (n96_fifo s)
     then n96_executeCdb target (s\<lparr>n96_commandPhase := False\<rparr>)
     else if n96_dataIn s \<and> \<not> dma
     then let s = s\<lparr>n96_fifo := take 1 (drop (n96_dataPosition s) (n96_data s)),
                    n96_dataPosition := n96_dataPosition s + min 1 (length (n96_data s) - n96_dataPosition s),
                    n96_dmaActive := False\<rparr>;
              lastByte = (length (n96_data s) \<le> n96_dataPosition s)
          in n96_raiseInterrupt interruptService
               (s\<lparr>n96_status := (n96_status s AND 0xe8) OR (if lastByte then 3 else 1),
                  n96_dataIn := n96_dataIn s \<and> \<not> lastByte\<rparr>)
     else let s = s\<lparr>n96_transferCount := (if dma then start_count s else 0), n96_dmaActive := dma,
                    n96_status := n96_status s AND NOT terminalCount\<rparr>
          in if dma \<and> n96_dataIn s then s\<lparr>n96_status := n96_status s OR terminalCount\<rparr> else s)"

definition n96_executeCommand :: "'t ScsiTarget \<Rightarrow> u8 \<Rightarrow> 't ncr96 \<Rightarrow> 't ncr96" where
  "n96_executeCommand target command s =
    (let k = command AND 0x7f;
         s = s\<lparr>n96_controllerCommandCounts := (n96_controllerCommandCounts s)(k := n96_controllerCommandCounts s k + 1)\<rparr>;
         dma = (command AND 0x80 \<noteq> 0)
     in if k = 0x01 then s\<lparr>n96_fifo := []\<rparr>
        else if k = 0x02 then n96_reset s
        else if k = 0x03 then s\<lparr>n96_busResetCycles := busResetDelayCycles\<rparr>
        else if k = 0x10 then transfer_information target dma s
        else if k = 0x11 then
          n96_raiseInterrupt interruptSuccess
            (s\<lparr>n96_fifo := [n96_scsiStatus s, n96_message s], n96_status := (n96_status s AND 0xf8) OR 7\<rparr>)
        else if k = 0x12 then
          n96_raiseInterrupt interruptDisconnected
            (s\<lparr>n96_fifo := [], n96_data := [], n96_dataOut := [], n96_status := n96_status s AND 0xf8\<rparr>)
        else if k = 0x41 \<or> k = 0x42 \<or> k = 0x43 then
          (let s = n96_selectTarget target s
           in if dma \<and> n96_commandPhase s then s\<lparr>n96_transferCount := start_count s, n96_dmaActive := True\<rparr> else s)
        else s)"

definition n96_writeRegister :: "'t ScsiTarget \<Rightarrow> u8 \<Rightarrow> u8 \<Rightarrow> 't ncr96 \<Rightarrow> 't ncr96" where
  "n96_writeRegister target index v s =
    (let index = index AND 15;
         put = s\<lparr>n96_registers := (n96_registers s)(index := v)\<rparr>
     in if index = 0 then s\<lparr>n96_startTransferCount := (n96_startTransferCount s AND 0xffff00) OR ucast v\<rparr>
        else if index = 1
        then s\<lparr>n96_startTransferCount := (n96_startTransferCount s AND 0xff00ff) OR push_bit 8 (ucast v)\<rparr>
        else if index = 2 then
          (let s = (if length (n96_fifo s) < 16 then s\<lparr>n96_fifo := n96_fifo s @ [v]\<rparr> else s)
           in if n96_commandPhase s \<and> n96_dmaActive s then n96_consumeCommandFifo target s else s)
        else if index = 3 then n96_executeCommand target v put
        else if index = 4 then s\<lparr>n96_targetId := v AND 7\<rparr>
        else if index = 0xe
        then s\<lparr>n96_startTransferCount := (n96_startTransferCount s AND 0x00ffff) OR push_bit 16 (ucast v)\<rparr>
        else put)"

subsection \<open>The DMA port\<close>

definition n96_readDmaByte :: "'t ScsiTarget \<Rightarrow> 't ncr96 \<Rightarrow> u8 \<times> 't ncr96" where
  "n96_readDmaByte target s =
    (let (v, s) = (if n96_dataPosition s < length (n96_data s)
                   then (n96_data s ! n96_dataPosition s, s\<lparr>n96_dataPosition := n96_dataPosition s + 1\<rparr>) else (0, s));
         s = (if n96_transferCount s \<noteq> 0 then s\<lparr>n96_transferCount := n96_transferCount s - 1\<rparr> else s)
     in (v, if length (n96_data s) \<le> n96_dataPosition s then n96_completeTransfer target s
            else if n96_transferCount s = 0
            then n96_raiseInterrupt interruptService
                   (s\<lparr>n96_dmaActive := False, n96_status := n96_status s OR terminalCount\<rparr>)
            else s))"

definition n96_writeDmaByte :: "'t ScsiTarget \<Rightarrow> u8 \<Rightarrow> 't ncr96 \<Rightarrow> 't ncr96" where
  "n96_writeDmaByte target v s =
    (let wasCommandPhase = n96_commandPhase s;
         s = (if n96_commandPhase s
              then n96_consumeCommandFifo target (if length (n96_fifo s) < 16 then s\<lparr>n96_fifo := n96_fifo s @ [v]\<rparr> else s)
              else s\<lparr>n96_dataOut := n96_dataOut s @ [v]\<rparr>);
         s = (if n96_transferCount s \<noteq> 0 then s\<lparr>n96_transferCount := n96_transferCount s - 1\<rparr> else s)
     in if n96_transferCount s \<noteq> 0 then s
        else if wasCommandPhase
        then let s = s\<lparr>n96_dmaActive := False, n96_status := n96_status s OR terminalCount\<rparr>
             in if n96_commandPhase s then n96_raiseInterrupt interruptService s else s
        else n96_completeTransfer target s)"

text \<open>A word takes two bytes of the port; the source leaves their order open, here the high one is first.\<close>

definition n96_readDmaWord :: "'t ScsiTarget \<Rightarrow> 't ncr96 \<Rightarrow> u16 \<times> 't ncr96" where
  "n96_readDmaWord target s =
    (let (hi, s) = n96_readDmaByte target s; (lo, s) = n96_readDmaByte target s
     in (push_bit 8 (ucast hi) OR ucast lo, s))"

definition n96_writeDmaWord :: "'t ScsiTarget \<Rightarrow> u16 \<Rightarrow> 't ncr96 \<Rightarrow> 't ncr96" where
  "n96_writeDmaWord target v s =
     n96_writeDmaByte target (ucast v) (n96_writeDmaByte target (ucast (drop_bit 8 v)) s)"



section \<open>A command through the 53C94\<close>

text \<open>
  The host writes the command into the FIFO, selects the target, reads the data through the DMA port and
  asks for status and message.  That amounts to one execution of the command by the target.
\<close>

unbundle bit_operations_syntax

fun dma_reads :: "'t ScsiTarget \<Rightarrow> nat \<Rightarrow> 't ncr96 \<Rightarrow> u8 list \<times> 't ncr96" where
  "dma_reads target 0 s = ([], s)"
| "dma_reads target (Suc k) s =
    (let (v, s) = n96_readDmaByte target s; (vs, s) = dma_reads target k s in (v # vs, s))"

definition send_command :: "'t ScsiTarget \<Rightarrow> u8 list \<Rightarrow> 't ncr96 \<Rightarrow> 't ncr96" where
  "send_command target cdb s = n96_writeRegister target 3 0x41 (fold (n96_writeRegister target 2) cdb s)"

definition read_data :: "'t ScsiTarget \<Rightarrow> nat \<Rightarrow> 't ncr96 \<Rightarrow> u8 list \<times> 't ncr96" where
  "read_data target k s = (if k = 0 then ([], s) else dma_reads target k (n96_writeRegister target 3 0x90 s))"

definition write_data :: "'t ScsiTarget \<Rightarrow> u8 list \<Rightarrow> 't ncr96 \<Rightarrow> 't ncr96" where
  "write_data target out s = fold (n96_writeDmaByte target) out (n96_writeRegister target 3 0x90 s)"

definition read_status :: "'t ScsiTarget \<Rightarrow> 't ncr96 \<Rightarrow> u8 \<times> u8 \<times> 't ncr96" where
  "read_status target s =
    (let (status, s) = n96_readRegister 2 (n96_writeRegister target 3 0x11 s); (message, s) = n96_readRegister 2 s
     in (status, message, s))"

lemma fifo_writes:
  assumes "length (n96_fifo s) + length bs \<le> 16" and "\<not> n96_commandPhase s"
  shows "fold (n96_writeRegister target 2) bs s = s\<lparr>n96_fifo := n96_fifo s @ bs\<rparr>"
  using assms by (induction bs arbitrary: s) (simp_all add: n96_writeRegister_def)

lemma target_fields [simp]:
  "n96_target target (s\<lparr>n96_fifo := a\<rparr>) = n96_target target s" "n96_target target (s\<lparr>n96_cdb := a\<rparr>) = n96_target target s"
  "n96_target target (s\<lparr>n96_registers := f\<rparr>) = n96_target target s"
  "n96_target target (s\<lparr>n96_controllerCommandCounts := g\<rparr>) = n96_target target s"
  by (simp_all add: n96_target_def split: option.split)

lemma interrupt_raised: "n96_interruptActive (n96_raiseInterrupt cause s)"
  by (simp add: n96_interruptActive_def n96_raiseInterrupt_def n96_constants word_ao_absorbs)

lemma command_length_bounds: "6 \<le> n96_commandLength v" "n96_commandLength v \<le> 12"
  by (simp_all add: n96_commandLength_def Let_def)

text \<open>The data bytes come in order, and the last one ends the transfer.\<close>

definition in_transfer :: "'t ncr96 \<Rightarrow> bool" where
  "in_transfer s \<longleftrightarrow> n96_dataIn s \<and> \<not> n96_commandPhase s \<and> \<not> n96_dataOutPhase s \<and>
     length (n96_data s) \<le> unat (n96_transferCount s) + n96_dataPosition s"

lemma dma_byte:
  assumes "in_transfer s" and "n96_dataPosition s < length (n96_data s)"
  shows "fst (n96_readDmaByte target s) = n96_data s ! n96_dataPosition s"
    and "n96_dataPosition s + 1 < length (n96_data s) \<Longrightarrow> in_transfer (snd (n96_readDmaByte target s))"
    and "n96_data (snd (n96_readDmaByte target s)) = n96_data s"
    and "n96_dataPosition (snd (n96_readDmaByte target s)) = n96_dataPosition s + 1"
    and "n96_objects (snd (n96_readDmaByte target s)) = n96_objects s"
    and "n96_scsiStatus (snd (n96_readDmaByte target s)) = n96_scsiStatus s"
    and "n96_message (snd (n96_readDmaByte target s)) = n96_message s"
    and "n96_dataPosition s + 1 = length (n96_data s) \<Longrightarrow> \<not> n96_dataIn (snd (n96_readDmaByte target s)) \<and>
      \<not> n96_dmaActive (snd (n96_readDmaByte target s)) \<and> n96_interruptActive (snd (n96_readDmaByte target s))"
proof -
  have c1: "n96_transferCount s \<noteq> 0"
    using assms by (auto simp: in_transfer_def)
  then have c: "n96_transferCount s \<noteq> 0" "unat (n96_transferCount s - 1) = unat (n96_transferCount s) - 1"
    by (simp_all add: unat_minus_one)
  have z: "unat (n96_transferCount s - 1) \<noteq> 0" if "n96_dataPosition s + 1 < length (n96_data s)"
    using that assms c by (auto simp: in_transfer_def)
  then have z: "n96_transferCount s - 1 \<noteq> 0" if "n96_dataPosition s + 1 < length (n96_data s)"
    using that by (metis unat_0)
  note d = n96_readDmaByte_def n96_completeTransfer_def n96_raiseInterrupt_def Let_def in_transfer_def
  show "fst (n96_readDmaByte target s) = n96_data s ! n96_dataPosition s"
    "n96_data (snd (n96_readDmaByte target s)) = n96_data s"
    "n96_dataPosition (snd (n96_readDmaByte target s)) = n96_dataPosition s + 1"
    "n96_objects (snd (n96_readDmaByte target s)) = n96_objects s"
    "n96_scsiStatus (snd (n96_readDmaByte target s)) = n96_scsiStatus s"
    "n96_message (snd (n96_readDmaByte target s)) = n96_message s"
    using assms c by (simp_all add: d)
  show "in_transfer (snd (n96_readDmaByte target s))" if "n96_dataPosition s + 1 < length (n96_data s)"
    using assms c z [OF that] that by (simp add: d)
  show "\<not> n96_dataIn (snd (n96_readDmaByte target s)) \<and> \<not> n96_dmaActive (snd (n96_readDmaByte target s)) \<and>
      n96_interruptActive (snd (n96_readDmaByte target s))" if "n96_dataPosition s + 1 = length (n96_data s)"
    using assms c that by (simp add: n96_readDmaByte_def n96_completeTransfer_def Let_def in_transfer_def interrupt_raised)
    (simp add: n96_raiseInterrupt_def)
qed

lemma dma_transfer:
  assumes "in_transfer s" and "n96_dataPosition s + k = length (n96_data s)" and "0 < k"
  shows "fst (dma_reads target k s) = drop (n96_dataPosition s) (n96_data s) \<and>
    n96_objects (snd (dma_reads target k s)) = n96_objects s \<and>
    n96_scsiStatus (snd (dma_reads target k s)) = n96_scsiStatus s \<and>
    n96_message (snd (dma_reads target k s)) = n96_message s \<and>
    \<not> n96_dmaActive (snd (dma_reads target k s)) \<and> n96_interruptActive (snd (dma_reads target k s))"
  using assms
proof (induction k arbitrary: s)
  case (Suc k)
  then have p: "n96_dataPosition s < length (n96_data s)"
    by simp
  note b = dma_byte [OF Suc.prems(1) p, of target]
  show ?case
  proof (cases "k = 0")
    case True
    then show ?thesis
      using Suc.prems b by (simp add: split_beta Let_def Cons_nth_drop_Suc [symmetric])
  next
    case False
    then show ?thesis
      using Suc.prems b Suc.IH [of "snd (n96_readDmaByte target s)"] p
      by (simp add: split_beta Let_def Cons_nth_drop_Suc [symmetric])
  qed
qed simp

text \<open>Data bytes to the target are collected, and the last one of the programmed count completes the transfer.\<close>

lemma dma_writes:
  assumes "n96_dataOutPhase s" and "\<not> n96_commandPhase s" and "out \<noteq> []"
    and "unat (n96_transferCount s) = length out"
  shows "fold (n96_writeDmaByte target) out s =
    n96_completeTransfer target (s\<lparr>n96_dataOut := n96_dataOut s @ out, n96_transferCount := 0\<rparr>)"
  using assms
proof (induction out arbitrary: s)
  case (Cons v out)
  have c: "n96_transferCount s \<noteq> 0"
    using Cons.prems(4) by auto
  then have less: "unat (n96_transferCount s - 1) = length out"
    using Cons.prems(4) by (simp add: unat_minus_one)
  show ?case
  proof (cases "out = []")
    case True
    with less have "n96_transferCount s - 1 = 0" by (simp add: unat_eq_0)
    with True Cons.prems c show ?thesis
      by (simp add: n96_writeDmaByte_def Let_def)
  next
    case False
    with less have z: "n96_transferCount s - 1 \<noteq> 0" by auto
    define u where "u = s\<lparr>n96_dataOut := n96_dataOut s @ [v], n96_transferCount := n96_transferCount s - 1\<rparr>"
    have "n96_writeDmaByte target v s = u"
      using Cons.prems c z by (simp add: n96_writeDmaByte_def Let_def u_def)
    moreover have "fold (n96_writeDmaByte target) out u =
        n96_completeTransfer target (u\<lparr>n96_dataOut := n96_dataOut u @ out, n96_transferCount := 0\<rparr>)"
      using Cons.prems False less by (intro Cons.IH) (simp_all add: u_def)
    ultimately show ?thesis
      by (simp add: u_def)
  qed
qed simp

text \<open>The state after the command bytes of a command with data to the target, and of any other command.\<close>

lemma command_sent:
  assumes "n96_target target s = Some n" and "n96_fifo s = []" and "\<not> n96_commandPhase s"
    and "cdb \<noteq> []" and "length cdb = n96_commandLength (hd cdb)" and "hd cdb AND 0x80 = 0"
  shows "n96_interruptActive (send_command target cdb s)" "\<not> n96_commandPhase (send_command target cdb s)"
    "n96_startTransferCount (send_command target cdb s) = n96_startTransferCount s"
    "\<not> n96_dmaActive (send_command target cdb s)" "n96_targets (send_command target cdb s) = n96_targets s"
    "n96_targetId (send_command target cdb s) = n96_targetId s" "n96_dataPosition (send_command target cdb s) = 0"
    "n96_cdb (send_command target cdb s) = cdb"
    "hd cdb \<in> {0x0a, 0x2a, 0x15} \<Longrightarrow> n96_dataOutPhase (send_command target cdb s) \<and>
       \<not> n96_dataIn (send_command target cdb s) \<and> n96_dataOut (send_command target cdb s) = [] \<and>
       n96_objects (send_command target cdb s) = n96_objects s"
    "hd cdb \<notin> {0x0a, 0x2a, 0x15} \<Longrightarrow> target_executeCommand target cdb [] (n96_objects s n) = (r, t) \<Longrightarrow>
       n96_objects (send_command target cdb s) = (n96_objects s)(n := t) \<and>
       n96_data (send_command target cdb s) = result_data r \<and>
       n96_scsiStatus (send_command target cdb s) = result_status r \<and>
       n96_message (send_command target cdb s) = result_message r \<and>
       n96_dataIn (send_command target cdb s) = (result_data r \<noteq> []) \<and> \<not> n96_dataOutPhase (send_command target cdb s)"
proof -
  have "length cdb \<le> 12"
    using assms(5) command_length_bounds by simp
  then have f: "fold (n96_writeRegister target 2) cdb s = s\<lparr>n96_fifo := cdb\<rparr>"
    using fifo_writes [of s cdb target] assms by simp
  note d = n96_writeRegister_def n96_executeCommand_def n96_selectTarget_def n96_executeCdb_def n96_run_def
    n96_raiseInterrupt_def n96_interruptActive_def n96_constants Let_def word_ao_dist
  show "n96_interruptActive (send_command target cdb s)" "\<not> n96_commandPhase (send_command target cdb s)"
    "n96_startTransferCount (send_command target cdb s) = n96_startTransferCount s"
    "\<not> n96_dmaActive (send_command target cdb s)" "n96_targets (send_command target cdb s) = n96_targets s"
    "n96_targetId (send_command target cdb s) = n96_targetId s" "n96_dataPosition (send_command target cdb s) = 0"
    "n96_cdb (send_command target cdb s) = cdb"
    unfolding send_command_def f using assms by (simp_all add: d split_beta)
  show "hd cdb \<in> {0x0a, 0x2a, 0x15} \<Longrightarrow> n96_dataOutPhase (send_command target cdb s) \<and>
       \<not> n96_dataIn (send_command target cdb s) \<and> n96_dataOut (send_command target cdb s) = [] \<and>
       n96_objects (send_command target cdb s) = n96_objects s"
    unfolding send_command_def f using assms by (auto simp: d)
  show "hd cdb \<notin> {0x0a, 0x2a, 0x15} \<Longrightarrow> target_executeCommand target cdb [] (n96_objects s n) = (r, t) \<Longrightarrow>
       n96_objects (send_command target cdb s) = (n96_objects s)(n := t) \<and>
       n96_data (send_command target cdb s) = result_data r \<and>
       n96_scsiStatus (send_command target cdb s) = result_status r \<and>
       n96_message (send_command target cdb s) = result_message r \<and>
       n96_dataIn (send_command target cdb s) = (result_data r \<noteq> []) \<and> \<not> n96_dataOutPhase (send_command target cdb s)"
    unfolding send_command_def f using assms by (simp add: d)
qed

lemma transfer_started:
  "n96_dataPosition (n96_writeRegister target 3 0x90 s) = n96_dataPosition s"
  "n96_data (n96_writeRegister target 3 0x90 s) = n96_data s" "n96_cdb (n96_writeRegister target 3 0x90 s) = n96_cdb s"
  "n96_objects (n96_writeRegister target 3 0x90 s) = n96_objects s" "n96_targets (n96_writeRegister target 3 0x90 s) = n96_targets s"
  "n96_targetId (n96_writeRegister target 3 0x90 s) = n96_targetId s" "n96_dataIn (n96_writeRegister target 3 0x90 s) = n96_dataIn s"
  "n96_dataOutPhase (n96_writeRegister target 3 0x90 s) = n96_dataOutPhase s"
  "n96_commandPhase (n96_writeRegister target 3 0x90 s) = n96_commandPhase s"
  "n96_dataOut (n96_writeRegister target 3 0x90 s) = n96_dataOut s"
  "n96_transferCount (n96_writeRegister target 3 0x90 s) = start_count s"
  "n96_scsiStatus (n96_writeRegister target 3 0x90 s) = n96_scsiStatus s"
  "n96_message (n96_writeRegister target 3 0x90 s) = n96_message s"
  by (simp_all add: n96_writeRegister_def n96_executeCommand_def transfer_information_def start_count_def Let_def)

lemma status_read:
  "fst (read_status target s) = n96_scsiStatus s" "fst (snd (read_status target s)) = n96_message s"
  "n96_objects (snd (snd (read_status target s))) = n96_objects s"
  if "\<not> n96_dmaActive s"
  using that
  by (simp_all add: read_status_def n96_writeRegister_def n96_executeCommand_def n96_raiseInterrupt_def
      n96_readRegister_def Let_def)

lemma data_read:
  assumes "\<not> n96_commandPhase s" and "\<not> n96_dataOutPhase s" and "\<not> n96_dmaActive s" and "n96_dataPosition s = 0"
    and "n96_dataIn s = (n96_data s \<noteq> [])" and "length (n96_data s) \<le> unat (start_count s)"
    and "read_data target (length (n96_data s)) s = (bytes, u)"
  shows "bytes = n96_data s \<and> n96_objects u = n96_objects s \<and> n96_scsiStatus u = n96_scsiStatus s \<and>
    n96_message u = n96_message s \<and> \<not> n96_dmaActive u"
proof (cases "n96_data s = []")
  case True
  with assms show ?thesis by (auto simp: read_data_def)
next
  case False
  have "in_transfer (n96_writeRegister target 3 0x90 s)"
    using assms False by (simp add: in_transfer_def transfer_started)
  with dma_transfer [of "n96_writeRegister target 3 0x90 s" "length (n96_data s)" target] assms False
  show ?thesis
    by (auto simp: read_data_def transfer_started)
qed

lemma data_written:
  assumes "\<not> n96_commandPhase s" and "n96_dataOutPhase s" and "n96_dataOut s = []" and "n96_targets s (n96_targetId s) = Some n"
    and "out \<noteq> []" and "length out = unat (start_count s)"
    and "target_executeCommand target (n96_cdb s) out (n96_objects s n) = (r, t)"
  shows "n96_objects (write_data target out s) = (n96_objects s)(n := t) \<and>
    n96_scsiStatus (write_data target out s) = result_status r \<and>
    n96_message (write_data target out s) = result_message r \<and> \<not> n96_dmaActive (write_data target out s) \<and>
    n96_interruptActive (write_data target out s)"
proof -
  have "write_data target out s = n96_completeTransfer target (n96_writeRegister target 3 0x90 s
      \<lparr>n96_dataOut := n96_dataOut (n96_writeRegister target 3 0x90 s) @ out, n96_transferCount := 0\<rparr>)"
    unfolding write_data_def by (rule dma_writes) (use assms in \<open>simp_all add: transfer_started\<close>)
  then show ?thesis
    using assms
    by (simp add: n96_completeTransfer_def n96_run_def transfer_started Let_def interrupt_raised)
       (simp add: n96_raiseInterrupt_def transfer_started)
qed


definition echo_target :: "u8 ScsiTarget" where
  "echo_target = \<lparr>target_ready = (\<lambda>_. True), target_selectable = (\<lambda>_. True),
     target_executeCommand = (\<lambda>cdb out t. (\<lparr>result_data = cdb, result_status = t, result_message = 0, result_senseKey = 0\<rparr>, t + 1))\<rparr>"

definition sample_ncr96 :: "u8 ncr96" where
  "sample_ncr96 = n96_attachTarget 0 5 (n96_init (\<lambda>_. 2))"


end
