(* ===== verification/DafbVideo.thy ===== *)
theory DafbVideo
  imports SonoraVideo Ncr53c94
begin

section \<open>The DAFB video controller\<close>

text \<open>
  \<open>DafbVideo.cpp\<close>: the registers of the controller, of its timing generator Swatch and of the RAMDAC, the
  video memory, the two SCSI controllers behind it and the frame it displays.  It holds the SCSI controllers
  it is attached to; its interrupt callback is the parameter \<open>irq\<close> on the host.  The width of the picture is a
  C++ \<open>int\<close>: where the multiplication in \<open>updateMode\<close> leaves its range the behaviour is undefined and the
  operation is \<open>None\<close>.
\<close>

unbundle bit_operations_syntax

definition defaultVblCycles :: u64 where "defaultVblCycles = 1330008"

definition grayscaleColor :: "u32 \<Rightarrow> u32" where
  "grayscaleColor color =
    (let red = drop_bit 16 color AND 0xff;
         green = drop_bit 8 color AND 0xff;
         blue = color AND 0xff;
         level = (red * 299 + green * 587 + blue * 114 + 500) div 1000
     in 0xff000000 OR push_bit 16 level OR push_bit 8 level OR level)"

datatype dafb_variant = Discrete | Quadra950 | Memc | MemcJr

datatype dafb_monitor =
    Rgb21Inch | PortraitMono15Inch | Rgb12Inch | TwoPageMono21Inch | NtscEncoder | PortraitRgb15Inch | HiResRgb
  | NoMonitor | Vga | Rgb16Inch | PalEncoder | PalMonitor | Rgb19Inch

fun monitor_code :: "dafb_monitor \<Rightarrow> u8" where
  "monitor_code Rgb21Inch = 0x00"
| "monitor_code PortraitMono15Inch = 0x01"
| "monitor_code Rgb12Inch = 0x02"
| "monitor_code TwoPageMono21Inch = 0x03"
| "monitor_code NtscEncoder = 0x04"
| "monitor_code PortraitRgb15Inch = 0x05"
| "monitor_code HiResRgb = 0x06"
| "monitor_code NoMonitor = 0x07"
| "monitor_code Vga = 0x76"
| "monitor_code Rgb16Inch = 0x79"
| "monitor_code PalEncoder = 0x40"
| "monitor_code PalMonitor = 0x70"
| "monitor_code Rgb19Inch = 0x7e"

record ('t, 'h) dafb =
  dafb_variant :: dafb_variant
  dafb_monitor :: dafb_monitor
  dafb_vram :: "u8 list"
  dafb_palette :: "u32 list"
  dafb_paletteLatch :: "u8 \<Rightarrow> u8"
  dafb_horizontal :: "u32 \<Rightarrow> u32"
  dafb_vertical :: "u32 \<Rightarrow> u32"
  dafb_scsiControl :: "int \<Rightarrow> u16"
  dafb_scsiDrq :: "int \<Rightarrow> bool"
  dafb_scsi :: "int \<Rightarrow> 't ncr96 option"
  dafb_vblCycles :: u64
  dafb_base :: u32
  dafb_stride :: u32
  dafb_config :: u32
  dafb_test :: u32
  dafb_blockControl :: u32
  dafb_swatchTest :: u32
  dafb_swatchMode :: u8
  dafb_swatchInterruptEnable :: u8
  dafb_monitorDrive :: u8
  dafb_paletteAddress :: u8
  dafb_paletteComponent :: u8
  dafb_pixelBusControl :: u8
  dafb_pixelBusControl1 :: u8
  dafb_mode :: u8
  dafb_interruptStatus :: u8
  dafb_width :: int
  dafb_height :: int
  dafb_host :: 'h

type_synonym 'h dafb_irq = "bool \<Rightarrow> 'h \<Rightarrow> 'h"

subsection \<open>Interrupts, reset and time\<close>

definition dafb_recalcIrq :: "'h dafb_irq \<Rightarrow> ('t, 'h) dafb \<Rightarrow> ('t, 'h) dafb" where
  "dafb_recalcIrq irq s = s\<lparr>dafb_host := irq (dafb_interruptStatus s \<noteq> 0) (dafb_host s)\<rparr>"

definition dafb_setInterrupt :: "'h dafb_irq \<Rightarrow> u8 \<Rightarrow> bool \<Rightarrow> ('t, 'h) dafb \<Rightarrow> ('t, 'h) dafb" where
  "dafb_setInterrupt irq bits asserted s =
     dafb_recalcIrq irq (s\<lparr>dafb_interruptStatus :=
       (if asserted then dafb_interruptStatus s OR bits else dafb_interruptStatus s AND NOT bits)\<rparr>)"

definition dafb_reset :: "'h dafb_irq \<Rightarrow> ('t, 'h) dafb \<Rightarrow> ('t, 'h) dafb" where
  "dafb_reset irq s =
     dafb_recalcIrq irq (s
       \<lparr>dafb_vram := replicate (length (dafb_vram s)) 0,
        dafb_palette := (let p = replicate (length (dafb_palette s)) 0xff000000
                         in if p \<noteq> [] then p[0 := 0xffffffff, 1 := 0xff000000] else p),
        dafb_horizontal := (\<lambda>_. 0), dafb_vertical := (\<lambda>_. 0), dafb_scsiControl := (\<lambda>_. 0), dafb_scsiDrq := (\<lambda>_. False),
        dafb_vblCycles := defaultVblCycles, dafb_base := 0, dafb_stride := 1024, dafb_config := 0, dafb_test := 0,
        dafb_blockControl := 0, dafb_swatchTest := 0, dafb_swatchMode := 1, dafb_swatchInterruptEnable := 0,
        dafb_monitorDrive := 0, dafb_paletteAddress := 0, dafb_paletteComponent := 0, dafb_pixelBusControl := 0,
        dafb_pixelBusControl1 := 0, dafb_mode := 0, dafb_interruptStatus := 0, dafb_width := 640, dafb_height := 480\<rparr>)"

definition dafb_init :: "dafb_variant \<Rightarrow> dafb_monitor \<Rightarrow> 'h \<Rightarrow> ('t, 'h) dafb" where
  "dafb_init variant monitor h =
     dafb_reset (\<lambda>_ h. h)
       \<lparr>dafb_variant = variant, dafb_monitor = monitor,
        dafb_vram = replicate (if variant \<in> {Memc, MemcJr} then 1024 * 1024 else 2 * 1024 * 1024) 0,
        dafb_palette = replicate 256 0xff000000, dafb_paletteLatch = (\<lambda>_. 0), dafb_horizontal = (\<lambda>_. 0),
        dafb_vertical = (\<lambda>_. 0), dafb_scsiControl = (\<lambda>_. 0), dafb_scsiDrq = (\<lambda>_. False), dafb_scsi = (\<lambda>_. None),
        dafb_vblCycles = 0, dafb_base = 0, dafb_stride = 1024, dafb_config = 0, dafb_test = 0, dafb_blockControl = 0,
        dafb_swatchTest = 0, dafb_swatchMode = 1, dafb_swatchInterruptEnable = 0, dafb_monitorDrive = 0,
        dafb_paletteAddress = 0, dafb_paletteComponent = 0, dafb_pixelBusControl = 0, dafb_pixelBusControl1 = 0,
        dafb_mode = 0, dafb_interruptStatus = 0, dafb_width = 640, dafb_height = 480, dafb_host = h\<rparr>"

definition dafb_tick :: "'h dafb_irq \<Rightarrow> u64 \<Rightarrow> ('t, 'h) dafb \<Rightarrow> ('t, 'h) dafb" where
  "dafb_tick irq cycles s =
    (if dafb_swatchMode s AND 1 \<noteq> 0 then s
     else if dafb_vblCycles s \<le> cycles then
       (let s = s\<lparr>dafb_vblCycles := defaultVblCycles\<rparr>;
            s = (if dafb_swatchInterruptEnable s AND 0x01 \<noteq> 0 then dafb_setInterrupt irq 0x01 True s else s)
        in if dafb_swatchInterruptEnable s AND 0x04 \<noteq> 0 then dafb_setInterrupt irq 0x04 True s else s)
     else s\<lparr>dafb_vblCycles := dafb_vblCycles s - cycles\<rparr>)"

definition dafb_interruptActive :: "('t, 'h) dafb \<Rightarrow> bool" where
  "dafb_interruptActive s \<longleftrightarrow> dafb_interruptStatus s \<noteq> 0"

subsection \<open>The monitor and the mode\<close>

definition dafb_monitorSense :: "('t, 'h) dafb \<Rightarrow> u8" where
  "dafb_monitorSense s =
    (let raw = monitor_code (dafb_monitor s);
         bit = (\<lambda>n. drop_bit n raw AND 1);
         result = (if raw AND 0x40 \<noteq> 0 then
             (if dafb_monitorDrive s = 4 then 7 AND (4 OR push_bit 1 (bit 5) OR bit 4)
              else if dafb_monitorDrive s = 2 then 7 AND (push_bit 2 (bit 3) OR 2 OR bit 2)
              else if dafb_monitorDrive s = 1 then 7 AND (push_bit 2 (bit 1) OR push_bit 1 (bit 0) OR 1)
              else 7)
           else raw AND 7)
     in result XOR 7)"

definition monitor_mono :: "dafb_monitor \<Rightarrow> bool" where
  "monitor_mono m \<longleftrightarrow>
    (let v = monitor_code m
     in if v AND 0x40 \<noteq> 0 then False
        else [False, True, False, True, False, False, False, False] ! unat (v AND 7))"

definition dafb_pixel_mode :: "('t, 'h) dafb \<Rightarrow> u8" where
  "dafb_pixel_mode s =
    (if dafb_variant s \<noteq> Discrete \<and> dafb_pixelBusControl s AND 0x06 = 0x06 \<and> dafb_pixelBusControl1 s AND 0xc0 = 0xc0
     then 5
     else let c = dafb_pixelBusControl s AND 0x1c
          in if c = 0x00 then 0 else if c = 0x08 then 1 else if c = 0x10 then 2 else if c = 0x18 then 3
             else if c = 0x1c then 4 else dafb_mode s)"

definition dafb_resolution :: "('t, 'h) dafb \<Rightarrow> ('t, 'h) dafb" where
  "dafb_resolution s =
    (let hres = sint (dafb_horizontal s 8 - dafb_horizontal s 7);
         vres = sint (drop_bit 1 (dafb_vertical s 5) - drop_bit 1 (dafb_vertical s 4));
         s = (if 0 < hres \<and> hres \<le> 4096 then s\<lparr>dafb_width := hres\<rparr> else s);
         s = (if 0 < vres \<and> vres \<le> 2160 then s\<lparr>dafb_height := vres\<rparr> else s)
     in if dafb_width s = 512 \<and> dafb_variant s = Discrete then s\<lparr>dafb_base := 0x1000, dafb_height := 384\<rparr> else s)"

definition dafb_clockDivider :: "('t, 'h) dafb \<Rightarrow> nat" where
  "dafb_clockDivider s = 2 ^ unat (drop_bit 5 (dafb_pixelBusControl s AND 0x60))"

definition dafb_updateMode :: "('t, 'h) dafb \<Rightarrow> ('t, 'h) dafb option" where
  "dafb_updateMode s =
    (let s = s\<lparr>dafb_mode := dafb_pixel_mode s\<rparr>
     in if dafb_horizontal s 9 = 0 \<or> drop_bit 1 (dafb_vertical s 6) = 0 then Some s
        else
          let s = dafb_resolution s; divider = dafb_clockDivider s
          in if dafb_config s AND 8 \<noteq> 0
             then Some (s\<lparr>dafb_width := max 1 (dafb_width s div int divider - 23),
                          dafb_stride := max 1 (dafb_stride s div of_nat divider)\<rparr>)
             else let w = dafb_width s * int divider
                  in if w < 2 ^ 31 then Some (s\<lparr>dafb_width := w\<rparr>) else None)"

subsection \<open>Register blocks\<close>

definition dafb_readDafb :: "u32 \<Rightarrow> ('t, 'h) dafb \<Rightarrow> u32" where
  "dafb_readDafb r s =
    (if r = 0x00 then drop_bit 9 (dafb_base s) AND 0x0fff
     else if r = 0x04 then drop_bit 5 (dafb_base s) AND 0x0f
     else if r = 0x08 then drop_bit 2 (dafb_stride s)
     else if r = 0x0c then 0
     else if r = 0x10 then dafb_config s
     else if r = 0x14 then dafb_blockControl s
     else if r = 0x1c then ucast (dafb_monitorSense s)
     else if r = 0x24 then ucast (dafb_scsiControl s 0) OR (if dafb_scsiDrq s 0 then 0x200 else 0)
     else if r = 0x28 then ucast (dafb_scsiControl s 1) OR (if dafb_scsiDrq s 1 then 0x200 else 0)
     else if r = 0x2c
     then (dafb_test s AND 0x1ff) OR push_bit 9 (if dafb_variant s \<in> {Quadra950, Memc, MemcJr} then 3 else 1)
     else 0)"

definition dafb_writeDafb :: "u32 \<Rightarrow> u32 \<Rightarrow> ('t, 'h) dafb \<Rightarrow> ('t, 'h) dafb option" where
  "dafb_writeDafb r v s =
    (let v = v AND 0x0fff
     in if r = 0x00 then Some (s\<lparr>dafb_base := (dafb_base s AND 0x1e0) OR push_bit 9 (v AND 0x0fff)\<rparr>)
        else if r = 0x04 then Some (s\<lparr>dafb_base := (dafb_base s AND NOT 0x1e0) OR push_bit 5 (v AND 0x0f)\<rparr>)
        else if r = 0x08 then dafb_updateMode (s\<lparr>dafb_stride := push_bit 2 v\<rparr>)
        else if r = 0x10 then dafb_updateMode (s\<lparr>dafb_config := v\<rparr>)
        else if r = 0x14 then Some (s\<lparr>dafb_blockControl := v\<rparr>)
        else if r = 0x1c then Some (s\<lparr>dafb_monitorDrive := ucast ((v AND 7) XOR 7)\<rparr>)
        else if r = 0x24 \<or> r = 0x28
        then Some (s\<lparr>dafb_scsiControl := (dafb_scsiControl s)((if r = 0x24 then 0 else 1) := ucast v)\<rparr>)
        else if r = 0x2c then Some (s\<lparr>dafb_test := v\<rparr>)
        else Some s)"

definition dafb_readSwatch :: "'h dafb_irq \<Rightarrow> u32 \<Rightarrow> ('t, 'h) dafb \<Rightarrow> u32 \<times> ('t, 'h) dafb" where
  "dafb_readSwatch irq r s =
    (if r = 0x08 then (ucast (dafb_interruptStatus s), s)
     else if r = 0x0c then (0, dafb_setInterrupt irq 0x04 False s)
     else if r = 0x14 then (0, dafb_setInterrupt irq 0x01 False s)
     else if r = 0x20 then (dafb_swatchTest s, s)
     else if 0x24 \<le> r \<and> r \<le> 0x48 \<and> r AND 3 = 0 then (dafb_horizontal s ((r - 0x24) div 4), s)
     else if 0x4c \<le> r \<and> r \<le> 0x64 \<and> r AND 3 = 0 then (dafb_vertical s ((r - 0x4c) div 4), s)
     else (0, s))"

definition dafb_writeSwatch :: "'h dafb_irq \<Rightarrow> u32 \<Rightarrow> u32 \<Rightarrow> ('t, 'h) dafb \<Rightarrow> ('t, 'h) dafb option" where
  "dafb_writeSwatch irq r v s =
    (let v = v AND 0x0fff
     in if r = 0x00 then Some (s\<lparr>dafb_swatchMode := ucast v\<rparr>)
        else if r = 0x04 then
          (let s = s\<lparr>dafb_swatchInterruptEnable := ucast (v AND 7)\<rparr>;
               s = (if v AND 1 = 0 then s\<lparr>dafb_interruptStatus := dafb_interruptStatus s AND NOT 0x01\<rparr> else s);
               s = (if v AND 4 = 0 then s\<lparr>dafb_interruptStatus := dafb_interruptStatus s AND NOT 0x04\<rparr> else s)
           in Some (dafb_recalcIrq irq s))
        else if r = 0x0c then Some (dafb_setInterrupt irq 0x04 False s)
        else if r = 0x14 then Some (dafb_setInterrupt irq 0x01 False s)
        else if r = 0x20 then Some (s\<lparr>dafb_swatchTest := v\<rparr>)
        else if 0x24 \<le> r \<and> r \<le> 0x48 \<and> r AND 3 = 0
        then dafb_updateMode (s\<lparr>dafb_horizontal := (dafb_horizontal s)((r - 0x24) div 4 := v)\<rparr>)
        else if 0x4c \<le> r \<and> r \<le> 0x64 \<and> r AND 3 = 0
        then dafb_updateMode (s\<lparr>dafb_vertical := (dafb_vertical s)((r - 0x4c) div 4 := v)\<rparr>)
        else Some s)"

definition dafb_next_component :: "('t, 'h) dafb \<Rightarrow> ('t, 'h) dafb" where
  "dafb_next_component s =
    (let s = s\<lparr>dafb_paletteComponent := dafb_paletteComponent s + 1\<rparr>
     in if dafb_paletteComponent s = 3
        then s\<lparr>dafb_paletteComponent := 0, dafb_paletteAddress := dafb_paletteAddress s + 1\<rparr> else s)"

definition dafb_second_control :: "('t, 'h) dafb \<Rightarrow> bool" where
  "dafb_second_control s \<longleftrightarrow>
     dafb_paletteAddress s = 1 \<and> dafb_pixelBusControl s AND 0x06 = 0x06 \<and> dafb_variant s \<noteq> Discrete"

definition dafb_readRamdac :: "u32 \<Rightarrow> ('t, 'h) dafb \<Rightarrow> u32 \<times> ('t, 'h) dafb" where
  "dafb_readRamdac r s =
    (if r = 0x00 then (ucast (dafb_paletteAddress s), s\<lparr>dafb_paletteComponent := 0\<rparr>)
     else if r = 0x10 then
       (let color = dafb_palette s ! unat (dafb_paletteAddress s);
            component = dafb_paletteComponent s
        in (if component = 0 then drop_bit 16 color AND 0xff
            else if component = 1 then drop_bit 8 color AND 0xff
            else color AND 0xff, dafb_next_component s))
     else if r = 0x20
     then (ucast (if dafb_second_control s then dafb_pixelBusControl1 s else dafb_pixelBusControl s), s)
     else (0, s))"

definition dafb_latched_color :: "('t, 'h) dafb \<Rightarrow> u32" where
  "dafb_latched_color s =
    (let color = 0xff000000 OR push_bit 16 (ucast (dafb_paletteLatch s 0)) OR push_bit 8 (ucast (dafb_paletteLatch s 1)) OR
                 ucast (dafb_paletteLatch s 2)
     in if monitor_mono (dafb_monitor s) then grayscaleColor color else color)"

definition dafb_writeRamdac :: "u32 \<Rightarrow> u32 \<Rightarrow> ('t, 'h) dafb \<Rightarrow> ('t, 'h) dafb option" where
  "dafb_writeRamdac r v s =
    (let v = ucast (v AND 0xff)
     in if r = 0x00 then Some (s\<lparr>dafb_paletteAddress := v, dafb_paletteComponent := 0\<rparr>)
        else if r = 0x10 then
          (let s = s\<lparr>dafb_paletteLatch := (dafb_paletteLatch s)(dafb_paletteComponent s := v)\<rparr>
           in Some (if dafb_paletteComponent s = 2
                    then dafb_next_component (s\<lparr>dafb_palette :=
                           (dafb_palette s)[unat (dafb_paletteAddress s) := dafb_latched_color s]\<rparr>)
                    else dafb_next_component s))
        else if r = 0x20 then
          (if dafb_second_control s then Some (s\<lparr>dafb_pixelBusControl1 := (v AND 0xf0) OR 0x02\<rparr>)
           else dafb_updateMode (s\<lparr>dafb_pixelBusControl := v\<rparr>))
        else Some s)"

text \<open>The clock generator has no registers: it reads as 0 and ignores writes.\<close>

definition dafb_readBlock :: "'h dafb_irq \<Rightarrow> u32 \<Rightarrow> ('t, 'h) dafb \<Rightarrow> u32 \<times> ('t, 'h) dafb" where
  "dafb_readBlock irq offset s =
    (let block = offset AND 0x300; r = offset AND 0xff
     in if block = 0x000 then (dafb_readDafb r s, s)
        else if block = 0x100 then dafb_readSwatch irq r s
        else if block = 0x200 then dafb_readRamdac r s
        else (0, s))"

definition dafb_writeBlock :: "'h dafb_irq \<Rightarrow> u32 \<Rightarrow> u32 \<Rightarrow> ('t, 'h) dafb \<Rightarrow> ('t, 'h) dafb option" where
  "dafb_writeBlock irq offset v s =
    (let block = offset AND 0x300; r = offset AND 0xff
     in if block = 0x000 then dafb_writeDafb r v s
        else if block = 0x100 then dafb_writeSwatch irq r v s
        else if block = 0x200 then dafb_writeRamdac r v s
        else Some s)"

subsection \<open>Accesses of the processor\<close>

text \<open>In a read of 16 bits the source leaves the order of the two halves open; here the high one is first.\<close>

definition dafb_readRegister32 :: "'h dafb_irq \<Rightarrow> u32 \<Rightarrow> ('t, 'h) dafb \<Rightarrow> u32 \<times> ('t, 'h) dafb" where
  "dafb_readRegister32 irq offset = dafb_readBlock irq (offset AND 0x3ff)"

definition dafb_readRegister8 :: "'h dafb_irq \<Rightarrow> u32 \<Rightarrow> ('t, 'h) dafb \<Rightarrow> u8 \<times> ('t, 'h) dafb" where
  "dafb_readRegister8 irq offset s =
    (let (v, s) = dafb_readRegister32 irq (offset AND NOT 3) s
     in (ucast (drop_bit (unat ((3 - (offset AND 3)) * 8)) v), s))"

definition dafb_readRegister16 :: "'h dafb_irq \<Rightarrow> u32 \<Rightarrow> ('t, 'h) dafb \<Rightarrow> u16 \<times> ('t, 'h) dafb" where
  "dafb_readRegister16 irq offset s =
    (let (hi, s) = dafb_readRegister8 irq offset s; (lo, s) = dafb_readRegister8 irq (offset + 1) s
     in (push_bit 8 (ucast hi) OR ucast lo, s))"

definition dafb_writeRegister32 :: "'h dafb_irq \<Rightarrow> u32 \<Rightarrow> u32 \<Rightarrow> ('t, 'h) dafb \<Rightarrow> ('t, 'h) dafb option" where
  "dafb_writeRegister32 irq offset = dafb_writeBlock irq (offset AND 0x3ff)"

definition dafb_writeRegister8 :: "'h dafb_irq \<Rightarrow> u32 \<Rightarrow> u8 \<Rightarrow> ('t, 'h) dafb \<Rightarrow> ('t, 'h) dafb option" where
  "dafb_writeRegister8 irq offset v =
     dafb_writeRegister32 irq (offset AND NOT 3)
       (push_bit 24 (ucast v) OR push_bit 16 (ucast v) OR push_bit 8 (ucast v) OR ucast v)"

definition dafb_writeRegister16 :: "'h dafb_irq \<Rightarrow> u32 \<Rightarrow> u16 \<Rightarrow> ('t, 'h) dafb \<Rightarrow> ('t, 'h) dafb option" where
  "dafb_writeRegister16 irq offset v =
     dafb_writeRegister32 irq (offset AND NOT 3) (push_bit 16 (ucast v) OR ucast v)"

definition dafb_readVram8 :: "u32 \<Rightarrow> ('t, 'h) dafb \<Rightarrow> u8" where
  "dafb_readVram8 offset s = (if unat offset < length (dafb_vram s) then dafb_vram s ! unat offset else 0xff)"

definition dafb_readVram16 :: "u32 \<Rightarrow> ('t, 'h) dafb \<Rightarrow> u16" where
  "dafb_readVram16 offset s = push_bit 8 (ucast (dafb_readVram8 offset s)) OR ucast (dafb_readVram8 (offset + 1) s)"

definition dafb_readVram32 :: "u32 \<Rightarrow> ('t, 'h) dafb \<Rightarrow> u32" where
  "dafb_readVram32 offset s = push_bit 16 (ucast (dafb_readVram16 offset s)) OR ucast (dafb_readVram16 (offset + 2) s)"

definition dafb_writeVram8 :: "u32 \<Rightarrow> u8 \<Rightarrow> ('t, 'h) dafb \<Rightarrow> ('t, 'h) dafb" where
  "dafb_writeVram8 offset v s =
    (if unat offset < length (dafb_vram s) then s\<lparr>dafb_vram := (dafb_vram s)[unat offset := v]\<rparr> else s)"

definition dafb_writeVram16 :: "u32 \<Rightarrow> u16 \<Rightarrow> ('t, 'h) dafb \<Rightarrow> ('t, 'h) dafb" where
  "dafb_writeVram16 offset v s = dafb_writeVram8 (offset + 1) (ucast v) (dafb_writeVram8 offset (ucast (drop_bit 8 v)) s)"

definition dafb_writeVram32 :: "u32 \<Rightarrow> u32 \<Rightarrow> ('t, 'h) dafb \<Rightarrow> ('t, 'h) dafb" where
  "dafb_writeVram32 offset v s =
     dafb_writeVram16 (offset + 2) (ucast v) (dafb_writeVram16 offset (ucast (drop_bit 16 v)) s)"

subsection \<open>The SCSI controllers behind it\<close>

definition dafb_attachTurboScsi :: "int \<Rightarrow> 't ncr96 option \<Rightarrow> ('t, 'h) dafb \<Rightarrow> ('t, 'h) dafb" where
  "dafb_attachTurboScsi bus controller s =
    (if bus < 0 \<or> 2 \<le> bus then s else s\<lparr>dafb_scsi := (dafb_scsi s)(bus := controller)\<rparr>)"

definition dafb_setTurboScsiDrq :: "int \<Rightarrow> bool \<Rightarrow> ('t, 'h) dafb \<Rightarrow> ('t, 'h) dafb" where
  "dafb_setTurboScsiDrq bus asserted s =
    (if bus < 0 \<or> 2 \<le> bus then s else s\<lparr>dafb_scsiDrq := (dafb_scsiDrq s)(bus := asserted)\<rparr>)"

text \<open>An access to the controller of a bus; without one it answers with all ones.\<close>

definition turbo_read :: "('t ncr96 \<Rightarrow> 'v \<times> 't ncr96) \<Rightarrow> 'v \<Rightarrow> int \<Rightarrow> ('t, 'h) dafb \<Rightarrow> 'v \<times> ('t, 'h) dafb" where
  "turbo_read f absent bus s =
    (if bus < 0 \<or> 2 \<le> bus then (absent, s)
     else case dafb_scsi s bus of
            None \<Rightarrow> (absent, s)
          | Some c \<Rightarrow> let (v, c) = f c in (v, s\<lparr>dafb_scsi := (dafb_scsi s)(bus := Some c)\<rparr>))"

definition turbo_write :: "('t ncr96 \<Rightarrow> 't ncr96) \<Rightarrow> int \<Rightarrow> ('t, 'h) dafb \<Rightarrow> ('t, 'h) dafb" where
  "turbo_write f bus s =
    (if bus < 0 \<or> 2 \<le> bus then s
     else case dafb_scsi s bus of None \<Rightarrow> s | Some c \<Rightarrow> s\<lparr>dafb_scsi := (dafb_scsi s)(bus := Some (f c))\<rparr>)"

definition turbo_register :: "u32 \<Rightarrow> u8" where
  "turbo_register offset = ucast (drop_bit 4 offset AND 0x0f)"

definition dafb_readTurboScsiRegister :: "int \<Rightarrow> u32 \<Rightarrow> ('t, 'h) dafb \<Rightarrow> u8 \<times> ('t, 'h) dafb" where
  "dafb_readTurboScsiRegister bus offset = turbo_read (n96_readRegister (turbo_register offset)) 0xff bus"

definition dafb_writeTurboScsiRegister :: "'t ScsiTarget \<Rightarrow> int \<Rightarrow> u32 \<Rightarrow> u8 \<Rightarrow> ('t, 'h) dafb \<Rightarrow> ('t, 'h) dafb" where
  "dafb_writeTurboScsiRegister target bus offset v = turbo_write (n96_writeRegister target (turbo_register offset) v) bus"

definition dafb_readTurboScsiDma8 :: "'t ScsiTarget \<Rightarrow> int \<Rightarrow> ('t, 'h) dafb \<Rightarrow> u8 \<times> ('t, 'h) dafb" where
  "dafb_readTurboScsiDma8 target = turbo_read (n96_readDmaByte target) 0xff"

definition dafb_writeTurboScsiDma8 :: "'t ScsiTarget \<Rightarrow> int \<Rightarrow> u8 \<Rightarrow> ('t, 'h) dafb \<Rightarrow> ('t, 'h) dafb" where
  "dafb_writeTurboScsiDma8 target bus v = turbo_write (n96_writeDmaByte target v) bus"

definition dafb_readTurboScsiDma16 :: "'t ScsiTarget \<Rightarrow> int \<Rightarrow> ('t, 'h) dafb \<Rightarrow> u16 \<times> ('t, 'h) dafb" where
  "dafb_readTurboScsiDma16 target = turbo_read (n96_readDmaWord target) 0xffff"

definition dafb_writeTurboScsiDma16 :: "'t ScsiTarget \<Rightarrow> int \<Rightarrow> u16 \<Rightarrow> ('t, 'h) dafb \<Rightarrow> ('t, 'h) dafb" where
  "dafb_writeTurboScsiDma16 target bus v = turbo_write (n96_writeDmaWord target v) bus"

subsection \<open>The frame\<close>

definition dafb_indexedDepth :: "('t, 'h) dafb \<Rightarrow> nat" where
  "dafb_indexedDepth s =
    (if dafb_mode s = 0 then 1 else if dafb_mode s = 1 then 2 else if dafb_mode s = 2 then 4 else 8)"

definition dafb_scanoutStrideBytes :: "('t, 'h) dafb \<Rightarrow> u32" where
  "dafb_scanoutStrideBytes s = (if dafb_config s AND 8 \<noteq> 0 then 1024 else dafb_stride s)"

definition dafb_displayEnabled :: "('t, 'h) dafb \<Rightarrow> bool" where
  "dafb_displayEnabled s \<longleftrightarrow> dafb_swatchMode s AND 1 = 0"

definition dafb_videoFrame :: "('t, 'h) dafb \<Rightarrow> VideoFrame" where
  "dafb_videoFrame s =
    (let base = unat (dafb_base s);
         stride = dafb_scanoutStrideBytes s;
         bytes = min (length (dafb_vram s) - base) (unat (stride * of_int (dafb_height s)));
         frame = empty_frame
           \<lparr>frame_width := dafb_width s, frame_height := dafb_height s, frame_strideBytes := sint stride,
            frame_byteOrder := BigEndian, frame_bitOrder := MostSignificantFirst,
            frame_pixels := take bytes (drop base (dafb_vram s)), frame_grabbable := True\<rparr>;
         direct = (\<lambda>bits red green blue. frame
           \<lparr>frame_storage := DirectPixels, frame_bitsPerPixel := bits,
            frame_channels := \<lparr>redMask = red, greenMask = green, blueMask = blue, alphaMask = 0\<rparr>\<rparr>)
     in if \<not> dafb_displayEnabled s \<or> dafb_monitor s = NoMonitor then empty_frame
        else if length (dafb_vram s) \<le> base \<or> stride = 0 then empty_frame
        else if bytes = 0 then empty_frame
        else if dafb_mode s = 4 then direct 24 0xff0000 0x00ff00 0x0000ff
        else if dafb_mode s = 5 then direct 15 0x7c00 0x03e0 0x001f
        else frame
          \<lparr>frame_storage := IndexedPixels, frame_bitsPerPixel := int (dafb_indexedDepth s),
           frame_colorTable := (if monitor_mono (dafb_monitor s) then map grayscaleColor (dafb_palette s)
                                else dafb_palette s),
           frame_pixelToColorIndex := map of_nat [0..<2 ^ dafb_indexedDepth s]\<rparr>)"

subsection \<open>What is displayed\<close>

text \<open>
  Everything the processor, time and the machine can do to the controller, the attaching of SCSI controllers
  included.  A step is \<open>None\<close> when a C++ \<open>int\<close> would overflow in it.
\<close>

datatype 't dafb_event =
    RegisterRead8 u32 | RegisterRead16 u32 | RegisterRead32 u32
  | RegisterWrite8 u32 u8 | RegisterWrite16 u32 u16 | RegisterWrite32 u32 u32
  | VramWrite8 u32 u8 | VramWrite16 u32 u16 | VramWrite32 u32 u32
  | TurboAttach int "'t ncr96 option" | TurboRead int u32 | TurboWrite int u32 u8 | TurboDmaRead8 int | TurboDmaRead16 int
  | TurboDmaWrite8 int u8 | TurboDmaWrite16 int u16 | TurboDrq int bool
  | PassTime u64 | ResetDafb

fun dafb_step :: "'h dafb_irq \<Rightarrow> 't ScsiTarget \<Rightarrow> 't dafb_event \<Rightarrow> ('t, 'h) dafb \<Rightarrow> ('t, 'h) dafb option" where
  "dafb_step irq target (RegisterRead8 a) s = Some (snd (dafb_readRegister8 irq a s))"
| "dafb_step irq target (RegisterRead16 a) s = Some (snd (dafb_readRegister16 irq a s))"
| "dafb_step irq target (RegisterRead32 a) s = Some (snd (dafb_readRegister32 irq a s))"
| "dafb_step irq target (RegisterWrite8 a v) s = dafb_writeRegister8 irq a v s"
| "dafb_step irq target (RegisterWrite16 a w) s = dafb_writeRegister16 irq a w s"
| "dafb_step irq target (RegisterWrite32 a x) s = dafb_writeRegister32 irq a x s"
| "dafb_step irq target (VramWrite8 a v) s = Some (dafb_writeVram8 a v s)"
| "dafb_step irq target (VramWrite16 a w) s = Some (dafb_writeVram16 a w s)"
| "dafb_step irq target (VramWrite32 a x) s = Some (dafb_writeVram32 a x s)"
| "dafb_step irq target (TurboAttach bus controller) s = Some (dafb_attachTurboScsi bus controller s)"
| "dafb_step irq target (TurboRead bus a) s = Some (snd (dafb_readTurboScsiRegister bus a s))"
| "dafb_step irq target (TurboWrite bus a v) s = Some (dafb_writeTurboScsiRegister target bus a v s)"
| "dafb_step irq target (TurboDmaRead8 bus) s = Some (snd (dafb_readTurboScsiDma8 target bus s))"
| "dafb_step irq target (TurboDmaRead16 bus) s = Some (snd (dafb_readTurboScsiDma16 target bus s))"
| "dafb_step irq target (TurboDmaWrite8 bus v) s = Some (dafb_writeTurboScsiDma8 target bus v s)"
| "dafb_step irq target (TurboDmaWrite16 bus w) s = Some (dafb_writeTurboScsiDma16 target bus w s)"
| "dafb_step irq target (TurboDrq bus b) s = Some (dafb_setTurboScsiDrq bus b s)"
| "dafb_step irq target (PassTime n) s = Some (dafb_tick irq n s)"
| "dafb_step irq target ResetDafb s = Some (dafb_reset irq s)"

fun dafb_run :: "'h dafb_irq \<Rightarrow> 't ScsiTarget \<Rightarrow> 't dafb_event list \<Rightarrow> ('t, 'h) dafb \<Rightarrow> ('t, 'h) dafb option" where
  "dafb_run irq target [] s = Some s"
| "dafb_run irq target (e # es) s = (case dafb_step irq target e s of None \<Rightarrow> None | Some s \<Rightarrow> dafb_run irq target es s)"

text \<open>What all of them keep.\<close>

definition dafb_ok :: "('t, 'h) dafb \<Rightarrow> bool" where
  "dafb_ok s \<longleftrightarrow> length (dafb_vram s) \<le> 2 ^ 21 \<and> length (dafb_palette s) = 256 \<and> dafb_paletteComponent s < 3 \<and>
     dafb_mode s \<le> 5 \<and> 0 < dafb_width s \<and> dafb_width s < 2 ^ 31 \<and> 0 < dafb_height s \<and> dafb_height s \<le> 2160 \<and>
     dafb_stride s \<le> 0x3ffc"

named_theorems dafb_keeps \<open>operations that keep the invariant of the DAFB\<close>

lemma ok_setInterrupt [dafb_keeps]: "dafb_ok s \<Longrightarrow> dafb_ok (dafb_setInterrupt irq b a s)"
  by (simp add: dafb_ok_def dafb_setInterrupt_def dafb_recalcIrq_def)

lemma ok_recalcIrq [dafb_keeps]: "dafb_ok s \<Longrightarrow> dafb_ok (dafb_recalcIrq irq s)"
  by (simp add: dafb_ok_def dafb_recalcIrq_def)

lemma ok_dafb_reset [dafb_keeps]: "dafb_ok s \<Longrightarrow> dafb_ok (dafb_reset irq s)"
  by (simp add: dafb_ok_def dafb_reset_def dafb_recalcIrq_def Let_def)

lemma ok_dafb_init: "dafb_ok (dafb_init variant monitor h)"
  by (simp add: dafb_ok_def dafb_init_def dafb_reset_def dafb_recalcIrq_def Let_def)

lemma ok_dafb_tick [dafb_keeps]: "dafb_ok s \<Longrightarrow> dafb_ok (dafb_tick irq n s)"
  by (simp add: dafb_tick_def Let_def dafb_keeps) (simp add: dafb_ok_def dafb_setInterrupt_def dafb_recalcIrq_def)

lemma ok_resolution: "dafb_ok s \<Longrightarrow> dafb_ok (dafb_resolution s)"
  by (auto simp: dafb_ok_def dafb_resolution_def Let_def)

lemma ok_pixel_mode: "dafb_ok s \<Longrightarrow> dafb_ok (s\<lparr>dafb_mode := dafb_pixel_mode s\<rparr>)"
  by (auto simp: dafb_ok_def dafb_pixel_mode_def Let_def)

lemma divider_pos: "0 < dafb_clockDivider s"
  by (simp add: dafb_clockDivider_def)

lemma ok_updateMode:
  assumes "dafb_ok s" and "dafb_updateMode s = Some t"
  shows "dafb_ok t"
proof -
  define u where "u = s\<lparr>dafb_mode := dafb_pixel_mode s\<rparr>"
  define v where "v = dafb_resolution u"
  define d where "d = dafb_clockDivider v"
  have v: "dafb_ok v" "dafb_ok u"
    using assms(1) by (simp_all add: u_def v_def ok_resolution ok_pixel_mode)
  have d: "0 < int d"
    using divider_pos by (simp add: d_def)
  have w: "dafb_width v div int d \<le> dafb_width v" "0 < dafb_width v * int d"
    using v(1) d zdiv_mono2 [of "dafb_width v" 1 "int d"] by (auto simp: dafb_ok_def)
  have st: "max 1 (dafb_stride v div x) \<le> 0x3ffc" for x
  proof -
    have "dafb_stride v div x \<le> dafb_stride v"
      by (simp add: word_le_nat_alt unat_div_distrib)
    then show ?thesis
      using v(1) by (auto simp: dafb_ok_def max_def intro: order_trans)
  qed
  show ?thesis
    using assms(2) v w st
    by (auto simp: dafb_updateMode_def u_def [symmetric] v_def [symmetric] d_def [symmetric] Let_def split: if_splits)
       (auto simp: dafb_ok_def)
qed

lemma ok_registers:
  "dafb_ok s \<Longrightarrow> dafb_ok (s\<lparr>dafb_base := x\<rparr>)" "dafb_ok s \<Longrightarrow> dafb_ok (s\<lparr>dafb_config := x\<rparr>)"
  "dafb_ok s \<Longrightarrow> dafb_ok (s\<lparr>dafb_stride := x AND 0x3ffc\<rparr>)" "dafb_ok s \<Longrightarrow> dafb_ok (s\<lparr>dafb_blockControl := x\<rparr>)"
  "dafb_ok s \<Longrightarrow> dafb_ok (s\<lparr>dafb_monitorDrive := b\<rparr>)" "dafb_ok s \<Longrightarrow> dafb_ok (s\<lparr>dafb_scsiControl := c\<rparr>)"
  "dafb_ok s \<Longrightarrow> dafb_ok (s\<lparr>dafb_test := x\<rparr>)" "dafb_ok s \<Longrightarrow> dafb_ok (s\<lparr>dafb_swatchMode := b\<rparr>)"
  "dafb_ok s \<Longrightarrow> dafb_ok (s\<lparr>dafb_swatchInterruptEnable := b\<rparr>)" "dafb_ok s \<Longrightarrow> dafb_ok (s\<lparr>dafb_interruptStatus := b\<rparr>)"
  "dafb_ok s \<Longrightarrow> dafb_ok (s\<lparr>dafb_swatchTest := x\<rparr>)" "dafb_ok s \<Longrightarrow> dafb_ok (s\<lparr>dafb_horizontal := g\<rparr>)"
  "dafb_ok s \<Longrightarrow> dafb_ok (s\<lparr>dafb_vertical := g\<rparr>)" "dafb_ok s \<Longrightarrow> dafb_ok (s\<lparr>dafb_paletteAddress := b, dafb_paletteComponent := 0\<rparr>)"
  "dafb_ok s \<Longrightarrow> dafb_ok (s\<lparr>dafb_paletteComponent := 0\<rparr>)" "dafb_ok s \<Longrightarrow> dafb_ok (s\<lparr>dafb_paletteLatch := l\<rparr>)"
  "dafb_ok s \<Longrightarrow> dafb_ok (s\<lparr>dafb_paletteLatch := l, dafb_palette := (dafb_palette s)[i := x]\<rparr>)" "dafb_ok s \<Longrightarrow> dafb_ok (s\<lparr>dafb_pixelBusControl := b\<rparr>)"
  "dafb_ok s \<Longrightarrow> dafb_ok (s\<lparr>dafb_pixelBusControl1 := b\<rparr>)" "dafb_ok s \<Longrightarrow> dafb_ok (s\<lparr>dafb_scsi := m\<rparr>)"
  "dafb_ok s \<Longrightarrow> dafb_ok (s\<lparr>dafb_scsiDrq := q\<rparr>)"
  by (simp_all add: dafb_ok_def word_and_le1 word_and_le2)

lemma ok_next_component: "dafb_ok s \<Longrightarrow> dafb_ok (dafb_next_component s)"
proof -
  assume s: "dafb_ok s"
  then have "unat (dafb_paletteComponent s) = 0 \<or> unat (dafb_paletteComponent s) = 1 \<or> unat (dafb_paletteComponent s) = 2"
    by (auto simp: dafb_ok_def word_less_nat_alt)
  then have "dafb_paletteComponent s \<in> {0, 1, 2}"
    by (auto simp: word_unat_eq_iff)
  then show ?thesis
    using s by (auto simp: dafb_ok_def dafb_next_component_def Let_def)
qed

lemma ok_write_block: "dafb_ok s \<Longrightarrow> dafb_writeBlock irq a v s = Some t \<Longrightarrow> dafb_ok t"
  by (auto simp: dafb_writeBlock_def dafb_writeDafb_def dafb_writeSwatch_def dafb_writeRamdac_def Let_def
      dafb_keeps ok_registers ok_next_component split: if_splits dest: ok_updateMode [rotated])

lemma ok_read_block: "dafb_ok s \<Longrightarrow> dafb_ok (snd (dafb_readBlock irq a s))"
  by (auto simp: dafb_readBlock_def dafb_readSwatch_def dafb_readRamdac_def Let_def dafb_keeps ok_registers
      ok_next_component)

lemma ok_write_vram: "dafb_ok s \<Longrightarrow> dafb_ok (dafb_writeVram8 a v s)"
  by (simp add: dafb_writeVram8_def) (simp add: dafb_ok_def)

lemma ok_turbo: "dafb_ok s \<Longrightarrow> dafb_ok (snd (turbo_read f x bus s))" "dafb_ok s \<Longrightarrow> dafb_ok (turbo_write g bus s)"
  by (simp_all add: turbo_read_def turbo_write_def ok_registers split_beta Let_def split: option.split)

lemma ok_dafb_step:
  assumes "dafb_ok s" and "dafb_step irq target e s = Some t"
  shows "dafb_ok t"
  using assms
  by (cases e)
     (auto simp: dafb_readRegister8_def dafb_readRegister16_def dafb_readRegister32_def dafb_writeRegister8_def
        dafb_writeRegister16_def dafb_writeRegister32_def dafb_writeVram16_def dafb_writeVram32_def
        dafb_readTurboScsiRegister_def dafb_writeTurboScsiRegister_def dafb_readTurboScsiDma8_def
        dafb_readTurboScsiDma16_def dafb_writeTurboScsiDma8_def dafb_writeTurboScsiDma16_def
        dafb_setTurboScsiDrq_def dafb_attachTurboScsi_def ok_read_block ok_write_block ok_write_vram ok_turbo ok_registers dafb_keeps
        split_beta Let_def)

lemma ok_dafb_run: "dafb_ok s \<Longrightarrow> dafb_run irq target es s = Some t \<Longrightarrow> dafb_ok t"
  by (induction es arbitrary: s) (auto split: option.splits dest: ok_dafb_step)

lemma scanout_size:
  assumes "dafb_ok s" and "stride = dafb_scanoutStrideBytes s"
  shows "sint stride = int (unat stride)" "unat (stride * of_int (dafb_height s)) = unat stride * nat (dafb_height s)"
proof -
  have st: "unat stride \<le> 0x3ffc"
    using assms by (auto simp: dafb_ok_def dafb_scanoutStrideBytes_def word_le_nat_alt)
  obtain h where h: "dafb_height s = int h" "h \<le> 2160"
    using assms(1) by (auto simp: dafb_ok_def intro: that [of "nat (dafb_height s)"])
  have "unat stride * h \<le> 0x3ffc * 2160"
    using st h(2) by (rule mult_le_mono)
  then show "unat (stride * of_int (dafb_height s)) = unat stride * nat (dafb_height s)"
    using h by (simp add: unat_word_ariths unat_of_nat)
  show "sint stride = int (unat stride)"
  proof -
    obtain m where m: "unat stride = m" "m \<le> 0x3ffc"
      using st by blast
    show ?thesis
      unfolding sint_uint uint_nat m(1) by (rule signed_take_bit_int_eq_self) (use m(2) in simp_all)
  qed
qed

lemma mode_cases: "(m :: u8) \<le> 5 \<Longrightarrow> m \<in> {0, 1, 2, 3, 4, 5}"
proof -
  assume "m \<le> 5"
  then have "unat m \<in> {0, 1, 2, 3, 4, 5}" by (auto simp: word_le_nat_alt)
  then show ?thesis by (auto simp: word_unat_eq_iff)
qed



text \<open>
  The width grows with every register write while the timing registers give no resolution: with the clock
  divided by 8 the eighth leaves the range of a C++ \<open>int\<close>.
\<close>

lemma width_grows:
  assumes "dafb_horizontal s = (\<lambda>_. 0)(9 := 1)" and "dafb_vertical s = (\<lambda>_. 0)(6 := 2)" and "dafb_pixelBusControl s = 0x60"
    and "dafb_config s = 0" and "dafb_width s \<noteq> 512" and "dafb_variant s = Discrete"
  shows "dafb_updateMode s = (if dafb_width s * 8 < 2 ^ 31 then Some (s\<lparr>dafb_mode := 0, dafb_width := dafb_width s * 8\<rparr>) else None)"
  using assms
  by (simp add: dafb_updateMode_def dafb_pixel_mode_def dafb_resolution_def dafb_clockDivider_def Let_def)

lemma dafb_width_overflows:
  "dafb_run irq (target :: 'a ScsiTarget) ([RegisterWrite32 0x220 0x60, RegisterWrite32 0x148 1, RegisterWrite32 0x164 2] @
     replicate 7 (RegisterWrite32 0x08 0)) (dafb_init Discrete HiResRgb (h :: 'b)) = None"
proof -
  define s :: "('a, 'b) dafb" where "s = dafb_init Discrete HiResRgb h
    \<lparr>dafb_pixelBusControl := 0x60, dafb_horizontal := (\<lambda>_. 0)(9 := 1), dafb_vertical := (\<lambda>_. 0)(6 := 2)\<rparr>"
  have i: "dafb_width s = 640" "dafb_config s = 0" "dafb_variant s = Discrete" "dafb_pixelBusControl s = 0x60"
    "dafb_horizontal s = (\<lambda>_. 0)(9 := 1)" "dafb_vertical s = (\<lambda>_. 0)(6 := 2)"
    by (simp_all add: s_def dafb_init_def dafb_reset_def dafb_recalcIrq_def Let_def)
  have stride_write: "dafb_step irq target (RegisterWrite32 0x08 0) t = dafb_updateMode (t\<lparr>dafb_stride := 0\<rparr>)" for t
    by (simp add: dafb_writeRegister32_def dafb_writeBlock_def dafb_writeDafb_def)
  have "dafb_run irq target ([RegisterWrite32 0x220 0x60, RegisterWrite32 0x148 1, RegisterWrite32 0x164 2] @ es)
      (dafb_init Discrete HiResRgb h) = dafb_run irq target es (s\<lparr>dafb_mode := 0, dafb_width := 5120\<rparr>)" for es
    by (simp add: dafb_writeRegister32_def dafb_writeBlock_def dafb_writeSwatch_def dafb_writeRamdac_def
        dafb_second_control_def dafb_updateMode_def dafb_pixel_mode_def dafb_resolution_def dafb_clockDivider_def
        dafb_init_def dafb_reset_def dafb_recalcIrq_def s_def Let_def)
  moreover have "replicate 7 (RegisterWrite32 0x08 0 :: 'a dafb_event) = [RegisterWrite32 0x08 0, RegisterWrite32 0x08 0,
      RegisterWrite32 0x08 0, RegisterWrite32 0x08 0, RegisterWrite32 0x08 0, RegisterWrite32 0x08 0, RegisterWrite32 0x08 0]"
    by (simp add: numeral_eq_Suc)
  ultimately show ?thesis
    by (simp add: stride_write width_grows i del: dafb_step.simps)
qed

end
