(* ===== verification/AluSpec.thy ===== *)
theory AluSpec
  imports OpsBase
begin

section \<open>What the arithmetic instructions promise\<close>

text \<open>
  The reference for the arithmetic handlers: the condition codes of an addition or subtraction with
  extend, at any width, in terms of the unsigned and signed values of the operands.  The lemmas
  relate them to the flag macros of the engine, which work on 32-bit intermediate results.
\<close>

unbundle bit_operations_syntax

definition add_ccr :: "'w::len word \<Rightarrow> 'w word \<Rightarrow> bool \<Rightarrow> ccr" where
  "add_ccr a b x =
    (let r = a + b + of_bool x; carry = 2 ^ LENGTH('w) \<le> uint a + uint b + of_bool x
     in \<lparr>ccX = carry, ccN = sint r < 0, ccZ = r = 0,
         ccV = sint r \<noteq> sint a + sint b + of_bool x, ccC = carry\<rparr>)"

definition sub_ccr :: "'w::len word \<Rightarrow> 'w word \<Rightarrow> bool \<Rightarrow> ccr" where
  "sub_ccr a b x =
    (let r = a - b - of_bool x; borrow = uint a < uint b + of_bool x
     in \<lparr>ccX = borrow, ccN = sint r < 0, ccZ = r = 0,
         ccV = sint r \<noteq> sint a - sint b - of_bool x, ccC = borrow\<rparr>)"

subsection \<open>Signs, carries and overflows\<close>

lemma div_less_half: "0 < M \<Longrightarrow> n < 2 * M \<Longrightarrow> n div M < 2" for n M :: int
  using div_mult_mod_eq [of n M] pos_mod_sign [of M n] mult_right_mono [of 2 "n div M" M] by linarith

lemma div_minus_one: "- M \<le> n \<Longrightarrow> n < 0 \<Longrightarrow> n div M = - 1" for n M :: int
proof -
  assume n: "- M \<le> n" "n < 0"
  then have "(n + M) div M = 0" by (intro div_pos_pos_trivial) simp_all
  moreover have "(n + M) div M = n div M + 1" using n by (intro div_add_self2) simp
  ultimately show "n div M = - 1" by simp
qed

lemma bit_uint_odd: "n < LENGTH('w) \<Longrightarrow> bit w n \<longleftrightarrow> odd (uint w div 2 ^ n)" for w :: "'w::len word"
  using bit_iff_odd [of "uint w" n] by (simp add: bit_uint_iff)

lemma sign_bit: "bit w (LENGTH('w) - 1) \<longleftrightarrow> 2 ^ (LENGTH('w) - 1) \<le> uint w" for w :: "'w::len word"
proof -
  have p: "(2::int) ^ LENGTH('w) = 2 * 2 ^ (LENGTH('w) - 1)"
    by (metis len_gt_0 power_eq_if less_numeral_extra(3))
  have u: "0 \<le> uint w" "uint w < 2 ^ LENGTH('w)" by simp_all
  have "bit w (LENGTH('w) - 1) \<longleftrightarrow> odd (uint w div 2 ^ (LENGTH('w) - 1))"
    by (rule bit_uint_odd) simp
  moreover have "uint w div 2 ^ (LENGTH('w) - 1) \<in> {0, 1}"
  proof -
    have "uint w div 2 ^ (LENGTH('w) - 1) < 2"
      using u p by (intro div_less_half) simp_all
    moreover have "0 \<le> uint w div 2 ^ (LENGTH('w) - 1)" by (simp add: pos_imp_zdiv_nonneg_iff)
    ultimately show ?thesis by auto
  qed
  moreover have "uint w div 2 ^ (LENGTH('w) - 1) = 0 \<longleftrightarrow> uint w < 2 ^ (LENGTH('w) - 1)"
    using u by (auto simp: zdiv_eq_0_iff)
  ultimately show ?thesis by auto
qed

lemma sint_signed: "sint w = uint w - (if bit w (LENGTH('w) - 1) then 2 ^ LENGTH('w) else 0)"
  for w :: "'w::len word"
  by (simp add: sint_uint signed_take_bit_eq_take_bit_minus bit_uint_iff take_bit_int_eq_self)

text \<open>Carry and overflow of a sum, and borrow and overflow of a difference, from the sign bits.\<close>

abbreviation sgn_bit :: "'w::len word \<Rightarrow> bool" where
  "sgn_bit w \<equiv> bit w (LENGTH('w) - 1)"

lemma half_range: "(2::int) ^ LENGTH('w::len) = 2 * 2 ^ (LENGTH('w) - 1)"
  by (metis len_gt_0 power_eq_if less_numeral_extra(3))

lemma mod_once: "0 \<le> n \<Longrightarrow> n < 2 * N \<Longrightarrow> n mod N = (if n < N then n else n - N)" for n N :: int
proof -
  assume n: "0 \<le> n" "n < 2 * N"
  show ?thesis
  proof (cases "n < N")
    case False
    then have "(n - N) mod N = n - N" using n by (intro mod_pos_pos_trivial) simp_all
    with False show ?thesis by simp
  qed (simp add: n(1) mod_pos_pos_trivial)
qed

lemma mod_below: "- N \<le> n \<Longrightarrow> n < N \<Longrightarrow> n mod N = (if 0 \<le> n then n else n + N)" for n N :: int
proof -
  assume n: "- N \<le> n" "n < N"
  show ?thesis
  proof (cases "0 \<le> n")
    case False
    then have "(n + N) mod N = n + N" using n by (intro mod_pos_pos_trivial) simp_all
    with False show ?thesis by simp
  qed (simp add: n(2) mod_pos_pos_trivial)
qed

lemma uint_sum:
  fixes a b :: "'w::len word"
  shows "uint (a + b + of_bool x) =
    (let n = uint a + uint b + of_bool x in if n < 2 ^ LENGTH('w) then n else n - 2 ^ LENGTH('w))"
proof -
  have "uint (a + b + of_bool x) = (uint a + uint b + of_bool x) mod 2 ^ LENGTH('w)"
    by (cases x) (simp_all add: uint_word_ariths mod_simps)
  then show ?thesis
    using mod_once [of "uint a + uint b + of_bool x" "2 ^ LENGTH('w)"] uint_lt2p [of a]
      uint_lt2p [of b]
    by (cases x) (simp_all add: Let_def)
qed

lemma uint_difference:
  fixes a b :: "'w::len word"
  shows "uint (a - b - of_bool x) =
    (let n = uint a - uint b - of_bool x in if 0 \<le> n then n else n + 2 ^ LENGTH('w))"
proof -
  have "uint (a - b - of_bool x) = (uint a - uint b - of_bool x) mod 2 ^ LENGTH('w)"
    by (cases x) (simp_all add: uint_word_ariths mod_simps)
  then show ?thesis
    using mod_below [of "2 ^ LENGTH('w)" "uint a - uint b - of_bool x"] uint_lt2p [of a]
      uint_lt2p [of b] uint_ge_0 [of a] uint_ge_0 [of b]
    by (cases x) (simp_all add: Let_def)
qed

lemma sum_ranges:
  fixes A B R c H :: int
  assumes "0 \<le> A" "A < 2 * H" "0 \<le> B" "B < 2 * H" "c = 0 \<or> c = 1"
    and R: "R = (if A + B + c < 2 * H then A + B + c else A + B + c - 2 * H)"
  shows "2 * H \<le> A + B + c \<longleftrightarrow> (H \<le> A \<and> H \<le> B) \<or> (\<not> H \<le> R \<and> (H \<le> A \<or> H \<le> B))"
    and "R - (if H \<le> R then 2 * H else 0)
        \<noteq> (A - (if H \<le> A then 2 * H else 0)) + (B - (if H \<le> B then 2 * H else 0)) + c
      \<longleftrightarrow> (H \<le> A) \<noteq> (H \<le> R) \<and> (H \<le> B) \<noteq> (H \<le> R)"
  using assms(1-5) unfolding R by (elim disjE; simp split: if_split; linarith)+

lemma difference_ranges:
  fixes A B R c H :: int
  assumes "0 \<le> A" "A < 2 * H" "0 \<le> B" "B < 2 * H" "c = 0 \<or> c = 1"
    and R: "R = (if 0 \<le> A - B - c then A - B - c else A - B - c + 2 * H)"
  shows "A < B + c \<longleftrightarrow> (H \<le> B \<and> H \<le> R) \<or> (\<not> H \<le> A \<and> (H \<le> B \<or> H \<le> R))"
    and "R - (if H \<le> R then 2 * H else 0)
        \<noteq> (A - (if H \<le> A then 2 * H else 0)) - (B - (if H \<le> B then 2 * H else 0)) - c
      \<longleftrightarrow> (H \<le> B) \<noteq> (H \<le> A) \<and> (H \<le> R) \<noteq> (H \<le> A)"
    and "(H \<le> R) \<noteq> ((H \<le> B) \<noteq> (H \<le> A) \<and> (H \<le> R) \<noteq> (H \<le> A)) \<longleftrightarrow>
        A - (if H \<le> A then 2 * H else 0) < B - (if H \<le> B then 2 * H else 0) + c"
  using assms(1-5) unfolding R by (elim disjE; simp split: if_split; linarith)+

lemma sum_signs:
  fixes a b :: "'w::len word" and x :: bool
  defines "r \<equiv> a + b + of_bool x"
  shows "2 ^ LENGTH('w) \<le> uint a + uint b + of_bool x \<longleftrightarrow>
      (sgn_bit a \<and> sgn_bit b) \<or> (\<not> sgn_bit r \<and> (sgn_bit a \<or> sgn_bit b))"
    and "sint r \<noteq> sint a + sint b + of_bool x \<longleftrightarrow> sgn_bit a \<noteq> sgn_bit r \<and> sgn_bit b \<noteq> sgn_bit r"
proof -
  define H :: int where "H = 2 ^ (LENGTH('w) - 1)"
  have N: "(2::int) ^ LENGTH('w) = 2 * H" by (simp add: H_def half_range)
  have u: "0 \<le> uint w" "uint w < 2 * H" for w :: "'w word"
    using uint_lt2p [of w] by (simp_all add: N [symmetric])
  have s: "sgn_bit w \<longleftrightarrow> H \<le> uint w" for w :: "'w word"
    using sign_bit [of w] by (simp add: H_def)
  have r: "uint r = (if uint a + uint b + of_bool x < 2 * H then uint a + uint b + of_bool x
      else uint a + uint b + of_bool x - 2 * H)"
    using uint_sum [of a b x] by (simp add: r_def N Let_def)
  have x: "(of_bool x :: int) = 0 \<or> (of_bool x :: int) = 1" by simp
  show "2 ^ LENGTH('w) \<le> uint a + uint b + of_bool x \<longleftrightarrow>
      (sgn_bit a \<and> sgn_bit b) \<or> (\<not> sgn_bit r \<and> (sgn_bit a \<or> sgn_bit b))"
    using sum_ranges(1) [OF u(1) [of a] u(2) u(1) [of b] u(2) x r] by (simp only: s N)
  show "sint r \<noteq> sint a + sint b + of_bool x \<longleftrightarrow> sgn_bit a \<noteq> sgn_bit r \<and> sgn_bit b \<noteq> sgn_bit r"
    using sum_ranges(2) [OF u(1) [of a] u(2) u(1) [of b] u(2) x r] by (simp only: sint_signed s N)
qed

lemma difference_signs:
  fixes a b :: "'w::len word" and x :: bool
  defines "r \<equiv> a - b - of_bool x"
  shows "uint a < uint b + of_bool x \<longleftrightarrow>
      (sgn_bit b \<and> sgn_bit r) \<or> (\<not> sgn_bit a \<and> (sgn_bit b \<or> sgn_bit r))"
    and "sint r \<noteq> sint a - sint b - of_bool x \<longleftrightarrow> sgn_bit b \<noteq> sgn_bit a \<and> sgn_bit r \<noteq> sgn_bit a"
    and "sgn_bit r \<noteq> (sgn_bit b \<noteq> sgn_bit a \<and> sgn_bit r \<noteq> sgn_bit a) \<longleftrightarrow> sint a < sint b + of_bool x"
proof -
  define H :: int where "H = 2 ^ (LENGTH('w) - 1)"
  have N: "(2::int) ^ LENGTH('w) = 2 * H" by (simp add: H_def half_range)
  have u: "0 \<le> uint w" "uint w < 2 * H" for w :: "'w word"
    using uint_lt2p [of w] by (simp_all add: N [symmetric])
  have s: "sgn_bit w \<longleftrightarrow> H \<le> uint w" for w :: "'w word"
    using sign_bit [of w] by (simp add: H_def)
  have r: "uint r = (if 0 \<le> uint a - uint b - of_bool x then uint a - uint b - of_bool x
      else uint a - uint b - of_bool x + 2 * H)"
    using uint_difference [of a b x] by (simp add: r_def N Let_def)
  have x: "(of_bool x :: int) = 0 \<or> (of_bool x :: int) = 1" by simp
  show "uint a < uint b + of_bool x \<longleftrightarrow>
      (sgn_bit b \<and> sgn_bit r) \<or> (\<not> sgn_bit a \<and> (sgn_bit b \<or> sgn_bit r))"
    using difference_ranges(1) [OF u(1) [of a] u(2) u(1) [of b] u(2) x r] by (simp only: s N)
  show "sint r \<noteq> sint a - sint b - of_bool x \<longleftrightarrow> sgn_bit b \<noteq> sgn_bit a \<and> sgn_bit r \<noteq> sgn_bit a"
    using difference_ranges(2) [OF u(1) [of a] u(2) u(1) [of b] u(2) x r] by (simp only: sint_signed s N)
  show "sgn_bit r \<noteq> (sgn_bit b \<noteq> sgn_bit a \<and> sgn_bit r \<noteq> sgn_bit a) \<longleftrightarrow> sint a < sint b + of_bool x"
    using difference_ranges(3) [OF u(1) [of a] u(2) u(1) [of b] u(2) x r] by (simp only: sint_signed s N)
qed

lemma sign_negative: "sgn_bit w \<longleftrightarrow> sint w < 0" for w :: "'w::len word"
  using bit_last_iff [of w] by simp

text \<open>The same with the fields of \<open>add_ccr\<close> and \<open>sub_ccr\<close>.\<close>

lemma add_ccr_signs:
  fixes a b :: "'w::len word"
  shows "add_ccr a b x = (let r = a + b + of_bool x;
      c = (sgn_bit a \<and> sgn_bit b) \<or> (\<not> sgn_bit r \<and> (sgn_bit a \<or> sgn_bit b))
    in \<lparr>ccX = c, ccN = sgn_bit r, ccZ = r = 0,
        ccV = sgn_bit a \<noteq> sgn_bit r \<and> sgn_bit b \<noteq> sgn_bit r, ccC = c\<rparr>)"
  using sum_signs [of a b x] by (simp add: add_ccr_def Let_def flip: bit_last_iff)

lemma sub_ccr_signs:
  fixes a b :: "'w::len word"
  shows "sub_ccr a b x = (let r = a - b - of_bool x;
      c = (sgn_bit b \<and> sgn_bit r) \<or> (\<not> sgn_bit a \<and> (sgn_bit b \<or> sgn_bit r))
    in \<lparr>ccX = c, ccN = sgn_bit r, ccZ = r = 0,
        ccV = sgn_bit b \<noteq> sgn_bit a \<and> sgn_bit r \<noteq> sgn_bit a, ccC = c\<rparr>)"
  using difference_signs(1,2) [of a b x] by (simp add: sub_ccr_def Let_def flip: bit_last_iff)

subsection \<open>The flag macros\<close>

text \<open>Condition codes assembled from flag words of the engine, as \<open>ccr_of\<close> reads them.\<close>

definition flags_ccr :: "u32 \<Rightarrow> u32 \<Rightarrow> u32 \<Rightarrow> u32 \<Rightarrow> u32 \<Rightarrow> ccr" where
  "flags_ccr x n z v c =
    \<lparr>ccX = bit x 8, ccN = bit n 7, ccZ = z = 0, ccV = bit v 7, ccC = bit c 8\<rparr>"

lemma ccr_of_flags: "ccr_of s = flags_ccr (x_flag s) (n_flag s) (not_z_flag s) (v_flag s) (c_flag s)"
  by (simp add: ccr_of_def flags_ccr_def)

lemma bool_word_of_bool: "bool_word x = of_bool x"
  by (simp add: bool_word_def)

lemma add_flags_32:
  fixes a b :: u32 and x :: bool
  defines "r \<equiv> a + b + of_bool x"
  shows "flags_ccr (CFLAG_ADD_32 b a r) (NFLAG_32 r) r (VFLAG_ADD_32 b a r) (CFLAG_ADD_32 b a r)
    = add_ccr a b x"
  by (auto simp: add_ccr_signs flags_ccr_def CFLAG_ADD_32_def NFLAG_32_def VFLAG_ADD_32_def
      bit_simps r_def Let_def)

lemma sub_flags_32:
  fixes a b :: u32 and x :: bool
  defines "r \<equiv> a - b - of_bool x"
  shows "flags_ccr (CFLAG_SUB_32 b a r) (NFLAG_32 r) r (VFLAG_SUB_32 b a r) (CFLAG_SUB_32 b a r)
    = sub_ccr a b x"
  by (auto simp: sub_ccr_signs flags_ccr_def CFLAG_SUB_32_def NFLAG_32_def VFLAG_SUB_32_def
      bit_simps r_def Let_def)

text \<open>
  The 8- and 16-bit forms compute in 32 bits: bit 8 or 16 of the intermediate result is the carry
  or borrow.
\<close>

lemma bit_of_range:
  fixes r :: u32
  assumes "uint r < 2 * 2 ^ n" "n < 32"
  shows "bit r n \<longleftrightarrow> 2 ^ n \<le> uint r"
proof -
  have "bit r n \<longleftrightarrow> odd (uint r div 2 ^ n)"
    using assms(2) by (intro bit_uint_odd) simp
  moreover have "uint r div 2 ^ n < 2" using assms(1) by (intro div_less_half) simp_all
  moreover have "0 \<le> uint r div 2 ^ n" by (simp add: pos_imp_zdiv_nonneg_iff)
  moreover have "uint r div 2 ^ n = 0 \<longleftrightarrow> uint r < 2 ^ n" by (auto simp: zdiv_eq_0_iff)
  ultimately show ?thesis by (cases "uint r div 2 ^ n = 0") auto
qed

lemma uint_ucast_u32: "LENGTH('w) \<le> 32 \<Longrightarrow> uint (ucast w :: u32) = uint w" for w :: "'w::len word"
proof -
  assume "LENGTH('w) \<le> 32"
  then have "(2::int) ^ LENGTH('w) \<le> 2 ^ 32" by (intro power_increasing) simp_all
  with uint_lt2p [of w] have "uint w < 2 ^ 32" by (rule order_less_le_trans)
  then show ?thesis by (simp add: unsigned_ucast_eq take_bit_int_eq_self_iff)
qed

lemma sum_less_twice: "A < M \<Longrightarrow> B < M \<Longrightarrow> A + B + of_bool x < 2 * M" for A B M :: int
  by (cases x) simp_all

lemma difference_bounds:
  "A < M \<Longrightarrow> B < M \<Longrightarrow> 0 \<le> A \<Longrightarrow> 0 \<le> B \<Longrightarrow> - M \<le> A - B - of_bool x \<and> A - B - of_bool x < M"
  for A B M :: int
  by (cases x) simp_all

lemma sum_below: "A < M \<Longrightarrow> B < M \<Longrightarrow> M \<le> 2 ^ 16 \<Longrightarrow> A + B + of_bool x < 2 ^ 17 + 1" for A B M :: int
  by (cases x) simp_all

lemma carry_out:
  fixes a b :: "'w::len word" and x :: bool
  assumes w: "LENGTH('w) \<le> 16"
  defines "r \<equiv> (ucast a :: u32) + ucast b + of_bool x"
    and "d \<equiv> (ucast a :: u32) - ucast b - of_bool x"
  shows "bit r (LENGTH('w)) \<longleftrightarrow> 2 ^ LENGTH('w) \<le> uint a + uint b + of_bool x"
    and "bit d (LENGTH('w)) \<longleftrightarrow> uint a < uint b + of_bool x"
proof -
  have l: "(2::int) ^ LENGTH('w) \<le> 2 ^ 16" using w by (intro power_increasing) simp_all
  have u: "uint (ucast c :: u32) = uint c" for c :: "'w word"
    using w by (simp add: uint_ucast_u32)
  note ab = uint_lt2p [of a] uint_lt2p [of b] uint_ge_0 [of a] uint_ge_0 [of b]
  have "uint a + uint b + of_bool x < 2 ^ 17 + 1"
    using sum_below [OF ab(1,2) l] by simp
  then have r: "uint r = uint a + uint b + of_bool x"
    unfolding r_def uint_sum u Let_def by simp
  show "bit r (LENGTH('w)) \<longleftrightarrow> 2 ^ LENGTH('w) \<le> uint a + uint b + of_bool x"
    by (subst bit_of_range) (use w sum_less_twice [OF ab(1,2)] in \<open>simp_all add: r\<close>)
  define n where "n = uint a - uint b - of_bool x"
  have n: "- (2 ^ LENGTH('w)) \<le> n" "n < 2 ^ LENGTH('w)"
    using difference_bounds [OF ab] by (simp_all add: n_def)
  have d: "uint d = (if 0 \<le> n then n else n + 2 ^ 32)"
    unfolding d_def uint_difference u by (simp add: Let_def n_def)
  have "bit d (LENGTH('w)) \<longleftrightarrow> odd (uint d div 2 ^ LENGTH('w))"
    using w by (intro bit_uint_odd) simp
  also have "\<dots> \<longleftrightarrow> n < 0"
  proof (cases "0 \<le> n")
    case True
    then have "n div 2 ^ LENGTH('w) = 0" using n by (simp add: div_pos_pos_trivial)
    with True show ?thesis by (simp add: d)
  next
    case False
    have "(2::int) ^ 32 = 2 ^ (32 - LENGTH('w)) * 2 ^ LENGTH('w)"
      using w by (simp flip: power_add)
    then have "(n + 2 ^ 32) div 2 ^ LENGTH('w) = n div 2 ^ LENGTH('w) + 2 ^ (32 - LENGTH('w))"
      by (simp only: div_mult_self1 [OF power_not_zero [OF zero_neq_numeral [symmetric]]] add.commute)
    moreover have "n div 2 ^ LENGTH('w) = - 1" using n False by (intro div_minus_one) simp_all
    moreover have "even ((2::int) ^ (32 - LENGTH('w)))" using w by simp
    ultimately show ?thesis using False by (simp add: d)
  qed
  finally show "bit d (LENGTH('w)) \<longleftrightarrow> uint a < uint b + of_bool x" by (simp add: n_def algebra_simps)
qed

text \<open>Operands cut to their size, and the intermediate result cut back.\<close>

definition low8 :: "u32 \<Rightarrow> u8" where "low8 x = ucast x"
definition low16 :: "u32 \<Rightarrow> u16" where "low16 x = ucast x"

lemma MASK_OUT_ABOVE_8_low: "MASK_OUT_ABOVE_8 x = ucast (low8 x)"
  and MASK_OUT_ABOVE_16_low: "MASK_OUT_ABOVE_16 x = ucast (low16 x)"
  by (simp_all add: MASK_OUT_ABOVE_8_def MASK_OUT_ABOVE_16_def low8_def low16_def word32_eq bit_simps)

lemma low_ucast [simp]: "low8 (ucast a) = a" "low16 (ucast b) = b"
  by (simp_all add: low8_def low16_def word8_eq word16_eq bit_simps)

lemma word_of_int_cut:
  "LENGTH('w::len) \<le> n \<Longrightarrow> (word_of_int (k mod 2 ^ n) :: 'w word) = word_of_int k"
  by (simp add: word_of_int_eq_iff min_absorb1 flip: take_bit_eq_mod)

lemma ucast_down_arith:
  fixes x y :: "'v::len word"
  assumes "LENGTH('w::len) \<le> LENGTH('v)"
  shows "(ucast (x + y) :: 'w word) = ucast x + ucast y" "(ucast (x - y) :: 'w word) = ucast x - ucast y"
    and "(ucast (word_of_int k :: 'v word) :: 'w word) = word_of_int k"
  by (simp_all only: ucast_eq uint_word_ariths uint_word_of_int word_of_int_cut [OF assms]
      wi_hom_add wi_hom_sub)

lemma low_word_of_int: "low8 (word_of_int k) = word_of_int k" "low16 (word_of_int k) = word_of_int k"
  unfolding low8_def low16_def by (rule ucast_down_arith(3); simp)+

lemma low_arith [simp]:
  "low8 (x + y) = low8 x + low8 y" "low8 (x - y) = low8 x - low8 y"
  "low16 (x + y) = low16 x + low16 y" "low16 (x - y) = low16 x - low16 y"
  "low8 (of_bool p) = of_bool p" "low16 (of_bool p) = of_bool p"
  by (simp_all add: low8_def low16_def ucast_down_arith)

lemma low_bits [simp]: "n < 8 \<Longrightarrow> bit (low8 x) n = bit x n" "n < 16 \<Longrightarrow> bit (low16 x) n = bit x n"
  by (simp_all add: low8_def low16_def bit_simps)

lemma ucast_eq_0_u32 [simp]: "(ucast (a :: u8) :: u32) = 0 \<longleftrightarrow> a = 0"
  "(ucast (b :: u16) :: u32) = 0 \<longleftrightarrow> b = 0"
  by (simp_all add: word_uint_eq_iff uint_ucast_u32)

lemma add_flags_8:
  fixes a b :: u8 and x :: bool
  defines "r \<equiv> (ucast a :: u32) + ucast b + of_bool x"
  shows "flags_ccr (CFLAG_8 r) (NFLAG_8 r) (MASK_OUT_ABOVE_8 r) (VFLAG_ADD_8 (ucast b) (ucast a) r)
      (CFLAG_8 r) = add_ccr a b x"
proof -
  have l: "low8 r = a + b + of_bool x" by (simp add: r_def)
  have "bit r 8 \<longleftrightarrow> ccC (add_ccr a b x)"
    using carry_out(1) [of a b x] by (simp add: r_def add_ccr_def Let_def)
  moreover have "bit r 7 = bit (a + b + of_bool x) 7" by (simp flip: l)
  ultimately show ?thesis
    by (auto simp: add_ccr_signs flags_ccr_def CFLAG_8_def NFLAG_8_def VFLAG_ADD_8_def
      MASK_OUT_ABOVE_8_low l bit_simps Let_def)
qed

lemma sub_flags_8:
  fixes a b :: u8 and x :: bool
  defines "r \<equiv> (ucast a :: u32) - ucast b - of_bool x"
  shows "flags_ccr (CFLAG_8 r) (NFLAG_8 r) (MASK_OUT_ABOVE_8 r) (VFLAG_SUB_8 (ucast b) (ucast a) r)
      (CFLAG_8 r) = sub_ccr a b x"
proof -
  have l: "low8 r = a - b - of_bool x" by (simp add: r_def)
  have "bit r 8 \<longleftrightarrow> ccC (sub_ccr a b x)"
    using carry_out(2) [of a b x] by (simp add: r_def sub_ccr_def Let_def)
  moreover have "bit r 7 = bit (a - b - of_bool x) 7" by (simp flip: l)
  ultimately show ?thesis
    by (auto simp: sub_ccr_signs flags_ccr_def CFLAG_8_def NFLAG_8_def VFLAG_SUB_8_def
      MASK_OUT_ABOVE_8_low l bit_simps Let_def)
qed

lemma add_flags_16:
  fixes a b :: u16 and x :: bool
  defines "r \<equiv> (ucast a :: u32) + ucast b + of_bool x"
  shows "flags_ccr (CFLAG_16 r) (NFLAG_16 r) (MASK_OUT_ABOVE_16 r) (VFLAG_ADD_16 (ucast b) (ucast a) r)
      (CFLAG_16 r) = add_ccr a b x"
proof -
  have l: "low16 r = a + b + of_bool x" by (simp add: r_def)
  have "bit r 16 \<longleftrightarrow> ccC (add_ccr a b x)"
    using carry_out(1) [of a b x] by (simp add: r_def add_ccr_def Let_def)
  moreover have "bit r 15 = bit (a + b + of_bool x) 15" by (simp flip: l)
  ultimately show ?thesis
    by (auto simp: add_ccr_signs flags_ccr_def CFLAG_16_def NFLAG_16_def VFLAG_ADD_16_def
      MASK_OUT_ABOVE_16_low l bit_simps Let_def)
qed

lemma sub_flags_16:
  fixes a b :: u16 and x :: bool
  defines "r \<equiv> (ucast a :: u32) - ucast b - of_bool x"
  shows "flags_ccr (CFLAG_16 r) (NFLAG_16 r) (MASK_OUT_ABOVE_16 r) (VFLAG_SUB_16 (ucast b) (ucast a) r)
      (CFLAG_16 r) = sub_ccr a b x"
proof -
  have l: "low16 r = a - b - of_bool x" by (simp add: r_def)
  have "bit r 16 \<longleftrightarrow> ccC (sub_ccr a b x)"
    using carry_out(2) [of a b x] by (simp add: r_def sub_ccr_def Let_def)
  moreover have "bit r 15 = bit (a - b - of_bool x) 15" by (simp flip: l)
  ultimately show ?thesis
    by (auto simp: sub_ccr_signs flags_ccr_def CFLAG_16_def NFLAG_16_def VFLAG_SUB_16_def
      MASK_OUT_ABOVE_16_low l bit_simps Let_def)
qed



section \<open>What the operand readers return\<close>

text \<open>
  Byte and word operands come back zero-extended, whatever the bus, the translation unit and the
  exceptions on the way do.  \<open>on_operand\<close> says what an instruction makes of its operand.
\<close>

unbundle bit_operations_syntax

named_theorems operand_range \<open>operand readers return values of their width\<close>

lemma finish_read_value: "holds (\<lambda>v _. v = value) (\<lambda>_ _. True) (finish_read berr a sz value e s)"
  by (auto simp: finish_read_def intro: holds_chain [where R = "\<lambda>_ _. True"])

lemma ucast_range: "(ucast (a :: u8) :: u32) < 256" "(ucast (b :: u16) :: u32) < 65536"
  using uint_lt2p [of a] uint_lt2p [of b] by (simp_all add: word_less_def uint_ucast_u32)

lemma read_memory_range:
  "holds (\<lambda>v _. v < 256) (\<lambda>_ _. True) (m68k_read_memory_8_via berr a s)"
  "holds (\<lambda>v _. v < 65536) (\<lambda>_ _. True) (m68k_read_memory_16_via berr a s)"
  unfolding m68k_read_memory_8_via_def m68k_read_memory_16_via_def
  by (intro holds_rules; simp; rule holds_mono [OF finish_read_value]; simp add: ucast_range)+

lemma read_fc_range:
  "holds (\<lambda>v _. v < 256) (\<lambda>_ _. True) (m68ki_read_8_fc_via berr a fc s)"
  "holds (\<lambda>v _. v < 65536) (\<lambda>_ _. True) (m68ki_read_16_fc_via berr a fc s)"
  unfolding m68ki_read_8_fc_via_def m68ki_read_16_fc_via_def Let_def
  by (auto intro!: holds_chain [where R = "\<lambda>_ _. True"] read_memory_range)

lemma read_range [operand_range]:
  "holds (\<lambda>v _. v < 256) (\<lambda>_ _. True) (m68ki_read_8 a s)"
  "holds (\<lambda>v _. v < 65536) (\<lambda>_ _. True) (m68ki_read_16 a s)"
  "holds (\<lambda>v _. v < 256) (\<lambda>_ _. True) (m68ki_read_pcrel_8 a s)"
  "holds (\<lambda>v _. v < 65536) (\<lambda>_ _. True) (m68ki_read_pcrel_16 a s)"
  by (simp_all add: m68ki_read_8_def m68ki_read_16_def m68ki_read_pcrel_8_def m68ki_read_pcrel_16_def
      m68ki_read_program_8_def m68ki_read_program_16_def m68ki_read_8_fc_def m68ki_read_16_fc_def
      read_fc_range)

lemma mask_range: "MASK_OUT_ABOVE_8 v < 256" "MASK_OUT_ABOVE_16 v < 65536"
  by (simp_all add: MASK_OUT_ABOVE_8_low MASK_OUT_ABOVE_16_low ucast_range)

lemma imm_range [operand_range]:
  "holds (\<lambda>v _. v < 65536) (\<lambda>_ _. True) (m68ki_read_imm_16 s)"
  "holds (\<lambda>v _. v < 256) (\<lambda>_ _. True) (m68ki_read_imm_8 s)"
  unfolding m68ki_read_imm_8_def m68ki_read_imm_16_def
  by (auto intro!: holds_chain [where R = "\<lambda>_ _. True"] simp: Let_def mask_range)

lemma chain_range:
  "(\<And>a t. holds P (\<lambda>_ _. True) (f a t)) \<Longrightarrow> holds P (\<lambda>_ _. True) (chain r f)"
  by (rule holds_chain [where R = "\<lambda>_ _. True"]) simp_all

lemma oper_8_range [operand_range]:
  "holds (\<lambda>v _. v < 256) (\<lambda>_ _. True) (OPER_AY_AI_8 s)"
  "holds (\<lambda>v _. v < 256) (\<lambda>_ _. True) (OPER_AY_PI_8 s)"
  "holds (\<lambda>v _. v < 256) (\<lambda>_ _. True) (OPER_A7_PI_8 s)"
  "holds (\<lambda>v _. v < 256) (\<lambda>_ _. True) (OPER_AY_PD_8 s)"
  "holds (\<lambda>v _. v < 256) (\<lambda>_ _. True) (OPER_A7_PD_8 s)"
  "holds (\<lambda>v _. v < 256) (\<lambda>_ _. True) (OPER_AY_DI_8 s)"
  "holds (\<lambda>v _. v < 256) (\<lambda>_ _. True) (OPER_AY_IX_8 s)"
  "holds (\<lambda>v _. v < 256) (\<lambda>_ _. True) (OPER_AW_8 s)"
  "holds (\<lambda>v _. v < 256) (\<lambda>_ _. True) (OPER_AL_8 s)"
  "holds (\<lambda>v _. v < 256) (\<lambda>_ _. True) (OPER_PCDI_8 s)"
  "holds (\<lambda>v _. v < 256) (\<lambda>_ _. True) (OPER_PCIX_8 s)"
  "holds (\<lambda>v _. v < 256) (\<lambda>_ _. True) (OPER_I_8 s)"
  by (simp_all add: OPER_AY_AI_8_def OPER_AY_PI_8_def OPER_A7_PI_8_def OPER_AY_PD_8_def
      OPER_A7_PD_8_def OPER_AY_DI_8_def OPER_AY_IX_8_def OPER_AW_8_def OPER_AL_8_def
      OPER_PCDI_8_def OPER_PCIX_8_def OPER_I_8_def chain_range operand_range)

lemma oper_16_range [operand_range]:
  "holds (\<lambda>v _. v < 65536) (\<lambda>_ _. True) (OPER_AY_AI_16 s)"
  "holds (\<lambda>v _. v < 65536) (\<lambda>_ _. True) (OPER_AY_PI_16 s)"
  "holds (\<lambda>v _. v < 65536) (\<lambda>_ _. True) (OPER_AY_PD_16 s)"
  "holds (\<lambda>v _. v < 65536) (\<lambda>_ _. True) (OPER_AY_DI_16 s)"
  "holds (\<lambda>v _. v < 65536) (\<lambda>_ _. True) (OPER_AY_IX_16 s)"
  "holds (\<lambda>v _. v < 65536) (\<lambda>_ _. True) (OPER_AW_16 s)"
  "holds (\<lambda>v _. v < 65536) (\<lambda>_ _. True) (OPER_AL_16 s)"
  "holds (\<lambda>v _. v < 65536) (\<lambda>_ _. True) (OPER_PCDI_16 s)"
  "holds (\<lambda>v _. v < 65536) (\<lambda>_ _. True) (OPER_PCIX_16 s)"
  "holds (\<lambda>v _. v < 65536) (\<lambda>_ _. True) (OPER_I_16 s)"
  by (simp_all add: OPER_AY_AI_16_def OPER_AY_PI_16_def OPER_AY_PD_16_def OPER_AY_DI_16_def
      OPER_AY_IX_16_def OPER_AW_16_def OPER_AL_16_def OPER_PCDI_16_def OPER_PCIX_16_def
      OPER_I_16_def chain_range operand_range)

subsection \<open>Instructions with one operand\<close>

text \<open>
  \<open>on_operand r r' P\<close>: the instruction with result \<open>r'\<close> first obtains its operand with result \<open>r\<close>;
  it jumps as the operand read does, and otherwise returns in a state that \<open>P\<close> relates to the
  operand and the state after reading it.
\<close>

fun on_operand ::
    "('b, 'v) result \<Rightarrow> ('b, unit) result \<Rightarrow> ('v \<Rightarrow> 'b machine \<Rightarrow> 'b machine \<Rightarrow> bool) \<Rightarrow> bool" where
  "on_operand (Jump j u) r P = (r = Jump j u)"
| "on_operand (Ret v u) (Ret _ t) P = P v u t"
| "on_operand (Ret v u) (Jump j t) P = False"

lemma on_operand_chain:
  assumes "holds (\<lambda>v _. Q v) (\<lambda>_ _. True) r" and "\<And>v u. Q v \<Longrightarrow> f v u = Ret () (g v u) \<and> P v u (g v u)"
  shows "on_operand r (chain r f) P"
  using assms by (cases r) auto

lemma on_operand_pure:
  assumes "f v u = Ret () (g v u) \<and> P v u (g v u)"
  shows "on_operand (Ret v u) (f v u) P"
  using assms by simp

text \<open>
  \<open>alu_done u t i v c\<close>: from \<open>u\<close> to \<open>t\<close> register \<open>i\<close> became \<open>v\<close>, the condition codes became \<open>c\<close>,
  and nothing else changed.  \<open>flags_done\<close> is the same without a register.
\<close>

definition flags_done :: "'b machine \<Rightarrow> 'b machine \<Rightarrow> ccr \<Rightarrow> bool" where
  "flags_done u t c \<longleftrightarrow> ccr_of t = c \<and>
     t = u\<lparr>x_flag := x_flag t, n_flag := n_flag t, not_z_flag := not_z_flag t, v_flag := v_flag t,
           c_flag := c_flag t\<rparr>"

definition alu_done :: "'b machine \<Rightarrow> 'b machine \<Rightarrow> nat \<Rightarrow> u32 \<Rightarrow> ccr \<Rightarrow> bool" where
  "alu_done u t i v c \<longleftrightarrow> flags_done (u\<lparr>dar := (dar u)(i := v)\<rparr>) t c"

definition put_low8 :: "u32 \<Rightarrow> u8 \<Rightarrow> u32" where
  "put_low8 x a = (x AND NOT 0xff) OR ucast a"

definition put_low16 :: "u32 \<Rightarrow> u16 \<Rightarrow> u32" where
  "put_low16 x a = (x AND NOT 0xffff) OR ucast a"

lemma below_or_above:
  "MASK_OUT_BELOW_8 x OR MASK_OUT_ABOVE_8 r = put_low8 x (low8 r)"
  "MASK_OUT_BELOW_16 x OR MASK_OUT_ABOVE_16 r = put_low16 x (low16 r)"
  by (simp_all add: put_low8_def put_low16_def MASK_OUT_BELOW_8_def MASK_OUT_BELOW_16_def
      MASK_OUT_ABOVE_8_low MASK_OUT_ABOVE_16_low)

lemma small_operand: "v < 256 \<Longrightarrow> v = ucast (low8 v)" "v < 65536 \<Longrightarrow> v = ucast (low16 v)"
proof -
  have e: "(256 :: u32) = 2 ^ 8" "(65536 :: u32) = 2 ^ 16" by simp_all
  show "v < 256 \<Longrightarrow> v = ucast (low8 v)"
    using less_mask_eq [of v 8] unfolding e
    by (simp add: MASK_OUT_ABOVE_8_low [symmetric] MASK_OUT_ABOVE_8_def mask_8)
  show "v < 65536 \<Longrightarrow> v = ucast (low16 v)"
    using less_mask_eq [of v 16] unfolding e
    by (simp add: MASK_OUT_ABOVE_16_low [symmetric] MASK_OUT_ABOVE_16_def mask_16)
qed

end
