(* ===== verification/OpsBcd.thy ===== *)
theory OpsBcd
  imports OpsBase
begin

section \<open>Instruction handlers: the decimal instructions ABCD, SBCD, NBCD, PACK and UNPK\<close>

text \<open>
  The handlers of m68kops.c for the decimal instructions ABCD, SBCD, NBCD, PACK and UNPK.
  One definition per handler, under the name of its C function; the effective address is part of
  the name.
\<close>

unbundle bit_operations_syntax

definition m68k_op_abcd_8_rr :: "'b op" where
  "m68k_op_abcd_8_rr s =
    (let src = DY s;
         dst = DX s;
         res = LOW_NIBBLE src + LOW_NIBBLE dst + XFLAG_AS_1 s;
         s = s\<lparr>v_flag := NOT res\<rparr>;
         res = (if 9 < res
                then res + 6
                else res);
         res = res + (HIGH_NIBBLE src + HIGH_NIBBLE dst);
         s = s\<lparr>c_flag := push_bit 8 (bool_word (0x99 < res)),
               x_flag := push_bit 8 (bool_word (0x99 < res))\<rparr>;
         res = (if c_flag s \<noteq> 0
                then res - 0xa0
                else res);
         s = s\<lparr>v_flag := (v_flag s) AND res, n_flag := NFLAG_8 res\<rparr>;
         res = MASK_OUT_ABOVE_8 res;
         s = s\<lparr>not_z_flag := (not_z_flag s) OR res\<rparr>
     in Ret () (set_DX (MASK_OUT_BELOW_8 (DX s) OR res) s))"

definition m68k_op_abcd_8_mm_ax7 :: "'b op" where
  "m68k_op_abcd_8_mm_ax7 s =
    (chain (OPER_AY_PD_8 s) (\<lambda>src s.
     chain (EA_A7_PD_8 s) (\<lambda>ea s.
     chain (m68ki_read_8 ea s) (\<lambda>dst s.
     let res = LOW_NIBBLE src + LOW_NIBBLE dst + XFLAG_AS_1 s;
         s = s\<lparr>v_flag := NOT res\<rparr>;
         res = (if 9 < res
                then res + 6
                else res);
         res = res + (HIGH_NIBBLE src + HIGH_NIBBLE dst);
         s = s\<lparr>c_flag := push_bit 8 (bool_word (0x99 < res)),
               x_flag := push_bit 8 (bool_word (0x99 < res))\<rparr>;
         res = (if c_flag s \<noteq> 0
                then res - 0xa0
                else res);
         s = s\<lparr>v_flag := (v_flag s) AND res, n_flag := NFLAG_8 res\<rparr>;
         res = MASK_OUT_ABOVE_8 res;
         s = s\<lparr>not_z_flag := (not_z_flag s) OR res\<rparr>
     in m68ki_write_8 ea res s))))"

definition m68k_op_abcd_8_mm_ay7 :: "'b op" where
  "m68k_op_abcd_8_mm_ay7 s =
    (chain (OPER_A7_PD_8 s) (\<lambda>src s.
     chain (EA_AX_PD_8 s) (\<lambda>ea s.
     chain (m68ki_read_8 ea s) (\<lambda>dst s.
     let res = LOW_NIBBLE src + LOW_NIBBLE dst + XFLAG_AS_1 s;
         s = s\<lparr>v_flag := NOT res\<rparr>;
         res = (if 9 < res
                then res + 6
                else res);
         res = res + (HIGH_NIBBLE src + HIGH_NIBBLE dst);
         s = s\<lparr>c_flag := push_bit 8 (bool_word (0x99 < res)),
               x_flag := push_bit 8 (bool_word (0x99 < res))\<rparr>;
         res = (if c_flag s \<noteq> 0
                then res - 0xa0
                else res);
         s = s\<lparr>v_flag := (v_flag s) AND res, n_flag := NFLAG_8 res\<rparr>;
         res = MASK_OUT_ABOVE_8 res;
         s = s\<lparr>not_z_flag := (not_z_flag s) OR res\<rparr>
     in m68ki_write_8 ea res s))))"

definition m68k_op_abcd_8_mm_axy7 :: "'b op" where
  "m68k_op_abcd_8_mm_axy7 s =
    (chain (OPER_A7_PD_8 s) (\<lambda>src s.
     chain (EA_A7_PD_8 s) (\<lambda>ea s.
     chain (m68ki_read_8 ea s) (\<lambda>dst s.
     let res = LOW_NIBBLE src + LOW_NIBBLE dst + XFLAG_AS_1 s;
         s = s\<lparr>v_flag := NOT res\<rparr>;
         res = (if 9 < res
                then res + 6
                else res);
         res = res + (HIGH_NIBBLE src + HIGH_NIBBLE dst);
         s = s\<lparr>c_flag := push_bit 8 (bool_word (0x99 < res)),
               x_flag := push_bit 8 (bool_word (0x99 < res))\<rparr>;
         res = (if c_flag s \<noteq> 0
                then res - 0xa0
                else res);
         s = s\<lparr>v_flag := (v_flag s) AND res, n_flag := NFLAG_8 res\<rparr>;
         res = MASK_OUT_ABOVE_8 res;
         s = s\<lparr>not_z_flag := (not_z_flag s) OR res\<rparr>
     in m68ki_write_8 ea res s))))"

definition m68k_op_abcd_8_mm :: "'b op" where
  "m68k_op_abcd_8_mm s =
    (chain (OPER_AY_PD_8 s) (\<lambda>src s.
     chain (EA_AX_PD_8 s) (\<lambda>ea s.
     chain (m68ki_read_8 ea s) (\<lambda>dst s.
     let res = LOW_NIBBLE src + LOW_NIBBLE dst + XFLAG_AS_1 s;
         s = s\<lparr>v_flag := NOT res\<rparr>;
         res = (if 9 < res
                then res + 6
                else res);
         res = res + (HIGH_NIBBLE src + HIGH_NIBBLE dst);
         s = s\<lparr>c_flag := push_bit 8 (bool_word (0x99 < res)),
               x_flag := push_bit 8 (bool_word (0x99 < res))\<rparr>;
         res = (if c_flag s \<noteq> 0
                then res - 0xa0
                else res);
         s = s\<lparr>v_flag := (v_flag s) AND res, n_flag := NFLAG_8 res\<rparr>;
         res = MASK_OUT_ABOVE_8 res;
         s = s\<lparr>not_z_flag := (not_z_flag s) OR res\<rparr>
     in m68ki_write_8 ea res s))))"

definition m68k_op_nbcd_8_d :: "'b op" where
  "m68k_op_nbcd_8_d s =
    (let dst = DY s;
         res = MASK_OUT_ABOVE_8 (0x9a - dst - XFLAG_AS_1 s);
         (res, s) = (if res \<noteq> 0x9a
                     then let s = s\<lparr>v_flag := NOT res\<rparr>;
                              res = (if res AND 0x0f = 0xa
                                     then (res AND 0xf0) + 0x10
                                     else res);
                              res = MASK_OUT_ABOVE_8 res;
                              s = s\<lparr>v_flag := (v_flag s) AND res\<rparr>;
                              s = set_DY (MASK_OUT_BELOW_8 (DY s) OR res) s;
                              s = s\<lparr>not_z_flag := (not_z_flag s) OR res,
                                    c_flag := CFLAG_SET,
                                    x_flag := XFLAG_SET\<rparr>
                          in (res, s)
                     else let s = s\<lparr>v_flag := VFLAG_CLEAR,
                                    c_flag := CFLAG_CLEAR,
                                    x_flag := XFLAG_CLEAR\<rparr>
                          in (res, s))
     in Ret () (s\<lparr>n_flag := NFLAG_8 res\<rparr>))"

definition m68k_op_nbcd_8_ai :: "'b op" where
  "m68k_op_nbcd_8_ai s =
    (chain (EA_AY_AI_8 s) (\<lambda>ea s.
     chain (m68ki_read_8 ea s) (\<lambda>dst s.
     let res = MASK_OUT_ABOVE_8 (0x9a - dst - XFLAG_AS_1 s)
     in chain (if res \<noteq> 0x9a
               then let s = s\<lparr>v_flag := NOT res\<rparr>;
                        res = (if res AND 0x0f = 0xa
                               then (res AND 0xf0) + 0x10
                               else res);
                        res = MASK_OUT_ABOVE_8 res;
                        s = s\<lparr>v_flag := (v_flag s) AND res\<rparr>
                    in chain (m68ki_write_8 ea (MASK_OUT_ABOVE_8 res) s) (\<lambda>_ s.
                       let s = s\<lparr>not_z_flag := (not_z_flag s) OR res,
                                 c_flag := CFLAG_SET,
                                 x_flag := XFLAG_SET\<rparr>
                       in Ret res s)
               else let s = s\<lparr>v_flag := VFLAG_CLEAR,
                              c_flag := CFLAG_CLEAR,
                              x_flag := XFLAG_CLEAR\<rparr>
                    in Ret res s) (\<lambda>res s.
        Ret () (s\<lparr>n_flag := NFLAG_8 res\<rparr>)))))"

definition m68k_op_nbcd_8_pi :: "'b op" where
  "m68k_op_nbcd_8_pi s =
    (chain (EA_AY_PI_8 s) (\<lambda>ea s.
     chain (m68ki_read_8 ea s) (\<lambda>dst s.
     let res = MASK_OUT_ABOVE_8 (0x9a - dst - XFLAG_AS_1 s)
     in chain (if res \<noteq> 0x9a
               then let s = s\<lparr>v_flag := NOT res\<rparr>;
                        res = (if res AND 0x0f = 0xa
                               then (res AND 0xf0) + 0x10
                               else res);
                        res = MASK_OUT_ABOVE_8 res;
                        s = s\<lparr>v_flag := (v_flag s) AND res\<rparr>
                    in chain (m68ki_write_8 ea (MASK_OUT_ABOVE_8 res) s) (\<lambda>_ s.
                       let s = s\<lparr>not_z_flag := (not_z_flag s) OR res,
                                 c_flag := CFLAG_SET,
                                 x_flag := XFLAG_SET\<rparr>
                       in Ret res s)
               else let s = s\<lparr>v_flag := VFLAG_CLEAR,
                              c_flag := CFLAG_CLEAR,
                              x_flag := XFLAG_CLEAR\<rparr>
                    in Ret res s) (\<lambda>res s.
        Ret () (s\<lparr>n_flag := NFLAG_8 res\<rparr>)))))"

definition m68k_op_nbcd_8_pi7 :: "'b op" where
  "m68k_op_nbcd_8_pi7 s =
    (chain (EA_A7_PI_8 s) (\<lambda>ea s.
     chain (m68ki_read_8 ea s) (\<lambda>dst s.
     let res = MASK_OUT_ABOVE_8 (0x9a - dst - XFLAG_AS_1 s)
     in chain (if res \<noteq> 0x9a
               then let s = s\<lparr>v_flag := NOT res\<rparr>;
                        res = (if res AND 0x0f = 0xa
                               then (res AND 0xf0) + 0x10
                               else res);
                        res = MASK_OUT_ABOVE_8 res;
                        s = s\<lparr>v_flag := (v_flag s) AND res\<rparr>
                    in chain (m68ki_write_8 ea (MASK_OUT_ABOVE_8 res) s) (\<lambda>_ s.
                       let s = s\<lparr>not_z_flag := (not_z_flag s) OR res,
                                 c_flag := CFLAG_SET,
                                 x_flag := XFLAG_SET\<rparr>
                       in Ret res s)
               else let s = s\<lparr>v_flag := VFLAG_CLEAR,
                              c_flag := CFLAG_CLEAR,
                              x_flag := XFLAG_CLEAR\<rparr>
                    in Ret res s) (\<lambda>res s.
        Ret () (s\<lparr>n_flag := NFLAG_8 res\<rparr>)))))"

definition m68k_op_nbcd_8_pd :: "'b op" where
  "m68k_op_nbcd_8_pd s =
    (chain (EA_AY_PD_8 s) (\<lambda>ea s.
     chain (m68ki_read_8 ea s) (\<lambda>dst s.
     let res = MASK_OUT_ABOVE_8 (0x9a - dst - XFLAG_AS_1 s)
     in chain (if res \<noteq> 0x9a
               then let s = s\<lparr>v_flag := NOT res\<rparr>;
                        res = (if res AND 0x0f = 0xa
                               then (res AND 0xf0) + 0x10
                               else res);
                        res = MASK_OUT_ABOVE_8 res;
                        s = s\<lparr>v_flag := (v_flag s) AND res\<rparr>
                    in chain (m68ki_write_8 ea (MASK_OUT_ABOVE_8 res) s) (\<lambda>_ s.
                       let s = s\<lparr>not_z_flag := (not_z_flag s) OR res,
                                 c_flag := CFLAG_SET,
                                 x_flag := XFLAG_SET\<rparr>
                       in Ret res s)
               else let s = s\<lparr>v_flag := VFLAG_CLEAR,
                              c_flag := CFLAG_CLEAR,
                              x_flag := XFLAG_CLEAR\<rparr>
                    in Ret res s) (\<lambda>res s.
        Ret () (s\<lparr>n_flag := NFLAG_8 res\<rparr>)))))"

definition m68k_op_nbcd_8_pd7 :: "'b op" where
  "m68k_op_nbcd_8_pd7 s =
    (chain (EA_A7_PD_8 s) (\<lambda>ea s.
     chain (m68ki_read_8 ea s) (\<lambda>dst s.
     let res = MASK_OUT_ABOVE_8 (0x9a - dst - XFLAG_AS_1 s)
     in chain (if res \<noteq> 0x9a
               then let s = s\<lparr>v_flag := NOT res\<rparr>;
                        res = (if res AND 0x0f = 0xa
                               then (res AND 0xf0) + 0x10
                               else res);
                        res = MASK_OUT_ABOVE_8 res;
                        s = s\<lparr>v_flag := (v_flag s) AND res\<rparr>
                    in chain (m68ki_write_8 ea (MASK_OUT_ABOVE_8 res) s) (\<lambda>_ s.
                       let s = s\<lparr>not_z_flag := (not_z_flag s) OR res,
                                 c_flag := CFLAG_SET,
                                 x_flag := XFLAG_SET\<rparr>
                       in Ret res s)
               else let s = s\<lparr>v_flag := VFLAG_CLEAR,
                              c_flag := CFLAG_CLEAR,
                              x_flag := XFLAG_CLEAR\<rparr>
                    in Ret res s) (\<lambda>res s.
        Ret () (s\<lparr>n_flag := NFLAG_8 res\<rparr>)))))"

definition m68k_op_nbcd_8_di :: "'b op" where
  "m68k_op_nbcd_8_di s =
    (chain (EA_AY_DI_8 s) (\<lambda>ea s.
     chain (m68ki_read_8 ea s) (\<lambda>dst s.
     let res = MASK_OUT_ABOVE_8 (0x9a - dst - XFLAG_AS_1 s)
     in chain (if res \<noteq> 0x9a
               then let s = s\<lparr>v_flag := NOT res\<rparr>;
                        res = (if res AND 0x0f = 0xa
                               then (res AND 0xf0) + 0x10
                               else res);
                        res = MASK_OUT_ABOVE_8 res;
                        s = s\<lparr>v_flag := (v_flag s) AND res\<rparr>
                    in chain (m68ki_write_8 ea (MASK_OUT_ABOVE_8 res) s) (\<lambda>_ s.
                       let s = s\<lparr>not_z_flag := (not_z_flag s) OR res,
                                 c_flag := CFLAG_SET,
                                 x_flag := XFLAG_SET\<rparr>
                       in Ret res s)
               else let s = s\<lparr>v_flag := VFLAG_CLEAR,
                              c_flag := CFLAG_CLEAR,
                              x_flag := XFLAG_CLEAR\<rparr>
                    in Ret res s) (\<lambda>res s.
        Ret () (s\<lparr>n_flag := NFLAG_8 res\<rparr>)))))"

definition m68k_op_nbcd_8_ix :: "'b op" where
  "m68k_op_nbcd_8_ix s =
    (chain (EA_AY_IX_8 s) (\<lambda>ea s.
     chain (m68ki_read_8 ea s) (\<lambda>dst s.
     let res = MASK_OUT_ABOVE_8 (0x9a - dst - XFLAG_AS_1 s)
     in chain (if res \<noteq> 0x9a
               then let s = s\<lparr>v_flag := NOT res\<rparr>;
                        res = (if res AND 0x0f = 0xa
                               then (res AND 0xf0) + 0x10
                               else res);
                        res = MASK_OUT_ABOVE_8 res;
                        s = s\<lparr>v_flag := (v_flag s) AND res\<rparr>
                    in chain (m68ki_write_8 ea (MASK_OUT_ABOVE_8 res) s) (\<lambda>_ s.
                       let s = s\<lparr>not_z_flag := (not_z_flag s) OR res,
                                 c_flag := CFLAG_SET,
                                 x_flag := XFLAG_SET\<rparr>
                       in Ret res s)
               else let s = s\<lparr>v_flag := VFLAG_CLEAR,
                              c_flag := CFLAG_CLEAR,
                              x_flag := XFLAG_CLEAR\<rparr>
                    in Ret res s) (\<lambda>res s.
        Ret () (s\<lparr>n_flag := NFLAG_8 res\<rparr>)))))"

definition m68k_op_nbcd_8_aw :: "'b op" where
  "m68k_op_nbcd_8_aw s =
    (chain (EA_AW_8 s) (\<lambda>ea s.
     chain (m68ki_read_8 ea s) (\<lambda>dst s.
     let res = MASK_OUT_ABOVE_8 (0x9a - dst - XFLAG_AS_1 s)
     in chain (if res \<noteq> 0x9a
               then let s = s\<lparr>v_flag := NOT res\<rparr>;
                        res = (if res AND 0x0f = 0xa
                               then (res AND 0xf0) + 0x10
                               else res);
                        res = MASK_OUT_ABOVE_8 res;
                        s = s\<lparr>v_flag := (v_flag s) AND res\<rparr>
                    in chain (m68ki_write_8 ea (MASK_OUT_ABOVE_8 res) s) (\<lambda>_ s.
                       let s = s\<lparr>not_z_flag := (not_z_flag s) OR res,
                                 c_flag := CFLAG_SET,
                                 x_flag := XFLAG_SET\<rparr>
                       in Ret res s)
               else let s = s\<lparr>v_flag := VFLAG_CLEAR,
                              c_flag := CFLAG_CLEAR,
                              x_flag := XFLAG_CLEAR\<rparr>
                    in Ret res s) (\<lambda>res s.
        Ret () (s\<lparr>n_flag := NFLAG_8 res\<rparr>)))))"

definition m68k_op_nbcd_8_al :: "'b op" where
  "m68k_op_nbcd_8_al s =
    (chain (EA_AL_8 s) (\<lambda>ea s.
     chain (m68ki_read_8 ea s) (\<lambda>dst s.
     let res = MASK_OUT_ABOVE_8 (0x9a - dst - XFLAG_AS_1 s)
     in chain (if res \<noteq> 0x9a
               then let s = s\<lparr>v_flag := NOT res\<rparr>;
                        res = (if res AND 0x0f = 0xa
                               then (res AND 0xf0) + 0x10
                               else res);
                        res = MASK_OUT_ABOVE_8 res;
                        s = s\<lparr>v_flag := (v_flag s) AND res\<rparr>
                    in chain (m68ki_write_8 ea (MASK_OUT_ABOVE_8 res) s) (\<lambda>_ s.
                       let s = s\<lparr>not_z_flag := (not_z_flag s) OR res,
                                 c_flag := CFLAG_SET,
                                 x_flag := XFLAG_SET\<rparr>
                       in Ret res s)
               else let s = s\<lparr>v_flag := VFLAG_CLEAR,
                              c_flag := CFLAG_CLEAR,
                              x_flag := XFLAG_CLEAR\<rparr>
                    in Ret res s) (\<lambda>res s.
        Ret () (s\<lparr>n_flag := NFLAG_8 res\<rparr>)))))"

definition m68k_op_pack_16_rr :: "'b op" where
  "m68k_op_pack_16_rr s =
    (if CPU_TYPE_IS_EC020_PLUS (cpu_type s)
     then chain (OPER_I_16 s) (\<lambda>v s.
          let src = DY s + v
          in Ret () (set_DX (MASK_OUT_BELOW_8 (DX s) OR (drop_bit 4 src AND 0x00f0) OR (src AND 0x000f)) s))
     else m68ki_exception_illegal s)"

definition m68k_op_pack_16_mm_ax7 :: "'b op" where
  "m68k_op_pack_16_mm_ax7 s =
    (if CPU_TYPE_IS_EC020_PLUS (cpu_type s)
     then chain (EA_AY_PD_8 s) (\<lambda>ea_src s.
          chain (m68ki_read_8 ea_src s) (\<lambda>src s.
          chain (EA_AY_PD_8 s) (\<lambda>ea_src s.
          chain (m68ki_read_8 ea_src s) (\<lambda>v4 s.
          chain (OPER_I_16 s) (\<lambda>v5 s.
          let src = (push_bit 8 src OR v4) + v5
          in chain (EA_A7_PD_8 s) (\<lambda>ea6 s.
             m68ki_write_8 ea6 ((drop_bit 4 src AND 0x00f0) OR (src AND 0x000f)) s))))))
     else m68ki_exception_illegal s)"

definition m68k_op_pack_16_mm_ay7 :: "'b op" where
  "m68k_op_pack_16_mm_ay7 s =
    (if CPU_TYPE_IS_EC020_PLUS (cpu_type s)
     then chain (EA_A7_PD_8 s) (\<lambda>ea_src s.
          chain (m68ki_read_8 ea_src s) (\<lambda>src s.
          chain (EA_A7_PD_8 s) (\<lambda>ea_src s.
          chain (m68ki_read_8 ea_src s) (\<lambda>v4 s.
          chain (OPER_I_16 s) (\<lambda>v5 s.
          let src = (push_bit 8 src OR v4) + v5
          in chain (EA_AX_PD_8 s) (\<lambda>ea6 s.
             m68ki_write_8 ea6 ((drop_bit 4 src AND 0x00f0) OR (src AND 0x000f)) s))))))
     else m68ki_exception_illegal s)"

definition m68k_op_pack_16_mm_axy7 :: "'b op" where
  "m68k_op_pack_16_mm_axy7 s =
    (if CPU_TYPE_IS_EC020_PLUS (cpu_type s)
     then chain (EA_A7_PD_8 s) (\<lambda>ea_src s.
          chain (m68ki_read_8 ea_src s) (\<lambda>src s.
          chain (EA_A7_PD_8 s) (\<lambda>ea_src s.
          chain (m68ki_read_8 ea_src s) (\<lambda>v4 s.
          chain (OPER_I_16 s) (\<lambda>v5 s.
          let src = (push_bit 8 src OR v4) + v5
          in chain (EA_A7_PD_8 s) (\<lambda>ea6 s.
             m68ki_write_8 ea6 ((drop_bit 4 src AND 0x00f0) OR (src AND 0x000f)) s))))))
     else m68ki_exception_illegal s)"

definition m68k_op_pack_16_mm :: "'b op" where
  "m68k_op_pack_16_mm s =
    (if CPU_TYPE_IS_EC020_PLUS (cpu_type s)
     then chain (EA_AY_PD_8 s) (\<lambda>ea_src s.
          chain (m68ki_read_8 ea_src s) (\<lambda>src s.
          chain (EA_AY_PD_8 s) (\<lambda>ea_src s.
          chain (m68ki_read_8 ea_src s) (\<lambda>v4 s.
          chain (OPER_I_16 s) (\<lambda>v5 s.
          let src = (push_bit 8 src OR v4) + v5
          in chain (EA_AX_PD_8 s) (\<lambda>ea6 s.
             m68ki_write_8 ea6 ((drop_bit 4 src AND 0x00f0) OR (src AND 0x000f)) s))))))
     else m68ki_exception_illegal s)"

definition m68k_op_sbcd_8_rr :: "'b op" where
  "m68k_op_sbcd_8_rr s =
    (let src = DY s;
         dst = DX s;
         res = LOW_NIBBLE dst - LOW_NIBBLE src - XFLAG_AS_1 s;
         s = s\<lparr>v_flag := NOT res\<rparr>;
         res = (if 9 < res
                then res - 6
                else res);
         res = res + (HIGH_NIBBLE dst - HIGH_NIBBLE src);
         s = s\<lparr>c_flag := push_bit 8 (bool_word (0x99 < res)),
               x_flag := push_bit 8 (bool_word (0x99 < res))\<rparr>;
         res = (if c_flag s \<noteq> 0
                then res + 0xa0
                else res);
         res = MASK_OUT_ABOVE_8 res;
         s = s\<lparr>v_flag := (v_flag s) AND res,
               n_flag := NFLAG_8 res,
               not_z_flag := (not_z_flag s) OR res\<rparr>
     in Ret () (set_DX (MASK_OUT_BELOW_8 (DX s) OR res) s))"

definition m68k_op_sbcd_8_mm_ax7 :: "'b op" where
  "m68k_op_sbcd_8_mm_ax7 s =
    (chain (OPER_AY_PD_8 s) (\<lambda>src s.
     chain (EA_A7_PD_8 s) (\<lambda>ea s.
     chain (m68ki_read_8 ea s) (\<lambda>dst s.
     let res = LOW_NIBBLE dst - LOW_NIBBLE src - XFLAG_AS_1 s;
         s = s\<lparr>v_flag := NOT res\<rparr>;
         res = (if 9 < res
                then res - 6
                else res);
         res = res + (HIGH_NIBBLE dst - HIGH_NIBBLE src);
         s = s\<lparr>c_flag := push_bit 8 (bool_word (0x99 < res)),
               x_flag := push_bit 8 (bool_word (0x99 < res))\<rparr>;
         res = (if c_flag s \<noteq> 0
                then res + 0xa0
                else res);
         res = MASK_OUT_ABOVE_8 res;
         s = s\<lparr>v_flag := (v_flag s) AND res,
               n_flag := NFLAG_8 res,
               not_z_flag := (not_z_flag s) OR res\<rparr>
     in m68ki_write_8 ea res s))))"

definition m68k_op_sbcd_8_mm_ay7 :: "'b op" where
  "m68k_op_sbcd_8_mm_ay7 s =
    (chain (OPER_A7_PD_8 s) (\<lambda>src s.
     chain (EA_AX_PD_8 s) (\<lambda>ea s.
     chain (m68ki_read_8 ea s) (\<lambda>dst s.
     let res = LOW_NIBBLE dst - LOW_NIBBLE src - XFLAG_AS_1 s;
         s = s\<lparr>v_flag := NOT res\<rparr>;
         res = (if 9 < res
                then res - 6
                else res);
         res = res + (HIGH_NIBBLE dst - HIGH_NIBBLE src);
         s = s\<lparr>c_flag := push_bit 8 (bool_word (0x99 < res)),
               x_flag := push_bit 8 (bool_word (0x99 < res))\<rparr>;
         res = (if c_flag s \<noteq> 0
                then res + 0xa0
                else res);
         res = MASK_OUT_ABOVE_8 res;
         s = s\<lparr>v_flag := (v_flag s) AND res,
               n_flag := NFLAG_8 res,
               not_z_flag := (not_z_flag s) OR res\<rparr>
     in m68ki_write_8 ea res s))))"

definition m68k_op_sbcd_8_mm_axy7 :: "'b op" where
  "m68k_op_sbcd_8_mm_axy7 s =
    (chain (OPER_A7_PD_8 s) (\<lambda>src s.
     chain (EA_A7_PD_8 s) (\<lambda>ea s.
     chain (m68ki_read_8 ea s) (\<lambda>dst s.
     let res = LOW_NIBBLE dst - LOW_NIBBLE src - XFLAG_AS_1 s;
         s = s\<lparr>v_flag := NOT res\<rparr>;
         res = (if 9 < res
                then res - 6
                else res);
         res = res + (HIGH_NIBBLE dst - HIGH_NIBBLE src);
         s = s\<lparr>c_flag := push_bit 8 (bool_word (0x99 < res)),
               x_flag := push_bit 8 (bool_word (0x99 < res))\<rparr>;
         res = (if c_flag s \<noteq> 0
                then res + 0xa0
                else res);
         res = MASK_OUT_ABOVE_8 res;
         s = s\<lparr>v_flag := (v_flag s) AND res,
               n_flag := NFLAG_8 res,
               not_z_flag := (not_z_flag s) OR res\<rparr>
     in m68ki_write_8 ea res s))))"

definition m68k_op_sbcd_8_mm :: "'b op" where
  "m68k_op_sbcd_8_mm s =
    (chain (OPER_AY_PD_8 s) (\<lambda>src s.
     chain (EA_AX_PD_8 s) (\<lambda>ea s.
     chain (m68ki_read_8 ea s) (\<lambda>dst s.
     let res = LOW_NIBBLE dst - LOW_NIBBLE src - XFLAG_AS_1 s;
         s = s\<lparr>v_flag := NOT res\<rparr>;
         res = (if 9 < res
                then res - 6
                else res);
         res = res + (HIGH_NIBBLE dst - HIGH_NIBBLE src);
         s = s\<lparr>c_flag := push_bit 8 (bool_word (0x99 < res)),
               x_flag := push_bit 8 (bool_word (0x99 < res))\<rparr>;
         res = (if c_flag s \<noteq> 0
                then res + 0xa0
                else res);
         res = MASK_OUT_ABOVE_8 res;
         s = s\<lparr>v_flag := (v_flag s) AND res,
               n_flag := NFLAG_8 res,
               not_z_flag := (not_z_flag s) OR res\<rparr>
     in m68ki_write_8 ea res s))))"

definition m68k_op_unpk_16_rr :: "'b op" where
  "m68k_op_unpk_16_rr s =
    (if CPU_TYPE_IS_EC020_PLUS (cpu_type s)
     then let src = DY s
          in chain (OPER_I_16 s) (\<lambda>v s.
             Ret () (set_DX (MASK_OUT_BELOW_16 (DX s) OR ((((push_bit 4 src AND 0x0f00) OR (src AND
                   0x000f)) + v) AND 0xffff)) s))
     else m68ki_exception_illegal s)"

definition m68k_op_unpk_16_mm_ax7 :: "'b op" where
  "m68k_op_unpk_16_mm_ax7 s =
    (if CPU_TYPE_IS_EC020_PLUS (cpu_type s)
     then chain (OPER_AY_PD_8 s) (\<lambda>src s.
          chain (OPER_I_16 s) (\<lambda>v2 s.
          let src = ((push_bit 4 src AND 0x0f00) OR (src AND 0x000f)) + v2
          in chain (EA_A7_PD_8 s) (\<lambda>ea_dst s.
             chain (m68ki_write_8 ea_dst (drop_bit 8 src AND 0xff) s) (\<lambda>_ s.
             chain (EA_A7_PD_8 s) (\<lambda>ea_dst s.
             m68ki_write_8 ea_dst (src AND 0xff) s)))))
     else m68ki_exception_illegal s)"

definition m68k_op_unpk_16_mm_ay7 :: "'b op" where
  "m68k_op_unpk_16_mm_ay7 s =
    (if CPU_TYPE_IS_EC020_PLUS (cpu_type s)
     then chain (OPER_A7_PD_8 s) (\<lambda>src s.
          chain (OPER_I_16 s) (\<lambda>v2 s.
          let src = ((push_bit 4 src AND 0x0f00) OR (src AND 0x000f)) + v2
          in chain (EA_AX_PD_8 s) (\<lambda>ea_dst s.
             chain (m68ki_write_8 ea_dst (drop_bit 8 src AND 0xff) s) (\<lambda>_ s.
             chain (EA_AX_PD_8 s) (\<lambda>ea_dst s.
             m68ki_write_8 ea_dst (src AND 0xff) s)))))
     else m68ki_exception_illegal s)"

definition m68k_op_unpk_16_mm_axy7 :: "'b op" where
  "m68k_op_unpk_16_mm_axy7 s =
    (if CPU_TYPE_IS_EC020_PLUS (cpu_type s)
     then chain (OPER_A7_PD_8 s) (\<lambda>src s.
          chain (OPER_I_16 s) (\<lambda>v2 s.
          let src = ((push_bit 4 src AND 0x0f00) OR (src AND 0x000f)) + v2
          in chain (EA_A7_PD_8 s) (\<lambda>ea_dst s.
             chain (m68ki_write_8 ea_dst (drop_bit 8 src AND 0xff) s) (\<lambda>_ s.
             chain (EA_A7_PD_8 s) (\<lambda>ea_dst s.
             m68ki_write_8 ea_dst (src AND 0xff) s)))))
     else m68ki_exception_illegal s)"

definition m68k_op_unpk_16_mm :: "'b op" where
  "m68k_op_unpk_16_mm s =
    (if CPU_TYPE_IS_EC020_PLUS (cpu_type s)
     then chain (OPER_AY_PD_8 s) (\<lambda>src s.
          chain (OPER_I_16 s) (\<lambda>v2 s.
          let src = ((push_bit 4 src AND 0x0f00) OR (src AND 0x000f)) + v2
          in chain (EA_AX_PD_8 s) (\<lambda>ea_dst s.
             chain (m68ki_write_8 ea_dst (drop_bit 8 src AND 0xff) s) (\<lambda>_ s.
             chain (EA_AX_PD_8 s) (\<lambda>ea_dst s.
             m68ki_write_8 ea_dst (src AND 0xff) s)))))
     else m68ki_exception_illegal s)"

end
