(* ===== verification/DecimalLaws.thy ===== *)
theory DecimalLaws
  imports AluSpec OpsBcd Samples
begin

section \<open>Decimal arithmetic\<close>

text \<open>
  ABCD and SBCD on two packed decimal digits, against addition and subtraction modulo 100.  The
  handlers work with the nibbles in 32-bit registers, where a negative intermediate result shows
  as a large one.
\<close>

unbundle bit_operations_syntax

subsection \<open>Packed decimal digits\<close>

definition ones :: "u8 \<Rightarrow> int" where "ones a = uint (take_bit 4 a)"
definition tens :: "u8 \<Rightarrow> int" where "tens a = uint (drop_bit 4 a)"

lemma ones_tens: "ones a = uint a mod 16" "tens a = uint a div 16"
  by (simp_all add: ones_def tens_def take_bit_eq_mod drop_bit_eq_div uint_mod uint_div)

definition bcd_digits :: "u8 \<Rightarrow> bool" where
  "bcd_digits a \<longleftrightarrow> ones a \<le> 9 \<and> tens a \<le> 9"

definition bcd :: "u8 \<Rightarrow> int" where
  "bcd a = 10 * tens a + ones a"

lemma digit_bounds: "0 \<le> ones a" "0 \<le> tens a"
  by (simp_all add: ones_def tens_def)

lemma uint_small_int:
  "- (2 ^ 31) \<le> k \<Longrightarrow> k < 2 ^ 31 \<Longrightarrow> uint (word_of_int k :: u32) = (if 0 \<le> k then k else k + 2 ^ 32)"
  using mod_below [of "2 ^ 32" k] by (simp add: uint_word_of_int)

lemma greater_small_int:
  assumes "- (2 ^ 31) \<le> k" "k < 2 ^ 31"
  shows "9 < (word_of_int k :: u32) \<longleftrightarrow> k < 0 \<or> 9 < k"
    and "0x99 < (word_of_int k :: u32) \<longleftrightarrow> k < 0 \<or> 0x99 < k"
  using uint_small_int [OF assms] assms by (simp_all add: word_less_def)

lemma widen: "(ucast w :: u32) = word_of_int (uint w)" for w :: u8
  by (rule ucast_eq)

lemma nibbles:
  "LOW_NIBBLE x = word_of_int (ones (low8 x))" "HIGH_NIBBLE x = word_of_int (16 * tens (low8 x))"
proof -
  have "LOW_NIBBLE x = ucast (take_bit 4 (low8 x))"
    by (rule bit_word_eqI) (auto simp: LOW_NIBBLE_def mask_4 low8_def bit_simps)
  then show "LOW_NIBBLE x = word_of_int (ones (low8 x))" by (simp only: ones_def widen)
  have push: "push_bit 4 (word_of_int k :: u32) = word_of_int (16 * k)" for k
    by (simp add: push_bit_eq_mult mult.commute)
  have "HIGH_NIBBLE x = push_bit 4 (ucast (drop_bit 4 (low8 x)))"
    by (simp add: HIGH_NIBBLE_def low8_def word32_eq bit_simps)
  then show "HIGH_NIBBLE x = word_of_int (16 * tens (low8 x))"
    by (simp only: tens_def widen push)
qed

lemma packed:
  assumes "0 \<le> L" "L \<le> 9" "0 \<le> H" "H \<le> 9" "r = 16 * H + L"
  shows "bcd_digits (word_of_int r)" "bcd (word_of_int r) = 10 * H + L"
proof -
  have "uint (word_of_int r :: u8) = r"
    unfolding uint_word_of_int using assms by (intro mod_pos_pos_trivial) simp_all
  moreover have "r mod 16 = L" "r div 16 = H" using assms by simp_all
  ultimately show "bcd_digits (word_of_int r)" "bcd (word_of_int r) = 10 * H + L"
    using assms by (simp_all only: bcd_digits_def bcd_def ones_tens)
qed

text \<open>The sum of the digits, corrected as ABCD does, and the difference, as SBCD does.\<close>

lemma decimal_sum:
  fixes l1 l2 h1 h2 x :: int
  assumes "0 \<le> l1" "l1 \<le> 9" "0 \<le> l2" "l2 \<le> 9" "0 \<le> h1" "h1 \<le> 9" "0 \<le> h2" "h2 \<le> 9" "x = 0 \<or> x = 1"
    and n_def: "n = l1 + l2 + x"
    and m_def: "m = (if 9 < n then n + 6 else n) + 16 * (h1 + h2)"
    and v_def: "v = (10 * h1 + l1) + (10 * h2 + l2) + x"
  obtains L H where "0 \<le> L" "L \<le> 9" "0 \<le> H" "H \<le> 9"
    and "(if 0x99 < m then m - 0xa0 else m) = 16 * H + L" "0x99 < m \<longleftrightarrow> 100 \<le> v"
    and "v mod 100 = 10 * H + L"
proof -
  define L H where "L = (if 9 < n then n - 10 else n)" and "H = h1 + h2 + (if 9 < n then 1 else 0)"
  have b: "0 \<le> L" "L \<le> 9" "0 \<le> H" "H \<le> 19"
    using assms(1-9) by (auto simp: L_def H_def n_def)
  have m: "m = 16 * H + L" and v: "v = 10 * H + L" by (simp_all add: m_def H_def L_def v_def n_def)
  show thesis
  proof (cases "H \<le> 9")
    case True
    then have "v mod 100 = v" using b v by (intro mod_pos_pos_trivial) simp_all
    with True b show thesis by (intro that [of L H]) (simp_all add: m v)
  next
    case False
    then have "(v - 100) mod 100 = v - 100" using b v by (intro mod_pos_pos_trivial) simp_all
    with False b show thesis by (intro that [of L "H - 10"]) (simp_all add: m v)
  qed
qed

lemma decimal_difference:
  fixes l1 l2 h1 h2 x :: int
  assumes "0 \<le> l1" "l1 \<le> 9" "0 \<le> l2" "l2 \<le> 9" "0 \<le> h1" "h1 \<le> 9" "0 \<le> h2" "h2 \<le> 9" "x = 0 \<or> x = 1"
    and n_def: "n = l1 - l2 - x"
    and m_def: "m = (if n < 0 \<or> 9 < n then n - 6 else n) + 16 * (h1 - h2)"
    and v_def: "v = (10 * h1 + l1) - (10 * h2 + l2) - x"
  obtains L H where "0 \<le> L" "L \<le> 9" "0 \<le> H" "H \<le> 9"
    and "(if m < 0 \<or> 0x99 < m then m + 0xa0 else m) = 16 * H + L" "m < 0 \<or> 0x99 < m \<longleftrightarrow> v < 0"
    and "v mod 100 = 10 * H + L"
proof -
  define L H where "L = (if n < 0 then n + 10 else n)" and "H = h1 - h2 - (if n < 0 then 1 else 0)"
  have b: "0 \<le> L" "L \<le> 9" "- 10 \<le> H" "H \<le> 9"
    using assms(1-9) by (auto simp: L_def H_def n_def)
  have "n \<le> 9" using assms(1-9) by (auto simp: n_def)
  then have m: "m = 16 * H + L" and v: "v = 10 * H + L"
    by (simp_all add: m_def H_def L_def v_def n_def)
  show thesis
  proof (cases "0 \<le> H")
    case True
    then have "v mod 100 = v" using b v by (intro mod_pos_pos_trivial) simp_all
    with True b show thesis by (intro that [of L H]) (simp_all add: m v)
  next
    case False
    then have "(v + 100) mod 100 = v + 100" using b v by (intro mod_pos_pos_trivial) simp_all
    with False b show thesis by (intro that [of L "H + 10"]) (auto simp: m v)
  qed
qed

subsection \<open>The handlers\<close>

lemma carry_word: "push_bit 8 (bool_word b) = 0 \<longleftrightarrow> \<not> b" "bit (push_bit 8 (bool_word b)) 8 \<longleftrightarrow> b"
  by (simp_all add: bool_word_def)

lemma digits_done:
  assumes "r = word_of_int k" "0 \<le> L" "L \<le> 9" "0 \<le> H" "H \<le> 9" "k = 16 * H + L"
  shows "bcd_digits (low8 r)" "bcd (low8 r) = 10 * H + L"
proof -
  have "low8 r = word_of_int k" by (simp only: assms(1) low_word_of_int)
  then show "bcd_digits (low8 r)" "bcd (low8 r) = 10 * H + L"
    using packed [OF assms(2-6)] by simp_all
qed

definition decimal_done :: "'b machine \<Rightarrow> 'b machine \<Rightarrow> nat \<Rightarrow> int \<Rightarrow> bool \<Rightarrow> bool" where
  "decimal_done s t i v carry \<longleftrightarrow> (\<exists>r. dar t = (dar s)(i := put_low8 (dar s i) r) \<and> bcd_digits r \<and> bcd r = v)
     \<and> COND_CS t = carry \<and> ccX (ccr_of t) = carry \<and> ccZ (ccr_of t) = (ccZ (ccr_of s) \<and> v = 0)"

lemma bcd_eq_0: "bcd a = 0 \<longleftrightarrow> a = 0"
proof -
  have "bcd a = 0 \<longleftrightarrow> ones a = 0 \<and> tens a = 0"
    using digit_bounds [of a] by (auto simp: bcd_def add_nonneg_eq_0_iff)
  also have "\<dots> \<longleftrightarrow> uint a = 0"
    using div_mult_mod_eq [of "uint a" 16] by (auto simp: ones_tens)
  finally show ?thesis by (simp add: word_uint_eq_iff)
qed

lemma decimal_step:
  assumes "bcd_digits (low8 r)" "bcd (low8 r) = v" and "dar u = dar s" "ir u = ir s"
    and "bit (x_flag u) 8 = c" "bit (c_flag u) 8 = c" "not_z_flag u = not_z_flag s OR MASK_OUT_ABOVE_8 r"
  shows "decimal_done s (set_DX (MASK_OUT_BELOW_8 (DX u) OR MASK_OUT_ABOVE_8 r) u) (unat (regX s)) v c"
proof -
  have z: "MASK_OUT_ABOVE_8 r = 0 \<longleftrightarrow> v = 0"
    using assms(2) bcd_eq_0 [of "low8 r"] by (simp add: MASK_OUT_ABOVE_8_low)
  show ?thesis
    unfolding decimal_done_def below_or_above
    using assms z
    by (auto simp: set_DX_def set_REG_D_def regX_def DX_def REG_D_def COND_CS_def ccr_of_def or_eq_0_iff
        intro!: exI [of _ "low8 r"])
qed

lemma abcd_value:
  assumes "bcd_digits (low8 (DX s))" "bcd_digits (low8 (DY s))"
  defines "v \<equiv> bcd (low8 (DX s)) + bcd (low8 (DY s)) + of_bool (ccX (ccr_of s))"
  shows "\<exists>t. m68k_op_abcd_8_rr s = Ret () t \<and>
    decimal_done s t (unat (regX s)) (v mod 100) (100 \<le> v)"
proof -
  let ?a = "low8 (DX s)" and ?b = "low8 (DY s)"
  define x :: int where "x = of_bool (ccX (ccr_of s))"
  define n where "n = ones ?b + ones ?a + x"
  define m where "m = (if 9 < n then n + 6 else n) + 16 * (tens ?b + tens ?a)"
  have da: "0 \<le> ones ?a" "ones ?a \<le> 9" "0 \<le> tens ?a" "tens ?a \<le> 9"
    and db: "0 \<le> ones ?b" "ones ?b \<le> 9" "0 \<le> tens ?b" "tens ?b \<le> 9"
    using assms(1,2) digit_bounds by (simp_all add: bcd_digits_def)
  have x: "x = 0 \<or> x = 1" by (simp add: x_def)
  have v: "v = (10 * tens ?b + ones ?b) + (10 * tens ?a + ones ?a) + x"
    by (simp add: v_def bcd_def x_def)
  obtain L H where LH: "0 \<le> L" "L \<le> 9" "0 \<le> H" "H \<le> 9"
      "(if 0x99 < m then m - 0xa0 else m) = 16 * H + L" "0x99 < m \<longleftrightarrow> 100 \<le> v" "v mod 100 = 10 * H + L"
    by (rule decimal_sum [OF db(1,2) da(1,2) db(3,4) da(3,4) x n_def m_def v])
  have n: "0 \<le> n" "n \<le> 19" using da db x by (auto simp: n_def)
  have m: "0 \<le> m" "m < 1000" using da db n by (auto simp: m_def)
  have r0: "LOW_NIBBLE (DY s) + LOW_NIBBLE (DX s) + XFLAG_AS_1 s = word_of_int n"
    by (simp add: nibbles XFLAG_AS_1_ccr bool_word_of_bool n_def x_def)
  have r1: "(if 9 < (word_of_int n :: u32) then word_of_int n + 6 else word_of_int n)
      + (HIGH_NIBBLE (DY s) + HIGH_NIBBLE (DX s)) = word_of_int m"
    using n by (simp add: greater_small_int nibbles m_def)
  have c: "0x99 < (word_of_int m :: u32) \<longleftrightarrow> 100 \<le> v"
    using m LH(6) by (simp add: greater_small_int)
  define r :: u32 where "r = (if 100 \<le> v then word_of_int m - 0xa0 else word_of_int m)"
  have r: "r = word_of_int (if 0x99 < m then m - 0xa0 else m)" by (simp add: r_def LH(6))
  note dd = digits_done [OF r LH(1-5)]
  show ?thesis
  proof (cases "100 \<le> v")
    case True
    then show ?thesis
      unfolding m68k_op_abcd_8_rr_def Let_def r0
      using dd LH(7) by (simp add: r1 c r_def del: low_arith) (intro decimal_step; simp)
  next
    case False
    then show ?thesis
      unfolding m68k_op_abcd_8_rr_def Let_def r0
      using dd LH(7) by (simp add: r1 c r_def del: low_arith) (intro decimal_step; simp)
  qed
qed

lemma sbcd_value:
  assumes "bcd_digits (low8 (DX s))" "bcd_digits (low8 (DY s))"
  defines "v \<equiv> bcd (low8 (DX s)) - bcd (low8 (DY s)) - of_bool (ccX (ccr_of s))"
  shows "\<exists>t. m68k_op_sbcd_8_rr s = Ret () t \<and>
    decimal_done s t (unat (regX s)) (v mod 100) (v < 0)"
proof -
  let ?a = "low8 (DX s)" and ?b = "low8 (DY s)"
  define x :: int where "x = of_bool (ccX (ccr_of s))"
  define n where "n = ones ?a - ones ?b - x"
  define m where "m = (if n < 0 \<or> 9 < n then n - 6 else n) + 16 * (tens ?a - tens ?b)"
  have da: "0 \<le> ones ?a" "ones ?a \<le> 9" "0 \<le> tens ?a" "tens ?a \<le> 9"
    and db: "0 \<le> ones ?b" "ones ?b \<le> 9" "0 \<le> tens ?b" "tens ?b \<le> 9"
    using assms(1,2) digit_bounds by (simp_all add: bcd_digits_def)
  have x: "x = 0 \<or> x = 1" by (simp add: x_def)
  have v: "v = (10 * tens ?a + ones ?a) - (10 * tens ?b + ones ?b) - x"
    by (simp add: v_def bcd_def x_def)
  obtain L H where LH: "0 \<le> L" "L \<le> 9" "0 \<le> H" "H \<le> 9"
      "(if m < 0 \<or> 0x99 < m then m + 0xa0 else m) = 16 * H + L" "m < 0 \<or> 0x99 < m \<longleftrightarrow> v < 0"
      "v mod 100 = 10 * H + L"
    by (rule decimal_difference [OF da(1,2) db(1,2) da(3,4) db(3,4) x n_def m_def v])
  have n: "- 10 \<le> n" "n \<le> 9" using da db x by (auto simp: n_def)
  have m: "- 1000 \<le> m" "m < 1000" using da db n by (auto simp: m_def)
  have r0: "LOW_NIBBLE (DX s) - LOW_NIBBLE (DY s) - XFLAG_AS_1 s = word_of_int n"
    by (simp add: nibbles XFLAG_AS_1_ccr bool_word_of_bool n_def x_def)
  have r1: "(if 9 < (word_of_int n :: u32) then word_of_int n - 6 else word_of_int n)
      + (HIGH_NIBBLE (DX s) - HIGH_NIBBLE (DY s)) = word_of_int m"
    using n by (simp add: greater_small_int nibbles m_def)
  have c: "0x99 < (word_of_int m :: u32) \<longleftrightarrow> v < 0"
    using m LH(6) by (simp add: greater_small_int)
  define r :: u32 where "r = (if v < 0 then word_of_int m + 0xa0 else word_of_int m)"
  have r: "r = word_of_int (if m < 0 \<or> 0x99 < m then m + 0xa0 else m)" by (simp add: r_def LH(6))
  note dd = digits_done [OF r LH(1-5)]
  show ?thesis
  proof (cases "v < 0")
    case True
    then show ?thesis
      unfolding m68k_op_sbcd_8_rr_def Let_def r0
      using dd LH(7) by (simp add: r1 c r_def del: low_arith) (intro decimal_step; simp)
  next
    case False
    then show ?thesis
      unfolding m68k_op_sbcd_8_rr_def Let_def r0
      using dd LH(7) by (simp add: r1 c r_def del: low_arith) (intro decimal_step; simp)
  qed
qed

text \<open>
  C5. On two valid packed decimal numbers ABCD Dy,Dx leaves the two low digits of their sum with
  extend, again as valid digits, in the low byte of \<open>Dx\<close>, and X and C tell whether the sum reached
  100; SBCD leaves the difference modulo 100 and X and C tell whether it went below zero.  Z is
  cleared by a nonzero result and otherwise kept.
\<close>

theorem decimal_add_subtract:
  assumes "bcd_digits (low8 (DX s))" "bcd_digits (low8 (DY s))"
  shows "(let v = bcd (low8 (DX s)) + bcd (low8 (DY s)) + of_bool (ccX (ccr_of s))
      in \<exists>t. m68k_op_abcd_8_rr s = Ret () t \<and>
           decimal_done s t (unat (regX s)) (v mod 100) (100 \<le> v)) \<and>
    (let v = bcd (low8 (DX s)) - bcd (low8 (DY s)) - of_bool (ccX (ccr_of s))
      in \<exists>t. m68k_op_sbcd_8_rr s = Ret () t \<and>
           decimal_done s t (unat (regX s)) (v mod 100) (v < 0))"
  using abcd_value [OF assms] sbcd_value [OF assms] by (simp add: Let_def)

lemma decimal_add_subtract_witness:
  "\<exists>t. m68k_op_abcd_8_rr (sample\<lparr>ir := 0xc101, dar := (\<lambda>_. 0)(0 := 0x47, 1 := 0x85)\<rparr>) = Ret () t \<and>
     decimal_done (sample\<lparr>ir := 0xc101, dar := (\<lambda>_. 0)(0 := 0x47, 1 := 0x85)\<rparr>) t 0 32 True"
proof -
  define s where "s = sample\<lparr>ir := 0xc101, dar := (\<lambda>_. 0)(0 := 0x47, 1 := 0x85)\<rparr>"
  have r: "low8 (DX s) = 0x47" "low8 (DY s) = 0x85" "unat (regX s) = 0" "\<not> ccX (ccr_of s)"
    by (simp_all add: s_def low8_def register_defs regX_def regY_def ccr_of_def sample_simps)
  have d: "bcd_digits 0x47" "bcd_digits 0x85" "bcd 0x47 = 47" "bcd 0x85 = 85"
    by (simp_all add: bcd_digits_def bcd_def ones_tens)
  have "\<exists>t. m68k_op_abcd_8_rr s = Ret () t \<and> decimal_done s t 0 32 True"
    using decimal_add_subtract [of s] by (simp add: r d Let_def)
  then show ?thesis unfolding s_def .
qed

end
