(* ===== verification/OpsSub.thy ===== *)
theory OpsSub
  imports OpsBase
begin

section \<open>Instruction handlers: SUB, SUBA, SUBI, SUBQ, SUBX, NEG and NEGX\<close>

text \<open>
  The handlers of m68kops.c for SUB, SUBA, SUBI, SUBQ, SUBX, NEG and NEGX.
  One definition per handler, under the name of its C function; the effective address is part of
  the name.
\<close>

unbundle bit_operations_syntax

definition m68k_op_neg_8_d :: "'b op" where
  "m68k_op_neg_8_d s =
    (let res = 0 - MASK_OUT_ABOVE_8 (DY s);
         s = s\<lparr>n_flag := NFLAG_8 res,
               x_flag := CFLAG_8 res,
               c_flag := CFLAG_8 res,
               v_flag := DY s AND res,
               not_z_flag := MASK_OUT_ABOVE_8 res\<rparr>
     in Ret () (set_DY (MASK_OUT_BELOW_8 (DY s) OR not_z_flag s) s))"

definition m68k_op_neg_8_ai :: "'b op" where
  "m68k_op_neg_8_ai s =
    (chain (EA_AY_AI_8 s) (\<lambda>ea s.
     chain (m68ki_read_8 ea s) (\<lambda>src s.
     let res = 0 - src;
         s = s\<lparr>n_flag := NFLAG_8 res,
               x_flag := CFLAG_8 res,
               c_flag := CFLAG_8 res,
               v_flag := src AND res,
               not_z_flag := MASK_OUT_ABOVE_8 res\<rparr>
     in m68ki_write_8 ea (not_z_flag s) s)))"

definition m68k_op_neg_8_pi :: "'b op" where
  "m68k_op_neg_8_pi s =
    (chain (EA_AY_PI_8 s) (\<lambda>ea s.
     chain (m68ki_read_8 ea s) (\<lambda>src s.
     let res = 0 - src;
         s = s\<lparr>n_flag := NFLAG_8 res,
               x_flag := CFLAG_8 res,
               c_flag := CFLAG_8 res,
               v_flag := src AND res,
               not_z_flag := MASK_OUT_ABOVE_8 res\<rparr>
     in m68ki_write_8 ea (not_z_flag s) s)))"

definition m68k_op_neg_8_pi7 :: "'b op" where
  "m68k_op_neg_8_pi7 s =
    (chain (EA_A7_PI_8 s) (\<lambda>ea s.
     chain (m68ki_read_8 ea s) (\<lambda>src s.
     let res = 0 - src;
         s = s\<lparr>n_flag := NFLAG_8 res,
               x_flag := CFLAG_8 res,
               c_flag := CFLAG_8 res,
               v_flag := src AND res,
               not_z_flag := MASK_OUT_ABOVE_8 res\<rparr>
     in m68ki_write_8 ea (not_z_flag s) s)))"

definition m68k_op_neg_8_pd :: "'b op" where
  "m68k_op_neg_8_pd s =
    (chain (EA_AY_PD_8 s) (\<lambda>ea s.
     chain (m68ki_read_8 ea s) (\<lambda>src s.
     let res = 0 - src;
         s = s\<lparr>n_flag := NFLAG_8 res,
               x_flag := CFLAG_8 res,
               c_flag := CFLAG_8 res,
               v_flag := src AND res,
               not_z_flag := MASK_OUT_ABOVE_8 res\<rparr>
     in m68ki_write_8 ea (not_z_flag s) s)))"

definition m68k_op_neg_8_pd7 :: "'b op" where
  "m68k_op_neg_8_pd7 s =
    (chain (EA_A7_PD_8 s) (\<lambda>ea s.
     chain (m68ki_read_8 ea s) (\<lambda>src s.
     let res = 0 - src;
         s = s\<lparr>n_flag := NFLAG_8 res,
               x_flag := CFLAG_8 res,
               c_flag := CFLAG_8 res,
               v_flag := src AND res,
               not_z_flag := MASK_OUT_ABOVE_8 res\<rparr>
     in m68ki_write_8 ea (not_z_flag s) s)))"

definition m68k_op_neg_8_di :: "'b op" where
  "m68k_op_neg_8_di s =
    (chain (EA_AY_DI_8 s) (\<lambda>ea s.
     chain (m68ki_read_8 ea s) (\<lambda>src s.
     let res = 0 - src;
         s = s\<lparr>n_flag := NFLAG_8 res,
               x_flag := CFLAG_8 res,
               c_flag := CFLAG_8 res,
               v_flag := src AND res,
               not_z_flag := MASK_OUT_ABOVE_8 res\<rparr>
     in m68ki_write_8 ea (not_z_flag s) s)))"

definition m68k_op_neg_8_ix :: "'b op" where
  "m68k_op_neg_8_ix s =
    (chain (EA_AY_IX_8 s) (\<lambda>ea s.
     chain (m68ki_read_8 ea s) (\<lambda>src s.
     let res = 0 - src;
         s = s\<lparr>n_flag := NFLAG_8 res,
               x_flag := CFLAG_8 res,
               c_flag := CFLAG_8 res,
               v_flag := src AND res,
               not_z_flag := MASK_OUT_ABOVE_8 res\<rparr>
     in m68ki_write_8 ea (not_z_flag s) s)))"

definition m68k_op_neg_8_aw :: "'b op" where
  "m68k_op_neg_8_aw s =
    (chain (EA_AW_8 s) (\<lambda>ea s.
     chain (m68ki_read_8 ea s) (\<lambda>src s.
     let res = 0 - src;
         s = s\<lparr>n_flag := NFLAG_8 res,
               x_flag := CFLAG_8 res,
               c_flag := CFLAG_8 res,
               v_flag := src AND res,
               not_z_flag := MASK_OUT_ABOVE_8 res\<rparr>
     in m68ki_write_8 ea (not_z_flag s) s)))"

definition m68k_op_neg_8_al :: "'b op" where
  "m68k_op_neg_8_al s =
    (chain (EA_AL_8 s) (\<lambda>ea s.
     chain (m68ki_read_8 ea s) (\<lambda>src s.
     let res = 0 - src;
         s = s\<lparr>n_flag := NFLAG_8 res,
               x_flag := CFLAG_8 res,
               c_flag := CFLAG_8 res,
               v_flag := src AND res,
               not_z_flag := MASK_OUT_ABOVE_8 res\<rparr>
     in m68ki_write_8 ea (not_z_flag s) s)))"

definition m68k_op_neg_16_d :: "'b op" where
  "m68k_op_neg_16_d s =
    (let res = 0 - MASK_OUT_ABOVE_16 (DY s);
         s = s\<lparr>n_flag := NFLAG_16 res,
               x_flag := CFLAG_16 res,
               c_flag := CFLAG_16 res,
               v_flag := drop_bit 8 (DY s AND res),
               not_z_flag := MASK_OUT_ABOVE_16 res\<rparr>
     in Ret () (set_DY (MASK_OUT_BELOW_16 (DY s) OR not_z_flag s) s))"

definition m68k_op_neg_16_ai :: "'b op" where
  "m68k_op_neg_16_ai s =
    (chain (EA_AY_AI_16 s) (\<lambda>ea s.
     chain (m68ki_read_16 ea s) (\<lambda>src s.
     let res = 0 - src;
         s = s\<lparr>n_flag := NFLAG_16 res,
               x_flag := CFLAG_16 res,
               c_flag := CFLAG_16 res,
               v_flag := drop_bit 8 (src AND res),
               not_z_flag := MASK_OUT_ABOVE_16 res\<rparr>
     in m68ki_write_16 ea (not_z_flag s) s)))"

definition m68k_op_neg_16_pi :: "'b op" where
  "m68k_op_neg_16_pi s =
    (chain (EA_AY_PI_16 s) (\<lambda>ea s.
     chain (m68ki_read_16 ea s) (\<lambda>src s.
     let res = 0 - src;
         s = s\<lparr>n_flag := NFLAG_16 res,
               x_flag := CFLAG_16 res,
               c_flag := CFLAG_16 res,
               v_flag := drop_bit 8 (src AND res),
               not_z_flag := MASK_OUT_ABOVE_16 res\<rparr>
     in m68ki_write_16 ea (not_z_flag s) s)))"

definition m68k_op_neg_16_pd :: "'b op" where
  "m68k_op_neg_16_pd s =
    (chain (EA_AY_PD_16 s) (\<lambda>ea s.
     chain (m68ki_read_16 ea s) (\<lambda>src s.
     let res = 0 - src;
         s = s\<lparr>n_flag := NFLAG_16 res,
               x_flag := CFLAG_16 res,
               c_flag := CFLAG_16 res,
               v_flag := drop_bit 8 (src AND res),
               not_z_flag := MASK_OUT_ABOVE_16 res\<rparr>
     in m68ki_write_16 ea (not_z_flag s) s)))"

definition m68k_op_neg_16_di :: "'b op" where
  "m68k_op_neg_16_di s =
    (chain (EA_AY_DI_16 s) (\<lambda>ea s.
     chain (m68ki_read_16 ea s) (\<lambda>src s.
     let res = 0 - src;
         s = s\<lparr>n_flag := NFLAG_16 res,
               x_flag := CFLAG_16 res,
               c_flag := CFLAG_16 res,
               v_flag := drop_bit 8 (src AND res),
               not_z_flag := MASK_OUT_ABOVE_16 res\<rparr>
     in m68ki_write_16 ea (not_z_flag s) s)))"

definition m68k_op_neg_16_ix :: "'b op" where
  "m68k_op_neg_16_ix s =
    (chain (EA_AY_IX_16 s) (\<lambda>ea s.
     chain (m68ki_read_16 ea s) (\<lambda>src s.
     let res = 0 - src;
         s = s\<lparr>n_flag := NFLAG_16 res,
               x_flag := CFLAG_16 res,
               c_flag := CFLAG_16 res,
               v_flag := drop_bit 8 (src AND res),
               not_z_flag := MASK_OUT_ABOVE_16 res\<rparr>
     in m68ki_write_16 ea (not_z_flag s) s)))"

definition m68k_op_neg_16_aw :: "'b op" where
  "m68k_op_neg_16_aw s =
    (chain (EA_AW_16 s) (\<lambda>ea s.
     chain (m68ki_read_16 ea s) (\<lambda>src s.
     let res = 0 - src;
         s = s\<lparr>n_flag := NFLAG_16 res,
               x_flag := CFLAG_16 res,
               c_flag := CFLAG_16 res,
               v_flag := drop_bit 8 (src AND res),
               not_z_flag := MASK_OUT_ABOVE_16 res\<rparr>
     in m68ki_write_16 ea (not_z_flag s) s)))"

definition m68k_op_neg_16_al :: "'b op" where
  "m68k_op_neg_16_al s =
    (chain (EA_AL_16 s) (\<lambda>ea s.
     chain (m68ki_read_16 ea s) (\<lambda>src s.
     let res = 0 - src;
         s = s\<lparr>n_flag := NFLAG_16 res,
               x_flag := CFLAG_16 res,
               c_flag := CFLAG_16 res,
               v_flag := drop_bit 8 (src AND res),
               not_z_flag := MASK_OUT_ABOVE_16 res\<rparr>
     in m68ki_write_16 ea (not_z_flag s) s)))"

definition m68k_op_neg_32_d :: "'b op" where
  "m68k_op_neg_32_d s =
    (let res = 0 - DY s;
         s = s\<lparr>n_flag := NFLAG_32 res, x_flag := CFLAG_SUB_32 (DY s) 0 res\<rparr>;
         s = s\<lparr>c_flag := x_flag s,
               v_flag := drop_bit 24 (DY s AND res),
               not_z_flag := MASK_OUT_ABOVE_32 res\<rparr>
     in Ret () (set_DY (not_z_flag s) s))"

definition m68k_op_neg_32_ai :: "'b op" where
  "m68k_op_neg_32_ai s =
    (chain (EA_AY_AI_32 s) (\<lambda>ea s.
     chain (m68ki_read_32 ea s) (\<lambda>src s.
     let res = 0 - src;
         s = s\<lparr>n_flag := NFLAG_32 res,
               x_flag := CFLAG_SUB_32 src 0 res,
               c_flag := CFLAG_SUB_32 src 0 res,
               v_flag := drop_bit 24 (src AND res),
               not_z_flag := MASK_OUT_ABOVE_32 res\<rparr>
     in m68ki_write_32 ea (not_z_flag s) s)))"

definition m68k_op_neg_32_pi :: "'b op" where
  "m68k_op_neg_32_pi s =
    (chain (EA_AY_PI_32 s) (\<lambda>ea s.
     chain (m68ki_read_32 ea s) (\<lambda>src s.
     let res = 0 - src;
         s = s\<lparr>n_flag := NFLAG_32 res,
               x_flag := CFLAG_SUB_32 src 0 res,
               c_flag := CFLAG_SUB_32 src 0 res,
               v_flag := drop_bit 24 (src AND res),
               not_z_flag := MASK_OUT_ABOVE_32 res\<rparr>
     in m68ki_write_32 ea (not_z_flag s) s)))"

definition m68k_op_neg_32_pd :: "'b op" where
  "m68k_op_neg_32_pd s =
    (chain (EA_AY_PD_32 s) (\<lambda>ea s.
     chain (m68ki_read_32 ea s) (\<lambda>src s.
     let res = 0 - src;
         s = s\<lparr>n_flag := NFLAG_32 res,
               x_flag := CFLAG_SUB_32 src 0 res,
               c_flag := CFLAG_SUB_32 src 0 res,
               v_flag := drop_bit 24 (src AND res),
               not_z_flag := MASK_OUT_ABOVE_32 res\<rparr>
     in m68ki_write_32 ea (not_z_flag s) s)))"

definition m68k_op_neg_32_di :: "'b op" where
  "m68k_op_neg_32_di s =
    (chain (EA_AY_DI_32 s) (\<lambda>ea s.
     chain (m68ki_read_32 ea s) (\<lambda>src s.
     let res = 0 - src;
         s = s\<lparr>n_flag := NFLAG_32 res,
               x_flag := CFLAG_SUB_32 src 0 res,
               c_flag := CFLAG_SUB_32 src 0 res,
               v_flag := drop_bit 24 (src AND res),
               not_z_flag := MASK_OUT_ABOVE_32 res\<rparr>
     in m68ki_write_32 ea (not_z_flag s) s)))"

definition m68k_op_neg_32_ix :: "'b op" where
  "m68k_op_neg_32_ix s =
    (chain (EA_AY_IX_32 s) (\<lambda>ea s.
     chain (m68ki_read_32 ea s) (\<lambda>src s.
     let res = 0 - src;
         s = s\<lparr>n_flag := NFLAG_32 res,
               x_flag := CFLAG_SUB_32 src 0 res,
               c_flag := CFLAG_SUB_32 src 0 res,
               v_flag := drop_bit 24 (src AND res),
               not_z_flag := MASK_OUT_ABOVE_32 res\<rparr>
     in m68ki_write_32 ea (not_z_flag s) s)))"

definition m68k_op_neg_32_aw :: "'b op" where
  "m68k_op_neg_32_aw s =
    (chain (EA_AW_32 s) (\<lambda>ea s.
     chain (m68ki_read_32 ea s) (\<lambda>src s.
     let res = 0 - src;
         s = s\<lparr>n_flag := NFLAG_32 res,
               x_flag := CFLAG_SUB_32 src 0 res,
               c_flag := CFLAG_SUB_32 src 0 res,
               v_flag := drop_bit 24 (src AND res),
               not_z_flag := MASK_OUT_ABOVE_32 res\<rparr>
     in m68ki_write_32 ea (not_z_flag s) s)))"

definition m68k_op_neg_32_al :: "'b op" where
  "m68k_op_neg_32_al s =
    (chain (EA_AL_32 s) (\<lambda>ea s.
     chain (m68ki_read_32 ea s) (\<lambda>src s.
     let res = 0 - src;
         s = s\<lparr>n_flag := NFLAG_32 res,
               x_flag := CFLAG_SUB_32 src 0 res,
               c_flag := CFLAG_SUB_32 src 0 res,
               v_flag := drop_bit 24 (src AND res),
               not_z_flag := MASK_OUT_ABOVE_32 res\<rparr>
     in m68ki_write_32 ea (not_z_flag s) s)))"

definition m68k_op_negx_8_d :: "'b op" where
  "m68k_op_negx_8_d s =
    (let res = 0 - MASK_OUT_ABOVE_8 (DY s) - XFLAG_AS_1 s;
         s = s\<lparr>n_flag := NFLAG_8 res,
               c_flag := CFLAG_8 res,
               x_flag := CFLAG_8 res,
               v_flag := DY s AND res\<rparr>;
         res = MASK_OUT_ABOVE_8 res;
         s = s\<lparr>not_z_flag := (not_z_flag s) OR res\<rparr>
     in Ret () (set_DY (MASK_OUT_BELOW_8 (DY s) OR res) s))"

definition m68k_op_negx_8_ai :: "'b op" where
  "m68k_op_negx_8_ai s =
    (chain (EA_AY_AI_8 s) (\<lambda>ea s.
     chain (m68ki_read_8 ea s) (\<lambda>src s.
     let res = 0 - src - XFLAG_AS_1 s;
         s = s\<lparr>n_flag := NFLAG_8 res,
               c_flag := CFLAG_8 res,
               x_flag := CFLAG_8 res,
               v_flag := src AND res\<rparr>;
         res = MASK_OUT_ABOVE_8 res;
         s = s\<lparr>not_z_flag := (not_z_flag s) OR res\<rparr>
     in m68ki_write_8 ea res s)))"

definition m68k_op_negx_8_pi :: "'b op" where
  "m68k_op_negx_8_pi s =
    (chain (EA_AY_PI_8 s) (\<lambda>ea s.
     chain (m68ki_read_8 ea s) (\<lambda>src s.
     let res = 0 - src - XFLAG_AS_1 s;
         s = s\<lparr>n_flag := NFLAG_8 res,
               c_flag := CFLAG_8 res,
               x_flag := CFLAG_8 res,
               v_flag := src AND res\<rparr>;
         res = MASK_OUT_ABOVE_8 res;
         s = s\<lparr>not_z_flag := (not_z_flag s) OR res\<rparr>
     in m68ki_write_8 ea res s)))"

definition m68k_op_negx_8_pi7 :: "'b op" where
  "m68k_op_negx_8_pi7 s =
    (chain (EA_A7_PI_8 s) (\<lambda>ea s.
     chain (m68ki_read_8 ea s) (\<lambda>src s.
     let res = 0 - src - XFLAG_AS_1 s;
         s = s\<lparr>n_flag := NFLAG_8 res,
               c_flag := CFLAG_8 res,
               x_flag := CFLAG_8 res,
               v_flag := src AND res\<rparr>;
         res = MASK_OUT_ABOVE_8 res;
         s = s\<lparr>not_z_flag := (not_z_flag s) OR res\<rparr>
     in m68ki_write_8 ea res s)))"

definition m68k_op_negx_8_pd :: "'b op" where
  "m68k_op_negx_8_pd s =
    (chain (EA_AY_PD_8 s) (\<lambda>ea s.
     chain (m68ki_read_8 ea s) (\<lambda>src s.
     let res = 0 - src - XFLAG_AS_1 s;
         s = s\<lparr>n_flag := NFLAG_8 res,
               c_flag := CFLAG_8 res,
               x_flag := CFLAG_8 res,
               v_flag := src AND res\<rparr>;
         res = MASK_OUT_ABOVE_8 res;
         s = s\<lparr>not_z_flag := (not_z_flag s) OR res\<rparr>
     in m68ki_write_8 ea res s)))"

definition m68k_op_negx_8_pd7 :: "'b op" where
  "m68k_op_negx_8_pd7 s =
    (chain (EA_A7_PD_8 s) (\<lambda>ea s.
     chain (m68ki_read_8 ea s) (\<lambda>src s.
     let res = 0 - src - XFLAG_AS_1 s;
         s = s\<lparr>n_flag := NFLAG_8 res,
               c_flag := CFLAG_8 res,
               x_flag := CFLAG_8 res,
               v_flag := src AND res\<rparr>;
         res = MASK_OUT_ABOVE_8 res;
         s = s\<lparr>not_z_flag := (not_z_flag s) OR res\<rparr>
     in m68ki_write_8 ea res s)))"

definition m68k_op_negx_8_di :: "'b op" where
  "m68k_op_negx_8_di s =
    (chain (EA_AY_DI_8 s) (\<lambda>ea s.
     chain (m68ki_read_8 ea s) (\<lambda>src s.
     let res = 0 - src - XFLAG_AS_1 s;
         s = s\<lparr>n_flag := NFLAG_8 res,
               c_flag := CFLAG_8 res,
               x_flag := CFLAG_8 res,
               v_flag := src AND res\<rparr>;
         res = MASK_OUT_ABOVE_8 res;
         s = s\<lparr>not_z_flag := (not_z_flag s) OR res\<rparr>
     in m68ki_write_8 ea res s)))"

definition m68k_op_negx_8_ix :: "'b op" where
  "m68k_op_negx_8_ix s =
    (chain (EA_AY_IX_8 s) (\<lambda>ea s.
     chain (m68ki_read_8 ea s) (\<lambda>src s.
     let res = 0 - src - XFLAG_AS_1 s;
         s = s\<lparr>n_flag := NFLAG_8 res,
               c_flag := CFLAG_8 res,
               x_flag := CFLAG_8 res,
               v_flag := src AND res\<rparr>;
         res = MASK_OUT_ABOVE_8 res;
         s = s\<lparr>not_z_flag := (not_z_flag s) OR res\<rparr>
     in m68ki_write_8 ea res s)))"

definition m68k_op_negx_8_aw :: "'b op" where
  "m68k_op_negx_8_aw s =
    (chain (EA_AW_8 s) (\<lambda>ea s.
     chain (m68ki_read_8 ea s) (\<lambda>src s.
     let res = 0 - src - XFLAG_AS_1 s;
         s = s\<lparr>n_flag := NFLAG_8 res,
               c_flag := CFLAG_8 res,
               x_flag := CFLAG_8 res,
               v_flag := src AND res\<rparr>;
         res = MASK_OUT_ABOVE_8 res;
         s = s\<lparr>not_z_flag := (not_z_flag s) OR res\<rparr>
     in m68ki_write_8 ea res s)))"

definition m68k_op_negx_8_al :: "'b op" where
  "m68k_op_negx_8_al s =
    (chain (EA_AL_8 s) (\<lambda>ea s.
     chain (m68ki_read_8 ea s) (\<lambda>src s.
     let res = 0 - src - XFLAG_AS_1 s;
         s = s\<lparr>n_flag := NFLAG_8 res,
               c_flag := CFLAG_8 res,
               x_flag := CFLAG_8 res,
               v_flag := src AND res\<rparr>;
         res = MASK_OUT_ABOVE_8 res;
         s = s\<lparr>not_z_flag := (not_z_flag s) OR res\<rparr>
     in m68ki_write_8 ea res s)))"

definition m68k_op_negx_16_d :: "'b op" where
  "m68k_op_negx_16_d s =
    (let res = 0 - MASK_OUT_ABOVE_16 (DY s) - XFLAG_AS_1 s;
         s = s\<lparr>n_flag := NFLAG_16 res,
               c_flag := CFLAG_16 res,
               x_flag := CFLAG_16 res,
               v_flag := drop_bit 8 (DY s AND res)\<rparr>;
         res = MASK_OUT_ABOVE_16 res;
         s = s\<lparr>not_z_flag := (not_z_flag s) OR res\<rparr>
     in Ret () (set_DY (MASK_OUT_BELOW_16 (DY s) OR res) s))"

definition m68k_op_negx_16_ai :: "'b op" where
  "m68k_op_negx_16_ai s =
    (chain (EA_AY_AI_16 s) (\<lambda>ea s.
     chain (m68ki_read_16 ea s) (\<lambda>src s.
     let res = 0 - MASK_OUT_ABOVE_16 src - XFLAG_AS_1 s;
         s = s\<lparr>n_flag := NFLAG_16 res,
               c_flag := CFLAG_16 res,
               x_flag := CFLAG_16 res,
               v_flag := drop_bit 8 (src AND res)\<rparr>;
         res = MASK_OUT_ABOVE_16 res;
         s = s\<lparr>not_z_flag := (not_z_flag s) OR res\<rparr>
     in m68ki_write_16 ea res s)))"

definition m68k_op_negx_16_pi :: "'b op" where
  "m68k_op_negx_16_pi s =
    (chain (EA_AY_PI_16 s) (\<lambda>ea s.
     chain (m68ki_read_16 ea s) (\<lambda>src s.
     let res = 0 - MASK_OUT_ABOVE_16 src - XFLAG_AS_1 s;
         s = s\<lparr>n_flag := NFLAG_16 res,
               c_flag := CFLAG_16 res,
               x_flag := CFLAG_16 res,
               v_flag := drop_bit 8 (src AND res)\<rparr>;
         res = MASK_OUT_ABOVE_16 res;
         s = s\<lparr>not_z_flag := (not_z_flag s) OR res\<rparr>
     in m68ki_write_16 ea res s)))"

definition m68k_op_negx_16_pd :: "'b op" where
  "m68k_op_negx_16_pd s =
    (chain (EA_AY_PD_16 s) (\<lambda>ea s.
     chain (m68ki_read_16 ea s) (\<lambda>src s.
     let res = 0 - MASK_OUT_ABOVE_16 src - XFLAG_AS_1 s;
         s = s\<lparr>n_flag := NFLAG_16 res,
               c_flag := CFLAG_16 res,
               x_flag := CFLAG_16 res,
               v_flag := drop_bit 8 (src AND res)\<rparr>;
         res = MASK_OUT_ABOVE_16 res;
         s = s\<lparr>not_z_flag := (not_z_flag s) OR res\<rparr>
     in m68ki_write_16 ea res s)))"

definition m68k_op_negx_16_di :: "'b op" where
  "m68k_op_negx_16_di s =
    (chain (EA_AY_DI_16 s) (\<lambda>ea s.
     chain (m68ki_read_16 ea s) (\<lambda>src s.
     let res = 0 - MASK_OUT_ABOVE_16 src - XFLAG_AS_1 s;
         s = s\<lparr>n_flag := NFLAG_16 res,
               c_flag := CFLAG_16 res,
               x_flag := CFLAG_16 res,
               v_flag := drop_bit 8 (src AND res)\<rparr>;
         res = MASK_OUT_ABOVE_16 res;
         s = s\<lparr>not_z_flag := (not_z_flag s) OR res\<rparr>
     in m68ki_write_16 ea res s)))"

definition m68k_op_negx_16_ix :: "'b op" where
  "m68k_op_negx_16_ix s =
    (chain (EA_AY_IX_16 s) (\<lambda>ea s.
     chain (m68ki_read_16 ea s) (\<lambda>src s.
     let res = 0 - MASK_OUT_ABOVE_16 src - XFLAG_AS_1 s;
         s = s\<lparr>n_flag := NFLAG_16 res,
               c_flag := CFLAG_16 res,
               x_flag := CFLAG_16 res,
               v_flag := drop_bit 8 (src AND res)\<rparr>;
         res = MASK_OUT_ABOVE_16 res;
         s = s\<lparr>not_z_flag := (not_z_flag s) OR res\<rparr>
     in m68ki_write_16 ea res s)))"

definition m68k_op_negx_16_aw :: "'b op" where
  "m68k_op_negx_16_aw s =
    (chain (EA_AW_16 s) (\<lambda>ea s.
     chain (m68ki_read_16 ea s) (\<lambda>src s.
     let res = 0 - MASK_OUT_ABOVE_16 src - XFLAG_AS_1 s;
         s = s\<lparr>n_flag := NFLAG_16 res,
               c_flag := CFLAG_16 res,
               x_flag := CFLAG_16 res,
               v_flag := drop_bit 8 (src AND res)\<rparr>;
         res = MASK_OUT_ABOVE_16 res;
         s = s\<lparr>not_z_flag := (not_z_flag s) OR res\<rparr>
     in m68ki_write_16 ea res s)))"

definition m68k_op_negx_16_al :: "'b op" where
  "m68k_op_negx_16_al s =
    (chain (EA_AL_16 s) (\<lambda>ea s.
     chain (m68ki_read_16 ea s) (\<lambda>src s.
     let res = 0 - MASK_OUT_ABOVE_16 src - XFLAG_AS_1 s;
         s = s\<lparr>n_flag := NFLAG_16 res,
               c_flag := CFLAG_16 res,
               x_flag := CFLAG_16 res,
               v_flag := drop_bit 8 (src AND res)\<rparr>;
         res = MASK_OUT_ABOVE_16 res;
         s = s\<lparr>not_z_flag := (not_z_flag s) OR res\<rparr>
     in m68ki_write_16 ea res s)))"

definition m68k_op_negx_32_d :: "'b op" where
  "m68k_op_negx_32_d s =
    (let res = 0 - MASK_OUT_ABOVE_32 (DY s) - XFLAG_AS_1 s;
         s = s\<lparr>n_flag := NFLAG_32 res, c_flag := CFLAG_SUB_32 (DY s) 0 res\<rparr>;
         s = s\<lparr>x_flag := c_flag s, v_flag := drop_bit 24 (DY s AND res)\<rparr>;
         res = MASK_OUT_ABOVE_32 res;
         s = s\<lparr>not_z_flag := (not_z_flag s) OR res\<rparr>
     in Ret () (set_DY res s))"

definition m68k_op_negx_32_ai :: "'b op" where
  "m68k_op_negx_32_ai s =
    (chain (EA_AY_AI_32 s) (\<lambda>ea s.
     chain (m68ki_read_32 ea s) (\<lambda>src s.
     let res = 0 - MASK_OUT_ABOVE_32 src - XFLAG_AS_1 s;
         s = s\<lparr>n_flag := NFLAG_32 res,
               c_flag := CFLAG_SUB_32 src 0 res,
               x_flag := CFLAG_SUB_32 src 0 res,
               v_flag := drop_bit 24 (src AND res)\<rparr>;
         res = MASK_OUT_ABOVE_32 res;
         s = s\<lparr>not_z_flag := (not_z_flag s) OR res\<rparr>
     in m68ki_write_32 ea res s)))"

definition m68k_op_negx_32_pi :: "'b op" where
  "m68k_op_negx_32_pi s =
    (chain (EA_AY_PI_32 s) (\<lambda>ea s.
     chain (m68ki_read_32 ea s) (\<lambda>src s.
     let res = 0 - MASK_OUT_ABOVE_32 src - XFLAG_AS_1 s;
         s = s\<lparr>n_flag := NFLAG_32 res,
               c_flag := CFLAG_SUB_32 src 0 res,
               x_flag := CFLAG_SUB_32 src 0 res,
               v_flag := drop_bit 24 (src AND res)\<rparr>;
         res = MASK_OUT_ABOVE_32 res;
         s = s\<lparr>not_z_flag := (not_z_flag s) OR res\<rparr>
     in m68ki_write_32 ea res s)))"

definition m68k_op_negx_32_pd :: "'b op" where
  "m68k_op_negx_32_pd s =
    (chain (EA_AY_PD_32 s) (\<lambda>ea s.
     chain (m68ki_read_32 ea s) (\<lambda>src s.
     let res = 0 - MASK_OUT_ABOVE_32 src - XFLAG_AS_1 s;
         s = s\<lparr>n_flag := NFLAG_32 res,
               c_flag := CFLAG_SUB_32 src 0 res,
               x_flag := CFLAG_SUB_32 src 0 res,
               v_flag := drop_bit 24 (src AND res)\<rparr>;
         res = MASK_OUT_ABOVE_32 res;
         s = s\<lparr>not_z_flag := (not_z_flag s) OR res\<rparr>
     in m68ki_write_32 ea res s)))"

definition m68k_op_negx_32_di :: "'b op" where
  "m68k_op_negx_32_di s =
    (chain (EA_AY_DI_32 s) (\<lambda>ea s.
     chain (m68ki_read_32 ea s) (\<lambda>src s.
     let res = 0 - MASK_OUT_ABOVE_32 src - XFLAG_AS_1 s;
         s = s\<lparr>n_flag := NFLAG_32 res,
               c_flag := CFLAG_SUB_32 src 0 res,
               x_flag := CFLAG_SUB_32 src 0 res,
               v_flag := drop_bit 24 (src AND res)\<rparr>;
         res = MASK_OUT_ABOVE_32 res;
         s = s\<lparr>not_z_flag := (not_z_flag s) OR res\<rparr>
     in m68ki_write_32 ea res s)))"

definition m68k_op_negx_32_ix :: "'b op" where
  "m68k_op_negx_32_ix s =
    (chain (EA_AY_IX_32 s) (\<lambda>ea s.
     chain (m68ki_read_32 ea s) (\<lambda>src s.
     let res = 0 - MASK_OUT_ABOVE_32 src - XFLAG_AS_1 s;
         s = s\<lparr>n_flag := NFLAG_32 res,
               c_flag := CFLAG_SUB_32 src 0 res,
               x_flag := CFLAG_SUB_32 src 0 res,
               v_flag := drop_bit 24 (src AND res)\<rparr>;
         res = MASK_OUT_ABOVE_32 res;
         s = s\<lparr>not_z_flag := (not_z_flag s) OR res\<rparr>
     in m68ki_write_32 ea res s)))"

definition m68k_op_negx_32_aw :: "'b op" where
  "m68k_op_negx_32_aw s =
    (chain (EA_AW_32 s) (\<lambda>ea s.
     chain (m68ki_read_32 ea s) (\<lambda>src s.
     let res = 0 - MASK_OUT_ABOVE_32 src - XFLAG_AS_1 s;
         s = s\<lparr>n_flag := NFLAG_32 res,
               c_flag := CFLAG_SUB_32 src 0 res,
               x_flag := CFLAG_SUB_32 src 0 res,
               v_flag := drop_bit 24 (src AND res)\<rparr>;
         res = MASK_OUT_ABOVE_32 res;
         s = s\<lparr>not_z_flag := (not_z_flag s) OR res\<rparr>
     in m68ki_write_32 ea res s)))"

definition m68k_op_negx_32_al :: "'b op" where
  "m68k_op_negx_32_al s =
    (chain (EA_AL_32 s) (\<lambda>ea s.
     chain (m68ki_read_32 ea s) (\<lambda>src s.
     let res = 0 - MASK_OUT_ABOVE_32 src - XFLAG_AS_1 s;
         s = s\<lparr>n_flag := NFLAG_32 res,
               c_flag := CFLAG_SUB_32 src 0 res,
               x_flag := CFLAG_SUB_32 src 0 res,
               v_flag := drop_bit 24 (src AND res)\<rparr>;
         res = MASK_OUT_ABOVE_32 res;
         s = s\<lparr>not_z_flag := (not_z_flag s) OR res\<rparr>
     in m68ki_write_32 ea res s)))"

definition m68k_op_sub_8_er_d :: "'b op" where
  "m68k_op_sub_8_er_d s =
    (let src = MASK_OUT_ABOVE_8 (DY s);
         dst = MASK_OUT_ABOVE_8 (DX s);
         res = dst - src;
         s = s\<lparr>n_flag := NFLAG_8 res,
               c_flag := CFLAG_8 res,
               x_flag := CFLAG_8 res,
               v_flag := VFLAG_SUB_8 src dst res,
               not_z_flag := MASK_OUT_ABOVE_8 res\<rparr>
     in Ret () (set_DX (MASK_OUT_BELOW_8 (DX s) OR not_z_flag s) s))"

definition m68k_op_sub_8_er_ai :: "'b op" where
  "m68k_op_sub_8_er_ai s =
    (chain (OPER_AY_AI_8 s) (\<lambda>src s.
     let dst = MASK_OUT_ABOVE_8 (DX s);
         res = dst - src;
         s = s\<lparr>n_flag := NFLAG_8 res,
               c_flag := CFLAG_8 res,
               x_flag := CFLAG_8 res,
               v_flag := VFLAG_SUB_8 src dst res,
               not_z_flag := MASK_OUT_ABOVE_8 res\<rparr>
     in Ret () (set_DX (MASK_OUT_BELOW_8 (DX s) OR not_z_flag s) s)))"

definition m68k_op_sub_8_er_pi :: "'b op" where
  "m68k_op_sub_8_er_pi s =
    (chain (OPER_AY_PI_8 s) (\<lambda>src s.
     let dst = MASK_OUT_ABOVE_8 (DX s);
         res = dst - src;
         s = s\<lparr>n_flag := NFLAG_8 res,
               c_flag := CFLAG_8 res,
               x_flag := CFLAG_8 res,
               v_flag := VFLAG_SUB_8 src dst res,
               not_z_flag := MASK_OUT_ABOVE_8 res\<rparr>
     in Ret () (set_DX (MASK_OUT_BELOW_8 (DX s) OR not_z_flag s) s)))"

definition m68k_op_sub_8_er_pi7 :: "'b op" where
  "m68k_op_sub_8_er_pi7 s =
    (chain (OPER_A7_PI_8 s) (\<lambda>src s.
     let dst = MASK_OUT_ABOVE_8 (DX s);
         res = dst - src;
         s = s\<lparr>n_flag := NFLAG_8 res,
               c_flag := CFLAG_8 res,
               x_flag := CFLAG_8 res,
               v_flag := VFLAG_SUB_8 src dst res,
               not_z_flag := MASK_OUT_ABOVE_8 res\<rparr>
     in Ret () (set_DX (MASK_OUT_BELOW_8 (DX s) OR not_z_flag s) s)))"

definition m68k_op_sub_8_er_pd :: "'b op" where
  "m68k_op_sub_8_er_pd s =
    (chain (OPER_AY_PD_8 s) (\<lambda>src s.
     let dst = MASK_OUT_ABOVE_8 (DX s);
         res = dst - src;
         s = s\<lparr>n_flag := NFLAG_8 res,
               c_flag := CFLAG_8 res,
               x_flag := CFLAG_8 res,
               v_flag := VFLAG_SUB_8 src dst res,
               not_z_flag := MASK_OUT_ABOVE_8 res\<rparr>
     in Ret () (set_DX (MASK_OUT_BELOW_8 (DX s) OR not_z_flag s) s)))"

definition m68k_op_sub_8_er_pd7 :: "'b op" where
  "m68k_op_sub_8_er_pd7 s =
    (chain (OPER_A7_PD_8 s) (\<lambda>src s.
     let dst = MASK_OUT_ABOVE_8 (DX s);
         res = dst - src;
         s = s\<lparr>n_flag := NFLAG_8 res,
               c_flag := CFLAG_8 res,
               x_flag := CFLAG_8 res,
               v_flag := VFLAG_SUB_8 src dst res,
               not_z_flag := MASK_OUT_ABOVE_8 res\<rparr>
     in Ret () (set_DX (MASK_OUT_BELOW_8 (DX s) OR not_z_flag s) s)))"

definition m68k_op_sub_8_er_di :: "'b op" where
  "m68k_op_sub_8_er_di s =
    (chain (OPER_AY_DI_8 s) (\<lambda>src s.
     let dst = MASK_OUT_ABOVE_8 (DX s);
         res = dst - src;
         s = s\<lparr>n_flag := NFLAG_8 res,
               c_flag := CFLAG_8 res,
               x_flag := CFLAG_8 res,
               v_flag := VFLAG_SUB_8 src dst res,
               not_z_flag := MASK_OUT_ABOVE_8 res\<rparr>
     in Ret () (set_DX (MASK_OUT_BELOW_8 (DX s) OR not_z_flag s) s)))"

definition m68k_op_sub_8_er_ix :: "'b op" where
  "m68k_op_sub_8_er_ix s =
    (chain (OPER_AY_IX_8 s) (\<lambda>src s.
     let dst = MASK_OUT_ABOVE_8 (DX s);
         res = dst - src;
         s = s\<lparr>n_flag := NFLAG_8 res,
               c_flag := CFLAG_8 res,
               x_flag := CFLAG_8 res,
               v_flag := VFLAG_SUB_8 src dst res,
               not_z_flag := MASK_OUT_ABOVE_8 res\<rparr>
     in Ret () (set_DX (MASK_OUT_BELOW_8 (DX s) OR not_z_flag s) s)))"

definition m68k_op_sub_8_er_aw :: "'b op" where
  "m68k_op_sub_8_er_aw s =
    (chain (OPER_AW_8 s) (\<lambda>src s.
     let dst = MASK_OUT_ABOVE_8 (DX s);
         res = dst - src;
         s = s\<lparr>n_flag := NFLAG_8 res,
               c_flag := CFLAG_8 res,
               x_flag := CFLAG_8 res,
               v_flag := VFLAG_SUB_8 src dst res,
               not_z_flag := MASK_OUT_ABOVE_8 res\<rparr>
     in Ret () (set_DX (MASK_OUT_BELOW_8 (DX s) OR not_z_flag s) s)))"

definition m68k_op_sub_8_er_al :: "'b op" where
  "m68k_op_sub_8_er_al s =
    (chain (OPER_AL_8 s) (\<lambda>src s.
     let dst = MASK_OUT_ABOVE_8 (DX s);
         res = dst - src;
         s = s\<lparr>n_flag := NFLAG_8 res,
               c_flag := CFLAG_8 res,
               x_flag := CFLAG_8 res,
               v_flag := VFLAG_SUB_8 src dst res,
               not_z_flag := MASK_OUT_ABOVE_8 res\<rparr>
     in Ret () (set_DX (MASK_OUT_BELOW_8 (DX s) OR not_z_flag s) s)))"

definition m68k_op_sub_8_er_pcdi :: "'b op" where
  "m68k_op_sub_8_er_pcdi s =
    (chain (OPER_PCDI_8 s) (\<lambda>src s.
     let dst = MASK_OUT_ABOVE_8 (DX s);
         res = dst - src;
         s = s\<lparr>n_flag := NFLAG_8 res,
               c_flag := CFLAG_8 res,
               x_flag := CFLAG_8 res,
               v_flag := VFLAG_SUB_8 src dst res,
               not_z_flag := MASK_OUT_ABOVE_8 res\<rparr>
     in Ret () (set_DX (MASK_OUT_BELOW_8 (DX s) OR not_z_flag s) s)))"

definition m68k_op_sub_8_er_pcix :: "'b op" where
  "m68k_op_sub_8_er_pcix s =
    (chain (OPER_PCIX_8 s) (\<lambda>src s.
     let dst = MASK_OUT_ABOVE_8 (DX s);
         res = dst - src;
         s = s\<lparr>n_flag := NFLAG_8 res,
               c_flag := CFLAG_8 res,
               x_flag := CFLAG_8 res,
               v_flag := VFLAG_SUB_8 src dst res,
               not_z_flag := MASK_OUT_ABOVE_8 res\<rparr>
     in Ret () (set_DX (MASK_OUT_BELOW_8 (DX s) OR not_z_flag s) s)))"

definition m68k_op_sub_8_er_i :: "'b op" where
  "m68k_op_sub_8_er_i s =
    (chain (OPER_I_8 s) (\<lambda>src s.
     let dst = MASK_OUT_ABOVE_8 (DX s);
         res = dst - src;
         s = s\<lparr>n_flag := NFLAG_8 res,
               c_flag := CFLAG_8 res,
               x_flag := CFLAG_8 res,
               v_flag := VFLAG_SUB_8 src dst res,
               not_z_flag := MASK_OUT_ABOVE_8 res\<rparr>
     in Ret () (set_DX (MASK_OUT_BELOW_8 (DX s) OR not_z_flag s) s)))"

definition m68k_op_sub_16_er_d :: "'b op" where
  "m68k_op_sub_16_er_d s =
    (let src = MASK_OUT_ABOVE_16 (DY s);
         dst = MASK_OUT_ABOVE_16 (DX s);
         res = dst - src;
         s = s\<lparr>n_flag := NFLAG_16 res,
               c_flag := CFLAG_16 res,
               x_flag := CFLAG_16 res,
               v_flag := VFLAG_SUB_16 src dst res,
               not_z_flag := MASK_OUT_ABOVE_16 res\<rparr>
     in Ret () (set_DX (MASK_OUT_BELOW_16 (DX s) OR not_z_flag s) s))"

definition m68k_op_sub_16_er_a :: "'b op" where
  "m68k_op_sub_16_er_a s =
    (let src = MASK_OUT_ABOVE_16 (AY s);
         dst = MASK_OUT_ABOVE_16 (DX s);
         res = dst - src;
         s = s\<lparr>n_flag := NFLAG_16 res,
               c_flag := CFLAG_16 res,
               x_flag := CFLAG_16 res,
               v_flag := VFLAG_SUB_16 src dst res,
               not_z_flag := MASK_OUT_ABOVE_16 res\<rparr>
     in Ret () (set_DX (MASK_OUT_BELOW_16 (DX s) OR not_z_flag s) s))"

definition m68k_op_sub_16_er_ai :: "'b op" where
  "m68k_op_sub_16_er_ai s =
    (chain (OPER_AY_AI_16 s) (\<lambda>src s.
     let dst = MASK_OUT_ABOVE_16 (DX s);
         res = dst - src;
         s = s\<lparr>n_flag := NFLAG_16 res,
               c_flag := CFLAG_16 res,
               x_flag := CFLAG_16 res,
               v_flag := VFLAG_SUB_16 src dst res,
               not_z_flag := MASK_OUT_ABOVE_16 res\<rparr>
     in Ret () (set_DX (MASK_OUT_BELOW_16 (DX s) OR not_z_flag s) s)))"

definition m68k_op_sub_16_er_pi :: "'b op" where
  "m68k_op_sub_16_er_pi s =
    (chain (OPER_AY_PI_16 s) (\<lambda>src s.
     let dst = MASK_OUT_ABOVE_16 (DX s);
         res = dst - src;
         s = s\<lparr>n_flag := NFLAG_16 res,
               c_flag := CFLAG_16 res,
               x_flag := CFLAG_16 res,
               v_flag := VFLAG_SUB_16 src dst res,
               not_z_flag := MASK_OUT_ABOVE_16 res\<rparr>
     in Ret () (set_DX (MASK_OUT_BELOW_16 (DX s) OR not_z_flag s) s)))"

definition m68k_op_sub_16_er_pd :: "'b op" where
  "m68k_op_sub_16_er_pd s =
    (chain (OPER_AY_PD_16 s) (\<lambda>src s.
     let dst = MASK_OUT_ABOVE_16 (DX s);
         res = dst - src;
         s = s\<lparr>n_flag := NFLAG_16 res,
               c_flag := CFLAG_16 res,
               x_flag := CFLAG_16 res,
               v_flag := VFLAG_SUB_16 src dst res,
               not_z_flag := MASK_OUT_ABOVE_16 res\<rparr>
     in Ret () (set_DX (MASK_OUT_BELOW_16 (DX s) OR not_z_flag s) s)))"

definition m68k_op_sub_16_er_di :: "'b op" where
  "m68k_op_sub_16_er_di s =
    (chain (OPER_AY_DI_16 s) (\<lambda>src s.
     let dst = MASK_OUT_ABOVE_16 (DX s);
         res = dst - src;
         s = s\<lparr>n_flag := NFLAG_16 res,
               c_flag := CFLAG_16 res,
               x_flag := CFLAG_16 res,
               v_flag := VFLAG_SUB_16 src dst res,
               not_z_flag := MASK_OUT_ABOVE_16 res\<rparr>
     in Ret () (set_DX (MASK_OUT_BELOW_16 (DX s) OR not_z_flag s) s)))"

definition m68k_op_sub_16_er_ix :: "'b op" where
  "m68k_op_sub_16_er_ix s =
    (chain (OPER_AY_IX_16 s) (\<lambda>src s.
     let dst = MASK_OUT_ABOVE_16 (DX s);
         res = dst - src;
         s = s\<lparr>n_flag := NFLAG_16 res,
               c_flag := CFLAG_16 res,
               x_flag := CFLAG_16 res,
               v_flag := VFLAG_SUB_16 src dst res,
               not_z_flag := MASK_OUT_ABOVE_16 res\<rparr>
     in Ret () (set_DX (MASK_OUT_BELOW_16 (DX s) OR not_z_flag s) s)))"

definition m68k_op_sub_16_er_aw :: "'b op" where
  "m68k_op_sub_16_er_aw s =
    (chain (OPER_AW_16 s) (\<lambda>src s.
     let dst = MASK_OUT_ABOVE_16 (DX s);
         res = dst - src;
         s = s\<lparr>n_flag := NFLAG_16 res,
               c_flag := CFLAG_16 res,
               x_flag := CFLAG_16 res,
               v_flag := VFLAG_SUB_16 src dst res,
               not_z_flag := MASK_OUT_ABOVE_16 res\<rparr>
     in Ret () (set_DX (MASK_OUT_BELOW_16 (DX s) OR not_z_flag s) s)))"

definition m68k_op_sub_16_er_al :: "'b op" where
  "m68k_op_sub_16_er_al s =
    (chain (OPER_AL_16 s) (\<lambda>src s.
     let dst = MASK_OUT_ABOVE_16 (DX s);
         res = dst - src;
         s = s\<lparr>n_flag := NFLAG_16 res,
               c_flag := CFLAG_16 res,
               x_flag := CFLAG_16 res,
               v_flag := VFLAG_SUB_16 src dst res,
               not_z_flag := MASK_OUT_ABOVE_16 res\<rparr>
     in Ret () (set_DX (MASK_OUT_BELOW_16 (DX s) OR not_z_flag s) s)))"

definition m68k_op_sub_16_er_pcdi :: "'b op" where
  "m68k_op_sub_16_er_pcdi s =
    (chain (OPER_PCDI_16 s) (\<lambda>src s.
     let dst = MASK_OUT_ABOVE_16 (DX s);
         res = dst - src;
         s = s\<lparr>n_flag := NFLAG_16 res,
               c_flag := CFLAG_16 res,
               x_flag := CFLAG_16 res,
               v_flag := VFLAG_SUB_16 src dst res,
               not_z_flag := MASK_OUT_ABOVE_16 res\<rparr>
     in Ret () (set_DX (MASK_OUT_BELOW_16 (DX s) OR not_z_flag s) s)))"

definition m68k_op_sub_16_er_pcix :: "'b op" where
  "m68k_op_sub_16_er_pcix s =
    (chain (OPER_PCIX_16 s) (\<lambda>src s.
     let dst = MASK_OUT_ABOVE_16 (DX s);
         res = dst - src;
         s = s\<lparr>n_flag := NFLAG_16 res,
               c_flag := CFLAG_16 res,
               x_flag := CFLAG_16 res,
               v_flag := VFLAG_SUB_16 src dst res,
               not_z_flag := MASK_OUT_ABOVE_16 res\<rparr>
     in Ret () (set_DX (MASK_OUT_BELOW_16 (DX s) OR not_z_flag s) s)))"

definition m68k_op_sub_16_er_i :: "'b op" where
  "m68k_op_sub_16_er_i s =
    (chain (OPER_I_16 s) (\<lambda>src s.
     let dst = MASK_OUT_ABOVE_16 (DX s);
         res = dst - src;
         s = s\<lparr>n_flag := NFLAG_16 res,
               c_flag := CFLAG_16 res,
               x_flag := CFLAG_16 res,
               v_flag := VFLAG_SUB_16 src dst res,
               not_z_flag := MASK_OUT_ABOVE_16 res\<rparr>
     in Ret () (set_DX (MASK_OUT_BELOW_16 (DX s) OR not_z_flag s) s)))"

definition m68k_op_sub_32_er_d :: "'b op" where
  "m68k_op_sub_32_er_d s =
    (let src = DY s;
         dst = DX s;
         res = dst - src;
         s = s\<lparr>n_flag := NFLAG_32 res,
               c_flag := CFLAG_SUB_32 src dst res,
               x_flag := CFLAG_SUB_32 src dst res,
               v_flag := VFLAG_SUB_32 src dst res,
               not_z_flag := MASK_OUT_ABOVE_32 res\<rparr>
     in Ret () (set_DX (not_z_flag s) s))"

definition m68k_op_sub_32_er_a :: "'b op" where
  "m68k_op_sub_32_er_a s =
    (let src = AY s;
         dst = DX s;
         res = dst - src;
         s = s\<lparr>n_flag := NFLAG_32 res,
               c_flag := CFLAG_SUB_32 src dst res,
               x_flag := CFLAG_SUB_32 src dst res,
               v_flag := VFLAG_SUB_32 src dst res,
               not_z_flag := MASK_OUT_ABOVE_32 res\<rparr>
     in Ret () (set_DX (not_z_flag s) s))"

definition m68k_op_sub_32_er_ai :: "'b op" where
  "m68k_op_sub_32_er_ai s =
    (chain (OPER_AY_AI_32 s) (\<lambda>src s.
     let dst = DX s;
         res = dst - src;
         s = s\<lparr>n_flag := NFLAG_32 res,
               c_flag := CFLAG_SUB_32 src dst res,
               x_flag := CFLAG_SUB_32 src dst res,
               v_flag := VFLAG_SUB_32 src dst res,
               not_z_flag := MASK_OUT_ABOVE_32 res\<rparr>
     in Ret () (set_DX (not_z_flag s) s)))"

definition m68k_op_sub_32_er_pi :: "'b op" where
  "m68k_op_sub_32_er_pi s =
    (chain (OPER_AY_PI_32 s) (\<lambda>src s.
     let dst = DX s;
         res = dst - src;
         s = s\<lparr>n_flag := NFLAG_32 res,
               c_flag := CFLAG_SUB_32 src dst res,
               x_flag := CFLAG_SUB_32 src dst res,
               v_flag := VFLAG_SUB_32 src dst res,
               not_z_flag := MASK_OUT_ABOVE_32 res\<rparr>
     in Ret () (set_DX (not_z_flag s) s)))"

definition m68k_op_sub_32_er_pd :: "'b op" where
  "m68k_op_sub_32_er_pd s =
    (chain (OPER_AY_PD_32 s) (\<lambda>src s.
     let dst = DX s;
         res = dst - src;
         s = s\<lparr>n_flag := NFLAG_32 res,
               c_flag := CFLAG_SUB_32 src dst res,
               x_flag := CFLAG_SUB_32 src dst res,
               v_flag := VFLAG_SUB_32 src dst res,
               not_z_flag := MASK_OUT_ABOVE_32 res\<rparr>
     in Ret () (set_DX (not_z_flag s) s)))"

definition m68k_op_sub_32_er_di :: "'b op" where
  "m68k_op_sub_32_er_di s =
    (chain (OPER_AY_DI_32 s) (\<lambda>src s.
     let dst = DX s;
         res = dst - src;
         s = s\<lparr>n_flag := NFLAG_32 res,
               c_flag := CFLAG_SUB_32 src dst res,
               x_flag := CFLAG_SUB_32 src dst res,
               v_flag := VFLAG_SUB_32 src dst res,
               not_z_flag := MASK_OUT_ABOVE_32 res\<rparr>
     in Ret () (set_DX (not_z_flag s) s)))"

definition m68k_op_sub_32_er_ix :: "'b op" where
  "m68k_op_sub_32_er_ix s =
    (chain (OPER_AY_IX_32 s) (\<lambda>src s.
     let dst = DX s;
         res = dst - src;
         s = s\<lparr>n_flag := NFLAG_32 res,
               c_flag := CFLAG_SUB_32 src dst res,
               x_flag := CFLAG_SUB_32 src dst res,
               v_flag := VFLAG_SUB_32 src dst res,
               not_z_flag := MASK_OUT_ABOVE_32 res\<rparr>
     in Ret () (set_DX (not_z_flag s) s)))"

definition m68k_op_sub_32_er_aw :: "'b op" where
  "m68k_op_sub_32_er_aw s =
    (chain (OPER_AW_32 s) (\<lambda>src s.
     let dst = DX s;
         res = dst - src;
         s = s\<lparr>n_flag := NFLAG_32 res,
               c_flag := CFLAG_SUB_32 src dst res,
               x_flag := CFLAG_SUB_32 src dst res,
               v_flag := VFLAG_SUB_32 src dst res,
               not_z_flag := MASK_OUT_ABOVE_32 res\<rparr>
     in Ret () (set_DX (not_z_flag s) s)))"

definition m68k_op_sub_32_er_al :: "'b op" where
  "m68k_op_sub_32_er_al s =
    (chain (OPER_AL_32 s) (\<lambda>src s.
     let dst = DX s;
         res = dst - src;
         s = s\<lparr>n_flag := NFLAG_32 res,
               c_flag := CFLAG_SUB_32 src dst res,
               x_flag := CFLAG_SUB_32 src dst res,
               v_flag := VFLAG_SUB_32 src dst res,
               not_z_flag := MASK_OUT_ABOVE_32 res\<rparr>
     in Ret () (set_DX (not_z_flag s) s)))"

definition m68k_op_sub_32_er_pcdi :: "'b op" where
  "m68k_op_sub_32_er_pcdi s =
    (chain (OPER_PCDI_32 s) (\<lambda>src s.
     let dst = DX s;
         res = dst - src;
         s = s\<lparr>n_flag := NFLAG_32 res,
               c_flag := CFLAG_SUB_32 src dst res,
               x_flag := CFLAG_SUB_32 src dst res,
               v_flag := VFLAG_SUB_32 src dst res,
               not_z_flag := MASK_OUT_ABOVE_32 res\<rparr>
     in Ret () (set_DX (not_z_flag s) s)))"

definition m68k_op_sub_32_er_pcix :: "'b op" where
  "m68k_op_sub_32_er_pcix s =
    (chain (OPER_PCIX_32 s) (\<lambda>src s.
     let dst = DX s;
         res = dst - src;
         s = s\<lparr>n_flag := NFLAG_32 res,
               c_flag := CFLAG_SUB_32 src dst res,
               x_flag := CFLAG_SUB_32 src dst res,
               v_flag := VFLAG_SUB_32 src dst res,
               not_z_flag := MASK_OUT_ABOVE_32 res\<rparr>
     in Ret () (set_DX (not_z_flag s) s)))"

definition m68k_op_sub_32_er_i :: "'b op" where
  "m68k_op_sub_32_er_i s =
    (chain (OPER_I_32 s) (\<lambda>src s.
     let dst = DX s;
         res = dst - src;
         s = s\<lparr>n_flag := NFLAG_32 res,
               c_flag := CFLAG_SUB_32 src dst res,
               x_flag := CFLAG_SUB_32 src dst res,
               v_flag := VFLAG_SUB_32 src dst res,
               not_z_flag := MASK_OUT_ABOVE_32 res\<rparr>
     in Ret () (set_DX (not_z_flag s) s)))"

definition m68k_op_sub_8_re_ai :: "'b op" where
  "m68k_op_sub_8_re_ai s =
    (chain (EA_AY_AI_8 s) (\<lambda>ea s.
     let src = MASK_OUT_ABOVE_8 (DX s)
     in chain (m68ki_read_8 ea s) (\<lambda>dst s.
        let res = dst - src;
            s = s\<lparr>n_flag := NFLAG_8 res,
                  not_z_flag := MASK_OUT_ABOVE_8 res,
                  c_flag := CFLAG_8 res,
                  x_flag := CFLAG_8 res,
                  v_flag := VFLAG_SUB_8 src dst res\<rparr>
        in m68ki_write_8 ea (not_z_flag s) s)))"

definition m68k_op_sub_8_re_pi :: "'b op" where
  "m68k_op_sub_8_re_pi s =
    (chain (EA_AY_PI_8 s) (\<lambda>ea s.
     let src = MASK_OUT_ABOVE_8 (DX s)
     in chain (m68ki_read_8 ea s) (\<lambda>dst s.
        let res = dst - src;
            s = s\<lparr>n_flag := NFLAG_8 res,
                  not_z_flag := MASK_OUT_ABOVE_8 res,
                  c_flag := CFLAG_8 res,
                  x_flag := CFLAG_8 res,
                  v_flag := VFLAG_SUB_8 src dst res\<rparr>
        in m68ki_write_8 ea (not_z_flag s) s)))"

definition m68k_op_sub_8_re_pi7 :: "'b op" where
  "m68k_op_sub_8_re_pi7 s =
    (chain (EA_A7_PI_8 s) (\<lambda>ea s.
     let src = MASK_OUT_ABOVE_8 (DX s)
     in chain (m68ki_read_8 ea s) (\<lambda>dst s.
        let res = dst - src;
            s = s\<lparr>n_flag := NFLAG_8 res,
                  not_z_flag := MASK_OUT_ABOVE_8 res,
                  c_flag := CFLAG_8 res,
                  x_flag := CFLAG_8 res,
                  v_flag := VFLAG_SUB_8 src dst res\<rparr>
        in m68ki_write_8 ea (not_z_flag s) s)))"

definition m68k_op_sub_8_re_pd :: "'b op" where
  "m68k_op_sub_8_re_pd s =
    (chain (EA_AY_PD_8 s) (\<lambda>ea s.
     let src = MASK_OUT_ABOVE_8 (DX s)
     in chain (m68ki_read_8 ea s) (\<lambda>dst s.
        let res = dst - src;
            s = s\<lparr>n_flag := NFLAG_8 res,
                  not_z_flag := MASK_OUT_ABOVE_8 res,
                  c_flag := CFLAG_8 res,
                  x_flag := CFLAG_8 res,
                  v_flag := VFLAG_SUB_8 src dst res\<rparr>
        in m68ki_write_8 ea (not_z_flag s) s)))"

definition m68k_op_sub_8_re_pd7 :: "'b op" where
  "m68k_op_sub_8_re_pd7 s =
    (chain (EA_A7_PD_8 s) (\<lambda>ea s.
     let src = MASK_OUT_ABOVE_8 (DX s)
     in chain (m68ki_read_8 ea s) (\<lambda>dst s.
        let res = dst - src;
            s = s\<lparr>n_flag := NFLAG_8 res,
                  not_z_flag := MASK_OUT_ABOVE_8 res,
                  c_flag := CFLAG_8 res,
                  x_flag := CFLAG_8 res,
                  v_flag := VFLAG_SUB_8 src dst res\<rparr>
        in m68ki_write_8 ea (not_z_flag s) s)))"

definition m68k_op_sub_8_re_di :: "'b op" where
  "m68k_op_sub_8_re_di s =
    (chain (EA_AY_DI_8 s) (\<lambda>ea s.
     let src = MASK_OUT_ABOVE_8 (DX s)
     in chain (m68ki_read_8 ea s) (\<lambda>dst s.
        let res = dst - src;
            s = s\<lparr>n_flag := NFLAG_8 res,
                  not_z_flag := MASK_OUT_ABOVE_8 res,
                  c_flag := CFLAG_8 res,
                  x_flag := CFLAG_8 res,
                  v_flag := VFLAG_SUB_8 src dst res\<rparr>
        in m68ki_write_8 ea (not_z_flag s) s)))"

definition m68k_op_sub_8_re_ix :: "'b op" where
  "m68k_op_sub_8_re_ix s =
    (chain (EA_AY_IX_8 s) (\<lambda>ea s.
     let src = MASK_OUT_ABOVE_8 (DX s)
     in chain (m68ki_read_8 ea s) (\<lambda>dst s.
        let res = dst - src;
            s = s\<lparr>n_flag := NFLAG_8 res,
                  not_z_flag := MASK_OUT_ABOVE_8 res,
                  c_flag := CFLAG_8 res,
                  x_flag := CFLAG_8 res,
                  v_flag := VFLAG_SUB_8 src dst res\<rparr>
        in m68ki_write_8 ea (not_z_flag s) s)))"

definition m68k_op_sub_8_re_aw :: "'b op" where
  "m68k_op_sub_8_re_aw s =
    (chain (EA_AW_8 s) (\<lambda>ea s.
     let src = MASK_OUT_ABOVE_8 (DX s)
     in chain (m68ki_read_8 ea s) (\<lambda>dst s.
        let res = dst - src;
            s = s\<lparr>n_flag := NFLAG_8 res,
                  not_z_flag := MASK_OUT_ABOVE_8 res,
                  c_flag := CFLAG_8 res,
                  x_flag := CFLAG_8 res,
                  v_flag := VFLAG_SUB_8 src dst res\<rparr>
        in m68ki_write_8 ea (not_z_flag s) s)))"

definition m68k_op_sub_8_re_al :: "'b op" where
  "m68k_op_sub_8_re_al s =
    (chain (EA_AL_8 s) (\<lambda>ea s.
     let src = MASK_OUT_ABOVE_8 (DX s)
     in chain (m68ki_read_8 ea s) (\<lambda>dst s.
        let res = dst - src;
            s = s\<lparr>n_flag := NFLAG_8 res,
                  not_z_flag := MASK_OUT_ABOVE_8 res,
                  c_flag := CFLAG_8 res,
                  x_flag := CFLAG_8 res,
                  v_flag := VFLAG_SUB_8 src dst res\<rparr>
        in m68ki_write_8 ea (not_z_flag s) s)))"

definition m68k_op_sub_16_re_ai :: "'b op" where
  "m68k_op_sub_16_re_ai s =
    (chain (EA_AY_AI_16 s) (\<lambda>ea s.
     let src = MASK_OUT_ABOVE_16 (DX s)
     in chain (m68ki_read_16 ea s) (\<lambda>dst s.
        let res = dst - src;
            s = s\<lparr>n_flag := NFLAG_16 res,
                  not_z_flag := MASK_OUT_ABOVE_16 res,
                  c_flag := CFLAG_16 res,
                  x_flag := CFLAG_16 res,
                  v_flag := VFLAG_SUB_16 src dst res\<rparr>
        in m68ki_write_16 ea (not_z_flag s) s)))"

definition m68k_op_sub_16_re_pi :: "'b op" where
  "m68k_op_sub_16_re_pi s =
    (chain (EA_AY_PI_16 s) (\<lambda>ea s.
     let src = MASK_OUT_ABOVE_16 (DX s)
     in chain (m68ki_read_16 ea s) (\<lambda>dst s.
        let res = dst - src;
            s = s\<lparr>n_flag := NFLAG_16 res,
                  not_z_flag := MASK_OUT_ABOVE_16 res,
                  c_flag := CFLAG_16 res,
                  x_flag := CFLAG_16 res,
                  v_flag := VFLAG_SUB_16 src dst res\<rparr>
        in m68ki_write_16 ea (not_z_flag s) s)))"

definition m68k_op_sub_16_re_pd :: "'b op" where
  "m68k_op_sub_16_re_pd s =
    (chain (EA_AY_PD_16 s) (\<lambda>ea s.
     let src = MASK_OUT_ABOVE_16 (DX s)
     in chain (m68ki_read_16 ea s) (\<lambda>dst s.
        let res = dst - src;
            s = s\<lparr>n_flag := NFLAG_16 res,
                  not_z_flag := MASK_OUT_ABOVE_16 res,
                  c_flag := CFLAG_16 res,
                  x_flag := CFLAG_16 res,
                  v_flag := VFLAG_SUB_16 src dst res\<rparr>
        in m68ki_write_16 ea (not_z_flag s) s)))"

definition m68k_op_sub_16_re_di :: "'b op" where
  "m68k_op_sub_16_re_di s =
    (chain (EA_AY_DI_16 s) (\<lambda>ea s.
     let src = MASK_OUT_ABOVE_16 (DX s)
     in chain (m68ki_read_16 ea s) (\<lambda>dst s.
        let res = dst - src;
            s = s\<lparr>n_flag := NFLAG_16 res,
                  not_z_flag := MASK_OUT_ABOVE_16 res,
                  c_flag := CFLAG_16 res,
                  x_flag := CFLAG_16 res,
                  v_flag := VFLAG_SUB_16 src dst res\<rparr>
        in m68ki_write_16 ea (not_z_flag s) s)))"

definition m68k_op_sub_16_re_ix :: "'b op" where
  "m68k_op_sub_16_re_ix s =
    (chain (EA_AY_IX_16 s) (\<lambda>ea s.
     let src = MASK_OUT_ABOVE_16 (DX s)
     in chain (m68ki_read_16 ea s) (\<lambda>dst s.
        let res = dst - src;
            s = s\<lparr>n_flag := NFLAG_16 res,
                  not_z_flag := MASK_OUT_ABOVE_16 res,
                  c_flag := CFLAG_16 res,
                  x_flag := CFLAG_16 res,
                  v_flag := VFLAG_SUB_16 src dst res\<rparr>
        in m68ki_write_16 ea (not_z_flag s) s)))"

definition m68k_op_sub_16_re_aw :: "'b op" where
  "m68k_op_sub_16_re_aw s =
    (chain (EA_AW_16 s) (\<lambda>ea s.
     let src = MASK_OUT_ABOVE_16 (DX s)
     in chain (m68ki_read_16 ea s) (\<lambda>dst s.
        let res = dst - src;
            s = s\<lparr>n_flag := NFLAG_16 res,
                  not_z_flag := MASK_OUT_ABOVE_16 res,
                  c_flag := CFLAG_16 res,
                  x_flag := CFLAG_16 res,
                  v_flag := VFLAG_SUB_16 src dst res\<rparr>
        in m68ki_write_16 ea (not_z_flag s) s)))"

definition m68k_op_sub_16_re_al :: "'b op" where
  "m68k_op_sub_16_re_al s =
    (chain (EA_AL_16 s) (\<lambda>ea s.
     let src = MASK_OUT_ABOVE_16 (DX s)
     in chain (m68ki_read_16 ea s) (\<lambda>dst s.
        let res = dst - src;
            s = s\<lparr>n_flag := NFLAG_16 res,
                  not_z_flag := MASK_OUT_ABOVE_16 res,
                  c_flag := CFLAG_16 res,
                  x_flag := CFLAG_16 res,
                  v_flag := VFLAG_SUB_16 src dst res\<rparr>
        in m68ki_write_16 ea (not_z_flag s) s)))"

definition m68k_op_sub_32_re_ai :: "'b op" where
  "m68k_op_sub_32_re_ai s =
    (chain (EA_AY_AI_32 s) (\<lambda>ea s.
     let src = DX s
     in chain (m68ki_read_32 ea s) (\<lambda>dst s.
        let res = dst - src;
            s = s\<lparr>n_flag := NFLAG_32 res,
                  not_z_flag := MASK_OUT_ABOVE_32 res,
                  c_flag := CFLAG_SUB_32 src dst res,
                  x_flag := CFLAG_SUB_32 src dst res,
                  v_flag := VFLAG_SUB_32 src dst res\<rparr>
        in m68ki_write_32 ea (not_z_flag s) s)))"

definition m68k_op_sub_32_re_pi :: "'b op" where
  "m68k_op_sub_32_re_pi s =
    (chain (EA_AY_PI_32 s) (\<lambda>ea s.
     let src = DX s
     in chain (m68ki_read_32 ea s) (\<lambda>dst s.
        let res = dst - src;
            s = s\<lparr>n_flag := NFLAG_32 res,
                  not_z_flag := MASK_OUT_ABOVE_32 res,
                  c_flag := CFLAG_SUB_32 src dst res,
                  x_flag := CFLAG_SUB_32 src dst res,
                  v_flag := VFLAG_SUB_32 src dst res\<rparr>
        in m68ki_write_32 ea (not_z_flag s) s)))"

definition m68k_op_sub_32_re_pd :: "'b op" where
  "m68k_op_sub_32_re_pd s =
    (chain (EA_AY_PD_32 s) (\<lambda>ea s.
     let src = DX s
     in chain (m68ki_read_32 ea s) (\<lambda>dst s.
        let res = dst - src;
            s = s\<lparr>n_flag := NFLAG_32 res,
                  not_z_flag := MASK_OUT_ABOVE_32 res,
                  c_flag := CFLAG_SUB_32 src dst res,
                  x_flag := CFLAG_SUB_32 src dst res,
                  v_flag := VFLAG_SUB_32 src dst res\<rparr>
        in m68ki_write_32 ea (not_z_flag s) s)))"

definition m68k_op_sub_32_re_di :: "'b op" where
  "m68k_op_sub_32_re_di s =
    (chain (EA_AY_DI_32 s) (\<lambda>ea s.
     let src = DX s
     in chain (m68ki_read_32 ea s) (\<lambda>dst s.
        let res = dst - src;
            s = s\<lparr>n_flag := NFLAG_32 res,
                  not_z_flag := MASK_OUT_ABOVE_32 res,
                  c_flag := CFLAG_SUB_32 src dst res,
                  x_flag := CFLAG_SUB_32 src dst res,
                  v_flag := VFLAG_SUB_32 src dst res\<rparr>
        in m68ki_write_32 ea (not_z_flag s) s)))"

definition m68k_op_sub_32_re_ix :: "'b op" where
  "m68k_op_sub_32_re_ix s =
    (chain (EA_AY_IX_32 s) (\<lambda>ea s.
     let src = DX s
     in chain (m68ki_read_32 ea s) (\<lambda>dst s.
        let res = dst - src;
            s = s\<lparr>n_flag := NFLAG_32 res,
                  not_z_flag := MASK_OUT_ABOVE_32 res,
                  c_flag := CFLAG_SUB_32 src dst res,
                  x_flag := CFLAG_SUB_32 src dst res,
                  v_flag := VFLAG_SUB_32 src dst res\<rparr>
        in m68ki_write_32 ea (not_z_flag s) s)))"

definition m68k_op_sub_32_re_aw :: "'b op" where
  "m68k_op_sub_32_re_aw s =
    (chain (EA_AW_32 s) (\<lambda>ea s.
     let src = DX s
     in chain (m68ki_read_32 ea s) (\<lambda>dst s.
        let res = dst - src;
            s = s\<lparr>n_flag := NFLAG_32 res,
                  not_z_flag := MASK_OUT_ABOVE_32 res,
                  c_flag := CFLAG_SUB_32 src dst res,
                  x_flag := CFLAG_SUB_32 src dst res,
                  v_flag := VFLAG_SUB_32 src dst res\<rparr>
        in m68ki_write_32 ea (not_z_flag s) s)))"

definition m68k_op_sub_32_re_al :: "'b op" where
  "m68k_op_sub_32_re_al s =
    (chain (EA_AL_32 s) (\<lambda>ea s.
     let src = DX s
     in chain (m68ki_read_32 ea s) (\<lambda>dst s.
        let res = dst - src;
            s = s\<lparr>n_flag := NFLAG_32 res,
                  not_z_flag := MASK_OUT_ABOVE_32 res,
                  c_flag := CFLAG_SUB_32 src dst res,
                  x_flag := CFLAG_SUB_32 src dst res,
                  v_flag := VFLAG_SUB_32 src dst res\<rparr>
        in m68ki_write_32 ea (not_z_flag s) s)))"

definition m68k_op_suba_16_d :: "'b op" where
  "m68k_op_suba_16_d s =
    (Ret () (set_AX (MASK_OUT_ABOVE_32 (AX s - MAKE_INT_16 (DY s))) s))"

definition m68k_op_suba_16_a :: "'b op" where
  "m68k_op_suba_16_a s =
    (Ret () (set_AX (MASK_OUT_ABOVE_32 (AX s - MAKE_INT_16 (AY s))) s))"

definition m68k_op_suba_16_ai :: "'b op" where
  "m68k_op_suba_16_ai s =
    (chain (OPER_AY_AI_16 s) (\<lambda>v s.
     let src = MAKE_INT_16 v
     in Ret () (set_AX (MASK_OUT_ABOVE_32 (AX s - src)) s)))"

definition m68k_op_suba_16_pi :: "'b op" where
  "m68k_op_suba_16_pi s =
    (chain (OPER_AY_PI_16 s) (\<lambda>v s.
     let src = MAKE_INT_16 v
     in Ret () (set_AX (MASK_OUT_ABOVE_32 (AX s - src)) s)))"

definition m68k_op_suba_16_pd :: "'b op" where
  "m68k_op_suba_16_pd s =
    (chain (OPER_AY_PD_16 s) (\<lambda>v s.
     let src = MAKE_INT_16 v
     in Ret () (set_AX (MASK_OUT_ABOVE_32 (AX s - src)) s)))"

definition m68k_op_suba_16_di :: "'b op" where
  "m68k_op_suba_16_di s =
    (chain (OPER_AY_DI_16 s) (\<lambda>v s.
     let src = MAKE_INT_16 v
     in Ret () (set_AX (MASK_OUT_ABOVE_32 (AX s - src)) s)))"

definition m68k_op_suba_16_ix :: "'b op" where
  "m68k_op_suba_16_ix s =
    (chain (OPER_AY_IX_16 s) (\<lambda>v s.
     let src = MAKE_INT_16 v
     in Ret () (set_AX (MASK_OUT_ABOVE_32 (AX s - src)) s)))"

definition m68k_op_suba_16_aw :: "'b op" where
  "m68k_op_suba_16_aw s =
    (chain (OPER_AW_16 s) (\<lambda>v s.
     let src = MAKE_INT_16 v
     in Ret () (set_AX (MASK_OUT_ABOVE_32 (AX s - src)) s)))"

definition m68k_op_suba_16_al :: "'b op" where
  "m68k_op_suba_16_al s =
    (chain (OPER_AL_16 s) (\<lambda>v s.
     let src = MAKE_INT_16 v
     in Ret () (set_AX (MASK_OUT_ABOVE_32 (AX s - src)) s)))"

definition m68k_op_suba_16_pcdi :: "'b op" where
  "m68k_op_suba_16_pcdi s =
    (chain (OPER_PCDI_16 s) (\<lambda>v s.
     let src = MAKE_INT_16 v
     in Ret () (set_AX (MASK_OUT_ABOVE_32 (AX s - src)) s)))"

definition m68k_op_suba_16_pcix :: "'b op" where
  "m68k_op_suba_16_pcix s =
    (chain (OPER_PCIX_16 s) (\<lambda>v s.
     let src = MAKE_INT_16 v
     in Ret () (set_AX (MASK_OUT_ABOVE_32 (AX s - src)) s)))"

definition m68k_op_suba_16_i :: "'b op" where
  "m68k_op_suba_16_i s =
    (chain (OPER_I_16 s) (\<lambda>v s.
     let src = MAKE_INT_16 v
     in Ret () (set_AX (MASK_OUT_ABOVE_32 (AX s - src)) s)))"

definition m68k_op_suba_32_d :: "'b op" where
  "m68k_op_suba_32_d s =
    (Ret () (set_AX (MASK_OUT_ABOVE_32 (AX s - DY s)) s))"

definition m68k_op_suba_32_a :: "'b op" where
  "m68k_op_suba_32_a s =
    (Ret () (set_AX (MASK_OUT_ABOVE_32 (AX s - AY s)) s))"

definition m68k_op_suba_32_ai :: "'b op" where
  "m68k_op_suba_32_ai s =
    (chain (OPER_AY_AI_32 s) (\<lambda>src s.
     Ret () (set_AX (MASK_OUT_ABOVE_32 (AX s - src)) s)))"

definition m68k_op_suba_32_pi :: "'b op" where
  "m68k_op_suba_32_pi s =
    (chain (OPER_AY_PI_32 s) (\<lambda>src s.
     Ret () (set_AX (MASK_OUT_ABOVE_32 (AX s - src)) s)))"

definition m68k_op_suba_32_pd :: "'b op" where
  "m68k_op_suba_32_pd s =
    (chain (OPER_AY_PD_32 s) (\<lambda>src s.
     Ret () (set_AX (MASK_OUT_ABOVE_32 (AX s - src)) s)))"

definition m68k_op_suba_32_di :: "'b op" where
  "m68k_op_suba_32_di s =
    (chain (OPER_AY_DI_32 s) (\<lambda>src s.
     Ret () (set_AX (MASK_OUT_ABOVE_32 (AX s - src)) s)))"

definition m68k_op_suba_32_ix :: "'b op" where
  "m68k_op_suba_32_ix s =
    (chain (OPER_AY_IX_32 s) (\<lambda>src s.
     Ret () (set_AX (MASK_OUT_ABOVE_32 (AX s - src)) s)))"

definition m68k_op_suba_32_aw :: "'b op" where
  "m68k_op_suba_32_aw s =
    (chain (OPER_AW_32 s) (\<lambda>src s.
     Ret () (set_AX (MASK_OUT_ABOVE_32 (AX s - src)) s)))"

definition m68k_op_suba_32_al :: "'b op" where
  "m68k_op_suba_32_al s =
    (chain (OPER_AL_32 s) (\<lambda>src s.
     Ret () (set_AX (MASK_OUT_ABOVE_32 (AX s - src)) s)))"

definition m68k_op_suba_32_pcdi :: "'b op" where
  "m68k_op_suba_32_pcdi s =
    (chain (OPER_PCDI_32 s) (\<lambda>src s.
     Ret () (set_AX (MASK_OUT_ABOVE_32 (AX s - src)) s)))"

definition m68k_op_suba_32_pcix :: "'b op" where
  "m68k_op_suba_32_pcix s =
    (chain (OPER_PCIX_32 s) (\<lambda>src s.
     Ret () (set_AX (MASK_OUT_ABOVE_32 (AX s - src)) s)))"

definition m68k_op_suba_32_i :: "'b op" where
  "m68k_op_suba_32_i s =
    (chain (OPER_I_32 s) (\<lambda>src s.
     Ret () (set_AX (MASK_OUT_ABOVE_32 (AX s - src)) s)))"

definition m68k_op_subi_8_d :: "'b op" where
  "m68k_op_subi_8_d s =
    (chain (OPER_I_8 s) (\<lambda>src s.
     let dst = MASK_OUT_ABOVE_8 (DY s);
         res = dst - src;
         s = s\<lparr>n_flag := NFLAG_8 res,
               not_z_flag := MASK_OUT_ABOVE_8 res,
               c_flag := CFLAG_8 res,
               x_flag := CFLAG_8 res,
               v_flag := VFLAG_SUB_8 src dst res\<rparr>
     in Ret () (set_DY (MASK_OUT_BELOW_8 (DY s) OR not_z_flag s) s)))"

definition m68k_op_subi_8_ai :: "'b op" where
  "m68k_op_subi_8_ai s =
    (chain (OPER_I_8 s) (\<lambda>src s.
     chain (EA_AY_AI_8 s) (\<lambda>ea s.
     chain (m68ki_read_8 ea s) (\<lambda>dst s.
     let res = dst - src;
         s = s\<lparr>n_flag := NFLAG_8 res,
               not_z_flag := MASK_OUT_ABOVE_8 res,
               c_flag := CFLAG_8 res,
               x_flag := CFLAG_8 res,
               v_flag := VFLAG_SUB_8 src dst res\<rparr>
     in m68ki_write_8 ea (not_z_flag s) s))))"

definition m68k_op_subi_8_pi :: "'b op" where
  "m68k_op_subi_8_pi s =
    (chain (OPER_I_8 s) (\<lambda>src s.
     chain (EA_AY_PI_8 s) (\<lambda>ea s.
     chain (m68ki_read_8 ea s) (\<lambda>dst s.
     let res = dst - src;
         s = s\<lparr>n_flag := NFLAG_8 res,
               not_z_flag := MASK_OUT_ABOVE_8 res,
               c_flag := CFLAG_8 res,
               x_flag := CFLAG_8 res,
               v_flag := VFLAG_SUB_8 src dst res\<rparr>
     in m68ki_write_8 ea (not_z_flag s) s))))"

definition m68k_op_subi_8_pi7 :: "'b op" where
  "m68k_op_subi_8_pi7 s =
    (chain (OPER_I_8 s) (\<lambda>src s.
     chain (EA_A7_PI_8 s) (\<lambda>ea s.
     chain (m68ki_read_8 ea s) (\<lambda>dst s.
     let res = dst - src;
         s = s\<lparr>n_flag := NFLAG_8 res,
               not_z_flag := MASK_OUT_ABOVE_8 res,
               c_flag := CFLAG_8 res,
               x_flag := CFLAG_8 res,
               v_flag := VFLAG_SUB_8 src dst res\<rparr>
     in m68ki_write_8 ea (not_z_flag s) s))))"

definition m68k_op_subi_8_pd :: "'b op" where
  "m68k_op_subi_8_pd s =
    (chain (OPER_I_8 s) (\<lambda>src s.
     chain (EA_AY_PD_8 s) (\<lambda>ea s.
     chain (m68ki_read_8 ea s) (\<lambda>dst s.
     let res = dst - src;
         s = s\<lparr>n_flag := NFLAG_8 res,
               not_z_flag := MASK_OUT_ABOVE_8 res,
               c_flag := CFLAG_8 res,
               x_flag := CFLAG_8 res,
               v_flag := VFLAG_SUB_8 src dst res\<rparr>
     in m68ki_write_8 ea (not_z_flag s) s))))"

definition m68k_op_subi_8_pd7 :: "'b op" where
  "m68k_op_subi_8_pd7 s =
    (chain (OPER_I_8 s) (\<lambda>src s.
     chain (EA_A7_PD_8 s) (\<lambda>ea s.
     chain (m68ki_read_8 ea s) (\<lambda>dst s.
     let res = dst - src;
         s = s\<lparr>n_flag := NFLAG_8 res,
               not_z_flag := MASK_OUT_ABOVE_8 res,
               c_flag := CFLAG_8 res,
               x_flag := CFLAG_8 res,
               v_flag := VFLAG_SUB_8 src dst res\<rparr>
     in m68ki_write_8 ea (not_z_flag s) s))))"

definition m68k_op_subi_8_di :: "'b op" where
  "m68k_op_subi_8_di s =
    (chain (OPER_I_8 s) (\<lambda>src s.
     chain (EA_AY_DI_8 s) (\<lambda>ea s.
     chain (m68ki_read_8 ea s) (\<lambda>dst s.
     let res = dst - src;
         s = s\<lparr>n_flag := NFLAG_8 res,
               not_z_flag := MASK_OUT_ABOVE_8 res,
               c_flag := CFLAG_8 res,
               x_flag := CFLAG_8 res,
               v_flag := VFLAG_SUB_8 src dst res\<rparr>
     in m68ki_write_8 ea (not_z_flag s) s))))"

definition m68k_op_subi_8_ix :: "'b op" where
  "m68k_op_subi_8_ix s =
    (chain (OPER_I_8 s) (\<lambda>src s.
     chain (EA_AY_IX_8 s) (\<lambda>ea s.
     chain (m68ki_read_8 ea s) (\<lambda>dst s.
     let res = dst - src;
         s = s\<lparr>n_flag := NFLAG_8 res,
               not_z_flag := MASK_OUT_ABOVE_8 res,
               c_flag := CFLAG_8 res,
               x_flag := CFLAG_8 res,
               v_flag := VFLAG_SUB_8 src dst res\<rparr>
     in m68ki_write_8 ea (not_z_flag s) s))))"

definition m68k_op_subi_8_aw :: "'b op" where
  "m68k_op_subi_8_aw s =
    (chain (OPER_I_8 s) (\<lambda>src s.
     chain (EA_AW_8 s) (\<lambda>ea s.
     chain (m68ki_read_8 ea s) (\<lambda>dst s.
     let res = dst - src;
         s = s\<lparr>n_flag := NFLAG_8 res,
               not_z_flag := MASK_OUT_ABOVE_8 res,
               c_flag := CFLAG_8 res,
               x_flag := CFLAG_8 res,
               v_flag := VFLAG_SUB_8 src dst res\<rparr>
     in m68ki_write_8 ea (not_z_flag s) s))))"

definition m68k_op_subi_8_al :: "'b op" where
  "m68k_op_subi_8_al s =
    (chain (OPER_I_8 s) (\<lambda>src s.
     chain (EA_AL_8 s) (\<lambda>ea s.
     chain (m68ki_read_8 ea s) (\<lambda>dst s.
     let res = dst - src;
         s = s\<lparr>n_flag := NFLAG_8 res,
               not_z_flag := MASK_OUT_ABOVE_8 res,
               c_flag := CFLAG_8 res,
               x_flag := CFLAG_8 res,
               v_flag := VFLAG_SUB_8 src dst res\<rparr>
     in m68ki_write_8 ea (not_z_flag s) s))))"

definition m68k_op_subi_16_d :: "'b op" where
  "m68k_op_subi_16_d s =
    (chain (OPER_I_16 s) (\<lambda>src s.
     let dst = MASK_OUT_ABOVE_16 (DY s);
         res = dst - src;
         s = s\<lparr>n_flag := NFLAG_16 res,
               not_z_flag := MASK_OUT_ABOVE_16 res,
               c_flag := CFLAG_16 res,
               x_flag := CFLAG_16 res,
               v_flag := VFLAG_SUB_16 src dst res\<rparr>
     in Ret () (set_DY (MASK_OUT_BELOW_16 (DY s) OR not_z_flag s) s)))"

definition m68k_op_subi_16_ai :: "'b op" where
  "m68k_op_subi_16_ai s =
    (chain (OPER_I_16 s) (\<lambda>src s.
     chain (EA_AY_AI_16 s) (\<lambda>ea s.
     chain (m68ki_read_16 ea s) (\<lambda>dst s.
     let res = dst - src;
         s = s\<lparr>n_flag := NFLAG_16 res,
               not_z_flag := MASK_OUT_ABOVE_16 res,
               c_flag := CFLAG_16 res,
               x_flag := CFLAG_16 res,
               v_flag := VFLAG_SUB_16 src dst res\<rparr>
     in m68ki_write_16 ea (not_z_flag s) s))))"

definition m68k_op_subi_16_pi :: "'b op" where
  "m68k_op_subi_16_pi s =
    (chain (OPER_I_16 s) (\<lambda>src s.
     chain (EA_AY_PI_16 s) (\<lambda>ea s.
     chain (m68ki_read_16 ea s) (\<lambda>dst s.
     let res = dst - src;
         s = s\<lparr>n_flag := NFLAG_16 res,
               not_z_flag := MASK_OUT_ABOVE_16 res,
               c_flag := CFLAG_16 res,
               x_flag := CFLAG_16 res,
               v_flag := VFLAG_SUB_16 src dst res\<rparr>
     in m68ki_write_16 ea (not_z_flag s) s))))"

definition m68k_op_subi_16_pd :: "'b op" where
  "m68k_op_subi_16_pd s =
    (chain (OPER_I_16 s) (\<lambda>src s.
     chain (EA_AY_PD_16 s) (\<lambda>ea s.
     chain (m68ki_read_16 ea s) (\<lambda>dst s.
     let res = dst - src;
         s = s\<lparr>n_flag := NFLAG_16 res,
               not_z_flag := MASK_OUT_ABOVE_16 res,
               c_flag := CFLAG_16 res,
               x_flag := CFLAG_16 res,
               v_flag := VFLAG_SUB_16 src dst res\<rparr>
     in m68ki_write_16 ea (not_z_flag s) s))))"

definition m68k_op_subi_16_di :: "'b op" where
  "m68k_op_subi_16_di s =
    (chain (OPER_I_16 s) (\<lambda>src s.
     chain (EA_AY_DI_16 s) (\<lambda>ea s.
     chain (m68ki_read_16 ea s) (\<lambda>dst s.
     let res = dst - src;
         s = s\<lparr>n_flag := NFLAG_16 res,
               not_z_flag := MASK_OUT_ABOVE_16 res,
               c_flag := CFLAG_16 res,
               x_flag := CFLAG_16 res,
               v_flag := VFLAG_SUB_16 src dst res\<rparr>
     in m68ki_write_16 ea (not_z_flag s) s))))"

definition m68k_op_subi_16_ix :: "'b op" where
  "m68k_op_subi_16_ix s =
    (chain (OPER_I_16 s) (\<lambda>src s.
     chain (EA_AY_IX_16 s) (\<lambda>ea s.
     chain (m68ki_read_16 ea s) (\<lambda>dst s.
     let res = dst - src;
         s = s\<lparr>n_flag := NFLAG_16 res,
               not_z_flag := MASK_OUT_ABOVE_16 res,
               c_flag := CFLAG_16 res,
               x_flag := CFLAG_16 res,
               v_flag := VFLAG_SUB_16 src dst res\<rparr>
     in m68ki_write_16 ea (not_z_flag s) s))))"

definition m68k_op_subi_16_aw :: "'b op" where
  "m68k_op_subi_16_aw s =
    (chain (OPER_I_16 s) (\<lambda>src s.
     chain (EA_AW_16 s) (\<lambda>ea s.
     chain (m68ki_read_16 ea s) (\<lambda>dst s.
     let res = dst - src;
         s = s\<lparr>n_flag := NFLAG_16 res,
               not_z_flag := MASK_OUT_ABOVE_16 res,
               c_flag := CFLAG_16 res,
               x_flag := CFLAG_16 res,
               v_flag := VFLAG_SUB_16 src dst res\<rparr>
     in m68ki_write_16 ea (not_z_flag s) s))))"

definition m68k_op_subi_16_al :: "'b op" where
  "m68k_op_subi_16_al s =
    (chain (OPER_I_16 s) (\<lambda>src s.
     chain (EA_AL_16 s) (\<lambda>ea s.
     chain (m68ki_read_16 ea s) (\<lambda>dst s.
     let res = dst - src;
         s = s\<lparr>n_flag := NFLAG_16 res,
               not_z_flag := MASK_OUT_ABOVE_16 res,
               c_flag := CFLAG_16 res,
               x_flag := CFLAG_16 res,
               v_flag := VFLAG_SUB_16 src dst res\<rparr>
     in m68ki_write_16 ea (not_z_flag s) s))))"

definition m68k_op_subi_32_d :: "'b op" where
  "m68k_op_subi_32_d s =
    (chain (OPER_I_32 s) (\<lambda>src s.
     let dst = DY s;
         res = dst - src;
         s = s\<lparr>n_flag := NFLAG_32 res,
               not_z_flag := MASK_OUT_ABOVE_32 res,
               c_flag := CFLAG_SUB_32 src dst res,
               x_flag := CFLAG_SUB_32 src dst res,
               v_flag := VFLAG_SUB_32 src dst res\<rparr>
     in Ret () (set_DY (not_z_flag s) s)))"

definition m68k_op_subi_32_ai :: "'b op" where
  "m68k_op_subi_32_ai s =
    (chain (OPER_I_32 s) (\<lambda>src s.
     chain (EA_AY_AI_32 s) (\<lambda>ea s.
     chain (m68ki_read_32 ea s) (\<lambda>dst s.
     let res = dst - src;
         s = s\<lparr>n_flag := NFLAG_32 res,
               not_z_flag := MASK_OUT_ABOVE_32 res,
               c_flag := CFLAG_SUB_32 src dst res,
               x_flag := CFLAG_SUB_32 src dst res,
               v_flag := VFLAG_SUB_32 src dst res\<rparr>
     in m68ki_write_32 ea (not_z_flag s) s))))"

definition m68k_op_subi_32_pi :: "'b op" where
  "m68k_op_subi_32_pi s =
    (chain (OPER_I_32 s) (\<lambda>src s.
     chain (EA_AY_PI_32 s) (\<lambda>ea s.
     chain (m68ki_read_32 ea s) (\<lambda>dst s.
     let res = dst - src;
         s = s\<lparr>n_flag := NFLAG_32 res,
               not_z_flag := MASK_OUT_ABOVE_32 res,
               c_flag := CFLAG_SUB_32 src dst res,
               x_flag := CFLAG_SUB_32 src dst res,
               v_flag := VFLAG_SUB_32 src dst res\<rparr>
     in m68ki_write_32 ea (not_z_flag s) s))))"

definition m68k_op_subi_32_pd :: "'b op" where
  "m68k_op_subi_32_pd s =
    (chain (OPER_I_32 s) (\<lambda>src s.
     chain (EA_AY_PD_32 s) (\<lambda>ea s.
     chain (m68ki_read_32 ea s) (\<lambda>dst s.
     let res = dst - src;
         s = s\<lparr>n_flag := NFLAG_32 res,
               not_z_flag := MASK_OUT_ABOVE_32 res,
               c_flag := CFLAG_SUB_32 src dst res,
               x_flag := CFLAG_SUB_32 src dst res,
               v_flag := VFLAG_SUB_32 src dst res\<rparr>
     in m68ki_write_32 ea (not_z_flag s) s))))"

definition m68k_op_subi_32_di :: "'b op" where
  "m68k_op_subi_32_di s =
    (chain (OPER_I_32 s) (\<lambda>src s.
     chain (EA_AY_DI_32 s) (\<lambda>ea s.
     chain (m68ki_read_32 ea s) (\<lambda>dst s.
     let res = dst - src;
         s = s\<lparr>n_flag := NFLAG_32 res,
               not_z_flag := MASK_OUT_ABOVE_32 res,
               c_flag := CFLAG_SUB_32 src dst res,
               x_flag := CFLAG_SUB_32 src dst res,
               v_flag := VFLAG_SUB_32 src dst res\<rparr>
     in m68ki_write_32 ea (not_z_flag s) s))))"

definition m68k_op_subi_32_ix :: "'b op" where
  "m68k_op_subi_32_ix s =
    (chain (OPER_I_32 s) (\<lambda>src s.
     chain (EA_AY_IX_32 s) (\<lambda>ea s.
     chain (m68ki_read_32 ea s) (\<lambda>dst s.
     let res = dst - src;
         s = s\<lparr>n_flag := NFLAG_32 res,
               not_z_flag := MASK_OUT_ABOVE_32 res,
               c_flag := CFLAG_SUB_32 src dst res,
               x_flag := CFLAG_SUB_32 src dst res,
               v_flag := VFLAG_SUB_32 src dst res\<rparr>
     in m68ki_write_32 ea (not_z_flag s) s))))"

definition m68k_op_subi_32_aw :: "'b op" where
  "m68k_op_subi_32_aw s =
    (chain (OPER_I_32 s) (\<lambda>src s.
     chain (EA_AW_32 s) (\<lambda>ea s.
     chain (m68ki_read_32 ea s) (\<lambda>dst s.
     let res = dst - src;
         s = s\<lparr>n_flag := NFLAG_32 res,
               not_z_flag := MASK_OUT_ABOVE_32 res,
               c_flag := CFLAG_SUB_32 src dst res,
               x_flag := CFLAG_SUB_32 src dst res,
               v_flag := VFLAG_SUB_32 src dst res\<rparr>
     in m68ki_write_32 ea (not_z_flag s) s))))"

definition m68k_op_subi_32_al :: "'b op" where
  "m68k_op_subi_32_al s =
    (chain (OPER_I_32 s) (\<lambda>src s.
     chain (EA_AL_32 s) (\<lambda>ea s.
     chain (m68ki_read_32 ea s) (\<lambda>dst s.
     let res = dst - src;
         s = s\<lparr>n_flag := NFLAG_32 res,
               not_z_flag := MASK_OUT_ABOVE_32 res,
               c_flag := CFLAG_SUB_32 src dst res,
               x_flag := CFLAG_SUB_32 src dst res,
               v_flag := VFLAG_SUB_32 src dst res\<rparr>
     in m68ki_write_32 ea (not_z_flag s) s))))"

definition m68k_op_subq_8_d :: "'b op" where
  "m68k_op_subq_8_d s =
    (let src = ((drop_bit 9 (ir s) - 1) AND 7) + 1;
         dst = MASK_OUT_ABOVE_8 (DY s);
         res = dst - src;
         s = s\<lparr>n_flag := NFLAG_8 res,
               not_z_flag := MASK_OUT_ABOVE_8 res,
               c_flag := CFLAG_8 res,
               x_flag := CFLAG_8 res,
               v_flag := VFLAG_SUB_8 src dst res\<rparr>
     in Ret () (set_DY (MASK_OUT_BELOW_8 (DY s) OR not_z_flag s) s))"

definition m68k_op_subq_8_ai :: "'b op" where
  "m68k_op_subq_8_ai s =
    (let src = ((drop_bit 9 (ir s) - 1) AND 7) + 1
     in chain (EA_AY_AI_8 s) (\<lambda>ea s.
        chain (m68ki_read_8 ea s) (\<lambda>dst s.
        let res = dst - src;
            s = s\<lparr>n_flag := NFLAG_8 res,
                  not_z_flag := MASK_OUT_ABOVE_8 res,
                  c_flag := CFLAG_8 res,
                  x_flag := CFLAG_8 res,
                  v_flag := VFLAG_SUB_8 src dst res\<rparr>
        in m68ki_write_8 ea (not_z_flag s) s)))"

definition m68k_op_subq_8_pi :: "'b op" where
  "m68k_op_subq_8_pi s =
    (let src = ((drop_bit 9 (ir s) - 1) AND 7) + 1
     in chain (EA_AY_PI_8 s) (\<lambda>ea s.
        chain (m68ki_read_8 ea s) (\<lambda>dst s.
        let res = dst - src;
            s = s\<lparr>n_flag := NFLAG_8 res,
                  not_z_flag := MASK_OUT_ABOVE_8 res,
                  c_flag := CFLAG_8 res,
                  x_flag := CFLAG_8 res,
                  v_flag := VFLAG_SUB_8 src dst res\<rparr>
        in m68ki_write_8 ea (not_z_flag s) s)))"

definition m68k_op_subq_8_pi7 :: "'b op" where
  "m68k_op_subq_8_pi7 s =
    (let src = ((drop_bit 9 (ir s) - 1) AND 7) + 1
     in chain (EA_A7_PI_8 s) (\<lambda>ea s.
        chain (m68ki_read_8 ea s) (\<lambda>dst s.
        let res = dst - src;
            s = s\<lparr>n_flag := NFLAG_8 res,
                  not_z_flag := MASK_OUT_ABOVE_8 res,
                  c_flag := CFLAG_8 res,
                  x_flag := CFLAG_8 res,
                  v_flag := VFLAG_SUB_8 src dst res\<rparr>
        in m68ki_write_8 ea (not_z_flag s) s)))"

definition m68k_op_subq_8_pd :: "'b op" where
  "m68k_op_subq_8_pd s =
    (let src = ((drop_bit 9 (ir s) - 1) AND 7) + 1
     in chain (EA_AY_PD_8 s) (\<lambda>ea s.
        chain (m68ki_read_8 ea s) (\<lambda>dst s.
        let res = dst - src;
            s = s\<lparr>n_flag := NFLAG_8 res,
                  not_z_flag := MASK_OUT_ABOVE_8 res,
                  c_flag := CFLAG_8 res,
                  x_flag := CFLAG_8 res,
                  v_flag := VFLAG_SUB_8 src dst res\<rparr>
        in m68ki_write_8 ea (not_z_flag s) s)))"

definition m68k_op_subq_8_pd7 :: "'b op" where
  "m68k_op_subq_8_pd7 s =
    (let src = ((drop_bit 9 (ir s) - 1) AND 7) + 1
     in chain (EA_A7_PD_8 s) (\<lambda>ea s.
        chain (m68ki_read_8 ea s) (\<lambda>dst s.
        let res = dst - src;
            s = s\<lparr>n_flag := NFLAG_8 res,
                  not_z_flag := MASK_OUT_ABOVE_8 res,
                  c_flag := CFLAG_8 res,
                  x_flag := CFLAG_8 res,
                  v_flag := VFLAG_SUB_8 src dst res\<rparr>
        in m68ki_write_8 ea (not_z_flag s) s)))"

definition m68k_op_subq_8_di :: "'b op" where
  "m68k_op_subq_8_di s =
    (let src = ((drop_bit 9 (ir s) - 1) AND 7) + 1
     in chain (EA_AY_DI_8 s) (\<lambda>ea s.
        chain (m68ki_read_8 ea s) (\<lambda>dst s.
        let res = dst - src;
            s = s\<lparr>n_flag := NFLAG_8 res,
                  not_z_flag := MASK_OUT_ABOVE_8 res,
                  c_flag := CFLAG_8 res,
                  x_flag := CFLAG_8 res,
                  v_flag := VFLAG_SUB_8 src dst res\<rparr>
        in m68ki_write_8 ea (not_z_flag s) s)))"

definition m68k_op_subq_8_ix :: "'b op" where
  "m68k_op_subq_8_ix s =
    (let src = ((drop_bit 9 (ir s) - 1) AND 7) + 1
     in chain (EA_AY_IX_8 s) (\<lambda>ea s.
        chain (m68ki_read_8 ea s) (\<lambda>dst s.
        let res = dst - src;
            s = s\<lparr>n_flag := NFLAG_8 res,
                  not_z_flag := MASK_OUT_ABOVE_8 res,
                  c_flag := CFLAG_8 res,
                  x_flag := CFLAG_8 res,
                  v_flag := VFLAG_SUB_8 src dst res\<rparr>
        in m68ki_write_8 ea (not_z_flag s) s)))"

definition m68k_op_subq_8_aw :: "'b op" where
  "m68k_op_subq_8_aw s =
    (let src = ((drop_bit 9 (ir s) - 1) AND 7) + 1
     in chain (EA_AW_8 s) (\<lambda>ea s.
        chain (m68ki_read_8 ea s) (\<lambda>dst s.
        let res = dst - src;
            s = s\<lparr>n_flag := NFLAG_8 res,
                  not_z_flag := MASK_OUT_ABOVE_8 res,
                  c_flag := CFLAG_8 res,
                  x_flag := CFLAG_8 res,
                  v_flag := VFLAG_SUB_8 src dst res\<rparr>
        in m68ki_write_8 ea (not_z_flag s) s)))"

definition m68k_op_subq_8_al :: "'b op" where
  "m68k_op_subq_8_al s =
    (let src = ((drop_bit 9 (ir s) - 1) AND 7) + 1
     in chain (EA_AL_8 s) (\<lambda>ea s.
        chain (m68ki_read_8 ea s) (\<lambda>dst s.
        let res = dst - src;
            s = s\<lparr>n_flag := NFLAG_8 res,
                  not_z_flag := MASK_OUT_ABOVE_8 res,
                  c_flag := CFLAG_8 res,
                  x_flag := CFLAG_8 res,
                  v_flag := VFLAG_SUB_8 src dst res\<rparr>
        in m68ki_write_8 ea (not_z_flag s) s)))"

definition m68k_op_subq_16_d :: "'b op" where
  "m68k_op_subq_16_d s =
    (let src = ((drop_bit 9 (ir s) - 1) AND 7) + 1;
         dst = MASK_OUT_ABOVE_16 (DY s);
         res = dst - src;
         s = s\<lparr>n_flag := NFLAG_16 res,
               not_z_flag := MASK_OUT_ABOVE_16 res,
               c_flag := CFLAG_16 res,
               x_flag := CFLAG_16 res,
               v_flag := VFLAG_SUB_16 src dst res\<rparr>
     in Ret () (set_DY (MASK_OUT_BELOW_16 (DY s) OR not_z_flag s) s))"

definition m68k_op_subq_16_a :: "'b op" where
  "m68k_op_subq_16_a s =
    (Ret () (set_AY (MASK_OUT_ABOVE_32 (AY s - (((drop_bit 9 (ir s) - 1) AND 7) + 1))) s))"

definition m68k_op_subq_16_ai :: "'b op" where
  "m68k_op_subq_16_ai s =
    (let src = ((drop_bit 9 (ir s) - 1) AND 7) + 1
     in chain (EA_AY_AI_16 s) (\<lambda>ea s.
        chain (m68ki_read_16 ea s) (\<lambda>dst s.
        let res = dst - src;
            s = s\<lparr>n_flag := NFLAG_16 res,
                  not_z_flag := MASK_OUT_ABOVE_16 res,
                  c_flag := CFLAG_16 res,
                  x_flag := CFLAG_16 res,
                  v_flag := VFLAG_SUB_16 src dst res\<rparr>
        in m68ki_write_16 ea (not_z_flag s) s)))"

definition m68k_op_subq_16_pi :: "'b op" where
  "m68k_op_subq_16_pi s =
    (let src = ((drop_bit 9 (ir s) - 1) AND 7) + 1
     in chain (EA_AY_PI_16 s) (\<lambda>ea s.
        chain (m68ki_read_16 ea s) (\<lambda>dst s.
        let res = dst - src;
            s = s\<lparr>n_flag := NFLAG_16 res,
                  not_z_flag := MASK_OUT_ABOVE_16 res,
                  c_flag := CFLAG_16 res,
                  x_flag := CFLAG_16 res,
                  v_flag := VFLAG_SUB_16 src dst res\<rparr>
        in m68ki_write_16 ea (not_z_flag s) s)))"

definition m68k_op_subq_16_pd :: "'b op" where
  "m68k_op_subq_16_pd s =
    (let src = ((drop_bit 9 (ir s) - 1) AND 7) + 1
     in chain (EA_AY_PD_16 s) (\<lambda>ea s.
        chain (m68ki_read_16 ea s) (\<lambda>dst s.
        let res = dst - src;
            s = s\<lparr>n_flag := NFLAG_16 res,
                  not_z_flag := MASK_OUT_ABOVE_16 res,
                  c_flag := CFLAG_16 res,
                  x_flag := CFLAG_16 res,
                  v_flag := VFLAG_SUB_16 src dst res\<rparr>
        in m68ki_write_16 ea (not_z_flag s) s)))"

definition m68k_op_subq_16_di :: "'b op" where
  "m68k_op_subq_16_di s =
    (let src = ((drop_bit 9 (ir s) - 1) AND 7) + 1
     in chain (EA_AY_DI_16 s) (\<lambda>ea s.
        chain (m68ki_read_16 ea s) (\<lambda>dst s.
        let res = dst - src;
            s = s\<lparr>n_flag := NFLAG_16 res,
                  not_z_flag := MASK_OUT_ABOVE_16 res,
                  c_flag := CFLAG_16 res,
                  x_flag := CFLAG_16 res,
                  v_flag := VFLAG_SUB_16 src dst res\<rparr>
        in m68ki_write_16 ea (not_z_flag s) s)))"

definition m68k_op_subq_16_ix :: "'b op" where
  "m68k_op_subq_16_ix s =
    (let src = ((drop_bit 9 (ir s) - 1) AND 7) + 1
     in chain (EA_AY_IX_16 s) (\<lambda>ea s.
        chain (m68ki_read_16 ea s) (\<lambda>dst s.
        let res = dst - src;
            s = s\<lparr>n_flag := NFLAG_16 res,
                  not_z_flag := MASK_OUT_ABOVE_16 res,
                  c_flag := CFLAG_16 res,
                  x_flag := CFLAG_16 res,
                  v_flag := VFLAG_SUB_16 src dst res\<rparr>
        in m68ki_write_16 ea (not_z_flag s) s)))"

definition m68k_op_subq_16_aw :: "'b op" where
  "m68k_op_subq_16_aw s =
    (let src = ((drop_bit 9 (ir s) - 1) AND 7) + 1
     in chain (EA_AW_16 s) (\<lambda>ea s.
        chain (m68ki_read_16 ea s) (\<lambda>dst s.
        let res = dst - src;
            s = s\<lparr>n_flag := NFLAG_16 res,
                  not_z_flag := MASK_OUT_ABOVE_16 res,
                  c_flag := CFLAG_16 res,
                  x_flag := CFLAG_16 res,
                  v_flag := VFLAG_SUB_16 src dst res\<rparr>
        in m68ki_write_16 ea (not_z_flag s) s)))"

definition m68k_op_subq_16_al :: "'b op" where
  "m68k_op_subq_16_al s =
    (let src = ((drop_bit 9 (ir s) - 1) AND 7) + 1
     in chain (EA_AL_16 s) (\<lambda>ea s.
        chain (m68ki_read_16 ea s) (\<lambda>dst s.
        let res = dst - src;
            s = s\<lparr>n_flag := NFLAG_16 res,
                  not_z_flag := MASK_OUT_ABOVE_16 res,
                  c_flag := CFLAG_16 res,
                  x_flag := CFLAG_16 res,
                  v_flag := VFLAG_SUB_16 src dst res\<rparr>
        in m68ki_write_16 ea (not_z_flag s) s)))"

definition m68k_op_subq_32_d :: "'b op" where
  "m68k_op_subq_32_d s =
    (let src = ((drop_bit 9 (ir s) - 1) AND 7) + 1;
         dst = DY s;
         res = dst - src;
         s = s\<lparr>n_flag := NFLAG_32 res,
               not_z_flag := MASK_OUT_ABOVE_32 res,
               c_flag := CFLAG_SUB_32 src dst res,
               x_flag := CFLAG_SUB_32 src dst res,
               v_flag := VFLAG_SUB_32 src dst res\<rparr>
     in Ret () (set_DY (not_z_flag s) s))"

definition m68k_op_subq_32_a :: "'b op" where
  "m68k_op_subq_32_a s =
    (Ret () (set_AY (MASK_OUT_ABOVE_32 (AY s - (((drop_bit 9 (ir s) - 1) AND 7) + 1))) s))"

definition m68k_op_subq_32_ai :: "'b op" where
  "m68k_op_subq_32_ai s =
    (let src = ((drop_bit 9 (ir s) - 1) AND 7) + 1
     in chain (EA_AY_AI_32 s) (\<lambda>ea s.
        chain (m68ki_read_32 ea s) (\<lambda>dst s.
        let res = dst - src;
            s = s\<lparr>n_flag := NFLAG_32 res,
                  not_z_flag := MASK_OUT_ABOVE_32 res,
                  c_flag := CFLAG_SUB_32 src dst res,
                  x_flag := CFLAG_SUB_32 src dst res,
                  v_flag := VFLAG_SUB_32 src dst res\<rparr>
        in m68ki_write_32 ea (not_z_flag s) s)))"

definition m68k_op_subq_32_pi :: "'b op" where
  "m68k_op_subq_32_pi s =
    (let src = ((drop_bit 9 (ir s) - 1) AND 7) + 1
     in chain (EA_AY_PI_32 s) (\<lambda>ea s.
        chain (m68ki_read_32 ea s) (\<lambda>dst s.
        let res = dst - src;
            s = s\<lparr>n_flag := NFLAG_32 res,
                  not_z_flag := MASK_OUT_ABOVE_32 res,
                  c_flag := CFLAG_SUB_32 src dst res,
                  x_flag := CFLAG_SUB_32 src dst res,
                  v_flag := VFLAG_SUB_32 src dst res\<rparr>
        in m68ki_write_32 ea (not_z_flag s) s)))"

definition m68k_op_subq_32_pd :: "'b op" where
  "m68k_op_subq_32_pd s =
    (let src = ((drop_bit 9 (ir s) - 1) AND 7) + 1
     in chain (EA_AY_PD_32 s) (\<lambda>ea s.
        chain (m68ki_read_32 ea s) (\<lambda>dst s.
        let res = dst - src;
            s = s\<lparr>n_flag := NFLAG_32 res,
                  not_z_flag := MASK_OUT_ABOVE_32 res,
                  c_flag := CFLAG_SUB_32 src dst res,
                  x_flag := CFLAG_SUB_32 src dst res,
                  v_flag := VFLAG_SUB_32 src dst res\<rparr>
        in m68ki_write_32 ea (not_z_flag s) s)))"

definition m68k_op_subq_32_di :: "'b op" where
  "m68k_op_subq_32_di s =
    (let src = ((drop_bit 9 (ir s) - 1) AND 7) + 1
     in chain (EA_AY_DI_32 s) (\<lambda>ea s.
        chain (m68ki_read_32 ea s) (\<lambda>dst s.
        let res = dst - src;
            s = s\<lparr>n_flag := NFLAG_32 res,
                  not_z_flag := MASK_OUT_ABOVE_32 res,
                  c_flag := CFLAG_SUB_32 src dst res,
                  x_flag := CFLAG_SUB_32 src dst res,
                  v_flag := VFLAG_SUB_32 src dst res\<rparr>
        in m68ki_write_32 ea (not_z_flag s) s)))"

definition m68k_op_subq_32_ix :: "'b op" where
  "m68k_op_subq_32_ix s =
    (let src = ((drop_bit 9 (ir s) - 1) AND 7) + 1
     in chain (EA_AY_IX_32 s) (\<lambda>ea s.
        chain (m68ki_read_32 ea s) (\<lambda>dst s.
        let res = dst - src;
            s = s\<lparr>n_flag := NFLAG_32 res,
                  not_z_flag := MASK_OUT_ABOVE_32 res,
                  c_flag := CFLAG_SUB_32 src dst res,
                  x_flag := CFLAG_SUB_32 src dst res,
                  v_flag := VFLAG_SUB_32 src dst res\<rparr>
        in m68ki_write_32 ea (not_z_flag s) s)))"

definition m68k_op_subq_32_aw :: "'b op" where
  "m68k_op_subq_32_aw s =
    (let src = ((drop_bit 9 (ir s) - 1) AND 7) + 1
     in chain (EA_AW_32 s) (\<lambda>ea s.
        chain (m68ki_read_32 ea s) (\<lambda>dst s.
        let res = dst - src;
            s = s\<lparr>n_flag := NFLAG_32 res,
                  not_z_flag := MASK_OUT_ABOVE_32 res,
                  c_flag := CFLAG_SUB_32 src dst res,
                  x_flag := CFLAG_SUB_32 src dst res,
                  v_flag := VFLAG_SUB_32 src dst res\<rparr>
        in m68ki_write_32 ea (not_z_flag s) s)))"

definition m68k_op_subq_32_al :: "'b op" where
  "m68k_op_subq_32_al s =
    (let src = ((drop_bit 9 (ir s) - 1) AND 7) + 1
     in chain (EA_AL_32 s) (\<lambda>ea s.
        chain (m68ki_read_32 ea s) (\<lambda>dst s.
        let res = dst - src;
            s = s\<lparr>n_flag := NFLAG_32 res,
                  not_z_flag := MASK_OUT_ABOVE_32 res,
                  c_flag := CFLAG_SUB_32 src dst res,
                  x_flag := CFLAG_SUB_32 src dst res,
                  v_flag := VFLAG_SUB_32 src dst res\<rparr>
        in m68ki_write_32 ea (not_z_flag s) s)))"

definition m68k_op_subx_8_rr :: "'b op" where
  "m68k_op_subx_8_rr s =
    (let src = MASK_OUT_ABOVE_8 (DY s);
         dst = MASK_OUT_ABOVE_8 (DX s);
         res = dst - src - XFLAG_AS_1 s;
         s = s\<lparr>n_flag := NFLAG_8 res,
               c_flag := CFLAG_8 res,
               x_flag := CFLAG_8 res,
               v_flag := VFLAG_SUB_8 src dst res\<rparr>;
         res = MASK_OUT_ABOVE_8 res;
         s = s\<lparr>not_z_flag := (not_z_flag s) OR res\<rparr>
     in Ret () (set_DX (MASK_OUT_BELOW_8 (DX s) OR res) s))"

definition m68k_op_subx_16_rr :: "'b op" where
  "m68k_op_subx_16_rr s =
    (let src = MASK_OUT_ABOVE_16 (DY s);
         dst = MASK_OUT_ABOVE_16 (DX s);
         res = dst - src - XFLAG_AS_1 s;
         s = s\<lparr>n_flag := NFLAG_16 res,
               c_flag := CFLAG_16 res,
               x_flag := CFLAG_16 res,
               v_flag := VFLAG_SUB_16 src dst res\<rparr>;
         res = MASK_OUT_ABOVE_16 res;
         s = s\<lparr>not_z_flag := (not_z_flag s) OR res\<rparr>
     in Ret () (set_DX (MASK_OUT_BELOW_16 (DX s) OR res) s))"

definition m68k_op_subx_32_rr :: "'b op" where
  "m68k_op_subx_32_rr s =
    (let src = DY s;
         dst = DX s;
         res = dst - src - XFLAG_AS_1 s;
         s = s\<lparr>n_flag := NFLAG_32 res,
               c_flag := CFLAG_SUB_32 src dst res,
               x_flag := CFLAG_SUB_32 src dst res,
               v_flag := VFLAG_SUB_32 src dst res\<rparr>;
         res = MASK_OUT_ABOVE_32 res;
         s = s\<lparr>not_z_flag := (not_z_flag s) OR res\<rparr>
     in Ret () (set_DX res s))"

definition m68k_op_subx_8_mm_ax7 :: "'b op" where
  "m68k_op_subx_8_mm_ax7 s =
    (chain (OPER_AY_PD_8 s) (\<lambda>src s.
     chain (EA_A7_PD_8 s) (\<lambda>ea s.
     chain (m68ki_read_8 ea s) (\<lambda>dst s.
     let res = dst - src - XFLAG_AS_1 s;
         s = s\<lparr>n_flag := NFLAG_8 res,
               c_flag := CFLAG_8 res,
               x_flag := CFLAG_8 res,
               v_flag := VFLAG_SUB_8 src dst res\<rparr>;
         res = MASK_OUT_ABOVE_8 res;
         s = s\<lparr>not_z_flag := (not_z_flag s) OR res\<rparr>
     in m68ki_write_8 ea res s))))"

definition m68k_op_subx_8_mm_ay7 :: "'b op" where
  "m68k_op_subx_8_mm_ay7 s =
    (chain (OPER_A7_PD_8 s) (\<lambda>src s.
     chain (EA_AX_PD_8 s) (\<lambda>ea s.
     chain (m68ki_read_8 ea s) (\<lambda>dst s.
     let res = dst - src - XFLAG_AS_1 s;
         s = s\<lparr>n_flag := NFLAG_8 res,
               c_flag := CFLAG_8 res,
               x_flag := CFLAG_8 res,
               v_flag := VFLAG_SUB_8 src dst res\<rparr>;
         res = MASK_OUT_ABOVE_8 res;
         s = s\<lparr>not_z_flag := (not_z_flag s) OR res\<rparr>
     in m68ki_write_8 ea res s))))"

definition m68k_op_subx_8_mm_axy7 :: "'b op" where
  "m68k_op_subx_8_mm_axy7 s =
    (chain (OPER_A7_PD_8 s) (\<lambda>src s.
     chain (EA_A7_PD_8 s) (\<lambda>ea s.
     chain (m68ki_read_8 ea s) (\<lambda>dst s.
     let res = dst - src - XFLAG_AS_1 s;
         s = s\<lparr>n_flag := NFLAG_8 res,
               c_flag := CFLAG_8 res,
               x_flag := CFLAG_8 res,
               v_flag := VFLAG_SUB_8 src dst res\<rparr>;
         res = MASK_OUT_ABOVE_8 res;
         s = s\<lparr>not_z_flag := (not_z_flag s) OR res\<rparr>
     in m68ki_write_8 ea res s))))"

definition m68k_op_subx_8_mm :: "'b op" where
  "m68k_op_subx_8_mm s =
    (chain (OPER_AY_PD_8 s) (\<lambda>src s.
     chain (EA_AX_PD_8 s) (\<lambda>ea s.
     chain (m68ki_read_8 ea s) (\<lambda>dst s.
     let res = dst - src - XFLAG_AS_1 s;
         s = s\<lparr>n_flag := NFLAG_8 res,
               c_flag := CFLAG_8 res,
               x_flag := CFLAG_8 res,
               v_flag := VFLAG_SUB_8 src dst res\<rparr>;
         res = MASK_OUT_ABOVE_8 res;
         s = s\<lparr>not_z_flag := (not_z_flag s) OR res\<rparr>
     in m68ki_write_8 ea res s))))"

definition m68k_op_subx_16_mm :: "'b op" where
  "m68k_op_subx_16_mm s =
    (chain (OPER_AY_PD_16 s) (\<lambda>src s.
     chain (EA_AX_PD_16 s) (\<lambda>ea s.
     chain (m68ki_read_16 ea s) (\<lambda>dst s.
     let res = dst - src - XFLAG_AS_1 s;
         s = s\<lparr>n_flag := NFLAG_16 res,
               c_flag := CFLAG_16 res,
               x_flag := CFLAG_16 res,
               v_flag := VFLAG_SUB_16 src dst res\<rparr>;
         res = MASK_OUT_ABOVE_16 res;
         s = s\<lparr>not_z_flag := (not_z_flag s) OR res\<rparr>
     in m68ki_write_16 ea res s))))"

definition m68k_op_subx_32_mm :: "'b op" where
  "m68k_op_subx_32_mm s =
    (chain (OPER_AY_PD_32 s) (\<lambda>src s.
     chain (EA_AX_PD_32 s) (\<lambda>ea s.
     chain (m68ki_read_32 ea s) (\<lambda>dst s.
     let res = dst - src - XFLAG_AS_1 s;
         s = s\<lparr>n_flag := NFLAG_32 res,
               c_flag := CFLAG_SUB_32 src dst res,
               x_flag := CFLAG_SUB_32 src dst res,
               v_flag := VFLAG_SUB_32 src dst res\<rparr>;
         res = MASK_OUT_ABOVE_32 res;
         s = s\<lparr>not_z_flag := (not_z_flag s) OR res\<rparr>
     in m68ki_write_32 ea res s))))"

end
