(* ===== verification/OpsCmp.thy ===== *)
theory OpsCmp
  imports OpsBase
begin

section \<open>Instruction handlers: CMP, CMPA, CMPI, CMPM, TST, CLR, CHK, CHK2 and CMP2\<close>

text \<open>
  The handlers of m68kops.c for CMP, CMPA, CMPI, CMPM, TST, CLR, CHK, CHK2 and CMP2.
  One definition per handler, under the name of its C function; the effective address is part of
  the name.
\<close>

unbundle bit_operations_syntax

definition m68k_op_chk_16_d :: "'b op" where
  "m68k_op_chk_16_d s =
    (let src = MAKE_INT_16 (DX s);
         bound = MAKE_INT_16 (DY s);
         s = s\<lparr>not_z_flag := ZFLAG_16 src,
               v_flag := VFLAG_CLEAR,
               c_flag := CFLAG_CLEAR\<rparr>
     in if word_sle 0 src \<and> word_sle src bound
        then Ret () s
        else let s = s\<lparr>n_flag := push_bit 7 (bool_word (word_sless src 0))\<rparr>
             in m68ki_exception_trap EXCEPTION_CHK s)"

definition m68k_op_chk_16_ai :: "'b op" where
  "m68k_op_chk_16_ai s =
    (let src = MAKE_INT_16 (DX s)
     in chain (OPER_AY_AI_16 s) (\<lambda>v s.
        let bound = MAKE_INT_16 v;
            s = s\<lparr>not_z_flag := ZFLAG_16 src,
                  v_flag := VFLAG_CLEAR,
                  c_flag := CFLAG_CLEAR\<rparr>
        in if word_sle 0 src \<and> word_sle src bound
           then Ret () s
           else let s = s\<lparr>n_flag := push_bit 7 (bool_word (word_sless src 0))\<rparr>
                in m68ki_exception_trap EXCEPTION_CHK s))"

definition m68k_op_chk_16_pi :: "'b op" where
  "m68k_op_chk_16_pi s =
    (let src = MAKE_INT_16 (DX s)
     in chain (OPER_AY_PI_16 s) (\<lambda>v s.
        let bound = MAKE_INT_16 v;
            s = s\<lparr>not_z_flag := ZFLAG_16 src,
                  v_flag := VFLAG_CLEAR,
                  c_flag := CFLAG_CLEAR\<rparr>
        in if word_sle 0 src \<and> word_sle src bound
           then Ret () s
           else let s = s\<lparr>n_flag := push_bit 7 (bool_word (word_sless src 0))\<rparr>
                in m68ki_exception_trap EXCEPTION_CHK s))"

definition m68k_op_chk_16_pd :: "'b op" where
  "m68k_op_chk_16_pd s =
    (let src = MAKE_INT_16 (DX s)
     in chain (OPER_AY_PD_16 s) (\<lambda>v s.
        let bound = MAKE_INT_16 v;
            s = s\<lparr>not_z_flag := ZFLAG_16 src,
                  v_flag := VFLAG_CLEAR,
                  c_flag := CFLAG_CLEAR\<rparr>
        in if word_sle 0 src \<and> word_sle src bound
           then Ret () s
           else let s = s\<lparr>n_flag := push_bit 7 (bool_word (word_sless src 0))\<rparr>
                in m68ki_exception_trap EXCEPTION_CHK s))"

definition m68k_op_chk_16_di :: "'b op" where
  "m68k_op_chk_16_di s =
    (let src = MAKE_INT_16 (DX s)
     in chain (OPER_AY_DI_16 s) (\<lambda>v s.
        let bound = MAKE_INT_16 v;
            s = s\<lparr>not_z_flag := ZFLAG_16 src,
                  v_flag := VFLAG_CLEAR,
                  c_flag := CFLAG_CLEAR\<rparr>
        in if word_sle 0 src \<and> word_sle src bound
           then Ret () s
           else let s = s\<lparr>n_flag := push_bit 7 (bool_word (word_sless src 0))\<rparr>
                in m68ki_exception_trap EXCEPTION_CHK s))"

definition m68k_op_chk_16_ix :: "'b op" where
  "m68k_op_chk_16_ix s =
    (let src = MAKE_INT_16 (DX s)
     in chain (OPER_AY_IX_16 s) (\<lambda>v s.
        let bound = MAKE_INT_16 v;
            s = s\<lparr>not_z_flag := ZFLAG_16 src,
                  v_flag := VFLAG_CLEAR,
                  c_flag := CFLAG_CLEAR\<rparr>
        in if word_sle 0 src \<and> word_sle src bound
           then Ret () s
           else let s = s\<lparr>n_flag := push_bit 7 (bool_word (word_sless src 0))\<rparr>
                in m68ki_exception_trap EXCEPTION_CHK s))"

definition m68k_op_chk_16_aw :: "'b op" where
  "m68k_op_chk_16_aw s =
    (let src = MAKE_INT_16 (DX s)
     in chain (OPER_AW_16 s) (\<lambda>v s.
        let bound = MAKE_INT_16 v;
            s = s\<lparr>not_z_flag := ZFLAG_16 src,
                  v_flag := VFLAG_CLEAR,
                  c_flag := CFLAG_CLEAR\<rparr>
        in if word_sle 0 src \<and> word_sle src bound
           then Ret () s
           else let s = s\<lparr>n_flag := push_bit 7 (bool_word (word_sless src 0))\<rparr>
                in m68ki_exception_trap EXCEPTION_CHK s))"

definition m68k_op_chk_16_al :: "'b op" where
  "m68k_op_chk_16_al s =
    (let src = MAKE_INT_16 (DX s)
     in chain (OPER_AL_16 s) (\<lambda>v s.
        let bound = MAKE_INT_16 v;
            s = s\<lparr>not_z_flag := ZFLAG_16 src,
                  v_flag := VFLAG_CLEAR,
                  c_flag := CFLAG_CLEAR\<rparr>
        in if word_sle 0 src \<and> word_sle src bound
           then Ret () s
           else let s = s\<lparr>n_flag := push_bit 7 (bool_word (word_sless src 0))\<rparr>
                in m68ki_exception_trap EXCEPTION_CHK s))"

definition m68k_op_chk_16_pcdi :: "'b op" where
  "m68k_op_chk_16_pcdi s =
    (let src = MAKE_INT_16 (DX s)
     in chain (OPER_PCDI_16 s) (\<lambda>v s.
        let bound = MAKE_INT_16 v;
            s = s\<lparr>not_z_flag := ZFLAG_16 src,
                  v_flag := VFLAG_CLEAR,
                  c_flag := CFLAG_CLEAR\<rparr>
        in if word_sle 0 src \<and> word_sle src bound
           then Ret () s
           else let s = s\<lparr>n_flag := push_bit 7 (bool_word (word_sless src 0))\<rparr>
                in m68ki_exception_trap EXCEPTION_CHK s))"

definition m68k_op_chk_16_pcix :: "'b op" where
  "m68k_op_chk_16_pcix s =
    (let src = MAKE_INT_16 (DX s)
     in chain (OPER_PCIX_16 s) (\<lambda>v s.
        let bound = MAKE_INT_16 v;
            s = s\<lparr>not_z_flag := ZFLAG_16 src,
                  v_flag := VFLAG_CLEAR,
                  c_flag := CFLAG_CLEAR\<rparr>
        in if word_sle 0 src \<and> word_sle src bound
           then Ret () s
           else let s = s\<lparr>n_flag := push_bit 7 (bool_word (word_sless src 0))\<rparr>
                in m68ki_exception_trap EXCEPTION_CHK s))"

definition m68k_op_chk_16_i :: "'b op" where
  "m68k_op_chk_16_i s =
    (let src = MAKE_INT_16 (DX s)
     in chain (OPER_I_16 s) (\<lambda>v s.
        let bound = MAKE_INT_16 v;
            s = s\<lparr>not_z_flag := ZFLAG_16 src,
                  v_flag := VFLAG_CLEAR,
                  c_flag := CFLAG_CLEAR\<rparr>
        in if word_sle 0 src \<and> word_sle src bound
           then Ret () s
           else let s = s\<lparr>n_flag := push_bit 7 (bool_word (word_sless src 0))\<rparr>
                in m68ki_exception_trap EXCEPTION_CHK s))"

definition m68k_op_chk_32_d :: "'b op" where
  "m68k_op_chk_32_d s =
    (if CPU_TYPE_IS_EC020_PLUS (cpu_type s)
     then let src = DX s;
              bound = DY s;
              s = s\<lparr>not_z_flag := ZFLAG_32 src,
                    v_flag := VFLAG_CLEAR,
                    c_flag := CFLAG_CLEAR\<rparr>
          in if word_sle 0 src \<and> word_sle src bound
             then Ret () s
             else let s = s\<lparr>n_flag := push_bit 7 (bool_word (word_sless src 0))\<rparr>
                  in m68ki_exception_trap EXCEPTION_CHK s
     else m68ki_exception_illegal s)"

definition m68k_op_chk_32_ai :: "'b op" where
  "m68k_op_chk_32_ai s =
    (if CPU_TYPE_IS_EC020_PLUS (cpu_type s)
     then let src = DX s
          in chain (OPER_AY_AI_32 s) (\<lambda>bound s.
             let s = s\<lparr>not_z_flag := ZFLAG_32 src,
                       v_flag := VFLAG_CLEAR,
                       c_flag := CFLAG_CLEAR\<rparr>
             in if word_sle 0 src \<and> word_sle src bound
                then Ret () s
                else let s = s\<lparr>n_flag := push_bit 7 (bool_word (word_sless src 0))\<rparr>
                     in m68ki_exception_trap EXCEPTION_CHK s)
     else m68ki_exception_illegal s)"

definition m68k_op_chk_32_pi :: "'b op" where
  "m68k_op_chk_32_pi s =
    (if CPU_TYPE_IS_EC020_PLUS (cpu_type s)
     then let src = DX s
          in chain (OPER_AY_PI_32 s) (\<lambda>bound s.
             let s = s\<lparr>not_z_flag := ZFLAG_32 src,
                       v_flag := VFLAG_CLEAR,
                       c_flag := CFLAG_CLEAR\<rparr>
             in if word_sle 0 src \<and> word_sle src bound
                then Ret () s
                else let s = s\<lparr>n_flag := push_bit 7 (bool_word (word_sless src 0))\<rparr>
                     in m68ki_exception_trap EXCEPTION_CHK s)
     else m68ki_exception_illegal s)"

definition m68k_op_chk_32_pd :: "'b op" where
  "m68k_op_chk_32_pd s =
    (if CPU_TYPE_IS_EC020_PLUS (cpu_type s)
     then let src = DX s
          in chain (OPER_AY_PD_32 s) (\<lambda>bound s.
             let s = s\<lparr>not_z_flag := ZFLAG_32 src,
                       v_flag := VFLAG_CLEAR,
                       c_flag := CFLAG_CLEAR\<rparr>
             in if word_sle 0 src \<and> word_sle src bound
                then Ret () s
                else let s = s\<lparr>n_flag := push_bit 7 (bool_word (word_sless src 0))\<rparr>
                     in m68ki_exception_trap EXCEPTION_CHK s)
     else m68ki_exception_illegal s)"

definition m68k_op_chk_32_di :: "'b op" where
  "m68k_op_chk_32_di s =
    (if CPU_TYPE_IS_EC020_PLUS (cpu_type s)
     then let src = DX s
          in chain (OPER_AY_DI_32 s) (\<lambda>bound s.
             let s = s\<lparr>not_z_flag := ZFLAG_32 src,
                       v_flag := VFLAG_CLEAR,
                       c_flag := CFLAG_CLEAR\<rparr>
             in if word_sle 0 src \<and> word_sle src bound
                then Ret () s
                else let s = s\<lparr>n_flag := push_bit 7 (bool_word (word_sless src 0))\<rparr>
                     in m68ki_exception_trap EXCEPTION_CHK s)
     else m68ki_exception_illegal s)"

definition m68k_op_chk_32_ix :: "'b op" where
  "m68k_op_chk_32_ix s =
    (if CPU_TYPE_IS_EC020_PLUS (cpu_type s)
     then let src = DX s
          in chain (OPER_AY_IX_32 s) (\<lambda>bound s.
             let s = s\<lparr>not_z_flag := ZFLAG_32 src,
                       v_flag := VFLAG_CLEAR,
                       c_flag := CFLAG_CLEAR\<rparr>
             in if word_sle 0 src \<and> word_sle src bound
                then Ret () s
                else let s = s\<lparr>n_flag := push_bit 7 (bool_word (word_sless src 0))\<rparr>
                     in m68ki_exception_trap EXCEPTION_CHK s)
     else m68ki_exception_illegal s)"

definition m68k_op_chk_32_aw :: "'b op" where
  "m68k_op_chk_32_aw s =
    (if CPU_TYPE_IS_EC020_PLUS (cpu_type s)
     then let src = DX s
          in chain (OPER_AW_32 s) (\<lambda>bound s.
             let s = s\<lparr>not_z_flag := ZFLAG_32 src,
                       v_flag := VFLAG_CLEAR,
                       c_flag := CFLAG_CLEAR\<rparr>
             in if word_sle 0 src \<and> word_sle src bound
                then Ret () s
                else let s = s\<lparr>n_flag := push_bit 7 (bool_word (word_sless src 0))\<rparr>
                     in m68ki_exception_trap EXCEPTION_CHK s)
     else m68ki_exception_illegal s)"

definition m68k_op_chk_32_al :: "'b op" where
  "m68k_op_chk_32_al s =
    (if CPU_TYPE_IS_EC020_PLUS (cpu_type s)
     then let src = DX s
          in chain (OPER_AL_32 s) (\<lambda>bound s.
             let s = s\<lparr>not_z_flag := ZFLAG_32 src,
                       v_flag := VFLAG_CLEAR,
                       c_flag := CFLAG_CLEAR\<rparr>
             in if word_sle 0 src \<and> word_sle src bound
                then Ret () s
                else let s = s\<lparr>n_flag := push_bit 7 (bool_word (word_sless src 0))\<rparr>
                     in m68ki_exception_trap EXCEPTION_CHK s)
     else m68ki_exception_illegal s)"

definition m68k_op_chk_32_pcdi :: "'b op" where
  "m68k_op_chk_32_pcdi s =
    (if CPU_TYPE_IS_EC020_PLUS (cpu_type s)
     then let src = DX s
          in chain (OPER_PCDI_32 s) (\<lambda>bound s.
             let s = s\<lparr>not_z_flag := ZFLAG_32 src,
                       v_flag := VFLAG_CLEAR,
                       c_flag := CFLAG_CLEAR\<rparr>
             in if word_sle 0 src \<and> word_sle src bound
                then Ret () s
                else let s = s\<lparr>n_flag := push_bit 7 (bool_word (word_sless src 0))\<rparr>
                     in m68ki_exception_trap EXCEPTION_CHK s)
     else m68ki_exception_illegal s)"

definition m68k_op_chk_32_pcix :: "'b op" where
  "m68k_op_chk_32_pcix s =
    (if CPU_TYPE_IS_EC020_PLUS (cpu_type s)
     then let src = DX s
          in chain (OPER_PCIX_32 s) (\<lambda>bound s.
             let s = s\<lparr>not_z_flag := ZFLAG_32 src,
                       v_flag := VFLAG_CLEAR,
                       c_flag := CFLAG_CLEAR\<rparr>
             in if word_sle 0 src \<and> word_sle src bound
                then Ret () s
                else let s = s\<lparr>n_flag := push_bit 7 (bool_word (word_sless src 0))\<rparr>
                     in m68ki_exception_trap EXCEPTION_CHK s)
     else m68ki_exception_illegal s)"

definition m68k_op_chk_32_i :: "'b op" where
  "m68k_op_chk_32_i s =
    (if CPU_TYPE_IS_EC020_PLUS (cpu_type s)
     then let src = DX s
          in chain (OPER_I_32 s) (\<lambda>bound s.
             let s = s\<lparr>not_z_flag := ZFLAG_32 src,
                       v_flag := VFLAG_CLEAR,
                       c_flag := CFLAG_CLEAR\<rparr>
             in if word_sle 0 src \<and> word_sle src bound
                then Ret () s
                else let s = s\<lparr>n_flag := push_bit 7 (bool_word (word_sless src 0))\<rparr>
                     in m68ki_exception_trap EXCEPTION_CHK s)
     else m68ki_exception_illegal s)"

definition m68k_op_chk2cmp2_8_pcdi :: "'b op" where
  "m68k_op_chk2cmp2_8_pcdi s =
    (if CPU_TYPE_IS_EC020_PLUS (cpu_type s)
     then chain (OPER_I_16 s) (\<lambda>word2 s.
          let compare = REG_DA s (drop_bit 12 word2 AND 15) AND 0xff
          in chain (EA_PCDI_8 s) (\<lambda>ea s.
             chain (m68ki_read_pcrel_8 ea s) (\<lambda>lower_bound s.
             chain (m68ki_read_pcrel_8 (ea + 1) s) (\<lambda>upper_bound s.
             let compare = (if BIT 15 word2 = 0
                            then (scast (ucast compare :: u8) :: u32)
                            else compare);
                 s = s\<lparr>not_z_flag := (bool_word (\<not> (upper_bound = compare \<or>
                       lower_bound = compare))),
                       c_flag := push_bit 8 (bool_word (if word_sle lower_bound upper_bound then
                             word_sless compare lower_bound \<or> word_sless upper_bound compare
                             else word_sless upper_bound compare \<or> word_sless compare
                             lower_bound))\<rparr>
             in if COND_CS s \<and> BIT 11 word2 \<noteq> 0
                then m68ki_exception_trap EXCEPTION_CHK s
                else Ret () s))))
     else m68ki_exception_illegal s)"

definition m68k_op_chk2cmp2_8_pcix :: "'b op" where
  "m68k_op_chk2cmp2_8_pcix s =
    (if CPU_TYPE_IS_EC020_PLUS (cpu_type s)
     then chain (OPER_I_16 s) (\<lambda>word2 s.
          let compare = REG_DA s (drop_bit 12 word2 AND 15) AND 0xff
          in chain (EA_PCIX_8 s) (\<lambda>ea s.
             chain (m68ki_read_pcrel_8 ea s) (\<lambda>lower_bound s.
             chain (m68ki_read_pcrel_8 (ea + 1) s) (\<lambda>upper_bound s.
             let compare = (if BIT 15 word2 = 0
                            then (scast (ucast compare :: u8) :: u32)
                            else compare);
                 s = s\<lparr>not_z_flag := (bool_word (\<not> (upper_bound = compare \<or>
                       lower_bound = compare))),
                       c_flag := push_bit 8 (bool_word (if word_sle lower_bound upper_bound then
                             word_sless compare lower_bound \<or> word_sless upper_bound compare
                             else word_sless upper_bound compare \<or> word_sless compare
                             lower_bound))\<rparr>
             in if COND_CS s \<and> BIT 11 word2 \<noteq> 0
                then m68ki_exception_trap EXCEPTION_CHK s
                else Ret () s))))
     else m68ki_exception_illegal s)"

definition m68k_op_chk2cmp2_8_ai :: "'b op" where
  "m68k_op_chk2cmp2_8_ai s =
    (if CPU_TYPE_IS_EC020_PLUS (cpu_type s)
     then chain (OPER_I_16 s) (\<lambda>word2 s.
          let compare = REG_DA s (drop_bit 12 word2 AND 15) AND 0xff
          in chain (EA_AY_AI_8 s) (\<lambda>ea s.
             chain (m68ki_read_8 ea s) (\<lambda>v3 s.
             let lower_bound = (scast (ucast v3 :: u8))
             in chain (m68ki_read_8 (ea + 1) s) (\<lambda>v4 s.
                let upper_bound = (scast (ucast v4 :: u8));
                    compare = (if BIT 15 word2 = 0
                               then (scast (ucast compare :: u8) :: u32)
                               else compare);
                    s = s\<lparr>not_z_flag := (bool_word (\<not> (upper_bound = compare \<or>
                          lower_bound = compare))),
                          c_flag := push_bit 8 (bool_word (if word_sle lower_bound upper_bound then
                                word_sless compare lower_bound \<or> word_sless upper_bound compare
                                else word_sless upper_bound compare \<or> word_sless compare
                                lower_bound))\<rparr>
                in if COND_CS s \<and> BIT 11 word2 \<noteq> 0
                   then m68ki_exception_trap EXCEPTION_CHK s
                   else Ret () s))))
     else m68ki_exception_illegal s)"

definition m68k_op_chk2cmp2_8_di :: "'b op" where
  "m68k_op_chk2cmp2_8_di s =
    (if CPU_TYPE_IS_EC020_PLUS (cpu_type s)
     then chain (OPER_I_16 s) (\<lambda>word2 s.
          let compare = REG_DA s (drop_bit 12 word2 AND 15) AND 0xff
          in chain (EA_AY_DI_8 s) (\<lambda>ea s.
             chain (m68ki_read_8 ea s) (\<lambda>v3 s.
             let lower_bound = (scast (ucast v3 :: u8))
             in chain (m68ki_read_8 (ea + 1) s) (\<lambda>v4 s.
                let upper_bound = (scast (ucast v4 :: u8));
                    compare = (if BIT 15 word2 = 0
                               then (scast (ucast compare :: u8) :: u32)
                               else compare);
                    s = s\<lparr>not_z_flag := (bool_word (\<not> (upper_bound = compare \<or>
                          lower_bound = compare))),
                          c_flag := push_bit 8 (bool_word (if word_sle lower_bound upper_bound then
                                word_sless compare lower_bound \<or> word_sless upper_bound compare
                                else word_sless upper_bound compare \<or> word_sless compare
                                lower_bound))\<rparr>
                in if COND_CS s \<and> BIT 11 word2 \<noteq> 0
                   then m68ki_exception_trap EXCEPTION_CHK s
                   else Ret () s))))
     else m68ki_exception_illegal s)"

definition m68k_op_chk2cmp2_8_ix :: "'b op" where
  "m68k_op_chk2cmp2_8_ix s =
    (if CPU_TYPE_IS_EC020_PLUS (cpu_type s)
     then chain (OPER_I_16 s) (\<lambda>word2 s.
          let compare = REG_DA s (drop_bit 12 word2 AND 15) AND 0xff
          in chain (EA_AY_IX_8 s) (\<lambda>ea s.
             chain (m68ki_read_8 ea s) (\<lambda>v3 s.
             let lower_bound = (scast (ucast v3 :: u8))
             in chain (m68ki_read_8 (ea + 1) s) (\<lambda>v4 s.
                let upper_bound = (scast (ucast v4 :: u8));
                    compare = (if BIT 15 word2 = 0
                               then (scast (ucast compare :: u8) :: u32)
                               else compare);
                    s = s\<lparr>not_z_flag := (bool_word (\<not> (upper_bound = compare \<or>
                          lower_bound = compare))),
                          c_flag := push_bit 8 (bool_word (if word_sle lower_bound upper_bound then
                                word_sless compare lower_bound \<or> word_sless upper_bound compare
                                else word_sless upper_bound compare \<or> word_sless compare
                                lower_bound))\<rparr>
                in if COND_CS s \<and> BIT 11 word2 \<noteq> 0
                   then m68ki_exception_trap EXCEPTION_CHK s
                   else Ret () s))))
     else m68ki_exception_illegal s)"

definition m68k_op_chk2cmp2_8_aw :: "'b op" where
  "m68k_op_chk2cmp2_8_aw s =
    (if CPU_TYPE_IS_EC020_PLUS (cpu_type s)
     then chain (OPER_I_16 s) (\<lambda>word2 s.
          let compare = REG_DA s (drop_bit 12 word2 AND 15) AND 0xff
          in chain (EA_AW_8 s) (\<lambda>ea s.
             chain (m68ki_read_8 ea s) (\<lambda>v3 s.
             let lower_bound = (scast (ucast v3 :: u8))
             in chain (m68ki_read_8 (ea + 1) s) (\<lambda>v4 s.
                let upper_bound = (scast (ucast v4 :: u8));
                    compare = (if BIT 15 word2 = 0
                               then (scast (ucast compare :: u8) :: u32)
                               else compare);
                    s = s\<lparr>not_z_flag := (bool_word (\<not> (upper_bound = compare \<or>
                          lower_bound = compare))),
                          c_flag := push_bit 8 (bool_word (if word_sle lower_bound upper_bound then
                                word_sless compare lower_bound \<or> word_sless upper_bound compare
                                else word_sless upper_bound compare \<or> word_sless compare
                                lower_bound))\<rparr>
                in if COND_CS s \<and> BIT 11 word2 \<noteq> 0
                   then m68ki_exception_trap EXCEPTION_CHK s
                   else Ret () s))))
     else m68ki_exception_illegal s)"

definition m68k_op_chk2cmp2_8_al :: "'b op" where
  "m68k_op_chk2cmp2_8_al s =
    (if CPU_TYPE_IS_EC020_PLUS (cpu_type s)
     then chain (OPER_I_16 s) (\<lambda>word2 s.
          let compare = REG_DA s (drop_bit 12 word2 AND 15) AND 0xff
          in chain (EA_AL_8 s) (\<lambda>ea s.
             chain (m68ki_read_8 ea s) (\<lambda>v3 s.
             let lower_bound = (scast (ucast v3 :: u8))
             in chain (m68ki_read_8 (ea + 1) s) (\<lambda>v4 s.
                let upper_bound = (scast (ucast v4 :: u8));
                    compare = (if BIT 15 word2 = 0
                               then (scast (ucast compare :: u8) :: u32)
                               else compare);
                    s = s\<lparr>not_z_flag := (bool_word (\<not> (upper_bound = compare \<or>
                          lower_bound = compare))),
                          c_flag := push_bit 8 (bool_word (if word_sle lower_bound upper_bound then
                                word_sless compare lower_bound \<or> word_sless upper_bound compare
                                else word_sless upper_bound compare \<or> word_sless compare
                                lower_bound))\<rparr>
                in if COND_CS s \<and> BIT 11 word2 \<noteq> 0
                   then m68ki_exception_trap EXCEPTION_CHK s
                   else Ret () s))))
     else m68ki_exception_illegal s)"

definition m68k_op_chk2cmp2_16_pcdi :: "'b op" where
  "m68k_op_chk2cmp2_16_pcdi s =
    (if CPU_TYPE_IS_EC020_PLUS (cpu_type s)
     then chain (OPER_I_16 s) (\<lambda>word2 s.
          let compare = REG_DA s (drop_bit 12 word2 AND 15) AND 0xffff
          in chain (EA_PCDI_16 s) (\<lambda>ea s.
             chain (m68ki_read_pcrel_16 ea s) (\<lambda>v3 s.
             let lower_bound = (scast (ucast v3 :: u16))
             in chain (m68ki_read_pcrel_16 (ea + 2) s) (\<lambda>v4 s.
                let upper_bound = (scast (ucast v4 :: u16));
                    compare = (if BIT 15 word2 = 0
                               then (scast (ucast compare :: u16) :: u32)
                               else compare);
                    s = s\<lparr>not_z_flag := (bool_word (\<not> (upper_bound = compare \<or>
                          lower_bound = compare))),
                          c_flag := push_bit 8 (bool_word (if word_sle lower_bound upper_bound then
                                word_sless compare lower_bound \<or> word_sless upper_bound compare
                                else word_sless upper_bound compare \<or> word_sless compare
                                lower_bound))\<rparr>
                in if COND_CS s \<and> BIT 11 word2 \<noteq> 0
                   then m68ki_exception_trap EXCEPTION_CHK s
                   else Ret () s))))
     else m68ki_exception_illegal s)"

definition m68k_op_chk2cmp2_16_pcix :: "'b op" where
  "m68k_op_chk2cmp2_16_pcix s =
    (if CPU_TYPE_IS_EC020_PLUS (cpu_type s)
     then chain (OPER_I_16 s) (\<lambda>word2 s.
          let compare = REG_DA s (drop_bit 12 word2 AND 15) AND 0xffff
          in chain (EA_PCIX_16 s) (\<lambda>ea s.
             chain (m68ki_read_pcrel_16 ea s) (\<lambda>v3 s.
             let lower_bound = (scast (ucast v3 :: u16))
             in chain (m68ki_read_pcrel_16 (ea + 2) s) (\<lambda>v4 s.
                let upper_bound = (scast (ucast v4 :: u16));
                    compare = (if BIT 15 word2 = 0
                               then (scast (ucast compare :: u16) :: u32)
                               else compare);
                    s = s\<lparr>not_z_flag := (bool_word (\<not> (upper_bound = compare \<or>
                          lower_bound = compare))),
                          c_flag := push_bit 8 (bool_word (if word_sle lower_bound upper_bound then
                                word_sless compare lower_bound \<or> word_sless upper_bound compare
                                else word_sless upper_bound compare \<or> word_sless compare
                                lower_bound))\<rparr>
                in if COND_CS s \<and> BIT 11 word2 \<noteq> 0
                   then m68ki_exception_trap EXCEPTION_CHK s
                   else Ret () s))))
     else m68ki_exception_illegal s)"

definition m68k_op_chk2cmp2_16_ai :: "'b op" where
  "m68k_op_chk2cmp2_16_ai s =
    (if CPU_TYPE_IS_EC020_PLUS (cpu_type s)
     then chain (OPER_I_16 s) (\<lambda>word2 s.
          let compare = REG_DA s (drop_bit 12 word2 AND 15) AND 0xffff
          in chain (EA_AY_AI_16 s) (\<lambda>ea s.
             chain (m68ki_read_16 ea s) (\<lambda>v3 s.
             let lower_bound = (scast (ucast v3 :: u16))
             in chain (m68ki_read_16 (ea + 2) s) (\<lambda>v4 s.
                let upper_bound = (scast (ucast v4 :: u16));
                    compare = (if BIT 15 word2 = 0
                               then (scast (ucast compare :: u16) :: u32)
                               else compare);
                    s = s\<lparr>not_z_flag := (bool_word (\<not> (upper_bound = compare \<or>
                          lower_bound = compare))),
                          c_flag := push_bit 8 (bool_word (if word_sle lower_bound upper_bound then
                                word_sless compare lower_bound \<or> word_sless upper_bound compare
                                else word_sless upper_bound compare \<or> word_sless compare
                                lower_bound))\<rparr>
                in if COND_CS s \<and> BIT 11 word2 \<noteq> 0
                   then m68ki_exception_trap EXCEPTION_CHK s
                   else Ret () s))))
     else m68ki_exception_illegal s)"

definition m68k_op_chk2cmp2_16_di :: "'b op" where
  "m68k_op_chk2cmp2_16_di s =
    (if CPU_TYPE_IS_EC020_PLUS (cpu_type s)
     then chain (OPER_I_16 s) (\<lambda>word2 s.
          let compare = REG_DA s (drop_bit 12 word2 AND 15) AND 0xffff
          in chain (EA_AY_DI_16 s) (\<lambda>ea s.
             chain (m68ki_read_16 ea s) (\<lambda>v3 s.
             let lower_bound = (scast (ucast v3 :: u16))
             in chain (m68ki_read_16 (ea + 2) s) (\<lambda>v4 s.
                let upper_bound = (scast (ucast v4 :: u16));
                    compare = (if BIT 15 word2 = 0
                               then (scast (ucast compare :: u16) :: u32)
                               else compare);
                    s = s\<lparr>not_z_flag := (bool_word (\<not> (upper_bound = compare \<or>
                          lower_bound = compare))),
                          c_flag := push_bit 8 (bool_word (if word_sle lower_bound upper_bound then
                                word_sless compare lower_bound \<or> word_sless upper_bound compare
                                else word_sless upper_bound compare \<or> word_sless compare
                                lower_bound))\<rparr>
                in if COND_CS s \<and> BIT 11 word2 \<noteq> 0
                   then m68ki_exception_trap EXCEPTION_CHK s
                   else Ret () s))))
     else m68ki_exception_illegal s)"

definition m68k_op_chk2cmp2_16_ix :: "'b op" where
  "m68k_op_chk2cmp2_16_ix s =
    (if CPU_TYPE_IS_EC020_PLUS (cpu_type s)
     then chain (OPER_I_16 s) (\<lambda>word2 s.
          let compare = REG_DA s (drop_bit 12 word2 AND 15) AND 0xffff
          in chain (EA_AY_IX_16 s) (\<lambda>ea s.
             chain (m68ki_read_16 ea s) (\<lambda>v3 s.
             let lower_bound = (scast (ucast v3 :: u16))
             in chain (m68ki_read_16 (ea + 2) s) (\<lambda>v4 s.
                let upper_bound = (scast (ucast v4 :: u16));
                    compare = (if BIT 15 word2 = 0
                               then (scast (ucast compare :: u16) :: u32)
                               else compare);
                    s = s\<lparr>not_z_flag := (bool_word (\<not> (upper_bound = compare \<or>
                          lower_bound = compare))),
                          c_flag := push_bit 8 (bool_word (if word_sle lower_bound upper_bound then
                                word_sless compare lower_bound \<or> word_sless upper_bound compare
                                else word_sless upper_bound compare \<or> word_sless compare
                                lower_bound))\<rparr>
                in if COND_CS s \<and> BIT 11 word2 \<noteq> 0
                   then m68ki_exception_trap EXCEPTION_CHK s
                   else Ret () s))))
     else m68ki_exception_illegal s)"

definition m68k_op_chk2cmp2_16_aw :: "'b op" where
  "m68k_op_chk2cmp2_16_aw s =
    (if CPU_TYPE_IS_EC020_PLUS (cpu_type s)
     then chain (OPER_I_16 s) (\<lambda>word2 s.
          let compare = REG_DA s (drop_bit 12 word2 AND 15) AND 0xffff
          in chain (EA_AW_16 s) (\<lambda>ea s.
             chain (m68ki_read_16 ea s) (\<lambda>v3 s.
             let lower_bound = (scast (ucast v3 :: u16))
             in chain (m68ki_read_16 (ea + 2) s) (\<lambda>v4 s.
                let upper_bound = (scast (ucast v4 :: u16));
                    compare = (if BIT 15 word2 = 0
                               then (scast (ucast compare :: u16) :: u32)
                               else compare);
                    s = s\<lparr>not_z_flag := (bool_word (\<not> (upper_bound = compare \<or>
                          lower_bound = compare))),
                          c_flag := push_bit 8 (bool_word (if word_sle lower_bound upper_bound then
                                word_sless compare lower_bound \<or> word_sless upper_bound compare
                                else word_sless upper_bound compare \<or> word_sless compare
                                lower_bound))\<rparr>
                in if COND_CS s \<and> BIT 11 word2 \<noteq> 0
                   then m68ki_exception_trap EXCEPTION_CHK s
                   else Ret () s))))
     else m68ki_exception_illegal s)"

definition m68k_op_chk2cmp2_16_al :: "'b op" where
  "m68k_op_chk2cmp2_16_al s =
    (if CPU_TYPE_IS_EC020_PLUS (cpu_type s)
     then chain (OPER_I_16 s) (\<lambda>word2 s.
          let compare = REG_DA s (drop_bit 12 word2 AND 15) AND 0xffff
          in chain (EA_AL_16 s) (\<lambda>ea s.
             chain (m68ki_read_16 ea s) (\<lambda>v3 s.
             let lower_bound = (scast (ucast v3 :: u16))
             in chain (m68ki_read_16 (ea + 2) s) (\<lambda>v4 s.
                let upper_bound = (scast (ucast v4 :: u16));
                    compare = (if BIT 15 word2 = 0
                               then (scast (ucast compare :: u16) :: u32)
                               else compare);
                    s = s\<lparr>not_z_flag := (bool_word (\<not> (upper_bound = compare \<or>
                          lower_bound = compare))),
                          c_flag := push_bit 8 (bool_word (if word_sle lower_bound upper_bound then
                                word_sless compare lower_bound \<or> word_sless upper_bound compare
                                else word_sless upper_bound compare \<or> word_sless compare
                                lower_bound))\<rparr>
                in if COND_CS s \<and> BIT 11 word2 \<noteq> 0
                   then m68ki_exception_trap EXCEPTION_CHK s
                   else Ret () s))))
     else m68ki_exception_illegal s)"

definition m68k_op_chk2cmp2_32_pcdi :: "'b op" where
  "m68k_op_chk2cmp2_32_pcdi s =
    (if CPU_TYPE_IS_EC020_PLUS (cpu_type s)
     then chain (OPER_I_16 s) (\<lambda>word2 s.
          let compare = REG_DA s (drop_bit 12 word2 AND 15)
          in chain (EA_PCDI_32 s) (\<lambda>ea s.
             chain (m68ki_read_pcrel_32 ea s) (\<lambda>lower_bound s.
             chain (m68ki_read_pcrel_32 (ea + 4) s) (\<lambda>upper_bound s.
             let s = s\<lparr>not_z_flag := (bool_word (\<not> (upper_bound = compare \<or>
                   lower_bound = compare))),
                       c_flag := push_bit 8 (bool_word (if word_sle lower_bound upper_bound then
                             word_sless compare lower_bound \<or> word_sless upper_bound compare
                             else word_sless upper_bound compare \<or> word_sless compare
                             lower_bound))\<rparr>
             in if COND_CS s \<and> BIT 11 word2 \<noteq> 0
                then m68ki_exception_trap EXCEPTION_CHK s
                else Ret () s))))
     else m68ki_exception_illegal s)"

definition m68k_op_chk2cmp2_32_pcix :: "'b op" where
  "m68k_op_chk2cmp2_32_pcix s =
    (if CPU_TYPE_IS_EC020_PLUS (cpu_type s)
     then chain (OPER_I_16 s) (\<lambda>word2 s.
          let compare = REG_DA s (drop_bit 12 word2 AND 15)
          in chain (EA_PCIX_32 s) (\<lambda>ea s.
             chain (m68ki_read_32 ea s) (\<lambda>lower_bound s.
             chain (m68ki_read_32 (ea + 4) s) (\<lambda>upper_bound s.
             let s = s\<lparr>not_z_flag := (bool_word (\<not> (upper_bound = compare \<or>
                   lower_bound = compare))),
                       c_flag := push_bit 8 (bool_word (if word_sle lower_bound upper_bound then
                             word_sless compare lower_bound \<or> word_sless upper_bound compare
                             else word_sless upper_bound compare \<or> word_sless compare
                             lower_bound))\<rparr>
             in if COND_CS s \<and> BIT 11 word2 \<noteq> 0
                then m68ki_exception_trap EXCEPTION_CHK s
                else Ret () s))))
     else m68ki_exception_illegal s)"

definition m68k_op_chk2cmp2_32_ai :: "'b op" where
  "m68k_op_chk2cmp2_32_ai s =
    (if CPU_TYPE_IS_EC020_PLUS (cpu_type s)
     then chain (OPER_I_16 s) (\<lambda>word2 s.
          let compare = REG_DA s (drop_bit 12 word2 AND 15)
          in chain (EA_AY_AI_32 s) (\<lambda>ea s.
             chain (m68ki_read_32 ea s) (\<lambda>lower_bound s.
             chain (m68ki_read_32 (ea + 4) s) (\<lambda>upper_bound s.
             let s = s\<lparr>not_z_flag := (bool_word (\<not> (upper_bound = compare \<or>
                   lower_bound = compare))),
                       c_flag := push_bit 8 (bool_word (if word_sle lower_bound upper_bound then
                             word_sless compare lower_bound \<or> word_sless upper_bound compare
                             else word_sless upper_bound compare \<or> word_sless compare
                             lower_bound))\<rparr>
             in if COND_CS s \<and> BIT 11 word2 \<noteq> 0
                then m68ki_exception_trap EXCEPTION_CHK s
                else Ret () s))))
     else m68ki_exception_illegal s)"

definition m68k_op_chk2cmp2_32_di :: "'b op" where
  "m68k_op_chk2cmp2_32_di s =
    (if CPU_TYPE_IS_EC020_PLUS (cpu_type s)
     then chain (OPER_I_16 s) (\<lambda>word2 s.
          let compare = REG_DA s (drop_bit 12 word2 AND 15)
          in chain (EA_AY_DI_32 s) (\<lambda>ea s.
             chain (m68ki_read_32 ea s) (\<lambda>lower_bound s.
             chain (m68ki_read_32 (ea + 4) s) (\<lambda>upper_bound s.
             let s = s\<lparr>not_z_flag := (bool_word (\<not> (upper_bound = compare \<or>
                   lower_bound = compare))),
                       c_flag := push_bit 8 (bool_word (if word_sle lower_bound upper_bound then
                             word_sless compare lower_bound \<or> word_sless upper_bound compare
                             else word_sless upper_bound compare \<or> word_sless compare
                             lower_bound))\<rparr>
             in if COND_CS s \<and> BIT 11 word2 \<noteq> 0
                then m68ki_exception_trap EXCEPTION_CHK s
                else Ret () s))))
     else m68ki_exception_illegal s)"

definition m68k_op_chk2cmp2_32_ix :: "'b op" where
  "m68k_op_chk2cmp2_32_ix s =
    (if CPU_TYPE_IS_EC020_PLUS (cpu_type s)
     then chain (OPER_I_16 s) (\<lambda>word2 s.
          let compare = REG_DA s (drop_bit 12 word2 AND 15)
          in chain (EA_AY_IX_32 s) (\<lambda>ea s.
             chain (m68ki_read_32 ea s) (\<lambda>lower_bound s.
             chain (m68ki_read_32 (ea + 4) s) (\<lambda>upper_bound s.
             let s = s\<lparr>not_z_flag := (bool_word (\<not> (upper_bound = compare \<or>
                   lower_bound = compare))),
                       c_flag := push_bit 8 (bool_word (if word_sle lower_bound upper_bound then
                             word_sless compare lower_bound \<or> word_sless upper_bound compare
                             else word_sless upper_bound compare \<or> word_sless compare
                             lower_bound))\<rparr>
             in if COND_CS s \<and> BIT 11 word2 \<noteq> 0
                then m68ki_exception_trap EXCEPTION_CHK s
                else Ret () s))))
     else m68ki_exception_illegal s)"

definition m68k_op_chk2cmp2_32_aw :: "'b op" where
  "m68k_op_chk2cmp2_32_aw s =
    (if CPU_TYPE_IS_EC020_PLUS (cpu_type s)
     then chain (OPER_I_16 s) (\<lambda>word2 s.
          let compare = REG_DA s (drop_bit 12 word2 AND 15)
          in chain (EA_AW_32 s) (\<lambda>ea s.
             chain (m68ki_read_32 ea s) (\<lambda>lower_bound s.
             chain (m68ki_read_32 (ea + 4) s) (\<lambda>upper_bound s.
             let s = s\<lparr>not_z_flag := (bool_word (\<not> (upper_bound = compare \<or>
                   lower_bound = compare))),
                       c_flag := push_bit 8 (bool_word (if word_sle lower_bound upper_bound then
                             word_sless compare lower_bound \<or> word_sless upper_bound compare
                             else word_sless upper_bound compare \<or> word_sless compare
                             lower_bound))\<rparr>
             in if COND_CS s \<and> BIT 11 word2 \<noteq> 0
                then m68ki_exception_trap EXCEPTION_CHK s
                else Ret () s))))
     else m68ki_exception_illegal s)"

definition m68k_op_chk2cmp2_32_al :: "'b op" where
  "m68k_op_chk2cmp2_32_al s =
    (if CPU_TYPE_IS_EC020_PLUS (cpu_type s)
     then chain (OPER_I_16 s) (\<lambda>word2 s.
          let compare = REG_DA s (drop_bit 12 word2 AND 15)
          in chain (EA_AL_32 s) (\<lambda>ea s.
             chain (m68ki_read_32 ea s) (\<lambda>lower_bound s.
             chain (m68ki_read_32 (ea + 4) s) (\<lambda>upper_bound s.
             let s = s\<lparr>not_z_flag := (bool_word (\<not> (upper_bound = compare \<or>
                   lower_bound = compare))),
                       c_flag := push_bit 8 (bool_word (if word_sle lower_bound upper_bound then
                             word_sless compare lower_bound \<or> word_sless upper_bound compare
                             else word_sless upper_bound compare \<or> word_sless compare
                             lower_bound))\<rparr>
             in if COND_CS s \<and> BIT 11 word2 \<noteq> 0
                then m68ki_exception_trap EXCEPTION_CHK s
                else Ret () s))))
     else m68ki_exception_illegal s)"

definition m68k_op_clr_8_d :: "'b op" where
  "m68k_op_clr_8_d s =
    (let s = set_DY ((DY s) AND 0xffffff00) s
     in Ret () (s\<lparr>n_flag := NFLAG_CLEAR,
          v_flag := VFLAG_CLEAR,
          c_flag := CFLAG_CLEAR,
          not_z_flag := ZFLAG_SET\<rparr>))"

definition m68k_op_clr_8_ai :: "'b op" where
  "m68k_op_clr_8_ai s =
    (chain (EA_AY_AI_8 s) (\<lambda>ea s.
     chain (m68ki_write_8 ea 0 s) (\<lambda>_ s.
     Ret () (s\<lparr>n_flag := NFLAG_CLEAR,
       v_flag := VFLAG_CLEAR,
       c_flag := CFLAG_CLEAR,
       not_z_flag := ZFLAG_SET\<rparr>))))"

definition m68k_op_clr_8_pi :: "'b op" where
  "m68k_op_clr_8_pi s =
    (chain (EA_AY_PI_8 s) (\<lambda>ea s.
     chain (m68ki_write_8 ea 0 s) (\<lambda>_ s.
     Ret () (s\<lparr>n_flag := NFLAG_CLEAR,
       v_flag := VFLAG_CLEAR,
       c_flag := CFLAG_CLEAR,
       not_z_flag := ZFLAG_SET\<rparr>))))"

definition m68k_op_clr_8_pi7 :: "'b op" where
  "m68k_op_clr_8_pi7 s =
    (chain (EA_A7_PI_8 s) (\<lambda>ea s.
     chain (m68ki_write_8 ea 0 s) (\<lambda>_ s.
     Ret () (s\<lparr>n_flag := NFLAG_CLEAR,
       v_flag := VFLAG_CLEAR,
       c_flag := CFLAG_CLEAR,
       not_z_flag := ZFLAG_SET\<rparr>))))"

definition m68k_op_clr_8_pd :: "'b op" where
  "m68k_op_clr_8_pd s =
    (chain (EA_AY_PD_8 s) (\<lambda>ea s.
     chain (m68ki_write_8 ea 0 s) (\<lambda>_ s.
     Ret () (s\<lparr>n_flag := NFLAG_CLEAR,
       v_flag := VFLAG_CLEAR,
       c_flag := CFLAG_CLEAR,
       not_z_flag := ZFLAG_SET\<rparr>))))"

definition m68k_op_clr_8_pd7 :: "'b op" where
  "m68k_op_clr_8_pd7 s =
    (chain (EA_A7_PD_8 s) (\<lambda>ea s.
     chain (m68ki_write_8 ea 0 s) (\<lambda>_ s.
     Ret () (s\<lparr>n_flag := NFLAG_CLEAR,
       v_flag := VFLAG_CLEAR,
       c_flag := CFLAG_CLEAR,
       not_z_flag := ZFLAG_SET\<rparr>))))"

definition m68k_op_clr_8_di :: "'b op" where
  "m68k_op_clr_8_di s =
    (chain (EA_AY_DI_8 s) (\<lambda>ea s.
     chain (m68ki_write_8 ea 0 s) (\<lambda>_ s.
     Ret () (s\<lparr>n_flag := NFLAG_CLEAR,
       v_flag := VFLAG_CLEAR,
       c_flag := CFLAG_CLEAR,
       not_z_flag := ZFLAG_SET\<rparr>))))"

definition m68k_op_clr_8_ix :: "'b op" where
  "m68k_op_clr_8_ix s =
    (chain (EA_AY_IX_8 s) (\<lambda>ea s.
     chain (m68ki_write_8 ea 0 s) (\<lambda>_ s.
     Ret () (s\<lparr>n_flag := NFLAG_CLEAR,
       v_flag := VFLAG_CLEAR,
       c_flag := CFLAG_CLEAR,
       not_z_flag := ZFLAG_SET\<rparr>))))"

definition m68k_op_clr_8_aw :: "'b op" where
  "m68k_op_clr_8_aw s =
    (chain (EA_AW_8 s) (\<lambda>ea s.
     chain (m68ki_write_8 ea 0 s) (\<lambda>_ s.
     Ret () (s\<lparr>n_flag := NFLAG_CLEAR,
       v_flag := VFLAG_CLEAR,
       c_flag := CFLAG_CLEAR,
       not_z_flag := ZFLAG_SET\<rparr>))))"

definition m68k_op_clr_8_al :: "'b op" where
  "m68k_op_clr_8_al s =
    (chain (EA_AL_8 s) (\<lambda>ea s.
     chain (m68ki_write_8 ea 0 s) (\<lambda>_ s.
     Ret () (s\<lparr>n_flag := NFLAG_CLEAR,
       v_flag := VFLAG_CLEAR,
       c_flag := CFLAG_CLEAR,
       not_z_flag := ZFLAG_SET\<rparr>))))"

definition m68k_op_clr_16_d :: "'b op" where
  "m68k_op_clr_16_d s =
    (let s = set_DY ((DY s) AND 0xffff0000) s
     in Ret () (s\<lparr>n_flag := NFLAG_CLEAR,
          v_flag := VFLAG_CLEAR,
          c_flag := CFLAG_CLEAR,
          not_z_flag := ZFLAG_SET\<rparr>))"

definition m68k_op_clr_16_ai :: "'b op" where
  "m68k_op_clr_16_ai s =
    (chain (EA_AY_AI_16 s) (\<lambda>ea s.
     chain (m68ki_write_16 ea 0 s) (\<lambda>_ s.
     Ret () (s\<lparr>n_flag := NFLAG_CLEAR,
       v_flag := VFLAG_CLEAR,
       c_flag := CFLAG_CLEAR,
       not_z_flag := ZFLAG_SET\<rparr>))))"

definition m68k_op_clr_16_pi :: "'b op" where
  "m68k_op_clr_16_pi s =
    (chain (EA_AY_PI_16 s) (\<lambda>ea s.
     chain (m68ki_write_16 ea 0 s) (\<lambda>_ s.
     Ret () (s\<lparr>n_flag := NFLAG_CLEAR,
       v_flag := VFLAG_CLEAR,
       c_flag := CFLAG_CLEAR,
       not_z_flag := ZFLAG_SET\<rparr>))))"

definition m68k_op_clr_16_pd :: "'b op" where
  "m68k_op_clr_16_pd s =
    (chain (EA_AY_PD_16 s) (\<lambda>ea s.
     chain (m68ki_write_16 ea 0 s) (\<lambda>_ s.
     Ret () (s\<lparr>n_flag := NFLAG_CLEAR,
       v_flag := VFLAG_CLEAR,
       c_flag := CFLAG_CLEAR,
       not_z_flag := ZFLAG_SET\<rparr>))))"

definition m68k_op_clr_16_di :: "'b op" where
  "m68k_op_clr_16_di s =
    (chain (EA_AY_DI_16 s) (\<lambda>ea s.
     chain (m68ki_write_16 ea 0 s) (\<lambda>_ s.
     Ret () (s\<lparr>n_flag := NFLAG_CLEAR,
       v_flag := VFLAG_CLEAR,
       c_flag := CFLAG_CLEAR,
       not_z_flag := ZFLAG_SET\<rparr>))))"

definition m68k_op_clr_16_ix :: "'b op" where
  "m68k_op_clr_16_ix s =
    (chain (EA_AY_IX_16 s) (\<lambda>ea s.
     chain (m68ki_write_16 ea 0 s) (\<lambda>_ s.
     Ret () (s\<lparr>n_flag := NFLAG_CLEAR,
       v_flag := VFLAG_CLEAR,
       c_flag := CFLAG_CLEAR,
       not_z_flag := ZFLAG_SET\<rparr>))))"

definition m68k_op_clr_16_aw :: "'b op" where
  "m68k_op_clr_16_aw s =
    (chain (EA_AW_16 s) (\<lambda>ea s.
     chain (m68ki_write_16 ea 0 s) (\<lambda>_ s.
     Ret () (s\<lparr>n_flag := NFLAG_CLEAR,
       v_flag := VFLAG_CLEAR,
       c_flag := CFLAG_CLEAR,
       not_z_flag := ZFLAG_SET\<rparr>))))"

definition m68k_op_clr_16_al :: "'b op" where
  "m68k_op_clr_16_al s =
    (chain (EA_AL_16 s) (\<lambda>ea s.
     chain (m68ki_write_16 ea 0 s) (\<lambda>_ s.
     Ret () (s\<lparr>n_flag := NFLAG_CLEAR,
       v_flag := VFLAG_CLEAR,
       c_flag := CFLAG_CLEAR,
       not_z_flag := ZFLAG_SET\<rparr>))))"

definition m68k_op_clr_32_d :: "'b op" where
  "m68k_op_clr_32_d s =
    (let s = set_DY 0 s
     in Ret () (s\<lparr>n_flag := NFLAG_CLEAR,
          v_flag := VFLAG_CLEAR,
          c_flag := CFLAG_CLEAR,
          not_z_flag := ZFLAG_SET\<rparr>))"

definition m68k_op_clr_32_ai :: "'b op" where
  "m68k_op_clr_32_ai s =
    (chain (EA_AY_AI_32 s) (\<lambda>ea s.
     chain (m68ki_write_32 ea 0 s) (\<lambda>_ s.
     Ret () (s\<lparr>n_flag := NFLAG_CLEAR,
       v_flag := VFLAG_CLEAR,
       c_flag := CFLAG_CLEAR,
       not_z_flag := ZFLAG_SET\<rparr>))))"

definition m68k_op_clr_32_pi :: "'b op" where
  "m68k_op_clr_32_pi s =
    (chain (EA_AY_PI_32 s) (\<lambda>ea s.
     chain (m68ki_write_32 ea 0 s) (\<lambda>_ s.
     Ret () (s\<lparr>n_flag := NFLAG_CLEAR,
       v_flag := VFLAG_CLEAR,
       c_flag := CFLAG_CLEAR,
       not_z_flag := ZFLAG_SET\<rparr>))))"

definition m68k_op_clr_32_pd :: "'b op" where
  "m68k_op_clr_32_pd s =
    (chain (EA_AY_PD_32 s) (\<lambda>ea s.
     chain (m68ki_write_32 ea 0 s) (\<lambda>_ s.
     Ret () (s\<lparr>n_flag := NFLAG_CLEAR,
       v_flag := VFLAG_CLEAR,
       c_flag := CFLAG_CLEAR,
       not_z_flag := ZFLAG_SET\<rparr>))))"

definition m68k_op_clr_32_di :: "'b op" where
  "m68k_op_clr_32_di s =
    (chain (EA_AY_DI_32 s) (\<lambda>ea s.
     chain (m68ki_write_32 ea 0 s) (\<lambda>_ s.
     Ret () (s\<lparr>n_flag := NFLAG_CLEAR,
       v_flag := VFLAG_CLEAR,
       c_flag := CFLAG_CLEAR,
       not_z_flag := ZFLAG_SET\<rparr>))))"

definition m68k_op_clr_32_ix :: "'b op" where
  "m68k_op_clr_32_ix s =
    (chain (EA_AY_IX_32 s) (\<lambda>ea s.
     chain (m68ki_write_32 ea 0 s) (\<lambda>_ s.
     Ret () (s\<lparr>n_flag := NFLAG_CLEAR,
       v_flag := VFLAG_CLEAR,
       c_flag := CFLAG_CLEAR,
       not_z_flag := ZFLAG_SET\<rparr>))))"

definition m68k_op_clr_32_aw :: "'b op" where
  "m68k_op_clr_32_aw s =
    (chain (EA_AW_32 s) (\<lambda>ea s.
     chain (m68ki_write_32 ea 0 s) (\<lambda>_ s.
     Ret () (s\<lparr>n_flag := NFLAG_CLEAR,
       v_flag := VFLAG_CLEAR,
       c_flag := CFLAG_CLEAR,
       not_z_flag := ZFLAG_SET\<rparr>))))"

definition m68k_op_clr_32_al :: "'b op" where
  "m68k_op_clr_32_al s =
    (chain (EA_AL_32 s) (\<lambda>ea s.
     chain (m68ki_write_32 ea 0 s) (\<lambda>_ s.
     Ret () (s\<lparr>n_flag := NFLAG_CLEAR,
       v_flag := VFLAG_CLEAR,
       c_flag := CFLAG_CLEAR,
       not_z_flag := ZFLAG_SET\<rparr>))))"

definition m68k_op_cmp_8_d :: "'b op" where
  "m68k_op_cmp_8_d s =
    (let src = MASK_OUT_ABOVE_8 (DY s);
         dst = MASK_OUT_ABOVE_8 (DX s);
         res = dst - src
     in Ret () (s\<lparr>n_flag := NFLAG_8 res,
          not_z_flag := MASK_OUT_ABOVE_8 res,
          v_flag := VFLAG_SUB_8 src dst res,
          c_flag := CFLAG_8 res\<rparr>))"

definition m68k_op_cmp_8_ai :: "'b op" where
  "m68k_op_cmp_8_ai s =
    (chain (OPER_AY_AI_8 s) (\<lambda>src s.
     let dst = MASK_OUT_ABOVE_8 (DX s);
         res = dst - src
     in Ret () (s\<lparr>n_flag := NFLAG_8 res,
          not_z_flag := MASK_OUT_ABOVE_8 res,
          v_flag := VFLAG_SUB_8 src dst res,
          c_flag := CFLAG_8 res\<rparr>)))"

definition m68k_op_cmp_8_pi :: "'b op" where
  "m68k_op_cmp_8_pi s =
    (chain (OPER_AY_PI_8 s) (\<lambda>src s.
     let dst = MASK_OUT_ABOVE_8 (DX s);
         res = dst - src
     in Ret () (s\<lparr>n_flag := NFLAG_8 res,
          not_z_flag := MASK_OUT_ABOVE_8 res,
          v_flag := VFLAG_SUB_8 src dst res,
          c_flag := CFLAG_8 res\<rparr>)))"

definition m68k_op_cmp_8_pi7 :: "'b op" where
  "m68k_op_cmp_8_pi7 s =
    (chain (OPER_A7_PI_8 s) (\<lambda>src s.
     let dst = MASK_OUT_ABOVE_8 (DX s);
         res = dst - src
     in Ret () (s\<lparr>n_flag := NFLAG_8 res,
          not_z_flag := MASK_OUT_ABOVE_8 res,
          v_flag := VFLAG_SUB_8 src dst res,
          c_flag := CFLAG_8 res\<rparr>)))"

definition m68k_op_cmp_8_pd :: "'b op" where
  "m68k_op_cmp_8_pd s =
    (chain (OPER_AY_PD_8 s) (\<lambda>src s.
     let dst = MASK_OUT_ABOVE_8 (DX s);
         res = dst - src
     in Ret () (s\<lparr>n_flag := NFLAG_8 res,
          not_z_flag := MASK_OUT_ABOVE_8 res,
          v_flag := VFLAG_SUB_8 src dst res,
          c_flag := CFLAG_8 res\<rparr>)))"

definition m68k_op_cmp_8_pd7 :: "'b op" where
  "m68k_op_cmp_8_pd7 s =
    (chain (OPER_A7_PD_8 s) (\<lambda>src s.
     let dst = MASK_OUT_ABOVE_8 (DX s);
         res = dst - src
     in Ret () (s\<lparr>n_flag := NFLAG_8 res,
          not_z_flag := MASK_OUT_ABOVE_8 res,
          v_flag := VFLAG_SUB_8 src dst res,
          c_flag := CFLAG_8 res\<rparr>)))"

definition m68k_op_cmp_8_di :: "'b op" where
  "m68k_op_cmp_8_di s =
    (chain (OPER_AY_DI_8 s) (\<lambda>src s.
     let dst = MASK_OUT_ABOVE_8 (DX s);
         res = dst - src
     in Ret () (s\<lparr>n_flag := NFLAG_8 res,
          not_z_flag := MASK_OUT_ABOVE_8 res,
          v_flag := VFLAG_SUB_8 src dst res,
          c_flag := CFLAG_8 res\<rparr>)))"

definition m68k_op_cmp_8_ix :: "'b op" where
  "m68k_op_cmp_8_ix s =
    (chain (OPER_AY_IX_8 s) (\<lambda>src s.
     let dst = MASK_OUT_ABOVE_8 (DX s);
         res = dst - src
     in Ret () (s\<lparr>n_flag := NFLAG_8 res,
          not_z_flag := MASK_OUT_ABOVE_8 res,
          v_flag := VFLAG_SUB_8 src dst res,
          c_flag := CFLAG_8 res\<rparr>)))"

definition m68k_op_cmp_8_aw :: "'b op" where
  "m68k_op_cmp_8_aw s =
    (chain (OPER_AW_8 s) (\<lambda>src s.
     let dst = MASK_OUT_ABOVE_8 (DX s);
         res = dst - src
     in Ret () (s\<lparr>n_flag := NFLAG_8 res,
          not_z_flag := MASK_OUT_ABOVE_8 res,
          v_flag := VFLAG_SUB_8 src dst res,
          c_flag := CFLAG_8 res\<rparr>)))"

definition m68k_op_cmp_8_al :: "'b op" where
  "m68k_op_cmp_8_al s =
    (chain (OPER_AL_8 s) (\<lambda>src s.
     let dst = MASK_OUT_ABOVE_8 (DX s);
         res = dst - src
     in Ret () (s\<lparr>n_flag := NFLAG_8 res,
          not_z_flag := MASK_OUT_ABOVE_8 res,
          v_flag := VFLAG_SUB_8 src dst res,
          c_flag := CFLAG_8 res\<rparr>)))"

definition m68k_op_cmp_8_pcdi :: "'b op" where
  "m68k_op_cmp_8_pcdi s =
    (chain (OPER_PCDI_8 s) (\<lambda>src s.
     let dst = MASK_OUT_ABOVE_8 (DX s);
         res = dst - src
     in Ret () (s\<lparr>n_flag := NFLAG_8 res,
          not_z_flag := MASK_OUT_ABOVE_8 res,
          v_flag := VFLAG_SUB_8 src dst res,
          c_flag := CFLAG_8 res\<rparr>)))"

definition m68k_op_cmp_8_pcix :: "'b op" where
  "m68k_op_cmp_8_pcix s =
    (chain (OPER_PCIX_8 s) (\<lambda>src s.
     let dst = MASK_OUT_ABOVE_8 (DX s);
         res = dst - src
     in Ret () (s\<lparr>n_flag := NFLAG_8 res,
          not_z_flag := MASK_OUT_ABOVE_8 res,
          v_flag := VFLAG_SUB_8 src dst res,
          c_flag := CFLAG_8 res\<rparr>)))"

definition m68k_op_cmp_8_i :: "'b op" where
  "m68k_op_cmp_8_i s =
    (chain (OPER_I_8 s) (\<lambda>src s.
     let dst = MASK_OUT_ABOVE_8 (DX s);
         res = dst - src
     in Ret () (s\<lparr>n_flag := NFLAG_8 res,
          not_z_flag := MASK_OUT_ABOVE_8 res,
          v_flag := VFLAG_SUB_8 src dst res,
          c_flag := CFLAG_8 res\<rparr>)))"

definition m68k_op_cmp_16_d :: "'b op" where
  "m68k_op_cmp_16_d s =
    (let src = MASK_OUT_ABOVE_16 (DY s);
         dst = MASK_OUT_ABOVE_16 (DX s);
         res = dst - src
     in Ret () (s\<lparr>n_flag := NFLAG_16 res,
          not_z_flag := MASK_OUT_ABOVE_16 res,
          v_flag := VFLAG_SUB_16 src dst res,
          c_flag := CFLAG_16 res\<rparr>))"

definition m68k_op_cmp_16_a :: "'b op" where
  "m68k_op_cmp_16_a s =
    (let src = MASK_OUT_ABOVE_16 (AY s);
         dst = MASK_OUT_ABOVE_16 (DX s);
         res = dst - src
     in Ret () (s\<lparr>n_flag := NFLAG_16 res,
          not_z_flag := MASK_OUT_ABOVE_16 res,
          v_flag := VFLAG_SUB_16 src dst res,
          c_flag := CFLAG_16 res\<rparr>))"

definition m68k_op_cmp_16_ai :: "'b op" where
  "m68k_op_cmp_16_ai s =
    (chain (OPER_AY_AI_16 s) (\<lambda>src s.
     let dst = MASK_OUT_ABOVE_16 (DX s);
         res = dst - src
     in Ret () (s\<lparr>n_flag := NFLAG_16 res,
          not_z_flag := MASK_OUT_ABOVE_16 res,
          v_flag := VFLAG_SUB_16 src dst res,
          c_flag := CFLAG_16 res\<rparr>)))"

definition m68k_op_cmp_16_pi :: "'b op" where
  "m68k_op_cmp_16_pi s =
    (chain (OPER_AY_PI_16 s) (\<lambda>src s.
     let dst = MASK_OUT_ABOVE_16 (DX s);
         res = dst - src
     in Ret () (s\<lparr>n_flag := NFLAG_16 res,
          not_z_flag := MASK_OUT_ABOVE_16 res,
          v_flag := VFLAG_SUB_16 src dst res,
          c_flag := CFLAG_16 res\<rparr>)))"

definition m68k_op_cmp_16_pd :: "'b op" where
  "m68k_op_cmp_16_pd s =
    (chain (OPER_AY_PD_16 s) (\<lambda>src s.
     let dst = MASK_OUT_ABOVE_16 (DX s);
         res = dst - src
     in Ret () (s\<lparr>n_flag := NFLAG_16 res,
          not_z_flag := MASK_OUT_ABOVE_16 res,
          v_flag := VFLAG_SUB_16 src dst res,
          c_flag := CFLAG_16 res\<rparr>)))"

definition m68k_op_cmp_16_di :: "'b op" where
  "m68k_op_cmp_16_di s =
    (chain (OPER_AY_DI_16 s) (\<lambda>src s.
     let dst = MASK_OUT_ABOVE_16 (DX s);
         res = dst - src
     in Ret () (s\<lparr>n_flag := NFLAG_16 res,
          not_z_flag := MASK_OUT_ABOVE_16 res,
          v_flag := VFLAG_SUB_16 src dst res,
          c_flag := CFLAG_16 res\<rparr>)))"

definition m68k_op_cmp_16_ix :: "'b op" where
  "m68k_op_cmp_16_ix s =
    (chain (OPER_AY_IX_16 s) (\<lambda>src s.
     let dst = MASK_OUT_ABOVE_16 (DX s);
         res = dst - src
     in Ret () (s\<lparr>n_flag := NFLAG_16 res,
          not_z_flag := MASK_OUT_ABOVE_16 res,
          v_flag := VFLAG_SUB_16 src dst res,
          c_flag := CFLAG_16 res\<rparr>)))"

definition m68k_op_cmp_16_aw :: "'b op" where
  "m68k_op_cmp_16_aw s =
    (chain (OPER_AW_16 s) (\<lambda>src s.
     let dst = MASK_OUT_ABOVE_16 (DX s);
         res = dst - src
     in Ret () (s\<lparr>n_flag := NFLAG_16 res,
          not_z_flag := MASK_OUT_ABOVE_16 res,
          v_flag := VFLAG_SUB_16 src dst res,
          c_flag := CFLAG_16 res\<rparr>)))"

definition m68k_op_cmp_16_al :: "'b op" where
  "m68k_op_cmp_16_al s =
    (chain (OPER_AL_16 s) (\<lambda>src s.
     let dst = MASK_OUT_ABOVE_16 (DX s);
         res = dst - src
     in Ret () (s\<lparr>n_flag := NFLAG_16 res,
          not_z_flag := MASK_OUT_ABOVE_16 res,
          v_flag := VFLAG_SUB_16 src dst res,
          c_flag := CFLAG_16 res\<rparr>)))"

definition m68k_op_cmp_16_pcdi :: "'b op" where
  "m68k_op_cmp_16_pcdi s =
    (chain (OPER_PCDI_16 s) (\<lambda>src s.
     let dst = MASK_OUT_ABOVE_16 (DX s);
         res = dst - src
     in Ret () (s\<lparr>n_flag := NFLAG_16 res,
          not_z_flag := MASK_OUT_ABOVE_16 res,
          v_flag := VFLAG_SUB_16 src dst res,
          c_flag := CFLAG_16 res\<rparr>)))"

definition m68k_op_cmp_16_pcix :: "'b op" where
  "m68k_op_cmp_16_pcix s =
    (chain (OPER_PCIX_16 s) (\<lambda>src s.
     let dst = MASK_OUT_ABOVE_16 (DX s);
         res = dst - src
     in Ret () (s\<lparr>n_flag := NFLAG_16 res,
          not_z_flag := MASK_OUT_ABOVE_16 res,
          v_flag := VFLAG_SUB_16 src dst res,
          c_flag := CFLAG_16 res\<rparr>)))"

definition m68k_op_cmp_16_i :: "'b op" where
  "m68k_op_cmp_16_i s =
    (chain (OPER_I_16 s) (\<lambda>src s.
     let dst = MASK_OUT_ABOVE_16 (DX s);
         res = dst - src
     in Ret () (s\<lparr>n_flag := NFLAG_16 res,
          not_z_flag := MASK_OUT_ABOVE_16 res,
          v_flag := VFLAG_SUB_16 src dst res,
          c_flag := CFLAG_16 res\<rparr>)))"

definition m68k_op_cmp_32_d :: "'b op" where
  "m68k_op_cmp_32_d s =
    (let src = DY s;
         dst = DX s;
         res = dst - src
     in Ret () (s\<lparr>n_flag := NFLAG_32 res,
          not_z_flag := MASK_OUT_ABOVE_32 res,
          v_flag := VFLAG_SUB_32 src dst res,
          c_flag := CFLAG_SUB_32 src dst res\<rparr>))"

definition m68k_op_cmp_32_a :: "'b op" where
  "m68k_op_cmp_32_a s =
    (let src = AY s;
         dst = DX s;
         res = dst - src
     in Ret () (s\<lparr>n_flag := NFLAG_32 res,
          not_z_flag := MASK_OUT_ABOVE_32 res,
          v_flag := VFLAG_SUB_32 src dst res,
          c_flag := CFLAG_SUB_32 src dst res\<rparr>))"

definition m68k_op_cmp_32_ai :: "'b op" where
  "m68k_op_cmp_32_ai s =
    (chain (OPER_AY_AI_32 s) (\<lambda>src s.
     let dst = DX s;
         res = dst - src
     in Ret () (s\<lparr>n_flag := NFLAG_32 res,
          not_z_flag := MASK_OUT_ABOVE_32 res,
          v_flag := VFLAG_SUB_32 src dst res,
          c_flag := CFLAG_SUB_32 src dst res\<rparr>)))"

definition m68k_op_cmp_32_pi :: "'b op" where
  "m68k_op_cmp_32_pi s =
    (chain (OPER_AY_PI_32 s) (\<lambda>src s.
     let dst = DX s;
         res = dst - src
     in Ret () (s\<lparr>n_flag := NFLAG_32 res,
          not_z_flag := MASK_OUT_ABOVE_32 res,
          v_flag := VFLAG_SUB_32 src dst res,
          c_flag := CFLAG_SUB_32 src dst res\<rparr>)))"

definition m68k_op_cmp_32_pd :: "'b op" where
  "m68k_op_cmp_32_pd s =
    (chain (OPER_AY_PD_32 s) (\<lambda>src s.
     let dst = DX s;
         res = dst - src
     in Ret () (s\<lparr>n_flag := NFLAG_32 res,
          not_z_flag := MASK_OUT_ABOVE_32 res,
          v_flag := VFLAG_SUB_32 src dst res,
          c_flag := CFLAG_SUB_32 src dst res\<rparr>)))"

definition m68k_op_cmp_32_di :: "'b op" where
  "m68k_op_cmp_32_di s =
    (chain (OPER_AY_DI_32 s) (\<lambda>src s.
     let dst = DX s;
         res = dst - src
     in Ret () (s\<lparr>n_flag := NFLAG_32 res,
          not_z_flag := MASK_OUT_ABOVE_32 res,
          v_flag := VFLAG_SUB_32 src dst res,
          c_flag := CFLAG_SUB_32 src dst res\<rparr>)))"

definition m68k_op_cmp_32_ix :: "'b op" where
  "m68k_op_cmp_32_ix s =
    (chain (OPER_AY_IX_32 s) (\<lambda>src s.
     let dst = DX s;
         res = dst - src
     in Ret () (s\<lparr>n_flag := NFLAG_32 res,
          not_z_flag := MASK_OUT_ABOVE_32 res,
          v_flag := VFLAG_SUB_32 src dst res,
          c_flag := CFLAG_SUB_32 src dst res\<rparr>)))"

definition m68k_op_cmp_32_aw :: "'b op" where
  "m68k_op_cmp_32_aw s =
    (chain (OPER_AW_32 s) (\<lambda>src s.
     let dst = DX s;
         res = dst - src
     in Ret () (s\<lparr>n_flag := NFLAG_32 res,
          not_z_flag := MASK_OUT_ABOVE_32 res,
          v_flag := VFLAG_SUB_32 src dst res,
          c_flag := CFLAG_SUB_32 src dst res\<rparr>)))"

definition m68k_op_cmp_32_al :: "'b op" where
  "m68k_op_cmp_32_al s =
    (chain (OPER_AL_32 s) (\<lambda>src s.
     let dst = DX s;
         res = dst - src
     in Ret () (s\<lparr>n_flag := NFLAG_32 res,
          not_z_flag := MASK_OUT_ABOVE_32 res,
          v_flag := VFLAG_SUB_32 src dst res,
          c_flag := CFLAG_SUB_32 src dst res\<rparr>)))"

definition m68k_op_cmp_32_pcdi :: "'b op" where
  "m68k_op_cmp_32_pcdi s =
    (chain (OPER_PCDI_32 s) (\<lambda>src s.
     let dst = DX s;
         res = dst - src
     in Ret () (s\<lparr>n_flag := NFLAG_32 res,
          not_z_flag := MASK_OUT_ABOVE_32 res,
          v_flag := VFLAG_SUB_32 src dst res,
          c_flag := CFLAG_SUB_32 src dst res\<rparr>)))"

definition m68k_op_cmp_32_pcix :: "'b op" where
  "m68k_op_cmp_32_pcix s =
    (chain (OPER_PCIX_32 s) (\<lambda>src s.
     let dst = DX s;
         res = dst - src
     in Ret () (s\<lparr>n_flag := NFLAG_32 res,
          not_z_flag := MASK_OUT_ABOVE_32 res,
          v_flag := VFLAG_SUB_32 src dst res,
          c_flag := CFLAG_SUB_32 src dst res\<rparr>)))"

definition m68k_op_cmp_32_i :: "'b op" where
  "m68k_op_cmp_32_i s =
    (chain (OPER_I_32 s) (\<lambda>src s.
     let dst = DX s;
         res = dst - src
     in Ret () (s\<lparr>n_flag := NFLAG_32 res,
          not_z_flag := MASK_OUT_ABOVE_32 res,
          v_flag := VFLAG_SUB_32 src dst res,
          c_flag := CFLAG_SUB_32 src dst res\<rparr>)))"

definition m68k_op_cmpa_16_d :: "'b op" where
  "m68k_op_cmpa_16_d s =
    (let src = MAKE_INT_16 (DY s);
         dst = AX s;
         res = dst - src
     in Ret () (s\<lparr>n_flag := NFLAG_32 res,
          not_z_flag := MASK_OUT_ABOVE_32 res,
          v_flag := VFLAG_SUB_32 src dst res,
          c_flag := CFLAG_SUB_32 src dst res\<rparr>))"

definition m68k_op_cmpa_16_a :: "'b op" where
  "m68k_op_cmpa_16_a s =
    (let src = MAKE_INT_16 (AY s);
         dst = AX s;
         res = dst - src
     in Ret () (s\<lparr>n_flag := NFLAG_32 res,
          not_z_flag := MASK_OUT_ABOVE_32 res,
          v_flag := VFLAG_SUB_32 src dst res,
          c_flag := CFLAG_SUB_32 src dst res\<rparr>))"

definition m68k_op_cmpa_16_ai :: "'b op" where
  "m68k_op_cmpa_16_ai s =
    (chain (OPER_AY_AI_16 s) (\<lambda>v s.
     let src = MAKE_INT_16 v;
         dst = AX s;
         res = dst - src
     in Ret () (s\<lparr>n_flag := NFLAG_32 res,
          not_z_flag := MASK_OUT_ABOVE_32 res,
          v_flag := VFLAG_SUB_32 src dst res,
          c_flag := CFLAG_SUB_32 src dst res\<rparr>)))"

definition m68k_op_cmpa_16_pi :: "'b op" where
  "m68k_op_cmpa_16_pi s =
    (chain (OPER_AY_PI_16 s) (\<lambda>v s.
     let src = MAKE_INT_16 v;
         dst = AX s;
         res = dst - src
     in Ret () (s\<lparr>n_flag := NFLAG_32 res,
          not_z_flag := MASK_OUT_ABOVE_32 res,
          v_flag := VFLAG_SUB_32 src dst res,
          c_flag := CFLAG_SUB_32 src dst res\<rparr>)))"

definition m68k_op_cmpa_16_pd :: "'b op" where
  "m68k_op_cmpa_16_pd s =
    (chain (OPER_AY_PD_16 s) (\<lambda>v s.
     let src = MAKE_INT_16 v;
         dst = AX s;
         res = dst - src
     in Ret () (s\<lparr>n_flag := NFLAG_32 res,
          not_z_flag := MASK_OUT_ABOVE_32 res,
          v_flag := VFLAG_SUB_32 src dst res,
          c_flag := CFLAG_SUB_32 src dst res\<rparr>)))"

definition m68k_op_cmpa_16_di :: "'b op" where
  "m68k_op_cmpa_16_di s =
    (chain (OPER_AY_DI_16 s) (\<lambda>v s.
     let src = MAKE_INT_16 v;
         dst = AX s;
         res = dst - src
     in Ret () (s\<lparr>n_flag := NFLAG_32 res,
          not_z_flag := MASK_OUT_ABOVE_32 res,
          v_flag := VFLAG_SUB_32 src dst res,
          c_flag := CFLAG_SUB_32 src dst res\<rparr>)))"

definition m68k_op_cmpa_16_ix :: "'b op" where
  "m68k_op_cmpa_16_ix s =
    (chain (OPER_AY_IX_16 s) (\<lambda>v s.
     let src = MAKE_INT_16 v;
         dst = AX s;
         res = dst - src
     in Ret () (s\<lparr>n_flag := NFLAG_32 res,
          not_z_flag := MASK_OUT_ABOVE_32 res,
          v_flag := VFLAG_SUB_32 src dst res,
          c_flag := CFLAG_SUB_32 src dst res\<rparr>)))"

definition m68k_op_cmpa_16_aw :: "'b op" where
  "m68k_op_cmpa_16_aw s =
    (chain (OPER_AW_16 s) (\<lambda>v s.
     let src = MAKE_INT_16 v;
         dst = AX s;
         res = dst - src
     in Ret () (s\<lparr>n_flag := NFLAG_32 res,
          not_z_flag := MASK_OUT_ABOVE_32 res,
          v_flag := VFLAG_SUB_32 src dst res,
          c_flag := CFLAG_SUB_32 src dst res\<rparr>)))"

definition m68k_op_cmpa_16_al :: "'b op" where
  "m68k_op_cmpa_16_al s =
    (chain (OPER_AL_16 s) (\<lambda>v s.
     let src = MAKE_INT_16 v;
         dst = AX s;
         res = dst - src
     in Ret () (s\<lparr>n_flag := NFLAG_32 res,
          not_z_flag := MASK_OUT_ABOVE_32 res,
          v_flag := VFLAG_SUB_32 src dst res,
          c_flag := CFLAG_SUB_32 src dst res\<rparr>)))"

definition m68k_op_cmpa_16_pcdi :: "'b op" where
  "m68k_op_cmpa_16_pcdi s =
    (chain (OPER_PCDI_16 s) (\<lambda>v s.
     let src = MAKE_INT_16 v;
         dst = AX s;
         res = dst - src
     in Ret () (s\<lparr>n_flag := NFLAG_32 res,
          not_z_flag := MASK_OUT_ABOVE_32 res,
          v_flag := VFLAG_SUB_32 src dst res,
          c_flag := CFLAG_SUB_32 src dst res\<rparr>)))"

definition m68k_op_cmpa_16_pcix :: "'b op" where
  "m68k_op_cmpa_16_pcix s =
    (chain (OPER_PCIX_16 s) (\<lambda>v s.
     let src = MAKE_INT_16 v;
         dst = AX s;
         res = dst - src
     in Ret () (s\<lparr>n_flag := NFLAG_32 res,
          not_z_flag := MASK_OUT_ABOVE_32 res,
          v_flag := VFLAG_SUB_32 src dst res,
          c_flag := CFLAG_SUB_32 src dst res\<rparr>)))"

definition m68k_op_cmpa_16_i :: "'b op" where
  "m68k_op_cmpa_16_i s =
    (chain (OPER_I_16 s) (\<lambda>v s.
     let src = MAKE_INT_16 v;
         dst = AX s;
         res = dst - src
     in Ret () (s\<lparr>n_flag := NFLAG_32 res,
          not_z_flag := MASK_OUT_ABOVE_32 res,
          v_flag := VFLAG_SUB_32 src dst res,
          c_flag := CFLAG_SUB_32 src dst res\<rparr>)))"

definition m68k_op_cmpa_32_d :: "'b op" where
  "m68k_op_cmpa_32_d s =
    (let src = DY s;
         dst = AX s;
         res = dst - src
     in Ret () (s\<lparr>n_flag := NFLAG_32 res,
          not_z_flag := MASK_OUT_ABOVE_32 res,
          v_flag := VFLAG_SUB_32 src dst res,
          c_flag := CFLAG_SUB_32 src dst res\<rparr>))"

definition m68k_op_cmpa_32_a :: "'b op" where
  "m68k_op_cmpa_32_a s =
    (let src = AY s;
         dst = AX s;
         res = dst - src
     in Ret () (s\<lparr>n_flag := NFLAG_32 res,
          not_z_flag := MASK_OUT_ABOVE_32 res,
          v_flag := VFLAG_SUB_32 src dst res,
          c_flag := CFLAG_SUB_32 src dst res\<rparr>))"

definition m68k_op_cmpa_32_ai :: "'b op" where
  "m68k_op_cmpa_32_ai s =
    (chain (OPER_AY_AI_32 s) (\<lambda>src s.
     let dst = AX s;
         res = dst - src
     in Ret () (s\<lparr>n_flag := NFLAG_32 res,
          not_z_flag := MASK_OUT_ABOVE_32 res,
          v_flag := VFLAG_SUB_32 src dst res,
          c_flag := CFLAG_SUB_32 src dst res\<rparr>)))"

definition m68k_op_cmpa_32_pi :: "'b op" where
  "m68k_op_cmpa_32_pi s =
    (chain (OPER_AY_PI_32 s) (\<lambda>src s.
     let dst = AX s;
         res = dst - src
     in Ret () (s\<lparr>n_flag := NFLAG_32 res,
          not_z_flag := MASK_OUT_ABOVE_32 res,
          v_flag := VFLAG_SUB_32 src dst res,
          c_flag := CFLAG_SUB_32 src dst res\<rparr>)))"

definition m68k_op_cmpa_32_pd :: "'b op" where
  "m68k_op_cmpa_32_pd s =
    (chain (OPER_AY_PD_32 s) (\<lambda>src s.
     let dst = AX s;
         res = dst - src
     in Ret () (s\<lparr>n_flag := NFLAG_32 res,
          not_z_flag := MASK_OUT_ABOVE_32 res,
          v_flag := VFLAG_SUB_32 src dst res,
          c_flag := CFLAG_SUB_32 src dst res\<rparr>)))"

definition m68k_op_cmpa_32_di :: "'b op" where
  "m68k_op_cmpa_32_di s =
    (chain (OPER_AY_DI_32 s) (\<lambda>src s.
     let dst = AX s;
         res = dst - src
     in Ret () (s\<lparr>n_flag := NFLAG_32 res,
          not_z_flag := MASK_OUT_ABOVE_32 res,
          v_flag := VFLAG_SUB_32 src dst res,
          c_flag := CFLAG_SUB_32 src dst res\<rparr>)))"

definition m68k_op_cmpa_32_ix :: "'b op" where
  "m68k_op_cmpa_32_ix s =
    (chain (OPER_AY_IX_32 s) (\<lambda>src s.
     let dst = AX s;
         res = dst - src
     in Ret () (s\<lparr>n_flag := NFLAG_32 res,
          not_z_flag := MASK_OUT_ABOVE_32 res,
          v_flag := VFLAG_SUB_32 src dst res,
          c_flag := CFLAG_SUB_32 src dst res\<rparr>)))"

definition m68k_op_cmpa_32_aw :: "'b op" where
  "m68k_op_cmpa_32_aw s =
    (chain (OPER_AW_32 s) (\<lambda>src s.
     let dst = AX s;
         res = dst - src
     in Ret () (s\<lparr>n_flag := NFLAG_32 res,
          not_z_flag := MASK_OUT_ABOVE_32 res,
          v_flag := VFLAG_SUB_32 src dst res,
          c_flag := CFLAG_SUB_32 src dst res\<rparr>)))"

definition m68k_op_cmpa_32_al :: "'b op" where
  "m68k_op_cmpa_32_al s =
    (chain (OPER_AL_32 s) (\<lambda>src s.
     let dst = AX s;
         res = dst - src
     in Ret () (s\<lparr>n_flag := NFLAG_32 res,
          not_z_flag := MASK_OUT_ABOVE_32 res,
          v_flag := VFLAG_SUB_32 src dst res,
          c_flag := CFLAG_SUB_32 src dst res\<rparr>)))"

definition m68k_op_cmpa_32_pcdi :: "'b op" where
  "m68k_op_cmpa_32_pcdi s =
    (chain (OPER_PCDI_32 s) (\<lambda>src s.
     let dst = AX s;
         res = dst - src
     in Ret () (s\<lparr>n_flag := NFLAG_32 res,
          not_z_flag := MASK_OUT_ABOVE_32 res,
          v_flag := VFLAG_SUB_32 src dst res,
          c_flag := CFLAG_SUB_32 src dst res\<rparr>)))"

definition m68k_op_cmpa_32_pcix :: "'b op" where
  "m68k_op_cmpa_32_pcix s =
    (chain (OPER_PCIX_32 s) (\<lambda>src s.
     let dst = AX s;
         res = dst - src
     in Ret () (s\<lparr>n_flag := NFLAG_32 res,
          not_z_flag := MASK_OUT_ABOVE_32 res,
          v_flag := VFLAG_SUB_32 src dst res,
          c_flag := CFLAG_SUB_32 src dst res\<rparr>)))"

definition m68k_op_cmpa_32_i :: "'b op" where
  "m68k_op_cmpa_32_i s =
    (chain (OPER_I_32 s) (\<lambda>src s.
     let dst = AX s;
         res = dst - src
     in Ret () (s\<lparr>n_flag := NFLAG_32 res,
          not_z_flag := MASK_OUT_ABOVE_32 res,
          v_flag := VFLAG_SUB_32 src dst res,
          c_flag := CFLAG_SUB_32 src dst res\<rparr>)))"

definition m68k_op_cmpi_8_d :: "'b op" where
  "m68k_op_cmpi_8_d s =
    (chain (OPER_I_8 s) (\<lambda>src s.
     let dst = MASK_OUT_ABOVE_8 (DY s);
         res = dst - src
     in Ret () (s\<lparr>n_flag := NFLAG_8 res,
          not_z_flag := MASK_OUT_ABOVE_8 res,
          v_flag := VFLAG_SUB_8 src dst res,
          c_flag := CFLAG_8 res\<rparr>)))"

definition m68k_op_cmpi_8_ai :: "'b op" where
  "m68k_op_cmpi_8_ai s =
    (chain (OPER_I_8 s) (\<lambda>src s.
     chain (OPER_AY_AI_8 s) (\<lambda>dst s.
     let res = dst - src
     in Ret () (s\<lparr>n_flag := NFLAG_8 res,
          not_z_flag := MASK_OUT_ABOVE_8 res,
          v_flag := VFLAG_SUB_8 src dst res,
          c_flag := CFLAG_8 res\<rparr>))))"

definition m68k_op_cmpi_8_pi :: "'b op" where
  "m68k_op_cmpi_8_pi s =
    (chain (OPER_I_8 s) (\<lambda>src s.
     chain (OPER_AY_PI_8 s) (\<lambda>dst s.
     let res = dst - src
     in Ret () (s\<lparr>n_flag := NFLAG_8 res,
          not_z_flag := MASK_OUT_ABOVE_8 res,
          v_flag := VFLAG_SUB_8 src dst res,
          c_flag := CFLAG_8 res\<rparr>))))"

definition m68k_op_cmpi_8_pi7 :: "'b op" where
  "m68k_op_cmpi_8_pi7 s =
    (chain (OPER_I_8 s) (\<lambda>src s.
     chain (OPER_A7_PI_8 s) (\<lambda>dst s.
     let res = dst - src
     in Ret () (s\<lparr>n_flag := NFLAG_8 res,
          not_z_flag := MASK_OUT_ABOVE_8 res,
          v_flag := VFLAG_SUB_8 src dst res,
          c_flag := CFLAG_8 res\<rparr>))))"

definition m68k_op_cmpi_8_pd :: "'b op" where
  "m68k_op_cmpi_8_pd s =
    (chain (OPER_I_8 s) (\<lambda>src s.
     chain (OPER_AY_PD_8 s) (\<lambda>dst s.
     let res = dst - src
     in Ret () (s\<lparr>n_flag := NFLAG_8 res,
          not_z_flag := MASK_OUT_ABOVE_8 res,
          v_flag := VFLAG_SUB_8 src dst res,
          c_flag := CFLAG_8 res\<rparr>))))"

definition m68k_op_cmpi_8_pd7 :: "'b op" where
  "m68k_op_cmpi_8_pd7 s =
    (chain (OPER_I_8 s) (\<lambda>src s.
     chain (OPER_A7_PD_8 s) (\<lambda>dst s.
     let res = dst - src
     in Ret () (s\<lparr>n_flag := NFLAG_8 res,
          not_z_flag := MASK_OUT_ABOVE_8 res,
          v_flag := VFLAG_SUB_8 src dst res,
          c_flag := CFLAG_8 res\<rparr>))))"

definition m68k_op_cmpi_8_di :: "'b op" where
  "m68k_op_cmpi_8_di s =
    (chain (OPER_I_8 s) (\<lambda>src s.
     chain (OPER_AY_DI_8 s) (\<lambda>dst s.
     let res = dst - src
     in Ret () (s\<lparr>n_flag := NFLAG_8 res,
          not_z_flag := MASK_OUT_ABOVE_8 res,
          v_flag := VFLAG_SUB_8 src dst res,
          c_flag := CFLAG_8 res\<rparr>))))"

definition m68k_op_cmpi_8_ix :: "'b op" where
  "m68k_op_cmpi_8_ix s =
    (chain (OPER_I_8 s) (\<lambda>src s.
     chain (OPER_AY_IX_8 s) (\<lambda>dst s.
     let res = dst - src
     in Ret () (s\<lparr>n_flag := NFLAG_8 res,
          not_z_flag := MASK_OUT_ABOVE_8 res,
          v_flag := VFLAG_SUB_8 src dst res,
          c_flag := CFLAG_8 res\<rparr>))))"

definition m68k_op_cmpi_8_aw :: "'b op" where
  "m68k_op_cmpi_8_aw s =
    (chain (OPER_I_8 s) (\<lambda>src s.
     chain (OPER_AW_8 s) (\<lambda>dst s.
     let res = dst - src
     in Ret () (s\<lparr>n_flag := NFLAG_8 res,
          not_z_flag := MASK_OUT_ABOVE_8 res,
          v_flag := VFLAG_SUB_8 src dst res,
          c_flag := CFLAG_8 res\<rparr>))))"

definition m68k_op_cmpi_8_al :: "'b op" where
  "m68k_op_cmpi_8_al s =
    (chain (OPER_I_8 s) (\<lambda>src s.
     chain (OPER_AL_8 s) (\<lambda>dst s.
     let res = dst - src
     in Ret () (s\<lparr>n_flag := NFLAG_8 res,
          not_z_flag := MASK_OUT_ABOVE_8 res,
          v_flag := VFLAG_SUB_8 src dst res,
          c_flag := CFLAG_8 res\<rparr>))))"

definition m68k_op_cmpi_8_pcdi :: "'b op" where
  "m68k_op_cmpi_8_pcdi s =
    (if CPU_TYPE_IS_EC020_PLUS (cpu_type s)
     then chain (OPER_I_8 s) (\<lambda>src s.
          chain (OPER_PCDI_8 s) (\<lambda>dst s.
          let res = dst - src
          in Ret () (s\<lparr>n_flag := NFLAG_8 res,
               not_z_flag := MASK_OUT_ABOVE_8 res,
               v_flag := VFLAG_SUB_8 src dst res,
               c_flag := CFLAG_8 res\<rparr>)))
     else m68ki_exception_illegal s)"

definition m68k_op_cmpi_8_pcix :: "'b op" where
  "m68k_op_cmpi_8_pcix s =
    (if CPU_TYPE_IS_EC020_PLUS (cpu_type s)
     then chain (OPER_I_8 s) (\<lambda>src s.
          chain (OPER_PCIX_8 s) (\<lambda>dst s.
          let res = dst - src
          in Ret () (s\<lparr>n_flag := NFLAG_8 res,
               not_z_flag := MASK_OUT_ABOVE_8 res,
               v_flag := VFLAG_SUB_8 src dst res,
               c_flag := CFLAG_8 res\<rparr>)))
     else m68ki_exception_illegal s)"

definition m68k_op_cmpi_16_d :: "'b op" where
  "m68k_op_cmpi_16_d s =
    (chain (OPER_I_16 s) (\<lambda>src s.
     let dst = MASK_OUT_ABOVE_16 (DY s);
         res = dst - src
     in Ret () (s\<lparr>n_flag := NFLAG_16 res,
          not_z_flag := MASK_OUT_ABOVE_16 res,
          v_flag := VFLAG_SUB_16 src dst res,
          c_flag := CFLAG_16 res\<rparr>)))"

definition m68k_op_cmpi_16_ai :: "'b op" where
  "m68k_op_cmpi_16_ai s =
    (chain (OPER_I_16 s) (\<lambda>src s.
     chain (OPER_AY_AI_16 s) (\<lambda>dst s.
     let res = dst - src
     in Ret () (s\<lparr>n_flag := NFLAG_16 res,
          not_z_flag := MASK_OUT_ABOVE_16 res,
          v_flag := VFLAG_SUB_16 src dst res,
          c_flag := CFLAG_16 res\<rparr>))))"

definition m68k_op_cmpi_16_pi :: "'b op" where
  "m68k_op_cmpi_16_pi s =
    (chain (OPER_I_16 s) (\<lambda>src s.
     chain (OPER_AY_PI_16 s) (\<lambda>dst s.
     let res = dst - src
     in Ret () (s\<lparr>n_flag := NFLAG_16 res,
          not_z_flag := MASK_OUT_ABOVE_16 res,
          v_flag := VFLAG_SUB_16 src dst res,
          c_flag := CFLAG_16 res\<rparr>))))"

definition m68k_op_cmpi_16_pd :: "'b op" where
  "m68k_op_cmpi_16_pd s =
    (chain (OPER_I_16 s) (\<lambda>src s.
     chain (OPER_AY_PD_16 s) (\<lambda>dst s.
     let res = dst - src
     in Ret () (s\<lparr>n_flag := NFLAG_16 res,
          not_z_flag := MASK_OUT_ABOVE_16 res,
          v_flag := VFLAG_SUB_16 src dst res,
          c_flag := CFLAG_16 res\<rparr>))))"

definition m68k_op_cmpi_16_di :: "'b op" where
  "m68k_op_cmpi_16_di s =
    (chain (OPER_I_16 s) (\<lambda>src s.
     chain (OPER_AY_DI_16 s) (\<lambda>dst s.
     let res = dst - src
     in Ret () (s\<lparr>n_flag := NFLAG_16 res,
          not_z_flag := MASK_OUT_ABOVE_16 res,
          v_flag := VFLAG_SUB_16 src dst res,
          c_flag := CFLAG_16 res\<rparr>))))"

definition m68k_op_cmpi_16_ix :: "'b op" where
  "m68k_op_cmpi_16_ix s =
    (chain (OPER_I_16 s) (\<lambda>src s.
     chain (OPER_AY_IX_16 s) (\<lambda>dst s.
     let res = dst - src
     in Ret () (s\<lparr>n_flag := NFLAG_16 res,
          not_z_flag := MASK_OUT_ABOVE_16 res,
          v_flag := VFLAG_SUB_16 src dst res,
          c_flag := CFLAG_16 res\<rparr>))))"

definition m68k_op_cmpi_16_aw :: "'b op" where
  "m68k_op_cmpi_16_aw s =
    (chain (OPER_I_16 s) (\<lambda>src s.
     chain (OPER_AW_16 s) (\<lambda>dst s.
     let res = dst - src
     in Ret () (s\<lparr>n_flag := NFLAG_16 res,
          not_z_flag := MASK_OUT_ABOVE_16 res,
          v_flag := VFLAG_SUB_16 src dst res,
          c_flag := CFLAG_16 res\<rparr>))))"

definition m68k_op_cmpi_16_al :: "'b op" where
  "m68k_op_cmpi_16_al s =
    (chain (OPER_I_16 s) (\<lambda>src s.
     chain (OPER_AL_16 s) (\<lambda>dst s.
     let res = dst - src
     in Ret () (s\<lparr>n_flag := NFLAG_16 res,
          not_z_flag := MASK_OUT_ABOVE_16 res,
          v_flag := VFLAG_SUB_16 src dst res,
          c_flag := CFLAG_16 res\<rparr>))))"

definition m68k_op_cmpi_16_pcdi :: "'b op" where
  "m68k_op_cmpi_16_pcdi s =
    (if CPU_TYPE_IS_EC020_PLUS (cpu_type s)
     then chain (OPER_I_16 s) (\<lambda>src s.
          chain (OPER_PCDI_16 s) (\<lambda>dst s.
          let res = dst - src
          in Ret () (s\<lparr>n_flag := NFLAG_16 res,
               not_z_flag := MASK_OUT_ABOVE_16 res,
               v_flag := VFLAG_SUB_16 src dst res,
               c_flag := CFLAG_16 res\<rparr>)))
     else m68ki_exception_illegal s)"

definition m68k_op_cmpi_16_pcix :: "'b op" where
  "m68k_op_cmpi_16_pcix s =
    (if CPU_TYPE_IS_EC020_PLUS (cpu_type s)
     then chain (OPER_I_16 s) (\<lambda>src s.
          chain (OPER_PCIX_16 s) (\<lambda>dst s.
          let res = dst - src
          in Ret () (s\<lparr>n_flag := NFLAG_16 res,
               not_z_flag := MASK_OUT_ABOVE_16 res,
               v_flag := VFLAG_SUB_16 src dst res,
               c_flag := CFLAG_16 res\<rparr>)))
     else m68ki_exception_illegal s)"

definition m68k_op_cmpi_32_d :: "'b op" where
  "m68k_op_cmpi_32_d s =
    (chain (OPER_I_32 s) (\<lambda>src s.
     let dst = DY s;
         res = dst - src
     in Ret () (s\<lparr>n_flag := NFLAG_32 res,
          not_z_flag := MASK_OUT_ABOVE_32 res,
          v_flag := VFLAG_SUB_32 src dst res,
          c_flag := CFLAG_SUB_32 src dst res\<rparr>)))"

definition m68k_op_cmpi_32_ai :: "'b op" where
  "m68k_op_cmpi_32_ai s =
    (chain (OPER_I_32 s) (\<lambda>src s.
     chain (OPER_AY_AI_32 s) (\<lambda>dst s.
     let res = dst - src
     in Ret () (s\<lparr>n_flag := NFLAG_32 res,
          not_z_flag := MASK_OUT_ABOVE_32 res,
          v_flag := VFLAG_SUB_32 src dst res,
          c_flag := CFLAG_SUB_32 src dst res\<rparr>))))"

definition m68k_op_cmpi_32_pi :: "'b op" where
  "m68k_op_cmpi_32_pi s =
    (chain (OPER_I_32 s) (\<lambda>src s.
     chain (OPER_AY_PI_32 s) (\<lambda>dst s.
     let res = dst - src
     in Ret () (s\<lparr>n_flag := NFLAG_32 res,
          not_z_flag := MASK_OUT_ABOVE_32 res,
          v_flag := VFLAG_SUB_32 src dst res,
          c_flag := CFLAG_SUB_32 src dst res\<rparr>))))"

definition m68k_op_cmpi_32_pd :: "'b op" where
  "m68k_op_cmpi_32_pd s =
    (chain (OPER_I_32 s) (\<lambda>src s.
     chain (OPER_AY_PD_32 s) (\<lambda>dst s.
     let res = dst - src
     in Ret () (s\<lparr>n_flag := NFLAG_32 res,
          not_z_flag := MASK_OUT_ABOVE_32 res,
          v_flag := VFLAG_SUB_32 src dst res,
          c_flag := CFLAG_SUB_32 src dst res\<rparr>))))"

definition m68k_op_cmpi_32_di :: "'b op" where
  "m68k_op_cmpi_32_di s =
    (chain (OPER_I_32 s) (\<lambda>src s.
     chain (OPER_AY_DI_32 s) (\<lambda>dst s.
     let res = dst - src
     in Ret () (s\<lparr>n_flag := NFLAG_32 res,
          not_z_flag := MASK_OUT_ABOVE_32 res,
          v_flag := VFLAG_SUB_32 src dst res,
          c_flag := CFLAG_SUB_32 src dst res\<rparr>))))"

definition m68k_op_cmpi_32_ix :: "'b op" where
  "m68k_op_cmpi_32_ix s =
    (chain (OPER_I_32 s) (\<lambda>src s.
     chain (OPER_AY_IX_32 s) (\<lambda>dst s.
     let res = dst - src
     in Ret () (s\<lparr>n_flag := NFLAG_32 res,
          not_z_flag := MASK_OUT_ABOVE_32 res,
          v_flag := VFLAG_SUB_32 src dst res,
          c_flag := CFLAG_SUB_32 src dst res\<rparr>))))"

definition m68k_op_cmpi_32_aw :: "'b op" where
  "m68k_op_cmpi_32_aw s =
    (chain (OPER_I_32 s) (\<lambda>src s.
     chain (OPER_AW_32 s) (\<lambda>dst s.
     let res = dst - src
     in Ret () (s\<lparr>n_flag := NFLAG_32 res,
          not_z_flag := MASK_OUT_ABOVE_32 res,
          v_flag := VFLAG_SUB_32 src dst res,
          c_flag := CFLAG_SUB_32 src dst res\<rparr>))))"

definition m68k_op_cmpi_32_al :: "'b op" where
  "m68k_op_cmpi_32_al s =
    (chain (OPER_I_32 s) (\<lambda>src s.
     chain (OPER_AL_32 s) (\<lambda>dst s.
     let res = dst - src
     in Ret () (s\<lparr>n_flag := NFLAG_32 res,
          not_z_flag := MASK_OUT_ABOVE_32 res,
          v_flag := VFLAG_SUB_32 src dst res,
          c_flag := CFLAG_SUB_32 src dst res\<rparr>))))"

definition m68k_op_cmpi_32_pcdi :: "'b op" where
  "m68k_op_cmpi_32_pcdi s =
    (if CPU_TYPE_IS_EC020_PLUS (cpu_type s)
     then chain (OPER_I_32 s) (\<lambda>src s.
          chain (OPER_PCDI_32 s) (\<lambda>dst s.
          let res = dst - src
          in Ret () (s\<lparr>n_flag := NFLAG_32 res,
               not_z_flag := MASK_OUT_ABOVE_32 res,
               v_flag := VFLAG_SUB_32 src dst res,
               c_flag := CFLAG_SUB_32 src dst res\<rparr>)))
     else m68ki_exception_illegal s)"

definition m68k_op_cmpi_32_pcix :: "'b op" where
  "m68k_op_cmpi_32_pcix s =
    (if CPU_TYPE_IS_EC020_PLUS (cpu_type s)
     then chain (OPER_I_32 s) (\<lambda>src s.
          chain (OPER_PCIX_32 s) (\<lambda>dst s.
          let res = dst - src
          in Ret () (s\<lparr>n_flag := NFLAG_32 res,
               not_z_flag := MASK_OUT_ABOVE_32 res,
               v_flag := VFLAG_SUB_32 src dst res,
               c_flag := CFLAG_SUB_32 src dst res\<rparr>)))
     else m68ki_exception_illegal s)"

definition m68k_op_cmpm_8_ax7 :: "'b op" where
  "m68k_op_cmpm_8_ax7 s =
    (chain (OPER_AY_PI_8 s) (\<lambda>src s.
     chain (OPER_A7_PI_8 s) (\<lambda>dst s.
     let res = dst - src
     in Ret () (s\<lparr>n_flag := NFLAG_8 res,
          not_z_flag := MASK_OUT_ABOVE_8 res,
          v_flag := VFLAG_SUB_8 src dst res,
          c_flag := CFLAG_8 res\<rparr>))))"

definition m68k_op_cmpm_8_ay7 :: "'b op" where
  "m68k_op_cmpm_8_ay7 s =
    (chain (OPER_A7_PI_8 s) (\<lambda>src s.
     chain (OPER_AX_PI_8 s) (\<lambda>dst s.
     let res = dst - src
     in Ret () (s\<lparr>n_flag := NFLAG_8 res,
          not_z_flag := MASK_OUT_ABOVE_8 res,
          v_flag := VFLAG_SUB_8 src dst res,
          c_flag := CFLAG_8 res\<rparr>))))"

definition m68k_op_cmpm_8_axy7 :: "'b op" where
  "m68k_op_cmpm_8_axy7 s =
    (chain (OPER_A7_PI_8 s) (\<lambda>src s.
     chain (OPER_A7_PI_8 s) (\<lambda>dst s.
     let res = dst - src
     in Ret () (s\<lparr>n_flag := NFLAG_8 res,
          not_z_flag := MASK_OUT_ABOVE_8 res,
          v_flag := VFLAG_SUB_8 src dst res,
          c_flag := CFLAG_8 res\<rparr>))))"

definition m68k_op_cmpm_8 :: "'b op" where
  "m68k_op_cmpm_8 s =
    (chain (OPER_AY_PI_8 s) (\<lambda>src s.
     chain (OPER_AX_PI_8 s) (\<lambda>dst s.
     let res = dst - src
     in Ret () (s\<lparr>n_flag := NFLAG_8 res,
          not_z_flag := MASK_OUT_ABOVE_8 res,
          v_flag := VFLAG_SUB_8 src dst res,
          c_flag := CFLAG_8 res\<rparr>))))"

definition m68k_op_cmpm_16 :: "'b op" where
  "m68k_op_cmpm_16 s =
    (chain (OPER_AY_PI_16 s) (\<lambda>src s.
     chain (OPER_AX_PI_16 s) (\<lambda>dst s.
     let res = dst - src
     in Ret () (s\<lparr>n_flag := NFLAG_16 res,
          not_z_flag := MASK_OUT_ABOVE_16 res,
          v_flag := VFLAG_SUB_16 src dst res,
          c_flag := CFLAG_16 res\<rparr>))))"

definition m68k_op_cmpm_32 :: "'b op" where
  "m68k_op_cmpm_32 s =
    (chain (OPER_AY_PI_32 s) (\<lambda>src s.
     chain (OPER_AX_PI_32 s) (\<lambda>dst s.
     let res = dst - src
     in Ret () (s\<lparr>n_flag := NFLAG_32 res,
          not_z_flag := MASK_OUT_ABOVE_32 res,
          v_flag := VFLAG_SUB_32 src dst res,
          c_flag := CFLAG_SUB_32 src dst res\<rparr>))))"

definition m68k_op_tst_8_d :: "'b op" where
  "m68k_op_tst_8_d s =
    (let res = MASK_OUT_ABOVE_8 (DY s)
     in Ret () (s\<lparr>n_flag := NFLAG_8 res,
          not_z_flag := res,
          v_flag := VFLAG_CLEAR,
          c_flag := CFLAG_CLEAR\<rparr>))"

definition m68k_op_tst_8_ai :: "'b op" where
  "m68k_op_tst_8_ai s =
    (chain (OPER_AY_AI_8 s) (\<lambda>res s.
     Ret () (s\<lparr>n_flag := NFLAG_8 res,
       not_z_flag := res,
       v_flag := VFLAG_CLEAR,
       c_flag := CFLAG_CLEAR\<rparr>)))"

definition m68k_op_tst_8_pi :: "'b op" where
  "m68k_op_tst_8_pi s =
    (chain (OPER_AY_PI_8 s) (\<lambda>res s.
     Ret () (s\<lparr>n_flag := NFLAG_8 res,
       not_z_flag := res,
       v_flag := VFLAG_CLEAR,
       c_flag := CFLAG_CLEAR\<rparr>)))"

definition m68k_op_tst_8_pi7 :: "'b op" where
  "m68k_op_tst_8_pi7 s =
    (chain (OPER_A7_PI_8 s) (\<lambda>res s.
     Ret () (s\<lparr>n_flag := NFLAG_8 res,
       not_z_flag := res,
       v_flag := VFLAG_CLEAR,
       c_flag := CFLAG_CLEAR\<rparr>)))"

definition m68k_op_tst_8_pd :: "'b op" where
  "m68k_op_tst_8_pd s =
    (chain (OPER_AY_PD_8 s) (\<lambda>res s.
     Ret () (s\<lparr>n_flag := NFLAG_8 res,
       not_z_flag := res,
       v_flag := VFLAG_CLEAR,
       c_flag := CFLAG_CLEAR\<rparr>)))"

definition m68k_op_tst_8_pd7 :: "'b op" where
  "m68k_op_tst_8_pd7 s =
    (chain (OPER_A7_PD_8 s) (\<lambda>res s.
     Ret () (s\<lparr>n_flag := NFLAG_8 res,
       not_z_flag := res,
       v_flag := VFLAG_CLEAR,
       c_flag := CFLAG_CLEAR\<rparr>)))"

definition m68k_op_tst_8_di :: "'b op" where
  "m68k_op_tst_8_di s =
    (chain (OPER_AY_DI_8 s) (\<lambda>res s.
     Ret () (s\<lparr>n_flag := NFLAG_8 res,
       not_z_flag := res,
       v_flag := VFLAG_CLEAR,
       c_flag := CFLAG_CLEAR\<rparr>)))"

definition m68k_op_tst_8_ix :: "'b op" where
  "m68k_op_tst_8_ix s =
    (chain (OPER_AY_IX_8 s) (\<lambda>res s.
     Ret () (s\<lparr>n_flag := NFLAG_8 res,
       not_z_flag := res,
       v_flag := VFLAG_CLEAR,
       c_flag := CFLAG_CLEAR\<rparr>)))"

definition m68k_op_tst_8_aw :: "'b op" where
  "m68k_op_tst_8_aw s =
    (chain (OPER_AW_8 s) (\<lambda>res s.
     Ret () (s\<lparr>n_flag := NFLAG_8 res,
       not_z_flag := res,
       v_flag := VFLAG_CLEAR,
       c_flag := CFLAG_CLEAR\<rparr>)))"

definition m68k_op_tst_8_al :: "'b op" where
  "m68k_op_tst_8_al s =
    (chain (OPER_AL_8 s) (\<lambda>res s.
     Ret () (s\<lparr>n_flag := NFLAG_8 res,
       not_z_flag := res,
       v_flag := VFLAG_CLEAR,
       c_flag := CFLAG_CLEAR\<rparr>)))"

definition m68k_op_tst_8_pcdi :: "'b op" where
  "m68k_op_tst_8_pcdi s =
    (if CPU_TYPE_IS_EC020_PLUS (cpu_type s)
     then chain (OPER_PCDI_8 s) (\<lambda>res s.
          Ret () (s\<lparr>n_flag := NFLAG_8 res,
            not_z_flag := res,
            v_flag := VFLAG_CLEAR,
            c_flag := CFLAG_CLEAR\<rparr>))
     else m68ki_exception_illegal s)"

definition m68k_op_tst_8_pcix :: "'b op" where
  "m68k_op_tst_8_pcix s =
    (if CPU_TYPE_IS_EC020_PLUS (cpu_type s)
     then chain (OPER_PCIX_8 s) (\<lambda>res s.
          Ret () (s\<lparr>n_flag := NFLAG_8 res,
            not_z_flag := res,
            v_flag := VFLAG_CLEAR,
            c_flag := CFLAG_CLEAR\<rparr>))
     else m68ki_exception_illegal s)"

definition m68k_op_tst_8_i :: "'b op" where
  "m68k_op_tst_8_i s =
    (if CPU_TYPE_IS_EC020_PLUS (cpu_type s)
     then chain (OPER_I_8 s) (\<lambda>res s.
          Ret () (s\<lparr>n_flag := NFLAG_8 res,
            not_z_flag := res,
            v_flag := VFLAG_CLEAR,
            c_flag := CFLAG_CLEAR\<rparr>))
     else m68ki_exception_illegal s)"

definition m68k_op_tst_16_d :: "'b op" where
  "m68k_op_tst_16_d s =
    (let res = MASK_OUT_ABOVE_16 (DY s)
     in Ret () (s\<lparr>n_flag := NFLAG_16 res,
          not_z_flag := res,
          v_flag := VFLAG_CLEAR,
          c_flag := CFLAG_CLEAR\<rparr>))"

definition m68k_op_tst_16_a :: "'b op" where
  "m68k_op_tst_16_a s =
    (if CPU_TYPE_IS_EC020_PLUS (cpu_type s)
     then let res = MAKE_INT_16 (AY s)
          in Ret () (s\<lparr>n_flag := NFLAG_16 res,
               not_z_flag := res,
               v_flag := VFLAG_CLEAR,
               c_flag := CFLAG_CLEAR\<rparr>)
     else m68ki_exception_illegal s)"

definition m68k_op_tst_16_ai :: "'b op" where
  "m68k_op_tst_16_ai s =
    (chain (OPER_AY_AI_16 s) (\<lambda>res s.
     Ret () (s\<lparr>n_flag := NFLAG_16 res,
       not_z_flag := res,
       v_flag := VFLAG_CLEAR,
       c_flag := CFLAG_CLEAR\<rparr>)))"

definition m68k_op_tst_16_pi :: "'b op" where
  "m68k_op_tst_16_pi s =
    (chain (OPER_AY_PI_16 s) (\<lambda>res s.
     Ret () (s\<lparr>n_flag := NFLAG_16 res,
       not_z_flag := res,
       v_flag := VFLAG_CLEAR,
       c_flag := CFLAG_CLEAR\<rparr>)))"

definition m68k_op_tst_16_pd :: "'b op" where
  "m68k_op_tst_16_pd s =
    (chain (OPER_AY_PD_16 s) (\<lambda>res s.
     Ret () (s\<lparr>n_flag := NFLAG_16 res,
       not_z_flag := res,
       v_flag := VFLAG_CLEAR,
       c_flag := CFLAG_CLEAR\<rparr>)))"

definition m68k_op_tst_16_di :: "'b op" where
  "m68k_op_tst_16_di s =
    (chain (OPER_AY_DI_16 s) (\<lambda>res s.
     Ret () (s\<lparr>n_flag := NFLAG_16 res,
       not_z_flag := res,
       v_flag := VFLAG_CLEAR,
       c_flag := CFLAG_CLEAR\<rparr>)))"

definition m68k_op_tst_16_ix :: "'b op" where
  "m68k_op_tst_16_ix s =
    (chain (OPER_AY_IX_16 s) (\<lambda>res s.
     Ret () (s\<lparr>n_flag := NFLAG_16 res,
       not_z_flag := res,
       v_flag := VFLAG_CLEAR,
       c_flag := CFLAG_CLEAR\<rparr>)))"

definition m68k_op_tst_16_aw :: "'b op" where
  "m68k_op_tst_16_aw s =
    (chain (OPER_AW_16 s) (\<lambda>res s.
     Ret () (s\<lparr>n_flag := NFLAG_16 res,
       not_z_flag := res,
       v_flag := VFLAG_CLEAR,
       c_flag := CFLAG_CLEAR\<rparr>)))"

definition m68k_op_tst_16_al :: "'b op" where
  "m68k_op_tst_16_al s =
    (chain (OPER_AL_16 s) (\<lambda>res s.
     Ret () (s\<lparr>n_flag := NFLAG_16 res,
       not_z_flag := res,
       v_flag := VFLAG_CLEAR,
       c_flag := CFLAG_CLEAR\<rparr>)))"

definition m68k_op_tst_16_pcdi :: "'b op" where
  "m68k_op_tst_16_pcdi s =
    (if CPU_TYPE_IS_EC020_PLUS (cpu_type s)
     then chain (OPER_PCDI_16 s) (\<lambda>res s.
          Ret () (s\<lparr>n_flag := NFLAG_16 res,
            not_z_flag := res,
            v_flag := VFLAG_CLEAR,
            c_flag := CFLAG_CLEAR\<rparr>))
     else m68ki_exception_illegal s)"

definition m68k_op_tst_16_pcix :: "'b op" where
  "m68k_op_tst_16_pcix s =
    (if CPU_TYPE_IS_EC020_PLUS (cpu_type s)
     then chain (OPER_PCIX_16 s) (\<lambda>res s.
          Ret () (s\<lparr>n_flag := NFLAG_16 res,
            not_z_flag := res,
            v_flag := VFLAG_CLEAR,
            c_flag := CFLAG_CLEAR\<rparr>))
     else m68ki_exception_illegal s)"

definition m68k_op_tst_16_i :: "'b op" where
  "m68k_op_tst_16_i s =
    (if CPU_TYPE_IS_EC020_PLUS (cpu_type s)
     then chain (OPER_I_16 s) (\<lambda>res s.
          Ret () (s\<lparr>n_flag := NFLAG_16 res,
            not_z_flag := res,
            v_flag := VFLAG_CLEAR,
            c_flag := CFLAG_CLEAR\<rparr>))
     else m68ki_exception_illegal s)"

definition m68k_op_tst_32_d :: "'b op" where
  "m68k_op_tst_32_d s =
    (let res = DY s
     in Ret () (s\<lparr>n_flag := NFLAG_32 res,
          not_z_flag := res,
          v_flag := VFLAG_CLEAR,
          c_flag := CFLAG_CLEAR\<rparr>))"

definition m68k_op_tst_32_a :: "'b op" where
  "m68k_op_tst_32_a s =
    (if CPU_TYPE_IS_EC020_PLUS (cpu_type s)
     then let res = AY s
          in Ret () (s\<lparr>n_flag := NFLAG_32 res,
               not_z_flag := res,
               v_flag := VFLAG_CLEAR,
               c_flag := CFLAG_CLEAR\<rparr>)
     else m68ki_exception_illegal s)"

definition m68k_op_tst_32_ai :: "'b op" where
  "m68k_op_tst_32_ai s =
    (chain (OPER_AY_AI_32 s) (\<lambda>res s.
     Ret () (s\<lparr>n_flag := NFLAG_32 res,
       not_z_flag := res,
       v_flag := VFLAG_CLEAR,
       c_flag := CFLAG_CLEAR\<rparr>)))"

definition m68k_op_tst_32_pi :: "'b op" where
  "m68k_op_tst_32_pi s =
    (chain (OPER_AY_PI_32 s) (\<lambda>res s.
     Ret () (s\<lparr>n_flag := NFLAG_32 res,
       not_z_flag := res,
       v_flag := VFLAG_CLEAR,
       c_flag := CFLAG_CLEAR\<rparr>)))"

definition m68k_op_tst_32_pd :: "'b op" where
  "m68k_op_tst_32_pd s =
    (chain (OPER_AY_PD_32 s) (\<lambda>res s.
     Ret () (s\<lparr>n_flag := NFLAG_32 res,
       not_z_flag := res,
       v_flag := VFLAG_CLEAR,
       c_flag := CFLAG_CLEAR\<rparr>)))"

definition m68k_op_tst_32_di :: "'b op" where
  "m68k_op_tst_32_di s =
    (chain (OPER_AY_DI_32 s) (\<lambda>res s.
     Ret () (s\<lparr>n_flag := NFLAG_32 res,
       not_z_flag := res,
       v_flag := VFLAG_CLEAR,
       c_flag := CFLAG_CLEAR\<rparr>)))"

definition m68k_op_tst_32_ix :: "'b op" where
  "m68k_op_tst_32_ix s =
    (chain (OPER_AY_IX_32 s) (\<lambda>res s.
     Ret () (s\<lparr>n_flag := NFLAG_32 res,
       not_z_flag := res,
       v_flag := VFLAG_CLEAR,
       c_flag := CFLAG_CLEAR\<rparr>)))"

definition m68k_op_tst_32_aw :: "'b op" where
  "m68k_op_tst_32_aw s =
    (chain (OPER_AW_32 s) (\<lambda>res s.
     Ret () (s\<lparr>n_flag := NFLAG_32 res,
       not_z_flag := res,
       v_flag := VFLAG_CLEAR,
       c_flag := CFLAG_CLEAR\<rparr>)))"

definition m68k_op_tst_32_al :: "'b op" where
  "m68k_op_tst_32_al s =
    (chain (OPER_AL_32 s) (\<lambda>res s.
     Ret () (s\<lparr>n_flag := NFLAG_32 res,
       not_z_flag := res,
       v_flag := VFLAG_CLEAR,
       c_flag := CFLAG_CLEAR\<rparr>)))"

definition m68k_op_tst_32_pcdi :: "'b op" where
  "m68k_op_tst_32_pcdi s =
    (if CPU_TYPE_IS_EC020_PLUS (cpu_type s)
     then chain (OPER_PCDI_32 s) (\<lambda>res s.
          Ret () (s\<lparr>n_flag := NFLAG_32 res,
            not_z_flag := res,
            v_flag := VFLAG_CLEAR,
            c_flag := CFLAG_CLEAR\<rparr>))
     else m68ki_exception_illegal s)"

definition m68k_op_tst_32_pcix :: "'b op" where
  "m68k_op_tst_32_pcix s =
    (if CPU_TYPE_IS_EC020_PLUS (cpu_type s)
     then chain (OPER_PCIX_32 s) (\<lambda>res s.
          Ret () (s\<lparr>n_flag := NFLAG_32 res,
            not_z_flag := res,
            v_flag := VFLAG_CLEAR,
            c_flag := CFLAG_CLEAR\<rparr>))
     else m68ki_exception_illegal s)"

definition m68k_op_tst_32_i :: "'b op" where
  "m68k_op_tst_32_i s =
    (if CPU_TYPE_IS_EC020_PLUS (cpu_type s)
     then chain (OPER_I_32 s) (\<lambda>res s.
          Ret () (s\<lparr>n_flag := NFLAG_32 res,
            not_z_flag := res,
            v_flag := VFLAG_CLEAR,
            c_flag := CFLAG_CLEAR\<rparr>))
     else m68ki_exception_illegal s)"

end
