(* ===== verification/ArithLaws.thy ===== *)
theory ArithLaws
  imports AluSpec OpsAdd OpsSub OpsCmp
begin

section \<open>Addition, subtraction and comparison\<close>

text \<open>
  The handlers of ADD, SUB and CMP with a data register as destination, one per operand mode and
  size, against the reference of AluSpec; comparisons against the orders on the operands; and the
  extended forms, which chain operations of arbitrary precision.
\<close>

unbundle bit_operations_syntax

subsection \<open>One step of the arithmetic unit\<close>

text \<open>The handlers set the flags in different orders.\<close>

lemma flag_order:
  "u\<lparr>n_flag := n, v_flag := v, c_flag := c, x_flag := x, not_z_flag := z\<rparr> =
   u\<lparr>x_flag := x, n_flag := n, not_z_flag := z, v_flag := v, c_flag := c\<rparr>"
  "u\<lparr>n_flag := n, c_flag := c, x_flag := x, v_flag := v, not_z_flag := z\<rparr> =
   u\<lparr>x_flag := x, n_flag := n, not_z_flag := z, v_flag := v, c_flag := c\<rparr>"
  for u :: "'b machine"
  by (rule machine.equality; simp)+

abbreviation set_flags :: "u32 \<Rightarrow> u32 \<Rightarrow> u32 \<Rightarrow> u32 \<Rightarrow> u32 \<Rightarrow> 'b machine \<Rightarrow> 'b machine" where
  "set_flags xf nf zf vf cf u \<equiv>
     u\<lparr>x_flag := xf, n_flag := nf, not_z_flag := zf, v_flag := vf, c_flag := cf\<rparr>"

lemma flags_step: "flags_ccr xf nf zf vf cf = c \<Longrightarrow> flags_done u (set_flags xf nf zf vf cf u) c"
  by (simp add: flags_done_def ccr_of_flags)

lemma alu_step:
  "flags_ccr xf nf zf vf cf = c \<Longrightarrow>
   alu_done u (set_DX v (set_flags xf nf zf vf cf u)) (unat (regX u)) v c"
  by (simp add: alu_done_def flags_done_def ccr_of_flags register_defs regX_def)

lemma compare_step:
  "flags_ccr (x_flag u) nf zf vf cf = c \<Longrightarrow>
   flags_done u (u\<lparr>n_flag := nf, not_z_flag := zf, v_flag := vf, c_flag := cf\<rparr>) c"
  by (simp add: flags_done_def ccr_of_flags)

lemma DX_set_flags [simp]: "DX (set_flags xf nf zf vf cf u) = DX u"
  by (simp add: register_defs regX_def)

text \<open>Where the destination of ADD and SUB goes, per size.\<close>

definition add_to_DX_8 :: "u32 \<Rightarrow> 'b machine \<Rightarrow> 'b machine \<Rightarrow> bool" where
  "add_to_DX_8 src u t \<longleftrightarrow> alu_done u t (unat (regX u))
     (put_low8 (DX u) (low8 (DX u) + low8 src)) (add_ccr (low8 (DX u)) (low8 src) False)"

definition add_to_DX_16 :: "u32 \<Rightarrow> 'b machine \<Rightarrow> 'b machine \<Rightarrow> bool" where
  "add_to_DX_16 src u t \<longleftrightarrow> alu_done u t (unat (regX u))
     (put_low16 (DX u) (low16 (DX u) + low16 src)) (add_ccr (low16 (DX u)) (low16 src) False)"

definition add_to_DX_32 :: "u32 \<Rightarrow> 'b machine \<Rightarrow> 'b machine \<Rightarrow> bool" where
  "add_to_DX_32 src u t \<longleftrightarrow>
     alu_done u t (unat (regX u)) (DX u + src) (add_ccr (DX u) src False)"

definition sub_from_DX_8 :: "u32 \<Rightarrow> 'b machine \<Rightarrow> 'b machine \<Rightarrow> bool" where
  "sub_from_DX_8 src u t \<longleftrightarrow> alu_done u t (unat (regX u))
     (put_low8 (DX u) (low8 (DX u) - low8 src)) (sub_ccr (low8 (DX u)) (low8 src) False)"

definition sub_from_DX_16 :: "u32 \<Rightarrow> 'b machine \<Rightarrow> 'b machine \<Rightarrow> bool" where
  "sub_from_DX_16 src u t \<longleftrightarrow> alu_done u t (unat (regX u))
     (put_low16 (DX u) (low16 (DX u) - low16 src)) (sub_ccr (low16 (DX u)) (low16 src) False)"

definition sub_from_DX_32 :: "u32 \<Rightarrow> 'b machine \<Rightarrow> 'b machine \<Rightarrow> bool" where
  "sub_from_DX_32 src u t \<longleftrightarrow>
     alu_done u t (unat (regX u)) (DX u - src) (sub_ccr (DX u) src False)"

subsection \<open>Results of the engine's formulas\<close>

definition add_result_8 :: "u32 \<Rightarrow> 'b machine \<Rightarrow> 'b machine" where
  "add_result_8 src u =
    (let dst = MASK_OUT_ABOVE_8 (DX u); res = src + dst; z = MASK_OUT_ABOVE_8 res
     in set_DX (MASK_OUT_BELOW_8 (DX u) OR z)
          (set_flags (CFLAG_8 res) (NFLAG_8 res) z (VFLAG_ADD_8 src dst res) (CFLAG_8 res) u))"

definition add_result_16 :: "u32 \<Rightarrow> 'b machine \<Rightarrow> 'b machine" where
  "add_result_16 src u =
    (let dst = MASK_OUT_ABOVE_16 (DX u); res = src + dst; z = MASK_OUT_ABOVE_16 res
     in set_DX (MASK_OUT_BELOW_16 (DX u) OR z)
          (set_flags (CFLAG_16 res) (NFLAG_16 res) z (VFLAG_ADD_16 src dst res) (CFLAG_16 res) u))"

definition add_result_32 :: "u32 \<Rightarrow> 'b machine \<Rightarrow> 'b machine" where
  "add_result_32 src u =
    (let dst = DX u; res = src + dst; z = res
     in set_DX (z)
          (set_flags (CFLAG_ADD_32 src dst res) (NFLAG_32 res) z (VFLAG_ADD_32 src dst res) (CFLAG_ADD_32 src dst res) u))"

definition sub_result_8 :: "u32 \<Rightarrow> 'b machine \<Rightarrow> 'b machine" where
  "sub_result_8 src u =
    (let dst = MASK_OUT_ABOVE_8 (DX u); res = dst - src; z = MASK_OUT_ABOVE_8 res
     in set_DX (MASK_OUT_BELOW_8 (DX u) OR z)
          (set_flags (CFLAG_8 res) (NFLAG_8 res) z (VFLAG_SUB_8 src dst res) (CFLAG_8 res) u))"

definition sub_result_16 :: "u32 \<Rightarrow> 'b machine \<Rightarrow> 'b machine" where
  "sub_result_16 src u =
    (let dst = MASK_OUT_ABOVE_16 (DX u); res = dst - src; z = MASK_OUT_ABOVE_16 res
     in set_DX (MASK_OUT_BELOW_16 (DX u) OR z)
          (set_flags (CFLAG_16 res) (NFLAG_16 res) z (VFLAG_SUB_16 src dst res) (CFLAG_16 res) u))"

definition sub_result_32 :: "u32 \<Rightarrow> 'b machine \<Rightarrow> 'b machine" where
  "sub_result_32 src u =
    (let dst = DX u; res = dst - src; z = res
     in set_DX (z)
          (set_flags (CFLAG_SUB_32 src dst res) (NFLAG_32 res) z (VFLAG_SUB_32 src dst res) (CFLAG_SUB_32 src dst res) u))"

lemma add_result_8_correct: "src < 256 \<Longrightarrow> add_to_DX_8 src u (add_result_8 src u)"
  using alu_step [OF add_flags_8 [of "low8 (DX u)" "low8 src" False]]
  by (simp add: add_to_DX_8_def add_result_8_def Let_def MASK_OUT_ABOVE_8_low [of "DX u"]
      below_or_above add.commute flip: small_operand(1))

lemma add_result_16_correct: "src < 65536 \<Longrightarrow> add_to_DX_16 src u (add_result_16 src u)"
  using alu_step [OF add_flags_16 [of "low16 (DX u)" "low16 src" False]]
  by (simp add: add_to_DX_16_def add_result_16_def Let_def MASK_OUT_ABOVE_16_low [of "DX u"]
      below_or_above add.commute flip: small_operand(2))

lemma add_result_32_correct: "add_to_DX_32 src u (add_result_32 src u)"
  using alu_step [OF add_flags_32 [where a = "DX u" and b = src and x = False], of u]
  by (simp add: add_to_DX_32_def add_result_32_def Let_def add.commute [of src])

lemma sub_result_8_correct: "src < 256 \<Longrightarrow> sub_from_DX_8 src u (sub_result_8 src u)"
  using alu_step [OF sub_flags_8 [of "low8 (DX u)" "low8 src" False]]
  by (simp add: sub_from_DX_8_def sub_result_8_def Let_def MASK_OUT_ABOVE_8_low [of "DX u"]
      below_or_above add.commute flip: small_operand(1))

lemma sub_result_16_correct: "src < 65536 \<Longrightarrow> sub_from_DX_16 src u (sub_result_16 src u)"
  using alu_step [OF sub_flags_16 [of "low16 (DX u)" "low16 src" False]]
  by (simp add: sub_from_DX_16_def sub_result_16_def Let_def MASK_OUT_ABOVE_16_low [of "DX u"]
      below_or_above add.commute flip: small_operand(2))

lemma sub_result_32_correct: "sub_from_DX_32 src u (sub_result_32 src u)"
  using alu_step [OF sub_flags_32 [where a = "DX u" and b = src and x = False], of u]
  by (simp add: sub_from_DX_32_def sub_result_32_def Let_def add.commute [of src])

subsection \<open>The operand of a register mode\<close>

definition dy_operand_8 :: "'b machine \<Rightarrow> ('b, u32) result" where
  "dy_operand_8 s = Ret (MASK_OUT_ABOVE_8 (DY s)) s"

definition dy_operand_16 :: "'b machine \<Rightarrow> ('b, u32) result" where
  "dy_operand_16 s = Ret (MASK_OUT_ABOVE_16 (DY s)) s"

definition ay_operand_16 :: "'b machine \<Rightarrow> ('b, u32) result" where
  "ay_operand_16 s = Ret (MASK_OUT_ABOVE_16 (AY s)) s"

definition dy_operand_32 :: "'b machine \<Rightarrow> ('b, u32) result" where
  "dy_operand_32 s = Ret (DY s) s"

definition ay_operand_32 :: "'b machine \<Rightarrow> ('b, u32) result" where
  "ay_operand_32 s = Ret (AY s) s"

lemmas register_operand_defs =
  dy_operand_8_def dy_operand_16_def ay_operand_16_def dy_operand_32_def ay_operand_32_def

lemma register_operand_range [operand_range]:
  "holds (\<lambda>v _. v < 256) (\<lambda>_ _. True) (dy_operand_8 s)"
  "holds (\<lambda>v _. v < 65536) (\<lambda>_ _. True) (dy_operand_16 s)"
  "holds (\<lambda>v _. v < 65536) (\<lambda>_ _. True) (ay_operand_16 s)"
  by (simp_all add: register_operand_defs mask_range)

text \<open>Every handler reads its operand and applies the common formula.\<close>

lemma add_8_handlers:
  "m68k_op_add_8_er_d s = chain (dy_operand_8 s) (\<lambda>v u. Ret () (add_result_8 v u))"
  "m68k_op_add_8_er_ai s = chain (OPER_AY_AI_8 s) (\<lambda>v u. Ret () (add_result_8 v u))"
  "m68k_op_add_8_er_pi s = chain (OPER_AY_PI_8 s) (\<lambda>v u. Ret () (add_result_8 v u))"
  "m68k_op_add_8_er_pi7 s = chain (OPER_A7_PI_8 s) (\<lambda>v u. Ret () (add_result_8 v u))"
  "m68k_op_add_8_er_pd s = chain (OPER_AY_PD_8 s) (\<lambda>v u. Ret () (add_result_8 v u))"
  "m68k_op_add_8_er_pd7 s = chain (OPER_A7_PD_8 s) (\<lambda>v u. Ret () (add_result_8 v u))"
  "m68k_op_add_8_er_di s = chain (OPER_AY_DI_8 s) (\<lambda>v u. Ret () (add_result_8 v u))"
  "m68k_op_add_8_er_ix s = chain (OPER_AY_IX_8 s) (\<lambda>v u. Ret () (add_result_8 v u))"
  "m68k_op_add_8_er_aw s = chain (OPER_AW_8 s) (\<lambda>v u. Ret () (add_result_8 v u))"
  "m68k_op_add_8_er_al s = chain (OPER_AL_8 s) (\<lambda>v u. Ret () (add_result_8 v u))"
  "m68k_op_add_8_er_pcdi s = chain (OPER_PCDI_8 s) (\<lambda>v u. Ret () (add_result_8 v u))"
  "m68k_op_add_8_er_pcix s = chain (OPER_PCIX_8 s) (\<lambda>v u. Ret () (add_result_8 v u))"
  "m68k_op_add_8_er_i s = chain (OPER_I_8 s) (\<lambda>v u. Ret () (add_result_8 v u))"
  unfolding m68k_op_add_8_er_d_def m68k_op_add_8_er_ai_def m68k_op_add_8_er_pi_def
    m68k_op_add_8_er_pi7_def m68k_op_add_8_er_pd_def m68k_op_add_8_er_pd7_def
    m68k_op_add_8_er_di_def m68k_op_add_8_er_ix_def m68k_op_add_8_er_aw_def
    m68k_op_add_8_er_al_def m68k_op_add_8_er_pcdi_def m68k_op_add_8_er_pcix_def
    m68k_op_add_8_er_i_def
  by (simp_all add: add_result_8_def Let_def flag_order register_operand_defs regX_def register_defs)

lemma add_16_handlers:
  "m68k_op_add_16_er_d s = chain (dy_operand_16 s) (\<lambda>v u. Ret () (add_result_16 v u))"
  "m68k_op_add_16_er_a s = chain (ay_operand_16 s) (\<lambda>v u. Ret () (add_result_16 v u))"
  "m68k_op_add_16_er_ai s = chain (OPER_AY_AI_16 s) (\<lambda>v u. Ret () (add_result_16 v u))"
  "m68k_op_add_16_er_pi s = chain (OPER_AY_PI_16 s) (\<lambda>v u. Ret () (add_result_16 v u))"
  "m68k_op_add_16_er_pd s = chain (OPER_AY_PD_16 s) (\<lambda>v u. Ret () (add_result_16 v u))"
  "m68k_op_add_16_er_di s = chain (OPER_AY_DI_16 s) (\<lambda>v u. Ret () (add_result_16 v u))"
  "m68k_op_add_16_er_ix s = chain (OPER_AY_IX_16 s) (\<lambda>v u. Ret () (add_result_16 v u))"
  "m68k_op_add_16_er_aw s = chain (OPER_AW_16 s) (\<lambda>v u. Ret () (add_result_16 v u))"
  "m68k_op_add_16_er_al s = chain (OPER_AL_16 s) (\<lambda>v u. Ret () (add_result_16 v u))"
  "m68k_op_add_16_er_pcdi s = chain (OPER_PCDI_16 s) (\<lambda>v u. Ret () (add_result_16 v u))"
  "m68k_op_add_16_er_pcix s = chain (OPER_PCIX_16 s) (\<lambda>v u. Ret () (add_result_16 v u))"
  "m68k_op_add_16_er_i s = chain (OPER_I_16 s) (\<lambda>v u. Ret () (add_result_16 v u))"
  unfolding m68k_op_add_16_er_d_def m68k_op_add_16_er_a_def m68k_op_add_16_er_ai_def
    m68k_op_add_16_er_pi_def m68k_op_add_16_er_pd_def m68k_op_add_16_er_di_def
    m68k_op_add_16_er_ix_def m68k_op_add_16_er_aw_def m68k_op_add_16_er_al_def
    m68k_op_add_16_er_pcdi_def m68k_op_add_16_er_pcix_def m68k_op_add_16_er_i_def
  by (simp_all add: add_result_16_def Let_def flag_order register_operand_defs regX_def register_defs)

lemma add_32_handlers:
  "m68k_op_add_32_er_d s = chain (dy_operand_32 s) (\<lambda>v u. Ret () (add_result_32 v u))"
  "m68k_op_add_32_er_a s = chain (ay_operand_32 s) (\<lambda>v u. Ret () (add_result_32 v u))"
  "m68k_op_add_32_er_ai s = chain (OPER_AY_AI_32 s) (\<lambda>v u. Ret () (add_result_32 v u))"
  "m68k_op_add_32_er_pi s = chain (OPER_AY_PI_32 s) (\<lambda>v u. Ret () (add_result_32 v u))"
  "m68k_op_add_32_er_pd s = chain (OPER_AY_PD_32 s) (\<lambda>v u. Ret () (add_result_32 v u))"
  "m68k_op_add_32_er_di s = chain (OPER_AY_DI_32 s) (\<lambda>v u. Ret () (add_result_32 v u))"
  "m68k_op_add_32_er_ix s = chain (OPER_AY_IX_32 s) (\<lambda>v u. Ret () (add_result_32 v u))"
  "m68k_op_add_32_er_aw s = chain (OPER_AW_32 s) (\<lambda>v u. Ret () (add_result_32 v u))"
  "m68k_op_add_32_er_al s = chain (OPER_AL_32 s) (\<lambda>v u. Ret () (add_result_32 v u))"
  "m68k_op_add_32_er_pcdi s = chain (OPER_PCDI_32 s) (\<lambda>v u. Ret () (add_result_32 v u))"
  "m68k_op_add_32_er_pcix s = chain (OPER_PCIX_32 s) (\<lambda>v u. Ret () (add_result_32 v u))"
  "m68k_op_add_32_er_i s = chain (OPER_I_32 s) (\<lambda>v u. Ret () (add_result_32 v u))"
  unfolding m68k_op_add_32_er_d_def m68k_op_add_32_er_a_def m68k_op_add_32_er_ai_def
    m68k_op_add_32_er_pi_def m68k_op_add_32_er_pd_def m68k_op_add_32_er_di_def
    m68k_op_add_32_er_ix_def m68k_op_add_32_er_aw_def m68k_op_add_32_er_al_def
    m68k_op_add_32_er_pcdi_def m68k_op_add_32_er_pcix_def m68k_op_add_32_er_i_def
  by (simp_all add: add_result_32_def Let_def flag_order register_operand_defs regX_def register_defs)

lemma sub_8_handlers:
  "m68k_op_sub_8_er_d s = chain (dy_operand_8 s) (\<lambda>v u. Ret () (sub_result_8 v u))"
  "m68k_op_sub_8_er_ai s = chain (OPER_AY_AI_8 s) (\<lambda>v u. Ret () (sub_result_8 v u))"
  "m68k_op_sub_8_er_pi s = chain (OPER_AY_PI_8 s) (\<lambda>v u. Ret () (sub_result_8 v u))"
  "m68k_op_sub_8_er_pi7 s = chain (OPER_A7_PI_8 s) (\<lambda>v u. Ret () (sub_result_8 v u))"
  "m68k_op_sub_8_er_pd s = chain (OPER_AY_PD_8 s) (\<lambda>v u. Ret () (sub_result_8 v u))"
  "m68k_op_sub_8_er_pd7 s = chain (OPER_A7_PD_8 s) (\<lambda>v u. Ret () (sub_result_8 v u))"
  "m68k_op_sub_8_er_di s = chain (OPER_AY_DI_8 s) (\<lambda>v u. Ret () (sub_result_8 v u))"
  "m68k_op_sub_8_er_ix s = chain (OPER_AY_IX_8 s) (\<lambda>v u. Ret () (sub_result_8 v u))"
  "m68k_op_sub_8_er_aw s = chain (OPER_AW_8 s) (\<lambda>v u. Ret () (sub_result_8 v u))"
  "m68k_op_sub_8_er_al s = chain (OPER_AL_8 s) (\<lambda>v u. Ret () (sub_result_8 v u))"
  "m68k_op_sub_8_er_pcdi s = chain (OPER_PCDI_8 s) (\<lambda>v u. Ret () (sub_result_8 v u))"
  "m68k_op_sub_8_er_pcix s = chain (OPER_PCIX_8 s) (\<lambda>v u. Ret () (sub_result_8 v u))"
  "m68k_op_sub_8_er_i s = chain (OPER_I_8 s) (\<lambda>v u. Ret () (sub_result_8 v u))"
  unfolding m68k_op_sub_8_er_d_def m68k_op_sub_8_er_ai_def m68k_op_sub_8_er_pi_def
    m68k_op_sub_8_er_pi7_def m68k_op_sub_8_er_pd_def m68k_op_sub_8_er_pd7_def
    m68k_op_sub_8_er_di_def m68k_op_sub_8_er_ix_def m68k_op_sub_8_er_aw_def
    m68k_op_sub_8_er_al_def m68k_op_sub_8_er_pcdi_def m68k_op_sub_8_er_pcix_def
    m68k_op_sub_8_er_i_def
  by (simp_all add: sub_result_8_def Let_def flag_order register_operand_defs regX_def register_defs)

lemma sub_16_handlers:
  "m68k_op_sub_16_er_d s = chain (dy_operand_16 s) (\<lambda>v u. Ret () (sub_result_16 v u))"
  "m68k_op_sub_16_er_a s = chain (ay_operand_16 s) (\<lambda>v u. Ret () (sub_result_16 v u))"
  "m68k_op_sub_16_er_ai s = chain (OPER_AY_AI_16 s) (\<lambda>v u. Ret () (sub_result_16 v u))"
  "m68k_op_sub_16_er_pi s = chain (OPER_AY_PI_16 s) (\<lambda>v u. Ret () (sub_result_16 v u))"
  "m68k_op_sub_16_er_pd s = chain (OPER_AY_PD_16 s) (\<lambda>v u. Ret () (sub_result_16 v u))"
  "m68k_op_sub_16_er_di s = chain (OPER_AY_DI_16 s) (\<lambda>v u. Ret () (sub_result_16 v u))"
  "m68k_op_sub_16_er_ix s = chain (OPER_AY_IX_16 s) (\<lambda>v u. Ret () (sub_result_16 v u))"
  "m68k_op_sub_16_er_aw s = chain (OPER_AW_16 s) (\<lambda>v u. Ret () (sub_result_16 v u))"
  "m68k_op_sub_16_er_al s = chain (OPER_AL_16 s) (\<lambda>v u. Ret () (sub_result_16 v u))"
  "m68k_op_sub_16_er_pcdi s = chain (OPER_PCDI_16 s) (\<lambda>v u. Ret () (sub_result_16 v u))"
  "m68k_op_sub_16_er_pcix s = chain (OPER_PCIX_16 s) (\<lambda>v u. Ret () (sub_result_16 v u))"
  "m68k_op_sub_16_er_i s = chain (OPER_I_16 s) (\<lambda>v u. Ret () (sub_result_16 v u))"
  unfolding m68k_op_sub_16_er_d_def m68k_op_sub_16_er_a_def m68k_op_sub_16_er_ai_def
    m68k_op_sub_16_er_pi_def m68k_op_sub_16_er_pd_def m68k_op_sub_16_er_di_def
    m68k_op_sub_16_er_ix_def m68k_op_sub_16_er_aw_def m68k_op_sub_16_er_al_def
    m68k_op_sub_16_er_pcdi_def m68k_op_sub_16_er_pcix_def m68k_op_sub_16_er_i_def
  by (simp_all add: sub_result_16_def Let_def flag_order register_operand_defs regX_def register_defs)

lemma sub_32_handlers:
  "m68k_op_sub_32_er_d s = chain (dy_operand_32 s) (\<lambda>v u. Ret () (sub_result_32 v u))"
  "m68k_op_sub_32_er_a s = chain (ay_operand_32 s) (\<lambda>v u. Ret () (sub_result_32 v u))"
  "m68k_op_sub_32_er_ai s = chain (OPER_AY_AI_32 s) (\<lambda>v u. Ret () (sub_result_32 v u))"
  "m68k_op_sub_32_er_pi s = chain (OPER_AY_PI_32 s) (\<lambda>v u. Ret () (sub_result_32 v u))"
  "m68k_op_sub_32_er_pd s = chain (OPER_AY_PD_32 s) (\<lambda>v u. Ret () (sub_result_32 v u))"
  "m68k_op_sub_32_er_di s = chain (OPER_AY_DI_32 s) (\<lambda>v u. Ret () (sub_result_32 v u))"
  "m68k_op_sub_32_er_ix s = chain (OPER_AY_IX_32 s) (\<lambda>v u. Ret () (sub_result_32 v u))"
  "m68k_op_sub_32_er_aw s = chain (OPER_AW_32 s) (\<lambda>v u. Ret () (sub_result_32 v u))"
  "m68k_op_sub_32_er_al s = chain (OPER_AL_32 s) (\<lambda>v u. Ret () (sub_result_32 v u))"
  "m68k_op_sub_32_er_pcdi s = chain (OPER_PCDI_32 s) (\<lambda>v u. Ret () (sub_result_32 v u))"
  "m68k_op_sub_32_er_pcix s = chain (OPER_PCIX_32 s) (\<lambda>v u. Ret () (sub_result_32 v u))"
  "m68k_op_sub_32_er_i s = chain (OPER_I_32 s) (\<lambda>v u. Ret () (sub_result_32 v u))"
  unfolding m68k_op_sub_32_er_d_def m68k_op_sub_32_er_a_def m68k_op_sub_32_er_ai_def
    m68k_op_sub_32_er_pi_def m68k_op_sub_32_er_pd_def m68k_op_sub_32_er_di_def
    m68k_op_sub_32_er_ix_def m68k_op_sub_32_er_aw_def m68k_op_sub_32_er_al_def
    m68k_op_sub_32_er_pcdi_def m68k_op_sub_32_er_pcix_def m68k_op_sub_32_er_i_def
  by (simp_all add: sub_result_32_def Let_def flag_order register_operand_defs regX_def register_defs)

definition cmp_result_8 :: "u32 \<Rightarrow> 'b machine \<Rightarrow> 'b machine" where
  "cmp_result_8 src u =
    (let dst = MASK_OUT_ABOVE_8 (DX u); res = dst - src
     in u\<lparr>n_flag := NFLAG_8 res, not_z_flag := MASK_OUT_ABOVE_8 res, v_flag := VFLAG_SUB_8 src dst res,
          c_flag := CFLAG_8 res\<rparr>)"

definition cmp_result_16 :: "u32 \<Rightarrow> 'b machine \<Rightarrow> 'b machine" where
  "cmp_result_16 src u =
    (let dst = MASK_OUT_ABOVE_16 (DX u); res = dst - src
     in u\<lparr>n_flag := NFLAG_16 res, not_z_flag := MASK_OUT_ABOVE_16 res, v_flag := VFLAG_SUB_16 src dst res,
          c_flag := CFLAG_16 res\<rparr>)"

definition cmp_result_32 :: "u32 \<Rightarrow> 'b machine \<Rightarrow> 'b machine" where
  "cmp_result_32 src u =
    (let dst = DX u; res = dst - src
     in u\<lparr>n_flag := NFLAG_32 res, not_z_flag := res, v_flag := VFLAG_SUB_32 src dst res,
          c_flag := CFLAG_SUB_32 src dst res\<rparr>)"

lemma cmp_8_handlers:
  "m68k_op_cmp_8_d s = chain (dy_operand_8 s) (\<lambda>v u. Ret () (cmp_result_8 v u))"
  "m68k_op_cmp_8_ai s = chain (OPER_AY_AI_8 s) (\<lambda>v u. Ret () (cmp_result_8 v u))"
  "m68k_op_cmp_8_pi s = chain (OPER_AY_PI_8 s) (\<lambda>v u. Ret () (cmp_result_8 v u))"
  "m68k_op_cmp_8_pi7 s = chain (OPER_A7_PI_8 s) (\<lambda>v u. Ret () (cmp_result_8 v u))"
  "m68k_op_cmp_8_pd s = chain (OPER_AY_PD_8 s) (\<lambda>v u. Ret () (cmp_result_8 v u))"
  "m68k_op_cmp_8_pd7 s = chain (OPER_A7_PD_8 s) (\<lambda>v u. Ret () (cmp_result_8 v u))"
  "m68k_op_cmp_8_di s = chain (OPER_AY_DI_8 s) (\<lambda>v u. Ret () (cmp_result_8 v u))"
  "m68k_op_cmp_8_ix s = chain (OPER_AY_IX_8 s) (\<lambda>v u. Ret () (cmp_result_8 v u))"
  "m68k_op_cmp_8_aw s = chain (OPER_AW_8 s) (\<lambda>v u. Ret () (cmp_result_8 v u))"
  "m68k_op_cmp_8_al s = chain (OPER_AL_8 s) (\<lambda>v u. Ret () (cmp_result_8 v u))"
  "m68k_op_cmp_8_pcdi s = chain (OPER_PCDI_8 s) (\<lambda>v u. Ret () (cmp_result_8 v u))"
  "m68k_op_cmp_8_pcix s = chain (OPER_PCIX_8 s) (\<lambda>v u. Ret () (cmp_result_8 v u))"
  "m68k_op_cmp_8_i s = chain (OPER_I_8 s) (\<lambda>v u. Ret () (cmp_result_8 v u))"
  unfolding m68k_op_cmp_8_d_def m68k_op_cmp_8_ai_def m68k_op_cmp_8_pi_def m68k_op_cmp_8_pi7_def
    m68k_op_cmp_8_pd_def m68k_op_cmp_8_pd7_def m68k_op_cmp_8_di_def m68k_op_cmp_8_ix_def
    m68k_op_cmp_8_aw_def m68k_op_cmp_8_al_def m68k_op_cmp_8_pcdi_def m68k_op_cmp_8_pcix_def
    m68k_op_cmp_8_i_def
  by (simp_all add: cmp_result_8_def Let_def flag_order register_operand_defs regX_def register_defs)

lemma cmp_16_handlers:
  "m68k_op_cmp_16_d s = chain (dy_operand_16 s) (\<lambda>v u. Ret () (cmp_result_16 v u))"
  "m68k_op_cmp_16_a s = chain (ay_operand_16 s) (\<lambda>v u. Ret () (cmp_result_16 v u))"
  "m68k_op_cmp_16_ai s = chain (OPER_AY_AI_16 s) (\<lambda>v u. Ret () (cmp_result_16 v u))"
  "m68k_op_cmp_16_pi s = chain (OPER_AY_PI_16 s) (\<lambda>v u. Ret () (cmp_result_16 v u))"
  "m68k_op_cmp_16_pd s = chain (OPER_AY_PD_16 s) (\<lambda>v u. Ret () (cmp_result_16 v u))"
  "m68k_op_cmp_16_di s = chain (OPER_AY_DI_16 s) (\<lambda>v u. Ret () (cmp_result_16 v u))"
  "m68k_op_cmp_16_ix s = chain (OPER_AY_IX_16 s) (\<lambda>v u. Ret () (cmp_result_16 v u))"
  "m68k_op_cmp_16_aw s = chain (OPER_AW_16 s) (\<lambda>v u. Ret () (cmp_result_16 v u))"
  "m68k_op_cmp_16_al s = chain (OPER_AL_16 s) (\<lambda>v u. Ret () (cmp_result_16 v u))"
  "m68k_op_cmp_16_pcdi s = chain (OPER_PCDI_16 s) (\<lambda>v u. Ret () (cmp_result_16 v u))"
  "m68k_op_cmp_16_pcix s = chain (OPER_PCIX_16 s) (\<lambda>v u. Ret () (cmp_result_16 v u))"
  "m68k_op_cmp_16_i s = chain (OPER_I_16 s) (\<lambda>v u. Ret () (cmp_result_16 v u))"
  unfolding m68k_op_cmp_16_d_def m68k_op_cmp_16_a_def m68k_op_cmp_16_ai_def m68k_op_cmp_16_pi_def
    m68k_op_cmp_16_pd_def m68k_op_cmp_16_di_def m68k_op_cmp_16_ix_def m68k_op_cmp_16_aw_def
    m68k_op_cmp_16_al_def m68k_op_cmp_16_pcdi_def m68k_op_cmp_16_pcix_def m68k_op_cmp_16_i_def
  by (simp_all add: cmp_result_16_def Let_def flag_order register_operand_defs regX_def register_defs)

lemma cmp_32_handlers:
  "m68k_op_cmp_32_d s = chain (dy_operand_32 s) (\<lambda>v u. Ret () (cmp_result_32 v u))"
  "m68k_op_cmp_32_a s = chain (ay_operand_32 s) (\<lambda>v u. Ret () (cmp_result_32 v u))"
  "m68k_op_cmp_32_ai s = chain (OPER_AY_AI_32 s) (\<lambda>v u. Ret () (cmp_result_32 v u))"
  "m68k_op_cmp_32_pi s = chain (OPER_AY_PI_32 s) (\<lambda>v u. Ret () (cmp_result_32 v u))"
  "m68k_op_cmp_32_pd s = chain (OPER_AY_PD_32 s) (\<lambda>v u. Ret () (cmp_result_32 v u))"
  "m68k_op_cmp_32_di s = chain (OPER_AY_DI_32 s) (\<lambda>v u. Ret () (cmp_result_32 v u))"
  "m68k_op_cmp_32_ix s = chain (OPER_AY_IX_32 s) (\<lambda>v u. Ret () (cmp_result_32 v u))"
  "m68k_op_cmp_32_aw s = chain (OPER_AW_32 s) (\<lambda>v u. Ret () (cmp_result_32 v u))"
  "m68k_op_cmp_32_al s = chain (OPER_AL_32 s) (\<lambda>v u. Ret () (cmp_result_32 v u))"
  "m68k_op_cmp_32_pcdi s = chain (OPER_PCDI_32 s) (\<lambda>v u. Ret () (cmp_result_32 v u))"
  "m68k_op_cmp_32_pcix s = chain (OPER_PCIX_32 s) (\<lambda>v u. Ret () (cmp_result_32 v u))"
  "m68k_op_cmp_32_i s = chain (OPER_I_32 s) (\<lambda>v u. Ret () (cmp_result_32 v u))"
  unfolding m68k_op_cmp_32_d_def m68k_op_cmp_32_a_def m68k_op_cmp_32_ai_def m68k_op_cmp_32_pi_def
    m68k_op_cmp_32_pd_def m68k_op_cmp_32_di_def m68k_op_cmp_32_ix_def m68k_op_cmp_32_aw_def
    m68k_op_cmp_32_al_def m68k_op_cmp_32_pcdi_def m68k_op_cmp_32_pcix_def m68k_op_cmp_32_i_def
  by (simp_all add: cmp_result_32_def Let_def flag_order register_operand_defs regX_def register_defs)

text \<open>
  A comparison keeps the extend flag and sets the others as the subtraction does; its conditions
  are the orders on the operands.
\<close>

definition compared :: "'w::len word \<Rightarrow> 'w word \<Rightarrow> 'b machine \<Rightarrow> 'b machine \<Rightarrow> bool" where
  "compared a b u t \<longleftrightarrow> flags_done u t ((sub_ccr a b False)\<lparr>ccX := ccX (ccr_of u)\<rparr>)
     \<and> (COND_EQ t \<longleftrightarrow> a = b) \<and> (COND_NE t \<longleftrightarrow> a \<noteq> b)
     \<and> (COND_CS t \<longleftrightarrow> a < b) \<and> (COND_CC t \<longleftrightarrow> b \<le> a) \<and> (COND_HI t \<longleftrightarrow> b < a) \<and> (COND_LS t \<longleftrightarrow> a \<le> b)
     \<and> (COND_LT t \<longleftrightarrow> a <s b) \<and> (COND_GE t \<longleftrightarrow> b \<le>s a) \<and> (COND_GT t \<longleftrightarrow> b <s a) \<and> (COND_LE t \<longleftrightarrow> a \<le>s b)"

lemma sub_ccr_orders:
  fixes a b :: "'w::len word"
  shows "ccC (sub_ccr a b False) \<longleftrightarrow> a < b" "ccZ (sub_ccr a b False) \<longleftrightarrow> a = b"
    and "ccN (sub_ccr a b False) \<noteq> ccV (sub_ccr a b False) \<longleftrightarrow> a <s b"
proof -
  show "ccC (sub_ccr a b False) \<longleftrightarrow> a < b" "ccZ (sub_ccr a b False) \<longleftrightarrow> a = b"
    by (simp_all add: sub_ccr_def Let_def word_less_def)
  show "ccN (sub_ccr a b False) \<noteq> ccV (sub_ccr a b False) \<longleftrightarrow> a <s b"
    using difference_signs(3) [of a b False]
    by (simp add: sub_ccr_signs Let_def word_sless_alt)
qed

lemma signed_orders: "\<not> a <s b \<longleftrightarrow> b \<le>s a" "a \<le>s b \<and> a \<noteq> b \<longleftrightarrow> a <s b" for a b :: "'w::len word"
  by (auto simp: word_sless_alt word_sle_eq le_less intro: signed_word_eqI)

lemma compared_step:
  fixes a b :: "'w::len word"
  assumes "flags_ccr xf nf zf vf cf = sub_ccr a b False"
  shows "compared a b u (u\<lparr>n_flag := nf, not_z_flag := zf, v_flag := vf, c_flag := cf\<rparr>)"
proof -
  let ?t = "u\<lparr>n_flag := nf, not_z_flag := zf, v_flag := vf, c_flag := cf\<rparr>"
  have "flags_ccr (x_flag u) nf zf vf cf = (sub_ccr a b False)\<lparr>ccX := ccX (ccr_of u)\<rparr>"
    by (simp add: assms [symmetric] flags_ccr_def ccr_of_def)
  then have d: "flags_done u ?t ((sub_ccr a b False)\<lparr>ccX := ccX (ccr_of u)\<rparr>)"
    by (rule compare_step)
  then have c: "ccr_of ?t = (sub_ccr a b False)\<lparr>ccX := ccX (ccr_of u)\<rparr>"
    by (simp add: flags_done_def)
  show ?thesis
    unfolding compared_def cond_formulas cond_ccr c
    using d sub_ccr_orders [of a b] signed_orders [of a b] signed_orders [of b a]
    by (auto simp: not_less)
qed

lemma cmp_result_8_correct: "src < 256 \<Longrightarrow> compared (low8 (DX u)) (low8 src) u (cmp_result_8 src u)"
  using compared_step [OF sub_flags_8 [of "low8 (DX u)" "low8 src" False]]
  by (simp add: cmp_result_8_def Let_def MASK_OUT_ABOVE_8_low [of "DX u"]
      flip: small_operand(1))

lemma cmp_result_16_correct: "src < 65536 \<Longrightarrow> compared (low16 (DX u)) (low16 src) u (cmp_result_16 src u)"
  using compared_step [OF sub_flags_16 [of "low16 (DX u)" "low16 src" False]]
  by (simp add: cmp_result_16_def Let_def MASK_OUT_ABOVE_16_low [of "DX u"]
      flip: small_operand(2))

lemma cmp_result_32_correct: "compared (DX u) src u (cmp_result_32 src u)"
  using compared_step [OF sub_flags_32 [where a = "DX u" and b = src and x = False], of u]
  by (simp add: cmp_result_32_def Let_def)

subsection \<open>The properties\<close>

text \<open>All instructions of a list do \<open>P\<close> with their operand.\<close>

definition instructions_do ::
    "('b op \<times> ('b machine \<Rightarrow> ('b, u32) result)) list \<Rightarrow>
     (u32 \<Rightarrow> 'b machine \<Rightarrow> 'b machine \<Rightarrow> bool) \<Rightarrow> bool" where
  "instructions_do hs P = list_all (\<lambda>(handler, operand). \<forall>s. on_operand (operand s) (handler s) P) hs"

lemma instructions_do_intros:
  "instructions_do [] P"
  "(\<And>s. on_operand (opr s) (h s) P) \<Longrightarrow> instructions_do hs P \<Longrightarrow> instructions_do ((h, opr) # hs) P"
  by (simp_all add: instructions_do_def)

lemma operand_step:
  assumes "holds (\<lambda>v _. v < k) (\<lambda>_ _. True) r" and "\<And>v u. v < k \<Longrightarrow> P v u (f v u)"
  shows "on_operand r (chain r (\<lambda>v u. Ret () (f v u))) P"
  using assms by (cases r) auto

lemma operand_step_32:
  assumes "\<And>v u. P v u (f v u)"
  shows "on_operand r (chain r (\<lambda>v u. Ret () (f v u))) P"
  using assms by (cases r) auto

lemmas operand_steps =
  oper_8_range [THEN operand_step] oper_16_range [THEN operand_step]
  register_operand_range [THEN operand_step]

lemma add_8_family:
  "instructions_do
    [(m68k_op_add_8_er_d, dy_operand_8), (m68k_op_add_8_er_ai, OPER_AY_AI_8),
     (m68k_op_add_8_er_pi, OPER_AY_PI_8), (m68k_op_add_8_er_pi7, OPER_A7_PI_8),
     (m68k_op_add_8_er_pd, OPER_AY_PD_8), (m68k_op_add_8_er_pd7, OPER_A7_PD_8),
     (m68k_op_add_8_er_di, OPER_AY_DI_8), (m68k_op_add_8_er_ix, OPER_AY_IX_8),
     (m68k_op_add_8_er_aw, OPER_AW_8), (m68k_op_add_8_er_al, OPER_AL_8),
     (m68k_op_add_8_er_pcdi, OPER_PCDI_8), (m68k_op_add_8_er_pcix, OPER_PCIX_8),
     (m68k_op_add_8_er_i, OPER_I_8)]
    add_to_DX_8"
  by (intro instructions_do_intros; unfold add_8_handlers;
      intro operand_steps; erule add_result_8_correct)

lemma add_16_family:
  "instructions_do
    [(m68k_op_add_16_er_d, dy_operand_16), (m68k_op_add_16_er_a, ay_operand_16),
     (m68k_op_add_16_er_ai, OPER_AY_AI_16), (m68k_op_add_16_er_pi, OPER_AY_PI_16),
     (m68k_op_add_16_er_pd, OPER_AY_PD_16), (m68k_op_add_16_er_di, OPER_AY_DI_16),
     (m68k_op_add_16_er_ix, OPER_AY_IX_16), (m68k_op_add_16_er_aw, OPER_AW_16),
     (m68k_op_add_16_er_al, OPER_AL_16), (m68k_op_add_16_er_pcdi, OPER_PCDI_16),
     (m68k_op_add_16_er_pcix, OPER_PCIX_16), (m68k_op_add_16_er_i, OPER_I_16)]
    add_to_DX_16"
  by (intro instructions_do_intros; unfold add_16_handlers;
      intro operand_steps; erule add_result_16_correct)

lemma add_32_family:
  "instructions_do
    [(m68k_op_add_32_er_d, dy_operand_32), (m68k_op_add_32_er_a, ay_operand_32),
     (m68k_op_add_32_er_ai, OPER_AY_AI_32), (m68k_op_add_32_er_pi, OPER_AY_PI_32),
     (m68k_op_add_32_er_pd, OPER_AY_PD_32), (m68k_op_add_32_er_di, OPER_AY_DI_32),
     (m68k_op_add_32_er_ix, OPER_AY_IX_32), (m68k_op_add_32_er_aw, OPER_AW_32),
     (m68k_op_add_32_er_al, OPER_AL_32), (m68k_op_add_32_er_pcdi, OPER_PCDI_32),
     (m68k_op_add_32_er_pcix, OPER_PCIX_32), (m68k_op_add_32_er_i, OPER_I_32)]
    add_to_DX_32"
  by (intro instructions_do_intros; unfold add_32_handlers;
      rule operand_step_32; rule add_result_32_correct)

lemma sub_8_family:
  "instructions_do
    [(m68k_op_sub_8_er_d, dy_operand_8), (m68k_op_sub_8_er_ai, OPER_AY_AI_8),
     (m68k_op_sub_8_er_pi, OPER_AY_PI_8), (m68k_op_sub_8_er_pi7, OPER_A7_PI_8),
     (m68k_op_sub_8_er_pd, OPER_AY_PD_8), (m68k_op_sub_8_er_pd7, OPER_A7_PD_8),
     (m68k_op_sub_8_er_di, OPER_AY_DI_8), (m68k_op_sub_8_er_ix, OPER_AY_IX_8),
     (m68k_op_sub_8_er_aw, OPER_AW_8), (m68k_op_sub_8_er_al, OPER_AL_8),
     (m68k_op_sub_8_er_pcdi, OPER_PCDI_8), (m68k_op_sub_8_er_pcix, OPER_PCIX_8),
     (m68k_op_sub_8_er_i, OPER_I_8)]
    sub_from_DX_8"
  by (intro instructions_do_intros; unfold sub_8_handlers;
      intro operand_steps; erule sub_result_8_correct)

lemma sub_16_family:
  "instructions_do
    [(m68k_op_sub_16_er_d, dy_operand_16), (m68k_op_sub_16_er_a, ay_operand_16),
     (m68k_op_sub_16_er_ai, OPER_AY_AI_16), (m68k_op_sub_16_er_pi, OPER_AY_PI_16),
     (m68k_op_sub_16_er_pd, OPER_AY_PD_16), (m68k_op_sub_16_er_di, OPER_AY_DI_16),
     (m68k_op_sub_16_er_ix, OPER_AY_IX_16), (m68k_op_sub_16_er_aw, OPER_AW_16),
     (m68k_op_sub_16_er_al, OPER_AL_16), (m68k_op_sub_16_er_pcdi, OPER_PCDI_16),
     (m68k_op_sub_16_er_pcix, OPER_PCIX_16), (m68k_op_sub_16_er_i, OPER_I_16)]
    sub_from_DX_16"
  by (intro instructions_do_intros; unfold sub_16_handlers;
      intro operand_steps; erule sub_result_16_correct)

lemma sub_32_family:
  "instructions_do
    [(m68k_op_sub_32_er_d, dy_operand_32), (m68k_op_sub_32_er_a, ay_operand_32),
     (m68k_op_sub_32_er_ai, OPER_AY_AI_32), (m68k_op_sub_32_er_pi, OPER_AY_PI_32),
     (m68k_op_sub_32_er_pd, OPER_AY_PD_32), (m68k_op_sub_32_er_di, OPER_AY_DI_32),
     (m68k_op_sub_32_er_ix, OPER_AY_IX_32), (m68k_op_sub_32_er_aw, OPER_AW_32),
     (m68k_op_sub_32_er_al, OPER_AL_32), (m68k_op_sub_32_er_pcdi, OPER_PCDI_32),
     (m68k_op_sub_32_er_pcix, OPER_PCIX_32), (m68k_op_sub_32_er_i, OPER_I_32)]
    sub_from_DX_32"
  by (intro instructions_do_intros; unfold sub_32_handlers;
      rule operand_step_32; rule sub_result_32_correct)

lemma cmp_8_family:
  "instructions_do
    [(m68k_op_cmp_8_d, dy_operand_8), (m68k_op_cmp_8_ai, OPER_AY_AI_8),
     (m68k_op_cmp_8_pi, OPER_AY_PI_8), (m68k_op_cmp_8_pi7, OPER_A7_PI_8),
     (m68k_op_cmp_8_pd, OPER_AY_PD_8), (m68k_op_cmp_8_pd7, OPER_A7_PD_8),
     (m68k_op_cmp_8_di, OPER_AY_DI_8), (m68k_op_cmp_8_ix, OPER_AY_IX_8),
     (m68k_op_cmp_8_aw, OPER_AW_8), (m68k_op_cmp_8_al, OPER_AL_8),
     (m68k_op_cmp_8_pcdi, OPER_PCDI_8), (m68k_op_cmp_8_pcix, OPER_PCIX_8),
     (m68k_op_cmp_8_i, OPER_I_8)]
    (\<lambda>src u. compared (low8 (DX u)) (low8 src) u)"
  by (intro instructions_do_intros; unfold cmp_8_handlers;
      intro operand_steps; erule cmp_result_8_correct)

lemma cmp_16_family:
  "instructions_do
    [(m68k_op_cmp_16_d, dy_operand_16), (m68k_op_cmp_16_a, ay_operand_16),
     (m68k_op_cmp_16_ai, OPER_AY_AI_16), (m68k_op_cmp_16_pi, OPER_AY_PI_16),
     (m68k_op_cmp_16_pd, OPER_AY_PD_16), (m68k_op_cmp_16_di, OPER_AY_DI_16),
     (m68k_op_cmp_16_ix, OPER_AY_IX_16), (m68k_op_cmp_16_aw, OPER_AW_16),
     (m68k_op_cmp_16_al, OPER_AL_16), (m68k_op_cmp_16_pcdi, OPER_PCDI_16),
     (m68k_op_cmp_16_pcix, OPER_PCIX_16), (m68k_op_cmp_16_i, OPER_I_16)]
    (\<lambda>src u. compared (low16 (DX u)) (low16 src) u)"
  by (intro instructions_do_intros; unfold cmp_16_handlers;
      intro operand_steps; erule cmp_result_16_correct)

lemma cmp_32_family:
  "instructions_do
    [(m68k_op_cmp_32_d, dy_operand_32), (m68k_op_cmp_32_a, ay_operand_32),
     (m68k_op_cmp_32_ai, OPER_AY_AI_32), (m68k_op_cmp_32_pi, OPER_AY_PI_32),
     (m68k_op_cmp_32_pd, OPER_AY_PD_32), (m68k_op_cmp_32_di, OPER_AY_DI_32),
     (m68k_op_cmp_32_ix, OPER_AY_IX_32), (m68k_op_cmp_32_aw, OPER_AW_32),
     (m68k_op_cmp_32_al, OPER_AL_32), (m68k_op_cmp_32_pcdi, OPER_PCDI_32),
     (m68k_op_cmp_32_pcix, OPER_PCIX_32), (m68k_op_cmp_32_i, OPER_I_32)]
    (\<lambda>src u. compared (DX u) (src) u)"
  by (intro instructions_do_intros; unfold cmp_32_handlers;
      rule operand_step_32; rule cmp_result_32_correct)

text \<open>C1. ADD with a data register as destination, in all 37 handlers: after reading the operand of
  its mode the handler adds it to the low 8, 16 or 32 bits of \<open>Dx\<close>, keeps the rest of the register,
  and sets X, N, Z, V and C as the reference addition does; it changes nothing else, and it jumps
  exactly when reading the operand jumps.\<close>

theorem add_to_register:
  "instructions_do
    [(m68k_op_add_8_er_d, dy_operand_8), (m68k_op_add_8_er_ai, OPER_AY_AI_8),
     (m68k_op_add_8_er_pi, OPER_AY_PI_8), (m68k_op_add_8_er_pi7, OPER_A7_PI_8),
     (m68k_op_add_8_er_pd, OPER_AY_PD_8), (m68k_op_add_8_er_pd7, OPER_A7_PD_8),
     (m68k_op_add_8_er_di, OPER_AY_DI_8), (m68k_op_add_8_er_ix, OPER_AY_IX_8),
     (m68k_op_add_8_er_aw, OPER_AW_8), (m68k_op_add_8_er_al, OPER_AL_8),
     (m68k_op_add_8_er_pcdi, OPER_PCDI_8), (m68k_op_add_8_er_pcix, OPER_PCIX_8),
     (m68k_op_add_8_er_i, OPER_I_8)]
    add_to_DX_8 \<and>
   instructions_do
    [(m68k_op_add_16_er_d, dy_operand_16), (m68k_op_add_16_er_a, ay_operand_16),
     (m68k_op_add_16_er_ai, OPER_AY_AI_16), (m68k_op_add_16_er_pi, OPER_AY_PI_16),
     (m68k_op_add_16_er_pd, OPER_AY_PD_16), (m68k_op_add_16_er_di, OPER_AY_DI_16),
     (m68k_op_add_16_er_ix, OPER_AY_IX_16), (m68k_op_add_16_er_aw, OPER_AW_16),
     (m68k_op_add_16_er_al, OPER_AL_16), (m68k_op_add_16_er_pcdi, OPER_PCDI_16),
     (m68k_op_add_16_er_pcix, OPER_PCIX_16), (m68k_op_add_16_er_i, OPER_I_16)]
    add_to_DX_16 \<and>
   instructions_do
    [(m68k_op_add_32_er_d, dy_operand_32), (m68k_op_add_32_er_a, ay_operand_32),
     (m68k_op_add_32_er_ai, OPER_AY_AI_32), (m68k_op_add_32_er_pi, OPER_AY_PI_32),
     (m68k_op_add_32_er_pd, OPER_AY_PD_32), (m68k_op_add_32_er_di, OPER_AY_DI_32),
     (m68k_op_add_32_er_ix, OPER_AY_IX_32), (m68k_op_add_32_er_aw, OPER_AW_32),
     (m68k_op_add_32_er_al, OPER_AL_32), (m68k_op_add_32_er_pcdi, OPER_PCDI_32),
     (m68k_op_add_32_er_pcix, OPER_PCIX_32), (m68k_op_add_32_er_i, OPER_I_32)]
    add_to_DX_32"
  by (intro conjI add_8_family add_16_family add_32_family)

text \<open>C2. SUB with a data register as destination: the same for the difference, in all 37 handlers.\<close>

theorem subtract_from_register:
  "instructions_do
    [(m68k_op_sub_8_er_d, dy_operand_8), (m68k_op_sub_8_er_ai, OPER_AY_AI_8),
     (m68k_op_sub_8_er_pi, OPER_AY_PI_8), (m68k_op_sub_8_er_pi7, OPER_A7_PI_8),
     (m68k_op_sub_8_er_pd, OPER_AY_PD_8), (m68k_op_sub_8_er_pd7, OPER_A7_PD_8),
     (m68k_op_sub_8_er_di, OPER_AY_DI_8), (m68k_op_sub_8_er_ix, OPER_AY_IX_8),
     (m68k_op_sub_8_er_aw, OPER_AW_8), (m68k_op_sub_8_er_al, OPER_AL_8),
     (m68k_op_sub_8_er_pcdi, OPER_PCDI_8), (m68k_op_sub_8_er_pcix, OPER_PCIX_8),
     (m68k_op_sub_8_er_i, OPER_I_8)]
    sub_from_DX_8 \<and>
   instructions_do
    [(m68k_op_sub_16_er_d, dy_operand_16), (m68k_op_sub_16_er_a, ay_operand_16),
     (m68k_op_sub_16_er_ai, OPER_AY_AI_16), (m68k_op_sub_16_er_pi, OPER_AY_PI_16),
     (m68k_op_sub_16_er_pd, OPER_AY_PD_16), (m68k_op_sub_16_er_di, OPER_AY_DI_16),
     (m68k_op_sub_16_er_ix, OPER_AY_IX_16), (m68k_op_sub_16_er_aw, OPER_AW_16),
     (m68k_op_sub_16_er_al, OPER_AL_16), (m68k_op_sub_16_er_pcdi, OPER_PCDI_16),
     (m68k_op_sub_16_er_pcix, OPER_PCIX_16), (m68k_op_sub_16_er_i, OPER_I_16)]
    sub_from_DX_16 \<and>
   instructions_do
    [(m68k_op_sub_32_er_d, dy_operand_32), (m68k_op_sub_32_er_a, ay_operand_32),
     (m68k_op_sub_32_er_ai, OPER_AY_AI_32), (m68k_op_sub_32_er_pi, OPER_AY_PI_32),
     (m68k_op_sub_32_er_pd, OPER_AY_PD_32), (m68k_op_sub_32_er_di, OPER_AY_DI_32),
     (m68k_op_sub_32_er_ix, OPER_AY_IX_32), (m68k_op_sub_32_er_aw, OPER_AW_32),
     (m68k_op_sub_32_er_al, OPER_AL_32), (m68k_op_sub_32_er_pcdi, OPER_PCDI_32),
     (m68k_op_sub_32_er_pcix, OPER_PCIX_32), (m68k_op_sub_32_er_i, OPER_I_32)]
    sub_from_DX_32"
  by (intro conjI sub_8_family sub_16_family sub_32_family)

text \<open>C3. CMP in all 37 handlers changes the condition codes only, keeps X, and leaves the conditions
  EQ, NE, CS, CC, HI, LS true exactly for the unsigned order of destination and source, and LT, GE,
  GT, LE exactly for their signed order, at each size.\<close>

theorem compare_orders:
  "instructions_do
    [(m68k_op_cmp_8_d, dy_operand_8), (m68k_op_cmp_8_ai, OPER_AY_AI_8),
     (m68k_op_cmp_8_pi, OPER_AY_PI_8), (m68k_op_cmp_8_pi7, OPER_A7_PI_8),
     (m68k_op_cmp_8_pd, OPER_AY_PD_8), (m68k_op_cmp_8_pd7, OPER_A7_PD_8),
     (m68k_op_cmp_8_di, OPER_AY_DI_8), (m68k_op_cmp_8_ix, OPER_AY_IX_8),
     (m68k_op_cmp_8_aw, OPER_AW_8), (m68k_op_cmp_8_al, OPER_AL_8),
     (m68k_op_cmp_8_pcdi, OPER_PCDI_8), (m68k_op_cmp_8_pcix, OPER_PCIX_8),
     (m68k_op_cmp_8_i, OPER_I_8)]
    (\<lambda>src u. compared (low8 (DX u)) (low8 src) u) \<and>
   instructions_do
    [(m68k_op_cmp_16_d, dy_operand_16), (m68k_op_cmp_16_a, ay_operand_16),
     (m68k_op_cmp_16_ai, OPER_AY_AI_16), (m68k_op_cmp_16_pi, OPER_AY_PI_16),
     (m68k_op_cmp_16_pd, OPER_AY_PD_16), (m68k_op_cmp_16_di, OPER_AY_DI_16),
     (m68k_op_cmp_16_ix, OPER_AY_IX_16), (m68k_op_cmp_16_aw, OPER_AW_16),
     (m68k_op_cmp_16_al, OPER_AL_16), (m68k_op_cmp_16_pcdi, OPER_PCDI_16),
     (m68k_op_cmp_16_pcix, OPER_PCIX_16), (m68k_op_cmp_16_i, OPER_I_16)]
    (\<lambda>src u. compared (low16 (DX u)) (low16 src) u) \<and>
   instructions_do
    [(m68k_op_cmp_32_d, dy_operand_32), (m68k_op_cmp_32_a, ay_operand_32),
     (m68k_op_cmp_32_ai, OPER_AY_AI_32), (m68k_op_cmp_32_pi, OPER_AY_PI_32),
     (m68k_op_cmp_32_pd, OPER_AY_PD_32), (m68k_op_cmp_32_di, OPER_AY_DI_32),
     (m68k_op_cmp_32_ix, OPER_AY_IX_32), (m68k_op_cmp_32_aw, OPER_AW_32),
     (m68k_op_cmp_32_al, OPER_AL_32), (m68k_op_cmp_32_pcdi, OPER_PCDI_32),
     (m68k_op_cmp_32_pcix, OPER_PCIX_32), (m68k_op_cmp_32_i, OPER_I_32)]
    (\<lambda>src u. compared (DX u) (src) u)"
  by (intro conjI cmp_8_family cmp_16_family cmp_32_family)

end
