(* ===== verification/ExtendedArith.thy ===== *)
theory ExtendedArith
  imports ArithLaws Samples
begin

section \<open>Arithmetic with extend\<close>

text \<open>
  ADDX and SUBX continue an addition or subtraction in the next higher register: the extend flag
  carries between the two, and Z stays set only if every part of the result was zero.
\<close>

unbundle bit_operations_syntax

definition join :: "u32 \<Rightarrow> u32 \<Rightarrow> u64" where
  "join h l = push_bit 32 (ucast h) OR ucast l"

lemma uint_join: "uint (join h l) = uint h * 2 ^ 32 + uint l"
proof -
  have u: "uint (ucast x :: u64) = uint x" for x :: u32
    using uint_lt2p [of x] by (simp add: unsigned_ucast_eq take_bit_int_eq_self_iff)
  have "push_bit 32 (ucast h :: u64) AND ucast l = 0"
    by (rule bit_word_eqI) (auto simp: bit_simps dest: bit_imp_le_length)
  then have "join h l = push_bit 32 (ucast h) + ucast l"
    by (simp add: join_def disjunctive_add_eq_or)
  moreover have p: "uint (push_bit 32 (ucast h :: u64)) = uint h * 2 ^ 32"
    unfolding unsigned_push_bit_eq u using uint_lt2p [of h]
    by (simp add: push_bit_eq_mult take_bit_int_eq_self_iff)
  ultimately have "uint (join h l) = (uint h * 2 ^ 32 + uint l) mod 2 ^ 64"
    using uint_word_ariths(1) [of "push_bit 32 (ucast h :: u64)" "ucast l"] by (simp add: u)
  moreover have "uint h * 2 ^ 32 + uint l < 2 ^ 64"
  proof -
    have "uint h \<le> 2 ^ 32 - 1" "uint l < 2 ^ 32" using uint_lt2p [of h] uint_lt2p [of l] by simp_all
    then show ?thesis by simp
  qed
  ultimately show ?thesis by (simp add: mod_pos_pos_trivial)
qed

text \<open>The condition codes of an operation that continues another one.\<close>

definition continuing :: "ccr \<Rightarrow> ccr \<Rightarrow> ccr" where
  "continuing before c = c\<lparr>ccZ := ccZ before \<and> ccZ c\<rparr>"

lemma addx_step:
  "\<exists>t. m68k_op_addx_32_rr s = Ret () t \<and> alu_done s t (unat (regX s))
      (DX s + DY s + of_bool (ccX (ccr_of s)))
      (continuing (ccr_of s) (add_ccr (DX s) (DY s) (ccX (ccr_of s))))"
proof -
  let ?r = "DX s + DY s + of_bool (ccX (ccr_of s))"
  have f: "flags_ccr (CFLAG_ADD_32 (DY s) (DX s) ?r) (NFLAG_32 ?r) (not_z_flag s OR ?r)
      (VFLAG_ADD_32 (DY s) (DX s) ?r) (CFLAG_ADD_32 (DY s) (DX s) ?r)
    = continuing (ccr_of s) (add_ccr (DX s) (DY s) (ccX (ccr_of s)))"
    by (simp add: add_flags_32 [symmetric] flags_ccr_def continuing_def ccr_of_def or_eq_0_iff)
  show ?thesis
    using alu_step [OF f, of s ?r]
    by (simp add: m68k_op_addx_32_rr_def Let_def XFLAG_AS_1_ccr bool_word_of_bool add.commute [of "DY s"]
        flag_order)
qed

lemma subx_step:
  "\<exists>t. m68k_op_subx_32_rr s = Ret () t \<and> alu_done s t (unat (regX s))
      (DX s - DY s - of_bool (ccX (ccr_of s)))
      (continuing (ccr_of s) (sub_ccr (DX s) (DY s) (ccX (ccr_of s))))"
proof -
  let ?r = "DX s - DY s - of_bool (ccX (ccr_of s))"
  have f: "flags_ccr (CFLAG_SUB_32 (DY s) (DX s) ?r) (NFLAG_32 ?r) (not_z_flag s OR ?r)
      (VFLAG_SUB_32 (DY s) (DX s) ?r) (CFLAG_SUB_32 (DY s) (DX s) ?r)
    = continuing (ccr_of s) (sub_ccr (DX s) (DY s) (ccX (ccr_of s)))"
    by (simp add: sub_flags_32 [symmetric] flags_ccr_def continuing_def ccr_of_def or_eq_0_iff)
  show ?thesis
    using alu_step [OF f, of s ?r]
    by (simp add: m68k_op_subx_32_rr_def Let_def XFLAG_AS_1_ccr bool_word_of_bool flag_order)
qed

text \<open>Two halves make the whole: value and condition codes.\<close>

lemma sgn_join: "sgn_bit (join h l) = sgn_bit h"
  by (auto simp: join_def bit_simps dest: bit_imp_le_length)

lemma sint_join: "sint (join h l) = sint h * 2 ^ 32 + uint l"
  unfolding sint_signed sgn_join uint_join by simp

lemma join_eq_0: "join h l = 0 \<longleftrightarrow> h = 0 \<and> l = 0"
  using uint_join [of h l] uint_ge_0 [of h] uint_ge_0 [of l]
  by (simp add: word_uint_eq_iff add_nonneg_eq_0_iff)

lemma join_negative: "sint (join h l) < 0 \<longleftrightarrow> sint h < 0"
  using sgn_join [of h l] sign_negative [of "join h l"] sign_negative [of h] by simp

lemma whole_carry:
  fixes K L :: int
  assumes "0 \<le> L" "L < 2 ^ 32"
  shows "K * 2 ^ 32 + L < 2 ^ 64 \<longleftrightarrow> K < 2 ^ 32" "0 \<le> K * 2 ^ 32 + L \<longleftrightarrow> 0 \<le> K"
  using assms by simp_all linarith+

lemma scaled_eq: "h * 2 ^ 32 + l = k * 2 ^ 32 + l \<longleftrightarrow> h = k" for h k l :: int
  by simp

lemma join_add:
  fixes ah al bh bl :: u32
  defines "c \<equiv> ccX (add_ccr al bl False)"
  shows "join (ah + bh + of_bool c) (al + bl) = join ah al + join bh bl"
    and "continuing (add_ccr al bl False) (add_ccr ah bh c) = add_ccr (join ah al) (join bh bl) False"
proof -
  have c: "c \<longleftrightarrow> 2 ^ 32 \<le> uint al + uint bl" by (simp add: c_def add_ccr_def Let_def)
  have l: "uint (al + bl) = uint al + uint bl - of_bool c * 2 ^ 32"
    using uint_sum [of al bl False] by (simp add: Let_def c)
  have n: "uint (join ah al) + uint (join bh bl)
      = (uint ah + uint bh + of_bool c) * 2 ^ 32 + uint (al + bl)"
    by (simp add: uint_join l algebra_simps)
  have w: "K * 2 ^ 32 + uint (al + bl) < 2 ^ 64 \<longleftrightarrow> K < 2 ^ 32" for K
    using whole_carry(1) [OF uint_ge_0 [of "al + bl"], of K] uint_lt2p [of "al + bl"] by simp
  show j: "join (ah + bh + of_bool c) (al + bl) = join ah al + join bh bl"
  proof -
    define K where "K = uint ah + uint bh + of_bool c"
    have "uint (ah + bh + of_bool c) = (if K < 2 ^ 32 then K else K - 2 ^ 32)"
      using uint_sum [of ah bh c] by (simp add: K_def Let_def)
    moreover have "uint (join ah al + join bh bl) = (if K < 2 ^ 32 then K * 2 ^ 32 + uint (al + bl)
        else K * 2 ^ 32 + uint (al + bl) - 2 ^ 64)"
      using uint_sum [of "join ah al" "join bh bl" False] w [of K]
      by (simp add: n K_def [symmetric] Let_def)
    ultimately show ?thesis by (simp add: word_uint_eq_iff uint_join algebra_simps)
  qed
  have s: "sint (join ah al) + sint (join bh bl)
      = (sint ah + sint bh + of_bool c) * 2 ^ 32 + uint (al + bl)"
    by (simp add: sint_join l algebra_simps)
  define H where "H = ah + bh + of_bool c"
  have carry: "2 ^ 64 \<le> uint (join ah al) + uint (join bh bl) \<longleftrightarrow> 2 ^ 32 \<le> uint ah + uint bh + of_bool c"
    unfolding n using w [of "uint ah + uint bh + of_bool c"] by linarith
  have overflow: "sint (join H (al + bl)) = sint (join ah al) + sint (join bh bl) \<longleftrightarrow>
      sint H = sint ah + sint bh + of_bool c"
    by (simp only: s sint_join [of H] scaled_eq)
  have jH: "join ah al + join bh bl = join H (al + bl)" by (simp add: j H_def)
  have "add_ccr (join ah al) (join bh bl) False =
    \<lparr>ccX = 2 ^ 32 \<le> uint ah + uint bh + of_bool c, ccN = sint H < 0, ccZ = al + bl = 0 \<and> H = 0,
     ccV = sint H \<noteq> sint ah + sint bh + of_bool c, ccC = 2 ^ 32 \<le> uint ah + uint bh + of_bool c\<rparr>"
    using carry overflow
    by (simp add: add_ccr_def Let_def jH join_negative join_eq_0 conj_commute)
  moreover have "ccZ (add_ccr al bl False) \<longleftrightarrow> al + bl = 0" by (simp add: add_ccr_def Let_def)
  ultimately
  show "continuing (add_ccr al bl False) (add_ccr ah bh c) = add_ccr (join ah al) (join bh bl) False"
    by (simp add: add_ccr_def [of ah] Let_def continuing_def flip: H_def)
qed

lemma join_sub:
  fixes ah al bh bl :: u32
  defines "c \<equiv> ccX (sub_ccr al bl False)"
  shows "join (ah - bh - of_bool c) (al - bl) = join ah al - join bh bl"
    and "continuing (sub_ccr al bl False) (sub_ccr ah bh c) = sub_ccr (join ah al) (join bh bl) False"
proof -
  have c: "c \<longleftrightarrow> uint al < uint bl" by (simp add: c_def sub_ccr_def Let_def)
  have l: "uint (al - bl) = uint al - uint bl + of_bool c * 2 ^ 32"
    using uint_difference [of al bl False] by (simp add: Let_def c)
  have n: "uint (join ah al) - uint (join bh bl)
      = (uint ah - uint bh - of_bool c) * 2 ^ 32 + uint (al - bl)"
    by (simp add: uint_join l algebra_simps)
  have w: "0 \<le> K * 2 ^ 32 + uint (al - bl) \<longleftrightarrow> 0 \<le> K" for K
    using whole_carry(2) [OF uint_ge_0 [of "al - bl"], of K] uint_lt2p [of "al - bl"] by simp
  show j: "join (ah - bh - of_bool c) (al - bl) = join ah al - join bh bl"
  proof -
    define K where "K = uint ah - uint bh - of_bool c"
    have "uint (ah - bh - of_bool c) = (if 0 \<le> K then K else K + 2 ^ 32)"
      using uint_difference [of ah bh c] by (simp add: K_def Let_def)
    moreover have "uint (join ah al - join bh bl) = (if 0 \<le> K then K * 2 ^ 32 + uint (al - bl)
        else K * 2 ^ 32 + uint (al - bl) + 2 ^ 64)"
      using uint_difference [of "join ah al" "join bh bl" False] w [of K]
      by (simp add: n K_def [symmetric] Let_def)
    ultimately show ?thesis by (simp add: word_uint_eq_iff uint_join algebra_simps)
  qed
  have s: "sint (join ah al) - sint (join bh bl)
      = (sint ah - sint bh - of_bool c) * 2 ^ 32 + uint (al - bl)"
    by (simp add: sint_join l algebra_simps)
  define H where "H = ah - bh - of_bool c"
  have borrow: "uint (join ah al) < uint (join bh bl) \<longleftrightarrow> uint ah < uint bh + of_bool c"
    using n w [of "uint ah - uint bh - of_bool c"] by linarith
  have overflow: "sint (join H (al - bl)) = sint (join ah al) - sint (join bh bl) \<longleftrightarrow>
      sint H = sint ah - sint bh - of_bool c"
    by (simp only: s sint_join [of H] scaled_eq)
  have jH: "join ah al - join bh bl = join H (al - bl)" by (simp add: j H_def)
  have "sub_ccr (join ah al) (join bh bl) False =
    \<lparr>ccX = uint ah < uint bh + of_bool c, ccN = sint H < 0, ccZ = al - bl = 0 \<and> H = 0,
     ccV = sint H \<noteq> sint ah - sint bh - of_bool c, ccC = uint ah < uint bh + of_bool c\<rparr>"
    using borrow overflow
    by (simp add: sub_ccr_def Let_def jH join_negative join_eq_0 conj_commute)
  moreover have "ccZ (sub_ccr al bl False) \<longleftrightarrow> al - bl = 0" by (simp add: sub_ccr_def Let_def)
  ultimately
  show "continuing (sub_ccr al bl False) (sub_ccr ah bh c) = sub_ccr (join ah al) (join bh bl) False"
    by (simp add: sub_ccr_def [of ah] Let_def continuing_def flip: H_def)
qed

subsection \<open>The pair of instructions\<close>

lemma done_regs:
  assumes "alu_done s t i v c"
  shows "dar t = (dar s)(i := v)" "ccr_of t = c"
    and "regX (t\<lparr>ir := w\<rparr>) = regX (s\<lparr>ir := w\<rparr>)" "regY (t\<lparr>ir := w\<rparr>) = regY (s\<lparr>ir := w\<rparr>)"
proof -
  obtain xf nf zf vf cf where t: "t = s\<lparr>dar := (dar s)(i := v)\<rparr>
      \<lparr>x_flag := xf, n_flag := nf, not_z_flag := zf, v_flag := vf, c_flag := cf\<rparr>"
    using assms unfolding alu_done_def flags_done_def by blast
  show "dar t = (dar s)(i := v)" by (simp add: t)
  show "ccr_of t = c" using assms by (simp add: alu_done_def flags_done_def)
  show "regX (t\<lparr>ir := w\<rparr>) = regX (s\<lparr>ir := w\<rparr>)" "regY (t\<lparr>ir := w\<rparr>) = regY (s\<lparr>ir := w\<rparr>)"
    by (simp_all add: t regX_def regY_def)
qed

lemma ccr_of_ir [simp]: "ccr_of (t\<lparr>ir := w\<rparr>) = ccr_of t" by (simp add: ccr_of_def)

text \<open>
  C4. A 64-bit value in two registers: ADD.L of the low halves followed by ADDX.L of the high
  halves leaves the 64-bit sum in the register pair and the condition codes of the 64-bit addition,
  Z included; SUB.L followed by SUBX.L does the same for the difference.  The second instruction
  word \<open>w\<close> names the high registers; the low destination must not be one of them.
\<close>

theorem extended_precision:
  fixes s :: "'b machine" and w :: u32
  defines "lx \<equiv> unat (regX s)" and "ly \<equiv> unat (regY s)"
    and "hx \<equiv> unat (regX (s\<lparr>ir := w\<rparr>))" and "hy \<equiv> unat (regY (s\<lparr>ir := w\<rparr>))"
  assumes "lx \<noteq> hx" "lx \<noteq> hy"
  shows "(\<exists>t u. m68k_op_add_32_er_d s = Ret () t \<and> m68k_op_addx_32_rr (t\<lparr>ir := w\<rparr>) = Ret () u \<and>
      join (dar u hx) (dar u lx) = join (dar s hx) (dar s lx) + join (dar s hy) (dar s ly) \<and>
      ccr_of u = add_ccr (join (dar s hx) (dar s lx)) (join (dar s hy) (dar s ly)) False) \<and>
    (\<exists>t u. m68k_op_sub_32_er_d s = Ret () t \<and> m68k_op_subx_32_rr (t\<lparr>ir := w\<rparr>) = Ret () u \<and>
      join (dar u hx) (dar u lx) = join (dar s hx) (dar s lx) - join (dar s hy) (dar s ly) \<and>
      ccr_of u = sub_ccr (join (dar s hx) (dar s lx)) (join (dar s hy) (dar s ly)) False)"
proof (rule conjI)
  let ?c = "ccX (add_ccr (dar s lx) (dar s ly) False)" and ?b = "ccX (sub_ccr (dar s lx) (dar s ly) False)"
  obtain t where t: "m68k_op_add_32_er_d s = Ret () t" "alu_done s t lx (dar s lx + dar s ly)
      (add_ccr (dar s lx) (dar s ly) False)"
    using add_result_32_correct [of "DY s" s]
    by (simp add: add_32_handlers register_operand_defs add_to_DX_32_def DX_def DY_def REG_D_def lx_def ly_def)
  note r = done_regs [OF t(2)]
  obtain u where u: "m68k_op_addx_32_rr (t\<lparr>ir := w\<rparr>) = Ret () u"
      "alu_done (t\<lparr>ir := w\<rparr>) u hx (dar s hx + dar s hy + of_bool ?c)
        (continuing (add_ccr (dar s lx) (dar s ly) False) (add_ccr (dar s hx) (dar s hy) ?c))"
    using addx_step [of "t\<lparr>ir := w\<rparr>"] assms(5,6)
    by (auto simp: DX_def DY_def REG_D_def r hx_def hy_def)
  show "\<exists>t u. m68k_op_add_32_er_d s = Ret () t \<and> m68k_op_addx_32_rr (t\<lparr>ir := w\<rparr>) = Ret () u \<and>
      join (dar u hx) (dar u lx) = join (dar s hx) (dar s lx) + join (dar s hy) (dar s ly) \<and>
      ccr_of u = add_ccr (join (dar s hx) (dar s lx)) (join (dar s hy) (dar s ly)) False"
    using t(1) u(1) done_regs(1,2) [OF u(2)] r(1) assms(5) join_add
      [where al = "dar s lx" and bl = "dar s ly" and ah = "dar s hx" and bh = "dar s hy"]
    by (intro exI conjI) simp_all
  obtain t where t: "m68k_op_sub_32_er_d s = Ret () t" "alu_done s t lx (dar s lx - dar s ly)
      (sub_ccr (dar s lx) (dar s ly) False)"
    using sub_result_32_correct [of "DY s" s]
    by (simp add: sub_32_handlers register_operand_defs sub_from_DX_32_def DX_def DY_def REG_D_def lx_def ly_def)
  note r = done_regs [OF t(2)]
  obtain u where u: "m68k_op_subx_32_rr (t\<lparr>ir := w\<rparr>) = Ret () u"
      "alu_done (t\<lparr>ir := w\<rparr>) u hx (dar s hx - dar s hy - of_bool ?b)
        (continuing (sub_ccr (dar s lx) (dar s ly) False) (sub_ccr (dar s hx) (dar s hy) ?b))"
    using subx_step [of "t\<lparr>ir := w\<rparr>"] assms(5,6)
    by (auto simp: DX_def DY_def REG_D_def r hx_def hy_def)
  show "\<exists>t u. m68k_op_sub_32_er_d s = Ret () t \<and> m68k_op_subx_32_rr (t\<lparr>ir := w\<rparr>) = Ret () u \<and>
      join (dar u hx) (dar u lx) = join (dar s hx) (dar s lx) - join (dar s hy) (dar s ly) \<and>
      ccr_of u = sub_ccr (join (dar s hx) (dar s lx)) (join (dar s hy) (dar s ly)) False"
    using t(1) u(1) done_regs(1,2) [OF u(2)] r(1) assms(5) join_sub
      [where al = "dar s lx" and bl = "dar s ly" and ah = "dar s hx" and bh = "dar s hy"]
    by (intro exI conjI) simp_all
qed

lemma extended_precision_witness:
  "\<exists>t u. m68k_op_sub_32_er_d (sample\<lparr>ir := 0x9283\<rparr>) = Ret () t \<and>
     m68k_op_subx_32_rr (t\<lparr>ir := 0x9182\<rparr>) = Ret () u \<and> join (dar u 0) (dar u 1) = 0"
  using extended_precision [where s = "sample\<lparr>ir := 0x9283\<rparr>" and w = "0x9182"]
  by (simp add: regX_def regY_def sample_simps join_eq_0) blast

end
