(* ===== verification/Ncr5380.thy ===== *)
theory Ncr5380
  imports HostFiles
begin

section \<open>The SCSI controller\<close>

text \<open>
  \<open>Ncr5380.cpp\<close>: the phases of the SCSI bus behind eight registers, with the handshake of the
  initiator command register and the pseudo DMA accesses.  Targets are shared objects: the slots of
  the bus and the active target refer to them by number, and their states are in a store.
\<close>

unbundle bit_operations_syntax

datatype scsi_phase = BusFree | Command | DataIn | DataOut | Status | MessageIn

record CommandTrace =
  trace_targetId :: u8
  trace_cdb :: "u8 list"
  trace_dataLength :: nat
  trace_dataOutLength :: nat
  trace_status :: u8
  trace_senseKey :: u8

record 't ncr =
  ncr_registers :: "u8 \<Rightarrow> u8"
  ncr_targets :: "u8 \<Rightarrow> nat option"
  ncr_objects :: "nat \<Rightarrow> 't"
  ncr_activeTarget :: "nat option"
  ncr_command :: "u8 list"
  ncr_dataBuffer :: "u8 list"
  ncr_dataOut :: "u8 list"
  ncr_dataIndex :: nat
  ncr_expectedDataOut :: nat
  ncr_phase :: scsi_phase
  ncr_targetCommand :: u8
  ncr_outputData :: u8
  ncr_activeTargetId :: u8
  ncr_status :: u8
  ncr_message :: u8
  ncr_senseKey :: u8
  ncr_completedCommands :: u64
  ncr_selected :: bool
  ncr_request :: bool
  ncr_requestReassertPending :: bool
  ncr_dataOutCompletionPending :: bool
  ncr_previousAck :: bool
  ncr_commandReady :: bool
  ncr_lastCommand :: "u8 list"
  ncr_commandTrace :: "CommandTrace list"

definition ncr_reset :: "'t ncr \<Rightarrow> 't ncr" where
  "ncr_reset s = s\<lparr>ncr_registers := (\<lambda>_. 0), ncr_command := [], ncr_dataBuffer := [], ncr_dataOut := [],
     ncr_dataIndex := 0, ncr_expectedDataOut := 0, ncr_phase := BusFree, ncr_targetCommand := 0,
     ncr_outputData := 0, ncr_status := 0, ncr_message := 0, ncr_senseKey := 0, ncr_completedCommands := 0,
     ncr_selected := False, ncr_request := False, ncr_requestReassertPending := False,
     ncr_dataOutCompletionPending := False, ncr_previousAck := False, ncr_commandReady := False,
     ncr_lastCommand := [], ncr_commandTrace := [], ncr_activeTarget := None, ncr_activeTargetId := 0xff\<rparr>"

definition attachTarget :: "u8 \<Rightarrow> nat \<Rightarrow> 't ncr \<Rightarrow> 't ncr" where
  "attachTarget i object s = (if i < 8 then s\<lparr>ncr_targets := (ncr_targets s)(i := Some object)\<rparr> else s)"

definition detachTarget :: "u8 \<Rightarrow> 't ncr \<Rightarrow> 't ncr" where
  "detachTarget i s = (if i < 8 then s\<lparr>ncr_targets := (ncr_targets s)(i := None)\<rparr> else s)"

definition hasTarget :: "'t ScsiTarget \<Rightarrow> u8 \<Rightarrow> 't ncr \<Rightarrow> bool" where
  "hasTarget target i s \<longleftrightarrow> i < 8 \<and>
     (case ncr_targets s i of None \<Rightarrow> False | Some object \<Rightarrow> target_selectable target (ncr_objects s object))"

subsection \<open>Phases\<close>

definition setPhase :: "scsi_phase \<Rightarrow> bool \<Rightarrow> 't ncr \<Rightarrow> 't ncr" where
  "setPhase phase request s =
    (let s = s\<lparr>ncr_phase := phase, ncr_request := request, ncr_requestReassertPending := False\<rparr>
     in if phase = BusFree
        then s\<lparr>ncr_selected := False, ncr_activeTarget := None, ncr_command := [], ncr_dataBuffer := [],
               ncr_dataOut := [], ncr_dataIndex := 0, ncr_expectedDataOut := 0,
               ncr_dataOutCompletionPending := False, ncr_commandReady := False, ncr_activeTargetId := 0xff\<rparr>
        else s)"

definition expectedCommandLength :: "u8 \<Rightarrow> nat" where
  "expectedCommandLength opcode =
    (if opcode = 0xd8 \<or> opcode = 0xd9 then 12
     else let g = drop_bit 5 opcode
          in if g = 0 then 6 else if g = 1 \<or> g = 2 then 10 else if g = 5 then 12 else 6)"

definition acceptCommandByte :: "u8 \<Rightarrow> 't ncr \<Rightarrow> 't ncr" where
  "acceptCommandByte v s =
    (let s = s\<lparr>ncr_command := ncr_command s @ [v], ncr_request := False\<rparr>
     in if expectedCommandLength (ncr_command s ! 0) \<le> length (ncr_command s)
        then s\<lparr>ncr_commandReady := True\<rparr> else s)"

definition push_trace :: "CommandTrace \<Rightarrow> 't ncr \<Rightarrow> 't ncr" where
  "push_trace e s =
    (let traces = (if length (ncr_commandTrace s) = 128 then tl (ncr_commandTrace s) else ncr_commandTrace s)
     in s\<lparr>ncr_commandTrace := traces @ [e]\<rparr>)"

text \<open>The answer of the active target, recorded.\<close>

definition finish_command :: "ScsiCommandResult \<Rightarrow> nat \<Rightarrow> 't ncr \<Rightarrow> 't ncr" where
  "finish_command result dataOutLength s =
    (push_trace \<lparr>trace_targetId = ncr_activeTargetId s, trace_cdb = ncr_command s,
        trace_dataLength = length (result_data result), trace_dataOutLength = dataOutLength,
        trace_status = result_status result, trace_senseKey = result_senseKey result\<rparr> s)
      \<lparr>ncr_lastCommand := ncr_command s, ncr_completedCommands := ncr_completedCommands s + 1,
       ncr_status := result_status result, ncr_message := result_message result,
       ncr_senseKey := result_senseKey result\<rparr>"

definition run_target ::
    "'t ScsiTarget \<Rightarrow> nat \<Rightarrow> u8 list \<Rightarrow> u8 list \<Rightarrow> 't ncr \<Rightarrow> ScsiCommandResult \<times> 't ncr" where
  "run_target target object cdb out s =
    (let (result, t) = target_executeCommand target cdb out (ncr_objects s object)
     in (result, s\<lparr>ncr_objects := (ncr_objects s)(object := t)\<rparr>))"

definition no_result :: ScsiCommandResult where
  "no_result = \<lparr>result_data = [], result_status = 0, result_message = 0, result_senseKey = 0\<rparr>"

definition completeDataOutCommand :: "'t ScsiTarget \<Rightarrow> 't ncr \<Rightarrow> 't ncr" where
  "completeDataOutCommand target s =
    (let (result, s) = (case ncr_activeTarget s of
                          Some object \<Rightarrow> run_target target object (ncr_command s) (ncr_dataOut s) s
                        | None \<Rightarrow> (no_result, s))
     in setPhase Status True (finish_command result (length (ncr_dataOut s)) s))"

text \<open>The bytes a command takes before it runs, where it takes any.\<close>

definition data_out_length :: "u8 list \<Rightarrow> nat option" where
  "data_out_length command =
    (let opcode = command ! 0; n = length command; be16 = unat (command ! 7) * 256 + unat (command ! 8)
     in if opcode = 0x0a \<and> 6 \<le> n then Some ((if command ! 4 = 0 then 256 else unat (command ! 4)) * 512)
        else if opcode = 0x2a \<and> 10 \<le> n \<and> be16 * 512 \<noteq> 0 then Some (be16 * 512)
        else if opcode = 0x15 \<and> 6 \<le> n \<and> command ! 4 \<noteq> 0 then Some (unat (command ! 4))
        else if opcode = 0x55 \<and> 10 \<le> n \<and> be16 \<noteq> 0 then Some be16
        else if opcode = 0x04 \<and> 6 \<le> n \<and> command ! 1 AND 0x10 \<noteq> 0 then Some 4
        else None)"

text \<open>Commands that leave \<open>m_expectedDataOut\<close> at zero when they take no bytes after all.\<close>

definition clears_expected :: "u8 list \<Rightarrow> bool" where
  "clears_expected command \<longleftrightarrow> (command ! 0 = 0x2a \<or> command ! 0 = 0x55) \<and> 10 \<le> length command"

definition ncr_executeCommand :: "'t ScsiTarget \<Rightarrow> 't ncr \<Rightarrow> 't ncr" where
  "ncr_executeCommand target s =
    (case ncr_activeTarget s of
       None \<Rightarrow> setPhase Status True (s\<lparr>ncr_status := 0x02, ncr_message := 0x00\<rparr>)
     | Some object \<Rightarrow>
         let s = s\<lparr>ncr_dataOut := []\<rparr>
         in case data_out_length (ncr_command s) of
              Some n \<Rightarrow> setPhase DataOut True
                (s\<lparr>ncr_expectedDataOut := n, ncr_dataBuffer := [], ncr_dataIndex := 0\<rparr>)
            | None \<Rightarrow>
                let s = (if clears_expected (ncr_command s) then s\<lparr>ncr_expectedDataOut := 0\<rparr> else s);
                    (result, s) = run_target target object (ncr_command s) [] s;
                    s = (finish_command result 0 s)\<lparr>ncr_dataBuffer := result_data result, ncr_dataIndex := 0\<rparr>
                in setPhase (if ncr_dataBuffer s = [] then Status else DataIn) True s)"

text \<open>The end of a data phase; the format command learns the length of its data from their head.\<close>

definition data_out_done :: "'t ScsiTarget \<Rightarrow> 't ncr \<Rightarrow> 't ncr" where
  "data_out_done target s =
    (if ncr_registers s 2 AND 0x02 \<noteq> 0 then s\<lparr>ncr_dataOutCompletionPending := True, ncr_request := True\<rparr>
     else completeDataOutCommand target s)"

definition finishDataPhaseIfDone :: "'t ScsiTarget \<Rightarrow> 't ncr \<Rightarrow> 't ncr" where
  "finishDataPhaseIfDone target s =
    (if ncr_phase s = DataIn \<and> length (ncr_dataBuffer s) \<le> ncr_dataIndex s then setPhase Status True s
     else if ncr_phase s = DataOut \<and> ncr_command s \<noteq> [] \<and> ncr_command s ! 0 = 0x04 \<and>
             ncr_expectedDataOut s \<le> length (ncr_dataOut s)
     then let out = ncr_dataOut s;
              defectLength = unat (out ! 2) * 256 + unat (out ! 3);
              initializationPattern = (out ! 1 AND 0x08 \<noteq> 0)
          in if initializationPattern \<and> length out < 8 then s\<lparr>ncr_expectedDataOut := 8\<rparr>
             else let patternLength = (if initializationPattern then unat (out ! 6) * 256 + unat (out ! 7) else 0);
                      totalLength = 4 + (if initializationPattern then 4 else 0) + defectLength + patternLength
                  in if length out < totalLength then s\<lparr>ncr_expectedDataOut := totalLength\<rparr>
                     else data_out_done target s
     else if ncr_phase s = DataOut \<and> ncr_expectedDataOut s \<le> length (ncr_dataOut s)
     then data_out_done target s
     else s)"

definition readDataByte :: "'t ncr \<Rightarrow> u8 \<times> 't ncr" where
  "readDataByte s =
    (case ncr_phase s of
       DataIn \<Rightarrow> if ncr_dataIndex s < length (ncr_dataBuffer s)
                 then (ncr_dataBuffer s ! ncr_dataIndex s, s\<lparr>ncr_dataIndex := ncr_dataIndex s + 1\<rparr>)
                 else (0, s)
     | Status \<Rightarrow> (ncr_status s, s)
     | MessageIn \<Rightarrow> (ncr_message s, s)
     | _ \<Rightarrow> (0, s))"

definition writeDataByte :: "u8 \<Rightarrow> 't ncr \<Rightarrow> 't ncr" where
  "writeDataByte v s = (if ncr_phase s \<noteq> DataOut then s else s\<lparr>ncr_dataOut := ncr_dataOut s @ [v]\<rparr>)"

fun phaseBits :: "scsi_phase \<Rightarrow> u8" where
  "phaseBits DataIn = 0x04"
| "phaseBits DataOut = 0"
| "phaseBits Command = 0x08"
| "phaseBits Status = 0x0c"
| "phaseBits MessageIn = 0x1c"
| "phaseBits BusFree = 0"

definition reassert :: "'t ncr \<Rightarrow> 't ncr" where
  "reassert s =
    (if ncr_requestReassertPending s then s\<lparr>ncr_request := True, ncr_requestReassertPending := False\<rparr> else s)"

definition currentBusStatus :: "'t ncr \<Rightarrow> u8 \<times> 't ncr" where
  "currentBusStatus s =
    (phaseBits (ncr_phase s) OR (if ncr_selected s then 0x40 else 0) OR (if ncr_request s then 0x20 else 0),
     reassert s)"

definition phaseMatchesTargetCommand :: "'t ncr \<Rightarrow> bool" where
  "phaseMatchesTargetCommand s \<longleftrightarrow>
     ncr_targetCommand s AND 0x07 = drop_bit 2 (phaseBits (ncr_phase s)) AND 0x07"

definition busAndStatus :: "'t ncr \<Rightarrow> u8 \<times> 't ncr" where
  "busAndStatus s =
    (let s = reassert s
     in ((if phaseMatchesTargetCommand s then 0x08 else 0) OR (if ncr_request s then 0x20 else 0) OR
         (if ncr_request s \<and> (ncr_phase s = DataIn \<or> ncr_phase s = DataOut) then 0x40 else 0) OR
         (if ncr_previousAck s then 0x01 else 0), s))"

subsection \<open>Registers\<close>

definition ncr_readRegister :: "u8 \<Rightarrow> bool \<Rightarrow> 't ncr \<Rightarrow> u8 \<times> 't ncr" where
  "ncr_readRegister registerIndex dack s =
    (let r = registerIndex AND 0x07
     in if dack
        then if \<not> ncr_request s then (0, s)
             else let (v, s) = readDataByte s
                  in (v, if ncr_phase s = DataIn \<and> ncr_request s
                         then let s = s\<lparr>ncr_request := False\<rparr>
                              in if length (ncr_dataBuffer s) \<le> ncr_dataIndex s then setPhase Status True s
                                 else s\<lparr>ncr_requestReassertPending := True\<rparr>
                         else s)
        else if r = 0 then readDataByte s
        else if r = 1 then (0x40 OR (if ncr_registers s 2 AND 0x01 \<noteq> 0 then 0x40 else 0), s)
        else if r = 3 then (ncr_targetCommand s, s)
        else if r = 4 then currentBusStatus s
        else if r = 5 then busAndStatus s
        else if r = 6 then (ncr_outputData s, s)
        else if r = 7 then (0, s)
        else (ncr_registers s r, s))"

definition select_target :: "'t ScsiTarget \<Rightarrow> 't ncr \<Rightarrow> 't ncr" where
  "select_target target s =
    (case filter (\<lambda>i. ncr_outputData s AND push_bit i 1 \<noteq> 0 \<and> hasTarget target (of_nat i) s) [0..<7] of
       [] \<Rightarrow> s
     | i # _ \<Rightarrow> s\<lparr>ncr_activeTarget := ncr_targets s (of_nat i), ncr_activeTargetId := of_nat i,
                    ncr_selected := True\<rparr>)"

definition ack_raised :: "u8 \<Rightarrow> 't ncr \<Rightarrow> 't ncr" where
  "ack_raised v s =
    (if ncr_phase s = Command \<and> v AND 0x01 \<noteq> 0 then acceptCommandByte (ncr_outputData s) s
     else if ncr_phase s \<in> {DataIn, DataOut, Status, MessageIn} then s\<lparr>ncr_request := False\<rparr>
     else s)"

definition ack_lowered :: "'t ScsiTarget \<Rightarrow> 't ncr \<Rightarrow> 't ncr" where
  "ack_lowered target s =
    (if ncr_phase s = Command \<and> ncr_selected s \<and> ncr_command s \<noteq> []
     then if ncr_commandReady s then ncr_executeCommand target (s\<lparr>ncr_commandReady := False\<rparr>)
          else if length (ncr_command s) < expectedCommandLength (ncr_command s ! 0)
          then s\<lparr>ncr_request := True\<rparr> else s
     else if ncr_phase s = DataIn
     then if length (ncr_dataBuffer s) \<le> ncr_dataIndex s then setPhase Status True s else s\<lparr>ncr_request := True\<rparr>
     else if ncr_phase s = DataOut
     then let s = finishDataPhaseIfDone target s in if ncr_phase s = DataOut then s\<lparr>ncr_request := True\<rparr> else s
     else if ncr_phase s = Status then setPhase MessageIn True s
     else if ncr_phase s = MessageIn then setPhase BusFree False s
     else s)"

definition write_initiatorCommand :: "'t ScsiTarget \<Rightarrow> u8 \<Rightarrow> 't ncr \<Rightarrow> 't ncr" where
  "write_initiatorCommand target v s =
    (let previous = ncr_registers s 1; s = s\<lparr>ncr_registers := (ncr_registers s)(1 := v)\<rparr>
     in if v AND 0x80 \<noteq> 0 then ncr_reset s
        else
          let s = (if v AND 0x04 \<noteq> 0 \<and> \<not> ncr_selected s then select_target target s else s);
              s = (if previous AND 0x04 \<noteq> 0 \<and> v AND 0x04 = 0 \<and> ncr_selected s then setPhase Command True s else s);
              ack = (v AND 0x10 \<noteq> 0);
              s = (if ack \<and> \<not> ncr_previousAck s then ack_raised v s
                   else if \<not> ack \<and> ncr_previousAck s then ack_lowered target s
                   else s)
          in s\<lparr>ncr_previousAck := ack\<rparr>)"

definition write_dack :: "'t ScsiTarget \<Rightarrow> u8 \<Rightarrow> 't ncr \<Rightarrow> 't ncr" where
  "write_dack target v s =
    (if \<not> ncr_request s then s
     else if ncr_phase s = Command
     then let s = acceptCommandByte v s
          in if ncr_commandReady s then ncr_executeCommand target (s\<lparr>ncr_commandReady := False\<rparr>)
             else s\<lparr>ncr_request := True\<rparr>
     else
       let s = writeDataByte v s
       in if ncr_phase s = DataOut \<and> ncr_request s
          then let s = finishDataPhaseIfDone target (s\<lparr>ncr_request := False\<rparr>)
               in if ncr_phase s = DataOut \<and> \<not> ncr_dataOutCompletionPending s
                  then s\<lparr>ncr_requestReassertPending := True\<rparr> else s
          else s)"

definition write_mode :: "'t ScsiTarget \<Rightarrow> u8 \<Rightarrow> 't ncr \<Rightarrow> 't ncr" where
  "write_mode target v s =
    (let s = (if ncr_registers s 2 AND 0x02 \<noteq> 0 \<and> v AND 0x02 = 0 \<and> ncr_dataOutCompletionPending s
              then completeDataOutCommand target (s\<lparr>ncr_dataOutCompletionPending := False\<rparr>) else s)
     in s\<lparr>ncr_registers := (ncr_registers s)(2 := v)\<rparr>)"

definition ncr_writeRegister :: "'t ScsiTarget \<Rightarrow> u8 \<Rightarrow> bool \<Rightarrow> u8 \<Rightarrow> 't ncr \<Rightarrow> 't ncr" where
  "ncr_writeRegister target registerIndex dack v s =
    (let r = registerIndex AND 0x07
     in if dack then write_dack target v s
        else if r = 0 then s\<lparr>ncr_outputData := v, ncr_registers := (ncr_registers s)(0 := v)\<rparr>
        else if r = 1 then write_initiatorCommand target v s
        else if r = 2 then write_mode target v s
        else if r = 3 then s\<lparr>ncr_targetCommand := v, ncr_registers := (ncr_registers s)(3 := v)\<rparr>
        else s\<lparr>ncr_registers := (ncr_registers s)(r := v)\<rparr>)"

end
