(* ===== verification/DeviceBuses.thy ===== *)
theory DeviceBuses
  imports MacPlusBus Ncr5380
begin

section \<open>Byte-wide chips on the data bus\<close>

text \<open>
  \<open>ByteWideMmioAdapter.cpp\<close> and \<open>MacintoshNcr5380Bus.cpp\<close>: which byte lane of a wider access a chip with
  eight data lines sees, and what the processor reads on the others.  The callbacks are functions on the
  machine \<open>'m\<close>.  Every transaction of a processor has side effects, so the flag is not carried.
\<close>

unbundle bit_operations_syntax

definition access_bytes :: "u8 \<Rightarrow> nat" where
  "access_bytes sz = min 4 (max 1 (unat sz))"

lemma access_bytes_bounds [simp]: "1 \<le> access_bytes s" "access_bytes s \<le> 4"
  by (simp_all add: access_bytes_def)

lemma access_bytes_byte [simp]: "access_bytes 1 = 1"
  by (simp add: access_bytes_def)

subsection \<open>Memory mapped registers\<close>

datatype ReadWiring = ReadMostSignificantLane | ReadLeastSignificantLane | Replicate

datatype WriteWiring = WriteMostSignificantLane | WriteLeastSignificantLane

record 'm ByteWideMmioAdapter =
  wiring_read :: ReadWiring
  wiring_write :: WriteWiring
  wiring_openBus :: u8
  mmio_read :: "(u32 \<Rightarrow> 'm \<Rightarrow> u8 \<times> 'm) option"
  mmio_write :: "(u32 \<Rightarrow> u8 \<Rightarrow> 'm \<Rightarrow> 'm) option"

definition mmio_laneShift :: "nat \<Rightarrow> bool \<Rightarrow> nat" where
  "mmio_laneShift accessBytes mostSignificant =
    (if accessBytes = 1 \<or> \<not> mostSignificant then 0 else (accessBytes - 1) * 8)"

definition placeRead :: "ReadWiring \<Rightarrow> u8 \<Rightarrow> nat \<Rightarrow> u32" where
  "placeRead wiring value accessBytes =
    (if accessBytes = 1 then ucast value
     else if wiring = Replicate
     then fold (\<lambda>_ result. push_bit 8 result OR ucast value) [0..<accessBytes] 0
     else push_bit (mmio_laneShift accessBytes (wiring = ReadMostSignificantLane)) (ucast value))"

definition selectWrite :: "WriteWiring \<Rightarrow> u32 \<Rightarrow> nat \<Rightarrow> u8" where
  "selectWrite wiring value accessBytes =
    ucast (drop_bit (mmio_laneShift accessBytes (wiring = WriteMostSignificantLane)) value)"

definition mmio_access :: "'m ByteWideMmioAdapter \<Rightarrow> u32 \<Rightarrow> BusTransaction \<Rightarrow> 'm \<Rightarrow> u32 \<times> 'm" where
  "mmio_access a offset t m =
    (let accessBytes = access_bytes (bt_size t);
         write = (bt_kind t = DataWrite \<or> bt_kind t = DebugWrite)
     in if write
        then (0, case mmio_write a of None \<Rightarrow> m
                 | Some f \<Rightarrow> f offset (selectWrite (wiring_write a) (bt_value t) accessBytes) m)
        else let (value, m) = (case mmio_read a of None \<Rightarrow> (wiring_openBus a, m) | Some f \<Rightarrow> f offset m)
             in (placeRead (wiring_read a) value accessBytes, m))"

lemma placeRead_byte [simp]: "placeRead w v (Suc 0) = ucast v"
  by (simp add: placeRead_def)

lemma selectWrite_byte [simp]: "selectWrite w v (Suc 0) = ucast v"
  by (simp add: selectWrite_def mmio_laneShift_def)

subsection \<open>The SCSI controller\<close>

datatype RegisterLane = MostSignificant | LeastSignificant

record ScsiWiring =
  registerLane :: RegisterLane
  pseudoDmaLane :: RegisterLane
  pseudoDmaBurst :: bool
  waitForDrq :: bool

definition scsi_laneShift :: "RegisterLane \<Rightarrow> nat \<Rightarrow> nat" where
  "scsi_laneShift lane accessBytes =
    (if accessBytes = 1 \<or> lane = LeastSignificant then 0 else (accessBytes - 1) * 8)"

definition selectedByte :: "u32 \<Rightarrow> RegisterLane \<Rightarrow> nat \<Rightarrow> u8" where
  "selectedByte value lane accessBytes = ucast (drop_bit (scsi_laneShift lane accessBytes) value)"

definition readDack :: "ScsiWiring \<Rightarrow> 't ncr \<Rightarrow> u8 \<times> 't ncr" where
  "readDack w s = ncr_readRegister 6 True (if waitForDrq w then snd (ncr_readRegister 5 False s) else s)"

definition writeDack :: "'t ScsiTarget \<Rightarrow> ScsiWiring \<Rightarrow> u8 \<Rightarrow> 't ncr \<Rightarrow> 't ncr" where
  "writeDack target w v s =
     ncr_writeRegister target 0 True v (if waitForDrq w then snd (ncr_readRegister 5 False s) else s)"

definition ncrbus_readRegister :: "ScsiWiring \<Rightarrow> u8 \<Rightarrow> u8 \<Rightarrow> 't ncr \<Rightarrow> u32 \<times> 't ncr" where
  "ncrbus_readRegister w index sz s =
    (let (v, s) = ncr_readRegister index False s
     in (push_bit (scsi_laneShift (registerLane w) (access_bytes sz)) (ucast v), s))"

definition ncrbus_writeRegister ::
    "'t ScsiTarget \<Rightarrow> ScsiWiring \<Rightarrow> u8 \<Rightarrow> u8 \<Rightarrow> u32 \<Rightarrow> 't ncr \<Rightarrow> 't ncr" where
  "ncrbus_writeRegister target w index sz v s =
     ncr_writeRegister target index False (selectedByte v (registerLane w) (access_bytes sz)) s"

definition ncrbus_readPseudoDma :: "ScsiWiring \<Rightarrow> u8 \<Rightarrow> 't ncr \<Rightarrow> u32 \<times> 't ncr" where
  "ncrbus_readPseudoDma w sz s =
    (let n = access_bytes sz
     in if \<not> pseudoDmaBurst w \<or> n = 1
        then let (v, s) = readDack w s in (push_bit (scsi_laneShift (pseudoDmaLane w) n) (ucast v), s)
        else fold (\<lambda>_ (value, s). let (v, s) = readDack w s in (push_bit 8 value OR ucast v, s)) [0..<n] (0, s))"

definition ncrbus_writePseudoDma :: "'t ScsiTarget \<Rightarrow> ScsiWiring \<Rightarrow> u8 \<Rightarrow> u32 \<Rightarrow> 't ncr \<Rightarrow> 't ncr" where
  "ncrbus_writePseudoDma target w sz v s =
    (let n = access_bytes sz
     in if \<not> pseudoDmaBurst w \<or> n = 1
        then writeDack target w (selectedByte v (pseudoDmaLane w) n) s
        else fold (\<lambda>i. writeDack target w (ucast (drop_bit ((n - i - 1) * 8) v))) [0..<n] s)"

end
