(* ===== verification/MacRtc.thy ===== *)
theory MacRtc
  imports HostFiles
begin

section \<open>The clock chip with the parameter RAM\<close>

text \<open>
  \<open>MacRtc.cpp\<close>: the chip behind three pins of the VIA.  A command byte comes in bit by bit on rising
  edges of the clock; it reads or writes a register, or starts an extended access to one of the 256
  bytes of parameter RAM.  The file of the parameter RAM and the time of day come from the host.
\<close>

unbundle bit_operations_syntax

record 'h rtc =
  rtc_parameterRam :: "u8 \<Rightarrow> u8"
  rtc_shift :: u8
  rtc_command :: u8
  rtc_sector :: u8
  rtc_bits :: int
  rtc_mode :: int
  rtc_writeProtected :: bool
  rtc_enabled :: bool
  rtc_clockHigh :: bool
  rtc_outputActive :: bool
  rtc_dataLine :: bool
  rtc_nvramImagePath :: string
  rtc_host :: 'h

subsection \<open>Registers and parameter RAM\<close>

definition rtc_resetSerial :: "'h rtc \<Rightarrow> 'h rtc" where
  "rtc_resetSerial s = s\<lparr>rtc_shift := 0, rtc_bits := 0, rtc_mode := 0, rtc_enabled := False,
     rtc_clockHigh := False, rtc_outputActive := False, rtc_dataLine := True\<rparr>"

definition rtc_init :: "'h \<Rightarrow> 'h rtc" where
  "rtc_init w = rtc_resetSerial \<lparr>rtc_parameterRam = (\<lambda>_. 0), rtc_shift = 0, rtc_command = 0,
     rtc_sector = 0, rtc_bits = 0, rtc_mode = 0, rtc_writeProtected = False, rtc_enabled = False,
     rtc_clockHigh = False, rtc_outputActive = False, rtc_dataLine = True, rtc_nvramImagePath = [],
     rtc_host = w\<rparr>"

definition rtc_parameterRamBytes :: "'h rtc \<Rightarrow> u8 list" where
  "rtc_parameterRamBytes s = map (\<lambda>i. rtc_parameterRam s (of_nat i)) [0..<256]"

definition rtc_saveNvram :: "'h host_files \<Rightarrow> 'h rtc \<Rightarrow> bool \<times> 'h rtc" where
  "rtc_saveNvram h s =
    (if rtc_nvramImagePath s = [] then (True, s)
     else let (ok, w) = save_file h (rtc_nvramImagePath s) (rtc_parameterRamBytes s) (rtc_host s)
          in (ok, s\<lparr>rtc_host := w\<rparr>))"

definition rtc_store :: "'h host_files \<Rightarrow> u8 \<Rightarrow> u8 \<Rightarrow> 'h rtc \<Rightarrow> 'h rtc" where
  "rtc_store h address value s =
     snd (rtc_saveNvram h (s\<lparr>rtc_parameterRam := (rtc_parameterRam s)(address := value)\<rparr>))"

definition rtc_currentSeconds :: "'h host_files \<Rightarrow> 'h rtc \<Rightarrow> u32" where
  "rtc_currentSeconds h s =
    (let (toSecsSinceEpoch, offsetFromUtc) = date_time h (rtc_host s)
     in word_of_int (toSecsSinceEpoch + offsetFromUtc) + 2082844800)"

definition rtc_accessRegister ::
    "'h host_files \<Rightarrow> u8 \<Rightarrow> u8 \<Rightarrow> bool \<Rightarrow> 'h rtc \<Rightarrow> u8 \<times> 'h rtc" where
  "rtc_accessRegister h command value write s =
    (let reg = drop_bit 2 (command AND 0x7c)
     in if reg < 8
        then (if write then value
              else ucast (drop_bit (unat (reg AND 3) * 8) (rtc_currentSeconds h s)), s)
        else if reg < 12
        then let address = 0x08 + (reg AND 3);
                 s = (if write \<and> \<not> rtc_writeProtected s then rtc_store h address value s else s)
             in (rtc_parameterRam s address, s)
        else if reg < 16
        then (0, if write \<and> reg = 13 then s\<lparr>rtc_writeProtected := value AND 0x80 \<noteq> 0\<rparr> else s)
        else let address = 0x10 + (reg AND 0x0f);
                 s = (if write \<and> \<not> rtc_writeProtected s then rtc_store h address value s else s)
             in (rtc_parameterRam s address, s))"

subsection \<open>The serial line\<close>

definition rtc_receiveByte :: "'h host_files \<Rightarrow> u8 \<Rightarrow> 'h rtc \<Rightarrow> 'h rtc" where
  "rtc_receiveByte h value s =
    (if rtc_mode s = 0
     then if value AND 0x78 = 0x38 then s\<lparr>rtc_command := value, rtc_mode := 2\<rparr>
          else if value AND 0x80 \<noteq> 0
          then let (result, s) = rtc_accessRegister h value 0 False s
               in s\<lparr>rtc_shift := result, rtc_outputActive := True\<rparr>
          else s\<lparr>rtc_command := value, rtc_mode := 1\<rparr>
     else if rtc_mode s = 1
     then let (_, s) = rtc_accessRegister h (rtc_command s) value True s in s\<lparr>rtc_mode := 0\<rparr>
     else if rtc_mode s = 2
     then let s = s\<lparr>rtc_sector := push_bit 5 (rtc_command s AND 0x07) OR drop_bit 2 (value AND 0x7c)\<rparr>
          in if rtc_command s AND 0x80 \<noteq> 0
             then s\<lparr>rtc_shift := rtc_parameterRam s (rtc_sector s), rtc_outputActive := True, rtc_mode := 0\<rparr>
             else s\<lparr>rtc_mode := 3\<rparr>
     else let s = (if rtc_writeProtected s then s else rtc_store h (rtc_sector s) value s)
          in s\<lparr>rtc_mode := 0\<rparr>)"

definition rtc_setPins :: "'h host_files \<Rightarrow> bool \<Rightarrow> bool \<Rightarrow> bool \<Rightarrow> 'h rtc \<Rightarrow> 'h rtc" where
  "rtc_setPins h enabled clockHigh dataHigh s =
    (if \<not> enabled
     then (if rtc_enabled s then rtc_resetSerial s else s)\<lparr>rtc_clockHigh := clockHigh\<rparr>
     else
       let s = (if rtc_enabled s then s
                else s\<lparr>rtc_enabled := True, rtc_clockHigh := clockHigh, rtc_shift := 0, rtc_bits := 0,
                       rtc_mode := 0, rtc_outputActive := False\<rparr>);
           s = (if \<not> rtc_clockHigh s \<and> clockHigh
                then if rtc_outputActive s
                     then let s = s\<lparr>rtc_dataLine := drop_bit (nat (7 - rtc_bits s)) (rtc_shift s) AND 1 \<noteq> 0,
                                    rtc_bits := rtc_bits s + 1\<rparr>
                          in if rtc_bits s = 8 then s\<lparr>rtc_bits := 0, rtc_outputActive := False\<rparr> else s
                     else let s = s\<lparr>rtc_shift := push_bit 1 (rtc_shift s) OR (if dataHigh then 1 else 0),
                                    rtc_bits := rtc_bits s + 1\<rparr>
                          in if rtc_bits s = 8
                             then rtc_receiveByte h (rtc_shift s) (s\<lparr>rtc_bits := 0\<rparr>)
                             else s
                else s)
       in s\<lparr>rtc_clockHigh := clockHigh\<rparr>)"

definition rtc_setNvramImagePath :: "'h host_files \<Rightarrow> string \<Rightarrow> 'h rtc \<Rightarrow> bool \<times> 'h rtc" where
  "rtc_setNvramImagePath h path s =
    (if path = [] then (True, s\<lparr>rtc_nvramImagePath := []\<rparr>)
     else
       let load = (if file_exists h path (rtc_host s)
                   then case read_file h path (rtc_host s) of
                          None \<Rightarrow> None
                        | Some bytes \<Rightarrow>
                            if length bytes \<noteq> 256 then None
                            else Some (s\<lparr>rtc_parameterRam := (\<lambda>i. bytes ! unat i)\<rparr>)
                   else Some s)
       in case load of
            None \<Rightarrow> (False, s)
          | Some s \<Rightarrow>
              let s = s\<lparr>rtc_nvramImagePath := absolute_path h path (rtc_host s)\<rparr>;
                  (made, w) = make_parent h (rtc_nvramImagePath s) (rtc_host s);
                  s = s\<lparr>rtc_host := w\<rparr>
              in if \<not> made then (False, s)
                 else if file_exists h path (rtc_host s) then (True, s)
                 else rtc_saveNvram h s)"

subsection \<open>Bytes on the line\<close>

text \<open>
  The host side of the protocol: a clock pulse with a data bit, a byte sent with the most
  significant bit first, and a byte read by eight pulses.
\<close>

definition shift_in_bit :: "u8 \<Rightarrow> bool \<Rightarrow> u8" where
  "shift_in_bit v d = push_bit 1 v OR of_bool d"

lemma bit_shift_in_bit:
  "bit (shift_in_bit v d) n \<longleftrightarrow> (if n = 0 then d else n < 8 \<and> bit v (n - 1))"
  unfolding shift_in_bit_def bit_or_iff bit_push_bit_iff
  by (cases n) (auto simp: bit_simps dest: bit_imp_le_length)

definition rtc_pulse :: "'h host_files \<Rightarrow> bool \<Rightarrow> 'h rtc \<Rightarrow> 'h rtc" where
  "rtc_pulse h d s = rtc_setPins h True True d (rtc_setPins h True False d s)"

definition rtc_send :: "'h host_files \<Rightarrow> u8 \<Rightarrow> 'h rtc \<Rightarrow> 'h rtc" where
  "rtc_send h v s = fold (\<lambda>i. rtc_pulse h (bit v i)) [7, 6, 5, 4, 3, 2, 1, 0] s"

definition rtc_receive :: "'h host_files \<Rightarrow> 'h rtc \<Rightarrow> u8 \<times> 'h rtc" where
  "rtc_receive h s =
     fold (\<lambda>_ (v, s). let s = rtc_pulse h False s in (shift_in_bit v (rtc_dataLine s), s))
       [0, 1, 2, 3, 4, 5, 6, 7 :: nat] (0, s)"

definition rtc_idle :: "'h rtc \<Rightarrow> bool" where
  "rtc_idle s \<longleftrightarrow> rtc_enabled s \<and> rtc_bits s = 0 \<and> rtc_mode s = 0 \<and> \<not> rtc_outputActive s"

definition rtc_shift_in :: "'h host_files \<Rightarrow> bool \<Rightarrow> 'h rtc \<Rightarrow> 'h rtc" where
  "rtc_shift_in h d s =
    (let s = s\<lparr>rtc_clockHigh := False, rtc_shift := shift_in_bit (rtc_shift s) d,
               rtc_bits := rtc_bits s + 1\<rparr>
     in (if rtc_bits s = 8 then rtc_receiveByte h (rtc_shift s) (s\<lparr>rtc_bits := 0\<rparr>) else s)
          \<lparr>rtc_clockHigh := True\<rparr>)"

definition rtc_shift_out :: "'h rtc \<Rightarrow> 'h rtc" where
  "rtc_shift_out s =
    (let s = s\<lparr>rtc_clockHigh := True, rtc_dataLine := bit (rtc_shift s) (nat (7 - rtc_bits s)),
               rtc_bits := rtc_bits s + 1\<rparr>
     in if rtc_bits s = 8 then s\<lparr>rtc_bits := 0, rtc_outputActive := False\<rparr> else s)"

lemma rtc_pulse_in:
  "rtc_enabled s \<Longrightarrow> \<not> rtc_outputActive s \<Longrightarrow> rtc_pulse h d s = rtc_shift_in h d s"
  by (simp add: rtc_pulse_def rtc_setPins_def rtc_shift_in_def shift_in_bit_def Let_def of_bool_def)

lemma rtc_pulse_out:
  "rtc_enabled s \<Longrightarrow> rtc_outputActive s \<Longrightarrow> rtc_pulse h d s = rtc_shift_out s"
  by (simp add: rtc_pulse_def rtc_setPins_def rtc_shift_out_def Let_def bit_iff_odd_drop_bit
      and_one_eq odd_iff_mod_2_eq_one)

lemma shifted_in:
  "shift_in_bit (shift_in_bit (shift_in_bit (shift_in_bit (shift_in_bit (shift_in_bit (shift_in_bit
     (shift_in_bit x (bit v 7)) (bit v 6)) (bit v 5)) (bit v 4)) (bit v 3)) (bit v 2)) (bit v (Suc 0)))
     (bit v 0) = v"
  by (simp add: word8_eq bit_shift_in_bit)

lemma rtc_send_eq:
  assumes "rtc_enabled s" "\<not> rtc_outputActive s" "rtc_bits s = 0"
  shows "rtc_send h v s =
    (rtc_receiveByte h v (s\<lparr>rtc_clockHigh := False, rtc_shift := v, rtc_bits := 0\<rparr>))\<lparr>rtc_clockHigh := True\<rparr>"
  using assms by (simp add: rtc_send_def rtc_pulse_in rtc_shift_in_def shifted_in)

lemma rtc_receive_from:
  assumes "rtc_enabled s" "rtc_outputActive s" "rtc_bits s = 0"
  shows "fold (\<lambda>_ (v, s). let s = rtc_pulse h False s in (shift_in_bit v (rtc_dataLine s), s))
      [0, 1, 2, 3, 4, 5, 6, 7 :: nat] (x, s) =
    (rtc_shift s, s\<lparr>rtc_clockHigh := True, rtc_dataLine := bit (rtc_shift s) 0, rtc_bits := 0,
                    rtc_outputActive := False\<rparr>)"
  using assms by (simp add: rtc_pulse_out rtc_shift_out_def shifted_in)

lemmas rtc_receive_eq = rtc_receive_from [of _ _ 0, folded rtc_receive_def]

subsection \<open>Reading and writing parameter RAM\<close>

lemma rtc_saveNvram_fields [simp]:
  "rtc_enabled (snd (rtc_saveNvram h s)) = rtc_enabled s"
  "rtc_bits (snd (rtc_saveNvram h s)) = rtc_bits s"
  "rtc_mode (snd (rtc_saveNvram h s)) = rtc_mode s"
  "rtc_outputActive (snd (rtc_saveNvram h s)) = rtc_outputActive s"
  "rtc_parameterRam (snd (rtc_saveNvram h s)) = rtc_parameterRam s"
  "rtc_writeProtected (snd (rtc_saveNvram h s)) = rtc_writeProtected s"
  "rtc_nvramImagePath (snd (rtc_saveNvram h s)) = rtc_nvramImagePath s"
  "rtc_shift (snd (rtc_saveNvram h s)) = rtc_shift s"
  "rtc_command (snd (rtc_saveNvram h s)) = rtc_command s"
  "rtc_sector (snd (rtc_saveNvram h s)) = rtc_sector s"
  by (simp_all add: rtc_saveNvram_def split: prod.split)

lemma rtc_store_fields [simp]:
  "rtc_enabled (rtc_store h a v s) = rtc_enabled s"
  "rtc_bits (rtc_store h a v s) = rtc_bits s"
  "rtc_mode (rtc_store h a v s) = rtc_mode s"
  "rtc_outputActive (rtc_store h a v s) = rtc_outputActive s"
  "rtc_parameterRam (rtc_store h a v s) = (rtc_parameterRam s)(a := v)"
  "rtc_writeProtected (rtc_store h a v s) = rtc_writeProtected s"
  "rtc_nvramImagePath (rtc_store h a v s) = rtc_nvramImagePath s"
  "rtc_shift (rtc_store h a v s) = rtc_shift s"
  "rtc_command (rtc_store h a v s) = rtc_command s"
  "rtc_sector (rtc_store h a v s) = rtc_sector s"
  by (simp_all add: rtc_store_def)

text \<open>The two command bytes of an extended access to the byte at \<open>a\<close>.\<close>

definition rtc_xcommand :: "bool \<Rightarrow> u8 \<Rightarrow> u8" where
  "rtc_xcommand reading a = (if reading then 0xb8 else 0x38) OR drop_bit 5 a"

definition rtc_xaddress :: "u8 \<Rightarrow> u8" where
  "rtc_xaddress a = push_bit 2 (a AND 0x1f)"

lemma rtc_xcommand_bits:
  "rtc_xcommand reading a AND 0x78 = 0x38"
  "rtc_xcommand reading a AND 0x80 \<noteq> 0 \<longleftrightarrow> reading"
  by (simp_all add: rtc_xcommand_def word8_eq bit_simps not_bit_8)

lemma rtc_xaddress_sector:
  "push_bit 5 (rtc_xcommand reading a AND 7) OR drop_bit 2 (rtc_xaddress a AND 0x7c) = a"
  by (simp add: rtc_xcommand_def rtc_xaddress_def word8_eq bit_simps not_bit_8)

definition rtc_xselect :: "'h host_files \<Rightarrow> bool \<Rightarrow> u8 \<Rightarrow> 'h rtc \<Rightarrow> 'h rtc" where
  "rtc_xselect h reading a s = rtc_send h (rtc_xaddress a) (rtc_send h (rtc_xcommand reading a) s)"

lemma rtc_xselect_eq:
  assumes "rtc_idle s"
  shows "rtc_xselect h reading a s =
    s\<lparr>rtc_shift := if reading then rtc_parameterRam s a else rtc_xaddress a,
      rtc_command := rtc_xcommand reading a, rtc_sector := a, rtc_clockHigh := True,
      rtc_mode := if reading then 0 else 3, rtc_outputActive := reading\<rparr>"
  using assms rtc_xcommand_bits [of reading a] rtc_xaddress_sector [of reading a]
  by (simp add: rtc_xselect_def rtc_idle_def rtc_send_eq rtc_receiveByte_def)

text \<open>Writing and reading one byte, as a driver does it.\<close>

definition rtc_xwrite :: "'h host_files \<Rightarrow> u8 \<Rightarrow> u8 \<Rightarrow> 'h rtc \<Rightarrow> 'h rtc" where
  "rtc_xwrite h a v s = rtc_send h v (rtc_xselect h False a s)"

definition rtc_xread :: "'h host_files \<Rightarrow> u8 \<Rightarrow> 'h rtc \<Rightarrow> u8 \<times> 'h rtc" where
  "rtc_xread h a s = rtc_receive h (rtc_xselect h True a s)"

lemma rtc_xwrite_eq:
  assumes "rtc_idle s"
  shows "rtc_idle (rtc_xwrite h a v s)"
    "rtc_parameterRam (rtc_xwrite h a v s) =
      (if rtc_writeProtected s then rtc_parameterRam s else (rtc_parameterRam s)(a := v))"
    "rtc_writeProtected (rtc_xwrite h a v s) = rtc_writeProtected s"
    "rtc_nvramImagePath (rtc_xwrite h a v s) = rtc_nvramImagePath s"
    "rtc_host (rtc_xwrite h a v s) =
      (if rtc_writeProtected s \<or> rtc_nvramImagePath s = [] then rtc_host s
       else snd (save_file h (rtc_nvramImagePath s) (rtc_parameterRamBytes (rtc_xwrite h a v s)) (rtc_host s)))"
  using assms
  by (auto simp: rtc_xwrite_def rtc_xselect_eq rtc_send_eq rtc_idle_def rtc_receiveByte_def rtc_store_def
      rtc_saveNvram_def rtc_parameterRamBytes_def split: prod.split)

lemma rtc_xread_eq:
  assumes "rtc_idle s"
  shows "fst (rtc_xread h a s) = rtc_parameterRam s a" "rtc_idle (snd (rtc_xread h a s))"
    "rtc_parameterRam (snd (rtc_xread h a s)) = rtc_parameterRam s"
    "rtc_writeProtected (snd (rtc_xread h a s)) = rtc_writeProtected s"
    "rtc_nvramImagePath (snd (rtc_xread h a s)) = rtc_nvramImagePath s"
    "rtc_host (snd (rtc_xread h a s)) = rtc_host s"
  using assms by (simp_all add: rtc_xread_def rtc_xselect_eq rtc_receive_eq rtc_idle_def)

subsection \<open>The contract of the driver\<close>

text \<open>
  C25. Parameter RAM behind the three pins. Sending the two bytes of an extended write command and
  the value, bit by bit, stores the value in that byte and in no other, and writes the file of the
  parameter RAM when there is one; a write protected chip stores nothing. Reading the same byte with
  an extended read command gives what is stored there, and changes neither memory nor file.
\<close>

theorem parameter_ram_round_trip:
  assumes "rtc_idle s"
  shows "(let t = rtc_xwrite h a v s; r = fst (rtc_xread h b t); u = snd (rtc_xread h b t)
    in rtc_idle t \<and> rtc_idle u \<and>
       rtc_parameterRam t = (if rtc_writeProtected s then rtc_parameterRam s else (rtc_parameterRam s)(a := v)) \<and>
       rtc_host t = (if rtc_writeProtected s \<or> rtc_nvramImagePath s = [] then rtc_host s
         else snd (save_file h (rtc_nvramImagePath s) (rtc_parameterRamBytes t) (rtc_host s))) \<and>
       r = rtc_parameterRam t b \<and> rtc_parameterRam u = rtc_parameterRam t \<and> rtc_host u = rtc_host t)"
  using rtc_xwrite_eq [OF assms, of h a v]
    rtc_xread_eq [OF rtc_xwrite_eq(1) [OF assms, of h a v], of h b]
  by (simp add: Let_def)

definition sample_rtc :: "(string \<rightharpoonup> u8 list) rtc" where
  "sample_rtc = rtc_setPins map_host True False False ((rtc_init Map.empty)\<lparr>rtc_nvramImagePath := ''pram''\<rparr>)"

lemma sample_rtc_idle: "rtc_idle sample_rtc"
  by (simp add: sample_rtc_def rtc_idle_def rtc_setPins_def rtc_init_def rtc_resetSerial_def)

lemma parameter_ram_round_trip_witness:
  "fst (rtc_xread map_host 0x42 (rtc_xwrite map_host 0x42 0x17 sample_rtc)) = 0x17"
  using parameter_ram_round_trip [OF sample_rtc_idle, of map_host "0x42" "0x17" "0x42"]
  by (simp add: Let_def sample_rtc_def rtc_setPins_def rtc_init_def rtc_resetSerial_def split: prod.splits)

text \<open>What no sequence of pin changes breaks, and what only an unprotected chip can change.\<close>

definition rtc_ok :: "'h rtc \<Rightarrow> bool" where
  "rtc_ok s \<longleftrightarrow> 0 \<le> rtc_bits s \<and> rtc_bits s < 8 \<and> 0 \<le> rtc_mode s \<and> rtc_mode s \<le> 3"

inductive rtc_reachable :: "'h host_files \<Rightarrow> 'h rtc \<Rightarrow> 'h rtc \<Rightarrow> bool" for h and s where
  "rtc_reachable h s s"
| "rtc_reachable h s t \<Longrightarrow> rtc_reachable h s (rtc_setPins h enabled clockHigh dataHigh t)"

lemma rtc_init_ok: "rtc_ok (rtc_init w)"
  by (simp add: rtc_init_def rtc_resetSerial_def rtc_ok_def)

lemma rtc_accessRegister_fields:
  "rtc_bits (snd (rtc_accessRegister h c v w s)) = rtc_bits s"
  "rtc_mode (snd (rtc_accessRegister h c v w s)) = rtc_mode s"
  "rtc_writeProtected s \<or> \<not> w \<Longrightarrow>
    rtc_parameterRam (snd (rtc_accessRegister h c v w s)) = rtc_parameterRam s \<and>
    rtc_host (snd (rtc_accessRegister h c v w s)) = rtc_host s"
  by (auto simp: rtc_accessRegister_def Let_def)

lemma rtc_receiveByte_fields:
  "rtc_bits (rtc_receiveByte h v s) = rtc_bits s"
  "0 \<le> rtc_mode (rtc_receiveByte h v s)" "rtc_mode (rtc_receiveByte h v s) \<le> 3"
  "rtc_writeProtected s \<Longrightarrow> rtc_parameterRam (rtc_receiveByte h v s) = rtc_parameterRam s"
  "rtc_writeProtected s \<Longrightarrow> rtc_host (rtc_receiveByte h v s) = rtc_host s"
  by (simp_all add: rtc_receiveByte_def Let_def rtc_accessRegister_fields split_beta)

lemma rtc_setPins_ok:
  assumes "rtc_ok s"
  shows "rtc_ok (rtc_setPins h e c d s)"
    "rtc_writeProtected s \<Longrightarrow> rtc_parameterRam (rtc_setPins h e c d s) = rtc_parameterRam s"
    "rtc_writeProtected s \<Longrightarrow> rtc_host (rtc_setPins h e c d s) = rtc_host s"
  using assms
  by (auto simp: rtc_setPins_def rtc_resetSerial_def Let_def rtc_ok_def rtc_receiveByte_fields)

text \<open>
  Whatever the pins do, the bit counter stays below 8, so that the shift by seven minus the
  counter is defined, and the mode stays one of the four; and while the chip is write protected no
  change of a pin alters the parameter RAM or its file.
\<close>

theorem rtc_invariant:
  assumes "rtc_reachable h (rtc_init w) s"
  shows "rtc_ok s \<and> (rtc_writeProtected s \<longrightarrow>
    rtc_parameterRam (rtc_setPins h e c d s) = rtc_parameterRam s \<and>
    rtc_host (rtc_setPins h e c d s) = rtc_host s)"
proof -
  from assms have "rtc_ok s"
    by induction (simp_all add: rtc_setPins_ok rtc_init_ok)
  then show ?thesis using rtc_setPins_ok by blast
qed

lemma rtc_invariant_witness:
  "rtc_ok (rtc_setPins map_host True True False (rtc_init Map.empty))"
  using rtc_invariant [of map_host Map.empty "rtc_setPins map_host True True False (rtc_init Map.empty)"]
  by (blast intro: rtc_reachable.intros)

end
