(* ===== verification/Z8530Scc.thy ===== *)
theory Z8530Scc
  imports Prelude
begin

section \<open>The serial controller\<close>

text \<open>
  \<open>Z8530Scc.cpp\<close> and the \<open>SerialBus\<close> between a channel and its peer (SerialBus.h, SerialEndpoint.h).
  An endpoint is a parameter, the record \<open>SerialEndpoint\<close> over its own state \<open>'e\<close>: each of its
  operations answers with the bytes it hands to its transmit handler meanwhile, which the channel
  receives in that order.
\<close>

unbundle bit_operations_syntax

record 'e SerialEndpoint =
  endpoint_reset :: "'e \<Rightarrow> u8 list \<times> 'e"
  endpoint_poll :: "'e \<Rightarrow> u8 list \<times> 'e"
  endpoint_receiveByte :: "u8 \<Rightarrow> 'e \<Rightarrow> u8 list \<times> 'e"

datatype Channel = ChannelA | ChannelB

record ChannelState =
  ch_writeRegisters :: "nat \<Rightarrow> u8"
  ch_selectedRegister :: u8
  ch_awaitingRegisterWrite :: bool
  ch_data :: u8
  ch_transmitCycles :: int
  ch_transmitInterruptPending :: bool
  ch_receiveDataAvailable :: bool
  ch_transmitData :: u8
  ch_baudRateCycles :: int
  ch_externalStatusPending :: bool
  ch_zeroCount :: bool
  ch_status :: u8

definition channel_init :: ChannelState where
  "channel_init = \<lparr>ch_writeRegisters = (\<lambda>_. 0), ch_selectedRegister = 0, ch_awaitingRegisterWrite = False,
     ch_data = 0, ch_transmitCycles = 0, ch_transmitInterruptPending = False, ch_receiveDataAvailable = False,
     ch_transmitData = 0, ch_baudRateCycles = 0, ch_externalStatusPending = False, ch_zeroCount = False,
     ch_status = 0\<rparr>"

record 'e scc =
  scc_channelA :: ChannelState
  scc_channelB :: ChannelState
  scc_endpointA :: "'e option"
  scc_endpointB :: "'e option"

fun scc_state :: "Channel \<Rightarrow> 'e scc \<Rightarrow> ChannelState" where
  "scc_state ChannelA s = scc_channelA s"
| "scc_state ChannelB s = scc_channelB s"

fun set_state :: "Channel \<Rightarrow> ChannelState \<Rightarrow> 'e scc \<Rightarrow> 'e scc" where
  "set_state ChannelA c s = s\<lparr>scc_channelA := c\<rparr>"
| "set_state ChannelB c s = s\<lparr>scc_channelB := c\<rparr>"

definition receiveByte :: "Channel \<Rightarrow> u8 \<Rightarrow> 'e scc \<Rightarrow> 'e scc" where
  "receiveByte ch v s = set_state ch ((scc_state ch s)\<lparr>ch_data := v, ch_receiveDataAvailable := True\<rparr>) s"

subsection \<open>The serial bus\<close>

fun endpoint_of :: "Channel \<Rightarrow> 'e scc \<Rightarrow> 'e option" where
  "endpoint_of ChannelA s = scc_endpointA s"
| "endpoint_of ChannelB s = scc_endpointB s"

fun attachEndpoint :: "Channel \<Rightarrow> 'e option \<Rightarrow> 'e scc \<Rightarrow> 'e scc" where
  "attachEndpoint ChannelA e s = s\<lparr>scc_endpointA := e\<rparr>"
| "attachEndpoint ChannelB e s = s\<lparr>scc_endpointB := e\<rparr>"

text \<open>An operation of the peer of a channel, if there is one, with the bytes it sends received.\<close>

definition on_endpoint :: "Channel \<Rightarrow> ('e \<Rightarrow> u8 list \<times> 'e) \<Rightarrow> 'e scc \<Rightarrow> 'e scc" where
  "on_endpoint ch f s =
    (case endpoint_of ch s of
       None \<Rightarrow> s
     | Some e \<Rightarrow> let (bytes, e) = f e in fold (receiveByte ch) bytes (attachEndpoint ch (Some e) s))"

definition serial_reset :: "'e SerialEndpoint \<Rightarrow> Channel \<Rightarrow> 'e scc \<Rightarrow> 'e scc" where
  "serial_reset ep ch = on_endpoint ch (endpoint_reset ep)"

definition serial_poll :: "'e SerialEndpoint \<Rightarrow> Channel \<Rightarrow> 'e scc \<Rightarrow> 'e scc" where
  "serial_poll ep ch = on_endpoint ch (endpoint_poll ep)"

definition serial_transmit :: "'e SerialEndpoint \<Rightarrow> Channel \<Rightarrow> u8 \<Rightarrow> 'e scc \<Rightarrow> 'e scc" where
  "serial_transmit ep ch v = on_endpoint ch (endpoint_receiveByte ep v)"

subsection \<open>Interrupts\<close>

definition receiveInterruptEnabled :: "ChannelState \<Rightarrow> bool" where
  "receiveInterruptEnabled c \<longleftrightarrow> ch_receiveDataAvailable c \<and> ch_writeRegisters c 1 AND 0x18 \<noteq> 0"

definition transmitInterruptEnabled :: "ChannelState \<Rightarrow> bool" where
  "transmitInterruptEnabled c \<longleftrightarrow> ch_transmitInterruptPending c \<and> ch_writeRegisters c 1 AND 0x02 \<noteq> 0"

definition externalInterruptEnabled :: "ChannelState \<Rightarrow> bool" where
  "externalInterruptEnabled c \<longleftrightarrow> ch_externalStatusPending c \<and> ch_writeRegisters c 1 AND 0x01 \<noteq> 0"

definition modifiedInterruptVector :: "'e scc \<Rightarrow> u8" where
  "modifiedInterruptVector s =
    (if receiveInterruptEnabled (scc_channelA s) then 0x0c
     else if transmitInterruptEnabled (scc_channelA s) then 0x08
     else if externalInterruptEnabled (scc_channelA s) then 0x0a
     else if receiveInterruptEnabled (scc_channelB s) then 0x04
     else if transmitInterruptEnabled (scc_channelB s) then 0x00
     else if externalInterruptEnabled (scc_channelB s) then 0x02
     else 0xff)"

definition scc_interruptActive :: "'e scc \<Rightarrow> bool" where
  "scc_interruptActive s \<longleftrightarrow>
    (ch_writeRegisters (scc_channelA s) 9 OR ch_writeRegisters (scc_channelB s) 9) AND 0x08 \<noteq> 0 \<and>
    modifiedInterruptVector s \<noteq> 0xff"

text \<open>The highest pending interrupt of one channel, if any.\<close>

definition clear_highest :: "ChannelState \<Rightarrow> ChannelState option" where
  "clear_highest c =
    (if receiveInterruptEnabled c then Some (c\<lparr>ch_receiveDataAvailable := False\<rparr>)
     else if transmitInterruptEnabled c then Some (c\<lparr>ch_transmitInterruptPending := False\<rparr>)
     else if externalInterruptEnabled c then Some (c\<lparr>ch_externalStatusPending := False, ch_zeroCount := False\<rparr>)
     else None)"

definition resetHighestInterrupt :: "'e scc \<Rightarrow> 'e scc" where
  "resetHighestInterrupt s =
    (case clear_highest (scc_channelA s) of
       Some c \<Rightarrow> s\<lparr>scc_channelA := c\<rparr>
     | None \<Rightarrow> (case clear_highest (scc_channelB s) of Some c \<Rightarrow> s\<lparr>scc_channelB := c\<rparr> | None \<Rightarrow> s))"

subsection \<open>Registers\<close>

definition scc_reset :: "'e SerialEndpoint \<Rightarrow> 'e scc \<Rightarrow> 'e scc" where
  "scc_reset ep s =
     serial_reset ep ChannelB (serial_reset ep ChannelA
       (s\<lparr>scc_channelA := channel_init, scc_channelB := channel_init\<lparr>ch_status := 0x10\<rparr>\<rparr>))"

definition scc_readControl :: "Channel \<Rightarrow> 'e scc \<Rightarrow> u8 \<times> 'e scc" where
  "scc_readControl ch s =
    (let c = scc_state ch s; selected = ch_selectedRegister c;
         c = c\<lparr>ch_selectedRegister := 0, ch_awaitingRegisterWrite := False\<rparr>;
         s = set_state ch c s;
         flag = (\<lambda>b v. if b then v else (0 :: u8))
     in (if selected = 0 then
           ch_status c OR flag (ch_transmitCycles c = 0) 0x44 OR flag (ch_zeroCount c) 0x02 OR
           flag (ch_receiveDataAvailable c) 0x01
         else if selected = 1 then flag (ch_transmitCycles c = 0) 0x01
         else if selected = 2 \<and> ch = ChannelB then modifiedInterruptVector s
         else if selected = 15 then ch_writeRegisters c 15
         else if selected = 3 \<and> ch = ChannelA then
           flag (receiveInterruptEnabled (scc_channelA s)) 0x20 OR
           flag (transmitInterruptEnabled (scc_channelA s)) 0x10 OR
           flag (externalInterruptEnabled (scc_channelA s)) 0x08 OR
           flag (receiveInterruptEnabled (scc_channelB s)) 0x04 OR
           flag (transmitInterruptEnabled (scc_channelB s)) 0x02 OR
           flag (externalInterruptEnabled (scc_channelB s)) 0x01
         else 0, s))"

definition scc_readData :: "Channel \<Rightarrow> 'e scc \<Rightarrow> u8 \<times> 'e scc" where
  "scc_readData ch s =
    (let c = (scc_state ch s)\<lparr>ch_receiveDataAvailable := False\<rparr> in (ch_data c, set_state ch c s))"

definition restartBaudRateTimer :: "ChannelState \<Rightarrow> ChannelState" where
  "restartBaudRateTimer c =
    (if ch_writeRegisters c 14 AND 0x01 = 0 then c\<lparr>ch_baudRateCycles := 0\<rparr>
     else let timeConstant = uint (ch_writeRegisters c 12) OR push_bit 8 (uint (ch_writeRegisters c 13))
          in c\<lparr>ch_baudRateCycles := max 1024 ((timeConstant + 2) * 1024)\<rparr>)"

definition write_selected :: "u8 \<Rightarrow> ChannelState \<Rightarrow> ChannelState" where
  "write_selected v c =
    (let reg = unat (ch_selectedRegister c AND 0x0f);
         c = c\<lparr>ch_writeRegisters := (ch_writeRegisters c)(reg := v), ch_awaitingRegisterWrite := False,
               ch_selectedRegister := 0\<rparr>
     in if reg = 12 \<or> reg = 13 \<or> reg = 14 then restartBaudRateTimer c else c)"

definition scc_writeControl :: "Channel \<Rightarrow> u8 \<Rightarrow> 'e scc \<Rightarrow> 'e scc" where
  "scc_writeControl ch v s =
    (let c = scc_state ch s; command = drop_bit 3 v AND 7; lowRegister = v AND 7
     in if ch_awaitingRegisterWrite c then set_state ch (write_selected v c) s
        else if command = 1 then
          set_state ch (c\<lparr>ch_selectedRegister := 8 + lowRegister, ch_awaitingRegisterWrite := True\<rparr>) s
        else if command = 0 \<and> lowRegister \<noteq> 0 then
          set_state ch (c\<lparr>ch_selectedRegister := lowRegister, ch_awaitingRegisterWrite := True\<rparr>) s
        else
          let s = (if command = 2 then set_state ch (c\<lparr>ch_externalStatusPending := False, ch_zeroCount := False\<rparr>) s
                   else if command = 5 then set_state ch (c\<lparr>ch_transmitInterruptPending := False\<rparr>) s
                   else if command = 7 then resetHighestInterrupt s
                   else s)
          in set_state ch ((scc_state ch s)\<lparr>ch_selectedRegister := 0, ch_awaitingRegisterWrite := False\<rparr>) s)"

definition scc_writeData :: "Channel \<Rightarrow> u8 \<Rightarrow> 'e scc \<Rightarrow> 'e scc" where
  "scc_writeData ch v s =
    (let c = (scc_state ch s)\<lparr>ch_data := v, ch_transmitData := v, ch_transmitCycles := 16,
               ch_transmitInterruptPending := False\<rparr>;
         c = (if ch_writeRegisters c 14 AND 0x10 \<noteq> 0 then c\<lparr>ch_receiveDataAvailable := True\<rparr> else c)
     in set_state ch c s)"

subsection \<open>Time\<close>

definition tick_transmit :: "'e SerialEndpoint \<Rightarrow> int \<Rightarrow> Channel \<Rightarrow> 'e scc \<Rightarrow> 'e scc" where
  "tick_transmit ep cycles ch s =
    (let c = scc_state ch s
     in if 0 < ch_transmitCycles c
        then let c = c\<lparr>ch_transmitCycles := max 0 (ch_transmitCycles c - cycles)\<rparr>
             in if ch_transmitCycles c = 0
                then let s = set_state ch (c\<lparr>ch_transmitInterruptPending := True\<rparr>) s
                     in if ch_writeRegisters c 4 AND 0x0c \<noteq> 0 then serial_transmit ep ch (ch_transmitData c) s else s
                else set_state ch c s
        else s)"

definition tick_baud :: "int \<Rightarrow> ChannelState \<Rightarrow> ChannelState" where
  "tick_baud cycles c =
    (if 0 < ch_baudRateCycles c
     then let c = c\<lparr>ch_baudRateCycles := ch_baudRateCycles c - cycles\<rparr>
          in if ch_baudRateCycles c \<le> 0
             then let counting = (ch_writeRegisters c 15 AND 0x02 \<noteq> 0);
                      c = (if counting then c\<lparr>ch_zeroCount := True\<rparr> else c)
                  in c\<lparr>ch_externalStatusPending := counting, ch_baudRateCycles := 0\<rparr>
             else c
     else c)"

definition tick_channel :: "'e SerialEndpoint \<Rightarrow> int \<Rightarrow> Channel \<Rightarrow> 'e scc \<Rightarrow> 'e scc" where
  "tick_channel ep cycles ch s =
    (let s = tick_transmit ep cycles ch s in set_state ch (tick_baud cycles (scc_state ch s)) s)"

definition scc_tick :: "'e SerialEndpoint \<Rightarrow> int \<Rightarrow> 'e scc \<Rightarrow> 'e scc" where
  "scc_tick ep cycles s =
     tick_channel ep cycles ChannelB (tick_channel ep cycles ChannelA
       (serial_poll ep ChannelB (serial_poll ep ChannelA s)))"

subsection \<open>Transmission\<close>

text \<open>What the transmitter of a channel depends on, and one tick of it.\<close>

definition transmitter :: "Channel \<Rightarrow> 'e scc \<Rightarrow> 'e option \<times> int \<times> u8 \<times> bool \<times> u8" where
  "transmitter ch s = (endpoint_of ch s, ch_transmitCycles (scc_state ch s), ch_transmitData (scc_state ch s),
     ch_transmitInterruptPending (scc_state ch s), ch_writeRegisters (scc_state ch s) 4)"

lemma tick_baud_keeps [simp]:
  "ch_transmitCycles (tick_baud n c) = ch_transmitCycles c" "ch_transmitData (tick_baud n c) = ch_transmitData c"
  "ch_transmitInterruptPending (tick_baud n c) = ch_transmitInterruptPending c"
  "ch_writeRegisters (tick_baud n c) = ch_writeRegisters c" "ch_data (tick_baud n c) = ch_data c"
  "ch_receiveDataAvailable (tick_baud n c) = ch_receiveDataAvailable c"
  by (simp_all add: tick_baud_def Let_def)

lemma state_laws [simp]:
  "scc_state ch (set_state ch c s) = c" "ch \<noteq> d \<Longrightarrow> scc_state d (set_state ch c s) = scc_state d s"
  "endpoint_of d (set_state ch c s) = endpoint_of d s" "scc_state d (attachEndpoint ch e s) = scc_state d s"
  "endpoint_of ch (attachEndpoint ch e s) = e" "ch \<noteq> d \<Longrightarrow> endpoint_of d (attachEndpoint ch e s) = endpoint_of d s"
  by (cases ch; cases d; simp)+

text \<open>Bytes a peer sends arrive in the receiver and leave the transmitters alone.\<close>

lemma received_keeps:
  "transmitter d (fold (receiveByte ch) bytes s) = transmitter d s"
proof (induction bytes arbitrary: s)
  case (Cons b bytes)
  have "transmitter d (receiveByte ch b s) = transmitter d s"
    by (cases "ch = d") (simp_all add: receiveByte_def transmitter_def)
  with Cons show ?case by simp
qed simp

lemma received_last:
  "bytes \<noteq> [] \<Longrightarrow> ch_data (scc_state ch (fold (receiveByte ch) bytes s)) = last bytes \<and>
    ch_receiveDataAvailable (scc_state ch (fold (receiveByte ch) bytes s))"
  by (induction bytes rule: rev_induct) (simp_all add: receiveByte_def)

lemma transmitter_on_endpoint:
  "transmitter d (on_endpoint ch f s) = (case transmitter d s of (e, c, v, pending, mode) \<Rightarrow>
     (if d = ch then map_option (\<lambda>e. snd (f e)) e else e, c, v, pending, mode))"
proof (cases "endpoint_of ch s")
  case None
  then show ?thesis by (auto simp: on_endpoint_def transmitter_def)
next
  case (Some x)
  have "transmitter d (on_endpoint ch f s) = transmitter d (attachEndpoint ch (Some (snd (f x))) s)"
    by (simp add: on_endpoint_def Some split_beta received_keeps)
  with Some show ?thesis by (auto simp: transmitter_def)
qed

lemma transmitter_other:
  assumes "ch \<noteq> d"
  shows "transmitter d (set_state ch c s) = transmitter d s"
    and "transmitter d (serial_transmit ep ch v s) = transmitter d s"
  using assms by (simp_all add: serial_transmit_def transmitter_on_endpoint) (simp add: transmitter_def)

lemma tick_channel_other: "ch \<noteq> d \<Longrightarrow> transmitter d (tick_channel ep n ch s) = transmitter d s"
  by (simp add: tick_channel_def tick_transmit_def transmitter_other Let_def)

lemma tick_channel_own:
  assumes "transmitter ch s = (e, c, v, pending, mode)" and "0 < n"
  shows "transmitter ch (tick_channel ep n ch s) =
    (if 0 < c \<and> c \<le> n
     then (if mode AND 0x0c \<noteq> 0 then map_option (\<lambda>e. snd (endpoint_receiveByte ep v e)) e else e, 0, v, True, mode)
     else (e, if 0 < c then c - n else c, v, pending, mode))"
proof -
  have baud: "transmitter ch (set_state ch (tick_baud n (scc_state ch s)) s) = transmitter ch s" for s :: "'a scc"
    by (simp add: transmitter_def)
  have sent: "transmitter ch (serial_transmit ep ch v (set_state ch ((scc_state ch s)\<lparr>ch_transmitCycles := 0, ch_transmitInterruptPending := True\<rparr>) s)) =
      (map_option (\<lambda>e. snd (endpoint_receiveByte ep v e)) e, 0, v, True, mode)"
    using assms(1) unfolding serial_transmit_def
    by (simp add: transmitter_on_endpoint) (simp add: transmitter_def)
  show ?thesis
    using assms sent by (auto simp: tick_channel_def baud tick_transmit_def transmitter_def Let_def)
qed

text \<open>One tick: the peer is polled, and gets the byte when its time is over.\<close>

lemma tick_transmitter:
  fixes ep :: "'e SerialEndpoint"
  assumes "transmitter ch s = (e, c, v, pending, mode)" and "0 < n"
  defines "p \<equiv> map_option (\<lambda>e. snd (endpoint_poll ep e)) e"
  shows "transmitter ch (scc_tick ep n s) =
    (if 0 < c \<and> c \<le> n
     then (if mode AND 0x0c \<noteq> 0 then map_option (\<lambda>e. snd (endpoint_receiveByte ep v e)) p else p, 0, v, True, mode)
     else (p, if 0 < c then c - n else c, v, pending, mode))"
proof -
  define q where "q = serial_poll ep ChannelB (serial_poll ep ChannelA s)"
  have q: "transmitter ch q = (p, c, v, pending, mode)"
    unfolding q_def serial_poll_def p_def
    using assms(1) by (cases ch) (simp_all add: transmitter_on_endpoint)
  show ?thesis
  proof (cases ch)
    case ChannelA
    show ?thesis
      using tick_channel_own [OF q assms(2), of ep] by (simp add: ChannelA scc_tick_def q_def tick_channel_other)
  next
    case ChannelB
    have "transmitter ch (tick_channel ep n ChannelA q) = (p, c, v, pending, mode)"
      using q by (simp add: ChannelB tick_channel_other)
    from tick_channel_own [OF this assms(2), of ep] show ?thesis
      by (simp add: ChannelB scc_tick_def q_def)
  qed
qed

text \<open>What the peer answers to the byte is received in the same tick.\<close>

lemma other_state:
  assumes "ch \<noteq> d"
  shows "scc_state d (tick_channel ep n ch s) = scc_state d s"
proof -
  have "scc_state d (fold (receiveByte ch) bytes s) = scc_state d s" for bytes and s :: "'a scc"
    using assms by (induction bytes arbitrary: s) (simp_all add: receiveByte_def)
  then have "scc_state d (on_endpoint ch f s) = scc_state d s" for f and s :: "'a scc"
    by (simp add: on_endpoint_def split_beta split: option.split)
  then show ?thesis
    using assms by (simp add: tick_channel_def tick_transmit_def serial_transmit_def Let_def)
qed

lemma answer_received:
  assumes "transmitter ch s = (Some e, c, v, pending, mode)" and "0 < c" "c \<le> n" and "mode AND 0x0c \<noteq> 0"
    and "answer = fst (endpoint_receiveByte ep v (snd (endpoint_poll ep e)))" and "answer \<noteq> []"
  shows "ch_data (scc_state ch (scc_tick ep n s)) = last answer \<and> ch_receiveDataAvailable (scc_state ch (scc_tick ep n s))"
proof -
  have own: "ch_data (scc_state ch (tick_channel ep n ch q)) = last answer \<and> ch_receiveDataAvailable (scc_state ch (tick_channel ep n ch q))"
    if "transmitter ch q = (Some (snd (endpoint_poll ep e)), c, v, pending, mode)" for q
    using that assms(2-6) received_last [of answer ch]
    by (simp add: tick_channel_def tick_transmit_def transmitter_def serial_transmit_def on_endpoint_def split_beta Let_def)
  define q where "q = serial_poll ep ChannelB (serial_poll ep ChannelA s)"
  have q: "transmitter ch q = (Some (snd (endpoint_poll ep e)), c, v, pending, mode)"
    unfolding q_def serial_poll_def using assms(1) by (cases ch) (simp_all add: transmitter_on_endpoint)
  show ?thesis
  proof (cases ch)
    case ChannelA
    then show ?thesis
      using own [OF q] other_state [of ChannelB ChannelA ep n] by (simp add: scc_tick_def q_def)
  next
    case ChannelB
    have "transmitter ch (tick_channel ep n ChannelA q) = (Some (snd (endpoint_poll ep e)), c, v, pending, mode)"
      using q by (simp add: ChannelB tick_channel_other)
    from own [OF this] show ?thesis
      by (simp add: ChannelB scc_tick_def q_def)
  qed
qed

text \<open>Any number of ticks before the byte is due, and after it.\<close>

lemma ticks_waiting:
  fixes ep :: "'e SerialEndpoint"
  defines "polled \<equiv> \<lambda>e. snd (endpoint_poll ep e)"
  assumes "transmitter ch s = (Some e, c, v, pending, mode)" and "\<forall>n\<in>set ns. 0 < n" and "0 \<le> c" and "c = 0 \<or> sum_list ns < c"
  shows "transmitter ch (fold (scc_tick ep) ns s) =
    (Some ((polled ^^ length ns) e), if c = 0 then 0 else c - sum_list ns, v, pending, mode)"
  using assms(2-)
proof (induction ns arbitrary: s e c)
  case (Cons n ns)
  have "0 \<le> sum_list ns"
    using Cons.prems(2) by (intro sum_list_nonneg) auto
  moreover have "transmitter ch (scc_tick ep n s) = (Some (polled e), if c = 0 then 0 else c - n, v, pending, mode)"
    using tick_transmitter [OF Cons.prems(1), of n ep] Cons.prems(2-4) \<open>0 \<le> sum_list ns\<close> by (auto simp: polled_def)
  ultimately show ?case
    using Cons.IH [of "scc_tick ep n s" "polled e" "if c = 0 then 0 else c - n"] Cons.prems(2-4)
    by (auto simp: funpow_swap1)
qed simp

lemma due_tick:
  fixes c :: int
  assumes "\<forall>n\<in>set ns. 0 < n" and "0 < c" and "c \<le> sum_list ns"
  shows "\<exists>as n bs. ns = as @ n # bs \<and> sum_list as < c \<and> c \<le> sum_list as + n"
  using assms
proof (induction ns arbitrary: c)
  case (Cons n ns)
  show ?case
  proof (cases "c \<le> n")
    case True
    with Cons.prems(2) show ?thesis by (intro exI [of _ "[]"] exI [of _ n] exI [of _ ns]) simp
  next
    case False
    then obtain as k bs where "ns = as @ k # bs" "sum_list as < c - n" "c - n \<le> sum_list as + k"
      using Cons.IH [of "c - n"] Cons.prems by auto
    then show ?thesis by (intro exI [of _ "n # as"] exI [of _ k] exI [of _ bs]) simp
  qed
qed simp

text \<open>
  C39. A byte written to the data register of a channel whose peer may itself send, and with time passing in any
  positive portions.  Before 16 cycles are over the peer has only been polled, once in every portion, and the transmitter reads as
  busy.  In the portion in which the 16th cycle falls the peer is polled and then, in an asynchronous mode, gets the byte,
  and what it answers is received; in a synchronous mode it gets nothing.  From then on it is only polled, so it
  gets the byte exactly once; the transmit interrupt is pending exactly from that portion on.
\<close>

theorem byte_reaches_peer:
  assumes "\<forall>n\<in>set ns. 0 < n" and "endpoint_of ch s = Some e"
    and "s' = fold (scc_tick ep) ns (scc_writeData ch v s)"
    and "polled = (\<lambda>e. snd (endpoint_poll ep e))" and "async \<longleftrightarrow> ch_writeRegisters (scc_state ch s) 4 AND 0x0c \<noteq> 0"
  shows "if sum_list ns < 16
    then endpoint_of ch s' = Some ((polled ^^ length ns) e) \<and> \<not> ch_transmitInterruptPending (scc_state ch s') \<and>
      ch_transmitCycles (scc_state ch s') \<noteq> 0
    else ch_transmitInterruptPending (scc_state ch s') \<and> ch_transmitCycles (scc_state ch s') = 0 \<and>
      (\<exists>as n bs. ns = as @ n # bs \<and> sum_list as < 16 \<and> 16 \<le> sum_list as + n \<and>
        (let before = (polled ^^ Suc (length as)) e; (answer, after) = endpoint_receiveByte ep v before
         in endpoint_of ch s' = Some ((polled ^^ length bs) (if async then after else before)) \<and>
            (async \<and> answer \<noteq> [] \<and> bs = [] \<longrightarrow>
               ch_receiveDataAvailable (scc_state ch s') \<and> ch_data (scc_state ch s') = last answer)))"
proof -
  let ?w = "scc_writeData ch v s" and ?m = "ch_writeRegisters (scc_state ch s) 4"
  have w: "transmitter ch ?w = (Some e, 16, v, False, ?m)"
    using assms(2) by (auto simp: transmitter_def scc_writeData_def Let_def)
  show ?thesis
  proof (cases "sum_list ns < 16")
    case True
    then show ?thesis
      using ticks_waiting [OF w assms(1), of ep] unfolding assms(3,4) by (simp add: transmitter_def)
  next
    case False
    then obtain as n bs where ns: "ns = as @ n # bs" "sum_list as < 16" "16 \<le> sum_list as + n"
      using due_tick [OF assms(1), of 16] by auto
    define u where "u = fold (scc_tick ep) as ?w"
    define d where "d = (polled ^^ length as) e"
    obtain answer after where r: "endpoint_receiveByte ep v (polled d) = (answer, after)"
      by fastforce
    have u: "transmitter ch u = (Some d, 16 - sum_list as, v, False, ?m)"
      using ticks_waiting [OF w, of as ep] assms(1) ns unfolding u_def d_def assms(4) by simp
    have n: "0 < n" using assms(1) ns by simp
    have t: "transmitter ch (scc_tick ep n u) = (Some (if async then after else polled d), 0, v, True, ?m)"
      using tick_transmitter [OF u n, of ep] ns(2,3) r by (simp add: assms(4,5))
    have "transmitter ch s' = (Some ((polled ^^ length bs) (if async then after else polled d)), 0, v, True, ?m)"
      using ticks_waiting [OF t, of bs ep] assms(1) ns unfolding assms(3) ns(1) u_def assms(4) by simp
    moreover have "async \<and> answer \<noteq> [] \<and> bs = [] \<longrightarrow>
        ch_receiveDataAvailable (scc_state ch s') \<and> ch_data (scc_state ch s') = last answer"
      using answer_received [OF u, of n answer ep] ns(2,3) r unfolding assms(3) ns(1) by (simp add: u_def assms(4,5))
    ultimately show ?thesis
      using False ns r unfolding Let_def
      by (intro if_not_P [THEN iffD2] conjI exI [of _ as] exI [of _ n] exI [of _ bs]) (simp_all add: transmitter_def d_def)
  qed
qed

text \<open>A peer that echoes every byte, as in the tests.\<close>

definition echo_peer :: "u8 list SerialEndpoint" where
  "echo_peer = \<lparr>endpoint_reset = (\<lambda>e. ([], e)), endpoint_poll = (\<lambda>e. ([], e)), endpoint_receiveByte = (\<lambda>v e. ([v], e @ [v]))\<rparr>"

definition echo_scc :: "u8 list scc" where
  "echo_scc = \<lparr>scc_channelA = channel_init\<lparr>ch_writeRegisters := (\<lambda>_. 0x44)\<rparr>,
      scc_channelB = channel_init, scc_endpointA = Some [], scc_endpointB = None\<rparr>"

lemma byte_reaches_peer_witness:
  "\<exists>x. endpoint_of ChannelA (fold (scc_tick echo_peer) [10, 4, 7] (scc_writeData ChannelA 0x41 echo_scc)) = Some x \<and> x = [0x41]"
proof -
  have p: "(\<lambda>e. snd (endpoint_poll echo_peer e)) ^^ k = id" for k
    by (induction k) (simp_all add: echo_peer_def fun_eq_iff)
  show ?thesis
    using byte_reaches_peer [where ns = "[10, 4, 7]" and ch = ChannelA and v = "0x41" and e = "[]" and s = echo_scc and ep = echo_peer,
        OF _ _ refl refl refl]
    unfolding p by (auto simp: echo_scc_def) (auto simp: echo_peer_def)
qed

end
