(* ===== verification/GcrCodec.thy ===== *)
theory GcrCodec
  imports Prelude
begin

section \<open>Sector encodings of the floppy drive\<close>

text \<open>
  The functions of \<open>FloppyDiskImage.cpp\<close> that need no drive: the group code of 400K and 800K disks
  with its three running checksums, the fields and the cyclic redundancy check of 1440K disks, the
  geometry of a disk and the interleave of a track.  A \<open>QByteArray\<close> is a list of bytes; a position
  or a size is a natural number.  The decoder answers \<open>None\<close> where the source returns -1 or false.
\<close>

unbundle bit_operations_syntax

definition bytesPerSector :: nat where "bytesPerSector = 512"
definition tagBytesPerSector :: nat where "tagBytesPerSector = 12"
definition encodedPayloadBytes :: nat where "encodedPayloadBytes = bytesPerSector + tagBytesPerSector"
definition tracksPerSide :: int where "tracksPerSide = 80"

lemmas disk_sizes [simp] = bytesPerSector_def tagBytesPerSector_def encodedPayloadBytes_def
  tracksPerSide_def

text \<open>\<open>QByteArray::mid\<close>, for a position and a length that are not negative.\<close>

definition mid :: "'a list \<Rightarrow> nat \<Rightarrow> nat \<Rightarrow> 'a list" where
  "mid xs pos len = take len (drop pos xs)"

subsection \<open>Big endian words in a file\<close>

definition readBe32 :: "u8 list \<Rightarrow> nat \<Rightarrow> u32" where
  "readBe32 bytes offset =
    (if offset + 4 > length bytes then 0
     else push_bit 24 (ucast (bytes ! offset)) OR push_bit 16 (ucast (bytes ! (offset + 1))) OR
       push_bit 8 (ucast (bytes ! (offset + 2))) OR ucast (bytes ! (offset + 3)))"

definition writeBe32 :: "u8 list \<Rightarrow> nat \<Rightarrow> u32 \<Rightarrow> u8 list" where
  "writeBe32 bytes offset value =
    (if offset + 4 > length bytes then bytes
     else bytes[offset := ucast (drop_bit 24 value), offset + 1 := ucast (drop_bit 16 value),
                offset + 2 := ucast (drop_bit 8 value), offset + 3 := ucast value])"

fun diskCopyChecksum_from :: "u32 \<Rightarrow> u8 list \<Rightarrow> u32" where
  "diskCopyChecksum_from checksum (a # b # bytes) =
    (let checksum = checksum + (push_bit 8 (ucast a) OR ucast b)
     in diskCopyChecksum_from (drop_bit 1 checksum OR push_bit 31 checksum) bytes)"
| "diskCopyChecksum_from checksum _ = checksum"

definition diskCopyChecksum :: "u8 list \<Rightarrow> u32" where
  "diskCopyChecksum bytes = diskCopyChecksum_from 0 bytes"

subsection \<open>The group code\<close>

definition gcrEncodeTable :: "u8 list" where
  "gcrEncodeTable =
    [0x96, 0x97, 0x9a, 0x9b, 0x9d, 0x9e, 0x9f, 0xa6,
     0xa7, 0xab, 0xac, 0xad, 0xae, 0xaf, 0xb2, 0xb3,
     0xb4, 0xb5, 0xb6, 0xb7, 0xb9, 0xba, 0xbb, 0xbc,
     0xbd, 0xbe, 0xbf, 0xcb, 0xcd, 0xce, 0xcf, 0xd3,
     0xd6, 0xd7, 0xd9, 0xda, 0xdb, 0xdc, 0xdd, 0xde,
     0xdf, 0xe5, 0xe6, 0xe7, 0xe9, 0xea, 0xeb, 0xec,
     0xed, 0xee, 0xef, 0xf2, 0xf3, 0xf4, 0xf5, 0xf6,
     0xf7, 0xf9, 0xfa, 0xfb, 0xfc, 0xfd, 0xfe, 0xff]"

fun position :: "'a \<Rightarrow> 'a list \<Rightarrow> nat option" where
  "position x [] = None"
| "position x (y # ys) = (if y = x then Some 0 else map_option Suc (position x ys))"

definition decodeGcr :: "u8 \<Rightarrow> u8 option" where
  "decodeGcr value = map_option of_nat (position value gcrEncodeTable)"

definition gcr :: "u8 \<Rightarrow> u8" where
  "gcr value = gcrEncodeTable ! unat (value AND 0x3f)"

definition appendGcr :: "u8 list \<Rightarrow> u8 \<Rightarrow> u8 list" where
  "appendGcr bytes value = bytes @ [gcr value]"

definition rol1 :: "u8 \<Rightarrow> u8" where
  "rol1 value = push_bit 1 value OR drop_bit 7 value"

text \<open>The high bits of three bytes, packed into one code.\<close>

definition pack_high :: "u8 \<Rightarrow> u8 \<Rightarrow> u8 \<Rightarrow> u8" where
  "pack_high a b c = drop_bit 2 a AND 0x30 OR drop_bit 4 b AND 0x0c OR drop_bit 6 c AND 0x03"

text \<open>And back: a code with the high bits of its byte from the packed code.\<close>

definition with_high :: "u8 \<Rightarrow> u8 \<Rightarrow> u8 \<Rightarrow> nat \<Rightarrow> u8" where
  "with_high low packed m k = low OR push_bit k (packed AND m)"

type_synonym checksums = "u8 \<times> u8 \<times> u8"

definition encode_group ::
    "u8 list \<Rightarrow> nat \<Rightarrow> u8 list \<times> checksums \<Rightarrow> u8 list \<times> checksums" where
  "encode_group payload i = (\<lambda>(out, checksumA, checksumB, checksumC).
    let plainA = payload ! (i * 3);
        plainB = payload ! (i * 3 + 1);
        plainC = (if i \<noteq> 174 then payload ! (i * 3 + 2) else 0);
        checksumC = rol1 checksumC;
        sumA = (ucast checksumA + ucast plainA + ucast (checksumC AND 1) :: u32);
        checksumA = ucast sumA;
        encodedA = plainA XOR checksumC;
        sumB = (ucast checksumB + ucast plainB + (if 0xff < sumA then 1 else 0) :: u32);
        checksumB = ucast sumB;
        encodedB = plainB XOR checksumA;
        sumC = (ucast checksumC + ucast plainC + (if 0xff < sumB then 1 else 0) :: u32);
        checksumC = (if i \<noteq> 174 then ucast sumC else checksumC);
        encodedC = plainC XOR checksumB;
        out = appendGcr out (pack_high encodedA encodedB encodedC);
        out = appendGcr out encodedA;
        out = appendGcr out encodedB;
        out = (if i \<noteq> 174 then appendGcr out encodedC else out)
    in (out, checksumA, checksumB, checksumC))"

definition appendEncodedPayload :: "u8 list \<Rightarrow> u8 list \<Rightarrow> u8 list" where
  "appendEncodedPayload out payload =
    (let (out, checksumA, checksumB, checksumC) = fold (encode_group payload) [0..<175] (out, 0, 0, 0);
         out = appendGcr out (pack_high checksumA checksumB checksumC);
         out = appendGcr out checksumA;
         out = appendGcr out checksumB
     in appendGcr out checksumC)"

text \<open>The state of the decoder: the read position, the checksums and the payload so far.\<close>

definition decode_group ::
    "u8 list \<Rightarrow> nat \<Rightarrow> nat \<times> checksums \<times> u8 list \<Rightarrow> (nat \<times> checksums \<times> u8 list) option" where
  "decode_group encoded i = (\<lambda>(input, (checksumA, checksumB, checksumC), payload).
    case (decodeGcr (encoded ! input), decodeGcr (encoded ! (input + 1)), decodeGcr (encoded ! (input + 2)),
          if i \<noteq> 174 then decodeGcr (encoded ! (input + 3)) else Some 0) of
      (Some packed, Some lowA, Some lowB, Some lowC) \<Rightarrow>
        let input = (if i \<noteq> 174 then input + 4 else input + 3);
            encodedA = with_high lowA packed 0x30 2;
            encodedB = with_high lowB packed 0x0c 4;
            encodedC = with_high lowC packed 0x03 6;
            checksumC = push_bit 1 checksumC OR drop_bit 7 checksumC;
            plainA = encodedA XOR checksumC;
            sumA = (ucast checksumA + ucast plainA + ucast (checksumC AND 1) :: u32);
            checksumA = ucast sumA;
            plainB = encodedB XOR checksumA;
            sumB = (ucast checksumB + ucast plainB + (if 0xff < sumA then 1 else 0) :: u32);
            checksumB = ucast sumB;
            plainC = encodedC XOR checksumB;
            checksumC = (if i \<noteq> 174
                         then ucast (ucast checksumC + ucast plainC + (if 0xff < sumB then 1 else 0) :: u32)
                         else checksumC);
            payload = payload[i * 3 := plainA, i * 3 + 1 := plainB];
            payload = (if i \<noteq> 174 then payload[i * 3 + 2 := plainC] else payload)
        in Some (input, (checksumA, checksumB, checksumC), payload)
    | _ \<Rightarrow> None)"

definition decode_groups ::
    "u8 list \<Rightarrow> nat list \<Rightarrow> nat \<times> checksums \<times> u8 list \<Rightarrow> (nat \<times> checksums \<times> u8 list) option" where
  "decode_groups encoded groups s =
     fold (\<lambda>g r. case r of None \<Rightarrow> None | Some s \<Rightarrow> decode_group encoded g s) groups (Some s)"

definition decodeGcrPayload :: "u8 list \<Rightarrow> u8 list option" where
  "decodeGcrPayload encoded =
    (if length encoded \<noteq> 703 then None
     else case decode_groups encoded [0..<175] (0, (0, 0, 0), replicate encodedPayloadBytes 0) of
       None \<Rightarrow> None
     | Some (input, (checksumA, checksumB, checksumC), payload) \<Rightarrow>
         (case (decodeGcr (encoded ! input), decodeGcr (encoded ! (input + 1)),
                decodeGcr (encoded ! (input + 2)), decodeGcr (encoded ! (input + 3))) of
            (Some packed, Some checkA, Some checkB, Some checkC) \<Rightarrow>
              if with_high checkA packed 0x30 2 = checksumA \<and>
                 with_high checkB packed 0x0c 4 = checksumB \<and>
                 with_high checkC packed 0x03 6 = checksumC
              then Some payload else None
          | _ \<Rightarrow> None))"

subsection \<open>What the decoder reads is what the encoder wrote\<close>

text \<open>The table has no byte twice, and neither of the two bytes that start a mark.\<close>

lemma all_less_64:
  "(\<forall>n<64. P (n :: nat)) \<longleftrightarrow> (\<forall>n<32. P n) \<and> (\<forall>n<32. P (n + 32))"
proof (intro iffI conjI allI impI)
  fix n :: nat assume h: "(\<forall>n<32. P n) \<and> (\<forall>n<32. P (n + 32))" and "n < 64"
  then show "P n" by (cases "n < 32") (auto dest: spec [of _ "n - 32"])
qed auto

lemma gcr_table_size: "length gcrEncodeTable = 64"
  by (simp add: gcrEncodeTable_def)

lemma position_nth: "distinct xs \<Longrightarrow> i < length xs \<Longrightarrow> position (xs ! i) xs = Some i"
proof (induction xs arbitrary: i)
  case (Cons x xs)
  then show ?case by (cases i) (auto simp: nth_Cons')
qed simp

lemma gcr_table_distinct: "distinct gcrEncodeTable"
  by (simp add: gcrEncodeTable_def)

lemma unat_and_63: "unat (v AND 0x3f :: u8) < 64"
proof -
  have "v AND 0x3f \<le> (0x3f :: u8)" by (rule word_and_le1)
  then have "unat (v AND 0x3f) \<le> unat (0x3f :: u8)" by (rule iffD1 [OF word_le_nat_alt])
  then show ?thesis by simp
qed

lemma decode_gcr [simp]: "decodeGcr (gcr v) = Some (v AND 0x3f)"
  using position_nth [OF gcr_table_distinct, of "unat (v AND 0x3f)"] unat_and_63 [of v]
  by (simp add: decodeGcr_def gcr_def gcr_table_size)

lemma gcr_in_table: "gcr v \<in> set gcrEncodeTable"
  using unat_and_63 [of v] by (simp add: gcr_def gcr_table_size)

lemma table_has_no_mark: "0xd5 \<notin> set gcrEncodeTable" "0xaa \<notin> set gcrEncodeTable"
  by (simp_all add: gcrEncodeTable_def)

text \<open>The bits a byte loses in the code come back from the packed code.\<close>

lemma with_high_pack [simp]:
  "with_high (a AND 0x3f) (pack_high a b c AND 0x3f) 0x30 2 = a"
  "with_high (b AND 0x3f) (pack_high a b c AND 0x3f) 0x0c 4 = b"
  "with_high (c AND 0x3f) (pack_high a b c AND 0x3f) 0x03 6 = c"
  by (simp_all add: with_high_def pack_high_def word8_eq bit_simps not_bit_8)

text \<open>One group: the bytes it adds, and the decoder on them.\<close>

lemma encode_group_extends:
  "encode_group payload i (out, ck) = (out', ck') \<Longrightarrow>
    \<exists>bs. out' = out @ bs \<and> length bs = (if i \<noteq> 174 then 4 else 3) \<and> set bs \<subseteq> set gcrEncodeTable"
  by (auto simp: encode_group_def appendGcr_def Let_def gcr_in_table split: prod.splits if_splits)

lemma encode_groups_extend:
  "fold (encode_group payload) gs (out, ck) = (out', ck') \<Longrightarrow>
    \<exists>bs. out' = out @ bs \<and> length bs = (\<Sum>i\<leftarrow>gs. if i \<noteq> 174 then 4 else 3) \<and>
      set bs \<subseteq> set gcrEncodeTable"
proof (induction gs arbitrary: out ck)
  case (Cons i gs)
  obtain out1 ck1 where e: "encode_group payload i (out, ck) = (out1, ck1)" by (metis surj_pair)
  from encode_group_extends [OF e] Cons.IH [of out1 ck1] Cons.prems e show ?case by fastforce
qed simp

definition store_group :: "u8 list \<Rightarrow> nat \<Rightarrow> u8 list \<Rightarrow> u8 list" where
  "store_group payload i acc =
    (let acc = acc[i * 3 := payload ! (i * 3), i * 3 + 1 := payload ! (i * 3 + 1)]
     in if i \<noteq> 174 then acc[i * 3 + 2 := payload ! (i * 3 + 2)] else acc)"

lemma decode_encode_group:
  assumes "encode_group payload i (out, ck) = (out', ck')" and "encoded = out' @ rest"
  shows "decode_group encoded i (length out, ck, acc) = Some (length out', ck', store_group payload i acc)"
  using assms
  by (cases ck; cases "i = 174")
    (clarsimp simp: encode_group_def decode_group_def appendGcr_def store_group_def rol1_def Let_def
      nth_append xor.assoc split del: if_split)+

lemma decode_encode_groups:
  assumes "fold (encode_group payload) gs (out, ck) = (out', ck')" and "encoded = out' @ rest"
  shows "decode_groups encoded gs (length out, ck, acc) =
    Some (length out', ck', fold (store_group payload) gs acc)"
  using assms
proof (induction gs arbitrary: out ck acc)
  case (Cons i gs)
  obtain out1 ck1 where e: "encode_group payload i (out, ck) = (out1, ck1)" by (metis surj_pair)
  with Cons.prems have f: "fold (encode_group payload) gs (out1, ck1) = (out', ck')" by simp
  obtain bs where "out' = out1 @ bs" using encode_groups_extend [OF f] by blast
  then have "decode_group encoded i (length out, ck, acc) = Some (length out1, ck1, store_group payload i acc)"
    using decode_encode_group [OF e, of encoded "bs @ rest"] Cons.prems(2) by simp
  then show ?case
    using Cons.IH [OF f Cons.prems(2), of "store_group payload i acc"] by (simp add: decode_groups_def)
qed (simp add: decode_groups_def)

lemma store_groups:
  assumes "length payload = 524" "n \<le> 174"
  shows "fold (store_group payload) [0..<n] (replicate 524 0) =
    take (n * 3) payload @ replicate (524 - n * 3) 0"
  using assms(2)
proof (induction n)
  case (Suc n)
  then have "fold (store_group payload) [0..<Suc n] (replicate 524 0) =
      store_group payload n (take (n * 3) payload @ replicate (524 - n * 3) 0)" by simp
  also have "\<dots> = take (Suc n * 3) payload @ replicate (524 - Suc n * 3) 0"
    using Suc.prems assms(1)
    by (intro nth_equalityI) (auto simp: store_group_def nth_append nth_list_update min_def)
  finally show ?case .
qed simp

lemma store_all_groups:
  assumes "length payload = 524"
  shows "fold (store_group payload) [0..<175] (replicate 524 0) = payload"
proof -
  have "fold (store_group payload) [0..<Suc 174] (replicate 524 0) =
      store_group payload 174 (take 522 payload @ replicate 2 0)"
    using store_groups [OF assms, of 174] by (simp only: upt_Suc fold_append) simp
  also have "\<dots> = payload"
    using assms by (intro nth_equalityI) (auto simp: store_group_def nth_append nth_list_update min_def)
  finally show ?thesis by simp
qed

text \<open>
  C23. The group code of a sector. Encoding the 524 bytes of tag and data gives 703 bytes of the code
  table, among which neither of the bytes \<open>0xd5\<close> and \<open>0xaa\<close> that start a mark occurs, and decoding
  them, checksums included, gives the bytes back.
\<close>

theorem gcr_payload_round_trip:
  assumes "length payload = encodedPayloadBytes"
  shows "decodeGcrPayload (appendEncodedPayload [] payload) = Some payload \<and>
    length (appendEncodedPayload [] payload) = 703 \<and>
    set (appendEncodedPayload [] payload) \<subseteq> set gcrEncodeTable \<and>
    0xd5 \<notin> set gcrEncodeTable \<and> 0xaa \<notin> set gcrEncodeTable"
proof -
  obtain out a b c where e: "fold (encode_group payload) [0..<175] ([], 0, 0, 0) = (out, a, b, c)"
    by (metis surj_pair)
  obtain bs where "out = [] @ bs" "length bs = (\<Sum>i\<leftarrow>[0..<175]. if i \<noteq> 174 then 4 else 3)"
    "set bs \<subseteq> set gcrEncodeTable"
    using encode_groups_extend [OF e] by blast
  moreover have "(\<Sum>i\<leftarrow>[0..<175]. if i \<noteq> 174 then 4 else 3) = (699 :: nat)" by code_simp
  ultimately have out: "length out = 699" "set out \<subseteq> set gcrEncodeTable" by simp_all
  let ?tail = "[gcr (pack_high a b c), gcr a, gcr b, gcr c]"
  have p: "appendEncodedPayload [] payload = out @ ?tail"
    by (simp add: appendEncodedPayload_def e appendGcr_def)
  have "decode_groups (out @ ?tail) [0..<175] (0, (0, 0, 0), replicate 524 0) = Some (699, (a, b, c), payload)"
    using decode_encode_groups [OF e refl, of ?tail "replicate 524 0"] out assms
    by (simp add: store_all_groups)
  with out show ?thesis
    by (simp add: p decodeGcrPayload_def nth_append gcr_in_table table_has_no_mark)
qed

lemma gcr_payload_round_trip_witness:
  "decodeGcrPayload (appendEncodedPayload [] (replicate 524 7)) = Some (replicate 524 7)"
  using gcr_payload_round_trip [of "replicate 524 7"] by simp

subsection \<open>Fields of a high density track\<close>

definition mfm_bit :: "u16 \<Rightarrow> u16" where
  "mfm_bit crc = (if crc AND 0x8000 \<noteq> 0 then push_bit 1 crc XOR 0x1021 else push_bit 1 crc)"

definition mfm_byte :: "u8 \<Rightarrow> u16 \<Rightarrow> u16" where
  "mfm_byte byte crc = fold (\<lambda>_. mfm_bit) [0 ..< 8] (crc XOR push_bit 8 (ucast byte))"

definition mfmCrc :: "u8 list \<Rightarrow> u16" where
  "mfmCrc bytes = fold mfm_byte bytes 0xffff"

text \<open>A track under construction is its bytes, each with the flag of a mark.\<close>

definition appendMfmByte :: "(u8 \<times> bool) list \<Rightarrow> u8 \<Rightarrow> bool \<Rightarrow> (u8 \<times> bool) list" where
  "appendMfmByte track v mark = track @ [(v, mark)]"

definition appendMfmRepeated :: "(u8 \<times> bool) list \<Rightarrow> u8 \<Rightarrow> nat \<Rightarrow> (u8 \<times> bool) list" where
  "appendMfmRepeated track v count = fold (\<lambda>_ track. appendMfmByte track v False) [0..<count] track"

definition appendMfmField ::
    "(u8 \<times> bool) list \<Rightarrow> u8 \<Rightarrow> u8 list \<Rightarrow> u8 \<Rightarrow> (u8 \<times> bool) list" where
  "appendMfmField track type payload syncMark =
    (let (track, crcBytes) =
           fold (\<lambda>_ (track, crcBytes). (appendMfmByte track syncMark True, crcBytes @ [syncMark]))
             [0 ..< 3] (track, []);
         track = appendMfmByte track type False;
         crcBytes = crcBytes @ [type];
         (track, crcBytes) =
           fold (\<lambda>byte (track, crcBytes). (appendMfmByte track byte False, crcBytes @ [byte]))
             payload (track, crcBytes);
         crc = mfmCrc crcBytes;
         track = appendMfmByte track (ucast (drop_bit 8 crc)) False
     in appendMfmByte track (ucast crc) False)"

lemma appendMfmRepeated_eq: "appendMfmRepeated track v count = track @ replicate count (v, False)"
  by (induction count) (simp_all add: appendMfmRepeated_def appendMfmByte_def replicate_append_same)

definition mfm_record :: "u8 \<Rightarrow> u8 list \<Rightarrow> u8 \<Rightarrow> u8 list" where
  "mfm_record type payload syncMark =
    (let field = replicate 3 syncMark @ type # payload; crc = mfmCrc field
     in field @ [ucast (drop_bit 8 crc), ucast crc])"

lemma append_payload:
  "fold (\<lambda>byte (track, crcBytes). (appendMfmByte track byte False, crcBytes @ [byte])) payload (track, crc) =
    (track @ map (\<lambda>b. (b, False)) payload, crc @ payload)"
  by (induction payload arbitrary: track crc) (simp_all add: appendMfmByte_def)

lemma appendMfmField_eq:
  "appendMfmField track type payload syncMark =
    track @ replicate 3 (syncMark, True) @ map (\<lambda>b. (b, False)) (drop 3 (mfm_record type payload syncMark))"
  by (simp add: appendMfmField_def append_payload [unfolded appendMfmByte_def] mfm_record_def Let_def
      appendMfmByte_def upt_rec numeral_eq_Suc)

text \<open>The check value of a field followed by its own check value is zero.\<close>

lemma fold_mfm_bit:
  assumes "\<And>n. 8 \<le> n \<Longrightarrow> \<not> bit v n" "k \<le> 8"
  shows "fold (\<lambda>_. mfm_bit) [0..<k] v = push_bit k v"
  using assms(2)
proof (induction k)
  case (Suc k)
  have "push_bit k v AND 2 ^ 15 = 0"
    unfolding and_exp_eq_0_iff_not_bit using Suc.prems assms(1) [of "15 - k"] by (simp add: bit_simps)
  then have "push_bit k v AND 0x8000 = 0" by simp
  then show ?case using Suc by (simp add: mfm_bit_def)
qed simp

lemma mfm_byte_self:
  "mfm_byte (ucast crc) (mfm_byte (ucast (drop_bit 8 crc)) crc) = 0"
proof -
  have "crc XOR push_bit 8 (ucast (ucast (drop_bit 8 crc) :: u8)) = crc AND 0xff"
    by (simp add: word16_eq bit_simps)
  then have "mfm_byte (ucast (drop_bit 8 crc)) crc = push_bit 8 (crc AND 0xff)"
    unfolding mfm_byte_def by (simp add: mask_8 bit_simps fold_mfm_bit)
  moreover have "push_bit 8 (crc AND 0xff) XOR push_bit 8 (ucast (ucast crc :: u8)) = 0"
    by (simp add: word16_eq bit_simps)
  ultimately show ?thesis
    unfolding mfm_byte_def by (simp add: fold_mfm_bit)
qed

lemma mfmCrc_append: "mfmCrc (xs @ ys) = fold mfm_byte ys (mfmCrc xs)"
  by (simp add: mfmCrc_def)

text \<open>One step of the check is injective, so the two check bytes are determined.\<close>

lemma bit_mfm_bit:
  "bit (mfm_bit x) n \<longleftrightarrow> n < 16 \<and> (0 < n \<and> bit x (n - 1)) \<noteq> (bit x 15 \<and> bit (0x1021 :: u16) n)"
proof -
  have "x AND 0x8000 \<noteq> 0 \<longleftrightarrow> bit x 15"
    using and_exp_eq_0_iff_not_bit [of x 15] by simp
  then show ?thesis
    unfolding mfm_bit_def if_distrib [of "\<lambda>w. bit w n"] bit_xor_iff bit_push_bit_iff
    by (auto dest: bit_imp_le_length)
qed

lemma inj_mfm_bit: "mfm_bit x = mfm_bit y \<Longrightarrow> x = y"
proof (rule bit_word_eqI)
  fix n
  assume e: "mfm_bit x = mfm_bit y" and n: "n < LENGTH(16)"
  have b: "bit (mfm_bit x) k \<longleftrightarrow> bit (mfm_bit y) k" for k using e by simp
  have top: "bit x 15 \<longleftrightarrow> bit y 15" using b [of 0] by (simp add: bit_mfm_bit)
  show "bit x n \<longleftrightarrow> bit y n"
  proof (cases "n = 15")
    case False
    with n top show ?thesis using b [of "Suc n"] by (auto simp: bit_mfm_bit)
  qed (use top in simp)
qed

lemma inj_fold_mfm_bit: "fold (\<lambda>_. mfm_bit) ns x = fold (\<lambda>_. mfm_bit) ns y \<Longrightarrow> x = y"
  by (induction ns arbitrary: x y) (auto dest: inj_mfm_bit)

lemma check_bytes_determined:
  assumes "mfm_byte lo (mfm_byte hi crc) = 0"
  shows "hi = ucast (drop_bit 8 crc)" "lo = ucast crc"
proof -
  define v where "v = fold (\<lambda>_. mfm_bit) [0..<8] (crc XOR push_bit 8 (ucast hi))"
  have z: "fold (\<lambda>_. mfm_bit) [0..<8] 0 = (0 :: u16)" using fold_mfm_bit [of 0 8] by simp
  have "fold (\<lambda>_. mfm_bit) [0..<8] (v XOR push_bit 8 (ucast lo)) = 0"
    using assms unfolding v_def mfm_byte_def .
  with z have "v XOR push_bit 8 (ucast lo) = 0" by (metis inj_fold_mfm_bit)
  then have "(v XOR push_bit 8 (ucast lo)) XOR push_bit 8 (ucast lo) = push_bit 8 (ucast lo)" by simp
  then have "v = push_bit 8 (ucast lo)" by (simp add: xor.assoc)
  also have "\<dots> = fold (\<lambda>_. mfm_bit) [0..<8] (ucast lo)"
    using fold_mfm_bit [of "ucast lo" 8] by (simp add: bit_simps not_bit_8)
  finally have "crc XOR push_bit 8 (ucast hi) = ucast lo" unfolding v_def by (rule inj_fold_mfm_bit)
  then have b: "(bit crc n \<noteq> (8 \<le> n \<and> bit hi (n - 8))) \<longleftrightarrow> bit lo n" if "n < 16" for n
    using that unfolding bit_eq_iff [of "crc XOR _"] by (auto simp: bit_xor_iff bit_push_bit_iff bit_ucast_iff)
  have "bit lo n = bit (ucast crc :: u8) n" if "n < 8" for n
    using b [of n] that by (simp add: bit_ucast_iff)
  then show "lo = ucast crc" by (simp add: word8_bits)
  have "bit hi n = bit (ucast (drop_bit 8 crc) :: u8) n" if "n < 8" for n
    using b [of "n + 8"] that not_bit_8 [of "n + 8" lo] by (simp add: bit_ucast_iff bit_drop_bit_eq add.commute)
  then show "hi = ucast (drop_bit 8 crc)" by (simp add: word8_bits)
qed

text \<open>
  The fields of a high density track: three marks, a type byte, the payload and two check bytes,
  the high one first.  A reader that runs the check over the whole field, check bytes included, gets
  zero, and the two check bytes are the only ones for which it does.
\<close>

theorem mfm_field_checks:
  "(let field = replicate 3 syncMark @ type # payload; written = mfm_record type payload syncMark
    in map fst (appendMfmField track type payload syncMark) = map fst track @ written \<and>
       mfmCrc written = 0 \<and>
       (mfmCrc (field @ [hi, lo]) = 0 \<longleftrightarrow> field @ [hi, lo] = written))"
  using mfm_byte_self check_bytes_determined
  by (auto simp: Let_def appendMfmField_eq mfm_record_def mfmCrc_append comp_def)

end
