(* ===== verification/FloppyDiskImage.thy ===== *)
theory FloppyDiskImage
  imports GcrCodec HostFiles
begin

section \<open>The floppy drive\<close>

text \<open>
  \<open>FloppyDiskImage.cpp\<close>: a drive with an image of 400K, 800K or 1440K.  Reading builds the encoded
  bytes of the current track in a cache with a cursor; writing collects bytes in a window in which
  complete sectors are recognised, checked and stored in the image and its file.  Tracing for the
  debugger is left out (it is off unless the debugger turns it on, and only records).
\<close>

unbundle bit_operations_syntax

subsection \<open>Geometry\<close>

definition raw400KBytes :: nat where "raw400KBytes = 400 * 1024"
definition raw800KBytes :: nat where "raw800KBytes = 800 * 1024"
definition raw1440KBytes :: nat where "raw1440KBytes = 1440 * 1024"
definition hfsGeometrySlackBytes :: nat where "hfsGeometrySlackBytes = 4 * 1024"

lemmas image_sizes = raw400KBytes_def raw800KBytes_def raw1440KBytes_def hfsGeometrySlackBytes_def

definition sectorsForTrack :: "int \<Rightarrow> int" where
  "sectorsForTrack track =
    (if track < 16 then 12 else if track < 32 then 11 else if track < 48 then 10
     else if track < 64 then 9 else 8)"

definition firstBlockForTrack :: "int \<Rightarrow> int \<Rightarrow> bool \<Rightarrow> int" where
  "firstBlockForTrack track side doubleSided =
    (let heads = (if doubleSided then 2 else 1);
         block = fold (\<lambda>t block. block + sectorsForTrack t * heads) [0 .. track - 1] 0
     in block + (if doubleSided then side * sectorsForTrack track else 0))"

definition interleavedSectorOrder :: "nat \<Rightarrow> nat list" where
  "interleavedSectorOrder sectorsOnTrack =
    snd (fold (\<lambda>logicalSector (slot, order).
           let order = order[slot := logicalSector];
               slot = (slot + 2) mod sectorsOnTrack
           in (if slot = 0 then slot + 1 else slot, order))
         [0..<sectorsOnTrack] (0, replicate sectorsOnTrack 0))"

datatype disk_kind = Empty | Raw400K | Raw800K | Raw1440K | DiskCopy42

definition be16_at :: "u8 list \<Rightarrow> nat \<Rightarrow> u64" where
  "be16_at mdb offset = push_bit 8 (ucast (mdb ! offset)) OR ucast (mdb ! (offset + 1))"

definition truncatedRawHfsKind :: "u8 list \<Rightarrow> disk_kind" where
  "truncatedRawHfsKind bytes =
    (if length bytes \<le> raw400KBytes \<or> length bytes \<ge> raw1440KBytes \<or> length bytes < 1056 then Empty
     else
       let targetBytes = (if length bytes < raw800KBytes then raw800KBytes else raw1440KBytes);
           mdb = mid bytes 1024 32;
           allocationBlocks = be16_at mdb 18;
           allocationBlockSize = push_bit 16 (be16_at mdb 20) OR be16_at mdb 22;
           firstAllocationBlock = be16_at mdb 28;
           volumeBytes = firstAllocationBlock * of_nat bytesPerSector + allocationBlocks * allocationBlockSize
       in if be16_at mdb 0 \<noteq> 0x4244 \<or> allocationBlocks = 0 \<or> allocationBlockSize = 0 \<or>
             volumeBytes \<le> of_nat (length bytes) \<or>
             of_nat (targetBytes + hfsGeometrySlackBytes) < volumeBytes
          then Empty
          else if targetBytes = raw800KBytes then Raw800K else Raw1440K)"

subsection \<open>State\<close>

record track_cache =
  cache_track :: int
  cache_side :: int
  cache_bytes :: "u8 list"
  cache_marks :: "bool list"
  cache_cursor :: nat

definition empty_cache :: track_cache where
  "empty_cache = \<lparr>cache_track = -1, cache_side = -1, cache_bytes = [], cache_marks = [], cache_cursor = 0\<rparr>"

record 'h floppy =
  fd_path :: string
  fd_kind :: disk_kind
  fd_data :: "u8 list"
  fd_tags :: "u8 list list"
  fd_diskCopyHeader :: "u8 list"
  fd_writable :: bool
  fd_forceReadOnly :: bool
  fd_doubleSided :: bool
  fd_highDensity :: bool
  fd_mediaChanged :: bool
  fd_motorOn :: bool
  fd_currentTrack :: int
  fd_currentSide :: int
  fd_trackCache :: track_cache
  fd_writeBytes :: "u8 list"
  fd_writeMarks :: "bool list"
  fd_writeMfmSector :: int
  fd_writeFailed :: bool
  fd_host :: 'h

definition floppy_init :: "'h \<Rightarrow> 'h floppy" where
  "floppy_init w = \<lparr>fd_path = [], fd_kind = Empty, fd_data = [], fd_tags = [], fd_diskCopyHeader = [],
     fd_writable = False, fd_forceReadOnly = False, fd_doubleSided = False, fd_highDensity = False,
     fd_mediaChanged = False, fd_motorOn = False, fd_currentTrack = 0, fd_currentSide = 0,
     fd_trackCache = empty_cache, fd_writeBytes = [], fd_writeMarks = [], fd_writeMfmSector = -1,
     fd_writeFailed = False, fd_host = w\<rparr>"

definition inserted :: "'h floppy \<Rightarrow> bool" where
  "inserted s \<longleftrightarrow> fd_kind s \<noteq> Empty"

definition blockCount :: "'h floppy \<Rightarrow> u32" where
  "blockCount s = of_nat (length (fd_data s) div bytesPerSector)"

definition trackZero :: "'h floppy \<Rightarrow> bool" where
  "trackZero s \<longleftrightarrow> fd_currentTrack s = 0"

definition invalidateTrackCache :: "'h floppy \<Rightarrow> 'h floppy" where
  "invalidateTrackCache s = s\<lparr>fd_trackCache := empty_cache\<rparr>"

subsection \<open>Storing a sector\<close>

definition persistImage :: "'h host_files \<Rightarrow> 'h floppy \<Rightarrow> bool \<times> 'h floppy" where
  "persistImage h s =
    (if \<not> fd_writable s \<or> fd_path s = [] then (False, s)
     else if fd_kind s = DiskCopy42 \<and> length (fd_diskCopyHeader s) \<noteq> 84 then (False, s)
     else
       let output =
             (if fd_kind s = DiskCopy42
              then let tagBytes = concat (fd_tags s);
                       output = fd_diskCopyHeader s @ fd_data s @ tagBytes;
                       output = writeBe32 output 72 (diskCopyChecksum (fd_data s))
                   in writeBe32 output 76 (diskCopyChecksum (drop tagBytesPerSector tagBytes))
              else fd_data s);
           (ok, w) = save_file h (fd_path s) output (fd_host s)
       in (ok, s\<lparr>fd_host := w\<rparr>))"

definition commitSector ::
    "'h host_files \<Rightarrow> int \<Rightarrow> u8 list \<Rightarrow> u8 list \<Rightarrow> 'h floppy \<Rightarrow> bool \<times> 'h floppy" where
  "commitSector h logicalSector data tags s =
    (if length data \<noteq> bytesPerSector then (False, s)
     else
       let block = (if fd_highDensity s
                    then (fd_currentTrack s * 2 + fd_currentSide s) * 18 + logicalSector
                    else firstBlockForTrack (fd_currentTrack s) (fd_currentSide s) (fd_doubleSided s)
                         + logicalSector)
       in if block < 0 \<or> int (length (fd_data s) div bytesPerSector) \<le> block then (False, s)
          else
            let b = nat block;
                s = s\<lparr>fd_data := take (b * bytesPerSector) (fd_data s) @ data @
                        drop (b * bytesPerSector + bytesPerSector) (fd_data s)\<rparr>;
                s = (if tags \<noteq> [] \<and> b < length (fd_tags s) \<and> length tags = tagBytesPerSector
                     then s\<lparr>fd_tags := (fd_tags s)[b := tags]\<rparr> else s);
                (ok, s) = persistImage h s
            in if \<not> ok then (False, s\<lparr>fd_writeFailed := True\<rparr>)
               else (True, invalidateTrackCache s))"

text \<open>What storing a sector leaves alone.\<close>

lemma persistImage_keeps [simp]:
  "fd_path (snd (persistImage h s)) = fd_path s"
  "fd_kind (snd (persistImage h s)) = fd_kind s"
  "fd_tags (snd (persistImage h s)) = fd_tags s"
  "fd_diskCopyHeader (snd (persistImage h s)) = fd_diskCopyHeader s"
  "fd_writable (snd (persistImage h s)) = fd_writable s"
  "fd_forceReadOnly (snd (persistImage h s)) = fd_forceReadOnly s"
  "fd_doubleSided (snd (persistImage h s)) = fd_doubleSided s"
  "fd_highDensity (snd (persistImage h s)) = fd_highDensity s"
  "fd_mediaChanged (snd (persistImage h s)) = fd_mediaChanged s"
  "fd_motorOn (snd (persistImage h s)) = fd_motorOn s"
  "fd_currentTrack (snd (persistImage h s)) = fd_currentTrack s"
  "fd_currentSide (snd (persistImage h s)) = fd_currentSide s"
  "fd_trackCache (snd (persistImage h s)) = fd_trackCache s"
  "fd_writeBytes (snd (persistImage h s)) = fd_writeBytes s"
  "fd_writeMarks (snd (persistImage h s)) = fd_writeMarks s"
  "fd_writeMfmSector (snd (persistImage h s)) = fd_writeMfmSector s"
  "fd_writeFailed (snd (persistImage h s)) = fd_writeFailed s"
  "fd_data (snd (persistImage h s)) = fd_data s"
  by (simp_all add: persistImage_def Let_def split_beta)

lemma commitSector_keeps [simp]:
  "fd_path (snd (commitSector h sector data tags s)) = fd_path s"
  "fd_kind (snd (commitSector h sector data tags s)) = fd_kind s"
  "fd_diskCopyHeader (snd (commitSector h sector data tags s)) = fd_diskCopyHeader s"
  "fd_writable (snd (commitSector h sector data tags s)) = fd_writable s"
  "fd_forceReadOnly (snd (commitSector h sector data tags s)) = fd_forceReadOnly s"
  "fd_doubleSided (snd (commitSector h sector data tags s)) = fd_doubleSided s"
  "fd_highDensity (snd (commitSector h sector data tags s)) = fd_highDensity s"
  "fd_mediaChanged (snd (commitSector h sector data tags s)) = fd_mediaChanged s"
  "fd_motorOn (snd (commitSector h sector data tags s)) = fd_motorOn s"
  "fd_currentTrack (snd (commitSector h sector data tags s)) = fd_currentTrack s"
  "fd_currentSide (snd (commitSector h sector data tags s)) = fd_currentSide s"
  "fd_writeBytes (snd (commitSector h sector data tags s)) = fd_writeBytes s"
  "fd_writeMarks (snd (commitSector h sector data tags s)) = fd_writeMarks s"
  "fd_writeMfmSector (snd (commitSector h sector data tags s)) = fd_writeMfmSector s"
  by (simp_all add: commitSector_def invalidateTrackCache_def Let_def split_beta)

lemma block_fits:
  "b < length xs div 512 \<Longrightarrow> b * 512 + 512 \<le> length xs"
  by linarith

lemma commitSector_length [simp]:
  "length (fd_data (snd (commitSector h sector data tags s))) = length (fd_data s)"
  "length (fd_tags (snd (commitSector h sector data tags s))) = length (fd_tags s)"
  using block_fits [of _ "fd_data s"]
  by (auto simp: commitSector_def invalidateTrackCache_def Let_def split_beta nat_less_iff min_def)

subsection \<open>Writing\<close>

text \<open>\<open>QByteArray::indexOf\<close>: the first place where a pattern occurs.\<close>

fun index_of :: "'a list \<Rightarrow> 'a list \<Rightarrow> nat option" where
  "index_of pat [] = (if pat = [] then Some 0 else None)"
| "index_of pat (x # xs) =
    (if take (length pat) (x # xs) = pat then Some 0 else map_option Suc (index_of pat xs))"

lemma index_of_less: "index_of pat xs = Some i \<Longrightarrow> pat \<noteq> [] \<Longrightarrow> i < length xs"
  by (induction xs arbitrary: i) (auto split: if_splits)

text \<open>Dropping bytes from the front of the write window, or keeping only the last two.\<close>

definition remove_front :: "nat \<Rightarrow> 'h floppy \<Rightarrow> 'h floppy" where
  "remove_front n s = s\<lparr>fd_writeBytes := drop n (fd_writeBytes s), fd_writeMarks := drop n (fd_writeMarks s)\<rparr>"

definition keep_two :: "'h floppy \<Rightarrow> 'h floppy" where
  "keep_two s =
    (if 2 < length (fd_writeBytes s) then remove_front (length (fd_writeBytes s) - 2) s else s)"

lemma remove_front_bytes [simp]: "fd_writeBytes (remove_front n s) = drop n (fd_writeBytes s)"
  by (simp add: remove_front_def)

definition gcr_sector :: "'h host_files \<Rightarrow> 'h floppy \<Rightarrow> bool \<times> 'h floppy" where
  "gcr_sector h s =
    (case (decodeGcr (fd_writeBytes s ! 3), decodeGcrPayload (mid (fd_writeBytes s) 4 703)) of
       (Some sector, Some payload) \<Rightarrow>
         if uint sector < sectorsForTrack (fd_currentTrack s)
         then commitSector h (uint sector) (mid payload tagBytesPerSector bytesPerSector)
                (take tagBytesPerSector payload) s
         else (False, s\<lparr>fd_writeFailed := True\<rparr>)
     | _ \<Rightarrow> (False, s\<lparr>fd_writeFailed := True\<rparr>))"

lemma gcr_sector_bytes [simp]: "fd_writeBytes (snd (gcr_sector h s)) = fd_writeBytes s"
  by (simp add: gcr_sector_def split: option.split)

text \<open>The endless loop of the source, which either returns or removes bytes.\<close>

function processGcrWrites :: "'h host_files \<Rightarrow> bool \<Rightarrow> 'h floppy \<Rightarrow> bool \<times> 'h floppy" where
  "processGcrWrites h committed s =
    (case index_of [0xd5, 0xaa, 0xad] (fd_writeBytes s) of
       None \<Rightarrow> (committed, keep_two s)
     | Some prologue \<Rightarrow>
         let s = (if 0 < prologue then remove_front prologue s else s)
         in if length (fd_writeBytes s) < 710 then (committed, s)
            else if mid (fd_writeBytes s) 707 3 \<noteq> [0xde, 0xaa, 0xff]
            then processGcrWrites h committed (remove_front 1 s)
            else let (stored, s) = gcr_sector h s
                 in processGcrWrites h (committed \<or> stored) (remove_front 710 s))"
  by pat_completeness auto
termination
proof (relation "measure (\<lambda>(h, committed, s). length (fd_writeBytes s))", goal_cases)
  case (3 h committed s prologue t p stored u)
  then have "length (fd_writeBytes t) \<le> length (fd_writeBytes s)" "710 \<le> length (fd_writeBytes t)"
    by (auto split: if_splits)
  moreover have "fd_writeBytes u = fd_writeBytes t" using 3 by (metis gcr_sector_bytes snd_conv)
  ultimately show ?case by simp
qed (auto split: if_splits)

definition be16_bytes :: "u8 list \<Rightarrow> nat \<Rightarrow> u16" where
  "be16_bytes bytes i = push_bit 8 (ucast (bytes ! i)) OR ucast (bytes ! (i + 1))"

definition mfm_address :: "'h floppy \<Rightarrow> 'h floppy" where
  "mfm_address s =
    (let bytes = fd_writeBytes s
     in if mfmCrc (take 8 bytes) = be16_bytes bytes 8 \<and> uint (bytes ! 4) = fd_currentTrack s \<and>
           uint (bytes ! 5) = fd_currentSide s \<and> bytes ! 7 = 2
        then s\<lparr>fd_writeMfmSector := uint (bytes ! 6) - 1\<rparr> else s)"

definition mfm_data :: "'h host_files \<Rightarrow> 'h floppy \<Rightarrow> bool \<times> 'h floppy" where
  "mfm_data h s =
    (let bytes = fd_writeBytes s
     in if 0 \<le> fd_writeMfmSector s \<and> fd_writeMfmSector s < 18 \<and>
           mfmCrc (take (4 + bytesPerSector) bytes) = be16_bytes bytes (4 + bytesPerSector)
        then commitSector h (fd_writeMfmSector s) (mid bytes 4 bytesPerSector) [] s
        else (False, s\<lparr>fd_writeFailed := True\<rparr>))"

lemma mfm_address_bytes [simp]: "fd_writeBytes (mfm_address s) = fd_writeBytes s"
  by (simp add: mfm_address_def Let_def)

lemma mfm_data_bytes [simp]: "fd_writeBytes (snd (mfm_data h s)) = fd_writeBytes s"
  by (simp add: mfm_data_def Let_def)

function processMfmWrites :: "'h host_files \<Rightarrow> bool \<Rightarrow> 'h floppy \<Rightarrow> bool \<times> 'h floppy" where
  "processMfmWrites h committed s =
    (case index_of [0xa1, 0xa1, 0xa1] (fd_writeBytes s) of
       None \<Rightarrow> (committed, keep_two s)
     | Some prologue \<Rightarrow>
         let s = (if 0 < prologue then remove_front prologue s else s);
             bytes = fd_writeBytes s; type = bytes ! 3
         in if length bytes < 4 then (committed, s)
            else if type = 0xfe
            then if length bytes < 10 then (committed, s)
                 else processMfmWrites h committed (remove_front 10 (mfm_address s))
            else if type = 0xfb \<or> type = 0xf8
            then if length bytes < 6 + bytesPerSector then (committed, s)
                 else let (stored, s) = mfm_data h s
                      in processMfmWrites h (committed \<or> stored) (remove_front (6 + bytesPerSector) s)
            else processMfmWrites h committed (remove_front 1 s))"
  by pat_completeness auto
termination
proof (relation "measure (\<lambda>(h, committed, s). length (fd_writeBytes s))", goal_cases)
  case (3 h committed s prologue t bytes ty p stored u)
  then have "length (fd_writeBytes t) \<le> length (fd_writeBytes s)" "518 \<le> length (fd_writeBytes t)"
    by (auto split: if_splits)
  moreover have "fd_writeBytes u = fd_writeBytes t" using 3 by (metis mfm_data_bytes snd_conv)
  ultimately show ?case by simp
qed (auto split: if_splits)

definition flushWrites :: "'h host_files \<Rightarrow> 'h floppy \<Rightarrow> bool \<times> 'h floppy" where
  "flushWrites h s =
    (let s = (if fd_writeBytes s = [] then s
              else if fd_highDensity s then snd (processMfmWrites h False s)
              else snd (processGcrWrites h False s));
         s = s\<lparr>fd_writeBytes := [], fd_writeMarks := [], fd_writeMfmSector := -1\<rparr>
     in (\<not> fd_writeFailed s, s\<lparr>fd_writeFailed := False\<rparr>))"

subsection \<open>The bytes of a track\<close>

definition appendRepeated :: "u8 list \<Rightarrow> u8 \<Rightarrow> nat \<Rightarrow> u8 list" where
  "appendRepeated bytes v count = fold (\<lambda>_ bytes. bytes @ [v]) [0..<count] bytes"

definition sectorPayload :: "'h floppy \<Rightarrow> int \<Rightarrow> int \<Rightarrow> int \<Rightarrow> u8 list" where
  "sectorPayload s physicalTrack side logicalSector =
    (let block = firstBlockForTrack physicalTrack side (fd_doubleSided s) + logicalSector;
         payload = replicate encodedPayloadBytes 0
     in if 0 \<le> block \<and> block < int (length (fd_data s) div bytesPerSector)
        then let b = nat block;
                 payload = (if b < length (fd_tags s) \<and> length (fd_tags s ! b) = tagBytesPerSector
                            then fd_tags s ! b @ drop tagBytesPerSector payload else payload)
             in take tagBytesPerSector payload @ mid (fd_data s) (b * bytesPerSector) bytesPerSector
        else payload)"

definition appendSector :: "'h floppy \<Rightarrow> u8 list \<Rightarrow> int \<Rightarrow> int \<Rightarrow> int \<Rightarrow> u8 list" where
  "appendSector s trackBytes physicalTrack side logicalSector =
    (let track = word_of_int physicalTrack :: u32;
         formatByte = (if fd_doubleSided s then 0x22 else 0x02 :: u8);
         trackLow = ucast (track AND 0x3f) :: u8;
         sideAndTrackHigh = ucast (drop_bit 6 track AND 1) OR (if side \<noteq> 0 then 0x20 else 0) :: u8;
         sector = word_of_int logicalSector :: u8;
         addressChecksum = formatByte XOR trackLow XOR sideAndTrackHigh XOR sector;
         out = appendRepeated trackBytes 0xff 18 @ [0xd5, 0xaa, 0x96];
         out = appendGcr out trackLow;
         out = appendGcr out sector;
         out = appendGcr out sideAndTrackHigh;
         out = appendGcr out formatByte;
         out = appendGcr out addressChecksum;
         out = out @ [0xde, 0xaa, 0xff];
         out = appendRepeated out 0xff 14 @ [0xd5, 0xaa, 0xad];
         out = appendGcr out sector;
         out = appendEncodedPayload out (sectorPayload s physicalTrack side logicalSector);
         out = out @ [0xde, 0xaa, 0xff]
     in appendRepeated out 0xff 8)"

definition buildTrackBytes :: "'h floppy \<Rightarrow> int \<Rightarrow> int \<Rightarrow> u8 list" where
  "buildTrackBytes s physicalTrack side =
    (if \<not> inserted s then []
     else let bytes = appendRepeated [] 0xff 48;
              bytes = fold (\<lambda>sector bytes. appendSector s bytes physicalTrack side (int sector))
                        (interleavedSectorOrder (nat (sectorsForTrack physicalTrack))) bytes
          in appendRepeated bytes 0xff 128)"

definition mfm_sector :: "'h floppy \<Rightarrow> int \<Rightarrow> int \<Rightarrow> int \<Rightarrow> (u8 \<times> bool) list \<Rightarrow> (u8 \<times> bool) list" where
  "mfm_sector s physicalTrack side sector track =
    (let track = appendMfmRepeated track 0x00 12;
         address = [word_of_int physicalTrack, word_of_int side, word_of_int (sector + 1), 2];
         track = appendMfmField track 0xfe address 0xa1;
         track = appendMfmRepeated track 0x4e 22;
         track = appendMfmRepeated track 0x00 12;
         block = (physicalTrack * 2 + side) * 18 + sector;
         track = appendMfmField track 0xfb
                   (mid (fd_data s) (nat (block * int bytesPerSector)) bytesPerSector) 0xa1
     in appendMfmRepeated track 0x4e 101)"

definition buildMfmTrack :: "'h floppy \<Rightarrow> int \<Rightarrow> int \<Rightarrow> (u8 \<times> bool) list" where
  "buildMfmTrack s physicalTrack side =
    (let track = appendMfmRepeated [] 0x4e 80;
         track = appendMfmRepeated track 0x00 12;
         track = appendMfmField track 0xfc [] 0xc2;
         track = appendMfmRepeated track 0x4e 50;
         track = fold (mfm_sector s physicalTrack side) [0 .. 17] track
     in appendMfmRepeated track 0x4e (12500 - length track))"

definition rebuildTrackCache :: "'h floppy \<Rightarrow> 'h floppy" where
  "rebuildTrackCache s =
    (let t = fd_currentTrack s; d = fd_currentSide s
     in s\<lparr>fd_trackCache :=
       (if fd_highDensity s
        then let track = buildMfmTrack s t d
             in \<lparr>cache_track = t, cache_side = d, cache_bytes = map fst track, cache_marks = map snd track,
                 cache_cursor = 0\<rparr>
        else \<lparr>cache_track = t, cache_side = d, cache_bytes = buildTrackBytes s t d, cache_marks = [],
              cache_cursor = 0\<rparr>)\<rparr>)"

definition trackBytesForDebug :: "'h floppy \<Rightarrow> int \<Rightarrow> int \<Rightarrow> u8 list" where
  "trackBytesForDebug s track side =
    (let clampedTrack = max 0 (min track (tracksPerSide - 1));
         clampedSide = (if fd_doubleSided s then max 0 (min side 1) else 0)
     in if \<not> fd_highDensity s then buildTrackBytes s clampedTrack clampedSide
        else map fst (buildMfmTrack s clampedTrack clampedSide))"

subsection \<open>Reading and writing under the head\<close>

definition stale_cache :: "'h floppy \<Rightarrow> bool" where
  "stale_cache s \<longleftrightarrow> cache_bytes (fd_trackCache s) = [] \<or>
     cache_track (fd_trackCache s) \<noteq> fd_currentTrack s \<or> cache_side (fd_trackCache s) \<noteq> fd_currentSide s"

text \<open>A byte of the disk and whether it is a mark.\<close>

definition peekDiskByte :: "'h floppy \<Rightarrow> (u8 \<times> bool) \<times> 'h floppy" where
  "peekDiskByte s =
    (if \<not> inserted s \<or> \<not> fd_motorOn s then ((0, False), s)
     else let s = (if stale_cache s then rebuildTrackCache s else s);
              c = fd_trackCache s
          in if cache_bytes c = [] then ((0, False), s)
             else ((cache_bytes c ! cache_cursor c,
                    cache_cursor c < length (cache_marks c) \<and> cache_marks c ! cache_cursor c), s))"

definition advance_cursor :: "'h floppy \<Rightarrow> 'h floppy" where
  "advance_cursor s =
    (let c = fd_trackCache s
     in s\<lparr>fd_trackCache := c\<lparr>cache_cursor := (cache_cursor c + 1) mod length (cache_bytes c)\<rparr>\<rparr>)"

definition nextDiskByte :: "'h floppy \<Rightarrow> (u8 \<times> bool) \<times> 'h floppy" where
  "nextDiskByte s =
    (let (diskByte, s) = peekDiskByte s
     in if \<not> inserted s \<or> \<not> fd_motorOn s \<or> cache_bytes (fd_trackCache s) = [] then (diskByte, s)
        else (diskByte, advance_cursor s))"

definition nextNibble :: "'h floppy \<Rightarrow> u8 \<times> 'h floppy" where
  "nextNibble s = (let (diskByte, s) = nextDiskByte s in (fst diskByte, s))"

definition inferMfmSectorAtCursor :: "'h floppy \<Rightarrow> int" where
  "inferMfmSectorAtCursor s =
    (let c = fd_trackCache s; bytes = cache_bytes c; limit = min (cache_cursor c) (length bytes)
     in if bytes = [] then -1
        else fold (\<lambda>offset sector.
               if mid bytes offset 4 = [0xa1, 0xa1, 0xa1, 0xfe] then uint (bytes ! (offset + 6)) - 1 else sector)
             [0 ..< limit - 7] (-1))"

definition maximumWriteWindow :: nat where "maximumWriteWindow = 16384"

definition writeDiskByte :: "'h host_files \<Rightarrow> u8 \<Rightarrow> bool \<Rightarrow> 'h floppy \<Rightarrow> bool \<times> 'h floppy" where
  "writeDiskByte h v mark s =
    (if \<not> fd_writable s \<or> \<not> inserted s \<or> \<not> fd_motorOn s then (False, s\<lparr>fd_writeFailed := True\<rparr>)
     else
       let s = (if stale_cache s then rebuildTrackCache s else s);
           s = (if fd_highDensity s \<and> fd_writeBytes s = [] \<and> fd_writeMfmSector s < 0
                then s\<lparr>fd_writeMfmSector := inferMfmSectorAtCursor s\<rparr> else s);
           s = s\<lparr>fd_writeBytes := fd_writeBytes s @ [v], fd_writeMarks := fd_writeMarks s @ [mark]\<rparr>;
           s = (if cache_bytes (fd_trackCache s) \<noteq> [] then advance_cursor s else s);
           (committed, s) = (if fd_highDensity s then processMfmWrites h False s
                             else processGcrWrites h False s);
           s = (if maximumWriteWindow < length (fd_writeBytes s)
                then remove_front (length (fd_writeBytes s) - maximumWriteWindow) s else s)
       in (committed \<or> \<not> fd_writeFailed s, s))"

subsection \<open>Moving the head and changing the disk\<close>

definition setCurrentTrack :: "'h host_files \<Rightarrow> int \<Rightarrow> 'h floppy \<Rightarrow> 'h floppy" where
  "setCurrentTrack h track s =
    (let clamped = max 0 (min track (tracksPerSide - 1))
     in if fd_currentTrack s \<noteq> clamped
        then invalidateTrackCache ((snd (flushWrites h s))\<lparr>fd_currentTrack := clamped\<rparr>)
        else s)"

definition floppy_step :: "'h host_files \<Rightarrow> bool \<Rightarrow> 'h floppy \<Rightarrow> 'h floppy" where
  "floppy_step h towardTrackZero s =
     setCurrentTrack h (fd_currentTrack s + (if towardTrackZero then -1 else 1)) s"

definition setCurrentSide :: "'h host_files \<Rightarrow> int \<Rightarrow> 'h floppy \<Rightarrow> 'h floppy" where
  "setCurrentSide h side s =
    (let clamped = (if fd_doubleSided s then max 0 (min side 1) else 0)
     in if fd_currentSide s \<noteq> clamped
        then invalidateTrackCache ((snd (flushWrites h s))\<lparr>fd_currentSide := clamped\<rparr>)
        else s)"

definition setMotorOn :: "'h host_files \<Rightarrow> bool \<Rightarrow> 'h floppy \<Rightarrow> 'h floppy" where
  "setMotorOn h on s =
    (let s = (if fd_motorOn s \<and> \<not> on then snd (flushWrites h s) else s) in s\<lparr>fd_motorOn := on\<rparr>)"

definition clearMediaChanged :: "'h floppy \<Rightarrow> 'h floppy" where
  "clearMediaChanged s = s\<lparr>fd_mediaChanged := False\<rparr>"

definition eject :: "'h host_files \<Rightarrow> 'h floppy \<Rightarrow> 'h floppy" where
  "eject h s =
    (let s = snd (flushWrites h s);
         s = s\<lparr>fd_mediaChanged := fd_kind s \<noteq> Empty \<or> fd_mediaChanged s\<rparr>;
         s = s\<lparr>fd_path := [], fd_kind := Empty, fd_data := [], fd_tags := [], fd_diskCopyHeader := [],
               fd_writable := False, fd_doubleSided := False, fd_highDensity := False, fd_motorOn := False,
               fd_currentTrack := 0, fd_currentSide := 0\<rparr>
     in (invalidateTrackCache s)\<lparr>fd_writeBytes := [], fd_writeMarks := [], fd_writeMfmSector := -1,
          fd_writeFailed := False\<rparr>)"

text \<open>The end of both loaders: the head at track 0, no cached or pending bytes.\<close>

definition loaded :: "string \<Rightarrow> 'h floppy \<Rightarrow> 'h floppy \<Rightarrow> 'h floppy" where
  "loaded path previous s =
    (let s = s\<lparr>fd_currentTrack := 0, fd_currentSide := 0,
               fd_mediaChanged := fd_kind previous \<noteq> Empty \<or> fd_path previous \<noteq> path \<or> fd_mediaChanged s\<rparr>
     in (invalidateTrackCache s)\<lparr>fd_writeBytes := [], fd_writeMarks := [], fd_writeMfmSector := -1,
          fd_writeFailed := False\<rparr>)"

definition loadRaw :: "'h host_files \<Rightarrow> string \<Rightarrow> u8 list \<Rightarrow> disk_kind \<Rightarrow> 'h floppy \<Rightarrow> bool \<times> 'h floppy" where
  "loadRaw h path bytes kind s =
    (True, loaded path s
      (s\<lparr>fd_path := path, fd_kind := kind, fd_data := bytes, fd_tags := [], fd_diskCopyHeader := [],
         fd_writable := \<not> fd_forceReadOnly s \<and> is_writable h path (fd_host s),
         fd_doubleSided := kind \<noteq> Raw400K, fd_highDensity := kind = Raw1440K\<rparr>))"

definition loadDiskCopy42 :: "'h host_files \<Rightarrow> string \<Rightarrow> u8 list \<Rightarrow> 'h floppy \<Rightarrow> bool \<times> 'h floppy" where
  "loadDiskCopy42 h path bytes s =
    (let dataSize = readBe32 bytes 64; tagSize = readBe32 bytes 68
     in if dataSize \<noteq> of_nat raw400KBytes \<and> dataSize \<noteq> of_nat raw800KBytes \<and> dataSize \<noteq> of_nat raw1440KBytes \<or>
           length bytes < unat (84 + dataSize + tagSize)
        then (False, s)
        else if tagSize \<noteq> 0 \<and> tagSize \<noteq> dataSize div of_nat bytesPerSector * of_nat tagBytesPerSector
        then (False, s)
        else
          let tagBytes = mid bytes (84 + unat dataSize) (unat tagSize);
              blocks = unat tagSize div tagBytesPerSector;
              tags = (if tagSize \<noteq> 0
                      then map (\<lambda>block. mid tagBytes (block * tagBytesPerSector) tagBytesPerSector) [0..<blocks]
                      else [])
          in (True, loaded path s
               (s\<lparr>fd_path := path, fd_kind := DiskCopy42, fd_diskCopyHeader := take 84 bytes,
                  fd_data := mid bytes 84 (unat dataSize), fd_tags := tags,
                  fd_writable := \<not> fd_forceReadOnly s \<and> is_writable h path (fd_host s),
                  fd_doubleSided := dataSize \<noteq> of_nat raw400KBytes,
                  fd_highDensity := dataSize = of_nat raw1440KBytes\<rparr>)))"

definition resize :: "u8 list \<Rightarrow> nat \<Rightarrow> u8 list" where
  "resize bytes n = take n bytes @ replicate (n - length bytes) 0"

definition floppy_load :: "'h host_files \<Rightarrow> string \<Rightarrow> bool \<Rightarrow> 'h floppy \<Rightarrow> bool \<times> 'h floppy" where
  "floppy_load h path readOnly s =
    (let s = s\<lparr>fd_forceReadOnly := readOnly\<rparr>
     in case read_file h path (fd_host s) of
       None \<Rightarrow> (False, s)
     | Some bytes \<Rightarrow>
         if length bytes = raw400KBytes then loadRaw h path bytes Raw400K s
         else if length bytes = raw800KBytes then loadRaw h path bytes Raw800K s
         else if length bytes = raw1440KBytes then loadRaw h path bytes Raw1440K s
         else
           let truncatedKind = truncatedRawHfsKind bytes
           in if truncatedKind = Raw800K \<or> truncatedKind = Raw1440K
              then loadRaw h path
                     (resize bytes (if truncatedKind = Raw800K then raw800KBytes else raw1440KBytes))
                     truncatedKind s
              else if 84 \<le> length bytes then loadDiskCopy42 h path bytes s
              else (False, s))"

end
