(* ===== verification/IwmController.thy ===== *)
theory IwmController
  imports FloppyDiskImage
begin

section \<open>The floppy controller\<close>

text \<open>
  \<open>IwmController.cpp\<close>: eight lines switched by the address of an access, two drives, and the SWIM
  mode entered by four writes of the mode register.  Both drives see the same files, so the host is a
  field of the controller and travels with each operation on a drive.  The callback for an ejected
  disk belongs to the machine: the model records its calls.  Tracing is left out.
\<close>

unbundle bit_operations_syntax

definition Ca0 :: nat where "Ca0 = 0"
definition Ca1 :: nat where "Ca1 = 1"
definition Ca2 :: nat where "Ca2 = 2"
definition Lstrb :: nat where "Lstrb = 3"
definition Motor :: nat where "Motor = 4"
definition SelectDrive :: nat where "SelectDrive = 5"
definition Q6 :: nat where "Q6 = 6"
definition Q7 :: nat where "Q7 = 7"

lemmas iwm_lines [simp] = Ca0_def Ca1_def Ca2_def Lstrb_def Motor_def SelectDrive_def Q6_def Q7_def

record 'h iwm =
  iwm_lines :: "nat \<Rightarrow> bool"
  iwm_internalDrive :: "'h floppy"
  iwm_externalDrive :: "'h floppy"
  iwm_mode :: u8
  iwm_status :: u8
  iwm_selectedDriveRegister :: u8
  iwm_stepTowardTrackZero :: bool
  iwm_sideSelect :: bool
  iwm_tach :: bool
  iwm_dataReads :: u64
  iwm_statusReads :: u64
  iwm_handshakeReads :: u64
  iwm_dataWrites :: u64
  swim_mode :: bool
  swim_transition :: u8
  swim_modeRegister :: u8
  swim_setup :: u8
  swim_phases :: u8
  swim_parameters :: "u8 \<Rightarrow> u8"
  swim_parameterIndex :: u8
  swim_error :: u8
  swim_phaseStrobe :: bool
  iwm_mediaEjected :: "int list"
  iwm_host :: 'h

subsection \<open>Drives\<close>

definition selectedDrive :: "'h iwm \<Rightarrow> 'h floppy" where
  "selectedDrive s = (if iwm_lines s SelectDrive then iwm_externalDrive s else iwm_internalDrive s)"

definition selectedDriveIndex :: "'h iwm \<Rightarrow> int" where
  "selectedDriveIndex s = (if iwm_lines s SelectDrive then 1 else 0)"

text \<open>An operation on one of the drives, with the host of the controller.\<close>

definition on_internal :: "('h floppy \<Rightarrow> 'r \<times> 'h floppy) \<Rightarrow> 'h iwm \<Rightarrow> 'r \<times> 'h iwm" where
  "on_internal f s =
    (let (r, d) = f ((iwm_internalDrive s)\<lparr>fd_host := iwm_host s\<rparr>)
     in (r, s\<lparr>iwm_internalDrive := d, iwm_host := fd_host d\<rparr>))"

definition on_external :: "('h floppy \<Rightarrow> 'r \<times> 'h floppy) \<Rightarrow> 'h iwm \<Rightarrow> 'r \<times> 'h iwm" where
  "on_external f s =
    (let (r, d) = f ((iwm_externalDrive s)\<lparr>fd_host := iwm_host s\<rparr>)
     in (r, s\<lparr>iwm_externalDrive := d, iwm_host := fd_host d\<rparr>))"

definition on_selected :: "('h floppy \<Rightarrow> 'r \<times> 'h floppy) \<Rightarrow> 'h iwm \<Rightarrow> 'r \<times> 'h iwm" where
  "on_selected f s = (if iwm_lines s SelectDrive then on_external f s else on_internal f s)"

text \<open>The same for an operation without a result.\<close>

definition unit_op :: "('h floppy \<Rightarrow> 'h floppy) \<Rightarrow> 'h floppy \<Rightarrow> unit \<times> 'h floppy" where
  "unit_op f d = ((), f d)"

definition do_selected :: "('h floppy \<Rightarrow> 'h floppy) \<Rightarrow> 'h iwm \<Rightarrow> 'h iwm" where
  "do_selected f s = snd (on_selected (unit_op f) s)"

definition flush_drive :: "'h host_files \<Rightarrow> 'h floppy \<Rightarrow> 'h floppy" where
  "flush_drive h d = snd (flushWrites h d)"

subsection \<open>The IWM\<close>

definition q6 :: "'h iwm \<Rightarrow> bool" where "q6 s = iwm_lines s Q6"
definition q7 :: "'h iwm \<Rightarrow> bool" where "q7 s = iwm_lines s Q7"

definition iwm_reset :: "'h host_files \<Rightarrow> 'h iwm \<Rightarrow> 'h iwm" where
  "iwm_reset h s =
    (let s = s\<lparr>iwm_lines := (\<lambda>_. False), iwm_mode := 0, iwm_status := 0, iwm_selectedDriveRegister := 0,
           iwm_stepTowardTrackZero := False, iwm_sideSelect := False, iwm_tach := False, iwm_dataReads := 0,
           iwm_statusReads := 0, iwm_handshakeReads := 0, iwm_dataWrites := 0, swim_mode := False,
           swim_transition := 0, swim_modeRegister := 0, swim_setup := 0, swim_phases := 0,
           swim_parameters := (\<lambda>_. 0), swim_parameterIndex := 0, swim_error := 0, swim_phaseStrobe := False\<rparr>;
         s = snd (on_internal (unit_op (setMotorOn h False)) s)
     in snd (on_external (unit_op (setMotorOn h False)) s))"

definition selectedDriveRegister :: "'h iwm \<Rightarrow> u8" where
  "selectedDriveRegister s =
    (if iwm_lines s Ca0 then 0x04 else 0) OR (if iwm_lines s Ca1 then 0x08 else 0) OR
    (if iwm_lines s Ca2 then 0x01 else 0) OR (if iwm_sideSelect s then 0x02 else 0)"

definition updateSelectedDriveRegister :: "'h host_files \<Rightarrow> 'h iwm \<Rightarrow> 'h iwm" where
  "updateSelectedDriveRegister h s =
    (let s = s\<lparr>iwm_selectedDriveRegister := selectedDriveRegister s\<rparr>
     in do_selected (setCurrentSide h (if iwm_sideSelect s then 1 else 0)) s)"

definition setSideSelect :: "'h host_files \<Rightarrow> bool \<Rightarrow> 'h iwm \<Rightarrow> 'h iwm" where
  "setSideSelect h sideSelect s =
    (if iwm_sideSelect s = sideSelect then s
     else updateSelectedDriveRegister h (s\<lparr>iwm_sideSelect := sideSelect\<rparr>))"

definition ejectSelectedDrive :: "'h host_files \<Rightarrow> 'h iwm \<Rightarrow> 'h iwm" where
  "ejectSelectedDrive h s =
    (let drive = selectedDriveIndex s;
         s = do_selected (flush_drive h) s;
         s = do_selected (eject h) s
     in s\<lparr>iwm_mediaEjected := iwm_mediaEjected s @ [drive]\<rparr>)"

definition applyDriveStrobe :: "'h host_files \<Rightarrow> 'h iwm \<Rightarrow> 'h iwm" where
  "applyDriveStrobe h s =
    (let r = iwm_selectedDriveRegister s
     in if r = 0x00 then s\<lparr>iwm_stepTowardTrackZero := False\<rparr>
        else if r = 0x01 then s\<lparr>iwm_stepTowardTrackZero := True\<rparr>
        else if r = 0x04 then
          (let s = do_selected (flush_drive h) s in do_selected (floppy_step h (iwm_stepTowardTrackZero s)) s)
        else if r = 0x08 then do_selected (setMotorOn h True) s
        else if r = 0x09 then (let s = do_selected (flush_drive h) s in do_selected (setMotorOn h False) s)
        else if r = 0x0d then ejectSelectedDrive h s
        else s)"

definition setLine :: "'h host_files \<Rightarrow> nat \<Rightarrow> bool \<Rightarrow> 'h iwm \<Rightarrow> 'h iwm" where
  "setLine h line on s =
    (let wasOn = iwm_lines s line;
         s = (if line = Q7 \<and> wasOn \<and> \<not> on then do_selected (flush_drive h) s else s);
         s = s\<lparr>iwm_lines := (iwm_lines s)(line := on)\<rparr>
     in if line = Motor
        then s\<lparr>iwm_status := if on then iwm_status s OR 0x20 else iwm_status s AND NOT 0x20\<rparr>
        else if line = Ca0 \<or> line = Ca1 \<or> line = Ca2 \<or> line = SelectDrive
        then updateSelectedDriveRegister h s
        else if line = Lstrb \<and> wasOn \<and> \<not> on then applyDriveStrobe h s
        else s)"

text \<open>The sense line of the selected drive; reading the tachometer turns it.\<close>

definition swim_sense :: "'h iwm \<Rightarrow> bool \<times> 'h iwm" where
  "swim_sense s =
    (let drive = selectedDrive s; r = iwm_selectedDriveRegister s AND 0x0f
     in if r = 0x0b then (\<not> iwm_tach s, s\<lparr>iwm_tach := \<not> iwm_tach s\<rparr>)
        else (if r = 0x00 then iwm_stepTowardTrackZero s
              else if r = 0x01 then True
              else if r = 0x02 then \<not> fd_motorOn drive
              else if r = 0x03 then \<not> inserted drive
              else if r = 0x04 then True
              else if r = 0x05 then True
              else if r = 0x06 then fd_doubleSided drive
              else if r = 0x07 then False
              else if r = 0x08 then \<not> inserted drive
              else if r = 0x09 then fd_writable drive
              else if r = 0x0a then \<not> trackZero drive
              else if r = 0x0c then fd_mediaChanged drive
              else if r = 0x0d then fd_highDensity drive
              else if r = 0x0e then \<not> inserted drive \<or> \<not> fd_motorOn drive
              else \<not> fd_highDensity drive, s))"

definition iwm_sense :: "'h iwm \<Rightarrow> bool \<times> 'h iwm" where
  "iwm_sense s =
    (let drive = selectedDrive s; r = iwm_selectedDriveRegister s AND 0x0f
     in if r = 0x0e then (\<not> iwm_tach s, s\<lparr>iwm_tach := \<not> iwm_tach s\<rparr>)
        else (if r = 0x02 then \<not> inserted drive
              else if r = 0x04 then True
              else if r = 0x06 then fd_writable drive
              else if r = 0x08 then \<not> fd_motorOn drive
              else if r = 0x09 then fd_doubleSided drive
              else if r = 0x0a then \<not> trackZero drive
              else if r = 0x0b then False
              else if r = 0x0c then \<not> fd_doubleSided drive
              else if r = 0x0d then iwm_lines s SelectDrive
              else if r = 0x0f then \<not> fd_highDensity drive
              else True, s))"

definition driveSenseHigh :: "'h iwm \<Rightarrow> bool \<times> 'h iwm" where
  "driveSenseHigh s = (if swim_mode s then swim_sense s else iwm_sense s)"

definition iwm_readRegister :: "'h iwm \<Rightarrow> u8 \<times> 'h iwm" where
  "iwm_readRegister s =
    (if \<not> q6 s \<and> \<not> q7 s then on_selected nextNibble (s\<lparr>iwm_dataReads := iwm_dataReads s + 1\<rparr>)
     else if q6 s \<and> \<not> q7 s then
       (let s = s\<lparr>iwm_statusReads := iwm_statusReads s + 1\<rparr>;
            modeBits = iwm_mode s AND 0x1f OR iwm_status s AND 0x20;
            (high, s) = driveSenseHigh s;
            s = s\<lparr>iwm_status := (if high then 0x80 else 0) OR modeBits\<rparr>
        in (iwm_status s, s))
     else if \<not> q6 s \<and> q7 s then (0xc0, s\<lparr>iwm_handshakeReads := iwm_handshakeReads s + 1\<rparr>)
     else (iwm_mode s, s))"

definition iwm_writeRegister :: "'h host_files \<Rightarrow> u8 \<Rightarrow> 'h iwm \<Rightarrow> 'h iwm" where
  "iwm_writeRegister h v s =
    (if \<not> iwm_lines s Motor
     then let s = s\<lparr>iwm_mode := v\<rparr> in s\<lparr>iwm_status := iwm_status s AND 0xc0 OR iwm_mode s AND 0x3f\<rparr>
     else let s = s\<lparr>iwm_dataWrites := iwm_dataWrites s + 1\<rparr> in snd (on_selected (writeDiskByte h v False) s))"

subsection \<open>The SWIM\<close>

definition applySwimPhases :: "'h host_files \<Rightarrow> u8 \<Rightarrow> 'h iwm \<Rightarrow> 'h iwm" where
  "applySwimPhases h phases s =
    (let strobe = (phases AND 0x08 \<noteq> 0);
         s = s\<lparr>iwm_selectedDriveRegister := phases AND 0x07 OR (if iwm_sideSelect s then 0x08 else 0)\<rparr>;
         s = do_selected (setCurrentSide h (if iwm_sideSelect s then 1 else 0)) s;
         r = iwm_selectedDriveRegister s;
         s = (if strobe \<and> \<not> swim_phaseStrobe s
              then if r = 0x00 then s\<lparr>iwm_stepTowardTrackZero := False\<rparr>
                   else if r = 0x01 then
                     (let s = do_selected (flush_drive h) s
                      in do_selected (floppy_step h (iwm_stepTowardTrackZero s)) s)
                   else if r = 0x02 then do_selected (setMotorOn h True) s
                   else if r = 0x04 then s\<lparr>iwm_stepTowardTrackZero := True\<rparr>
                   else if r = 0x06 then
                     (let s = do_selected (flush_drive h) s in do_selected (setMotorOn h False) s)
                   else if r = 0x07 then ejectSelectedDrive h s
                   else if r = 0x09 then s\<lparr>swim_setup := swim_setup s AND NOT 0x04\<rparr>
                   else if r = 0x0c then do_selected clearMediaChanged s
                   else if r = 0x0d then s\<lparr>swim_setup := swim_setup s OR 0x04\<rparr>
                   else s
              else s)
     in s\<lparr>swim_phaseStrobe := strobe\<rparr>)"

text \<open>On a read action the head runs to the next mark, at most once around the track.\<close>

primrec scan_mark :: "nat \<Rightarrow> 'h floppy \<Rightarrow> 'h floppy" where
  "scan_mark 0 d = d"
| "scan_mark (Suc n) d =
    (let (diskByte, d) = peekDiskByte d in if snd diskByte then d else scan_mark n (snd (nextDiskByte d)))"

definition read_action :: "'h floppy \<Rightarrow> 'h floppy" where
  "read_action d =
    scan_mark (max (length (trackBytesForDebug d (fd_currentTrack d) (fd_currentSide d))) 1) d"

definition swim_write :: "'h host_files \<Rightarrow> u8 \<Rightarrow> u8 \<Rightarrow> 'h iwm \<Rightarrow> 'h iwm" where
  "swim_write h reg v s =
    (if reg = 0 \<or> reg = 1 then
       let s = s\<lparr>iwm_dataWrites := iwm_dataWrites s + 1\<rparr>
       in if swim_modeRegister s AND 0x18 = 0x10
          then let (ok, s) = on_selected (writeDiskByte h v (reg = 1)) s
               in if \<not> ok then s\<lparr>swim_error := swim_error s OR 0x04\<rparr> else s
          else s
     else if reg = 3 then
       s\<lparr>swim_parameters := (swim_parameters s)(swim_parameterIndex s := v),
         swim_parameterIndex := (swim_parameterIndex s + 1) AND 15\<rparr>
     else if reg = 4 then applySwimPhases h v (s\<lparr>swim_phases := v\<rparr>)
     else if reg = 5 then s\<lparr>swim_setup := v\<rparr>
     else if reg = 6 then
       let s = s\<lparr>swim_modeRegister := swim_modeRegister s AND NOT v, swim_parameterIndex := 0\<rparr>
       in if swim_modeRegister s AND 0x40 = 0 then s\<lparr>swim_mode := False\<rparr> else s
     else if reg = 7 then s\<lparr>swim_modeRegister := swim_modeRegister s OR v\<rparr>
     else s)"

definition after_swim_write :: "'h host_files \<Rightarrow> u8 \<Rightarrow> 'h iwm \<Rightarrow> 'h iwm" where
  "after_swim_write h previousMode s =
    (let s = (if swim_modeRegister s AND 0x01 \<noteq> 0 then s\<lparr>swim_error := 0\<rparr> else s);
         s = (if previousMode AND 0x18 = 0x10 \<and> swim_modeRegister s AND 0x18 \<noteq> 0x10
              then let (ok, s) = on_selected (flushWrites h) s
                   in if \<not> ok then s\<lparr>swim_error := swim_error s OR 0x04\<rparr> else s
              else s);
         s = snd (on_internal (unit_op (setMotorOn h (swim_modeRegister s AND 0x82 = 0x82))) s);
         s = snd (on_external (unit_op (setMotorOn h (swim_modeRegister s AND 0x84 = 0x84))) s)
     in if previousMode AND 0x08 = 0 \<and> swim_modeRegister s AND 0x18 = 0x08 then do_selected read_action s
        else s)"

definition swim_read :: "u8 \<Rightarrow> 'h iwm \<Rightarrow> u8 \<times> 'h iwm" where
  "swim_read reg s =
    (if reg = 0 \<or> reg = 1 then
       let s = s\<lparr>iwm_dataReads := iwm_dataReads s + 1\<rparr>;
           ((v, mark), s) = on_selected nextDiskByte s
       in (v, if reg = 0 \<and> mark then s\<lparr>swim_error := swim_error s OR 0x02\<rparr> else s)
     else if reg = 2 then (swim_error s, s\<lparr>swim_error := 0\<rparr>)
     else if reg = 3 then
       (swim_parameters s (swim_parameterIndex s), s\<lparr>swim_parameterIndex := (swim_parameterIndex s + 1) AND 15\<rparr>)
     else if reg = 4 then (swim_phases s, s)
     else if reg = 5 then (swim_setup s, s)
     else if reg = 6 then (swim_modeRegister s, s)
     else
       let s = s\<lparr>iwm_handshakeReads := iwm_handshakeReads s + 1\<rparr>;
           (data, s) =
             (if swim_modeRegister s AND 0x08 \<noteq> 0 \<and> inserted (selectedDrive s) \<and> fd_motorOn (selectedDrive s)
              then let ((v, mark), s) = on_selected peekDiskByte s in (0xc0 OR (if mark then 0x01 else 0), s)
              else (0, s));
           (high, s) = driveSenseHigh s
       in (data OR (if high then 0x0c else 0) OR (if fd_motorOn (selectedDrive s) then 0x10 else 0) OR
           (if swim_error s \<noteq> 0 then 0x20 else 0), s))"

definition swimAccess :: "'h host_files \<Rightarrow> u8 \<Rightarrow> u8 \<Rightarrow> bool \<Rightarrow> 'h iwm \<Rightarrow> u8 \<times> 'h iwm" where
  "swimAccess h registerIndex v write s =
    (let reg = registerIndex AND 7
     in if write then (0xff, after_swim_write h (swim_modeRegister s) (swim_write h reg v s))
        else swim_read reg s)"

subsection \<open>An access\<close>

definition swim_unlock :: "u8 \<Rightarrow> u8 \<Rightarrow> bool \<Rightarrow> 'h iwm \<Rightarrow> 'h iwm" where
  "swim_unlock registerIndex v write s =
    (if write \<and> registerIndex = 0x0f \<and> \<not> iwm_lines s Motor
     then if (if swim_transition s = 1 then v AND 0x40 = 0 else v AND 0x40 \<noteq> 0)
          then let s = s\<lparr>swim_transition := swim_transition s + 1\<rparr>
               in if swim_transition s = 4
                  then s\<lparr>swim_mode := True, swim_modeRegister := 0x40, swim_transition := 0\<rparr> else s
          else s\<lparr>swim_transition := 0\<rparr>
     else if swim_transition s \<noteq> 0 then s\<lparr>swim_transition := 0\<rparr>
     else s)"

definition iwm_access :: "'h host_files \<Rightarrow> u8 \<Rightarrow> u8 \<Rightarrow> bool \<Rightarrow> 'h iwm \<Rightarrow> u8 \<times> 'h iwm" where
  "iwm_access h registerIndex v write s =
    (let registerIndex = registerIndex AND 0x0f
     in if swim_mode s then swimAccess h registerIndex v write s
        else
          let s = swim_unlock registerIndex v write s
          in if swim_mode s then (0xff, s)
             else
               let s = setLine h (unat (drop_bit 1 registerIndex)) (registerIndex AND 1 \<noteq> 0) s;
                   s = (if write \<and> q6 s \<and> q7 s then iwm_writeRegister h v s else s)
               in iwm_readRegister s)"

subsection \<open>The host side\<close>

definition loadFloppyImage :: "'h host_files \<Rightarrow> int \<Rightarrow> string \<Rightarrow> bool \<Rightarrow> 'h iwm \<Rightarrow> bool \<times> 'h iwm" where
  "loadFloppyImage h drive path readOnly s =
    (let load = (\<lambda>d. floppy_load h path readOnly (flush_drive h d))
     in if drive = 0 then on_internal load s else if drive = 1 then on_external load s else (False, s))"

definition ejectFloppyImage :: "'h host_files \<Rightarrow> int \<Rightarrow> 'h iwm \<Rightarrow> 'h iwm" where
  "ejectFloppyImage h drive s =
    (if drive = 0 then snd (on_internal (unit_op (eject h)) s)
     else if drive = 1 then snd (on_external (unit_op (eject h)) s) else s)"

definition activityCounter :: "'h iwm \<Rightarrow> u64" where
  "activityCounter s = iwm_dataReads s + iwm_dataWrites s"

definition lineMask :: "'h iwm \<Rightarrow> u8" where
  "lineMask s = fold (\<lambda>i m. if iwm_lines s i then m OR push_bit i 1 else m) [0..<8] 0"

end
