(* ===== verification/ScsiBlockDevice.thy ===== *)
theory ScsiBlockDevice
  imports HostFiles
begin

section \<open>The hard disk\<close>

text \<open>
  \<open>ScsiBlockDevice.cpp\<close>: a disk image in blocks of 512 bytes behind the commands of a direct access
  device.  Block numbers and lengths are 32-bit words and their products wrap, as in the source.
\<close>

unbundle bit_operations_syntax

definition blockSize :: u32 where "blockSize = 512"
definition statusGood :: u8 where "statusGood = 0"
definition statusCheckCondition :: u8 where "statusCheckCondition = 2"
definition messageCommandComplete :: u8 where "messageCommandComplete = 0"
definition senseNoSense :: u8 where "senseNoSense = 0"
definition senseNotReady :: u8 where "senseNotReady = 2"
definition senseIllegalRequest :: u8 where "senseIllegalRequest = 5"

lemmas scsi_constants [simp] = blockSize_def statusGood_def statusCheckCondition_def
  messageCommandComplete_def senseNoSense_def senseNotReady_def senseIllegalRequest_def

subsection \<open>Bytes\<close>

definition ascii :: "string \<Rightarrow> u8 list" where
  "ascii text = map of_char text"

definition padded :: "string \<Rightarrow> nat \<Rightarrow> u8 list" where
  "padded text width = (let bytes = take width (ascii text) in bytes @ replicate (width - length bytes) 0x20)"

definition appendBe32 :: "u8 list \<Rightarrow> u32 \<Rightarrow> u8 list" where
  "appendBe32 bytes v =
     bytes @ [ucast (drop_bit 24 v), ucast (drop_bit 16 v), ucast (drop_bit 8 v), ucast v]"

definition scsi_readBe32 :: "u8 list \<Rightarrow> nat \<Rightarrow> u32" where
  "scsi_readBe32 bytes offset =
     push_bit 24 (ucast (bytes ! offset)) OR push_bit 16 (ucast (bytes ! (offset + 1))) OR
     push_bit 8 (ucast (bytes ! (offset + 2))) OR ucast (bytes ! (offset + 3))"

definition be16_of :: "u8 list \<Rightarrow> nat \<Rightarrow> u32" where
  "be16_of bytes offset = push_bit 8 (ucast (bytes ! offset)) OR ucast (bytes ! (offset + 1))"

definition clipped :: "u8 list \<Rightarrow> u8 \<Rightarrow> u8 list" where
  "clipped bytes allocationLength = take (unat allocationLength) bytes"

text \<open>Vendor, product and revision of a disk of the given size.\<close>

definition identityForSize :: "nat \<Rightarrow> u8 list \<times> u8 list \<times> u8 list" where
  "identityForSize sizeBytes =
    (let identity = (\<lambda>vendor product. (padded vendor 8, padded product 16, padded ''1.0'' 4));
         MiB = 1024 * 1024
     in if sizeBytes = 20 * MiB then identity ''CONNER'' ''CP2025-20mb''
        else if sizeBytes = 40 * MiB then identity ''QUANTUM'' ''GO40S''
        else if sizeBytes = 80 * MiB then identity ''QUANTUM'' ''GO80S1''
        else if sizeBytes = 160 * MiB then identity ''QUANTUM'' ''GO160S''
        else if sizeBytes = 230 * MiB then identity ''QUANTUM'' ''LP240S''
        else if sizeBytes = 500 * MiB then identity ''QUANTUM'' ''LPS540S''
        else if sizeBytes = 1024 * MiB then identity ''IBM'' ''DPES-31080''
        else identity ''QUANTUM'' ''FIREBALL1'')"

subsection \<open>State\<close>

record 'h block_device =
  hd_image :: "u8 list"
  hd_imagePath :: string
  hd_readOnly :: bool
  hd_senseKey :: u8
  hd_activityCounter :: u64
  hd_host :: 'h

definition hd_loadImage :: "'h host_files \<Rightarrow> string \<Rightarrow> bool \<Rightarrow> 'h block_device \<Rightarrow> bool \<times> 'h block_device" where
  "hd_loadImage h path readOnly s =
    (case read_file h path (hd_host s) of
       None \<Rightarrow> (False, s)
     | Some bytes \<Rightarrow>
         let s = s\<lparr>hd_image := bytes\<rparr>
         in if bytes = [] then (False, s\<lparr>hd_imagePath := []\<rparr>)
            else (True, s\<lparr>hd_imagePath := path, hd_readOnly := readOnly, hd_senseKey := senseNoSense,
                         hd_activityCounter := 0\<rparr>))"

definition hd_eject :: "'h block_device \<Rightarrow> 'h block_device" where
  "hd_eject s = s\<lparr>hd_image := [], hd_imagePath := [], hd_senseKey := senseNotReady, hd_activityCounter := 0\<rparr>"

definition hd_ready :: "'h block_device \<Rightarrow> bool" where
  "hd_ready s \<longleftrightarrow> hd_image s \<noteq> []"

definition hd_blockCount :: "'h block_device \<Rightarrow> u32" where
  "hd_blockCount s = of_nat (length (hd_image s) div 512)"

subsection \<open>Answers\<close>

definition good :: "u8 list \<Rightarrow> ScsiCommandResult" where
  "good data = \<lparr>result_data = data, result_status = statusGood, result_message = messageCommandComplete,
     result_senseKey = senseNoSense\<rparr>"

definition checkCondition :: "u8 \<Rightarrow> 'h block_device \<Rightarrow> ScsiCommandResult \<times> 'h block_device" where
  "checkCondition senseKey s =
    (\<lparr>result_data = [], result_status = statusCheckCondition, result_message = messageCommandComplete,
      result_senseKey = senseKey\<rparr>, s\<lparr>hd_senseKey := senseKey\<rparr>)"

definition hd_readBlocks :: "u32 \<Rightarrow> u32 \<Rightarrow> 'h block_device \<Rightarrow> u8 list \<times> 'h block_device" where
  "hd_readBlocks lba blocks s =
    (let offset = unat (lba * blockSize); size = unat (blocks * blockSize)
     in if lba \<ge> hd_blockCount s \<or> offset + size > length (hd_image s)
        then ([], s\<lparr>hd_senseKey := senseIllegalRequest\<rparr>)
        else (take size (drop offset (hd_image s)),
              s\<lparr>hd_senseKey := senseNoSense, hd_activityCounter := hd_activityCounter s + ucast blocks\<rparr>))"

definition hd_writeBlocks ::
    "'h host_files \<Rightarrow> u32 \<Rightarrow> u8 list \<Rightarrow> 'h block_device \<Rightarrow> bool \<times> 'h block_device" where
  "hd_writeBlocks h lba bytes s =
    (let offset = unat (lba * blockSize)
     in if length bytes mod 512 \<noteq> 0 \<or> lba \<ge> hd_blockCount s \<or> offset + length bytes > length (hd_image s)
        then (False, s\<lparr>hd_senseKey := senseIllegalRequest\<rparr>)
        else
          let (ok, w) = write_at h (hd_imagePath s) offset bytes (hd_host s); s = s\<lparr>hd_host := w\<rparr>
          in if \<not> ok then (False, s\<lparr>hd_senseKey := senseIllegalRequest\<rparr>)
             else (True, s\<lparr>hd_image := take offset (hd_image s) @ bytes @
                             drop (offset + length bytes) (hd_image s),
                           hd_senseKey := senseNoSense,
                           hd_activityCounter := hd_activityCounter s + of_nat (length bytes div 512)\<rparr>))"

definition inquiry_page :: "u8 \<Rightarrow> u8 list option" where
  "inquiry_page pageCode =
    (if pageCode = 0x00 then Some [0x00, 0x00, 0x00, 0x05, 0x00, 0x80, 0x81, 0x82, 0x83]
     else if pageCode = 0x80 then Some ([0x00, 0x80, 0x00, 0x10] @ ascii ''CUTEMAC000000001'')
     else if pageCode = 0x81 then Some [0x00, 0x81, 0x00, 0x03, 0x03, 0x03, 0x03]
     else if pageCode = 0x82 then Some ([0x00, 0x82, 0x00, 0x07, 0x06] @ ascii ''SCSI-2'')
     else if pageCode = 0x83 then
       let identifier = ascii ''CUTEMAC:SCSI:DISK:00000001''
       in Some ([0x00, 0x83, 0x00, of_nat (length identifier + 4), 0x02, 0x01, 0x00,
                 of_nat (length identifier)] @ identifier)
     else None)"

definition hd_inquiry ::
    "bool \<Rightarrow> u8 \<Rightarrow> u8 \<Rightarrow> 'h block_device \<Rightarrow> ScsiCommandResult \<times> 'h block_device" where
  "hd_inquiry evpd pageCode allocationLength s =
    (if evpd
     then case inquiry_page pageCode of
            None \<Rightarrow> checkCondition senseIllegalRequest s
          | Some data \<Rightarrow> (good (clipped data allocationLength), s)
     else if pageCode \<noteq> 0 then checkCondition senseIllegalRequest s
     else
       let data = (replicate 36 0)[2 := 0x02, 3 := 0x01, 4 := 31, 7 := 0x18];
           (vendor, product, revision) = identityForSize (length (hd_image s));
           data = take 8 data @ vendor @ product @ revision
       in (good (clipped data allocationLength), s))"

definition hd_requestSense :: "u8 \<Rightarrow> 'h block_device \<Rightarrow> ScsiCommandResult" where
  "hd_requestSense allocationLength s =
     good (take (unat allocationLength) ((replicate 18 0)[0 := 0x70, 2 := hd_senseKey s, 7 := 10]))"

definition mode_format_page :: "u8 list" where
  "mode_format_page = (replicate 24 0)[0 := 0x83, 1 := 0x16, 11 := 0x20, 12 := 0x02, 15 := 0x01, 20 := 0xc0]"

definition mode_geometry_page :: "u32 \<Rightarrow> u8 list" where
  "mode_geometry_page blockCount =
    (let heads = 16; sectorsPerTrack = 32;
         cylinders = max 1 ((blockCount + heads * sectorsPerTrack - 1) div (heads * sectorsPerTrack));
         c16 = ucast (drop_bit 16 cylinders); c8 = ucast (drop_bit 8 cylinders); c0 = ucast cylinders
     in (replicate 24 0)[0 := 0x04, 1 := 0x16, 2 := c16, 3 := c8, 4 := c0, 5 := ucast heads, 6 := c16,
          7 := c8, 8 := c0, 9 := c16, 10 := c8, 11 := c0, 13 := 0x01, 20 := 0x15, 21 := 0x18])"

definition block_descriptor :: "'h block_device \<Rightarrow> u8 list" where
  "block_descriptor s =
    (let blocks = min (hd_blockCount s) 0x00ffffff
     in [0, ucast (drop_bit 16 blocks), ucast (drop_bit 8 blocks), ucast blocks, 0,
         ucast (drop_bit 16 blockSize), ucast (drop_bit 8 blockSize), ucast blockSize])"

definition hd_modeSense ::
    "bool \<Rightarrow> u8 \<Rightarrow> u8 \<Rightarrow> 'h block_device \<Rightarrow> ScsiCommandResult \<times> 'h block_device" where
  "hd_modeSense disableBlockDescriptors pageCode allocationLength s =
    (let data = (replicate 4 0)[2 := if hd_readOnly s then 0x80 else 0];
         data = (if \<not> disableBlockDescriptors \<and> pageCode \<in> {0x03, 0x04, 0x30, 0x3f}
                 then (data @ block_descriptor s)[3 := 8] else data);
         data = (if pageCode = 0x03 \<or> pageCode = 0x3f then data @ mode_format_page else data);
         data = (if pageCode = 0x04 \<or> pageCode = 0x3f then data @ mode_geometry_page (hd_blockCount s) else data);
         data = (if pageCode = 0x30 \<or> pageCode = 0x3f
                 then data @ [0x30, 0x16] @ ascii ''APPLE COMPUTER, INC   '' else data);
         pageFound = (pageCode = 0x00 \<or> pageCode = 0x03 \<or> pageCode = 0x04 \<or> pageCode = 0x30 \<or> pageCode = 0x3f)
     in if \<not> pageFound then checkCondition senseIllegalRequest s
        else (good (clipped (data[0 := of_nat (length data - 1), 2 := if hd_readOnly s then 0x80 else 0])
                      allocationLength), s))"

definition hd_readCapacity :: "'h block_device \<Rightarrow> ScsiCommandResult" where
  "hd_readCapacity s =
     good (appendBe32 (appendBe32 [] (if hd_blockCount s = 0 then 0 else hd_blockCount s - 1)) blockSize)"

subsection \<open>Commands\<close>

definition cdb_lba6 :: "u8 list \<Rightarrow> u32" where
  "cdb_lba6 cdb = push_bit 16 (ucast (cdb ! 1) AND 0x1f) OR push_bit 8 (ucast (cdb ! 2)) OR ucast (cdb ! 3)"

definition hd_read :: "u32 \<Rightarrow> u32 \<Rightarrow> 'h block_device \<Rightarrow> ScsiCommandResult \<times> 'h block_device" where
  "hd_read lba blocks s =
    (let (data, s) = hd_readBlocks lba blocks s
     in if hd_senseKey s = senseNoSense then (good data, s) else checkCondition (hd_senseKey s) s)"

definition hd_write ::
    "'h host_files \<Rightarrow> u32 \<Rightarrow> u8 list \<Rightarrow> 'h block_device \<Rightarrow> ScsiCommandResult \<times> 'h block_device" where
  "hd_write h lba dataOut s =
    (let (ok, s) = hd_writeBlocks h lba dataOut s
     in if ok then (good [], s) else checkCondition senseIllegalRequest s)"

definition hd_executeCommand ::
    "'h host_files \<Rightarrow> u8 list \<Rightarrow> u8 list \<Rightarrow> 'h block_device \<Rightarrow> ScsiCommandResult \<times> 'h block_device" where
  "hd_executeCommand h cdb dataOut s =
    (if cdb = [] then checkCondition senseIllegalRequest s
     else
       let opcode = cdb ! 0; n = length cdb; illegal = checkCondition senseIllegalRequest s; ok = (good [], s)
       in if \<not> hd_ready s \<and> opcode \<noteq> 0x03 \<and> opcode \<noteq> 0x12 then checkCondition senseNotReady s
          else if opcode \<in> {0x00, 0x01, 0x04} then ok
          else if opcode = 0x03 then (hd_requestSense (if 4 < n then cdb ! 4 else 4) s, s)
          else if opcode = 0x08 then
            if n < 6 then illegal
            else hd_read (cdb_lba6 cdb) (if cdb ! 4 = 0 then 256 else ucast (cdb ! 4)) s
          else if opcode = 0x0a then
            if n < 6 \<or> hd_readOnly s then illegal else hd_write h (cdb_lba6 cdb) dataOut s
          else if opcode = 0x0b then ok
          else if opcode = 0x12 then
            hd_inquiry (1 < n \<and> cdb ! 1 AND 0x01 \<noteq> 0) (if 2 < n then cdb ! 2 else 0)
              (if 4 < n then cdb ! 4 else 36) s
          else if opcode = 0x15 then ok
          else if opcode = 0x1a then
            hd_modeSense (1 < n \<and> cdb ! 1 AND 0x08 \<noteq> 0) (if 2 < n then cdb ! 2 AND 0x3f else 0x3f)
              (if 4 < n then cdb ! 4 else 4) s
          else if opcode = 0x25 then (hd_readCapacity s, s)
          else if opcode = 0x28 then
            if n < 10 then illegal
            else let lba = scsi_readBe32 cdb 2; blocks = be16_of cdb 7
                 in if blocks = 0 then ok else hd_read lba blocks s
          else if opcode = 0x2a then
            if n < 10 \<or> hd_readOnly s then illegal
            else let lba = scsi_readBe32 cdb 2; blocks = be16_of cdb 7
                 in if length dataOut \<noteq> unat blocks * 512 then illegal
                    else if blocks = 0 then ok else hd_write h lba dataOut s
          else if opcode \<in> {0x2b, 0x35} then ok
          else if opcode = 0x2f then
            if n < 10 \<or> cdb ! 1 AND 0x02 \<noteq> 0 then illegal
            else let lba = scsi_readBe32 cdb 2; blocks = be16_of cdb 7
                 in if lba \<le> hd_blockCount s \<and> blocks \<le> hd_blockCount s - lba then ok else illegal
          else if opcode = 0x37 then
            if n < 10 then illegal
            else (good (take (unat (be16_of cdb 7)) [0, cdb ! 2, 0, 0]), s)
          else illegal)"

end
