(* ===== verification/ScsiDiskLaws.thy ===== *)
theory ScsiDiskLaws
  imports ScsiBlockDevice
begin

section \<open>Laws of the hard disk\<close>

text \<open>
  The disk as a store of blocks: what READ(10) and WRITE(10) do to it, and what no command does.  The
  interpretation of \<open>scsi_contract\<close> gives the controller what it needs of the disk.
\<close>

definition block_target :: "'h host_files \<Rightarrow> 'h block_device ScsiTarget" where
  "block_target h = \<lparr>target_ready = hd_ready, target_selectable = hd_ready,
     target_executeCommand = hd_executeCommand h\<rparr>"

subsection \<open>Every command keeps to the contract\<close>

text \<open>What holds of the answer to a command: the contract, and what may happen to the image.\<close>

definition answer_ok :: "'h block_device \<Rightarrow> ScsiCommandResult \<times> 'h block_device \<Rightarrow> bool" where
  "answer_ok s a \<longleftrightarrow>
     result_status (fst a) \<in> {0, 2} \<and> result_message (fst a) = 0 \<and>
     (result_status (fst a) = 2 \<longrightarrow> result_data (fst a) = [] \<and> hd_image (snd a) = hd_image s) \<and>
     length (hd_image (snd a)) = length (hd_image s) \<and>
     (hd_readOnly s \<longrightarrow> hd_image (snd a) = hd_image s \<and> hd_host (snd a) = hd_host s) \<and>
     hd_readOnly (snd a) = hd_readOnly s \<and> hd_imagePath (snd a) = hd_imagePath s"

lemma answer_check [simp]: "answer_ok s (checkCondition k s)"
  by (simp add: answer_ok_def checkCondition_def)

lemma answer_good [simp]: "answer_ok s (good d, s)"
  by (simp add: answer_ok_def good_def)

lemma answer_read [simp]: "answer_ok s (hd_read lba n s)"
  by (simp add: answer_ok_def hd_read_def hd_readBlocks_def checkCondition_def good_def Let_def)

lemma answer_write: "\<not> hd_readOnly s \<Longrightarrow> answer_ok s (hd_write h lba out s)"
  by (auto simp: answer_ok_def hd_write_def hd_writeBlocks_def checkCondition_def good_def Let_def split_beta)

lemma answer_queries [simp]:
  "answer_ok s (hd_requestSense n s, s)" "answer_ok s (hd_readCapacity s, s)"
  "answer_ok s (hd_inquiry evpd page n s)" "answer_ok s (hd_modeSense dbd page n s)"
  by (simp_all add: hd_requestSense_def hd_readCapacity_def hd_inquiry_def hd_modeSense_def Let_def split_beta
    split: option.split)

lemma answer_execute: "answer_ok s (hd_executeCommand h cdb out s)"
  unfolding hd_executeCommand_def Let_def by (simp add: answer_write)

interpretation disk: scsi_contract "block_target h" "\<lambda>_. True"
  by unfold_locales (use answer_execute in \<open>force simp: block_target_def answer_ok_def\<close>)+

subsection \<open>The store of blocks\<close>

definition blocks_of :: "u8 list \<Rightarrow> u8 list list" where
  "blocks_of img = map (\<lambda>k. take 512 (drop (512 * k) img)) [0..<length img div 512]"

lemma length_blocks_of [simp]: "length (blocks_of img) = length img div 512"
  by (simp add: blocks_of_def)

lemma concat_blocks: "n * 512 + 512 * k \<le> length img \<Longrightarrow>
  concat (map (\<lambda>k. take 512 (drop (512 * k) img)) [k..<k + n]) = take (n * 512) (drop (512 * k) img)"
proof (induction n)
  case (Suc n)
  have "take (n * 512 + 512) (drop (512 * k) img) =
      take (n * 512) (drop (512 * k) img) @ take 512 (drop (n * 512) (drop (512 * k) img))"
    by (rule take_add)
  with Suc show ?case by (simp add: algebra_simps)
qed simp

text \<open>A range of blocks is a range of bytes.\<close>

lemma read_blocks_of:
  assumes "lba + n \<le> length img div 512"
  shows "concat (take n (drop lba (blocks_of img))) = take (n * 512) (drop (lba * 512) img)"
proof -
  have "take n (drop lba (blocks_of img)) = map (\<lambda>k. take 512 (drop (512 * k) img)) [lba..<lba + n]"
    using assms by (simp add: blocks_of_def drop_map take_map drop_upt take_upt)
  moreover have "n * 512 + 512 * lba \<le> length img" using assms by (simp add: algebra_simps)
  ultimately show ?thesis using concat_blocks [of n lba img] by (simp add: mult.commute)
qed

lemma blocks_of_append:
  assumes "length a = n * 512" shows "blocks_of (a @ b) = blocks_of a @ blocks_of b"
proof -
  have "[0..<n + length b div 512] = [0..<n] @ map (\<lambda>k. k + n) [0..<length b div 512]"
    by (simp only: map_add_upt upt_add_eq_append [of 0] le0 add_0 add.commute)
  moreover have "take 512 (drop (512 * k) (a @ b)) = take 512 (drop (512 * k) a)" if "k < n" for k
  proof -
    have "512 * k + 512 \<le> n * 512" using that by simp
    then have "length (drop (512 * k) a) \<ge> 512" using assms by simp
    then show ?thesis using assms that by simp
  qed
  moreover have "take 512 (drop (512 * (k + n)) (a @ b)) = take 512 (drop (512 * k) b)" for k
    using assms by (simp add: algebra_simps)
  ultimately show ?thesis using assms by (simp add: blocks_of_def o_def)
qed

lemma blocks_of_take: "n \<le> length img div 512 \<Longrightarrow> blocks_of (take (n * 512) img) = take n (blocks_of img)"
  and blocks_of_drop: "n \<le> length img div 512 \<Longrightarrow> blocks_of (drop (n * 512) img) = drop n (blocks_of img)"
proof -
  assume n: "n \<le> length img div 512"
  then have fits: "n * 512 \<le> length img" by (simp add: less_eq_div_iff_mult_less_eq)
  have "blocks_of img = blocks_of (take (n * 512) img) @ blocks_of (drop (n * 512) img)"
    using blocks_of_append [of "take (n * 512) img" n "drop (n * 512) img"] fits by simp
  moreover have "length (blocks_of (take (n * 512) img)) = n" using fits by simp
  ultimately show "blocks_of (take (n * 512) img) = take n (blocks_of img)"
    and "blocks_of (drop (n * 512) img) = drop n (blocks_of img)" by simp_all
qed

text \<open>Writing a range of bytes replaces a range of blocks.\<close>

lemma write_blocks_of:
  assumes "length bytes = n * 512" and "lba + n \<le> length img div 512"
  shows "blocks_of (take (lba * 512) img @ bytes @ drop (lba * 512 + length bytes) img) =
    take lba (blocks_of img) @ blocks_of bytes @ drop (lba + n) (blocks_of img)"
proof -
  have "lba * 512 \<le> length img" using assms(2) by (simp add: less_eq_div_iff_mult_less_eq)
  then have "length (take (lba * 512) img) = lba * 512" by simp
  moreover have "drop (lba * 512 + length bytes) img = drop ((lba + n) * 512) img"
    using assms(1) by (simp add: algebra_simps)
  ultimately show ?thesis
    using assms blocks_of_append [where a = "take (lba * 512) img" and n = lba]
      blocks_of_append [where a = bytes and n = n] blocks_of_take [of lba img] blocks_of_drop [of "lba + n" img]
    by simp
qed

lemma concat_blocks_of: "512 dvd length img \<Longrightarrow> concat (blocks_of img) = img"
  using concat_blocks [of "length img div 512" 0 img] by (simp add: blocks_of_def)

subsection \<open>READ(10) and WRITE(10)\<close>

definition cdb10 :: "u8 \<Rightarrow> u32 \<Rightarrow> u16 \<Rightarrow> u8 list" where
  "cdb10 opcode lba n =
     [opcode, 0, ucast (drop_bit 24 lba), ucast (drop_bit 16 lba), ucast (drop_bit 8 lba), ucast lba, 0,
      ucast (drop_bit 8 n), ucast n, 0]"

lemma cdb10_lba [simp]: "scsi_readBe32 (cdb10 opcode lba n) 2 = lba"
  by (simp add: word32_eq scsi_readBe32_def cdb10_def bit_simps)

lemma cdb10_blocks [simp]: "be16_of (cdb10 opcode lba n) 7 = ucast n"
  by (simp add: word32_eq be16_of_def cdb10_def bit_simps not_bit_16)

lemma cdb10_shape [simp]: "cdb10 opcode lba n \<noteq> []" "cdb10 opcode lba n ! 0 = opcode"
  "length (cdb10 opcode lba n) = 10"
  by (simp_all add: cdb10_def)

lemma ucast_ucast_16 [simp]: "(ucast (ucast (n :: u16) :: u32) :: u64) = ucast n"
  by (rule bit_word_eqI) (auto simp: bit_simps dest: bit_imp_le_length)

lemma unat_ucast_16 [simp]: "unat (ucast (n :: u16) :: u32) = unat n"
proof -
  have "unat n < 2 ^ 16" using unsigned_less [of n] by simp
  then show ?thesis by (simp add: unsigned_ucast_eq take_bit_eq_mod)
qed

lemma ucast_eq_0 [simp]: "(ucast (n :: u16) :: u32) = 0 \<longleftrightarrow> n = 0"
  by (metis unat_eq_0 unat_ucast_16)

text \<open>An image below 4 GiB: byte offsets of its blocks fit in 32 bits.\<close>

definition small_disk :: "'h block_device \<Rightarrow> bool" where
  "small_disk s \<longleftrightarrow> hd_image s \<noteq> [] \<and> length (hd_image s) < 2 ^ 32"

lemma block_count: "small_disk s \<Longrightarrow> unat (hd_blockCount s) = length (hd_image s) div 512"
  by (simp add: small_disk_def hd_blockCount_def unat_of_nat) (rule mod_less, linarith)

lemma block_offset: "small_disk s \<Longrightarrow> lba < hd_blockCount s \<Longrightarrow> unat (lba * blockSize) = unat lba * 512"
proof -
  assume s: "small_disk s" "lba < hd_blockCount s"
  then have "unat lba < length (hd_image s) div 512" using block_count [OF s(1)] by (simp add: word_less_nat_alt)
  then have "unat lba * 512 < 2 ^ 32" using s by (auto simp: small_disk_def)
  then show ?thesis by (simp add: unat_word_ariths)
qed

lemma transfer_size: "unat ((ucast (n :: u16) :: u32) * blockSize) = unat n * 512"
proof -
  have "unat n < 65536" using unsigned_less [of n] by simp
  then show ?thesis by (simp add: unat_word_ariths)
qed

text \<open>Whether a transfer lies on the disk.\<close>

definition on_disk :: "u32 \<Rightarrow> u16 \<Rightarrow> 'h block_device \<Rightarrow> bool" where
  "on_disk lba n s \<longleftrightarrow> unat lba + unat n \<le> length (hd_image s) div 512"

lemma in_range: "small_disk s \<Longrightarrow> n \<noteq> 0 \<Longrightarrow>
  (lba < hd_blockCount s \<and> unat (lba * blockSize) + unat n * 512 \<le> length (hd_image s)) = on_disk lba n s"
proof -
  assume s: "small_disk s" and "n \<noteq> 0"
  then have "unat n \<noteq> 0" by (simp add: unat_eq_0)
  then have "on_disk lba n s \<longleftrightarrow> lba < hd_blockCount s \<and> on_disk lba n s"
    using block_count [OF s] by (auto simp: on_disk_def word_less_nat_alt)
  then show ?thesis
    using block_offset [OF s, of lba] by (auto simp: on_disk_def less_eq_div_iff_mult_less_eq algebra_simps)
qed

lemma read10:
  assumes "small_disk s" and "n \<noteq> 0"
  shows "hd_executeCommand h (cdb10 0x28 lba n) out s =
    (if on_disk lba n s
     then (good (concat (take (unat n) (drop (unat lba) (blocks_of (hd_image s))))),
           s\<lparr>hd_senseKey := 0, hd_activityCounter := hd_activityCounter s + ucast n\<rparr>)
     else checkCondition 5 s)"
proof -
  have "hd_ready s" using assms(1) by (simp add: hd_ready_def small_disk_def)
  then have "hd_executeCommand h (cdb10 0x28 lba n) out s = hd_read lba (ucast n) s"
    using assms(2) by (simp add: hd_executeCommand_def Let_def)
  also have "\<dots> = (if on_disk lba n s
     then (good (take (unat n * 512) (drop (unat lba * 512) (hd_image s))),
           s\<lparr>hd_senseKey := 0, hd_activityCounter := hd_activityCounter s + ucast n\<rparr>)
     else checkCondition 5 s)"
    using in_range [OF assms, of lba] block_offset [OF assms(1), of lba]
    by (auto simp add: hd_read_def hd_readBlocks_def transfer_size Let_def checkCondition_def
      simp del: scsi_constants simp add: scsi_constants(3-))
  finally show ?thesis by (simp add: on_disk_def read_blocks_of)
qed

text \<open>Blocks written from a given one on.\<close>

definition overwrite :: "nat \<Rightarrow> u8 list list \<Rightarrow> u8 list list \<Rightarrow> u8 list list" where
  "overwrite lba new old = take lba old @ new @ drop (lba + length new) old"

lemma write10:
  assumes disk: "small_disk s" "\<not> hd_readOnly s"
    and range: "n \<noteq> 0" "on_disk lba n s" "length out = unat n * 512"
    and host: "write_at h (hd_imagePath s) (unat lba * 512) out (hd_host s) = (True, w)"
  obtains s' where "hd_executeCommand h (cdb10 0x2a lba n) out s = (good [], s')"
    and "blocks_of (hd_image s') = overwrite (unat lba) (blocks_of out) (blocks_of (hd_image s))"
    and "hd_host s' = w" and "length (hd_image s') = length (hd_image s)"
proof -
  define s' where "s' = s\<lparr>hd_host := w, hd_image := take (unat lba * 512) (hd_image s) @ out @
      drop (unat lba * 512 + length out) (hd_image s), hd_senseKey := 0,
      hd_activityCounter := hd_activityCounter s + of_nat (length out div 512)\<rparr>"
  have "hd_ready s" using disk(1) by (simp add: hd_ready_def small_disk_def)
  moreover have fits: "lba < hd_blockCount s" "unat (lba * blockSize) + unat n * 512 \<le> length (hd_image s)"
    using in_range [OF disk(1) range(1), of lba] range(2) by simp_all
  moreover have "unat (lba * blockSize) = unat lba * 512" by (rule block_offset [OF disk(1) fits(1)])
  ultimately have "hd_executeCommand h (cdb10 0x2a lba n) out s = (good [], s')"
    using assms fits(1) [folded not_le] by (simp add: hd_executeCommand_def hd_write_def hd_writeBlocks_def Let_def s'_def
      del: scsi_constants add: scsi_constants(2-))
  moreover have "blocks_of (hd_image s') = overwrite (unat lba) (blocks_of out) (blocks_of (hd_image s))"
    using write_blocks_of [OF range(3)] range(2,3) by (simp add: s'_def overwrite_def on_disk_def)
  moreover have "length (hd_image s') = length (hd_image s)"
    using answer_execute [of s h "cdb10 0x2a lba n" out] calculation(1) by (simp add: answer_ok_def)
  ultimately show ?thesis using that [of s'] by (simp add: s'_def)
qed

lemma same_disk: "length (hd_image s') = length (hd_image s) \<Longrightarrow> small_disk s' = small_disk s"
  "length (hd_image s') = length (hd_image s) \<Longrightarrow> on_disk lba n s' = on_disk lba n s"
  by (auto simp: small_disk_def on_disk_def)

text \<open>C27. A hard disk of less than 4 GiB is a store of blocks: WRITE(10) of blocks that lie on a
  writable disk answers GOOD, replaces exactly those blocks and writes them to the file of the image, and
  every READ(10) on the disk afterwards returns the written blocks where they were written and the old
  ones elsewhere.\<close>

theorem disk_block_store:
  assumes "small_disk s" and "\<not> hd_readOnly s" and "n \<noteq> 0" and "on_disk lba n s"
    and "length out = unat n * 512"
    and "write_at h (hd_imagePath s) (unat lba * 512) out (hd_host s) = (True, w)"
  shows "\<exists>s'. hd_executeCommand h (cdb10 0x2a lba n) out s = (good [], s') \<and> hd_host s' = w \<and>
    blocks_of (hd_image s') = overwrite (unat lba) (blocks_of out) (blocks_of (hd_image s)) \<and>
    (\<forall>k m. m \<noteq> 0 \<longrightarrow> on_disk k m s \<longrightarrow>
       fst (hd_executeCommand h (cdb10 0x28 k m) [] s') =
         good (concat (take (unat m) (drop (unat k)
           (overwrite (unat lba) (blocks_of out) (blocks_of (hd_image s)))))))"
proof -
  obtain s' where s': "hd_executeCommand h (cdb10 0x2a lba n) out s = (good [], s')"
    "blocks_of (hd_image s') = overwrite (unat lba) (blocks_of out) (blocks_of (hd_image s))"
    "hd_host s' = w" "length (hd_image s') = length (hd_image s)"
    by (rule write10 [OF assms])
  then have "small_disk s'" "\<And>k m. on_disk k m s' \<longleftrightarrow> on_disk k m s"
    using assms(1) same_disk [OF s'(4)] by simp_all
  then show ?thesis using s' by (auto simp: read10)
qed

definition sample_disk :: "(string \<rightharpoonup> u8 list) block_device" where
  "sample_disk = \<lparr>hd_image = replicate 2048 0, hd_imagePath = ''hd'', hd_readOnly = False, hd_senseKey = 0,
     hd_activityCounter = 0, hd_host = [''hd'' \<mapsto> replicate 2048 0]\<rparr>"

lemma sample_disk_ok: "small_disk sample_disk" "\<not> hd_readOnly sample_disk"
  "length (hd_image sample_disk) = 2048"
  by (simp_all add: sample_disk_def small_disk_def)

lemma disk_block_store_witness:
  "\<exists>s'. hd_executeCommand map_host (cdb10 0x2a 1 2) (replicate 1024 7) sample_disk = (good [], s') \<and>
     fst (hd_executeCommand map_host (cdb10 0x28 2 1) [] s') = good (replicate 512 7)"
proof -
  have blocks: "blocks_of (replicate 1024 7) = [replicate 512 7, replicate 512 7]"
    by (simp add: blocks_of_def upt_conv_Cons)
  have disk: "on_disk 1 2 sample_disk" "on_disk 2 1 sample_disk" by (simp_all add: on_disk_def sample_disk_ok)
  have "\<exists>w. write_at map_host (hd_imagePath sample_disk) (unat (1 :: u32) * 512) (replicate 1024 7)
      (hd_host sample_disk) = (True, w)"
    by (simp add: sample_disk_def)
  then obtain w where w: "write_at map_host (hd_imagePath sample_disk) (unat (1 :: u32) * 512)
      (replicate 1024 7) (hd_host sample_disk) = (True, w)" by blast
  have len: "length (replicate 1024 (7 :: u8)) = unat (2 :: u16) * 512" by simp
  have two: "(2 :: u16) \<noteq> 0" by simp
  have old: "take 1 (blocks_of (hd_image sample_disk)) = [replicate 512 0]"
    by (simp add: sample_disk_def blocks_of_def upt_conv_Cons)
  have "take 1 (drop 2 (overwrite 1 [replicate 512 7, replicate 512 7]
      (blocks_of (hd_image sample_disk)))) = [replicate 512 (7 :: u8)]"
    using old by (simp add: overwrite_def)
  then show ?thesis
    using disk_block_store [OF sample_disk_ok(1,2) two disk(1) len w] disk(2) unfolding blocks by fastforce
qed

subsection \<open>Transfers beyond the end\<close>

lemma write10_outside:
  assumes "small_disk s" and "n \<noteq> 0" and "\<not> on_disk lba n s"
  shows "hd_executeCommand h (cdb10 0x2a lba n) out s = checkCondition 5 s"
proof (cases "hd_readOnly s \<or> length out \<noteq> unat n * 512")
  case True
  then show ?thesis using assms(1)
    by (auto simp: hd_executeCommand_def hd_ready_def small_disk_def Let_def)
next
  case False
  have "hd_ready s" using assms(1) by (simp add: hd_ready_def small_disk_def)
  moreover have "hd_blockCount s \<le> lba \<or> length (hd_image s) < unat (lba * blockSize) + unat n * 512"
    using in_range [OF assms(1,2), of lba] assms(3) by auto
  ultimately show ?thesis using False assms(2)
    by (auto simp: hd_executeCommand_def hd_write_def hd_writeBlocks_def checkCondition_def Let_def
      simp del: scsi_constants(1) simp add: not_le)
qed

text \<open>C28. On a hard disk that is not empty and of less than 4 GiB a READ(10) or WRITE(10) of at least one block that does
  not lie wholly on the disk answers CHECK CONDITION without data, changes nothing but the sense key, and
  REQUEST SENSE then reports ILLEGAL REQUEST.\<close>

theorem disk_range:
  assumes "small_disk s" and "n \<noteq> 0" and "\<not> on_disk lba n s" and "opcode \<in> {0x28, 0x2a}"
  shows "hd_executeCommand h (cdb10 opcode lba n) out s = checkCondition 5 s \<and>
    result_data (fst (hd_executeCommand h [3, 0, 0, 0, 18, 0] []
      (snd (hd_executeCommand h (cdb10 opcode lba n) out s)))) ! 2 = 5"
proof -
  have "hd_executeCommand h (cdb10 opcode lba n) out s = checkCondition 5 s"
    using assms write10_outside [OF assms(1-3)] read10 [OF assms(1,2)] by auto
  moreover have "result_data (fst (hd_executeCommand h [3, 0, 0, 0, 18, 0] [] (snd (checkCondition 5 s)))) ! 2 = 5"
    by (simp add: hd_executeCommand_def hd_requestSense_def checkCondition_def good_def Let_def)
  ultimately show ?thesis by simp
qed

lemma disk_range_witness:
  "hd_executeCommand map_host (cdb10 0x28 3 2) [] sample_disk = checkCondition 5 sample_disk \<and>
    result_data (fst (hd_executeCommand map_host [3, 0, 0, 0, 18, 0] []
      (snd (hd_executeCommand map_host (cdb10 0x28 3 2) [] sample_disk)))) ! 2 = 5"
proof -
  have "\<not> on_disk 3 2 sample_disk" by (simp add: on_disk_def sample_disk_ok)
  then show ?thesis by (intro disk_range) (simp_all add: sample_disk_ok)
qed

text \<open>
  From 4 GiB on the byte offset wraps: on such an image a read of block \<open>0x800000\<close>, which exists,
  returns block zero.
\<close>

lemma wrapped_read:
  assumes "2 ^ 32 + 512 \<le> length (hd_image s)" and "length (hd_image s) < 2 ^ 41"
  shows "fst (hd_executeCommand h (cdb10 0x28 0x800000 1) [] s) = good (take 512 (hd_image s)) \<and>
    0x800000 < hd_blockCount s"
proof -
  have "length (hd_image s) div 512 < 2 ^ 32" using assms(2) by simp
  then have "unat (hd_blockCount s) = length (hd_image s) div 512"
    by (simp add: hd_blockCount_def unat_of_nat)
  moreover have "0x800000 < length (hd_image s) div 512" using assms(1) by simp
  ultimately have "0x800000 < hd_blockCount s" by (simp add: word_less_nat_alt)
  moreover from this have "\<not> hd_blockCount s \<le> 0x800000" by simp
  moreover have "hd_ready s" using assms(1) by (auto simp: hd_ready_def)
  ultimately show ?thesis using assms(1)
    by (simp add: hd_executeCommand_def hd_read_def hd_readBlocks_def Let_def)
qed

subsection \<open>Sequences of commands\<close>

definition run_commands ::
    "'h host_files \<Rightarrow> (u8 list \<times> u8 list) list \<Rightarrow> 'h block_device \<Rightarrow> 'h block_device" where
  "run_commands h = fold (\<lambda>(cdb, out) s. snd (hd_executeCommand h cdb out s))"

lemma run_commands_ok:
  "length (hd_image (run_commands h cmds s)) = length (hd_image s) \<and>
   hd_readOnly (run_commands h cmds s) = hd_readOnly s \<and>
   (hd_readOnly s \<longrightarrow> hd_image (run_commands h cmds s) = hd_image s \<and>
     hd_host (run_commands h cmds s) = hd_host s)"
proof (induction cmds arbitrary: s)
  case (Cons c cmds)
  obtain cdb out where c: "c = (cdb, out)" by fastforce
  have "run_commands h (c # cmds) s = run_commands h cmds (snd (hd_executeCommand h cdb out s))"
    by (simp add: run_commands_def c)
  then show ?case using Cons [of "snd (hd_executeCommand h cdb out s)"] answer_execute [of s h cdb out]
    by (simp add: answer_ok_def)
qed (simp add: run_commands_def)

text \<open>C29. Whatever commands a hard disk is given, its image keeps its size and a write protected
  disk changes neither image nor file; the answer to a further command is GOOD or, without data and
  with the image as it was, CHECK CONDITION.\<close>

theorem disk_safety:
  "let s' = run_commands h cmds s; a = hd_executeCommand h cdb out s' in
     length (hd_image (snd a)) = length (hd_image s) \<and>
     (hd_readOnly s \<longrightarrow> hd_image (snd a) = hd_image s \<and> hd_host (snd a) = hd_host s) \<and>
     (result_status (fst a) = statusGood \<or>
      result_status (fst a) = statusCheckCondition \<and> result_data (fst a) = [] \<and> hd_image (snd a) = hd_image s')"
  using run_commands_ok [of h cmds s] answer_execute [of "run_commands h cmds s" h cdb out]
  by (auto simp: answer_ok_def Let_def)

lemma disk_safety_witness:
  "hd_image (snd (hd_executeCommand map_host (cdb10 0x2a 0 1) (replicate 512 7)
    (run_commands map_host [([4, 0, 0, 0, 0, 0], [])] (sample_disk\<lparr>hd_readOnly := True\<rparr>)))) = replicate 2048 0"
  using disk_safety [where cdb = "cdb10 0x2a 0 1" and out = "replicate 512 7" and h = map_host
    and cmds = "[([4, 0, 0, 0, 0, 0], [])]" and s = "sample_disk\<lparr>hd_readOnly := True\<rparr>"]
  by (simp add: Let_def sample_disk_def)

end
