(* ===== verification/ScsiCdRom.thy ===== *)
theory ScsiCdRom
  imports ScsiBlockDevice
begin

section \<open>The CD-ROM drive\<close>

text \<open>
  \<open>ScsiCdRomDevice.cpp\<close>: a disc image in blocks of 2048 bytes, read in logical blocks of 512, 1024 or
  2048 bytes, with the unit attention of a changed medium.  Answers are those of the hard disk's theory.
\<close>

unbundle bit_operations_syntax

definition cd_blockSize :: u32 where "cd_blockSize = 2048"
definition senseUnitAttention :: u8 where "senseUnitAttention = 0x06"
definition ascMediumChanged :: u8 where "ascMediumChanged = 0x28"
definition ascMediumNotPresent :: u8 where "ascMediumNotPresent = 0x3a"

lemmas cd_constants [simp] = cd_blockSize_def senseUnitAttention_def ascMediumChanged_def ascMediumNotPresent_def

record cd_rom =
  cd_image :: "u8 list"
  cd_imagePath :: string
  cd_senseKey :: u8
  cd_additionalSenseCode :: u8
  cd_unitAttention :: bool
  cd_logicalBlockSize :: u32
  cd_activityCounter :: u64

definition cd_init :: cd_rom where
  "cd_init = \<lparr>cd_image = [], cd_imagePath = [], cd_senseKey = 0, cd_additionalSenseCode = 0,
     cd_unitAttention = False, cd_logicalBlockSize = 2048, cd_activityCounter = 0\<rparr>"

definition appendBe16 :: "u8 list \<Rightarrow> u16 \<Rightarrow> u8 list" where
  "appendBe16 data v = data @ [ucast (drop_bit 8 v), ucast v]"

text \<open>A block number, or minutes, seconds and frames from the start of the disc.\<close>

definition appendAddress :: "u8 list \<Rightarrow> u32 \<Rightarrow> bool \<Rightarrow> u8 list" where
  "appendAddress data lba msf =
    (if \<not> msf then appendBe32 data lba
     else let frames = lba + 150
          in data @ [0, ucast (frames div (60 * 75)), ucast (frames div 75 mod 60), ucast (frames mod 75)])"

subsection \<open>The medium\<close>

definition cd_loadImage :: "'h host_files \<Rightarrow> 'h \<Rightarrow> string \<Rightarrow> cd_rom \<Rightarrow> bool \<times> cd_rom" where
  "cd_loadImage h w path s =
    (case read_file h path w of
       None \<Rightarrow> (False, s)
     | Some bytes \<Rightarrow>
         if bytes = [] \<or> length bytes mod 2048 \<noteq> 0 then (False, s)
         else (True, s\<lparr>cd_image := bytes, cd_imagePath := path, cd_senseKey := senseUnitAttention,
                cd_additionalSenseCode := ascMediumChanged, cd_unitAttention := True, cd_activityCounter := 0\<rparr>))"

definition cd_eject :: "cd_rom \<Rightarrow> cd_rom" where
  "cd_eject s = s\<lparr>cd_image := [], cd_imagePath := [], cd_senseKey := senseUnitAttention,
     cd_additionalSenseCode := ascMediumChanged, cd_unitAttention := True, cd_activityCounter := 0\<rparr>"

definition cd_ready :: "cd_rom \<Rightarrow> bool" where "cd_ready s \<longleftrightarrow> cd_image s \<noteq> []"

definition cd_acknowledgeMediaChange :: "cd_rom \<Rightarrow> cd_rom" where
  "cd_acknowledgeMediaChange s =
    s\<lparr>cd_unitAttention := False, cd_senseKey := if cd_ready s then senseNoSense else senseNotReady,
      cd_additionalSenseCode := if cd_ready s then 0 else ascMediumNotPresent\<rparr>"

definition cd_blockCount :: "cd_rom \<Rightarrow> u32" where
  "cd_blockCount s = of_nat (length (cd_image s) div 2048)"

subsection \<open>Answers\<close>

definition refused :: "u8 \<Rightarrow> ScsiCommandResult" where
  "refused senseKey = \<lparr>result_data = [], result_status = 0x02, result_message = 0, result_senseKey = senseKey\<rparr>"

definition cd_checkCondition :: "u8 \<Rightarrow> u8 \<Rightarrow> cd_rom \<Rightarrow> ScsiCommandResult \<times> cd_rom" where
  "cd_checkCondition senseKey asc s =
    (refused senseKey, s\<lparr>cd_senseKey := senseKey, cd_additionalSenseCode := asc\<rparr>)"

definition cd_read :: "u32 \<Rightarrow> u32 \<Rightarrow> cd_rom \<Rightarrow> ScsiCommandResult \<times> cd_rom" where
  "cd_read lba blocks s =
    (let logicalBlocks = (of_nat (length (cd_image s)) div ucast (cd_logicalBlockSize s) :: u64)
     in if logicalBlocks < ucast lba \<or> logicalBlocks - ucast lba < ucast blocks
        then cd_checkCondition senseIllegalRequest 0x21 s
        else (good (take (unat blocks * unat (cd_logicalBlockSize s))
                     (drop (unat lba * unat (cd_logicalBlockSize s)) (cd_image s))),
              s\<lparr>cd_senseKey := senseNoSense, cd_additionalSenseCode := 0,
                cd_activityCounter := cd_activityCounter s + ucast blocks\<rparr>))"

definition raw_sector :: "u8 list \<Rightarrow> u32 \<Rightarrow> u8 list" where
  "raw_sector bytes lba =
    (let frames = lba + 150
     in [0] @ replicate 10 0xff @ [0, ucast (frames div (60 * 75)), ucast (frames div 75 mod 60), ucast (frames mod 75), 1] @
        take 2048 (drop (unat lba * 2048) bytes) @ replicate 288 0)"

definition readAppleRaw :: "u32 \<Rightarrow> u32 \<Rightarrow> cd_rom \<Rightarrow> ScsiCommandResult \<times> cd_rom" where
  "readAppleRaw lba blocks s =
    (if cd_blockCount s < lba \<or> cd_blockCount s - lba < blocks then cd_checkCondition senseIllegalRequest 0x21 s
     else (good (concat (map (\<lambda>block. raw_sector (cd_image s) (lba + of_nat block)) [0..<unat blocks])),
           s\<lparr>cd_activityCounter := cd_activityCounter s + ucast blocks\<rparr>))"

definition cd_modeSelect :: "bool \<Rightarrow> u8 list \<Rightarrow> cd_rom \<Rightarrow> ScsiCommandResult \<times> cd_rom" where
  "cd_modeSelect tenByte parameters s =
    (let headerSize = (if tenByte then 8 else 4)
     in if parameters = [] then (good [], s)
        else if length parameters < headerSize then cd_checkCondition senseIllegalRequest 0x26 s
        else
          let descriptorLength = (if tenByte then unat (be16_of parameters 6) else unat (parameters ! 3))
          in if descriptorLength = 0 then (good [], s)
             else if descriptorLength < 8 \<or> length parameters < headerSize + descriptorLength
             then cd_checkCondition senseIllegalRequest 0x26 s
             else
               let requestedBlockSize = push_bit 16 (ucast (parameters ! (headerSize + 5))) OR
                     push_bit 8 (ucast (parameters ! (headerSize + 6))) OR ucast (parameters ! (headerSize + 7))
               in if requestedBlockSize \<noteq> 512 \<and> requestedBlockSize \<noteq> 1024 \<and> requestedBlockSize \<noteq> cd_blockSize
                  then cd_checkCondition senseIllegalRequest 0x26 s
                  else (good [], s\<lparr>cd_logicalBlockSize := requestedBlockSize\<rparr>))"

definition cd_inquiry :: "u8 \<Rightarrow> ScsiCommandResult" where
  "cd_inquiry allocationLength =
     good (clipped ([0x05, 0x80, 0x02, 0x01, 31, 0, 0, 0] @ ascii ''MATSHITA'' @ ascii ''CD-ROM CR-8004  '' @ ascii ''1.1f'')
       allocationLength)"

definition cd_requestSense :: "u8 \<Rightarrow> cd_rom \<Rightarrow> ScsiCommandResult \<times> cd_rom" where
  "cd_requestSense allocationLength s =
    (good (clipped ((replicate 18 0)[0 := 0x70, 2 := cd_senseKey s, 7 := 10, 12 := cd_additionalSenseCode s]) allocationLength),
     cd_acknowledgeMediaChange s)"

definition cd_descriptor :: "cd_rom \<Rightarrow> u8 list" where
  "cd_descriptor s =
    (let size = cd_logicalBlockSize s;
         blocks = min (of_nat (length (cd_image s)) div ucast size :: u64) 0x00ffffff
     in [0, ucast (drop_bit 16 blocks), ucast (drop_bit 8 blocks), ucast blocks, 0,
         ucast (drop_bit 16 size), ucast (drop_bit 8 size), ucast size])"

definition cd_modeSense :: "bool \<Rightarrow> bool \<Rightarrow> u8 \<Rightarrow> u16 \<Rightarrow> cd_rom \<Rightarrow> ScsiCommandResult" where
  "cd_modeSense tenByte disableBlockDescriptors pageCode allocationLength s =
    (let data = (replicate (if tenByte then 8 else 4) 0)[if tenByte then 3 else 2 := 0x80];
         data = (if \<not> disableBlockDescriptors then (data @ cd_descriptor s)[if tenByte then 7 else 3 := 8] else data);
         data = (if pageCode = 0x01 \<or> pageCode = 0x3f then data @ [0x01, 0x06, 0, 0, 0, 0, 0, 0] else data);
         data = (if pageCode = 0x0d \<or> pageCode = 0x3f then data @ [0x0d, 0x06, 0x00, 0x0d, 0x00, 0x3c, 0x00, 0x4b] else data);
         data = (if pageCode = 0x2a \<or> pageCode = 0x3f
                 then data @ [0x2a, 0x0e, 0x00, 0x00, 0x00, 0x03, 0x28, 0x00, 0x05, 0x62, 0x00, 0x00, 0x00, 0x40, 0x05, 0x62]
                 else data);
         size = (of_nat (length data - 2) :: u16)
     in if pageCode \<noteq> 0x00 \<and> pageCode \<noteq> 0x01 \<and> pageCode \<noteq> 0x0d \<and> pageCode \<noteq> 0x2a \<and> pageCode \<noteq> 0x3f
        then refused senseIllegalRequest
        else good (take (unat allocationLength)
          (if tenByte then data[0 := ucast (drop_bit 8 size), 1 := ucast size]
           else data[0 := of_nat (length data - 1)])))"

definition cd_readCapacity :: "cd_rom \<Rightarrow> ScsiCommandResult" where
  "cd_readCapacity s =
    (let blocks = (of_nat (length (cd_image s) div unat (cd_logicalBlockSize s)) :: u32)
     in good (appendBe32 (appendBe32 [] (if blocks = 0 then 0 else blocks - 1)) (cd_logicalBlockSize s)))"

definition readToc :: "u8 list \<Rightarrow> cd_rom \<Rightarrow> ScsiCommandResult" where
  "readToc cdb s =
    (if length cdb < 10 then refused senseIllegalRequest
     else
       let msf = cdb ! 1 AND 0x02 \<noteq> 0; firstRequested = cdb ! 6; allocationLength = be16_of cdb 7;
           descriptors = (if firstRequested \<noteq> 0xaa then appendAddress [0, 0x14, 1, 0] 0 msf else []);
           descriptors = appendAddress (descriptors @ [0, 0x14, 0xaa, 0]) (cd_blockCount s) msf
       in if firstRequested \<noteq> 0 \<and> firstRequested \<noteq> 1 \<and> firstRequested \<noteq> 0xaa then refused senseIllegalRequest
          else good (take (unat allocationLength)
            (appendBe16 [] (of_nat (length descriptors + 2)) @ [1, 1] @ descriptors)))"

subsection \<open>Commands\<close>

definition allowedWithoutMedium :: "u8 \<Rightarrow> bool" where
  "allowedWithoutMedium opcode \<longleftrightarrow>
     opcode = 0x03 \<or> opcode = 0x12 \<or> opcode = 0x15 \<or> opcode = 0x1a \<or> opcode = 0x1b \<or> opcode = 0x1e \<or>
     opcode = 0x55 \<or> opcode = 0x5a"

definition cd_frames :: "u8 list \<Rightarrow> nat \<Rightarrow> u32" where
  "cd_frames cdb i = (ucast (cdb ! i) * 60 + ucast (cdb ! (i + 1))) * 75 + ucast (cdb ! (i + 2))"

definition cd_switch :: "u8 list \<Rightarrow> u8 list \<Rightarrow> cd_rom \<Rightarrow> ScsiCommandResult \<times> cd_rom" where
  "cd_switch cdb dataOut s =
    (let opcode = cdb ! 0; n = length cdb;
         byte = (\<lambda>i d. if i < n then cdb ! i else d);
         illegal = cd_checkCondition senseIllegalRequest 0x24 s
     in if opcode = 0x00 then (good [], s)
        else if opcode = 0x03 then cd_requestSense (byte 4 18) s
        else if opcode = 0x08 then
          if n < 6 then illegal else cd_read (cdb_lba6 cdb) (if cdb ! 4 = 0 then 256 else ucast (cdb ! 4)) s
        else if opcode = 0x12 then (cd_inquiry (byte 4 36), s)
        else if opcode = 0x15 then cd_modeSelect False dataOut s
        else if opcode = 0x1a then
          (cd_modeSense False (1 < n \<and> cdb ! 1 AND 0x08 \<noteq> 0) (if 2 < n then cdb ! 2 AND 0x3f else 0x3f) (ucast (byte 4 4)) s, s)
        else if opcode = 0x1b then
          (good [], if 4 < n \<and> cdb ! 4 AND 0x02 \<noteq> 0 \<and> cdb ! 4 AND 0x01 = 0 then cd_eject s else s)
        else if opcode = 0x1e then (good [], s)
        else if opcode = 0x25 then (cd_readCapacity s, s)
        else if opcode = 0x28 then
          if n < 10 then illegal else cd_read (scsi_readBe32 cdb 2) (be16_of cdb 7) s
        else if opcode = 0x43 then (readToc cdb s, s)
        else if opcode = 0x55 then cd_modeSelect True dataOut s
        else if opcode = 0x5a then
          if n < 10 then illegal
          else (cd_modeSense True (cdb ! 1 AND 0x08 \<noteq> 0) (cdb ! 2 AND 0x3f) (ucast (be16_of cdb 7)) s, s)
        else if opcode = 0xa8 then
          if n < 12 then illegal else cd_read (scsi_readBe32 cdb 2) (scsi_readBe32 cdb 6) s
        else if opcode = 0xd8 then
          if n < 12 \<or> cdb ! 10 \<noteq> 0 then illegal else readAppleRaw (scsi_readBe32 cdb 2) (scsi_readBe32 cdb 6) s
        else if opcode = 0xd9 then
          if n < 12 \<or> cdb ! 10 \<noteq> 0 then illegal
          else let startFrames = cd_frames cdb 3; endFrames = cd_frames cdb 7
               in if startFrames < 150 \<or> endFrames < startFrames then illegal
                  else readAppleRaw (startFrames - 150) (endFrames - startFrames) s
        else cd_checkCondition senseIllegalRequest 0x20 s)"

definition cd_executeCommand :: "u8 list \<Rightarrow> u8 list \<Rightarrow> cd_rom \<Rightarrow> ScsiCommandResult \<times> cd_rom" where
  "cd_executeCommand cdb dataOut s =
    (if cdb = [] then cd_checkCondition senseIllegalRequest 0x24 s
     else
       let opcode = cdb ! 0
       in if cd_unitAttention s \<and> opcode \<noteq> 0x03 \<and> opcode \<noteq> 0x12
          then cd_checkCondition senseUnitAttention ascMediumChanged (s\<lparr>cd_unitAttention := False\<rparr>)
          else if \<not> cd_ready s \<and> \<not> allowedWithoutMedium opcode
          then cd_checkCondition senseNotReady ascMediumNotPresent s
          else cd_switch cdb dataOut s)"

definition cd_target :: "cd_rom ScsiTarget" where
  "cd_target = \<lparr>target_ready = cd_ready, target_selectable = (\<lambda>_. True), target_executeCommand = cd_executeCommand\<rparr>"

subsection \<open>The contract\<close>

text \<open>The drive's images are whole blocks and its logical blocks have one of three sizes.\<close>

definition cd_ok :: "cd_rom \<Rightarrow> bool" where
  "cd_ok s \<longleftrightarrow> length (cd_image s) mod 2048 = 0 \<and> cd_logicalBlockSize s \<in> {512, 1024, 2048}"

definition cd_answer :: "cd_rom \<Rightarrow> ScsiCommandResult \<times> cd_rom \<Rightarrow> bool" where
  "cd_answer s p \<longleftrightarrow> result_status (fst p) \<in> {0, 2} \<and> result_message (fst p) = 0
    \<and> (result_status (fst p) = 2 \<longrightarrow> result_data (fst p) = []) \<and> (cd_ok s \<longrightarrow> cd_ok (snd p))
    \<and> (cd_image (snd p) = cd_image s \<or> cd_image (snd p) = [])"

lemma answers:
  "cd_answer s (good d, s)" "cd_answer s (good d, cd_eject s)" "cd_answer s (refused k, s)"
  "cd_answer s (cd_checkCondition k a s)"
  "cd_answer s (cd_read lba blocks s)" "cd_answer s (readAppleRaw lba blocks s)"
  "cd_answer s (cd_modeSelect ten out s)" "cd_answer s (cd_requestSense n s)" "cd_answer s (cd_inquiry n, s)"
  "cd_answer s (cd_modeSense ten off page len s, s)" "cd_answer s (cd_readCapacity s, s)" "cd_answer s (readToc cdb s, s)"
  by (auto simp: cd_answer_def good_def refused_def cd_checkCondition_def cd_ok_def cd_eject_def cd_read_def
      readAppleRaw_def cd_modeSelect_def cd_requestSense_def cd_acknowledgeMediaChange_def cd_inquiry_def
      cd_modeSense_def cd_readCapacity_def readToc_def Let_def)

lemma cd_switch_answer: "cd_answer s (cd_switch cdb out s)"
  unfolding cd_switch_def Let_def by (simp add: answers)

lemma cd_command_answer: "cd_answer s (cd_executeCommand cdb out s)"
proof (cases "cdb = [] \<or> cd_unitAttention s \<and> cdb ! 0 \<noteq> 0x03 \<and> cdb ! 0 \<noteq> 0x12 \<or>
    \<not> cd_ready s \<and> \<not> allowedWithoutMedium (cdb ! 0)")
  case True
  then show ?thesis
    by (auto simp: cd_executeCommand_def Let_def cd_answer_def cd_checkCondition_def refused_def cd_ok_def)
next
  case False
  then have "cd_executeCommand cdb out s = cd_switch cdb out s"
    by (auto simp: cd_executeCommand_def Let_def)
  then show ?thesis
    using cd_switch_answer by simp
qed

interpretation cd: scsi_contract cd_target cd_ok
  using cd_command_answer by unfold_locales (auto simp: cd_target_def cd_answer_def)

text \<open>What a read answers, in numbers.\<close>

lemma cd_read_answer:
  assumes ok: "cd_ok s" and size: "length (cd_image s) < 2 ^ 63" and B: "B = unat (cd_logicalBlockSize s)"
    and p: "p = cd_read l b s" and lba: "lba = unat l" and blocks: "blocks = unat b"
  shows "if lba + blocks \<le> length (cd_image s) div B
    then result_status (fst p) = 0 \<and> result_data (fst p) = take (blocks * B) (drop (lba * B) (cd_image s))
      \<and> length (result_data (fst p)) = blocks * B \<and> cd_image (snd p) = cd_image s
    else result_status (fst p) = 2 \<and> result_data (fst p) = [] \<and>
      snd p = s\<lparr>cd_senseKey := 5, cd_additionalSenseCode := 0x21\<rparr>"
proof -
  let ?n = "length (cd_image s)"
  define logical :: u64 where "logical = of_nat ?n div ucast (cd_logicalBlockSize s)"
  have B0: "0 < B"
    using ok by (auto simp: B cd_ok_def)
  have wide: "unat (ucast x :: u64) = unat x" for x :: u32
    using unsigned_less [of x, where ?'a = nat] by (simp add: unsigned_ucast_eq take_bit_nat_eq_self_iff)
  have L: "unat logical = ?n div B"
    using size by (simp add: logical_def unat_div wide B unat_of_nat)
  have refuse: "logical < ucast l \<or> logical - ucast l < ucast b \<longleftrightarrow> \<not> lba + blocks \<le> ?n div B"
  proof (cases "?n div B < lba")
    case False
    then have "ucast l \<le> logical"
      by (simp add: word_le_nat_alt wide L lba)
    then have "unat (logical - ucast l) = ?n div B - lba"
      by (simp add: unat_sub wide L lba)
    then show ?thesis
      using False by (auto simp: word_less_nat_alt wide L lba blocks)
  qed (simp add: word_less_nat_alt wide L lba)
  show ?thesis
  proof (cases "lba + blocks \<le> ?n div B")
    case True
    then have "(lba + blocks) * B \<le> ?n"
      using div_times_less_eq_dividend [of ?n B] mult_le_mono1 [OF True, of B] by linarith
    moreover have "p = (good (take (blocks * B) (drop (lba * B) (cd_image s))), s\<lparr>cd_senseKey := senseNoSense,
        cd_additionalSenseCode := 0, cd_activityCounter := cd_activityCounter s + ucast b\<rparr>)"
      using True refuse unfolding p cd_read_def logical_def [symmetric] Let_def lba blocks B by simp
    ultimately show ?thesis
      using True by (simp add: good_def add_mult_distrib)
  next
    case False
    then have "p = cd_checkCondition senseIllegalRequest 0x21 s"
      using refuse unfolding p cd_read_def logical_def [symmetric] Let_def lba blocks B by simp
    then show ?thesis
      using False by (simp add: cd_checkCondition_def refused_def)
  qed
qed

text \<open>
  C38. What a computer reads from the CD-ROM drive with READ(6), READ(10) or READ(12) of some blocks from a block
  address on.  After a medium was loaded or ejected the first such command is refused with a unit attention, which it
  clears, and nothing else.  Otherwise, without a disc it is refused as not ready; with a disc, blocks that lie on it
  are answered GOOD with exactly these logical blocks of the image, and a read beyond the end is refused with the
  sense of an address out of range.  The disc is as before in all cases.
\<close>

theorem cd_read_blocks:
  assumes "cd_ok s" and "length (cd_image s) < 2 ^ 63"
    and "length cdb = 6 \<and> cdb ! 0 = 0x08 \<and> lba = unat (cdb_lba6 cdb) \<and> blocks = (if cdb ! 4 = 0 then 256 else unat (cdb ! 4)) \<or>
      length cdb = 10 \<and> cdb ! 0 = 0x28 \<and> lba = unat (scsi_readBe32 cdb 2) \<and> blocks = unat (be16_of cdb 7) \<or>
      length cdb = 12 \<and> cdb ! 0 = 0xa8 \<and> lba = unat (scsi_readBe32 cdb 2) \<and> blocks = unat (scsi_readBe32 cdb 6)"
    and "B = unat (cd_logicalBlockSize s)" and p: "p = cd_executeCommand cdb [] s"
  shows "cd_image (snd p) = cd_image s \<and>
    (if cd_unitAttention s
     then result_status (fst p) = 2 \<and> result_data (fst p) = [] \<and>
       snd p = s\<lparr>cd_unitAttention := False, cd_senseKey := 6, cd_additionalSenseCode := 0x28\<rparr>
     else if cd_image s = []
     then result_status (fst p) = 2 \<and> result_data (fst p) = [] \<and> snd p = s\<lparr>cd_senseKey := 2, cd_additionalSenseCode := 0x3a\<rparr>
     else if lba + blocks \<le> length (cd_image s) div B
     then result_status (fst p) = 0 \<and> result_data (fst p) = take (blocks * B) (drop (lba * B) (cd_image s))
       \<and> length (result_data (fst p)) = blocks * B
     else result_status (fst p) = 2 \<and> result_data (fst p) = [] \<and> snd p = s\<lparr>cd_senseKey := 5, cd_additionalSenseCode := 0x21\<rparr>)"
proof -
  obtain l b where r: "cd_switch cdb [] s = cd_read l b s" "lba = unat l" "blocks = unat b"
  proof -
    from assms(3) consider "length cdb = 6 \<and> cdb ! 0 = 0x08 \<and> lba = unat (cdb_lba6 cdb) \<and> blocks = (if cdb ! 4 = 0 then 256 else unat (cdb ! 4))"
      | "length cdb = 10 \<and> cdb ! 0 = 0x28 \<and> lba = unat (scsi_readBe32 cdb 2) \<and> blocks = unat (be16_of cdb 7)"
      | "length cdb = 12 \<and> cdb ! 0 = 0xa8 \<and> lba = unat (scsi_readBe32 cdb 2) \<and> blocks = unat (scsi_readBe32 cdb 6)"
      by blast
    then show thesis
    proof cases
      case 1
      have "unat (ucast x :: u32) = unat x" for x :: u8
        using unsigned_less [of x, where ?'a = nat] by (simp add: unsigned_ucast_eq take_bit_nat_eq_self_iff)
      with 1 show thesis
        by (intro that [of "cdb_lba6 cdb" "if cdb ! 4 = 0 then 256 else ucast (cdb ! 4)"]) (simp_all add: cd_switch_def Let_def)
    qed (auto intro!: that simp: cd_switch_def Let_def)
  qed
  have op: "cdb \<noteq> []" "cdb ! 0 \<noteq> 0x03" "cdb ! 0 \<noteq> 0x12" "\<not> allowedWithoutMedium (cdb ! 0)"
    using assms(3) by (auto simp: allowedWithoutMedium_def)
  then have "p = (if cd_unitAttention s
       then cd_checkCondition senseUnitAttention ascMediumChanged (s\<lparr>cd_unitAttention := False\<rparr>)
       else if cd_image s = [] then cd_checkCondition senseNotReady ascMediumNotPresent s else cd_read l b s)"
    by (simp add: p cd_executeCommand_def cd_ready_def r(1) Let_def)
  then show ?thesis
    using cd_read_answer [OF assms(1,2,4) refl r(2,3)]
    by (auto simp: cd_checkCondition_def refused_def split: if_splits)
qed

lemma cd_read_blocks_witness:
  "result_status (fst (cd_executeCommand [0x28, 0, 0, 0, 0, 1, 0, 0, 1, 0] []
      (cd_init\<lparr>cd_image := replicate 4096 7\<rparr>))) = 0"
  using cd_read_blocks [of "cd_init\<lparr>cd_image := replicate 4096 7\<rparr>" "[0x28, 0, 0, 0, 0, 1, 0, 0, 1, 0]" 1 1, OF _ _ _ refl refl]
  by (simp add: cd_ok_def cd_init_def scsi_readBe32_def be16_of_def)

end
