(* ===== verification/MachineScheduler.thy ===== *)
theory MachineScheduler
  imports Prelude "HOL-Library.Multiset"
begin

section \<open>The scheduler of a machine\<close>

text \<open>
  \<open>MachineScheduler\<close> (MachineScheduler.h, MachineScheduler.cpp): events in a priority queue, the earliest
  cycle first and among equal cycles the one scheduled first.  A callback is a value of any type \<open>'c\<close> that
  \<open>run\<close> executes on the scheduler and the rest of the machine, so that it can schedule again; running
  the due events need not end then, and \<open>dispatchDue\<close> is a partial function.  The
  \<open>std::priority_queue\<close> is the list of its elements in the order it delivers them.
\<close>

record 'c Event =
  ev_cycle :: u64
  ev_sequence :: u64
  ev_callback :: 'c
  ev_label :: "string option"

definition Later :: "'c Event \<Rightarrow> 'c Event \<Rightarrow> bool" where
  "Later left right \<longleftrightarrow>
    (if ev_cycle left \<noteq> ev_cycle right then ev_cycle right < ev_cycle left
     else ev_sequence right < ev_sequence left)"

record 'c scheduler =
  sch_events :: "'c Event list"
  sch_now :: u64
  sch_nextSequence :: u64

definition pq_push :: "'c Event \<Rightarrow> 'c Event list \<Rightarrow> 'c Event list" where
  "pq_push e es = takeWhile (\<lambda>x. \<not> Later x e) es @ e # dropWhile (\<lambda>x. \<not> Later x e) es"

definition sch_reset :: "'c scheduler \<Rightarrow> 'c scheduler" where
  "sch_reset s = s\<lparr>sch_now := 0, sch_nextSequence := 0, sch_events := []\<rparr>"

definition schedule :: "u64 \<Rightarrow> 'c \<Rightarrow> string option \<Rightarrow> 'c scheduler \<Rightarrow> 'c scheduler" where
  "schedule cycle callback label s =
    s\<lparr>sch_events := pq_push \<lparr>ev_cycle = cycle, ev_sequence = sch_nextSequence s, ev_callback = callback, ev_label = label\<rparr>
        (sch_events s),
      sch_nextSequence := sch_nextSequence s + 1\<rparr>"

text \<open>The lines of a dump, before they are rendered: cycle, distance, sequence number and label.\<close>

definition pendingEvents :: "'c scheduler \<Rightarrow> (u64 \<times> u64 \<times> u64 \<times> string option) list" where
  "pendingEvents s =
    map (\<lambda>e. (ev_cycle e, if sch_now s \<le> ev_cycle e then ev_cycle e - sch_now s else 0, ev_sequence e, ev_label e))
      (sch_events s)"

partial_function (option) dispatchDue ::
    "('c \<Rightarrow> 'c scheduler \<times> 'm \<Rightarrow> 'c scheduler \<times> 'm) \<Rightarrow> 'c scheduler \<times> 'm \<Rightarrow> ('c scheduler \<times> 'm) option" where
  "dispatchDue run p =
    (case sch_events (fst p) of
       [] \<Rightarrow> Some p
     | e # es \<Rightarrow>
         if ev_cycle e \<le> sch_now (fst p)
         then dispatchDue run (run (ev_callback e) (apfst (\<lambda>s. s\<lparr>sch_events := es\<rparr>) p))
         else Some p)"

definition advance ::
    "('c \<Rightarrow> 'c scheduler \<times> 'm \<Rightarrow> 'c scheduler \<times> 'm) \<Rightarrow> u64 \<Rightarrow> 'c scheduler \<times> 'm \<Rightarrow> ('c scheduler \<times> 'm) option" where
  "advance run cycles p = dispatchDue run (apfst (\<lambda>s. s\<lparr>sch_now := sch_now s + cycles\<rparr>) p)"

subsection \<open>The order of the queue\<close>

text \<open>The events of a queue with their sequence numbers are in the order of \<open>Later\<close>.\<close>

definition in_order :: "'c Event list \<Rightarrow> bool" where
  "in_order = sorted_wrt (\<lambda>a b. \<not> Later a b)"

definition timed :: "'c Event list \<Rightarrow> (u64 \<times> 'c) list" where
  "timed es = map (\<lambda>e. (ev_cycle e, ev_callback e)) es"

lemma later_trans: "\<not> Later a b \<Longrightarrow> \<not> Later b c \<Longrightarrow> \<not> Later a c"
  by (auto simp: Later_def split: if_splits)

lemma later_total: "Later a b \<Longrightarrow> \<not> Later b a"
  by (auto simp: Later_def split: if_splits)

lemma push_in_order: "in_order es \<Longrightarrow> in_order (pq_push e es)"
proof (induction es)
  case (Cons x es)
  then show ?case
    using later_trans [of e x] later_total [of x e]
    by (auto simp: in_order_def pq_push_def dest: set_takeWhileD set_dropWhileD intro: later_trans later_total)
qed (simp add: in_order_def pq_push_def)

text \<open>
  An event with the highest sequence number goes behind all events of its cycle, which is where a stable
  insertion by the cycle puts it.
\<close>

lemma push_newest:
  assumes "\<forall>x\<in>set es. ev_sequence x < ev_sequence e"
  shows "pq_push e es = takeWhile (\<lambda>x. ev_cycle x \<le> ev_cycle e) es @ e # dropWhile (\<lambda>x. ev_cycle x \<le> ev_cycle e) es"
proof -
  have "\<not> Later x e \<longleftrightarrow> ev_cycle x \<le> ev_cycle e" if "x \<in> set es" for x
    using assms that by (auto simp: Later_def)
  then show ?thesis
    by (simp add: pq_push_def cong: takeWhile_cong dropWhile_cong)
qed

lemma after_dropWhile: "sorted (map f xs) \<Longrightarrow> y \<in> set (dropWhile (\<lambda>x. f x \<le> k) xs) \<Longrightarrow> k < f y"
  for f :: "'a \<Rightarrow> 'k::linorder"
  by (induction xs) (auto split: if_splits)

lemma sorted_between:
  fixes f :: "'a \<Rightarrow> 'k::linorder"
  assumes "sorted (map f (t @ d))" and "\<forall>y\<in>set t. f y \<le> f x" and "\<forall>y\<in>set d. f x < f y"
  shows "sorted (map f (t @ x # d))"
  using assms by (auto simp: sorted_append intro: less_imp_le)

lemma filter_between:
  assumes "filter P (t @ d) = filter P xs" and "P x \<Longrightarrow> filter P d = []"
  shows "filter P (t @ x # d) = filter P (xs @ [x])"
  using assms by (cases "P x") auto

lemma sort_key_append:
  fixes x :: 'a and f :: "'a \<Rightarrow> 'k::linorder"
  shows "sort_key f (xs @ [x]) = takeWhile (\<lambda>y. f y \<le> f x) (sort_key f xs) @ x # dropWhile (\<lambda>y. f y \<le> f x) (sort_key f xs)"
    (is "_ = ?t @ x # ?d")
proof (rule properties_for_sort_key)
  let ?S = "sort_key f xs"
  have S: "?t @ ?d = ?S"
    by simp
  have d: "\<forall>y\<in>set ?d. f x < f y"
    using after_dropWhile [of f ?S _ "f x"] by simp
  have t: "\<forall>y\<in>set ?t. f y \<le> f x"
    using set_takeWhileD [of _ "\<lambda>y. f y \<le> f x" ?S] by blast
  have "mset ?t + mset ?d = mset xs"
    by (metis S mset_append mset_sort)
  then show "mset (?t @ x # ?d) = mset (xs @ [x])"
    by simp
  have sorted: "sorted (map f (?t @ ?d))"
    by (simp only: S sorted_sort_key)
  then show "sorted (map f (?t @ x # ?d))"
    by (rule sorted_between [OF _ t d])
  fix k
  assume "k \<in> set (?t @ x # ?d)"
  have "filter (\<lambda>y. f k = f y) (?t @ ?d) = filter (\<lambda>y. f k = f y) xs"
    using sort_key_stable [of f "f k" xs] by (simp only: S eq_commute)
  moreover have "filter (\<lambda>y. f k = f y) ?d = []" if "f k = f x"
    using d that by (auto simp: filter_empty_conv)
  ultimately show "filter (\<lambda>y. f k = f y) (?t @ x # ?d) = filter (\<lambda>y. f k = f y) (xs @ [x])"
    by (rule filter_between)
qed

text \<open>Scheduling in an empty queue sorts the events by their cycle, stably.\<close>

definition schedule_all :: "(u64 \<times> 'c \<times> string option) list \<Rightarrow> 'c scheduler \<Rightarrow> 'c scheduler" where
  "schedule_all = fold (\<lambda>(t, c, l). schedule t c l)"

lemma schedule_all_sorts:
  assumes "length xs < 2 ^ 64"
  shows "sch_nextSequence (schedule_all xs (sch_reset s)) = of_nat (length xs)
    \<and> sch_now (schedule_all xs (sch_reset s)) = 0
    \<and> (\<forall>e\<in>set (sch_events (schedule_all xs (sch_reset s))). ev_sequence e < of_nat (length xs))
    \<and> map (\<lambda>e. (ev_cycle e, ev_callback e, ev_label e)) (sch_events (schedule_all xs (sch_reset s))) = sort_key fst xs"
  using assms
proof (induction xs rule: rev_induct)
  case Nil
  then show ?case
    by (simp add: schedule_all_def sch_reset_def)
next
  case (snoc x xs)
  define q where "q = schedule_all xs (sch_reset s)"
  obtain t c l where x: "x = (t, c, l)"
    by (cases x) auto
  define e where "e = \<lparr>ev_cycle = t, ev_sequence = of_nat (length xs), ev_callback = c, ev_label = l\<rparr>"
  have IH: "sch_nextSequence q = of_nat (length xs)" "sch_now q = 0"
      "\<forall>e\<in>set (sch_events q). ev_sequence e < of_nat (length xs)"
      "map (\<lambda>e. (ev_cycle e, ev_callback e, ev_label e)) (sch_events q) = sort_key fst xs"
    using snoc by (simp_all add: q_def)
  have step: "schedule_all (xs @ [x]) (sch_reset s) = schedule t c l q"
    by (simp add: schedule_all_def q_def x)
  have "sch_events (schedule t c l q) = pq_push e (sch_events q)"
    by (simp add: schedule_def e_def IH)
  also have "\<dots> = takeWhile (\<lambda>x. ev_cycle x \<le> t) (sch_events q) @ e # dropWhile (\<lambda>x. ev_cycle x \<le> t) (sch_events q)"
    using push_newest [of "sch_events q" e] IH(3) by (simp add: e_def)
  finally have events: "sch_events (schedule t c l q) =
      takeWhile (\<lambda>x. ev_cycle x \<le> t) (sch_events q) @ e # dropWhile (\<lambda>x. ev_cycle x \<le> t) (sch_events q)" .
  have less: "(of_nat (length xs) :: u64) < of_nat (length (xs @ [x]))"
    using snoc.prems by (simp add: word_less_nat_alt unat_of_nat unat_word_ariths)
  have "map (\<lambda>e. (ev_cycle e, ev_callback e, ev_label e)) (sch_events (schedule t c l q)) = sort_key fst (xs @ [x])"
    unfolding events sort_key_append IH(4) [symmetric]
    by (simp add: x e_def takeWhile_map dropWhile_map o_def)
  moreover have "\<forall>e\<in>set (sch_events (schedule t c l q)). ev_sequence e < of_nat (length (xs @ [x]))"
    unfolding events using IH(3) less by (auto simp: e_def dest!: set_takeWhileD set_dropWhileD intro: less_trans)
  ultimately show ?case
    using IH(1,2) unfolding step by (simp add: schedule_def)
qed

text \<open>The due events of a queue whose callbacks leave the scheduler alone.\<close>

lemma dispatch_due:
  assumes "\<And>c s m. run c (s, m) = (s, act c m)" and "sorted (map ev_cycle (sch_events s))"
  shows "dispatchDue run (s, m) =
    Some (s\<lparr>sch_events := filter (\<lambda>e. sch_now s < ev_cycle e) (sch_events s)\<rparr>,
          fold act (map ev_callback (filter (\<lambda>e. ev_cycle e \<le> sch_now s) (sch_events s))) m)"
  using assms(2)
proof (induction "sch_events s" arbitrary: s m)
  case Nil
  then show ?case
    by (subst dispatchDue.simps) (simp flip: Nil.hyps)
next
  case (Cons e es)
  show ?case
  proof (cases "ev_cycle e \<le> sch_now s")
    case True
    have "dispatchDue run (s, m) = dispatchDue run (s\<lparr>sch_events := es\<rparr>, act (ev_callback e) m)"
      by (subst dispatchDue.simps) (simp add: True assms(1) flip: Cons.hyps(2))
    then show ?thesis
      using Cons.hyps(1) [of "s\<lparr>sch_events := es\<rparr>" "act (ev_callback e) m"] Cons.prems True
      by (simp add: not_less flip: Cons.hyps(2))
  next
    case False
    have "\<not> ev_cycle x \<le> sch_now s" if "x \<in> set (sch_events s)" for x
      using that False Cons.prems by (auto simp flip: Cons.hyps(2))
    then have "filter (\<lambda>e. ev_cycle e \<le> sch_now s) (sch_events s) = []"
      "filter (\<lambda>e. sch_now s < ev_cycle e) (sch_events s) = sch_events s"
      by (auto simp: filter_empty_conv not_le intro: filter_True)
    then show ?thesis
      using False by (subst dispatchDue.simps) (simp flip: Cons.hyps(2))
  qed
qed

text \<open>
  C37. Events scheduled at any cycles in any order, then a step of time: exactly the events that are due
  run, in the order of their cycles and, for equal cycles, in the order in which they were scheduled; the
  others stay queued in that order.  This holds for callbacks that do not schedule themselves, such as the
  input events of a machine, and says that dispatching them ends.
\<close>

theorem scheduler_order:
  assumes "length xs < 2 ^ 64" and keep: "\<And>c s m. run c (s, m) = (s, act c m)"
  shows "\<exists>s'. advance run n (schedule_all xs (sch_reset s), m)
        = Some (s', fold act (map (fst \<circ> snd) (filter (\<lambda>x. fst x \<le> n) (sort_key fst xs))) m)
      \<and> sch_now s' = n
      \<and> map (\<lambda>e. (ev_cycle e, ev_callback e, ev_label e)) (sch_events s') = filter (\<lambda>x. n < fst x) (sort_key fst xs)"
proof -
  define q where "q = (schedule_all xs (sch_reset s))\<lparr>sch_now := n\<rparr>"
  have now: "sch_now (schedule_all xs (sch_reset s)) = 0"
    and events: "map (\<lambda>e. (ev_cycle e, ev_callback e, ev_label e)) (sch_events q) = sort_key fst xs"
    using schedule_all_sorts [OF assms(1), of s] by (simp_all add: q_def)
  have "map ev_cycle (sch_events q) = map fst (sort_key fst xs)"
    by (simp flip: events)
  then have "sorted (map ev_cycle (sch_events q))"
    by simp
  then have "dispatchDue run (q, m) =
    Some (q\<lparr>sch_events := filter (\<lambda>e. n < ev_cycle e) (sch_events q)\<rparr>,
          fold act (map ev_callback (filter (\<lambda>e. ev_cycle e \<le> n) (sch_events q))) m)"
    using dispatch_due [OF keep, where s = q and m = m] by (simp add: q_def)
  moreover have "advance run n (schedule_all xs (sch_reset s), m) = dispatchDue run (q, m)"
    using now by (simp add: advance_def q_def)
  ultimately show ?thesis
    by (intro exI [of _ "q\<lparr>sch_events := filter (\<lambda>e. n < ev_cycle e) (sch_events q)\<rparr>"])
      (simp add: filter_map o_def q_def [symmetric] flip: events, simp add: q_def)
qed

lemma scheduler_order_witness:
  "\<exists>s'. advance (\<lambda>c (s, m). (s, m @ [c])) 5
        (schedule_all [(5, ''b'', None), (9, ''d'', None), (2, ''a'', None), (5, ''c'', None)]
          (sch_reset \<lparr>sch_events = [], sch_now = 0, sch_nextSequence = 0\<rparr>), [])
      = Some (s', [''a'', ''b'', ''c''])"
proof -
  let ?xs = "[(5, ''b'', None), (9, ''d'', None), (2, ''a'', None), (5, ''c'', None)] :: (u64 \<times> string \<times> string option) list"
  let ?run = "(\<lambda>c (s, m). (s, m @ [c])) :: string \<Rightarrow> string scheduler \<times> string list \<Rightarrow> string scheduler \<times> string list"
  have "fold (\<lambda>c m. m @ [c]) (map (fst \<circ> snd) (filter (\<lambda>x. fst x \<le> 5) (sort_key fst ?xs))) [] = [''a'', ''b'', ''c'']"
    by simp
  then show ?thesis
    using scheduler_order [of ?xs ?run "\<lambda>c m. m @ [c]" 5 "\<lparr>sch_events = [], sch_now = 0, sch_nextSequence = 0\<rparr>" "[]"]
    by auto
qed

end
