(* ===== verification/RomPatcher.thy ===== *)
theory RomPatcher
  imports Prelude
begin

section \<open>ROM patches\<close>

text \<open>
  \<open>RomPatcher.cpp\<close>: named sets of edits for one machine and one ROM.  The SHA-256 of Qt is the argument
  \<open>sha256\<close>.  The bytes of the ROM travel with the result, because \<open>apply\<close> changes its argument.
\<close>

record RomPatchEdit =
  edit_offset :: u32
  expectedBytes :: "u8 list"
  replacementBytes :: "u8 list"

record RomPatchDefinition =
  patch_id :: string
  patch_description :: string
  patch_machineId :: string
  requiredSha256 :: "u8 list"
  patch_edits :: "RomPatchEdit list"

record RomPatchResult =
  patch_success :: bool
  originalSha256 :: "u8 list"
  appliedPatchIds :: "string list"
  patch_error :: string

definition edit :: "u32 \<Rightarrow> u8 list \<Rightarrow> u8 list \<Rightarrow> RomPatchEdit" where
  "edit offset expected replacement =
     \<lparr>edit_offset = offset, expectedBytes = expected, replacementBytes = replacement\<rparr>"

definition allDefinitions :: "RomPatchDefinition list" where
  "allDefinitions =
    [\<lparr>patch_id = ''macplus.skip_ram_pattern_test'',
      patch_description = ''Skip the destructive full-RAM pattern passes while preserving RAM sizing'',
      patch_machineId = ''mac-plus'',
      requiredSha256 = [0xdd, 0x90, 0x8e, 0x2b, 0x65, 0x77, 0x2a, 0x6b, 0x1f, 0x0c, 0x85, 0x9c, 0x24, 0xe9, 0xa0, 0xd3,
        0xdc, 0xde, 0x17, 0xb1, 0xc6, 0xa2, 0x4f, 0x4a, 0xbd, 0x89, 0x55, 0x84, 0x6d, 0x78, 0x95, 0xe7],
      patch_edits = [edit 0x000000 [0x4d, 0x1f, 0x81, 0x72] [0x4d, 0x1f, 0x7a, 0x72],
        edit 0x000e08 [0x67, 0x22] [0x60, 0x22]]\<rparr>,
     \<lparr>patch_id = ''maciicx.skip_ram_pattern_test'',
      patch_description = ''Skip the destructive full-RAM pattern passes while preserving RAM sizing'',
      patch_machineId = ''mac-iicx'',
      requiredSha256 = [0x79, 0xfa, 0xe4, 0x8e, 0x2d, 0x5c, 0xfd, 0xe6, 0x85, 0x20, 0xe4, 0x66, 0x16, 0x50, 0x39, 0x63,
        0xf8, 0xc1, 0x64, 0x30, 0x90, 0x3f, 0x41, 0x05, 0x14, 0xb6, 0x2c, 0x13, 0x79, 0xaf, 0x20, 0xcb],
      patch_edits = [edit 0x00000000 [0x97, 0x22, 0x11, 0x36] [0x97, 0x22, 0x3b, 0xc4],
        edit 0x00003714 [0x24, 0x48] [0x4e, 0xd6]]\<rparr>]"

definition definitionsForMachine :: "string \<Rightarrow> RomPatchDefinition list" where
  "definitionsForMachine machineId = filter (\<lambda>d. patch_machineId d = machineId) allDefinitions"

text \<open>Hexadecimal digits as Qt writes them, lower case.\<close>

definition hex_digit :: "nat \<Rightarrow> char" where
  "hex_digit n = ''0123456789abcdef'' ! n"

fun hex_number :: "nat \<Rightarrow> string" where
  "hex_number n = (if n < 16 then [hex_digit n] else hex_number (n div 16) @ [hex_digit (n mod 16)])"

declare hex_number.simps [simp del]

definition toHex :: "u8 list \<Rightarrow> string" where
  "toHex bytes = concat (map (\<lambda>b. [hex_digit (unat b div 16), hex_digit (unat b mod 16)]) bytes)"

definition quote :: "string \<Rightarrow> string" where
  "quote t = [CHR 0x27] @ t @ [CHR 0x27]"

text \<open>The first loop: the definitions of the enabled patches, or the error.\<close>

fun select_patches ::
    "RomPatchDefinition list \<Rightarrow> string \<Rightarrow> u8 list \<Rightarrow> string list \<Rightarrow> string + RomPatchDefinition list" where
  "select_patches definitions machineId sha [] = Inr []"
| "select_patches definitions machineId sha (patchId # ids) =
    (case find (\<lambda>d. patch_id d = patchId) definitions of
       None \<Rightarrow> Inl (''unknown ROM patch '' @ quote patchId @ '' for machine '' @ quote machineId)
     | Some d \<Rightarrow>
         if requiredSha256 d \<noteq> sha
         then Inl (''ROM patch '' @ quote patchId @ '' does not support ROM SHA-256 '' @ toHex sha)
         else (case select_patches definitions machineId sha ids of Inl e \<Rightarrow> Inl e | Inr ds \<Rightarrow> Inr (d # ds)))"

definition edit_fits :: "u8 list \<Rightarrow> RomPatchEdit \<Rightarrow> bool" where
  "edit_fits romBytes e \<longleftrightarrow>
    length (expectedBytes e) = length (replacementBytes e) \<and>
    edit_offset e + of_nat (length (expectedBytes e)) \<le> of_nat (length romBytes) \<and>
    take (length (expectedBytes e)) (drop (unat (edit_offset e)) romBytes) = expectedBytes e"

text \<open>The second loop: the first edit that does not fit.\<close>

definition verify_edits :: "u8 list \<Rightarrow> RomPatchDefinition list \<Rightarrow> string option" where
  "verify_edits romBytes selected =
    (case find (\<lambda>(d, e). \<not> edit_fits romBytes e) (concat (map (\<lambda>d. map (Pair d) (patch_edits d)) selected)) of
       None \<Rightarrow> None
     | Some (d, e) \<Rightarrow>
         Some (''ROM patch '' @ quote (patch_id d) @ '' failed byte verification at offset 0x'' @
               hex_number (unat (edit_offset e))))"

definition apply_edit :: "RomPatchEdit \<Rightarrow> u8 list \<Rightarrow> u8 list" where
  "apply_edit e bytes =
    (let i = unat (edit_offset e); n = length (replacementBytes e)
     in take i bytes @ replacementBytes e @ drop (i + n) bytes)"

definition applyDefinitions ::
    "(u8 list \<Rightarrow> u8 list) \<Rightarrow> u8 list \<Rightarrow> string \<Rightarrow> string list \<Rightarrow> RomPatchDefinition list \<Rightarrow> RomPatchResult \<times> u8 list" where
  "applyDefinitions sha256 romBytes machineId enabledPatchIds definitions =
    (let sha = sha256 romBytes;
         failed = (\<lambda>e. (\<lparr>patch_success = False, originalSha256 = sha, appliedPatchIds = [], patch_error = e\<rparr>, romBytes));
         done_with = (\<lambda>ids bytes. (\<lparr>patch_success = True, originalSha256 = sha, appliedPatchIds = ids, patch_error = []\<rparr>, bytes))
     in if enabledPatchIds = [] then done_with [] romBytes
        else case select_patches definitions machineId sha enabledPatchIds of
               Inl e \<Rightarrow> failed e
             | Inr selected \<Rightarrow>
                 (case verify_edits romBytes selected of
                    Some e \<Rightarrow> failed e
                  | None \<Rightarrow> done_with (map patch_id selected)
                      (fold (\<lambda>d. fold apply_edit (patch_edits d)) selected romBytes)))"

definition rom_apply ::
    "(u8 list \<Rightarrow> u8 list) \<Rightarrow> u8 list \<Rightarrow> string \<Rightarrow> string list \<Rightarrow> RomPatchResult \<times> u8 list" where
  "rom_apply sha256 romBytes machineId enabledPatchIds =
     applyDefinitions sha256 romBytes machineId enabledPatchIds (definitionsForMachine machineId)"

subsection \<open>All or nothing\<close>

definition in_edit :: "nat \<Rightarrow> RomPatchEdit \<Rightarrow> bool" where
  "in_edit i e \<longleftrightarrow> unat (edit_offset e) \<le> i \<and> i < unat (edit_offset e) + length (replacementBytes e)"

definition edit_inside :: "nat \<Rightarrow> RomPatchEdit \<Rightarrow> bool" where
  "edit_inside n e \<longleftrightarrow> unat (edit_offset e) + length (replacementBytes e) \<le> n \<or> replacementBytes e = []"

lemma apply_edit_bytes:
  assumes "edit_inside (length bytes) e"
  shows "length (apply_edit e bytes) = length bytes"
    and "i < length bytes \<Longrightarrow> \<not> in_edit i e \<Longrightarrow> apply_edit e bytes ! i = bytes ! i"
  using assms by (auto simp: edit_inside_def apply_edit_def Let_def nth_append in_edit_def)

lemma apply_edits_bytes:
  assumes "\<forall>e\<in>set es. edit_inside (length bytes) e"
  shows "length (fold apply_edit es bytes) = length bytes \<and>
    (\<forall>i<length bytes. (\<forall>e\<in>set es. \<not> in_edit i e) \<longrightarrow> fold apply_edit es bytes ! i = bytes ! i)"
  using assms
proof (induction es arbitrary: bytes)
  case (Cons e es)
  then show ?case
    using Cons.IH [of "apply_edit e bytes"] by (simp add: apply_edit_bytes)
qed simp

lemma fitting_edit:
  assumes "edit_fits rom e"
  shows "edit_inside (length rom) e"
proof (cases "expectedBytes e = []")
  case False
  have t: "take (length (expectedBytes e)) (drop (unat (edit_offset e)) rom) = expectedBytes e"
    using assms(1) unfolding edit_fits_def by blast
  have "length (take (length (expectedBytes e)) (drop (unat (edit_offset e)) rom)) = length (expectedBytes e)"
    by (simp only: t)
  then have "length (expectedBytes e) \<le> length rom - unat (edit_offset e)"
    by (simp only: length_take length_drop)
  moreover have "0 < length (expectedBytes e)"
    using False by simp
  ultimately have "unat (edit_offset e) + length (expectedBytes e) \<le> length rom"
    by linarith
  then show ?thesis
    using False assms(1) by (auto simp: edit_fits_def edit_inside_def)
qed (use assms in \<open>auto simp: edit_fits_def edit_inside_def\<close>)

lemma fold_edits:
  "fold (\<lambda>d. fold apply_edit (patch_edits d)) ds bytes = fold apply_edit (concat (map patch_edits ds)) bytes"
  by (induction ds arbitrary: bytes) simp_all

text \<open>Every byte after some edits: the one of the last edit that covers it.\<close>

definition edited_byte :: "RomPatchEdit list \<Rightarrow> nat \<Rightarrow> u8 \<Rightarrow> u8" where
  "edited_byte es i old = (case find (in_edit i) (rev es) of
     None \<Rightarrow> old | Some e \<Rightarrow> replacementBytes e ! (i - unat (edit_offset e)))"

lemma apply_edit_nth:
  assumes "edit_inside (length bytes) e" and "i < length bytes"
  shows "apply_edit e bytes ! i = (if in_edit i e then replacementBytes e ! (i - unat (edit_offset e)) else bytes ! i)"
  using assms by (auto simp: edit_inside_def apply_edit_def Let_def nth_append in_edit_def)

lemma edited_nth:
  assumes "\<forall>e\<in>set es. edit_inside (length bytes) e" and "i < length bytes"
  shows "fold apply_edit es bytes ! i = edited_byte es i (bytes ! i)"
  using assms(1)
proof (induction es rule: rev_induct)
  case (snoc e es)
  moreover have "length (fold apply_edit es bytes) = length bytes"
    using apply_edits_bytes [of es bytes] snoc.prems by simp
  ultimately show ?case
    using assms(2) by (simp add: apply_edit_nth edited_byte_def)
qed (simp add: edited_byte_def)

text \<open>What edits that were verified do.\<close>

lemma verify_edits_None: "verify_edits rom ds = None \<longleftrightarrow> (\<forall>d\<in>set ds. \<forall>e\<in>set (patch_edits d). edit_fits rom e)"
proof
  assume "verify_edits rom ds = None"
  then show "\<forall>d\<in>set ds. \<forall>e\<in>set (patch_edits d). edit_fits rom e"
    by (auto simp: verify_edits_def find_None_iff split: option.splits)
next
  assume "\<forall>d\<in>set ds. \<forall>e\<in>set (patch_edits d). edit_fits rom e"
  then have "find (\<lambda>(d, e). \<not> edit_fits rom e) (concat (map (\<lambda>d. map (Pair d) (patch_edits d)) ds)) = None"
    by (auto simp: find_None_iff)
  then show "verify_edits rom ds = None" by (simp add: verify_edits_def)
qed

lemma verified_edits:
  assumes "verify_edits rom ds = None"
  shows "length (fold (\<lambda>d. fold apply_edit (patch_edits d)) ds rom) = length rom"
    and "\<And>i. i < length rom \<Longrightarrow>
      fold (\<lambda>d. fold apply_edit (patch_edits d)) ds rom ! i = edited_byte (concat (map patch_edits ds)) i (rom ! i)"
proof -
  have fits: "\<forall>e\<in>set (concat (map patch_edits ds)). edit_inside (length rom) e"
    using assms fitting_edit by (auto simp: verify_edits_None)
  show "length (fold (\<lambda>d. fold apply_edit (patch_edits d)) ds rom) = length rom"
    using apply_edits_bytes [OF fits] by (simp add: fold_edits)
  show "\<And>i. i < length rom \<Longrightarrow>
      fold (\<lambda>d. fold apply_edit (patch_edits d)) ds rom ! i = edited_byte (concat (map patch_edits ds)) i (rom ! i)"
    unfolding fold_edits using edited_nth [OF fits] .
qed

lemma applied_length: "length (snd (applyDefinitions sha256 rom m ids ds)) = length rom"
  by (simp add: applyDefinitions_def Let_def verified_edits split: sum.split option.split)

text \<open>When the first loop succeeds, and what it selects: the first definition of each name.\<close>

lemma select_patches_iff:
  "select_patches definitions m sha ids = Inr ds \<longleftrightarrow>
    (\<forall>id\<in>set ids. \<exists>d. find (\<lambda>d. patch_id d = id) definitions = Some d \<and> requiredSha256 d = sha) \<and>
    ds = map (\<lambda>id. the (find (\<lambda>d. patch_id d = id) definitions)) ids"
proof (induction ids arbitrary: ds)
  case (Cons id ids)
  then show ?case
    by (cases ds) (auto split: option.splits if_splits sum.splits, blast?)
qed auto

lemma found_id: "find (\<lambda>d. patch_id d = i) definitions = Some d \<Longrightarrow> patch_id d = i"
  by (auto simp: find_Some_iff)

lemma select_patches_ids:
  "\<forall>id\<in>set ids. \<exists>d. find (\<lambda>d. patch_id d = id) definitions = Some d \<and> requiredSha256 d = sha \<Longrightarrow>
    map patch_id (map (\<lambda>id. the (find (\<lambda>d. patch_id d = id) definitions)) ids) = ids"
  by (induction ids) (auto dest: found_id)

text \<open>
  C40. A ROM is patched entirely or not at all.  A request succeeds exactly when every patch asked for is known, is meant
  for this very ROM by its hash, and all its edits find their old bytes in the ROM.  Then the result names exactly these
  patches, the size is kept, and every byte is that of the last edit of these patches that covers it, in the order they
  were asked for, or the old one where there is none.  Otherwise the ROM is as it was and no patch is named.
\<close>

theorem rom_patched_or_untouched:
  assumes "applyDefinitions sha256 rom m ids definitions = (result, rom')"
    and "patch = (\<lambda>id. find (\<lambda>d. patch_id d = id) definitions)"
    and "edits = concat (map (\<lambda>id. patch_edits (the (patch id))) ids)"
  shows "(patch_success result \<longleftrightarrow>
      (\<forall>id\<in>set ids. \<exists>d. patch id = Some d \<and> requiredSha256 d = sha256 rom \<and> (\<forall>e\<in>set (patch_edits d). edit_fits rom e))) \<and>
    (if patch_success result
     then appliedPatchIds result = ids \<and> length rom' = length rom \<and>
       (\<forall>i<length rom. rom' ! i = (case find (in_edit i) (rev edits) of
          None \<Rightarrow> rom ! i | Some e \<Rightarrow> replacementBytes e ! (i - unat (edit_offset e))))
     else rom' = rom \<and> appliedPatchIds result = [])"
proof (cases "\<forall>id\<in>set ids. \<exists>d. patch id = Some d \<and> requiredSha256 d = sha256 rom")
  case False
  then have "ids \<noteq> []" "\<And>ds. select_patches definitions m (sha256 rom) ids \<noteq> Inr ds"
    by (auto simp: select_patches_iff assms(2))
  then obtain e where "select_patches definitions m (sha256 rom) ids = Inl e" by (meson sum.exhaust)
  with False show ?thesis
    using assms(1) \<open>ids \<noteq> []\<close> by (auto simp: applyDefinitions_def Let_def)
next
  case True
  define ds where "ds = map (\<lambda>id. the (patch id)) ids"
  have sel: "select_patches definitions m (sha256 rom) ids = Inr ds" "map patch_id ds = ids"
    using True select_patches_ids [of ids definitions "sha256 rom"] by (simp_all add: select_patches_iff ds_def assms(2))
  have fits: "(\<forall>id\<in>set ids. \<exists>d. patch id = Some d \<and> requiredSha256 d = sha256 rom \<and> (\<forall>e\<in>set (patch_edits d). edit_fits rom e)) \<longleftrightarrow>
      verify_edits rom ds = None"
    using True by (auto simp: verify_edits_None ds_def)
  have edits: "concat (map patch_edits ds) = edits"
    by (simp add: assms(3) ds_def comp_def)
  show ?thesis
  proof (cases "verify_edits rom ds")
    case (Some e)
    then show ?thesis
      using assms(1) sel fits by (auto simp: applyDefinitions_def ds_def Let_def verify_edits_def split: if_splits)
  next
    case None
    then have "patch_success result" "appliedPatchIds result = ids"
        "rom' = fold (\<lambda>d. fold apply_edit (patch_edits d)) ds rom"
      using assms(1) sel by (auto simp: applyDefinitions_def ds_def Let_def split: if_splits)
    then show ?thesis
      using None fits verified_edits [OF None] by (simp add: edited_byte_def edits)
  qed
qed

lemma rom_patched_or_untouched_witness:
  "\<exists>result rom'. applyDefinitions (\<lambda>_. [1]) [5, 6, 7, 8] ''m'' [''p'']
      [\<lparr>patch_id = ''p'', patch_description = [], patch_machineId = ''m'', requiredSha256 = [1],
        patch_edits = [edit 1 [6, 7] [9, 10]]\<rparr>] = (result, rom')
    \<and> patch_success result \<and> rom' ! 2 = 10 \<and> appliedPatchIds result = [''p'']"
proof -
  let ?d = "[\<lparr>patch_id = ''p'', patch_description = [], patch_machineId = ''m'', requiredSha256 = [1],
    patch_edits = [edit 1 [6, 7] [9, 10]]\<rparr>]"
  obtain r rom where r: "applyDefinitions (\<lambda>_. [1]) [5, 6, 7, 8] ''m'' [''p''] ?d = (r, rom)"
    by fastforce
  then show ?thesis
    using rom_patched_or_untouched [OF r refl refl] by (auto simp: edit_fits_def edit_def in_edit_def)
qed

end
