(* ===== verification/MacPlusDevices.thy ===== *)
theory MacPlusDevices
  imports DeviceBuses Via6522 MacRtc Z8530Scc IwmController ScsiDiskLaws ScsiCdRom MachineScheduler RomPatcher
    "HOL-Library.Signed_Division"
begin

section \<open>The Macintosh Plus around its bus\<close>

text \<open>
  The rest of the object \<open>MacPlusMachine\<close>: the chips behind the memory bus with their wiring, media,
  input, picture and sound.  \<open>mac_plus\<close> of MacPlusBus holds the members the bus decoder uses, its field
  \<open>m_devices\<close> all others, the record \<open>chips\<close>.  Disks and CD-ROM drives are objects of the controller, shared
  by their numbers as the source shares pointers.  Each device has its own view of the host's files.
  Traces and the capture of sound for the debugger are left out.
\<close>

unbundle bit_operations_syntax

type_synonym s16 = "16 word"

definition soundSamples :: u32 where "soundSamples = 370"
definition soundMainOffset :: u32 where "soundMainOffset = 0x300"
definition soundAlternateOffset :: u32 where "soundAlternateOffset = 0x5f00"
definition cyclesPerVideoFrame :: u64 where "cyclesPerVideoFrame = 130560"
definition maxPendingAudioBytes :: nat where "maxPendingAudioBytes = 22255 div 2"
definition inputDebounceCycles :: u64 where "inputDebounceCycles = 130560"
definition lowMemoryMbState :: u32 where "lowMemoryMbState = 0x172"
definition lowMemoryKeyMap :: u32 where "lowMemoryKeyMap = 0x174"
definition lowMemoryMTemp :: u32 where "lowMemoryMTemp = 0x828"
definition lowMemoryRawMouse :: u32 where "lowMemoryRawMouse = 0x82c"
definition lowMemoryMouse :: u32 where "lowMemoryMouse = 0x830"
definition lowMemoryCrsrNew :: u32 where "lowMemoryCrsrNew = 0x8ce"
definition lowMemoryCrsrCouple :: u32 where "lowMemoryCrsrCouple = 0x8cf"
definition screenBase4MiB :: u32 where "screenBase4MiB = 0x3fa700"
definition screenBytes :: nat where "screenBytes = 512 * 342 div 8"

lemmas mac_constants = soundSamples_def soundMainOffset_def soundAlternateOffset_def cyclesPerVideoFrame_def
  maxPendingAudioBytes_def inputDebounceCycles_def lowMemoryMbState_def lowMemoryKeyMap_def lowMemoryMTemp_def
  lowMemoryRawMouse_def lowMemoryMouse_def lowMemoryCrsrNew_def lowMemoryCrsrCouple_def screenBase4MiB_def
  screenBytes_def

subsection \<open>Targets\<close>

text \<open>The two kinds of device on the SCSI bus behind the virtual methods of \<open>ScsiTarget\<close>.\<close>

datatype 'h scsi_object = BlockDevice "'h block_device" | CdRom cd_rom

fun object_ready :: "'h scsi_object \<Rightarrow> bool" where
  "object_ready (BlockDevice d) = hd_ready d"
| "object_ready (CdRom c) = cd_ready c"

fun object_selectable :: "'h scsi_object \<Rightarrow> bool" where
  "object_selectable (BlockDevice d) = hd_ready d"
| "object_selectable (CdRom c) = True"

fun object_executeCommand ::
    "'h host_files \<Rightarrow> u8 list \<Rightarrow> u8 list \<Rightarrow> 'h scsi_object \<Rightarrow> ScsiCommandResult \<times> 'h scsi_object" where
  "object_executeCommand h cdb out (BlockDevice d) = apsnd BlockDevice (hd_executeCommand h cdb out d)"
| "object_executeCommand h cdb out (CdRom c) = apsnd CdRom (cd_executeCommand cdb out c)"

definition object_target :: "'h host_files \<Rightarrow> 'h scsi_object ScsiTarget" where
  "object_target h = \<lparr>target_ready = object_ready, target_selectable = object_selectable,
     target_executeCommand = object_executeCommand h\<rparr>"

fun object_ok :: "'h scsi_object \<Rightarrow> bool" where
  "object_ok (BlockDevice d) = True"
| "object_ok (CdRom c) = cd_ok c"

subsection \<open>State\<close>

datatype GuestInputType = MousePosition | MouseDelta | MouseButton | Key | ResetKeyboard

record GuestInputEvent =
  input_type :: GuestInputType
  input_first :: u32
  input_second :: u32
  input_pressed :: bool

record ('h, 'e) chips =
  m_via :: via
  m_rtc :: "'h rtc"
  m_scc :: "'e scc"
  m_iwm :: "'h iwm"
  m_scsi :: "'h scsi_object ncr"
  m_scsiDisks :: "nat \<Rightarrow> nat option"
  m_scsiCdRoms :: "nat \<Rightarrow> nat option"
  m_objects :: nat
  m_files :: 'h
  m_romLoaded :: bool
  m_romPath :: string
  m_romSha256 :: string
  m_appliedRomPatches :: "string list"
  m_romPatchError :: string
  m_diskImagePath :: string
  m_mouseX :: s16
  m_mouseY :: s16
  m_mouseButtonPressed :: bool
  m_pendingAudio :: "u8 list"
  m_audioCyclePhase :: u64
  m_audioBufferIndex :: u32
  m_viaPortA :: u8
  m_soundVolume :: u8
  m_soundEnabled :: bool
  m_audioPlaybackActive :: bool
  m_scheduler :: "GuestInputEvent scheduler"
  m_lastMouseButtonCycle :: u64
  m_queuedMouseButtonPressed :: bool

type_synonym ('h, 'e) macintosh = "('h, 'e) chips mac_plus"

definition on_chips :: "(('h, 'e) chips \<Rightarrow> ('h, 'e) chips) \<Rightarrow> ('h, 'e) macintosh \<Rightarrow> ('h, 'e) macintosh" where
  "on_chips f m = m\<lparr>m_devices := f (m_devices m)\<rparr>"

text \<open>What the machine is given from outside: the files of the host and the peers of the serial ports.\<close>

record ('h, 'e) outside =
  host :: "'h host_files"
  peer :: "'e SerialEndpoint"
  sha256 :: "u8 list \<Rightarrow> u8 list"

subsection \<open>Wiring of the VIA\<close>

definition setOverlayEnabled :: "bool \<Rightarrow> 'd mac_plus \<Rightarrow> 'd mac_plus" where
  "setOverlayEnabled enabled m = (if m_overlayEnabled m = enabled then m else m\<lparr>m_overlayEnabled := enabled\<rparr>)"

definition portA_callback ::
    "('h, 'e) outside \<Rightarrow> u8 \<Rightarrow> via \<times> ('h, 'e) macintosh \<Rightarrow> via \<times> ('h, 'e) macintosh" where
  "portA_callback out portA p =
     apsnd (\<lambda>m. on_chips (\<lambda>c. c\<lparr>m_iwm := setSideSelect (host out) (portA AND 0x20 \<noteq> 0) (m_iwm c)\<rparr>)
       (setOverlayEnabled (portA AND 0x10 \<noteq> 0)
         (on_chips (\<lambda>c. c\<lparr>m_viaPortA := portA, m_soundVolume := portA AND 0x07\<rparr>) m))) p"

definition portB_callback ::
    "('h, 'e) outside \<Rightarrow> u8 \<Rightarrow> u8 \<Rightarrow> via \<times> ('h, 'e) macintosh \<Rightarrow> via \<times> ('h, 'e) macintosh" where
  "portB_callback out portB ddrB p =
    (let (v, m) = p;
         m = on_chips (\<lambda>c. c\<lparr>m_soundEnabled := ddrB AND 0x80 \<noteq> 0 \<and> portB AND 0x80 = 0,
               m_rtc := rtc_setPins (host out) (portB AND 0x04 = 0) (portB AND 0x02 \<noteq> 0)
                 (portB AND 0x01 \<noteq> 0 \<and> ddrB AND 0x01 \<noteq> 0) (m_rtc c)\<rparr>) m
     in (via_setPortBInputBit 0 (rtc_dataLine (m_rtc (m_devices m))) v, m))"

definition mac_callbacks :: "('h, 'e) outside \<Rightarrow> ('h, 'e) macintosh via_callbacks" where
  "mac_callbacks out = \<lparr>portAChanged = Some (portA_callback out), portBChanged = Some (portB_callback out),
     shiftRegisterWrite = None, shiftRegisterRead = None\<rparr>"

text \<open>An operation of the VIA in its machine: the callbacks see the machine, and the chip is put back.\<close>

definition with_via ::
    "(via \<times> ('h, 'e) macintosh \<Rightarrow> 'a \<times> via \<times> ('h, 'e) macintosh) \<Rightarrow> ('h, 'e) macintosh \<Rightarrow> 'a \<times> ('h, 'e) macintosh" where
  "with_via f m = (let (a, v, m) = f (m_via (m_devices m), m) in (a, on_chips (\<lambda>c. c\<lparr>m_via := v\<rparr>) m))"

definition do_via ::
    "(via \<times> ('h, 'e) macintosh \<Rightarrow> via \<times> ('h, 'e) macintosh) \<Rightarrow> ('h, 'e) macintosh \<Rightarrow> ('h, 'e) macintosh" where
  "do_via f m = snd (with_via (\<lambda>p. ((), f p)) m)"

subsection \<open>The chips on the bus\<close>

definition scc_read :: "u32 \<Rightarrow> ('h, 'e) macintosh \<Rightarrow> u8 \<times> ('h, 'e) macintosh" where
  "scc_read offset m =
    (let k = offset AND 6;
         (v, s) = (if k = 6 then scc_readData ChannelA (m_scc (m_devices m))
                   else if k = 4 then scc_readData ChannelB (m_scc (m_devices m))
                   else if k = 2 then scc_readControl ChannelA (m_scc (m_devices m))
                   else scc_readControl ChannelB (m_scc (m_devices m)))
     in (v, on_chips (\<lambda>c. c\<lparr>m_scc := s\<rparr>) m))"

definition scc_write :: "u32 \<Rightarrow> u8 \<Rightarrow> ('h, 'e) macintosh \<Rightarrow> ('h, 'e) macintosh" where
  "scc_write offset v =
    (let k = offset AND 6
     in on_chips (\<lambda>c. c\<lparr>m_scc :=
          if k = 6 then scc_writeData ChannelA v (m_scc c)
          else if k = 4 then scc_writeData ChannelB v (m_scc c)
          else if k = 2 then scc_writeControl ChannelA v (m_scc c)
          else scc_writeControl ChannelB v (m_scc c)\<rparr>))"

definition chip_register :: "u32 \<Rightarrow> u8" where
  "chip_register offset = ucast (drop_bit 9 offset AND 0x0f)"

definition iwm_chip :: "('h, 'e) outside \<Rightarrow> u32 \<Rightarrow> u8 \<Rightarrow> bool \<Rightarrow> ('h, 'e) macintosh \<Rightarrow> u8 \<times> ('h, 'e) macintosh" where
  "iwm_chip out offset v wr m =
    (let (r, s) = iwm_access (host out) (chip_register offset) v wr (m_iwm (m_devices m))
     in (r, on_chips (\<lambda>c. c\<lparr>m_iwm := s\<rparr>) m))"

definition mac_sccBus :: "('h, 'e) macintosh ByteWideMmioAdapter" where
  "mac_sccBus = \<lparr>wiring_read = ReadMostSignificantLane, wiring_write = WriteLeastSignificantLane,
     wiring_openBus = 0xff, mmio_read = Some scc_read, mmio_write = Some scc_write\<rparr>"

definition mac_iwmBus :: "('h, 'e) outside \<Rightarrow> ('h, 'e) macintosh ByteWideMmioAdapter" where
  "mac_iwmBus out = \<lparr>wiring_read = Replicate, wiring_write = WriteLeastSignificantLane, wiring_openBus = 0xff,
     mmio_read = Some (\<lambda>offset. iwm_chip out offset 0 False),
     mmio_write = Some (\<lambda>offset v m. snd (iwm_chip out offset v True m))\<rparr>"

definition mac_viaBus :: "('h, 'e) outside \<Rightarrow> ('h, 'e) macintosh ByteWideMmioAdapter" where
  "mac_viaBus out = \<lparr>wiring_read = Replicate, wiring_write = WriteMostSignificantLane, wiring_openBus = 0xff,
     mmio_read = Some (\<lambda>offset. with_via (via_readRegister (mac_callbacks out) (chip_register offset))),
     mmio_write = Some (\<lambda>offset v. do_via (via_writeRegister (mac_callbacks out) (chip_register offset) v))\<rparr>"

definition mac_scsiWiring :: ScsiWiring where
  "mac_scsiWiring = \<lparr>registerLane = LeastSignificant, pseudoDmaLane = LeastSignificant, pseudoDmaBurst = False,
     waitForDrq = True\<rparr>"

definition on_scsi ::
    "('h scsi_object ncr \<Rightarrow> 'a \<times> 'h scsi_object ncr) \<Rightarrow> ('h, 'e) macintosh \<Rightarrow> 'a \<times> ('h, 'e) macintosh" where
  "on_scsi f m = (let (v, s) = f (m_scsi (m_devices m)) in (v, on_chips (\<lambda>c. c\<lparr>m_scsi := s\<rparr>) m))"

definition mac_devices :: "('h, 'e) outside \<Rightarrow> ('h, 'e) chips device_buses" where
  "mac_devices out = \<lparr>sccBus_access = mmio_access mac_sccBus, iwmBus_access = mmio_access (mac_iwmBus out),
     viaBus_access = mmio_access (mac_viaBus out),
     scsi_readRegister = (\<lambda>i sz. on_scsi (ncrbus_readRegister mac_scsiWiring i sz)),
     scsi_writeRegister = (\<lambda>i sz v m.
       snd (on_scsi (\<lambda>s. ((), ncrbus_writeRegister (object_target (host out)) mac_scsiWiring i sz v s)) m)),
     scsi_readPseudoDma = (\<lambda>sz. on_scsi (ncrbus_readPseudoDma mac_scsiWiring sz)),
     scsi_writePseudoDma = (\<lambda>sz v m.
       snd (on_scsi (\<lambda>s. ((), ncrbus_writePseudoDma (object_target (host out)) mac_scsiWiring sz v s)) m))\<rparr>"

subsection \<open>Memory without side effects\<close>

definition mac_debugRead8 :: "u32 \<Rightarrow> 'd mac_plus \<Rightarrow> u8" where
  "mac_debugRead8 address m =
    (let address = bus_address address; region = regionFor address m
     in if region = Ram then m_ram m ! unat (ramOffset address m)
        else if region = Rom then readRomByte address m
        else if region = Configuration then 0 else 0xff)"

definition mac_debugRead16 :: "u32 \<Rightarrow> 'd mac_plus \<Rightarrow> u16" where
  "mac_debugRead16 address m =
     push_bit 8 (ucast (mac_debugRead8 address m)) OR ucast (mac_debugRead8 (address + 1) m)"

definition mac_debugRead32 :: "u32 \<Rightarrow> 'd mac_plus \<Rightarrow> u32" where
  "mac_debugRead32 address m =
     push_bit 16 (ucast (mac_debugRead16 address m)) OR ucast (mac_debugRead16 (address + 2) m)"

definition readRam8Direct :: "u32 \<Rightarrow> 'd mac_plus \<Rightarrow> u8" where
  "readRam8Direct address m = m_ram m ! unat (ramOffset address m)"

definition readRam16Direct :: "u32 \<Rightarrow> 'd mac_plus \<Rightarrow> u16" where
  "readRam16Direct address m =
    (let offset = unat (ramOffset address m)
     in push_bit 8 (ucast (m_ram m ! offset)) OR ucast (m_ram m ! (offset + 1)))"

definition readRam32Direct :: "u32 \<Rightarrow> 'd mac_plus \<Rightarrow> u32" where
  "readRam32Direct address m =
    (let offset = unat (ramOffset address m)
     in push_bit 24 (ucast (m_ram m ! offset)) OR push_bit 16 (ucast (m_ram m ! (offset + 1))) OR
        push_bit 8 (ucast (m_ram m ! (offset + 2))) OR ucast (m_ram m ! (offset + 3)))"

definition writeRam8Direct :: "u32 \<Rightarrow> u8 \<Rightarrow> 'd mac_plus \<Rightarrow> 'd mac_plus" where
  "writeRam8Direct address v m =
    (if address < of_nat (length (m_ram m)) then m\<lparr>m_ram := (m_ram m)[unat (ramOffset address m) := v]\<rparr> else m)"

definition writeRam16Direct :: "u32 \<Rightarrow> u16 \<Rightarrow> 'd mac_plus \<Rightarrow> 'd mac_plus" where
  "writeRam16Direct address v m =
     writeRam8Direct (address + 1) (ucast v) (writeRam8Direct address (ucast (drop_bit 8 v)) m)"

definition writeRam32Direct :: "u32 \<Rightarrow> u32 \<Rightarrow> 'd mac_plus \<Rightarrow> 'd mac_plus" where
  "writeRam32Direct address v m =
     writeRam16Direct (address + 2) (ucast v) (writeRam16Direct address (ucast (drop_bit 16 v)) m)"

definition readRom32Direct :: "u32 \<Rightarrow> 'd mac_plus \<Rightarrow> u32" where
  "readRom32Direct offset m =
    (let n = length (m_rom m); offset = unat (offset mod of_nat n); byte = (\<lambda>i. ucast (m_rom m ! ((offset + i) mod n)) :: u32)
     in push_bit 24 (byte 0) OR push_bit 16 (byte 1) OR push_bit 8 (byte 2) OR byte 3)"

definition rom_checksum :: "'d mac_plus \<Rightarrow> u32" where
  "rom_checksum m =
    (\<Sum>i\<leftarrow>[0..<length (m_rom m) div 2].
      ucast (push_bit 8 (ucast (m_rom m ! (2 * i))) OR ucast (m_rom m ! (2 * i + 1)) :: u16))"

subsection \<open>Mouse and keyboard\<close>

definition packed_mouse :: "('h, 'e) chips \<Rightarrow> u32" where
  "packed_mouse c = push_bit 16 (ucast (m_mouseY c)) OR ucast (m_mouseX c)"

definition clamp16 :: "s16 \<Rightarrow> int \<Rightarrow> s16" where
  "clamp16 v hi = word_of_int (min hi (max 0 (sint v)))"

definition setMousePosition :: "s16 \<Rightarrow> s16 \<Rightarrow> ('h, 'e) macintosh \<Rightarrow> ('h, 'e) macintosh" where
  "setMousePosition x y m =
    (let m = on_chips (\<lambda>c. c\<lparr>m_mouseX := clamp16 x 511, m_mouseY := clamp16 y 341\<rparr>) m
     in writeRam8Direct lowMemoryCrsrNew 0xff (writeRam8Direct lowMemoryCrsrCouple 0xff
          (writeRam32Direct lowMemoryMTemp (packed_mouse (m_devices m)) m)))"

definition moveMouse :: "s16 \<Rightarrow> s16 \<Rightarrow> ('h, 'e) macintosh \<Rightarrow> ('h, 'e) macintosh" where
  "moveMouse dx dy m =
    (let currentY = readRam16Direct lowMemoryMTemp m; currentX = readRam16Direct (lowMemoryMTemp + 2) m
     in setMousePosition (currentX + dx) (currentY + dy) m)"

definition setMouseButton :: "bool \<Rightarrow> ('h, 'e) macintosh \<Rightarrow> ('h, 'e) macintosh" where
  "setMouseButton pressed =
     on_chips (\<lambda>c. c\<lparr>m_mouseButtonPressed := pressed, m_via := via_setPortBInputBit 3 (\<not> pressed) (m_via c)\<rparr>)"

definition setKeyState :: "u8 \<Rightarrow> bool \<Rightarrow> ('h, 'e) macintosh \<Rightarrow> ('h, 'e) macintosh" where
  "setKeyState macKeyCode pressed =
     on_chips (\<lambda>c. c\<lparr>m_via := via_queueKeyboardTransition macKeyCode pressed (m_via c)\<rparr>)"

definition resetKeyboard :: "'d mac_plus \<Rightarrow> 'd mac_plus" where
  "resetKeyboard = fold (\<lambda>i. writeRam8Direct (lowMemoryKeyMap + of_nat i) 0) [0..<18]"

definition keyMapBytes :: "'d mac_plus \<Rightarrow> u8 list" where
  "keyMapBytes m = map (\<lambda>i. readRam8Direct (lowMemoryKeyMap + of_nat i) m) [0..<18]"

definition synchronizeMouseLowMemory :: "('h, 'e) macintosh \<Rightarrow> ('h, 'e) macintosh" where
  "synchronizeMouseLowMemory m =
    (let packed = packed_mouse (m_devices m); pressed = m_mouseButtonPressed (m_devices m);
         m = writeRam32Direct lowMemoryMouse packed (writeRam32Direct lowMemoryRawMouse packed
               (writeRam32Direct lowMemoryMTemp packed m));
         m = writeRam8Direct lowMemoryCrsrNew 0xff (writeRam8Direct lowMemoryCrsrCouple 0xff m);
         m = on_chips (\<lambda>c. c\<lparr>m_via := via_setPortBInputBit 3 (\<not> pressed) (m_via c)\<rparr>) m
     in writeRam8Direct lowMemoryMbState (if pressed then 0x00 else 0x80) m)"

definition applyInput :: "GuestInputEvent \<Rightarrow> ('h, 'e) macintosh \<Rightarrow> ('h, 'e) macintosh" where
  "applyInput e m =
    (case input_type e of
       MousePosition \<Rightarrow> setMousePosition (ucast (input_first e)) (ucast (input_second e)) m
     | MouseDelta \<Rightarrow> moveMouse (ucast (input_first e)) (ucast (input_second e)) m
     | MouseButton \<Rightarrow> setMouseButton (input_pressed e) m
     | Key \<Rightarrow> setKeyState (ucast (input_first e)) (input_pressed e) m
     | ResetKeyboard \<Rightarrow> resetKeyboard m)"

definition mac_queueInput :: "GuestInputEvent \<Rightarrow> u64 \<Rightarrow> ('h, 'e) macintosh \<Rightarrow> ('h, 'e) macintosh" where
  "mac_queueInput e cycle m =
    (let c = m_devices m;
         deliveryCycle = max cycle (sch_now (m_scheduler c));
         queue = (\<lambda>d c. c\<lparr>m_scheduler := schedule d e (Some ''guest-input'') (m_scheduler c)\<rparr>)
     in if input_type e = MouseButton
        then if input_pressed e = m_queuedMouseButtonPressed c then m
             else let d = max deliveryCycle (m_lastMouseButtonCycle c + inputDebounceCycles)
                  in on_chips (\<lambda>c. queue d (c\<lparr>m_queuedMouseButtonPressed := input_pressed e, m_lastMouseButtonCycle := d\<rparr>)) m
        else on_chips (queue deliveryCycle) m)"

text \<open>The scheduler of the machine runs \<open>applyInput\<close>, which leaves the scheduler alone.\<close>

definition mac_dispatch ::
    "(GuestInputEvent scheduler \<times> ('h, 'e) macintosh \<Rightarrow> (GuestInputEvent scheduler \<times> ('h, 'e) macintosh) option) \<Rightarrow>
     ('h, 'e) macintosh \<Rightarrow> ('h, 'e) macintosh option" where
  "mac_dispatch f m =
     map_option (\<lambda>(s, m). on_chips (\<lambda>c. c\<lparr>m_scheduler := s\<rparr>) m) (f (m_scheduler (m_devices m), m))"

definition run_input :: "GuestInputEvent \<Rightarrow> 's \<times> ('h, 'e) macintosh \<Rightarrow> 's \<times> ('h, 'e) macintosh" where
  "run_input e = apsnd (applyInput e)"

subsection \<open>Picture and sound\<close>

definition mac_framebufferBytes :: "'d mac_plus \<Rightarrow> u8 list" where
  "mac_framebufferBytes m = map (\<lambda>i. mac_debugRead8 (screenBase4MiB + of_nat i) m) [0..<screenBytes]"

definition fnv_hash :: "u8 list \<Rightarrow> u32" where
  "fnv_hash bytes = fold (\<lambda>b hash. (hash XOR ucast b) * 16777619) bytes 2166136261"

definition mac_framebufferHash :: "'d mac_plus \<Rightarrow> u32" where
  "mac_framebufferHash m = fnv_hash (mac_framebufferBytes m)"

definition soundBufferBase :: "bool \<Rightarrow> 'd mac_plus \<Rightarrow> u32" where
  "soundBufferBase mainPage m =
    (let offset = (if mainPage then soundMainOffset else soundAlternateOffset)
     in if offset \<le> of_nat (length (m_ram m)) then of_nat (length (m_ram m)) - offset else 0)"

definition soundBufferBytes :: "'d mac_plus \<Rightarrow> u8 list" where
  "soundBufferBytes m =
     map (\<lambda>i. mac_debugRead8 (soundBufferBase True m + of_nat i * 2) m) [0..<unat soundSamples]"

definition soundBufferHash :: "'d mac_plus \<Rightarrow> u32" where
  "soundBufferHash m = fnv_hash (soundBufferBytes m)"

text \<open>One sample, stored as the two bytes of a 16-bit integer of the host, the low one first.\<close>

definition sound_sample :: "('h, 'e) macintosh \<Rightarrow> s16" where
  "sound_sample m =
    (let c = m_devices m
     in if m_soundEnabled c
        then let base = soundBufferBase (m_viaPortA c AND 0x08 \<noteq> 0) m;
                 source = uint (mac_debugRead8 (base + m_audioBufferIndex c * 2) m) - 128
             in word_of_int (source * 256 sdiv (8 - uint (m_soundVolume c)))
        else 0)"

definition audio_sample :: "('h, 'e) macintosh \<Rightarrow> ('h, 'e) macintosh" where
  "audio_sample m =
    (let sample = sound_sample m
     in on_chips (\<lambda>c. c\<lparr>m_audioPlaybackActive := m_audioPlaybackActive c \<or> sample \<noteq> 0,
          m_pendingAudio := m_pendingAudio c @ [ucast sample, ucast (drop_bit 8 sample)],
          m_audioBufferIndex := (m_audioBufferIndex c + 1) mod soundSamples\<rparr>) m)"

function audio_loop :: "u64 \<Rightarrow> ('h, 'e) macintosh \<Rightarrow> u64 \<times> ('h, 'e) macintosh" where
  "audio_loop phase m =
    (if cyclesPerVideoFrame \<le> phase then audio_loop (phase - cyclesPerVideoFrame) (audio_sample m) else (phase, m))"
  by pat_completeness auto
termination
  by (relation "measure (\<lambda>(phase, m). unat phase)") (auto simp: cyclesPerVideoFrame_def word_le_nat_alt unat_sub)

declare audio_loop.simps [simp del]

definition advanceAudio :: "int \<Rightarrow> ('h, 'e) macintosh \<Rightarrow> ('h, 'e) macintosh" where
  "advanceAudio cycles m =
    (let (phase, m) = audio_loop (m_audioCyclePhase (m_devices m) + word_of_int cycles * ucast soundSamples) m
     in on_chips (\<lambda>c. let n = length (m_pendingAudio c)
          in c\<lparr>m_audioCyclePhase := phase,
               m_pendingAudio := if maxPendingAudioBytes < n then drop (n - maxPendingAudioBytes) (m_pendingAudio c)
                                 else m_pendingAudio c\<rparr>) m)"

definition mac_takeAudioFrame :: "('h, 'e) macintosh \<Rightarrow> u8 list \<times> ('h, 'e) macintosh" where
  "mac_takeAudioFrame m = (m_pendingAudio (m_devices m), on_chips (\<lambda>c. c\<lparr>m_pendingAudio := []\<rparr>) m)"

subsection \<open>ROM and media\<close>

fun machineIdForModel :: "Model \<Rightarrow> string" where
  "machineIdForModel Macintosh128K = ''mac-128k''"
| "machineIdForModel Macintosh512K = ''mac-512k''"
| "machineIdForModel Macintosh512Ke = ''mac-512ke''"
| "machineIdForModel MacintoshPlus = ''mac-plus''"

definition modelSupportsDoubleSidedFloppy :: "Model \<Rightarrow> bool" where
  "modelSupportsDoubleSidedFloppy model \<longleftrightarrow> model = Macintosh512Ke \<or> model = MacintoshPlus"

definition romSizeForModel :: "Model \<Rightarrow> nat" where
  "romSizeForModel model = (if model = Macintosh128K \<or> model = Macintosh512K then 64 * 1024 else 128 * 1024)"

record MachineProfile =
  profile_id :: string
  profile_displayName :: string
  profile_cpuModel :: string
  profile_reusableDevices :: "string list"
  profile_supportedRamSizesKiB :: "int list"
  profile_nubusSlots :: "int list"
  profile_ramPatternPatchId :: string
  profile_onboardVideoName :: string

definition configurationProfile :: "Model \<Rightarrow> MachineProfile" where
  "configurationProfile model =
    (let p = \<lparr>profile_id = machineIdForModel model, profile_displayName = [], profile_cpuModel = ''68000'',
               profile_reusableDevices = [''device.via6522'', ''device.scc.z8530'', ''device.iwm'',
                 ''device.video.compact-mac'', ''device.audio.compact-mac''],
               profile_supportedRamSizesKiB = [], profile_nubusSlots = [], profile_ramPatternPatchId = [],
               profile_onboardVideoName = []\<rparr>
     in case model of
          Macintosh128K \<Rightarrow> p\<lparr>profile_displayName := ''Macintosh 128K'', profile_supportedRamSizesKiB := [128]\<rparr>
        | Macintosh512K \<Rightarrow> p\<lparr>profile_displayName := ''Macintosh 512K'', profile_supportedRamSizesKiB := [512]\<rparr>
        | Macintosh512Ke \<Rightarrow> p\<lparr>profile_displayName := ''Macintosh 512Ke'', profile_supportedRamSizesKiB := [512],
            profile_reusableDevices := profile_reusableDevices p @ [''device.rtc.pram'']\<rparr>
        | MacintoshPlus \<Rightarrow> p\<lparr>profile_displayName := ''Macintosh Plus'', profile_supportedRamSizesKiB := [1024, 2560, 4096],
            profile_reusableDevices := profile_reusableDevices p @ [''device.scsi.ncr5380'', ''device.rtc.pram''],
            profile_ramPatternPatchId := ''macplus.skip_ram_pattern_test''\<rparr>)"

definition mac_loadRomFile :: "('h, 'e) outside \<Rightarrow> string \<Rightarrow> string list \<Rightarrow> ('h, 'e) macintosh \<Rightarrow> bool \<times> ('h, 'e) macintosh" where
  "mac_loadRomFile out path enabledPatches m =
    (let m = on_chips (\<lambda>c. c\<lparr>m_romLoaded := False, m_romPath := path, m_romSha256 := [], m_appliedRomPatches := [],
               m_romPatchError := []\<rparr>) m
     in case read_file (host out) path (m_files (m_devices m)) of
          None \<Rightarrow> (False, m)
        | Some data \<Rightarrow>
            if length data \<noteq> length (m_rom m) then (False, m)
            else
              let (result, data) = rom_apply (sha256 out) data (machineIdForModel (m_model m)) enabledPatches;
                  m = on_chips (\<lambda>c. c\<lparr>m_romSha256 := toHex (originalSha256 result), m_romPatchError := patch_error result\<rparr>) m
              in if \<not> patch_success result then (False, m)
                 else (True, on_chips (\<lambda>c. c\<lparr>m_romLoaded := True, m_appliedRomPatches := appliedPatchIds result\<rparr>)
                               (m\<lparr>m_rom := data\<rparr>)))"

definition new_disk :: "'h \<Rightarrow> 'h block_device" where
  "new_disk w = \<lparr>hd_image = [], hd_imagePath = [], hd_readOnly = False, hd_senseKey = 0, hd_activityCounter = 0, hd_host = w\<rparr>"

definition store_object :: "nat \<Rightarrow> 'h scsi_object \<Rightarrow> ('h, 'e) chips \<Rightarrow> ('h, 'e) chips" where
  "store_object n x c = c\<lparr>m_scsi := (m_scsi c)\<lparr>ncr_objects := (ncr_objects (m_scsi c))(n := x)\<rparr>\<rparr>"

definition mac_loadScsiDisk :: "('h, 'e) outside \<Rightarrow> int \<Rightarrow> string \<Rightarrow> bool \<Rightarrow> ('h, 'e) macintosh \<Rightarrow> bool \<times> ('h, 'e) macintosh" where
  "mac_loadScsiDisk out i path readOnly m =
    (if \<not> modelHasScsi (m_model m) then (False, m)
     else if i < 0 \<or> 7 \<le> i then (False, m)
     else
       let (ok, disk) = hd_loadImage (host out) path readOnly (new_disk (m_files (m_devices m)))
       in if \<not> ok then (False, m)
          else (True, on_chips (\<lambda>c.
            let n = m_objects c; k = nat i;
                c = store_object n (BlockDevice disk) (c\<lparr>m_objects := n + 1\<rparr>);
                c = c\<lparr>m_scsiCdRoms := (m_scsiCdRoms c)(k := None), m_scsiDisks := (m_scsiDisks c)(k := Some n),
                      m_diskImagePath := if i = 0 then path else m_diskImagePath c\<rparr>
            in c\<lparr>m_scsi := attachTarget (of_nat k) n (m_scsi c)\<rparr>) m))"

definition mac_loadDiskImage :: "('h, 'e) outside \<Rightarrow> string \<Rightarrow> ('h, 'e) macintosh \<Rightarrow> bool \<times> ('h, 'e) macintosh" where
  "mac_loadDiskImage out path m =
    (if \<not> modelHasScsi (m_model m) then (False, m) else mac_loadScsiDisk out 0 path False m)"

fun the_cd :: "'h scsi_object \<Rightarrow> cd_rom" where
  "the_cd (CdRom c) = c"
| "the_cd (BlockDevice d) = cd_init"

fun object_eject :: "'h scsi_object \<Rightarrow> 'h scsi_object" where
  "object_eject (CdRom c) = CdRom (cd_eject c)"
| "object_eject (BlockDevice d) = BlockDevice (hd_eject d)"

definition mac_loadScsiCdRom :: "('h, 'e) outside \<Rightarrow> int \<Rightarrow> string \<Rightarrow> ('h, 'e) macintosh \<Rightarrow> bool \<times> ('h, 'e) macintosh" where
  "mac_loadScsiCdRom out i path m =
    (if \<not> modelHasScsi (m_model m) then (False, m)
     else if i < 0 \<or> 7 \<le> i then (False, m)
     else
       let c = m_devices m; k = nat i;
           (n, cdRom, next) =
             (case m_scsiCdRoms c k of
                Some n \<Rightarrow> (n, the_cd (ncr_objects (m_scsi c) n), m_objects c)
              | None \<Rightarrow> (m_objects c, cd_init, m_objects c + 1));
           (ok, cdRom) = (if path = [] then (True, cdRom) else cd_loadImage (host out) (m_files c) path cdRom)
       in if \<not> ok then (False, m)
          else (True, on_chips (\<lambda>c.
            let c = store_object n (CdRom cdRom) (c\<lparr>m_objects := next\<rparr>);
                c = c\<lparr>m_scsiDisks := (m_scsiDisks c)(k := None), m_scsiCdRoms := (m_scsiCdRoms c)(k := Some n)\<rparr>
            in c\<lparr>m_scsi := attachTarget (of_nat k) n (m_scsi c)\<rparr>) m))"

definition eject_object :: "nat option \<Rightarrow> ('h, 'e) chips \<Rightarrow> ('h, 'e) chips" where
  "eject_object object c =
    (case object of None \<Rightarrow> c | Some n \<Rightarrow> store_object n (object_eject (ncr_objects (m_scsi c) n)) c)"

definition mac_ejectScsiCdRom :: "int \<Rightarrow> ('h, 'e) macintosh \<Rightarrow> ('h, 'e) macintosh" where
  "mac_ejectScsiCdRom i m =
    (if \<not> modelHasScsi (m_model m) \<or> i < 0 \<or> 7 \<le> i then m
     else on_chips (\<lambda>c. eject_object (m_scsiCdRoms c (nat i)) c) m)"

definition mac_ejectScsiDevice :: "int \<Rightarrow> ('h, 'e) macintosh \<Rightarrow> ('h, 'e) macintosh" where
  "mac_ejectScsiDevice i m =
    (if \<not> modelHasScsi (m_model m) \<or> i < 0 \<or> 7 \<le> i then m
     else on_chips (\<lambda>c.
       let k = nat i;
           c = eject_object (m_scsiDisks c k) c;
           c = eject_object (m_scsiCdRoms c k) c
       in c\<lparr>m_scsi := detachTarget (of_nat k) (m_scsi c), m_scsiDisks := (m_scsiDisks c)(k := None),
            m_scsiCdRoms := (m_scsiCdRoms c)(k := None),
            m_diskImagePath := if i = 0 then [] else m_diskImagePath c\<rparr>) m)"

definition mac_ejectDiskImage :: "('h, 'e) macintosh \<Rightarrow> ('h, 'e) macintosh" where
  "mac_ejectDiskImage m = on_chips (\<lambda>c. c\<lparr>m_diskImagePath := []\<rparr>) (mac_ejectScsiDevice 0 m)"

definition drive_at :: "int \<Rightarrow> 'h iwm \<Rightarrow> 'h floppy" where
  "drive_at drive s = (if drive = 1 then iwm_externalDrive s else iwm_internalDrive s)"

definition mac_loadFloppyImage ::
    "('h, 'e) outside \<Rightarrow> int \<Rightarrow> string \<Rightarrow> bool \<Rightarrow> ('h, 'e) macintosh \<Rightarrow> bool \<times> ('h, 'e) macintosh" where
  "mac_loadFloppyImage out drive path readOnly m =
    (let (ok, s) = loadFloppyImage (host out) drive path readOnly (m_iwm (m_devices m));
         d = drive_at drive s
     in if \<not> ok then (False, on_chips (\<lambda>c. c\<lparr>m_iwm := s\<rparr>) m)
        else if \<not> modelSupportsDoubleSidedFloppy (m_model m) \<and> (fd_doubleSided d \<or> fd_highDensity d)
        then (False, on_chips (\<lambda>c. c\<lparr>m_iwm := ejectFloppyImage (host out) drive s\<rparr>) m)
        else (True, on_chips (\<lambda>c. c\<lparr>m_iwm := s\<rparr>) m))"

definition mac_ejectFloppyImage :: "('h, 'e) outside \<Rightarrow> int \<Rightarrow> ('h, 'e) macintosh \<Rightarrow> ('h, 'e) macintosh" where
  "mac_ejectFloppyImage out drive = on_chips (\<lambda>c. c\<lparr>m_iwm := ejectFloppyImage (host out) drive (m_iwm c)\<rparr>)"

definition mac_attachSerialEndpoint :: "int \<Rightarrow> 'e option \<Rightarrow> ('h, 'e) macintosh \<Rightarrow> ('h, 'e) macintosh" where
  "mac_attachSerialEndpoint channel e =
     on_chips (\<lambda>c. c\<lparr>m_scc := attachEndpoint (if channel = 0 then ChannelA else ChannelB) e (m_scc c)\<rparr>)"

fun object_activity :: "'h scsi_object \<Rightarrow> u64" where
  "object_activity (BlockDevice d) = hd_activityCounter d"
| "object_activity (CdRom c) = cd_activityCounter c"

definition mac_diskActivityCounter :: "('h, 'e) chips \<Rightarrow> u64" where
  "mac_diskActivityCounter c =
    (let of_object = (\<lambda>n. case n of None \<Rightarrow> 0 | Some n \<Rightarrow> object_activity (ncr_objects (m_scsi c) n))
     in (\<Sum>k\<leftarrow>[0..<7]. of_object (m_scsiDisks c k)) + (\<Sum>k\<leftarrow>[0..<7]. of_object (m_scsiCdRoms c k)) +
        activityCounter (m_iwm c))"

fun object_path :: "'h scsi_object \<Rightarrow> string" where
  "object_path (BlockDevice d) = hd_imagePath d"
| "object_path (CdRom c) = cd_imagePath c"

definition mac_scsiImagePath :: "int \<Rightarrow> ('h, 'e) chips \<Rightarrow> string" where
  "mac_scsiImagePath i c =
    (if i < 0 \<or> 7 \<le> i then []
     else case m_scsiCdRoms c (nat i) of
            Some n \<Rightarrow> object_path (ncr_objects (m_scsi c) n)
          | None \<Rightarrow> (case m_scsiDisks c (nat i) of Some n \<Rightarrow> object_path (ncr_objects (m_scsi c) n) | None \<Rightarrow> []))"

subsection \<open>Reset\<close>

text \<open>The loop that attaches the targets again.\<close>

definition reattach :: "nat \<Rightarrow> ('h, 'e) chips \<Rightarrow> ('h, 'e) chips" where
  "reattach k c =
    (case m_scsiDisks c k of
       Some n \<Rightarrow>
         (if object_ready (ncr_objects (m_scsi c) n) then c\<lparr>m_scsi := attachTarget (of_nat k) n (m_scsi c)\<rparr>
          else case m_scsiCdRoms c k of
                 None \<Rightarrow> c
               | Some n \<Rightarrow>
                   let c = store_object n (CdRom (cd_acknowledgeMediaChange (the_cd (ncr_objects (m_scsi c) n)))) c
                   in c\<lparr>m_scsi := attachTarget (of_nat k) n (m_scsi c)\<rparr>)
     | None \<Rightarrow>
         (case m_scsiCdRoms c k of
            None \<Rightarrow> c
          | Some n \<Rightarrow>
              let c = store_object n (CdRom (cd_acknowledgeMediaChange (the_cd (ncr_objects (m_scsi c) n)))) c
              in c\<lparr>m_scsi := attachTarget (of_nat k) n (m_scsi c)\<rparr>))"

text \<open>\<open>reset\<close> up to the reset of the processor.\<close>

definition reset_chips :: "('h, 'e) outside \<Rightarrow> ('h, 'e) macintosh \<Rightarrow> ('h, 'e) macintosh" where
  "reset_chips out m =
    (let m = m\<lparr>m_accessSummary := \<lparr>ramReads = 0, ramWrites = 0, romReads = 0, sccReads = 0, sccWrites = 0,
               iwmReads = 0, iwmWrites = 0, viaReads = 0, viaWrites = 0, scsiReads = 0, scsiWrites = 0,
               configurationReads = 0, unmappedReads = 0, unmappedWrites = 0\<rparr>,
             m_ram := replicate (length (m_ram m)) 0\<rparr>;
         m = on_chips (\<lambda>c. c\<lparr>m_pendingAudio := [], m_audioCyclePhase := 0, m_audioBufferIndex := 0,
               m_audioPlaybackActive := False, m_scc := scc_reset (peer out) (m_scc c),
               m_iwm := iwm_reset (host out) (m_iwm c), m_scsi := ncr_reset (m_scsi c)\<rparr>) m;
         m = on_chips (fold reattach [0..<7]) m;
         m = on_chips (\<lambda>c. c\<lparr>m_rtc := rtc_resetSerial (m_rtc c)\<rparr>) m;
         m = do_via (via_reset (mac_callbacks out)) m;
         m = on_chips (\<lambda>c. c\<lparr>m_scheduler := sch_reset (m_scheduler c), m_lastMouseButtonCycle := 0,
               m_queuedMouseButtonPressed := False\<rparr>) m
     in setOverlayEnabled True m)"

text \<open>The time of an instruction on the VIA and the sound.\<close>

definition pass_time :: "('h, 'e) outside \<Rightarrow> int \<Rightarrow> ('h, 'e) macintosh \<Rightarrow> ('h, 'e) macintosh" where
  "pass_time out elapsed m = advanceAudio elapsed (do_via (via_tick (mac_callbacks out) elapsed) m)"

subsection \<open>Construction\<close>

definition new_iwm :: "'h \<Rightarrow> 'h iwm" where
  "new_iwm w = \<lparr>iwm_lines = (\<lambda>_. False), iwm_internalDrive = floppy_init w, iwm_externalDrive = floppy_init w,
     iwm_mode = 0, iwm_status = 0, iwm_selectedDriveRegister = 0, iwm_stepTowardTrackZero = False,
     iwm_sideSelect = False, iwm_tach = False, iwm_dataReads = 0, iwm_statusReads = 0, iwm_handshakeReads = 0,
     iwm_dataWrites = 0, swim_mode = False, swim_transition = 0, swim_modeRegister = 0, swim_setup = 0,
     swim_phases = 0, swim_parameters = (\<lambda>_. 0), swim_parameterIndex = 0, swim_error = 0,
     swim_phaseStrobe = False, iwm_mediaEjected = [], iwm_host = w\<rparr>"

definition new_ncr :: "'t \<Rightarrow> 't ncr" where
  "new_ncr t = \<lparr>ncr_registers = (\<lambda>_. 0), ncr_targets = (\<lambda>_. None), ncr_objects = (\<lambda>_. t), ncr_activeTarget = None,
     ncr_command = [], ncr_dataBuffer = [], ncr_dataOut = [], ncr_dataIndex = 0, ncr_expectedDataOut = 0,
     ncr_phase = BusFree, ncr_targetCommand = 0, ncr_outputData = 0, ncr_activeTargetId = 0xff, ncr_status = 0,
     ncr_message = 0, ncr_senseKey = 0, ncr_completedCommands = 0, ncr_selected = False, ncr_request = False,
     ncr_requestReassertPending = False, ncr_dataOutCompletionPending = False, ncr_previousAck = False,
     ncr_commandReady = False, ncr_lastCommand = [], ncr_commandTrace = []\<rparr>"

definition new_scc :: "'e scc" where
  "new_scc = \<lparr>scc_channelA = channel_init, scc_channelB = channel_init, scc_endpointA = None, scc_endpointB = None\<rparr>"

definition new_chips :: "'h \<Rightarrow> ('h, 'e) chips" where
  "new_chips w = \<lparr>m_via = via_init, m_rtc = rtc_init w, m_scc = new_scc, m_iwm = new_iwm w,
     m_scsi = new_ncr (BlockDevice (new_disk w)), m_scsiDisks = (\<lambda>_. None), m_scsiCdRoms = (\<lambda>_. None), m_objects = 0,
     m_files = w, m_romLoaded = False, m_romPath = [], m_romSha256 = [], m_appliedRomPatches = [],
     m_romPatchError = [], m_diskImagePath = [], m_mouseX = 15, m_mouseY = 15, m_mouseButtonPressed = False,
     m_pendingAudio = [], m_audioCyclePhase = 0, m_audioBufferIndex = 0, m_viaPortA = 0x7b, m_soundVolume = 3,
     m_soundEnabled = False, m_audioPlaybackActive = False,
     m_scheduler = \<lparr>sch_events = [], sch_now = 0, sch_nextSequence = 0\<rparr>, m_lastMouseButtonCycle = 0,
     m_queuedMouseButtonPressed = False\<rparr>"

text \<open>The constructor without its processor; installing the port B callback calls it.\<close>

definition new_macintosh :: "('h, 'e) outside \<Rightarrow> 'h \<Rightarrow> nat \<Rightarrow> string \<Rightarrow> Model \<Rightarrow> ('h, 'e) macintosh" where
  "new_macintosh out w ramSize nvramPath model =
    (let m = \<lparr>m_model = model, m_overlayEnabled = True, m_ram = replicate ramSize 0,
               m_rom = replicate (romSizeForModel model) 0,
               m_accessSummary = \<lparr>ramReads = 0, ramWrites = 0, romReads = 0, sccReads = 0, sccWrites = 0,
                 iwmReads = 0, iwmWrites = 0, viaReads = 0, viaWrites = 0, scsiReads = 0, scsiWrites = 0,
                 configurationReads = 0, unmappedReads = 0, unmappedWrites = 0\<rparr>,
               m_devices = new_chips w\<rparr>;
         m = on_chips (\<lambda>c. c\<lparr>m_rtc := snd (rtc_setNvramImagePath (host out) nvramPath (m_rtc c))\<rparr>) m
     in do_via (notifyPortB_register (mac_callbacks out)) m)"

end
