(* ===== verification/FloppyLaws.thy ===== *)
theory FloppyLaws
  imports FloppyDiskImage "HOL-Library.Multiset"
begin

section \<open>Laws of the floppy drive\<close>

text \<open>
  The numbering of the sectors of a disk, the interleave, what a write does to the image and what the
  head reads afterwards, and the invariant of the drive.
\<close>

subsection \<open>Geometry\<close>

text \<open>The first block of a track, by recursion over the tracks below it.\<close>

definition track_start :: "bool \<Rightarrow> nat \<Rightarrow> int" where
  "track_start ds t = firstBlockForTrack (int t) 0 ds"

definition heads :: "bool \<Rightarrow> int" where
  "heads ds = (if ds then 2 else 1)"

lemma track_start_0 [simp]: "track_start ds 0 = 0"
  by (simp add: track_start_def firstBlockForTrack_def Let_def)

lemma track_start_Suc: "track_start ds (Suc t) = track_start ds t + sectorsForTrack (int t) * heads ds"
proof -
  have "[0 .. int (Suc t) - 1] = [0 .. int t - 1] @ [int t]"
    by (simp add: upto_rec2)
  then show ?thesis by (simp add: track_start_def firstBlockForTrack_def heads_def Let_def)
qed

lemma first_block_eq:
  "0 \<le> t \<Longrightarrow> firstBlockForTrack t side ds =
    track_start ds (nat t) + (if ds then side * sectorsForTrack t else 0)"
  by (simp add: track_start_def firstBlockForTrack_def Let_def)

lemma sectors_pos: "8 \<le> sectorsForTrack t" "sectorsForTrack t \<le> 12"
  by (simp_all add: sectorsForTrack_def)

lemma track_start_mono: "t \<le> u \<Longrightarrow> track_start ds t \<le> track_start ds u"
proof (induction u rule: dec_induct)
  case (step n)
  then show ?case using sectors_pos [of "int n"] by (cases ds) (simp_all add: track_start_Suc heads_def)
qed simp

lemma track_start_80: "track_start ds 80 = 800 * heads ds"
proof -
  have "track_start ds n = (\<Sum>t<n. sectorsForTrack (int t)) * heads ds" for n
    by (induction n) (simp_all add: track_start_Suc algebra_simps)
  moreover have "(\<Sum>t<80. sectorsForTrack (int t)) = 800"
    by (simp add: sectorsForTrack_def eval_nat_numeral lessThan_Suc)
  ultimately show ?thesis by simp
qed

text \<open>The sectors of a disk with the given number of heads, and the block of one.\<close>

definition disk_sectors :: "bool \<Rightarrow> (int \<times> int \<times> int) set" where
  "disk_sectors ds = {(t, d, k). 0 \<le> t \<and> t < 80 \<and> 0 \<le> d \<and> d < heads ds \<and> 0 \<le> k \<and> k < sectorsForTrack t}"

definition block_of :: "bool \<Rightarrow> int \<times> int \<times> int \<Rightarrow> int" where
  "block_of ds = (\<lambda>(t, d, k). firstBlockForTrack t d ds + k)"

lemma block_in_track:
  assumes "(t, d, k) \<in> disk_sectors ds"
  shows "track_start ds (nat t) \<le> block_of ds (t, d, k)" "block_of ds (t, d, k) < track_start ds (Suc (nat t))"
proof -
  have "d = 0 \<or> ds \<and> d = 1" using assms by (auto simp: disk_sectors_def heads_def split: if_splits)
  then show "track_start ds (nat t) \<le> block_of ds (t, d, k)"
    "block_of ds (t, d, k) < track_start ds (Suc (nat t))"
    using assms sectors_pos [of t]
    by (auto simp: disk_sectors_def block_of_def first_block_eq track_start_Suc heads_def)
qed

lemma block_in_disk: "x \<in> disk_sectors ds \<Longrightarrow> 0 \<le> block_of ds x \<and> block_of ds x < 800 * heads ds"
proof -
  assume x: "x \<in> disk_sectors ds"
  obtain t d k where e: "x = (t, d, k)" by (cases x)
  have "nat t < 80" using x by (simp add: e disk_sectors_def nat_less_iff)
  then show ?thesis
    using block_in_track [OF x [unfolded e]] track_start_mono [of 0 "nat t" ds]
      track_start_mono [of "Suc (nat t)" 80 ds] by (simp add: e track_start_80)
qed

lemma block_inj:
  assumes "x \<in> disk_sectors ds" "y \<in> disk_sectors ds" "block_of ds x = block_of ds y"
  shows "x = y"
proof -
  obtain t d k u e l where xy: "x = (t, d, k)" "y = (u, e, l)" by (cases x, cases y)
  have "nat t = nat u"
  proof (rule linorder_cases [of "nat t" "nat u"])
    assume "nat t < nat u"
    then show ?thesis
      using block_in_track(2) [of t d k ds] block_in_track(1) [of u e l ds] assms
        track_start_mono [OF Suc_leI, of "nat t" "nat u" ds] by (simp add: xy)
  next
    assume "nat u < nat t"
    then show ?thesis
      using block_in_track(1) [of t d k ds] block_in_track(2) [of u e l ds] assms
        track_start_mono [OF Suc_leI, of "nat u" "nat t" ds] by (simp add: xy)
  qed
  then have t: "t = u" using assms(1,2) by (simp add: xy disk_sectors_def eq_nat_nat_iff)
  have "(d = 0 \<or> ds \<and> d = 1) \<and> (e = 0 \<or> ds \<and> e = 1)"
    using assms(1,2) by (auto simp: xy disk_sectors_def heads_def split: if_splits)
  with assms show ?thesis
    by (auto simp: xy t disk_sectors_def block_of_def first_block_eq)
qed

lemma block_onto: "0 \<le> b \<Longrightarrow> b < track_start ds n \<Longrightarrow> n \<le> 80 \<Longrightarrow> \<exists>x \<in> disk_sectors ds. block_of ds x = b"
proof (induction n)
  case (Suc n)
  show ?case
  proof (cases "b < track_start ds n")
    case False
    let ?k = "b - track_start ds n" and ?m = "sectorsForTrack (int n)"
    have k: "0 \<le> ?k" "?k < ?m * heads ds" using False Suc.prems by (simp_all add: track_start_Suc)
    show ?thesis
    proof (cases "?k < ?m")
      case True
      then have "(int n, 0, ?k) \<in> disk_sectors ds" "block_of ds (int n, 0, ?k) = b"
        using k Suc.prems by (simp_all add: disk_sectors_def heads_def block_of_def first_block_eq)
      then show ?thesis by blast
    next
      case False
      then have "ds" using k by (cases ds) (simp_all add: heads_def)
      then have "(int n, 1, ?k - ?m) \<in> disk_sectors ds" "block_of ds (int n, 1, ?k - ?m) = b"
        using False k Suc.prems by (simp_all add: disk_sectors_def heads_def block_of_def first_block_eq)
      then show ?thesis by blast
    qed
  qed (use Suc in simp)
qed simp

lemma interleave_eval:
  "mset (interleavedSectorOrder 8) = mset [0..<8]" "mset (interleavedSectorOrder 9) = mset [0..<9]"
  "mset (interleavedSectorOrder 10) = mset [0..<10]" "mset (interleavedSectorOrder 11) = mset [0..<11]"
  "mset (interleavedSectorOrder 12) = mset [0..<12]"
  by code_simp+

lemma sectors_cases: "sectorsForTrack t \<in> {8, 9, 10, 11, 12}"
  by (simp add: sectorsForTrack_def)

lemma interleave_mset:
  "mset (interleavedSectorOrder (nat (sectorsForTrack t))) = mset [0 ..< nat (sectorsForTrack t)]"
proof -
  have "sectorsForTrack t \<in> {8, 9, 10, 11, 12}" by (rule sectors_cases)
  then show ?thesis by (elim insertE emptyE) (simp_all only: interleave_eval nat_numeral)
qed

lemma interleave_set:
  "set (interleavedSectorOrder (nat (sectorsForTrack t))) = {0 ..< nat (sectorsForTrack t)}"
  using mset_eq_setD [OF interleave_mset [of t]] by simp

text \<open>
  The numbering of 400K and 800K disks. The sectors of the 80 tracks, with 12 sectors on the
  outer ones and 8 on the inner ones, on one or two sides, correspond one to one to the 800 or 1600
  blocks of the image: no two sectors share a block, no block is unused and none is past the end; and
  the interleaved order of a track lists each of its sectors exactly once.
\<close>

theorem sector_numbering:
  "bij_betw (block_of ds) (disk_sectors ds) {0 ..< 800 * heads ds} \<and>
   mset (interleavedSectorOrder (nat (sectorsForTrack t))) = mset [0 ..< nat (sectorsForTrack t)]"
proof -
  have "bij_betw (block_of ds) (disk_sectors ds) {0 ..< 800 * heads ds}"
    unfolding bij_betw_def
    using block_in_disk [of _ ds] block_inj [of _ ds] block_onto [of _ ds 80]
    by (fastforce simp: inj_on_def track_start_80 image_iff)
  then show ?thesis using interleave_mset by simp
qed

subsection \<open>The record of a sector in the write window\<close>

definition gcr_record :: "int \<Rightarrow> u8 list \<Rightarrow> u8 list" where
  "gcr_record sector payload =
     [0xd5, 0xaa, 0xad] @ gcr (word_of_int sector) # appendEncodedPayload [] payload @ [0xde, 0xaa, 0xff]"

lemma gcr_record_length [simp]: "length payload = 524 \<Longrightarrow> length (gcr_record sector payload) = 710"
  using gcr_payload_round_trip [of payload] by (simp add: gcr_record_def)

lemma index_of_record:
  "index_of [0xd5, 0xaa, 0xad] (take n (gcr_record sector payload)) = (if n < 3 then None else Some 0)"
proof -
  have "n = 0 \<or> n = 1 \<or> n = 2 \<or> (\<exists>m. n = Suc (Suc (Suc m)))" by presburger
  then show ?thesis by (auto simp: gcr_record_def)
qed

declare processGcrWrites.simps [simp del] processMfmWrites.simps [simp del]

lemma incomplete_record:
  assumes "fd_writeBytes s = take n (gcr_record sector payload)" "n < 710" "length payload = 524"
  shows "processGcrWrites h committed s = (committed, s)"
  using assms index_of_record [of n sector payload]
  by (subst processGcrWrites.simps) (simp add: keep_two_def min_def)

lemma small_sector: "0 \<le> k \<Longrightarrow> k < sectorsForTrack t \<Longrightarrow> uint (word_of_int k AND 0x3f :: u8) = k"
proof -
  assume k: "0 \<le> k" "k < sectorsForTrack t"
  then have "k < 64" using sectors_pos [of t] by simp
  with k have "uint (take_bit 6 (word_of_int k) :: u8) = k"
    by (simp add: unsigned_take_bit_eq uint_word_of_int) (simp add: take_bit_eq_mod)
  moreover have "(word_of_int k AND 0x3f :: u8) = take_bit 6 (word_of_int k)"
    by (simp add: take_bit_eq_mask mask_eq_exp_minus_1)
  ultimately show ?thesis by simp
qed

lemma complete_record:
  assumes "fd_writeBytes s = gcr_record k payload" "length payload = 524"
    and "0 \<le> k" "k < sectorsForTrack (fd_currentTrack s)"
  shows "processGcrWrites h False s =
    (let (ok, t) = commitSector h k (drop 12 payload) (take 12 payload) s in (ok, remove_front 710 t))"
proof -
  have g: "gcr_sector h s = commitSector h k (drop 12 payload) (take 12 payload) s"
    using assms gcr_payload_round_trip [of payload] small_sector [OF assms(3,4)]
    by (simp add: gcr_sector_def gcr_record_def mid_def)
  have "index_of [0xd5, 0xaa, 0xad] (gcr_record k payload) = Some 0"
    "mid (gcr_record k payload) 707 3 = [0xde, 0xaa, 0xff]"
    using gcr_payload_round_trip [of payload] assms(2) by (simp_all add: gcr_record_def mid_def)
  then have "processGcrWrites h False s =
      (let (stored, s) = gcr_sector h s in processGcrWrites h stored (remove_front 710 s))"
    using assms(1,2) by (subst processGcrWrites.simps) simp
  moreover have "processGcrWrites h c (remove_front 710 (snd (gcr_sector h s))) =
      (c, remove_front 710 (snd (gcr_sector h s)))" for c
    using assms(1,2) by (subst processGcrWrites.simps) (simp add: keep_two_def)
  ultimately show ?thesis by (simp add: g split_beta)
qed

text \<open>A drive that takes writes in the group code, with an empty write window.\<close>

definition ready_to_write :: "'h floppy \<Rightarrow> bool" where
  "ready_to_write s \<longleftrightarrow> fd_writable s \<and> inserted s \<and> fd_motorOn s \<and> \<not> fd_highDensity s \<and>
     \<not> fd_writeFailed s \<and> fd_writeBytes s = []"

definition write_bytes :: "'h host_files \<Rightarrow> u8 list \<Rightarrow> bool \<times> 'h floppy \<Rightarrow> bool \<times> 'h floppy" where
  "write_bytes h vs = fold (\<lambda>v (ok, s). let (r, s) = writeDiskByte h v False s in (ok \<and> r, s)) vs"

text \<open>A drive that has taken some bytes: the window has grown and the cache may have been built.\<close>

definition taken :: "u8 list \<Rightarrow> 'h floppy \<Rightarrow> 'h floppy \<Rightarrow> bool" where
  "taken w s t \<longleftrightarrow> (\<exists>m c. t = s\<lparr>fd_writeBytes := w, fd_writeMarks := m, fd_trackCache := c\<rparr>)"

lemma taken_cache: "taken w s t \<Longrightarrow> taken w s (t\<lparr>fd_trackCache := d\<rparr>)"
proof -
  assume "taken w s t"
  then obtain m c where "t = s\<lparr>fd_writeBytes := w, fd_writeMarks := m, fd_trackCache := c\<rparr>"
    unfolding taken_def by blast
  then have "t\<lparr>fd_trackCache := d\<rparr> = s\<lparr>fd_writeBytes := w, fd_writeMarks := m, fd_trackCache := d\<rparr>" by simp
  then show ?thesis unfolding taken_def by blast
qed

lemma taken_byte:
  "taken w s t \<Longrightarrow> taken (w @ [v]) s (t\<lparr>fd_writeBytes := fd_writeBytes t @ [v], fd_writeMarks := m\<rparr>)"
proof -
  assume "taken w s t"
  then obtain m' c where "t = s\<lparr>fd_writeBytes := w, fd_writeMarks := m', fd_trackCache := c\<rparr>"
    unfolding taken_def by blast
  then have "t\<lparr>fd_writeBytes := fd_writeBytes t @ [v], fd_writeMarks := m\<rparr> =
      s\<lparr>fd_writeBytes := w @ [v], fd_writeMarks := m, fd_trackCache := c\<rparr>" by simp
  then show ?thesis unfolding taken_def by blast
qed

lemma advance_cursor_keeps [simp]: "fd_highDensity (advance_cursor s) = fd_highDensity s"
  by (simp add: advance_cursor_def Let_def)

lemma write_byte_taken:
  assumes "ready_to_write s" "taken w s t" "w' = w @ [v]"
  obtains u where "taken w' s u"
    "writeDiskByte h v mark t =
      (let (c, u) = processGcrWrites h False u;
           u = (if maximumWriteWindow < length (fd_writeBytes u)
                then remove_front (length (fd_writeBytes u) - maximumWriteWindow) u else u)
       in (c \<or> \<not> fd_writeFailed u, u))"
proof -
  define t1 where "t1 = (if stale_cache t then rebuildTrackCache t else t)"
  define t2 where "t2 = t1\<lparr>fd_writeBytes := fd_writeBytes t1 @ [v], fd_writeMarks := fd_writeMarks t1 @ [mark]\<rparr>"
  define u where "u = (if cache_bytes (fd_trackCache t2) \<noteq> [] then advance_cursor t2 else t2)"
  have "taken w s t1"
    using assms(2) by (simp add: t1_def rebuildTrackCache_def Let_def taken_cache)
  then have w: "taken w' s u"
    by (simp add: assms(3) u_def t2_def advance_cursor_def Let_def taken_cache taken_byte)
  moreover have "\<not> fd_highDensity t1" "fd_writable t" "inserted t" "fd_motorOn t" "\<not> fd_highDensity u"
    using assms \<open>taken w s t1\<close> w by (auto simp: taken_def ready_to_write_def inserted_def)
  then have "writeDiskByte h v mark t =
      (let (c, u) = processGcrWrites h False u;
           u = (if maximumWriteWindow < length (fd_writeBytes u)
                then remove_front (length (fd_writeBytes u) - maximumWriteWindow) u else u)
       in (c \<or> \<not> fd_writeFailed u, u))"
    unfolding writeDiskByte_def t1_def [symmetric] by (simp add: u_def t2_def Let_def)
  ultimately show thesis using w that by blast
qed

lemma write_prefix:
  assumes "ready_to_write s" "length payload = 524" "n < 710"
  shows "\<exists>t. write_bytes h (take n (gcr_record k payload)) (True, s) = (True, t) \<and>
    taken (take n (gcr_record k payload)) s t"
  using assms(3)
proof (induction n)
  case 0
  have "s = s\<lparr>fd_writeBytes := [], fd_writeMarks := fd_writeMarks s, fd_trackCache := fd_trackCache s\<rparr>"
    using assms(1) by (simp add: ready_to_write_def)
  then have "taken [] s s" unfolding taken_def by blast
  then show ?case by (simp add: write_bytes_def)
next
  case (Suc n)
  let ?r = "gcr_record k payload"
  obtain t where t: "write_bytes h (take n ?r) (True, s) = (True, t)" "taken (take n ?r) s t"
    using Suc by auto
  have app: "take (Suc n) ?r = take n ?r @ [?r ! n]"
    using Suc.prems assms(2) by (simp add: take_Suc_conv_app_nth)
  obtain u where u: "taken (take (Suc n) ?r) s u" and w: "writeDiskByte h (?r ! n) False t =
      (let (c, u) = processGcrWrites h False u;
           u = (if maximumWriteWindow < length (fd_writeBytes u)
                then remove_front (length (fd_writeBytes u) - maximumWriteWindow) u else u)
       in (c \<or> \<not> fd_writeFailed u, u))"
    by (rule write_byte_taken [OF assms(1) t(2) app])
  have b: "fd_writeBytes u = take (Suc n) ?r" "\<not> fd_writeFailed u"
    using u assms(1) by (auto simp: taken_def ready_to_write_def)
  have "writeDiskByte h (?r ! n) False t = (True, u)"
    using incomplete_record [OF b(1) Suc.prems assms(2)] b Suc.prems assms(2)
    by (simp add: w maximumWriteWindow_def)
  then show ?case
    using t(1) u by (simp add: app write_bytes_def)
qed

lemma write_record:
  assumes "ready_to_write s" "length payload = 524" "0 \<le> k" "k < sectorsForTrack (fd_currentTrack s)"
  obtains u where "taken (gcr_record k payload) s u"
    "write_bytes h (gcr_record k payload) (True, s) =
      (let (c, t) = commitSector h k (drop 12 payload) (take 12 payload) u
       in (c \<or> \<not> fd_writeFailed t, remove_front 710 t))"
proof -
  let ?r = "gcr_record k payload"
  have r: "?r = take 709 ?r @ [?r ! 709]"
    using take_Suc_conv_app_nth [of 709 ?r] assms(2) by simp
  obtain t where t: "write_bytes h (take 709 ?r) (True, s) = (True, t)" "taken (take 709 ?r) s t"
    using write_prefix [OF assms(1,2), of 709] by auto
  obtain u where u: "taken ?r s u" and w: "writeDiskByte h (?r ! 709) False t =
      (let (c, u) = processGcrWrites h False u;
           u = (if maximumWriteWindow < length (fd_writeBytes u)
                then remove_front (length (fd_writeBytes u) - maximumWriteWindow) u else u)
       in (c \<or> \<not> fd_writeFailed u, u))"
    by (rule write_byte_taken [OF assms(1) t(2) r])
  have b: "fd_writeBytes u = ?r" "fd_currentTrack u = fd_currentTrack s"
    using u by (auto simp: taken_def)
  have "write_bytes h ?r (True, s) = (let (r, s) = writeDiskByte h (?r ! 709) False t in (r, s))"
    using t(1) by (subst r) (simp add: write_bytes_def)
  also have "\<dots> = (let (c, t) = commitSector h k (drop 12 payload) (take 12 payload) u
      in (c \<or> \<not> fd_writeFailed t, remove_front 710 t))"
    using complete_record [OF b(1) assms(2,3), of h] assms(2,4) b
    by (simp add: w split_beta maximumWriteWindow_def remove_front_def)
  finally show thesis using u by (rule that [rotated])
qed

subsection \<open>The image as a sequence of blocks\<close>

text \<open>
  The abstract disk: for each block the 12 tag bytes, zero where the image has no tags, and the 512
  data bytes.
\<close>

definition block_payload :: "'h floppy \<Rightarrow> nat \<Rightarrow> u8 list" where
  "block_payload s b =
    (if b < length (fd_tags s) then fd_tags s ! b else replicate 12 0) @ mid (fd_data s) (b * 512) 512"

text \<open>A low density disk of the size its number of sides asks for, with tags for all sectors or none.\<close>

definition gcr_disk :: "'h floppy \<Rightarrow> bool" where
  "gcr_disk s \<longleftrightarrow> length (fd_data s) = nat (800 * heads (fd_doubleSided s)) * 512 \<and>
     (fd_tags s = [] \<or>
      length (fd_tags s) = nat (800 * heads (fd_doubleSided s)) \<and> (\<forall>x \<in> set (fd_tags s). length x = 12))"

definition disk_file :: "'h floppy \<Rightarrow> u8 list" where
  "disk_file s =
    (if fd_kind s = DiskCopy42
     then writeBe32 (writeBe32 (fd_diskCopyHeader s @ fd_data s @ concat (fd_tags s)) 72
            (diskCopyChecksum (fd_data s))) 76 (diskCopyChecksum (drop 12 (concat (fd_tags s))))
     else fd_data s)"

text \<open>A file the drive may write, in a host that accepts it.\<close>

definition may_save :: "'h host_files \<Rightarrow> 'h floppy \<Rightarrow> bool" where
  "may_save h s \<longleftrightarrow> fd_path s \<noteq> [] \<and> (fd_kind s = DiskCopy42 \<longrightarrow> length (fd_diskCopyHeader s) = 84) \<and>
     (\<forall>bytes. fst (save_file h (fd_path s) bytes (fd_host s)))"

lemma replace_block:
  assumes "b < n" "c < n" "length xs = n * 512" "length d = 512"
  shows "mid (take (b * 512) xs @ d @ drop (b * 512 + 512) xs) (c * 512) 512 =
    (if c = b then d else mid xs (c * 512) 512)"
proof -
  have l: "b * 512 + 512 \<le> n * 512" "c * 512 + 512 \<le> n * 512" using assms(1,2) by linarith+
  consider "c < b" | "c = b" | "b < c" by linarith
  then show ?thesis
  proof cases
    case 1
    then have "c * 512 + 512 \<le> b * 512" by linarith
    with 1 l assms show ?thesis by (simp add: mid_def take_drop min_def)
  next
    case 3
    then have "b * 512 + 512 \<le> c * 512" by linarith
    with 3 l assms show ?thesis by (simp add: mid_def)
  qed (use l assms in \<open>simp add: mid_def\<close>)
qed

lemma sector_block:
  assumes "(t, d, k) \<in> disk_sectors (fd_doubleSided s)" "gcr_disk s"
  shows "sectorPayload s t d k = block_payload s (nat (block_of (fd_doubleSided s) (t, d, k)))"
proof -
  let ?b = "block_of (fd_doubleSided s) (t, d, k)"
  have "0 \<le> ?b" "?b < 800 * heads (fd_doubleSided s)" using block_in_disk [OF assms(1)] by auto
  moreover have "nat ?b < length (fd_tags s) \<Longrightarrow> length (fd_tags s ! nat ?b) = 12"
    using assms(2) by (auto simp: gcr_disk_def)
  ultimately show ?thesis
    using assms(2)
    by (auto simp: sectorPayload_def block_payload_def gcr_disk_def block_of_def heads_def Let_def)
qed

lemma commit_block:
  assumes "(fd_currentTrack u, fd_currentSide u, k) \<in> disk_sectors (fd_doubleSided u)" "gcr_disk u"
    and "may_save h u" "fd_writable u" "\<not> fd_highDensity u" "length payload = 524"
    and b: "b = nat (block_of (fd_doubleSided u) (fd_currentTrack u, fd_currentSide u, k))"
  obtains t where "commitSector h k (drop 12 payload) (take 12 payload) u = (True, t)"
    "fd_data t = take (b * 512) (fd_data u) @ drop 12 payload @ drop (b * 512 + 512) (fd_data u)"
    "fd_tags t = (if fd_tags u = [] then [] else (fd_tags u)[b := take 12 payload])"
    "fd_host t = snd (save_file h (fd_path u) (disk_file t) (fd_host u))"
    "fd_writeFailed t = fd_writeFailed u" "fd_writeBytes t = fd_writeBytes u"
proof -
  let ?n = "nat (800 * heads (fd_doubleSided u))"
  have r: "0 \<le> block_of (fd_doubleSided u) (fd_currentTrack u, fd_currentSide u, k)"
      "block_of (fd_doubleSided u) (fd_currentTrack u, fd_currentSide u, k) < int ?n"
    using block_in_disk [OF assms(1)] by auto
  then have n: "b < ?n" using b by linarith
  have t: "payload \<noteq> []" using assms(6) by auto
  have len: "length (fd_data u) div 512 = ?n" using assms(2) by (simp add: gcr_disk_def)
  define u1 where
    "u1 = u\<lparr>fd_data := take (b * 512) (fd_data u) @ drop 12 payload @ drop (b * 512 + 512) (fd_data u)\<rparr>"
  define v where "v = (if fd_tags u = [] then u1 else u1\<lparr>fd_tags := (fd_tags u)[b := take 12 payload]\<rparr>)"
  have tags: "b < length (fd_tags u) \<longleftrightarrow> fd_tags u \<noteq> []"
    using n assms(2) by (auto simp: gcr_disk_def)
  have v: "fd_path v = fd_path u" "fd_kind v = fd_kind u" "fd_writable v = fd_writable u" "fd_host v = fd_host u"
      "fd_diskCopyHeader v = fd_diskCopyHeader u" "fd_writeFailed v = fd_writeFailed u"
      "fd_writeBytes v = fd_writeBytes u" "fd_data v = fd_data u1"
      "fd_tags v = (if fd_tags u = [] then [] else (fd_tags u)[b := take 12 payload])"
    by (simp_all add: v_def u1_def)
  have save: "persistImage h v = (True, v\<lparr>fd_host := snd (save_file h (fd_path u) (disk_file v) (fd_host u))\<rparr>)"
  proof -
    have "fd_path v \<noteq> []" "fd_writable v" "fd_kind v = DiskCopy42 \<longrightarrow> length (fd_diskCopyHeader v) = 84"
      "\<And>bytes. fst (save_file h (fd_path v) bytes (fd_host v))"
      using assms(3,4) by (simp_all add: may_save_def v)
    then show ?thesis
      unfolding persistImage_def disk_file_def Let_def split_beta v(1,4) [symmetric] by simp
  qed
  have block: "firstBlockForTrack (fd_currentTrack u) (fd_currentSide u) (fd_doubleSided u) + k = int b"
    using r b by (simp add: block_of_def)
  have range: "(int b < 0 \<or> int (length (fd_data u) div bytesPerSector) \<le> int b) = False"
    using n len by simp
  have l: "length (drop 12 payload) = bytesPerSector" "length (take 12 payload) = tagBytesPerSector"
    using assms(6) by simp_all
  have "commitSector h k (drop 12 payload) (take 12 payload) u =
      (let (ok, s) = persistImage h v
       in if \<not> ok then (False, s\<lparr>fd_writeFailed := True\<rparr>) else (True, invalidateTrackCache s))"
    unfolding commitSector_def Let_def
    by (simp only: l assms(5) if_False block range simp_thms nat_int)
      (simp add: t tags v_def u1_def)
  then have "commitSector h k (drop 12 payload) (take 12 payload) u = (True,
      invalidateTrackCache (v\<lparr>fd_host := snd (save_file h (fd_path u) (disk_file v) (fd_host u))\<rparr>))"
    by (simp add: save)
  then show thesis
    by (rule that) (simp_all add: v invalidateTrackCache_def disk_file_def, simp add: u1_def)
qed

lemma committed_blocks:
  assumes "gcr_disk u" "length payload = 524" "b < nat (800 * heads (fd_doubleSided u))"
    and "fd_data t = take (b * 512) (fd_data u) @ drop 12 payload @ drop (b * 512 + 512) (fd_data u)"
    and "fd_tags t = (if fd_tags u = [] then [] else (fd_tags u)[b := take 12 payload])"
    and "c < nat (800 * heads (fd_doubleSided u))"
  shows "block_payload t c =
    (if c = b then (if fd_tags u = [] then replicate 12 0 else take 12 payload) @ drop 12 payload
     else block_payload u c)"
  using assms replace_block [OF assms(3,6), of "fd_data u" "drop 12 payload"]
  by (auto simp: block_payload_def gcr_disk_def)

lemma committed_disk:
  assumes "gcr_disk u" "length payload = 524" "b < nat (800 * heads (fd_doubleSided u))"
    and "fd_data t = take (b * 512) (fd_data u) @ drop 12 payload @ drop (b * 512 + 512) (fd_data u)"
    and "fd_tags t = (if fd_tags u = [] then [] else (fd_tags u)[b := take 12 payload])"
    and "fd_doubleSided t = fd_doubleSided u"
  shows "gcr_disk t"
proof -
  have "b * 512 + 512 \<le> nat (800 * heads (fd_doubleSided u)) * 512" using assms(3) by linarith
  moreover have "\<forall>x \<in> set ((fd_tags u)[b := take 12 payload]). length x = 12" if "fd_tags u \<noteq> []"
    using that assms(1,2) set_update_subset_insert [of "fd_tags u" b "take 12 payload"]
    by (auto simp: gcr_disk_def)
  ultimately show ?thesis
    using assms by (auto simp: gcr_disk_def)
qed

text \<open>
  C21. A sector written under the head. When a drive with a writable low density disk gets, byte
  for byte, the record of a sector of the current track (mark, sector number, encoded payload, end
  mark), every byte is accepted and afterwards that block of the image holds the payload, every other
  block what it held before, the file has been saved with the new image, the write window is empty,
  and the same is what the head reads: the sector payload of every sector of the disk is as before,
  except for the one written.
\<close>

theorem sector_write:
  assumes "ready_to_write s" "gcr_disk s" "may_save h s" "length payload = encodedPayloadBytes"
    and "(fd_currentTrack s, fd_currentSide s, k) \<in> disk_sectors (fd_doubleSided s)"
  shows "\<exists>t. write_bytes h (gcr_record k payload) (True, s) = (True, t) \<and>
    fd_host t = snd (save_file h (fd_path s) (disk_file t) (fd_host s)) \<and>
    gcr_disk t \<and> ready_to_write t \<and>
    (\<forall>(t', d', k') \<in> disk_sectors (fd_doubleSided s). sectorPayload t t' d' k' =
      (if (t', d', k') = (fd_currentTrack s, fd_currentSide s, k)
       then (if fd_tags s = [] then replicate 12 0 else take 12 payload) @ drop 12 payload
       else sectorPayload s t' d' k'))"
proof -
  let ?ds = "fd_doubleSided s" and ?x = "(fd_currentTrack s, fd_currentSide s, k)"
  have k: "0 \<le> k" "k < sectorsForTrack (fd_currentTrack s)" using assms(5) by (auto simp: disk_sectors_def)
  have p: "length payload = 524" using assms(4) by simp
  obtain u where u: "taken (gcr_record k payload) s u" and w: "write_bytes h (gcr_record k payload) (True, s) =
      (let (c, t) = commitSector h k (drop 12 payload) (take 12 payload) u
       in (c \<or> \<not> fd_writeFailed t, remove_front 710 t))"
    by (rule write_record [OF assms(1) p k])
  define b where "b = nat (block_of ?ds ?x)"
  have e: "fd_data u = fd_data s" "fd_tags u = fd_tags s" "fd_doubleSided u = ?ds" "fd_path u = fd_path s"
      "fd_currentTrack u = fd_currentTrack s" "fd_currentSide u = fd_currentSide s" "fd_host u = fd_host s"
      "gcr_disk u" "may_save h u" "fd_writable u" "\<not> fd_highDensity u" "\<not> fd_writeFailed u"
      "fd_writeBytes u = gcr_record k payload" "fd_kind u = fd_kind s"
    using u assms(1-3) by (auto simp: taken_def gcr_disk_def may_save_def ready_to_write_def)
  have x: "(fd_currentTrack u, fd_currentSide u, k) \<in> disk_sectors (fd_doubleSided u)"
    using assms(5) by (simp add: e)
  have b: "b = nat (block_of (fd_doubleSided u) (fd_currentTrack u, fd_currentSide u, k))"
    by (simp add: b_def e)
  obtain t where c: "commitSector h k (drop 12 payload) (take 12 payload) u = (True, t)"
    "fd_data t = take (b * 512) (fd_data u) @ drop 12 payload @ drop (b * 512 + 512) (fd_data u)"
    "fd_tags t = (if fd_tags u = [] then [] else (fd_tags u)[b := take 12 payload])"
    "fd_host t = snd (save_file h (fd_path u) (disk_file t) (fd_host u))"
    "fd_writeFailed t = fd_writeFailed u" "fd_writeBytes t = fd_writeBytes u"
    by (rule commit_block [OF x e(8-11) p b])
  note keeps = commitSector_keeps [of h k "drop 12 payload" "take 12 payload" u, unfolded c(1) snd_conv]
  have n: "b < nat (800 * heads (fd_doubleSided u))"
    using block_in_disk [OF assms(5)] by (simp add: b_def e)
  define v where "v = remove_front 710 t"
  have d: "gcr_disk v" "fd_doubleSided v = ?ds"
    using committed_disk [OF e(8) p n c(2,3)] keeps
    by (simp_all add: v_def remove_front_def gcr_disk_def e)
  have "ready_to_write v"
    using assms(1) keeps c(5,6) p e(12,13)
    by (auto simp: v_def remove_front_def ready_to_write_def inserted_def e)
      (use u assms(1) in \<open>auto simp: taken_def ready_to_write_def inserted_def\<close>)
  moreover have vt: "block_payload v c = block_payload t c" and us: "block_payload u c = block_payload s c" for c
    by (simp_all add: v_def remove_front_def block_payload_def e)
  have "sectorPayload v t' d' k' =
      (if (t', d', k') = ?x
       then (if fd_tags s = [] then replicate 12 0 else take 12 payload) @ drop 12 payload
       else sectorPayload s t' d' k')" if y: "(t', d', k') \<in> disk_sectors ?ds" for t' d' k'
  proof -
    let ?c = "nat (block_of ?ds (t', d', k'))"
    have "?c = b \<longleftrightarrow> (t', d', k') = ?x"
      using block_in_disk [OF y] block_in_disk [OF assms(5)] block_inj [OF y assms(5)]
      by (auto simp: b_def eq_nat_nat_iff)
    moreover have "?c < nat (800 * heads (fd_doubleSided u))"
      using block_in_disk [OF y] by (simp add: e)
    then have "block_payload v ?c = (if ?c = b
        then (if fd_tags s = [] then replicate 12 0 else take 12 payload) @ drop 12 payload
        else block_payload s ?c)"
      using committed_blocks [OF e(8) p n c(2,3), of ?c] vt us by (simp only: e)
    ultimately show ?thesis
      using sector_block [of t' d' k' v] sector_block [of t' d' k' s] y d assms(2) by simp
  qed
  ultimately show ?thesis
    using d(1) c(1,4,5) e(12)
    by (intro exI [of _ v]) (auto simp: w v_def remove_front_def disk_file_def e)
qed

text \<open>An 800K disk of zero bytes in a spinning drive.\<close>

definition sample_floppy :: "(string \<rightharpoonup> u8 list) floppy" where
  "sample_floppy = (floppy_init Map.empty)\<lparr>fd_path := ''disk'', fd_kind := Raw800K,
     fd_data := replicate 819200 0, fd_writable := True, fd_doubleSided := True, fd_motorOn := True\<rparr>"

lemma sample_floppy_ready:
  "ready_to_write sample_floppy" "gcr_disk sample_floppy" "may_save map_host sample_floppy"
  "inserted sample_floppy"
  by (simp_all add: ready_to_write_def gcr_disk_def may_save_def sample_floppy_def floppy_init_def
      inserted_def heads_def)

lemma sector_write_witness:
  "\<exists>t. fst (write_bytes map_host (gcr_record 3 (replicate 524 7)) (True, sample_floppy)) \<and>
     write_bytes map_host (gcr_record 3 (replicate 524 7)) (True, sample_floppy) = (True, t) \<and>
     sectorPayload t 0 0 3 = replicate 12 0 @ replicate 512 7"
proof -
  have x: "(fd_currentTrack sample_floppy, fd_currentSide sample_floppy, 3) = (0, 0, 3)"
    "fd_doubleSided sample_floppy" "fd_tags sample_floppy = []"
    by (simp_all add: sample_floppy_def floppy_init_def)
  have m: "(0, 0, 3) \<in> disk_sectors True" by (simp add: disk_sectors_def heads_def sectorsForTrack_def)
  with x have "(fd_currentTrack sample_floppy, fd_currentSide sample_floppy, 3)
      \<in> disk_sectors (fd_doubleSided sample_floppy)" by simp
  from sector_write [OF sample_floppy_ready(1-3) _ this, of "replicate 524 7"] show ?thesis
    using m x by fastforce
qed

subsection \<open>Reading\<close>

lemma appendRepeated_eq: "appendRepeated bytes v n = bytes @ replicate n v"
  by (induction n) (simp_all add: appendRepeated_def replicate_append_same)

lemma encode_group_append:
  "encode_group payload i (out @ out', ck) = (let (o', ck') = encode_group payload i (out', ck) in (out @ o', ck'))"
  by (cases ck) (simp add: encode_group_def appendGcr_def Let_def)

lemma encode_groups_append:
  "fold (encode_group payload) gs (out @ out', ck) =
    (let (o', ck') = fold (encode_group payload) gs (out', ck) in (out @ o', ck'))"
proof (induction gs arbitrary: out' ck)
  case (Cons g gs)
  then show ?case by (simp add: encode_group_append split_beta)
qed simp

lemma appendEncodedPayload_append: "appendEncodedPayload out payload = out @ appendEncodedPayload [] payload"
  using encode_groups_append [of payload "[0..<175]" out "[]" "(0, 0, 0)"]
  by (simp add: appendEncodedPayload_def appendGcr_def Let_def split_beta)

text \<open>The address field of a sector with the gaps around it, and the sector as a whole.\<close>

definition gcr_address :: "bool \<Rightarrow> int \<Rightarrow> int \<Rightarrow> int \<Rightarrow> u8 list" where
  "gcr_address ds t d k =
    (let low = ucast ((word_of_int t :: u32) AND 0x3f);
         high = ucast (drop_bit 6 (word_of_int t :: u32) AND 1) OR (if d \<noteq> 0 then 0x20 else 0);
         format = (if ds then 0x22 else 0x02); sector = word_of_int k
     in [0xd5, 0xaa, 0x96] @ map gcr [low, sector, high, format, format XOR low XOR high XOR sector] @
        [0xde, 0xaa, 0xff])"

definition gcr_sector_bytes :: "'h floppy \<Rightarrow> int \<Rightarrow> int \<Rightarrow> int \<Rightarrow> u8 list" where
  "gcr_sector_bytes s t d k =
     replicate 18 0xff @ gcr_address (fd_doubleSided s) t d k @ replicate 14 0xff @
     gcr_record k (sectorPayload s t d k) @ replicate 8 0xff"

lemma appendSector_eq: "appendSector s out t d k = out @ gcr_sector_bytes s t d k"
  unfolding appendSector_def Let_def appendRepeated_eq appendGcr_def append_assoc gcr_sector_bytes_def
    gcr_record_def gcr_address_def
  by (subst appendEncodedPayload_append) (simp only: append_assoc append.simps list.map)

lemma fold_appendSector:
  "fold (\<lambda>k out. appendSector s out t d (int k)) ks out =
    out @ concat (map (\<lambda>k. gcr_sector_bytes s t d (int k)) ks)"
  by (induction ks arbitrary: out) (simp_all add: appendSector_eq)

lemma buildTrackBytes_eq:
  "inserted s \<Longrightarrow> buildTrackBytes s t d =
    replicate 48 0xff @
    concat (map (\<lambda>k. gcr_sector_bytes s t d (int k)) (interleavedSectorOrder (nat (sectorsForTrack t)))) @
    replicate 128 0xff"
  by (simp only: buildTrackBytes_def Let_def appendRepeated_eq fold_appendSector if_False simp_thms
      append_assoc append.simps)

text \<open>Reading bytes under the head.\<close>

primrec read_bytes :: "nat \<Rightarrow> 'h floppy \<Rightarrow> u8 list \<times> 'h floppy" where
  "read_bytes 0 s = ([], s)"
| "read_bytes (Suc n) s =
    (let (v, s) = nextNibble s; (vs, s) = read_bytes n s in (v # vs, s))"

definition at_cursor :: "'h floppy \<Rightarrow> nat \<Rightarrow> 'h floppy" where
  "at_cursor s n = s\<lparr>fd_trackCache := (fd_trackCache s)\<lparr>cache_cursor := n\<rparr>\<rparr>"

lemma nextNibble_fresh:
  assumes "inserted s" "fd_motorOn s" "\<not> stale_cache s"
  shows "nextNibble (at_cursor s i) =
    (cache_bytes (fd_trackCache s) ! i, at_cursor s (Suc i mod length (cache_bytes (fd_trackCache s))))"
  using assms
  by (simp add: nextNibble_def nextDiskByte_def peekDiskByte_def at_cursor_def inserted_def stale_cache_def
      advance_cursor_def Let_def)

lemma read_bytes_fresh:
  assumes "inserted s" "fd_motorOn s" "\<not> stale_cache s"
    and "0 < n" "i + n \<le> length (cache_bytes (fd_trackCache s))"
  shows "read_bytes n (at_cursor s i) =
    (mid (cache_bytes (fd_trackCache s)) i n, at_cursor s ((i + n) mod length (cache_bytes (fd_trackCache s))))"
  using assms(4,5)
proof (induction n arbitrary: i)
  case (Suc n)
  let ?bs = "cache_bytes (fd_trackCache s)"
  have i: "i < length ?bs" using Suc.prems by simp
  show ?case
  proof (cases "n = 0")
    case True
    with i show ?thesis
      by (simp add: nextNibble_fresh [OF assms(1-3)] mid_def take_Suc_conv_app_nth hd_drop_conv_nth)
  next
    case False
    then have "Suc i mod length ?bs = Suc i" using Suc.prems by simp
    moreover have "mid ?bs i (Suc n) = ?bs ! i # mid ?bs (Suc i) n"
      using i by (metis Cons_nth_drop_Suc mid_def take_Suc_Cons)
    ultimately show ?thesis
      using Suc.IH [of "Suc i"] Suc.prems False by (simp add: nextNibble_fresh [OF assms(1-3)])
  qed
qed simp

lemma track_not_empty: "inserted s \<Longrightarrow> buildTrackBytes s t d \<noteq> []"
  by (simp add: buildTrackBytes_eq)

lemma rebuilt:
  assumes "inserted s" "\<not> fd_highDensity s"
  shows "inserted (rebuildTrackCache s)" "fd_motorOn (rebuildTrackCache s) = fd_motorOn s"
    "\<not> stale_cache (rebuildTrackCache s)" "at_cursor (rebuildTrackCache s) 0 = rebuildTrackCache s"
    "cache_bytes (fd_trackCache (rebuildTrackCache s)) = buildTrackBytes s (fd_currentTrack s) (fd_currentSide s)"
  using assms track_not_empty [OF assms(1)]
  by (simp_all add: rebuildTrackCache_def inserted_def stale_cache_def at_cursor_def Let_def)

lemma read_stale:
  assumes "inserted s" "\<not> fd_highDensity s" "stale_cache s" "fd_motorOn s"
  shows "read_bytes (Suc n) s = read_bytes (Suc n) (rebuildTrackCache s)"
  using assms rebuilt [OF assms(1,2)]
  by (simp add: nextNibble_def nextDiskByte_def peekDiskByte_def)

text \<open>
  C22. What the head reads. On a spinning low density disk a drive whose head has just arrived on a
  track reads, in one revolution, exactly the bytes of that track, and the same bytes in the next one.
  They hold for every sector of the track one record behind an address field with its track, side and
  sector, and the decoder gets from the record the tag and data bytes the image has for that sector.
\<close>

theorem track_read:
  assumes "inserted s" "fd_motorOn s" "\<not> fd_highDensity s" "stale_cache s" "gcr_disk s"
    and "0 \<le> k" "k < sectorsForTrack (fd_currentTrack s)"
  shows "(let t = fd_currentTrack s; d = fd_currentSide s; track = buildTrackBytes s t d;
      (first, u) = read_bytes (length track) s; payload = sectorPayload s t d k
    in first = track \<and> fst (read_bytes (length track) u) = track \<and>
       (\<exists>pre post. track =
          pre @ gcr_address (fd_doubleSided s) t d k @ replicate 14 0xff @ gcr_record k payload @ post) \<and>
       decodeGcrPayload (mid (gcr_record k payload) 4 703) = Some payload)"
proof -
  let ?t = "fd_currentTrack s" and ?d = "fd_currentSide s"
  let ?track = "buildTrackBytes s ?t ?d" and ?p = "sectorPayload s ?t ?d k"
  obtain n where n: "length ?track = Suc n"
    using track_not_empty [OF assms(1)] by (cases ?track) auto
  note r = rebuilt [OF assms(1,3)]
  have "read_bytes (length ?track) s = (?track, rebuildTrackCache s)"
    using read_bytes_fresh [OF r(1) _ r(3), of "Suc n" 0] read_stale [OF assms(1,3,4,2), of n] r assms(2) n
    by (simp add: mid_def del: read_bytes.simps)
  moreover have "read_bytes (length ?track) (rebuildTrackCache s) = (?track, rebuildTrackCache s)"
    using read_bytes_fresh [OF r(1) _ r(3), of "Suc n" 0] r assms(2) n
    by (simp add: mid_def del: read_bytes.simps)
  moreover have "\<exists>pre post. ?track =
      pre @ gcr_address (fd_doubleSided s) ?t ?d k @ replicate 14 0xff @ gcr_record k ?p @ post"
  proof -
    have "nat k \<in> set (interleavedSectorOrder (nat (sectorsForTrack ?t)))"
      using assms(6,7) by (simp add: interleave_set nat_less_iff)
    then obtain ks ls where "interleavedSectorOrder (nat (sectorsForTrack ?t)) = ks @ nat k # ls"
      by (meson split_list)
    with assms(6) have "?track =
        (replicate 48 0xff @ concat (map (\<lambda>k. gcr_sector_bytes s ?t ?d (int k)) ks) @ replicate 18 0xff) @
        gcr_address (fd_doubleSided s) ?t ?d k @ replicate 14 0xff @ gcr_record k ?p @
        (replicate 8 0xff @ concat (map (\<lambda>k. gcr_sector_bytes s ?t ?d (int k)) ls) @ replicate 128 0xff)"
      by (simp only: buildTrackBytes_eq [OF assms(1)] map_append concat_append list.map concat.simps
          gcr_sector_bytes_def nat_0_le append_assoc)
    then show ?thesis by blast
  qed
  moreover have "length ?p = 524"
    using assms(5) block_fits by (auto simp: sectorPayload_def mid_def Let_def nat_less_iff min_def)
  then have "decodeGcrPayload (mid (gcr_record k ?p) 4 703) = Some ?p"
    using gcr_payload_round_trip [of ?p] by (simp add: gcr_record_def mid_def)
  ultimately show ?thesis by (simp add: Let_def)
qed

lemma track_read_witness:
  "fst (read_bytes (length (buildTrackBytes sample_floppy 0 0)) sample_floppy) = buildTrackBytes sample_floppy 0 0"
proof -
  have "fd_motorOn sample_floppy" "\<not> fd_highDensity sample_floppy" "stale_cache sample_floppy"
    "fd_currentTrack sample_floppy = 0" "fd_currentSide sample_floppy = 0"
    by (simp_all add: sample_floppy_def floppy_init_def stale_cache_def empty_cache_def)
  then show ?thesis
    using track_read [OF sample_floppy_ready(4), of 0] sample_floppy_ready
    by (simp add: Let_def split_beta sectorsForTrack_def)
qed

subsection \<open>The invariant of the drive\<close>

text \<open>What handling the write window leaves alone.\<close>

definition window_step :: "'h floppy \<Rightarrow> 'h floppy \<Rightarrow> bool" where
  "window_step s t \<longleftrightarrow>
     fd_currentTrack t = fd_currentTrack s \<and> fd_currentSide t = fd_currentSide s \<and>
     fd_doubleSided t = fd_doubleSided s \<and> fd_kind t = fd_kind s \<and> fd_motorOn t = fd_motorOn s \<and>
     length (fd_data t) = length (fd_data s) \<and>
     (fd_trackCache t = fd_trackCache s \<or> fd_trackCache t = empty_cache) \<and>
     (length (fd_writeMarks s) = length (fd_writeBytes s) \<longrightarrow>
      length (fd_writeMarks t) = length (fd_writeBytes t)) \<and>
     length (fd_writeBytes t) \<le> length (fd_writeBytes s)"

lemma window_refl [simp]: "window_step s s"
  by (simp add: window_step_def)

lemma window_trans: "window_step s t \<Longrightarrow> window_step t u \<Longrightarrow> window_step s u"
  by (auto simp: window_step_def)

lemma window_remove_front [simp]: "window_step s (remove_front n s)"
  by (simp add: window_step_def remove_front_def)

lemma window_keep_two [simp]: "window_step s (keep_two s)"
  by (simp add: keep_two_def)

lemma window_failed [simp]: "window_step s (s\<lparr>fd_writeFailed := b\<rparr>)"
  by (simp add: window_step_def)

lemma commit_cache:
  "fd_trackCache (snd (commitSector h k d x s)) = fd_trackCache s \<or>
   fd_trackCache (snd (commitSector h k d x s)) = empty_cache"
  by (simp add: commitSector_def invalidateTrackCache_def Let_def split_beta)

lemma window_commit [simp]: "window_step s (snd (commitSector h k d x s))"
  using commit_cache [of h k d x s] by (simp add: window_step_def)

lemma window_gcr_sector [simp]: "window_step s (snd (gcr_sector h s))"
  by (simp add: gcr_sector_def split: option.split)

lemma window_mfm [simp]: "window_step s (mfm_address s)" "window_step s (snd (mfm_data h s))"
  by (simp_all add: mfm_address_def mfm_data_def Let_def window_step_def [of s "s\<lparr>fd_writeMfmSector := _\<rparr>"])

lemma window_gcr: "window_step s (snd (processGcrWrites h c s))"
proof (induction h c s rule: processGcrWrites.induct)
  case (1 h c s)
  show ?case
  proof (cases "index_of [0xd5, 0xaa, 0xad] (fd_writeBytes s)")
    case (Some p)
    define t where "t = (if 0 < p then remove_front p s else s)"
    have st: "window_step s t" by (simp add: t_def)
    note IH = 1 [OF Some t_def]
    show ?thesis
    proof (cases "length (fd_writeBytes t) < 710")
      case True
      with st Some show ?thesis by (subst processGcrWrites.simps) (simp add: t_def [symmetric])
    next
      case False
      let ?u = "snd (gcr_sector h t)"
      have skip: "window_step s (snd (processGcrWrites h c (remove_front 1 t)))"
        if "mid (fd_writeBytes t) 707 3 \<noteq> [0xde, 0xaa, 0xff]"
        using IH(1) [OF False that] window_trans [OF st] window_trans [OF window_remove_front] by blast
      have store: "window_step s (snd (processGcrWrites h (c \<or> fst (gcr_sector h t)) (remove_front 710 ?u)))"
        if "mid (fd_writeBytes t) 707 3 = [0xde, 0xaa, 0xff]"
        using IH(2) [OF False _ refl, of "fst (gcr_sector h t)" ?u] that window_trans [OF st]
          window_trans [OF window_gcr_sector [of t h]] window_trans [OF window_remove_front [of ?u 710]] by simp
      from False Some skip store show ?thesis
        by (subst processGcrWrites.simps) (simp add: t_def [symmetric] split_beta)
    qed
  qed (subst processGcrWrites.simps, simp)
qed

lemma window_mfm_writes: "window_step s (snd (processMfmWrites h c s))"
proof (induction h c s rule: processMfmWrites.induct)
  case (1 h c s)
  show ?case
  proof (cases "index_of [0xa1, 0xa1, 0xa1] (fd_writeBytes s)")
    case (Some p)
    define t where "t = (if 0 < p then remove_front p s else s)"
    have st: "window_step s t" by (simp add: t_def)
    note IH = 1 [OF Some t_def refl refl]
    let ?bs = "fd_writeBytes t"
    show ?thesis
    proof (cases "length ?bs < 4")
      case True
      with st Some show ?thesis by (subst processMfmWrites.simps) (simp add: t_def [symmetric])
    next
      case False
      let ?u = "snd (mfm_data h t)"
      have address: "window_step s (snd (processMfmWrites h c (remove_front 10 (mfm_address t))))"
        if "?bs ! 3 = 0xfe" "\<not> length ?bs < 10"
        using IH(1) [OF False that] window_trans [OF st] window_trans [OF window_mfm(1) [of t]]
          window_trans [OF window_remove_front [of "mfm_address t" 10]] by blast
      have data: "window_step s (snd (processMfmWrites h (c \<or> fst (mfm_data h t)) (remove_front 518 ?u)))"
        if "?bs ! 3 \<noteq> 0xfe" "?bs ! 3 = 0xfb \<or> ?bs ! 3 = 0xf8" "\<not> length ?bs < 518"
        using IH(2) [OF False that(1,2) _ refl, of "fst (mfm_data h t)" ?u] that(3) window_trans [OF st]
          window_trans [OF window_mfm(2) [of t h]] window_trans [OF window_remove_front [of ?u 518]] by simp
      have skip: "window_step s (snd (processMfmWrites h c (remove_front 1 t)))"
        if "?bs ! 3 \<noteq> 0xfe" "\<not> (?bs ! 3 = 0xfb \<or> ?bs ! 3 = 0xf8)"
        using IH(3) [OF False that] window_trans [OF st] window_trans [OF window_remove_front] by blast
      from False Some address data skip st show ?thesis
        by (subst processMfmWrites.simps) (simp add: t_def [symmetric] split_beta Let_def)
    qed
  qed (subst processMfmWrites.simps, simp)
qed

text \<open>The invariant, and the operations that could break it.\<close>

definition floppy_ok :: "'h floppy \<Rightarrow> bool" where
  "floppy_ok s \<longleftrightarrow>
     0 \<le> fd_currentTrack s \<and> fd_currentTrack s < 80 \<and> 0 \<le> fd_currentSide s \<and>
     fd_currentSide s < heads (fd_doubleSided s) \<and>
     (cache_bytes (fd_trackCache s) \<noteq> [] \<longrightarrow>
      cache_cursor (fd_trackCache s) < length (cache_bytes (fd_trackCache s))) \<and>
     length (fd_writeMarks s) = length (fd_writeBytes s) \<and> length (fd_writeBytes s) \<le> maximumWriteWindow \<and>
     (\<not> inserted s \<longrightarrow> fd_data s = [])"

datatype floppy_op = Load string bool | Eject | SetTrack int | Step bool | SetSide int | SetMotor bool |
  NextByte | PeekByte | WriteByte u8 bool | Flush | ClearChanged | Invalidate

fun apply_op :: "'h host_files \<Rightarrow> floppy_op \<Rightarrow> 'h floppy \<Rightarrow> 'h floppy" where
  "apply_op h (Load path readOnly) s = snd (floppy_load h path readOnly s)"
| "apply_op h Eject s = eject h s"
| "apply_op h (SetTrack t) s = setCurrentTrack h t s"
| "apply_op h (Step toZero) s = floppy_step h toZero s"
| "apply_op h (SetSide d) s = setCurrentSide h d s"
| "apply_op h (SetMotor on) s = setMotorOn h on s"
| "apply_op h NextByte s = snd (nextDiskByte s)"
| "apply_op h PeekByte s = snd (peekDiskByte s)"
| "apply_op h (WriteByte v mark) s = snd (writeDiskByte h v mark s)"
| "apply_op h Flush s = snd (flushWrites h s)"
| "apply_op h ClearChanged s = clearMediaChanged s"
| "apply_op h Invalidate s = invalidateTrackCache s"

lemma ok_window:
  assumes "window_step s t" "floppy_ok s"
  shows "floppy_ok t"
  using assms by (auto simp: window_step_def floppy_ok_def inserted_def empty_cache_def)

lemma floppy_ok_flush: "floppy_ok s \<Longrightarrow> floppy_ok (snd (flushWrites h s))"
proof -
  assume s: "floppy_ok s"
  define t where "t = (if fd_writeBytes s = [] then s
    else if fd_highDensity s then snd (processMfmWrites h False s) else snd (processGcrWrites h False s))"
  have "floppy_ok t"
    using s ok_window [OF window_gcr [of s h False]] ok_window [OF window_mfm_writes [of s h False]] by (simp add: t_def)
  then show ?thesis
    unfolding flushWrites_def t_def [symmetric] by (simp add: floppy_ok_def inserted_def Let_def)
qed

lemma ok_rebuild: "floppy_ok s \<Longrightarrow> floppy_ok (rebuildTrackCache s)"
  by (simp add: floppy_ok_def rebuildTrackCache_def inserted_def Let_def)

lemma ok_cursor: "floppy_ok s \<Longrightarrow> cache_bytes (fd_trackCache s) \<noteq> [] \<Longrightarrow> floppy_ok (advance_cursor s)"
  by (simp add: floppy_ok_def advance_cursor_def inserted_def Let_def)

lemma floppy_ok_peek: "floppy_ok s \<Longrightarrow> floppy_ok (snd (peekDiskByte s))"
  by (simp add: peekDiskByte_def ok_rebuild Let_def)

lemma floppy_ok_next: "floppy_ok s \<Longrightarrow> floppy_ok (snd (nextDiskByte s))"
  using floppy_ok_peek [of s] ok_cursor [of "snd (peekDiskByte s)"] by (auto simp: nextDiskByte_def split_beta Let_def)

text \<open>The invariant but for the bound of the write window.\<close>

definition almost_ok :: "'h floppy \<Rightarrow> bool" where
  "almost_ok s \<longleftrightarrow> floppy_ok (s\<lparr>fd_writeBytes := [], fd_writeMarks := []\<rparr>) \<and>
     length (fd_writeMarks s) = length (fd_writeBytes s)"

lemma almost_window: "window_step s t \<Longrightarrow> almost_ok s \<Longrightarrow> almost_ok t"
  by (auto simp: window_step_def almost_ok_def floppy_ok_def inserted_def empty_cache_def)

lemma floppy_ok_write: "floppy_ok s \<Longrightarrow> floppy_ok (snd (writeDiskByte h v mark s))"
proof -
  assume s: "floppy_ok s"
  define s1 where "s1 = (if stale_cache s then rebuildTrackCache s else s)"
  define s2 where "s2 = (if fd_highDensity s1 \<and> fd_writeBytes s1 = [] \<and> fd_writeMfmSector s1 < 0
    then s1\<lparr>fd_writeMfmSector := inferMfmSectorAtCursor s1\<rparr> else s1)"
  define s3 where "s3 = s2\<lparr>fd_writeBytes := fd_writeBytes s2 @ [v], fd_writeMarks := fd_writeMarks s2 @ [mark]\<rparr>"
  define s4 where "s4 = (if cache_bytes (fd_trackCache s3) \<noteq> [] then advance_cursor s3 else s3)"
  define s5 where
    "s5 = snd (if fd_highDensity s4 then processMfmWrites h False s4 else processGcrWrites h False s4)"
  have "floppy_ok s1" using s by (simp add: s1_def ok_rebuild)
  then have "floppy_ok s2" by (simp add: s2_def floppy_ok_def inserted_def)
  then have "almost_ok s3" by (simp add: s3_def almost_ok_def floppy_ok_def inserted_def)
  then have "almost_ok s4"
    by (simp add: s4_def almost_ok_def floppy_ok_def inserted_def advance_cursor_def Let_def)
  then have "almost_ok s5"
    by (simp add: s5_def almost_window [OF window_gcr] almost_window [OF window_mfm_writes])
  then have "floppy_ok (if maximumWriteWindow < length (fd_writeBytes s5)
      then remove_front (length (fd_writeBytes s5) - maximumWriteWindow) s5 else s5)"
    by (simp add: almost_ok_def floppy_ok_def inserted_def remove_front_def)
  moreover have "floppy_ok (s\<lparr>fd_writeFailed := True\<rparr>)" using s by (rule ok_window [OF window_failed])
  ultimately show ?thesis
    unfolding writeDiskByte_def s1_def [symmetric] Let_def s2_def [symmetric] s3_def [symmetric]
      s4_def [symmetric] split_beta s5_def [symmetric] by (simp split: if_splits)
qed

lemma flush_keeps:
  "fd_doubleSided (snd (flushWrites h s)) = fd_doubleSided s"
  "fd_currentTrack (snd (flushWrites h s)) = fd_currentTrack s"
  using window_gcr [of s h False] window_mfm_writes [of s h False]
  by (simp_all add: flushWrites_def window_step_def Let_def)

lemma floppy_ok_moved:
  assumes "floppy_ok s"
  shows "floppy_ok (setCurrentTrack h t s)" "floppy_ok (setCurrentSide h d s)" "floppy_ok (setMotorOn h on s)"
    "floppy_ok (eject h s)"
proof -
  note f = floppy_ok_flush [OF assms, of h]
  show "floppy_ok (setCurrentTrack h t s)" "floppy_ok (setMotorOn h on s)"
    using f assms
    by (auto simp: setCurrentTrack_def setMotorOn_def floppy_ok_def invalidateTrackCache_def empty_cache_def
        inserted_def Let_def)
  show "floppy_ok (setCurrentSide h d s)"
    using f assms flush_keeps(1) [of h s]
    by (auto simp: setCurrentSide_def floppy_ok_def invalidateTrackCache_def empty_cache_def inserted_def
        heads_def Let_def)
  show "floppy_ok (eject h s)"
    by (simp add: eject_def floppy_ok_def invalidateTrackCache_def empty_cache_def inserted_def heads_def Let_def)
qed

lemma ok_loaded:
  "fd_kind s \<noteq> Empty \<Longrightarrow> floppy_ok (loaded path p s)"
  by (simp add: loaded_def floppy_ok_def invalidateTrackCache_def empty_cache_def inserted_def heads_def Let_def)

lemma floppy_ok_load: "floppy_ok s \<Longrightarrow> floppy_ok (snd (floppy_load h path readOnly s))"
proof -
  assume s: "floppy_ok s"
  then have t: "floppy_ok (s\<lparr>fd_forceReadOnly := readOnly\<rparr>)" by (simp add: floppy_ok_def inserted_def)
  have "floppy_ok (snd (loadRaw h path bytes kind u))" if "kind \<noteq> Empty" for bytes kind u
    using that by (simp add: loadRaw_def ok_loaded)
  moreover have "floppy_ok (snd (loadDiskCopy42 h path bytes u))" if "floppy_ok u" for bytes u
    using that by (simp add: loadDiskCopy42_def ok_loaded Let_def)
  ultimately show ?thesis
    using t unfolding floppy_load_def Let_def by (simp split: option.split)
qed

inductive floppy_reachable :: "'h host_files \<Rightarrow> 'h floppy \<Rightarrow> bool" for h where
  "floppy_reachable h (floppy_init w)"
| "floppy_reachable h s \<Longrightarrow> floppy_reachable h (apply_op h oper s)"

text \<open>
  C24. Every state a drive can reach, whatever disks are loaded and ejected and in whatever order
  it is read, written and moved: the head is on one of the 80 tracks and on a side the disk has, the
  cursor is inside the cached track, so that the byte read there exists, each byte of the write window
  has its mark flag, the window has at most 16384 bytes, and an empty drive has no data.
\<close>

theorem floppy_invariant:
  assumes "floppy_reachable h s"
  shows "floppy_ok s"
  using assms
proof induction
  case (1 w)
  show ?case by (simp add: floppy_ok_def floppy_init_def empty_cache_def inserted_def heads_def)
next
  case (2 s oper)
  then show ?case
    by (cases oper)
      (simp_all add: floppy_ok_load floppy_ok_moved floppy_ok_next floppy_ok_peek floppy_ok_write floppy_ok_flush floppy_step_def clearMediaChanged_def
        invalidateTrackCache_def floppy_ok_def [of "_\<lparr>fd_mediaChanged := _\<rparr>"]
        floppy_ok_def [of "_\<lparr>fd_trackCache := _\<rparr>"] empty_cache_def inserted_def,
       simp_all add: floppy_ok_def inserted_def)
qed

lemma floppy_invariant_witness:
  "floppy_ok (setCurrentTrack map_host 99 (snd (writeDiskByte map_host 1 False (floppy_init Map.empty))))"
proof -
  have "floppy_reachable map_host
      (apply_op map_host (SetTrack 99) (apply_op map_host (WriteByte 1 False) (floppy_init Map.empty)))"
    by (intro floppy_reachable.intros)
  from floppy_invariant [OF this] show ?thesis by simp
qed

end
