(* ===== verification/IwmLaws.thy ===== *)
theory IwmLaws
  imports FloppyLaws IwmController
begin

section \<open>The drives behind the controller\<close>

text \<open>
  Every access of the IWM and the SWIM, and every operation of the host, keeps the invariant of both
  drives.  \<open>drive_keeps\<close> collects what keeps the invariant of a drive, \<open>iwm_keeps\<close> what keeps that of the
  controller.
\<close>

named_theorems drive_keeps \<open>operations that keep the invariant of a drive\<close>
named_theorems iwm_keeps \<open>operations that keep the invariant of both drives\<close>

definition drives_ok :: "'h iwm \<Rightarrow> bool" where
  "drives_ok s \<longleftrightarrow> floppy_ok (iwm_internalDrive s) \<and> floppy_ok (iwm_externalDrive s)"

subsection \<open>Operations of a drive\<close>

lemmas floppy_ok_ops [drive_keeps] =
  floppy_ok_flush floppy_ok_moved floppy_ok_next floppy_ok_peek floppy_ok_write floppy_ok_load

lemma drive_small [drive_keeps]:
  "floppy_ok d \<Longrightarrow> floppy_ok (clearMediaChanged d)" "floppy_ok d \<Longrightarrow> floppy_ok (d\<lparr>fd_host := w\<rparr>)"
  "floppy_ok (floppy_init w)"
  by (simp_all add: clearMediaChanged_def floppy_ok_def inserted_def floppy_init_def empty_cache_def heads_def)

lemma drive_composed [drive_keeps]:
  "floppy_ok d \<Longrightarrow> floppy_ok (flush_drive h d)" "floppy_ok d \<Longrightarrow> floppy_ok (floppy_step h b d)"
  "floppy_ok d \<Longrightarrow> floppy_ok (snd (nextNibble d))"
  by (simp_all add: flush_drive_def floppy_step_def nextNibble_def floppy_ok_ops split_beta)

lemma drive_scan [drive_keeps]: "floppy_ok d \<Longrightarrow> floppy_ok (scan_mark n d)"
  by (induction n arbitrary: d) (simp_all add: drive_keeps split_beta Let_def)

lemma drive_read_action [drive_keeps]: "floppy_ok d \<Longrightarrow> floppy_ok (read_action d)"
  by (simp add: read_action_def drive_keeps)

subsection \<open>Operations of the controller\<close>

lemma on_drives [iwm_keeps]:
  assumes "\<And>d. floppy_ok d \<Longrightarrow> floppy_ok (snd (f d))" and "drives_ok s"
  shows "drives_ok (snd (on_internal f s))" "drives_ok (snd (on_external f s))" "drives_ok (snd (on_selected f s))"
  using assms(1) [of "(iwm_internalDrive s)\<lparr>fd_host := iwm_host s\<rparr>"]
    assms(1) [of "(iwm_externalDrive s)\<lparr>fd_host := iwm_host s\<rparr>"] assms(2)
  by (simp_all add: drives_ok_def on_internal_def on_external_def on_selected_def split_beta drive_keeps)

lemma do_drives [iwm_keeps]:
  assumes "\<And>d. floppy_ok d \<Longrightarrow> floppy_ok (f d)" and "drives_ok s"
  shows "drives_ok (do_selected f s)" "drives_ok (snd (on_internal (unit_op f) s))"
    "drives_ok (snd (on_external (unit_op f) s))"
  unfolding do_selected_def by (rule on_drives [OF _ assms(2)]; simp add: unit_op_def assms(1))+

lemma drives_fields [iwm_keeps]:
  "drives_ok (s\<lparr>iwm_lines := a\<rparr>) = drives_ok s" "drives_ok (s\<lparr>iwm_mode := b\<rparr>) = drives_ok s"
  "drives_ok (s\<lparr>iwm_status := b\<rparr>) = drives_ok s" "drives_ok (s\<lparr>iwm_selectedDriveRegister := b\<rparr>) = drives_ok s"
  "drives_ok (s\<lparr>iwm_stepTowardTrackZero := c\<rparr>) = drives_ok s" "drives_ok (s\<lparr>iwm_sideSelect := c\<rparr>) = drives_ok s"
  "drives_ok (s\<lparr>iwm_tach := c\<rparr>) = drives_ok s" "drives_ok (s\<lparr>iwm_dataReads := d\<rparr>) = drives_ok s"
  "drives_ok (s\<lparr>iwm_statusReads := d\<rparr>) = drives_ok s" "drives_ok (s\<lparr>iwm_handshakeReads := d\<rparr>) = drives_ok s"
  "drives_ok (s\<lparr>iwm_dataWrites := d\<rparr>) = drives_ok s" "drives_ok (s\<lparr>swim_mode := c\<rparr>) = drives_ok s"
  "drives_ok (s\<lparr>swim_transition := b\<rparr>) = drives_ok s" "drives_ok (s\<lparr>swim_modeRegister := b\<rparr>) = drives_ok s"
  "drives_ok (s\<lparr>swim_setup := b\<rparr>) = drives_ok s" "drives_ok (s\<lparr>swim_phases := b\<rparr>) = drives_ok s"
  "drives_ok (s\<lparr>swim_parameters := e\<rparr>) = drives_ok s" "drives_ok (s\<lparr>swim_parameterIndex := b\<rparr>) = drives_ok s"
  "drives_ok (s\<lparr>swim_error := b\<rparr>) = drives_ok s" "drives_ok (s\<lparr>swim_phaseStrobe := c\<rparr>) = drives_ok s"
  "drives_ok (s\<lparr>iwm_mediaEjected := m\<rparr>) = drives_ok s"
  by (simp_all add: drives_ok_def)

lemma drives_selected [iwm_keeps]: "drives_ok s \<Longrightarrow> drives_ok (updateSelectedDriveRegister h s)"
  "drives_ok s \<Longrightarrow> drives_ok (setSideSelect h b s)" "drives_ok s \<Longrightarrow> drives_ok (ejectSelectedDrive h s)"
  by (simp_all add: updateSelectedDriveRegister_def setSideSelect_def ejectSelectedDrive_def Let_def iwm_keeps drive_keeps)

lemma drives_strobe [iwm_keeps]: "drives_ok s \<Longrightarrow> drives_ok (applyDriveStrobe h s)"
  by (simp add: applyDriveStrobe_def Let_def iwm_keeps drive_keeps)

lemma drives_line [iwm_keeps]: "drives_ok s \<Longrightarrow> drives_ok (setLine h line on s)"
  by (simp add: setLine_def Let_def iwm_keeps drive_keeps)

lemma drives_sense [iwm_keeps]: "drives_ok (snd (driveSenseHigh s)) = drives_ok s"
  by (simp add: driveSenseHigh_def swim_sense_def iwm_sense_def Let_def iwm_keeps)

lemma drives_registers [iwm_keeps]:
  "drives_ok s \<Longrightarrow> drives_ok (snd (iwm_readRegister s))" "drives_ok s \<Longrightarrow> drives_ok (iwm_writeRegister h v s)"
  by (simp_all add: iwm_readRegister_def iwm_writeRegister_def Let_def split_beta iwm_keeps drive_keeps)

lemma drives_phases [iwm_keeps]: "drives_ok s \<Longrightarrow> drives_ok (applySwimPhases h phases s)"
  by (simp add: applySwimPhases_def Let_def iwm_keeps drive_keeps)

lemma drives_swim [iwm_keeps]:
  "drives_ok s \<Longrightarrow> drives_ok (swim_write h reg v s)" "drives_ok s \<Longrightarrow> drives_ok (after_swim_write h p s)"
  "drives_ok s \<Longrightarrow> drives_ok (snd (swim_read reg s))"
  by (simp_all add: swim_write_def after_swim_write_def swim_read_def Let_def split_beta iwm_keeps drive_keeps)

lemma drives_access [iwm_keeps]: "drives_ok s \<Longrightarrow> drives_ok (snd (iwm_access h i v write s))"
  by (simp add: iwm_access_def swimAccess_def swim_unlock_def Let_def iwm_keeps)

lemma drives_host [iwm_keeps]:
  "drives_ok s \<Longrightarrow> drives_ok (iwm_reset h s)" "drives_ok s \<Longrightarrow> drives_ok (snd (loadFloppyImage h drive path ro s))"
  "drives_ok s \<Longrightarrow> drives_ok (ejectFloppyImage h drive s)"
  by (simp_all add: iwm_reset_def loadFloppyImage_def ejectFloppyImage_def Let_def iwm_keeps drive_keeps)



section \<open>Laws of the floppy controller\<close>

text \<open>How the SWIM mode is entered, and how a driver brings the head to track zero.\<close>

subsection \<open>What an operation on a drive leaves alone\<close>

lemma on_selected_keeps [simp]:
  "iwm_lines (snd (on_selected f s)) = iwm_lines s"
  "iwm_mode (snd (on_selected f s)) = iwm_mode s"
  "iwm_status (snd (on_selected f s)) = iwm_status s"
  "iwm_selectedDriveRegister (snd (on_selected f s)) = iwm_selectedDriveRegister s"
  "iwm_stepTowardTrackZero (snd (on_selected f s)) = iwm_stepTowardTrackZero s"
  "iwm_sideSelect (snd (on_selected f s)) = iwm_sideSelect s"
  "swim_mode (snd (on_selected f s)) = swim_mode s"
  "swim_transition (snd (on_selected f s)) = swim_transition s"
  "swim_modeRegister (snd (on_selected f s)) = swim_modeRegister s"
  by (simp_all add: on_selected_def on_internal_def on_external_def split_beta)

lemma do_selected_keeps [simp]:
  "iwm_lines (do_selected f s) = iwm_lines s"
  "iwm_mode (do_selected f s) = iwm_mode s"
  "iwm_selectedDriveRegister (do_selected f s) = iwm_selectedDriveRegister s"
  "iwm_stepTowardTrackZero (do_selected f s) = iwm_stepTowardTrackZero s"
  "iwm_sideSelect (do_selected f s) = iwm_sideSelect s"
  "swim_mode (do_selected f s) = swim_mode s"
  "swim_transition (do_selected f s) = swim_transition s"
  by (simp_all add: do_selected_def)

lemma sense_keeps [simp]:
  "iwm_lines (snd (driveSenseHigh s)) = iwm_lines s"
  "iwm_selectedDriveRegister (snd (driveSenseHigh s)) = iwm_selectedDriveRegister s"
  "iwm_stepTowardTrackZero (snd (driveSenseHigh s)) = iwm_stepTowardTrackZero s"
  "iwm_sideSelect (snd (driveSenseHigh s)) = iwm_sideSelect s"
  "swim_mode (snd (driveSenseHigh s)) = swim_mode s"
  "swim_transition (snd (driveSenseHigh s)) = swim_transition s"
  by (simp_all add: driveSenseHigh_def swim_sense_def iwm_sense_def Let_def)

lemma strobe_keeps [simp]:
  "iwm_lines (applyDriveStrobe h s) = iwm_lines s"
  "iwm_selectedDriveRegister (applyDriveStrobe h s) = iwm_selectedDriveRegister s"
  "iwm_sideSelect (applyDriveStrobe h s) = iwm_sideSelect s"
  "swim_mode (applyDriveStrobe h s) = swim_mode s"
  "swim_transition (applyDriveStrobe h s) = swim_transition s"
  by (simp_all add: applyDriveStrobe_def ejectSelectedDrive_def Let_def)

lemma setLine_keeps [simp]:
  "iwm_lines (setLine h line on s) = (iwm_lines s)(line := on)"
  "swim_mode (setLine h line on s) = swim_mode s"
  "swim_transition (setLine h line on s) = swim_transition s"
  by (simp_all add: setLine_def updateSelectedDriveRegister_def Let_def)

lemma registers_keep [simp]:
  "iwm_lines (snd (iwm_readRegister s)) = iwm_lines s"
  "iwm_selectedDriveRegister (snd (iwm_readRegister s)) = iwm_selectedDriveRegister s"
  "iwm_stepTowardTrackZero (snd (iwm_readRegister s)) = iwm_stepTowardTrackZero s"
  "iwm_sideSelect (snd (iwm_readRegister s)) = iwm_sideSelect s"
  "swim_mode (snd (iwm_readRegister s)) = swim_mode s"
  "swim_transition (snd (iwm_readRegister s)) = swim_transition s"
  "swim_mode (iwm_writeRegister h v s) = swim_mode s"
  "swim_transition (iwm_writeRegister h v s) = swim_transition s"
  by (simp_all add: iwm_readRegister_def iwm_writeRegister_def split_beta Let_def)

subsection \<open>Entering the SWIM mode\<close>

text \<open>A sequence of accesses, and the four that unlock the chip.\<close>

type_synonym bus_access = "u8 \<times> u8 \<times> bool"

definition run_accesses :: "'h host_files \<Rightarrow> bus_access list \<Rightarrow> 'h iwm \<Rightarrow> 'h iwm" where
  "run_accesses h = fold (\<lambda>(r, v, w) s. snd (iwm_access h r v w s))"

definition unlocks :: "bool \<Rightarrow> bus_access \<Rightarrow> bool" where
  "unlocks b = (\<lambda>(r, v, w). w \<and> r AND 0x0f = 0x0f \<and> (v AND 0x40 \<noteq> 0) = b)"

text \<open>
  \<open>unlocking h s b cs a\<close>: the access \<open>a\<close>, made after the accesses \<open>cs\<close>, is a write of the mode register with
  bit 6 equal to \<open>b\<close> while the drive is disabled.
\<close>

definition unlocking :: "'h host_files \<Rightarrow> 'h iwm \<Rightarrow> bool \<Rightarrow> bus_access list \<Rightarrow> bus_access \<Rightarrow> bool" where
  "unlocking h s b cs a \<longleftrightarrow> unlocks b a \<and> \<not> iwm_lines (run_accesses h cs s) Motor"

text \<open>One access moves the transition counter on, or switches the mode, or clears the counter.\<close>

lemma access_counts:
  assumes "\<not> swim_mode s"
  shows "(let t = snd (iwm_access h r v w s)
    in if unlocks (swim_transition s \<noteq> 1) (r, v, w) \<and> \<not> iwm_lines s Motor
       then (if swim_transition s = 3 then swim_mode t
             else \<not> swim_mode t \<and> swim_transition t = swim_transition s + 1)
       else \<not> swim_mode t \<and> swim_transition t = 0)"
proof -
  have three: "swim_transition s + 1 = 4 \<longleftrightarrow> swim_transition s = 3"
    by (metis add_right_cancel one_plus_numeral_commute numeral_plus_one semiring_norm(2,8))
  define u where "u = swim_unlock (r AND 0x0f) v w s"
  have u: "if unlocks (swim_transition s \<noteq> 1) (r, v, w) \<and> \<not> iwm_lines s Motor
       then (if swim_transition s = 3 then swim_mode u
             else \<not> swim_mode u \<and> swim_transition u = swim_transition s + 1)
       else \<not> swim_mode u \<and> swim_transition u = 0"
    using assms three by (auto simp: u_def swim_unlock_def unlocks_def Let_def)
  moreover have "swim_mode (snd (iwm_access h r v w s)) = swim_mode u"
    "swim_transition (snd (iwm_access h r v w s)) = swim_transition u"
    using assms by (simp_all add: iwm_access_def u_def Let_def)
  ultimately show ?thesis
    unfolding Let_def by (simp only:)
qed

text \<open>Invariant: the transition counter is the number of unlocking writes just made.\<close>

definition counted :: "'h host_files \<Rightarrow> 'h iwm \<Rightarrow> bus_access list \<Rightarrow> bool" where
  "counted h s as \<longleftrightarrow>
    (let u = run_accesses h as s
     in if swim_mode u
        then \<exists>cs w x y z. as = cs @ [w, x, y, z] \<and> unlocking h s True cs w \<and> unlocking h s False (cs @ [w]) x \<and>
               unlocking h s True (cs @ [w, x]) y \<and> unlocking h s True (cs @ [w, x, y]) z
        else swim_transition u = 0 \<or>
             (swim_transition u = 1 \<and> (\<exists>cs w. as = cs @ [w] \<and> unlocking h s True cs w)) \<or>
             (swim_transition u = 2 \<and> (\<exists>cs w x. as = cs @ [w, x] \<and> unlocking h s True cs w \<and>
               unlocking h s False (cs @ [w]) x)) \<or>
             (swim_transition u = 3 \<and> (\<exists>cs w x y. as = cs @ [w, x, y] \<and> unlocking h s True cs w \<and>
               unlocking h s False (cs @ [w]) x \<and> unlocking h s True (cs @ [w, x]) y)))"

lemma run_accesses_append: "run_accesses h (as @ bs) s = run_accesses h bs (run_accesses h as s)"
  by (simp add: run_accesses_def)

lemma run_access: "run_accesses h [a] s = snd (iwm_access h (fst a) (fst (snd a)) (snd (snd a)) s)"
  by (simp add: run_accesses_def split_beta)

lemma counted_step:
  assumes "counted h s as" and "\<not> swim_mode (run_accesses h as s)"
  shows "counted h s (as @ [a])"
proof -
  let ?u = "run_accesses h as s" and ?t = "run_accesses h (as @ [a]) s"
  have t: "if unlocking h s (swim_transition ?u \<noteq> 1) as a
       then (if swim_transition ?u = 3 then swim_mode ?t
             else \<not> swim_mode ?t \<and> swim_transition ?t = swim_transition ?u + 1)
       else \<not> swim_mode ?t \<and> swim_transition ?t = 0"
    using access_counts [OF assms(2), of h "fst a" "fst (snd a)" "snd (snd a)"]
    by (simp add: Let_def unlocking_def run_accesses_append run_access)
  show ?thesis
  proof (cases "unlocking h s (swim_transition ?u \<noteq> 1) as a")
    case False
    with t show ?thesis by (simp add: counted_def)
  next
    case a: True
    from assms consider "swim_transition ?u = 0"
      | cs w where "swim_transition ?u = 1" "as = cs @ [w]" "unlocking h s True cs w"
      | cs w x where "swim_transition ?u = 2" "as = cs @ [w, x]" "unlocking h s True cs w" "unlocking h s False (cs @ [w]) x"
      | cs w x y where "swim_transition ?u = 3" "as = cs @ [w, x, y]" "unlocking h s True cs w"
          "unlocking h s False (cs @ [w]) x" "unlocking h s True (cs @ [w, x]) y"
      unfolding counted_def Let_def by auto
    then show ?thesis
    proof cases
      case 1
      with a t show ?thesis by (auto simp: counted_def)
    next
      case (2 cs w)
      with a t have "unlocking h s False (cs @ [w]) a" "\<not> swim_mode ?t" "swim_transition ?t = 2" by simp_all
      with 2 show ?thesis unfolding counted_def Let_def by auto
    next
      case (3 cs w x)
      with a t have "unlocking h s True (cs @ [w, x]) a" "\<not> swim_mode ?t" "swim_transition ?t = 3" by simp_all
      with 3 show ?thesis unfolding counted_def Let_def by auto
    next
      case (4 cs w x y)
      with a t have "unlocking h s True (cs @ [w, x, y]) a" "swim_mode ?t" by simp_all
      with 4 show ?thesis unfolding counted_def Let_def by auto
    qed
  qed
qed

lemma all_counted:
  assumes "swim_transition s = 0" and "\<not> swim_mode s" and "\<forall>k < length as. \<not> swim_mode (run_accesses h (take k as) s)"
  shows "counted h s as"
  using assms(3)
proof (induction as rule: rev_induct)
  case Nil
  then show ?case using assms by (simp add: run_accesses_def counted_def)
next
  case (snoc x as)
  have "counted h s as" "\<not> swim_mode (run_accesses h as s)"
    using snoc.IH snoc.prems by (force, force)
  then show ?case by (rule counted_step)
qed

text \<open>With the drive disabled an access of the mode register leaves it disabled.\<close>

lemma unlock_step:
  assumes "\<not> swim_mode s" "\<not> iwm_lines s Motor" "unlocks (swim_transition s \<noteq> 1) a"
  shows "swim_transition s \<noteq> 3 \<Longrightarrow> \<not> swim_mode (run_accesses h [a] s) \<and> \<not> iwm_lines (run_accesses h [a] s) Motor \<and>
      swim_transition (run_accesses h [a] s) = swim_transition s + 1"
    "swim_transition s = 3 \<Longrightarrow> swim_mode (run_accesses h [a] s)"
proof -
  obtain r v w where a: "a = (r, v, w)" by (cases a)
  have c: "if swim_transition s = 3 then swim_mode (run_accesses h [a] s)
      else \<not> swim_mode (run_accesses h [a] s) \<and> swim_transition (run_accesses h [a] s) = swim_transition s + 1"
    using access_counts [OF assms(1), of h r v w] assms by (simp add: a run_access Let_def)
  have r: "r AND 0x0f = 0x0f" using assms(3) by (simp add: a unlocks_def)
  have "\<not> iwm_lines (run_accesses h [a] s) Motor" if "\<not> swim_mode (run_accesses h [a] s)"
  proof -
    define u where "u = swim_unlock 0x0f v w s"
    have "iwm_lines u = iwm_lines s" by (simp add: u_def swim_unlock_def Let_def)
    moreover have "\<not> swim_mode u"
      using that assms(1) by (auto simp: a run_access iwm_access_def r u_def Let_def split: if_splits)
    ultimately show ?thesis
      using assms(1,2) unfolding a run_access fst_conv snd_conv iwm_access_def Let_def r u_def [symmetric]
      by (simp add: iwm_writeRegister_def Let_def)
  qed
  with c show "swim_transition s \<noteq> 3 \<Longrightarrow> \<not> swim_mode (run_accesses h [a] s) \<and>
      \<not> iwm_lines (run_accesses h [a] s) Motor \<and> swim_transition (run_accesses h [a] s) = swim_transition s + 1"
    "swim_transition s = 3 \<Longrightarrow> swim_mode (run_accesses h [a] s)"
    by simp_all
qed

text \<open>
  C30. The SWIM mode is entered only by the unlocking sequence: whatever accesses a program makes to
  a locked chip, if the last of them switches the mode then the last four were writes of the mode
  register with bit 6 set, clear, set and set, each made while the drive was disabled.  Conversely four such
  writes in a row from a cleared counter, with the drive disabled, do enter it.
\<close>

theorem swim_entry:
  assumes "\<not> swim_mode s" "swim_transition s = 0"
  shows "((\<forall>k < length as. \<not> swim_mode (run_accesses h (take k as) s)) \<and> swim_mode (run_accesses h as s) \<longrightarrow>
      (\<exists>cs w x y z. as = cs @ [w, x, y, z] \<and>
        unlocks True w \<and> unlocks False x \<and> unlocks True y \<and> unlocks True z \<and>
        (\<forall>ds\<in>{cs, cs @ [w], cs @ [w, x], cs @ [w, x, y]}. \<not> iwm_lines (run_accesses h ds s) Motor))) \<and>
    (\<not> iwm_lines s Motor \<and> unlocks True a \<and> unlocks False b \<and> unlocks True c \<and> unlocks True d \<longrightarrow>
      swim_mode (run_accesses h [a, b, c, d] s))"
proof (intro conjI impI)
  assume "(\<forall>k < length as. \<not> swim_mode (run_accesses h (take k as) s)) \<and> swim_mode (run_accesses h as s)"
  then show "\<exists>cs w x y z. as = cs @ [w, x, y, z] \<and>
      unlocks True w \<and> unlocks False x \<and> unlocks True y \<and> unlocks True z \<and>
      (\<forall>ds\<in>{cs, cs @ [w], cs @ [w, x], cs @ [w, x, y]}. \<not> iwm_lines (run_accesses h ds s) Motor)"
    using all_counted [OF assms(2,1), of as h] unfolding counted_def unlocking_def Let_def by auto
next
  assume "\<not> iwm_lines s Motor \<and> unlocks True a \<and> unlocks False b \<and> unlocks True c \<and> unlocks True d"
  then have m: "\<not> iwm_lines s Motor" and x: "unlocks True a" "unlocks False b" "unlocks True c" "unlocks True d"
    by simp_all
  define s1 where "s1 = run_accesses h [a] s"
  define s2 where "s2 = run_accesses h [b] s1"
  define s3 where "s3 = run_accesses h [c] s2"
  have s1: "\<not> swim_mode s1" "\<not> iwm_lines s1 Motor" "swim_transition s1 = 1"
    using unlock_step(1) [of s a h] assms m x(1) by (simp_all add: s1_def)
  have s2: "\<not> swim_mode s2" "\<not> iwm_lines s2 Motor" "swim_transition s2 = 2"
    using unlock_step(1) [of s1 b h] s1 x(2) by (simp_all add: s2_def)
  have s3: "\<not> swim_mode s3" "\<not> iwm_lines s3 Motor" "swim_transition s3 = 3"
    using unlock_step(1) [of s2 c h] s2 x(3) by (simp_all add: s3_def)
  have "run_accesses h [a, b, c, d] s = run_accesses h [d] s3"
    by (simp add: run_accesses_def s1_def s2_def s3_def)
  then show "swim_mode (run_accesses h [a, b, c, d] s)"
    using unlock_step(2) [of s3 d h] s3 x(4) by simp
qed

definition sample_iwm :: "(string \<rightharpoonup> u8 list) iwm" where
  "sample_iwm = \<lparr>iwm_lines = (\<lambda>_. False)(Ca0 := True), iwm_internalDrive = sample_floppy\<lparr>fd_currentTrack := 40\<rparr>,
     iwm_externalDrive = floppy_init Map.empty, iwm_mode = 0, iwm_status = 0, iwm_selectedDriveRegister = 4,
     iwm_stepTowardTrackZero = True, iwm_sideSelect = False, iwm_tach = False, iwm_dataReads = 0,
     iwm_statusReads = 0, iwm_handshakeReads = 0, iwm_dataWrites = 0, swim_mode = False, swim_transition = 0,
     swim_modeRegister = 0, swim_setup = 0, swim_phases = 0, swim_parameters = (\<lambda>_. 0),
     swim_parameterIndex = 0, swim_error = 0, swim_phaseStrobe = False, iwm_mediaEjected = [],
     iwm_host = Map.empty\<rparr>"

lemma swim_entry_witness:
  "swim_mode (run_accesses map_host
     [(0x0f, 0x57, True), (0x0f, 0x17, True), (0x0f, 0x57, True), (0x0f, 0x57, True)] sample_iwm)"
proof -
  have "\<not> swim_mode sample_iwm" "swim_transition sample_iwm = 0" "\<not> iwm_lines sample_iwm Motor"
    by (simp_all add: sample_iwm_def)
  moreover have "unlocks True (0x0f, 0x57, True)" "unlocks False (0x0f, 0x17, True)"
    by (simp_all add: unlocks_def)
  ultimately show ?thesis using swim_entry by blast
qed

subsection \<open>Moving the head\<close>

lemma track_of_read [simp]: "fd_currentTrack (snd (nextNibble d)) = fd_currentTrack d"
  by (simp add: nextNibble_def nextDiskByte_def peekDiskByte_def rebuildTrackCache_def advance_cursor_def
      split_beta Let_def)

lemma track_of_step [simp]:
  "fd_currentTrack (floppy_step h toZero d) = max 0 (min (fd_currentTrack d + (if toZero then -1 else 1)) 79)"
  by (simp add: floppy_step_def setCurrentTrack_def invalidateTrackCache_def Let_def)

lemma selected_after [simp]:
  "selectedDrive (snd (on_selected f s)) = snd (f ((selectedDrive s)\<lparr>fd_host := iwm_host s\<rparr>))"
  "selectedDrive (do_selected g s) = g ((selectedDrive s)\<lparr>fd_host := iwm_host s\<rparr>)"
  by (simp_all add: selectedDrive_def on_selected_def do_selected_def unit_op_def on_internal_def
      on_external_def split_beta)

text \<open>The lines as a driver sets them to step: the step register selected, the chip in its reading state.\<close>

definition stepping :: "'h iwm \<Rightarrow> bool" where
  "stepping s \<longleftrightarrow> \<not> swim_mode s \<and> \<not> q6 s \<and> \<not> q7 s \<and> iwm_selectedDriveRegister s = 0x04 \<and>
     iwm_stepTowardTrackZero s"

definition strobe :: "'h host_files \<Rightarrow> 'h iwm \<Rightarrow> 'h iwm" where
  "strobe h s = run_accesses h [(7, 0, False), (6, 0, False)] s"

lemma selected_update [simp]:
  "selectedDrive (s\<lparr>iwm_dataReads := x\<rparr>) = selectedDrive s"
  by (simp add: selectedDrive_def)

lemma access_lstrb:
  assumes "stepping s"
  shows "snd (iwm_access h 7 0 False s) =
      snd (on_selected nextNibble (s\<lparr>swim_transition := 0, iwm_lines := (iwm_lines s)(3 := True),
        iwm_dataReads := iwm_dataReads s + 1\<rparr>))"
    "iwm_lines s 3 \<Longrightarrow> snd (iwm_access h 6 0 False s) =
      (let s = do_selected (floppy_step h True)
             (do_selected (flush_drive h) (s\<lparr>swim_transition := 0, iwm_lines := (iwm_lines s)(3 := False)\<rparr>))
       in snd (on_selected nextNibble (s\<lparr>iwm_dataReads := iwm_dataReads s + 1\<rparr>)))"
proof -
  have u: "swim_unlock (7 AND 0x0f) 0 False s = s\<lparr>swim_transition := 0\<rparr>"
      "swim_unlock (6 AND 0x0f) 0 False s = s\<lparr>swim_transition := 0\<rparr>"
    by (simp_all add: swim_unlock_def)
  show "snd (iwm_access h 7 0 False s) =
      snd (on_selected nextNibble (s\<lparr>swim_transition := 0, iwm_lines := (iwm_lines s)(3 := True),
        iwm_dataReads := iwm_dataReads s + 1\<rparr>))"
    using assms unfolding iwm_access_def Let_def u
    by (simp add: stepping_def setLine_def iwm_readRegister_def q6_def q7_def)
  show "snd (iwm_access h 6 0 False s) =
      (let s = do_selected (floppy_step h True)
             (do_selected (flush_drive h) (s\<lparr>swim_transition := 0, iwm_lines := (iwm_lines s)(3 := False)\<rparr>))
       in snd (on_selected nextNibble (s\<lparr>iwm_dataReads := iwm_dataReads s + 1\<rparr>)))" if "iwm_lines s 3"
    using assms that unfolding iwm_access_def Let_def u
    by (simp add: stepping_def setLine_def applyDriveStrobe_def iwm_readRegister_def q6_def q7_def Let_def)
qed

lemma strobe_steps:
  assumes "stepping s"
  shows "stepping (strobe h s)"
    "fd_currentTrack (selectedDrive (strobe h s)) = max 0 (min (fd_currentTrack (selectedDrive s) - 1) 79)"
proof -
  define t where "t = snd (iwm_access h 7 0 False s)"
  have l: "iwm_lines t = (iwm_lines s)(3 := True)" by (simp add: t_def access_lstrb [OF assms])
  have t: "stepping t" "fd_currentTrack (selectedDrive t) = fd_currentTrack (selectedDrive s)"
    using assms l by (simp_all add: t_def access_lstrb stepping_def q6_def q7_def) (simp add: selectedDrive_def)
  have m: "selectedDrive (t\<lparr>swim_transition := 0, iwm_lines := (iwm_lines s)(3 := False)\<rparr>) = selectedDrive t"
    by (simp add: selectedDrive_def l)
  have e: "strobe h s = snd (iwm_access h 6 0 False t)" by (simp add: strobe_def run_accesses_def t_def)
  show "stepping (strobe h s)"
    using t(1) assms by (simp add: e access_lstrb(2) [OF t(1)] l Let_def stepping_def q6_def q7_def)
  show "fd_currentTrack (selectedDrive (strobe h s)) = max 0 (min (fd_currentTrack (selectedDrive s) - 1) 79)"
    using m unfolding t(2) [symmetric]
    by (simp add: e access_lstrb(2) [OF t(1)] l Let_def flush_drive_def flush_keeps)
qed

text \<open>
  Homing. Once a driver has selected the step register with the direction toward track zero,
  each pulse of the strobe line moves the head of the selected drive one track out, so that after
  eighty pulses, wherever it was, the head is on track zero and stays there.
\<close>

theorem homing:
  assumes "stepping s" "floppy_ok (selectedDrive s)"
  shows "fd_currentTrack (selectedDrive ((strobe h ^^ n) s)) =
      max 0 (fd_currentTrack (selectedDrive s) - int n) \<and>
    (80 \<le> n \<longrightarrow> trackZero (selectedDrive ((strobe h ^^ n) s)))"
proof -
  let ?t = "\<lambda>n. fd_currentTrack (selectedDrive ((strobe h ^^ n) s))"
  have range: "0 \<le> ?t 0" "?t 0 < 80" using assms(2) by (simp_all add: floppy_ok_def)
  have "stepping ((strobe h ^^ n) s) \<and> ?t n = max 0 (?t 0 - int n)"
  proof (induction n)
    case (Suc n)
    then show ?case using strobe_steps [of "(strobe h ^^ n) s" h] range by (auto simp: max_def min_def)
  qed (use assms range in simp)
  with range show ?thesis by (simp add: trackZero_def)
qed

lemma homing_witness: "trackZero (selectedDrive ((strobe map_host ^^ 80) sample_iwm))"
proof -
  have "selectedDrive sample_iwm = sample_floppy\<lparr>fd_currentTrack := 40\<rparr>"
    by (simp add: sample_iwm_def selectedDrive_def)
  moreover have "floppy_ok (sample_floppy\<lparr>fd_currentTrack := 40\<rparr>)"
    by (simp add: sample_floppy_def floppy_init_def floppy_ok_def empty_cache_def inserted_def heads_def)
  moreover have "stepping sample_iwm" by (simp add: stepping_def sample_iwm_def q6_def q7_def)
  ultimately show ?thesis using homing [where s = sample_iwm and n = 80 and h = map_host] by simp
qed

end
