(* ===== verification/MacPlusLaws.thy ===== *)
theory MacPlusLaws
  imports MacPlusDevices IwmLaws
begin

section \<open>The invariant of the Macintosh Plus\<close>

text \<open>
  What every operation of the machine around its processor keeps: the invariants of the VIA, the clock, the
  drives and the SCSI devices, and the bounds of the machine's own members.  The VIA's callbacks reach the
  other chips, so its contract \<open>via_machine\<close> is extended by an invariant of the machine and interpreted on
  the callbacks of the Macintosh Plus.
\<close>

unbundle bit_operations_syntax

subsection \<open>Targets under the controller\<close>

text \<open>An invariant of each target that commands keep is kept by every access to the controller.\<close>

definition all_targets :: "(nat \<Rightarrow> 't \<Rightarrow> bool) \<Rightarrow> 't ncr \<Rightarrow> bool" where
  "all_targets P s \<longleftrightarrow> (\<forall>n. P n (ncr_objects s n))"

definition commands_keep :: "(nat \<Rightarrow> 't \<Rightarrow> bool) \<Rightarrow> 't ScsiTarget \<Rightarrow> bool" where
  "commands_keep P target \<longleftrightarrow> (\<forall>n t cdb out. P n t \<longrightarrow> P n (snd (target_executeCommand target cdb out t)))"

named_theorems targets_keep \<open>operations of the controller that keep an invariant of the targets\<close>

lemma targets_objects [targets_keep]:
  "all_targets P (setPhase phase r s) = all_targets P s" "all_targets P (acceptCommandByte v s) = all_targets P s"
  "all_targets P (finish_command result n s) = all_targets P s" "all_targets P (writeDataByte v s) = all_targets P s"
  "all_targets P (snd (readDataByte s)) = all_targets P s" "all_targets P (reassert s) = all_targets P s"
  "all_targets P (select_target target s) = all_targets P s" "all_targets P (ack_raised v s) = all_targets P s"
  "all_targets P (ncr_reset s) = all_targets P s" "all_targets P (attachTarget i n s) = all_targets P s"
  "all_targets P (detachTarget i s) = all_targets P s"
  by (simp_all add: all_targets_def setPhase_def acceptCommandByte_def finish_command_def push_trace_def
      writeDataByte_def readDataByte_def reassert_def select_target_def ack_raised_def ncr_reset_def attachTarget_def
      detachTarget_def Let_def split: scsi_phase.split list.split)

lemma targets_read [targets_keep]: "all_targets P (snd (ncr_readRegister i dack s)) = all_targets P s"
proof -
  have f: "all_targets P (s\<lparr>ncr_request := b\<rparr>) = all_targets P s"
    "all_targets P (s\<lparr>ncr_requestReassertPending := b\<rparr>) = all_targets P s" for b s
    by (simp_all add: all_targets_def)
  show ?thesis
    by (simp add: ncr_readRegister_def Let_def split_beta targets_keep f currentBusStatus_def busAndStatus_def)
qed

lemma targets_write [targets_keep]:
  assumes "commands_keep P target" and "all_targets P s"
  shows "all_targets P (ncr_writeRegister target i dack v s)"
proof -
  have f: "all_targets P (s\<lparr>ncr_status := b, ncr_message := c\<rparr>) = all_targets P s"
    "all_targets P (s\<lparr>ncr_dataOut := d\<rparr>) = all_targets P s" "all_targets P (s\<lparr>ncr_expectedDataOut := n\<rparr>) = all_targets P s"
    "all_targets P (s\<lparr>ncr_dataBuffer := d, ncr_dataIndex := n\<rparr>) = all_targets P s"
    "all_targets P (s\<lparr>ncr_expectedDataOut := n, ncr_dataBuffer := d, ncr_dataIndex := k\<rparr>) = all_targets P s"
    "all_targets P (s\<lparr>ncr_dataOutCompletionPending := q, ncr_request := r\<rparr>) = all_targets P s"
    "all_targets P (s\<lparr>ncr_dataOutCompletionPending := q\<rparr>) = all_targets P s"
    "all_targets P (s\<lparr>ncr_request := r\<rparr>) = all_targets P s" "all_targets P (s\<lparr>ncr_requestReassertPending := r\<rparr>) = all_targets P s"
    "all_targets P (s\<lparr>ncr_commandReady := r\<rparr>) = all_targets P s" "all_targets P (s\<lparr>ncr_previousAck := r\<rparr>) = all_targets P s"
    "all_targets P (s\<lparr>ncr_registers := g\<rparr>) = all_targets P s" "all_targets P (s\<lparr>ncr_targetCommand := b\<rparr>) = all_targets P s"
    "all_targets P (s\<lparr>ncr_outputData := b\<rparr>) = all_targets P s" for b c d n k q r g s
    by (simp_all add: all_targets_def)
  have run: "all_targets P s \<Longrightarrow> all_targets P (snd (run_target target object cdb out s))" for object cdb out s
    using assms(1) by (auto simp: all_targets_def commands_keep_def run_target_def split_beta Let_def)
  have exec: "all_targets P s \<Longrightarrow> all_targets P (ncr_executeCommand target s)" for s
    by (simp add: ncr_executeCommand_def Let_def split_beta targets_keep f run split: option.split)
  have complete: "all_targets P s \<Longrightarrow> all_targets P (completeDataOutCommand target s)" for s
    by (simp add: completeDataOutCommand_def Let_def split_beta targets_keep f run split: option.split)
  have over: "all_targets P s \<Longrightarrow> all_targets P (data_out_done target s)" for s
    by (simp add: data_out_done_def f complete)
  have finish: "all_targets P s \<Longrightarrow> all_targets P (finishDataPhaseIfDone target s)" for s
    by (simp add: finishDataPhaseIfDone_def Let_def targets_keep f over)
  have ack: "all_targets P s \<Longrightarrow> all_targets P (ack_lowered target s)" for s
    by (simp add: ack_lowered_def Let_def targets_keep f exec finish)
  show ?thesis
    using assms(2)
    by (simp add: ncr_writeRegister_def write_dack_def write_initiatorCommand_def write_mode_def Let_def targets_keep f
        exec complete finish ack)
qed

lemma targets_bus [targets_keep]:
  "all_targets P s \<Longrightarrow> all_targets P (snd (ncrbus_readRegister w i sz s))"
  "all_targets P s \<Longrightarrow> all_targets P (snd (ncrbus_readPseudoDma w sz s))"
  "commands_keep P target \<Longrightarrow> all_targets P s \<Longrightarrow> all_targets P (ncrbus_writeRegister target w i sz v s)"
  "commands_keep P target \<Longrightarrow> all_targets P s \<Longrightarrow> all_targets P (ncrbus_writePseudoDma target w sz v s)"
proof -
  have r: "all_targets P (snd (readDack w s)) = all_targets P s" for s
    by (simp add: readDack_def targets_keep)
  have wr: "commands_keep P target \<Longrightarrow> all_targets P s \<Longrightarrow> all_targets P (writeDack target w v s)" for v s
    by (simp add: writeDack_def targets_keep)
  have fr: "all_targets P (snd (fold (\<lambda>_ (value, s). (push_bit 8 value OR ucast (fst (readDack w s)), snd (readDack w s))) xs (a, s)))
      = all_targets P s" for xs :: "nat list" and a :: u32 and s
    by (induction xs arbitrary: a s) (simp_all add: r)
  have fw: "commands_keep P target \<Longrightarrow> all_targets P s \<Longrightarrow> all_targets P (fold (\<lambda>i. writeDack target w (g i)) xs s)"
    for xs :: "nat list" and g s
    by (induction xs arbitrary: s) (simp_all add: wr)
  show "all_targets P s \<Longrightarrow> all_targets P (snd (ncrbus_readRegister w i sz s))"
    "all_targets P s \<Longrightarrow> all_targets P (snd (ncrbus_readPseudoDma w sz s))"
    "commands_keep P target \<Longrightarrow> all_targets P s \<Longrightarrow> all_targets P (ncrbus_writeRegister target w i sz v s)"
    "commands_keep P target \<Longrightarrow> all_targets P s \<Longrightarrow> all_targets P (ncrbus_writePseudoDma target w sz v s)"
    by (simp_all add: ncrbus_readRegister_def ncrbus_readPseudoDma_def ncrbus_writeRegister_def ncrbus_writePseudoDma_def
        split_beta Let_def targets_keep r wr fr fw)
qed

text \<open>Both kinds of target keep to the contract of the controller.\<close>

interpretation object: scsi_contract "object_target h" object_ok for h :: "'h host_files"
proof
  fix t :: "'h scsi_object" and cdb out
  assume "object_ok t"
  then show "result_status (fst (target_executeCommand (object_target h) cdb out t)) \<in> {0, 2}"
    "result_message (fst (target_executeCommand (object_target h) cdb out t)) = 0"
    "result_status (fst (target_executeCommand (object_target h) cdb out t)) = 2 \<Longrightarrow>
      result_data (fst (target_executeCommand (object_target h) cdb out t)) = []"
    "object_ok (snd (target_executeCommand (object_target h) cdb out t))"
    using disk.status [where h = h] disk.message [where h = h] disk.no_data [where h = h]
      cd.status cd.message cd.no_data cd.invariant
    by (cases t; simp add: object_target_def block_target_def cd_target_def)+
qed

subsection \<open>The VIA and its machine\<close>

text \<open>The contract of the VIA with an invariant of the machine that the callbacks keep.\<close>

locale via_host = via_machine cb for cb :: "'h via_callbacks" +
  fixes Q :: "'h \<Rightarrow> bool"
  assumes portA_keeps: "portAChanged cb = Some f \<Longrightarrow> Q (snd p) \<Longrightarrow> Q (snd (f v p))"
    and portB_keeps: "portBChanged cb = Some g \<Longrightarrow> Q (snd p) \<Longrightarrow> Q (snd (g v d p))"
    and write_keeps: "shiftRegisterWrite cb = Some f \<Longrightarrow> Q (snd p) \<Longrightarrow> Q (snd (f v p))"
    and read_keeps: "shiftRegisterRead cb = Some k \<Longrightarrow> Q (snd p) \<Longrightarrow> Q (snd (k p))"
begin

lemma host_notify:
  "Q (snd p) \<Longrightarrow> Q (snd (via_notifyPortAChanged cb p))" "Q (snd p) \<Longrightarrow> Q (snd (notifyPortB_register cb p))"
  "Q (snd p) \<Longrightarrow> Q (snd (notifyPortB_pins cb p))"
  by (auto simp: via_notifyPortAChanged_def notifyPortB_register_def notifyPortB_pins_def
      intro: portA_keeps portB_keeps split: option.split)

lemma host_reset: "Q (snd p) \<Longrightarrow> Q (snd (via_reset cb p))"
  by (simp add: via_reset_def host_notify)

lemma host_read: "Q (snd p) \<Longrightarrow> Q (snd (snd (via_readRegister cb i p)))"
  by (auto simp: via_readRegister_def Let_def intro: read_keeps split: option.split)

lemma host_write: "Q (snd p) \<Longrightarrow> Q (snd (via_writeRegister cb i v p))"
  by (auto simp: via_writeRegister_def start_timer1_def write_shift_def Let_def host_notify intro: write_keeps split: option.split)

lemma host_tick: "Q (snd p) \<Longrightarrow> Q (snd (via_tick cb n p))"
proof -
  have "Q (snd p) \<Longrightarrow> Q (snd (expire_timer1 cb p))" for p
    by (auto simp: expire_timer1_def Let_def host_notify split_beta)
  then have "Q (snd p) \<Longrightarrow> Q (snd (tick_timer1 cb n p))" for p
    by (auto simp: tick_timer1_def Let_def)
  then show "Q (snd p) \<Longrightarrow> Q (snd (via_tick cb n p))"
    by (auto simp: via_tick_def)
qed

end

subsection \<open>The invariant\<close>

text \<open>The chips but for the VIA, then the machine with it.  A CD-ROM drive of the table is one of the controller's.\<close>

fun is_cd :: "'h scsi_object \<Rightarrow> bool" where
  "is_cd (CdRom c) = True"
| "is_cd (BlockDevice d) = False"

definition scsi_ok :: "('h, 'e) chips \<Rightarrow> bool" where
  "scsi_ok c \<longleftrightarrow> all_targets (\<lambda>n. object_ok) (m_scsi c) \<and>
     (\<forall>k n. m_scsiCdRoms c k = Some n \<longrightarrow> n < m_objects c \<and> is_cd (ncr_objects (m_scsi c) n)) \<and>
     (\<forall>k n. m_scsiDisks c k = Some n \<longrightarrow> n < m_objects c \<and> \<not> is_cd (ncr_objects (m_scsi c) n))"

definition host_ok :: "('h, 'e) chips \<Rightarrow> bool" where
  "host_ok c \<longleftrightarrow> 0 \<le> sint (m_mouseX c) \<and> sint (m_mouseX c) \<le> 511 \<and> 0 \<le> sint (m_mouseY c) \<and> sint (m_mouseY c) \<le> 341 \<and>
     m_audioBufferIndex c < soundSamples \<and> m_soundVolume c \<le> 7 \<and>
     length (m_pendingAudio c) \<le> maxPendingAudioBytes \<and> in_order (sch_events (m_scheduler c))"

definition chips_ok :: "('h, 'e) chips \<Rightarrow> bool" where
  "chips_ok c \<longleftrightarrow> rtc_ok (m_rtc c) \<and> drives_ok (m_iwm c) \<and> scsi_ok c \<and> host_ok c"

definition mac_ok :: "('h, 'e) macintosh \<Rightarrow> bool" where
  "mac_ok m \<longleftrightarrow> via_ok (m_via (m_devices m)) \<and> chips_ok (m_devices m)"

text \<open>What never changes after construction.\<close>

definition shape :: "'d mac_plus \<Rightarrow> Model \<times> nat \<times> nat" where
  "shape m = (m_model m, length (m_ram m), length (m_rom m))"

definition kept :: "Model \<times> nat \<times> nat \<Rightarrow> ('h, 'e) macintosh \<Rightarrow> bool" where
  "kept z m \<longleftrightarrow> chips_ok (m_devices m) \<and> shape m = z"

lemma kept_fields [simp]:
  "kept z (m\<lparr>m_overlayEnabled := b\<rparr>) = kept z m" "kept z (m\<lparr>m_accessSummary := a\<rparr>) = kept z m"
  "length r = length (m_ram m) \<Longrightarrow> kept z (m\<lparr>m_ram := r\<rparr>) = kept z m" "kept z (MacPlusBus.count g m) = kept z m"
  "kept z (setOverlayEnabled b m) = kept z m"
  by (auto simp: kept_def shape_def MacPlusBus.count_def setOverlayEnabled_def)

lemma kept_on_chips: "kept z m \<Longrightarrow> (chips_ok (m_devices m) \<Longrightarrow> chips_ok (f (m_devices m))) \<Longrightarrow> kept z (on_chips f m)"
  by (simp add: kept_def shape_def on_chips_def)

lemma chips_via [simp]: "chips_ok (c\<lparr>m_via := v\<rparr>) = chips_ok c"
  by (simp add: chips_ok_def scsi_ok_def host_ok_def)

lemma word_le_7: "(v :: u8) AND 7 \<le> 7"
  by (rule word_and_le1)

lemma portA_kept: "kept z (snd p) \<Longrightarrow> kept z (snd (portA_callback out v p))"
  unfolding portA_callback_def snd_apsnd
  by (intro kept_on_chips) (auto simp: kept_def shape_def setOverlayEnabled_def on_chips_def chips_ok_def scsi_ok_def
      host_ok_def iwm_keeps word_le_7)

lemma portB_kept: "kept z (snd p) \<Longrightarrow> kept z (snd (portB_callback out v d p))"
  by (auto simp: portB_callback_def split_beta Let_def kept_def shape_def on_chips_def chips_ok_def scsi_ok_def
      host_ok_def rtc_setPins_ok)

lemma callbacks_via: "via_ok (fst p) \<Longrightarrow> via_ok (fst (portA_callback out v p))"
  "via_ok (fst p) \<Longrightarrow> via_ok (fst (portB_callback out v d p))"
  by (simp_all add: portA_callback_def portB_callback_def split_beta Let_def via_keeps)

interpretation mac_via: via_host "mac_callbacks out" "kept z" for out :: "('h, 'e) outside" and z
  by unfold_locales (auto simp: mac_callbacks_def callbacks_via portA_kept portB_kept)

text \<open>The machine with its VIA, and operations of the VIA in it.\<close>

definition mac_kept :: "Model \<times> nat \<times> nat \<Rightarrow> ('h, 'e) macintosh \<Rightarrow> bool" where
  "mac_kept z m \<longleftrightarrow> mac_ok m \<and> shape m = z"

lemma mac_kept_eq: "mac_kept z m \<longleftrightarrow> via_ok (m_via (m_devices m)) \<and> kept z m"
  by (auto simp: mac_kept_def kept_def mac_ok_def)

lemma put_via: "via_ok v \<Longrightarrow> kept z m \<Longrightarrow> mac_kept z (on_chips (\<lambda>c. c\<lparr>m_via := v\<rparr>) m)"
  by (simp add: mac_kept_eq on_chips_def kept_def shape_def)

lemma do_via_kept:
  assumes "mac_kept z m"
    and "\<And>p. via_ok (fst p) \<Longrightarrow> via_ok (fst (f p))" and "\<And>p. kept z (snd p) \<Longrightarrow> kept z (snd (f p))"
  shows "mac_kept z (do_via f m)"
  using assms(2,3) [of "(m_via (m_devices m), m)"] assms(1) put_via
  by (simp add: do_via_def with_via_def split_beta mac_kept_eq [of z m])

lemma with_via_kept:
  assumes "mac_kept z m"
    and "\<And>p. via_ok (fst p) \<Longrightarrow> via_ok (fst (snd (f p)))" and "\<And>p. kept z (snd p) \<Longrightarrow> kept z (snd (snd (f p)))"
  shows "mac_kept z (snd (with_via f m))"
  using assms(2,3) [of "(m_via (m_devices m), m)"] assms(1) put_via
  by (simp add: with_via_def split_beta mac_kept_eq [of z m])

named_theorems mac_keeps \<open>operations that keep the invariant of the machine\<close>

lemma via_ops_kept [mac_keeps]:
  assumes "mac_kept z m"
  shows "mac_kept z (do_via (via_writeRegister (mac_callbacks out) i v) m)"
    "mac_kept z (snd (with_via (via_readRegister (mac_callbacks out) i) m))"
    "mac_kept z (do_via (via_tick (mac_callbacks out) n) m)" "mac_kept z (do_via (via_reset (mac_callbacks out)) m)"
    "mac_kept z (do_via (notifyPortB_register (mac_callbacks out)) m)"
  by (rule do_via_kept with_via_kept assms mac_via.ok_write mac_via.host_write mac_via.ok_read mac_via.host_read
      mac_via.ok_tick mac_via.host_tick mac_via.ok_reset mac_via.host_reset mac_via.ok_notify mac_via.host_notify; assumption?)+

lemma mac_on_chips: "mac_kept z m \<Longrightarrow>
    (mac_ok m \<Longrightarrow> via_ok (m_via (f (m_devices m))) \<and> chips_ok (f (m_devices m))) \<Longrightarrow> mac_kept z (on_chips f m)"
  by (simp add: mac_kept_def mac_ok_def shape_def on_chips_def)

lemma mac_kept_fields [simp]:
  "mac_kept z (m\<lparr>m_accessSummary := a\<rparr>) = mac_kept z m" "mac_kept z (MacPlusBus.count g m) = mac_kept z m"
  "length r = length (m_ram m) \<Longrightarrow> mac_kept z (m\<lparr>m_ram := r\<rparr>) = mac_kept z m"
  "mac_kept z (setOverlayEnabled b m) = mac_kept z m"
  by (auto simp: mac_kept_def shape_def mac_ok_def MacPlusBus.count_def setOverlayEnabled_def)

subsection \<open>Accesses of the bus\<close>

lemma scsi_access:
  assumes "mac_kept z m" and "\<And>P. commands_keep P (object_target (host out)) \<Longrightarrow> all_targets P (m_scsi (m_devices m)) \<Longrightarrow>
      all_targets P (snd (f (m_scsi (m_devices m))))"
  shows "mac_kept z (snd (on_scsi f m))"
proof -
  let ?s = "m_scsi (m_devices m)"
  have c: "commands_keep (\<lambda>n. object_ok) (object_target (host out))"
    "commands_keep (\<lambda>n t. is_cd t = is_cd (ncr_objects ?s n)) (object_target (host out))"
  proof -
    have "is_cd (snd (object_executeCommand h cdb o2 t)) = is_cd t" for h cdb o2 and t :: "'a scsi_object"
      by (cases t) simp_all
    then show "commands_keep (\<lambda>n t. is_cd t = is_cd (ncr_objects ?s n)) (object_target (host out))"
      by (simp add: commands_keep_def object_target_def)
    show "commands_keep (\<lambda>n. object_ok) (object_target (host out))"
      by (simp add: commands_keep_def object.invariant)
  qed
  have "all_targets (\<lambda>n. object_ok) (snd (f ?s))" "all_targets (\<lambda>n t. is_cd t = is_cd (ncr_objects ?s n)) (snd (f ?s))"
    using assms(2) [OF c(1)] assms(2) [OF c(2)] assms(1)
    by (simp_all add: mac_kept_def mac_ok_def chips_ok_def scsi_ok_def) (simp add: all_targets_def)
  then show ?thesis
    using assms(1) unfolding on_scsi_def
    by (simp add: split_beta mac_kept_def mac_ok_def shape_def on_chips_def chips_ok_def scsi_ok_def host_ok_def all_targets_def)
qed

lemma scc_kept [mac_keeps]: "mac_kept z m \<Longrightarrow> mac_kept z (snd (scc_read offset m))"
  "mac_kept z m \<Longrightarrow> mac_kept z (scc_write offset v m)"
  by (auto simp: scc_read_def scc_write_def Let_def split_beta chips_ok_def scsi_ok_def host_ok_def mac_ok_def intro!: mac_on_chips)

lemma iwm_kept [mac_keeps]: "mac_kept z m \<Longrightarrow> mac_kept z (snd (iwm_chip out offset v wr m))"
  by (auto simp: iwm_chip_def split_beta iwm_keeps chips_ok_def scsi_ok_def host_ok_def mac_ok_def intro!: mac_on_chips)

lemma mmio_kept [mac_keeps]:
  assumes "mac_kept z m" and "\<And>f offset. mmio_read a = Some f \<Longrightarrow> mac_kept z (snd (f offset m))"
    and "\<And>f offset v. mmio_write a = Some f \<Longrightarrow> mac_kept z (f offset v m)"
  shows "mac_kept z (snd (mmio_access a offset t m))"
  using assms by (auto simp: mmio_access_def Let_def split_beta split: option.split)

lemma devices_kept [mac_keeps]:
  assumes "mac_kept z m"
  shows "mac_kept z (snd (sccBus_access (mac_devices out) offset t m))" "mac_kept z (snd (iwmBus_access (mac_devices out) offset t m))"
    "mac_kept z (snd (viaBus_access (mac_devices out) offset t m))"
    "mac_kept z (snd (scsi_readRegister (mac_devices out) i sz m))" "mac_kept z (scsi_writeRegister (mac_devices out) i sz v m)"
    "mac_kept z (snd (scsi_readPseudoDma (mac_devices out) sz m))" "mac_kept z (scsi_writePseudoDma (mac_devices out) sz v m)"
  unfolding mac_devices_def
  by (auto simp: mac_sccBus_def mac_iwmBus_def mac_viaBus_def intro!: mmio_kept mac_keeps assms)
    (auto intro!: scsi_access [where out = out] assms targets_bus)

lemma device_kept [mac_keeps]:
  assumes "mac_kept z m"
  shows "mac_kept z (snd (accessDevice (mac_devices out) t r m))"
  using assms by (cases r) (simp_all add: accessDevice_def accessScsi_def Let_def mac_keeps)

lemma bus_kept [mac_keeps]:
  assumes "mac_kept z m"
  shows "mac_kept z (snd (mac_read8 (mac_devices out) a m))" "mac_kept z (mac_write8 (mac_devices out) a v m)"
  using assms by (simp_all add: mac_read8_def readDevice8_def mac_write8_def writeDevice8_def Let_def split_beta mac_keeps)
    (simp add: MacPlusBus.count_def)?

lemma bus_kept16 [mac_keeps]:
  assumes "mac_kept z m"
  shows "mac_kept z (snd (mac_read16 (mac_devices out) a m))" "mac_kept z (mac_write16 (mac_devices out) a w m)"
  using assms by (simp_all add: mac_read16_def mac_write16_def Let_def split_beta mac_keeps)

lemma bus_kept32 [mac_keeps]:
  assumes "mac_kept z m"
  shows "mac_kept z (snd (mac_read32 (mac_devices out) a m))" "mac_kept z (mac_write32 (mac_devices out) a w m)"
  using assms by (simp_all add: mac_read32_def mac_write32_def Let_def split_beta mac_keeps)

subsection \<open>Input\<close>

lemma ram_direct [simp]:
  "mac_kept z (writeRam8Direct a v m) = mac_kept z m" "mac_kept z (writeRam16Direct a w m) = mac_kept z m"
  "mac_kept z (writeRam32Direct a x m) = mac_kept z m"
  by (simp_all add: writeRam8Direct_def writeRam16Direct_def writeRam32Direct_def)

lemma direct_devices [simp]:
  "m_devices (writeRam8Direct a v m) = m_devices m" "m_devices (writeRam16Direct a w m) = m_devices m"
  "m_devices (writeRam32Direct a x m) = m_devices m"
  by (simp_all add: writeRam8Direct_def writeRam16Direct_def writeRam32Direct_def)

lemma clamp16_bounds: "0 \<le> hi \<Longrightarrow> hi < 2 ^ 15 \<Longrightarrow> 0 \<le> sint (clamp16 v hi) \<and> sint (clamp16 v hi) \<le> hi"
  by (simp add: clamp16_def int_word_sint)

lemma mouse_kept [mac_keeps]: "mac_kept z m \<Longrightarrow> mac_kept z (setMousePosition x y m)"
  by (auto simp: setMousePosition_def Let_def mac_ok_def chips_ok_def scsi_ok_def host_ok_def clamp16_bounds intro!: mac_on_chips)

lemma via_chip_kept: "mac_kept z m \<Longrightarrow> (\<And>v. via_ok v \<Longrightarrow> via_ok (f v)) \<Longrightarrow>
    mac_kept z (on_chips (\<lambda>c. c\<lparr>m_via := f (m_via c)\<rparr>) m)"
  by (auto simp: mac_ok_def intro!: mac_on_chips)

lemma input_kept [mac_keeps]: "mac_kept z m \<Longrightarrow> mac_kept z (applyInput e m)"
proof -
  assume m: "mac_kept z m"
  have "mac_kept z (setMouseButton b m)" for b
    using m by (auto simp: setMouseButton_def mac_ok_def via_keeps chips_ok_def scsi_ok_def host_ok_def intro!: mac_on_chips)
  moreover have "mac_kept z (fold (\<lambda>i. writeRam8Direct (lowMemoryKeyMap + of_nat i) 0) xs m)" for xs
    using m by (induction xs arbitrary: m) simp_all
  ultimately show ?thesis
    using m by (simp add: applyInput_def moveMouse_def setKeyState_def resetKeyboard_def Let_def mac_keeps via_chip_kept
        via_keeps split: GuestInputType.split)
qed

lemma queue_kept [mac_keeps]: "mac_kept z m \<Longrightarrow> mac_kept z (mac_queueInput e cycle m)"
  by (auto simp: mac_queueInput_def Let_def mac_ok_def chips_ok_def scsi_ok_def host_ok_def schedule_def push_in_order
      intro!: mac_on_chips)

text \<open>The events that are due always run to an end.\<close>

lemma in_order_sorted: "in_order es \<Longrightarrow> sorted (map ev_cycle es)"
  unfolding in_order_def sorted_map by (erule sorted_wrt_mono_rel [rotated]) (auto simp: Later_def split: if_splits)

lemma due_kept:
  assumes "mac_kept z m" and "in_order (sch_events s)"
  shows "\<exists>s' m'. dispatchDue run_input (s, m) = Some (s', m') \<and> mac_kept z m' \<and> in_order (sch_events s') \<and> sch_now s' = sch_now s"
proof -
  have "mac_kept z (fold applyInput es m)" for es
    using assms(1) by (induction es arbitrary: m) (simp_all add: mac_keeps)
  moreover have "in_order (filter P (sch_events s))" for P
    using assms(2) unfolding in_order_def by (rule sorted_wrt_filter)
  ultimately show ?thesis
    using dispatch_due [of run_input applyInput s m] in_order_sorted [OF assms(2)] by (simp add: run_input_def)
qed

lemma dispatch_kept:
  assumes "mac_kept z m"
  shows "\<exists>m'. mac_dispatch (dispatchDue run_input) m = Some m' \<and> mac_kept z m'"
    and "\<exists>m'. mac_dispatch (advance run_input n) m = Some m' \<and> mac_kept z m'"
proof -
  have o: "in_order (sch_events (m_scheduler (m_devices m)))"
    using assms by (simp add: mac_kept_def mac_ok_def chips_ok_def host_ok_def)
  have put: "mac_kept z (on_chips (\<lambda>c. c\<lparr>m_scheduler := s'\<rparr>) m')" if "mac_kept z m'" "in_order (sch_events s')" for m' s'
    using that by (auto simp: mac_ok_def chips_ok_def scsi_ok_def host_ok_def intro!: mac_on_chips)
  show "\<exists>m'. mac_dispatch (dispatchDue run_input) m = Some m' \<and> mac_kept z m'"
    using due_kept [OF assms o] put by (auto simp: mac_dispatch_def)
  let ?s = "(m_scheduler (m_devices m))\<lparr>sch_now := sch_now (m_scheduler (m_devices m)) + n\<rparr>"
  show "\<exists>m'. mac_dispatch (advance run_input n) m = Some m' \<and> mac_kept z m'"
    using due_kept [OF assms, of ?s] o put by (auto simp: mac_dispatch_def advance_def)
qed

subsection \<open>Sound\<close>

lemma audio_loop_frame:
  assumes "audio_loop phase m = (phase', m')"
  shows "m_devices m' = (m_devices m)\<lparr>m_audioPlaybackActive := m_audioPlaybackActive (m_devices m'),
      m_pendingAudio := m_pendingAudio (m_devices m'), m_audioBufferIndex := m_audioBufferIndex (m_devices m')\<rparr>"
    and "shape m' = shape m"
    and "m_audioBufferIndex (m_devices m) < soundSamples \<Longrightarrow> m_audioBufferIndex (m_devices m') < soundSamples"
    and "length (m_pendingAudio (m_devices m')) = length (m_pendingAudio (m_devices m)) + 2 * (unat phase div 130560)"
    and "phase' = phase mod 130560"
  using assms
proof (induction phase m rule: audio_loop.induct)
  case (1 phase m)
  { case 1 then show ?case
      using "1.IH"(1) by (simp add: audio_loop.simps [of phase] audio_sample_def on_chips_def Let_def split: if_splits) }
  { case 2 then show ?case
      using "1.IH"(2) by (simp add: audio_loop.simps [of phase] audio_sample_def on_chips_def shape_def Let_def split: if_splits) }
  { case 3 then show ?case
      using "1.IH"(3) by (simp add: audio_loop.simps [of phase] audio_sample_def on_chips_def soundSamples_def word_mod_less_divisor Let_def split: if_splits) }
  { case 4
    have "unat phase div 130560 = Suc (unat (phase - cyclesPerVideoFrame) div 130560)" if "cyclesPerVideoFrame \<le> phase"
      using that by (simp add: cyclesPerVideoFrame_def word_le_nat_alt unat_sub le_div_geq)
    then show ?case
      using 4 "1.IH"(4) by (auto simp: audio_loop.simps [of phase] audio_sample_def on_chips_def Let_def cyclesPerVideoFrame_def
          word_le_nat_alt split: if_splits) }
  { case 5
    have "phase mod 130560 = (if cyclesPerVideoFrame \<le> phase then (phase - cyclesPerVideoFrame) mod 130560 else phase)"
      by (simp add: cyclesPerVideoFrame_def word_le_nat_alt word_unat_eq_iff unat_mod unat_sub le_mod_geq)
    then show ?case
      using 5 "1.IH"(5) by (auto simp: audio_loop.simps [of phase] split: if_splits) }
qed

lemma audio_kept [mac_keeps]: "mac_kept z m \<Longrightarrow> mac_kept z (advanceAudio n m)"
proof -
  assume m: "mac_kept z m"
  obtain phase m1 where l: "audio_loop (m_audioCyclePhase (m_devices m) + word_of_int n * ucast soundSamples) m = (phase, m1)"
    by fastforce
  note f = audio_loop_frame [OF l]
  define d where "d = m_devices m1"
  have "m_via d = m_via (m_devices m)" "m_rtc d = m_rtc (m_devices m)" "m_iwm d = m_iwm (m_devices m)"
    "m_scsi d = m_scsi (m_devices m)" "m_scsiDisks d = m_scsiDisks (m_devices m)" "m_scsiCdRoms d = m_scsiCdRoms (m_devices m)"
    "m_objects d = m_objects (m_devices m)" "m_mouseX d = m_mouseX (m_devices m)" "m_mouseY d = m_mouseY (m_devices m)"
    "m_soundVolume d = m_soundVolume (m_devices m)" "m_scheduler d = m_scheduler (m_devices m)"
    using arg_cong [OF f(1), of m_via] arg_cong [OF f(1), of m_rtc] arg_cong [OF f(1), of m_iwm]
      arg_cong [OF f(1), of m_scsi] arg_cong [OF f(1), of m_scsiDisks] arg_cong [OF f(1), of m_scsiCdRoms]
      arg_cong [OF f(1), of m_objects] arg_cong [OF f(1), of m_mouseX] arg_cong [OF f(1), of m_mouseY]
      arg_cong [OF f(1), of m_soundVolume] arg_cong [OF f(1), of m_scheduler]
    unfolding d_def by simp_all
  then show ?thesis
    using m f(2,3) unfolding advanceAudio_def l
    by (simp add: mac_kept_def mac_ok_def chips_ok_def scsi_ok_def host_ok_def on_chips_def shape_def Let_def flip: d_def)
qed

subsection \<open>Media\<close>

lemma scsi_ok_files [simp]:
  "scsi_ok (c\<lparr>m_diskImagePath := x\<rparr>) = scsi_ok c" "scsi_ok (c\<lparr>m_scsi := attachTarget i n (m_scsi c)\<rparr>) = scsi_ok c"
  "scsi_ok (c\<lparr>m_scsi := detachTarget i (m_scsi c)\<rparr>) = scsi_ok c"
  by (simp_all add: scsi_ok_def all_targets_def attachTarget_def detachTarget_def)

lemma chips_ok_of:
  assumes "chips_ok c" "scsi_ok c'" "m_rtc c' = m_rtc c" "m_iwm c' = m_iwm c" "m_mouseX c' = m_mouseX c"
    "m_mouseY c' = m_mouseY c" "m_audioBufferIndex c' = m_audioBufferIndex c" "m_soundVolume c' = m_soundVolume c"
    "m_pendingAudio c' = m_pendingAudio c" "m_scheduler c' = m_scheduler c"
  shows "chips_ok c'"
  using assms by (simp add: chips_ok_def host_ok_def)

lemma cd_load_ok: "cd_ok c \<Longrightarrow> cd_ok (snd (cd_loadImage h w path c))"
  by (auto simp: cd_loadImage_def cd_ok_def split: option.split)

lemma cd_small: "cd_ok cd_init" "cd_ok c \<Longrightarrow> cd_ok (cd_eject c)" "cd_ok c \<Longrightarrow> cd_ok (cd_acknowledgeMediaChange c)"
  by (simp_all add: cd_ok_def cd_init_def cd_eject_def cd_acknowledgeMediaChange_def)

lemma the_cd_ok: "object_ok t \<Longrightarrow> cd_ok (the_cd t)"
  by (cases t) (simp_all add: cd_small)

lemma eject_object_ok: "object_ok t \<Longrightarrow> object_ok (object_eject t)" "is_cd (object_eject t) = is_cd t"
  by (cases t; simp add: cd_small)+

lemma eject_object_scsi: "scsi_ok c \<Longrightarrow> scsi_ok (eject_object x c)"
  by (auto simp: eject_object_def store_object_def scsi_ok_def all_targets_def eject_object_ok split: option.split)

lemma eject_object_fields [simp]:
  "m_rtc (eject_object x c) = m_rtc c" "m_iwm (eject_object x c) = m_iwm c" "m_mouseX (eject_object x c) = m_mouseX c"
  "m_mouseY (eject_object x c) = m_mouseY c" "m_audioBufferIndex (eject_object x c) = m_audioBufferIndex c"
  "m_soundVolume (eject_object x c) = m_soundVolume c" "m_pendingAudio (eject_object x c) = m_pendingAudio c"
  "m_scheduler (eject_object x c) = m_scheduler c" "m_via (eject_object x c) = m_via c"
  by (simp_all add: eject_object_def store_object_def split: option.split)

lemma forget_object: "scsi_ok c \<Longrightarrow> scsi_ok (c\<lparr>m_scsi := detachTarget i (m_scsi c),
    m_scsiDisks := (m_scsiDisks c)(k := None), m_scsiCdRoms := (m_scsiCdRoms c)(k := None)\<rparr>)"
  by (auto simp: scsi_ok_def all_targets_def detachTarget_def)

lemma eject_kept [mac_keeps]:
  assumes "mac_kept z m"
  shows "mac_kept z (mac_ejectScsiCdRom i m)" "mac_kept z (mac_ejectScsiDevice i m)" "mac_kept z (mac_ejectDiskImage m)"
proof -
  have e: "mac_kept z (mac_ejectScsiDevice i m)" for i
    using assms
    by (auto simp: mac_ejectScsiDevice_def Let_def mac_ok_def forget_object eject_object_scsi chips_ok_def host_ok_def intro!: mac_on_chips)
  then show "mac_kept z (mac_ejectScsiDevice i m)" "mac_kept z (mac_ejectDiskImage m)"
    by (auto simp: mac_ejectDiskImage_def mac_ok_def chips_ok_def host_ok_def intro!: mac_on_chips)
  show "mac_kept z (mac_ejectScsiCdRom i m)"
    using assms by (auto simp: mac_ejectScsiCdRom_def mac_ok_def eject_object_scsi chips_ok_def host_ok_def intro!: mac_on_chips)
qed

lemma scsi_okD:
  "scsi_ok c \<Longrightarrow> m_scsiCdRoms c k = Some n \<Longrightarrow> n < m_objects c \<and> is_cd (ncr_objects (m_scsi c) n)"
  "scsi_ok c \<Longrightarrow> m_scsiDisks c k = Some n \<Longrightarrow> n < m_objects c \<and> \<not> is_cd (ncr_objects (m_scsi c) n)"
  by (auto simp: scsi_ok_def)

lemma scsi_okI:
  assumes "\<And>n. object_ok (ncr_objects (m_scsi c) n)"
    and "\<And>k n. m_scsiCdRoms c k = Some n \<Longrightarrow> n < m_objects c \<and> is_cd (ncr_objects (m_scsi c) n)"
    and "\<And>k n. m_scsiDisks c k = Some n \<Longrightarrow> n < m_objects c \<and> \<not> is_cd (ncr_objects (m_scsi c) n)"
  shows "scsi_ok c"
  using assms by (simp add: scsi_ok_def all_targets_def)

lemma put_object_scsi:
  assumes "scsi_ok c" and "object_ok x" and "n < next" and "m_objects c \<le> next"
    and "n < m_objects c \<longrightarrow> is_cd x = is_cd (ncr_objects (m_scsi c) n)"
    and "m_scsiCdRoms c' = (m_scsiCdRoms c)(k := if is_cd x then Some n else None)"
    and "m_scsiDisks c' = (m_scsiDisks c)(k := if is_cd x then None else Some n)"
    and "ncr_objects (m_scsi c') = (ncr_objects (m_scsi c))(n := x)" and "m_objects c' = next"
  shows "scsi_ok c'"
proof (rule scsi_okI)
  show "object_ok (ncr_objects (m_scsi c') i)" for i
    using assms by (simp add: scsi_ok_def all_targets_def)
  show "i < m_objects c' \<and> is_cd (ncr_objects (m_scsi c') i)" if "m_scsiCdRoms c' j = Some i" for i j
    using that assms scsi_okD(1) [OF assms(1), of j i] by (auto split: if_splits)
  show "i < m_objects c' \<and> \<not> is_cd (ncr_objects (m_scsi c') i)" if "m_scsiDisks c' j = Some i" for i j
    using that assms scsi_okD(2) [OF assms(1), of j i] by (auto split: if_splits)
qed

lemma load_disk_kept [mac_keeps]:
  assumes "mac_kept z m"
  shows "mac_kept z (snd (mac_loadScsiDisk out i path ro m))" "mac_kept z (snd (mac_loadDiskImage out path m))"
proof -
  have s: "scsi_ok (m_devices m)"
    using assms by (simp add: mac_kept_def mac_ok_def chips_ok_def)
  have "mac_kept z (snd (mac_loadScsiDisk out i path ro m))" for i ro
    using assms by (auto simp: mac_loadScsiDisk_def Let_def split_beta mac_ok_def chips_ok_def host_ok_def
        store_object_def attachTarget_def intro!: mac_on_chips
        put_object_scsi [OF s, where x = "BlockDevice (snd (hd_loadImage (host out) path ro (new_disk (m_files (m_devices m)))))"
          and n = "m_objects (m_devices m)" and k = "nat i"])
  then show "mac_kept z (snd (mac_loadScsiDisk out i path ro m))" "mac_kept z (snd (mac_loadDiskImage out path m))"
    using assms by (simp_all add: mac_loadDiskImage_def)
qed

lemma load_cd_kept [mac_keeps]:
  assumes "mac_kept z m"
  shows "mac_kept z (snd (mac_loadScsiCdRom out i path m))"
proof -
  let ?c = "m_devices m"
  define u where "u = (case m_scsiCdRoms ?c (nat i) of
                Some n \<Rightarrow> (n, the_cd (ncr_objects (m_scsi ?c) n), m_objects ?c)
              | None \<Rightarrow> (m_objects ?c, cd_init, m_objects ?c + 1))"
  obtain n cd0 n1 where u: "u = (n, cd0, n1)"
    by (cases u)
  have s: "scsi_ok ?c"
    using assms by (simp add: mac_kept_def mac_ok_def chips_ok_def)
  then have n: "n < n1" "m_objects ?c \<le> n1" "n < m_objects ?c \<longrightarrow> is_cd (ncr_objects (m_scsi ?c) n)" "cd_ok cd0"
    using u by (auto simp: u_def scsi_ok_def all_targets_def the_cd_ok cd_small split: option.splits)
  obtain ok cd1 where r: "(if path = [] then (True, cd0) else cd_loadImage (host out) (m_files ?c) path cd0) = (ok, cd1)"
    by fastforce
  have "cd_ok cd1"
    using n(4) cd_load_ok [of cd0 "host out" "m_files ?c" path] r by (auto split: if_splits)
  then have "object_ok (CdRom cd1)"
    by simp
  then show ?thesis
    using assms n unfolding mac_loadScsiCdRom_def Let_def u_def [symmetric] u
    by (auto simp: r mac_ok_def chips_ok_def host_ok_def store_object_def attachTarget_def
        intro!: mac_on_chips
        put_object_scsi [OF s, where x = "CdRom cd1" and n = n and k = "nat i"])
qed

lemma floppies_kept [mac_keeps]:
  assumes "mac_kept z m"
  shows "mac_kept z (snd (mac_loadFloppyImage out drive path ro m))" "mac_kept z (mac_ejectFloppyImage out drive m)"
  using assms by (auto simp: mac_loadFloppyImage_def mac_ejectFloppyImage_def Let_def split_beta mac_ok_def chips_ok_def
      host_ok_def scsi_ok_def iwm_keeps intro!: mac_on_chips)

lemma serial_kept [mac_keeps]: "mac_kept z m \<Longrightarrow> mac_kept z (mac_attachSerialEndpoint ch e m)"
  by (auto simp: mac_attachSerialEndpoint_def mac_ok_def chips_ok_def host_ok_def scsi_ok_def intro!: mac_on_chips)

lemma rom_kept [mac_keeps]:
  fixes m :: "('a, 'b) macintosh"
  assumes m: "mac_kept z m"
  shows "mac_kept z (snd (mac_loadRomFile out path patches m))"
proof -
  have o: "mac_kept z (on_chips f m)" if "mac_kept z m"
    "\<And>c. m_via (f c) = m_via c \<and> (chips_ok c \<longrightarrow> chips_ok (f c))" for f and m :: "('a, 'b) macintosh"
    using that by (auto simp: mac_ok_def intro!: mac_on_chips)
  define m0 where "m0 = on_chips (\<lambda>c. c\<lparr>m_romLoaded := False, m_romPath := path, m_romSha256 := [], m_appliedRomPatches := [],
               m_romPatchError := []\<rparr>) m"
  have m0: "mac_kept z m0" "length (m_rom m0) = length (m_rom m)"
    unfolding m0_def by (auto simp: chips_ok_def host_ok_def scsi_ok_def on_chips_def intro!: o [unfolded on_chips_def] m)
  have r: "mac_kept z (m\<lparr>m_rom := data\<rparr>) = mac_kept z m" if "length data = length (m_rom m)" for data and m :: "('a, 'b) macintosh"
    using that by (simp add: mac_kept_def mac_ok_def shape_def)
  have len: "length (snd (rom_apply sha data id ps)) = length data" for sha data id ps
    by (simp add: rom_apply_def applied_length)
  have u: "mac_kept z (on_chips (\<lambda>c. c\<lparr>m_romSha256 := x, m_romPatchError := y\<rparr>) m)"
    "mac_kept z (on_chips (\<lambda>c. c\<lparr>m_romLoaded := b, m_appliedRomPatches := ps\<rparr>) m)"
    if "mac_kept z m" for x y b ps and m :: "('a, 'b) macintosh"
    using that by (auto simp: chips_ok_def host_ok_def scsi_ok_def intro!: o)
  have l: "length (m_rom (on_chips f m)) = length (m_rom m)" for f and m :: "('a, 'b) macintosh"
    by (simp add: on_chips_def)
  show ?thesis
    using m0 unfolding mac_loadRomFile_def m0_def [symmetric] Let_def
    by (auto simp: split_beta len r l intro!: u split: option.split)
qed

subsection \<open>Reset and construction\<close>

lemma reattach_fields [simp]:
  "m_rtc (reattach k c) = m_rtc c" "m_iwm (reattach k c) = m_iwm c" "m_via (reattach k c) = m_via c"
  "host_ok (reattach k c) = host_ok c"
  by (simp_all add: reattach_def store_object_def host_ok_def Let_def split: option.split)

lemma change_object_scsi:
  assumes "scsi_ok c" and "object_ok x" and "is_cd x = is_cd (ncr_objects (m_scsi c) n)"
    and "ncr_objects s = (ncr_objects (m_scsi c))(n := x)"
  shows "scsi_ok (c\<lparr>m_scsi := s\<rparr>)"
proof (rule scsi_okI)
  show "object_ok (ncr_objects (m_scsi (c\<lparr>m_scsi := s\<rparr>)) i)" for i
    using assms by (simp add: scsi_ok_def all_targets_def)
qed (insert assms scsi_okD [OF assms(1)], auto)

lemma reattach_scsi:
  assumes s: "scsi_ok c"
  shows "scsi_ok (reattach k c)"
proof -
  have a: "scsi_ok (c\<lparr>m_scsi := attachTarget i n (m_scsi c)\<rparr>) = scsi_ok c" for i n and c :: "('a, 'b) chips"
    by (simp add: scsi_ok_def all_targets_def attachTarget_def)
  have "object_ok (CdRom (cd_acknowledgeMediaChange (the_cd (ncr_objects (m_scsi c) n))))" for n
    using s by (simp add: scsi_ok_def all_targets_def the_cd_ok cd_small)
  then have "scsi_ok (store_object n (CdRom (cd_acknowledgeMediaChange (the_cd (ncr_objects (m_scsi c) n)))) c)"
    if "m_scsiCdRoms c k = Some n" for n
    unfolding store_object_def using scsi_okD(1) [OF s that] by (intro change_object_scsi [OF s]) auto
  then show ?thesis
    using s by (simp add: reattach_def Let_def a split: option.split)
qed

lemma rtc_small: "rtc_ok s \<Longrightarrow> rtc_ok (rtc_resetSerial s)"
  by (simp add: rtc_ok_def rtc_resetSerial_def)

lemma reset_kept [mac_keeps]:
  fixes m :: "('a, 'b) macintosh"
  assumes "mac_kept z m"
  shows "mac_kept z (reset_chips out m)"
proof -
  have "mac_kept z (on_chips (fold reattach ks) m)" if "mac_kept z m" for ks and m :: "('a, 'b) macintosh"
  proof (rule mac_on_chips [OF that])
    show "mac_ok m \<Longrightarrow> via_ok (m_via (fold reattach ks (m_devices m))) \<and> chips_ok (fold reattach ks (m_devices m))"
      unfolding mac_ok_def by (induction ks rule: rev_induct) (simp_all add: chips_ok_def reattach_scsi)
  qed
  moreover have "mac_kept z (on_chips (\<lambda>c. c\<lparr>m_pendingAudio := [], m_audioCyclePhase := 0, m_audioBufferIndex := 0,
      m_audioPlaybackActive := False, m_scc := scc_reset (peer out) (m_scc c),
      m_iwm := iwm_reset (host out) (m_iwm c), m_scsi := ncr_reset (m_scsi c)\<rparr>) m)" if "mac_kept z m" for m :: "('a, 'b) macintosh"
    using that by (auto simp: mac_ok_def chips_ok_def host_ok_def scsi_ok_def all_targets_def ncr_reset_def iwm_keeps
        soundSamples_def intro!: mac_on_chips)
  moreover have "mac_kept z (on_chips (\<lambda>c. c\<lparr>m_rtc := rtc_resetSerial (m_rtc c)\<rparr>) m)"
    "mac_kept z (on_chips (\<lambda>c. c\<lparr>m_scheduler := sch_reset (m_scheduler c), m_lastMouseButtonCycle := 0,
       m_queuedMouseButtonPressed := False\<rparr>) m)" if "mac_kept z m" for m :: "('a, 'b) macintosh"
    using that by (auto simp: mac_ok_def chips_ok_def host_ok_def scsi_ok_def rtc_small sch_reset_def in_order_def
        intro!: mac_on_chips)
  ultimately show ?thesis
    using assms by (simp add: reset_chips_def Let_def mac_keeps)
qed

lemma mouse_memory_kept [mac_keeps]: "mac_kept z m \<Longrightarrow> mac_kept z (synchronizeMouseLowMemory m)"
  by (simp add: synchronizeMouseLowMemory_def Let_def via_chip_kept via_keeps)

lemma nvram_ok: "rtc_ok s \<Longrightarrow> rtc_ok (snd (rtc_setNvramImagePath h path s))"
  by (auto simp: rtc_setNvramImagePath_def rtc_saveNvram_def rtc_ok_def Let_def split_beta split: option.split)

lemma new_macintosh_kept: "mac_kept (model, ramSize, romSizeForModel model) (new_macintosh out w ramSize path model)"
proof -
  have "drives_ok (new_iwm w)"
    by (simp add: drives_ok_def new_iwm_def drive_keeps)
  moreover have "scsi_ok (new_chips w)"
    by (simp add: scsi_ok_def all_targets_def new_chips_def new_ncr_def)
  moreover have "via_ok via_init"
    by (simp add: via_ok_def via_init_def)
  ultimately show ?thesis
    unfolding new_macintosh_def Let_def
    by (intro via_ops_kept)
      (auto simp: mac_kept_def mac_ok_def shape_def on_chips_def chips_ok_def host_ok_def scsi_ok_def new_chips_def
        rtc_init_ok nvram_ok soundSamples_def in_order_def)
qed

subsection \<open>Any course of events\<close>

text \<open>What can happen to the machine between two instructions and during one.\<close>

datatype 'e mac_event =
  Read8 u32 | Read16 u32 | Read32 u32 | Write8 u32 u8 | Write16 u32 u16 | Write32 u32 u32
| PassTime int | DispatchDue | Advance u64 | QueueInput GuestInputEvent u64 | TakeAudioFrame | Reset
| LoadRomFile string "string list" | LoadScsiDisk int string bool | LoadScsiCdRom int string | EjectScsiCdRom int
| EjectScsiDevice int | LoadFloppyImage int string bool | EjectFloppyImage int | AttachSerialEndpoint int "'e option"

fun mac_perform :: "('h, 'e) outside \<Rightarrow> 'e mac_event \<Rightarrow> ('h, 'e) macintosh \<Rightarrow> ('h, 'e) macintosh option" where
  "mac_perform out (Read8 a) m = Some (snd (mac_read8 (mac_devices out) a m))"
| "mac_perform out (Read16 a) m = Some (snd (mac_read16 (mac_devices out) a m))"
| "mac_perform out (Read32 a) m = Some (snd (mac_read32 (mac_devices out) a m))"
| "mac_perform out (Write8 a v) m = Some (mac_write8 (mac_devices out) a v m)"
| "mac_perform out (Write16 a v) m = Some (mac_write16 (mac_devices out) a v m)"
| "mac_perform out (Write32 a v) m = Some (mac_write32 (mac_devices out) a v m)"
| "mac_perform out (PassTime n) m = Some (pass_time out n m)"
| "mac_perform out DispatchDue m = mac_dispatch (dispatchDue run_input) m"
| "mac_perform out (Advance n) m = mac_dispatch (advance run_input n) m"
| "mac_perform out (QueueInput e cycle) m = Some (mac_queueInput e cycle m)"
| "mac_perform out TakeAudioFrame m = Some (snd (mac_takeAudioFrame m))"
| "mac_perform out Reset m = Some (synchronizeMouseLowMemory (reset_chips out m))"
| "mac_perform out (LoadRomFile path patches) m = Some (snd (mac_loadRomFile out path patches m))"
| "mac_perform out (LoadScsiDisk i path ro) m = Some (snd (mac_loadScsiDisk out i path ro m))"
| "mac_perform out (LoadScsiCdRom i path) m = Some (snd (mac_loadScsiCdRom out i path m))"
| "mac_perform out (EjectScsiCdRom i) m = Some (mac_ejectScsiCdRom i m)"
| "mac_perform out (EjectScsiDevice i) m = Some (mac_ejectScsiDevice i m)"
| "mac_perform out (LoadFloppyImage drive path ro) m = Some (snd (mac_loadFloppyImage out drive path ro m))"
| "mac_perform out (EjectFloppyImage drive) m = Some (mac_ejectFloppyImage out drive m)"
| "mac_perform out (AttachSerialEndpoint ch e) m = Some (mac_attachSerialEndpoint ch e m)"

definition mac_events :: "('h, 'e) outside \<Rightarrow> 'e mac_event list \<Rightarrow> ('h, 'e) macintosh \<Rightarrow> ('h, 'e) macintosh option" where
  "mac_events out es m = fold (\<lambda>e m. Option.bind m (mac_perform out e)) es (Some m)"

lemma time_kept [mac_keeps]: "mac_kept z m \<Longrightarrow> mac_kept z (pass_time out n m)"
  by (simp add: pass_time_def mac_keeps)

lemma take_kept [mac_keeps]: "mac_kept z m \<Longrightarrow> mac_kept z (snd (mac_takeAudioFrame m))"
  by (auto simp: mac_takeAudioFrame_def mac_ok_def chips_ok_def host_ok_def scsi_ok_def intro!: mac_on_chips)

lemma perform_kept: "mac_kept z m \<Longrightarrow> \<exists>m'. mac_perform out e m = Some m' \<and> mac_kept z m'"
  by (cases e) (simp_all add: mac_keeps dispatch_kept)

lemma events_kept: "mac_kept z m \<Longrightarrow> \<exists>m'. mac_events out es m = Some m' \<and> mac_kept z m'"
proof -
  have "mac_kept z m \<Longrightarrow> \<exists>m'. fold (\<lambda>e m. Option.bind m (mac_perform out e)) es (Some m) = Some m' \<and> mac_kept z m'" for m
  proof (induction es arbitrary: m)
    case (Cons e es)
    then show ?case
      using perform_kept [OF Cons.prems, of out e] by auto
  qed simp
  then show "mac_kept z m \<Longrightarrow> \<exists>m'. mac_events out es m = Some m' \<and> mac_kept z m'"
    by (simp add: mac_events_def)
qed

text \<open>
  C11. Type of the machine: from the constructor on, no sequence of bus accesses of any width, passing time,
  input, resets, media changes and loaded ROM files fails to return, and none breaks the invariants of the
  chips, the bounds of the machine's members (mouse, sound, scheduler, table of SCSI devices) or the sizes of
  the RAM and the ROM.
\<close>

theorem macintosh_type:
  "\<exists>m. mac_events out es (new_macintosh out w ramSize path model) = Some m \<and> mac_ok m \<and>
     m_model m = model \<and> length (m_ram m) = ramSize \<and> length (m_rom m) = romSizeForModel model"
  using events_kept [OF new_macintosh_kept, of out es] by (auto simp: mac_kept_def shape_def)

end
