(* ===== verification/PmmuOps.thy ===== *)
theory PmmuOps
  imports Exceptions
begin

section \<open>The PMMU instructions\<close>

text \<open>
  The operand readers and writers \<open>READ_EA_*\<close> and \<open>WRITE_EA_*\<close> (m68kfpu.c), which the coprocessor
  instructions use, and the PMMU instruction \<open>m68881_mmu_ops\<close>, PTEST of the 68040 and the cache flush
  by function code and address (m68kmmu.h).  The reports of refused encodings to the host are left
  out; what remains of them is the line-1111 exception.
\<close>

unbundle bit_operations_syntax

definition fatalerror :: "'b op" where
  "fatalerror = m68ki_exception_1111"

definition pmmu_illegal :: "'b op" where
  "pmmu_illegal = m68ki_exception_1111"

definition pmmu_unimplemented :: "'b op" where
  "pmmu_unimplemented = m68ki_exception_1111"

subsection \<open>Operands of the coprocessor instructions\<close>

text \<open>An absolute long address, fetched as two words.\<close>

definition ea_long :: "'b machine \<Rightarrow> ('b, u32) result" where
  "ea_long s =
     chain (OPER_I_16 s) (\<lambda>d1 s. chain (OPER_I_16 s) (\<lambda>d2. Ret (push_bit 16 d1 OR d2)))"

definition bad_read :: "'v \<Rightarrow> 'b machine \<Rightarrow> ('b, 'v) result" where
  "bad_read zero s = chain (fatalerror s) (\<lambda>_. Ret zero)"

definition read_value_8 :: "u32 \<Rightarrow> 'b machine \<Rightarrow> ('b, u8) result" where
  "read_value_8 address s = chain (m68ki_read_8 address s) (\<lambda>v. Ret (ucast v))"

definition READ_EA_8 :: "u32 \<Rightarrow> 'b machine \<Rightarrow> ('b, u8) result" where
  "READ_EA_8 ea s =
    (let mode = drop_bit 3 ea AND 7; reg = ea AND 7
     in if mode = 0 then Ret (ucast (REG_D s reg)) s
      else if mode = 2 then read_value_8 (REG_A s reg) s
      else if mode = 3 then chain (EA_AY_PI_8 s) read_value_8
      else if mode = 4 then chain (EA_AY_PD_8 s) read_value_8
      else if mode = 5 then chain (EA_AY_DI_8 s) read_value_8
      else if mode = 6 then chain (EA_AY_IX_8 s) read_value_8
      else if mode = 7 \<and> reg = 0 then chain (OPER_I_16 s) read_value_8
      else if mode = 7 \<and> reg = 1 then chain (ea_long s) read_value_8
      else if mode = 7 \<and> reg = 4 then chain (OPER_I_8 s) (\<lambda>v. Ret (ucast v))
      else bad_read 0 s)"

definition read_value_16 :: "u32 \<Rightarrow> 'b machine \<Rightarrow> ('b, u16) result" where
  "read_value_16 address s = chain (m68ki_read_16 address s) (\<lambda>v. Ret (ucast v))"

definition READ_EA_16 :: "u32 \<Rightarrow> 'b machine \<Rightarrow> ('b, u16) result" where
  "READ_EA_16 ea s =
    (let mode = drop_bit 3 ea AND 7; reg = ea AND 7
     in if mode = 0 then Ret (ucast (REG_D s reg)) s
      else if mode = 2 then read_value_16 (REG_A s reg) s
      else if mode = 3 then chain (EA_AY_PI_16 s) read_value_16
      else if mode = 4 then chain (EA_AY_PD_16 s) read_value_16
      else if mode = 5 then chain (EA_AY_DI_16 s) read_value_16
      else if mode = 6 then chain (EA_AY_IX_16 s) read_value_16
      else if mode = 7 \<and> reg = 0 then chain (OPER_I_16 s) read_value_16
      else if mode = 7 \<and> reg = 1 then chain (ea_long s) read_value_16
      else if mode = 7 \<and> reg = 4 then chain (OPER_I_16 s) (\<lambda>v. Ret (ucast v))
      else bad_read 0 s)"

definition read_value_32 :: "u32 \<Rightarrow> 'b machine \<Rightarrow> ('b, u32) result" where
  "read_value_32 address s = chain (m68ki_read_32 address s) (\<lambda>v. Ret (v))"

definition READ_EA_32 :: "u32 \<Rightarrow> 'b machine \<Rightarrow> ('b, u32) result" where
  "READ_EA_32 ea s =
    (let mode = drop_bit 3 ea AND 7; reg = ea AND 7
     in if mode = 0 then Ret (REG_D s reg) s
      else if mode = 2 then read_value_32 (REG_A s reg) s
      else if mode = 3 then chain (EA_AY_PI_32 s) read_value_32
      else if mode = 4 then chain (EA_AY_PD_32 s) read_value_32
      else if mode = 5 then chain (EA_AY_DI_32 s) read_value_32
      else if mode = 6 then chain (EA_AY_IX_32 s) read_value_32
      else if mode = 7 \<and> reg = 0 then chain (OPER_I_16 s) read_value_32
      else if mode = 7 \<and> reg = 1 then chain (ea_long s) read_value_32
      else if mode = 7 \<and> reg = 2 then chain (EA_PCDI_32 s) read_value_32
      else if mode = 7 \<and> reg = 4 then chain (OPER_I_32 s) (\<lambda>v. Ret (v))
      else bad_read 0 s)"

definition read_value_64 :: "u32 \<Rightarrow> 'b machine \<Rightarrow> ('b, u64) result" where
  "read_value_64 address s =
     chain (m68ki_read_32 address s) (\<lambda>h1 s.
     chain (m68ki_read_32 (address + 4) s) (\<lambda>h2. Ret (push_bit 32 (ucast h1) OR ucast h2)))"

definition READ_EA_64 :: "u32 \<Rightarrow> 'b machine \<Rightarrow> ('b, u64) result" where
  "READ_EA_64 ea s =
    (let mode = drop_bit 3 ea AND 7; reg = ea AND 7
     in if mode = 2 then read_value_64 (REG_A s reg) s
      else if mode = 3 then
        (let address = REG_A s reg; s = set_REG_A reg (REG_A s reg + 8) s in read_value_64 address s)
      else if mode = 4 then
        (let s = set_REG_A reg (REG_A s reg - 8) s in read_value_64 (REG_A s reg) s)
      else if mode = 5 then chain (EA_AY_DI_32 s) read_value_64
      else if mode = 6 then chain (EA_AY_IX_16 s) read_value_64
      else if mode = 7 \<and> reg = 1 then chain (ea_long s) read_value_64
      else if mode = 7 \<and> reg = 4 then
        chain (OPER_I_32 s) (\<lambda>h1 s. chain (OPER_I_32 s) (\<lambda>h2. Ret (push_bit 32 (ucast h1) OR ucast h2)))
      else if mode = 7 \<and> reg = 2 then chain (EA_PCDI_32 s) read_value_64
      else bad_read 0 s)"

definition WRITE_EA_8 :: "u32 \<Rightarrow> u8 \<Rightarrow> 'b op" where
  "WRITE_EA_8 ea data_v s =
    (let mode = drop_bit 3 ea AND 7; reg = ea AND 7
     in if mode = 0 then Ret () (set_REG_D reg (ucast data_v) s)
      else if mode = 2 then m68ki_write_8 (REG_A s reg) (ucast data_v) s
      else if mode = 3 then chain (EA_AY_PI_8 s) (\<lambda>address. m68ki_write_8 address (ucast data_v))
      else if mode = 4 then chain (EA_AY_PD_8 s) (\<lambda>address. m68ki_write_8 address (ucast data_v))
      else if mode = 5 then chain (EA_AY_DI_8 s) (\<lambda>address. m68ki_write_8 address (ucast data_v))
      else if mode = 6 then chain (EA_AY_IX_8 s) (\<lambda>address. m68ki_write_8 address (ucast data_v))
      else if mode = 7 \<and> reg = 1 then chain (ea_long s) (\<lambda>address. m68ki_write_8 address (ucast data_v))
      else if mode = 7 \<and> reg = 2 then chain (EA_PCDI_16 s) (\<lambda>address. m68ki_write_8 address (ucast data_v))
      else fatalerror s)"

definition WRITE_EA_16 :: "u32 \<Rightarrow> u16 \<Rightarrow> 'b op" where
  "WRITE_EA_16 ea data_v s =
    (let mode = drop_bit 3 ea AND 7; reg = ea AND 7
     in if mode = 0 then Ret () (set_REG_D reg (ucast data_v) s)
      else if mode = 2 then m68ki_write_16 (REG_A s reg) (ucast data_v) s
      else if mode = 3 then chain (EA_AY_PI_16 s) (\<lambda>address. m68ki_write_16 address (ucast data_v))
      else if mode = 4 then chain (EA_AY_PD_16 s) (\<lambda>address. m68ki_write_16 address (ucast data_v))
      else if mode = 5 then chain (EA_AY_DI_16 s) (\<lambda>address. m68ki_write_16 address (ucast data_v))
      else if mode = 6 then chain (EA_AY_IX_16 s) (\<lambda>address. m68ki_write_16 address (ucast data_v))
      else if mode = 7 \<and> reg = 1 then chain (ea_long s) (\<lambda>address. m68ki_write_16 address (ucast data_v))
      else if mode = 7 \<and> reg = 2 then chain (EA_PCDI_16 s) (\<lambda>address. m68ki_write_16 address (ucast data_v))
      else fatalerror s)"

definition WRITE_EA_32 :: "u32 \<Rightarrow> u32 \<Rightarrow> 'b op" where
  "WRITE_EA_32 ea data_v s =
    (let mode = drop_bit 3 ea AND 7; reg = ea AND 7
     in if mode = 0 then Ret () (set_REG_D reg data_v s)
      else if mode = 1 then Ret () (set_REG_A reg data_v s)
      else if mode = 2 then m68ki_write_32 (REG_A s reg) data_v s
      else if mode = 3 then chain (EA_AY_PI_32 s) (\<lambda>address. m68ki_write_32 address data_v)
      else if mode = 4 then chain (EA_AY_PD_32 s) (\<lambda>address. m68ki_write_32 address data_v)
      else if mode = 5 then chain (EA_AY_DI_32 s) (\<lambda>address. m68ki_write_32 address data_v)
      else if mode = 6 then chain (EA_AY_IX_32 s) (\<lambda>address. m68ki_write_32 address data_v)
      else if mode = 7 \<and> reg = 1 then chain (ea_long s) (\<lambda>address. m68ki_write_32 address data_v)
      else if mode = 7 \<and> reg = 2 then chain (EA_PCDI_32 s) (\<lambda>address. m68ki_write_32 address data_v)
      else fatalerror s)"

definition write_value_64 :: "u64 \<Rightarrow> u32 \<Rightarrow> 'b op" where
  "write_value_64 data_v address s =
     chain (m68ki_write_32 address (ucast (drop_bit 32 data_v)) s)
       (\<lambda>_. m68ki_write_32 (address + 4) (ucast data_v))"

definition WRITE_EA_64 :: "u32 \<Rightarrow> u64 \<Rightarrow> 'b op" where
  "WRITE_EA_64 ea data_v s =
    (let mode = drop_bit 3 ea AND 7; reg = ea AND 7
     in if mode = 2 then write_value_64 data_v (REG_A s reg) s
      else if mode = 3 then
        (let address = REG_A s reg; s = set_REG_A reg (REG_A s reg + 8) s in write_value_64 data_v address s)
      else if mode = 4 then
        (let s = set_REG_A reg (REG_A s reg - 8) s in write_value_64 data_v (REG_A s reg) s)
      else if mode = 5 then chain (EA_AY_DI_32 s) (write_value_64 data_v)
      else if mode = 6 then chain (EA_AY_IX_16 s) (write_value_64 data_v)
      else if mode = 7 \<and> reg = 1 then chain (ea_long s) (write_value_64 data_v)
      else if mode = 7 \<and> reg = 2 then chain (EA_PCDI_32 s) (write_value_64 data_v)
      else fatalerror s)"

subsection \<open>Translation from the instructions\<close>

definition pmmu_translate ::
    "u32 \<Rightarrow> u32 \<Rightarrow> u32 \<Rightarrow> u8 \<Rightarrow> pmmu_intent \<Rightarrow> u32 \<Rightarrow> 'b machine \<Rightarrow> ('b, pmmu_translation_result) result" where
  "pmmu_translate = pmmu_translate_via m68ki_exception_bus_error"

definition pmmu_translate_040 ::
    "u32 \<Rightarrow> u32 \<Rightarrow> u32 \<Rightarrow> u32 \<Rightarrow> 'b machine \<Rightarrow> ('b, pmmu_translation_result) result" where
  "pmmu_translate_040 = pmmu_translate_040_via m68ki_exception_bus_error"

definition pmmu_translate_addr_fc :: "u32 \<Rightarrow> u32 \<Rightarrow> u32 \<Rightarrow> 'b machine \<Rightarrow> ('b, u32) result" where
  "pmmu_translate_addr_fc address fc rw s =
     chain (pmmu_translate address fc rw 4 PMMU_INTENT_PROBE 7 s) (\<lambda>r. Ret (physical_address r))"

definition pmmu_translate_addr :: "u32 \<Rightarrow> 'b machine \<Rightarrow> ('b, u32) result" where
  "pmmu_translate_addr address s =
     pmmu_translate_addr_fc address
       (if m68ki_get_sr s AND 0x2000 \<noteq> 0 then FUNCTION_CODE_SUPERVISOR_PROGRAM
        else FUNCTION_CODE_USER_PROGRAM) 1 s"

text \<open>Address inspection for the debugger: translate and put the touched registers back.\<close>

definition pmmu_debug_translate_addr :: "u32 \<Rightarrow> u32 \<Rightarrow> 'b machine \<Rightarrow> ('b, u32) result" where
  "pmmu_debug_translate_addr address fc saved =
     chain (pmmu_translate address fc 1 1 PMMU_INTENT_DEBUG 7 saved) (\<lambda>r s.
     Ret (physical_address r)
       (s\<lparr>mmu_last_logical_addr := mmu_last_logical_addr saved, mmu_tmp_sr := mmu_tmp_sr saved,
          mmu_fault_address := mmu_fault_address saved, mmu_fault_fc := mmu_fault_fc saved,
          mmu_fault_rw := mmu_fault_rw saved, mmu_fault_size := mmu_fault_size saved,
          mmu_fault_is_mmu := mmu_fault_is_mmu saved, mmu_tablewalk := mmu_tablewalk saved\<rparr>))"

definition m68040_ptest :: "'b op" where
  "m68040_ptest s =
    (let logical = REG_A s (ir s AND 7);
         fc = dfc s AND 7
     in if fc AND 3 = 0 then Ret () (s\<lparr>mmu_sr_040 := 0\<rparr>)
        else chain (pmmu_translate_040 logical fc (bool_word (ir s AND 0x20 \<noteq> 0)) 0 s) (\<lambda>r s.
          Ret () (s\<lparr>mmu_sr_040 :=
            (if transparent r \<noteq> 0 then ucast (M68K_MMU_040_TT_HIT OR M68K_MMU_040_RESIDENT)
             else if pt_fault r = 0
             then (physical_address r AND 0xfffff000) OR (ucast (pt_status r) AND 0x0fff)
             else ucast (pt_status r) AND 0x0fff)\<rparr>)))"

text \<open>\<open>pmmu_decode_ea\<close> answers \<open>None\<close> where the C function returns 0 after the exception.\<close>

definition pmmu_decode_ea :: "u32 \<Rightarrow> 'b machine \<Rightarrow> ('b, u32 option) result" where
  "pmmu_decode_ea ea s =
    (let mode = drop_bit 3 ea AND 7; reg = ea AND 7
     in if mode = 2 then Ret (Some (REG_A s reg)) s
        else if mode = 5 then chain (EA_AY_DI_32 s) (\<lambda>a. Ret (Some a))
        else if mode = 6 then chain (EA_AY_IX_32 s) (\<lambda>a. Ret (Some a))
        else if mode = 7 \<and> reg = 0 then chain (EA_AW_32 s) (\<lambda>a. Ret (Some a))
        else if mode = 7 \<and> reg = 1 then chain (EA_AL_32 s) (\<lambda>a. Ret (Some a))
        else chain (pmmu_illegal s) (\<lambda>_. Ret None))"

primrec atc_flush_matching ::
    "nat list \<Rightarrow> u32 \<Rightarrow> u32 \<Rightarrow> u32 option \<Rightarrow> 'b machine \<Rightarrow> 'b machine" where
  "atc_flush_matching [] fc_mask fc page s = s"
| "atc_flush_matching (i # is) fc_mask fc page s =
    (let e = mmu_atc s i;
         keep = (valid e = 0 \<or> ucast (function_code e) AND fc_mask \<noteq> fc
                 \<or> (case page of None \<Rightarrow> False | Some p \<Rightarrow> logical_page e \<noteq> p))
     in atc_flush_matching is fc_mask fc page (if keep then s else set_atc i (e\<lparr>valid := 0\<rparr>) s))"

definition pmmu_atc_flush_modes :: "u32 \<Rightarrow> u32 \<Rightarrow> 'b op" where
  "pmmu_atc_flush_modes modes ea s =
    (let mode = drop_bit 10 modes AND 7;
         fc_mask = drop_bit 5 modes AND 7;
         fc = pmmu_fc_from_modes modes s AND fc_mask;
         page_mask = pmmu_page_mask (pmmu_page_shift s)
     in if mode = 1 then Ret () (pmmu_atc_flush s)
        else if mode = 6 \<or> mode = 7
        then chain (pmmu_decode_ea ea s) (\<lambda>address s.
             case address of
               None \<Rightarrow> Ret () s
             | Some a \<Rightarrow> Ret () (atc_flush_matching [0..<M68K_MMU_ATC_ENTRIES] fc_mask fc
                                   (Some (a AND NOT page_mask)) s))
        else Ret () (atc_flush_matching [0..<M68K_MMU_ATC_ENTRIES] fc_mask fc None s))"

subsection \<open>PLOAD, PFLUSH, PTEST and PMOVE\<close>

definition pmmu_flush_unless_fd :: "u32 \<Rightarrow> 'b op" where
  "pmmu_flush_unless_fd modes s = Ret () (if modes AND 0x100 = 0 then pmmu_atc_flush s else s)"

definition pmmu_ptest :: "u32 \<Rightarrow> u32 \<Rightarrow> 'b op" where
  "pmmu_ptest modes ea s =
    (let lvl = drop_bit 10 modes AND 7;
         rw = bool_word (modes AND 0x200 \<noteq> 0)
     in if mmu_kind s = M68K_MMU_KIND_68030 \<and> lvl = 0 \<and> modes AND 0x100 \<noteq> 0 then pmmu_illegal s
        else chain (pmmu_decode_ea ea s) (\<lambda>address s.
          case address of
            None \<Rightarrow> Ret () s
          | Some a \<Rightarrow>
              chain (pmmu_translate a (pmmu_fc_from_modes modes s) rw 4 PMMU_INTENT_PTEST lvl s) (\<lambda>r s.
              let s = s\<lparr>mmu_sr := pt_status r\<rparr>
              in Ret () (if modes AND 0x100 \<noteq> 0
                         then set_REG_A (drop_bit 5 modes AND 7) (descriptor_address r) s else s))))"

definition pmmu_pmove_tt :: "u32 \<Rightarrow> u32 \<Rightarrow> 'b op" where
  "pmmu_pmove_tt modes ea s =
    (let reg = drop_bit 10 modes AND 7
     in if reg \<noteq> 2 \<and> reg \<noteq> 3 then pmmu_unimplemented s
        else if modes AND 0x200 \<noteq> 0 then WRITE_EA_32 ea (if reg = 2 then mmu_tt0 s else mmu_tt1 s) s
        else chain (READ_EA_32 ea s) (\<lambda>value s.
             pmmu_flush_unless_fd modes
               (if reg = 2 then s\<lparr>mmu_tt0 := value\<rparr> else s\<lparr>mmu_tt1 := value\<rparr>)))"

definition pmmu_pmove_tc :: "u32 \<Rightarrow> u32 \<Rightarrow> 'b op" where
  "pmmu_pmove_tc modes ea s =
    (let reg = drop_bit 10 modes AND 7
     in if modes AND 0x200 \<noteq> 0
        then (if reg = 0 then WRITE_EA_32 ea (mmu_tc s) s
              else if reg = 2
              then WRITE_EA_64 ea (push_bit 32 (ucast (mmu_srp_limit s)) OR ucast (mmu_srp_aptr s)) s
              else if reg = 3
              then WRITE_EA_64 ea (push_bit 32 (ucast (mmu_crp_limit s)) OR ucast (mmu_crp_aptr s)) s
              else pmmu_unimplemented s)
        else if reg = 0
        then chain (READ_EA_32 ea s) (\<lambda>tc s.
             if \<not> pmmu_validate_tc tc then m68ki_exception_trap 56 (s\<lparr>pmmu_enabled := 0\<rparr>)
             else pmmu_flush_unless_fd modes (s\<lparr>mmu_tc := tc, pmmu_enabled := drop_bit 31 tc AND 1\<rparr>))
        else if reg = 2
        then chain (READ_EA_64 ea s) (\<lambda>v s.
             pmmu_flush_unless_fd modes (s\<lparr>mmu_srp_limit := ucast (drop_bit 32 v), mmu_srp_aptr := ucast v\<rparr>))
        else if reg = 3
        then chain (READ_EA_64 ea s) (\<lambda>v s.
             pmmu_flush_unless_fd modes (s\<lparr>mmu_crp_limit := ucast (drop_bit 32 v), mmu_crp_aptr := ucast v\<rparr>))
        else pmmu_unimplemented s)"

definition m68881_mmu_ops :: "'b op" where
  "m68881_mmu_ops s =
    (let ea = ir s AND 0x3f
     in if mmu_kind s = M68K_MMU_KIND_68040 then pmmu_unimplemented s
        else if ir s AND 0xffc0 = 0xf0c0 \<or> ir s AND 0xffc0 = 0xf080 then pmmu_unimplemented s
        else if drop_bit 9 (ir s) AND 7 \<noteq> 0 then pmmu_illegal s
        else chain (OPER_I_16 s) (\<lambda>modes s.
          if modes AND 0xfde0 = 0x2000
          then chain (pmmu_decode_ea ea s) (\<lambda>address s.
               case address of
                 None \<Rightarrow> Ret () s
               | Some a \<Rightarrow> chain (pmmu_translate a (pmmu_fc_from_modes modes s)
                                   (bool_word (modes AND 0x200 \<noteq> 0)) 4 PMMU_INTENT_PLOAD 7 s) (\<lambda>_. Ret ()))
          else if modes AND 0xe200 = 0x2000 then pmmu_atc_flush_modes modes ea s
          else if modes = 0xa000 then Ret () (pmmu_atc_flush s)
          else if modes AND 0xe000 = 0x8000 then pmmu_ptest modes ea s
          else if modes = 0x2800 \<or> modes AND 0xfff8 = 0x2c00 then pmmu_unimplemented s
          else if drop_bit 13 modes AND 7 = 0 then pmmu_pmove_tt modes ea s
          else if drop_bit 13 modes AND 7 = 2 then pmmu_pmove_tc modes ea s
          else if drop_bit 13 modes AND 7 = 3
          then (if modes AND 0x200 \<noteq> 0 then WRITE_EA_16 ea (mmu_sr s) s
                else chain (READ_EA_16 ea s) (\<lambda>v s. Ret () (s\<lparr>mmu_sr := v\<rparr>)))
          else pmmu_unimplemented s))"

end
