(* ===== verification/Api.thy ===== *)
theory Api
  imports PmmuOps
begin

section \<open>The interface of the engine\<close>

text \<open>
  The functions of m68kcpu.c that the host calls: reading and writing registers, selecting the
  processor, the interrupt lines, the time slice, reset and halt, and the translation for the
  debugger.  The instruction cycle tables, which \<open>m68ki_build_opcode_table\<close> fills, are the argument
  \<open>m68ki_cycles\<close> of \<open>m68k_set_cpu_type\<close>.
\<close>

unbundle bit_operations_syntax

subsection \<open>Exception cycle tables\<close>

definition exception_cycles_0 :: "u8 list" where
  "exception_cycles_0 =
     [40, 4, 50, 50, 34, 38, 40, 34, 34, 34, 34, 34, 4, 4, 4, 44, 4, 4, 4, 4, 4, 4, 4, 4,
     44, 44, 44, 44, 44, 44, 44, 44] @ replicate 16 34 @ replicate 208 4"

definition exception_cycles_1 :: "u8 list" where
  "exception_cycles_1 =
     [40, 4, 126, 126, 38, 44, 44, 34, 38, 38, 4, 4, 4, 4, 4, 44, 4, 4, 4, 4, 4, 4, 4, 4,
     46, 46, 46, 46, 46, 46, 46, 46] @ replicate 16 38 @ replicate 208 4"

definition exception_cycles_2 :: "u8 list" where
  "exception_cycles_2 =
     [4, 4, 50, 50, 20, 38, 40, 20, 34, 25, 20, 20, 4, 4, 4, 30, 4, 4, 4, 4, 4, 4, 4, 4,
     30, 30, 30, 30, 30, 30, 30, 30] @ replicate 16 20 @ replicate 208 4"

definition exception_cycles_3 :: "u8 list" where
  "exception_cycles_3 =
     [4, 4, 50, 50, 20, 38, 40, 20, 34, 25, 20, 20, 4, 4, 4, 30, 4, 4, 4, 4, 4, 4, 4, 4,
     30, 30, 30, 30, 30, 30, 30, 30] @ replicate 16 20 @ replicate 208 4"

definition exception_cycles_4 :: "u8 list" where
  "exception_cycles_4 =
     [4, 4, 50, 50, 20, 38, 40, 20, 34, 25, 20, 20, 4, 4, 4, 30, 4, 4, 4, 4, 4, 4, 4, 4,
     30, 30, 30, 30, 30, 30, 30, 30] @ replicate 16 20 @ replicate 208 4"

definition m68ki_exception_cycle_table :: "u8 list list" where
  "m68ki_exception_cycle_table =
     [exception_cycles_0, exception_cycles_1, exception_cycles_2, exception_cycles_3,
      exception_cycles_4]"

lemma exception_cycle_table_lengths:
  "length m68ki_exception_cycle_table = 5" "t \<in> set m68ki_exception_cycle_table \<Longrightarrow> length t = 256"
  by (auto simp: m68ki_exception_cycle_table_def exception_cycles_0_def exception_cycles_1_def
      exception_cycles_2_def exception_cycles_3_def exception_cycles_4_def)

subsection \<open>Registers\<close>

datatype m68k_register_t =
    M68K_REG_D0
  | M68K_REG_D1
  | M68K_REG_D2
  | M68K_REG_D3
  | M68K_REG_D4
  | M68K_REG_D5
  | M68K_REG_D6
  | M68K_REG_D7
  | M68K_REG_A0
  | M68K_REG_A1
  | M68K_REG_A2
  | M68K_REG_A3
  | M68K_REG_A4
  | M68K_REG_A5
  | M68K_REG_A6
  | M68K_REG_A7
  | M68K_REG_PC
  | M68K_REG_SR
  | M68K_REG_SP
  | M68K_REG_USP
  | M68K_REG_ISP
  | M68K_REG_MSP
  | M68K_REG_SFC
  | M68K_REG_DFC
  | M68K_REG_VBR
  | M68K_REG_CACR
  | M68K_REG_CAAR
  | M68K_REG_PREF_ADDR
  | M68K_REG_PREF_DATA
  | M68K_REG_PPC
  | M68K_REG_IR
  | M68K_REG_CPU_TYPE

datatype m68k_cpu_type_t =
    M68K_CPU_TYPE_INVALID
  | M68K_CPU_TYPE_68000
  | M68K_CPU_TYPE_68010
  | M68K_CPU_TYPE_68EC020
  | M68K_CPU_TYPE_68020
  | M68K_CPU_TYPE_68EC030
  | M68K_CPU_TYPE_68030
  | M68K_CPU_TYPE_68EC040
  | M68K_CPU_TYPE_68LC040
  | M68K_CPU_TYPE_68040
  | M68K_CPU_TYPE_SCC68070

text \<open>The number an \<open>enum\<close> constant stands for.\<close>

definition cpu_type_code :: "m68k_cpu_type_t \<Rightarrow> u32" where
  "cpu_type_code t = (case t of
     M68K_CPU_TYPE_INVALID \<Rightarrow> 0 | M68K_CPU_TYPE_68000 \<Rightarrow> 1 | M68K_CPU_TYPE_68010 \<Rightarrow> 2
   | M68K_CPU_TYPE_68EC020 \<Rightarrow> 3 | M68K_CPU_TYPE_68020 \<Rightarrow> 4 | M68K_CPU_TYPE_68EC030 \<Rightarrow> 5
   | M68K_CPU_TYPE_68030 \<Rightarrow> 6 | M68K_CPU_TYPE_68EC040 \<Rightarrow> 7 | M68K_CPU_TYPE_68LC040 \<Rightarrow> 8
   | M68K_CPU_TYPE_68040 \<Rightarrow> 9 | M68K_CPU_TYPE_SCC68070 \<Rightarrow> 10)"

definition get_reg_sr :: "'b machine \<Rightarrow> u32" where
  "get_reg_sr s =
     t1_flag s OR t0_flag s OR push_bit 11 (s_flag s) OR push_bit 11 (m_flag s) OR int_mask s OR
     drop_bit 4 (x_flag s AND XFLAG_SET) OR
     drop_bit 4 (n_flag s AND NFLAG_SET) OR
     push_bit 2 (bool_word (not_z_flag s = 0)) OR
     drop_bit 6 (v_flag s AND VFLAG_SET) OR
     drop_bit 8 (c_flag s AND CFLAG_SET)"

definition get_reg_cpu_type :: "'b machine \<Rightarrow> u32" where
  "get_reg_cpu_type s =
    (if cpu_type s = CPU_TYPE_000 then cpu_type_code M68K_CPU_TYPE_68000
     else if cpu_type s = CPU_TYPE_010 then cpu_type_code M68K_CPU_TYPE_68010
     else if cpu_type s = CPU_TYPE_EC020 then cpu_type_code M68K_CPU_TYPE_68EC020
     else if cpu_type s = CPU_TYPE_020 then cpu_type_code M68K_CPU_TYPE_68020
     else if cpu_type s = CPU_TYPE_040 then cpu_type_code M68K_CPU_TYPE_68040
     else cpu_type_code M68K_CPU_TYPE_INVALID)"

fun m68k_get_reg :: "m68k_register_t \<Rightarrow> 'b machine \<Rightarrow> u32" where
  "m68k_get_reg M68K_REG_D0 s = dar s 0"
| "m68k_get_reg M68K_REG_D1 s = dar s 1"
| "m68k_get_reg M68K_REG_D2 s = dar s 2"
| "m68k_get_reg M68K_REG_D3 s = dar s 3"
| "m68k_get_reg M68K_REG_D4 s = dar s 4"
| "m68k_get_reg M68K_REG_D5 s = dar s 5"
| "m68k_get_reg M68K_REG_D6 s = dar s 6"
| "m68k_get_reg M68K_REG_D7 s = dar s 7"
| "m68k_get_reg M68K_REG_A0 s = dar s 8"
| "m68k_get_reg M68K_REG_A1 s = dar s 9"
| "m68k_get_reg M68K_REG_A2 s = dar s 10"
| "m68k_get_reg M68K_REG_A3 s = dar s 11"
| "m68k_get_reg M68K_REG_A4 s = dar s 12"
| "m68k_get_reg M68K_REG_A5 s = dar s 13"
| "m68k_get_reg M68K_REG_A6 s = dar s 14"
| "m68k_get_reg M68K_REG_A7 s = dar s 15"
| "m68k_get_reg M68K_REG_PC s = MASK_OUT_ABOVE_32 (pc s)"
| "m68k_get_reg M68K_REG_SR s = get_reg_sr s"
| "m68k_get_reg M68K_REG_SP s = dar s 15"
| "m68k_get_reg M68K_REG_USP s = (if s_flag s \<noteq> 0 then sp s 0 else dar s 15)"
| "m68k_get_reg M68K_REG_ISP s = (if s_flag s \<noteq> 0 \<and> m_flag s = 0 then dar s 15 else sp s 4)"
| "m68k_get_reg M68K_REG_MSP s = (if s_flag s \<noteq> 0 \<and> m_flag s \<noteq> 0 then dar s 15 else sp s 6)"
| "m68k_get_reg M68K_REG_SFC s = sfc s"
| "m68k_get_reg M68K_REG_DFC s = dfc s"
| "m68k_get_reg M68K_REG_VBR s = vbr s"
| "m68k_get_reg M68K_REG_CACR s = cacr s"
| "m68k_get_reg M68K_REG_CAAR s = caar s"
| "m68k_get_reg M68K_REG_PREF_ADDR s = pref_addr s"
| "m68k_get_reg M68K_REG_PREF_DATA s = pref_data s"
| "m68k_get_reg M68K_REG_PPC s = MASK_OUT_ABOVE_32 (ppc s)"
| "m68k_get_reg M68K_REG_IR s = ir s"
| "m68k_get_reg M68K_REG_CPU_TYPE s = get_reg_cpu_type s"

subsection \<open>Selecting the processor\<close>

definition M68K_FPU_MODEL_68882 :: u32 where "M68K_FPU_MODEL_68882 = 2"
definition M68K_FPU_MODEL_68040 :: u32 where "M68K_FPU_MODEL_68040 = 3"

text \<open>The fields a case of \<open>m68k_set_cpu_type\<close> sets, but for the address mask and the PMMU.\<close>

definition set_cpu_timing ::
    "(nat \<Rightarrow> u32 \<Rightarrow> u8) \<Rightarrow> nat \<Rightarrow> u32 \<Rightarrow> u32 \<Rightarrow> u32 \<Rightarrow> u32 \<Rightarrow> u32 \<Rightarrow> u32 \<Rightarrow> u32 \<Rightarrow> u32 \<Rightarrow> u32 \<Rightarrow> 'b machine \<Rightarrow>
     'b machine" where
  "set_cpu_timing m68ki_cycles k bcc_b bcc_w dbcc_noexp dbcc_exp scc movem_w movem_l shift rst s =
     s\<lparr>cyc_instruction := m68ki_cycles k,
       cyc_exception := (\<lambda>v. (m68ki_exception_cycle_table ! k) ! unat v),
       cyc_bcc_notake_b := bcc_b, cyc_bcc_notake_w := bcc_w,
       cyc_dbcc_f_noexp := dbcc_noexp, cyc_dbcc_f_exp := dbcc_exp, cyc_scc_r_true := scc,
       cyc_movem_w := movem_w, cyc_movem_l := movem_l, cyc_shift := shift, cyc_reset := rst\<rparr>"

definition set_cpu_identity :: "u32 \<Rightarrow> u32 \<Rightarrow> u32 \<Rightarrow> 'b machine \<Rightarrow> 'b machine" where
  "set_cpu_identity type addr_mask srm s = s\<lparr>cpu_type := type, address_mask := addr_mask, sr_mask := srm\<rparr>"

fun default_fpu_model :: "m68k_cpu_type_t \<Rightarrow> u32" where
  "default_fpu_model M68K_CPU_TYPE_68040 = M68K_FPU_MODEL_68040"
| "default_fpu_model M68K_CPU_TYPE_68030 = M68K_FPU_MODEL_68882"
| "default_fpu_model M68K_CPU_TYPE_68EC030 = M68K_FPU_MODEL_68882"
| "default_fpu_model M68K_CPU_TYPE_68020 = M68K_FPU_MODEL_68882"
| "default_fpu_model _ = 0"

definition timing_020 :: "(nat \<Rightarrow> u32 \<Rightarrow> u8) \<Rightarrow> nat \<Rightarrow> 'b machine \<Rightarrow> 'b machine" where
  "timing_020 m68ki_cycles k = set_cpu_timing m68ki_cycles k (- 2) 0 0 4 0 2 2 0 518"

definition select_68010 :: "(nat \<Rightarrow> u32 \<Rightarrow> u8) \<Rightarrow> 'b machine \<Rightarrow> 'b machine" where
  "select_68010 m68ki_cycles s =
     set_cpu_timing m68ki_cycles 1 (- 4) 0 0 6 0 2 3 1 130
       (set_cpu_identity CPU_TYPE_010 0x00ffffff 0xa71f s)\<lparr>has_pmmu := 0\<rparr>"

fun select_cpu :: "(nat \<Rightarrow> u32 \<Rightarrow> u8) \<Rightarrow> m68k_cpu_type_t \<Rightarrow> 'b machine \<Rightarrow> 'b machine" where
  "select_cpu m68ki_cycles M68K_CPU_TYPE_68000 s =
     set_cpu_timing m68ki_cycles 0 (- 2) 2 (- 2) 2 2 2 3 1 132
       (set_cpu_identity CPU_TYPE_000 0x00ffffff 0xa71f s)\<lparr>has_pmmu := 0\<rparr>"
| "select_cpu m68ki_cycles M68K_CPU_TYPE_SCC68070 s =
     (select_68010 m68ki_cycles s)\<lparr>address_mask := 0xffffffff, cpu_type := CPU_TYPE_SCC070\<rparr>"
| "select_cpu m68ki_cycles M68K_CPU_TYPE_68010 s = select_68010 m68ki_cycles s"
| "select_cpu m68ki_cycles M68K_CPU_TYPE_68EC020 s =
     (timing_020 m68ki_cycles 2 (set_cpu_identity CPU_TYPE_EC020 0x00ffffff 0xf71f s))\<lparr>has_pmmu := 0\<rparr>"
| "select_cpu m68ki_cycles M68K_CPU_TYPE_68020 s =
     (timing_020 m68ki_cycles 2 (set_cpu_identity CPU_TYPE_020 0xffffffff 0xf71f s))\<lparr>has_pmmu := 0\<rparr>"
| "select_cpu m68ki_cycles M68K_CPU_TYPE_68030 s =
     (timing_020 m68ki_cycles 3 (set_cpu_identity CPU_TYPE_030 0xffffffff 0xf71f s))
       \<lparr>has_pmmu := 1, mmu_kind := M68K_MMU_KIND_68030\<rparr>"
| "select_cpu m68ki_cycles M68K_CPU_TYPE_68EC030 s =
     (timing_020 m68ki_cycles 3 (set_cpu_identity CPU_TYPE_EC030 0xffffffff 0xf71f s))\<lparr>has_pmmu := 0\<rparr>"
| "select_cpu m68ki_cycles M68K_CPU_TYPE_68040 s =
     (timing_020 m68ki_cycles 4 (set_cpu_identity CPU_TYPE_040 0xffffffff 0xf71f s))
       \<lparr>has_pmmu := 1, mmu_kind := M68K_MMU_KIND_68040\<rparr>"
| "select_cpu m68ki_cycles M68K_CPU_TYPE_68EC040 s =
     (timing_020 m68ki_cycles 4 (set_cpu_identity CPU_TYPE_EC040 0xffffffff 0xf71f s))\<lparr>has_pmmu := 0\<rparr>"
| "select_cpu m68ki_cycles M68K_CPU_TYPE_68LC040 s =
     (timing_020 m68ki_cycles 4 (s\<lparr>cpu_type := CPU_TYPE_LC040, sr_mask := 0xf71f\<rparr>))
       \<lparr>has_pmmu := 1, mmu_kind := M68K_MMU_KIND_68040\<rparr>"
| "select_cpu m68ki_cycles M68K_CPU_TYPE_INVALID s = s"

definition m68k_set_cpu_type ::
    "(nat \<Rightarrow> u32 \<Rightarrow> u8) \<Rightarrow> m68k_cpu_type_t \<Rightarrow> 'b machine \<Rightarrow> 'b machine" where
  "m68k_set_cpu_type m68ki_cycles type s =
    (let s = s\<lparr>fpu_model := default_fpu_model type\<rparr>;
         s = s\<lparr>has_pmmu := 0, pmmu_enabled := 0, mmu_kind := M68K_MMU_KIND_NONE\<rparr>;
         s = pmmu_atc_flush s
     in select_cpu m68ki_cycles type s)"

definition m68k_set_fpu_model :: "u32 \<Rightarrow> 'b machine \<Rightarrow> 'b machine" where
  "m68k_set_fpu_model model s = s\<lparr>fpu_model := model\<rparr>"

definition m68k_set_external_pmmu :: "bool \<Rightarrow> 'b machine \<Rightarrow> 'b machine" where
  "m68k_set_external_pmmu enabled s =
    (if cpu_type s \<noteq> CPU_TYPE_020 then s
     else
       let s = s\<lparr>has_pmmu := bool_word enabled,
                 mmu_kind := (if enabled then M68K_MMU_KIND_68851 else M68K_MMU_KIND_NONE)\<rparr>;
           s = (if \<not> enabled then s\<lparr>pmmu_enabled := 0\<rparr> else s)
       in pmmu_atc_flush s)"

text \<open>
  \<open>m68k_set_reg\<close>.  Its value for the processor type is a number; \<open>cpu_type_of_code\<close> is the switch
  of \<open>m68k_set_cpu_type\<close> on it, with other numbers left to no case.
\<close>

definition cpu_type_of_code :: "u32 \<Rightarrow> m68k_cpu_type_t" where
  "cpu_type_of_code v =
    (if v = 1 then M68K_CPU_TYPE_68000 else if v = 2 then M68K_CPU_TYPE_68010
     else if v = 3 then M68K_CPU_TYPE_68EC020 else if v = 4 then M68K_CPU_TYPE_68020
     else if v = 5 then M68K_CPU_TYPE_68EC030 else if v = 6 then M68K_CPU_TYPE_68030
     else if v = 7 then M68K_CPU_TYPE_68EC040 else if v = 8 then M68K_CPU_TYPE_68LC040
     else if v = 9 then M68K_CPU_TYPE_68040 else if v = 10 then M68K_CPU_TYPE_SCC68070
     else M68K_CPU_TYPE_INVALID)"

fun m68k_set_reg ::
    "(nat \<Rightarrow> u32 \<Rightarrow> u8) \<Rightarrow> m68k_register_t \<Rightarrow> u32 \<Rightarrow> 'b machine \<Rightarrow> 'b machine" where
  "m68k_set_reg m68ki_cycles M68K_REG_D0 v s = set_REG_D 0 (MASK_OUT_ABOVE_32 v) s"
| "m68k_set_reg m68ki_cycles M68K_REG_D1 v s = set_REG_D 1 (MASK_OUT_ABOVE_32 v) s"
| "m68k_set_reg m68ki_cycles M68K_REG_D2 v s = set_REG_D 2 (MASK_OUT_ABOVE_32 v) s"
| "m68k_set_reg m68ki_cycles M68K_REG_D3 v s = set_REG_D 3 (MASK_OUT_ABOVE_32 v) s"
| "m68k_set_reg m68ki_cycles M68K_REG_D4 v s = set_REG_D 4 (MASK_OUT_ABOVE_32 v) s"
| "m68k_set_reg m68ki_cycles M68K_REG_D5 v s = set_REG_D 5 (MASK_OUT_ABOVE_32 v) s"
| "m68k_set_reg m68ki_cycles M68K_REG_D6 v s = set_REG_D 6 (MASK_OUT_ABOVE_32 v) s"
| "m68k_set_reg m68ki_cycles M68K_REG_D7 v s = set_REG_D 7 (MASK_OUT_ABOVE_32 v) s"
| "m68k_set_reg m68ki_cycles M68K_REG_A0 v s = set_REG_A 0 (MASK_OUT_ABOVE_32 v) s"
| "m68k_set_reg m68ki_cycles M68K_REG_A1 v s = set_REG_A 1 (MASK_OUT_ABOVE_32 v) s"
| "m68k_set_reg m68ki_cycles M68K_REG_A2 v s = set_REG_A 2 (MASK_OUT_ABOVE_32 v) s"
| "m68k_set_reg m68ki_cycles M68K_REG_A3 v s = set_REG_A 3 (MASK_OUT_ABOVE_32 v) s"
| "m68k_set_reg m68ki_cycles M68K_REG_A4 v s = set_REG_A 4 (MASK_OUT_ABOVE_32 v) s"
| "m68k_set_reg m68ki_cycles M68K_REG_A5 v s = set_REG_A 5 (MASK_OUT_ABOVE_32 v) s"
| "m68k_set_reg m68ki_cycles M68K_REG_A6 v s = set_REG_A 6 (MASK_OUT_ABOVE_32 v) s"
| "m68k_set_reg m68ki_cycles M68K_REG_A7 v s = set_REG_A 7 (MASK_OUT_ABOVE_32 v) s"
| "m68k_set_reg m68ki_cycles M68K_REG_PC v s = m68ki_jump (MASK_OUT_ABOVE_32 v) s"
| "m68k_set_reg m68ki_cycles M68K_REG_SR v s = m68ki_set_sr_noint_nosp v s"
| "m68k_set_reg m68ki_cycles M68K_REG_SP v s = set_REG_SP (MASK_OUT_ABOVE_32 v) s"
| "m68k_set_reg m68ki_cycles M68K_REG_USP v s = 
     (if s_flag s \<noteq> 0 then s\<lparr>sp := (sp s)(0 := MASK_OUT_ABOVE_32 v)\<rparr>
      else set_REG_SP (MASK_OUT_ABOVE_32 v) s)"
| "m68k_set_reg m68ki_cycles M68K_REG_ISP v s = 
     (if s_flag s \<noteq> 0 \<and> m_flag s = 0 then set_REG_SP (MASK_OUT_ABOVE_32 v) s
      else s\<lparr>sp := (sp s)(4 := MASK_OUT_ABOVE_32 v)\<rparr>)"
| "m68k_set_reg m68ki_cycles M68K_REG_MSP v s = 
     (if s_flag s \<noteq> 0 \<and> m_flag s \<noteq> 0 then set_REG_SP (MASK_OUT_ABOVE_32 v) s
      else s\<lparr>sp := (sp s)(6 := MASK_OUT_ABOVE_32 v)\<rparr>)"
| "m68k_set_reg m68ki_cycles M68K_REG_VBR v s = s\<lparr>vbr := MASK_OUT_ABOVE_32 v\<rparr>"
| "m68k_set_reg m68ki_cycles M68K_REG_SFC v s = s\<lparr>sfc := v AND 7\<rparr>"
| "m68k_set_reg m68ki_cycles M68K_REG_DFC v s = s\<lparr>dfc := v AND 7\<rparr>"
| "m68k_set_reg m68ki_cycles M68K_REG_CACR v s = s\<lparr>cacr := MASK_OUT_ABOVE_32 v\<rparr>"
| "m68k_set_reg m68ki_cycles M68K_REG_CAAR v s = s\<lparr>caar := MASK_OUT_ABOVE_32 v\<rparr>"
| "m68k_set_reg m68ki_cycles M68K_REG_PPC v s = s\<lparr>ppc := MASK_OUT_ABOVE_32 v\<rparr>"
| "m68k_set_reg m68ki_cycles M68K_REG_IR v s = s\<lparr>ir := MASK_OUT_ABOVE_16 v\<rparr>"
| "m68k_set_reg m68ki_cycles M68K_REG_CPU_TYPE v s = m68k_set_cpu_type m68ki_cycles (cpu_type_of_code v) s"
| "m68k_set_reg m68ki_cycles M68K_REG_PREF_ADDR v s = s"
| "m68k_set_reg m68ki_cycles M68K_REG_PREF_DATA v s = s"

subsection \<open>Interrupt lines\<close>

definition m68k_set_irq :: "u32 \<Rightarrow> 'b machine \<Rightarrow> 'b machine" where
  "m68k_set_irq level s =
    (let old_level = int_level s;
         s = s\<lparr>int_level := push_bit 8 level\<rparr>
     in if old_level \<noteq> 0x0700 \<and> int_level s = 0x0700 then s\<lparr>nmi_pending := 1\<rparr> else s)"

text \<open>The loop \<open>for(blevel = 7; blevel > 0; blevel--) if(state & (1 << blevel)) break\<close>.\<close>

fun highest_virq :: "nat \<Rightarrow> u32 \<Rightarrow> nat" where
  "highest_virq 0 state = 0"
| "highest_virq (Suc k) state =
    (if state AND push_bit (Suc k) 1 \<noteq> 0 then Suc k else highest_virq k state)"

definition m68k_set_virq :: "u32 \<Rightarrow> bool \<Rightarrow> 'b machine \<Rightarrow> 'b machine" where
  "m68k_set_virq level active s =
    (let state = (if active then virq_state s OR push_bit (unat level) 1
                  else virq_state s AND NOT (push_bit (unat level) 1));
         s = s\<lparr>virq_state := state\<rparr>
     in m68k_set_irq (of_nat (highest_virq 7 state)) s)"

definition m68k_get_virq :: "u32 \<Rightarrow> 'b machine \<Rightarrow> u32" where
  "m68k_get_virq level s = bool_word (virq_state s AND push_bit (unat level) 1 \<noteq> 0)"

subsection \<open>Time slice\<close>

definition m68k_cycles_run :: "'b machine \<Rightarrow> u32" where
  "m68k_cycles_run s = initial_cycles s - remaining_cycles s"

definition m68k_cycles_remaining :: "'b machine \<Rightarrow> u32" where
  "m68k_cycles_remaining s = remaining_cycles s"

definition m68k_modify_timeslice :: "u32 \<Rightarrow> 'b machine \<Rightarrow> 'b machine" where
  "m68k_modify_timeslice cycles s =
     s\<lparr>initial_cycles := initial_cycles s + cycles, remaining_cycles := remaining_cycles s + cycles\<rparr>"

definition m68k_end_timeslice :: "'b machine \<Rightarrow> 'b machine" where
  "m68k_end_timeslice s =
     s\<lparr>initial_cycles := initial_cycles s - remaining_cycles s, remaining_cycles := 0\<rparr>"

subsection \<open>Reset, halt and bus errors from outside\<close>

definition m68k_pmmu_atc_reset_statistics :: "'b machine \<Rightarrow> 'b machine" where
  "m68k_pmmu_atc_reset_statistics s = s\<lparr>mmu_atc_hits := 0, mmu_atc_misses := 0\<rparr>"

definition m68k_pmmu_atc_flush :: "'b machine \<Rightarrow> 'b machine" where
  "m68k_pmmu_atc_flush = pmmu_atc_flush"

definition m68k_pulse_bus_error :: "'b op" where
  "m68k_pulse_bus_error = m68ki_exception_bus_error"

definition m68k_report_physical_bus_error :: "u32 \<Rightarrow> bool \<Rightarrow> u8 \<Rightarrow> 'b op" where
  "m68k_report_physical_bus_error = m68k_report_physical_bus_error_via m68ki_exception_bus_error"

definition m68k_pulse_halt :: "'b machine \<Rightarrow> 'b machine" where
  "m68k_pulse_halt s = s\<lparr>stopped := stopped s OR STOP_LEVEL_HALT\<rparr>"

definition reset_pmmu :: "'b machine \<Rightarrow> 'b machine" where
  "reset_pmmu s =
    (let s = s\<lparr>pmmu_enabled := 0, mmu_tt0 := 0, mmu_tt1 := 0, mmu_itt0 := 0, mmu_itt1 := 0,
               mmu_dtt0 := 0, mmu_dtt1 := 0, mmu_urp_aptr := 0, mmu_sr_040 := 0, mmu_sr := 0,
               mmu_tmp_sr := 0, mmu_fault_address := 0, mmu_fault_fc := 0, mmu_fault_rw := 0,
               mmu_fault_size := 0, mmu_fault_is_mmu := 0, mmu_tablewalk := 0\<rparr>;
         s = pmmu_atc_flush s
     in m68k_pmmu_atc_reset_statistics s)"

definition m68k_pulse_reset :: "'b op" where
  "m68k_pulse_reset s =
    (let s = reset_pmmu s;
         s = s\<lparr>stopped := 0, remaining_cycles := 0, run_mode := RUN_MODE_BERR_AERR_RESET,
               instr_mode := INSTRUCTION_YES, t1_flag := 0, t0_flag := 0, int_mask := 0x0700,
               int_level := 0, virq_state := 0, vbr := 0\<rparr>;
         s = m68ki_set_sm_flag SFLAG_SET s;
         s = s\<lparr>pref_addr := 0x1000\<rparr>;
         s = m68ki_jump 0 s
     in chain (m68ki_read_imm_32 s) (\<lambda>v s.
        let s = set_REG_SP v s
        in chain (m68ki_read_imm_32 s) (\<lambda>v s.
           let s = s\<lparr>pc := v\<rparr>;
               s = m68ki_jump (pc s) s;
               s = s\<lparr>run_mode := RUN_MODE_NORMAL\<rparr>
           in Ret () (s\<lparr>reset_cycles := CYC_EXCEPTION 0 s\<rparr>))))"

subsection \<open>Translation for the debugger\<close>

definition m68k_translate_address :: "u32 \<Rightarrow> 'b machine \<Rightarrow> ('b, u32) result" where
  "m68k_translate_address address s =
    (if has_pmmu s \<noteq> 0 \<and> pmmu_enabled s \<noteq> 0
     then pmmu_debug_translate_addr address
            (if m68ki_get_sr s AND 0x2000 \<noteq> 0 then FUNCTION_CODE_SUPERVISOR_PROGRAM
             else FUNCTION_CODE_USER_PROGRAM) s
     else Ret (ADDRESS_68K s address) s)"

end
