(* ===== verification/Execute.thy ===== *)
theory Execute
  imports Api
begin

section \<open>The execution loop\<close>

text \<open>
  \<open>m68k_execute\<close> (m68kcpu.c) and the host functions around it (M68kCpuCore.cpp).  The handlers come
  in as the argument \<open>m68ki_instruction_jump_table\<close>.  The two \<open>setjmp\<close> points of the C function are
  the two entries of the loop: an address error enters at \<open>AddressErrorEntry\<close>, a bus error at
  \<open>InstructionEntry\<close>.  The loop need not end, so it is a partial function with value \<open>None\<close> where
  it does not.  A jump out of the interrupt check before the \<open>setjmp\<close>s, which in C uses a dead jump
  buffer, is returned as a jump.
\<close>

unbundle bit_operations_syntax

definition instructionHook :: "'b machine \<Rightarrow> 'b machine" where
  "instructionHook s =
    (if word_sless (instructionHookBudget s) 0 then s
     else if instructionHookBudget s = 0 then m68k_end_timeslice s
     else s\<lparr>instructionHookBudget := instructionHookBudget s - 1\<rparr>)"

text \<open>The body of the main loop.\<close>

definition execute_instruction :: "(u32 \<Rightarrow> 'b op) \<Rightarrow> 'b op" where
  "execute_instruction m68ki_instruction_jump_table s =
    (let s = m68ki_use_data_space s;
         s = instructionHook s;
         s = s\<lparr>ppc := pc s\<rparr>;
         s = save_dar (rev [0..<16]) s
     in chain (m68ki_read_imm_16 s) (\<lambda>v s.
        let s = s\<lparr>ir := v\<rparr>
        in chain (m68ki_instruction_jump_table (ir s) s) (\<lambda>_ s.
           Ret () (USE_CYCLES (CYC_INSTRUCTION s) s))))"

datatype entry = AddressErrorEntry | InstructionEntry

text \<open>What one pass leaves: a value to return, or the entry at which the loop goes on.\<close>

datatype pass = Leave u32 | Again entry

definition address_error_pass :: "'b machine \<Rightarrow> ('b, pass) result" where
  "address_error_pass s =
     chain (m68ki_exception_address_error s) (\<lambda>_ s.
     if stopped s \<noteq> 0 then Ret (Leave (initial_cycles s)) (s\<lparr>remaining_cycles := 0\<rparr>)
     else if word_sle (remaining_cycles s) 0
     then Ret (Leave (initial_cycles s - remaining_cycles s)) s
     else Ret (Again InstructionEntry) s)"

definition instruction_pass :: "(u32 \<Rightarrow> 'b op) \<Rightarrow> 'b machine \<Rightarrow> ('b, pass) result" where
  "instruction_pass m68ki_instruction_jump_table s =
     chain (execute_instruction m68ki_instruction_jump_table s) (\<lambda>_ s.
     if word_sless 0 (remaining_cycles s) then Ret (Again InstructionEntry) s
     else let s = s\<lparr>ppc := pc s\<rparr> in Ret (Leave (initial_cycles s - remaining_cycles s)) s)"

definition execute_pass :: "(u32 \<Rightarrow> 'b op) \<Rightarrow> entry \<Rightarrow> 'b machine \<Rightarrow> ('b, pass) result" where
  "execute_pass m68ki_instruction_jump_table e s =
    (case (case e of AddressErrorEntry \<Rightarrow> address_error_pass s
                   | InstructionEntry \<Rightarrow> instruction_pass m68ki_instruction_jump_table s) of
       Ret p s \<Rightarrow> Ret p s
     | Jump j s \<Rightarrow>
         (if j = AddressErrorTrap then Ret (Again AddressErrorEntry) s
          else if j = BusErrorTrap then Ret (Again InstructionEntry) s
          else Jump j s))"

partial_function (option) execute_loop ::
    "(u32 \<Rightarrow> 'b op) \<Rightarrow> entry \<Rightarrow> 'b machine \<Rightarrow> ('b, u32) result option" where
  "execute_loop m68ki_instruction_jump_table e s =
    (case execute_pass m68ki_instruction_jump_table e s of
       Jump j s' \<Rightarrow> Some (Jump j s')
     | Ret p s' \<Rightarrow>
         (case p of
            Leave v \<Rightarrow> Some (Ret v s')
          | Again e' \<Rightarrow> execute_loop m68ki_instruction_jump_table e' s'))"

definition m68k_execute ::
    "(u32 \<Rightarrow> 'b op) \<Rightarrow> u32 \<Rightarrow> 'b machine \<Rightarrow> ('b, u32) result option" where
  "m68k_execute m68ki_instruction_jump_table num_cycles s =
    (let rc = reset_cycles s;
         s = s\<lparr>reset_cycles := 0\<rparr>;
         num_cycles = num_cycles - rc
     in if rc \<noteq> 0 \<and> word_sle num_cycles 0 then Some (Ret rc s)
        else
          let s = s\<lparr>remaining_cycles := num_cycles, initial_cycles := num_cycles\<rparr>
          in case m68ki_check_interrupts s of
               Jump j s \<Rightarrow> Some (Jump j s)
             | Ret _ s \<Rightarrow>
                 (if stopped s = 0 then execute_loop m68ki_instruction_jump_table InstructionEntry s
                  else let s = s\<lparr>remaining_cycles := 0\<rparr>
                       in Some (Ret (initial_cycles s - remaining_cycles s) s)))"

text \<open>\<open>M68kCpuCore::stepInstruction\<close> and \<open>M68kCpuCore::setIrqLevel\<close>.\<close>

definition stepInstruction :: "(u32 \<Rightarrow> 'b op) \<Rightarrow> 'b machine \<Rightarrow> ('b, u32) result option" where
  "stepInstruction m68ki_instruction_jump_table s =
     map_option (\<lambda>r. chain r (\<lambda>cycles s. Ret cycles (s\<lparr>instructionHookBudget := 0xffffffff\<rparr>)))
       (m68k_execute m68ki_instruction_jump_table 512 (s\<lparr>instructionHookBudget := 0\<rparr>))"

definition setIrqLevel :: "u32 \<Rightarrow> 'b machine \<Rightarrow> 'b machine" where
  "setIrqLevel level s = m68k_set_irq (min level 7) s"

end
