(* ===== verification/MacPlusMachine.thy ===== *)
theory MacPlusMachine
  imports MacPlusDevices Execute
begin

section \<open>The Macintosh Plus with its processor\<close>

text \<open>
  The operations of \<open>MacPlusMachine\<close> that run the processor: reset, the step of one instruction with the
  time it takes on the VIA, the sound and the scheduler, and the loops over steps.  The state is the one of
  the engine with the machine as the object behind its bus.  \<open>None\<close> is a step that does not return, because
  the engine's loop does not.
\<close>

unbundle bit_operations_syntax

type_synonym ('h, 'e) system = "('h, 'e) macintosh machine"

definition on_mac :: "(('h, 'e) macintosh \<Rightarrow> ('h, 'e) macintosh) \<Rightarrow> ('h, 'e) system \<Rightarrow> ('h, 'e) system" where
  "on_mac f s = s\<lparr>bus_state := f (bus_state s)\<rparr>"

text \<open>The constructor's part on the processor: the engine's variables \<open>s\<close> get a 68000 on the machine's bus.\<close>

definition new_system ::
    "('h, 'e) outside \<Rightarrow> (nat \<Rightarrow> u32 \<Rightarrow> u8) \<Rightarrow> ('h, 'e) macintosh \<Rightarrow> ('h, 'e) system \<Rightarrow> ('h, 'e) system" where
  "new_system out m68ki_cycles m s =
     (m68k_set_cpu_type m68ki_cycles M68K_CPU_TYPE_68000 s)
       \<lparr>activeBus := Some (macplus_bus (mac_devices out)), bus_state := m\<rparr>"

definition updateInterrupts :: "('h, 'e) system \<Rightarrow> ('h, 'e) system" where
  "updateInterrupts s =
     setIrqLevel (if via_interruptActive (m_via (m_devices (bus_state s))) then 1 else 0) s"

definition triggerProgrammersInterrupt :: "('h, 'e) system \<Rightarrow> ('h, 'e) system" where
  "triggerProgrammersInterrupt s = setIrqLevel 7 (setIrqLevel 0 s)"

definition mac_reset :: "('h, 'e) outside \<Rightarrow> ('h, 'e) macintosh op" where
  "mac_reset out s =
     chain (m68k_pulse_reset (on_mac (reset_chips out) s)) (\<lambda>_ s. Ret () (on_mac synchronizeMouseLowMemory s))"

definition mac_cycleCount :: "('h, 'e) system \<Rightarrow> u64" where
  "mac_cycleCount s = sch_now (m_scheduler (m_devices (bus_state s)))"

definition mac_programCounter :: "('h, 'e) system \<Rightarrow> u32" where
  "mac_programCounter s = m68k_get_reg M68K_REG_PC s"

subsection \<open>One instruction\<close>

definition finish_step :: "('h, 'e) outside \<Rightarrow> u32 \<Rightarrow> ('h, 'e) system \<Rightarrow> (('h, 'e) macintosh, u32) result option" where
  "finish_step out cycles s =
    (let elapsed = max 1 (sint cycles)
     in map_option (\<lambda>m. Ret cycles (updateInterrupts (s\<lparr>bus_state := m\<rparr>)))
          (mac_dispatch (advance run_input (word_of_int elapsed)) (pass_time out elapsed (bus_state s))))"

definition mac_stepInstruction ::
    "('h, 'e) outside \<Rightarrow> (u32 \<Rightarrow> ('h, 'e) macintosh op) \<Rightarrow> ('h, 'e) system \<Rightarrow> (('h, 'e) macintosh, u32) result option" where
  "mac_stepInstruction out m68ki_instruction_jump_table s =
    (case mac_dispatch (dispatchDue run_input) (bus_state s) of
       None \<Rightarrow> None
     | Some m \<Rightarrow>
         (case stepInstruction m68ki_instruction_jump_table (updateInterrupts (s\<lparr>bus_state := m\<rparr>)) of
            None \<Rightarrow> None
          | Some (Jump j s) \<Rightarrow> Some (Jump j s)
          | Some (Ret cycles s) \<Rightarrow> finish_step out cycles s))"

text \<open>The loops: every step counts for at least one cycle.\<close>

function run_loop ::
    "(('h, 'e) system \<Rightarrow> (('h, 'e) macintosh, u32) result option) \<Rightarrow> int \<Rightarrow> int \<Rightarrow> ('h, 'e) system \<Rightarrow>
     (('h, 'e) macintosh, int) result option" where
  "run_loop do_step cycles cyclesRun s =
    (if cyclesRun < cycles
     then case do_step s of
            None \<Rightarrow> None
          | Some (Jump j s) \<Rightarrow> Some (Jump j s)
          | Some (Ret n s) \<Rightarrow> run_loop do_step cycles (cyclesRun + max 1 (sint n)) s
     else Some (Ret cyclesRun s))"
  by pat_completeness auto
termination by (relation "measure (\<lambda>(do_step, cycles, cyclesRun, s). nat (cycles - cyclesRun))") auto

declare run_loop.simps [simp del]

definition mac_runCycles ::
    "('h, 'e) outside \<Rightarrow> (u32 \<Rightarrow> ('h, 'e) macintosh op) \<Rightarrow> int \<Rightarrow> ('h, 'e) system \<Rightarrow>
     (('h, 'e) macintosh, int) result option" where
  "mac_runCycles out m68ki_instruction_jump_table cycles s =
     run_loop (mac_stepInstruction out m68ki_instruction_jump_table) cycles 0
       (on_mac (on_chips (\<lambda>c. c\<lparr>m_audioPlaybackActive := False\<rparr>)) s)"

function pc_loop ::
    "(('h, 'e) system \<Rightarrow> (('h, 'e) macintosh, u32) result option) \<Rightarrow> u32 \<Rightarrow> int \<Rightarrow> int \<Rightarrow> ('h, 'e) system \<Rightarrow>
     (('h, 'e) macintosh, bool) result option" where
  "pc_loop do_step address maxCycles cyclesUsed s =
    (if cyclesUsed < maxCycles
     then if mac_programCounter s = address AND 0x00ffffff then Some (Ret True s)
          else case do_step s of
                 None \<Rightarrow> None
               | Some (Jump j s) \<Rightarrow> Some (Jump j s)
               | Some (Ret n s) \<Rightarrow> pc_loop do_step address maxCycles (cyclesUsed + max 1 (sint n)) s
     else Some (Ret (mac_programCounter s = address AND 0x00ffffff) s))"
  by pat_completeness auto
termination by (relation "measure (\<lambda>(do_step, address, maxCycles, cyclesUsed, s). nat (maxCycles - cyclesUsed))") auto

declare pc_loop.simps [simp del]

definition mac_runUntilPc ::
    "('h, 'e) outside \<Rightarrow> (u32 \<Rightarrow> ('h, 'e) macintosh op) \<Rightarrow> u32 \<Rightarrow> int \<Rightarrow> ('h, 'e) system \<Rightarrow>
     (('h, 'e) macintosh, bool) result option" where
  "mac_runUntilPc out m68ki_instruction_jump_table address maxCycles =
     pc_loop (mac_stepInstruction out m68ki_instruction_jump_table) address maxCycles 0"

end
