(* ===== verification/RegisterLaws.thy ===== *)
theory RegisterLaws
  imports Api Samples
begin

section \<open>Registers as the host and the program see them\<close>

text \<open>
  Reading back what \<open>m68k_set_reg\<close> and \<open>m68k_set_cpu_type\<close> wrote, the three stack pointers across
  changes of mode, and the interrupt level computed from the virtual interrupt lines.
\<close>

unbundle bit_operations_syntax

subsection \<open>Selecting a processor\<close>

lemma pmmu_atc_flush_from_fields [simp]:
  "sr_mask (pmmu_atc_flush_from is s) = sr_mask s"
  "cpu_type (pmmu_atc_flush_from is s) = cpu_type s"
  "dar (pmmu_atc_flush_from is s) = dar s"
  "s_flag (pmmu_atc_flush_from is s) = s_flag s"
  "m_flag (pmmu_atc_flush_from is s) = m_flag s"
  by (induction "is" arbitrary: s) (simp_all add: set_atc_def)

lemma sr_mask_set_cpu_type:
  "type \<noteq> M68K_CPU_TYPE_INVALID \<Longrightarrow> sr_mask_ok (m68k_set_cpu_type cyc type s)"
  by (cases type) (simp_all add: m68k_set_cpu_type_def Let_def select_68010_def timing_020_def
      set_cpu_timing_def set_cpu_identity_def sr_mask_ok_def)

subsection \<open>Reading back a register\<close>

lemma get_reg_sr_eq: "get_reg_sr s = m68ki_get_sr s"
  by (simp add: get_reg_sr_def m68ki_get_sr_def m68ki_get_ccr_def flag_values COND_EQ_def COND_NE_def
      or.assoc)

definition read_back :: "m68k_register_t \<Rightarrow> u32 \<Rightarrow> 'b machine \<Rightarrow> u32" where
  "read_back r v s = (case r of
     M68K_REG_SR \<Rightarrow> v AND sr_mask s
   | M68K_REG_IR \<Rightarrow> v AND 0xffff
   | M68K_REG_SFC \<Rightarrow> v AND 7
   | M68K_REG_DFC \<Rightarrow> v AND 7
   | M68K_REG_PREF_ADDR \<Rightarrow> pref_addr s
   | M68K_REG_PREF_DATA \<Rightarrow> pref_data s
   | M68K_REG_CPU_TYPE \<Rightarrow>
       (if v \<in> {1, 2, 3, 4, 9} then v else if v \<in> {5, 6, 7, 8, 10} then 0 else get_reg_cpu_type s)
   | _ \<Rightarrow> v)"

lemma read_back_cpu_type:
  "get_reg_cpu_type (m68k_set_cpu_type cyc (cpu_type_of_code v) s) =
    (if v \<in> {1, 2, 3, 4, 9} then v else if v \<in> {5, 6, 7, 8, 10} then 0 else get_reg_cpu_type s)"
  by (auto simp: cpu_type_of_code_def m68k_set_cpu_type_def Let_def select_68010_def timing_020_def
      set_cpu_timing_def set_cpu_identity_def get_reg_cpu_type_def cpu_types cpu_type_code_def
      pmmu_atc_flush_def)

text \<open>
  The three stack pointers and \<open>A7\<close> share cells: \<open>A7\<close> and \<open>SP\<close> are the stack pointer of the current mode, and
  so is the stack pointer that belongs to that mode.
\<close>

definition cell :: "'b machine \<Rightarrow> m68k_register_t \<Rightarrow> m68k_register_t" where
  "cell s r = (case r of
     M68K_REG_SP \<Rightarrow> M68K_REG_A7
   | M68K_REG_USP \<Rightarrow> if s_flag s = 0 then M68K_REG_A7 else M68K_REG_USP
   | M68K_REG_ISP \<Rightarrow> if s_flag s \<noteq> 0 \<and> m_flag s = 0 then M68K_REG_A7 else M68K_REG_ISP
   | M68K_REG_MSP \<Rightarrow> if s_flag s \<noteq> 0 \<and> m_flag s \<noteq> 0 then M68K_REG_A7 else M68K_REG_MSP
   | _ \<Rightarrow> r)"

lemma get_reg_updates [simp]:
  "get_reg_cpu_type (s\<lparr>dar := f\<rparr>) = get_reg_cpu_type s" "get_reg_cpu_type (s\<lparr>sp := g\<rparr>) = get_reg_cpu_type s"
  "get_reg_cpu_type (s\<lparr>pc := x\<rparr>) = get_reg_cpu_type s" "get_reg_cpu_type (s\<lparr>ppc := x\<rparr>) = get_reg_cpu_type s"
  "get_reg_cpu_type (s\<lparr>vbr := x\<rparr>) = get_reg_cpu_type s" "get_reg_cpu_type (s\<lparr>sfc := x\<rparr>) = get_reg_cpu_type s"
  "get_reg_cpu_type (s\<lparr>dfc := x\<rparr>) = get_reg_cpu_type s" "get_reg_cpu_type (s\<lparr>cacr := x\<rparr>) = get_reg_cpu_type s"
  "get_reg_cpu_type (s\<lparr>caar := x\<rparr>) = get_reg_cpu_type s" "get_reg_cpu_type (s\<lparr>ir := x\<rparr>) = get_reg_cpu_type s"
  "get_reg_sr (s\<lparr>dar := f\<rparr>) = get_reg_sr s" "get_reg_sr (s\<lparr>sp := g\<rparr>) = get_reg_sr s"
  "get_reg_sr (s\<lparr>pc := x\<rparr>) = get_reg_sr s" "get_reg_sr (s\<lparr>ppc := x\<rparr>) = get_reg_sr s"
  "get_reg_sr (s\<lparr>vbr := x\<rparr>) = get_reg_sr s" "get_reg_sr (s\<lparr>sfc := x\<rparr>) = get_reg_sr s"
  "get_reg_sr (s\<lparr>dfc := x\<rparr>) = get_reg_sr s" "get_reg_sr (s\<lparr>cacr := x\<rparr>) = get_reg_sr s"
  "get_reg_sr (s\<lparr>caar := x\<rparr>) = get_reg_sr s" "get_reg_sr (s\<lparr>ir := x\<rparr>) = get_reg_sr s"
  by (simp_all add: get_reg_cpu_type_def get_reg_sr_def)

lemma get_unrelated:
  assumes "r \<noteq> M68K_REG_SR" "r \<noteq> M68K_REG_CPU_TYPE" "cell s r' \<noteq> cell s r"
  shows "m68k_get_reg r' (m68k_set_reg cyc r v s) = m68k_get_reg r' s"
  using assms
  by (cases r; cases r'; simp add: cell_def register_defs m68ki_jump_def split: if_splits; blast?)

lemma get_related:
  assumes "r \<noteq> M68K_REG_SR" "r \<noteq> M68K_REG_CPU_TYPE" "cell s r' = cell s r"
  shows "m68k_get_reg r' (m68k_set_reg cyc r v s) = read_back r v s"
  using assms
  by (cases r; cases r'; simp add: cell_def read_back_def register_defs m68ki_jump_def MASK_OUT_ABOVE_16_def split: if_splits; blast?)

lemma get_set_sr_nosp:
  assumes "r' \<notin> {M68K_REG_SR, M68K_REG_USP, M68K_REG_ISP, M68K_REG_MSP}"
  shows "m68k_get_reg r' (m68ki_set_sr_noint_nosp v s) = m68k_get_reg r' s"
  using assms by (cases r'; simp add: m68ki_set_sr_noint_nosp_def m68ki_set_ccr_def m68ki_set_sm_flag_nosp_def
    get_reg_cpu_type_def Let_def)

lemma get_set_cpu_type:
  assumes "r' \<noteq> M68K_REG_CPU_TYPE"
  shows "m68k_get_reg r' (m68k_set_cpu_type cyc type s) = m68k_get_reg r' s"
proof -
  have flush: "m68k_get_reg r' (pmmu_atc_flush_from is t) = m68k_get_reg r' t" for "is" and t :: "'a machine"
  proof (induction "is" arbitrary: t)
    case (Cons i "is")
    have "m68k_get_reg r' (set_atc i e t) = m68k_get_reg r' t" for e
      using assms by (cases r') (simp_all add: set_atc_def get_reg_sr_def)
    with Cons show ?case by simp
  qed simp
  have "m68k_get_reg r' (select_cpu cyc type t) = m68k_get_reg r' t" for t :: "'a machine"
    using assms by (cases type; cases r'; simp add: select_68010_def timing_020_def set_cpu_timing_def
        set_cpu_identity_def get_reg_sr_def)
  moreover have "m68k_get_reg r' (t\<lparr>fpu_model := x\<rparr>) = m68k_get_reg r' t"
    "m68k_get_reg r' (t\<lparr>has_pmmu := a, pmmu_enabled := b, mmu_kind := c\<rparr>) = m68k_get_reg r' t" for t :: "'a machine" and x a b c
    using assms by (cases r'; simp add: get_reg_sr_def)+
  ultimately show ?thesis
    by (simp add: m68k_set_cpu_type_def pmmu_atc_flush_def Let_def flush)
qed

subsection \<open>The stack pointers\<close>

text \<open>A state whose three stack pointers are those of another.\<close>

definition same_stacks :: "'b machine \<Rightarrow> 'b machine \<Rightarrow> bool" where
  "same_stacks s t \<longleftrightarrow> wf_mode t \<and> usp_of t = usp_of s \<and> isp_of t = isp_of s \<and> msp_of t = msp_of s"

lemma stacks_of_update:
  assumes "s_flag t = s_flag s" "m_flag t = m_flag s" "sp t = sp s" "dar t = dar s"
  shows "wf_mode t = wf_mode s" "usp_of t = usp_of s" "isp_of t = isp_of s" "msp_of t = msp_of s"
  using assms by (simp_all add: wf_mode_def usp_of_def isp_of_def msp_of_def)

lemma same_stacks_set_sm_flag: "wf_mode s \<Longrightarrow> same_stacks s (m68ki_set_sm_flag v s)"
  by (simp add: same_stacks_def wf_mode_set_sm_flag stack_pointers_set_sm_flag)

lemma same_stacks_set_sr:
  assumes "wf_mode s"
  shows "same_stacks s (m68ki_set_sr_noint v s)"
proof -
  let ?v = "v AND sr_mask s"
  define t where "t = m68ki_set_ccr ?v (s\<lparr>t1_flag := BIT 15 ?v, t0_flag := BIT 14 ?v, int_mask := ?v AND 0x0700\<rparr>)"
  have "s_flag t = s_flag s" "m_flag t = m_flag s" "sp t = sp s" "dar t = dar s"
    by (simp_all add: t_def m68ki_set_ccr_def)
  note u = stacks_of_update [OF this]
  have "m68ki_set_sr_noint v s = m68ki_set_sm_flag (drop_bit 11 ?v AND 6) t"
    by (simp add: m68ki_set_sr_noint_def t_def Let_def)
  with same_stacks_set_sm_flag [of t "drop_bit 11 ?v AND 6"] u assms show ?thesis
    by (simp add: same_stacks_def)
qed

lemma same_stacks_init_exception:
  assumes "wf_mode s"
  shows "same_stacks s (snd (m68ki_init_exception s))"
proof -
  define t where "t = s\<lparr>t1_flag := 0, t0_flag := 0\<rparr>"
  have "s_flag t = s_flag s" "m_flag t = m_flag s" "sp t = sp s" "dar t = dar s" by (simp_all add: t_def)
  note u = stacks_of_update [OF this]
  show ?thesis
    using stack_pointers_set_s_flag [of t SFLAG_SET, simplified flag_values] u assms
    by (simp add: m68ki_init_exception_def Let_def same_stacks_def t_def flag_values)
qed

text \<open>
  Writing the status register, switching the mode and entering an exception keep the user,
  interrupt and master stack pointers: each is in \<open>A7\<close> when its mode is the current one and in its
  bank otherwise, so the pointer of a mode comes back unchanged when the mode does.
\<close>

theorem stack_pointers_survive:
  assumes "wf_mode s"
  shows "same_stacks s (m68ki_set_sr_noint v s) \<and> same_stacks s (m68ki_set_sm_flag v s) \<and>
    same_stacks s (snd (m68ki_init_exception s)) \<and>
    (let t = m68ki_set_sr_noint v s
     in dar t 15 = (if s_flag t = 0 then usp_of s else if m_flag t = 0 then isp_of s else msp_of s))"
  using same_stacks_set_sr [OF assms, of v] same_stacks_set_sm_flag [OF assms]
    same_stacks_init_exception [OF assms]
  by (auto simp: Let_def same_stacks_def usp_of_def isp_of_def msp_of_def)

lemma stack_pointers_survive_witness:
  "same_stacks sample (m68ki_set_sr_noint 0x2700 sample)"
  using stack_pointers_survive [where s=sample and v = "0x2700"] by (simp add: wf_mode_def sample_simps)

text \<open>
  C10. The registers as the host sees them, while the mask of the status register has no unused bit, as in every
  processor type.  \<open>m68k_get_reg\<close> after \<open>m68k_set_reg\<close> gives the value written, but:
  the status register keeps the bits its mask allows, the instruction register 16 and the function codes 3 bits;
  the two prefetch registers cannot be written and keep their values; a processor type reads back only when it is one
  of five, as 0 when it is one of the other five, and is not changed by any other number.  Every register that does not
  share a cell with the one written keeps its value (\<open>A7\<close>, \<open>SP\<close> and the stack pointer of the current mode share
  one); writing the status register this way leaves all but the three stack pointers, writing the processor type
  all others.  When the program writes the status register with proper mode flags, on the other hand, the three stack pointers keep
  their values whatever mode it selects.
\<close>

theorem set_reg_get_reg:
  assumes "sr_mask_ok s"
  shows "(let t = m68k_set_reg m68ki_cycles r v s
    in m68k_get_reg r t = read_back r v s \<and>
       (r \<notin> {M68K_REG_SR, M68K_REG_CPU_TYPE} \<longrightarrow>
          (\<forall>r'. m68k_get_reg r' t = (if cell s r' = cell s r then read_back r v s else m68k_get_reg r' s))) \<and>
       (r = M68K_REG_SR \<longrightarrow>
          (\<forall>r'. r' \<notin> {M68K_REG_SR, M68K_REG_USP, M68K_REG_ISP, M68K_REG_MSP} \<longrightarrow> m68k_get_reg r' t = m68k_get_reg r' s)) \<and>
       (r = M68K_REG_CPU_TYPE \<longrightarrow> (\<forall>r'. r' \<noteq> M68K_REG_CPU_TYPE \<longrightarrow> m68k_get_reg r' t = m68k_get_reg r' s))) \<and>
    (wf_mode s \<longrightarrow>
       (\<forall>r'\<in>{M68K_REG_USP, M68K_REG_ISP, M68K_REG_MSP}. m68k_get_reg r' (m68ki_set_sr_noint v s) = m68k_get_reg r' s))"
proof -
  have same: "m68k_get_reg r (m68k_set_reg m68ki_cycles r v s) = read_back r v s"
  proof (cases "r = M68K_REG_SR \<or> r = M68K_REG_CPU_TYPE")
    case True
    with assms show ?thesis
      by (auto simp: read_back_def get_reg_sr_eq get_sr_after_set read_back_cpu_type)
  qed (simp add: get_related)
  have "\<forall>r'\<in>{M68K_REG_USP, M68K_REG_ISP, M68K_REG_MSP}. m68k_get_reg r' (m68ki_set_sr_noint v s) = m68k_get_reg r' s"
    if "wf_mode s"
    using same_stacks_set_sr [OF that, of v] by (simp add: same_stacks_def usp_of_def isp_of_def msp_of_def)
  then show ?thesis
    using same by (auto simp: Let_def get_related get_unrelated get_set_sr_nosp get_set_cpu_type)
qed

lemma set_reg_get_reg_witness:
  "m68k_get_reg M68K_REG_SR
     (m68k_set_reg (\<lambda>_ _. 0) M68K_REG_SR 0xffff (m68k_set_cpu_type (\<lambda>_ _. 0) M68K_CPU_TYPE_68000 sample)) = 0xa71f"
proof -
  let ?s = "m68k_set_cpu_type (\<lambda>_ _. 0) M68K_CPU_TYPE_68000 sample"
  have "m68k_get_reg M68K_REG_SR (m68k_set_reg (\<lambda>_ _. 0) M68K_REG_SR 0xffff ?s) =
      read_back M68K_REG_SR 0xffff ?s"
    using set_reg_get_reg [where s = ?s and m68ki_cycles = "\<lambda>_ _. 0" and r = M68K_REG_SR and v = "0xffff", OF sr_mask_set_cpu_type]
    by (simp only: Let_def) simp
  also have "\<dots> = 0xa71f"
    by (simp add: read_back_def m68k_set_cpu_type_def Let_def set_cpu_timing_def set_cpu_identity_def)
  finally show ?thesis .
qed

subsection \<open>Virtual interrupt lines\<close>

lemma line_bit: "(x :: u32) AND push_bit n 1 = 0 \<longleftrightarrow> \<not> bit x n"
  using and_exp_eq_0_iff_not_bit [of x n] by (simp only: push_bit_of_1)

lemma highest_virq_Max:
  "n < 32 \<Longrightarrow> highest_virq n x = Max (insert 0 {l. 0 < l \<and> l \<le> n \<and> bit x l})"
proof (induction n)
  case 0
  have "{l. 0 < l \<and> l \<le> 0 \<and> bit x l} = {}" by auto
  then show ?case by (simp only: highest_virq.simps Max_singleton)
next
  case (Suc n)
  have fin: "finite {l. 0 < l \<and> l \<le> k \<and> bit x l}" for k by simp
  show ?case
  proof (cases "bit x (Suc n)")
    case True
    then have "Max (insert 0 {l. 0 < l \<and> l \<le> Suc n \<and> bit x l}) = Suc n"
      using fin [of "Suc n"] by (intro Max_eqI) auto
    with True show ?thesis by (simp only: highest_virq.simps line_bit) simp
  next
    case False
    then have "{l. 0 < l \<and> l \<le> Suc n \<and> bit x l} = {l. 0 < l \<and> l \<le> n \<and> bit x l}"
      by (auto simp: le_Suc_eq)
    with False Suc show ?thesis by (simp only: highest_virq.simps line_bit) simp
  qed
qed

lemma set_irq_fields:
  "virq_state (m68k_set_irq level s) = virq_state s"
  "int_level (m68k_set_irq level s) = push_bit 8 level"
  "nmi_pending (m68k_set_irq level s) =
    (if push_bit 8 level = 0x0700 \<and> int_level s \<noteq> 0x0700 then 1 else nmi_pending s)"
  by (simp_all add: m68k_set_irq_def Let_def)

text \<open>
  Raising or lowering a virtual interrupt line changes that line only, and the interrupt level
  of the processor is then the highest line that is up; reaching level 7 from below it latches a
  non-maskable interrupt.
\<close>

theorem virtual_interrupts:
  assumes "0 < level" "level \<le> 7"
  shows "(let t = m68k_set_virq (of_nat level) active s
    in (\<forall>l\<in>{1..7}. m68k_get_virq (of_nat l) t =
          (if l = level then bool_word active else m68k_get_virq (of_nat l) s)) \<and>
       int_level t = push_bit 8 (of_nat (Max (insert 0 {l. 0 < l \<and> l \<le> 7 \<and> m68k_get_virq (of_nat l) t = 1}))) \<and>
       (nmi_pending t = (if int_level t = 0x0700 \<and> int_level s \<noteq> 0x0700 then 1 else nmi_pending s)))"
proof -
  let ?t = "m68k_set_virq (of_nat level) active s"
  have n: "unat (of_nat l :: u32) = l" if "l \<le> 7" for l
    using that by (simp add: unat_of_nat take_bit_nat_eq_self)
  have state: "bit (virq_state ?t) l = (if l = level then active else bit (virq_state s) l)" if "l \<le> 7" for l
    using that assms
    by (auto simp: m68k_set_virq_def m68k_set_irq_def Let_def n bit_simps split: if_splits)
  have get: "m68k_get_virq (of_nat l) u = bool_word (bit (virq_state u) l)" if "l \<le> 7" for l and u :: "'a machine"
    using that by (simp only: m68k_get_virq_def n line_bit not_not)
  have lines: "{l. 0 < l \<and> l \<le> 7 \<and> bit (virq_state ?t) l} =
      {l. 0 < l \<and> l \<le> 7 \<and> m68k_get_virq (of_nat l) ?t = 1}"
    using get by (auto simp: bool_word_def split: if_splits)
  have "int_level ?t = push_bit 8 (of_nat (highest_virq 7 (virq_state ?t)))"
    by (simp only: m68k_set_virq_def Let_def set_irq_fields) simp
  then have "int_level ?t =
      push_bit 8 (of_nat (Max (insert 0 {l. 0 < l \<and> l \<le> 7 \<and> m68k_get_virq (of_nat l) ?t = 1})))"
    by (simp add: highest_virq_Max lines)
  moreover have "nmi_pending ?t =
      (if int_level ?t = 0x0700 \<and> int_level s \<noteq> 0x0700 then 1 else nmi_pending s)"
    by (simp only: m68k_set_virq_def Let_def set_irq_fields) simp
  moreover have "\<forall>l\<in>{1..7}. m68k_get_virq (of_nat l) ?t =
      (if l = level then bool_word active else m68k_get_virq (of_nat l) s)"
    using state get by simp
  ultimately show ?thesis unfolding Let_def by (intro conjI)
qed

lemma virtual_interrupts_witness: "m68k_get_virq 3 (m68k_set_virq 3 True sample) = 1"
proof -
  have "\<forall>l\<in>{1..7}. m68k_get_virq (of_nat l) (m68k_set_virq (of_nat 3) True sample) =
      (if l = 3 then bool_word True else m68k_get_virq (of_nat l) sample)"
    using virtual_interrupts [of 3 True sample] by (simp only: Let_def) simp
  from bspec [OF this, of 3] show ?thesis by (simp add: bool_word_def)
qed

end
