(* ===== verification/MacPlusWiring.thy ===== *)
theory MacPlusWiring
  imports MacPlusLaws MacPlusMachine RegisterLaws
begin

section \<open>Wiring and time of the Macintosh Plus\<close>

text \<open>
  What the processor's accesses to the VIA reach behind it - the clock chip, the ROM overlay, the side of the
  drives, the volume - and what an instruction's time does to the machine.
\<close>

unbundle bit_operations_syntax

subsection \<open>The VIA on the bus\<close>

text \<open>Register \<open>i\<close> of the VIA is at \<open>0xefe1fe + 512 * i\<close>.\<close>

lemmas byte_access = mac_write8_def mac_read8_def writeDevice8_def readDevice8_def accessDevice_def bus_address_def
  regionFor_def Let_def mac_devices_def mac_viaBus_def mmio_access_def access_bytes_def chip_register_def

lemma byte_lane [simp]: "ucast (ucast (v :: u8) :: u32) = v"
  by (rule bit_word_eqI) (simp add: bit_simps)

lemma via_write_bus:
  "mac_write8 (mac_devices out) 0xefe1fe v m =
     do_via (via_writeRegister (mac_callbacks out) 0 v) (MacPlusBus.count (\<lambda>a. a\<lparr>viaWrites := viaWrites a + 1\<rparr>) m)"
  "mac_write8 (mac_devices out) 0xeffffe v m =
     do_via (via_writeRegister (mac_callbacks out) 15 v) (MacPlusBus.count (\<lambda>a. a\<lparr>viaWrites := viaWrites a + 1\<rparr>) m)"
  "mac_read8 (mac_devices out) 0xefe1fe m =
     with_via (via_readRegister (mac_callbacks out) 0) (MacPlusBus.count (\<lambda>a. a\<lparr>viaReads := viaReads a + 1\<rparr>) m)"
  by (simp_all add: byte_access map_constants split_beta)

lemma count_devices [simp]: "m_devices (MacPlusBus.count f m) = m_devices m" "m_ram (MacPlusBus.count f m) = m_ram m"
  "m_rom (MacPlusBus.count f m) = m_rom m" "m_model (MacPlusBus.count f m) = m_model m"
  "m_overlayEnabled (MacPlusBus.count f m) = m_overlayEnabled m"
  by (simp_all add: MacPlusBus.count_def)

lemma low_bit: "((x :: u8) OR 1) AND 1 = 1" "((x :: u8) AND - 2) AND 1 = 0"
  by (simp_all add: and_one_eq mod_2_eq_odd even_or_iff even_and_iff)

text \<open>The pins of the clock chip for a value written to port B, whose data direction is \<open>d\<close>.\<close>

definition clock_pins :: "('h, 'e) outside \<Rightarrow> u8 \<Rightarrow> u8 \<Rightarrow> 'h rtc \<Rightarrow> 'h rtc" where
  "clock_pins out d v = rtc_setPins (host out) (v AND 4 = 0) (v AND 2 \<noteq> 0) (v AND 1 \<noteq> 0 \<and> d AND 1 \<noteq> 0)"

lemma port_b_write:
  assumes "m' = mac_write8 (mac_devices out) 0xefe1fe v m"
  shows "m_rtc (m_devices m') = clock_pins out (via_regs (m_via (m_devices m)) dataDirectionB) v (m_rtc (m_devices m))"
    and "via_regs (m_via (m_devices m')) = (via_regs (m_via (m_devices m)))(0 := v)"
    and "via_portBInputs (m_via (m_devices m')) AND 1 = (if rtc_dataLine (m_rtc (m_devices m')) then 1 else 0)"
  using assms
  by (simp_all add: via_write_bus do_via_def with_via_def via_writeRegister_def notifyPortB_register_def mac_callbacks_def
      portB_callback_def set_via_reg_def via_setPortBInputBit_def on_chips_def split_beta Let_def clock_pins_def low_bit)

lemma port_b_read:
  "fst (mac_read8 (mac_devices out) 0xefe1fe m) = via_portB (m_via (m_devices m))"
  by (simp add: via_write_bus with_via_def via_readRegister_def split_beta Let_def clear_flag_def set_via_reg_def via_portB_def)

lemma port_b_low: "via_portB s AND 1 =
    (if via_regs s dataDirectionB AND 1 \<noteq> 0 then via_regs s registerB AND 1 else via_portBInputs s AND 1)"
proof -
  have "x AND 1 = of_bool (bit x 0)" for x :: u8
    by (simp add: and_one_eq mod_2_eq_odd bit_0)
  then show ?thesis
    by (simp add: via_portB_def Let_def bit_simps)
qed

text \<open>
  C12. The clock chip over the bus: bytes written to the VIA's port B drive the chip's pins in their order, the
  data pin only while the VIA drives it, and reading the port back gives the line of the chip in bit 0 when
  the VIA does not drive it, and otherwise the bit that was written last.
\<close>

theorem clock_over_the_bus:
  "let d = via_regs (m_via (m_devices m)) dataDirectionB;
       m' = mac_write8 (mac_devices out) 0xefe1fe v (fold (mac_write8 (mac_devices out) 0xefe1fe) vs m);
       chip = clock_pins out d v (fold (clock_pins out d) vs (m_rtc (m_devices m)))
   in m_rtc (m_devices m') = chip \<and>
      fst (mac_read8 (mac_devices out) 0xefe1fe m') AND 1 =
        (if d AND 1 \<noteq> 0 then v AND 1 else if rtc_dataLine chip then 1 else 0)"
proof -
  let ?d = "\<lambda>m. via_regs (m_via (m_devices m)) dataDirectionB"
  let ?w = "mac_write8 (mac_devices out) 0xefe1fe :: u8 \<Rightarrow> ('a, 'b) macintosh \<Rightarrow> ('a, 'b) macintosh"
  have f: "m_rtc (m_devices (fold ?w vs m)) = fold (clock_pins out (?d m)) vs (m_rtc (m_devices m)) \<and>
      ?d (fold ?w vs m) = ?d m"
    by (induction vs arbitrary: m) (simp_all add: port_b_write [OF refl])
  show ?thesis
    using f by (simp add: Let_def port_b_write [OF refl] port_b_read port_b_low)
qed

subsection \<open>Port A\<close>

lemma port_a_write:
  assumes "m' = mac_write8 (mac_devices out) 0xeffffe v m"
    and "a = (v AND via_regs (m_via (m_devices m)) dataDirectionA) OR
      (via_portAInputs (m_via (m_devices m)) AND NOT (via_regs (m_via (m_devices m)) dataDirectionA))"
  shows "m_overlayEnabled m' = (a AND 0x10 \<noteq> 0)" "m_ram m' = m_ram m" "m_rom m' = m_rom m" "m_model m' = m_model m"
    and "m_soundVolume (m_devices m') = a AND 7" "m_viaPortA (m_devices m') = a"
    and "m_iwm (m_devices m') = setSideSelect (host out) (a AND 0x20 \<noteq> 0) (m_iwm (m_devices m))"
  using assms
  by (simp_all add: via_write_bus do_via_def with_via_def via_writeRegister_def via_notifyPortAChanged_def mac_callbacks_def
      portA_callback_def set_via_reg_def via_portA_def on_chips_def setOverlayEnabled_def split_beta Let_def)

text \<open>
  C13. The overlay of the ROM: after a byte is written to the VIA's port A, the low 4 MiB read as the ROM when
  pin 4 of the port is high and as the RAM, unchanged by the switch, when it is low; pins 0 to 2 are the volume
  and pin 5 selects the side of the drives.
\<close>

theorem overlay_switch:
  "let s = m_via (m_devices m); d = via_regs s dataDirectionA;
       pins = (v AND d) OR (via_portAInputs s AND NOT d);
       m' = mac_write8 (mac_devices out) 0xeffffe v m
   in (\<forall>x. fst (mac_read8 (mac_devices out) (x AND 0x3fffff) m') =
         (if pins AND 0x10 \<noteq> 0 then readRomByte (x AND 0x3fffff) (m\<lparr>m_overlayEnabled := True\<rparr>)
          else m_ram m ! unat ((x AND 0x3fffff) mod of_nat (length (m_ram m))))) \<and>
      m_soundVolume (m_devices m') = pins AND 7 \<and>
      m_iwm (m_devices m') = setSideSelect (host out) (pins AND 0x20 \<noteq> 0) (m_iwm (m_devices m))"
proof -
  have low: "x AND 0x3fffff < 0x400000" "(x AND 0x3fffff) AND 0xffffff = x AND 0x3fffff" for x :: u32
    using word_and_le1 [of x "0x3fffff"] by (auto simp: word_le_nat_alt word_less_nat_alt and.assoc)
  have a: "a AND 0x3fffff < 0xf00000" for a :: u32
    using low(1) [of a] by (simp add: word_less_nat_alt)
  show ?thesis
    by (simp add: Let_def port_a_write [OF refl refl] mac_read8_def regionFor_def bus_address_def low ramOffset_def
        readRomByte_def map_constants)
qed

subsection \<open>A machine for the examples\<close>

lemma new_macintosh_ok: "mac_ok (new_macintosh out w ramSize path model)"
  using new_macintosh_kept [of model ramSize out w path] by (simp add: mac_kept_def)

definition sample_outside :: "(string \<Rightarrow> u8 list option, u8 list) outside" where
  "sample_outside = \<lparr>host = map_host, peer = \<lparr>endpoint_reset = (\<lambda>e. ([], e)), endpoint_poll = (\<lambda>e. ([], e)),
     endpoint_receiveByte = (\<lambda>v e. ([], e @ [v]))\<rparr>, sha256 = (\<lambda>_. [])\<rparr>"

definition sample_system :: "(string \<Rightarrow> u8 list option, u8 list) system" where
  "sample_system = zero_machine (macplus_bus (mac_devices sample_outside))
     (new_macintosh sample_outside Map.empty 0x100000 [] MacintoshPlus)"

subsection \<open>The VIA while time passes\<close>

text \<open>The callback of port B changes one input pin of the chip, so what the chip promises under such callbacks holds.\<close>

interpretation mac_pins: via_pins "mac_callbacks out" for out :: "('h, 'e) outside"
  by unfold_locales (auto simp: mac_callbacks_def portB_callback_def via_setPortBInputBit_def split_beta Let_def)

lemma audio_via: "m_via (m_devices (advanceAudio n m)) = m_via (m_devices m)"
proof -
  obtain phase m1 where l: "audio_loop (m_audioCyclePhase (m_devices m) + word_of_int n * ucast soundSamples) m = (phase, m1)"
    by fastforce
  show ?thesis
    using arg_cong [OF audio_loop_frame(1) [OF l], of m_via] unfolding advanceAudio_def l
    by (simp add: on_chips_def Let_def)
qed

lemma time_via:
  "m_via (m_devices (pass_time out n m)) = fst (via_tick (mac_callbacks out) n (m_via (m_devices m), m))"
  by (simp add: pass_time_def audio_via do_via_def with_via_def on_chips_def split_beta)

lemma via_register_bus:
  "mac_read8 (mac_devices out) 0xefe9fe m =
     with_via (via_readRegister (mac_callbacks out) 4) (MacPlusBus.count (\<lambda>a. a\<lparr>viaReads := viaReads a + 1\<rparr>) m)"
  "mac_read8 (mac_devices out) 0xefebfe m =
     with_via (via_readRegister (mac_callbacks out) 5) (MacPlusBus.count (\<lambda>a. a\<lparr>viaReads := viaReads a + 1\<rparr>) m)"
  "mac_read8 (mac_devices out) 0xeff5fe m =
     with_via (via_readRegister (mac_callbacks out) 10) (MacPlusBus.count (\<lambda>a. a\<lparr>viaReads := viaReads a + 1\<rparr>) m)"
  "mac_write8 (mac_devices out) 0xeff5fe v m =
     do_via (via_writeRegister (mac_callbacks out) 10 v) (MacPlusBus.count (\<lambda>a. a\<lparr>viaWrites := viaWrites a + 1\<rparr>) m)"
  "mac_write8 (mac_devices out) 0xeff7fe v m =
     do_via (via_writeRegister (mac_callbacks out) 11 v) (MacPlusBus.count (\<lambda>a. a\<lparr>viaWrites := viaWrites a + 1\<rparr>) m)"
  by (simp_all add: byte_access map_constants split_beta)

lemma timer1_reads:
  assumes "via_timer1Running (m_via (m_devices m))"
  shows "fst (mac_read8 (mac_devices out) 0xefe9fe m) = via_regs (m_via (m_devices m)) 4"
    and "fst (mac_read8 (mac_devices out) 0xefebfe m) = via_regs (m_via (m_devices m)) 5"
  using assms
  by (simp_all add: via_register_bus with_via_def via_readRegister_def split_beta Let_def clear_flag_def set_via_reg_def)

lemma counter_bytes:
  "256 * unat (ucast (drop_bit 8 (word_of_int k :: u16)) :: u8) + unat (ucast (word_of_int k :: u16) :: u8) = nat (k mod 65536)"
proof -
  define w :: u16 where "w = word_of_int k"
  have "unat w div 256 < 256"
    using unsigned_less [of w, where ?'a = nat] by (intro less_mult_imp_div_less) simp
  then have "unat (ucast (drop_bit 8 w) :: u8) = unat w div 256" "unat (ucast w :: u8) = unat w mod 256"
    by (simp_all add: unsigned_ucast_eq take_bit_eq_mod drop_bit_eq_div unat_div)
  then have "256 * unat (ucast (drop_bit 8 w) :: u8) + unat (ucast w :: u8) = unat w" by simp
  also have "\<dots> = nat (k mod 65536)"
    by (simp add: w_def unsigned_of_int take_bit_eq_mod)
  finally show ?thesis by (simp add: w_def)
qed

text \<open>Timer 1 after portions of time: what the chip says of one of them, added up.\<close>

lemma timer1_portions:
  fixes m :: "('h, 'e) macintosh"
  assumes "via_timer1Running (m_via (m_devices m))" and "via_regs (m_via (m_devices m)) 11 AND 0x40 \<noteq> 0"
    and "R = timer1_reload (m_via (m_devices m))" and "0 < R" and "ns \<noteq> []" and "\<forall>n\<in>set ns. 0 < n"
    and "s = m_via (m_devices m)" and "s' = m_via (m_devices (fold (pass_time out) ns m))" and "n = sum_list ns"
  shows "via_timer1Running s' \<and> via_timer1Counter s' = timer_count R (via_timer1Counter s) n \<and>
    via_timer1Latch s' = via_timer1Latch s \<and> via_regs s' 11 = via_regs s 11 \<and>
    (bit (via_regs s' 13) 6 \<longleftrightarrow> bit (via_regs s 13) 6 \<or> via_timer1Counter s \<le> n) \<and>
    (via_timer1Pb7 s' \<longleftrightarrow> via_timer1Pb7 s \<noteq>
      (via_regs s 11 AND 0x80 \<noteq> 0 \<and> odd (expirations R (via_timer1Counter s) n))) \<and>
    via_regs s' 4 = ucast (word_of_int (timer_count R (via_timer1Counter s) n) :: u16) \<and>
    via_regs s' 5 = ucast (drop_bit 8 (word_of_int (timer_count R (via_timer1Counter s) n) :: u16))"
  using assms(5-9)
proof (induction ns arbitrary: s' n rule: rev_induct)
  case (snoc k ns)
  define m1 where "m1 = fold (pass_time out) ns m"
  define s1 where "s1 = m_via (m_devices m1)"
  have k: "0 < k" "s' = fst (via_tick (mac_callbacks out) k (s1, m1))" "n = sum_list ns + k"
    using snoc.prems by (simp_all add: time_via s1_def m1_def)
  show ?case
  proof (cases "ns = []")
    case True
    then have "s1 = s" using snoc.prems by (simp add: s1_def m1_def)
    then show ?thesis
      using mac_pins.pins_tick_timer1 [of "(s1, m1)" R k] assms(1-4) snoc.prems(3) k True by simp
  next
    case False
    have ih: "via_timer1Running s1 \<and> via_timer1Counter s1 = timer_count R (via_timer1Counter s) (sum_list ns) \<and>
      via_timer1Latch s1 = via_timer1Latch s \<and> via_regs s1 11 = via_regs s 11 \<and>
      (bit (via_regs s1 13) 6 \<longleftrightarrow> bit (via_regs s 13) 6 \<or> via_timer1Counter s \<le> sum_list ns) \<and>
      (via_timer1Pb7 s1 \<longleftrightarrow> via_timer1Pb7 s \<noteq>
        (via_regs s 11 AND 0x80 \<noteq> 0 \<and> odd (expirations R (via_timer1Counter s) (sum_list ns))))"
      using snoc.IH [of s1 "sum_list ns"] False snoc.prems by (simp add: s1_def m1_def)
    note p = timer_portions [OF assms(4) k(1), of "via_timer1Counter s" "sum_list ns"]
    have "odd (expirations R (via_timer1Counter s) n) \<longleftrightarrow> odd (expirations R (via_timer1Counter s) (sum_list ns)) \<noteq>
        odd (expirations R (timer_count R (via_timer1Counter s) (sum_list ns)) k)"
      using p(2) [symmetric] by (simp add: k(3))
    moreover have "via_timer1Counter s \<le> n \<longleftrightarrow>
        timer_count R (via_timer1Counter s) (sum_list ns) \<le> k \<or> via_timer1Counter s \<le> sum_list ns"
      using p(3) by (simp add: k(3))
    moreover have "timer_count R (via_timer1Counter s) n = timer_count R (timer_count R (via_timer1Counter s) (sum_list ns)) k"
      using p(1) by (simp add: k(3))
    moreover have "R = timer1_reload s1" "via_timer1Running s1" "via_regs s1 11 AND 0x40 \<noteq> 0"
      using ih assms(2,3) snoc.prems(3) by (simp_all add: timer1_reload_def)
    note t = mac_pins.pins_tick_timer1 [of "(s1, m1)" R k out, unfolded fst_conv, folded k(2), OF this(2,3,1) assms(4) k(1)]
    ultimately show ?thesis
      using t ih by (simp only:) blast
  qed
qed simp

text \<open>
  C35. Timer 1 of the Macintosh Plus' VIA, running in its free-running mode, while time passes in any positive
  portions that make up \<open>n\<close> cycles: reading its two counter registers over the bus gives the count of a period of the
  latch (a latch of 0 counts 65536) that stood at \<open>c\<close> \<open>n\<close> cycles ago, its interrupt flag is set if and only if it was
  or the count ran out, and when the timer drives PB7 the square wave there has changed as often as the count ran out.
\<close>

theorem timer1_periodic:
  assumes "mac_ok m" and "via_timer1Running (m_via (m_devices m))"
    and "via_regs (m_via (m_devices m)) auxiliaryControl AND 0x40 \<noteq> 0" and "ns \<noteq> []" and "\<forall>n\<in>set ns. 0 < n"
    and s: "s = m_via (m_devices m)" and m': "m' = fold (pass_time out) ns m" and s': "s' = m_via (m_devices m')"
    and c: "c = via_timer1Counter s" and n: "n = sum_list ns"
    and R: "R = (if via_timer1Latch s = 0 then 65536 else via_timer1Latch s)"
  shows "256 * unat (fst (mac_read8 (mac_devices out) 0xefebfe m')) + unat (fst (mac_read8 (mac_devices out) 0xefe9fe m')) =
      nat ((if n < c then c - n else (c - n - 1) mod R + 1) mod 65536)
    \<and> (bit (via_regs s' interruptFlag) 6 \<longleftrightarrow> bit (via_regs s interruptFlag) 6 \<or> c \<le> n)
    \<and> (via_regs s auxiliaryControl AND 0x80 \<noteq> 0 \<longrightarrow>
        (via_timer1Pb7 s' \<longleftrightarrow> via_timer1Pb7 s \<noteq> odd (if n < c then 0 else (n - c) div R + 1)))"
proof -
  have R': "R = timer1_reload s" "0 < R"
    using assms(1) by (auto simp: R timer1_reload_def mac_ok_def via_ok_def s)
  note p = timer1_portions [where out = out and m = m, folded s, OF _ _ R' assms(4,5) refl _ n, of s', folded m' c, OF _ _ s']
  have run: "via_timer1Running s" "via_regs s 11 AND 0x40 \<noteq> 0"
    using assms(2,3) by (simp_all add: s)
  note p = p [OF run]
  have "256 * unat (fst (mac_read8 (mac_devices out) 0xefebfe m')) + unat (fst (mac_read8 (mac_devices out) 0xefe9fe m')) =
      nat (timer_count R c n mod 65536)"
    using p by (simp add: timer1_reads s' [symmetric] counter_bytes)
  then show ?thesis
    using p by (simp add: timer_count_def expirations_def)
qed

definition sample_timer :: "(string \<Rightarrow> u8 list option, u8 list) macintosh" where
  "sample_timer = on_chips (\<lambda>c. c\<lparr>m_via := via_init\<lparr>via_regs := (via_regs via_init)(11 := 0xc0), via_timer1Latch := 200,
       via_timer1Counter := 100, via_timer1Running := True\<rparr>\<rparr>) (new_macintosh sample_outside Map.empty 0x100000 [] MacintoshPlus)"

lemma timer1_periodic_witness:
  "bit (via_regs (m_via (m_devices (fold (pass_time sample_outside) [300, 400] sample_timer))) interruptFlag) 6"
proof -
  have v: "m_via (m_devices sample_timer) = via_init\<lparr>via_regs := (via_regs via_init)(11 := 0xc0), via_timer1Latch := 200,
       via_timer1Counter := 100, via_timer1Running := True\<rparr>"
    by (simp add: sample_timer_def on_chips_def)
  have "mac_ok sample_timer"
    using new_macintosh_ok [of sample_outside Map.empty "0x100000" "[]" MacintoshPlus]
    unfolding mac_ok_def v by (simp add: sample_timer_def on_chips_def) (simp add: via_ok_def via_init_def)
  from timer1_periodic [OF this, where ns = "[300, 400]" and out = sample_outside, OF _ _ _ _ refl refl refl refl refl refl]
  show ?thesis
    by (simp add: v via_init_def)
qed

subsection \<open>The keyboard\<close>

text \<open>
  One inquiry as the driver makes it over the bus: the command is shifted out, the shift register turned to input, a
  first read starts the answer, and a second read takes it; \<open>a\<close> and \<open>b\<close> cycles pass meanwhile.
\<close>

definition keyboard_inquiry :: "('h, 'e) outside \<Rightarrow> int \<Rightarrow> int \<Rightarrow> ('h, 'e) macintosh \<Rightarrow> u8 \<times> ('h, 'e) macintosh" where
  "keyboard_inquiry out a b m =
    (let put = mac_write8 (mac_devices out); get = mac_read8 (mac_devices out);
         m = put 0xeff7fe 0x1c m; m = put 0xeff5fe 0x10 m; m = pass_time out a m;
         m = put 0xeff7fe 0x0c m; (_, m) = get 0xeff5fe m; m = pass_time out b m
     in get 0xeff5fe m)"

fun inquiries :: "('h, 'e) outside \<Rightarrow> (int \<times> int) list \<Rightarrow> ('h, 'e) macintosh \<Rightarrow> u8 list \<times> ('h, 'e) macintosh" where
  "inquiries out [] m = ([], m)"
| "inquiries out ((a, b) # pauses) m =
    (let (v, m) = keyboard_inquiry out a b m; (vs, m) = inquiries out pauses m in (v # vs, m))"

abbreviation keyboard_of :: "('h, 'e) macintosh \<Rightarrow> u8 list \<times> u8 \<times> bool \<times> bool \<times> int \<times> u8 \<times> u8" where
  "keyboard_of m \<equiv> keyboard_fields (m_via (m_devices m))"

lemma keyboard_accesses:
  assumes "keyboard_of m = (ts, c, pending, ready, n, acr, sr)"
  shows "keyboard_of (mac_write8 (mac_devices out) 0xeff7fe v m) = (ts, c, pending, ready, n, v, sr)"
    and "acr AND 0x1c = 0x1c \<Longrightarrow> keyboard_of (mac_write8 (mac_devices out) 0xeff5fe v m) = (ts, v, True, False, 80, acr, v)"
    and "fst (mac_read8 (mac_devices out) 0xeff5fe m) = sr"
    and "keyboard_of (snd (mac_read8 (mac_devices out) 0xeff5fe m)) =
      (if ready then (ts, c, False, False, n, acr, sr)
       else if pending \<and> acr AND 0x10 = 0 \<and> n = 0
       then (ts, c, pending, ready, if c = 0x10 \<and> ts = [] then 1958400 else 80, acr, sr)
       else (ts, c, pending, ready, n, acr, sr))"
    and "0 < n \<Longrightarrow> n \<le> k \<Longrightarrow> keyboard_of (pass_time out k m) =
      (if acr AND 0x10 = 0 \<and> pending
       then (if c = 0x16 then ts else tl ts, c, pending, True, 0, acr,
             if c = 0x16 then 0x03 else if ts = [] then 0x7b else hd ts)
       else (ts, c, pending, ready, 0, acr, sr))"
proof -
  have none: "shiftRegisterWrite (mac_callbacks out) = None" "shiftRegisterRead (mac_callbacks out) = None"
    by (simp_all add: mac_callbacks_def)
  have k: "keyboard_fields (fst (m_via (m_devices m), x)) = (ts, c, pending, ready, n, acr, sr)" for x :: "('a, 'b) macintosh"
    using assms by simp
  note w = write_keyboard [OF none(1) k] and r = read_keyboard [OF none(2) k]
  show "keyboard_of (mac_write8 (mac_devices out) 0xeff7fe v m) = (ts, c, pending, ready, n, v, sr)"
    "acr AND 0x1c = 0x1c \<Longrightarrow> keyboard_of (mac_write8 (mac_devices out) 0xeff5fe v m) = (ts, v, True, False, 80, acr, v)"
    using w by (simp_all add: via_register_bus do_via_def with_via_def split_beta on_chips_def)
  show "fst (mac_read8 (mac_devices out) 0xeff5fe m) = sr"
    using r(1) by (simp add: via_register_bus with_via_def split_beta)
  show "keyboard_of (snd (mac_read8 (mac_devices out) 0xeff5fe m)) =
      (if ready then (ts, c, False, False, n, acr, sr)
       else if pending \<and> acr AND 0x10 = 0 \<and> n = 0
       then (ts, c, pending, ready, if c = 0x10 \<and> ts = [] then 1958400 else 80, acr, sr)
       else (ts, c, pending, ready, n, acr, sr))"
    using r(2) by (simp add: via_register_bus with_via_def split_beta on_chips_def)
  show "0 < n \<Longrightarrow> n \<le> k \<Longrightarrow> keyboard_of (pass_time out k m) =
      (if acr AND 0x10 = 0 \<and> pending
       then (if c = 0x16 then ts else tl ts, c, pending, True, 0, acr,
             if c = 0x16 then 0x03 else if ts = [] then 0x7b else hd ts)
       else (ts, c, pending, ready, 0, acr, sr))"
    unfolding time_via by (rule mac_pins.pins_tick_keyboard [OF k])
qed

lemma inquiry_answer:
  assumes "80 \<le> a" and "80 \<le> b" and q: "via_keyboardTransitions (m_via (m_devices m)) = t # ts"
  shows "fst (keyboard_inquiry out a b m) = t \<and>
    via_keyboardTransitions (m_via (m_devices (snd (keyboard_inquiry out a b m)))) = ts"
proof -
  let ?put = "mac_write8 (mac_devices out)" and ?get = "mac_read8 (mac_devices out)"
  obtain c pending ready n acr sr where 0: "keyboard_of m = (t # ts, c, pending, ready, n, acr, sr)"
    using q by (simp add: keyboard_fields_def)
  define m1 where "m1 = ?put 0xeff7fe 0x1c m"
  define m2 where "m2 = ?put 0xeff5fe 0x10 m1"
  define m3 where "m3 = pass_time out a m2"
  define m4 where "m4 = ?put 0xeff7fe 0x0c m3"
  define m5 where "m5 = snd (?get 0xeff5fe m4)"
  define m6 where "m6 = pass_time out b m5"
  have "keyboard_of m1 = (t # ts, c, pending, ready, n, 0x1c, sr)"
    unfolding m1_def by (rule keyboard_accesses(1) [OF 0])
  from keyboard_accesses(2) [OF this, of out "0x10"] have "keyboard_of m2 = (t # ts, 0x10, True, False, 80, 0x1c, 0x10)"
    by (simp add: m2_def)
  from keyboard_accesses(5) [OF this, of a out] assms(1) have "keyboard_of m3 = (t # ts, 0x10, True, False, 0, 0x1c, 0x10)"
    by (simp add: m3_def)
  from keyboard_accesses(1) [OF this, of out "0x0c"] have "keyboard_of m4 = (t # ts, 0x10, True, False, 0, 0x0c, 0x10)"
    by (simp add: m4_def)
  from keyboard_accesses(4) [OF this, of out] have "keyboard_of m5 = (t # ts, 0x10, True, False, 80, 0x0c, 0x10)"
    by (simp add: m5_def)
  from keyboard_accesses(5) [OF this, of b out] assms(2) have 6: "keyboard_of m6 = (ts, 0x10, True, True, 0, 0x0c, t)"
    by (simp add: m6_def)
  have "keyboard_inquiry out a b m = ?get 0xeff5fe m6"
    by (simp add: keyboard_inquiry_def Let_def m1_def m2_def m3_def m4_def m5_def m6_def split: prod.split)
  then show ?thesis
    using keyboard_accesses(3,4) [OF 6, of out] by (simp add: keyboard_fields_def)
qed

lemma waiting_transitions:
  assumes "length pauses = length ts" and "\<forall>(a, b)\<in>set pauses. 80 \<le> a \<and> 80 \<le> b"
    and "via_keyboardTransitions (m_via (m_devices m)) = ts @ us"
  shows "fst (inquiries out pauses m) = ts \<and> via_keyboardTransitions (m_via (m_devices (snd (inquiries out pauses m)))) = us"
  using assms
proof (induction pauses ts arbitrary: m rule: list_induct2)
  case (Cons x pauses t ts)
  obtain a b where x: "x = (a, b)" by fastforce
  obtain v q where q: "keyboard_inquiry out a b m = (v, q)"
    by (cases "keyboard_inquiry out a b m")
  then have "v = t" "via_keyboardTransitions (m_via (m_devices q)) = ts @ us"
    using inquiry_answer [of a b m t "ts @ us" out] Cons.prems x by simp_all
  then show ?case
    using Cons.IH [of q] Cons.prems q x by (simp split: prod.split) (metis fst_conv snd_conv)
qed simp

text \<open>
  C36. The keyboard of the Macintosh Plus over the bus.  Keys pressed and released on the host while no transition waits
  become one byte each, the key code shifted left with bit 7 set for a release; as many inquiries of the driver, with at
  least 80 cycles for each byte on the wire, return exactly these bytes in the order of the keys, each once, and leave none.
\<close>

theorem keyboard_in_order:
  assumes "via_keyboardTransitions (m_via (m_devices m)) = []" and "length pauses = length keys"
    and "\<forall>(a, b)\<in>set pauses. 80 \<le> a \<and> 80 \<le> b"
    and "m' = fold (\<lambda>(code, pressed). setKeyState code pressed) keys m"
  shows "fst (inquiries out pauses m') =
      map (\<lambda>(code, pressed). push_bit 1 (code AND 0x3f) OR (if pressed then 0 else 0x80)) keys \<and>
    via_keyboardTransitions (m_via (m_devices (snd (inquiries out pauses m')))) = []"
proof (rule waiting_transitions)
  have sent: "(code AND 0x3f) * 2 = code * 2 AND 0x7e" for code :: u8
  proof -
    have "(code AND 0x3f) * 2 = push_bit 1 (code AND 0x3f)"
      by (simp only: push_bit_eq_mult power_one_right mult.commute)
    then show ?thesis by simp
  qed
  have "via_keyboardTransitions (m_via (m_devices (fold (\<lambda>(code, pressed). setKeyState code pressed) keys m))) =
      via_keyboardTransitions (m_via (m_devices m)) @
      map (\<lambda>(code, pressed). push_bit 1 (code AND 0x3f) OR (if pressed then 0 else 0x80)) keys"
    by (induction keys arbitrary: m)
      (auto simp: setKeyState_def on_chips_def via_queueKeyboardTransition_def Let_def sent)
  then show "via_keyboardTransitions (m_via (m_devices m')) =
      map (\<lambda>(code, pressed). push_bit 1 (code AND 0x3f) OR (if pressed then 0 else 0x80)) keys @ []"
    using assms(1,4) by simp
qed (use assms(2,3) in simp_all)

lemma new_macintosh_keyboard:
  "via_keyboardTransitions (m_via (m_devices (new_macintosh out w ramSize path model))) = []"
  by (simp add: new_macintosh_def new_chips_def do_via_def with_via_def notifyPortB_register_def mac_callbacks_def
      portB_callback_def on_chips_def via_setPortBInputBit_def via_init_def split_beta Let_def)

lemma keyboard_in_order_witness:
  "fst (inquiries sample_outside [(80, 80), (100, 90)] (setKeyState 1 False (setKeyState 1 True
     (new_macintosh sample_outside Map.empty 0x100000 [] MacintoshPlus)))) = [0x02, 0x82]"
proof -
  have "via_keyboardTransitions (m_via (m_devices
      (new_macintosh sample_outside Map.empty 0x100000 [] MacintoshPlus :: (string \<Rightarrow> u8 list option, u8 list) macintosh))) = []"
    by (rule new_macintosh_keyboard)
  from keyboard_in_order [OF this, where keys = "[(1, True), (1, False)]" and pauses = "[(80, 80), (100, 90)]"
      and out = sample_outside, OF _ _ refl]
  show ?thesis by simp
qed

subsection \<open>The time of an instruction\<close>

lemma irq_bus: "bus_state (m68k_set_irq level s) = bus_state s"
  by (simp add: m68k_set_irq_def Let_def)

interpretation mac_clock: via_host "mac_callbacks out" "\<lambda>m. m_scheduler (m_devices m) = z"
  for out :: "('h, 'e) outside" and z
  by unfold_locales (auto simp: mac_callbacks_def callbacks_via portA_callback_def portB_callback_def on_chips_def
      setOverlayEnabled_def split_beta Let_def)

lemma audio_scheduler: "m_scheduler (m_devices (advanceAudio n m)) = m_scheduler (m_devices m)"
proof -
  obtain phase m1 where l: "audio_loop (m_audioCyclePhase (m_devices m) + word_of_int n * ucast soundSamples) m = (phase, m1)"
    by fastforce
  show ?thesis
    using arg_cong [OF audio_loop_frame(1) [OF l], of m_scheduler] unfolding advanceAudio_def l
    by (simp add: on_chips_def Let_def)
qed

lemma time_scheduler: "m_scheduler (m_devices (pass_time out n m)) = m_scheduler (m_devices m)"
  using mac_clock.host_tick [where z = "m_scheduler (m_devices m)" and p = "(m_via (m_devices m), m)" and out = out and n = n]
  by (simp add: pass_time_def do_via_def with_via_def split_beta on_chips_def audio_scheduler)

lemma advance_clock:
  assumes "mac_ok m"
  shows "\<exists>m'. mac_dispatch (advance run_input n) m = Some m' \<and>
    sch_now (m_scheduler (m_devices m')) = sch_now (m_scheduler (m_devices m)) + n \<and>
    (\<forall>e\<in>set (sch_events (m_scheduler (m_devices m'))). sch_now (m_scheduler (m_devices m')) < ev_cycle e)"
proof -
  let ?s = "(m_scheduler (m_devices m))\<lparr>sch_now := sch_now (m_scheduler (m_devices m)) + n\<rparr>"
  have "in_order (sch_events (m_scheduler (m_devices m)))"
    using assms by (simp add: mac_ok_def chips_ok_def host_ok_def)
  from in_order_sorted [OF this] show ?thesis
    using dispatch_due [of run_input applyInput ?s m]
    by (simp add: mac_dispatch_def advance_def run_input_def on_chips_def)
qed

text \<open>The bytes of sound after some time.\<close>

lemma audio_length:
  "length (m_pendingAudio (m_devices (advanceAudio n m))) =
     min 11127 (length (m_pendingAudio (m_devices m)) +
       2 * (unat (m_audioCyclePhase (m_devices m) + word_of_int n * 370) div 130560))"
proof -
  obtain phase m1 where l: "audio_loop (m_audioCyclePhase (m_devices m) + word_of_int n * ucast soundSamples) m = (phase, m1)"
    by fastforce
  show ?thesis
    using audio_loop_frame(4) [OF l] unfolding advanceAudio_def l
    by (simp add: on_chips_def Let_def maxPendingAudioBytes_def soundSamples_def)
qed

interpretation mac_sound: via_host "mac_callbacks out"
  "\<lambda>m. m_pendingAudio (m_devices m) = z \<and> m_audioCyclePhase (m_devices m) = y" for out :: "('h, 'e) outside" and z y
  by unfold_locales (auto simp: mac_callbacks_def callbacks_via portA_callback_def portB_callback_def on_chips_def
      setOverlayEnabled_def split_beta Let_def)

lemma time_sound:
  "length (m_pendingAudio (m_devices (pass_time out n m))) =
     min 11127 (length (m_pendingAudio (m_devices m)) +
       2 * (unat (m_audioCyclePhase (m_devices m) + word_of_int n * 370) div 130560))"
  using mac_sound.host_tick [where z = "m_pendingAudio (m_devices m)" and y = "m_audioCyclePhase (m_devices m)"
      and p = "(m_via (m_devices m), m)" and out = out and n = n]
  by (simp add: pass_time_def audio_length do_via_def with_via_def split_beta on_chips_def)

text \<open>The vertical blanking interrupt: its counter and its flag after some time.\<close>

definition vbl_fields :: "via \<Rightarrow> int \<times> int \<times> bool" where
  "vbl_fields s = (via_automaticCa1Period s, via_vblCycles s, bit (via_regs s 13) 1)"

lemma vbl_other_parts:
  "vbl_fields (tick_shift n s) = vbl_fields s" "vbl_fields (tick_timer2 n s) = vbl_fields s"
  "vbl_fields (fst (tick_timer1 (mac_callbacks out) n p)) = vbl_fields (fst p)"
proof -
  have regs: "via_automaticCa1Period (set_via_reg i v t) = via_automaticCa1Period t" "via_vblCycles (set_via_reg i v t) = via_vblCycles t"
    "via_automaticCa1Period (raise_flag b t) = via_automaticCa1Period t" "via_vblCycles (raise_flag b t) = via_vblCycles t" for i v b t
    by (simp_all add: set_via_reg_def raise_flag_def)
  have pins: "vbl_fields (fst (notifyPortB_pins (mac_callbacks out) q)) = vbl_fields (fst q)" for q :: "via \<times> ('a, 'b) macintosh"
    using mac_pins.pins_notify [of out q] by (auto simp: vbl_fields_def)
  then have parts: "via_automaticCa1Period (fst (notifyPortB_pins (mac_callbacks out) q)) = via_automaticCa1Period (fst q)"
    "via_vblCycles (fst (notifyPortB_pins (mac_callbacks out) q)) = via_vblCycles (fst q)" for q :: "via \<times> ('a, 'b) macintosh"
    by (simp_all add: vbl_fields_def)
  show "vbl_fields (tick_shift n s) = vbl_fields s" "vbl_fields (tick_timer2 n s) = vbl_fields s"
    "vbl_fields (fst (tick_timer1 (mac_callbacks out) n p)) = vbl_fields (fst p)"
    by (auto simp: vbl_fields_def tick_shift_def keyboard_response_def tick_timer2_def tick_timer1_def expire_timer1_def
        show_timer1_def Let_def regs parts bit_simps split: list.split prod.split)
qed

lemma time_vbl:
  assumes "0 < n" and "0 < period" and "vbl_fields (m_via (m_devices m)) = (period, c, flag)"
  shows "vbl_fields (m_via (m_devices (pass_time out n m))) = (period, timer_count period c n, flag \<or> c \<le> n)"
proof -
  have "vbl_fields (tick_vbl n (m_via (m_devices m))) = (period, timer_count period c n, flag \<or> c \<le> n)"
  proof (cases "c \<le> n")
    case True
    then have "0 \<le> (n - c) div period"
      using assms(2) by (simp add: pos_imp_zdiv_nonneg_iff)
    with True assms reload_rounds_value [of period "c - n" 0] show ?thesis
      by (auto simp: vbl_fields_def tick_vbl_def timer_count_def raise_flag_def set_via_reg_def bit_simps Let_def)
  next
    case False
    with assms show ?thesis
      by (auto simp: vbl_fields_def tick_vbl_def timer_count_def reload_rounds.simps [of period "c - n"] Let_def)
  qed
  then show ?thesis
    using assms(1) by (simp add: time_via via_tick_def vbl_other_parts)
qed

text \<open>Input events leave the timers, their flags and the sound alone.\<close>

definition clockwork :: "('h, 'e) macintosh \<Rightarrow> u8 list \<times> (int \<times> int \<times> bool) \<times> bool \<times> int \<times> int \<times> bool \<times> (nat \<Rightarrow> u8)" where
  "clockwork m = (let v = m_via (m_devices m) in (m_pendingAudio (m_devices m), vbl_fields v,
     via_timer1Running v, via_timer1Counter v, via_timer1Latch v, via_timer1Pb7 v, via_regs v))"

lemma input_clockwork: "clockwork (applyInput e m) = clockwork m"
proof -
  have "m_devices (fold (\<lambda>i. writeRam8Direct (lowMemoryKeyMap + of_nat i) 0) xs m) = m_devices m" for xs
    by (induction xs arbitrary: m) simp_all
  then show ?thesis
    by (auto simp: applyInput_def clockwork_def setMousePosition_def moveMouse_def setMouseButton_def setKeyState_def
        resetKeyboard_def on_chips_def via_setPortBInputBit_def via_queueKeyboardTransition_def vbl_fields_def Let_def
        split: GuestInputType.split)
qed

lemma dispatch_clockwork:
  assumes "mac_ok m" and "mac_dispatch (advance run_input n) m = Some m'"
  shows "clockwork m' = clockwork m"
proof -
  let ?s = "(m_scheduler (m_devices m))\<lparr>sch_now := sch_now (m_scheduler (m_devices m)) + n\<rparr>"
  have inputs: "clockwork (fold applyInput es m) = clockwork m" for es
    by (induction es rule: rev_induct) (simp_all add: input_clockwork)
  have "in_order (sch_events (m_scheduler (m_devices m)))"
    using assms(1) by (simp add: mac_ok_def chips_ok_def host_ok_def)
  then have "sorted (map ev_cycle (sch_events ?s))"
    using in_order_sorted by simp
  from dispatch_due [of run_input applyInput ?s m, OF _ this]
  obtain s es where "dispatchDue run_input (?s, m) = Some (s, fold applyInput es m)"
    by (simp add: run_input_def)
  then have "m' = on_chips (\<lambda>c. c\<lparr>m_scheduler := s\<rparr>) (fold applyInput es m)"
    using assms(2) by (simp add: mac_dispatch_def advance_def)
  then show ?thesis
    using inputs by (simp add: clockwork_def on_chips_def)
qed

lemma time_timer1:
  assumes "0 < n" and "v = m_via (m_devices m)" and "v' = m_via (m_devices (pass_time out n m))"
    and "via_timer1Running v" and "via_regs v 11 AND 0x40 \<noteq> 0" and "R = timer1_reload v" and "0 < R"
  shows "via_timer1Running v' \<and> via_timer1Counter v' = timer_count R (via_timer1Counter v) n \<and>
    (bit (via_regs v' 13) 6 \<longleftrightarrow> bit (via_regs v 13) 6 \<or> via_timer1Counter v \<le> n)"
  using timer1_portions [of m R "[n]" v v' out n] assms by simp

text \<open>
  C14. After the instruction that took \<open>cycles\<close> the machine always goes on, and \<open>n\<close> cycles, those of the instruction but
  one at least, have passed: the clock has advanced by them and no input that is due is left over; the
  number of sound bytes that wait is that of the samples of \<open>n\<close> more cycles, cut to 11127; the vertical blanking interrupt of the VIA has come exactly when
  its counter was not above \<open>n\<close>, and so has that of timer 1 in its free-running mode, and both counters have moved on
  by \<open>n\<close> modulo their periods; the processor sees level 1 exactly when the VIA asks for an interrupt, a level 7 interrupt
  that was latched stays latched; and the invariant of the machine holds again.
\<close>

theorem time_of_instruction:
  assumes "mac_ok (bus_state s)" and n: "n = max 1 (sint cycles)" and v: "v = m_via (m_devices (bus_state s))"
  shows "\<exists>s' m'. finish_step out cycles s = Some (Ret cycles s') \<and> m' = bus_state s' \<and> mac_ok m' \<and>
      shape m' = shape (bus_state s) \<and>
      mac_cycleCount s' = mac_cycleCount s + word_of_int n \<and>
      (\<forall>e\<in>set (sch_events (m_scheduler (m_devices m'))). mac_cycleCount s' < ev_cycle e) \<and>
      length (m_pendingAudio (m_devices m')) = min 11127 (length (m_pendingAudio (m_devices (bus_state s))) +
        2 * (unat (m_audioCyclePhase (m_devices (bus_state s)) + word_of_int n * 370) div 130560)) \<and>
      (let v' = m_via (m_devices m'); count = (\<lambda>R c. if n < c then c - n else (c - n - 1) mod R + 1)
       in (0 < via_automaticCa1Period v \<longrightarrow> via_vblCycles v' = count (via_automaticCa1Period v) (via_vblCycles v) \<and>
             (bit (via_regs v' interruptFlag) 1 \<longleftrightarrow> bit (via_regs v interruptFlag) 1 \<or> via_vblCycles v \<le> n)) \<and>
          (via_timer1Running v \<and> via_regs v auxiliaryControl AND 0x40 \<noteq> 0 \<longrightarrow>
             via_timer1Counter v' = count (if via_timer1Latch v = 0 then 65536 else via_timer1Latch v) (via_timer1Counter v) \<and>
             (bit (via_regs v' interruptFlag) 6 \<longleftrightarrow> bit (via_regs v interruptFlag) 6 \<or> via_timer1Counter v \<le> n)) \<and>
          int_level s' = (if via_interruptActive v' then 0x100 else 0)) \<and>
      nmi_pending s' = nmi_pending s"
proof -
  define m1 where "m1 = pass_time out n (bus_state s)"
  define R where "R = timer1_reload v"
  have n0: "0 < n" by (simp add: n)
  have R: "R = (if via_timer1Latch v = 0 then 65536 else via_timer1Latch v)" "0 < R"
    using assms(1) by (auto simp: R_def timer1_reload_def v mac_ok_def via_ok_def)
  have k: "mac_kept (shape (bus_state s)) m1"
    using assms(1) by (simp add: m1_def mac_keeps mac_kept_def [of "shape (bus_state s)" "bus_state s"])
  obtain m' where m': "mac_dispatch (advance run_input (word_of_int n)) m1 = Some m'" "mac_kept (shape (bus_state s)) m'"
    using dispatch_kept(2) [OF k] by blast
  have ok: "mac_ok m1" using k by (simp add: mac_kept_def)
  have c: "sch_now (m_scheduler (m_devices m')) = sch_now (m_scheduler (m_devices (bus_state s))) + word_of_int n"
    "\<forall>e\<in>set (sch_events (m_scheduler (m_devices m'))). sch_now (m_scheduler (m_devices m')) < ev_cycle e"
    using advance_clock [OF ok, of "word_of_int n"] m'(1) by (auto simp: time_scheduler m1_def)
  have parts: "clockwork m' = clockwork m1"
    using dispatch_clockwork [OF ok m'(1)] .
  have vbl: "0 < via_automaticCa1Period v \<Longrightarrow> vbl_fields (m_via (m_devices m1)) =
      (via_automaticCa1Period v, timer_count (via_automaticCa1Period v) (via_vblCycles v) n, bit (via_regs v 13) 1 \<or> via_vblCycles v \<le> n)"
    unfolding m1_def by (rule time_vbl [OF n0]) (simp_all add: vbl_fields_def v)
  note t1 = time_timer1 [OF n0 v refl [of "m_via (m_devices m1)", unfolded m1_def] _ _ R_def R(2), folded m1_def]
  define s' where "s' = updateInterrupts (s\<lparr>bus_state := m'\<rparr>)"
  have f: "finish_step out cycles s = Some (Ret cycles s')" "bus_state s' = m'"
    using m'(1) by (simp_all add: finish_step_def n [symmetric] m1_def s'_def updateInterrupts_def setIrqLevel_def irq_bus Let_def)
  show ?thesis
    using m' c vbl t1 parts time_sound [of out n "bus_state s"] f
    by (intro exI [of _ s'] exI [of _ m'])
      (simp add: s'_def clockwork_def vbl_fields_def timer_count_def R mac_kept_def updateInterrupts_def setIrqLevel_def
        set_irq_fields mac_cycleCount_def irq_bus m1_def Let_def)
qed

lemma time_of_instruction_witness:
  "\<exists>s'. finish_step sample_outside 12 sample_system = Some (Ret 12 s') \<and> mac_cycleCount s' = mac_cycleCount sample_system + 12"
proof -
  have "mac_ok (bus_state sample_system)"
    by (simp add: sample_system_def zero_machine_def new_macintosh_ok)
  from time_of_instruction [OF this refl refl, of sample_outside 12] show ?thesis
    by auto
qed

subsection \<open>Sound\<close>

text \<open>
  C20. The bytes that wait for the host's sound: as many as two for each sample, cut to a quarter of a second,
  which is an odd number of bytes, 11127.
\<close>

theorem pending_sound:
  "length (m_pendingAudio (m_devices (advanceAudio n m))) =
     min 11127 (length (m_pendingAudio (m_devices m)) +
       2 * (unat (m_audioCyclePhase (m_devices m) + word_of_int n * 370) div 130560))"
  by (rule audio_length)

end
