(* ===== verification/NcrLaws.thy ===== *)
theory NcrLaws
  imports Ncr5380 ScsiDiskLaws
begin

section \<open>A command over the SCSI bus\<close>

text \<open>
  An initiator drives the registers of the controller: it selects a target, sends the command with the
  handshake of the initiator command register, moves the data with pseudo DMA while the controller asks
  for them, and takes status and message.  The theorem is that all of it amounts to the execution of the
  command by the target.
\<close>

subsection \<open>The initiator\<close>

definition ncr_write :: "'t ScsiTarget \<Rightarrow> u8 \<Rightarrow> u8 \<Rightarrow> 't ncr \<Rightarrow> 't ncr" where
  "ncr_write target r v s = ncr_writeRegister target r False v s"

definition select_bus :: "'t ScsiTarget \<Rightarrow> nat \<Rightarrow> 't ncr \<Rightarrow> 't ncr" where
  "select_bus target i s =
     ncr_write target 1 0 (ncr_write target 1 0x05 (ncr_write target 0 (0x80 OR push_bit i 1) s))"

definition send_byte :: "'t ScsiTarget \<Rightarrow> u8 \<Rightarrow> 't ncr \<Rightarrow> 't ncr" where
  "send_byte target b s = ncr_write target 1 0x01 (ncr_write target 1 0x11 (ncr_write target 0 b s))"

text \<open>Data while the controller requests them, at most \<open>n\<close> bytes.\<close>

fun dma_in :: "nat \<Rightarrow> 't ncr \<Rightarrow> u8 list \<times> 't ncr" where
  "dma_in 0 s = ([], s)"
| "dma_in (Suc n) s =
    (let (status, s) = ncr_readRegister 5 False s
     in if status AND 0x40 = 0 then ([], s)
        else let (b, s) = ncr_readRegister 0 True s; (bs, s) = dma_in n s in (b # bs, s))"

fun dma_out :: "'t ScsiTarget \<Rightarrow> u8 list \<Rightarrow> 't ncr \<Rightarrow> 't ncr" where
  "dma_out target [] s = s"
| "dma_out target (b # bs) s =
    (let (status, s) = ncr_readRegister 5 False s
     in if status AND 0x40 = 0 then s else dma_out target bs (ncr_writeRegister target 0 True b s))"

text \<open>A byte of the status and message phases.\<close>

definition take_byte :: "'t ScsiTarget \<Rightarrow> 't ncr \<Rightarrow> u8 \<times> 't ncr" where
  "take_byte target s =
    (let (b, s) = ncr_readRegister 0 False s in (b, ncr_write target 1 0 (ncr_write target 1 0x10 s)))"

definition transaction ::
    "'t ScsiTarget \<Rightarrow> nat \<Rightarrow> u8 list \<Rightarrow> u8 list \<Rightarrow> nat \<Rightarrow> 't ncr \<Rightarrow> (u8 list \<times> u8 \<times> u8) \<times> 't ncr" where
  "transaction target i cdb out n s =
    (let s = fold (send_byte target) cdb (select_bus target i s);
         s = ncr_write target 2 0x02 (ncr_write target 1 0 s);
         (data, s) = (if out = [] then dma_in n s else ([], dma_out target out s));
         s = ncr_write target 2 0 s;
         (status, s) = take_byte target s;
         (message, s) = take_byte target s
     in ((data, status, message), s))"

subsection \<open>Selection\<close>

definition bus_idle :: "'t ncr \<Rightarrow> bool" where
  "bus_idle s \<longleftrightarrow> ncr_phase s = BusFree \<and> \<not> ncr_selected s \<and> \<not> ncr_previousAck s \<and>
     ncr_command s = [] \<and> \<not> ncr_dataOutCompletionPending s \<and> \<not> ncr_commandReady s"

text \<open>In the command phase, with the bytes sent so far.\<close>

definition in_command :: "nat \<Rightarrow> nat \<Rightarrow> u8 list \<Rightarrow> 't ncr \<Rightarrow> bool" where
  "in_command object i cdb s \<longleftrightarrow> ncr_phase s = Command \<and> ncr_selected s \<and> \<not> ncr_previousAck s \<and>
     ncr_command s = cdb \<and> ncr_activeTarget s = Some object \<and> ncr_activeTargetId s = of_nat i \<and>
     \<not> ncr_dataOutCompletionPending s \<and> \<not> ncr_commandReady s \<and> ncr_registers s 1 AND 0x04 = 0"

lemma filter_single: "filter (\<lambda>j. j = i \<and> P j) [0..<n] = (if i < n \<and> P i then [i] else [])"
  by (induction n) auto

lemma select_filter:
  assumes "i < 7"
  shows "filter (\<lambda>j. (0x80 OR push_bit i 1 :: u8) AND push_bit j 1 \<noteq> 0 \<and> P j) [0..<7] = (if P i then [i] else [])"
proof -
  have "(0x80 OR push_bit i 1 :: u8) AND push_bit j 1 \<noteq> 0 \<longleftrightarrow> j = i" if "j < 7" for j
    using that assms unfolding word8_eq by (auto simp: bit_simps)
  then have "filter (\<lambda>j. (0x80 OR push_bit i 1 :: u8) AND push_bit j 1 \<noteq> 0 \<and> P j) [0..<7] =
      filter (\<lambda>j. j = i \<and> P j) [0..<7]"
    by (intro filter_cong) auto
  then show ?thesis using assms by (simp only: filter_single simp_thms)
qed

lemma select_bus:
  assumes "bus_idle s" and "i < 7" and "hasTarget target (of_nat i) s"
    and "ncr_targets s (of_nat i) = Some object"
  shows "in_command object i [] (select_bus target i s)"
    and "ncr_objects (select_bus target i s) = ncr_objects s"
    and "ncr_targets (select_bus target i s) = ncr_targets s"
    and "ncr_status (select_bus target i s) = ncr_status s"
proof -
  define s1 where "s1 = s\<lparr>ncr_outputData := 0x80 OR push_bit i 1,
      ncr_registers := (ncr_registers s)(0 := 0x80 OR push_bit i 1, 1 := 5)\<rparr>"
  define s2 where "s2 = s1\<lparr>ncr_activeTarget := Some object, ncr_activeTargetId := of_nat i, ncr_selected := True,
      ncr_previousAck := False\<rparr>"
  have "hasTarget target j s1 = hasTarget target j s" for j
    by (auto simp: hasTarget_def s1_def split: option.split)
  then have "select_target target s1 = s2\<lparr>ncr_previousAck := ncr_previousAck s1\<rparr>"
    using assms select_filter [OF assms(2), where P = "\<lambda>j. hasTarget target (of_nat j) s"]
    by (simp add: select_target_def s2_def) (simp add: s1_def)
  then have "ncr_write target 1 0x05 (ncr_write target 0 (0x80 OR push_bit i 1) s) = s2"
    using assms(1)
    by (simp add: ncr_write_def ncr_writeRegister_def write_initiatorCommand_def bus_idle_def s2_def s1_def Let_def)
  moreover have "ncr_registers s2 1 = 5" "ncr_selected s2" "\<not> ncr_previousAck s2" "ncr_phase s2 = BusFree"
    using assms(1) by (simp_all add: s2_def s1_def bus_idle_def)
  ultimately have *: "select_bus target i s =
      setPhase Command True (s2\<lparr>ncr_registers := (ncr_registers s2)(1 := 0)\<rparr>)\<lparr>ncr_previousAck := False\<rparr>"
    by (simp add: select_bus_def ncr_write_def [of _ 1 0] ncr_writeRegister_def write_initiatorCommand_def Let_def
      setPhase_def)
  show "in_command object i [] (select_bus target i s)" 
    unfolding * using assms(1) by (simp add: setPhase_def in_command_def s2_def s1_def bus_idle_def)
  show "ncr_objects (select_bus target i s) = ncr_objects s" "ncr_targets (select_bus target i s) = ncr_targets s"
    "ncr_status (select_bus target i s) = ncr_status s"
    unfolding * by (simp_all add: setPhase_def s2_def s1_def)
qed

subsection \<open>The command phase\<close>

lemma send_byte:
  assumes "in_command object i cdb s"
  shows "send_byte target b s =
    (let s' = s\<lparr>ncr_outputData := b, ncr_command := cdb @ [b], ncr_request := False, ncr_previousAck := True,
        ncr_registers := (ncr_registers s)(0 := b, 1 := 0x01), ncr_commandReady := False\<rparr>
     in (if expectedCommandLength ((cdb @ [b]) ! 0) \<le> length cdb + 1
         then ncr_executeCommand target s' else s'\<lparr>ncr_request := True\<rparr>)\<lparr>ncr_previousAck := False\<rparr>)"
proof -
  have "ncr_commandReady (s\<lparr>ncr_outputData := b\<rparr>) = False" using assms by (simp add: in_command_def)
  then show ?thesis using assms
    by (simp add: send_byte_def ncr_write_def ncr_writeRegister_def write_initiatorCommand_def ack_raised_def
      acceptCommandByte_def ack_lowered_def in_command_def Let_def)
qed

lemma send_byte_early:
  assumes "in_command object i cdb s" and "length cdb + 1 < expectedCommandLength ((cdb @ [b]) ! 0)"
  shows "in_command object i (cdb @ [b]) (send_byte target b s)"
    and "ncr_objects (send_byte target b s) = ncr_objects s"
    and "ncr_targets (send_byte target b s) = ncr_targets s"
  using assms by (simp_all add: send_byte [OF assms(1)] in_command_def Let_def)

lemma send_bytes_early:
  assumes "in_command object i cdb s"
    and "length cdb + length bs < expectedCommandLength ((cdb @ bs) ! 0)"
  shows "in_command object i (cdb @ bs) (fold (send_byte target) bs s) \<and>
    ncr_objects (fold (send_byte target) bs s) = ncr_objects s \<and>
    ncr_targets (fold (send_byte target) bs s) = ncr_targets s"
  using assms
proof (induction bs arbitrary: cdb s)
  case (Cons b bs)
  have "(cdb @ [b]) ! 0 = (cdb @ b # bs) ! 0" by (cases cdb) simp_all
  then have "length cdb + 1 < expectedCommandLength ((cdb @ [b]) ! 0)" using Cons.prems(2) by simp
  note step = send_byte_early [OF Cons.prems(1) this]
  show ?case using Cons.IH [OF step(1)] Cons.prems(2) step(2,3) by simp
qed simp

text \<open>The whole command: the controller ends up executing it.\<close>

definition command_given :: "nat \<Rightarrow> nat \<Rightarrow> u8 list \<Rightarrow> 't ncr \<Rightarrow> bool" where
  "command_given object i cdb s \<longleftrightarrow> ncr_selected s \<and> ncr_command s = cdb \<and>
     ncr_activeTarget s = Some object \<and> ncr_activeTargetId s = of_nat i \<and>
     \<not> ncr_dataOutCompletionPending s \<and> \<not> ncr_commandReady s \<and> ncr_registers s 1 AND 0x04 = 0"

lemma send_command:
  assumes "in_command object i [] s" and "cdb \<noteq> []" and "length cdb = expectedCommandLength (cdb ! 0)"
  obtains s' where
    "fold (send_byte target) cdb s = (ncr_executeCommand target s')\<lparr>ncr_previousAck := False\<rparr>"
    "command_given object i cdb s'" "ncr_objects s' = ncr_objects s" "ncr_targets s' = ncr_targets s"
proof -
  obtain bs b where cdb: "cdb = bs @ [b]" using assms(2) by (metis rev_exhaust)
  have "bs \<noteq> [] \<or> bs = []" by blast
  have head: "length bs < expectedCommandLength (bs ! 0)" if "bs \<noteq> []"
    using assms(3) that by (simp add: cdb nth_append)
  define s1 where "s1 = fold (send_byte target) bs s"
  have s1: "in_command object i bs s1 \<and> ncr_objects s1 = ncr_objects s \<and> ncr_targets s1 = ncr_targets s"
  proof (cases "bs = []")
    case True
    then show ?thesis using assms(1) by (simp add: s1_def)
  next
    case False
    then show ?thesis using send_bytes_early [OF assms(1), of bs] head by (simp add: s1_def)
  qed
  define s2 where "s2 = s1\<lparr>ncr_outputData := b, ncr_command := bs @ [b], ncr_request := False, ncr_previousAck := True,
      ncr_registers := (ncr_registers s1)(0 := b, 1 := 0x01), ncr_commandReady := False\<rparr>"
  have "fold (send_byte target) cdb s = (ncr_executeCommand target s2)\<lparr>ncr_previousAck := False\<rparr>"
    using send_byte [of object i bs s1 target b] s1 assms(3) by (simp add: cdb s1_def s2_def Let_def)
  moreover have "command_given object i cdb s2" "ncr_objects s2 = ncr_objects s" "ncr_targets s2 = ncr_targets s"
    using s1 by (simp_all add: command_given_def s2_def in_command_def cdb)
  ultimately show ?thesis using that by blast
qed

subsection \<open>The data phase\<close>

text \<open>The answer of the target is on the bus, \<open>k\<close> bytes of it taken.\<close>

definition answering :: "ScsiCommandResult \<Rightarrow> nat \<Rightarrow> 't ncr \<Rightarrow> bool" where
  "answering result k s \<longleftrightarrow> \<not> ncr_previousAck s \<and> \<not> ncr_dataOutCompletionPending s \<and>
     ncr_registers s 1 AND 0x04 = 0 \<and> 
     ncr_phase s = (if k < length (result_data result) then DataIn else Status) \<and>
     (ncr_request s \<or> k < length (result_data result) \<and> ncr_requestReassertPending s) \<and>
     (k < length (result_data result) \<longrightarrow> ncr_dataBuffer s = result_data result \<and> ncr_dataIndex s = k) \<and>
     ncr_status s = result_status result \<and> ncr_message s = result_message result"

text \<open>The target waits for \<open>n\<close> bytes and has those of \<open>out\<close>.\<close>

definition accepting :: "nat \<Rightarrow> u8 list \<Rightarrow> nat \<Rightarrow> u8 list \<Rightarrow> 't ncr \<Rightarrow> bool" where
  "accepting object cdb n out s \<longleftrightarrow> \<not> ncr_previousAck s \<and> \<not> ncr_dataOutCompletionPending s \<and>
     ncr_registers s 1 AND 0x04 = 0 \<and> ncr_command s = cdb \<and> ncr_activeTarget s = Some object \<and>
     ncr_phase s = DataOut \<and> (ncr_request s \<or> ncr_requestReassertPending s) \<and>
     ncr_expectedDataOut s = n \<and> ncr_dataOut s = out"

lemma execute_data_in:
  assumes "command_given object i cdb s" and "data_out_length cdb = None"
    and "target_executeCommand target cdb [] (ncr_objects s object) = (result, t)"
  shows "answering result 0 ((ncr_executeCommand target s)\<lparr>ncr_previousAck := False\<rparr>)"
    and "ncr_objects (ncr_executeCommand target s) = (ncr_objects s)(object := t)"
    and "ncr_targets (ncr_executeCommand target s) = ncr_targets s"
  using assms by (simp_all add: ncr_executeCommand_def command_given_def run_target_def finish_command_def
    push_trace_def setPhase_def answering_def Let_def split_beta)

lemma execute_data_out:
  assumes "command_given object i cdb s" and "data_out_length cdb = Some n"
  shows "accepting object cdb n [] ((ncr_executeCommand target s)\<lparr>ncr_previousAck := False\<rparr>)"
    and "ncr_objects (ncr_executeCommand target s) = ncr_objects s"
    and "ncr_targets (ncr_executeCommand target s) = ncr_targets s"
  using assms by (simp_all add: ncr_executeCommand_def command_given_def setPhase_def accepting_def Let_def)

lemma status_poll:
  "ncr_readRegister 5 False s = busAndStatus s"
  by (simp add: ncr_readRegister_def)

lemma poll_answering:
  assumes "answering result k s"
  shows "fst (busAndStatus s) AND 0x40 \<noteq> 0 \<longleftrightarrow> k < length (result_data result)"
    and "answering result k (snd (busAndStatus s))" 
    and "k < length (result_data result) \<Longrightarrow> ncr_request (snd (busAndStatus s))"
    and "ncr_objects (snd (busAndStatus s)) = ncr_objects s"
    and "ncr_targets (snd (busAndStatus s)) = ncr_targets s"
  using assms by (auto simp: busAndStatus_def reassert_def answering_def Let_def bit_simps word8_eq)

lemma dack_read:
  assumes "answering result k s" and "k < length (result_data result)" and "ncr_request s"
  shows "fst (ncr_readRegister 0 True s) = result_data result ! k"
    and "answering result (Suc k) (snd (ncr_readRegister 0 True s))"
    and "ncr_objects (snd (ncr_readRegister 0 True s)) = ncr_objects s"
    and "ncr_targets (snd (ncr_readRegister 0 True s)) = ncr_targets s"
  using assms by (auto simp: ncr_readRegister_def readDataByte_def answering_def setPhase_def Let_def)

lemma dma_in:
  assumes "answering result k s" and "length (result_data result) \<le> k + n"
  shows "fst (dma_in n s) = drop k (result_data result) \<and>
    answering result (max k (length (result_data result))) (snd (dma_in n s)) \<and>
    ncr_objects (snd (dma_in n s)) = ncr_objects s \<and> ncr_targets (snd (dma_in n s)) = ncr_targets s"
  using assms
proof (induction n arbitrary: k s)
  case 0
  then show ?case by simp
next
  case (Suc n)
  note poll = poll_answering [OF Suc.prems(1)]
  show ?case
  proof (cases "k < length (result_data result)")
    case True
    note step = dack_read [OF poll(2) True poll(3) [OF True]]
    have "drop k (result_data result) = result_data result ! k # drop (Suc k) (result_data result)"
      using True by (simp add: Cons_nth_drop_Suc)
    with Suc.IH [OF step(2)] Suc.prems(2) True poll step show ?thesis
      by (simp add: status_poll split_beta Let_def max_def)
  next
    case False
    then show ?thesis using poll by (simp add: status_poll split_beta Let_def)
  qed
qed

lemma dack_write:
  assumes "accepting object cdb n out s" and "length out < n" and "cdb ! 0 \<noteq> 4" and "cdb \<noteq> []"
    and "ncr_registers s 2 = 2"
  shows "fst (busAndStatus s) AND 0x40 \<noteq> 0"
    and "Suc (length out) < n \<Longrightarrow> accepting object cdb n (out @ [b]) (ncr_writeRegister target 0 True b (snd (busAndStatus s)))"
    and "Suc (length out) = n \<Longrightarrow> ncr_command (ncr_writeRegister target 0 True b (snd (busAndStatus s))) = cdb \<and> ncr_activeTarget (ncr_writeRegister target 0 True b (snd (busAndStatus s))) = Some object \<and>
      ncr_dataOut (ncr_writeRegister target 0 True b (snd (busAndStatus s))) = out @ [b] \<and> ncr_dataOutCompletionPending (ncr_writeRegister target 0 True b (snd (busAndStatus s))) \<and> \<not> ncr_previousAck (ncr_writeRegister target 0 True b (snd (busAndStatus s))) \<and>
      ncr_registers (ncr_writeRegister target 0 True b (snd (busAndStatus s))) 1 AND 0x04 = 0"
    and "ncr_registers (ncr_writeRegister target 0 True b (snd (busAndStatus s))) 2 = 2" and "ncr_objects (ncr_writeRegister target 0 True b (snd (busAndStatus s))) = ncr_objects s" and "ncr_targets (ncr_writeRegister target 0 True b (snd (busAndStatus s))) = ncr_targets s"
  using assms
  by (auto simp: ncr_writeRegister_def write_dack_def busAndStatus_def reassert_def accepting_def
    writeDataByte_def finishDataPhaseIfDone_def data_out_done_def Let_def word8_eq bit_simps)

lemma dma_out:
  assumes "accepting object cdb n pre s" and "length pre + length out = n" and "out \<noteq> []"
    and "cdb ! 0 \<noteq> 4" and "cdb \<noteq> []" and "ncr_registers s 2 = 2"
  shows "ncr_command (dma_out target out s) = cdb \<and> ncr_activeTarget (dma_out target out s) = Some object \<and>
      ncr_dataOut (dma_out target out s) = pre @ out \<and> ncr_dataOutCompletionPending (dma_out target out s) \<and> \<not> ncr_previousAck (dma_out target out s) \<and>
      ncr_registers (dma_out target out s) 1 AND 0x04 = 0 \<and> ncr_registers (dma_out target out s) 2 = 2 \<and>
      ncr_objects (dma_out target out s) = ncr_objects s \<and> ncr_targets (dma_out target out s) = ncr_targets s"
  using assms
proof (induction out arbitrary: pre s)
  case (Cons b out)
  have short: "length pre < n" using Cons.prems(2) by simp
  note poll = dack_write(1) [OF Cons.prems(1) short Cons.prems(4-6)]
    and step = dack_write(2-) [OF Cons.prems(1) short Cons.prems(4-6), where b = b and target = target]
  show ?case
  proof (cases "out = []")
    case True
    then have "Suc (length pre) = n" using Cons.prems(2) by simp
    from poll step(2) [OF this] step(3-5) True show ?thesis by (simp add: status_poll split_beta Let_def)
  next
    case False
    then have "Suc (length pre) < n" using Cons.prems(2) by (cases out) simp_all
    from Cons.IH [OF step(1) [OF this]] False Cons.prems poll step(3-5) show ?thesis
      by (simp add: status_poll split_beta Let_def)
  qed
qed simp

subsection \<open>Status and message\<close>

text \<open>The DMA mode is left: a command that waited for its data runs now.\<close>

lemma leave_dma_data:
  assumes "ncr_command s = cdb" "ncr_activeTarget s = Some object" "ncr_dataOut s = out"
    and "ncr_dataOutCompletionPending s" "\<not> ncr_previousAck s"
    and "ncr_registers s 1 AND 0x04 = 0" "ncr_registers s 2 = 2"
    and "target_executeCommand target cdb out (ncr_objects s object) = (result, t)"
  shows "answering (result\<lparr>result_data := []\<rparr>) 0 (ncr_write target 2 0 s)"
    and "ncr_objects (ncr_write target 2 0 s) = (ncr_objects s)(object := t)"
    and "ncr_targets (ncr_write target 2 0 s) = ncr_targets s"
  using assms by (simp_all add: ncr_write_def ncr_writeRegister_def write_mode_def completeDataOutCommand_def
    run_target_def finish_command_def push_trace_def setPhase_def answering_def Let_def split_beta)

lemma leave_dma:
  assumes "answering result k s" and "length (result_data result) \<le> k"
  shows "answering result k (ncr_write target 2 0 s)"
    and "ncr_objects (ncr_write target 2 0 s) = ncr_objects s"
    and "ncr_targets (ncr_write target 2 0 s) = ncr_targets s"
  using assms by (simp_all add: ncr_write_def ncr_writeRegister_def write_mode_def answering_def Let_def)

definition message_phase :: "ScsiCommandResult \<Rightarrow> 't ncr \<Rightarrow> bool" where
  "message_phase result s \<longleftrightarrow> ncr_phase s = MessageIn \<and> \<not> ncr_previousAck s \<and>
     ncr_registers s 1 AND 0x04 = 0 \<and> ncr_message s = result_message result"

lemma take_status:
  assumes "answering result k s" and "length (result_data result) \<le> k"
  shows "fst (take_byte target s) = result_status result"
    and "message_phase result (snd (take_byte target s))"
    and "ncr_objects (snd (take_byte target s)) = ncr_objects s"
    and "ncr_targets (snd (take_byte target s)) = ncr_targets s"
  using assms by (simp_all add: take_byte_def ncr_readRegister_def readDataByte_def ncr_write_def
    ncr_writeRegister_def write_initiatorCommand_def ack_raised_def ack_lowered_def setPhase_def
    answering_def message_phase_def Let_def)

lemma take_message:
  assumes "message_phase result s"
  shows "fst (take_byte target s) = result_message result"
    and "bus_idle (snd (take_byte target s))"
    and "ncr_objects (snd (take_byte target s)) = ncr_objects s"
    and "ncr_targets (snd (take_byte target s)) = ncr_targets s"
  using assms by (simp_all add: take_byte_def ncr_readRegister_def readDataByte_def ncr_write_def
    ncr_writeRegister_def write_initiatorCommand_def ack_raised_def ack_lowered_def setPhase_def
    message_phase_def bus_idle_def Let_def)

subsection \<open>The whole transaction\<close>

text \<open>Two ways a command moves data: in, as many bytes as it answers, or out, as many as it asks for.\<close>

definition moves :: "u8 list \<Rightarrow> u8 list \<Rightarrow> nat \<Rightarrow> ScsiCommandResult \<Rightarrow> bool" where
  "moves cdb out n result \<longleftrightarrow> cdb \<noteq> [] \<and> length cdb = expectedCommandLength (cdb ! 0) \<and>
     (if out = [] then data_out_length cdb = None \<and> length (result_data result) \<le> n
      else data_out_length cdb = Some (length out) \<and> cdb ! 0 \<noteq> 4)"

lemma enter_dma:
  "answering result 0 s \<Longrightarrow> answering result 0 (ncr_write target 2 0x02 (ncr_write target 1 0 s))"
  "accepting object cdb n [] s \<Longrightarrow> accepting object cdb n [] (ncr_write target 2 0x02 (ncr_write target 1 0 s))"
  "\<not> ncr_previousAck s \<Longrightarrow> ncr_registers s 1 AND 0x04 = 0 \<Longrightarrow>
    ncr_registers (ncr_write target 2 0x02 (ncr_write target 1 0 s)) 2 = 2 \<and>
    ncr_objects (ncr_write target 2 0x02 (ncr_write target 1 0 s)) = ncr_objects s \<and>
    ncr_targets (ncr_write target 2 0x02 (ncr_write target 1 0 s)) = ncr_targets s"
  by (simp_all add: ncr_write_def ncr_writeRegister_def write_initiatorCommand_def write_mode_def
    answering_def accepting_def Let_def)

lemma transaction_executes:
  assumes "bus_idle s" and "i < 7" and "hasTarget target (of_nat i) s"
    and "ncr_targets s (of_nat i) = Some object"
    and "target_executeCommand target cdb out (ncr_objects s object) = (result, t)"
    and "moves cdb out n result"
  obtains s' where "transaction target i cdb out n s =
      ((if out = [] then result_data result else [], result_status result, result_message result), s')"
    and "bus_idle s'" and "ncr_objects s' = (ncr_objects s)(object := t)" and "ncr_targets s' = ncr_targets s"
proof -
  note sel = select_bus [OF assms(1-4)]
  have cdb: "cdb \<noteq> []" "length cdb = expectedCommandLength (cdb ! 0)" using assms(6) by (simp_all add: moves_def)
  obtain s1 where s1: "fold (send_byte target) cdb (select_bus target i s) =
        (ncr_executeCommand target s1)\<lparr>ncr_previousAck := False\<rparr>"
      "command_given object i cdb s1" "ncr_objects s1 = ncr_objects s" "ncr_targets s1 = ncr_targets s"
    using send_command [OF sel(1) cdb] sel by metis
  define s2 where "s2 = (ncr_executeCommand target s1)\<lparr>ncr_previousAck := False\<rparr>"
  define s3 where "s3 = ncr_write target 2 0x02 (ncr_write target 1 0 s2)"
  define s4 where "s4 = ncr_write target 2 0 (if out = [] then snd (dma_in n s3) else dma_out target out s3)"
  define r where "r = (if out = [] then result else result\<lparr>result_data := []\<rparr>)"
  have "(\<exists>k. answering r k s4 \<and> length (result_data r) \<le> k) \<and> ncr_objects s4 = (ncr_objects s)(object := t) \<and>
      ncr_targets s4 = ncr_targets s \<and> (out = [] \<longrightarrow> fst (dma_in n s3) = result_data result)"
  proof (cases "out = []")
    case True
    then have "data_out_length cdb = None" "length (result_data result) \<le> 0 + n"
      using assms(6) by (simp_all add: moves_def)
    note run = execute_data_in [OF s1(2) this(1), where target = target and result = result and t = t]
    have a2: "answering result 0 s2" using run(1) assms(5) True s1(3) by (simp add: s2_def)
    note a3 = enter_dma(1) [OF a2, where target = target, folded s3_def]
    have "ncr_objects s3 = (ncr_objects s)(object := t)" "ncr_targets s3 = ncr_targets s"
      using enter_dma(3) [of s2 target] a2 run(2,3) assms(5) True s1(3,4)
      by (simp_all add: s3_def s2_def answering_def)
    then show ?thesis
      using dma_in [OF a3 \<open>length (result_data result) \<le> 0 + n\<close>]
        leave_dma [of result "length (result_data result)" "snd (dma_in n s3)" target] True
      by (auto simp: s4_def r_def)
  next
    case False
    then have out: "data_out_length cdb = Some (length out)" "cdb ! 0 \<noteq> 4" using assms(6) by (simp_all add: moves_def)
    note run = execute_data_out [OF s1(2) out(1), where target = target]
    have a2: "accepting object cdb (length out) [] s2" using run(1) by (simp add: s2_def)
    note a3 = enter_dma(2) [OF a2, where target = target, folded s3_def]
    have 3: "ncr_registers s3 2 = 2" "ncr_objects s3 = ncr_objects s" "ncr_targets s3 = ncr_targets s"
      using enter_dma(3) [of s2 target] a2 run(2,3) s1(3,4) by (simp_all add: s3_def s2_def accepting_def)
    note sent = dma_out [OF a3 _ False out(2) cdb(1) 3(1), where target = target]
    have "target_executeCommand target cdb out (ncr_objects (dma_out target out s3) object) = (result, t)"
      using sent 3(2) assms(5) by simp
    then show ?thesis using sent 3 False
        leave_dma_data [of "dma_out target out s3" cdb object out target result t]
      by (auto simp: s4_def r_def)
  qed
  then obtain k where s4: "answering r k s4" "length (result_data r) \<le> k"
    "ncr_objects s4 = (ncr_objects s)(object := t)" "ncr_targets s4 = ncr_targets s"
    "out = [] \<longrightarrow> fst (dma_in n s3) = result_data result" by blast
  note st = take_status [OF s4(1,2), where target = target]
  note msg = take_message [OF st(2), where target = target]
  show ?thesis
  proof (rule that)
    show "transaction target i cdb out n s = ((if out = [] then result_data result else [], result_status result,
        result_message result), snd (take_byte target (snd (take_byte target s4))))"
      using st(1) msg(1) s4(5)
      by (cases "out = []") (simp_all add: transaction_def s1(1) s4_def s3_def s2_def r_def split_beta Let_def)
  qed (use st msg s4 in simp_all)
qed

text \<open>C26. A command driven over the SCSI bus - selection, the bytes of the command by handshake, the
  data by pseudo DMA, status and message - amounts to the execution of the command by the selected
  target: the initiator has its data, status and message, the target its new state, nothing happened
  to other targets, and the bus is free again.\<close>

theorem bus_transaction:
  assumes "bus_idle s" and "i < 7" and "hasTarget target (of_nat i) s"
    and "ncr_targets s (of_nat i) = Some object"
    and "target_executeCommand target cdb out (ncr_objects s object) = (result, t)"
    and "moves cdb out n result"
  shows "\<exists>s'. transaction target i cdb out n s =
      ((if out = [] then result_data result else [], result_status result, result_message result), s') \<and>
    bus_idle s' \<and> ncr_objects s' = (ncr_objects s)(object := t) \<and> ncr_targets s' = ncr_targets s"
  by (rule transaction_executes [OF assms]) blast

text \<open>
  Data sent with the handshake of the initiator command register instead are lost: however often a
  byte is put on the bus and acknowledged, the target has no more of them than before and waits.
\<close>

lemma programmed_data_out:
  assumes "ncr_phase s = DataOut" "ncr_selected s" "\<not> ncr_previousAck s" "ncr_registers s 1 AND 0x04 = 0"
    and "length (ncr_dataOut s) < ncr_expectedDataOut s"
  shows "ncr_phase (fold (send_byte target) bytes s) = DataOut \<and>
    ncr_dataOut (fold (send_byte target) bytes s) = ncr_dataOut s"
  using assms
proof (induction bytes arbitrary: s)
  case (Cons b bytes)
  define s' where "s' = send_byte target b s"
  have "ncr_phase s' = DataOut" "ncr_selected s'" "\<not> ncr_previousAck s'" "ncr_registers s' 1 AND 0x04 = 0"
    "ncr_dataOut s' = ncr_dataOut s" "ncr_expectedDataOut s' = ncr_expectedDataOut s"
    using Cons.prems by (simp_all add: s'_def send_byte_def ncr_write_def ncr_writeRegister_def
      write_initiatorCommand_def ack_raised_def ack_lowered_def finishDataPhaseIfDone_def Let_def)
  with Cons.IH [of s'] Cons.prems(5) show ?case by (simp add: s'_def [symmetric])
qed simp

subsection \<open>A disk on the bus\<close>

lemma moves_read10: "moves (cdb10 0x28 lba n) [] m result \<longleftrightarrow> length (result_data result) \<le> m"
  by (simp add: moves_def data_out_length_def expectedCommandLength_def cdb10_def Let_def)

lemma be16_length: "unat (ucast (drop_bit 8 n) :: u8) * 256 + unat (ucast n :: u8) = unat (n :: u16)"
proof -
  have "unat n < 2 ^ 16" using unsigned_less [of n] by simp
  then have "unat n div 256 < 256" by (simp add: less_mult_imp_div_less)
  then show ?thesis
    by (simp add: unsigned_ucast_eq take_bit_eq_mod unsigned_drop_bit_eq drop_bit_eq_div unat_div_distrib div_mult_mod_eq)
qed

lemma moves_write10:
  assumes "n \<noteq> 0" and "length out = unat n * 512"
  shows "moves (cdb10 0x2a lba n) out m result"
proof -
  have "out \<noteq> []" "unat n \<noteq> 0" using assms by (auto simp: unat_eq_0)
  then show ?thesis using assms be16_length [of n]
    by (simp add: moves_def data_out_length_def expectedCommandLength_def cdb10_def Let_def)
qed

lemma block_target_simps [simp]:
  "target_executeCommand (block_target h) = hd_executeCommand h"
  "target_selectable (block_target h) = hd_ready"
  by (simp_all add: block_target_def)

text \<open>Blocks written to a hard disk over the bus are what a read over the bus gives afterwards:
  WRITE(10) and then READ(10) of the same blocks, byte by byte through the registers of the controller,
  end with GOOD, return the bytes written and leave the bus free.\<close>

theorem disk_over_the_bus:
  assumes "bus_idle s" and "i < 7" and "ncr_targets s (of_nat i) = Some object"
    and "small_disk (ncr_objects s object)" and "\<not> hd_readOnly (ncr_objects s object)"
    and "n \<noteq> 0" and "on_disk lba n (ncr_objects s object)" and "length out = unat n * 512"
    and "write_at h (hd_imagePath (ncr_objects s object)) (unat lba * 512) out
      (hd_host (ncr_objects s object)) = (True, w)"
  shows "\<exists>s'. transaction (block_target h) i (cdb10 0x28 lba n) [] (length out)
      (snd (transaction (block_target h) i (cdb10 0x2a lba n) out 0 s)) = ((out, statusGood, messageCommandComplete), s')
    \<and> bus_idle s'"
proof -
  let ?d = "ncr_objects s object"
  obtain d where d: "hd_executeCommand h (cdb10 0x2a lba n) out ?d = (good [], d)"
    "blocks_of (hd_image d) = overwrite (unat lba) (blocks_of out) (blocks_of (hd_image ?d))"
    "hd_host d = w" "length (hd_image d) = length (hd_image ?d)"
    by (rule write10 [OF assms(4-9)])
  have has: "hasTarget (block_target h) (of_nat i) x"
    if "ncr_targets x (of_nat i) = Some object" "hd_ready (ncr_objects x object)" for x
  proof -
    have "i \<in> {0, 1, 2, 3, 4, 5, 6}" using assms(2) by auto
    then show ?thesis using that by (auto simp: hasTarget_def)
  qed
  have "hd_ready ?d" "small_disk d" using assms(4) d(4) same_disk(1) [OF d(4)]
    by (simp_all add: hd_ready_def small_disk_def)
  moreover from this have ready: "hd_ready d" by (simp add: hd_ready_def small_disk_def)
  ultimately obtain s1 where s1: "snd (transaction (block_target h) i (cdb10 0x2a lba n) out 0 s) = s1"
    "bus_idle s1" "ncr_objects s1 = (ncr_objects s)(object := d)" "ncr_targets s1 = ncr_targets s"
    using transaction_executes [OF assms(1,2) has [OF assms(3)] assms(3), of "cdb10 0x2a lba n" out "good []" d 0]
      d(1) moves_write10 [OF assms(6,8)] by (metis block_target_simps(1) snd_conv)
  have len: "length (blocks_of out) = unat n" "length (take (unat lba) (blocks_of (hd_image ?d))) = unat lba"
    using assms(7,8) by (simp_all add: on_disk_def)
  have "concat (take (unat n) (drop (unat lba) (blocks_of (hd_image d)))) = concat (blocks_of out)"
    using len by (simp add: d(2) overwrite_def)
  also have "\<dots> = out" using assms(8) by (simp add: concat_blocks_of)
  finally obtain d' where "hd_executeCommand h (cdb10 0x28 lba n) [] d = (good out, d')"
    using read10 [OF \<open>small_disk d\<close> assms(6), of h lba "[]"] assms(7) same_disk(2) [OF d(4), of lba n] by auto
  moreover have "moves (cdb10 0x28 lba n) [] (length out) (good out)" by (simp add: moves_read10 good_def)
  ultimately obtain s2 where "transaction (block_target h) i (cdb10 0x28 lba n) [] (length out) s1 =
      ((out, result_status (good out), result_message (good out)), s2)" "bus_idle s2"
    using transaction_executes [OF s1(2) assms(2) has, of object "cdb10 0x28 lba n" "[]" "good out" d' "length out"]
      s1(3,4) assms(3) ready by (auto simp: good_def)
  then show ?thesis using s1(1) by (auto simp: good_def)
qed

text \<open>A bus with one disk, at number three.\<close>

definition sample_bus :: "(string \<rightharpoonup> u8 list) block_device ncr" where
  "sample_bus = \<lparr>ncr_registers = (\<lambda>_. 0), ncr_targets = [3 \<mapsto> 0], ncr_objects = (\<lambda>_. sample_disk),
     ncr_activeTarget = None, ncr_command = [], ncr_dataBuffer = [], ncr_dataOut = [], ncr_dataIndex = 0,
     ncr_expectedDataOut = 0, ncr_phase = BusFree, ncr_targetCommand = 0, ncr_outputData = 0,
     ncr_activeTargetId = 0xff, ncr_status = 0, ncr_message = 0, ncr_senseKey = 0,
     ncr_completedCommands = 0, ncr_selected = False, ncr_request = False,
     ncr_requestReassertPending = False, ncr_dataOutCompletionPending = False, ncr_previousAck = False,
     ncr_commandReady = False, ncr_lastCommand = [], ncr_commandTrace = []\<rparr>"

lemma sample_bus_ok:
  "bus_idle sample_bus" "ncr_targets sample_bus (of_nat 3) = Some 0" "ncr_objects sample_bus 0 = sample_disk"
  "hasTarget (block_target h) (of_nat 3) sample_bus"
  by (simp_all add: sample_bus_def bus_idle_def hasTarget_def hd_ready_def sample_disk_def)

lemma bus_transaction_witness:
  "\<exists>s'. transaction (block_target map_host) 3 (cdb10 0x28 1 1) [] 512 sample_bus =
      ((replicate 512 0, 0, 0), s') \<and> bus_idle s'"
proof -
  have on: "on_disk 1 1 sample_disk" by (simp add: on_disk_def sample_disk_ok)
  have "take 1 (drop 1 (blocks_of (hd_image sample_disk))) = [replicate 512 0]"
    by (simp add: sample_disk_def blocks_of_def upt_conv_Cons)
  then obtain t where t: "hd_executeCommand map_host (cdb10 0x28 1 1) [] sample_disk = (good (replicate 512 0), t)"
    using read10 [OF sample_disk_ok(1), of 1 map_host 1 "[]"] on by auto
  have "target_executeCommand (block_target map_host) (cdb10 0x28 1 1) [] (ncr_objects sample_bus 0) =
      (good (replicate 512 0), t)"
    using t by (simp add: sample_bus_ok)
  moreover have "moves (cdb10 0x28 1 1) [] 512 (good (replicate 512 0))" by (simp add: moves_read10 good_def)
  ultimately show ?thesis
    using bus_transaction [OF sample_bus_ok(1) _ sample_bus_ok(4) sample_bus_ok(2)] by (fastforce simp: good_def)
qed

lemma disk_over_the_bus_witness:
  "\<exists>s'. transaction (block_target map_host) 3 (cdb10 0x28 2 1) [] 512
      (snd (transaction (block_target map_host) 3 (cdb10 0x2a 2 1) (replicate 512 7) 0 sample_bus)) =
      ((replicate 512 7, 0, 0), s') \<and> bus_idle s'"
proof -
  have host: "write_at map_host (hd_imagePath sample_disk) (unat (2 :: u32) * 512) (replicate 512 7)
      (hd_host sample_disk) = (True, [''hd'' \<mapsto> take 1024 (replicate 2048 0) @ replicate 512 7 @
        drop 1536 (replicate 2048 0)])"
    by (simp add: sample_disk_def)
  have "on_disk 2 1 sample_disk" by (simp add: on_disk_def sample_disk_ok)
  then show ?thesis
    using disk_over_the_bus [OF sample_bus_ok(1) _ sample_bus_ok(2), of 1 2 "replicate 512 7" map_host, unfolded sample_bus_ok(3),
        OF _ sample_disk_ok(1,2) _ _ _ host]
    by simp
qed

end
