(* ===== verification/NuBusBus.thy ===== *)
theory NuBusBus
  imports Prelude
begin

section \<open>NuBus\<close>

text \<open>
  \<open>NuBusBus.cpp\<close> and \<open>NuBusCard.h\<close>: slots, their address windows and their interrupt lines.  A card is the
  record of its virtual methods over its own state \<open>'c\<close>; a method may call the interrupt callback of the
  card, a function on the machine \<open>'m\<close> which the methods carry along.
\<close>

unbundle bit_operations_syntax

type_synonym 'm irq_callback = "bool \<Rightarrow> 'm \<Rightarrow> 'm"

record ('c, 'm) NuBusCard =
  card_reset :: "'m irq_callback \<Rightarrow> 'c \<times> 'm \<Rightarrow> 'c \<times> 'm"
  card_tick :: "'m irq_callback \<Rightarrow> u64 \<Rightarrow> 'c \<times> 'm \<Rightarrow> 'c \<times> 'm"
  card_read8 :: "'m irq_callback \<Rightarrow> u32 \<Rightarrow> 'c \<times> 'm \<Rightarrow> u8 \<times> 'c \<times> 'm"
  card_read16 :: "'m irq_callback \<Rightarrow> u32 \<Rightarrow> 'c \<times> 'm \<Rightarrow> u16 \<times> 'c \<times> 'm"
  card_read32 :: "'m irq_callback \<Rightarrow> u32 \<Rightarrow> 'c \<times> 'm \<Rightarrow> u32 \<times> 'c \<times> 'm"
  card_write8 :: "'m irq_callback \<Rightarrow> u32 \<Rightarrow> u8 \<Rightarrow> 'c \<times> 'm \<Rightarrow> 'c \<times> 'm"
  card_write16 :: "'m irq_callback \<Rightarrow> u32 \<Rightarrow> u16 \<Rightarrow> 'c \<times> 'm \<Rightarrow> 'c \<times> 'm"
  card_write32 :: "'m irq_callback \<Rightarrow> u32 \<Rightarrow> u32 \<Rightarrow> 'c \<times> 'm \<Rightarrow> 'c \<times> 'm"

subsection \<open>The base class of the cards\<close>

text \<open>
  Wider accesses on top of the narrower ones; in a read the source leaves the order of the two halves open,
  here the high one is first.
\<close>

definition base_read16 :: "(u32 \<Rightarrow> 's \<Rightarrow> u8 \<times> 's) \<Rightarrow> u32 \<Rightarrow> 's \<Rightarrow> u16 \<times> 's" where
  "base_read16 read8 offset s =
    (let (hi, s) = read8 offset s; (lo, s) = read8 (offset + 1) s in (push_bit 8 (ucast hi) OR ucast lo, s))"

definition base_read32 :: "(u32 \<Rightarrow> 's \<Rightarrow> u16 \<times> 's) \<Rightarrow> u32 \<Rightarrow> 's \<Rightarrow> u32 \<times> 's" where
  "base_read32 read16 offset s =
    (let (hi, s) = read16 offset s; (lo, s) = read16 (offset + 2) s in (push_bit 16 (ucast hi) OR ucast lo, s))"

definition base_write16 :: "(u32 \<Rightarrow> u8 \<Rightarrow> 's \<Rightarrow> 's) \<Rightarrow> u32 \<Rightarrow> u16 \<Rightarrow> 's \<Rightarrow> 's" where
  "base_write16 write8 offset v s = write8 (offset + 1) (ucast v) (write8 offset (ucast (drop_bit 8 v)) s)"

definition base_write32 :: "(u32 \<Rightarrow> u16 \<Rightarrow> 's \<Rightarrow> 's) \<Rightarrow> u32 \<Rightarrow> u32 \<Rightarrow> 's \<Rightarrow> 's" where
  "base_write32 write16 offset v s = write16 (offset + 2) (ucast v) (write16 offset (ucast (drop_bit 16 v)) s)"

text \<open>The interrupt line \<open>m_irqAsserted\<close>: asserting it again calls back again, releasing it again does not.\<close>

definition card_setIrq :: "'m irq_callback \<Rightarrow> bool \<Rightarrow> bool \<times> 'm \<Rightarrow> bool \<times> 'm" where
  "card_setIrq callback asserted p =
    (let (irqAsserted, m) = p
     in if irqAsserted = asserted then (irqAsserted, if asserted then callback True m else m)
        else (asserted, callback asserted m))"

subsection \<open>Slots\<close>

definition standardSlot :: "u32 \<Rightarrow> int" where
  "standardSlot address =
    (let slot = (if address AND 0xf0000000 = 0xf0000000 then uint (drop_bit 24 address AND 0x0f)
                 else if 0x00900000 \<le> address \<and> address \<le> 0x00efffff then uint (drop_bit 20 address AND 0x0f)
                 else - 1)
     in if 9 \<le> slot \<and> slot \<le> 14 then slot else - 1)"

definition superSlot :: "u32 \<Rightarrow> int" where
  "superSlot address =
    (if address < 0x60000000 \<or> 0xf0000000 \<le> address then - 1
     else let slot = uint (drop_bit 28 address) in if 9 \<le> slot \<and> slot \<le> 14 then slot else - 1)"

definition decodedSlot :: "u32 \<Rightarrow> int" where
  "decodedSlot address =
    (let standard = standardSlot address in if 0 \<le> standard then standard else superSlot address)"

definition cardOffset :: "u32 \<Rightarrow> u32" where
  "cardOffset address = (if address < 0x01000000 then address AND 0x000fffff else address AND 0x00ffffff)"

subsection \<open>The bus\<close>

text \<open>The installed cards with their states, and the callback of the machine for the lines of all slots.\<close>

record ('c, 'm) nubus =
  nubus_cards :: "nat \<Rightarrow> (('c, 'm) NuBusCard \<times> 'c) option"
  nubus_slotIrq :: "(int \<Rightarrow> bool \<Rightarrow> 'm \<Rightarrow> 'm) option"

definition nubus_install :: "int \<Rightarrow> (('c, 'm) NuBusCard \<times> 'c) option \<Rightarrow> ('c, 'm) nubus \<Rightarrow> bool \<times> ('c, 'm) nubus" where
  "nubus_install slot new bus =
    (if slot < 9 \<or> 14 < slot \<or> new = None then (False, bus)
     else (True, bus\<lparr>nubus_cards := (nubus_cards bus)(nat slot := new)\<rparr>))"

definition nubus_remove :: "int \<Rightarrow> ('c, 'm) nubus \<Rightarrow> ('c, 'm) nubus" where
  "nubus_remove slot bus =
    (if slot < 0 \<or> 16 \<le> slot then bus else bus\<lparr>nubus_cards := (nubus_cards bus)(nat slot := None)\<rparr>)"

definition nubus_card :: "int \<Rightarrow> ('c, 'm) nubus \<Rightarrow> (('c, 'm) NuBusCard \<times> 'c) option" where
  "nubus_card slot bus = (if slot < 0 \<or> 16 \<le> slot then None else nubus_cards bus (nat slot))"

definition nubus_irq :: "('c, 'm) nubus \<Rightarrow> int \<Rightarrow> 'm irq_callback" where
  "nubus_irq bus slot asserted m = (case nubus_slotIrq bus of None \<Rightarrow> m | Some f \<Rightarrow> f slot asserted m)"

text \<open>A method of the card in a slot, with the machine that its interrupt reaches.\<close>

definition call_card ::
    "(('c, 'm) NuBusCard \<Rightarrow> 'm irq_callback \<Rightarrow> 'c \<times> 'm \<Rightarrow> 'v \<times> 'c \<times> 'm) \<Rightarrow> 'v \<Rightarrow> int \<Rightarrow>
     ('c, 'm) nubus \<times> 'm \<Rightarrow> 'v \<times> ('c, 'm) nubus \<times> 'm" where
  "call_card f absent slot p =
    (let (bus, m) = p
     in case nubus_card slot bus of
          None \<Rightarrow> (absent, bus, m)
        | Some (methods, c) \<Rightarrow>
            let (v, c, m) = f methods (nubus_irq bus slot) (c, m)
            in (v, bus\<lparr>nubus_cards := (nubus_cards bus)(nat slot := Some (methods, c))\<rparr>, m))"

definition do_card ::
    "(('c, 'm) NuBusCard \<Rightarrow> 'm irq_callback \<Rightarrow> 'c \<times> 'm \<Rightarrow> 'c \<times> 'm) \<Rightarrow> int \<Rightarrow>
     ('c, 'm) nubus \<times> 'm \<Rightarrow> ('c, 'm) nubus \<times> 'm" where
  "do_card f slot p = snd (call_card (\<lambda>card irq q. ((), f card irq q)) () slot p)"

definition nubus_reset :: "('c, 'm) nubus \<times> 'm \<Rightarrow> ('c, 'm) nubus \<times> 'm" where
  "nubus_reset = fold (\<lambda>n. do_card card_reset (int n)) [0..<16]"

definition nubus_tick :: "u64 \<Rightarrow> ('c, 'm) nubus \<times> 'm \<Rightarrow> ('c, 'm) nubus \<times> 'm" where
  "nubus_tick cycles = fold (\<lambda>n. do_card (\<lambda>card irq. card_tick card irq cycles) (int n)) [0..<16]"

definition nubus_read8 :: "u32 \<Rightarrow> ('c, 'm) nubus \<times> 'm \<Rightarrow> u8 \<times> ('c, 'm) nubus \<times> 'm" where
  "nubus_read8 address = call_card (\<lambda>card irq. card_read8 card irq (cardOffset address)) 0xff (decodedSlot address)"

definition nubus_read16 :: "u32 \<Rightarrow> ('c, 'm) nubus \<times> 'm \<Rightarrow> u16 \<times> ('c, 'm) nubus \<times> 'm" where
  "nubus_read16 address = call_card (\<lambda>card irq. card_read16 card irq (cardOffset address)) 0xffff (decodedSlot address)"

definition nubus_read32 :: "u32 \<Rightarrow> ('c, 'm) nubus \<times> 'm \<Rightarrow> u32 \<times> ('c, 'm) nubus \<times> 'm" where
  "nubus_read32 address =
     call_card (\<lambda>card irq. card_read32 card irq (cardOffset address)) 0xffffffff (decodedSlot address)"

definition nubus_write8 :: "u32 \<Rightarrow> u8 \<Rightarrow> ('c, 'm) nubus \<times> 'm \<Rightarrow> ('c, 'm) nubus \<times> 'm" where
  "nubus_write8 address v = do_card (\<lambda>card irq. card_write8 card irq (cardOffset address) v) (decodedSlot address)"

definition nubus_write16 :: "u32 \<Rightarrow> u16 \<Rightarrow> ('c, 'm) nubus \<times> 'm \<Rightarrow> ('c, 'm) nubus \<times> 'm" where
  "nubus_write16 address v = do_card (\<lambda>card irq. card_write16 card irq (cardOffset address) v) (decodedSlot address)"

definition nubus_write32 :: "u32 \<Rightarrow> u32 \<Rightarrow> ('c, 'm) nubus \<times> 'm \<Rightarrow> ('c, 'm) nubus \<times> 'm" where
  "nubus_write32 address v = do_card (\<lambda>card irq. card_write32 card irq (cardOffset address) v) (decodedSlot address)"

end
