(* ===== verification/OpsBit.thy ===== *)
theory OpsBit
  imports OpsBase
begin

section \<open>Instruction handlers: BTST, BCHG, BCLR, BSET and TAS\<close>

text \<open>
  The handlers of m68kops.c for BTST, BCHG, BCLR, BSET and TAS.
  One definition per handler, under the name of its C function; the effective address is part of
  the name.
\<close>

unbundle bit_operations_syntax

definition m68k_op_bchg_32_r_d :: "'b op" where
  "m68k_op_bchg_32_r_d s =
    (let mask_v = push_bit (unat (DX s AND 0x1f)) 1;
         s = s\<lparr>not_z_flag := DY s AND mask_v\<rparr>
     in Ret () (set_DY ((DY s) XOR mask_v) s))"

definition m68k_op_bchg_8_r_ai :: "'b op" where
  "m68k_op_bchg_8_r_ai s =
    (chain (EA_AY_AI_8 s) (\<lambda>ea s.
     chain (m68ki_read_8 ea s) (\<lambda>src s.
     let mask_v = push_bit (unat (DX s AND 7)) 1;
         s = s\<lparr>not_z_flag := src AND mask_v\<rparr>
     in m68ki_write_8 ea (src XOR mask_v) s)))"

definition m68k_op_bchg_8_r_pi :: "'b op" where
  "m68k_op_bchg_8_r_pi s =
    (chain (EA_AY_PI_8 s) (\<lambda>ea s.
     chain (m68ki_read_8 ea s) (\<lambda>src s.
     let mask_v = push_bit (unat (DX s AND 7)) 1;
         s = s\<lparr>not_z_flag := src AND mask_v\<rparr>
     in m68ki_write_8 ea (src XOR mask_v) s)))"

definition m68k_op_bchg_8_r_pi7 :: "'b op" where
  "m68k_op_bchg_8_r_pi7 s =
    (chain (EA_A7_PI_8 s) (\<lambda>ea s.
     chain (m68ki_read_8 ea s) (\<lambda>src s.
     let mask_v = push_bit (unat (DX s AND 7)) 1;
         s = s\<lparr>not_z_flag := src AND mask_v\<rparr>
     in m68ki_write_8 ea (src XOR mask_v) s)))"

definition m68k_op_bchg_8_r_pd :: "'b op" where
  "m68k_op_bchg_8_r_pd s =
    (chain (EA_AY_PD_8 s) (\<lambda>ea s.
     chain (m68ki_read_8 ea s) (\<lambda>src s.
     let mask_v = push_bit (unat (DX s AND 7)) 1;
         s = s\<lparr>not_z_flag := src AND mask_v\<rparr>
     in m68ki_write_8 ea (src XOR mask_v) s)))"

definition m68k_op_bchg_8_r_pd7 :: "'b op" where
  "m68k_op_bchg_8_r_pd7 s =
    (chain (EA_A7_PD_8 s) (\<lambda>ea s.
     chain (m68ki_read_8 ea s) (\<lambda>src s.
     let mask_v = push_bit (unat (DX s AND 7)) 1;
         s = s\<lparr>not_z_flag := src AND mask_v\<rparr>
     in m68ki_write_8 ea (src XOR mask_v) s)))"

definition m68k_op_bchg_8_r_di :: "'b op" where
  "m68k_op_bchg_8_r_di s =
    (chain (EA_AY_DI_8 s) (\<lambda>ea s.
     chain (m68ki_read_8 ea s) (\<lambda>src s.
     let mask_v = push_bit (unat (DX s AND 7)) 1;
         s = s\<lparr>not_z_flag := src AND mask_v\<rparr>
     in m68ki_write_8 ea (src XOR mask_v) s)))"

definition m68k_op_bchg_8_r_ix :: "'b op" where
  "m68k_op_bchg_8_r_ix s =
    (chain (EA_AY_IX_8 s) (\<lambda>ea s.
     chain (m68ki_read_8 ea s) (\<lambda>src s.
     let mask_v = push_bit (unat (DX s AND 7)) 1;
         s = s\<lparr>not_z_flag := src AND mask_v\<rparr>
     in m68ki_write_8 ea (src XOR mask_v) s)))"

definition m68k_op_bchg_8_r_aw :: "'b op" where
  "m68k_op_bchg_8_r_aw s =
    (chain (EA_AW_8 s) (\<lambda>ea s.
     chain (m68ki_read_8 ea s) (\<lambda>src s.
     let mask_v = push_bit (unat (DX s AND 7)) 1;
         s = s\<lparr>not_z_flag := src AND mask_v\<rparr>
     in m68ki_write_8 ea (src XOR mask_v) s)))"

definition m68k_op_bchg_8_r_al :: "'b op" where
  "m68k_op_bchg_8_r_al s =
    (chain (EA_AL_8 s) (\<lambda>ea s.
     chain (m68ki_read_8 ea s) (\<lambda>src s.
     let mask_v = push_bit (unat (DX s AND 7)) 1;
         s = s\<lparr>not_z_flag := src AND mask_v\<rparr>
     in m68ki_write_8 ea (src XOR mask_v) s)))"

definition m68k_op_bchg_32_s_d :: "'b op" where
  "m68k_op_bchg_32_s_d s =
    (chain (OPER_I_8 s) (\<lambda>v s.
     let mask_v = push_bit (unat (v AND 0x1f)) 1;
         s = s\<lparr>not_z_flag := DY s AND mask_v\<rparr>
     in Ret () (set_DY ((DY s) XOR mask_v) s)))"

definition m68k_op_bchg_8_s_ai :: "'b op" where
  "m68k_op_bchg_8_s_ai s =
    (chain (OPER_I_8 s) (\<lambda>v s.
     let mask_v = push_bit (unat (v AND 7)) 1
     in chain (EA_AY_AI_8 s) (\<lambda>ea s.
        chain (m68ki_read_8 ea s) (\<lambda>src s.
        let s = s\<lparr>not_z_flag := src AND mask_v\<rparr>
        in m68ki_write_8 ea (src XOR mask_v) s))))"

definition m68k_op_bchg_8_s_pi :: "'b op" where
  "m68k_op_bchg_8_s_pi s =
    (chain (OPER_I_8 s) (\<lambda>v s.
     let mask_v = push_bit (unat (v AND 7)) 1
     in chain (EA_AY_PI_8 s) (\<lambda>ea s.
        chain (m68ki_read_8 ea s) (\<lambda>src s.
        let s = s\<lparr>not_z_flag := src AND mask_v\<rparr>
        in m68ki_write_8 ea (src XOR mask_v) s))))"

definition m68k_op_bchg_8_s_pi7 :: "'b op" where
  "m68k_op_bchg_8_s_pi7 s =
    (chain (OPER_I_8 s) (\<lambda>v s.
     let mask_v = push_bit (unat (v AND 7)) 1
     in chain (EA_A7_PI_8 s) (\<lambda>ea s.
        chain (m68ki_read_8 ea s) (\<lambda>src s.
        let s = s\<lparr>not_z_flag := src AND mask_v\<rparr>
        in m68ki_write_8 ea (src XOR mask_v) s))))"

definition m68k_op_bchg_8_s_pd :: "'b op" where
  "m68k_op_bchg_8_s_pd s =
    (chain (OPER_I_8 s) (\<lambda>v s.
     let mask_v = push_bit (unat (v AND 7)) 1
     in chain (EA_AY_PD_8 s) (\<lambda>ea s.
        chain (m68ki_read_8 ea s) (\<lambda>src s.
        let s = s\<lparr>not_z_flag := src AND mask_v\<rparr>
        in m68ki_write_8 ea (src XOR mask_v) s))))"

definition m68k_op_bchg_8_s_pd7 :: "'b op" where
  "m68k_op_bchg_8_s_pd7 s =
    (chain (OPER_I_8 s) (\<lambda>v s.
     let mask_v = push_bit (unat (v AND 7)) 1
     in chain (EA_A7_PD_8 s) (\<lambda>ea s.
        chain (m68ki_read_8 ea s) (\<lambda>src s.
        let s = s\<lparr>not_z_flag := src AND mask_v\<rparr>
        in m68ki_write_8 ea (src XOR mask_v) s))))"

definition m68k_op_bchg_8_s_di :: "'b op" where
  "m68k_op_bchg_8_s_di s =
    (chain (OPER_I_8 s) (\<lambda>v s.
     let mask_v = push_bit (unat (v AND 7)) 1
     in chain (EA_AY_DI_8 s) (\<lambda>ea s.
        chain (m68ki_read_8 ea s) (\<lambda>src s.
        let s = s\<lparr>not_z_flag := src AND mask_v\<rparr>
        in m68ki_write_8 ea (src XOR mask_v) s))))"

definition m68k_op_bchg_8_s_ix :: "'b op" where
  "m68k_op_bchg_8_s_ix s =
    (chain (OPER_I_8 s) (\<lambda>v s.
     let mask_v = push_bit (unat (v AND 7)) 1
     in chain (EA_AY_IX_8 s) (\<lambda>ea s.
        chain (m68ki_read_8 ea s) (\<lambda>src s.
        let s = s\<lparr>not_z_flag := src AND mask_v\<rparr>
        in m68ki_write_8 ea (src XOR mask_v) s))))"

definition m68k_op_bchg_8_s_aw :: "'b op" where
  "m68k_op_bchg_8_s_aw s =
    (chain (OPER_I_8 s) (\<lambda>v s.
     let mask_v = push_bit (unat (v AND 7)) 1
     in chain (EA_AW_8 s) (\<lambda>ea s.
        chain (m68ki_read_8 ea s) (\<lambda>src s.
        let s = s\<lparr>not_z_flag := src AND mask_v\<rparr>
        in m68ki_write_8 ea (src XOR mask_v) s))))"

definition m68k_op_bchg_8_s_al :: "'b op" where
  "m68k_op_bchg_8_s_al s =
    (chain (OPER_I_8 s) (\<lambda>v s.
     let mask_v = push_bit (unat (v AND 7)) 1
     in chain (EA_AL_8 s) (\<lambda>ea s.
        chain (m68ki_read_8 ea s) (\<lambda>src s.
        let s = s\<lparr>not_z_flag := src AND mask_v\<rparr>
        in m68ki_write_8 ea (src XOR mask_v) s))))"

definition m68k_op_bclr_32_r_d :: "'b op" where
  "m68k_op_bclr_32_r_d s =
    (let mask_v = push_bit (unat (DX s AND 0x1f)) 1;
         s = s\<lparr>not_z_flag := DY s AND mask_v\<rparr>
     in Ret () (set_DY ((DY s) AND (NOT mask_v)) s))"

definition m68k_op_bclr_8_r_ai :: "'b op" where
  "m68k_op_bclr_8_r_ai s =
    (chain (EA_AY_AI_8 s) (\<lambda>ea s.
     chain (m68ki_read_8 ea s) (\<lambda>src s.
     let mask_v = push_bit (unat (DX s AND 7)) 1;
         s = s\<lparr>not_z_flag := src AND mask_v\<rparr>
     in m68ki_write_8 ea (src AND (NOT mask_v)) s)))"

definition m68k_op_bclr_8_r_pi :: "'b op" where
  "m68k_op_bclr_8_r_pi s =
    (chain (EA_AY_PI_8 s) (\<lambda>ea s.
     chain (m68ki_read_8 ea s) (\<lambda>src s.
     let mask_v = push_bit (unat (DX s AND 7)) 1;
         s = s\<lparr>not_z_flag := src AND mask_v\<rparr>
     in m68ki_write_8 ea (src AND (NOT mask_v)) s)))"

definition m68k_op_bclr_8_r_pi7 :: "'b op" where
  "m68k_op_bclr_8_r_pi7 s =
    (chain (EA_A7_PI_8 s) (\<lambda>ea s.
     chain (m68ki_read_8 ea s) (\<lambda>src s.
     let mask_v = push_bit (unat (DX s AND 7)) 1;
         s = s\<lparr>not_z_flag := src AND mask_v\<rparr>
     in m68ki_write_8 ea (src AND (NOT mask_v)) s)))"

definition m68k_op_bclr_8_r_pd :: "'b op" where
  "m68k_op_bclr_8_r_pd s =
    (chain (EA_AY_PD_8 s) (\<lambda>ea s.
     chain (m68ki_read_8 ea s) (\<lambda>src s.
     let mask_v = push_bit (unat (DX s AND 7)) 1;
         s = s\<lparr>not_z_flag := src AND mask_v\<rparr>
     in m68ki_write_8 ea (src AND (NOT mask_v)) s)))"

definition m68k_op_bclr_8_r_pd7 :: "'b op" where
  "m68k_op_bclr_8_r_pd7 s =
    (chain (EA_A7_PD_8 s) (\<lambda>ea s.
     chain (m68ki_read_8 ea s) (\<lambda>src s.
     let mask_v = push_bit (unat (DX s AND 7)) 1;
         s = s\<lparr>not_z_flag := src AND mask_v\<rparr>
     in m68ki_write_8 ea (src AND (NOT mask_v)) s)))"

definition m68k_op_bclr_8_r_di :: "'b op" where
  "m68k_op_bclr_8_r_di s =
    (chain (EA_AY_DI_8 s) (\<lambda>ea s.
     chain (m68ki_read_8 ea s) (\<lambda>src s.
     let mask_v = push_bit (unat (DX s AND 7)) 1;
         s = s\<lparr>not_z_flag := src AND mask_v\<rparr>
     in m68ki_write_8 ea (src AND (NOT mask_v)) s)))"

definition m68k_op_bclr_8_r_ix :: "'b op" where
  "m68k_op_bclr_8_r_ix s =
    (chain (EA_AY_IX_8 s) (\<lambda>ea s.
     chain (m68ki_read_8 ea s) (\<lambda>src s.
     let mask_v = push_bit (unat (DX s AND 7)) 1;
         s = s\<lparr>not_z_flag := src AND mask_v\<rparr>
     in m68ki_write_8 ea (src AND (NOT mask_v)) s)))"

definition m68k_op_bclr_8_r_aw :: "'b op" where
  "m68k_op_bclr_8_r_aw s =
    (chain (EA_AW_8 s) (\<lambda>ea s.
     chain (m68ki_read_8 ea s) (\<lambda>src s.
     let mask_v = push_bit (unat (DX s AND 7)) 1;
         s = s\<lparr>not_z_flag := src AND mask_v\<rparr>
     in m68ki_write_8 ea (src AND (NOT mask_v)) s)))"

definition m68k_op_bclr_8_r_al :: "'b op" where
  "m68k_op_bclr_8_r_al s =
    (chain (EA_AL_8 s) (\<lambda>ea s.
     chain (m68ki_read_8 ea s) (\<lambda>src s.
     let mask_v = push_bit (unat (DX s AND 7)) 1;
         s = s\<lparr>not_z_flag := src AND mask_v\<rparr>
     in m68ki_write_8 ea (src AND (NOT mask_v)) s)))"

definition m68k_op_bclr_32_s_d :: "'b op" where
  "m68k_op_bclr_32_s_d s =
    (chain (OPER_I_8 s) (\<lambda>v s.
     let mask_v = push_bit (unat (v AND 0x1f)) 1;
         s = s\<lparr>not_z_flag := DY s AND mask_v\<rparr>
     in Ret () (set_DY ((DY s) AND (NOT mask_v)) s)))"

definition m68k_op_bclr_8_s_ai :: "'b op" where
  "m68k_op_bclr_8_s_ai s =
    (chain (OPER_I_8 s) (\<lambda>v s.
     let mask_v = push_bit (unat (v AND 7)) 1
     in chain (EA_AY_AI_8 s) (\<lambda>ea s.
        chain (m68ki_read_8 ea s) (\<lambda>src s.
        let s = s\<lparr>not_z_flag := src AND mask_v\<rparr>
        in m68ki_write_8 ea (src AND (NOT mask_v)) s))))"

definition m68k_op_bclr_8_s_pi :: "'b op" where
  "m68k_op_bclr_8_s_pi s =
    (chain (OPER_I_8 s) (\<lambda>v s.
     let mask_v = push_bit (unat (v AND 7)) 1
     in chain (EA_AY_PI_8 s) (\<lambda>ea s.
        chain (m68ki_read_8 ea s) (\<lambda>src s.
        let s = s\<lparr>not_z_flag := src AND mask_v\<rparr>
        in m68ki_write_8 ea (src AND (NOT mask_v)) s))))"

definition m68k_op_bclr_8_s_pi7 :: "'b op" where
  "m68k_op_bclr_8_s_pi7 s =
    (chain (OPER_I_8 s) (\<lambda>v s.
     let mask_v = push_bit (unat (v AND 7)) 1
     in chain (EA_A7_PI_8 s) (\<lambda>ea s.
        chain (m68ki_read_8 ea s) (\<lambda>src s.
        let s = s\<lparr>not_z_flag := src AND mask_v\<rparr>
        in m68ki_write_8 ea (src AND (NOT mask_v)) s))))"

definition m68k_op_bclr_8_s_pd :: "'b op" where
  "m68k_op_bclr_8_s_pd s =
    (chain (OPER_I_8 s) (\<lambda>v s.
     let mask_v = push_bit (unat (v AND 7)) 1
     in chain (EA_AY_PD_8 s) (\<lambda>ea s.
        chain (m68ki_read_8 ea s) (\<lambda>src s.
        let s = s\<lparr>not_z_flag := src AND mask_v\<rparr>
        in m68ki_write_8 ea (src AND (NOT mask_v)) s))))"

definition m68k_op_bclr_8_s_pd7 :: "'b op" where
  "m68k_op_bclr_8_s_pd7 s =
    (chain (OPER_I_8 s) (\<lambda>v s.
     let mask_v = push_bit (unat (v AND 7)) 1
     in chain (EA_A7_PD_8 s) (\<lambda>ea s.
        chain (m68ki_read_8 ea s) (\<lambda>src s.
        let s = s\<lparr>not_z_flag := src AND mask_v\<rparr>
        in m68ki_write_8 ea (src AND (NOT mask_v)) s))))"

definition m68k_op_bclr_8_s_di :: "'b op" where
  "m68k_op_bclr_8_s_di s =
    (chain (OPER_I_8 s) (\<lambda>v s.
     let mask_v = push_bit (unat (v AND 7)) 1
     in chain (EA_AY_DI_8 s) (\<lambda>ea s.
        chain (m68ki_read_8 ea s) (\<lambda>src s.
        let s = s\<lparr>not_z_flag := src AND mask_v\<rparr>
        in m68ki_write_8 ea (src AND (NOT mask_v)) s))))"

definition m68k_op_bclr_8_s_ix :: "'b op" where
  "m68k_op_bclr_8_s_ix s =
    (chain (OPER_I_8 s) (\<lambda>v s.
     let mask_v = push_bit (unat (v AND 7)) 1
     in chain (EA_AY_IX_8 s) (\<lambda>ea s.
        chain (m68ki_read_8 ea s) (\<lambda>src s.
        let s = s\<lparr>not_z_flag := src AND mask_v\<rparr>
        in m68ki_write_8 ea (src AND (NOT mask_v)) s))))"

definition m68k_op_bclr_8_s_aw :: "'b op" where
  "m68k_op_bclr_8_s_aw s =
    (chain (OPER_I_8 s) (\<lambda>v s.
     let mask_v = push_bit (unat (v AND 7)) 1
     in chain (EA_AW_8 s) (\<lambda>ea s.
        chain (m68ki_read_8 ea s) (\<lambda>src s.
        let s = s\<lparr>not_z_flag := src AND mask_v\<rparr>
        in m68ki_write_8 ea (src AND (NOT mask_v)) s))))"

definition m68k_op_bclr_8_s_al :: "'b op" where
  "m68k_op_bclr_8_s_al s =
    (chain (OPER_I_8 s) (\<lambda>v s.
     let mask_v = push_bit (unat (v AND 7)) 1
     in chain (EA_AL_8 s) (\<lambda>ea s.
        chain (m68ki_read_8 ea s) (\<lambda>src s.
        let s = s\<lparr>not_z_flag := src AND mask_v\<rparr>
        in m68ki_write_8 ea (src AND (NOT mask_v)) s))))"

definition m68k_op_bset_32_r_d :: "'b op" where
  "m68k_op_bset_32_r_d s =
    (let mask_v = push_bit (unat (DX s AND 0x1f)) 1;
         s = s\<lparr>not_z_flag := DY s AND mask_v\<rparr>
     in Ret () (set_DY ((DY s) OR mask_v) s))"

definition m68k_op_bset_8_r_ai :: "'b op" where
  "m68k_op_bset_8_r_ai s =
    (chain (EA_AY_AI_8 s) (\<lambda>ea s.
     chain (m68ki_read_8 ea s) (\<lambda>src s.
     let mask_v = push_bit (unat (DX s AND 7)) 1;
         s = s\<lparr>not_z_flag := src AND mask_v\<rparr>
     in m68ki_write_8 ea (src OR mask_v) s)))"

definition m68k_op_bset_8_r_pi :: "'b op" where
  "m68k_op_bset_8_r_pi s =
    (chain (EA_AY_PI_8 s) (\<lambda>ea s.
     chain (m68ki_read_8 ea s) (\<lambda>src s.
     let mask_v = push_bit (unat (DX s AND 7)) 1;
         s = s\<lparr>not_z_flag := src AND mask_v\<rparr>
     in m68ki_write_8 ea (src OR mask_v) s)))"

definition m68k_op_bset_8_r_pi7 :: "'b op" where
  "m68k_op_bset_8_r_pi7 s =
    (chain (EA_A7_PI_8 s) (\<lambda>ea s.
     chain (m68ki_read_8 ea s) (\<lambda>src s.
     let mask_v = push_bit (unat (DX s AND 7)) 1;
         s = s\<lparr>not_z_flag := src AND mask_v\<rparr>
     in m68ki_write_8 ea (src OR mask_v) s)))"

definition m68k_op_bset_8_r_pd :: "'b op" where
  "m68k_op_bset_8_r_pd s =
    (chain (EA_AY_PD_8 s) (\<lambda>ea s.
     chain (m68ki_read_8 ea s) (\<lambda>src s.
     let mask_v = push_bit (unat (DX s AND 7)) 1;
         s = s\<lparr>not_z_flag := src AND mask_v\<rparr>
     in m68ki_write_8 ea (src OR mask_v) s)))"

definition m68k_op_bset_8_r_pd7 :: "'b op" where
  "m68k_op_bset_8_r_pd7 s =
    (chain (EA_A7_PD_8 s) (\<lambda>ea s.
     chain (m68ki_read_8 ea s) (\<lambda>src s.
     let mask_v = push_bit (unat (DX s AND 7)) 1;
         s = s\<lparr>not_z_flag := src AND mask_v\<rparr>
     in m68ki_write_8 ea (src OR mask_v) s)))"

definition m68k_op_bset_8_r_di :: "'b op" where
  "m68k_op_bset_8_r_di s =
    (chain (EA_AY_DI_8 s) (\<lambda>ea s.
     chain (m68ki_read_8 ea s) (\<lambda>src s.
     let mask_v = push_bit (unat (DX s AND 7)) 1;
         s = s\<lparr>not_z_flag := src AND mask_v\<rparr>
     in m68ki_write_8 ea (src OR mask_v) s)))"

definition m68k_op_bset_8_r_ix :: "'b op" where
  "m68k_op_bset_8_r_ix s =
    (chain (EA_AY_IX_8 s) (\<lambda>ea s.
     chain (m68ki_read_8 ea s) (\<lambda>src s.
     let mask_v = push_bit (unat (DX s AND 7)) 1;
         s = s\<lparr>not_z_flag := src AND mask_v\<rparr>
     in m68ki_write_8 ea (src OR mask_v) s)))"

definition m68k_op_bset_8_r_aw :: "'b op" where
  "m68k_op_bset_8_r_aw s =
    (chain (EA_AW_8 s) (\<lambda>ea s.
     chain (m68ki_read_8 ea s) (\<lambda>src s.
     let mask_v = push_bit (unat (DX s AND 7)) 1;
         s = s\<lparr>not_z_flag := src AND mask_v\<rparr>
     in m68ki_write_8 ea (src OR mask_v) s)))"

definition m68k_op_bset_8_r_al :: "'b op" where
  "m68k_op_bset_8_r_al s =
    (chain (EA_AL_8 s) (\<lambda>ea s.
     chain (m68ki_read_8 ea s) (\<lambda>src s.
     let mask_v = push_bit (unat (DX s AND 7)) 1;
         s = s\<lparr>not_z_flag := src AND mask_v\<rparr>
     in m68ki_write_8 ea (src OR mask_v) s)))"

definition m68k_op_bset_32_s_d :: "'b op" where
  "m68k_op_bset_32_s_d s =
    (chain (OPER_I_8 s) (\<lambda>v s.
     let mask_v = push_bit (unat (v AND 0x1f)) 1;
         s = s\<lparr>not_z_flag := DY s AND mask_v\<rparr>
     in Ret () (set_DY ((DY s) OR mask_v) s)))"

definition m68k_op_bset_8_s_ai :: "'b op" where
  "m68k_op_bset_8_s_ai s =
    (chain (OPER_I_8 s) (\<lambda>v s.
     let mask_v = push_bit (unat (v AND 7)) 1
     in chain (EA_AY_AI_8 s) (\<lambda>ea s.
        chain (m68ki_read_8 ea s) (\<lambda>src s.
        let s = s\<lparr>not_z_flag := src AND mask_v\<rparr>
        in m68ki_write_8 ea (src OR mask_v) s))))"

definition m68k_op_bset_8_s_pi :: "'b op" where
  "m68k_op_bset_8_s_pi s =
    (chain (OPER_I_8 s) (\<lambda>v s.
     let mask_v = push_bit (unat (v AND 7)) 1
     in chain (EA_AY_PI_8 s) (\<lambda>ea s.
        chain (m68ki_read_8 ea s) (\<lambda>src s.
        let s = s\<lparr>not_z_flag := src AND mask_v\<rparr>
        in m68ki_write_8 ea (src OR mask_v) s))))"

definition m68k_op_bset_8_s_pi7 :: "'b op" where
  "m68k_op_bset_8_s_pi7 s =
    (chain (OPER_I_8 s) (\<lambda>v s.
     let mask_v = push_bit (unat (v AND 7)) 1
     in chain (EA_A7_PI_8 s) (\<lambda>ea s.
        chain (m68ki_read_8 ea s) (\<lambda>src s.
        let s = s\<lparr>not_z_flag := src AND mask_v\<rparr>
        in m68ki_write_8 ea (src OR mask_v) s))))"

definition m68k_op_bset_8_s_pd :: "'b op" where
  "m68k_op_bset_8_s_pd s =
    (chain (OPER_I_8 s) (\<lambda>v s.
     let mask_v = push_bit (unat (v AND 7)) 1
     in chain (EA_AY_PD_8 s) (\<lambda>ea s.
        chain (m68ki_read_8 ea s) (\<lambda>src s.
        let s = s\<lparr>not_z_flag := src AND mask_v\<rparr>
        in m68ki_write_8 ea (src OR mask_v) s))))"

definition m68k_op_bset_8_s_pd7 :: "'b op" where
  "m68k_op_bset_8_s_pd7 s =
    (chain (OPER_I_8 s) (\<lambda>v s.
     let mask_v = push_bit (unat (v AND 7)) 1
     in chain (EA_A7_PD_8 s) (\<lambda>ea s.
        chain (m68ki_read_8 ea s) (\<lambda>src s.
        let s = s\<lparr>not_z_flag := src AND mask_v\<rparr>
        in m68ki_write_8 ea (src OR mask_v) s))))"

definition m68k_op_bset_8_s_di :: "'b op" where
  "m68k_op_bset_8_s_di s =
    (chain (OPER_I_8 s) (\<lambda>v s.
     let mask_v = push_bit (unat (v AND 7)) 1
     in chain (EA_AY_DI_8 s) (\<lambda>ea s.
        chain (m68ki_read_8 ea s) (\<lambda>src s.
        let s = s\<lparr>not_z_flag := src AND mask_v\<rparr>
        in m68ki_write_8 ea (src OR mask_v) s))))"

definition m68k_op_bset_8_s_ix :: "'b op" where
  "m68k_op_bset_8_s_ix s =
    (chain (OPER_I_8 s) (\<lambda>v s.
     let mask_v = push_bit (unat (v AND 7)) 1
     in chain (EA_AY_IX_8 s) (\<lambda>ea s.
        chain (m68ki_read_8 ea s) (\<lambda>src s.
        let s = s\<lparr>not_z_flag := src AND mask_v\<rparr>
        in m68ki_write_8 ea (src OR mask_v) s))))"

definition m68k_op_bset_8_s_aw :: "'b op" where
  "m68k_op_bset_8_s_aw s =
    (chain (OPER_I_8 s) (\<lambda>v s.
     let mask_v = push_bit (unat (v AND 7)) 1
     in chain (EA_AW_8 s) (\<lambda>ea s.
        chain (m68ki_read_8 ea s) (\<lambda>src s.
        let s = s\<lparr>not_z_flag := src AND mask_v\<rparr>
        in m68ki_write_8 ea (src OR mask_v) s))))"

definition m68k_op_bset_8_s_al :: "'b op" where
  "m68k_op_bset_8_s_al s =
    (chain (OPER_I_8 s) (\<lambda>v s.
     let mask_v = push_bit (unat (v AND 7)) 1
     in chain (EA_AL_8 s) (\<lambda>ea s.
        chain (m68ki_read_8 ea s) (\<lambda>src s.
        let s = s\<lparr>not_z_flag := src AND mask_v\<rparr>
        in m68ki_write_8 ea (src OR mask_v) s))))"

definition m68k_op_btst_32_r_d :: "'b op" where
  "m68k_op_btst_32_r_d s =
    (Ret () (s\<lparr>not_z_flag := DY s AND push_bit (unat (DX s AND 0x1f)) 1\<rparr>))"

definition m68k_op_btst_8_r_ai :: "'b op" where
  "m68k_op_btst_8_r_ai s =
    (chain (OPER_AY_AI_8 s) (\<lambda>v s.
     Ret () (s\<lparr>not_z_flag := v AND push_bit (unat (DX s AND 7)) 1\<rparr>)))"

definition m68k_op_btst_8_r_pi :: "'b op" where
  "m68k_op_btst_8_r_pi s =
    (chain (OPER_AY_PI_8 s) (\<lambda>v s.
     Ret () (s\<lparr>not_z_flag := v AND push_bit (unat (DX s AND 7)) 1\<rparr>)))"

definition m68k_op_btst_8_r_pi7 :: "'b op" where
  "m68k_op_btst_8_r_pi7 s =
    (chain (OPER_A7_PI_8 s) (\<lambda>v s.
     Ret () (s\<lparr>not_z_flag := v AND push_bit (unat (DX s AND 7)) 1\<rparr>)))"

definition m68k_op_btst_8_r_pd :: "'b op" where
  "m68k_op_btst_8_r_pd s =
    (chain (OPER_AY_PD_8 s) (\<lambda>v s.
     Ret () (s\<lparr>not_z_flag := v AND push_bit (unat (DX s AND 7)) 1\<rparr>)))"

definition m68k_op_btst_8_r_pd7 :: "'b op" where
  "m68k_op_btst_8_r_pd7 s =
    (chain (OPER_A7_PD_8 s) (\<lambda>v s.
     Ret () (s\<lparr>not_z_flag := v AND push_bit (unat (DX s AND 7)) 1\<rparr>)))"

definition m68k_op_btst_8_r_di :: "'b op" where
  "m68k_op_btst_8_r_di s =
    (chain (OPER_AY_DI_8 s) (\<lambda>v s.
     Ret () (s\<lparr>not_z_flag := v AND push_bit (unat (DX s AND 7)) 1\<rparr>)))"

definition m68k_op_btst_8_r_ix :: "'b op" where
  "m68k_op_btst_8_r_ix s =
    (chain (OPER_AY_IX_8 s) (\<lambda>v s.
     Ret () (s\<lparr>not_z_flag := v AND push_bit (unat (DX s AND 7)) 1\<rparr>)))"

definition m68k_op_btst_8_r_aw :: "'b op" where
  "m68k_op_btst_8_r_aw s =
    (chain (OPER_AW_8 s) (\<lambda>v s.
     Ret () (s\<lparr>not_z_flag := v AND push_bit (unat (DX s AND 7)) 1\<rparr>)))"

definition m68k_op_btst_8_r_al :: "'b op" where
  "m68k_op_btst_8_r_al s =
    (chain (OPER_AL_8 s) (\<lambda>v s.
     Ret () (s\<lparr>not_z_flag := v AND push_bit (unat (DX s AND 7)) 1\<rparr>)))"

definition m68k_op_btst_8_r_pcdi :: "'b op" where
  "m68k_op_btst_8_r_pcdi s =
    (chain (OPER_PCDI_8 s) (\<lambda>v s.
     Ret () (s\<lparr>not_z_flag := v AND push_bit (unat (DX s AND 7)) 1\<rparr>)))"

definition m68k_op_btst_8_r_pcix :: "'b op" where
  "m68k_op_btst_8_r_pcix s =
    (chain (OPER_PCIX_8 s) (\<lambda>v s.
     Ret () (s\<lparr>not_z_flag := v AND push_bit (unat (DX s AND 7)) 1\<rparr>)))"

definition m68k_op_btst_8_r_i :: "'b op" where
  "m68k_op_btst_8_r_i s =
    (chain (OPER_I_8 s) (\<lambda>v s.
     Ret () (s\<lparr>not_z_flag := v AND push_bit (unat (DX s AND 7)) 1\<rparr>)))"

definition m68k_op_btst_32_s_d :: "'b op" where
  "m68k_op_btst_32_s_d s =
    (chain (OPER_I_8 s) (\<lambda>v s.
     Ret () (s\<lparr>not_z_flag := DY s AND push_bit (unat (v AND 0x1f)) 1\<rparr>)))"

definition m68k_op_btst_8_s_ai :: "'b op" where
  "m68k_op_btst_8_s_ai s =
    (chain (OPER_I_8 s) (\<lambda>v s.
     let bit_v = v AND 7
     in chain (OPER_AY_AI_8 s) (\<lambda>v2 s.
        Ret () (s\<lparr>not_z_flag := v2 AND push_bit (unat bit_v) 1\<rparr>))))"

definition m68k_op_btst_8_s_pi :: "'b op" where
  "m68k_op_btst_8_s_pi s =
    (chain (OPER_I_8 s) (\<lambda>v s.
     let bit_v = v AND 7
     in chain (OPER_AY_PI_8 s) (\<lambda>v2 s.
        Ret () (s\<lparr>not_z_flag := v2 AND push_bit (unat bit_v) 1\<rparr>))))"

definition m68k_op_btst_8_s_pi7 :: "'b op" where
  "m68k_op_btst_8_s_pi7 s =
    (chain (OPER_I_8 s) (\<lambda>v s.
     let bit_v = v AND 7
     in chain (OPER_A7_PI_8 s) (\<lambda>v2 s.
        Ret () (s\<lparr>not_z_flag := v2 AND push_bit (unat bit_v) 1\<rparr>))))"

definition m68k_op_btst_8_s_pd :: "'b op" where
  "m68k_op_btst_8_s_pd s =
    (chain (OPER_I_8 s) (\<lambda>v s.
     let bit_v = v AND 7
     in chain (OPER_AY_PD_8 s) (\<lambda>v2 s.
        Ret () (s\<lparr>not_z_flag := v2 AND push_bit (unat bit_v) 1\<rparr>))))"

definition m68k_op_btst_8_s_pd7 :: "'b op" where
  "m68k_op_btst_8_s_pd7 s =
    (chain (OPER_I_8 s) (\<lambda>v s.
     let bit_v = v AND 7
     in chain (OPER_A7_PD_8 s) (\<lambda>v2 s.
        Ret () (s\<lparr>not_z_flag := v2 AND push_bit (unat bit_v) 1\<rparr>))))"

definition m68k_op_btst_8_s_di :: "'b op" where
  "m68k_op_btst_8_s_di s =
    (chain (OPER_I_8 s) (\<lambda>v s.
     let bit_v = v AND 7
     in chain (OPER_AY_DI_8 s) (\<lambda>v2 s.
        Ret () (s\<lparr>not_z_flag := v2 AND push_bit (unat bit_v) 1\<rparr>))))"

definition m68k_op_btst_8_s_ix :: "'b op" where
  "m68k_op_btst_8_s_ix s =
    (chain (OPER_I_8 s) (\<lambda>v s.
     let bit_v = v AND 7
     in chain (OPER_AY_IX_8 s) (\<lambda>v2 s.
        Ret () (s\<lparr>not_z_flag := v2 AND push_bit (unat bit_v) 1\<rparr>))))"

definition m68k_op_btst_8_s_aw :: "'b op" where
  "m68k_op_btst_8_s_aw s =
    (chain (OPER_I_8 s) (\<lambda>v s.
     let bit_v = v AND 7
     in chain (OPER_AW_8 s) (\<lambda>v2 s.
        Ret () (s\<lparr>not_z_flag := v2 AND push_bit (unat bit_v) 1\<rparr>))))"

definition m68k_op_btst_8_s_al :: "'b op" where
  "m68k_op_btst_8_s_al s =
    (chain (OPER_I_8 s) (\<lambda>v s.
     let bit_v = v AND 7
     in chain (OPER_AL_8 s) (\<lambda>v2 s.
        Ret () (s\<lparr>not_z_flag := v2 AND push_bit (unat bit_v) 1\<rparr>))))"

definition m68k_op_btst_8_s_pcdi :: "'b op" where
  "m68k_op_btst_8_s_pcdi s =
    (chain (OPER_I_8 s) (\<lambda>v s.
     let bit_v = v AND 7
     in chain (OPER_PCDI_8 s) (\<lambda>v2 s.
        Ret () (s\<lparr>not_z_flag := v2 AND push_bit (unat bit_v) 1\<rparr>))))"

definition m68k_op_btst_8_s_pcix :: "'b op" where
  "m68k_op_btst_8_s_pcix s =
    (chain (OPER_I_8 s) (\<lambda>v s.
     let bit_v = v AND 7
     in chain (OPER_PCIX_8 s) (\<lambda>v2 s.
        Ret () (s\<lparr>not_z_flag := v2 AND push_bit (unat bit_v) 1\<rparr>))))"

definition m68k_op_tas_8_d :: "'b op" where
  "m68k_op_tas_8_d s =
    (let s = s\<lparr>not_z_flag := MASK_OUT_ABOVE_8 (DY s),
               n_flag := NFLAG_8 (DY s),
               v_flag := VFLAG_CLEAR,
               c_flag := CFLAG_CLEAR\<rparr>
     in Ret () (set_DY ((DY s) OR 0x80) s))"

definition m68k_op_tas_8_ai :: "'b op" where
  "m68k_op_tas_8_ai s =
    (chain (EA_AY_AI_8 s) (\<lambda>ea s.
     chain (m68ki_read_8 ea s) (\<lambda>dst s.
     let s = s\<lparr>not_z_flag := dst,
               n_flag := NFLAG_8 dst,
               v_flag := VFLAG_CLEAR,
               c_flag := CFLAG_CLEAR\<rparr>;
         allow_writeback = m68ki_tas_callback
     in if allow_writeback = 1
        then m68ki_write_8 ea (dst OR 0x80) s
        else Ret () s)))"

definition m68k_op_tas_8_pi :: "'b op" where
  "m68k_op_tas_8_pi s =
    (chain (EA_AY_PI_8 s) (\<lambda>ea s.
     chain (m68ki_read_8 ea s) (\<lambda>dst s.
     let s = s\<lparr>not_z_flag := dst,
               n_flag := NFLAG_8 dst,
               v_flag := VFLAG_CLEAR,
               c_flag := CFLAG_CLEAR\<rparr>;
         allow_writeback = m68ki_tas_callback
     in if allow_writeback = 1
        then m68ki_write_8 ea (dst OR 0x80) s
        else Ret () s)))"

definition m68k_op_tas_8_pi7 :: "'b op" where
  "m68k_op_tas_8_pi7 s =
    (chain (EA_A7_PI_8 s) (\<lambda>ea s.
     chain (m68ki_read_8 ea s) (\<lambda>dst s.
     let s = s\<lparr>not_z_flag := dst,
               n_flag := NFLAG_8 dst,
               v_flag := VFLAG_CLEAR,
               c_flag := CFLAG_CLEAR\<rparr>;
         allow_writeback = m68ki_tas_callback
     in if allow_writeback = 1
        then m68ki_write_8 ea (dst OR 0x80) s
        else Ret () s)))"

definition m68k_op_tas_8_pd :: "'b op" where
  "m68k_op_tas_8_pd s =
    (chain (EA_AY_PD_8 s) (\<lambda>ea s.
     chain (m68ki_read_8 ea s) (\<lambda>dst s.
     let s = s\<lparr>not_z_flag := dst,
               n_flag := NFLAG_8 dst,
               v_flag := VFLAG_CLEAR,
               c_flag := CFLAG_CLEAR\<rparr>;
         allow_writeback = m68ki_tas_callback
     in if allow_writeback = 1
        then m68ki_write_8 ea (dst OR 0x80) s
        else Ret () s)))"

definition m68k_op_tas_8_pd7 :: "'b op" where
  "m68k_op_tas_8_pd7 s =
    (chain (EA_A7_PD_8 s) (\<lambda>ea s.
     chain (m68ki_read_8 ea s) (\<lambda>dst s.
     let s = s\<lparr>not_z_flag := dst,
               n_flag := NFLAG_8 dst,
               v_flag := VFLAG_CLEAR,
               c_flag := CFLAG_CLEAR\<rparr>;
         allow_writeback = m68ki_tas_callback
     in if allow_writeback = 1
        then m68ki_write_8 ea (dst OR 0x80) s
        else Ret () s)))"

definition m68k_op_tas_8_di :: "'b op" where
  "m68k_op_tas_8_di s =
    (chain (EA_AY_DI_8 s) (\<lambda>ea s.
     chain (m68ki_read_8 ea s) (\<lambda>dst s.
     let s = s\<lparr>not_z_flag := dst,
               n_flag := NFLAG_8 dst,
               v_flag := VFLAG_CLEAR,
               c_flag := CFLAG_CLEAR\<rparr>;
         allow_writeback = m68ki_tas_callback
     in if allow_writeback = 1
        then m68ki_write_8 ea (dst OR 0x80) s
        else Ret () s)))"

definition m68k_op_tas_8_ix :: "'b op" where
  "m68k_op_tas_8_ix s =
    (chain (EA_AY_IX_8 s) (\<lambda>ea s.
     chain (m68ki_read_8 ea s) (\<lambda>dst s.
     let s = s\<lparr>not_z_flag := dst,
               n_flag := NFLAG_8 dst,
               v_flag := VFLAG_CLEAR,
               c_flag := CFLAG_CLEAR\<rparr>;
         allow_writeback = m68ki_tas_callback
     in if allow_writeback = 1
        then m68ki_write_8 ea (dst OR 0x80) s
        else Ret () s)))"

definition m68k_op_tas_8_aw :: "'b op" where
  "m68k_op_tas_8_aw s =
    (chain (EA_AW_8 s) (\<lambda>ea s.
     chain (m68ki_read_8 ea s) (\<lambda>dst s.
     let s = s\<lparr>not_z_flag := dst,
               n_flag := NFLAG_8 dst,
               v_flag := VFLAG_CLEAR,
               c_flag := CFLAG_CLEAR\<rparr>;
         allow_writeback = m68ki_tas_callback
     in if allow_writeback = 1
        then m68ki_write_8 ea (dst OR 0x80) s
        else Ret () s)))"

definition m68k_op_tas_8_al :: "'b op" where
  "m68k_op_tas_8_al s =
    (chain (EA_AL_8 s) (\<lambda>ea s.
     chain (m68ki_read_8 ea s) (\<lambda>dst s.
     let s = s\<lparr>not_z_flag := dst,
               n_flag := NFLAG_8 dst,
               v_flag := VFLAG_CLEAR,
               c_flag := CFLAG_CLEAR\<rparr>;
         allow_writeback = m68ki_tas_callback
     in if allow_writeback = 1
        then m68ki_write_8 ea (dst OR 0x80) s
        else Ret () s)))"

end
