(* ===== verification/OpsBitField.thy ===== *)
theory OpsBitField
  imports OpsBase
begin

section \<open>Instruction handlers: the bit field instructions of the 68020\<close>

text \<open>
  The handlers of m68kops.c for the bit field instructions of the 68020.
  One definition per handler, under the name of its C function; the effective address is part of
  the name.
\<close>

unbundle bit_operations_syntax

definition m68k_op_bfchg_32_d :: "'b op" where
  "m68k_op_bfchg_32_d s =
    (if CPU_TYPE_IS_EC020_PLUS (cpu_type s)
     then chain (OPER_I_16 s) (\<lambda>word2 s.
          let offset = drop_bit 6 word2 AND 31;
              width = word2;
              offset = (if BIT 11 word2 \<noteq> 0
                        then REG_D s (offset AND 7)
                        else offset);
              width = (if BIT 5 word2 \<noteq> 0
                       then REG_D s (width AND 7)
                       else width);
              offset = offset AND 31;
              width = ((width - 1) AND 31) + 1;
              mask_v = (ucast (MASK_OUT_ABOVE_32 (push_bit (unat (32 - width)) 0xffffffff)) :: u64);
              mask_v = (ROR_32_u64 mask_v offset :: u64);
              s = s\<lparr>n_flag := NFLAG_32 (push_bit (unat offset) (DY s)),
                    not_z_flag := (ucast ((ucast (DY s)) AND mask_v)),
                    v_flag := VFLAG_CLEAR,
                    c_flag := CFLAG_CLEAR\<rparr>
          in Ret () (set_DY (ucast ((ucast (DY s)) XOR mask_v)) s))
     else m68ki_exception_illegal s)"

definition m68k_op_bfchg_32_ai :: "'b op" where
  "m68k_op_bfchg_32_ai s =
    (if CPU_TYPE_IS_EC020_PLUS (cpu_type s)
     then chain (OPER_I_16 s) (\<lambda>word2 s.
          let offset = drop_bit 6 word2 AND 31;
              width = word2;
              data_byte = (0 :: u32);
              mask_byte = (0 :: u32)
          in chain (EA_AY_AI_8 s) (\<lambda>ea s.
             let offset = (if BIT 11 word2 \<noteq> 0
                           then REG_D s (offset AND 7)
                           else offset);
                 width = (if BIT 5 word2 \<noteq> 0
                          then REG_D s (width AND 7)
                          else width);
                 width = ((width - 1) AND 31) + 1;
                 mask_base = MASK_OUT_ABOVE_32 (push_bit (unat (32 - width)) 0xffffffff);
                 ea = m68ki_bitfield_patch_ea ea offset;
                 offset = m68ki_bitfield_patch_offset offset
             in chain (m68ki_load_bitfield ea offset width s) (\<lambda>data_v s.
                let s = s\<lparr>n_flag := NFLAG_32 (bf_field data_v AND mask_base),
                          not_z_flag := bf_field data_v AND mask_base,
                          v_flag := VFLAG_CLEAR,
                          c_flag := CFLAG_CLEAR\<rparr>;
                    data_v = data_v\<lparr>bf_field := (bf_field data_v) XOR mask_base\<rparr>
                in m68ki_store_bitfield ea offset width (bf_field data_v) data_v s)))
     else m68ki_exception_illegal s)"

definition m68k_op_bfchg_32_di :: "'b op" where
  "m68k_op_bfchg_32_di s =
    (if CPU_TYPE_IS_EC020_PLUS (cpu_type s)
     then chain (OPER_I_16 s) (\<lambda>word2 s.
          let offset = drop_bit 6 word2 AND 31;
              width = word2;
              data_byte = (0 :: u32);
              mask_byte = (0 :: u32)
          in chain (EA_AY_DI_8 s) (\<lambda>ea s.
             let offset = (if BIT 11 word2 \<noteq> 0
                           then REG_D s (offset AND 7)
                           else offset);
                 width = (if BIT 5 word2 \<noteq> 0
                          then REG_D s (width AND 7)
                          else width);
                 width = ((width - 1) AND 31) + 1;
                 mask_base = MASK_OUT_ABOVE_32 (push_bit (unat (32 - width)) 0xffffffff);
                 ea = m68ki_bitfield_patch_ea ea offset;
                 offset = m68ki_bitfield_patch_offset offset
             in chain (m68ki_load_bitfield ea offset width s) (\<lambda>data_v s.
                let s = s\<lparr>n_flag := NFLAG_32 (bf_field data_v AND mask_base),
                          not_z_flag := bf_field data_v AND mask_base,
                          v_flag := VFLAG_CLEAR,
                          c_flag := CFLAG_CLEAR\<rparr>;
                    data_v = data_v\<lparr>bf_field := (bf_field data_v) XOR mask_base\<rparr>
                in m68ki_store_bitfield ea offset width (bf_field data_v) data_v s)))
     else m68ki_exception_illegal s)"

definition m68k_op_bfchg_32_ix :: "'b op" where
  "m68k_op_bfchg_32_ix s =
    (if CPU_TYPE_IS_EC020_PLUS (cpu_type s)
     then chain (OPER_I_16 s) (\<lambda>word2 s.
          let offset = drop_bit 6 word2 AND 31;
              width = word2;
              data_byte = (0 :: u32);
              mask_byte = (0 :: u32)
          in chain (EA_AY_IX_8 s) (\<lambda>ea s.
             let offset = (if BIT 11 word2 \<noteq> 0
                           then REG_D s (offset AND 7)
                           else offset);
                 width = (if BIT 5 word2 \<noteq> 0
                          then REG_D s (width AND 7)
                          else width);
                 width = ((width - 1) AND 31) + 1;
                 mask_base = MASK_OUT_ABOVE_32 (push_bit (unat (32 - width)) 0xffffffff);
                 ea = m68ki_bitfield_patch_ea ea offset;
                 offset = m68ki_bitfield_patch_offset offset
             in chain (m68ki_load_bitfield ea offset width s) (\<lambda>data_v s.
                let s = s\<lparr>n_flag := NFLAG_32 (bf_field data_v AND mask_base),
                          not_z_flag := bf_field data_v AND mask_base,
                          v_flag := VFLAG_CLEAR,
                          c_flag := CFLAG_CLEAR\<rparr>;
                    data_v = data_v\<lparr>bf_field := (bf_field data_v) XOR mask_base\<rparr>
                in m68ki_store_bitfield ea offset width (bf_field data_v) data_v s)))
     else m68ki_exception_illegal s)"

definition m68k_op_bfchg_32_aw :: "'b op" where
  "m68k_op_bfchg_32_aw s =
    (if CPU_TYPE_IS_EC020_PLUS (cpu_type s)
     then chain (OPER_I_16 s) (\<lambda>word2 s.
          let offset = drop_bit 6 word2 AND 31;
              width = word2;
              data_byte = (0 :: u32);
              mask_byte = (0 :: u32)
          in chain (EA_AW_8 s) (\<lambda>ea s.
             let offset = (if BIT 11 word2 \<noteq> 0
                           then REG_D s (offset AND 7)
                           else offset);
                 width = (if BIT 5 word2 \<noteq> 0
                          then REG_D s (width AND 7)
                          else width);
                 width = ((width - 1) AND 31) + 1;
                 mask_base = MASK_OUT_ABOVE_32 (push_bit (unat (32 - width)) 0xffffffff);
                 ea = m68ki_bitfield_patch_ea ea offset;
                 offset = m68ki_bitfield_patch_offset offset
             in chain (m68ki_load_bitfield ea offset width s) (\<lambda>data_v s.
                let s = s\<lparr>n_flag := NFLAG_32 (bf_field data_v AND mask_base),
                          not_z_flag := bf_field data_v AND mask_base,
                          v_flag := VFLAG_CLEAR,
                          c_flag := CFLAG_CLEAR\<rparr>;
                    data_v = data_v\<lparr>bf_field := (bf_field data_v) XOR mask_base\<rparr>
                in m68ki_store_bitfield ea offset width (bf_field data_v) data_v s)))
     else m68ki_exception_illegal s)"

definition m68k_op_bfchg_32_al :: "'b op" where
  "m68k_op_bfchg_32_al s =
    (if CPU_TYPE_IS_EC020_PLUS (cpu_type s)
     then chain (OPER_I_16 s) (\<lambda>word2 s.
          let offset = drop_bit 6 word2 AND 31;
              width = word2;
              data_byte = (0 :: u32);
              mask_byte = (0 :: u32)
          in chain (EA_AL_8 s) (\<lambda>ea s.
             let offset = (if BIT 11 word2 \<noteq> 0
                           then REG_D s (offset AND 7)
                           else offset);
                 width = (if BIT 5 word2 \<noteq> 0
                          then REG_D s (width AND 7)
                          else width);
                 width = ((width - 1) AND 31) + 1;
                 mask_base = MASK_OUT_ABOVE_32 (push_bit (unat (32 - width)) 0xffffffff);
                 ea = m68ki_bitfield_patch_ea ea offset;
                 offset = m68ki_bitfield_patch_offset offset
             in chain (m68ki_load_bitfield ea offset width s) (\<lambda>data_v s.
                let s = s\<lparr>n_flag := NFLAG_32 (bf_field data_v AND mask_base),
                          not_z_flag := bf_field data_v AND mask_base,
                          v_flag := VFLAG_CLEAR,
                          c_flag := CFLAG_CLEAR\<rparr>;
                    data_v = data_v\<lparr>bf_field := (bf_field data_v) XOR mask_base\<rparr>
                in m68ki_store_bitfield ea offset width (bf_field data_v) data_v s)))
     else m68ki_exception_illegal s)"

definition m68k_op_bfclr_32_d :: "'b op" where
  "m68k_op_bfclr_32_d s =
    (if CPU_TYPE_IS_EC020_PLUS (cpu_type s)
     then chain (OPER_I_16 s) (\<lambda>word2 s.
          let offset = drop_bit 6 word2 AND 31;
              width = word2;
              offset = (if BIT 11 word2 \<noteq> 0
                        then REG_D s (offset AND 7)
                        else offset);
              width = (if BIT 5 word2 \<noteq> 0
                       then REG_D s (width AND 7)
                       else width);
              offset = offset AND 31;
              width = ((width - 1) AND 31) + 1;
              mask_v = (ucast (MASK_OUT_ABOVE_32 (push_bit (unat (32 - width)) 0xffffffff)) :: u64);
              mask_v = (ROR_32_u64 mask_v offset :: u64);
              s = s\<lparr>n_flag := NFLAG_32 (push_bit (unat offset) (DY s)),
                    not_z_flag := (ucast ((ucast (DY s)) AND mask_v)),
                    v_flag := VFLAG_CLEAR,
                    c_flag := CFLAG_CLEAR\<rparr>
          in Ret () (set_DY (ucast ((ucast (DY s)) AND (NOT mask_v))) s))
     else m68ki_exception_illegal s)"

definition m68k_op_bfclr_32_ai :: "'b op" where
  "m68k_op_bfclr_32_ai s =
    (if CPU_TYPE_IS_EC020_PLUS (cpu_type s)
     then chain (OPER_I_16 s) (\<lambda>word2 s.
          let offset = drop_bit 6 word2 AND 31;
              width = word2;
              mask_byte = (0 :: u32)
          in chain (EA_AY_AI_8 s) (\<lambda>ea s.
             let offset = (if BIT 11 word2 \<noteq> 0
                           then REG_D s (offset AND 7)
                           else offset);
                 width = (if BIT 5 word2 \<noteq> 0
                          then REG_D s (width AND 7)
                          else width);
                 width = ((width - 1) AND 31) + 1;
                 mask_base = MASK_OUT_ABOVE_32 (push_bit (unat (32 - width)) 0xffffffff);
                 ea = m68ki_bitfield_patch_ea ea offset;
                 offset = m68ki_bitfield_patch_offset offset
             in chain (m68ki_load_bitfield ea offset width s) (\<lambda>data_v s.
                let s = s\<lparr>n_flag := NFLAG_32 (bf_field data_v AND mask_base),
                          not_z_flag := bf_field data_v AND mask_base,
                          v_flag := VFLAG_CLEAR,
                          c_flag := CFLAG_CLEAR\<rparr>;
                    data_v = data_v\<lparr>bf_field := (bf_field data_v) AND (NOT mask_base)\<rparr>
                in m68ki_store_bitfield ea offset width (bf_field data_v) data_v s)))
     else m68ki_exception_illegal s)"

definition m68k_op_bfclr_32_di :: "'b op" where
  "m68k_op_bfclr_32_di s =
    (if CPU_TYPE_IS_EC020_PLUS (cpu_type s)
     then chain (OPER_I_16 s) (\<lambda>word2 s.
          let offset = drop_bit 6 word2 AND 31;
              width = word2;
              mask_byte = (0 :: u32)
          in chain (EA_AY_DI_8 s) (\<lambda>ea s.
             let offset = (if BIT 11 word2 \<noteq> 0
                           then REG_D s (offset AND 7)
                           else offset);
                 width = (if BIT 5 word2 \<noteq> 0
                          then REG_D s (width AND 7)
                          else width);
                 width = ((width - 1) AND 31) + 1;
                 mask_base = MASK_OUT_ABOVE_32 (push_bit (unat (32 - width)) 0xffffffff);
                 ea = m68ki_bitfield_patch_ea ea offset;
                 offset = m68ki_bitfield_patch_offset offset
             in chain (m68ki_load_bitfield ea offset width s) (\<lambda>data_v s.
                let s = s\<lparr>n_flag := NFLAG_32 (bf_field data_v AND mask_base),
                          not_z_flag := bf_field data_v AND mask_base,
                          v_flag := VFLAG_CLEAR,
                          c_flag := CFLAG_CLEAR\<rparr>;
                    data_v = data_v\<lparr>bf_field := (bf_field data_v) AND (NOT mask_base)\<rparr>
                in m68ki_store_bitfield ea offset width (bf_field data_v) data_v s)))
     else m68ki_exception_illegal s)"

definition m68k_op_bfclr_32_ix :: "'b op" where
  "m68k_op_bfclr_32_ix s =
    (if CPU_TYPE_IS_EC020_PLUS (cpu_type s)
     then chain (OPER_I_16 s) (\<lambda>word2 s.
          let offset = drop_bit 6 word2 AND 31;
              width = word2;
              mask_byte = (0 :: u32)
          in chain (EA_AY_IX_8 s) (\<lambda>ea s.
             let offset = (if BIT 11 word2 \<noteq> 0
                           then REG_D s (offset AND 7)
                           else offset);
                 width = (if BIT 5 word2 \<noteq> 0
                          then REG_D s (width AND 7)
                          else width);
                 width = ((width - 1) AND 31) + 1;
                 mask_base = MASK_OUT_ABOVE_32 (push_bit (unat (32 - width)) 0xffffffff);
                 ea = m68ki_bitfield_patch_ea ea offset;
                 offset = m68ki_bitfield_patch_offset offset
             in chain (m68ki_load_bitfield ea offset width s) (\<lambda>data_v s.
                let s = s\<lparr>n_flag := NFLAG_32 (bf_field data_v AND mask_base),
                          not_z_flag := bf_field data_v AND mask_base,
                          v_flag := VFLAG_CLEAR,
                          c_flag := CFLAG_CLEAR\<rparr>;
                    data_v = data_v\<lparr>bf_field := (bf_field data_v) AND (NOT mask_base)\<rparr>
                in m68ki_store_bitfield ea offset width (bf_field data_v) data_v s)))
     else m68ki_exception_illegal s)"

definition m68k_op_bfclr_32_aw :: "'b op" where
  "m68k_op_bfclr_32_aw s =
    (if CPU_TYPE_IS_EC020_PLUS (cpu_type s)
     then chain (OPER_I_16 s) (\<lambda>word2 s.
          let offset = drop_bit 6 word2 AND 31;
              width = word2;
              mask_byte = (0 :: u32)
          in chain (EA_AW_8 s) (\<lambda>ea s.
             let offset = (if BIT 11 word2 \<noteq> 0
                           then REG_D s (offset AND 7)
                           else offset);
                 width = (if BIT 5 word2 \<noteq> 0
                          then REG_D s (width AND 7)
                          else width);
                 width = ((width - 1) AND 31) + 1;
                 mask_base = MASK_OUT_ABOVE_32 (push_bit (unat (32 - width)) 0xffffffff);
                 ea = m68ki_bitfield_patch_ea ea offset;
                 offset = m68ki_bitfield_patch_offset offset
             in chain (m68ki_load_bitfield ea offset width s) (\<lambda>data_v s.
                let s = s\<lparr>n_flag := NFLAG_32 (bf_field data_v AND mask_base),
                          not_z_flag := bf_field data_v AND mask_base,
                          v_flag := VFLAG_CLEAR,
                          c_flag := CFLAG_CLEAR\<rparr>;
                    data_v = data_v\<lparr>bf_field := (bf_field data_v) AND (NOT mask_base)\<rparr>
                in m68ki_store_bitfield ea offset width (bf_field data_v) data_v s)))
     else m68ki_exception_illegal s)"

definition m68k_op_bfclr_32_al :: "'b op" where
  "m68k_op_bfclr_32_al s =
    (if CPU_TYPE_IS_EC020_PLUS (cpu_type s)
     then chain (OPER_I_16 s) (\<lambda>word2 s.
          let offset = drop_bit 6 word2 AND 31;
              width = word2;
              mask_byte = (0 :: u32)
          in chain (EA_AL_8 s) (\<lambda>ea s.
             let offset = (if BIT 11 word2 \<noteq> 0
                           then REG_D s (offset AND 7)
                           else offset);
                 width = (if BIT 5 word2 \<noteq> 0
                          then REG_D s (width AND 7)
                          else width);
                 width = ((width - 1) AND 31) + 1;
                 mask_base = MASK_OUT_ABOVE_32 (push_bit (unat (32 - width)) 0xffffffff);
                 ea = m68ki_bitfield_patch_ea ea offset;
                 offset = m68ki_bitfield_patch_offset offset
             in chain (m68ki_load_bitfield ea offset width s) (\<lambda>data_v s.
                let s = s\<lparr>n_flag := NFLAG_32 (bf_field data_v AND mask_base),
                          not_z_flag := bf_field data_v AND mask_base,
                          v_flag := VFLAG_CLEAR,
                          c_flag := CFLAG_CLEAR\<rparr>;
                    data_v = data_v\<lparr>bf_field := (bf_field data_v) AND (NOT mask_base)\<rparr>
                in m68ki_store_bitfield ea offset width (bf_field data_v) data_v s)))
     else m68ki_exception_illegal s)"

definition m68k_op_bfexts_32_d :: "'b op" where
  "m68k_op_bfexts_32_d s =
    (if CPU_TYPE_IS_EC020_PLUS (cpu_type s)
     then chain (OPER_I_16 s) (\<lambda>word2 s.
          let offset = drop_bit 6 word2 AND 31;
              width = word2;
              data_v = (ucast (DY s) :: u64);
              offset = (if BIT 11 word2 \<noteq> 0
                        then REG_D s (offset AND 7)
                        else offset);
              width = (if BIT 5 word2 \<noteq> 0
                       then REG_D s (width AND 7)
                       else width);
              offset = offset AND 31;
              width = ((width - 1) AND 31) + 1;
              data_v = (ROL_32_u64 data_v offset :: u64);
              s = s\<lparr>n_flag := (ucast (drop_bit 24 data_v))\<rparr>;
              data_v = (scast (signed_drop_bit (unat (32 - width)) (ucast data_v :: u32)) :: u64);
              s = s\<lparr>not_z_flag := (ucast data_v),
                    v_flag := VFLAG_CLEAR,
                    c_flag := CFLAG_CLEAR\<rparr>
          in Ret () (set_REG_D (drop_bit 12 word2 AND 7) (ucast data_v) s))
     else m68ki_exception_illegal s)"

definition m68k_op_bfexts_32_ai :: "'b op" where
  "m68k_op_bfexts_32_ai s =
    (if CPU_TYPE_IS_EC020_PLUS (cpu_type s)
     then chain (OPER_I_16 s) (\<lambda>word2 s.
          let offset = drop_bit 6 word2 AND 31;
              width = word2
          in chain (EA_AY_AI_8 s) (\<lambda>ea s.
             let offset = (if BIT 11 word2 \<noteq> 0
                           then REG_D s (offset AND 7)
                           else offset);
                 width = (if BIT 5 word2 \<noteq> 0
                          then REG_D s (width AND 7)
                          else width);
                 ea = ea + (sdiv32 offset 8);
                 offset = smod32 offset 8;
                 (ea, offset) = (if word_sless offset 0
                                 then let offset = offset + 8;
                                          ea = ea - 1
                                      in (ea, offset)
                                 else (ea, offset));
                 width = ((width - 1) AND 31) + 1
             in chain (m68ki_read_32 ea s) (\<lambda>data_v s.
                let data_v = MASK_OUT_ABOVE_32 (push_bit (unat offset) data_v)
                in chain (if 32 < offset + width
                          then chain (m68ki_read_8 (ea + 4) s) (\<lambda>v4 s.
                               let data_v = data_v OR (drop_bit 8 (push_bit (unat offset) v4))
                               in Ret data_v s)
                          else Ret data_v s) (\<lambda>data_v s.
                   let s = s\<lparr>n_flag := NFLAG_32 data_v\<rparr>;
                       data_v = signed_drop_bit (unat (32 - width)) data_v;
                       s = s\<lparr>not_z_flag := data_v,
                             v_flag := VFLAG_CLEAR,
                             c_flag := CFLAG_CLEAR\<rparr>
                   in Ret () (set_REG_D (drop_bit 12 word2 AND 7) data_v s)))))
     else m68ki_exception_illegal s)"

definition m68k_op_bfexts_32_di :: "'b op" where
  "m68k_op_bfexts_32_di s =
    (if CPU_TYPE_IS_EC020_PLUS (cpu_type s)
     then chain (OPER_I_16 s) (\<lambda>word2 s.
          let offset = drop_bit 6 word2 AND 31;
              width = word2
          in chain (EA_AY_DI_8 s) (\<lambda>ea s.
             let offset = (if BIT 11 word2 \<noteq> 0
                           then REG_D s (offset AND 7)
                           else offset);
                 width = (if BIT 5 word2 \<noteq> 0
                          then REG_D s (width AND 7)
                          else width);
                 ea = ea + (sdiv32 offset 8);
                 offset = smod32 offset 8;
                 (ea, offset) = (if word_sless offset 0
                                 then let offset = offset + 8;
                                          ea = ea - 1
                                      in (ea, offset)
                                 else (ea, offset));
                 width = ((width - 1) AND 31) + 1
             in chain (m68ki_read_32 ea s) (\<lambda>data_v s.
                let data_v = MASK_OUT_ABOVE_32 (push_bit (unat offset) data_v)
                in chain (if 32 < offset + width
                          then chain (m68ki_read_8 (ea + 4) s) (\<lambda>v4 s.
                               let data_v = data_v OR (drop_bit 8 (push_bit (unat offset) v4))
                               in Ret data_v s)
                          else Ret data_v s) (\<lambda>data_v s.
                   let s = s\<lparr>n_flag := NFLAG_32 data_v\<rparr>;
                       data_v = signed_drop_bit (unat (32 - width)) data_v;
                       s = s\<lparr>not_z_flag := data_v,
                             v_flag := VFLAG_CLEAR,
                             c_flag := CFLAG_CLEAR\<rparr>
                   in Ret () (set_REG_D (drop_bit 12 word2 AND 7) data_v s)))))
     else m68ki_exception_illegal s)"

definition m68k_op_bfexts_32_ix :: "'b op" where
  "m68k_op_bfexts_32_ix s =
    (if CPU_TYPE_IS_EC020_PLUS (cpu_type s)
     then chain (OPER_I_16 s) (\<lambda>word2 s.
          let offset = drop_bit 6 word2 AND 31;
              width = word2
          in chain (EA_AY_IX_8 s) (\<lambda>ea s.
             let offset = (if BIT 11 word2 \<noteq> 0
                           then REG_D s (offset AND 7)
                           else offset);
                 width = (if BIT 5 word2 \<noteq> 0
                          then REG_D s (width AND 7)
                          else width);
                 ea = ea + (sdiv32 offset 8);
                 offset = smod32 offset 8;
                 (ea, offset) = (if word_sless offset 0
                                 then let offset = offset + 8;
                                          ea = ea - 1
                                      in (ea, offset)
                                 else (ea, offset));
                 width = ((width - 1) AND 31) + 1
             in chain (m68ki_read_32 ea s) (\<lambda>data_v s.
                let data_v = MASK_OUT_ABOVE_32 (push_bit (unat offset) data_v)
                in chain (if 32 < offset + width
                          then chain (m68ki_read_8 (ea + 4) s) (\<lambda>v4 s.
                               let data_v = data_v OR (drop_bit 8 (push_bit (unat offset) v4))
                               in Ret data_v s)
                          else Ret data_v s) (\<lambda>data_v s.
                   let s = s\<lparr>n_flag := NFLAG_32 data_v\<rparr>;
                       data_v = signed_drop_bit (unat (32 - width)) data_v;
                       s = s\<lparr>not_z_flag := data_v,
                             v_flag := VFLAG_CLEAR,
                             c_flag := CFLAG_CLEAR\<rparr>
                   in Ret () (set_REG_D (drop_bit 12 word2 AND 7) data_v s)))))
     else m68ki_exception_illegal s)"

definition m68k_op_bfexts_32_aw :: "'b op" where
  "m68k_op_bfexts_32_aw s =
    (if CPU_TYPE_IS_EC020_PLUS (cpu_type s)
     then chain (OPER_I_16 s) (\<lambda>word2 s.
          let offset = drop_bit 6 word2 AND 31;
              width = word2
          in chain (EA_AW_8 s) (\<lambda>ea s.
             let offset = (if BIT 11 word2 \<noteq> 0
                           then REG_D s (offset AND 7)
                           else offset);
                 width = (if BIT 5 word2 \<noteq> 0
                          then REG_D s (width AND 7)
                          else width);
                 ea = ea + (sdiv32 offset 8);
                 offset = smod32 offset 8;
                 (ea, offset) = (if word_sless offset 0
                                 then let offset = offset + 8;
                                          ea = ea - 1
                                      in (ea, offset)
                                 else (ea, offset));
                 width = ((width - 1) AND 31) + 1
             in chain (m68ki_read_32 ea s) (\<lambda>data_v s.
                let data_v = MASK_OUT_ABOVE_32 (push_bit (unat offset) data_v)
                in chain (if 32 < offset + width
                          then chain (m68ki_read_8 (ea + 4) s) (\<lambda>v4 s.
                               let data_v = data_v OR (drop_bit 8 (push_bit (unat offset) v4))
                               in Ret data_v s)
                          else Ret data_v s) (\<lambda>data_v s.
                   let s = s\<lparr>n_flag := NFLAG_32 data_v\<rparr>;
                       data_v = signed_drop_bit (unat (32 - width)) data_v;
                       s = s\<lparr>not_z_flag := data_v,
                             v_flag := VFLAG_CLEAR,
                             c_flag := CFLAG_CLEAR\<rparr>
                   in Ret () (set_REG_D (drop_bit 12 word2 AND 7) data_v s)))))
     else m68ki_exception_illegal s)"

definition m68k_op_bfexts_32_al :: "'b op" where
  "m68k_op_bfexts_32_al s =
    (if CPU_TYPE_IS_EC020_PLUS (cpu_type s)
     then chain (OPER_I_16 s) (\<lambda>word2 s.
          let offset = drop_bit 6 word2 AND 31;
              width = word2
          in chain (EA_AL_8 s) (\<lambda>ea s.
             let offset = (if BIT 11 word2 \<noteq> 0
                           then REG_D s (offset AND 7)
                           else offset);
                 width = (if BIT 5 word2 \<noteq> 0
                          then REG_D s (width AND 7)
                          else width);
                 ea = ea + (sdiv32 offset 8);
                 offset = smod32 offset 8;
                 (ea, offset) = (if word_sless offset 0
                                 then let offset = offset + 8;
                                          ea = ea - 1
                                      in (ea, offset)
                                 else (ea, offset));
                 width = ((width - 1) AND 31) + 1
             in chain (m68ki_read_32 ea s) (\<lambda>data_v s.
                let data_v = MASK_OUT_ABOVE_32 (push_bit (unat offset) data_v)
                in chain (if 32 < offset + width
                          then chain (m68ki_read_8 (ea + 4) s) (\<lambda>v4 s.
                               let data_v = data_v OR (drop_bit 8 (push_bit (unat offset) v4))
                               in Ret data_v s)
                          else Ret data_v s) (\<lambda>data_v s.
                   let s = s\<lparr>n_flag := NFLAG_32 data_v\<rparr>;
                       data_v = signed_drop_bit (unat (32 - width)) data_v;
                       s = s\<lparr>not_z_flag := data_v,
                             v_flag := VFLAG_CLEAR,
                             c_flag := CFLAG_CLEAR\<rparr>
                   in Ret () (set_REG_D (drop_bit 12 word2 AND 7) data_v s)))))
     else m68ki_exception_illegal s)"

definition m68k_op_bfexts_32_pcdi :: "'b op" where
  "m68k_op_bfexts_32_pcdi s =
    (if CPU_TYPE_IS_EC020_PLUS (cpu_type s)
     then chain (OPER_I_16 s) (\<lambda>word2 s.
          let offset = drop_bit 6 word2 AND 31;
              width = word2
          in chain (EA_PCDI_8 s) (\<lambda>ea s.
             let offset = (if BIT 11 word2 \<noteq> 0
                           then REG_D s (offset AND 7)
                           else offset);
                 width = (if BIT 5 word2 \<noteq> 0
                          then REG_D s (width AND 7)
                          else width);
                 ea = ea + (sdiv32 offset 8);
                 offset = smod32 offset 8;
                 (ea, offset) = (if word_sless offset 0
                                 then let offset = offset + 8;
                                          ea = ea - 1
                                      in (ea, offset)
                                 else (ea, offset));
                 width = ((width - 1) AND 31) + 1
             in chain (m68ki_read_32 ea s) (\<lambda>data_v s.
                let data_v = MASK_OUT_ABOVE_32 (push_bit (unat offset) data_v)
                in chain (if 32 < offset + width
                          then chain (m68ki_read_8 (ea + 4) s) (\<lambda>v4 s.
                               let data_v = data_v OR (drop_bit 8 (push_bit (unat offset) v4))
                               in Ret data_v s)
                          else Ret data_v s) (\<lambda>data_v s.
                   let s = s\<lparr>n_flag := NFLAG_32 data_v\<rparr>;
                       data_v = signed_drop_bit (unat (32 - width)) data_v;
                       s = s\<lparr>not_z_flag := data_v,
                             v_flag := VFLAG_CLEAR,
                             c_flag := CFLAG_CLEAR\<rparr>
                   in Ret () (set_REG_D (drop_bit 12 word2 AND 7) data_v s)))))
     else m68ki_exception_illegal s)"

definition m68k_op_bfexts_32_pcix :: "'b op" where
  "m68k_op_bfexts_32_pcix s =
    (if CPU_TYPE_IS_EC020_PLUS (cpu_type s)
     then chain (OPER_I_16 s) (\<lambda>word2 s.
          let offset = drop_bit 6 word2 AND 31;
              width = word2
          in chain (EA_PCIX_8 s) (\<lambda>ea s.
             let offset = (if BIT 11 word2 \<noteq> 0
                           then REG_D s (offset AND 7)
                           else offset);
                 width = (if BIT 5 word2 \<noteq> 0
                          then REG_D s (width AND 7)
                          else width);
                 ea = ea + (sdiv32 offset 8);
                 offset = smod32 offset 8;
                 (ea, offset) = (if word_sless offset 0
                                 then let offset = offset + 8;
                                          ea = ea - 1
                                      in (ea, offset)
                                 else (ea, offset));
                 width = ((width - 1) AND 31) + 1
             in chain (m68ki_read_32 ea s) (\<lambda>data_v s.
                let data_v = MASK_OUT_ABOVE_32 (push_bit (unat offset) data_v)
                in chain (if 32 < offset + width
                          then chain (m68ki_read_8 (ea + 4) s) (\<lambda>v4 s.
                               let data_v = data_v OR (drop_bit 8 (push_bit (unat offset) v4))
                               in Ret data_v s)
                          else Ret data_v s) (\<lambda>data_v s.
                   let s = s\<lparr>n_flag := NFLAG_32 data_v\<rparr>;
                       data_v = signed_drop_bit (unat (32 - width)) data_v;
                       s = s\<lparr>not_z_flag := data_v,
                             v_flag := VFLAG_CLEAR,
                             c_flag := CFLAG_CLEAR\<rparr>
                   in Ret () (set_REG_D (drop_bit 12 word2 AND 7) data_v s)))))
     else m68ki_exception_illegal s)"

definition m68k_op_bfextu_32_d :: "'b op" where
  "m68k_op_bfextu_32_d s =
    (if CPU_TYPE_IS_EC020_PLUS (cpu_type s)
     then chain (OPER_I_16 s) (\<lambda>word2 s.
          let offset = drop_bit 6 word2 AND 31;
              width = word2;
              data_v = (ucast (DY s) :: u64);
              offset = (if BIT 11 word2 \<noteq> 0
                        then REG_D s (offset AND 7)
                        else offset);
              width = (if BIT 5 word2 \<noteq> 0
                       then REG_D s (width AND 7)
                       else width);
              offset = offset AND 31;
              width = ((width - 1) AND 31) + 1;
              data_v = (ROL_32_u64 data_v offset :: u64);
              s = s\<lparr>n_flag := (ucast (drop_bit 24 data_v))\<rparr>;
              data_v = drop_bit (unat (32 - width)) data_v;
              s = s\<lparr>not_z_flag := (ucast data_v),
                    v_flag := VFLAG_CLEAR,
                    c_flag := CFLAG_CLEAR\<rparr>
          in Ret () (set_REG_D (drop_bit 12 word2 AND 7) (ucast data_v) s))
     else m68ki_exception_illegal s)"

definition m68k_op_bfextu_32_ai :: "'b op" where
  "m68k_op_bfextu_32_ai s =
    (if CPU_TYPE_IS_EC020_PLUS (cpu_type s)
     then chain (OPER_I_16 s) (\<lambda>word2 s.
          let offset = drop_bit 6 word2 AND 31;
              width = word2
          in chain (EA_AY_AI_8 s) (\<lambda>ea s.
             let offset = (if BIT 11 word2 \<noteq> 0
                           then REG_D s (offset AND 7)
                           else offset);
                 width = (if BIT 5 word2 \<noteq> 0
                          then REG_D s (width AND 7)
                          else width);
                 ea = ea + (sdiv32 offset 8);
                 offset = smod32 offset 8;
                 (ea, offset) = (if word_sless offset 0
                                 then let offset = offset + 8;
                                          ea = ea - 1
                                      in (ea, offset)
                                 else (ea, offset));
                 width = ((width - 1) AND 31) + 1
             in chain (m68ki_read_32 ea s) (\<lambda>data_v s.
                let data_v = MASK_OUT_ABOVE_32 (push_bit (unat offset) data_v)
                in chain (if 32 < offset + width
                          then chain (m68ki_read_8 (ea + 4) s) (\<lambda>v4 s.
                               let data_v = data_v OR (drop_bit 8 (push_bit (unat offset) v4))
                               in Ret data_v s)
                          else Ret data_v s) (\<lambda>data_v s.
                   let s = s\<lparr>n_flag := NFLAG_32 data_v\<rparr>;
                       data_v = drop_bit (unat (32 - width)) data_v;
                       s = s\<lparr>not_z_flag := data_v,
                             v_flag := VFLAG_CLEAR,
                             c_flag := CFLAG_CLEAR\<rparr>
                   in Ret () (set_REG_D (drop_bit 12 word2 AND 7) data_v s)))))
     else m68ki_exception_illegal s)"

definition m68k_op_bfextu_32_di :: "'b op" where
  "m68k_op_bfextu_32_di s =
    (if CPU_TYPE_IS_EC020_PLUS (cpu_type s)
     then chain (OPER_I_16 s) (\<lambda>word2 s.
          let offset = drop_bit 6 word2 AND 31;
              width = word2
          in chain (EA_AY_DI_8 s) (\<lambda>ea s.
             let offset = (if BIT 11 word2 \<noteq> 0
                           then REG_D s (offset AND 7)
                           else offset);
                 width = (if BIT 5 word2 \<noteq> 0
                          then REG_D s (width AND 7)
                          else width);
                 ea = ea + (sdiv32 offset 8);
                 offset = smod32 offset 8;
                 (ea, offset) = (if word_sless offset 0
                                 then let offset = offset + 8;
                                          ea = ea - 1
                                      in (ea, offset)
                                 else (ea, offset));
                 width = ((width - 1) AND 31) + 1
             in chain (m68ki_read_32 ea s) (\<lambda>data_v s.
                let data_v = MASK_OUT_ABOVE_32 (push_bit (unat offset) data_v)
                in chain (if 32 < offset + width
                          then chain (m68ki_read_8 (ea + 4) s) (\<lambda>v4 s.
                               let data_v = data_v OR (drop_bit 8 (push_bit (unat offset) v4))
                               in Ret data_v s)
                          else Ret data_v s) (\<lambda>data_v s.
                   let s = s\<lparr>n_flag := NFLAG_32 data_v\<rparr>;
                       data_v = drop_bit (unat (32 - width)) data_v;
                       s = s\<lparr>not_z_flag := data_v,
                             v_flag := VFLAG_CLEAR,
                             c_flag := CFLAG_CLEAR\<rparr>
                   in Ret () (set_REG_D (drop_bit 12 word2 AND 7) data_v s)))))
     else m68ki_exception_illegal s)"

definition m68k_op_bfextu_32_ix :: "'b op" where
  "m68k_op_bfextu_32_ix s =
    (if CPU_TYPE_IS_EC020_PLUS (cpu_type s)
     then chain (OPER_I_16 s) (\<lambda>word2 s.
          let offset = drop_bit 6 word2 AND 31;
              width = word2
          in chain (EA_AY_IX_8 s) (\<lambda>ea s.
             let offset = (if BIT 11 word2 \<noteq> 0
                           then REG_D s (offset AND 7)
                           else offset);
                 width = (if BIT 5 word2 \<noteq> 0
                          then REG_D s (width AND 7)
                          else width);
                 ea = ea + (sdiv32 offset 8);
                 offset = smod32 offset 8;
                 (ea, offset) = (if word_sless offset 0
                                 then let offset = offset + 8;
                                          ea = ea - 1
                                      in (ea, offset)
                                 else (ea, offset));
                 width = ((width - 1) AND 31) + 1
             in chain (m68ki_read_32 ea s) (\<lambda>data_v s.
                let data_v = MASK_OUT_ABOVE_32 (push_bit (unat offset) data_v)
                in chain (if 32 < offset + width
                          then chain (m68ki_read_8 (ea + 4) s) (\<lambda>v4 s.
                               let data_v = data_v OR (drop_bit 8 (push_bit (unat offset) v4))
                               in Ret data_v s)
                          else Ret data_v s) (\<lambda>data_v s.
                   let s = s\<lparr>n_flag := NFLAG_32 data_v\<rparr>;
                       data_v = drop_bit (unat (32 - width)) data_v;
                       s = s\<lparr>not_z_flag := data_v,
                             v_flag := VFLAG_CLEAR,
                             c_flag := CFLAG_CLEAR\<rparr>
                   in Ret () (set_REG_D (drop_bit 12 word2 AND 7) data_v s)))))
     else m68ki_exception_illegal s)"

definition m68k_op_bfextu_32_aw :: "'b op" where
  "m68k_op_bfextu_32_aw s =
    (if CPU_TYPE_IS_EC020_PLUS (cpu_type s)
     then chain (OPER_I_16 s) (\<lambda>word2 s.
          let offset = drop_bit 6 word2 AND 31;
              width = word2
          in chain (EA_AW_8 s) (\<lambda>ea s.
             let offset = (if BIT 11 word2 \<noteq> 0
                           then REG_D s (offset AND 7)
                           else offset);
                 width = (if BIT 5 word2 \<noteq> 0
                          then REG_D s (width AND 7)
                          else width);
                 ea = ea + (sdiv32 offset 8);
                 offset = smod32 offset 8;
                 (ea, offset) = (if word_sless offset 0
                                 then let offset = offset + 8;
                                          ea = ea - 1
                                      in (ea, offset)
                                 else (ea, offset));
                 width = ((width - 1) AND 31) + 1
             in chain (m68ki_read_32 ea s) (\<lambda>data_v s.
                let data_v = MASK_OUT_ABOVE_32 (push_bit (unat offset) data_v)
                in chain (if 32 < offset + width
                          then chain (m68ki_read_8 (ea + 4) s) (\<lambda>v4 s.
                               let data_v = data_v OR (drop_bit 8 (push_bit (unat offset) v4))
                               in Ret data_v s)
                          else Ret data_v s) (\<lambda>data_v s.
                   let s = s\<lparr>n_flag := NFLAG_32 data_v\<rparr>;
                       data_v = drop_bit (unat (32 - width)) data_v;
                       s = s\<lparr>not_z_flag := data_v,
                             v_flag := VFLAG_CLEAR,
                             c_flag := CFLAG_CLEAR\<rparr>
                   in Ret () (set_REG_D (drop_bit 12 word2 AND 7) data_v s)))))
     else m68ki_exception_illegal s)"

definition m68k_op_bfextu_32_al :: "'b op" where
  "m68k_op_bfextu_32_al s =
    (if CPU_TYPE_IS_EC020_PLUS (cpu_type s)
     then chain (OPER_I_16 s) (\<lambda>word2 s.
          let offset = drop_bit 6 word2 AND 31;
              width = word2
          in chain (EA_AL_8 s) (\<lambda>ea s.
             let offset = (if BIT 11 word2 \<noteq> 0
                           then REG_D s (offset AND 7)
                           else offset);
                 width = (if BIT 5 word2 \<noteq> 0
                          then REG_D s (width AND 7)
                          else width);
                 ea = ea + (sdiv32 offset 8);
                 offset = smod32 offset 8;
                 (ea, offset) = (if word_sless offset 0
                                 then let offset = offset + 8;
                                          ea = ea - 1
                                      in (ea, offset)
                                 else (ea, offset));
                 width = ((width - 1) AND 31) + 1
             in chain (m68ki_read_32 ea s) (\<lambda>data_v s.
                let data_v = MASK_OUT_ABOVE_32 (push_bit (unat offset) data_v)
                in chain (if 32 < offset + width
                          then chain (m68ki_read_8 (ea + 4) s) (\<lambda>v4 s.
                               let data_v = data_v OR (drop_bit 8 (push_bit (unat offset) v4))
                               in Ret data_v s)
                          else Ret data_v s) (\<lambda>data_v s.
                   let s = s\<lparr>n_flag := NFLAG_32 data_v\<rparr>;
                       data_v = drop_bit (unat (32 - width)) data_v;
                       s = s\<lparr>not_z_flag := data_v,
                             v_flag := VFLAG_CLEAR,
                             c_flag := CFLAG_CLEAR\<rparr>
                   in Ret () (set_REG_D (drop_bit 12 word2 AND 7) data_v s)))))
     else m68ki_exception_illegal s)"

definition m68k_op_bfextu_32_pcdi :: "'b op" where
  "m68k_op_bfextu_32_pcdi s =
    (if CPU_TYPE_IS_EC020_PLUS (cpu_type s)
     then chain (OPER_I_16 s) (\<lambda>word2 s.
          let offset = drop_bit 6 word2 AND 31;
              width = word2
          in chain (EA_PCDI_8 s) (\<lambda>ea s.
             let offset = (if BIT 11 word2 \<noteq> 0
                           then REG_D s (offset AND 7)
                           else offset);
                 width = (if BIT 5 word2 \<noteq> 0
                          then REG_D s (width AND 7)
                          else width);
                 ea = ea + (sdiv32 offset 8);
                 offset = smod32 offset 8;
                 (ea, offset) = (if word_sless offset 0
                                 then let offset = offset + 8;
                                          ea = ea - 1
                                      in (ea, offset)
                                 else (ea, offset));
                 width = ((width - 1) AND 31) + 1
             in chain (m68ki_read_32 ea s) (\<lambda>data_v s.
                let data_v = MASK_OUT_ABOVE_32 (push_bit (unat offset) data_v)
                in chain (if 32 < offset + width
                          then chain (m68ki_read_8 (ea + 4) s) (\<lambda>v4 s.
                               let data_v = data_v OR (drop_bit 8 (push_bit (unat offset) v4))
                               in Ret data_v s)
                          else Ret data_v s) (\<lambda>data_v s.
                   let s = s\<lparr>n_flag := NFLAG_32 data_v\<rparr>;
                       data_v = drop_bit (unat (32 - width)) data_v;
                       s = s\<lparr>not_z_flag := data_v,
                             v_flag := VFLAG_CLEAR,
                             c_flag := CFLAG_CLEAR\<rparr>
                   in Ret () (set_REG_D (drop_bit 12 word2 AND 7) data_v s)))))
     else m68ki_exception_illegal s)"

definition m68k_op_bfextu_32_pcix :: "'b op" where
  "m68k_op_bfextu_32_pcix s =
    (if CPU_TYPE_IS_EC020_PLUS (cpu_type s)
     then chain (OPER_I_16 s) (\<lambda>word2 s.
          let offset = drop_bit 6 word2 AND 31;
              width = word2
          in chain (EA_PCIX_8 s) (\<lambda>ea s.
             let offset = (if BIT 11 word2 \<noteq> 0
                           then REG_D s (offset AND 7)
                           else offset);
                 width = (if BIT 5 word2 \<noteq> 0
                          then REG_D s (width AND 7)
                          else width);
                 ea = ea + (sdiv32 offset 8);
                 offset = smod32 offset 8;
                 (ea, offset) = (if word_sless offset 0
                                 then let offset = offset + 8;
                                          ea = ea - 1
                                      in (ea, offset)
                                 else (ea, offset));
                 width = ((width - 1) AND 31) + 1
             in chain (m68ki_read_32 ea s) (\<lambda>data_v s.
                let data_v = MASK_OUT_ABOVE_32 (push_bit (unat offset) data_v)
                in chain (if 32 < offset + width
                          then chain (m68ki_read_8 (ea + 4) s) (\<lambda>v4 s.
                               let data_v = data_v OR (drop_bit 8 (push_bit (unat offset) v4))
                               in Ret data_v s)
                          else Ret data_v s) (\<lambda>data_v s.
                   let s = s\<lparr>n_flag := NFLAG_32 data_v\<rparr>;
                       data_v = drop_bit (unat (32 - width)) data_v;
                       s = s\<lparr>not_z_flag := data_v,
                             v_flag := VFLAG_CLEAR,
                             c_flag := CFLAG_CLEAR\<rparr>
                   in Ret () (set_REG_D (drop_bit 12 word2 AND 7) data_v s)))))
     else m68ki_exception_illegal s)"

definition m68k_op_bfffo_32_d :: "'b op" where
  "m68k_op_bfffo_32_d s =
    (if CPU_TYPE_IS_EC020_PLUS (cpu_type s)
     then chain (OPER_I_16 s) (\<lambda>word2 s.
          let offset = drop_bit 6 word2 AND 31;
              width = word2;
              data_v = (ucast (DY s) :: u64);
              offset = (if BIT 11 word2 \<noteq> 0
                        then REG_D s (offset AND 7)
                        else offset);
              width = (if BIT 5 word2 \<noteq> 0
                       then REG_D s (width AND 7)
                       else width);
              offset = offset AND 31;
              width = ((width - 1) AND 31) + 1;
              data_v = (ROL_32_u64 data_v offset :: u64);
              s = s\<lparr>n_flag := (ucast (drop_bit 24 data_v))\<rparr>;
              data_v = drop_bit (unat (32 - width)) data_v;
              s = s\<lparr>not_z_flag := (ucast data_v),
                    v_flag := VFLAG_CLEAR,
                    c_flag := CFLAG_CLEAR\<rparr>;
              offset = bfffo_scan (push_bit (unat (width - 1)) 1) data_v offset
          in Ret () (set_REG_D (drop_bit 12 word2 AND 7) offset s))
     else m68ki_exception_illegal s)"

definition m68k_op_bfffo_32_ai :: "'b op" where
  "m68k_op_bfffo_32_ai s =
    (if CPU_TYPE_IS_EC020_PLUS (cpu_type s)
     then chain (OPER_I_16 s) (\<lambda>word2 s.
          let offset = drop_bit 6 word2 AND 31;
              width = word2
          in chain (EA_AY_AI_8 s) (\<lambda>ea s.
             let offset = (if BIT 11 word2 \<noteq> 0
                           then REG_D s (offset AND 7)
                           else offset);
                 width = (if BIT 5 word2 \<noteq> 0
                          then REG_D s (width AND 7)
                          else width);
                 ea = ea + (sdiv32 offset 8);
                 local_offset = smod32 offset 8;
                 (ea, local_offset) = (if word_sless local_offset 0
                                       then let local_offset = local_offset + 8;
                                                ea = ea - 1
                                            in (ea, local_offset)
                                       else (ea, local_offset));
                 width = ((width - 1) AND 31) + 1
             in chain (m68ki_read_32 ea s) (\<lambda>data_v s.
                let data_v = MASK_OUT_ABOVE_32 (push_bit (unat local_offset) data_v)
                in chain (if 32 < local_offset + width
                          then chain (m68ki_read_8 (ea + 4) s) (\<lambda>v4 s.
                               let data_v = data_v OR (drop_bit 8 (push_bit (unat local_offset) v4))
                               in Ret data_v s)
                          else Ret data_v s) (\<lambda>data_v s.
                   let s = s\<lparr>n_flag := NFLAG_32 data_v\<rparr>;
                       data_v = drop_bit (unat (32 - width)) data_v;
                       s = s\<lparr>not_z_flag := data_v,
                             v_flag := VFLAG_CLEAR,
                             c_flag := CFLAG_CLEAR\<rparr>;
                       offset = bfffo_scan (push_bit (unat (width - 1)) 1) (ucast data_v) offset
                   in Ret () (set_REG_D (drop_bit 12 word2 AND 7) offset s)))))
     else m68ki_exception_illegal s)"

definition m68k_op_bfffo_32_di :: "'b op" where
  "m68k_op_bfffo_32_di s =
    (if CPU_TYPE_IS_EC020_PLUS (cpu_type s)
     then chain (OPER_I_16 s) (\<lambda>word2 s.
          let offset = drop_bit 6 word2 AND 31;
              width = word2
          in chain (EA_AY_DI_8 s) (\<lambda>ea s.
             let offset = (if BIT 11 word2 \<noteq> 0
                           then REG_D s (offset AND 7)
                           else offset);
                 width = (if BIT 5 word2 \<noteq> 0
                          then REG_D s (width AND 7)
                          else width);
                 ea = ea + (sdiv32 offset 8);
                 local_offset = smod32 offset 8;
                 (ea, local_offset) = (if word_sless local_offset 0
                                       then let local_offset = local_offset + 8;
                                                ea = ea - 1
                                            in (ea, local_offset)
                                       else (ea, local_offset));
                 width = ((width - 1) AND 31) + 1
             in chain (m68ki_read_32 ea s) (\<lambda>data_v s.
                let data_v = MASK_OUT_ABOVE_32 (push_bit (unat local_offset) data_v)
                in chain (if 32 < local_offset + width
                          then chain (m68ki_read_8 (ea + 4) s) (\<lambda>v4 s.
                               let data_v = data_v OR (drop_bit 8 (push_bit (unat local_offset) v4))
                               in Ret data_v s)
                          else Ret data_v s) (\<lambda>data_v s.
                   let s = s\<lparr>n_flag := NFLAG_32 data_v\<rparr>;
                       data_v = drop_bit (unat (32 - width)) data_v;
                       s = s\<lparr>not_z_flag := data_v,
                             v_flag := VFLAG_CLEAR,
                             c_flag := CFLAG_CLEAR\<rparr>;
                       offset = bfffo_scan (push_bit (unat (width - 1)) 1) (ucast data_v) offset
                   in Ret () (set_REG_D (drop_bit 12 word2 AND 7) offset s)))))
     else m68ki_exception_illegal s)"

definition m68k_op_bfffo_32_ix :: "'b op" where
  "m68k_op_bfffo_32_ix s =
    (if CPU_TYPE_IS_EC020_PLUS (cpu_type s)
     then chain (OPER_I_16 s) (\<lambda>word2 s.
          let offset = drop_bit 6 word2 AND 31;
              width = word2
          in chain (EA_AY_IX_8 s) (\<lambda>ea s.
             let offset = (if BIT 11 word2 \<noteq> 0
                           then REG_D s (offset AND 7)
                           else offset);
                 width = (if BIT 5 word2 \<noteq> 0
                          then REG_D s (width AND 7)
                          else width);
                 ea = ea + (sdiv32 offset 8);
                 local_offset = smod32 offset 8;
                 (ea, local_offset) = (if word_sless local_offset 0
                                       then let local_offset = local_offset + 8;
                                                ea = ea - 1
                                            in (ea, local_offset)
                                       else (ea, local_offset));
                 width = ((width - 1) AND 31) + 1
             in chain (m68ki_read_32 ea s) (\<lambda>data_v s.
                let data_v = MASK_OUT_ABOVE_32 (push_bit (unat local_offset) data_v)
                in chain (if 32 < local_offset + width
                          then chain (m68ki_read_8 (ea + 4) s) (\<lambda>v4 s.
                               let data_v = data_v OR (drop_bit 8 (push_bit (unat local_offset) v4))
                               in Ret data_v s)
                          else Ret data_v s) (\<lambda>data_v s.
                   let s = s\<lparr>n_flag := NFLAG_32 data_v\<rparr>;
                       data_v = drop_bit (unat (32 - width)) data_v;
                       s = s\<lparr>not_z_flag := data_v,
                             v_flag := VFLAG_CLEAR,
                             c_flag := CFLAG_CLEAR\<rparr>;
                       offset = bfffo_scan (push_bit (unat (width - 1)) 1) (ucast data_v) offset
                   in Ret () (set_REG_D (drop_bit 12 word2 AND 7) offset s)))))
     else m68ki_exception_illegal s)"

definition m68k_op_bfffo_32_aw :: "'b op" where
  "m68k_op_bfffo_32_aw s =
    (if CPU_TYPE_IS_EC020_PLUS (cpu_type s)
     then chain (OPER_I_16 s) (\<lambda>word2 s.
          let offset = drop_bit 6 word2 AND 31;
              width = word2
          in chain (EA_AW_8 s) (\<lambda>ea s.
             let offset = (if BIT 11 word2 \<noteq> 0
                           then REG_D s (offset AND 7)
                           else offset);
                 width = (if BIT 5 word2 \<noteq> 0
                          then REG_D s (width AND 7)
                          else width);
                 ea = ea + (sdiv32 offset 8);
                 local_offset = smod32 offset 8;
                 (ea, local_offset) = (if word_sless local_offset 0
                                       then let local_offset = local_offset + 8;
                                                ea = ea - 1
                                            in (ea, local_offset)
                                       else (ea, local_offset));
                 width = ((width - 1) AND 31) + 1
             in chain (m68ki_read_32 ea s) (\<lambda>data_v s.
                let data_v = MASK_OUT_ABOVE_32 (push_bit (unat local_offset) data_v)
                in chain (if 32 < local_offset + width
                          then chain (m68ki_read_8 (ea + 4) s) (\<lambda>v4 s.
                               let data_v = data_v OR (drop_bit 8 (push_bit (unat local_offset) v4))
                               in Ret data_v s)
                          else Ret data_v s) (\<lambda>data_v s.
                   let s = s\<lparr>n_flag := NFLAG_32 data_v\<rparr>;
                       data_v = drop_bit (unat (32 - width)) data_v;
                       s = s\<lparr>not_z_flag := data_v,
                             v_flag := VFLAG_CLEAR,
                             c_flag := CFLAG_CLEAR\<rparr>;
                       offset = bfffo_scan (push_bit (unat (width - 1)) 1) (ucast data_v) offset
                   in Ret () (set_REG_D (drop_bit 12 word2 AND 7) offset s)))))
     else m68ki_exception_illegal s)"

definition m68k_op_bfffo_32_al :: "'b op" where
  "m68k_op_bfffo_32_al s =
    (if CPU_TYPE_IS_EC020_PLUS (cpu_type s)
     then chain (OPER_I_16 s) (\<lambda>word2 s.
          let offset = drop_bit 6 word2 AND 31;
              width = word2
          in chain (EA_AL_8 s) (\<lambda>ea s.
             let offset = (if BIT 11 word2 \<noteq> 0
                           then REG_D s (offset AND 7)
                           else offset);
                 width = (if BIT 5 word2 \<noteq> 0
                          then REG_D s (width AND 7)
                          else width);
                 ea = ea + (sdiv32 offset 8);
                 local_offset = smod32 offset 8;
                 (ea, local_offset) = (if word_sless local_offset 0
                                       then let local_offset = local_offset + 8;
                                                ea = ea - 1
                                            in (ea, local_offset)
                                       else (ea, local_offset));
                 width = ((width - 1) AND 31) + 1
             in chain (m68ki_read_32 ea s) (\<lambda>data_v s.
                let data_v = MASK_OUT_ABOVE_32 (push_bit (unat local_offset) data_v)
                in chain (if 32 < local_offset + width
                          then chain (m68ki_read_8 (ea + 4) s) (\<lambda>v4 s.
                               let data_v = data_v OR (drop_bit 8 (push_bit (unat local_offset) v4))
                               in Ret data_v s)
                          else Ret data_v s) (\<lambda>data_v s.
                   let s = s\<lparr>n_flag := NFLAG_32 data_v\<rparr>;
                       data_v = drop_bit (unat (32 - width)) data_v;
                       s = s\<lparr>not_z_flag := data_v,
                             v_flag := VFLAG_CLEAR,
                             c_flag := CFLAG_CLEAR\<rparr>;
                       offset = bfffo_scan (push_bit (unat (width - 1)) 1) (ucast data_v) offset
                   in Ret () (set_REG_D (drop_bit 12 word2 AND 7) offset s)))))
     else m68ki_exception_illegal s)"

definition m68k_op_bfffo_32_pcdi :: "'b op" where
  "m68k_op_bfffo_32_pcdi s =
    (if CPU_TYPE_IS_EC020_PLUS (cpu_type s)
     then chain (OPER_I_16 s) (\<lambda>word2 s.
          let offset = drop_bit 6 word2 AND 31;
              width = word2
          in chain (EA_PCDI_8 s) (\<lambda>ea s.
             let offset = (if BIT 11 word2 \<noteq> 0
                           then REG_D s (offset AND 7)
                           else offset);
                 width = (if BIT 5 word2 \<noteq> 0
                          then REG_D s (width AND 7)
                          else width);
                 ea = ea + (sdiv32 offset 8);
                 local_offset = smod32 offset 8;
                 (ea, local_offset) = (if word_sless local_offset 0
                                       then let local_offset = local_offset + 8;
                                                ea = ea - 1
                                            in (ea, local_offset)
                                       else (ea, local_offset));
                 width = ((width - 1) AND 31) + 1
             in chain (m68ki_read_32 ea s) (\<lambda>data_v s.
                let data_v = MASK_OUT_ABOVE_32 (push_bit (unat local_offset) data_v)
                in chain (if 32 < local_offset + width
                          then chain (m68ki_read_8 (ea + 4) s) (\<lambda>v4 s.
                               let data_v = data_v OR (drop_bit 8 (push_bit (unat local_offset) v4))
                               in Ret data_v s)
                          else Ret data_v s) (\<lambda>data_v s.
                   let s = s\<lparr>n_flag := NFLAG_32 data_v\<rparr>;
                       data_v = drop_bit (unat (32 - width)) data_v;
                       s = s\<lparr>not_z_flag := data_v,
                             v_flag := VFLAG_CLEAR,
                             c_flag := CFLAG_CLEAR\<rparr>;
                       offset = bfffo_scan (push_bit (unat (width - 1)) 1) (ucast data_v) offset
                   in Ret () (set_REG_D (drop_bit 12 word2 AND 7) offset s)))))
     else m68ki_exception_illegal s)"

definition m68k_op_bfffo_32_pcix :: "'b op" where
  "m68k_op_bfffo_32_pcix s =
    (if CPU_TYPE_IS_EC020_PLUS (cpu_type s)
     then chain (OPER_I_16 s) (\<lambda>word2 s.
          let offset = drop_bit 6 word2 AND 31;
              width = word2
          in chain (EA_PCIX_8 s) (\<lambda>ea s.
             let offset = (if BIT 11 word2 \<noteq> 0
                           then REG_D s (offset AND 7)
                           else offset);
                 width = (if BIT 5 word2 \<noteq> 0
                          then REG_D s (width AND 7)
                          else width);
                 ea = ea + (sdiv32 offset 8);
                 local_offset = smod32 offset 8;
                 (ea, local_offset) = (if word_sless local_offset 0
                                       then let local_offset = local_offset + 8;
                                                ea = ea - 1
                                            in (ea, local_offset)
                                       else (ea, local_offset));
                 width = ((width - 1) AND 31) + 1
             in chain (m68ki_read_32 ea s) (\<lambda>data_v s.
                let data_v = MASK_OUT_ABOVE_32 (push_bit (unat local_offset) data_v)
                in chain (if 32 < local_offset + width
                          then chain (m68ki_read_8 (ea + 4) s) (\<lambda>v4 s.
                               let data_v = data_v OR (drop_bit 8 (push_bit (unat local_offset) v4))
                               in Ret data_v s)
                          else Ret data_v s) (\<lambda>data_v s.
                   let s = s\<lparr>n_flag := NFLAG_32 data_v\<rparr>;
                       data_v = drop_bit (unat (32 - width)) data_v;
                       s = s\<lparr>not_z_flag := data_v,
                             v_flag := VFLAG_CLEAR,
                             c_flag := CFLAG_CLEAR\<rparr>;
                       offset = bfffo_scan (push_bit (unat (width - 1)) 1) (ucast data_v) offset
                   in Ret () (set_REG_D (drop_bit 12 word2 AND 7) offset s)))))
     else m68ki_exception_illegal s)"

definition m68k_op_bfins_32_d :: "'b op" where
  "m68k_op_bfins_32_d s =
    (if CPU_TYPE_IS_EC020_PLUS (cpu_type s)
     then chain (OPER_I_16 s) (\<lambda>word2 s.
          let offset = drop_bit 6 word2 AND 31;
              width = word2;
              insert_v = (ucast (REG_D s (drop_bit 12 word2 AND 7)) :: u64);
              offset = (if BIT 11 word2 \<noteq> 0
                        then REG_D s (offset AND 7)
                        else offset);
              width = (if BIT 5 word2 \<noteq> 0
                       then REG_D s (width AND 7)
                       else width);
              offset = offset AND 31;
              width = ((width - 1) AND 31) + 1;
              mask_v = (ucast (MASK_OUT_ABOVE_32 (push_bit (unat (32 - width)) 0xffffffff)) :: u64);
              mask_v = (ROR_32_u64 mask_v offset :: u64);
              insert_v = (push_bit (unat (32 - width)) insert_v AND 0xffffffff :: u64);
              s = s\<lparr>n_flag := (ucast (drop_bit 24 insert_v)),
                    not_z_flag := (ucast insert_v)\<rparr>;
              insert_v = (ROR_32_u64 insert_v offset :: u64);
              s = s\<lparr>v_flag := VFLAG_CLEAR, c_flag := CFLAG_CLEAR\<rparr>;
              s = set_DY (ucast ((ucast (DY s)) AND (NOT mask_v))) s
          in Ret () (set_DY (ucast ((ucast (DY s)) OR insert_v)) s))
     else m68ki_exception_illegal s)"

definition m68k_op_bfins_32_ai :: "'b op" where
  "m68k_op_bfins_32_ai s =
    (if CPU_TYPE_IS_EC020_PLUS (cpu_type s)
     then chain (OPER_I_16 s) (\<lambda>word2 s.
          let offset = drop_bit 6 word2 AND 31;
              width = word2;
              insert_base = REG_D s (drop_bit 12 word2 AND 7)
          in chain (EA_AY_AI_8 s) (\<lambda>ea s.
             let offset = (if BIT 11 word2 \<noteq> 0
                           then REG_D s (offset AND 7)
                           else offset);
                 width = (if BIT 5 word2 \<noteq> 0
                          then REG_D s (width AND 7)
                          else width);
                 width = ((width - 1) AND 31) + 1;
                 mask_base = MASK_OUT_ABOVE_32 (push_bit (unat (32 - width)) 0xffffffff);
                 ea = m68ki_bitfield_patch_ea ea offset;
                 offset = m68ki_bitfield_patch_offset offset
             in chain (m68ki_load_bitfield ea offset width s) (\<lambda>data_v s.
                let insert_base = MASK_OUT_ABOVE_32 (push_bit (unat (32 - width)) insert_base);
                    s = s\<lparr>n_flag := NFLAG_32 insert_base,
                          not_z_flag := insert_base,
                          v_flag := VFLAG_CLEAR,
                          c_flag := CFLAG_CLEAR\<rparr>;
                    data_v = data_v\<lparr>bf_field := (bf_field data_v AND (NOT mask_base)) OR
                          insert_base\<rparr>
                in m68ki_store_bitfield ea offset width (bf_field data_v) data_v s)))
     else m68ki_exception_illegal s)"

definition m68k_op_bfins_32_di :: "'b op" where
  "m68k_op_bfins_32_di s =
    (if CPU_TYPE_IS_EC020_PLUS (cpu_type s)
     then chain (OPER_I_16 s) (\<lambda>word2 s.
          let offset = drop_bit 6 word2 AND 31;
              width = word2;
              insert_base = REG_D s (drop_bit 12 word2 AND 7)
          in chain (EA_AY_DI_8 s) (\<lambda>ea s.
             let offset = (if BIT 11 word2 \<noteq> 0
                           then REG_D s (offset AND 7)
                           else offset);
                 width = (if BIT 5 word2 \<noteq> 0
                          then REG_D s (width AND 7)
                          else width);
                 width = ((width - 1) AND 31) + 1;
                 mask_base = MASK_OUT_ABOVE_32 (push_bit (unat (32 - width)) 0xffffffff);
                 ea = m68ki_bitfield_patch_ea ea offset;
                 offset = m68ki_bitfield_patch_offset offset
             in chain (m68ki_load_bitfield ea offset width s) (\<lambda>data_v s.
                let insert_base = MASK_OUT_ABOVE_32 (push_bit (unat (32 - width)) insert_base);
                    s = s\<lparr>n_flag := NFLAG_32 insert_base,
                          not_z_flag := insert_base,
                          v_flag := VFLAG_CLEAR,
                          c_flag := CFLAG_CLEAR\<rparr>;
                    data_v = data_v\<lparr>bf_field := (bf_field data_v AND (NOT mask_base)) OR
                          insert_base\<rparr>
                in m68ki_store_bitfield ea offset width (bf_field data_v) data_v s)))
     else m68ki_exception_illegal s)"

definition m68k_op_bfins_32_ix :: "'b op" where
  "m68k_op_bfins_32_ix s =
    (if CPU_TYPE_IS_EC020_PLUS (cpu_type s)
     then chain (OPER_I_16 s) (\<lambda>word2 s.
          let offset = drop_bit 6 word2 AND 31;
              width = word2;
              insert_base = REG_D s (drop_bit 12 word2 AND 7)
          in chain (EA_AY_IX_8 s) (\<lambda>ea s.
             let offset = (if BIT 11 word2 \<noteq> 0
                           then REG_D s (offset AND 7)
                           else offset);
                 width = (if BIT 5 word2 \<noteq> 0
                          then REG_D s (width AND 7)
                          else width);
                 width = ((width - 1) AND 31) + 1;
                 mask_base = MASK_OUT_ABOVE_32 (push_bit (unat (32 - width)) 0xffffffff);
                 ea = m68ki_bitfield_patch_ea ea offset;
                 offset = m68ki_bitfield_patch_offset offset
             in chain (m68ki_load_bitfield ea offset width s) (\<lambda>data_v s.
                let insert_base = MASK_OUT_ABOVE_32 (push_bit (unat (32 - width)) insert_base);
                    s = s\<lparr>n_flag := NFLAG_32 insert_base,
                          not_z_flag := insert_base,
                          v_flag := VFLAG_CLEAR,
                          c_flag := CFLAG_CLEAR\<rparr>;
                    data_v = data_v\<lparr>bf_field := (bf_field data_v AND (NOT mask_base)) OR
                          insert_base\<rparr>
                in m68ki_store_bitfield ea offset width (bf_field data_v) data_v s)))
     else m68ki_exception_illegal s)"

definition m68k_op_bfins_32_aw :: "'b op" where
  "m68k_op_bfins_32_aw s =
    (if CPU_TYPE_IS_EC020_PLUS (cpu_type s)
     then chain (OPER_I_16 s) (\<lambda>word2 s.
          let offset = drop_bit 6 word2 AND 31;
              width = word2;
              insert_base = REG_D s (drop_bit 12 word2 AND 7)
          in chain (EA_AW_8 s) (\<lambda>ea s.
             let offset = (if BIT 11 word2 \<noteq> 0
                           then REG_D s (offset AND 7)
                           else offset);
                 width = (if BIT 5 word2 \<noteq> 0
                          then REG_D s (width AND 7)
                          else width);
                 width = ((width - 1) AND 31) + 1;
                 mask_base = MASK_OUT_ABOVE_32 (push_bit (unat (32 - width)) 0xffffffff);
                 ea = m68ki_bitfield_patch_ea ea offset;
                 offset = m68ki_bitfield_patch_offset offset
             in chain (m68ki_load_bitfield ea offset width s) (\<lambda>data_v s.
                let insert_base = MASK_OUT_ABOVE_32 (push_bit (unat (32 - width)) insert_base);
                    s = s\<lparr>n_flag := NFLAG_32 insert_base,
                          not_z_flag := insert_base,
                          v_flag := VFLAG_CLEAR,
                          c_flag := CFLAG_CLEAR\<rparr>;
                    data_v = data_v\<lparr>bf_field := (bf_field data_v AND (NOT mask_base)) OR
                          insert_base\<rparr>
                in m68ki_store_bitfield ea offset width (bf_field data_v) data_v s)))
     else m68ki_exception_illegal s)"

definition m68k_op_bfins_32_al :: "'b op" where
  "m68k_op_bfins_32_al s =
    (if CPU_TYPE_IS_EC020_PLUS (cpu_type s)
     then chain (OPER_I_16 s) (\<lambda>word2 s.
          let offset = drop_bit 6 word2 AND 31;
              width = word2;
              insert_base = REG_D s (drop_bit 12 word2 AND 7)
          in chain (EA_AL_8 s) (\<lambda>ea s.
             let offset = (if BIT 11 word2 \<noteq> 0
                           then REG_D s (offset AND 7)
                           else offset);
                 width = (if BIT 5 word2 \<noteq> 0
                          then REG_D s (width AND 7)
                          else width);
                 width = ((width - 1) AND 31) + 1;
                 mask_base = MASK_OUT_ABOVE_32 (push_bit (unat (32 - width)) 0xffffffff);
                 ea = m68ki_bitfield_patch_ea ea offset;
                 offset = m68ki_bitfield_patch_offset offset
             in chain (m68ki_load_bitfield ea offset width s) (\<lambda>data_v s.
                let insert_base = MASK_OUT_ABOVE_32 (push_bit (unat (32 - width)) insert_base);
                    s = s\<lparr>n_flag := NFLAG_32 insert_base,
                          not_z_flag := insert_base,
                          v_flag := VFLAG_CLEAR,
                          c_flag := CFLAG_CLEAR\<rparr>;
                    data_v = data_v\<lparr>bf_field := (bf_field data_v AND (NOT mask_base)) OR
                          insert_base\<rparr>
                in m68ki_store_bitfield ea offset width (bf_field data_v) data_v s)))
     else m68ki_exception_illegal s)"

definition m68k_op_bfset_32_d :: "'b op" where
  "m68k_op_bfset_32_d s =
    (if CPU_TYPE_IS_EC020_PLUS (cpu_type s)
     then chain (OPER_I_16 s) (\<lambda>word2 s.
          let offset = drop_bit 6 word2 AND 31;
              width = word2;
              offset = (if BIT 11 word2 \<noteq> 0
                        then REG_D s (offset AND 7)
                        else offset);
              width = (if BIT 5 word2 \<noteq> 0
                       then REG_D s (width AND 7)
                       else width);
              offset = offset AND 31;
              width = ((width - 1) AND 31) + 1;
              mask_v = (ucast (MASK_OUT_ABOVE_32 (push_bit (unat (32 - width)) 0xffffffff)) :: u64);
              mask_v = (ROR_32_u64 mask_v offset :: u64);
              s = s\<lparr>n_flag := NFLAG_32 (push_bit (unat offset) (DY s)),
                    not_z_flag := (ucast ((ucast (DY s)) AND mask_v)),
                    v_flag := VFLAG_CLEAR,
                    c_flag := CFLAG_CLEAR\<rparr>
          in Ret () (set_DY (ucast ((ucast (DY s)) OR mask_v)) s))
     else m68ki_exception_illegal s)"

definition m68k_op_bfset_32_ai :: "'b op" where
  "m68k_op_bfset_32_ai s =
    (if CPU_TYPE_IS_EC020_PLUS (cpu_type s)
     then chain (OPER_I_16 s) (\<lambda>word2 s.
          let offset = drop_bit 6 word2 AND 31;
              width = word2
          in chain (EA_AY_AI_8 s) (\<lambda>ea s.
             let offset = (if BIT 11 word2 \<noteq> 0
                           then REG_D s (offset AND 7)
                           else offset);
                 width = (if BIT 5 word2 \<noteq> 0
                          then REG_D s (width AND 7)
                          else width);
                 width = ((width - 1) AND 31) + 1;
                 mask_base = MASK_OUT_ABOVE_32 (push_bit (unat (32 - width)) 0xffffffff);
                 ea = m68ki_bitfield_patch_ea ea offset;
                 offset = m68ki_bitfield_patch_offset offset
             in chain (m68ki_load_bitfield ea offset width s) (\<lambda>data_v s.
                let s = s\<lparr>n_flag := NFLAG_32 (bf_field data_v),
                          not_z_flag := bf_field data_v AND mask_base,
                          v_flag := VFLAG_CLEAR,
                          c_flag := CFLAG_CLEAR\<rparr>;
                    data_v = data_v\<lparr>bf_field := (bf_field data_v) OR mask_base\<rparr>
                in m68ki_store_bitfield ea offset width (bf_field data_v) data_v s)))
     else m68ki_exception_illegal s)"

definition m68k_op_bfset_32_di :: "'b op" where
  "m68k_op_bfset_32_di s =
    (if CPU_TYPE_IS_EC020_PLUS (cpu_type s)
     then chain (OPER_I_16 s) (\<lambda>word2 s.
          let offset = drop_bit 6 word2 AND 31;
              width = word2
          in chain (EA_AY_DI_8 s) (\<lambda>ea s.
             let offset = (if BIT 11 word2 \<noteq> 0
                           then REG_D s (offset AND 7)
                           else offset);
                 width = (if BIT 5 word2 \<noteq> 0
                          then REG_D s (width AND 7)
                          else width);
                 width = ((width - 1) AND 31) + 1;
                 mask_base = MASK_OUT_ABOVE_32 (push_bit (unat (32 - width)) 0xffffffff);
                 ea = m68ki_bitfield_patch_ea ea offset;
                 offset = m68ki_bitfield_patch_offset offset
             in chain (m68ki_load_bitfield ea offset width s) (\<lambda>data_v s.
                let s = s\<lparr>n_flag := NFLAG_32 (bf_field data_v),
                          not_z_flag := bf_field data_v AND mask_base,
                          v_flag := VFLAG_CLEAR,
                          c_flag := CFLAG_CLEAR\<rparr>;
                    data_v = data_v\<lparr>bf_field := (bf_field data_v) OR mask_base\<rparr>
                in m68ki_store_bitfield ea offset width (bf_field data_v) data_v s)))
     else m68ki_exception_illegal s)"

definition m68k_op_bfset_32_ix :: "'b op" where
  "m68k_op_bfset_32_ix s =
    (if CPU_TYPE_IS_EC020_PLUS (cpu_type s)
     then chain (OPER_I_16 s) (\<lambda>word2 s.
          let offset = drop_bit 6 word2 AND 31;
              width = word2
          in chain (EA_AY_IX_8 s) (\<lambda>ea s.
             let offset = (if BIT 11 word2 \<noteq> 0
                           then REG_D s (offset AND 7)
                           else offset);
                 width = (if BIT 5 word2 \<noteq> 0
                          then REG_D s (width AND 7)
                          else width);
                 width = ((width - 1) AND 31) + 1;
                 mask_base = MASK_OUT_ABOVE_32 (push_bit (unat (32 - width)) 0xffffffff);
                 ea = m68ki_bitfield_patch_ea ea offset;
                 offset = m68ki_bitfield_patch_offset offset
             in chain (m68ki_load_bitfield ea offset width s) (\<lambda>data_v s.
                let s = s\<lparr>n_flag := NFLAG_32 (bf_field data_v),
                          not_z_flag := bf_field data_v AND mask_base,
                          v_flag := VFLAG_CLEAR,
                          c_flag := CFLAG_CLEAR\<rparr>;
                    data_v = data_v\<lparr>bf_field := (bf_field data_v) OR mask_base\<rparr>
                in m68ki_store_bitfield ea offset width (bf_field data_v) data_v s)))
     else m68ki_exception_illegal s)"

definition m68k_op_bfset_32_aw :: "'b op" where
  "m68k_op_bfset_32_aw s =
    (if CPU_TYPE_IS_EC020_PLUS (cpu_type s)
     then chain (OPER_I_16 s) (\<lambda>word2 s.
          let offset = drop_bit 6 word2 AND 31;
              width = word2
          in chain (EA_AW_8 s) (\<lambda>ea s.
             let offset = (if BIT 11 word2 \<noteq> 0
                           then REG_D s (offset AND 7)
                           else offset);
                 width = (if BIT 5 word2 \<noteq> 0
                          then REG_D s (width AND 7)
                          else width);
                 width = ((width - 1) AND 31) + 1;
                 mask_base = MASK_OUT_ABOVE_32 (push_bit (unat (32 - width)) 0xffffffff);
                 ea = m68ki_bitfield_patch_ea ea offset;
                 offset = m68ki_bitfield_patch_offset offset
             in chain (m68ki_load_bitfield ea offset width s) (\<lambda>data_v s.
                let s = s\<lparr>n_flag := NFLAG_32 (bf_field data_v),
                          not_z_flag := bf_field data_v AND mask_base,
                          v_flag := VFLAG_CLEAR,
                          c_flag := CFLAG_CLEAR\<rparr>;
                    data_v = data_v\<lparr>bf_field := (bf_field data_v) OR mask_base\<rparr>
                in m68ki_store_bitfield ea offset width (bf_field data_v) data_v s)))
     else m68ki_exception_illegal s)"

definition m68k_op_bfset_32_al :: "'b op" where
  "m68k_op_bfset_32_al s =
    (if CPU_TYPE_IS_EC020_PLUS (cpu_type s)
     then chain (OPER_I_16 s) (\<lambda>word2 s.
          let offset = drop_bit 6 word2 AND 31;
              width = word2
          in chain (EA_AL_8 s) (\<lambda>ea s.
             let offset = (if BIT 11 word2 \<noteq> 0
                           then REG_D s (offset AND 7)
                           else offset);
                 width = (if BIT 5 word2 \<noteq> 0
                          then REG_D s (width AND 7)
                          else width);
                 width = ((width - 1) AND 31) + 1;
                 mask_base = MASK_OUT_ABOVE_32 (push_bit (unat (32 - width)) 0xffffffff);
                 ea = m68ki_bitfield_patch_ea ea offset;
                 offset = m68ki_bitfield_patch_offset offset
             in chain (m68ki_load_bitfield ea offset width s) (\<lambda>data_v s.
                let s = s\<lparr>n_flag := NFLAG_32 (bf_field data_v),
                          not_z_flag := bf_field data_v AND mask_base,
                          v_flag := VFLAG_CLEAR,
                          c_flag := CFLAG_CLEAR\<rparr>;
                    data_v = data_v\<lparr>bf_field := (bf_field data_v) OR mask_base\<rparr>
                in m68ki_store_bitfield ea offset width (bf_field data_v) data_v s)))
     else m68ki_exception_illegal s)"

definition m68k_op_bftst_32_d :: "'b op" where
  "m68k_op_bftst_32_d s =
    (if CPU_TYPE_IS_EC020_PLUS (cpu_type s)
     then chain (OPER_I_16 s) (\<lambda>word2 s.
          let offset = drop_bit 6 word2 AND 31;
              width = word2;
              offset = (if BIT 11 word2 \<noteq> 0
                        then REG_D s (offset AND 7)
                        else offset);
              width = (if BIT 5 word2 \<noteq> 0
                       then REG_D s (width AND 7)
                       else width);
              offset = offset AND 31;
              width = ((width - 1) AND 31) + 1;
              mask_v = (ucast (MASK_OUT_ABOVE_32 (push_bit (unat (32 - width)) 0xffffffff)) :: u64);
              mask_v = (ROR_32_u64 mask_v offset :: u64)
          in Ret () (s\<lparr>n_flag := NFLAG_32 (push_bit (unat offset) (DY s)),
               not_z_flag := (ucast ((ucast (DY s)) AND mask_v)),
               v_flag := VFLAG_CLEAR,
               c_flag := CFLAG_CLEAR\<rparr>))
     else m68ki_exception_illegal s)"

definition m68k_op_bftst_32_ai :: "'b op" where
  "m68k_op_bftst_32_ai s =
    (if CPU_TYPE_IS_EC020_PLUS (cpu_type s)
     then chain (OPER_I_16 s) (\<lambda>word2 s.
          let offset = drop_bit 6 word2 AND 31;
              width = word2;
              data_byte = (0 :: u32);
              mask_byte = (0 :: u32)
          in chain (EA_AY_AI_8 s) (\<lambda>ea s.
             let offset = (if BIT 11 word2 \<noteq> 0
                           then REG_D s (offset AND 7)
                           else offset);
                 width = (if BIT 5 word2 \<noteq> 0
                          then REG_D s (width AND 7)
                          else width);
                 ea = ea + (sdiv32 offset 8);
                 offset = smod32 offset 8;
                 (ea, offset) = (if word_sless offset 0
                                 then let offset = offset + 8;
                                          ea = ea - 1
                                      in (ea, offset)
                                 else (ea, offset));
                 width = ((width - 1) AND 31) + 1;
                 mask_base = MASK_OUT_ABOVE_32 (push_bit (unat (32 - width)) 0xffffffff);
                 mask_long = drop_bit (unat offset) mask_base
             in chain (m68ki_read_32 ea s) (\<lambda>data_long s.
                let s = s\<lparr>n_flag := drop_bit 24 (push_bit (unat offset) (data_long AND
                      drop_bit (unat offset) 0x80000000)),
                          not_z_flag := data_long AND mask_long,
                          v_flag := VFLAG_CLEAR,
                          c_flag := CFLAG_CLEAR\<rparr>
                in chain (if 32 < width + offset
                          then let mask_byte = MASK_OUT_ABOVE_8 mask_base
                               in chain (m68ki_read_8 (ea + 4) s) (\<lambda>data_byte s.
                                  let s = s\<lparr>not_z_flag := (not_z_flag s) OR (data_byte AND
                                        mask_byte)\<rparr>
                                  in Ret (data_byte, mask_byte) s)
                          else Ret (data_byte, mask_byte) s) (\<lambda>(data_byte, mask_byte) s.
                   Ret () s))))
     else m68ki_exception_illegal s)"

definition m68k_op_bftst_32_di :: "'b op" where
  "m68k_op_bftst_32_di s =
    (if CPU_TYPE_IS_EC020_PLUS (cpu_type s)
     then chain (OPER_I_16 s) (\<lambda>word2 s.
          let offset = drop_bit 6 word2 AND 31;
              width = word2;
              data_byte = (0 :: u32);
              mask_byte = (0 :: u32)
          in chain (EA_AY_DI_8 s) (\<lambda>ea s.
             let offset = (if BIT 11 word2 \<noteq> 0
                           then REG_D s (offset AND 7)
                           else offset);
                 width = (if BIT 5 word2 \<noteq> 0
                          then REG_D s (width AND 7)
                          else width);
                 ea = ea + (sdiv32 offset 8);
                 offset = smod32 offset 8;
                 (ea, offset) = (if word_sless offset 0
                                 then let offset = offset + 8;
                                          ea = ea - 1
                                      in (ea, offset)
                                 else (ea, offset));
                 width = ((width - 1) AND 31) + 1;
                 mask_base = MASK_OUT_ABOVE_32 (push_bit (unat (32 - width)) 0xffffffff);
                 mask_long = drop_bit (unat offset) mask_base
             in chain (m68ki_read_32 ea s) (\<lambda>data_long s.
                let s = s\<lparr>n_flag := drop_bit 24 (push_bit (unat offset) (data_long AND
                      drop_bit (unat offset) 0x80000000)),
                          not_z_flag := data_long AND mask_long,
                          v_flag := VFLAG_CLEAR,
                          c_flag := CFLAG_CLEAR\<rparr>
                in chain (if 32 < width + offset
                          then let mask_byte = MASK_OUT_ABOVE_8 mask_base
                               in chain (m68ki_read_8 (ea + 4) s) (\<lambda>data_byte s.
                                  let s = s\<lparr>not_z_flag := (not_z_flag s) OR (data_byte AND
                                        mask_byte)\<rparr>
                                  in Ret (data_byte, mask_byte) s)
                          else Ret (data_byte, mask_byte) s) (\<lambda>(data_byte, mask_byte) s.
                   Ret () s))))
     else m68ki_exception_illegal s)"

definition m68k_op_bftst_32_ix :: "'b op" where
  "m68k_op_bftst_32_ix s =
    (if CPU_TYPE_IS_EC020_PLUS (cpu_type s)
     then chain (OPER_I_16 s) (\<lambda>word2 s.
          let offset = drop_bit 6 word2 AND 31;
              width = word2;
              data_byte = (0 :: u32);
              mask_byte = (0 :: u32)
          in chain (EA_AY_IX_8 s) (\<lambda>ea s.
             let offset = (if BIT 11 word2 \<noteq> 0
                           then REG_D s (offset AND 7)
                           else offset);
                 width = (if BIT 5 word2 \<noteq> 0
                          then REG_D s (width AND 7)
                          else width);
                 ea = ea + (sdiv32 offset 8);
                 offset = smod32 offset 8;
                 (ea, offset) = (if word_sless offset 0
                                 then let offset = offset + 8;
                                          ea = ea - 1
                                      in (ea, offset)
                                 else (ea, offset));
                 width = ((width - 1) AND 31) + 1;
                 mask_base = MASK_OUT_ABOVE_32 (push_bit (unat (32 - width)) 0xffffffff);
                 mask_long = drop_bit (unat offset) mask_base
             in chain (m68ki_read_32 ea s) (\<lambda>data_long s.
                let s = s\<lparr>n_flag := drop_bit 24 (push_bit (unat offset) (data_long AND
                      drop_bit (unat offset) 0x80000000)),
                          not_z_flag := data_long AND mask_long,
                          v_flag := VFLAG_CLEAR,
                          c_flag := CFLAG_CLEAR\<rparr>
                in chain (if 32 < width + offset
                          then let mask_byte = MASK_OUT_ABOVE_8 mask_base
                               in chain (m68ki_read_8 (ea + 4) s) (\<lambda>data_byte s.
                                  let s = s\<lparr>not_z_flag := (not_z_flag s) OR (data_byte AND
                                        mask_byte)\<rparr>
                                  in Ret (data_byte, mask_byte) s)
                          else Ret (data_byte, mask_byte) s) (\<lambda>(data_byte, mask_byte) s.
                   Ret () s))))
     else m68ki_exception_illegal s)"

definition m68k_op_bftst_32_aw :: "'b op" where
  "m68k_op_bftst_32_aw s =
    (if CPU_TYPE_IS_EC020_PLUS (cpu_type s)
     then chain (OPER_I_16 s) (\<lambda>word2 s.
          let offset = drop_bit 6 word2 AND 31;
              width = word2;
              data_byte = (0 :: u32);
              mask_byte = (0 :: u32)
          in chain (EA_AW_8 s) (\<lambda>ea s.
             let offset = (if BIT 11 word2 \<noteq> 0
                           then REG_D s (offset AND 7)
                           else offset);
                 width = (if BIT 5 word2 \<noteq> 0
                          then REG_D s (width AND 7)
                          else width);
                 ea = ea + (sdiv32 offset 8);
                 offset = smod32 offset 8;
                 (ea, offset) = (if word_sless offset 0
                                 then let offset = offset + 8;
                                          ea = ea - 1
                                      in (ea, offset)
                                 else (ea, offset));
                 width = ((width - 1) AND 31) + 1;
                 mask_base = MASK_OUT_ABOVE_32 (push_bit (unat (32 - width)) 0xffffffff);
                 mask_long = drop_bit (unat offset) mask_base
             in chain (m68ki_read_32 ea s) (\<lambda>data_long s.
                let s = s\<lparr>n_flag := drop_bit 24 (push_bit (unat offset) (data_long AND
                      drop_bit (unat offset) 0x80000000)),
                          not_z_flag := data_long AND mask_long,
                          v_flag := VFLAG_CLEAR,
                          c_flag := CFLAG_CLEAR\<rparr>
                in chain (if 32 < width + offset
                          then let mask_byte = MASK_OUT_ABOVE_8 mask_base
                               in chain (m68ki_read_8 (ea + 4) s) (\<lambda>data_byte s.
                                  let s = s\<lparr>not_z_flag := (not_z_flag s) OR (data_byte AND
                                        mask_byte)\<rparr>
                                  in Ret (data_byte, mask_byte) s)
                          else Ret (data_byte, mask_byte) s) (\<lambda>(data_byte, mask_byte) s.
                   Ret () s))))
     else m68ki_exception_illegal s)"

definition m68k_op_bftst_32_al :: "'b op" where
  "m68k_op_bftst_32_al s =
    (if CPU_TYPE_IS_EC020_PLUS (cpu_type s)
     then chain (OPER_I_16 s) (\<lambda>word2 s.
          let offset = drop_bit 6 word2 AND 31;
              width = word2;
              data_byte = (0 :: u32);
              mask_byte = (0 :: u32)
          in chain (EA_AL_8 s) (\<lambda>ea s.
             let offset = (if BIT 11 word2 \<noteq> 0
                           then REG_D s (offset AND 7)
                           else offset);
                 width = (if BIT 5 word2 \<noteq> 0
                          then REG_D s (width AND 7)
                          else width);
                 ea = ea + (sdiv32 offset 8);
                 offset = smod32 offset 8;
                 (ea, offset) = (if word_sless offset 0
                                 then let offset = offset + 8;
                                          ea = ea - 1
                                      in (ea, offset)
                                 else (ea, offset));
                 width = ((width - 1) AND 31) + 1;
                 mask_base = MASK_OUT_ABOVE_32 (push_bit (unat (32 - width)) 0xffffffff);
                 mask_long = drop_bit (unat offset) mask_base
             in chain (m68ki_read_32 ea s) (\<lambda>data_long s.
                let s = s\<lparr>n_flag := drop_bit 24 (push_bit (unat offset) (data_long AND
                      drop_bit (unat offset) 0x80000000)),
                          not_z_flag := data_long AND mask_long,
                          v_flag := VFLAG_CLEAR,
                          c_flag := CFLAG_CLEAR\<rparr>
                in chain (if 32 < width + offset
                          then let mask_byte = MASK_OUT_ABOVE_8 mask_base
                               in chain (m68ki_read_8 (ea + 4) s) (\<lambda>data_byte s.
                                  let s = s\<lparr>not_z_flag := (not_z_flag s) OR (data_byte AND
                                        mask_byte)\<rparr>
                                  in Ret (data_byte, mask_byte) s)
                          else Ret (data_byte, mask_byte) s) (\<lambda>(data_byte, mask_byte) s.
                   Ret () s))))
     else m68ki_exception_illegal s)"

definition m68k_op_bftst_32_pcdi :: "'b op" where
  "m68k_op_bftst_32_pcdi s =
    (if CPU_TYPE_IS_EC020_PLUS (cpu_type s)
     then chain (OPER_I_16 s) (\<lambda>word2 s.
          let offset = drop_bit 6 word2 AND 31;
              width = word2;
              data_byte = (0 :: u32);
              mask_byte = (0 :: u32)
          in chain (EA_PCDI_8 s) (\<lambda>ea s.
             let offset = (if BIT 11 word2 \<noteq> 0
                           then REG_D s (offset AND 7)
                           else offset);
                 width = (if BIT 5 word2 \<noteq> 0
                          then REG_D s (width AND 7)
                          else width);
                 ea = ea + (sdiv32 offset 8);
                 offset = smod32 offset 8;
                 (ea, offset) = (if word_sless offset 0
                                 then let offset = offset + 8;
                                          ea = ea - 1
                                      in (ea, offset)
                                 else (ea, offset));
                 width = ((width - 1) AND 31) + 1;
                 mask_base = MASK_OUT_ABOVE_32 (push_bit (unat (32 - width)) 0xffffffff);
                 mask_long = drop_bit (unat offset) mask_base
             in chain (m68ki_read_32 ea s) (\<lambda>data_long s.
                let s = s\<lparr>n_flag := drop_bit 24 (push_bit (unat offset) (data_long AND
                      drop_bit (unat offset) 0x80000000)),
                          not_z_flag := data_long AND mask_long,
                          v_flag := VFLAG_CLEAR,
                          c_flag := CFLAG_CLEAR\<rparr>
                in chain (if 32 < width + offset
                          then let mask_byte = MASK_OUT_ABOVE_8 mask_base
                               in chain (m68ki_read_8 (ea + 4) s) (\<lambda>data_byte s.
                                  let s = s\<lparr>not_z_flag := (not_z_flag s) OR (data_byte AND
                                        mask_byte)\<rparr>
                                  in Ret (data_byte, mask_byte) s)
                          else Ret (data_byte, mask_byte) s) (\<lambda>(data_byte, mask_byte) s.
                   Ret () s))))
     else m68ki_exception_illegal s)"

definition m68k_op_bftst_32_pcix :: "'b op" where
  "m68k_op_bftst_32_pcix s =
    (if CPU_TYPE_IS_EC020_PLUS (cpu_type s)
     then chain (OPER_I_16 s) (\<lambda>word2 s.
          let offset = drop_bit 6 word2 AND 31;
              width = word2;
              data_byte = (0 :: u32);
              mask_byte = (0 :: u32)
          in chain (EA_PCIX_8 s) (\<lambda>ea s.
             let offset = (if BIT 11 word2 \<noteq> 0
                           then REG_D s (offset AND 7)
                           else offset);
                 width = (if BIT 5 word2 \<noteq> 0
                          then REG_D s (width AND 7)
                          else width);
                 ea = ea + (sdiv32 offset 8);
                 offset = smod32 offset 8;
                 (ea, offset) = (if word_sless offset 0
                                 then let offset = offset + 8;
                                          ea = ea - 1
                                      in (ea, offset)
                                 else (ea, offset));
                 width = ((width - 1) AND 31) + 1;
                 mask_base = MASK_OUT_ABOVE_32 (push_bit (unat (32 - width)) 0xffffffff);
                 mask_long = drop_bit (unat offset) mask_base
             in chain (m68ki_read_32 ea s) (\<lambda>data_long s.
                let s = s\<lparr>n_flag := drop_bit 24 (push_bit (unat offset) (data_long AND
                      drop_bit (unat offset) 0x80000000)),
                          not_z_flag := data_long AND mask_long,
                          v_flag := VFLAG_CLEAR,
                          c_flag := CFLAG_CLEAR\<rparr>
                in chain (if 32 < width + offset
                          then let mask_byte = MASK_OUT_ABOVE_8 mask_base
                               in chain (m68ki_read_8 (ea + 4) s) (\<lambda>data_byte s.
                                  let s = s\<lparr>not_z_flag := (not_z_flag s) OR (data_byte AND
                                        mask_byte)\<rparr>
                                  in Ret (data_byte, mask_byte) s)
                          else Ret (data_byte, mask_byte) s) (\<lambda>(data_byte, mask_byte) s.
                   Ret () s))))
     else m68ki_exception_illegal s)"

end
