(* ===== verification/OpsBranch.thy ===== *)
theory OpsBranch
  imports OpsBase
begin

section \<open>Instruction handlers: Bcc\<close>

text \<open>
  The handlers of m68kops.c for Bcc, BRA, BSR, DBcc, Scc, JMP, JSR and the returns RTS, RTR and RTD.
  One definition per handler, under the name of its C function; the effective address is part of
  the name.
\<close>

unbundle bit_operations_syntax

definition m68k_op_bhi_8 :: "'b op" where
  "m68k_op_bhi_8 s =
    (if COND_HI s
     then Ret () (m68ki_branch_8 (MASK_OUT_ABOVE_8 (ir s)) s)
     else Ret () (USE_CYCLES (cyc_bcc_notake_b s) s))"

definition m68k_op_bls_8 :: "'b op" where
  "m68k_op_bls_8 s =
    (if COND_LS s
     then Ret () (m68ki_branch_8 (MASK_OUT_ABOVE_8 (ir s)) s)
     else Ret () (USE_CYCLES (cyc_bcc_notake_b s) s))"

definition m68k_op_bcc_8 :: "'b op" where
  "m68k_op_bcc_8 s =
    (if COND_CC s
     then Ret () (m68ki_branch_8 (MASK_OUT_ABOVE_8 (ir s)) s)
     else Ret () (USE_CYCLES (cyc_bcc_notake_b s) s))"

definition m68k_op_bcs_8 :: "'b op" where
  "m68k_op_bcs_8 s =
    (if COND_CS s
     then Ret () (m68ki_branch_8 (MASK_OUT_ABOVE_8 (ir s)) s)
     else Ret () (USE_CYCLES (cyc_bcc_notake_b s) s))"

definition m68k_op_bne_8 :: "'b op" where
  "m68k_op_bne_8 s =
    (if COND_NE s
     then Ret () (m68ki_branch_8 (MASK_OUT_ABOVE_8 (ir s)) s)
     else Ret () (USE_CYCLES (cyc_bcc_notake_b s) s))"

definition m68k_op_beq_8 :: "'b op" where
  "m68k_op_beq_8 s =
    (if COND_EQ s
     then Ret () (m68ki_branch_8 (MASK_OUT_ABOVE_8 (ir s)) s)
     else Ret () (USE_CYCLES (cyc_bcc_notake_b s) s))"

definition m68k_op_bvc_8 :: "'b op" where
  "m68k_op_bvc_8 s =
    (if COND_VC s
     then Ret () (m68ki_branch_8 (MASK_OUT_ABOVE_8 (ir s)) s)
     else Ret () (USE_CYCLES (cyc_bcc_notake_b s) s))"

definition m68k_op_bvs_8 :: "'b op" where
  "m68k_op_bvs_8 s =
    (if COND_VS s
     then Ret () (m68ki_branch_8 (MASK_OUT_ABOVE_8 (ir s)) s)
     else Ret () (USE_CYCLES (cyc_bcc_notake_b s) s))"

definition m68k_op_bpl_8 :: "'b op" where
  "m68k_op_bpl_8 s =
    (if COND_PL s
     then Ret () (m68ki_branch_8 (MASK_OUT_ABOVE_8 (ir s)) s)
     else Ret () (USE_CYCLES (cyc_bcc_notake_b s) s))"

definition m68k_op_bmi_8 :: "'b op" where
  "m68k_op_bmi_8 s =
    (if COND_MI s
     then Ret () (m68ki_branch_8 (MASK_OUT_ABOVE_8 (ir s)) s)
     else Ret () (USE_CYCLES (cyc_bcc_notake_b s) s))"

definition m68k_op_bge_8 :: "'b op" where
  "m68k_op_bge_8 s =
    (if COND_GE s
     then Ret () (m68ki_branch_8 (MASK_OUT_ABOVE_8 (ir s)) s)
     else Ret () (USE_CYCLES (cyc_bcc_notake_b s) s))"

definition m68k_op_blt_8 :: "'b op" where
  "m68k_op_blt_8 s =
    (if COND_LT s
     then Ret () (m68ki_branch_8 (MASK_OUT_ABOVE_8 (ir s)) s)
     else Ret () (USE_CYCLES (cyc_bcc_notake_b s) s))"

definition m68k_op_bgt_8 :: "'b op" where
  "m68k_op_bgt_8 s =
    (if COND_GT s
     then Ret () (m68ki_branch_8 (MASK_OUT_ABOVE_8 (ir s)) s)
     else Ret () (USE_CYCLES (cyc_bcc_notake_b s) s))"

definition m68k_op_ble_8 :: "'b op" where
  "m68k_op_ble_8 s =
    (if COND_LE s
     then Ret () (m68ki_branch_8 (MASK_OUT_ABOVE_8 (ir s)) s)
     else Ret () (USE_CYCLES (cyc_bcc_notake_b s) s))"

definition m68k_op_bhi_16 :: "'b op" where
  "m68k_op_bhi_16 s =
    (if COND_HI s
     then chain (OPER_I_16 s) (\<lambda>offset s.
          let s = s\<lparr>pc := (pc s) - 2\<rparr>
          in Ret () (m68ki_branch_16 offset s))
     else let s = s\<lparr>pc := (pc s) + 2\<rparr>
          in Ret () (USE_CYCLES (cyc_bcc_notake_w s) s))"

definition m68k_op_bls_16 :: "'b op" where
  "m68k_op_bls_16 s =
    (if COND_LS s
     then chain (OPER_I_16 s) (\<lambda>offset s.
          let s = s\<lparr>pc := (pc s) - 2\<rparr>
          in Ret () (m68ki_branch_16 offset s))
     else let s = s\<lparr>pc := (pc s) + 2\<rparr>
          in Ret () (USE_CYCLES (cyc_bcc_notake_w s) s))"

definition m68k_op_bcc_16 :: "'b op" where
  "m68k_op_bcc_16 s =
    (if COND_CC s
     then chain (OPER_I_16 s) (\<lambda>offset s.
          let s = s\<lparr>pc := (pc s) - 2\<rparr>
          in Ret () (m68ki_branch_16 offset s))
     else let s = s\<lparr>pc := (pc s) + 2\<rparr>
          in Ret () (USE_CYCLES (cyc_bcc_notake_w s) s))"

definition m68k_op_bcs_16 :: "'b op" where
  "m68k_op_bcs_16 s =
    (if COND_CS s
     then chain (OPER_I_16 s) (\<lambda>offset s.
          let s = s\<lparr>pc := (pc s) - 2\<rparr>
          in Ret () (m68ki_branch_16 offset s))
     else let s = s\<lparr>pc := (pc s) + 2\<rparr>
          in Ret () (USE_CYCLES (cyc_bcc_notake_w s) s))"

definition m68k_op_bne_16 :: "'b op" where
  "m68k_op_bne_16 s =
    (if COND_NE s
     then chain (OPER_I_16 s) (\<lambda>offset s.
          let s = s\<lparr>pc := (pc s) - 2\<rparr>
          in Ret () (m68ki_branch_16 offset s))
     else let s = s\<lparr>pc := (pc s) + 2\<rparr>
          in Ret () (USE_CYCLES (cyc_bcc_notake_w s) s))"

definition m68k_op_beq_16 :: "'b op" where
  "m68k_op_beq_16 s =
    (if COND_EQ s
     then chain (OPER_I_16 s) (\<lambda>offset s.
          let s = s\<lparr>pc := (pc s) - 2\<rparr>
          in Ret () (m68ki_branch_16 offset s))
     else let s = s\<lparr>pc := (pc s) + 2\<rparr>
          in Ret () (USE_CYCLES (cyc_bcc_notake_w s) s))"

definition m68k_op_bvc_16 :: "'b op" where
  "m68k_op_bvc_16 s =
    (if COND_VC s
     then chain (OPER_I_16 s) (\<lambda>offset s.
          let s = s\<lparr>pc := (pc s) - 2\<rparr>
          in Ret () (m68ki_branch_16 offset s))
     else let s = s\<lparr>pc := (pc s) + 2\<rparr>
          in Ret () (USE_CYCLES (cyc_bcc_notake_w s) s))"

definition m68k_op_bvs_16 :: "'b op" where
  "m68k_op_bvs_16 s =
    (if COND_VS s
     then chain (OPER_I_16 s) (\<lambda>offset s.
          let s = s\<lparr>pc := (pc s) - 2\<rparr>
          in Ret () (m68ki_branch_16 offset s))
     else let s = s\<lparr>pc := (pc s) + 2\<rparr>
          in Ret () (USE_CYCLES (cyc_bcc_notake_w s) s))"

definition m68k_op_bpl_16 :: "'b op" where
  "m68k_op_bpl_16 s =
    (if COND_PL s
     then chain (OPER_I_16 s) (\<lambda>offset s.
          let s = s\<lparr>pc := (pc s) - 2\<rparr>
          in Ret () (m68ki_branch_16 offset s))
     else let s = s\<lparr>pc := (pc s) + 2\<rparr>
          in Ret () (USE_CYCLES (cyc_bcc_notake_w s) s))"

definition m68k_op_bmi_16 :: "'b op" where
  "m68k_op_bmi_16 s =
    (if COND_MI s
     then chain (OPER_I_16 s) (\<lambda>offset s.
          let s = s\<lparr>pc := (pc s) - 2\<rparr>
          in Ret () (m68ki_branch_16 offset s))
     else let s = s\<lparr>pc := (pc s) + 2\<rparr>
          in Ret () (USE_CYCLES (cyc_bcc_notake_w s) s))"

definition m68k_op_bge_16 :: "'b op" where
  "m68k_op_bge_16 s =
    (if COND_GE s
     then chain (OPER_I_16 s) (\<lambda>offset s.
          let s = s\<lparr>pc := (pc s) - 2\<rparr>
          in Ret () (m68ki_branch_16 offset s))
     else let s = s\<lparr>pc := (pc s) + 2\<rparr>
          in Ret () (USE_CYCLES (cyc_bcc_notake_w s) s))"

definition m68k_op_blt_16 :: "'b op" where
  "m68k_op_blt_16 s =
    (if COND_LT s
     then chain (OPER_I_16 s) (\<lambda>offset s.
          let s = s\<lparr>pc := (pc s) - 2\<rparr>
          in Ret () (m68ki_branch_16 offset s))
     else let s = s\<lparr>pc := (pc s) + 2\<rparr>
          in Ret () (USE_CYCLES (cyc_bcc_notake_w s) s))"

definition m68k_op_bgt_16 :: "'b op" where
  "m68k_op_bgt_16 s =
    (if COND_GT s
     then chain (OPER_I_16 s) (\<lambda>offset s.
          let s = s\<lparr>pc := (pc s) - 2\<rparr>
          in Ret () (m68ki_branch_16 offset s))
     else let s = s\<lparr>pc := (pc s) + 2\<rparr>
          in Ret () (USE_CYCLES (cyc_bcc_notake_w s) s))"

definition m68k_op_ble_16 :: "'b op" where
  "m68k_op_ble_16 s =
    (if COND_LE s
     then chain (OPER_I_16 s) (\<lambda>offset s.
          let s = s\<lparr>pc := (pc s) - 2\<rparr>
          in Ret () (m68ki_branch_16 offset s))
     else let s = s\<lparr>pc := (pc s) + 2\<rparr>
          in Ret () (USE_CYCLES (cyc_bcc_notake_w s) s))"

definition m68k_op_bhi_32 :: "'b op" where
  "m68k_op_bhi_32 s =
    (if CPU_TYPE_IS_EC020_PLUS (cpu_type s)
     then if COND_HI s
          then chain (OPER_I_32 s) (\<lambda>offset s.
               let s = s\<lparr>pc := (pc s) - 4\<rparr>
               in Ret () (m68ki_branch_32 offset s))
          else Ret () (s\<lparr>pc := (pc s) + 4\<rparr>)
     else if COND_HI s
     then Ret () (m68ki_branch_8 (MASK_OUT_ABOVE_8 (ir s)) s)
     else Ret () (USE_CYCLES (cyc_bcc_notake_b s) s))"

definition m68k_op_bls_32 :: "'b op" where
  "m68k_op_bls_32 s =
    (if CPU_TYPE_IS_EC020_PLUS (cpu_type s)
     then if COND_LS s
          then chain (OPER_I_32 s) (\<lambda>offset s.
               let s = s\<lparr>pc := (pc s) - 4\<rparr>
               in Ret () (m68ki_branch_32 offset s))
          else Ret () (s\<lparr>pc := (pc s) + 4\<rparr>)
     else if COND_LS s
     then Ret () (m68ki_branch_8 (MASK_OUT_ABOVE_8 (ir s)) s)
     else Ret () (USE_CYCLES (cyc_bcc_notake_b s) s))"

definition m68k_op_bcc_32 :: "'b op" where
  "m68k_op_bcc_32 s =
    (if CPU_TYPE_IS_EC020_PLUS (cpu_type s)
     then if COND_CC s
          then chain (OPER_I_32 s) (\<lambda>offset s.
               let s = s\<lparr>pc := (pc s) - 4\<rparr>
               in Ret () (m68ki_branch_32 offset s))
          else Ret () (s\<lparr>pc := (pc s) + 4\<rparr>)
     else if COND_CC s
     then Ret () (m68ki_branch_8 (MASK_OUT_ABOVE_8 (ir s)) s)
     else Ret () (USE_CYCLES (cyc_bcc_notake_b s) s))"

definition m68k_op_bcs_32 :: "'b op" where
  "m68k_op_bcs_32 s =
    (if CPU_TYPE_IS_EC020_PLUS (cpu_type s)
     then if COND_CS s
          then chain (OPER_I_32 s) (\<lambda>offset s.
               let s = s\<lparr>pc := (pc s) - 4\<rparr>
               in Ret () (m68ki_branch_32 offset s))
          else Ret () (s\<lparr>pc := (pc s) + 4\<rparr>)
     else if COND_CS s
     then Ret () (m68ki_branch_8 (MASK_OUT_ABOVE_8 (ir s)) s)
     else Ret () (USE_CYCLES (cyc_bcc_notake_b s) s))"

definition m68k_op_bne_32 :: "'b op" where
  "m68k_op_bne_32 s =
    (if CPU_TYPE_IS_EC020_PLUS (cpu_type s)
     then if COND_NE s
          then chain (OPER_I_32 s) (\<lambda>offset s.
               let s = s\<lparr>pc := (pc s) - 4\<rparr>
               in Ret () (m68ki_branch_32 offset s))
          else Ret () (s\<lparr>pc := (pc s) + 4\<rparr>)
     else if COND_NE s
     then Ret () (m68ki_branch_8 (MASK_OUT_ABOVE_8 (ir s)) s)
     else Ret () (USE_CYCLES (cyc_bcc_notake_b s) s))"

definition m68k_op_beq_32 :: "'b op" where
  "m68k_op_beq_32 s =
    (if CPU_TYPE_IS_EC020_PLUS (cpu_type s)
     then if COND_EQ s
          then chain (OPER_I_32 s) (\<lambda>offset s.
               let s = s\<lparr>pc := (pc s) - 4\<rparr>
               in Ret () (m68ki_branch_32 offset s))
          else Ret () (s\<lparr>pc := (pc s) + 4\<rparr>)
     else if COND_EQ s
     then Ret () (m68ki_branch_8 (MASK_OUT_ABOVE_8 (ir s)) s)
     else Ret () (USE_CYCLES (cyc_bcc_notake_b s) s))"

definition m68k_op_bvc_32 :: "'b op" where
  "m68k_op_bvc_32 s =
    (if CPU_TYPE_IS_EC020_PLUS (cpu_type s)
     then if COND_VC s
          then chain (OPER_I_32 s) (\<lambda>offset s.
               let s = s\<lparr>pc := (pc s) - 4\<rparr>
               in Ret () (m68ki_branch_32 offset s))
          else Ret () (s\<lparr>pc := (pc s) + 4\<rparr>)
     else if COND_VC s
     then Ret () (m68ki_branch_8 (MASK_OUT_ABOVE_8 (ir s)) s)
     else Ret () (USE_CYCLES (cyc_bcc_notake_b s) s))"

definition m68k_op_bvs_32 :: "'b op" where
  "m68k_op_bvs_32 s =
    (if CPU_TYPE_IS_EC020_PLUS (cpu_type s)
     then if COND_VS s
          then chain (OPER_I_32 s) (\<lambda>offset s.
               let s = s\<lparr>pc := (pc s) - 4\<rparr>
               in Ret () (m68ki_branch_32 offset s))
          else Ret () (s\<lparr>pc := (pc s) + 4\<rparr>)
     else if COND_VS s
     then Ret () (m68ki_branch_8 (MASK_OUT_ABOVE_8 (ir s)) s)
     else Ret () (USE_CYCLES (cyc_bcc_notake_b s) s))"

definition m68k_op_bpl_32 :: "'b op" where
  "m68k_op_bpl_32 s =
    (if CPU_TYPE_IS_EC020_PLUS (cpu_type s)
     then if COND_PL s
          then chain (OPER_I_32 s) (\<lambda>offset s.
               let s = s\<lparr>pc := (pc s) - 4\<rparr>
               in Ret () (m68ki_branch_32 offset s))
          else Ret () (s\<lparr>pc := (pc s) + 4\<rparr>)
     else if COND_PL s
     then Ret () (m68ki_branch_8 (MASK_OUT_ABOVE_8 (ir s)) s)
     else Ret () (USE_CYCLES (cyc_bcc_notake_b s) s))"

definition m68k_op_bmi_32 :: "'b op" where
  "m68k_op_bmi_32 s =
    (if CPU_TYPE_IS_EC020_PLUS (cpu_type s)
     then if COND_MI s
          then chain (OPER_I_32 s) (\<lambda>offset s.
               let s = s\<lparr>pc := (pc s) - 4\<rparr>
               in Ret () (m68ki_branch_32 offset s))
          else Ret () (s\<lparr>pc := (pc s) + 4\<rparr>)
     else if COND_MI s
     then Ret () (m68ki_branch_8 (MASK_OUT_ABOVE_8 (ir s)) s)
     else Ret () (USE_CYCLES (cyc_bcc_notake_b s) s))"

definition m68k_op_bge_32 :: "'b op" where
  "m68k_op_bge_32 s =
    (if CPU_TYPE_IS_EC020_PLUS (cpu_type s)
     then if COND_GE s
          then chain (OPER_I_32 s) (\<lambda>offset s.
               let s = s\<lparr>pc := (pc s) - 4\<rparr>
               in Ret () (m68ki_branch_32 offset s))
          else Ret () (s\<lparr>pc := (pc s) + 4\<rparr>)
     else if COND_GE s
     then Ret () (m68ki_branch_8 (MASK_OUT_ABOVE_8 (ir s)) s)
     else Ret () (USE_CYCLES (cyc_bcc_notake_b s) s))"

definition m68k_op_blt_32 :: "'b op" where
  "m68k_op_blt_32 s =
    (if CPU_TYPE_IS_EC020_PLUS (cpu_type s)
     then if COND_LT s
          then chain (OPER_I_32 s) (\<lambda>offset s.
               let s = s\<lparr>pc := (pc s) - 4\<rparr>
               in Ret () (m68ki_branch_32 offset s))
          else Ret () (s\<lparr>pc := (pc s) + 4\<rparr>)
     else if COND_LT s
     then Ret () (m68ki_branch_8 (MASK_OUT_ABOVE_8 (ir s)) s)
     else Ret () (USE_CYCLES (cyc_bcc_notake_b s) s))"

definition m68k_op_bgt_32 :: "'b op" where
  "m68k_op_bgt_32 s =
    (if CPU_TYPE_IS_EC020_PLUS (cpu_type s)
     then if COND_GT s
          then chain (OPER_I_32 s) (\<lambda>offset s.
               let s = s\<lparr>pc := (pc s) - 4\<rparr>
               in Ret () (m68ki_branch_32 offset s))
          else Ret () (s\<lparr>pc := (pc s) + 4\<rparr>)
     else if COND_GT s
     then Ret () (m68ki_branch_8 (MASK_OUT_ABOVE_8 (ir s)) s)
     else Ret () (USE_CYCLES (cyc_bcc_notake_b s) s))"

definition m68k_op_ble_32 :: "'b op" where
  "m68k_op_ble_32 s =
    (if CPU_TYPE_IS_EC020_PLUS (cpu_type s)
     then if COND_LE s
          then chain (OPER_I_32 s) (\<lambda>offset s.
               let s = s\<lparr>pc := (pc s) - 4\<rparr>
               in Ret () (m68ki_branch_32 offset s))
          else Ret () (s\<lparr>pc := (pc s) + 4\<rparr>)
     else if COND_LE s
     then Ret () (m68ki_branch_8 (MASK_OUT_ABOVE_8 (ir s)) s)
     else Ret () (USE_CYCLES (cyc_bcc_notake_b s) s))"

definition m68k_op_bra_8 :: "'b op" where
  "m68k_op_bra_8 s =
    (let s = m68ki_branch_8 (MASK_OUT_ABOVE_8 (ir s)) s
     in if pc s = ppc s
        then Ret () (USE_ALL_CYCLES s)
        else Ret () s)"

definition m68k_op_bra_16 :: "'b op" where
  "m68k_op_bra_16 s =
    (chain (OPER_I_16 s) (\<lambda>offset s.
     let s = s\<lparr>pc := (pc s) - 2\<rparr>;
         s = m68ki_branch_16 offset s
     in if pc s = ppc s
        then Ret () (USE_ALL_CYCLES s)
        else Ret () s))"

definition m68k_op_bra_32 :: "'b op" where
  "m68k_op_bra_32 s =
    (if CPU_TYPE_IS_EC020_PLUS (cpu_type s)
     then chain (OPER_I_32 s) (\<lambda>offset s.
          let s = s\<lparr>pc := (pc s) - 4\<rparr>;
              s = m68ki_branch_32 offset s;
              s = (if pc s = ppc s
                   then USE_ALL_CYCLES s
                   else s)
          in Ret () s)
     else let s = m68ki_branch_8 (MASK_OUT_ABOVE_8 (ir s)) s
          in if pc s = ppc s
             then Ret () (USE_ALL_CYCLES s)
             else Ret () s)"

definition m68k_op_bsr_8 :: "'b op" where
  "m68k_op_bsr_8 s =
    (chain (m68ki_push_32 (pc s) s) (\<lambda>_ s.
     Ret () (m68ki_branch_8 (MASK_OUT_ABOVE_8 (ir s)) s)))"

definition m68k_op_bsr_16 :: "'b op" where
  "m68k_op_bsr_16 s =
    (chain (OPER_I_16 s) (\<lambda>offset s.
     chain (m68ki_push_32 (pc s) s) (\<lambda>_ s.
     let s = s\<lparr>pc := (pc s) - 2\<rparr>
     in Ret () (m68ki_branch_16 offset s))))"

definition m68k_op_bsr_32 :: "'b op" where
  "m68k_op_bsr_32 s =
    (if CPU_TYPE_IS_EC020_PLUS (cpu_type s)
     then chain (OPER_I_32 s) (\<lambda>offset s.
          chain (m68ki_push_32 (pc s) s) (\<lambda>_ s.
          let s = s\<lparr>pc := (pc s) - 4\<rparr>
          in Ret () (m68ki_branch_32 offset s)))
     else chain (m68ki_push_32 (pc s) s) (\<lambda>_ s.
          Ret () (m68ki_branch_8 (MASK_OUT_ABOVE_8 (ir s)) s)))"

definition m68k_op_dbt_16 :: "'b op" where
  "m68k_op_dbt_16 s =
    (Ret () (s\<lparr>pc := (pc s) + 2\<rparr>))"

definition m68k_op_dbf_16 :: "'b op" where
  "m68k_op_dbf_16 s =
    (let res = MASK_OUT_ABOVE_16 (DY s - 1);
         s = set_DY (MASK_OUT_BELOW_16 (DY s) OR res) s
     in if res \<noteq> 0xffff
        then chain (OPER_I_16 s) (\<lambda>offset s.
             let s = s\<lparr>pc := (pc s) - 2\<rparr>;
                 s = m68ki_branch_16 offset s
             in Ret () (USE_CYCLES (cyc_dbcc_f_noexp s) s))
        else let s = s\<lparr>pc := (pc s) + 2\<rparr>
             in Ret () (USE_CYCLES (cyc_dbcc_f_exp s) s))"

definition m68k_op_dbhi_16 :: "'b op" where
  "m68k_op_dbhi_16 s =
    (if COND_NOT_HI s
     then let res = MASK_OUT_ABOVE_16 (DY s - 1);
              s = set_DY (MASK_OUT_BELOW_16 (DY s) OR res) s
          in if res \<noteq> 0xffff
             then chain (OPER_I_16 s) (\<lambda>offset s.
                  let s = s\<lparr>pc := (pc s) - 2\<rparr>;
                      s = m68ki_branch_16 offset s
                  in Ret () (USE_CYCLES (cyc_dbcc_f_noexp s) s))
             else let s = s\<lparr>pc := (pc s) + 2\<rparr>
                  in Ret () (USE_CYCLES (cyc_dbcc_f_exp s) s)
     else Ret () (s\<lparr>pc := (pc s) + 2\<rparr>))"

definition m68k_op_dbls_16 :: "'b op" where
  "m68k_op_dbls_16 s =
    (if COND_NOT_LS s
     then let res = MASK_OUT_ABOVE_16 (DY s - 1);
              s = set_DY (MASK_OUT_BELOW_16 (DY s) OR res) s
          in if res \<noteq> 0xffff
             then chain (OPER_I_16 s) (\<lambda>offset s.
                  let s = s\<lparr>pc := (pc s) - 2\<rparr>;
                      s = m68ki_branch_16 offset s
                  in Ret () (USE_CYCLES (cyc_dbcc_f_noexp s) s))
             else let s = s\<lparr>pc := (pc s) + 2\<rparr>
                  in Ret () (USE_CYCLES (cyc_dbcc_f_exp s) s)
     else Ret () (s\<lparr>pc := (pc s) + 2\<rparr>))"

definition m68k_op_dbcc_16 :: "'b op" where
  "m68k_op_dbcc_16 s =
    (if COND_NOT_CC s
     then let res = MASK_OUT_ABOVE_16 (DY s - 1);
              s = set_DY (MASK_OUT_BELOW_16 (DY s) OR res) s
          in if res \<noteq> 0xffff
             then chain (OPER_I_16 s) (\<lambda>offset s.
                  let s = s\<lparr>pc := (pc s) - 2\<rparr>;
                      s = m68ki_branch_16 offset s
                  in Ret () (USE_CYCLES (cyc_dbcc_f_noexp s) s))
             else let s = s\<lparr>pc := (pc s) + 2\<rparr>
                  in Ret () (USE_CYCLES (cyc_dbcc_f_exp s) s)
     else Ret () (s\<lparr>pc := (pc s) + 2\<rparr>))"

definition m68k_op_dbcs_16 :: "'b op" where
  "m68k_op_dbcs_16 s =
    (if COND_NOT_CS s
     then let res = MASK_OUT_ABOVE_16 (DY s - 1);
              s = set_DY (MASK_OUT_BELOW_16 (DY s) OR res) s
          in if res \<noteq> 0xffff
             then chain (OPER_I_16 s) (\<lambda>offset s.
                  let s = s\<lparr>pc := (pc s) - 2\<rparr>;
                      s = m68ki_branch_16 offset s
                  in Ret () (USE_CYCLES (cyc_dbcc_f_noexp s) s))
             else let s = s\<lparr>pc := (pc s) + 2\<rparr>
                  in Ret () (USE_CYCLES (cyc_dbcc_f_exp s) s)
     else Ret () (s\<lparr>pc := (pc s) + 2\<rparr>))"

definition m68k_op_dbne_16 :: "'b op" where
  "m68k_op_dbne_16 s =
    (if COND_NOT_NE s
     then let res = MASK_OUT_ABOVE_16 (DY s - 1);
              s = set_DY (MASK_OUT_BELOW_16 (DY s) OR res) s
          in if res \<noteq> 0xffff
             then chain (OPER_I_16 s) (\<lambda>offset s.
                  let s = s\<lparr>pc := (pc s) - 2\<rparr>;
                      s = m68ki_branch_16 offset s
                  in Ret () (USE_CYCLES (cyc_dbcc_f_noexp s) s))
             else let s = s\<lparr>pc := (pc s) + 2\<rparr>
                  in Ret () (USE_CYCLES (cyc_dbcc_f_exp s) s)
     else Ret () (s\<lparr>pc := (pc s) + 2\<rparr>))"

definition m68k_op_dbeq_16 :: "'b op" where
  "m68k_op_dbeq_16 s =
    (if COND_NOT_EQ s
     then let res = MASK_OUT_ABOVE_16 (DY s - 1);
              s = set_DY (MASK_OUT_BELOW_16 (DY s) OR res) s
          in if res \<noteq> 0xffff
             then chain (OPER_I_16 s) (\<lambda>offset s.
                  let s = s\<lparr>pc := (pc s) - 2\<rparr>;
                      s = m68ki_branch_16 offset s
                  in Ret () (USE_CYCLES (cyc_dbcc_f_noexp s) s))
             else let s = s\<lparr>pc := (pc s) + 2\<rparr>
                  in Ret () (USE_CYCLES (cyc_dbcc_f_exp s) s)
     else Ret () (s\<lparr>pc := (pc s) + 2\<rparr>))"

definition m68k_op_dbvc_16 :: "'b op" where
  "m68k_op_dbvc_16 s =
    (if COND_NOT_VC s
     then let res = MASK_OUT_ABOVE_16 (DY s - 1);
              s = set_DY (MASK_OUT_BELOW_16 (DY s) OR res) s
          in if res \<noteq> 0xffff
             then chain (OPER_I_16 s) (\<lambda>offset s.
                  let s = s\<lparr>pc := (pc s) - 2\<rparr>;
                      s = m68ki_branch_16 offset s
                  in Ret () (USE_CYCLES (cyc_dbcc_f_noexp s) s))
             else let s = s\<lparr>pc := (pc s) + 2\<rparr>
                  in Ret () (USE_CYCLES (cyc_dbcc_f_exp s) s)
     else Ret () (s\<lparr>pc := (pc s) + 2\<rparr>))"

definition m68k_op_dbvs_16 :: "'b op" where
  "m68k_op_dbvs_16 s =
    (if COND_NOT_VS s
     then let res = MASK_OUT_ABOVE_16 (DY s - 1);
              s = set_DY (MASK_OUT_BELOW_16 (DY s) OR res) s
          in if res \<noteq> 0xffff
             then chain (OPER_I_16 s) (\<lambda>offset s.
                  let s = s\<lparr>pc := (pc s) - 2\<rparr>;
                      s = m68ki_branch_16 offset s
                  in Ret () (USE_CYCLES (cyc_dbcc_f_noexp s) s))
             else let s = s\<lparr>pc := (pc s) + 2\<rparr>
                  in Ret () (USE_CYCLES (cyc_dbcc_f_exp s) s)
     else Ret () (s\<lparr>pc := (pc s) + 2\<rparr>))"

definition m68k_op_dbpl_16 :: "'b op" where
  "m68k_op_dbpl_16 s =
    (if COND_NOT_PL s
     then let res = MASK_OUT_ABOVE_16 (DY s - 1);
              s = set_DY (MASK_OUT_BELOW_16 (DY s) OR res) s
          in if res \<noteq> 0xffff
             then chain (OPER_I_16 s) (\<lambda>offset s.
                  let s = s\<lparr>pc := (pc s) - 2\<rparr>;
                      s = m68ki_branch_16 offset s
                  in Ret () (USE_CYCLES (cyc_dbcc_f_noexp s) s))
             else let s = s\<lparr>pc := (pc s) + 2\<rparr>
                  in Ret () (USE_CYCLES (cyc_dbcc_f_exp s) s)
     else Ret () (s\<lparr>pc := (pc s) + 2\<rparr>))"

definition m68k_op_dbmi_16 :: "'b op" where
  "m68k_op_dbmi_16 s =
    (if COND_NOT_MI s
     then let res = MASK_OUT_ABOVE_16 (DY s - 1);
              s = set_DY (MASK_OUT_BELOW_16 (DY s) OR res) s
          in if res \<noteq> 0xffff
             then chain (OPER_I_16 s) (\<lambda>offset s.
                  let s = s\<lparr>pc := (pc s) - 2\<rparr>;
                      s = m68ki_branch_16 offset s
                  in Ret () (USE_CYCLES (cyc_dbcc_f_noexp s) s))
             else let s = s\<lparr>pc := (pc s) + 2\<rparr>
                  in Ret () (USE_CYCLES (cyc_dbcc_f_exp s) s)
     else Ret () (s\<lparr>pc := (pc s) + 2\<rparr>))"

definition m68k_op_dbge_16 :: "'b op" where
  "m68k_op_dbge_16 s =
    (if COND_NOT_GE s
     then let res = MASK_OUT_ABOVE_16 (DY s - 1);
              s = set_DY (MASK_OUT_BELOW_16 (DY s) OR res) s
          in if res \<noteq> 0xffff
             then chain (OPER_I_16 s) (\<lambda>offset s.
                  let s = s\<lparr>pc := (pc s) - 2\<rparr>;
                      s = m68ki_branch_16 offset s
                  in Ret () (USE_CYCLES (cyc_dbcc_f_noexp s) s))
             else let s = s\<lparr>pc := (pc s) + 2\<rparr>
                  in Ret () (USE_CYCLES (cyc_dbcc_f_exp s) s)
     else Ret () (s\<lparr>pc := (pc s) + 2\<rparr>))"

definition m68k_op_dblt_16 :: "'b op" where
  "m68k_op_dblt_16 s =
    (if COND_NOT_LT s
     then let res = MASK_OUT_ABOVE_16 (DY s - 1);
              s = set_DY (MASK_OUT_BELOW_16 (DY s) OR res) s
          in if res \<noteq> 0xffff
             then chain (OPER_I_16 s) (\<lambda>offset s.
                  let s = s\<lparr>pc := (pc s) - 2\<rparr>;
                      s = m68ki_branch_16 offset s
                  in Ret () (USE_CYCLES (cyc_dbcc_f_noexp s) s))
             else let s = s\<lparr>pc := (pc s) + 2\<rparr>
                  in Ret () (USE_CYCLES (cyc_dbcc_f_exp s) s)
     else Ret () (s\<lparr>pc := (pc s) + 2\<rparr>))"

definition m68k_op_dbgt_16 :: "'b op" where
  "m68k_op_dbgt_16 s =
    (if COND_NOT_GT s
     then let res = MASK_OUT_ABOVE_16 (DY s - 1);
              s = set_DY (MASK_OUT_BELOW_16 (DY s) OR res) s
          in if res \<noteq> 0xffff
             then chain (OPER_I_16 s) (\<lambda>offset s.
                  let s = s\<lparr>pc := (pc s) - 2\<rparr>;
                      s = m68ki_branch_16 offset s
                  in Ret () (USE_CYCLES (cyc_dbcc_f_noexp s) s))
             else let s = s\<lparr>pc := (pc s) + 2\<rparr>
                  in Ret () (USE_CYCLES (cyc_dbcc_f_exp s) s)
     else Ret () (s\<lparr>pc := (pc s) + 2\<rparr>))"

definition m68k_op_dble_16 :: "'b op" where
  "m68k_op_dble_16 s =
    (if COND_NOT_LE s
     then let res = MASK_OUT_ABOVE_16 (DY s - 1);
              s = set_DY (MASK_OUT_BELOW_16 (DY s) OR res) s
          in if res \<noteq> 0xffff
             then chain (OPER_I_16 s) (\<lambda>offset s.
                  let s = s\<lparr>pc := (pc s) - 2\<rparr>;
                      s = m68ki_branch_16 offset s
                  in Ret () (USE_CYCLES (cyc_dbcc_f_noexp s) s))
             else let s = s\<lparr>pc := (pc s) + 2\<rparr>
                  in Ret () (USE_CYCLES (cyc_dbcc_f_exp s) s)
     else Ret () (s\<lparr>pc := (pc s) + 2\<rparr>))"

definition m68k_op_jmp_32_ai :: "'b op" where
  "m68k_op_jmp_32_ai s =
    (chain (EA_AY_AI_32 s) (\<lambda>ea s.
     let s = m68ki_jump ea s
     in if pc s = ppc s
        then Ret () (USE_ALL_CYCLES s)
        else Ret () s))"

definition m68k_op_jmp_32_di :: "'b op" where
  "m68k_op_jmp_32_di s =
    (chain (EA_AY_DI_32 s) (\<lambda>ea s.
     let s = m68ki_jump ea s
     in if pc s = ppc s
        then Ret () (USE_ALL_CYCLES s)
        else Ret () s))"

definition m68k_op_jmp_32_ix :: "'b op" where
  "m68k_op_jmp_32_ix s =
    (chain (EA_AY_IX_32 s) (\<lambda>ea s.
     let s = m68ki_jump ea s
     in if pc s = ppc s
        then Ret () (USE_ALL_CYCLES s)
        else Ret () s))"

definition m68k_op_jmp_32_aw :: "'b op" where
  "m68k_op_jmp_32_aw s =
    (chain (EA_AW_32 s) (\<lambda>ea s.
     let s = m68ki_jump ea s
     in if pc s = ppc s
        then Ret () (USE_ALL_CYCLES s)
        else Ret () s))"

definition m68k_op_jmp_32_al :: "'b op" where
  "m68k_op_jmp_32_al s =
    (chain (EA_AL_32 s) (\<lambda>ea s.
     let s = m68ki_jump ea s
     in if pc s = ppc s
        then Ret () (USE_ALL_CYCLES s)
        else Ret () s))"

definition m68k_op_jmp_32_pcdi :: "'b op" where
  "m68k_op_jmp_32_pcdi s =
    (chain (EA_PCDI_32 s) (\<lambda>ea s.
     let s = m68ki_jump ea s
     in if pc s = ppc s
        then Ret () (USE_ALL_CYCLES s)
        else Ret () s))"

definition m68k_op_jmp_32_pcix :: "'b op" where
  "m68k_op_jmp_32_pcix s =
    (chain (EA_PCIX_32 s) (\<lambda>ea s.
     let s = m68ki_jump ea s
     in if pc s = ppc s
        then Ret () (USE_ALL_CYCLES s)
        else Ret () s))"

definition m68k_op_jsr_32_ai :: "'b op" where
  "m68k_op_jsr_32_ai s =
    (chain (EA_AY_AI_32 s) (\<lambda>ea s.
     chain (m68ki_push_32 (pc s) s) (\<lambda>_ s.
     Ret () (m68ki_jump ea s))))"

definition m68k_op_jsr_32_di :: "'b op" where
  "m68k_op_jsr_32_di s =
    (chain (EA_AY_DI_32 s) (\<lambda>ea s.
     chain (m68ki_push_32 (pc s) s) (\<lambda>_ s.
     Ret () (m68ki_jump ea s))))"

definition m68k_op_jsr_32_ix :: "'b op" where
  "m68k_op_jsr_32_ix s =
    (chain (EA_AY_IX_32 s) (\<lambda>ea s.
     chain (m68ki_push_32 (pc s) s) (\<lambda>_ s.
     Ret () (m68ki_jump ea s))))"

definition m68k_op_jsr_32_aw :: "'b op" where
  "m68k_op_jsr_32_aw s =
    (chain (EA_AW_32 s) (\<lambda>ea s.
     chain (m68ki_push_32 (pc s) s) (\<lambda>_ s.
     Ret () (m68ki_jump ea s))))"

definition m68k_op_jsr_32_al :: "'b op" where
  "m68k_op_jsr_32_al s =
    (chain (EA_AL_32 s) (\<lambda>ea s.
     chain (m68ki_push_32 (pc s) s) (\<lambda>_ s.
     Ret () (m68ki_jump ea s))))"

definition m68k_op_jsr_32_pcdi :: "'b op" where
  "m68k_op_jsr_32_pcdi s =
    (chain (EA_PCDI_32 s) (\<lambda>ea s.
     chain (m68ki_push_32 (pc s) s) (\<lambda>_ s.
     Ret () (m68ki_jump ea s))))"

definition m68k_op_jsr_32_pcix :: "'b op" where
  "m68k_op_jsr_32_pcix s =
    (chain (EA_PCIX_32 s) (\<lambda>ea s.
     chain (m68ki_push_32 (pc s) s) (\<lambda>_ s.
     Ret () (m68ki_jump ea s))))"

definition m68k_op_rtd_32 :: "'b op" where
  "m68k_op_rtd_32 s =
    (if CPU_TYPE_IS_010_PLUS (cpu_type s)
     then chain (m68ki_pull_32 s) (\<lambda>new_pc s.
          chain (OPER_I_16 s) (\<lambda>v2 s.
          let s = set_REG_A 7 (MASK_OUT_ABOVE_32 (REG_A s 7 + MAKE_INT_16 v2)) s
          in Ret () (m68ki_jump new_pc s)))
     else m68ki_exception_illegal s)"

definition m68k_op_rtr_32 :: "'b op" where
  "m68k_op_rtr_32 s =
    (chain (m68ki_pull_16 s) (\<lambda>v s.
     let s = m68ki_set_ccr v s
     in chain (m68ki_pull_32 s) (\<lambda>v2 s.
        Ret () (m68ki_jump v2 s))))"

definition m68k_op_rts_32 :: "'b op" where
  "m68k_op_rts_32 s =
    (chain (m68ki_pull_32 s) (\<lambda>v s.
     Ret () (m68ki_jump v s)))"

definition m68k_op_st_8_d :: "'b op" where
  "m68k_op_st_8_d s =
    (Ret () (set_DY ((DY s) OR 0xff) s))"

definition m68k_op_st_8_ai :: "'b op" where
  "m68k_op_st_8_ai s =
    (chain (EA_AY_AI_8 s) (\<lambda>ea s.
     m68ki_write_8 ea 0xff s))"

definition m68k_op_st_8_pi :: "'b op" where
  "m68k_op_st_8_pi s =
    (chain (EA_AY_PI_8 s) (\<lambda>ea s.
     m68ki_write_8 ea 0xff s))"

definition m68k_op_st_8_pi7 :: "'b op" where
  "m68k_op_st_8_pi7 s =
    (chain (EA_A7_PI_8 s) (\<lambda>ea s.
     m68ki_write_8 ea 0xff s))"

definition m68k_op_st_8_pd :: "'b op" where
  "m68k_op_st_8_pd s =
    (chain (EA_AY_PD_8 s) (\<lambda>ea s.
     m68ki_write_8 ea 0xff s))"

definition m68k_op_st_8_pd7 :: "'b op" where
  "m68k_op_st_8_pd7 s =
    (chain (EA_A7_PD_8 s) (\<lambda>ea s.
     m68ki_write_8 ea 0xff s))"

definition m68k_op_st_8_di :: "'b op" where
  "m68k_op_st_8_di s =
    (chain (EA_AY_DI_8 s) (\<lambda>ea s.
     m68ki_write_8 ea 0xff s))"

definition m68k_op_st_8_ix :: "'b op" where
  "m68k_op_st_8_ix s =
    (chain (EA_AY_IX_8 s) (\<lambda>ea s.
     m68ki_write_8 ea 0xff s))"

definition m68k_op_st_8_aw :: "'b op" where
  "m68k_op_st_8_aw s =
    (chain (EA_AW_8 s) (\<lambda>ea s.
     m68ki_write_8 ea 0xff s))"

definition m68k_op_st_8_al :: "'b op" where
  "m68k_op_st_8_al s =
    (chain (EA_AL_8 s) (\<lambda>ea s.
     m68ki_write_8 ea 0xff s))"

definition m68k_op_sf_8_d :: "'b op" where
  "m68k_op_sf_8_d s =
    (Ret () (set_DY ((DY s) AND 0xffffff00) s))"

definition m68k_op_sf_8_ai :: "'b op" where
  "m68k_op_sf_8_ai s =
    (chain (EA_AY_AI_8 s) (\<lambda>ea s.
     m68ki_write_8 ea 0 s))"

definition m68k_op_sf_8_pi :: "'b op" where
  "m68k_op_sf_8_pi s =
    (chain (EA_AY_PI_8 s) (\<lambda>ea s.
     m68ki_write_8 ea 0 s))"

definition m68k_op_sf_8_pi7 :: "'b op" where
  "m68k_op_sf_8_pi7 s =
    (chain (EA_A7_PI_8 s) (\<lambda>ea s.
     m68ki_write_8 ea 0 s))"

definition m68k_op_sf_8_pd :: "'b op" where
  "m68k_op_sf_8_pd s =
    (chain (EA_AY_PD_8 s) (\<lambda>ea s.
     m68ki_write_8 ea 0 s))"

definition m68k_op_sf_8_pd7 :: "'b op" where
  "m68k_op_sf_8_pd7 s =
    (chain (EA_A7_PD_8 s) (\<lambda>ea s.
     m68ki_write_8 ea 0 s))"

definition m68k_op_sf_8_di :: "'b op" where
  "m68k_op_sf_8_di s =
    (chain (EA_AY_DI_8 s) (\<lambda>ea s.
     m68ki_write_8 ea 0 s))"

definition m68k_op_sf_8_ix :: "'b op" where
  "m68k_op_sf_8_ix s =
    (chain (EA_AY_IX_8 s) (\<lambda>ea s.
     m68ki_write_8 ea 0 s))"

definition m68k_op_sf_8_aw :: "'b op" where
  "m68k_op_sf_8_aw s =
    (chain (EA_AW_8 s) (\<lambda>ea s.
     m68ki_write_8 ea 0 s))"

definition m68k_op_sf_8_al :: "'b op" where
  "m68k_op_sf_8_al s =
    (chain (EA_AL_8 s) (\<lambda>ea s.
     m68ki_write_8 ea 0 s))"

definition m68k_op_shi_8_d :: "'b op" where
  "m68k_op_shi_8_d s =
    (if COND_HI s
     then let s = set_DY ((DY s) OR 0xff) s
          in Ret () (USE_CYCLES (cyc_scc_r_true s) s)
     else Ret () (set_DY ((DY s) AND 0xffffff00) s))"

definition m68k_op_sls_8_d :: "'b op" where
  "m68k_op_sls_8_d s =
    (if COND_LS s
     then let s = set_DY ((DY s) OR 0xff) s
          in Ret () (USE_CYCLES (cyc_scc_r_true s) s)
     else Ret () (set_DY ((DY s) AND 0xffffff00) s))"

definition m68k_op_scc_8_d :: "'b op" where
  "m68k_op_scc_8_d s =
    (if COND_CC s
     then let s = set_DY ((DY s) OR 0xff) s
          in Ret () (USE_CYCLES (cyc_scc_r_true s) s)
     else Ret () (set_DY ((DY s) AND 0xffffff00) s))"

definition m68k_op_scs_8_d :: "'b op" where
  "m68k_op_scs_8_d s =
    (if COND_CS s
     then let s = set_DY ((DY s) OR 0xff) s
          in Ret () (USE_CYCLES (cyc_scc_r_true s) s)
     else Ret () (set_DY ((DY s) AND 0xffffff00) s))"

definition m68k_op_sne_8_d :: "'b op" where
  "m68k_op_sne_8_d s =
    (if COND_NE s
     then let s = set_DY ((DY s) OR 0xff) s
          in Ret () (USE_CYCLES (cyc_scc_r_true s) s)
     else Ret () (set_DY ((DY s) AND 0xffffff00) s))"

definition m68k_op_seq_8_d :: "'b op" where
  "m68k_op_seq_8_d s =
    (if COND_EQ s
     then let s = set_DY ((DY s) OR 0xff) s
          in Ret () (USE_CYCLES (cyc_scc_r_true s) s)
     else Ret () (set_DY ((DY s) AND 0xffffff00) s))"

definition m68k_op_svc_8_d :: "'b op" where
  "m68k_op_svc_8_d s =
    (if COND_VC s
     then let s = set_DY ((DY s) OR 0xff) s
          in Ret () (USE_CYCLES (cyc_scc_r_true s) s)
     else Ret () (set_DY ((DY s) AND 0xffffff00) s))"

definition m68k_op_svs_8_d :: "'b op" where
  "m68k_op_svs_8_d s =
    (if COND_VS s
     then let s = set_DY ((DY s) OR 0xff) s
          in Ret () (USE_CYCLES (cyc_scc_r_true s) s)
     else Ret () (set_DY ((DY s) AND 0xffffff00) s))"

definition m68k_op_spl_8_d :: "'b op" where
  "m68k_op_spl_8_d s =
    (if COND_PL s
     then let s = set_DY ((DY s) OR 0xff) s
          in Ret () (USE_CYCLES (cyc_scc_r_true s) s)
     else Ret () (set_DY ((DY s) AND 0xffffff00) s))"

definition m68k_op_smi_8_d :: "'b op" where
  "m68k_op_smi_8_d s =
    (if COND_MI s
     then let s = set_DY ((DY s) OR 0xff) s
          in Ret () (USE_CYCLES (cyc_scc_r_true s) s)
     else Ret () (set_DY ((DY s) AND 0xffffff00) s))"

definition m68k_op_sge_8_d :: "'b op" where
  "m68k_op_sge_8_d s =
    (if COND_GE s
     then let s = set_DY ((DY s) OR 0xff) s
          in Ret () (USE_CYCLES (cyc_scc_r_true s) s)
     else Ret () (set_DY ((DY s) AND 0xffffff00) s))"

definition m68k_op_slt_8_d :: "'b op" where
  "m68k_op_slt_8_d s =
    (if COND_LT s
     then let s = set_DY ((DY s) OR 0xff) s
          in Ret () (USE_CYCLES (cyc_scc_r_true s) s)
     else Ret () (set_DY ((DY s) AND 0xffffff00) s))"

definition m68k_op_sgt_8_d :: "'b op" where
  "m68k_op_sgt_8_d s =
    (if COND_GT s
     then let s = set_DY ((DY s) OR 0xff) s
          in Ret () (USE_CYCLES (cyc_scc_r_true s) s)
     else Ret () (set_DY ((DY s) AND 0xffffff00) s))"

definition m68k_op_sle_8_d :: "'b op" where
  "m68k_op_sle_8_d s =
    (if COND_LE s
     then let s = set_DY ((DY s) OR 0xff) s
          in Ret () (USE_CYCLES (cyc_scc_r_true s) s)
     else Ret () (set_DY ((DY s) AND 0xffffff00) s))"

definition m68k_op_shi_8_ai :: "'b op" where
  "m68k_op_shi_8_ai s =
    (chain (EA_AY_AI_8 s) (\<lambda>ea s.
     m68ki_write_8 ea (if COND_HI s then 0xff else 0) s))"

definition m68k_op_shi_8_pi :: "'b op" where
  "m68k_op_shi_8_pi s =
    (chain (EA_AY_PI_8 s) (\<lambda>ea s.
     m68ki_write_8 ea (if COND_HI s then 0xff else 0) s))"

definition m68k_op_shi_8_pi7 :: "'b op" where
  "m68k_op_shi_8_pi7 s =
    (chain (EA_A7_PI_8 s) (\<lambda>ea s.
     m68ki_write_8 ea (if COND_HI s then 0xff else 0) s))"

definition m68k_op_shi_8_pd :: "'b op" where
  "m68k_op_shi_8_pd s =
    (chain (EA_AY_PD_8 s) (\<lambda>ea s.
     m68ki_write_8 ea (if COND_HI s then 0xff else 0) s))"

definition m68k_op_shi_8_pd7 :: "'b op" where
  "m68k_op_shi_8_pd7 s =
    (chain (EA_A7_PD_8 s) (\<lambda>ea s.
     m68ki_write_8 ea (if COND_HI s then 0xff else 0) s))"

definition m68k_op_shi_8_di :: "'b op" where
  "m68k_op_shi_8_di s =
    (chain (EA_AY_DI_8 s) (\<lambda>ea s.
     m68ki_write_8 ea (if COND_HI s then 0xff else 0) s))"

definition m68k_op_shi_8_ix :: "'b op" where
  "m68k_op_shi_8_ix s =
    (chain (EA_AY_IX_8 s) (\<lambda>ea s.
     m68ki_write_8 ea (if COND_HI s then 0xff else 0) s))"

definition m68k_op_shi_8_aw :: "'b op" where
  "m68k_op_shi_8_aw s =
    (chain (EA_AW_8 s) (\<lambda>ea s.
     m68ki_write_8 ea (if COND_HI s then 0xff else 0) s))"

definition m68k_op_shi_8_al :: "'b op" where
  "m68k_op_shi_8_al s =
    (chain (EA_AL_8 s) (\<lambda>ea s.
     m68ki_write_8 ea (if COND_HI s then 0xff else 0) s))"

definition m68k_op_sls_8_ai :: "'b op" where
  "m68k_op_sls_8_ai s =
    (chain (EA_AY_AI_8 s) (\<lambda>ea s.
     m68ki_write_8 ea (if COND_LS s then 0xff else 0) s))"

definition m68k_op_sls_8_pi :: "'b op" where
  "m68k_op_sls_8_pi s =
    (chain (EA_AY_PI_8 s) (\<lambda>ea s.
     m68ki_write_8 ea (if COND_LS s then 0xff else 0) s))"

definition m68k_op_sls_8_pi7 :: "'b op" where
  "m68k_op_sls_8_pi7 s =
    (chain (EA_A7_PI_8 s) (\<lambda>ea s.
     m68ki_write_8 ea (if COND_LS s then 0xff else 0) s))"

definition m68k_op_sls_8_pd :: "'b op" where
  "m68k_op_sls_8_pd s =
    (chain (EA_AY_PD_8 s) (\<lambda>ea s.
     m68ki_write_8 ea (if COND_LS s then 0xff else 0) s))"

definition m68k_op_sls_8_pd7 :: "'b op" where
  "m68k_op_sls_8_pd7 s =
    (chain (EA_A7_PD_8 s) (\<lambda>ea s.
     m68ki_write_8 ea (if COND_LS s then 0xff else 0) s))"

definition m68k_op_sls_8_di :: "'b op" where
  "m68k_op_sls_8_di s =
    (chain (EA_AY_DI_8 s) (\<lambda>ea s.
     m68ki_write_8 ea (if COND_LS s then 0xff else 0) s))"

definition m68k_op_sls_8_ix :: "'b op" where
  "m68k_op_sls_8_ix s =
    (chain (EA_AY_IX_8 s) (\<lambda>ea s.
     m68ki_write_8 ea (if COND_LS s then 0xff else 0) s))"

definition m68k_op_sls_8_aw :: "'b op" where
  "m68k_op_sls_8_aw s =
    (chain (EA_AW_8 s) (\<lambda>ea s.
     m68ki_write_8 ea (if COND_LS s then 0xff else 0) s))"

definition m68k_op_sls_8_al :: "'b op" where
  "m68k_op_sls_8_al s =
    (chain (EA_AL_8 s) (\<lambda>ea s.
     m68ki_write_8 ea (if COND_LS s then 0xff else 0) s))"

definition m68k_op_scc_8_ai :: "'b op" where
  "m68k_op_scc_8_ai s =
    (chain (EA_AY_AI_8 s) (\<lambda>ea s.
     m68ki_write_8 ea (if COND_CC s then 0xff else 0) s))"

definition m68k_op_scc_8_pi :: "'b op" where
  "m68k_op_scc_8_pi s =
    (chain (EA_AY_PI_8 s) (\<lambda>ea s.
     m68ki_write_8 ea (if COND_CC s then 0xff else 0) s))"

definition m68k_op_scc_8_pi7 :: "'b op" where
  "m68k_op_scc_8_pi7 s =
    (chain (EA_A7_PI_8 s) (\<lambda>ea s.
     m68ki_write_8 ea (if COND_CC s then 0xff else 0) s))"

definition m68k_op_scc_8_pd :: "'b op" where
  "m68k_op_scc_8_pd s =
    (chain (EA_AY_PD_8 s) (\<lambda>ea s.
     m68ki_write_8 ea (if COND_CC s then 0xff else 0) s))"

definition m68k_op_scc_8_pd7 :: "'b op" where
  "m68k_op_scc_8_pd7 s =
    (chain (EA_A7_PD_8 s) (\<lambda>ea s.
     m68ki_write_8 ea (if COND_CC s then 0xff else 0) s))"

definition m68k_op_scc_8_di :: "'b op" where
  "m68k_op_scc_8_di s =
    (chain (EA_AY_DI_8 s) (\<lambda>ea s.
     m68ki_write_8 ea (if COND_CC s then 0xff else 0) s))"

definition m68k_op_scc_8_ix :: "'b op" where
  "m68k_op_scc_8_ix s =
    (chain (EA_AY_IX_8 s) (\<lambda>ea s.
     m68ki_write_8 ea (if COND_CC s then 0xff else 0) s))"

definition m68k_op_scc_8_aw :: "'b op" where
  "m68k_op_scc_8_aw s =
    (chain (EA_AW_8 s) (\<lambda>ea s.
     m68ki_write_8 ea (if COND_CC s then 0xff else 0) s))"

definition m68k_op_scc_8_al :: "'b op" where
  "m68k_op_scc_8_al s =
    (chain (EA_AL_8 s) (\<lambda>ea s.
     m68ki_write_8 ea (if COND_CC s then 0xff else 0) s))"

definition m68k_op_scs_8_ai :: "'b op" where
  "m68k_op_scs_8_ai s =
    (chain (EA_AY_AI_8 s) (\<lambda>ea s.
     m68ki_write_8 ea (if COND_CS s then 0xff else 0) s))"

definition m68k_op_scs_8_pi :: "'b op" where
  "m68k_op_scs_8_pi s =
    (chain (EA_AY_PI_8 s) (\<lambda>ea s.
     m68ki_write_8 ea (if COND_CS s then 0xff else 0) s))"

definition m68k_op_scs_8_pi7 :: "'b op" where
  "m68k_op_scs_8_pi7 s =
    (chain (EA_A7_PI_8 s) (\<lambda>ea s.
     m68ki_write_8 ea (if COND_CS s then 0xff else 0) s))"

definition m68k_op_scs_8_pd :: "'b op" where
  "m68k_op_scs_8_pd s =
    (chain (EA_AY_PD_8 s) (\<lambda>ea s.
     m68ki_write_8 ea (if COND_CS s then 0xff else 0) s))"

definition m68k_op_scs_8_pd7 :: "'b op" where
  "m68k_op_scs_8_pd7 s =
    (chain (EA_A7_PD_8 s) (\<lambda>ea s.
     m68ki_write_8 ea (if COND_CS s then 0xff else 0) s))"

definition m68k_op_scs_8_di :: "'b op" where
  "m68k_op_scs_8_di s =
    (chain (EA_AY_DI_8 s) (\<lambda>ea s.
     m68ki_write_8 ea (if COND_CS s then 0xff else 0) s))"

definition m68k_op_scs_8_ix :: "'b op" where
  "m68k_op_scs_8_ix s =
    (chain (EA_AY_IX_8 s) (\<lambda>ea s.
     m68ki_write_8 ea (if COND_CS s then 0xff else 0) s))"

definition m68k_op_scs_8_aw :: "'b op" where
  "m68k_op_scs_8_aw s =
    (chain (EA_AW_8 s) (\<lambda>ea s.
     m68ki_write_8 ea (if COND_CS s then 0xff else 0) s))"

definition m68k_op_scs_8_al :: "'b op" where
  "m68k_op_scs_8_al s =
    (chain (EA_AL_8 s) (\<lambda>ea s.
     m68ki_write_8 ea (if COND_CS s then 0xff else 0) s))"

definition m68k_op_sne_8_ai :: "'b op" where
  "m68k_op_sne_8_ai s =
    (chain (EA_AY_AI_8 s) (\<lambda>ea s.
     m68ki_write_8 ea (if COND_NE s then 0xff else 0) s))"

definition m68k_op_sne_8_pi :: "'b op" where
  "m68k_op_sne_8_pi s =
    (chain (EA_AY_PI_8 s) (\<lambda>ea s.
     m68ki_write_8 ea (if COND_NE s then 0xff else 0) s))"

definition m68k_op_sne_8_pi7 :: "'b op" where
  "m68k_op_sne_8_pi7 s =
    (chain (EA_A7_PI_8 s) (\<lambda>ea s.
     m68ki_write_8 ea (if COND_NE s then 0xff else 0) s))"

definition m68k_op_sne_8_pd :: "'b op" where
  "m68k_op_sne_8_pd s =
    (chain (EA_AY_PD_8 s) (\<lambda>ea s.
     m68ki_write_8 ea (if COND_NE s then 0xff else 0) s))"

definition m68k_op_sne_8_pd7 :: "'b op" where
  "m68k_op_sne_8_pd7 s =
    (chain (EA_A7_PD_8 s) (\<lambda>ea s.
     m68ki_write_8 ea (if COND_NE s then 0xff else 0) s))"

definition m68k_op_sne_8_di :: "'b op" where
  "m68k_op_sne_8_di s =
    (chain (EA_AY_DI_8 s) (\<lambda>ea s.
     m68ki_write_8 ea (if COND_NE s then 0xff else 0) s))"

definition m68k_op_sne_8_ix :: "'b op" where
  "m68k_op_sne_8_ix s =
    (chain (EA_AY_IX_8 s) (\<lambda>ea s.
     m68ki_write_8 ea (if COND_NE s then 0xff else 0) s))"

definition m68k_op_sne_8_aw :: "'b op" where
  "m68k_op_sne_8_aw s =
    (chain (EA_AW_8 s) (\<lambda>ea s.
     m68ki_write_8 ea (if COND_NE s then 0xff else 0) s))"

definition m68k_op_sne_8_al :: "'b op" where
  "m68k_op_sne_8_al s =
    (chain (EA_AL_8 s) (\<lambda>ea s.
     m68ki_write_8 ea (if COND_NE s then 0xff else 0) s))"

definition m68k_op_seq_8_ai :: "'b op" where
  "m68k_op_seq_8_ai s =
    (chain (EA_AY_AI_8 s) (\<lambda>ea s.
     m68ki_write_8 ea (if COND_EQ s then 0xff else 0) s))"

definition m68k_op_seq_8_pi :: "'b op" where
  "m68k_op_seq_8_pi s =
    (chain (EA_AY_PI_8 s) (\<lambda>ea s.
     m68ki_write_8 ea (if COND_EQ s then 0xff else 0) s))"

definition m68k_op_seq_8_pi7 :: "'b op" where
  "m68k_op_seq_8_pi7 s =
    (chain (EA_A7_PI_8 s) (\<lambda>ea s.
     m68ki_write_8 ea (if COND_EQ s then 0xff else 0) s))"

definition m68k_op_seq_8_pd :: "'b op" where
  "m68k_op_seq_8_pd s =
    (chain (EA_AY_PD_8 s) (\<lambda>ea s.
     m68ki_write_8 ea (if COND_EQ s then 0xff else 0) s))"

definition m68k_op_seq_8_pd7 :: "'b op" where
  "m68k_op_seq_8_pd7 s =
    (chain (EA_A7_PD_8 s) (\<lambda>ea s.
     m68ki_write_8 ea (if COND_EQ s then 0xff else 0) s))"

definition m68k_op_seq_8_di :: "'b op" where
  "m68k_op_seq_8_di s =
    (chain (EA_AY_DI_8 s) (\<lambda>ea s.
     m68ki_write_8 ea (if COND_EQ s then 0xff else 0) s))"

definition m68k_op_seq_8_ix :: "'b op" where
  "m68k_op_seq_8_ix s =
    (chain (EA_AY_IX_8 s) (\<lambda>ea s.
     m68ki_write_8 ea (if COND_EQ s then 0xff else 0) s))"

definition m68k_op_seq_8_aw :: "'b op" where
  "m68k_op_seq_8_aw s =
    (chain (EA_AW_8 s) (\<lambda>ea s.
     m68ki_write_8 ea (if COND_EQ s then 0xff else 0) s))"

definition m68k_op_seq_8_al :: "'b op" where
  "m68k_op_seq_8_al s =
    (chain (EA_AL_8 s) (\<lambda>ea s.
     m68ki_write_8 ea (if COND_EQ s then 0xff else 0) s))"

definition m68k_op_svc_8_ai :: "'b op" where
  "m68k_op_svc_8_ai s =
    (chain (EA_AY_AI_8 s) (\<lambda>ea s.
     m68ki_write_8 ea (if COND_VC s then 0xff else 0) s))"

definition m68k_op_svc_8_pi :: "'b op" where
  "m68k_op_svc_8_pi s =
    (chain (EA_AY_PI_8 s) (\<lambda>ea s.
     m68ki_write_8 ea (if COND_VC s then 0xff else 0) s))"

definition m68k_op_svc_8_pi7 :: "'b op" where
  "m68k_op_svc_8_pi7 s =
    (chain (EA_A7_PI_8 s) (\<lambda>ea s.
     m68ki_write_8 ea (if COND_VC s then 0xff else 0) s))"

definition m68k_op_svc_8_pd :: "'b op" where
  "m68k_op_svc_8_pd s =
    (chain (EA_AY_PD_8 s) (\<lambda>ea s.
     m68ki_write_8 ea (if COND_VC s then 0xff else 0) s))"

definition m68k_op_svc_8_pd7 :: "'b op" where
  "m68k_op_svc_8_pd7 s =
    (chain (EA_A7_PD_8 s) (\<lambda>ea s.
     m68ki_write_8 ea (if COND_VC s then 0xff else 0) s))"

definition m68k_op_svc_8_di :: "'b op" where
  "m68k_op_svc_8_di s =
    (chain (EA_AY_DI_8 s) (\<lambda>ea s.
     m68ki_write_8 ea (if COND_VC s then 0xff else 0) s))"

definition m68k_op_svc_8_ix :: "'b op" where
  "m68k_op_svc_8_ix s =
    (chain (EA_AY_IX_8 s) (\<lambda>ea s.
     m68ki_write_8 ea (if COND_VC s then 0xff else 0) s))"

definition m68k_op_svc_8_aw :: "'b op" where
  "m68k_op_svc_8_aw s =
    (chain (EA_AW_8 s) (\<lambda>ea s.
     m68ki_write_8 ea (if COND_VC s then 0xff else 0) s))"

definition m68k_op_svc_8_al :: "'b op" where
  "m68k_op_svc_8_al s =
    (chain (EA_AL_8 s) (\<lambda>ea s.
     m68ki_write_8 ea (if COND_VC s then 0xff else 0) s))"

definition m68k_op_svs_8_ai :: "'b op" where
  "m68k_op_svs_8_ai s =
    (chain (EA_AY_AI_8 s) (\<lambda>ea s.
     m68ki_write_8 ea (if COND_VS s then 0xff else 0) s))"

definition m68k_op_svs_8_pi :: "'b op" where
  "m68k_op_svs_8_pi s =
    (chain (EA_AY_PI_8 s) (\<lambda>ea s.
     m68ki_write_8 ea (if COND_VS s then 0xff else 0) s))"

definition m68k_op_svs_8_pi7 :: "'b op" where
  "m68k_op_svs_8_pi7 s =
    (chain (EA_A7_PI_8 s) (\<lambda>ea s.
     m68ki_write_8 ea (if COND_VS s then 0xff else 0) s))"

definition m68k_op_svs_8_pd :: "'b op" where
  "m68k_op_svs_8_pd s =
    (chain (EA_AY_PD_8 s) (\<lambda>ea s.
     m68ki_write_8 ea (if COND_VS s then 0xff else 0) s))"

definition m68k_op_svs_8_pd7 :: "'b op" where
  "m68k_op_svs_8_pd7 s =
    (chain (EA_A7_PD_8 s) (\<lambda>ea s.
     m68ki_write_8 ea (if COND_VS s then 0xff else 0) s))"

definition m68k_op_svs_8_di :: "'b op" where
  "m68k_op_svs_8_di s =
    (chain (EA_AY_DI_8 s) (\<lambda>ea s.
     m68ki_write_8 ea (if COND_VS s then 0xff else 0) s))"

definition m68k_op_svs_8_ix :: "'b op" where
  "m68k_op_svs_8_ix s =
    (chain (EA_AY_IX_8 s) (\<lambda>ea s.
     m68ki_write_8 ea (if COND_VS s then 0xff else 0) s))"

definition m68k_op_svs_8_aw :: "'b op" where
  "m68k_op_svs_8_aw s =
    (chain (EA_AW_8 s) (\<lambda>ea s.
     m68ki_write_8 ea (if COND_VS s then 0xff else 0) s))"

definition m68k_op_svs_8_al :: "'b op" where
  "m68k_op_svs_8_al s =
    (chain (EA_AL_8 s) (\<lambda>ea s.
     m68ki_write_8 ea (if COND_VS s then 0xff else 0) s))"

definition m68k_op_spl_8_ai :: "'b op" where
  "m68k_op_spl_8_ai s =
    (chain (EA_AY_AI_8 s) (\<lambda>ea s.
     m68ki_write_8 ea (if COND_PL s then 0xff else 0) s))"

definition m68k_op_spl_8_pi :: "'b op" where
  "m68k_op_spl_8_pi s =
    (chain (EA_AY_PI_8 s) (\<lambda>ea s.
     m68ki_write_8 ea (if COND_PL s then 0xff else 0) s))"

definition m68k_op_spl_8_pi7 :: "'b op" where
  "m68k_op_spl_8_pi7 s =
    (chain (EA_A7_PI_8 s) (\<lambda>ea s.
     m68ki_write_8 ea (if COND_PL s then 0xff else 0) s))"

definition m68k_op_spl_8_pd :: "'b op" where
  "m68k_op_spl_8_pd s =
    (chain (EA_AY_PD_8 s) (\<lambda>ea s.
     m68ki_write_8 ea (if COND_PL s then 0xff else 0) s))"

definition m68k_op_spl_8_pd7 :: "'b op" where
  "m68k_op_spl_8_pd7 s =
    (chain (EA_A7_PD_8 s) (\<lambda>ea s.
     m68ki_write_8 ea (if COND_PL s then 0xff else 0) s))"

definition m68k_op_spl_8_di :: "'b op" where
  "m68k_op_spl_8_di s =
    (chain (EA_AY_DI_8 s) (\<lambda>ea s.
     m68ki_write_8 ea (if COND_PL s then 0xff else 0) s))"

definition m68k_op_spl_8_ix :: "'b op" where
  "m68k_op_spl_8_ix s =
    (chain (EA_AY_IX_8 s) (\<lambda>ea s.
     m68ki_write_8 ea (if COND_PL s then 0xff else 0) s))"

definition m68k_op_spl_8_aw :: "'b op" where
  "m68k_op_spl_8_aw s =
    (chain (EA_AW_8 s) (\<lambda>ea s.
     m68ki_write_8 ea (if COND_PL s then 0xff else 0) s))"

definition m68k_op_spl_8_al :: "'b op" where
  "m68k_op_spl_8_al s =
    (chain (EA_AL_8 s) (\<lambda>ea s.
     m68ki_write_8 ea (if COND_PL s then 0xff else 0) s))"

definition m68k_op_smi_8_ai :: "'b op" where
  "m68k_op_smi_8_ai s =
    (chain (EA_AY_AI_8 s) (\<lambda>ea s.
     m68ki_write_8 ea (if COND_MI s then 0xff else 0) s))"

definition m68k_op_smi_8_pi :: "'b op" where
  "m68k_op_smi_8_pi s =
    (chain (EA_AY_PI_8 s) (\<lambda>ea s.
     m68ki_write_8 ea (if COND_MI s then 0xff else 0) s))"

definition m68k_op_smi_8_pi7 :: "'b op" where
  "m68k_op_smi_8_pi7 s =
    (chain (EA_A7_PI_8 s) (\<lambda>ea s.
     m68ki_write_8 ea (if COND_MI s then 0xff else 0) s))"

definition m68k_op_smi_8_pd :: "'b op" where
  "m68k_op_smi_8_pd s =
    (chain (EA_AY_PD_8 s) (\<lambda>ea s.
     m68ki_write_8 ea (if COND_MI s then 0xff else 0) s))"

definition m68k_op_smi_8_pd7 :: "'b op" where
  "m68k_op_smi_8_pd7 s =
    (chain (EA_A7_PD_8 s) (\<lambda>ea s.
     m68ki_write_8 ea (if COND_MI s then 0xff else 0) s))"

definition m68k_op_smi_8_di :: "'b op" where
  "m68k_op_smi_8_di s =
    (chain (EA_AY_DI_8 s) (\<lambda>ea s.
     m68ki_write_8 ea (if COND_MI s then 0xff else 0) s))"

definition m68k_op_smi_8_ix :: "'b op" where
  "m68k_op_smi_8_ix s =
    (chain (EA_AY_IX_8 s) (\<lambda>ea s.
     m68ki_write_8 ea (if COND_MI s then 0xff else 0) s))"

definition m68k_op_smi_8_aw :: "'b op" where
  "m68k_op_smi_8_aw s =
    (chain (EA_AW_8 s) (\<lambda>ea s.
     m68ki_write_8 ea (if COND_MI s then 0xff else 0) s))"

definition m68k_op_smi_8_al :: "'b op" where
  "m68k_op_smi_8_al s =
    (chain (EA_AL_8 s) (\<lambda>ea s.
     m68ki_write_8 ea (if COND_MI s then 0xff else 0) s))"

definition m68k_op_sge_8_ai :: "'b op" where
  "m68k_op_sge_8_ai s =
    (chain (EA_AY_AI_8 s) (\<lambda>ea s.
     m68ki_write_8 ea (if COND_GE s then 0xff else 0) s))"

definition m68k_op_sge_8_pi :: "'b op" where
  "m68k_op_sge_8_pi s =
    (chain (EA_AY_PI_8 s) (\<lambda>ea s.
     m68ki_write_8 ea (if COND_GE s then 0xff else 0) s))"

definition m68k_op_sge_8_pi7 :: "'b op" where
  "m68k_op_sge_8_pi7 s =
    (chain (EA_A7_PI_8 s) (\<lambda>ea s.
     m68ki_write_8 ea (if COND_GE s then 0xff else 0) s))"

definition m68k_op_sge_8_pd :: "'b op" where
  "m68k_op_sge_8_pd s =
    (chain (EA_AY_PD_8 s) (\<lambda>ea s.
     m68ki_write_8 ea (if COND_GE s then 0xff else 0) s))"

definition m68k_op_sge_8_pd7 :: "'b op" where
  "m68k_op_sge_8_pd7 s =
    (chain (EA_A7_PD_8 s) (\<lambda>ea s.
     m68ki_write_8 ea (if COND_GE s then 0xff else 0) s))"

definition m68k_op_sge_8_di :: "'b op" where
  "m68k_op_sge_8_di s =
    (chain (EA_AY_DI_8 s) (\<lambda>ea s.
     m68ki_write_8 ea (if COND_GE s then 0xff else 0) s))"

definition m68k_op_sge_8_ix :: "'b op" where
  "m68k_op_sge_8_ix s =
    (chain (EA_AY_IX_8 s) (\<lambda>ea s.
     m68ki_write_8 ea (if COND_GE s then 0xff else 0) s))"

definition m68k_op_sge_8_aw :: "'b op" where
  "m68k_op_sge_8_aw s =
    (chain (EA_AW_8 s) (\<lambda>ea s.
     m68ki_write_8 ea (if COND_GE s then 0xff else 0) s))"

definition m68k_op_sge_8_al :: "'b op" where
  "m68k_op_sge_8_al s =
    (chain (EA_AL_8 s) (\<lambda>ea s.
     m68ki_write_8 ea (if COND_GE s then 0xff else 0) s))"

definition m68k_op_slt_8_ai :: "'b op" where
  "m68k_op_slt_8_ai s =
    (chain (EA_AY_AI_8 s) (\<lambda>ea s.
     m68ki_write_8 ea (if COND_LT s then 0xff else 0) s))"

definition m68k_op_slt_8_pi :: "'b op" where
  "m68k_op_slt_8_pi s =
    (chain (EA_AY_PI_8 s) (\<lambda>ea s.
     m68ki_write_8 ea (if COND_LT s then 0xff else 0) s))"

definition m68k_op_slt_8_pi7 :: "'b op" where
  "m68k_op_slt_8_pi7 s =
    (chain (EA_A7_PI_8 s) (\<lambda>ea s.
     m68ki_write_8 ea (if COND_LT s then 0xff else 0) s))"

definition m68k_op_slt_8_pd :: "'b op" where
  "m68k_op_slt_8_pd s =
    (chain (EA_AY_PD_8 s) (\<lambda>ea s.
     m68ki_write_8 ea (if COND_LT s then 0xff else 0) s))"

definition m68k_op_slt_8_pd7 :: "'b op" where
  "m68k_op_slt_8_pd7 s =
    (chain (EA_A7_PD_8 s) (\<lambda>ea s.
     m68ki_write_8 ea (if COND_LT s then 0xff else 0) s))"

definition m68k_op_slt_8_di :: "'b op" where
  "m68k_op_slt_8_di s =
    (chain (EA_AY_DI_8 s) (\<lambda>ea s.
     m68ki_write_8 ea (if COND_LT s then 0xff else 0) s))"

definition m68k_op_slt_8_ix :: "'b op" where
  "m68k_op_slt_8_ix s =
    (chain (EA_AY_IX_8 s) (\<lambda>ea s.
     m68ki_write_8 ea (if COND_LT s then 0xff else 0) s))"

definition m68k_op_slt_8_aw :: "'b op" where
  "m68k_op_slt_8_aw s =
    (chain (EA_AW_8 s) (\<lambda>ea s.
     m68ki_write_8 ea (if COND_LT s then 0xff else 0) s))"

definition m68k_op_slt_8_al :: "'b op" where
  "m68k_op_slt_8_al s =
    (chain (EA_AL_8 s) (\<lambda>ea s.
     m68ki_write_8 ea (if COND_LT s then 0xff else 0) s))"

definition m68k_op_sgt_8_ai :: "'b op" where
  "m68k_op_sgt_8_ai s =
    (chain (EA_AY_AI_8 s) (\<lambda>ea s.
     m68ki_write_8 ea (if COND_GT s then 0xff else 0) s))"

definition m68k_op_sgt_8_pi :: "'b op" where
  "m68k_op_sgt_8_pi s =
    (chain (EA_AY_PI_8 s) (\<lambda>ea s.
     m68ki_write_8 ea (if COND_GT s then 0xff else 0) s))"

definition m68k_op_sgt_8_pi7 :: "'b op" where
  "m68k_op_sgt_8_pi7 s =
    (chain (EA_A7_PI_8 s) (\<lambda>ea s.
     m68ki_write_8 ea (if COND_GT s then 0xff else 0) s))"

definition m68k_op_sgt_8_pd :: "'b op" where
  "m68k_op_sgt_8_pd s =
    (chain (EA_AY_PD_8 s) (\<lambda>ea s.
     m68ki_write_8 ea (if COND_GT s then 0xff else 0) s))"

definition m68k_op_sgt_8_pd7 :: "'b op" where
  "m68k_op_sgt_8_pd7 s =
    (chain (EA_A7_PD_8 s) (\<lambda>ea s.
     m68ki_write_8 ea (if COND_GT s then 0xff else 0) s))"

definition m68k_op_sgt_8_di :: "'b op" where
  "m68k_op_sgt_8_di s =
    (chain (EA_AY_DI_8 s) (\<lambda>ea s.
     m68ki_write_8 ea (if COND_GT s then 0xff else 0) s))"

definition m68k_op_sgt_8_ix :: "'b op" where
  "m68k_op_sgt_8_ix s =
    (chain (EA_AY_IX_8 s) (\<lambda>ea s.
     m68ki_write_8 ea (if COND_GT s then 0xff else 0) s))"

definition m68k_op_sgt_8_aw :: "'b op" where
  "m68k_op_sgt_8_aw s =
    (chain (EA_AW_8 s) (\<lambda>ea s.
     m68ki_write_8 ea (if COND_GT s then 0xff else 0) s))"

definition m68k_op_sgt_8_al :: "'b op" where
  "m68k_op_sgt_8_al s =
    (chain (EA_AL_8 s) (\<lambda>ea s.
     m68ki_write_8 ea (if COND_GT s then 0xff else 0) s))"

definition m68k_op_sle_8_ai :: "'b op" where
  "m68k_op_sle_8_ai s =
    (chain (EA_AY_AI_8 s) (\<lambda>ea s.
     m68ki_write_8 ea (if COND_LE s then 0xff else 0) s))"

definition m68k_op_sle_8_pi :: "'b op" where
  "m68k_op_sle_8_pi s =
    (chain (EA_AY_PI_8 s) (\<lambda>ea s.
     m68ki_write_8 ea (if COND_LE s then 0xff else 0) s))"

definition m68k_op_sle_8_pi7 :: "'b op" where
  "m68k_op_sle_8_pi7 s =
    (chain (EA_A7_PI_8 s) (\<lambda>ea s.
     m68ki_write_8 ea (if COND_LE s then 0xff else 0) s))"

definition m68k_op_sle_8_pd :: "'b op" where
  "m68k_op_sle_8_pd s =
    (chain (EA_AY_PD_8 s) (\<lambda>ea s.
     m68ki_write_8 ea (if COND_LE s then 0xff else 0) s))"

definition m68k_op_sle_8_pd7 :: "'b op" where
  "m68k_op_sle_8_pd7 s =
    (chain (EA_A7_PD_8 s) (\<lambda>ea s.
     m68ki_write_8 ea (if COND_LE s then 0xff else 0) s))"

definition m68k_op_sle_8_di :: "'b op" where
  "m68k_op_sle_8_di s =
    (chain (EA_AY_DI_8 s) (\<lambda>ea s.
     m68ki_write_8 ea (if COND_LE s then 0xff else 0) s))"

definition m68k_op_sle_8_ix :: "'b op" where
  "m68k_op_sle_8_ix s =
    (chain (EA_AY_IX_8 s) (\<lambda>ea s.
     m68ki_write_8 ea (if COND_LE s then 0xff else 0) s))"

definition m68k_op_sle_8_aw :: "'b op" where
  "m68k_op_sle_8_aw s =
    (chain (EA_AW_8 s) (\<lambda>ea s.
     m68ki_write_8 ea (if COND_LE s then 0xff else 0) s))"

definition m68k_op_sle_8_al :: "'b op" where
  "m68k_op_sle_8_al s =
    (chain (EA_AL_8 s) (\<lambda>ea s.
     m68ki_write_8 ea (if COND_LE s then 0xff else 0) s))"

end
