(* ===== verification/OpsCas.thy ===== *)
theory OpsCas
  imports OpsBase
begin

section \<open>Instruction handlers: CAS, CAS2, CALLM and RTM\<close>

text \<open>
  The handlers of m68kops.c for CAS, CAS2, CALLM and RTM.
  One definition per handler, under the name of its C function; the effective address is part of
  the name.
\<close>

unbundle bit_operations_syntax

definition m68k_op_callm_32_ai :: "'b op" where
  "m68k_op_callm_32_ai s =
    (if CPU_TYPE_IS_020_VARIANT (cpu_type s)
     then chain (EA_AY_AI_32 s) (\<lambda>ea s.
          Ret () (s\<lparr>pc := (pc s) + 2\<rparr>))
     else m68ki_exception_illegal s)"

definition m68k_op_callm_32_di :: "'b op" where
  "m68k_op_callm_32_di s =
    (if CPU_TYPE_IS_020_VARIANT (cpu_type s)
     then chain (EA_AY_DI_32 s) (\<lambda>ea s.
          Ret () (s\<lparr>pc := (pc s) + 2\<rparr>))
     else m68ki_exception_illegal s)"

definition m68k_op_callm_32_ix :: "'b op" where
  "m68k_op_callm_32_ix s =
    (if CPU_TYPE_IS_020_VARIANT (cpu_type s)
     then chain (EA_AY_IX_32 s) (\<lambda>ea s.
          Ret () (s\<lparr>pc := (pc s) + 2\<rparr>))
     else m68ki_exception_illegal s)"

definition m68k_op_callm_32_aw :: "'b op" where
  "m68k_op_callm_32_aw s =
    (if CPU_TYPE_IS_020_VARIANT (cpu_type s)
     then chain (EA_AW_32 s) (\<lambda>ea s.
          Ret () (s\<lparr>pc := (pc s) + 2\<rparr>))
     else m68ki_exception_illegal s)"

definition m68k_op_callm_32_al :: "'b op" where
  "m68k_op_callm_32_al s =
    (if CPU_TYPE_IS_020_VARIANT (cpu_type s)
     then chain (EA_AL_32 s) (\<lambda>ea s.
          Ret () (s\<lparr>pc := (pc s) + 2\<rparr>))
     else m68ki_exception_illegal s)"

definition m68k_op_callm_32_pcdi :: "'b op" where
  "m68k_op_callm_32_pcdi s =
    (if CPU_TYPE_IS_020_VARIANT (cpu_type s)
     then chain (EA_PCDI_32 s) (\<lambda>ea s.
          Ret () (s\<lparr>pc := (pc s) + 2\<rparr>))
     else m68ki_exception_illegal s)"

definition m68k_op_callm_32_pcix :: "'b op" where
  "m68k_op_callm_32_pcix s =
    (if CPU_TYPE_IS_020_VARIANT (cpu_type s)
     then chain (EA_PCIX_32 s) (\<lambda>ea s.
          Ret () (s\<lparr>pc := (pc s) + 2\<rparr>))
     else m68ki_exception_illegal s)"

definition m68k_op_cas_8_ai :: "'b op" where
  "m68k_op_cas_8_ai s =
    (if CPU_TYPE_IS_EC020_PLUS (cpu_type s)
     then chain (OPER_I_16 s) (\<lambda>word2 s.
          chain (EA_AY_AI_8 s) (\<lambda>ea s.
          chain (m68ki_read_8 ea s) (\<lambda>dest s.
          let res = dest - MASK_OUT_ABOVE_8 (REG_D s (word2 AND 7));
              s = s\<lparr>n_flag := NFLAG_8 res,
                    not_z_flag := MASK_OUT_ABOVE_8 res,
                    v_flag := VFLAG_SUB_8 (REG_D s (word2 AND 7)) dest res,
                    c_flag := CFLAG_8 res\<rparr>
          in if COND_NE s
             then let s = set_REG_D (word2 AND 7) (MASK_OUT_BELOW_8 (REG_D s (word2 AND 7)) OR dest) s
                  in Ret () s
             else let s = USE_CYCLES 3 s
                  in m68ki_write_8 ea (MASK_OUT_ABOVE_8 (REG_D s (drop_bit 6 word2 AND 7))) s)))
     else m68ki_exception_illegal s)"

definition m68k_op_cas_8_pi :: "'b op" where
  "m68k_op_cas_8_pi s =
    (if CPU_TYPE_IS_EC020_PLUS (cpu_type s)
     then chain (OPER_I_16 s) (\<lambda>word2 s.
          chain (EA_AY_PI_8 s) (\<lambda>ea s.
          chain (m68ki_read_8 ea s) (\<lambda>dest s.
          let res = dest - MASK_OUT_ABOVE_8 (REG_D s (word2 AND 7));
              s = s\<lparr>n_flag := NFLAG_8 res,
                    not_z_flag := MASK_OUT_ABOVE_8 res,
                    v_flag := VFLAG_SUB_8 (REG_D s (word2 AND 7)) dest res,
                    c_flag := CFLAG_8 res\<rparr>
          in if COND_NE s
             then let s = set_REG_D (word2 AND 7) (MASK_OUT_BELOW_8 (REG_D s (word2 AND 7)) OR dest) s
                  in Ret () s
             else let s = USE_CYCLES 3 s
                  in m68ki_write_8 ea (MASK_OUT_ABOVE_8 (REG_D s (drop_bit 6 word2 AND 7))) s)))
     else m68ki_exception_illegal s)"

definition m68k_op_cas_8_pi7 :: "'b op" where
  "m68k_op_cas_8_pi7 s =
    (if CPU_TYPE_IS_EC020_PLUS (cpu_type s)
     then chain (OPER_I_16 s) (\<lambda>word2 s.
          chain (EA_A7_PI_8 s) (\<lambda>ea s.
          chain (m68ki_read_8 ea s) (\<lambda>dest s.
          let res = dest - MASK_OUT_ABOVE_8 (REG_D s (word2 AND 7));
              s = s\<lparr>n_flag := NFLAG_8 res,
                    not_z_flag := MASK_OUT_ABOVE_8 res,
                    v_flag := VFLAG_SUB_8 (REG_D s (word2 AND 7)) dest res,
                    c_flag := CFLAG_8 res\<rparr>
          in if COND_NE s
             then let s = set_REG_D (word2 AND 7) (MASK_OUT_BELOW_8 (REG_D s (word2 AND 7)) OR dest) s
                  in Ret () s
             else let s = USE_CYCLES 3 s
                  in m68ki_write_8 ea (MASK_OUT_ABOVE_8 (REG_D s (drop_bit 6 word2 AND 7))) s)))
     else m68ki_exception_illegal s)"

definition m68k_op_cas_8_pd :: "'b op" where
  "m68k_op_cas_8_pd s =
    (if CPU_TYPE_IS_EC020_PLUS (cpu_type s)
     then chain (OPER_I_16 s) (\<lambda>word2 s.
          chain (EA_AY_PD_8 s) (\<lambda>ea s.
          chain (m68ki_read_8 ea s) (\<lambda>dest s.
          let res = dest - MASK_OUT_ABOVE_8 (REG_D s (word2 AND 7));
              s = s\<lparr>n_flag := NFLAG_8 res,
                    not_z_flag := MASK_OUT_ABOVE_8 res,
                    v_flag := VFLAG_SUB_8 (REG_D s (word2 AND 7)) dest res,
                    c_flag := CFLAG_8 res\<rparr>
          in if COND_NE s
             then let s = set_REG_D (word2 AND 7) (MASK_OUT_BELOW_8 (REG_D s (word2 AND 7)) OR dest) s
                  in Ret () s
             else let s = USE_CYCLES 3 s
                  in m68ki_write_8 ea (MASK_OUT_ABOVE_8 (REG_D s (drop_bit 6 word2 AND 7))) s)))
     else m68ki_exception_illegal s)"

definition m68k_op_cas_8_pd7 :: "'b op" where
  "m68k_op_cas_8_pd7 s =
    (if CPU_TYPE_IS_EC020_PLUS (cpu_type s)
     then chain (OPER_I_16 s) (\<lambda>word2 s.
          chain (EA_A7_PD_8 s) (\<lambda>ea s.
          chain (m68ki_read_8 ea s) (\<lambda>dest s.
          let res = dest - MASK_OUT_ABOVE_8 (REG_D s (word2 AND 7));
              s = s\<lparr>n_flag := NFLAG_8 res,
                    not_z_flag := MASK_OUT_ABOVE_8 res,
                    v_flag := VFLAG_SUB_8 (REG_D s (word2 AND 7)) dest res,
                    c_flag := CFLAG_8 res\<rparr>
          in if COND_NE s
             then let s = set_REG_D (word2 AND 7) (MASK_OUT_BELOW_8 (REG_D s (word2 AND 7)) OR dest) s
                  in Ret () s
             else let s = USE_CYCLES 3 s
                  in m68ki_write_8 ea (MASK_OUT_ABOVE_8 (REG_D s (drop_bit 6 word2 AND 7))) s)))
     else m68ki_exception_illegal s)"

definition m68k_op_cas_8_di :: "'b op" where
  "m68k_op_cas_8_di s =
    (if CPU_TYPE_IS_EC020_PLUS (cpu_type s)
     then chain (OPER_I_16 s) (\<lambda>word2 s.
          chain (EA_AY_DI_8 s) (\<lambda>ea s.
          chain (m68ki_read_8 ea s) (\<lambda>dest s.
          let res = dest - MASK_OUT_ABOVE_8 (REG_D s (word2 AND 7));
              s = s\<lparr>n_flag := NFLAG_8 res,
                    not_z_flag := MASK_OUT_ABOVE_8 res,
                    v_flag := VFLAG_SUB_8 (REG_D s (word2 AND 7)) dest res,
                    c_flag := CFLAG_8 res\<rparr>
          in if COND_NE s
             then let s = set_REG_D (word2 AND 7) (MASK_OUT_BELOW_8 (REG_D s (word2 AND 7)) OR dest) s
                  in Ret () s
             else let s = USE_CYCLES 3 s
                  in m68ki_write_8 ea (MASK_OUT_ABOVE_8 (REG_D s (drop_bit 6 word2 AND 7))) s)))
     else m68ki_exception_illegal s)"

definition m68k_op_cas_8_ix :: "'b op" where
  "m68k_op_cas_8_ix s =
    (if CPU_TYPE_IS_EC020_PLUS (cpu_type s)
     then chain (OPER_I_16 s) (\<lambda>word2 s.
          chain (EA_AY_IX_8 s) (\<lambda>ea s.
          chain (m68ki_read_8 ea s) (\<lambda>dest s.
          let res = dest - MASK_OUT_ABOVE_8 (REG_D s (word2 AND 7));
              s = s\<lparr>n_flag := NFLAG_8 res,
                    not_z_flag := MASK_OUT_ABOVE_8 res,
                    v_flag := VFLAG_SUB_8 (REG_D s (word2 AND 7)) dest res,
                    c_flag := CFLAG_8 res\<rparr>
          in if COND_NE s
             then let s = set_REG_D (word2 AND 7) (MASK_OUT_BELOW_8 (REG_D s (word2 AND 7)) OR dest) s
                  in Ret () s
             else let s = USE_CYCLES 3 s
                  in m68ki_write_8 ea (MASK_OUT_ABOVE_8 (REG_D s (drop_bit 6 word2 AND 7))) s)))
     else m68ki_exception_illegal s)"

definition m68k_op_cas_8_aw :: "'b op" where
  "m68k_op_cas_8_aw s =
    (if CPU_TYPE_IS_EC020_PLUS (cpu_type s)
     then chain (OPER_I_16 s) (\<lambda>word2 s.
          chain (EA_AW_8 s) (\<lambda>ea s.
          chain (m68ki_read_8 ea s) (\<lambda>dest s.
          let res = dest - MASK_OUT_ABOVE_8 (REG_D s (word2 AND 7));
              s = s\<lparr>n_flag := NFLAG_8 res,
                    not_z_flag := MASK_OUT_ABOVE_8 res,
                    v_flag := VFLAG_SUB_8 (REG_D s (word2 AND 7)) dest res,
                    c_flag := CFLAG_8 res\<rparr>
          in if COND_NE s
             then let s = set_REG_D (word2 AND 7) (MASK_OUT_BELOW_8 (REG_D s (word2 AND 7)) OR dest) s
                  in Ret () s
             else let s = USE_CYCLES 3 s
                  in m68ki_write_8 ea (MASK_OUT_ABOVE_8 (REG_D s (drop_bit 6 word2 AND 7))) s)))
     else m68ki_exception_illegal s)"

definition m68k_op_cas_8_al :: "'b op" where
  "m68k_op_cas_8_al s =
    (if CPU_TYPE_IS_EC020_PLUS (cpu_type s)
     then chain (OPER_I_16 s) (\<lambda>word2 s.
          chain (EA_AL_8 s) (\<lambda>ea s.
          chain (m68ki_read_8 ea s) (\<lambda>dest s.
          let res = dest - MASK_OUT_ABOVE_8 (REG_D s (word2 AND 7));
              s = s\<lparr>n_flag := NFLAG_8 res,
                    not_z_flag := MASK_OUT_ABOVE_8 res,
                    v_flag := VFLAG_SUB_8 (REG_D s (word2 AND 7)) dest res,
                    c_flag := CFLAG_8 res\<rparr>
          in if COND_NE s
             then let s = set_REG_D (word2 AND 7) (MASK_OUT_BELOW_8 (REG_D s (word2 AND 7)) OR dest) s
                  in Ret () s
             else let s = USE_CYCLES 3 s
                  in m68ki_write_8 ea (MASK_OUT_ABOVE_8 (REG_D s (drop_bit 6 word2 AND 7))) s)))
     else m68ki_exception_illegal s)"

definition m68k_op_cas_16_ai :: "'b op" where
  "m68k_op_cas_16_ai s =
    (if CPU_TYPE_IS_EC020_PLUS (cpu_type s)
     then chain (OPER_I_16 s) (\<lambda>word2 s.
          chain (EA_AY_AI_16 s) (\<lambda>ea s.
          chain (m68ki_read_16 ea s) (\<lambda>dest s.
          let res = dest - MASK_OUT_ABOVE_16 (REG_D s (word2 AND 7));
              s = s\<lparr>n_flag := NFLAG_16 res,
                    not_z_flag := MASK_OUT_ABOVE_16 res,
                    v_flag := VFLAG_SUB_16 (REG_D s (word2 AND 7)) dest res,
                    c_flag := CFLAG_16 res\<rparr>
          in if COND_NE s
             then let s = set_REG_D (word2 AND 7) (MASK_OUT_BELOW_16 (REG_D s (word2 AND 7)) OR dest) s
                  in Ret () s
             else let s = USE_CYCLES 3 s
                  in m68ki_write_16 ea (MASK_OUT_ABOVE_16 (REG_D s (drop_bit 6 word2 AND 7))) s)))
     else m68ki_exception_illegal s)"

definition m68k_op_cas_16_pi :: "'b op" where
  "m68k_op_cas_16_pi s =
    (if CPU_TYPE_IS_EC020_PLUS (cpu_type s)
     then chain (OPER_I_16 s) (\<lambda>word2 s.
          chain (EA_AY_PI_16 s) (\<lambda>ea s.
          chain (m68ki_read_16 ea s) (\<lambda>dest s.
          let res = dest - MASK_OUT_ABOVE_16 (REG_D s (word2 AND 7));
              s = s\<lparr>n_flag := NFLAG_16 res,
                    not_z_flag := MASK_OUT_ABOVE_16 res,
                    v_flag := VFLAG_SUB_16 (REG_D s (word2 AND 7)) dest res,
                    c_flag := CFLAG_16 res\<rparr>
          in if COND_NE s
             then let s = set_REG_D (word2 AND 7) (MASK_OUT_BELOW_16 (REG_D s (word2 AND 7)) OR dest) s
                  in Ret () s
             else let s = USE_CYCLES 3 s
                  in m68ki_write_16 ea (MASK_OUT_ABOVE_16 (REG_D s (drop_bit 6 word2 AND 7))) s)))
     else m68ki_exception_illegal s)"

definition m68k_op_cas_16_pd :: "'b op" where
  "m68k_op_cas_16_pd s =
    (if CPU_TYPE_IS_EC020_PLUS (cpu_type s)
     then chain (OPER_I_16 s) (\<lambda>word2 s.
          chain (EA_AY_PD_16 s) (\<lambda>ea s.
          chain (m68ki_read_16 ea s) (\<lambda>dest s.
          let res = dest - MASK_OUT_ABOVE_16 (REG_D s (word2 AND 7));
              s = s\<lparr>n_flag := NFLAG_16 res,
                    not_z_flag := MASK_OUT_ABOVE_16 res,
                    v_flag := VFLAG_SUB_16 (REG_D s (word2 AND 7)) dest res,
                    c_flag := CFLAG_16 res\<rparr>
          in if COND_NE s
             then let s = set_REG_D (word2 AND 7) (MASK_OUT_BELOW_16 (REG_D s (word2 AND 7)) OR dest) s
                  in Ret () s
             else let s = USE_CYCLES 3 s
                  in m68ki_write_16 ea (MASK_OUT_ABOVE_16 (REG_D s (drop_bit 6 word2 AND 7))) s)))
     else m68ki_exception_illegal s)"

definition m68k_op_cas_16_di :: "'b op" where
  "m68k_op_cas_16_di s =
    (if CPU_TYPE_IS_EC020_PLUS (cpu_type s)
     then chain (OPER_I_16 s) (\<lambda>word2 s.
          chain (EA_AY_DI_16 s) (\<lambda>ea s.
          chain (m68ki_read_16 ea s) (\<lambda>dest s.
          let res = dest - MASK_OUT_ABOVE_16 (REG_D s (word2 AND 7));
              s = s\<lparr>n_flag := NFLAG_16 res,
                    not_z_flag := MASK_OUT_ABOVE_16 res,
                    v_flag := VFLAG_SUB_16 (REG_D s (word2 AND 7)) dest res,
                    c_flag := CFLAG_16 res\<rparr>
          in if COND_NE s
             then let s = set_REG_D (word2 AND 7) (MASK_OUT_BELOW_16 (REG_D s (word2 AND 7)) OR dest) s
                  in Ret () s
             else let s = USE_CYCLES 3 s
                  in m68ki_write_16 ea (MASK_OUT_ABOVE_16 (REG_D s (drop_bit 6 word2 AND 7))) s)))
     else m68ki_exception_illegal s)"

definition m68k_op_cas_16_ix :: "'b op" where
  "m68k_op_cas_16_ix s =
    (if CPU_TYPE_IS_EC020_PLUS (cpu_type s)
     then chain (OPER_I_16 s) (\<lambda>word2 s.
          chain (EA_AY_IX_16 s) (\<lambda>ea s.
          chain (m68ki_read_16 ea s) (\<lambda>dest s.
          let res = dest - MASK_OUT_ABOVE_16 (REG_D s (word2 AND 7));
              s = s\<lparr>n_flag := NFLAG_16 res,
                    not_z_flag := MASK_OUT_ABOVE_16 res,
                    v_flag := VFLAG_SUB_16 (REG_D s (word2 AND 7)) dest res,
                    c_flag := CFLAG_16 res\<rparr>
          in if COND_NE s
             then let s = set_REG_D (word2 AND 7) (MASK_OUT_BELOW_16 (REG_D s (word2 AND 7)) OR dest) s
                  in Ret () s
             else let s = USE_CYCLES 3 s
                  in m68ki_write_16 ea (MASK_OUT_ABOVE_16 (REG_D s (drop_bit 6 word2 AND 7))) s)))
     else m68ki_exception_illegal s)"

definition m68k_op_cas_16_aw :: "'b op" where
  "m68k_op_cas_16_aw s =
    (if CPU_TYPE_IS_EC020_PLUS (cpu_type s)
     then chain (OPER_I_16 s) (\<lambda>word2 s.
          chain (EA_AW_16 s) (\<lambda>ea s.
          chain (m68ki_read_16 ea s) (\<lambda>dest s.
          let res = dest - MASK_OUT_ABOVE_16 (REG_D s (word2 AND 7));
              s = s\<lparr>n_flag := NFLAG_16 res,
                    not_z_flag := MASK_OUT_ABOVE_16 res,
                    v_flag := VFLAG_SUB_16 (REG_D s (word2 AND 7)) dest res,
                    c_flag := CFLAG_16 res\<rparr>
          in if COND_NE s
             then let s = set_REG_D (word2 AND 7) (MASK_OUT_BELOW_16 (REG_D s (word2 AND 7)) OR dest) s
                  in Ret () s
             else let s = USE_CYCLES 3 s
                  in m68ki_write_16 ea (MASK_OUT_ABOVE_16 (REG_D s (drop_bit 6 word2 AND 7))) s)))
     else m68ki_exception_illegal s)"

definition m68k_op_cas_16_al :: "'b op" where
  "m68k_op_cas_16_al s =
    (if CPU_TYPE_IS_EC020_PLUS (cpu_type s)
     then chain (OPER_I_16 s) (\<lambda>word2 s.
          chain (EA_AL_16 s) (\<lambda>ea s.
          chain (m68ki_read_16 ea s) (\<lambda>dest s.
          let res = dest - MASK_OUT_ABOVE_16 (REG_D s (word2 AND 7));
              s = s\<lparr>n_flag := NFLAG_16 res,
                    not_z_flag := MASK_OUT_ABOVE_16 res,
                    v_flag := VFLAG_SUB_16 (REG_D s (word2 AND 7)) dest res,
                    c_flag := CFLAG_16 res\<rparr>
          in if COND_NE s
             then let s = set_REG_D (word2 AND 7) (MASK_OUT_BELOW_16 (REG_D s (word2 AND 7)) OR dest) s
                  in Ret () s
             else let s = USE_CYCLES 3 s
                  in m68ki_write_16 ea (MASK_OUT_ABOVE_16 (REG_D s (drop_bit 6 word2 AND 7))) s)))
     else m68ki_exception_illegal s)"

definition m68k_op_cas_32_ai :: "'b op" where
  "m68k_op_cas_32_ai s =
    (if CPU_TYPE_IS_EC020_PLUS (cpu_type s)
     then chain (OPER_I_16 s) (\<lambda>word2 s.
          chain (EA_AY_AI_32 s) (\<lambda>ea s.
          chain (m68ki_read_32 ea s) (\<lambda>dest s.
          let res = dest - REG_D s (word2 AND 7);
              s = s\<lparr>n_flag := NFLAG_32 res,
                    not_z_flag := MASK_OUT_ABOVE_32 res,
                    v_flag := VFLAG_SUB_32 (REG_D s (word2 AND 7)) dest res,
                    c_flag := CFLAG_SUB_32 (REG_D s (word2 AND 7)) dest res\<rparr>
          in if COND_NE s
             then let s = set_REG_D (word2 AND 7) dest s
                  in Ret () s
             else let s = USE_CYCLES 3 s
                  in m68ki_write_32 ea (REG_D s (drop_bit 6 word2 AND 7)) s)))
     else m68ki_exception_illegal s)"

definition m68k_op_cas_32_pi :: "'b op" where
  "m68k_op_cas_32_pi s =
    (if CPU_TYPE_IS_EC020_PLUS (cpu_type s)
     then chain (OPER_I_16 s) (\<lambda>word2 s.
          chain (EA_AY_PI_32 s) (\<lambda>ea s.
          chain (m68ki_read_32 ea s) (\<lambda>dest s.
          let res = dest - REG_D s (word2 AND 7);
              s = s\<lparr>n_flag := NFLAG_32 res,
                    not_z_flag := MASK_OUT_ABOVE_32 res,
                    v_flag := VFLAG_SUB_32 (REG_D s (word2 AND 7)) dest res,
                    c_flag := CFLAG_SUB_32 (REG_D s (word2 AND 7)) dest res\<rparr>
          in if COND_NE s
             then let s = set_REG_D (word2 AND 7) dest s
                  in Ret () s
             else let s = USE_CYCLES 3 s
                  in m68ki_write_32 ea (REG_D s (drop_bit 6 word2 AND 7)) s)))
     else m68ki_exception_illegal s)"

definition m68k_op_cas_32_pd :: "'b op" where
  "m68k_op_cas_32_pd s =
    (if CPU_TYPE_IS_EC020_PLUS (cpu_type s)
     then chain (OPER_I_16 s) (\<lambda>word2 s.
          chain (EA_AY_PD_32 s) (\<lambda>ea s.
          chain (m68ki_read_32 ea s) (\<lambda>dest s.
          let res = dest - REG_D s (word2 AND 7);
              s = s\<lparr>n_flag := NFLAG_32 res,
                    not_z_flag := MASK_OUT_ABOVE_32 res,
                    v_flag := VFLAG_SUB_32 (REG_D s (word2 AND 7)) dest res,
                    c_flag := CFLAG_SUB_32 (REG_D s (word2 AND 7)) dest res\<rparr>
          in if COND_NE s
             then let s = set_REG_D (word2 AND 7) dest s
                  in Ret () s
             else let s = USE_CYCLES 3 s
                  in m68ki_write_32 ea (REG_D s (drop_bit 6 word2 AND 7)) s)))
     else m68ki_exception_illegal s)"

definition m68k_op_cas_32_di :: "'b op" where
  "m68k_op_cas_32_di s =
    (if CPU_TYPE_IS_EC020_PLUS (cpu_type s)
     then chain (OPER_I_16 s) (\<lambda>word2 s.
          chain (EA_AY_DI_32 s) (\<lambda>ea s.
          chain (m68ki_read_32 ea s) (\<lambda>dest s.
          let res = dest - REG_D s (word2 AND 7);
              s = s\<lparr>n_flag := NFLAG_32 res,
                    not_z_flag := MASK_OUT_ABOVE_32 res,
                    v_flag := VFLAG_SUB_32 (REG_D s (word2 AND 7)) dest res,
                    c_flag := CFLAG_SUB_32 (REG_D s (word2 AND 7)) dest res\<rparr>
          in if COND_NE s
             then let s = set_REG_D (word2 AND 7) dest s
                  in Ret () s
             else let s = USE_CYCLES 3 s
                  in m68ki_write_32 ea (REG_D s (drop_bit 6 word2 AND 7)) s)))
     else m68ki_exception_illegal s)"

definition m68k_op_cas_32_ix :: "'b op" where
  "m68k_op_cas_32_ix s =
    (if CPU_TYPE_IS_EC020_PLUS (cpu_type s)
     then chain (OPER_I_16 s) (\<lambda>word2 s.
          chain (EA_AY_IX_32 s) (\<lambda>ea s.
          chain (m68ki_read_32 ea s) (\<lambda>dest s.
          let res = dest - REG_D s (word2 AND 7);
              s = s\<lparr>n_flag := NFLAG_32 res,
                    not_z_flag := MASK_OUT_ABOVE_32 res,
                    v_flag := VFLAG_SUB_32 (REG_D s (word2 AND 7)) dest res,
                    c_flag := CFLAG_SUB_32 (REG_D s (word2 AND 7)) dest res\<rparr>
          in if COND_NE s
             then let s = set_REG_D (word2 AND 7) dest s
                  in Ret () s
             else let s = USE_CYCLES 3 s
                  in m68ki_write_32 ea (REG_D s (drop_bit 6 word2 AND 7)) s)))
     else m68ki_exception_illegal s)"

definition m68k_op_cas_32_aw :: "'b op" where
  "m68k_op_cas_32_aw s =
    (if CPU_TYPE_IS_EC020_PLUS (cpu_type s)
     then chain (OPER_I_16 s) (\<lambda>word2 s.
          chain (EA_AW_32 s) (\<lambda>ea s.
          chain (m68ki_read_32 ea s) (\<lambda>dest s.
          let res = dest - REG_D s (word2 AND 7);
              s = s\<lparr>n_flag := NFLAG_32 res,
                    not_z_flag := MASK_OUT_ABOVE_32 res,
                    v_flag := VFLAG_SUB_32 (REG_D s (word2 AND 7)) dest res,
                    c_flag := CFLAG_SUB_32 (REG_D s (word2 AND 7)) dest res\<rparr>
          in if COND_NE s
             then let s = set_REG_D (word2 AND 7) dest s
                  in Ret () s
             else let s = USE_CYCLES 3 s
                  in m68ki_write_32 ea (REG_D s (drop_bit 6 word2 AND 7)) s)))
     else m68ki_exception_illegal s)"

definition m68k_op_cas_32_al :: "'b op" where
  "m68k_op_cas_32_al s =
    (if CPU_TYPE_IS_EC020_PLUS (cpu_type s)
     then chain (OPER_I_16 s) (\<lambda>word2 s.
          chain (EA_AL_32 s) (\<lambda>ea s.
          chain (m68ki_read_32 ea s) (\<lambda>dest s.
          let res = dest - REG_D s (word2 AND 7);
              s = s\<lparr>n_flag := NFLAG_32 res,
                    not_z_flag := MASK_OUT_ABOVE_32 res,
                    v_flag := VFLAG_SUB_32 (REG_D s (word2 AND 7)) dest res,
                    c_flag := CFLAG_SUB_32 (REG_D s (word2 AND 7)) dest res\<rparr>
          in if COND_NE s
             then let s = set_REG_D (word2 AND 7) dest s
                  in Ret () s
             else let s = USE_CYCLES 3 s
                  in m68ki_write_32 ea (REG_D s (drop_bit 6 word2 AND 7)) s)))
     else m68ki_exception_illegal s)"

definition m68k_op_cas2_16 :: "'b op" where
  "m68k_op_cas2_16 s =
    (if CPU_TYPE_IS_EC020_PLUS (cpu_type s)
     then chain (OPER_I_32 s) (\<lambda>word2 s.
          let ea1 = REG_DA s (drop_bit 28 word2 AND 15)
          in chain (m68ki_read_16 ea1 s) (\<lambda>dest1 s.
             let res1 = dest1 - MASK_OUT_ABOVE_16 (REG_D s (drop_bit 16 word2 AND 7));
                 ea2 = REG_DA s (drop_bit 12 word2 AND 15)
             in chain (m68ki_read_16 ea2 s) (\<lambda>dest2 s.
                let s = s\<lparr>n_flag := NFLAG_16 res1,
                          not_z_flag := MASK_OUT_ABOVE_16 res1,
                          v_flag := VFLAG_SUB_16 (REG_D s (drop_bit 16 word2 AND 7)) dest1 res1,
                          c_flag := CFLAG_16 res1\<rparr>
                in if COND_EQ s
                   then let res2 = dest2 - MASK_OUT_ABOVE_16 (REG_D s (word2 AND 7));
                            s = s\<lparr>n_flag := NFLAG_16 res2,
                                  not_z_flag := MASK_OUT_ABOVE_16 res2,
                                  v_flag := VFLAG_SUB_16 (REG_D s (word2 AND 7)) dest2 res2,
                                  c_flag := CFLAG_16 res2\<rparr>
                        in if COND_EQ s
                           then let s = USE_CYCLES 3 s
                                in chain (m68ki_write_16 ea1 (REG_D s (drop_bit 22 word2 AND 7)) s)
                                      (\<lambda>_ s.
                                   m68ki_write_16 ea2 (REG_D s (drop_bit 6 word2 AND 7)) s)
                           else let s = set_REG_D (drop_bit 16 word2 AND 7) (if BIT 31 word2
                                 \<noteq> 0 then MAKE_INT_16 dest1 else MASK_OUT_BELOW_16 (REG_D s
                                 (drop_bit 16 word2 AND 7)) OR dest1) s
                                in Ret () (set_REG_D (word2 AND 7) (if BIT 15 word2 \<noteq> 0 then
                                      MAKE_INT_16 dest2 else MASK_OUT_BELOW_16 (REG_D s (word2 AND
                                      7)) OR dest2) s)
                   else let s = set_REG_D (drop_bit 16 word2 AND 7) (if BIT 31 word2 \<noteq> 0
                         then MAKE_INT_16 dest1 else MASK_OUT_BELOW_16 (REG_D s (drop_bit 16 word2
                         AND 7)) OR dest1) s
                        in Ret () (set_REG_D (word2 AND 7) (if BIT 15 word2 \<noteq> 0 then
                              MAKE_INT_16 dest2 else MASK_OUT_BELOW_16 (REG_D s (word2 AND 7)) OR
                              dest2) s))))
     else m68ki_exception_illegal s)"

definition m68k_op_cas2_32 :: "'b op" where
  "m68k_op_cas2_32 s =
    (if CPU_TYPE_IS_EC020_PLUS (cpu_type s)
     then chain (OPER_I_32 s) (\<lambda>word2 s.
          let ea1 = REG_DA s (drop_bit 28 word2 AND 15)
          in chain (m68ki_read_32 ea1 s) (\<lambda>dest1 s.
             let res1 = dest1 - REG_D s (drop_bit 16 word2 AND 7);
                 ea2 = REG_DA s (drop_bit 12 word2 AND 15)
             in chain (m68ki_read_32 ea2 s) (\<lambda>dest2 s.
                let s = s\<lparr>n_flag := NFLAG_32 res1,
                          not_z_flag := MASK_OUT_ABOVE_32 res1,
                          v_flag := VFLAG_SUB_32 (REG_D s (drop_bit 16 word2 AND 7)) dest1 res1,
                          c_flag := CFLAG_SUB_32 (REG_D s (drop_bit 16 word2 AND 7)) dest1 res1\<rparr>
                in if COND_EQ s
                   then let res2 = dest2 - REG_D s (word2 AND 7);
                            s = s\<lparr>n_flag := NFLAG_32 res2,
                                  not_z_flag := MASK_OUT_ABOVE_32 res2,
                                  v_flag := VFLAG_SUB_32 (REG_D s (word2 AND 7)) dest2 res2,
                                  c_flag := CFLAG_SUB_32 (REG_D s (word2 AND 7)) dest2 res2\<rparr>
                        in if COND_EQ s
                           then let s = USE_CYCLES 3 s
                                in chain (m68ki_write_32 ea1 (REG_D s (drop_bit 22 word2 AND 7)) s)
                                      (\<lambda>_ s.
                                   m68ki_write_32 ea2 (REG_D s (drop_bit 6 word2 AND 7)) s)
                           else let s = set_REG_D (drop_bit 16 word2 AND 7) dest1 s
                                in Ret () (set_REG_D (word2 AND 7) dest2 s)
                   else let s = set_REG_D (drop_bit 16 word2 AND 7) dest1 s
                        in Ret () (set_REG_D (word2 AND 7) dest2 s))))
     else m68ki_exception_illegal s)"

definition m68k_op_rtm_32 :: "'b op" where
  "m68k_op_rtm_32 s =
    (if CPU_TYPE_IS_020_VARIANT (cpu_type s)
     then Ret () s
     else m68ki_exception_illegal s)"

end
