(* ===== verification/OpsLogic.thy ===== *)
theory OpsLogic
  imports OpsBase
begin

section \<open>Instruction handlers: AND, OR, EOR and NOT with their immediate forms\<close>

text \<open>
  The handlers of m68kops.c for AND, OR, EOR and NOT with their immediate forms.
  One definition per handler, under the name of its C function; the effective address is part of
  the name.
\<close>

unbundle bit_operations_syntax

definition m68k_op_and_8_er_d :: "'b op" where
  "m68k_op_and_8_er_d s =
    (let s = set_DX ((DX s) AND (DY s OR 0xffffff00)) s;
         s = s\<lparr>not_z_flag := MASK_OUT_ABOVE_8 (DX s)\<rparr>
     in Ret () (s\<lparr>n_flag := NFLAG_8 (not_z_flag s),
          c_flag := CFLAG_CLEAR,
          v_flag := VFLAG_CLEAR\<rparr>))"

definition m68k_op_and_8_er_ai :: "'b op" where
  "m68k_op_and_8_er_ai s =
    (chain (OPER_AY_AI_8 s) (\<lambda>v s.
     let s = set_DX ((DX s) AND (v OR 0xffffff00)) s;
         s = s\<lparr>not_z_flag := MASK_OUT_ABOVE_8 (DX s)\<rparr>
     in Ret () (s\<lparr>n_flag := NFLAG_8 (not_z_flag s),
          c_flag := CFLAG_CLEAR,
          v_flag := VFLAG_CLEAR\<rparr>)))"

definition m68k_op_and_8_er_pi :: "'b op" where
  "m68k_op_and_8_er_pi s =
    (chain (OPER_AY_PI_8 s) (\<lambda>v s.
     let s = set_DX ((DX s) AND (v OR 0xffffff00)) s;
         s = s\<lparr>not_z_flag := MASK_OUT_ABOVE_8 (DX s)\<rparr>
     in Ret () (s\<lparr>n_flag := NFLAG_8 (not_z_flag s),
          c_flag := CFLAG_CLEAR,
          v_flag := VFLAG_CLEAR\<rparr>)))"

definition m68k_op_and_8_er_pi7 :: "'b op" where
  "m68k_op_and_8_er_pi7 s =
    (chain (OPER_A7_PI_8 s) (\<lambda>v s.
     let s = set_DX ((DX s) AND (v OR 0xffffff00)) s;
         s = s\<lparr>not_z_flag := MASK_OUT_ABOVE_8 (DX s)\<rparr>
     in Ret () (s\<lparr>n_flag := NFLAG_8 (not_z_flag s),
          c_flag := CFLAG_CLEAR,
          v_flag := VFLAG_CLEAR\<rparr>)))"

definition m68k_op_and_8_er_pd :: "'b op" where
  "m68k_op_and_8_er_pd s =
    (chain (OPER_AY_PD_8 s) (\<lambda>v s.
     let s = set_DX ((DX s) AND (v OR 0xffffff00)) s;
         s = s\<lparr>not_z_flag := MASK_OUT_ABOVE_8 (DX s)\<rparr>
     in Ret () (s\<lparr>n_flag := NFLAG_8 (not_z_flag s),
          c_flag := CFLAG_CLEAR,
          v_flag := VFLAG_CLEAR\<rparr>)))"

definition m68k_op_and_8_er_pd7 :: "'b op" where
  "m68k_op_and_8_er_pd7 s =
    (chain (OPER_A7_PD_8 s) (\<lambda>v s.
     let s = set_DX ((DX s) AND (v OR 0xffffff00)) s;
         s = s\<lparr>not_z_flag := MASK_OUT_ABOVE_8 (DX s)\<rparr>
     in Ret () (s\<lparr>n_flag := NFLAG_8 (not_z_flag s),
          c_flag := CFLAG_CLEAR,
          v_flag := VFLAG_CLEAR\<rparr>)))"

definition m68k_op_and_8_er_di :: "'b op" where
  "m68k_op_and_8_er_di s =
    (chain (OPER_AY_DI_8 s) (\<lambda>v s.
     let s = set_DX ((DX s) AND (v OR 0xffffff00)) s;
         s = s\<lparr>not_z_flag := MASK_OUT_ABOVE_8 (DX s)\<rparr>
     in Ret () (s\<lparr>n_flag := NFLAG_8 (not_z_flag s),
          c_flag := CFLAG_CLEAR,
          v_flag := VFLAG_CLEAR\<rparr>)))"

definition m68k_op_and_8_er_ix :: "'b op" where
  "m68k_op_and_8_er_ix s =
    (chain (OPER_AY_IX_8 s) (\<lambda>v s.
     let s = set_DX ((DX s) AND (v OR 0xffffff00)) s;
         s = s\<lparr>not_z_flag := MASK_OUT_ABOVE_8 (DX s)\<rparr>
     in Ret () (s\<lparr>n_flag := NFLAG_8 (not_z_flag s),
          c_flag := CFLAG_CLEAR,
          v_flag := VFLAG_CLEAR\<rparr>)))"

definition m68k_op_and_8_er_aw :: "'b op" where
  "m68k_op_and_8_er_aw s =
    (chain (OPER_AW_8 s) (\<lambda>v s.
     let s = set_DX ((DX s) AND (v OR 0xffffff00)) s;
         s = s\<lparr>not_z_flag := MASK_OUT_ABOVE_8 (DX s)\<rparr>
     in Ret () (s\<lparr>n_flag := NFLAG_8 (not_z_flag s),
          c_flag := CFLAG_CLEAR,
          v_flag := VFLAG_CLEAR\<rparr>)))"

definition m68k_op_and_8_er_al :: "'b op" where
  "m68k_op_and_8_er_al s =
    (chain (OPER_AL_8 s) (\<lambda>v s.
     let s = set_DX ((DX s) AND (v OR 0xffffff00)) s;
         s = s\<lparr>not_z_flag := MASK_OUT_ABOVE_8 (DX s)\<rparr>
     in Ret () (s\<lparr>n_flag := NFLAG_8 (not_z_flag s),
          c_flag := CFLAG_CLEAR,
          v_flag := VFLAG_CLEAR\<rparr>)))"

definition m68k_op_and_8_er_pcdi :: "'b op" where
  "m68k_op_and_8_er_pcdi s =
    (chain (OPER_PCDI_8 s) (\<lambda>v s.
     let s = set_DX ((DX s) AND (v OR 0xffffff00)) s;
         s = s\<lparr>not_z_flag := MASK_OUT_ABOVE_8 (DX s)\<rparr>
     in Ret () (s\<lparr>n_flag := NFLAG_8 (not_z_flag s),
          c_flag := CFLAG_CLEAR,
          v_flag := VFLAG_CLEAR\<rparr>)))"

definition m68k_op_and_8_er_pcix :: "'b op" where
  "m68k_op_and_8_er_pcix s =
    (chain (OPER_PCIX_8 s) (\<lambda>v s.
     let s = set_DX ((DX s) AND (v OR 0xffffff00)) s;
         s = s\<lparr>not_z_flag := MASK_OUT_ABOVE_8 (DX s)\<rparr>
     in Ret () (s\<lparr>n_flag := NFLAG_8 (not_z_flag s),
          c_flag := CFLAG_CLEAR,
          v_flag := VFLAG_CLEAR\<rparr>)))"

definition m68k_op_and_8_er_i :: "'b op" where
  "m68k_op_and_8_er_i s =
    (chain (OPER_I_8 s) (\<lambda>v s.
     let s = set_DX ((DX s) AND (v OR 0xffffff00)) s;
         s = s\<lparr>not_z_flag := MASK_OUT_ABOVE_8 (DX s)\<rparr>
     in Ret () (s\<lparr>n_flag := NFLAG_8 (not_z_flag s),
          c_flag := CFLAG_CLEAR,
          v_flag := VFLAG_CLEAR\<rparr>)))"

definition m68k_op_and_16_er_d :: "'b op" where
  "m68k_op_and_16_er_d s =
    (let s = set_DX ((DX s) AND (DY s OR 0xffff0000)) s;
         s = s\<lparr>not_z_flag := MASK_OUT_ABOVE_16 (DX s)\<rparr>
     in Ret () (s\<lparr>n_flag := NFLAG_16 (not_z_flag s),
          c_flag := CFLAG_CLEAR,
          v_flag := VFLAG_CLEAR\<rparr>))"

definition m68k_op_and_16_er_ai :: "'b op" where
  "m68k_op_and_16_er_ai s =
    (chain (OPER_AY_AI_16 s) (\<lambda>v s.
     let s = set_DX ((DX s) AND (v OR 0xffff0000)) s;
         s = s\<lparr>not_z_flag := MASK_OUT_ABOVE_16 (DX s)\<rparr>
     in Ret () (s\<lparr>n_flag := NFLAG_16 (not_z_flag s),
          c_flag := CFLAG_CLEAR,
          v_flag := VFLAG_CLEAR\<rparr>)))"

definition m68k_op_and_16_er_pi :: "'b op" where
  "m68k_op_and_16_er_pi s =
    (chain (OPER_AY_PI_16 s) (\<lambda>v s.
     let s = set_DX ((DX s) AND (v OR 0xffff0000)) s;
         s = s\<lparr>not_z_flag := MASK_OUT_ABOVE_16 (DX s)\<rparr>
     in Ret () (s\<lparr>n_flag := NFLAG_16 (not_z_flag s),
          c_flag := CFLAG_CLEAR,
          v_flag := VFLAG_CLEAR\<rparr>)))"

definition m68k_op_and_16_er_pd :: "'b op" where
  "m68k_op_and_16_er_pd s =
    (chain (OPER_AY_PD_16 s) (\<lambda>v s.
     let s = set_DX ((DX s) AND (v OR 0xffff0000)) s;
         s = s\<lparr>not_z_flag := MASK_OUT_ABOVE_16 (DX s)\<rparr>
     in Ret () (s\<lparr>n_flag := NFLAG_16 (not_z_flag s),
          c_flag := CFLAG_CLEAR,
          v_flag := VFLAG_CLEAR\<rparr>)))"

definition m68k_op_and_16_er_di :: "'b op" where
  "m68k_op_and_16_er_di s =
    (chain (OPER_AY_DI_16 s) (\<lambda>v s.
     let s = set_DX ((DX s) AND (v OR 0xffff0000)) s;
         s = s\<lparr>not_z_flag := MASK_OUT_ABOVE_16 (DX s)\<rparr>
     in Ret () (s\<lparr>n_flag := NFLAG_16 (not_z_flag s),
          c_flag := CFLAG_CLEAR,
          v_flag := VFLAG_CLEAR\<rparr>)))"

definition m68k_op_and_16_er_ix :: "'b op" where
  "m68k_op_and_16_er_ix s =
    (chain (OPER_AY_IX_16 s) (\<lambda>v s.
     let s = set_DX ((DX s) AND (v OR 0xffff0000)) s;
         s = s\<lparr>not_z_flag := MASK_OUT_ABOVE_16 (DX s)\<rparr>
     in Ret () (s\<lparr>n_flag := NFLAG_16 (not_z_flag s),
          c_flag := CFLAG_CLEAR,
          v_flag := VFLAG_CLEAR\<rparr>)))"

definition m68k_op_and_16_er_aw :: "'b op" where
  "m68k_op_and_16_er_aw s =
    (chain (OPER_AW_16 s) (\<lambda>v s.
     let s = set_DX ((DX s) AND (v OR 0xffff0000)) s;
         s = s\<lparr>not_z_flag := MASK_OUT_ABOVE_16 (DX s)\<rparr>
     in Ret () (s\<lparr>n_flag := NFLAG_16 (not_z_flag s),
          c_flag := CFLAG_CLEAR,
          v_flag := VFLAG_CLEAR\<rparr>)))"

definition m68k_op_and_16_er_al :: "'b op" where
  "m68k_op_and_16_er_al s =
    (chain (OPER_AL_16 s) (\<lambda>v s.
     let s = set_DX ((DX s) AND (v OR 0xffff0000)) s;
         s = s\<lparr>not_z_flag := MASK_OUT_ABOVE_16 (DX s)\<rparr>
     in Ret () (s\<lparr>n_flag := NFLAG_16 (not_z_flag s),
          c_flag := CFLAG_CLEAR,
          v_flag := VFLAG_CLEAR\<rparr>)))"

definition m68k_op_and_16_er_pcdi :: "'b op" where
  "m68k_op_and_16_er_pcdi s =
    (chain (OPER_PCDI_16 s) (\<lambda>v s.
     let s = set_DX ((DX s) AND (v OR 0xffff0000)) s;
         s = s\<lparr>not_z_flag := MASK_OUT_ABOVE_16 (DX s)\<rparr>
     in Ret () (s\<lparr>n_flag := NFLAG_16 (not_z_flag s),
          c_flag := CFLAG_CLEAR,
          v_flag := VFLAG_CLEAR\<rparr>)))"

definition m68k_op_and_16_er_pcix :: "'b op" where
  "m68k_op_and_16_er_pcix s =
    (chain (OPER_PCIX_16 s) (\<lambda>v s.
     let s = set_DX ((DX s) AND (v OR 0xffff0000)) s;
         s = s\<lparr>not_z_flag := MASK_OUT_ABOVE_16 (DX s)\<rparr>
     in Ret () (s\<lparr>n_flag := NFLAG_16 (not_z_flag s),
          c_flag := CFLAG_CLEAR,
          v_flag := VFLAG_CLEAR\<rparr>)))"

definition m68k_op_and_16_er_i :: "'b op" where
  "m68k_op_and_16_er_i s =
    (chain (OPER_I_16 s) (\<lambda>v s.
     let s = set_DX ((DX s) AND (v OR 0xffff0000)) s;
         s = s\<lparr>not_z_flag := MASK_OUT_ABOVE_16 (DX s)\<rparr>
     in Ret () (s\<lparr>n_flag := NFLAG_16 (not_z_flag s),
          c_flag := CFLAG_CLEAR,
          v_flag := VFLAG_CLEAR\<rparr>)))"

definition m68k_op_and_32_er_d :: "'b op" where
  "m68k_op_and_32_er_d s =
    (let s = set_DX ((DX s) AND (DY s)) s;
         s = s\<lparr>not_z_flag := DX s\<rparr>
     in Ret () (s\<lparr>n_flag := NFLAG_32 (not_z_flag s),
          c_flag := CFLAG_CLEAR,
          v_flag := VFLAG_CLEAR\<rparr>))"

definition m68k_op_and_32_er_ai :: "'b op" where
  "m68k_op_and_32_er_ai s =
    (chain (OPER_AY_AI_32 s) (\<lambda>v s.
     let s = set_DX ((DX s) AND v) s;
         s = s\<lparr>not_z_flag := DX s\<rparr>
     in Ret () (s\<lparr>n_flag := NFLAG_32 (not_z_flag s),
          c_flag := CFLAG_CLEAR,
          v_flag := VFLAG_CLEAR\<rparr>)))"

definition m68k_op_and_32_er_pi :: "'b op" where
  "m68k_op_and_32_er_pi s =
    (chain (OPER_AY_PI_32 s) (\<lambda>v s.
     let s = set_DX ((DX s) AND v) s;
         s = s\<lparr>not_z_flag := DX s\<rparr>
     in Ret () (s\<lparr>n_flag := NFLAG_32 (not_z_flag s),
          c_flag := CFLAG_CLEAR,
          v_flag := VFLAG_CLEAR\<rparr>)))"

definition m68k_op_and_32_er_pd :: "'b op" where
  "m68k_op_and_32_er_pd s =
    (chain (OPER_AY_PD_32 s) (\<lambda>v s.
     let s = set_DX ((DX s) AND v) s;
         s = s\<lparr>not_z_flag := DX s\<rparr>
     in Ret () (s\<lparr>n_flag := NFLAG_32 (not_z_flag s),
          c_flag := CFLAG_CLEAR,
          v_flag := VFLAG_CLEAR\<rparr>)))"

definition m68k_op_and_32_er_di :: "'b op" where
  "m68k_op_and_32_er_di s =
    (chain (OPER_AY_DI_32 s) (\<lambda>v s.
     let s = set_DX ((DX s) AND v) s;
         s = s\<lparr>not_z_flag := DX s\<rparr>
     in Ret () (s\<lparr>n_flag := NFLAG_32 (not_z_flag s),
          c_flag := CFLAG_CLEAR,
          v_flag := VFLAG_CLEAR\<rparr>)))"

definition m68k_op_and_32_er_ix :: "'b op" where
  "m68k_op_and_32_er_ix s =
    (chain (OPER_AY_IX_32 s) (\<lambda>v s.
     let s = set_DX ((DX s) AND v) s;
         s = s\<lparr>not_z_flag := DX s\<rparr>
     in Ret () (s\<lparr>n_flag := NFLAG_32 (not_z_flag s),
          c_flag := CFLAG_CLEAR,
          v_flag := VFLAG_CLEAR\<rparr>)))"

definition m68k_op_and_32_er_aw :: "'b op" where
  "m68k_op_and_32_er_aw s =
    (chain (OPER_AW_32 s) (\<lambda>v s.
     let s = set_DX ((DX s) AND v) s;
         s = s\<lparr>not_z_flag := DX s\<rparr>
     in Ret () (s\<lparr>n_flag := NFLAG_32 (not_z_flag s),
          c_flag := CFLAG_CLEAR,
          v_flag := VFLAG_CLEAR\<rparr>)))"

definition m68k_op_and_32_er_al :: "'b op" where
  "m68k_op_and_32_er_al s =
    (chain (OPER_AL_32 s) (\<lambda>v s.
     let s = set_DX ((DX s) AND v) s;
         s = s\<lparr>not_z_flag := DX s\<rparr>
     in Ret () (s\<lparr>n_flag := NFLAG_32 (not_z_flag s),
          c_flag := CFLAG_CLEAR,
          v_flag := VFLAG_CLEAR\<rparr>)))"

definition m68k_op_and_32_er_pcdi :: "'b op" where
  "m68k_op_and_32_er_pcdi s =
    (chain (OPER_PCDI_32 s) (\<lambda>v s.
     let s = set_DX ((DX s) AND v) s;
         s = s\<lparr>not_z_flag := DX s\<rparr>
     in Ret () (s\<lparr>n_flag := NFLAG_32 (not_z_flag s),
          c_flag := CFLAG_CLEAR,
          v_flag := VFLAG_CLEAR\<rparr>)))"

definition m68k_op_and_32_er_pcix :: "'b op" where
  "m68k_op_and_32_er_pcix s =
    (chain (OPER_PCIX_32 s) (\<lambda>v s.
     let s = set_DX ((DX s) AND v) s;
         s = s\<lparr>not_z_flag := DX s\<rparr>
     in Ret () (s\<lparr>n_flag := NFLAG_32 (not_z_flag s),
          c_flag := CFLAG_CLEAR,
          v_flag := VFLAG_CLEAR\<rparr>)))"

definition m68k_op_and_32_er_i :: "'b op" where
  "m68k_op_and_32_er_i s =
    (chain (OPER_I_32 s) (\<lambda>v s.
     let s = set_DX ((DX s) AND v) s;
         s = s\<lparr>not_z_flag := DX s\<rparr>
     in Ret () (s\<lparr>n_flag := NFLAG_32 (not_z_flag s),
          c_flag := CFLAG_CLEAR,
          v_flag := VFLAG_CLEAR\<rparr>)))"

definition m68k_op_and_8_re_ai :: "'b op" where
  "m68k_op_and_8_re_ai s =
    (chain (EA_AY_AI_8 s) (\<lambda>ea s.
     chain (m68ki_read_8 ea s) (\<lambda>v2 s.
     let res = DX s AND v2;
         s = s\<lparr>n_flag := NFLAG_8 res,
               c_flag := CFLAG_CLEAR,
               v_flag := VFLAG_CLEAR,
               not_z_flag := MASK_OUT_ABOVE_8 res\<rparr>
     in m68ki_write_8 ea (not_z_flag s) s)))"

definition m68k_op_and_8_re_pi :: "'b op" where
  "m68k_op_and_8_re_pi s =
    (chain (EA_AY_PI_8 s) (\<lambda>ea s.
     chain (m68ki_read_8 ea s) (\<lambda>v2 s.
     let res = DX s AND v2;
         s = s\<lparr>n_flag := NFLAG_8 res,
               c_flag := CFLAG_CLEAR,
               v_flag := VFLAG_CLEAR,
               not_z_flag := MASK_OUT_ABOVE_8 res\<rparr>
     in m68ki_write_8 ea (not_z_flag s) s)))"

definition m68k_op_and_8_re_pi7 :: "'b op" where
  "m68k_op_and_8_re_pi7 s =
    (chain (EA_A7_PI_8 s) (\<lambda>ea s.
     chain (m68ki_read_8 ea s) (\<lambda>v2 s.
     let res = DX s AND v2;
         s = s\<lparr>n_flag := NFLAG_8 res,
               c_flag := CFLAG_CLEAR,
               v_flag := VFLAG_CLEAR,
               not_z_flag := MASK_OUT_ABOVE_8 res\<rparr>
     in m68ki_write_8 ea (not_z_flag s) s)))"

definition m68k_op_and_8_re_pd :: "'b op" where
  "m68k_op_and_8_re_pd s =
    (chain (EA_AY_PD_8 s) (\<lambda>ea s.
     chain (m68ki_read_8 ea s) (\<lambda>v2 s.
     let res = DX s AND v2;
         s = s\<lparr>n_flag := NFLAG_8 res,
               c_flag := CFLAG_CLEAR,
               v_flag := VFLAG_CLEAR,
               not_z_flag := MASK_OUT_ABOVE_8 res\<rparr>
     in m68ki_write_8 ea (not_z_flag s) s)))"

definition m68k_op_and_8_re_pd7 :: "'b op" where
  "m68k_op_and_8_re_pd7 s =
    (chain (EA_A7_PD_8 s) (\<lambda>ea s.
     chain (m68ki_read_8 ea s) (\<lambda>v2 s.
     let res = DX s AND v2;
         s = s\<lparr>n_flag := NFLAG_8 res,
               c_flag := CFLAG_CLEAR,
               v_flag := VFLAG_CLEAR,
               not_z_flag := MASK_OUT_ABOVE_8 res\<rparr>
     in m68ki_write_8 ea (not_z_flag s) s)))"

definition m68k_op_and_8_re_di :: "'b op" where
  "m68k_op_and_8_re_di s =
    (chain (EA_AY_DI_8 s) (\<lambda>ea s.
     chain (m68ki_read_8 ea s) (\<lambda>v2 s.
     let res = DX s AND v2;
         s = s\<lparr>n_flag := NFLAG_8 res,
               c_flag := CFLAG_CLEAR,
               v_flag := VFLAG_CLEAR,
               not_z_flag := MASK_OUT_ABOVE_8 res\<rparr>
     in m68ki_write_8 ea (not_z_flag s) s)))"

definition m68k_op_and_8_re_ix :: "'b op" where
  "m68k_op_and_8_re_ix s =
    (chain (EA_AY_IX_8 s) (\<lambda>ea s.
     chain (m68ki_read_8 ea s) (\<lambda>v2 s.
     let res = DX s AND v2;
         s = s\<lparr>n_flag := NFLAG_8 res,
               c_flag := CFLAG_CLEAR,
               v_flag := VFLAG_CLEAR,
               not_z_flag := MASK_OUT_ABOVE_8 res\<rparr>
     in m68ki_write_8 ea (not_z_flag s) s)))"

definition m68k_op_and_8_re_aw :: "'b op" where
  "m68k_op_and_8_re_aw s =
    (chain (EA_AW_8 s) (\<lambda>ea s.
     chain (m68ki_read_8 ea s) (\<lambda>v2 s.
     let res = DX s AND v2;
         s = s\<lparr>n_flag := NFLAG_8 res,
               c_flag := CFLAG_CLEAR,
               v_flag := VFLAG_CLEAR,
               not_z_flag := MASK_OUT_ABOVE_8 res\<rparr>
     in m68ki_write_8 ea (not_z_flag s) s)))"

definition m68k_op_and_8_re_al :: "'b op" where
  "m68k_op_and_8_re_al s =
    (chain (EA_AL_8 s) (\<lambda>ea s.
     chain (m68ki_read_8 ea s) (\<lambda>v2 s.
     let res = DX s AND v2;
         s = s\<lparr>n_flag := NFLAG_8 res,
               c_flag := CFLAG_CLEAR,
               v_flag := VFLAG_CLEAR,
               not_z_flag := MASK_OUT_ABOVE_8 res\<rparr>
     in m68ki_write_8 ea (not_z_flag s) s)))"

definition m68k_op_and_16_re_ai :: "'b op" where
  "m68k_op_and_16_re_ai s =
    (chain (EA_AY_AI_16 s) (\<lambda>ea s.
     chain (m68ki_read_16 ea s) (\<lambda>v2 s.
     let res = DX s AND v2;
         s = s\<lparr>n_flag := NFLAG_16 res,
               c_flag := CFLAG_CLEAR,
               v_flag := VFLAG_CLEAR,
               not_z_flag := MASK_OUT_ABOVE_16 res\<rparr>
     in m68ki_write_16 ea (not_z_flag s) s)))"

definition m68k_op_and_16_re_pi :: "'b op" where
  "m68k_op_and_16_re_pi s =
    (chain (EA_AY_PI_16 s) (\<lambda>ea s.
     chain (m68ki_read_16 ea s) (\<lambda>v2 s.
     let res = DX s AND v2;
         s = s\<lparr>n_flag := NFLAG_16 res,
               c_flag := CFLAG_CLEAR,
               v_flag := VFLAG_CLEAR,
               not_z_flag := MASK_OUT_ABOVE_16 res\<rparr>
     in m68ki_write_16 ea (not_z_flag s) s)))"

definition m68k_op_and_16_re_pd :: "'b op" where
  "m68k_op_and_16_re_pd s =
    (chain (EA_AY_PD_16 s) (\<lambda>ea s.
     chain (m68ki_read_16 ea s) (\<lambda>v2 s.
     let res = DX s AND v2;
         s = s\<lparr>n_flag := NFLAG_16 res,
               c_flag := CFLAG_CLEAR,
               v_flag := VFLAG_CLEAR,
               not_z_flag := MASK_OUT_ABOVE_16 res\<rparr>
     in m68ki_write_16 ea (not_z_flag s) s)))"

definition m68k_op_and_16_re_di :: "'b op" where
  "m68k_op_and_16_re_di s =
    (chain (EA_AY_DI_16 s) (\<lambda>ea s.
     chain (m68ki_read_16 ea s) (\<lambda>v2 s.
     let res = DX s AND v2;
         s = s\<lparr>n_flag := NFLAG_16 res,
               c_flag := CFLAG_CLEAR,
               v_flag := VFLAG_CLEAR,
               not_z_flag := MASK_OUT_ABOVE_16 res\<rparr>
     in m68ki_write_16 ea (not_z_flag s) s)))"

definition m68k_op_and_16_re_ix :: "'b op" where
  "m68k_op_and_16_re_ix s =
    (chain (EA_AY_IX_16 s) (\<lambda>ea s.
     chain (m68ki_read_16 ea s) (\<lambda>v2 s.
     let res = DX s AND v2;
         s = s\<lparr>n_flag := NFLAG_16 res,
               c_flag := CFLAG_CLEAR,
               v_flag := VFLAG_CLEAR,
               not_z_flag := MASK_OUT_ABOVE_16 res\<rparr>
     in m68ki_write_16 ea (not_z_flag s) s)))"

definition m68k_op_and_16_re_aw :: "'b op" where
  "m68k_op_and_16_re_aw s =
    (chain (EA_AW_16 s) (\<lambda>ea s.
     chain (m68ki_read_16 ea s) (\<lambda>v2 s.
     let res = DX s AND v2;
         s = s\<lparr>n_flag := NFLAG_16 res,
               c_flag := CFLAG_CLEAR,
               v_flag := VFLAG_CLEAR,
               not_z_flag := MASK_OUT_ABOVE_16 res\<rparr>
     in m68ki_write_16 ea (not_z_flag s) s)))"

definition m68k_op_and_16_re_al :: "'b op" where
  "m68k_op_and_16_re_al s =
    (chain (EA_AL_16 s) (\<lambda>ea s.
     chain (m68ki_read_16 ea s) (\<lambda>v2 s.
     let res = DX s AND v2;
         s = s\<lparr>n_flag := NFLAG_16 res,
               c_flag := CFLAG_CLEAR,
               v_flag := VFLAG_CLEAR,
               not_z_flag := MASK_OUT_ABOVE_16 res\<rparr>
     in m68ki_write_16 ea (not_z_flag s) s)))"

definition m68k_op_and_32_re_ai :: "'b op" where
  "m68k_op_and_32_re_ai s =
    (chain (EA_AY_AI_32 s) (\<lambda>ea s.
     chain (m68ki_read_32 ea s) (\<lambda>v2 s.
     let res = DX s AND v2;
         s = s\<lparr>n_flag := NFLAG_32 res,
               not_z_flag := res,
               c_flag := CFLAG_CLEAR,
               v_flag := VFLAG_CLEAR\<rparr>
     in m68ki_write_32 ea res s)))"

definition m68k_op_and_32_re_pi :: "'b op" where
  "m68k_op_and_32_re_pi s =
    (chain (EA_AY_PI_32 s) (\<lambda>ea s.
     chain (m68ki_read_32 ea s) (\<lambda>v2 s.
     let res = DX s AND v2;
         s = s\<lparr>n_flag := NFLAG_32 res,
               not_z_flag := res,
               c_flag := CFLAG_CLEAR,
               v_flag := VFLAG_CLEAR\<rparr>
     in m68ki_write_32 ea res s)))"

definition m68k_op_and_32_re_pd :: "'b op" where
  "m68k_op_and_32_re_pd s =
    (chain (EA_AY_PD_32 s) (\<lambda>ea s.
     chain (m68ki_read_32 ea s) (\<lambda>v2 s.
     let res = DX s AND v2;
         s = s\<lparr>n_flag := NFLAG_32 res,
               not_z_flag := res,
               c_flag := CFLAG_CLEAR,
               v_flag := VFLAG_CLEAR\<rparr>
     in m68ki_write_32 ea res s)))"

definition m68k_op_and_32_re_di :: "'b op" where
  "m68k_op_and_32_re_di s =
    (chain (EA_AY_DI_32 s) (\<lambda>ea s.
     chain (m68ki_read_32 ea s) (\<lambda>v2 s.
     let res = DX s AND v2;
         s = s\<lparr>n_flag := NFLAG_32 res,
               not_z_flag := res,
               c_flag := CFLAG_CLEAR,
               v_flag := VFLAG_CLEAR\<rparr>
     in m68ki_write_32 ea res s)))"

definition m68k_op_and_32_re_ix :: "'b op" where
  "m68k_op_and_32_re_ix s =
    (chain (EA_AY_IX_32 s) (\<lambda>ea s.
     chain (m68ki_read_32 ea s) (\<lambda>v2 s.
     let res = DX s AND v2;
         s = s\<lparr>n_flag := NFLAG_32 res,
               not_z_flag := res,
               c_flag := CFLAG_CLEAR,
               v_flag := VFLAG_CLEAR\<rparr>
     in m68ki_write_32 ea res s)))"

definition m68k_op_and_32_re_aw :: "'b op" where
  "m68k_op_and_32_re_aw s =
    (chain (EA_AW_32 s) (\<lambda>ea s.
     chain (m68ki_read_32 ea s) (\<lambda>v2 s.
     let res = DX s AND v2;
         s = s\<lparr>n_flag := NFLAG_32 res,
               not_z_flag := res,
               c_flag := CFLAG_CLEAR,
               v_flag := VFLAG_CLEAR\<rparr>
     in m68ki_write_32 ea res s)))"

definition m68k_op_and_32_re_al :: "'b op" where
  "m68k_op_and_32_re_al s =
    (chain (EA_AL_32 s) (\<lambda>ea s.
     chain (m68ki_read_32 ea s) (\<lambda>v2 s.
     let res = DX s AND v2;
         s = s\<lparr>n_flag := NFLAG_32 res,
               not_z_flag := res,
               c_flag := CFLAG_CLEAR,
               v_flag := VFLAG_CLEAR\<rparr>
     in m68ki_write_32 ea res s)))"

definition m68k_op_andi_8_d :: "'b op" where
  "m68k_op_andi_8_d s =
    (chain (OPER_I_8 s) (\<lambda>v s.
     let s = set_DY ((DY s) AND (v OR 0xffffff00)) s;
         s = s\<lparr>not_z_flag := MASK_OUT_ABOVE_8 (DY s)\<rparr>
     in Ret () (s\<lparr>n_flag := NFLAG_8 (not_z_flag s),
          c_flag := CFLAG_CLEAR,
          v_flag := VFLAG_CLEAR\<rparr>)))"

definition m68k_op_andi_8_ai :: "'b op" where
  "m68k_op_andi_8_ai s =
    (chain (OPER_I_8 s) (\<lambda>src s.
     chain (EA_AY_AI_8 s) (\<lambda>ea s.
     chain (m68ki_read_8 ea s) (\<lambda>v3 s.
     let res = src AND v3;
         s = s\<lparr>n_flag := NFLAG_8 res,
               not_z_flag := res,
               c_flag := CFLAG_CLEAR,
               v_flag := VFLAG_CLEAR\<rparr>
     in m68ki_write_8 ea res s))))"

definition m68k_op_andi_8_pi :: "'b op" where
  "m68k_op_andi_8_pi s =
    (chain (OPER_I_8 s) (\<lambda>src s.
     chain (EA_AY_PI_8 s) (\<lambda>ea s.
     chain (m68ki_read_8 ea s) (\<lambda>v3 s.
     let res = src AND v3;
         s = s\<lparr>n_flag := NFLAG_8 res,
               not_z_flag := res,
               c_flag := CFLAG_CLEAR,
               v_flag := VFLAG_CLEAR\<rparr>
     in m68ki_write_8 ea res s))))"

definition m68k_op_andi_8_pi7 :: "'b op" where
  "m68k_op_andi_8_pi7 s =
    (chain (OPER_I_8 s) (\<lambda>src s.
     chain (EA_A7_PI_8 s) (\<lambda>ea s.
     chain (m68ki_read_8 ea s) (\<lambda>v3 s.
     let res = src AND v3;
         s = s\<lparr>n_flag := NFLAG_8 res,
               not_z_flag := res,
               c_flag := CFLAG_CLEAR,
               v_flag := VFLAG_CLEAR\<rparr>
     in m68ki_write_8 ea res s))))"

definition m68k_op_andi_8_pd :: "'b op" where
  "m68k_op_andi_8_pd s =
    (chain (OPER_I_8 s) (\<lambda>src s.
     chain (EA_AY_PD_8 s) (\<lambda>ea s.
     chain (m68ki_read_8 ea s) (\<lambda>v3 s.
     let res = src AND v3;
         s = s\<lparr>n_flag := NFLAG_8 res,
               not_z_flag := res,
               c_flag := CFLAG_CLEAR,
               v_flag := VFLAG_CLEAR\<rparr>
     in m68ki_write_8 ea res s))))"

definition m68k_op_andi_8_pd7 :: "'b op" where
  "m68k_op_andi_8_pd7 s =
    (chain (OPER_I_8 s) (\<lambda>src s.
     chain (EA_A7_PD_8 s) (\<lambda>ea s.
     chain (m68ki_read_8 ea s) (\<lambda>v3 s.
     let res = src AND v3;
         s = s\<lparr>n_flag := NFLAG_8 res,
               not_z_flag := res,
               c_flag := CFLAG_CLEAR,
               v_flag := VFLAG_CLEAR\<rparr>
     in m68ki_write_8 ea res s))))"

definition m68k_op_andi_8_di :: "'b op" where
  "m68k_op_andi_8_di s =
    (chain (OPER_I_8 s) (\<lambda>src s.
     chain (EA_AY_DI_8 s) (\<lambda>ea s.
     chain (m68ki_read_8 ea s) (\<lambda>v3 s.
     let res = src AND v3;
         s = s\<lparr>n_flag := NFLAG_8 res,
               not_z_flag := res,
               c_flag := CFLAG_CLEAR,
               v_flag := VFLAG_CLEAR\<rparr>
     in m68ki_write_8 ea res s))))"

definition m68k_op_andi_8_ix :: "'b op" where
  "m68k_op_andi_8_ix s =
    (chain (OPER_I_8 s) (\<lambda>src s.
     chain (EA_AY_IX_8 s) (\<lambda>ea s.
     chain (m68ki_read_8 ea s) (\<lambda>v3 s.
     let res = src AND v3;
         s = s\<lparr>n_flag := NFLAG_8 res,
               not_z_flag := res,
               c_flag := CFLAG_CLEAR,
               v_flag := VFLAG_CLEAR\<rparr>
     in m68ki_write_8 ea res s))))"

definition m68k_op_andi_8_aw :: "'b op" where
  "m68k_op_andi_8_aw s =
    (chain (OPER_I_8 s) (\<lambda>src s.
     chain (EA_AW_8 s) (\<lambda>ea s.
     chain (m68ki_read_8 ea s) (\<lambda>v3 s.
     let res = src AND v3;
         s = s\<lparr>n_flag := NFLAG_8 res,
               not_z_flag := res,
               c_flag := CFLAG_CLEAR,
               v_flag := VFLAG_CLEAR\<rparr>
     in m68ki_write_8 ea res s))))"

definition m68k_op_andi_8_al :: "'b op" where
  "m68k_op_andi_8_al s =
    (chain (OPER_I_8 s) (\<lambda>src s.
     chain (EA_AL_8 s) (\<lambda>ea s.
     chain (m68ki_read_8 ea s) (\<lambda>v3 s.
     let res = src AND v3;
         s = s\<lparr>n_flag := NFLAG_8 res,
               not_z_flag := res,
               c_flag := CFLAG_CLEAR,
               v_flag := VFLAG_CLEAR\<rparr>
     in m68ki_write_8 ea res s))))"

definition m68k_op_andi_16_d :: "'b op" where
  "m68k_op_andi_16_d s =
    (chain (OPER_I_16 s) (\<lambda>v s.
     let s = set_DY ((DY s) AND (v OR 0xffff0000)) s;
         s = s\<lparr>not_z_flag := MASK_OUT_ABOVE_16 (DY s)\<rparr>
     in Ret () (s\<lparr>n_flag := NFLAG_16 (not_z_flag s),
          c_flag := CFLAG_CLEAR,
          v_flag := VFLAG_CLEAR\<rparr>)))"

definition m68k_op_andi_16_ai :: "'b op" where
  "m68k_op_andi_16_ai s =
    (chain (OPER_I_16 s) (\<lambda>src s.
     chain (EA_AY_AI_16 s) (\<lambda>ea s.
     chain (m68ki_read_16 ea s) (\<lambda>v3 s.
     let res = src AND v3;
         s = s\<lparr>n_flag := NFLAG_16 res,
               not_z_flag := res,
               c_flag := CFLAG_CLEAR,
               v_flag := VFLAG_CLEAR\<rparr>
     in m68ki_write_16 ea res s))))"

definition m68k_op_andi_16_pi :: "'b op" where
  "m68k_op_andi_16_pi s =
    (chain (OPER_I_16 s) (\<lambda>src s.
     chain (EA_AY_PI_16 s) (\<lambda>ea s.
     chain (m68ki_read_16 ea s) (\<lambda>v3 s.
     let res = src AND v3;
         s = s\<lparr>n_flag := NFLAG_16 res,
               not_z_flag := res,
               c_flag := CFLAG_CLEAR,
               v_flag := VFLAG_CLEAR\<rparr>
     in m68ki_write_16 ea res s))))"

definition m68k_op_andi_16_pd :: "'b op" where
  "m68k_op_andi_16_pd s =
    (chain (OPER_I_16 s) (\<lambda>src s.
     chain (EA_AY_PD_16 s) (\<lambda>ea s.
     chain (m68ki_read_16 ea s) (\<lambda>v3 s.
     let res = src AND v3;
         s = s\<lparr>n_flag := NFLAG_16 res,
               not_z_flag := res,
               c_flag := CFLAG_CLEAR,
               v_flag := VFLAG_CLEAR\<rparr>
     in m68ki_write_16 ea res s))))"

definition m68k_op_andi_16_di :: "'b op" where
  "m68k_op_andi_16_di s =
    (chain (OPER_I_16 s) (\<lambda>src s.
     chain (EA_AY_DI_16 s) (\<lambda>ea s.
     chain (m68ki_read_16 ea s) (\<lambda>v3 s.
     let res = src AND v3;
         s = s\<lparr>n_flag := NFLAG_16 res,
               not_z_flag := res,
               c_flag := CFLAG_CLEAR,
               v_flag := VFLAG_CLEAR\<rparr>
     in m68ki_write_16 ea res s))))"

definition m68k_op_andi_16_ix :: "'b op" where
  "m68k_op_andi_16_ix s =
    (chain (OPER_I_16 s) (\<lambda>src s.
     chain (EA_AY_IX_16 s) (\<lambda>ea s.
     chain (m68ki_read_16 ea s) (\<lambda>v3 s.
     let res = src AND v3;
         s = s\<lparr>n_flag := NFLAG_16 res,
               not_z_flag := res,
               c_flag := CFLAG_CLEAR,
               v_flag := VFLAG_CLEAR\<rparr>
     in m68ki_write_16 ea res s))))"

definition m68k_op_andi_16_aw :: "'b op" where
  "m68k_op_andi_16_aw s =
    (chain (OPER_I_16 s) (\<lambda>src s.
     chain (EA_AW_16 s) (\<lambda>ea s.
     chain (m68ki_read_16 ea s) (\<lambda>v3 s.
     let res = src AND v3;
         s = s\<lparr>n_flag := NFLAG_16 res,
               not_z_flag := res,
               c_flag := CFLAG_CLEAR,
               v_flag := VFLAG_CLEAR\<rparr>
     in m68ki_write_16 ea res s))))"

definition m68k_op_andi_16_al :: "'b op" where
  "m68k_op_andi_16_al s =
    (chain (OPER_I_16 s) (\<lambda>src s.
     chain (EA_AL_16 s) (\<lambda>ea s.
     chain (m68ki_read_16 ea s) (\<lambda>v3 s.
     let res = src AND v3;
         s = s\<lparr>n_flag := NFLAG_16 res,
               not_z_flag := res,
               c_flag := CFLAG_CLEAR,
               v_flag := VFLAG_CLEAR\<rparr>
     in m68ki_write_16 ea res s))))"

definition m68k_op_andi_32_d :: "'b op" where
  "m68k_op_andi_32_d s =
    (chain (OPER_I_32 s) (\<lambda>v s.
     let s = set_DY ((DY s) AND v) s;
         s = s\<lparr>not_z_flag := DY s\<rparr>
     in Ret () (s\<lparr>n_flag := NFLAG_32 (not_z_flag s),
          c_flag := CFLAG_CLEAR,
          v_flag := VFLAG_CLEAR\<rparr>)))"

definition m68k_op_andi_32_ai :: "'b op" where
  "m68k_op_andi_32_ai s =
    (chain (OPER_I_32 s) (\<lambda>src s.
     chain (EA_AY_AI_32 s) (\<lambda>ea s.
     chain (m68ki_read_32 ea s) (\<lambda>v3 s.
     let res = src AND v3;
         s = s\<lparr>n_flag := NFLAG_32 res,
               not_z_flag := res,
               c_flag := CFLAG_CLEAR,
               v_flag := VFLAG_CLEAR\<rparr>
     in m68ki_write_32 ea res s))))"

definition m68k_op_andi_32_pi :: "'b op" where
  "m68k_op_andi_32_pi s =
    (chain (OPER_I_32 s) (\<lambda>src s.
     chain (EA_AY_PI_32 s) (\<lambda>ea s.
     chain (m68ki_read_32 ea s) (\<lambda>v3 s.
     let res = src AND v3;
         s = s\<lparr>n_flag := NFLAG_32 res,
               not_z_flag := res,
               c_flag := CFLAG_CLEAR,
               v_flag := VFLAG_CLEAR\<rparr>
     in m68ki_write_32 ea res s))))"

definition m68k_op_andi_32_pd :: "'b op" where
  "m68k_op_andi_32_pd s =
    (chain (OPER_I_32 s) (\<lambda>src s.
     chain (EA_AY_PD_32 s) (\<lambda>ea s.
     chain (m68ki_read_32 ea s) (\<lambda>v3 s.
     let res = src AND v3;
         s = s\<lparr>n_flag := NFLAG_32 res,
               not_z_flag := res,
               c_flag := CFLAG_CLEAR,
               v_flag := VFLAG_CLEAR\<rparr>
     in m68ki_write_32 ea res s))))"

definition m68k_op_andi_32_di :: "'b op" where
  "m68k_op_andi_32_di s =
    (chain (OPER_I_32 s) (\<lambda>src s.
     chain (EA_AY_DI_32 s) (\<lambda>ea s.
     chain (m68ki_read_32 ea s) (\<lambda>v3 s.
     let res = src AND v3;
         s = s\<lparr>n_flag := NFLAG_32 res,
               not_z_flag := res,
               c_flag := CFLAG_CLEAR,
               v_flag := VFLAG_CLEAR\<rparr>
     in m68ki_write_32 ea res s))))"

definition m68k_op_andi_32_ix :: "'b op" where
  "m68k_op_andi_32_ix s =
    (chain (OPER_I_32 s) (\<lambda>src s.
     chain (EA_AY_IX_32 s) (\<lambda>ea s.
     chain (m68ki_read_32 ea s) (\<lambda>v3 s.
     let res = src AND v3;
         s = s\<lparr>n_flag := NFLAG_32 res,
               not_z_flag := res,
               c_flag := CFLAG_CLEAR,
               v_flag := VFLAG_CLEAR\<rparr>
     in m68ki_write_32 ea res s))))"

definition m68k_op_andi_32_aw :: "'b op" where
  "m68k_op_andi_32_aw s =
    (chain (OPER_I_32 s) (\<lambda>src s.
     chain (EA_AW_32 s) (\<lambda>ea s.
     chain (m68ki_read_32 ea s) (\<lambda>v3 s.
     let res = src AND v3;
         s = s\<lparr>n_flag := NFLAG_32 res,
               not_z_flag := res,
               c_flag := CFLAG_CLEAR,
               v_flag := VFLAG_CLEAR\<rparr>
     in m68ki_write_32 ea res s))))"

definition m68k_op_andi_32_al :: "'b op" where
  "m68k_op_andi_32_al s =
    (chain (OPER_I_32 s) (\<lambda>src s.
     chain (EA_AL_32 s) (\<lambda>ea s.
     chain (m68ki_read_32 ea s) (\<lambda>v3 s.
     let res = src AND v3;
         s = s\<lparr>n_flag := NFLAG_32 res,
               not_z_flag := res,
               c_flag := CFLAG_CLEAR,
               v_flag := VFLAG_CLEAR\<rparr>
     in m68ki_write_32 ea res s))))"

definition m68k_op_andi_16_toc :: "'b op" where
  "m68k_op_andi_16_toc s =
    (chain (OPER_I_8 s) (\<lambda>v s.
     Ret () (m68ki_set_ccr (m68ki_get_ccr s AND v) s)))"

definition m68k_op_andi_16_tos :: "'b op" where
  "m68k_op_andi_16_tos s =
    (if s_flag s \<noteq> 0
     then chain (OPER_I_16 s) (\<lambda>src s.
          m68ki_set_sr (m68ki_get_sr s AND src) s)
     else m68ki_exception_privilege_violation s)"

definition m68k_op_eor_8_d :: "'b op" where
  "m68k_op_eor_8_d s =
    (let s = set_DY ((DY s) XOR (MASK_OUT_ABOVE_8 (DX s))) s;
         res = MASK_OUT_ABOVE_8 (DY s)
     in Ret () (s\<lparr>n_flag := NFLAG_8 res,
          not_z_flag := res,
          c_flag := CFLAG_CLEAR,
          v_flag := VFLAG_CLEAR\<rparr>))"

definition m68k_op_eor_8_ai :: "'b op" where
  "m68k_op_eor_8_ai s =
    (chain (EA_AY_AI_8 s) (\<lambda>ea s.
     chain (m68ki_read_8 ea s) (\<lambda>v2 s.
     let res = MASK_OUT_ABOVE_8 (DX s XOR v2)
     in chain (m68ki_write_8 ea res s) (\<lambda>_ s.
        Ret () (s\<lparr>n_flag := NFLAG_8 res,
          not_z_flag := res,
          c_flag := CFLAG_CLEAR,
          v_flag := VFLAG_CLEAR\<rparr>)))))"

definition m68k_op_eor_8_pi :: "'b op" where
  "m68k_op_eor_8_pi s =
    (chain (EA_AY_PI_8 s) (\<lambda>ea s.
     chain (m68ki_read_8 ea s) (\<lambda>v2 s.
     let res = MASK_OUT_ABOVE_8 (DX s XOR v2)
     in chain (m68ki_write_8 ea res s) (\<lambda>_ s.
        Ret () (s\<lparr>n_flag := NFLAG_8 res,
          not_z_flag := res,
          c_flag := CFLAG_CLEAR,
          v_flag := VFLAG_CLEAR\<rparr>)))))"

definition m68k_op_eor_8_pi7 :: "'b op" where
  "m68k_op_eor_8_pi7 s =
    (chain (EA_A7_PI_8 s) (\<lambda>ea s.
     chain (m68ki_read_8 ea s) (\<lambda>v2 s.
     let res = MASK_OUT_ABOVE_8 (DX s XOR v2)
     in chain (m68ki_write_8 ea res s) (\<lambda>_ s.
        Ret () (s\<lparr>n_flag := NFLAG_8 res,
          not_z_flag := res,
          c_flag := CFLAG_CLEAR,
          v_flag := VFLAG_CLEAR\<rparr>)))))"

definition m68k_op_eor_8_pd :: "'b op" where
  "m68k_op_eor_8_pd s =
    (chain (EA_AY_PD_8 s) (\<lambda>ea s.
     chain (m68ki_read_8 ea s) (\<lambda>v2 s.
     let res = MASK_OUT_ABOVE_8 (DX s XOR v2)
     in chain (m68ki_write_8 ea res s) (\<lambda>_ s.
        Ret () (s\<lparr>n_flag := NFLAG_8 res,
          not_z_flag := res,
          c_flag := CFLAG_CLEAR,
          v_flag := VFLAG_CLEAR\<rparr>)))))"

definition m68k_op_eor_8_pd7 :: "'b op" where
  "m68k_op_eor_8_pd7 s =
    (chain (EA_A7_PD_8 s) (\<lambda>ea s.
     chain (m68ki_read_8 ea s) (\<lambda>v2 s.
     let res = MASK_OUT_ABOVE_8 (DX s XOR v2)
     in chain (m68ki_write_8 ea res s) (\<lambda>_ s.
        Ret () (s\<lparr>n_flag := NFLAG_8 res,
          not_z_flag := res,
          c_flag := CFLAG_CLEAR,
          v_flag := VFLAG_CLEAR\<rparr>)))))"

definition m68k_op_eor_8_di :: "'b op" where
  "m68k_op_eor_8_di s =
    (chain (EA_AY_DI_8 s) (\<lambda>ea s.
     chain (m68ki_read_8 ea s) (\<lambda>v2 s.
     let res = MASK_OUT_ABOVE_8 (DX s XOR v2)
     in chain (m68ki_write_8 ea res s) (\<lambda>_ s.
        Ret () (s\<lparr>n_flag := NFLAG_8 res,
          not_z_flag := res,
          c_flag := CFLAG_CLEAR,
          v_flag := VFLAG_CLEAR\<rparr>)))))"

definition m68k_op_eor_8_ix :: "'b op" where
  "m68k_op_eor_8_ix s =
    (chain (EA_AY_IX_8 s) (\<lambda>ea s.
     chain (m68ki_read_8 ea s) (\<lambda>v2 s.
     let res = MASK_OUT_ABOVE_8 (DX s XOR v2)
     in chain (m68ki_write_8 ea res s) (\<lambda>_ s.
        Ret () (s\<lparr>n_flag := NFLAG_8 res,
          not_z_flag := res,
          c_flag := CFLAG_CLEAR,
          v_flag := VFLAG_CLEAR\<rparr>)))))"

definition m68k_op_eor_8_aw :: "'b op" where
  "m68k_op_eor_8_aw s =
    (chain (EA_AW_8 s) (\<lambda>ea s.
     chain (m68ki_read_8 ea s) (\<lambda>v2 s.
     let res = MASK_OUT_ABOVE_8 (DX s XOR v2)
     in chain (m68ki_write_8 ea res s) (\<lambda>_ s.
        Ret () (s\<lparr>n_flag := NFLAG_8 res,
          not_z_flag := res,
          c_flag := CFLAG_CLEAR,
          v_flag := VFLAG_CLEAR\<rparr>)))))"

definition m68k_op_eor_8_al :: "'b op" where
  "m68k_op_eor_8_al s =
    (chain (EA_AL_8 s) (\<lambda>ea s.
     chain (m68ki_read_8 ea s) (\<lambda>v2 s.
     let res = MASK_OUT_ABOVE_8 (DX s XOR v2)
     in chain (m68ki_write_8 ea res s) (\<lambda>_ s.
        Ret () (s\<lparr>n_flag := NFLAG_8 res,
          not_z_flag := res,
          c_flag := CFLAG_CLEAR,
          v_flag := VFLAG_CLEAR\<rparr>)))))"

definition m68k_op_eor_16_d :: "'b op" where
  "m68k_op_eor_16_d s =
    (let s = set_DY ((DY s) XOR (MASK_OUT_ABOVE_16 (DX s))) s;
         res = MASK_OUT_ABOVE_16 (DY s)
     in Ret () (s\<lparr>n_flag := NFLAG_16 res,
          not_z_flag := res,
          c_flag := CFLAG_CLEAR,
          v_flag := VFLAG_CLEAR\<rparr>))"

definition m68k_op_eor_16_ai :: "'b op" where
  "m68k_op_eor_16_ai s =
    (chain (EA_AY_AI_16 s) (\<lambda>ea s.
     chain (m68ki_read_16 ea s) (\<lambda>v2 s.
     let res = MASK_OUT_ABOVE_16 (DX s XOR v2)
     in chain (m68ki_write_16 ea res s) (\<lambda>_ s.
        Ret () (s\<lparr>n_flag := NFLAG_16 res,
          not_z_flag := res,
          c_flag := CFLAG_CLEAR,
          v_flag := VFLAG_CLEAR\<rparr>)))))"

definition m68k_op_eor_16_pi :: "'b op" where
  "m68k_op_eor_16_pi s =
    (chain (EA_AY_PI_16 s) (\<lambda>ea s.
     chain (m68ki_read_16 ea s) (\<lambda>v2 s.
     let res = MASK_OUT_ABOVE_16 (DX s XOR v2)
     in chain (m68ki_write_16 ea res s) (\<lambda>_ s.
        Ret () (s\<lparr>n_flag := NFLAG_16 res,
          not_z_flag := res,
          c_flag := CFLAG_CLEAR,
          v_flag := VFLAG_CLEAR\<rparr>)))))"

definition m68k_op_eor_16_pd :: "'b op" where
  "m68k_op_eor_16_pd s =
    (chain (EA_AY_PD_16 s) (\<lambda>ea s.
     chain (m68ki_read_16 ea s) (\<lambda>v2 s.
     let res = MASK_OUT_ABOVE_16 (DX s XOR v2)
     in chain (m68ki_write_16 ea res s) (\<lambda>_ s.
        Ret () (s\<lparr>n_flag := NFLAG_16 res,
          not_z_flag := res,
          c_flag := CFLAG_CLEAR,
          v_flag := VFLAG_CLEAR\<rparr>)))))"

definition m68k_op_eor_16_di :: "'b op" where
  "m68k_op_eor_16_di s =
    (chain (EA_AY_DI_16 s) (\<lambda>ea s.
     chain (m68ki_read_16 ea s) (\<lambda>v2 s.
     let res = MASK_OUT_ABOVE_16 (DX s XOR v2)
     in chain (m68ki_write_16 ea res s) (\<lambda>_ s.
        Ret () (s\<lparr>n_flag := NFLAG_16 res,
          not_z_flag := res,
          c_flag := CFLAG_CLEAR,
          v_flag := VFLAG_CLEAR\<rparr>)))))"

definition m68k_op_eor_16_ix :: "'b op" where
  "m68k_op_eor_16_ix s =
    (chain (EA_AY_IX_16 s) (\<lambda>ea s.
     chain (m68ki_read_16 ea s) (\<lambda>v2 s.
     let res = MASK_OUT_ABOVE_16 (DX s XOR v2)
     in chain (m68ki_write_16 ea res s) (\<lambda>_ s.
        Ret () (s\<lparr>n_flag := NFLAG_16 res,
          not_z_flag := res,
          c_flag := CFLAG_CLEAR,
          v_flag := VFLAG_CLEAR\<rparr>)))))"

definition m68k_op_eor_16_aw :: "'b op" where
  "m68k_op_eor_16_aw s =
    (chain (EA_AW_16 s) (\<lambda>ea s.
     chain (m68ki_read_16 ea s) (\<lambda>v2 s.
     let res = MASK_OUT_ABOVE_16 (DX s XOR v2)
     in chain (m68ki_write_16 ea res s) (\<lambda>_ s.
        Ret () (s\<lparr>n_flag := NFLAG_16 res,
          not_z_flag := res,
          c_flag := CFLAG_CLEAR,
          v_flag := VFLAG_CLEAR\<rparr>)))))"

definition m68k_op_eor_16_al :: "'b op" where
  "m68k_op_eor_16_al s =
    (chain (EA_AL_16 s) (\<lambda>ea s.
     chain (m68ki_read_16 ea s) (\<lambda>v2 s.
     let res = MASK_OUT_ABOVE_16 (DX s XOR v2)
     in chain (m68ki_write_16 ea res s) (\<lambda>_ s.
        Ret () (s\<lparr>n_flag := NFLAG_16 res,
          not_z_flag := res,
          c_flag := CFLAG_CLEAR,
          v_flag := VFLAG_CLEAR\<rparr>)))))"

definition m68k_op_eor_32_d :: "'b op" where
  "m68k_op_eor_32_d s =
    (let s = set_DY ((DY s) XOR (DX s)) s;
         res = DY s
     in Ret () (s\<lparr>n_flag := NFLAG_32 res,
          not_z_flag := res,
          c_flag := CFLAG_CLEAR,
          v_flag := VFLAG_CLEAR\<rparr>))"

definition m68k_op_eor_32_ai :: "'b op" where
  "m68k_op_eor_32_ai s =
    (chain (EA_AY_AI_32 s) (\<lambda>ea s.
     chain (m68ki_read_32 ea s) (\<lambda>v2 s.
     let res = DX s XOR v2
     in chain (m68ki_write_32 ea res s) (\<lambda>_ s.
        Ret () (s\<lparr>n_flag := NFLAG_32 res,
          not_z_flag := res,
          c_flag := CFLAG_CLEAR,
          v_flag := VFLAG_CLEAR\<rparr>)))))"

definition m68k_op_eor_32_pi :: "'b op" where
  "m68k_op_eor_32_pi s =
    (chain (EA_AY_PI_32 s) (\<lambda>ea s.
     chain (m68ki_read_32 ea s) (\<lambda>v2 s.
     let res = DX s XOR v2
     in chain (m68ki_write_32 ea res s) (\<lambda>_ s.
        Ret () (s\<lparr>n_flag := NFLAG_32 res,
          not_z_flag := res,
          c_flag := CFLAG_CLEAR,
          v_flag := VFLAG_CLEAR\<rparr>)))))"

definition m68k_op_eor_32_pd :: "'b op" where
  "m68k_op_eor_32_pd s =
    (chain (EA_AY_PD_32 s) (\<lambda>ea s.
     chain (m68ki_read_32 ea s) (\<lambda>v2 s.
     let res = DX s XOR v2
     in chain (m68ki_write_32 ea res s) (\<lambda>_ s.
        Ret () (s\<lparr>n_flag := NFLAG_32 res,
          not_z_flag := res,
          c_flag := CFLAG_CLEAR,
          v_flag := VFLAG_CLEAR\<rparr>)))))"

definition m68k_op_eor_32_di :: "'b op" where
  "m68k_op_eor_32_di s =
    (chain (EA_AY_DI_32 s) (\<lambda>ea s.
     chain (m68ki_read_32 ea s) (\<lambda>v2 s.
     let res = DX s XOR v2
     in chain (m68ki_write_32 ea res s) (\<lambda>_ s.
        Ret () (s\<lparr>n_flag := NFLAG_32 res,
          not_z_flag := res,
          c_flag := CFLAG_CLEAR,
          v_flag := VFLAG_CLEAR\<rparr>)))))"

definition m68k_op_eor_32_ix :: "'b op" where
  "m68k_op_eor_32_ix s =
    (chain (EA_AY_IX_32 s) (\<lambda>ea s.
     chain (m68ki_read_32 ea s) (\<lambda>v2 s.
     let res = DX s XOR v2
     in chain (m68ki_write_32 ea res s) (\<lambda>_ s.
        Ret () (s\<lparr>n_flag := NFLAG_32 res,
          not_z_flag := res,
          c_flag := CFLAG_CLEAR,
          v_flag := VFLAG_CLEAR\<rparr>)))))"

definition m68k_op_eor_32_aw :: "'b op" where
  "m68k_op_eor_32_aw s =
    (chain (EA_AW_32 s) (\<lambda>ea s.
     chain (m68ki_read_32 ea s) (\<lambda>v2 s.
     let res = DX s XOR v2
     in chain (m68ki_write_32 ea res s) (\<lambda>_ s.
        Ret () (s\<lparr>n_flag := NFLAG_32 res,
          not_z_flag := res,
          c_flag := CFLAG_CLEAR,
          v_flag := VFLAG_CLEAR\<rparr>)))))"

definition m68k_op_eor_32_al :: "'b op" where
  "m68k_op_eor_32_al s =
    (chain (EA_AL_32 s) (\<lambda>ea s.
     chain (m68ki_read_32 ea s) (\<lambda>v2 s.
     let res = DX s XOR v2
     in chain (m68ki_write_32 ea res s) (\<lambda>_ s.
        Ret () (s\<lparr>n_flag := NFLAG_32 res,
          not_z_flag := res,
          c_flag := CFLAG_CLEAR,
          v_flag := VFLAG_CLEAR\<rparr>)))))"

definition m68k_op_eori_8_d :: "'b op" where
  "m68k_op_eori_8_d s =
    (chain (OPER_I_8 s) (\<lambda>v s.
     let s = set_DY ((DY s) XOR v) s;
         res = MASK_OUT_ABOVE_8 (DY s)
     in Ret () (s\<lparr>n_flag := NFLAG_8 res,
          not_z_flag := res,
          c_flag := CFLAG_CLEAR,
          v_flag := VFLAG_CLEAR\<rparr>)))"

definition m68k_op_eori_8_ai :: "'b op" where
  "m68k_op_eori_8_ai s =
    (chain (OPER_I_8 s) (\<lambda>src s.
     chain (EA_AY_AI_8 s) (\<lambda>ea s.
     chain (m68ki_read_8 ea s) (\<lambda>v3 s.
     let res = src XOR v3
     in chain (m68ki_write_8 ea res s) (\<lambda>_ s.
        Ret () (s\<lparr>n_flag := NFLAG_8 res,
          not_z_flag := res,
          c_flag := CFLAG_CLEAR,
          v_flag := VFLAG_CLEAR\<rparr>))))))"

definition m68k_op_eori_8_pi :: "'b op" where
  "m68k_op_eori_8_pi s =
    (chain (OPER_I_8 s) (\<lambda>src s.
     chain (EA_AY_PI_8 s) (\<lambda>ea s.
     chain (m68ki_read_8 ea s) (\<lambda>v3 s.
     let res = src XOR v3
     in chain (m68ki_write_8 ea res s) (\<lambda>_ s.
        Ret () (s\<lparr>n_flag := NFLAG_8 res,
          not_z_flag := res,
          c_flag := CFLAG_CLEAR,
          v_flag := VFLAG_CLEAR\<rparr>))))))"

definition m68k_op_eori_8_pi7 :: "'b op" where
  "m68k_op_eori_8_pi7 s =
    (chain (OPER_I_8 s) (\<lambda>src s.
     chain (EA_A7_PI_8 s) (\<lambda>ea s.
     chain (m68ki_read_8 ea s) (\<lambda>v3 s.
     let res = src XOR v3
     in chain (m68ki_write_8 ea res s) (\<lambda>_ s.
        Ret () (s\<lparr>n_flag := NFLAG_8 res,
          not_z_flag := res,
          c_flag := CFLAG_CLEAR,
          v_flag := VFLAG_CLEAR\<rparr>))))))"

definition m68k_op_eori_8_pd :: "'b op" where
  "m68k_op_eori_8_pd s =
    (chain (OPER_I_8 s) (\<lambda>src s.
     chain (EA_AY_PD_8 s) (\<lambda>ea s.
     chain (m68ki_read_8 ea s) (\<lambda>v3 s.
     let res = src XOR v3
     in chain (m68ki_write_8 ea res s) (\<lambda>_ s.
        Ret () (s\<lparr>n_flag := NFLAG_8 res,
          not_z_flag := res,
          c_flag := CFLAG_CLEAR,
          v_flag := VFLAG_CLEAR\<rparr>))))))"

definition m68k_op_eori_8_pd7 :: "'b op" where
  "m68k_op_eori_8_pd7 s =
    (chain (OPER_I_8 s) (\<lambda>src s.
     chain (EA_A7_PD_8 s) (\<lambda>ea s.
     chain (m68ki_read_8 ea s) (\<lambda>v3 s.
     let res = src XOR v3
     in chain (m68ki_write_8 ea res s) (\<lambda>_ s.
        Ret () (s\<lparr>n_flag := NFLAG_8 res,
          not_z_flag := res,
          c_flag := CFLAG_CLEAR,
          v_flag := VFLAG_CLEAR\<rparr>))))))"

definition m68k_op_eori_8_di :: "'b op" where
  "m68k_op_eori_8_di s =
    (chain (OPER_I_8 s) (\<lambda>src s.
     chain (EA_AY_DI_8 s) (\<lambda>ea s.
     chain (m68ki_read_8 ea s) (\<lambda>v3 s.
     let res = src XOR v3
     in chain (m68ki_write_8 ea res s) (\<lambda>_ s.
        Ret () (s\<lparr>n_flag := NFLAG_8 res,
          not_z_flag := res,
          c_flag := CFLAG_CLEAR,
          v_flag := VFLAG_CLEAR\<rparr>))))))"

definition m68k_op_eori_8_ix :: "'b op" where
  "m68k_op_eori_8_ix s =
    (chain (OPER_I_8 s) (\<lambda>src s.
     chain (EA_AY_IX_8 s) (\<lambda>ea s.
     chain (m68ki_read_8 ea s) (\<lambda>v3 s.
     let res = src XOR v3
     in chain (m68ki_write_8 ea res s) (\<lambda>_ s.
        Ret () (s\<lparr>n_flag := NFLAG_8 res,
          not_z_flag := res,
          c_flag := CFLAG_CLEAR,
          v_flag := VFLAG_CLEAR\<rparr>))))))"

definition m68k_op_eori_8_aw :: "'b op" where
  "m68k_op_eori_8_aw s =
    (chain (OPER_I_8 s) (\<lambda>src s.
     chain (EA_AW_8 s) (\<lambda>ea s.
     chain (m68ki_read_8 ea s) (\<lambda>v3 s.
     let res = src XOR v3
     in chain (m68ki_write_8 ea res s) (\<lambda>_ s.
        Ret () (s\<lparr>n_flag := NFLAG_8 res,
          not_z_flag := res,
          c_flag := CFLAG_CLEAR,
          v_flag := VFLAG_CLEAR\<rparr>))))))"

definition m68k_op_eori_8_al :: "'b op" where
  "m68k_op_eori_8_al s =
    (chain (OPER_I_8 s) (\<lambda>src s.
     chain (EA_AL_8 s) (\<lambda>ea s.
     chain (m68ki_read_8 ea s) (\<lambda>v3 s.
     let res = src XOR v3
     in chain (m68ki_write_8 ea res s) (\<lambda>_ s.
        Ret () (s\<lparr>n_flag := NFLAG_8 res,
          not_z_flag := res,
          c_flag := CFLAG_CLEAR,
          v_flag := VFLAG_CLEAR\<rparr>))))))"

definition m68k_op_eori_16_d :: "'b op" where
  "m68k_op_eori_16_d s =
    (chain (OPER_I_16 s) (\<lambda>v s.
     let s = set_DY ((DY s) XOR v) s;
         res = MASK_OUT_ABOVE_16 (DY s)
     in Ret () (s\<lparr>n_flag := NFLAG_16 res,
          not_z_flag := res,
          c_flag := CFLAG_CLEAR,
          v_flag := VFLAG_CLEAR\<rparr>)))"

definition m68k_op_eori_16_ai :: "'b op" where
  "m68k_op_eori_16_ai s =
    (chain (OPER_I_16 s) (\<lambda>src s.
     chain (EA_AY_AI_16 s) (\<lambda>ea s.
     chain (m68ki_read_16 ea s) (\<lambda>v3 s.
     let res = src XOR v3
     in chain (m68ki_write_16 ea res s) (\<lambda>_ s.
        Ret () (s\<lparr>n_flag := NFLAG_16 res,
          not_z_flag := res,
          c_flag := CFLAG_CLEAR,
          v_flag := VFLAG_CLEAR\<rparr>))))))"

definition m68k_op_eori_16_pi :: "'b op" where
  "m68k_op_eori_16_pi s =
    (chain (OPER_I_16 s) (\<lambda>src s.
     chain (EA_AY_PI_16 s) (\<lambda>ea s.
     chain (m68ki_read_16 ea s) (\<lambda>v3 s.
     let res = src XOR v3
     in chain (m68ki_write_16 ea res s) (\<lambda>_ s.
        Ret () (s\<lparr>n_flag := NFLAG_16 res,
          not_z_flag := res,
          c_flag := CFLAG_CLEAR,
          v_flag := VFLAG_CLEAR\<rparr>))))))"

definition m68k_op_eori_16_pd :: "'b op" where
  "m68k_op_eori_16_pd s =
    (chain (OPER_I_16 s) (\<lambda>src s.
     chain (EA_AY_PD_16 s) (\<lambda>ea s.
     chain (m68ki_read_16 ea s) (\<lambda>v3 s.
     let res = src XOR v3
     in chain (m68ki_write_16 ea res s) (\<lambda>_ s.
        Ret () (s\<lparr>n_flag := NFLAG_16 res,
          not_z_flag := res,
          c_flag := CFLAG_CLEAR,
          v_flag := VFLAG_CLEAR\<rparr>))))))"

definition m68k_op_eori_16_di :: "'b op" where
  "m68k_op_eori_16_di s =
    (chain (OPER_I_16 s) (\<lambda>src s.
     chain (EA_AY_DI_16 s) (\<lambda>ea s.
     chain (m68ki_read_16 ea s) (\<lambda>v3 s.
     let res = src XOR v3
     in chain (m68ki_write_16 ea res s) (\<lambda>_ s.
        Ret () (s\<lparr>n_flag := NFLAG_16 res,
          not_z_flag := res,
          c_flag := CFLAG_CLEAR,
          v_flag := VFLAG_CLEAR\<rparr>))))))"

definition m68k_op_eori_16_ix :: "'b op" where
  "m68k_op_eori_16_ix s =
    (chain (OPER_I_16 s) (\<lambda>src s.
     chain (EA_AY_IX_16 s) (\<lambda>ea s.
     chain (m68ki_read_16 ea s) (\<lambda>v3 s.
     let res = src XOR v3
     in chain (m68ki_write_16 ea res s) (\<lambda>_ s.
        Ret () (s\<lparr>n_flag := NFLAG_16 res,
          not_z_flag := res,
          c_flag := CFLAG_CLEAR,
          v_flag := VFLAG_CLEAR\<rparr>))))))"

definition m68k_op_eori_16_aw :: "'b op" where
  "m68k_op_eori_16_aw s =
    (chain (OPER_I_16 s) (\<lambda>src s.
     chain (EA_AW_16 s) (\<lambda>ea s.
     chain (m68ki_read_16 ea s) (\<lambda>v3 s.
     let res = src XOR v3
     in chain (m68ki_write_16 ea res s) (\<lambda>_ s.
        Ret () (s\<lparr>n_flag := NFLAG_16 res,
          not_z_flag := res,
          c_flag := CFLAG_CLEAR,
          v_flag := VFLAG_CLEAR\<rparr>))))))"

definition m68k_op_eori_16_al :: "'b op" where
  "m68k_op_eori_16_al s =
    (chain (OPER_I_16 s) (\<lambda>src s.
     chain (EA_AL_16 s) (\<lambda>ea s.
     chain (m68ki_read_16 ea s) (\<lambda>v3 s.
     let res = src XOR v3
     in chain (m68ki_write_16 ea res s) (\<lambda>_ s.
        Ret () (s\<lparr>n_flag := NFLAG_16 res,
          not_z_flag := res,
          c_flag := CFLAG_CLEAR,
          v_flag := VFLAG_CLEAR\<rparr>))))))"

definition m68k_op_eori_32_d :: "'b op" where
  "m68k_op_eori_32_d s =
    (chain (OPER_I_32 s) (\<lambda>v s.
     let s = set_DY ((DY s) XOR v) s;
         res = DY s
     in Ret () (s\<lparr>n_flag := NFLAG_32 res,
          not_z_flag := res,
          c_flag := CFLAG_CLEAR,
          v_flag := VFLAG_CLEAR\<rparr>)))"

definition m68k_op_eori_32_ai :: "'b op" where
  "m68k_op_eori_32_ai s =
    (chain (OPER_I_32 s) (\<lambda>src s.
     chain (EA_AY_AI_32 s) (\<lambda>ea s.
     chain (m68ki_read_32 ea s) (\<lambda>v3 s.
     let res = src XOR v3
     in chain (m68ki_write_32 ea res s) (\<lambda>_ s.
        Ret () (s\<lparr>n_flag := NFLAG_32 res,
          not_z_flag := res,
          c_flag := CFLAG_CLEAR,
          v_flag := VFLAG_CLEAR\<rparr>))))))"

definition m68k_op_eori_32_pi :: "'b op" where
  "m68k_op_eori_32_pi s =
    (chain (OPER_I_32 s) (\<lambda>src s.
     chain (EA_AY_PI_32 s) (\<lambda>ea s.
     chain (m68ki_read_32 ea s) (\<lambda>v3 s.
     let res = src XOR v3
     in chain (m68ki_write_32 ea res s) (\<lambda>_ s.
        Ret () (s\<lparr>n_flag := NFLAG_32 res,
          not_z_flag := res,
          c_flag := CFLAG_CLEAR,
          v_flag := VFLAG_CLEAR\<rparr>))))))"

definition m68k_op_eori_32_pd :: "'b op" where
  "m68k_op_eori_32_pd s =
    (chain (OPER_I_32 s) (\<lambda>src s.
     chain (EA_AY_PD_32 s) (\<lambda>ea s.
     chain (m68ki_read_32 ea s) (\<lambda>v3 s.
     let res = src XOR v3
     in chain (m68ki_write_32 ea res s) (\<lambda>_ s.
        Ret () (s\<lparr>n_flag := NFLAG_32 res,
          not_z_flag := res,
          c_flag := CFLAG_CLEAR,
          v_flag := VFLAG_CLEAR\<rparr>))))))"

definition m68k_op_eori_32_di :: "'b op" where
  "m68k_op_eori_32_di s =
    (chain (OPER_I_32 s) (\<lambda>src s.
     chain (EA_AY_DI_32 s) (\<lambda>ea s.
     chain (m68ki_read_32 ea s) (\<lambda>v3 s.
     let res = src XOR v3
     in chain (m68ki_write_32 ea res s) (\<lambda>_ s.
        Ret () (s\<lparr>n_flag := NFLAG_32 res,
          not_z_flag := res,
          c_flag := CFLAG_CLEAR,
          v_flag := VFLAG_CLEAR\<rparr>))))))"

definition m68k_op_eori_32_ix :: "'b op" where
  "m68k_op_eori_32_ix s =
    (chain (OPER_I_32 s) (\<lambda>src s.
     chain (EA_AY_IX_32 s) (\<lambda>ea s.
     chain (m68ki_read_32 ea s) (\<lambda>v3 s.
     let res = src XOR v3
     in chain (m68ki_write_32 ea res s) (\<lambda>_ s.
        Ret () (s\<lparr>n_flag := NFLAG_32 res,
          not_z_flag := res,
          c_flag := CFLAG_CLEAR,
          v_flag := VFLAG_CLEAR\<rparr>))))))"

definition m68k_op_eori_32_aw :: "'b op" where
  "m68k_op_eori_32_aw s =
    (chain (OPER_I_32 s) (\<lambda>src s.
     chain (EA_AW_32 s) (\<lambda>ea s.
     chain (m68ki_read_32 ea s) (\<lambda>v3 s.
     let res = src XOR v3
     in chain (m68ki_write_32 ea res s) (\<lambda>_ s.
        Ret () (s\<lparr>n_flag := NFLAG_32 res,
          not_z_flag := res,
          c_flag := CFLAG_CLEAR,
          v_flag := VFLAG_CLEAR\<rparr>))))))"

definition m68k_op_eori_32_al :: "'b op" where
  "m68k_op_eori_32_al s =
    (chain (OPER_I_32 s) (\<lambda>src s.
     chain (EA_AL_32 s) (\<lambda>ea s.
     chain (m68ki_read_32 ea s) (\<lambda>v3 s.
     let res = src XOR v3
     in chain (m68ki_write_32 ea res s) (\<lambda>_ s.
        Ret () (s\<lparr>n_flag := NFLAG_32 res,
          not_z_flag := res,
          c_flag := CFLAG_CLEAR,
          v_flag := VFLAG_CLEAR\<rparr>))))))"

definition m68k_op_eori_16_toc :: "'b op" where
  "m68k_op_eori_16_toc s =
    (chain (OPER_I_8 s) (\<lambda>v s.
     Ret () (m68ki_set_ccr (m68ki_get_ccr s XOR v) s)))"

definition m68k_op_eori_16_tos :: "'b op" where
  "m68k_op_eori_16_tos s =
    (if s_flag s \<noteq> 0
     then chain (OPER_I_16 s) (\<lambda>src s.
          m68ki_set_sr (m68ki_get_sr s XOR src) s)
     else m68ki_exception_privilege_violation s)"

definition m68k_op_not_8_d :: "'b op" where
  "m68k_op_not_8_d s =
    (let res = MASK_OUT_ABOVE_8 (NOT (DY s));
         s = set_DY (MASK_OUT_BELOW_8 (DY s) OR res) s
     in Ret () (s\<lparr>n_flag := NFLAG_8 res,
          not_z_flag := res,
          c_flag := CFLAG_CLEAR,
          v_flag := VFLAG_CLEAR\<rparr>))"

definition m68k_op_not_8_ai :: "'b op" where
  "m68k_op_not_8_ai s =
    (chain (EA_AY_AI_8 s) (\<lambda>ea s.
     chain (m68ki_read_8 ea s) (\<lambda>v2 s.
     let res = MASK_OUT_ABOVE_8 (NOT v2)
     in chain (m68ki_write_8 ea res s) (\<lambda>_ s.
        Ret () (s\<lparr>n_flag := NFLAG_8 res,
          not_z_flag := res,
          c_flag := CFLAG_CLEAR,
          v_flag := VFLAG_CLEAR\<rparr>)))))"

definition m68k_op_not_8_pi :: "'b op" where
  "m68k_op_not_8_pi s =
    (chain (EA_AY_PI_8 s) (\<lambda>ea s.
     chain (m68ki_read_8 ea s) (\<lambda>v2 s.
     let res = MASK_OUT_ABOVE_8 (NOT v2)
     in chain (m68ki_write_8 ea res s) (\<lambda>_ s.
        Ret () (s\<lparr>n_flag := NFLAG_8 res,
          not_z_flag := res,
          c_flag := CFLAG_CLEAR,
          v_flag := VFLAG_CLEAR\<rparr>)))))"

definition m68k_op_not_8_pi7 :: "'b op" where
  "m68k_op_not_8_pi7 s =
    (chain (EA_A7_PI_8 s) (\<lambda>ea s.
     chain (m68ki_read_8 ea s) (\<lambda>v2 s.
     let res = MASK_OUT_ABOVE_8 (NOT v2)
     in chain (m68ki_write_8 ea res s) (\<lambda>_ s.
        Ret () (s\<lparr>n_flag := NFLAG_8 res,
          not_z_flag := res,
          c_flag := CFLAG_CLEAR,
          v_flag := VFLAG_CLEAR\<rparr>)))))"

definition m68k_op_not_8_pd :: "'b op" where
  "m68k_op_not_8_pd s =
    (chain (EA_AY_PD_8 s) (\<lambda>ea s.
     chain (m68ki_read_8 ea s) (\<lambda>v2 s.
     let res = MASK_OUT_ABOVE_8 (NOT v2)
     in chain (m68ki_write_8 ea res s) (\<lambda>_ s.
        Ret () (s\<lparr>n_flag := NFLAG_8 res,
          not_z_flag := res,
          c_flag := CFLAG_CLEAR,
          v_flag := VFLAG_CLEAR\<rparr>)))))"

definition m68k_op_not_8_pd7 :: "'b op" where
  "m68k_op_not_8_pd7 s =
    (chain (EA_A7_PD_8 s) (\<lambda>ea s.
     chain (m68ki_read_8 ea s) (\<lambda>v2 s.
     let res = MASK_OUT_ABOVE_8 (NOT v2)
     in chain (m68ki_write_8 ea res s) (\<lambda>_ s.
        Ret () (s\<lparr>n_flag := NFLAG_8 res,
          not_z_flag := res,
          c_flag := CFLAG_CLEAR,
          v_flag := VFLAG_CLEAR\<rparr>)))))"

definition m68k_op_not_8_di :: "'b op" where
  "m68k_op_not_8_di s =
    (chain (EA_AY_DI_8 s) (\<lambda>ea s.
     chain (m68ki_read_8 ea s) (\<lambda>v2 s.
     let res = MASK_OUT_ABOVE_8 (NOT v2)
     in chain (m68ki_write_8 ea res s) (\<lambda>_ s.
        Ret () (s\<lparr>n_flag := NFLAG_8 res,
          not_z_flag := res,
          c_flag := CFLAG_CLEAR,
          v_flag := VFLAG_CLEAR\<rparr>)))))"

definition m68k_op_not_8_ix :: "'b op" where
  "m68k_op_not_8_ix s =
    (chain (EA_AY_IX_8 s) (\<lambda>ea s.
     chain (m68ki_read_8 ea s) (\<lambda>v2 s.
     let res = MASK_OUT_ABOVE_8 (NOT v2)
     in chain (m68ki_write_8 ea res s) (\<lambda>_ s.
        Ret () (s\<lparr>n_flag := NFLAG_8 res,
          not_z_flag := res,
          c_flag := CFLAG_CLEAR,
          v_flag := VFLAG_CLEAR\<rparr>)))))"

definition m68k_op_not_8_aw :: "'b op" where
  "m68k_op_not_8_aw s =
    (chain (EA_AW_8 s) (\<lambda>ea s.
     chain (m68ki_read_8 ea s) (\<lambda>v2 s.
     let res = MASK_OUT_ABOVE_8 (NOT v2)
     in chain (m68ki_write_8 ea res s) (\<lambda>_ s.
        Ret () (s\<lparr>n_flag := NFLAG_8 res,
          not_z_flag := res,
          c_flag := CFLAG_CLEAR,
          v_flag := VFLAG_CLEAR\<rparr>)))))"

definition m68k_op_not_8_al :: "'b op" where
  "m68k_op_not_8_al s =
    (chain (EA_AL_8 s) (\<lambda>ea s.
     chain (m68ki_read_8 ea s) (\<lambda>v2 s.
     let res = MASK_OUT_ABOVE_8 (NOT v2)
     in chain (m68ki_write_8 ea res s) (\<lambda>_ s.
        Ret () (s\<lparr>n_flag := NFLAG_8 res,
          not_z_flag := res,
          c_flag := CFLAG_CLEAR,
          v_flag := VFLAG_CLEAR\<rparr>)))))"

definition m68k_op_not_16_d :: "'b op" where
  "m68k_op_not_16_d s =
    (let res = MASK_OUT_ABOVE_16 (NOT (DY s));
         s = set_DY (MASK_OUT_BELOW_16 (DY s) OR res) s
     in Ret () (s\<lparr>n_flag := NFLAG_16 res,
          not_z_flag := res,
          c_flag := CFLAG_CLEAR,
          v_flag := VFLAG_CLEAR\<rparr>))"

definition m68k_op_not_16_ai :: "'b op" where
  "m68k_op_not_16_ai s =
    (chain (EA_AY_AI_16 s) (\<lambda>ea s.
     chain (m68ki_read_16 ea s) (\<lambda>v2 s.
     let res = MASK_OUT_ABOVE_16 (NOT v2)
     in chain (m68ki_write_16 ea res s) (\<lambda>_ s.
        Ret () (s\<lparr>n_flag := NFLAG_16 res,
          not_z_flag := res,
          c_flag := CFLAG_CLEAR,
          v_flag := VFLAG_CLEAR\<rparr>)))))"

definition m68k_op_not_16_pi :: "'b op" where
  "m68k_op_not_16_pi s =
    (chain (EA_AY_PI_16 s) (\<lambda>ea s.
     chain (m68ki_read_16 ea s) (\<lambda>v2 s.
     let res = MASK_OUT_ABOVE_16 (NOT v2)
     in chain (m68ki_write_16 ea res s) (\<lambda>_ s.
        Ret () (s\<lparr>n_flag := NFLAG_16 res,
          not_z_flag := res,
          c_flag := CFLAG_CLEAR,
          v_flag := VFLAG_CLEAR\<rparr>)))))"

definition m68k_op_not_16_pd :: "'b op" where
  "m68k_op_not_16_pd s =
    (chain (EA_AY_PD_16 s) (\<lambda>ea s.
     chain (m68ki_read_16 ea s) (\<lambda>v2 s.
     let res = MASK_OUT_ABOVE_16 (NOT v2)
     in chain (m68ki_write_16 ea res s) (\<lambda>_ s.
        Ret () (s\<lparr>n_flag := NFLAG_16 res,
          not_z_flag := res,
          c_flag := CFLAG_CLEAR,
          v_flag := VFLAG_CLEAR\<rparr>)))))"

definition m68k_op_not_16_di :: "'b op" where
  "m68k_op_not_16_di s =
    (chain (EA_AY_DI_16 s) (\<lambda>ea s.
     chain (m68ki_read_16 ea s) (\<lambda>v2 s.
     let res = MASK_OUT_ABOVE_16 (NOT v2)
     in chain (m68ki_write_16 ea res s) (\<lambda>_ s.
        Ret () (s\<lparr>n_flag := NFLAG_16 res,
          not_z_flag := res,
          c_flag := CFLAG_CLEAR,
          v_flag := VFLAG_CLEAR\<rparr>)))))"

definition m68k_op_not_16_ix :: "'b op" where
  "m68k_op_not_16_ix s =
    (chain (EA_AY_IX_16 s) (\<lambda>ea s.
     chain (m68ki_read_16 ea s) (\<lambda>v2 s.
     let res = MASK_OUT_ABOVE_16 (NOT v2)
     in chain (m68ki_write_16 ea res s) (\<lambda>_ s.
        Ret () (s\<lparr>n_flag := NFLAG_16 res,
          not_z_flag := res,
          c_flag := CFLAG_CLEAR,
          v_flag := VFLAG_CLEAR\<rparr>)))))"

definition m68k_op_not_16_aw :: "'b op" where
  "m68k_op_not_16_aw s =
    (chain (EA_AW_16 s) (\<lambda>ea s.
     chain (m68ki_read_16 ea s) (\<lambda>v2 s.
     let res = MASK_OUT_ABOVE_16 (NOT v2)
     in chain (m68ki_write_16 ea res s) (\<lambda>_ s.
        Ret () (s\<lparr>n_flag := NFLAG_16 res,
          not_z_flag := res,
          c_flag := CFLAG_CLEAR,
          v_flag := VFLAG_CLEAR\<rparr>)))))"

definition m68k_op_not_16_al :: "'b op" where
  "m68k_op_not_16_al s =
    (chain (EA_AL_16 s) (\<lambda>ea s.
     chain (m68ki_read_16 ea s) (\<lambda>v2 s.
     let res = MASK_OUT_ABOVE_16 (NOT v2)
     in chain (m68ki_write_16 ea res s) (\<lambda>_ s.
        Ret () (s\<lparr>n_flag := NFLAG_16 res,
          not_z_flag := res,
          c_flag := CFLAG_CLEAR,
          v_flag := VFLAG_CLEAR\<rparr>)))))"

definition m68k_op_not_32_d :: "'b op" where
  "m68k_op_not_32_d s =
    (let s = set_DY (MASK_OUT_ABOVE_32 (NOT (DY s))) s;
         res = DY s
     in Ret () (s\<lparr>n_flag := NFLAG_32 res,
          not_z_flag := res,
          c_flag := CFLAG_CLEAR,
          v_flag := VFLAG_CLEAR\<rparr>))"

definition m68k_op_not_32_ai :: "'b op" where
  "m68k_op_not_32_ai s =
    (chain (EA_AY_AI_32 s) (\<lambda>ea s.
     chain (m68ki_read_32 ea s) (\<lambda>v2 s.
     let res = MASK_OUT_ABOVE_32 (NOT v2)
     in chain (m68ki_write_32 ea res s) (\<lambda>_ s.
        Ret () (s\<lparr>n_flag := NFLAG_32 res,
          not_z_flag := res,
          c_flag := CFLAG_CLEAR,
          v_flag := VFLAG_CLEAR\<rparr>)))))"

definition m68k_op_not_32_pi :: "'b op" where
  "m68k_op_not_32_pi s =
    (chain (EA_AY_PI_32 s) (\<lambda>ea s.
     chain (m68ki_read_32 ea s) (\<lambda>v2 s.
     let res = MASK_OUT_ABOVE_32 (NOT v2)
     in chain (m68ki_write_32 ea res s) (\<lambda>_ s.
        Ret () (s\<lparr>n_flag := NFLAG_32 res,
          not_z_flag := res,
          c_flag := CFLAG_CLEAR,
          v_flag := VFLAG_CLEAR\<rparr>)))))"

definition m68k_op_not_32_pd :: "'b op" where
  "m68k_op_not_32_pd s =
    (chain (EA_AY_PD_32 s) (\<lambda>ea s.
     chain (m68ki_read_32 ea s) (\<lambda>v2 s.
     let res = MASK_OUT_ABOVE_32 (NOT v2)
     in chain (m68ki_write_32 ea res s) (\<lambda>_ s.
        Ret () (s\<lparr>n_flag := NFLAG_32 res,
          not_z_flag := res,
          c_flag := CFLAG_CLEAR,
          v_flag := VFLAG_CLEAR\<rparr>)))))"

definition m68k_op_not_32_di :: "'b op" where
  "m68k_op_not_32_di s =
    (chain (EA_AY_DI_32 s) (\<lambda>ea s.
     chain (m68ki_read_32 ea s) (\<lambda>v2 s.
     let res = MASK_OUT_ABOVE_32 (NOT v2)
     in chain (m68ki_write_32 ea res s) (\<lambda>_ s.
        Ret () (s\<lparr>n_flag := NFLAG_32 res,
          not_z_flag := res,
          c_flag := CFLAG_CLEAR,
          v_flag := VFLAG_CLEAR\<rparr>)))))"

definition m68k_op_not_32_ix :: "'b op" where
  "m68k_op_not_32_ix s =
    (chain (EA_AY_IX_32 s) (\<lambda>ea s.
     chain (m68ki_read_32 ea s) (\<lambda>v2 s.
     let res = MASK_OUT_ABOVE_32 (NOT v2)
     in chain (m68ki_write_32 ea res s) (\<lambda>_ s.
        Ret () (s\<lparr>n_flag := NFLAG_32 res,
          not_z_flag := res,
          c_flag := CFLAG_CLEAR,
          v_flag := VFLAG_CLEAR\<rparr>)))))"

definition m68k_op_not_32_aw :: "'b op" where
  "m68k_op_not_32_aw s =
    (chain (EA_AW_32 s) (\<lambda>ea s.
     chain (m68ki_read_32 ea s) (\<lambda>v2 s.
     let res = MASK_OUT_ABOVE_32 (NOT v2)
     in chain (m68ki_write_32 ea res s) (\<lambda>_ s.
        Ret () (s\<lparr>n_flag := NFLAG_32 res,
          not_z_flag := res,
          c_flag := CFLAG_CLEAR,
          v_flag := VFLAG_CLEAR\<rparr>)))))"

definition m68k_op_not_32_al :: "'b op" where
  "m68k_op_not_32_al s =
    (chain (EA_AL_32 s) (\<lambda>ea s.
     chain (m68ki_read_32 ea s) (\<lambda>v2 s.
     let res = MASK_OUT_ABOVE_32 (NOT v2)
     in chain (m68ki_write_32 ea res s) (\<lambda>_ s.
        Ret () (s\<lparr>n_flag := NFLAG_32 res,
          not_z_flag := res,
          c_flag := CFLAG_CLEAR,
          v_flag := VFLAG_CLEAR\<rparr>)))))"

definition m68k_op_or_8_er_d :: "'b op" where
  "m68k_op_or_8_er_d s =
    (let s = set_DX ((DX s) OR (MASK_OUT_ABOVE_8 (DY s))) s;
         res = MASK_OUT_ABOVE_8 (DX s)
     in Ret () (s\<lparr>n_flag := NFLAG_8 res,
          not_z_flag := res,
          c_flag := CFLAG_CLEAR,
          v_flag := VFLAG_CLEAR\<rparr>))"

definition m68k_op_or_8_er_ai :: "'b op" where
  "m68k_op_or_8_er_ai s =
    (chain (OPER_AY_AI_8 s) (\<lambda>v s.
     let s = set_DX ((DX s) OR v) s;
         res = MASK_OUT_ABOVE_8 (DX s)
     in Ret () (s\<lparr>n_flag := NFLAG_8 res,
          not_z_flag := res,
          c_flag := CFLAG_CLEAR,
          v_flag := VFLAG_CLEAR\<rparr>)))"

definition m68k_op_or_8_er_pi :: "'b op" where
  "m68k_op_or_8_er_pi s =
    (chain (OPER_AY_PI_8 s) (\<lambda>v s.
     let s = set_DX ((DX s) OR v) s;
         res = MASK_OUT_ABOVE_8 (DX s)
     in Ret () (s\<lparr>n_flag := NFLAG_8 res,
          not_z_flag := res,
          c_flag := CFLAG_CLEAR,
          v_flag := VFLAG_CLEAR\<rparr>)))"

definition m68k_op_or_8_er_pi7 :: "'b op" where
  "m68k_op_or_8_er_pi7 s =
    (chain (OPER_A7_PI_8 s) (\<lambda>v s.
     let s = set_DX ((DX s) OR v) s;
         res = MASK_OUT_ABOVE_8 (DX s)
     in Ret () (s\<lparr>n_flag := NFLAG_8 res,
          not_z_flag := res,
          c_flag := CFLAG_CLEAR,
          v_flag := VFLAG_CLEAR\<rparr>)))"

definition m68k_op_or_8_er_pd :: "'b op" where
  "m68k_op_or_8_er_pd s =
    (chain (OPER_AY_PD_8 s) (\<lambda>v s.
     let s = set_DX ((DX s) OR v) s;
         res = MASK_OUT_ABOVE_8 (DX s)
     in Ret () (s\<lparr>n_flag := NFLAG_8 res,
          not_z_flag := res,
          c_flag := CFLAG_CLEAR,
          v_flag := VFLAG_CLEAR\<rparr>)))"

definition m68k_op_or_8_er_pd7 :: "'b op" where
  "m68k_op_or_8_er_pd7 s =
    (chain (OPER_A7_PD_8 s) (\<lambda>v s.
     let s = set_DX ((DX s) OR v) s;
         res = MASK_OUT_ABOVE_8 (DX s)
     in Ret () (s\<lparr>n_flag := NFLAG_8 res,
          not_z_flag := res,
          c_flag := CFLAG_CLEAR,
          v_flag := VFLAG_CLEAR\<rparr>)))"

definition m68k_op_or_8_er_di :: "'b op" where
  "m68k_op_or_8_er_di s =
    (chain (OPER_AY_DI_8 s) (\<lambda>v s.
     let s = set_DX ((DX s) OR v) s;
         res = MASK_OUT_ABOVE_8 (DX s)
     in Ret () (s\<lparr>n_flag := NFLAG_8 res,
          not_z_flag := res,
          c_flag := CFLAG_CLEAR,
          v_flag := VFLAG_CLEAR\<rparr>)))"

definition m68k_op_or_8_er_ix :: "'b op" where
  "m68k_op_or_8_er_ix s =
    (chain (OPER_AY_IX_8 s) (\<lambda>v s.
     let s = set_DX ((DX s) OR v) s;
         res = MASK_OUT_ABOVE_8 (DX s)
     in Ret () (s\<lparr>n_flag := NFLAG_8 res,
          not_z_flag := res,
          c_flag := CFLAG_CLEAR,
          v_flag := VFLAG_CLEAR\<rparr>)))"

definition m68k_op_or_8_er_aw :: "'b op" where
  "m68k_op_or_8_er_aw s =
    (chain (OPER_AW_8 s) (\<lambda>v s.
     let s = set_DX ((DX s) OR v) s;
         res = MASK_OUT_ABOVE_8 (DX s)
     in Ret () (s\<lparr>n_flag := NFLAG_8 res,
          not_z_flag := res,
          c_flag := CFLAG_CLEAR,
          v_flag := VFLAG_CLEAR\<rparr>)))"

definition m68k_op_or_8_er_al :: "'b op" where
  "m68k_op_or_8_er_al s =
    (chain (OPER_AL_8 s) (\<lambda>v s.
     let s = set_DX ((DX s) OR v) s;
         res = MASK_OUT_ABOVE_8 (DX s)
     in Ret () (s\<lparr>n_flag := NFLAG_8 res,
          not_z_flag := res,
          c_flag := CFLAG_CLEAR,
          v_flag := VFLAG_CLEAR\<rparr>)))"

definition m68k_op_or_8_er_pcdi :: "'b op" where
  "m68k_op_or_8_er_pcdi s =
    (chain (OPER_PCDI_8 s) (\<lambda>v s.
     let s = set_DX ((DX s) OR v) s;
         res = MASK_OUT_ABOVE_8 (DX s)
     in Ret () (s\<lparr>n_flag := NFLAG_8 res,
          not_z_flag := res,
          c_flag := CFLAG_CLEAR,
          v_flag := VFLAG_CLEAR\<rparr>)))"

definition m68k_op_or_8_er_pcix :: "'b op" where
  "m68k_op_or_8_er_pcix s =
    (chain (OPER_PCIX_8 s) (\<lambda>v s.
     let s = set_DX ((DX s) OR v) s;
         res = MASK_OUT_ABOVE_8 (DX s)
     in Ret () (s\<lparr>n_flag := NFLAG_8 res,
          not_z_flag := res,
          c_flag := CFLAG_CLEAR,
          v_flag := VFLAG_CLEAR\<rparr>)))"

definition m68k_op_or_8_er_i :: "'b op" where
  "m68k_op_or_8_er_i s =
    (chain (OPER_I_8 s) (\<lambda>v s.
     let s = set_DX ((DX s) OR v) s;
         res = MASK_OUT_ABOVE_8 (DX s)
     in Ret () (s\<lparr>n_flag := NFLAG_8 res,
          not_z_flag := res,
          c_flag := CFLAG_CLEAR,
          v_flag := VFLAG_CLEAR\<rparr>)))"

definition m68k_op_or_16_er_d :: "'b op" where
  "m68k_op_or_16_er_d s =
    (let s = set_DX ((DX s) OR (MASK_OUT_ABOVE_16 (DY s))) s;
         res = MASK_OUT_ABOVE_16 (DX s)
     in Ret () (s\<lparr>n_flag := NFLAG_16 res,
          not_z_flag := res,
          c_flag := CFLAG_CLEAR,
          v_flag := VFLAG_CLEAR\<rparr>))"

definition m68k_op_or_16_er_ai :: "'b op" where
  "m68k_op_or_16_er_ai s =
    (chain (OPER_AY_AI_16 s) (\<lambda>v s.
     let s = set_DX ((DX s) OR v) s;
         res = MASK_OUT_ABOVE_16 (DX s)
     in Ret () (s\<lparr>n_flag := NFLAG_16 res,
          not_z_flag := res,
          c_flag := CFLAG_CLEAR,
          v_flag := VFLAG_CLEAR\<rparr>)))"

definition m68k_op_or_16_er_pi :: "'b op" where
  "m68k_op_or_16_er_pi s =
    (chain (OPER_AY_PI_16 s) (\<lambda>v s.
     let s = set_DX ((DX s) OR v) s;
         res = MASK_OUT_ABOVE_16 (DX s)
     in Ret () (s\<lparr>n_flag := NFLAG_16 res,
          not_z_flag := res,
          c_flag := CFLAG_CLEAR,
          v_flag := VFLAG_CLEAR\<rparr>)))"

definition m68k_op_or_16_er_pd :: "'b op" where
  "m68k_op_or_16_er_pd s =
    (chain (OPER_AY_PD_16 s) (\<lambda>v s.
     let s = set_DX ((DX s) OR v) s;
         res = MASK_OUT_ABOVE_16 (DX s)
     in Ret () (s\<lparr>n_flag := NFLAG_16 res,
          not_z_flag := res,
          c_flag := CFLAG_CLEAR,
          v_flag := VFLAG_CLEAR\<rparr>)))"

definition m68k_op_or_16_er_di :: "'b op" where
  "m68k_op_or_16_er_di s =
    (chain (OPER_AY_DI_16 s) (\<lambda>v s.
     let s = set_DX ((DX s) OR v) s;
         res = MASK_OUT_ABOVE_16 (DX s)
     in Ret () (s\<lparr>n_flag := NFLAG_16 res,
          not_z_flag := res,
          c_flag := CFLAG_CLEAR,
          v_flag := VFLAG_CLEAR\<rparr>)))"

definition m68k_op_or_16_er_ix :: "'b op" where
  "m68k_op_or_16_er_ix s =
    (chain (OPER_AY_IX_16 s) (\<lambda>v s.
     let s = set_DX ((DX s) OR v) s;
         res = MASK_OUT_ABOVE_16 (DX s)
     in Ret () (s\<lparr>n_flag := NFLAG_16 res,
          not_z_flag := res,
          c_flag := CFLAG_CLEAR,
          v_flag := VFLAG_CLEAR\<rparr>)))"

definition m68k_op_or_16_er_aw :: "'b op" where
  "m68k_op_or_16_er_aw s =
    (chain (OPER_AW_16 s) (\<lambda>v s.
     let s = set_DX ((DX s) OR v) s;
         res = MASK_OUT_ABOVE_16 (DX s)
     in Ret () (s\<lparr>n_flag := NFLAG_16 res,
          not_z_flag := res,
          c_flag := CFLAG_CLEAR,
          v_flag := VFLAG_CLEAR\<rparr>)))"

definition m68k_op_or_16_er_al :: "'b op" where
  "m68k_op_or_16_er_al s =
    (chain (OPER_AL_16 s) (\<lambda>v s.
     let s = set_DX ((DX s) OR v) s;
         res = MASK_OUT_ABOVE_16 (DX s)
     in Ret () (s\<lparr>n_flag := NFLAG_16 res,
          not_z_flag := res,
          c_flag := CFLAG_CLEAR,
          v_flag := VFLAG_CLEAR\<rparr>)))"

definition m68k_op_or_16_er_pcdi :: "'b op" where
  "m68k_op_or_16_er_pcdi s =
    (chain (OPER_PCDI_16 s) (\<lambda>v s.
     let s = set_DX ((DX s) OR v) s;
         res = MASK_OUT_ABOVE_16 (DX s)
     in Ret () (s\<lparr>n_flag := NFLAG_16 res,
          not_z_flag := res,
          c_flag := CFLAG_CLEAR,
          v_flag := VFLAG_CLEAR\<rparr>)))"

definition m68k_op_or_16_er_pcix :: "'b op" where
  "m68k_op_or_16_er_pcix s =
    (chain (OPER_PCIX_16 s) (\<lambda>v s.
     let s = set_DX ((DX s) OR v) s;
         res = MASK_OUT_ABOVE_16 (DX s)
     in Ret () (s\<lparr>n_flag := NFLAG_16 res,
          not_z_flag := res,
          c_flag := CFLAG_CLEAR,
          v_flag := VFLAG_CLEAR\<rparr>)))"

definition m68k_op_or_16_er_i :: "'b op" where
  "m68k_op_or_16_er_i s =
    (chain (OPER_I_16 s) (\<lambda>v s.
     let s = set_DX ((DX s) OR v) s;
         res = MASK_OUT_ABOVE_16 (DX s)
     in Ret () (s\<lparr>n_flag := NFLAG_16 res,
          not_z_flag := res,
          c_flag := CFLAG_CLEAR,
          v_flag := VFLAG_CLEAR\<rparr>)))"

definition m68k_op_or_32_er_d :: "'b op" where
  "m68k_op_or_32_er_d s =
    (let s = set_DX ((DX s) OR (DY s)) s;
         res = DX s
     in Ret () (s\<lparr>n_flag := NFLAG_32 res,
          not_z_flag := res,
          c_flag := CFLAG_CLEAR,
          v_flag := VFLAG_CLEAR\<rparr>))"

definition m68k_op_or_32_er_ai :: "'b op" where
  "m68k_op_or_32_er_ai s =
    (chain (OPER_AY_AI_32 s) (\<lambda>v s.
     let s = set_DX ((DX s) OR v) s;
         res = DX s
     in Ret () (s\<lparr>n_flag := NFLAG_32 res,
          not_z_flag := res,
          c_flag := CFLAG_CLEAR,
          v_flag := VFLAG_CLEAR\<rparr>)))"

definition m68k_op_or_32_er_pi :: "'b op" where
  "m68k_op_or_32_er_pi s =
    (chain (OPER_AY_PI_32 s) (\<lambda>v s.
     let s = set_DX ((DX s) OR v) s;
         res = DX s
     in Ret () (s\<lparr>n_flag := NFLAG_32 res,
          not_z_flag := res,
          c_flag := CFLAG_CLEAR,
          v_flag := VFLAG_CLEAR\<rparr>)))"

definition m68k_op_or_32_er_pd :: "'b op" where
  "m68k_op_or_32_er_pd s =
    (chain (OPER_AY_PD_32 s) (\<lambda>v s.
     let s = set_DX ((DX s) OR v) s;
         res = DX s
     in Ret () (s\<lparr>n_flag := NFLAG_32 res,
          not_z_flag := res,
          c_flag := CFLAG_CLEAR,
          v_flag := VFLAG_CLEAR\<rparr>)))"

definition m68k_op_or_32_er_di :: "'b op" where
  "m68k_op_or_32_er_di s =
    (chain (OPER_AY_DI_32 s) (\<lambda>v s.
     let s = set_DX ((DX s) OR v) s;
         res = DX s
     in Ret () (s\<lparr>n_flag := NFLAG_32 res,
          not_z_flag := res,
          c_flag := CFLAG_CLEAR,
          v_flag := VFLAG_CLEAR\<rparr>)))"

definition m68k_op_or_32_er_ix :: "'b op" where
  "m68k_op_or_32_er_ix s =
    (chain (OPER_AY_IX_32 s) (\<lambda>v s.
     let s = set_DX ((DX s) OR v) s;
         res = DX s
     in Ret () (s\<lparr>n_flag := NFLAG_32 res,
          not_z_flag := res,
          c_flag := CFLAG_CLEAR,
          v_flag := VFLAG_CLEAR\<rparr>)))"

definition m68k_op_or_32_er_aw :: "'b op" where
  "m68k_op_or_32_er_aw s =
    (chain (OPER_AW_32 s) (\<lambda>v s.
     let s = set_DX ((DX s) OR v) s;
         res = DX s
     in Ret () (s\<lparr>n_flag := NFLAG_32 res,
          not_z_flag := res,
          c_flag := CFLAG_CLEAR,
          v_flag := VFLAG_CLEAR\<rparr>)))"

definition m68k_op_or_32_er_al :: "'b op" where
  "m68k_op_or_32_er_al s =
    (chain (OPER_AL_32 s) (\<lambda>v s.
     let s = set_DX ((DX s) OR v) s;
         res = DX s
     in Ret () (s\<lparr>n_flag := NFLAG_32 res,
          not_z_flag := res,
          c_flag := CFLAG_CLEAR,
          v_flag := VFLAG_CLEAR\<rparr>)))"

definition m68k_op_or_32_er_pcdi :: "'b op" where
  "m68k_op_or_32_er_pcdi s =
    (chain (OPER_PCDI_32 s) (\<lambda>v s.
     let s = set_DX ((DX s) OR v) s;
         res = DX s
     in Ret () (s\<lparr>n_flag := NFLAG_32 res,
          not_z_flag := res,
          c_flag := CFLAG_CLEAR,
          v_flag := VFLAG_CLEAR\<rparr>)))"

definition m68k_op_or_32_er_pcix :: "'b op" where
  "m68k_op_or_32_er_pcix s =
    (chain (OPER_PCIX_32 s) (\<lambda>v s.
     let s = set_DX ((DX s) OR v) s;
         res = DX s
     in Ret () (s\<lparr>n_flag := NFLAG_32 res,
          not_z_flag := res,
          c_flag := CFLAG_CLEAR,
          v_flag := VFLAG_CLEAR\<rparr>)))"

definition m68k_op_or_32_er_i :: "'b op" where
  "m68k_op_or_32_er_i s =
    (chain (OPER_I_32 s) (\<lambda>v s.
     let s = set_DX ((DX s) OR v) s;
         res = DX s
     in Ret () (s\<lparr>n_flag := NFLAG_32 res,
          not_z_flag := res,
          c_flag := CFLAG_CLEAR,
          v_flag := VFLAG_CLEAR\<rparr>)))"

definition m68k_op_or_8_re_ai :: "'b op" where
  "m68k_op_or_8_re_ai s =
    (chain (EA_AY_AI_8 s) (\<lambda>ea s.
     chain (m68ki_read_8 ea s) (\<lambda>v2 s.
     let res = MASK_OUT_ABOVE_8 (DX s OR v2)
     in chain (m68ki_write_8 ea res s) (\<lambda>_ s.
        Ret () (s\<lparr>n_flag := NFLAG_8 res,
          not_z_flag := res,
          c_flag := CFLAG_CLEAR,
          v_flag := VFLAG_CLEAR\<rparr>)))))"

definition m68k_op_or_8_re_pi :: "'b op" where
  "m68k_op_or_8_re_pi s =
    (chain (EA_AY_PI_8 s) (\<lambda>ea s.
     chain (m68ki_read_8 ea s) (\<lambda>v2 s.
     let res = MASK_OUT_ABOVE_8 (DX s OR v2)
     in chain (m68ki_write_8 ea res s) (\<lambda>_ s.
        Ret () (s\<lparr>n_flag := NFLAG_8 res,
          not_z_flag := res,
          c_flag := CFLAG_CLEAR,
          v_flag := VFLAG_CLEAR\<rparr>)))))"

definition m68k_op_or_8_re_pi7 :: "'b op" where
  "m68k_op_or_8_re_pi7 s =
    (chain (EA_A7_PI_8 s) (\<lambda>ea s.
     chain (m68ki_read_8 ea s) (\<lambda>v2 s.
     let res = MASK_OUT_ABOVE_8 (DX s OR v2)
     in chain (m68ki_write_8 ea res s) (\<lambda>_ s.
        Ret () (s\<lparr>n_flag := NFLAG_8 res,
          not_z_flag := res,
          c_flag := CFLAG_CLEAR,
          v_flag := VFLAG_CLEAR\<rparr>)))))"

definition m68k_op_or_8_re_pd :: "'b op" where
  "m68k_op_or_8_re_pd s =
    (chain (EA_AY_PD_8 s) (\<lambda>ea s.
     chain (m68ki_read_8 ea s) (\<lambda>v2 s.
     let res = MASK_OUT_ABOVE_8 (DX s OR v2)
     in chain (m68ki_write_8 ea res s) (\<lambda>_ s.
        Ret () (s\<lparr>n_flag := NFLAG_8 res,
          not_z_flag := res,
          c_flag := CFLAG_CLEAR,
          v_flag := VFLAG_CLEAR\<rparr>)))))"

definition m68k_op_or_8_re_pd7 :: "'b op" where
  "m68k_op_or_8_re_pd7 s =
    (chain (EA_A7_PD_8 s) (\<lambda>ea s.
     chain (m68ki_read_8 ea s) (\<lambda>v2 s.
     let res = MASK_OUT_ABOVE_8 (DX s OR v2)
     in chain (m68ki_write_8 ea res s) (\<lambda>_ s.
        Ret () (s\<lparr>n_flag := NFLAG_8 res,
          not_z_flag := res,
          c_flag := CFLAG_CLEAR,
          v_flag := VFLAG_CLEAR\<rparr>)))))"

definition m68k_op_or_8_re_di :: "'b op" where
  "m68k_op_or_8_re_di s =
    (chain (EA_AY_DI_8 s) (\<lambda>ea s.
     chain (m68ki_read_8 ea s) (\<lambda>v2 s.
     let res = MASK_OUT_ABOVE_8 (DX s OR v2)
     in chain (m68ki_write_8 ea res s) (\<lambda>_ s.
        Ret () (s\<lparr>n_flag := NFLAG_8 res,
          not_z_flag := res,
          c_flag := CFLAG_CLEAR,
          v_flag := VFLAG_CLEAR\<rparr>)))))"

definition m68k_op_or_8_re_ix :: "'b op" where
  "m68k_op_or_8_re_ix s =
    (chain (EA_AY_IX_8 s) (\<lambda>ea s.
     chain (m68ki_read_8 ea s) (\<lambda>v2 s.
     let res = MASK_OUT_ABOVE_8 (DX s OR v2)
     in chain (m68ki_write_8 ea res s) (\<lambda>_ s.
        Ret () (s\<lparr>n_flag := NFLAG_8 res,
          not_z_flag := res,
          c_flag := CFLAG_CLEAR,
          v_flag := VFLAG_CLEAR\<rparr>)))))"

definition m68k_op_or_8_re_aw :: "'b op" where
  "m68k_op_or_8_re_aw s =
    (chain (EA_AW_8 s) (\<lambda>ea s.
     chain (m68ki_read_8 ea s) (\<lambda>v2 s.
     let res = MASK_OUT_ABOVE_8 (DX s OR v2)
     in chain (m68ki_write_8 ea res s) (\<lambda>_ s.
        Ret () (s\<lparr>n_flag := NFLAG_8 res,
          not_z_flag := res,
          c_flag := CFLAG_CLEAR,
          v_flag := VFLAG_CLEAR\<rparr>)))))"

definition m68k_op_or_8_re_al :: "'b op" where
  "m68k_op_or_8_re_al s =
    (chain (EA_AL_8 s) (\<lambda>ea s.
     chain (m68ki_read_8 ea s) (\<lambda>v2 s.
     let res = MASK_OUT_ABOVE_8 (DX s OR v2)
     in chain (m68ki_write_8 ea res s) (\<lambda>_ s.
        Ret () (s\<lparr>n_flag := NFLAG_8 res,
          not_z_flag := res,
          c_flag := CFLAG_CLEAR,
          v_flag := VFLAG_CLEAR\<rparr>)))))"

definition m68k_op_or_16_re_ai :: "'b op" where
  "m68k_op_or_16_re_ai s =
    (chain (EA_AY_AI_16 s) (\<lambda>ea s.
     chain (m68ki_read_16 ea s) (\<lambda>v2 s.
     let res = MASK_OUT_ABOVE_16 (DX s OR v2)
     in chain (m68ki_write_16 ea res s) (\<lambda>_ s.
        Ret () (s\<lparr>n_flag := NFLAG_16 res,
          not_z_flag := res,
          c_flag := CFLAG_CLEAR,
          v_flag := VFLAG_CLEAR\<rparr>)))))"

definition m68k_op_or_16_re_pi :: "'b op" where
  "m68k_op_or_16_re_pi s =
    (chain (EA_AY_PI_16 s) (\<lambda>ea s.
     chain (m68ki_read_16 ea s) (\<lambda>v2 s.
     let res = MASK_OUT_ABOVE_16 (DX s OR v2)
     in chain (m68ki_write_16 ea res s) (\<lambda>_ s.
        Ret () (s\<lparr>n_flag := NFLAG_16 res,
          not_z_flag := res,
          c_flag := CFLAG_CLEAR,
          v_flag := VFLAG_CLEAR\<rparr>)))))"

definition m68k_op_or_16_re_pd :: "'b op" where
  "m68k_op_or_16_re_pd s =
    (chain (EA_AY_PD_16 s) (\<lambda>ea s.
     chain (m68ki_read_16 ea s) (\<lambda>v2 s.
     let res = MASK_OUT_ABOVE_16 (DX s OR v2)
     in chain (m68ki_write_16 ea res s) (\<lambda>_ s.
        Ret () (s\<lparr>n_flag := NFLAG_16 res,
          not_z_flag := res,
          c_flag := CFLAG_CLEAR,
          v_flag := VFLAG_CLEAR\<rparr>)))))"

definition m68k_op_or_16_re_di :: "'b op" where
  "m68k_op_or_16_re_di s =
    (chain (EA_AY_DI_16 s) (\<lambda>ea s.
     chain (m68ki_read_16 ea s) (\<lambda>v2 s.
     let res = MASK_OUT_ABOVE_16 (DX s OR v2)
     in chain (m68ki_write_16 ea res s) (\<lambda>_ s.
        Ret () (s\<lparr>n_flag := NFLAG_16 res,
          not_z_flag := res,
          c_flag := CFLAG_CLEAR,
          v_flag := VFLAG_CLEAR\<rparr>)))))"

definition m68k_op_or_16_re_ix :: "'b op" where
  "m68k_op_or_16_re_ix s =
    (chain (EA_AY_IX_16 s) (\<lambda>ea s.
     chain (m68ki_read_16 ea s) (\<lambda>v2 s.
     let res = MASK_OUT_ABOVE_16 (DX s OR v2)
     in chain (m68ki_write_16 ea res s) (\<lambda>_ s.
        Ret () (s\<lparr>n_flag := NFLAG_16 res,
          not_z_flag := res,
          c_flag := CFLAG_CLEAR,
          v_flag := VFLAG_CLEAR\<rparr>)))))"

definition m68k_op_or_16_re_aw :: "'b op" where
  "m68k_op_or_16_re_aw s =
    (chain (EA_AW_16 s) (\<lambda>ea s.
     chain (m68ki_read_16 ea s) (\<lambda>v2 s.
     let res = MASK_OUT_ABOVE_16 (DX s OR v2)
     in chain (m68ki_write_16 ea res s) (\<lambda>_ s.
        Ret () (s\<lparr>n_flag := NFLAG_16 res,
          not_z_flag := res,
          c_flag := CFLAG_CLEAR,
          v_flag := VFLAG_CLEAR\<rparr>)))))"

definition m68k_op_or_16_re_al :: "'b op" where
  "m68k_op_or_16_re_al s =
    (chain (EA_AL_16 s) (\<lambda>ea s.
     chain (m68ki_read_16 ea s) (\<lambda>v2 s.
     let res = MASK_OUT_ABOVE_16 (DX s OR v2)
     in chain (m68ki_write_16 ea res s) (\<lambda>_ s.
        Ret () (s\<lparr>n_flag := NFLAG_16 res,
          not_z_flag := res,
          c_flag := CFLAG_CLEAR,
          v_flag := VFLAG_CLEAR\<rparr>)))))"

definition m68k_op_or_32_re_ai :: "'b op" where
  "m68k_op_or_32_re_ai s =
    (chain (EA_AY_AI_32 s) (\<lambda>ea s.
     chain (m68ki_read_32 ea s) (\<lambda>v2 s.
     let res = DX s OR v2
     in chain (m68ki_write_32 ea res s) (\<lambda>_ s.
        Ret () (s\<lparr>n_flag := NFLAG_32 res,
          not_z_flag := res,
          c_flag := CFLAG_CLEAR,
          v_flag := VFLAG_CLEAR\<rparr>)))))"

definition m68k_op_or_32_re_pi :: "'b op" where
  "m68k_op_or_32_re_pi s =
    (chain (EA_AY_PI_32 s) (\<lambda>ea s.
     chain (m68ki_read_32 ea s) (\<lambda>v2 s.
     let res = DX s OR v2
     in chain (m68ki_write_32 ea res s) (\<lambda>_ s.
        Ret () (s\<lparr>n_flag := NFLAG_32 res,
          not_z_flag := res,
          c_flag := CFLAG_CLEAR,
          v_flag := VFLAG_CLEAR\<rparr>)))))"

definition m68k_op_or_32_re_pd :: "'b op" where
  "m68k_op_or_32_re_pd s =
    (chain (EA_AY_PD_32 s) (\<lambda>ea s.
     chain (m68ki_read_32 ea s) (\<lambda>v2 s.
     let res = DX s OR v2
     in chain (m68ki_write_32 ea res s) (\<lambda>_ s.
        Ret () (s\<lparr>n_flag := NFLAG_32 res,
          not_z_flag := res,
          c_flag := CFLAG_CLEAR,
          v_flag := VFLAG_CLEAR\<rparr>)))))"

definition m68k_op_or_32_re_di :: "'b op" where
  "m68k_op_or_32_re_di s =
    (chain (EA_AY_DI_32 s) (\<lambda>ea s.
     chain (m68ki_read_32 ea s) (\<lambda>v2 s.
     let res = DX s OR v2
     in chain (m68ki_write_32 ea res s) (\<lambda>_ s.
        Ret () (s\<lparr>n_flag := NFLAG_32 res,
          not_z_flag := res,
          c_flag := CFLAG_CLEAR,
          v_flag := VFLAG_CLEAR\<rparr>)))))"

definition m68k_op_or_32_re_ix :: "'b op" where
  "m68k_op_or_32_re_ix s =
    (chain (EA_AY_IX_32 s) (\<lambda>ea s.
     chain (m68ki_read_32 ea s) (\<lambda>v2 s.
     let res = DX s OR v2
     in chain (m68ki_write_32 ea res s) (\<lambda>_ s.
        Ret () (s\<lparr>n_flag := NFLAG_32 res,
          not_z_flag := res,
          c_flag := CFLAG_CLEAR,
          v_flag := VFLAG_CLEAR\<rparr>)))))"

definition m68k_op_or_32_re_aw :: "'b op" where
  "m68k_op_or_32_re_aw s =
    (chain (EA_AW_32 s) (\<lambda>ea s.
     chain (m68ki_read_32 ea s) (\<lambda>v2 s.
     let res = DX s OR v2
     in chain (m68ki_write_32 ea res s) (\<lambda>_ s.
        Ret () (s\<lparr>n_flag := NFLAG_32 res,
          not_z_flag := res,
          c_flag := CFLAG_CLEAR,
          v_flag := VFLAG_CLEAR\<rparr>)))))"

definition m68k_op_or_32_re_al :: "'b op" where
  "m68k_op_or_32_re_al s =
    (chain (EA_AL_32 s) (\<lambda>ea s.
     chain (m68ki_read_32 ea s) (\<lambda>v2 s.
     let res = DX s OR v2
     in chain (m68ki_write_32 ea res s) (\<lambda>_ s.
        Ret () (s\<lparr>n_flag := NFLAG_32 res,
          not_z_flag := res,
          c_flag := CFLAG_CLEAR,
          v_flag := VFLAG_CLEAR\<rparr>)))))"

definition m68k_op_ori_8_d :: "'b op" where
  "m68k_op_ori_8_d s =
    (chain (OPER_I_8 s) (\<lambda>v s.
     let s = set_DY ((DY s) OR v) s;
         res = MASK_OUT_ABOVE_8 (DY s)
     in Ret () (s\<lparr>n_flag := NFLAG_8 res,
          not_z_flag := res,
          c_flag := CFLAG_CLEAR,
          v_flag := VFLAG_CLEAR\<rparr>)))"

definition m68k_op_ori_8_ai :: "'b op" where
  "m68k_op_ori_8_ai s =
    (chain (OPER_I_8 s) (\<lambda>src s.
     chain (EA_AY_AI_8 s) (\<lambda>ea s.
     chain (m68ki_read_8 ea s) (\<lambda>v3 s.
     let res = MASK_OUT_ABOVE_8 (src OR v3)
     in chain (m68ki_write_8 ea res s) (\<lambda>_ s.
        Ret () (s\<lparr>n_flag := NFLAG_8 res,
          not_z_flag := res,
          c_flag := CFLAG_CLEAR,
          v_flag := VFLAG_CLEAR\<rparr>))))))"

definition m68k_op_ori_8_pi :: "'b op" where
  "m68k_op_ori_8_pi s =
    (chain (OPER_I_8 s) (\<lambda>src s.
     chain (EA_AY_PI_8 s) (\<lambda>ea s.
     chain (m68ki_read_8 ea s) (\<lambda>v3 s.
     let res = MASK_OUT_ABOVE_8 (src OR v3)
     in chain (m68ki_write_8 ea res s) (\<lambda>_ s.
        Ret () (s\<lparr>n_flag := NFLAG_8 res,
          not_z_flag := res,
          c_flag := CFLAG_CLEAR,
          v_flag := VFLAG_CLEAR\<rparr>))))))"

definition m68k_op_ori_8_pi7 :: "'b op" where
  "m68k_op_ori_8_pi7 s =
    (chain (OPER_I_8 s) (\<lambda>src s.
     chain (EA_A7_PI_8 s) (\<lambda>ea s.
     chain (m68ki_read_8 ea s) (\<lambda>v3 s.
     let res = MASK_OUT_ABOVE_8 (src OR v3)
     in chain (m68ki_write_8 ea res s) (\<lambda>_ s.
        Ret () (s\<lparr>n_flag := NFLAG_8 res,
          not_z_flag := res,
          c_flag := CFLAG_CLEAR,
          v_flag := VFLAG_CLEAR\<rparr>))))))"

definition m68k_op_ori_8_pd :: "'b op" where
  "m68k_op_ori_8_pd s =
    (chain (OPER_I_8 s) (\<lambda>src s.
     chain (EA_AY_PD_8 s) (\<lambda>ea s.
     chain (m68ki_read_8 ea s) (\<lambda>v3 s.
     let res = MASK_OUT_ABOVE_8 (src OR v3)
     in chain (m68ki_write_8 ea res s) (\<lambda>_ s.
        Ret () (s\<lparr>n_flag := NFLAG_8 res,
          not_z_flag := res,
          c_flag := CFLAG_CLEAR,
          v_flag := VFLAG_CLEAR\<rparr>))))))"

definition m68k_op_ori_8_pd7 :: "'b op" where
  "m68k_op_ori_8_pd7 s =
    (chain (OPER_I_8 s) (\<lambda>src s.
     chain (EA_A7_PD_8 s) (\<lambda>ea s.
     chain (m68ki_read_8 ea s) (\<lambda>v3 s.
     let res = MASK_OUT_ABOVE_8 (src OR v3)
     in chain (m68ki_write_8 ea res s) (\<lambda>_ s.
        Ret () (s\<lparr>n_flag := NFLAG_8 res,
          not_z_flag := res,
          c_flag := CFLAG_CLEAR,
          v_flag := VFLAG_CLEAR\<rparr>))))))"

definition m68k_op_ori_8_di :: "'b op" where
  "m68k_op_ori_8_di s =
    (chain (OPER_I_8 s) (\<lambda>src s.
     chain (EA_AY_DI_8 s) (\<lambda>ea s.
     chain (m68ki_read_8 ea s) (\<lambda>v3 s.
     let res = MASK_OUT_ABOVE_8 (src OR v3)
     in chain (m68ki_write_8 ea res s) (\<lambda>_ s.
        Ret () (s\<lparr>n_flag := NFLAG_8 res,
          not_z_flag := res,
          c_flag := CFLAG_CLEAR,
          v_flag := VFLAG_CLEAR\<rparr>))))))"

definition m68k_op_ori_8_ix :: "'b op" where
  "m68k_op_ori_8_ix s =
    (chain (OPER_I_8 s) (\<lambda>src s.
     chain (EA_AY_IX_8 s) (\<lambda>ea s.
     chain (m68ki_read_8 ea s) (\<lambda>v3 s.
     let res = MASK_OUT_ABOVE_8 (src OR v3)
     in chain (m68ki_write_8 ea res s) (\<lambda>_ s.
        Ret () (s\<lparr>n_flag := NFLAG_8 res,
          not_z_flag := res,
          c_flag := CFLAG_CLEAR,
          v_flag := VFLAG_CLEAR\<rparr>))))))"

definition m68k_op_ori_8_aw :: "'b op" where
  "m68k_op_ori_8_aw s =
    (chain (OPER_I_8 s) (\<lambda>src s.
     chain (EA_AW_8 s) (\<lambda>ea s.
     chain (m68ki_read_8 ea s) (\<lambda>v3 s.
     let res = MASK_OUT_ABOVE_8 (src OR v3)
     in chain (m68ki_write_8 ea res s) (\<lambda>_ s.
        Ret () (s\<lparr>n_flag := NFLAG_8 res,
          not_z_flag := res,
          c_flag := CFLAG_CLEAR,
          v_flag := VFLAG_CLEAR\<rparr>))))))"

definition m68k_op_ori_8_al :: "'b op" where
  "m68k_op_ori_8_al s =
    (chain (OPER_I_8 s) (\<lambda>src s.
     chain (EA_AL_8 s) (\<lambda>ea s.
     chain (m68ki_read_8 ea s) (\<lambda>v3 s.
     let res = MASK_OUT_ABOVE_8 (src OR v3)
     in chain (m68ki_write_8 ea res s) (\<lambda>_ s.
        Ret () (s\<lparr>n_flag := NFLAG_8 res,
          not_z_flag := res,
          c_flag := CFLAG_CLEAR,
          v_flag := VFLAG_CLEAR\<rparr>))))))"

definition m68k_op_ori_16_d :: "'b op" where
  "m68k_op_ori_16_d s =
    (chain (OPER_I_16 s) (\<lambda>v s.
     let s = set_DY ((DY s) OR v) s;
         res = MASK_OUT_ABOVE_16 (DY s)
     in Ret () (s\<lparr>n_flag := NFLAG_16 res,
          not_z_flag := res,
          c_flag := CFLAG_CLEAR,
          v_flag := VFLAG_CLEAR\<rparr>)))"

definition m68k_op_ori_16_ai :: "'b op" where
  "m68k_op_ori_16_ai s =
    (chain (OPER_I_16 s) (\<lambda>src s.
     chain (EA_AY_AI_16 s) (\<lambda>ea s.
     chain (m68ki_read_16 ea s) (\<lambda>v3 s.
     let res = MASK_OUT_ABOVE_16 (src OR v3)
     in chain (m68ki_write_16 ea res s) (\<lambda>_ s.
        Ret () (s\<lparr>n_flag := NFLAG_16 res,
          not_z_flag := res,
          c_flag := CFLAG_CLEAR,
          v_flag := VFLAG_CLEAR\<rparr>))))))"

definition m68k_op_ori_16_pi :: "'b op" where
  "m68k_op_ori_16_pi s =
    (chain (OPER_I_16 s) (\<lambda>src s.
     chain (EA_AY_PI_16 s) (\<lambda>ea s.
     chain (m68ki_read_16 ea s) (\<lambda>v3 s.
     let res = MASK_OUT_ABOVE_16 (src OR v3)
     in chain (m68ki_write_16 ea res s) (\<lambda>_ s.
        Ret () (s\<lparr>n_flag := NFLAG_16 res,
          not_z_flag := res,
          c_flag := CFLAG_CLEAR,
          v_flag := VFLAG_CLEAR\<rparr>))))))"

definition m68k_op_ori_16_pd :: "'b op" where
  "m68k_op_ori_16_pd s =
    (chain (OPER_I_16 s) (\<lambda>src s.
     chain (EA_AY_PD_16 s) (\<lambda>ea s.
     chain (m68ki_read_16 ea s) (\<lambda>v3 s.
     let res = MASK_OUT_ABOVE_16 (src OR v3)
     in chain (m68ki_write_16 ea res s) (\<lambda>_ s.
        Ret () (s\<lparr>n_flag := NFLAG_16 res,
          not_z_flag := res,
          c_flag := CFLAG_CLEAR,
          v_flag := VFLAG_CLEAR\<rparr>))))))"

definition m68k_op_ori_16_di :: "'b op" where
  "m68k_op_ori_16_di s =
    (chain (OPER_I_16 s) (\<lambda>src s.
     chain (EA_AY_DI_16 s) (\<lambda>ea s.
     chain (m68ki_read_16 ea s) (\<lambda>v3 s.
     let res = MASK_OUT_ABOVE_16 (src OR v3)
     in chain (m68ki_write_16 ea res s) (\<lambda>_ s.
        Ret () (s\<lparr>n_flag := NFLAG_16 res,
          not_z_flag := res,
          c_flag := CFLAG_CLEAR,
          v_flag := VFLAG_CLEAR\<rparr>))))))"

definition m68k_op_ori_16_ix :: "'b op" where
  "m68k_op_ori_16_ix s =
    (chain (OPER_I_16 s) (\<lambda>src s.
     chain (EA_AY_IX_16 s) (\<lambda>ea s.
     chain (m68ki_read_16 ea s) (\<lambda>v3 s.
     let res = MASK_OUT_ABOVE_16 (src OR v3)
     in chain (m68ki_write_16 ea res s) (\<lambda>_ s.
        Ret () (s\<lparr>n_flag := NFLAG_16 res,
          not_z_flag := res,
          c_flag := CFLAG_CLEAR,
          v_flag := VFLAG_CLEAR\<rparr>))))))"

definition m68k_op_ori_16_aw :: "'b op" where
  "m68k_op_ori_16_aw s =
    (chain (OPER_I_16 s) (\<lambda>src s.
     chain (EA_AW_16 s) (\<lambda>ea s.
     chain (m68ki_read_16 ea s) (\<lambda>v3 s.
     let res = MASK_OUT_ABOVE_16 (src OR v3)
     in chain (m68ki_write_16 ea res s) (\<lambda>_ s.
        Ret () (s\<lparr>n_flag := NFLAG_16 res,
          not_z_flag := res,
          c_flag := CFLAG_CLEAR,
          v_flag := VFLAG_CLEAR\<rparr>))))))"

definition m68k_op_ori_16_al :: "'b op" where
  "m68k_op_ori_16_al s =
    (chain (OPER_I_16 s) (\<lambda>src s.
     chain (EA_AL_16 s) (\<lambda>ea s.
     chain (m68ki_read_16 ea s) (\<lambda>v3 s.
     let res = MASK_OUT_ABOVE_16 (src OR v3)
     in chain (m68ki_write_16 ea res s) (\<lambda>_ s.
        Ret () (s\<lparr>n_flag := NFLAG_16 res,
          not_z_flag := res,
          c_flag := CFLAG_CLEAR,
          v_flag := VFLAG_CLEAR\<rparr>))))))"

definition m68k_op_ori_32_d :: "'b op" where
  "m68k_op_ori_32_d s =
    (chain (OPER_I_32 s) (\<lambda>v s.
     let s = set_DY ((DY s) OR v) s;
         res = DY s
     in Ret () (s\<lparr>n_flag := NFLAG_32 res,
          not_z_flag := res,
          c_flag := CFLAG_CLEAR,
          v_flag := VFLAG_CLEAR\<rparr>)))"

definition m68k_op_ori_32_ai :: "'b op" where
  "m68k_op_ori_32_ai s =
    (chain (OPER_I_32 s) (\<lambda>src s.
     chain (EA_AY_AI_32 s) (\<lambda>ea s.
     chain (m68ki_read_32 ea s) (\<lambda>v3 s.
     let res = src OR v3
     in chain (m68ki_write_32 ea res s) (\<lambda>_ s.
        Ret () (s\<lparr>n_flag := NFLAG_32 res,
          not_z_flag := res,
          c_flag := CFLAG_CLEAR,
          v_flag := VFLAG_CLEAR\<rparr>))))))"

definition m68k_op_ori_32_pi :: "'b op" where
  "m68k_op_ori_32_pi s =
    (chain (OPER_I_32 s) (\<lambda>src s.
     chain (EA_AY_PI_32 s) (\<lambda>ea s.
     chain (m68ki_read_32 ea s) (\<lambda>v3 s.
     let res = src OR v3
     in chain (m68ki_write_32 ea res s) (\<lambda>_ s.
        Ret () (s\<lparr>n_flag := NFLAG_32 res,
          not_z_flag := res,
          c_flag := CFLAG_CLEAR,
          v_flag := VFLAG_CLEAR\<rparr>))))))"

definition m68k_op_ori_32_pd :: "'b op" where
  "m68k_op_ori_32_pd s =
    (chain (OPER_I_32 s) (\<lambda>src s.
     chain (EA_AY_PD_32 s) (\<lambda>ea s.
     chain (m68ki_read_32 ea s) (\<lambda>v3 s.
     let res = src OR v3
     in chain (m68ki_write_32 ea res s) (\<lambda>_ s.
        Ret () (s\<lparr>n_flag := NFLAG_32 res,
          not_z_flag := res,
          c_flag := CFLAG_CLEAR,
          v_flag := VFLAG_CLEAR\<rparr>))))))"

definition m68k_op_ori_32_di :: "'b op" where
  "m68k_op_ori_32_di s =
    (chain (OPER_I_32 s) (\<lambda>src s.
     chain (EA_AY_DI_32 s) (\<lambda>ea s.
     chain (m68ki_read_32 ea s) (\<lambda>v3 s.
     let res = src OR v3
     in chain (m68ki_write_32 ea res s) (\<lambda>_ s.
        Ret () (s\<lparr>n_flag := NFLAG_32 res,
          not_z_flag := res,
          c_flag := CFLAG_CLEAR,
          v_flag := VFLAG_CLEAR\<rparr>))))))"

definition m68k_op_ori_32_ix :: "'b op" where
  "m68k_op_ori_32_ix s =
    (chain (OPER_I_32 s) (\<lambda>src s.
     chain (EA_AY_IX_32 s) (\<lambda>ea s.
     chain (m68ki_read_32 ea s) (\<lambda>v3 s.
     let res = src OR v3
     in chain (m68ki_write_32 ea res s) (\<lambda>_ s.
        Ret () (s\<lparr>n_flag := NFLAG_32 res,
          not_z_flag := res,
          c_flag := CFLAG_CLEAR,
          v_flag := VFLAG_CLEAR\<rparr>))))))"

definition m68k_op_ori_32_aw :: "'b op" where
  "m68k_op_ori_32_aw s =
    (chain (OPER_I_32 s) (\<lambda>src s.
     chain (EA_AW_32 s) (\<lambda>ea s.
     chain (m68ki_read_32 ea s) (\<lambda>v3 s.
     let res = src OR v3
     in chain (m68ki_write_32 ea res s) (\<lambda>_ s.
        Ret () (s\<lparr>n_flag := NFLAG_32 res,
          not_z_flag := res,
          c_flag := CFLAG_CLEAR,
          v_flag := VFLAG_CLEAR\<rparr>))))))"

definition m68k_op_ori_32_al :: "'b op" where
  "m68k_op_ori_32_al s =
    (chain (OPER_I_32 s) (\<lambda>src s.
     chain (EA_AL_32 s) (\<lambda>ea s.
     chain (m68ki_read_32 ea s) (\<lambda>v3 s.
     let res = src OR v3
     in chain (m68ki_write_32 ea res s) (\<lambda>_ s.
        Ret () (s\<lparr>n_flag := NFLAG_32 res,
          not_z_flag := res,
          c_flag := CFLAG_CLEAR,
          v_flag := VFLAG_CLEAR\<rparr>))))))"

definition m68k_op_ori_16_toc :: "'b op" where
  "m68k_op_ori_16_toc s =
    (chain (OPER_I_8 s) (\<lambda>v s.
     Ret () (m68ki_set_ccr (m68ki_get_ccr s OR v) s)))"

definition m68k_op_ori_16_tos :: "'b op" where
  "m68k_op_ori_16_tos s =
    (if s_flag s \<noteq> 0
     then chain (OPER_I_16 s) (\<lambda>src s.
          m68ki_set_sr (m68ki_get_sr s OR src) s)
     else m68ki_exception_privilege_violation s)"

end
