(* ===== verification/OpsMove16.thy ===== *)
theory OpsMove16
  imports OpsBase
begin

section \<open>Instruction handlers: MOVE.W\<close>

text \<open>
  The handlers of m68kops.c for MOVE.W.
  One definition per handler, under the name of its C function; the effective address is part of
  the name.
\<close>

unbundle bit_operations_syntax

definition m68k_op_move_16_d_d :: "'b op" where
  "m68k_op_move_16_d_d s =
    (let res = MASK_OUT_ABOVE_16 (DY s);
         s = set_DX (MASK_OUT_BELOW_16 (DX s) OR res) s
     in Ret () (s\<lparr>n_flag := NFLAG_16 res,
          not_z_flag := res,
          v_flag := VFLAG_CLEAR,
          c_flag := CFLAG_CLEAR\<rparr>))"

definition m68k_op_move_16_d_a :: "'b op" where
  "m68k_op_move_16_d_a s =
    (let res = MASK_OUT_ABOVE_16 (AY s);
         s = set_DX (MASK_OUT_BELOW_16 (DX s) OR res) s
     in Ret () (s\<lparr>n_flag := NFLAG_16 res,
          not_z_flag := res,
          v_flag := VFLAG_CLEAR,
          c_flag := CFLAG_CLEAR\<rparr>))"

definition m68k_op_move_16_d_ai :: "'b op" where
  "m68k_op_move_16_d_ai s =
    (chain (OPER_AY_AI_16 s) (\<lambda>res s.
     let s = set_DX (MASK_OUT_BELOW_16 (DX s) OR res) s
     in Ret () (s\<lparr>n_flag := NFLAG_16 res,
          not_z_flag := res,
          v_flag := VFLAG_CLEAR,
          c_flag := CFLAG_CLEAR\<rparr>)))"

definition m68k_op_move_16_d_pi :: "'b op" where
  "m68k_op_move_16_d_pi s =
    (chain (OPER_AY_PI_16 s) (\<lambda>res s.
     let s = set_DX (MASK_OUT_BELOW_16 (DX s) OR res) s
     in Ret () (s\<lparr>n_flag := NFLAG_16 res,
          not_z_flag := res,
          v_flag := VFLAG_CLEAR,
          c_flag := CFLAG_CLEAR\<rparr>)))"

definition m68k_op_move_16_d_pd :: "'b op" where
  "m68k_op_move_16_d_pd s =
    (chain (OPER_AY_PD_16 s) (\<lambda>res s.
     let s = set_DX (MASK_OUT_BELOW_16 (DX s) OR res) s
     in Ret () (s\<lparr>n_flag := NFLAG_16 res,
          not_z_flag := res,
          v_flag := VFLAG_CLEAR,
          c_flag := CFLAG_CLEAR\<rparr>)))"

definition m68k_op_move_16_d_di :: "'b op" where
  "m68k_op_move_16_d_di s =
    (chain (OPER_AY_DI_16 s) (\<lambda>res s.
     let s = set_DX (MASK_OUT_BELOW_16 (DX s) OR res) s
     in Ret () (s\<lparr>n_flag := NFLAG_16 res,
          not_z_flag := res,
          v_flag := VFLAG_CLEAR,
          c_flag := CFLAG_CLEAR\<rparr>)))"

definition m68k_op_move_16_d_ix :: "'b op" where
  "m68k_op_move_16_d_ix s =
    (chain (OPER_AY_IX_16 s) (\<lambda>res s.
     let s = set_DX (MASK_OUT_BELOW_16 (DX s) OR res) s
     in Ret () (s\<lparr>n_flag := NFLAG_16 res,
          not_z_flag := res,
          v_flag := VFLAG_CLEAR,
          c_flag := CFLAG_CLEAR\<rparr>)))"

definition m68k_op_move_16_d_aw :: "'b op" where
  "m68k_op_move_16_d_aw s =
    (chain (OPER_AW_16 s) (\<lambda>res s.
     let s = set_DX (MASK_OUT_BELOW_16 (DX s) OR res) s
     in Ret () (s\<lparr>n_flag := NFLAG_16 res,
          not_z_flag := res,
          v_flag := VFLAG_CLEAR,
          c_flag := CFLAG_CLEAR\<rparr>)))"

definition m68k_op_move_16_d_al :: "'b op" where
  "m68k_op_move_16_d_al s =
    (chain (OPER_AL_16 s) (\<lambda>res s.
     let s = set_DX (MASK_OUT_BELOW_16 (DX s) OR res) s
     in Ret () (s\<lparr>n_flag := NFLAG_16 res,
          not_z_flag := res,
          v_flag := VFLAG_CLEAR,
          c_flag := CFLAG_CLEAR\<rparr>)))"

definition m68k_op_move_16_d_pcdi :: "'b op" where
  "m68k_op_move_16_d_pcdi s =
    (chain (OPER_PCDI_16 s) (\<lambda>res s.
     let s = set_DX (MASK_OUT_BELOW_16 (DX s) OR res) s
     in Ret () (s\<lparr>n_flag := NFLAG_16 res,
          not_z_flag := res,
          v_flag := VFLAG_CLEAR,
          c_flag := CFLAG_CLEAR\<rparr>)))"

definition m68k_op_move_16_d_pcix :: "'b op" where
  "m68k_op_move_16_d_pcix s =
    (chain (OPER_PCIX_16 s) (\<lambda>res s.
     let s = set_DX (MASK_OUT_BELOW_16 (DX s) OR res) s
     in Ret () (s\<lparr>n_flag := NFLAG_16 res,
          not_z_flag := res,
          v_flag := VFLAG_CLEAR,
          c_flag := CFLAG_CLEAR\<rparr>)))"

definition m68k_op_move_16_d_i :: "'b op" where
  "m68k_op_move_16_d_i s =
    (chain (OPER_I_16 s) (\<lambda>res s.
     let s = set_DX (MASK_OUT_BELOW_16 (DX s) OR res) s
     in Ret () (s\<lparr>n_flag := NFLAG_16 res,
          not_z_flag := res,
          v_flag := VFLAG_CLEAR,
          c_flag := CFLAG_CLEAR\<rparr>)))"

definition m68k_op_move_16_ai_d :: "'b op" where
  "m68k_op_move_16_ai_d s =
    (let res = MASK_OUT_ABOVE_16 (DY s)
     in chain (EA_AX_AI_16 s) (\<lambda>ea s.
        chain (m68ki_write_16 ea res s) (\<lambda>_ s.
        Ret () (s\<lparr>n_flag := NFLAG_16 res,
          not_z_flag := res,
          v_flag := VFLAG_CLEAR,
          c_flag := CFLAG_CLEAR\<rparr>))))"

definition m68k_op_move_16_ai_a :: "'b op" where
  "m68k_op_move_16_ai_a s =
    (let res = MASK_OUT_ABOVE_16 (AY s)
     in chain (EA_AX_AI_16 s) (\<lambda>ea s.
        chain (m68ki_write_16 ea res s) (\<lambda>_ s.
        Ret () (s\<lparr>n_flag := NFLAG_16 res,
          not_z_flag := res,
          v_flag := VFLAG_CLEAR,
          c_flag := CFLAG_CLEAR\<rparr>))))"

definition m68k_op_move_16_ai_ai :: "'b op" where
  "m68k_op_move_16_ai_ai s =
    (chain (OPER_AY_AI_16 s) (\<lambda>res s.
     chain (EA_AX_AI_16 s) (\<lambda>ea s.
     chain (m68ki_write_16 ea res s) (\<lambda>_ s.
     Ret () (s\<lparr>n_flag := NFLAG_16 res,
       not_z_flag := res,
       v_flag := VFLAG_CLEAR,
       c_flag := CFLAG_CLEAR\<rparr>)))))"

definition m68k_op_move_16_ai_pi :: "'b op" where
  "m68k_op_move_16_ai_pi s =
    (chain (OPER_AY_PI_16 s) (\<lambda>res s.
     chain (EA_AX_AI_16 s) (\<lambda>ea s.
     chain (m68ki_write_16 ea res s) (\<lambda>_ s.
     Ret () (s\<lparr>n_flag := NFLAG_16 res,
       not_z_flag := res,
       v_flag := VFLAG_CLEAR,
       c_flag := CFLAG_CLEAR\<rparr>)))))"

definition m68k_op_move_16_ai_pd :: "'b op" where
  "m68k_op_move_16_ai_pd s =
    (chain (OPER_AY_PD_16 s) (\<lambda>res s.
     chain (EA_AX_AI_16 s) (\<lambda>ea s.
     chain (m68ki_write_16 ea res s) (\<lambda>_ s.
     Ret () (s\<lparr>n_flag := NFLAG_16 res,
       not_z_flag := res,
       v_flag := VFLAG_CLEAR,
       c_flag := CFLAG_CLEAR\<rparr>)))))"

definition m68k_op_move_16_ai_di :: "'b op" where
  "m68k_op_move_16_ai_di s =
    (chain (OPER_AY_DI_16 s) (\<lambda>res s.
     chain (EA_AX_AI_16 s) (\<lambda>ea s.
     chain (m68ki_write_16 ea res s) (\<lambda>_ s.
     Ret () (s\<lparr>n_flag := NFLAG_16 res,
       not_z_flag := res,
       v_flag := VFLAG_CLEAR,
       c_flag := CFLAG_CLEAR\<rparr>)))))"

definition m68k_op_move_16_ai_ix :: "'b op" where
  "m68k_op_move_16_ai_ix s =
    (chain (OPER_AY_IX_16 s) (\<lambda>res s.
     chain (EA_AX_AI_16 s) (\<lambda>ea s.
     chain (m68ki_write_16 ea res s) (\<lambda>_ s.
     Ret () (s\<lparr>n_flag := NFLAG_16 res,
       not_z_flag := res,
       v_flag := VFLAG_CLEAR,
       c_flag := CFLAG_CLEAR\<rparr>)))))"

definition m68k_op_move_16_ai_aw :: "'b op" where
  "m68k_op_move_16_ai_aw s =
    (chain (OPER_AW_16 s) (\<lambda>res s.
     chain (EA_AX_AI_16 s) (\<lambda>ea s.
     chain (m68ki_write_16 ea res s) (\<lambda>_ s.
     Ret () (s\<lparr>n_flag := NFLAG_16 res,
       not_z_flag := res,
       v_flag := VFLAG_CLEAR,
       c_flag := CFLAG_CLEAR\<rparr>)))))"

definition m68k_op_move_16_ai_al :: "'b op" where
  "m68k_op_move_16_ai_al s =
    (chain (OPER_AL_16 s) (\<lambda>res s.
     chain (EA_AX_AI_16 s) (\<lambda>ea s.
     chain (m68ki_write_16 ea res s) (\<lambda>_ s.
     Ret () (s\<lparr>n_flag := NFLAG_16 res,
       not_z_flag := res,
       v_flag := VFLAG_CLEAR,
       c_flag := CFLAG_CLEAR\<rparr>)))))"

definition m68k_op_move_16_ai_pcdi :: "'b op" where
  "m68k_op_move_16_ai_pcdi s =
    (chain (OPER_PCDI_16 s) (\<lambda>res s.
     chain (EA_AX_AI_16 s) (\<lambda>ea s.
     chain (m68ki_write_16 ea res s) (\<lambda>_ s.
     Ret () (s\<lparr>n_flag := NFLAG_16 res,
       not_z_flag := res,
       v_flag := VFLAG_CLEAR,
       c_flag := CFLAG_CLEAR\<rparr>)))))"

definition m68k_op_move_16_ai_pcix :: "'b op" where
  "m68k_op_move_16_ai_pcix s =
    (chain (OPER_PCIX_16 s) (\<lambda>res s.
     chain (EA_AX_AI_16 s) (\<lambda>ea s.
     chain (m68ki_write_16 ea res s) (\<lambda>_ s.
     Ret () (s\<lparr>n_flag := NFLAG_16 res,
       not_z_flag := res,
       v_flag := VFLAG_CLEAR,
       c_flag := CFLAG_CLEAR\<rparr>)))))"

definition m68k_op_move_16_ai_i :: "'b op" where
  "m68k_op_move_16_ai_i s =
    (chain (OPER_I_16 s) (\<lambda>res s.
     chain (EA_AX_AI_16 s) (\<lambda>ea s.
     chain (m68ki_write_16 ea res s) (\<lambda>_ s.
     Ret () (s\<lparr>n_flag := NFLAG_16 res,
       not_z_flag := res,
       v_flag := VFLAG_CLEAR,
       c_flag := CFLAG_CLEAR\<rparr>)))))"

definition m68k_op_move_16_pi_d :: "'b op" where
  "m68k_op_move_16_pi_d s =
    (let res = MASK_OUT_ABOVE_16 (DY s)
     in chain (EA_AX_PI_16 s) (\<lambda>ea s.
        chain (m68ki_write_16 ea res s) (\<lambda>_ s.
        Ret () (s\<lparr>n_flag := NFLAG_16 res,
          not_z_flag := res,
          v_flag := VFLAG_CLEAR,
          c_flag := CFLAG_CLEAR\<rparr>))))"

definition m68k_op_move_16_pi_a :: "'b op" where
  "m68k_op_move_16_pi_a s =
    (let res = MASK_OUT_ABOVE_16 (AY s)
     in chain (EA_AX_PI_16 s) (\<lambda>ea s.
        chain (m68ki_write_16 ea res s) (\<lambda>_ s.
        Ret () (s\<lparr>n_flag := NFLAG_16 res,
          not_z_flag := res,
          v_flag := VFLAG_CLEAR,
          c_flag := CFLAG_CLEAR\<rparr>))))"

definition m68k_op_move_16_pi_ai :: "'b op" where
  "m68k_op_move_16_pi_ai s =
    (chain (OPER_AY_AI_16 s) (\<lambda>res s.
     chain (EA_AX_PI_16 s) (\<lambda>ea s.
     chain (m68ki_write_16 ea res s) (\<lambda>_ s.
     Ret () (s\<lparr>n_flag := NFLAG_16 res,
       not_z_flag := res,
       v_flag := VFLAG_CLEAR,
       c_flag := CFLAG_CLEAR\<rparr>)))))"

definition m68k_op_move_16_pi_pi :: "'b op" where
  "m68k_op_move_16_pi_pi s =
    (chain (OPER_AY_PI_16 s) (\<lambda>res s.
     chain (EA_AX_PI_16 s) (\<lambda>ea s.
     chain (m68ki_write_16 ea res s) (\<lambda>_ s.
     Ret () (s\<lparr>n_flag := NFLAG_16 res,
       not_z_flag := res,
       v_flag := VFLAG_CLEAR,
       c_flag := CFLAG_CLEAR\<rparr>)))))"

definition m68k_op_move_16_pi_pd :: "'b op" where
  "m68k_op_move_16_pi_pd s =
    (chain (OPER_AY_PD_16 s) (\<lambda>res s.
     chain (EA_AX_PI_16 s) (\<lambda>ea s.
     chain (m68ki_write_16 ea res s) (\<lambda>_ s.
     Ret () (s\<lparr>n_flag := NFLAG_16 res,
       not_z_flag := res,
       v_flag := VFLAG_CLEAR,
       c_flag := CFLAG_CLEAR\<rparr>)))))"

definition m68k_op_move_16_pi_di :: "'b op" where
  "m68k_op_move_16_pi_di s =
    (chain (OPER_AY_DI_16 s) (\<lambda>res s.
     chain (EA_AX_PI_16 s) (\<lambda>ea s.
     chain (m68ki_write_16 ea res s) (\<lambda>_ s.
     Ret () (s\<lparr>n_flag := NFLAG_16 res,
       not_z_flag := res,
       v_flag := VFLAG_CLEAR,
       c_flag := CFLAG_CLEAR\<rparr>)))))"

definition m68k_op_move_16_pi_ix :: "'b op" where
  "m68k_op_move_16_pi_ix s =
    (chain (OPER_AY_IX_16 s) (\<lambda>res s.
     chain (EA_AX_PI_16 s) (\<lambda>ea s.
     chain (m68ki_write_16 ea res s) (\<lambda>_ s.
     Ret () (s\<lparr>n_flag := NFLAG_16 res,
       not_z_flag := res,
       v_flag := VFLAG_CLEAR,
       c_flag := CFLAG_CLEAR\<rparr>)))))"

definition m68k_op_move_16_pi_aw :: "'b op" where
  "m68k_op_move_16_pi_aw s =
    (chain (OPER_AW_16 s) (\<lambda>res s.
     chain (EA_AX_PI_16 s) (\<lambda>ea s.
     chain (m68ki_write_16 ea res s) (\<lambda>_ s.
     Ret () (s\<lparr>n_flag := NFLAG_16 res,
       not_z_flag := res,
       v_flag := VFLAG_CLEAR,
       c_flag := CFLAG_CLEAR\<rparr>)))))"

definition m68k_op_move_16_pi_al :: "'b op" where
  "m68k_op_move_16_pi_al s =
    (chain (OPER_AL_16 s) (\<lambda>res s.
     chain (EA_AX_PI_16 s) (\<lambda>ea s.
     chain (m68ki_write_16 ea res s) (\<lambda>_ s.
     Ret () (s\<lparr>n_flag := NFLAG_16 res,
       not_z_flag := res,
       v_flag := VFLAG_CLEAR,
       c_flag := CFLAG_CLEAR\<rparr>)))))"

definition m68k_op_move_16_pi_pcdi :: "'b op" where
  "m68k_op_move_16_pi_pcdi s =
    (chain (OPER_PCDI_16 s) (\<lambda>res s.
     chain (EA_AX_PI_16 s) (\<lambda>ea s.
     chain (m68ki_write_16 ea res s) (\<lambda>_ s.
     Ret () (s\<lparr>n_flag := NFLAG_16 res,
       not_z_flag := res,
       v_flag := VFLAG_CLEAR,
       c_flag := CFLAG_CLEAR\<rparr>)))))"

definition m68k_op_move_16_pi_pcix :: "'b op" where
  "m68k_op_move_16_pi_pcix s =
    (chain (OPER_PCIX_16 s) (\<lambda>res s.
     chain (EA_AX_PI_16 s) (\<lambda>ea s.
     chain (m68ki_write_16 ea res s) (\<lambda>_ s.
     Ret () (s\<lparr>n_flag := NFLAG_16 res,
       not_z_flag := res,
       v_flag := VFLAG_CLEAR,
       c_flag := CFLAG_CLEAR\<rparr>)))))"

definition m68k_op_move_16_pi_i :: "'b op" where
  "m68k_op_move_16_pi_i s =
    (chain (OPER_I_16 s) (\<lambda>res s.
     chain (EA_AX_PI_16 s) (\<lambda>ea s.
     chain (m68ki_write_16 ea res s) (\<lambda>_ s.
     Ret () (s\<lparr>n_flag := NFLAG_16 res,
       not_z_flag := res,
       v_flag := VFLAG_CLEAR,
       c_flag := CFLAG_CLEAR\<rparr>)))))"

definition m68k_op_move_16_pd_d :: "'b op" where
  "m68k_op_move_16_pd_d s =
    (let res = MASK_OUT_ABOVE_16 (DY s)
     in chain (EA_AX_PD_16 s) (\<lambda>ea s.
        chain (m68ki_write_16 ea res s) (\<lambda>_ s.
        Ret () (s\<lparr>n_flag := NFLAG_16 res,
          not_z_flag := res,
          v_flag := VFLAG_CLEAR,
          c_flag := CFLAG_CLEAR\<rparr>))))"

definition m68k_op_move_16_pd_a :: "'b op" where
  "m68k_op_move_16_pd_a s =
    (let res = MASK_OUT_ABOVE_16 (AY s)
     in chain (EA_AX_PD_16 s) (\<lambda>ea s.
        chain (m68ki_write_16 ea res s) (\<lambda>_ s.
        Ret () (s\<lparr>n_flag := NFLAG_16 res,
          not_z_flag := res,
          v_flag := VFLAG_CLEAR,
          c_flag := CFLAG_CLEAR\<rparr>))))"

definition m68k_op_move_16_pd_ai :: "'b op" where
  "m68k_op_move_16_pd_ai s =
    (chain (OPER_AY_AI_16 s) (\<lambda>res s.
     chain (EA_AX_PD_16 s) (\<lambda>ea s.
     chain (m68ki_write_16 ea res s) (\<lambda>_ s.
     Ret () (s\<lparr>n_flag := NFLAG_16 res,
       not_z_flag := res,
       v_flag := VFLAG_CLEAR,
       c_flag := CFLAG_CLEAR\<rparr>)))))"

definition m68k_op_move_16_pd_pi :: "'b op" where
  "m68k_op_move_16_pd_pi s =
    (chain (OPER_AY_PI_16 s) (\<lambda>res s.
     chain (EA_AX_PD_16 s) (\<lambda>ea s.
     chain (m68ki_write_16 ea res s) (\<lambda>_ s.
     Ret () (s\<lparr>n_flag := NFLAG_16 res,
       not_z_flag := res,
       v_flag := VFLAG_CLEAR,
       c_flag := CFLAG_CLEAR\<rparr>)))))"

definition m68k_op_move_16_pd_pd :: "'b op" where
  "m68k_op_move_16_pd_pd s =
    (chain (OPER_AY_PD_16 s) (\<lambda>res s.
     chain (EA_AX_PD_16 s) (\<lambda>ea s.
     chain (m68ki_write_16 ea res s) (\<lambda>_ s.
     Ret () (s\<lparr>n_flag := NFLAG_16 res,
       not_z_flag := res,
       v_flag := VFLAG_CLEAR,
       c_flag := CFLAG_CLEAR\<rparr>)))))"

definition m68k_op_move_16_pd_di :: "'b op" where
  "m68k_op_move_16_pd_di s =
    (chain (OPER_AY_DI_16 s) (\<lambda>res s.
     chain (EA_AX_PD_16 s) (\<lambda>ea s.
     chain (m68ki_write_16 ea res s) (\<lambda>_ s.
     Ret () (s\<lparr>n_flag := NFLAG_16 res,
       not_z_flag := res,
       v_flag := VFLAG_CLEAR,
       c_flag := CFLAG_CLEAR\<rparr>)))))"

definition m68k_op_move_16_pd_ix :: "'b op" where
  "m68k_op_move_16_pd_ix s =
    (chain (OPER_AY_IX_16 s) (\<lambda>res s.
     chain (EA_AX_PD_16 s) (\<lambda>ea s.
     chain (m68ki_write_16 ea res s) (\<lambda>_ s.
     Ret () (s\<lparr>n_flag := NFLAG_16 res,
       not_z_flag := res,
       v_flag := VFLAG_CLEAR,
       c_flag := CFLAG_CLEAR\<rparr>)))))"

definition m68k_op_move_16_pd_aw :: "'b op" where
  "m68k_op_move_16_pd_aw s =
    (chain (OPER_AW_16 s) (\<lambda>res s.
     chain (EA_AX_PD_16 s) (\<lambda>ea s.
     chain (m68ki_write_16 ea res s) (\<lambda>_ s.
     Ret () (s\<lparr>n_flag := NFLAG_16 res,
       not_z_flag := res,
       v_flag := VFLAG_CLEAR,
       c_flag := CFLAG_CLEAR\<rparr>)))))"

definition m68k_op_move_16_pd_al :: "'b op" where
  "m68k_op_move_16_pd_al s =
    (chain (OPER_AL_16 s) (\<lambda>res s.
     chain (EA_AX_PD_16 s) (\<lambda>ea s.
     chain (m68ki_write_16 ea res s) (\<lambda>_ s.
     Ret () (s\<lparr>n_flag := NFLAG_16 res,
       not_z_flag := res,
       v_flag := VFLAG_CLEAR,
       c_flag := CFLAG_CLEAR\<rparr>)))))"

definition m68k_op_move_16_pd_pcdi :: "'b op" where
  "m68k_op_move_16_pd_pcdi s =
    (chain (OPER_PCDI_16 s) (\<lambda>res s.
     chain (EA_AX_PD_16 s) (\<lambda>ea s.
     chain (m68ki_write_16 ea res s) (\<lambda>_ s.
     Ret () (s\<lparr>n_flag := NFLAG_16 res,
       not_z_flag := res,
       v_flag := VFLAG_CLEAR,
       c_flag := CFLAG_CLEAR\<rparr>)))))"

definition m68k_op_move_16_pd_pcix :: "'b op" where
  "m68k_op_move_16_pd_pcix s =
    (chain (OPER_PCIX_16 s) (\<lambda>res s.
     chain (EA_AX_PD_16 s) (\<lambda>ea s.
     chain (m68ki_write_16 ea res s) (\<lambda>_ s.
     Ret () (s\<lparr>n_flag := NFLAG_16 res,
       not_z_flag := res,
       v_flag := VFLAG_CLEAR,
       c_flag := CFLAG_CLEAR\<rparr>)))))"

definition m68k_op_move_16_pd_i :: "'b op" where
  "m68k_op_move_16_pd_i s =
    (chain (OPER_I_16 s) (\<lambda>res s.
     chain (EA_AX_PD_16 s) (\<lambda>ea s.
     chain (m68ki_write_16 ea res s) (\<lambda>_ s.
     Ret () (s\<lparr>n_flag := NFLAG_16 res,
       not_z_flag := res,
       v_flag := VFLAG_CLEAR,
       c_flag := CFLAG_CLEAR\<rparr>)))))"

definition m68k_op_move_16_di_d :: "'b op" where
  "m68k_op_move_16_di_d s =
    (let res = MASK_OUT_ABOVE_16 (DY s)
     in chain (EA_AX_DI_16 s) (\<lambda>ea s.
        chain (m68ki_write_16 ea res s) (\<lambda>_ s.
        Ret () (s\<lparr>n_flag := NFLAG_16 res,
          not_z_flag := res,
          v_flag := VFLAG_CLEAR,
          c_flag := CFLAG_CLEAR\<rparr>))))"

definition m68k_op_move_16_di_a :: "'b op" where
  "m68k_op_move_16_di_a s =
    (let res = MASK_OUT_ABOVE_16 (AY s)
     in chain (EA_AX_DI_16 s) (\<lambda>ea s.
        chain (m68ki_write_16 ea res s) (\<lambda>_ s.
        Ret () (s\<lparr>n_flag := NFLAG_16 res,
          not_z_flag := res,
          v_flag := VFLAG_CLEAR,
          c_flag := CFLAG_CLEAR\<rparr>))))"

definition m68k_op_move_16_di_ai :: "'b op" where
  "m68k_op_move_16_di_ai s =
    (chain (OPER_AY_AI_16 s) (\<lambda>res s.
     chain (EA_AX_DI_16 s) (\<lambda>ea s.
     chain (m68ki_write_16 ea res s) (\<lambda>_ s.
     Ret () (s\<lparr>n_flag := NFLAG_16 res,
       not_z_flag := res,
       v_flag := VFLAG_CLEAR,
       c_flag := CFLAG_CLEAR\<rparr>)))))"

definition m68k_op_move_16_di_pi :: "'b op" where
  "m68k_op_move_16_di_pi s =
    (chain (OPER_AY_PI_16 s) (\<lambda>res s.
     chain (EA_AX_DI_16 s) (\<lambda>ea s.
     chain (m68ki_write_16 ea res s) (\<lambda>_ s.
     Ret () (s\<lparr>n_flag := NFLAG_16 res,
       not_z_flag := res,
       v_flag := VFLAG_CLEAR,
       c_flag := CFLAG_CLEAR\<rparr>)))))"

definition m68k_op_move_16_di_pd :: "'b op" where
  "m68k_op_move_16_di_pd s =
    (chain (OPER_AY_PD_16 s) (\<lambda>res s.
     chain (EA_AX_DI_16 s) (\<lambda>ea s.
     chain (m68ki_write_16 ea res s) (\<lambda>_ s.
     Ret () (s\<lparr>n_flag := NFLAG_16 res,
       not_z_flag := res,
       v_flag := VFLAG_CLEAR,
       c_flag := CFLAG_CLEAR\<rparr>)))))"

definition m68k_op_move_16_di_di :: "'b op" where
  "m68k_op_move_16_di_di s =
    (chain (OPER_AY_DI_16 s) (\<lambda>res s.
     chain (EA_AX_DI_16 s) (\<lambda>ea s.
     chain (m68ki_write_16 ea res s) (\<lambda>_ s.
     Ret () (s\<lparr>n_flag := NFLAG_16 res,
       not_z_flag := res,
       v_flag := VFLAG_CLEAR,
       c_flag := CFLAG_CLEAR\<rparr>)))))"

definition m68k_op_move_16_di_ix :: "'b op" where
  "m68k_op_move_16_di_ix s =
    (chain (OPER_AY_IX_16 s) (\<lambda>res s.
     chain (EA_AX_DI_16 s) (\<lambda>ea s.
     chain (m68ki_write_16 ea res s) (\<lambda>_ s.
     Ret () (s\<lparr>n_flag := NFLAG_16 res,
       not_z_flag := res,
       v_flag := VFLAG_CLEAR,
       c_flag := CFLAG_CLEAR\<rparr>)))))"

definition m68k_op_move_16_di_aw :: "'b op" where
  "m68k_op_move_16_di_aw s =
    (chain (OPER_AW_16 s) (\<lambda>res s.
     chain (EA_AX_DI_16 s) (\<lambda>ea s.
     chain (m68ki_write_16 ea res s) (\<lambda>_ s.
     Ret () (s\<lparr>n_flag := NFLAG_16 res,
       not_z_flag := res,
       v_flag := VFLAG_CLEAR,
       c_flag := CFLAG_CLEAR\<rparr>)))))"

definition m68k_op_move_16_di_al :: "'b op" where
  "m68k_op_move_16_di_al s =
    (chain (OPER_AL_16 s) (\<lambda>res s.
     chain (EA_AX_DI_16 s) (\<lambda>ea s.
     chain (m68ki_write_16 ea res s) (\<lambda>_ s.
     Ret () (s\<lparr>n_flag := NFLAG_16 res,
       not_z_flag := res,
       v_flag := VFLAG_CLEAR,
       c_flag := CFLAG_CLEAR\<rparr>)))))"

definition m68k_op_move_16_di_pcdi :: "'b op" where
  "m68k_op_move_16_di_pcdi s =
    (chain (OPER_PCDI_16 s) (\<lambda>res s.
     chain (EA_AX_DI_16 s) (\<lambda>ea s.
     chain (m68ki_write_16 ea res s) (\<lambda>_ s.
     Ret () (s\<lparr>n_flag := NFLAG_16 res,
       not_z_flag := res,
       v_flag := VFLAG_CLEAR,
       c_flag := CFLAG_CLEAR\<rparr>)))))"

definition m68k_op_move_16_di_pcix :: "'b op" where
  "m68k_op_move_16_di_pcix s =
    (chain (OPER_PCIX_16 s) (\<lambda>res s.
     chain (EA_AX_DI_16 s) (\<lambda>ea s.
     chain (m68ki_write_16 ea res s) (\<lambda>_ s.
     Ret () (s\<lparr>n_flag := NFLAG_16 res,
       not_z_flag := res,
       v_flag := VFLAG_CLEAR,
       c_flag := CFLAG_CLEAR\<rparr>)))))"

definition m68k_op_move_16_di_i :: "'b op" where
  "m68k_op_move_16_di_i s =
    (chain (OPER_I_16 s) (\<lambda>res s.
     chain (EA_AX_DI_16 s) (\<lambda>ea s.
     chain (m68ki_write_16 ea res s) (\<lambda>_ s.
     Ret () (s\<lparr>n_flag := NFLAG_16 res,
       not_z_flag := res,
       v_flag := VFLAG_CLEAR,
       c_flag := CFLAG_CLEAR\<rparr>)))))"

definition m68k_op_move_16_ix_d :: "'b op" where
  "m68k_op_move_16_ix_d s =
    (let res = MASK_OUT_ABOVE_16 (DY s)
     in chain (EA_AX_IX_16 s) (\<lambda>ea s.
        chain (m68ki_write_16 ea res s) (\<lambda>_ s.
        Ret () (s\<lparr>n_flag := NFLAG_16 res,
          not_z_flag := res,
          v_flag := VFLAG_CLEAR,
          c_flag := CFLAG_CLEAR\<rparr>))))"

definition m68k_op_move_16_ix_a :: "'b op" where
  "m68k_op_move_16_ix_a s =
    (let res = MASK_OUT_ABOVE_16 (AY s)
     in chain (EA_AX_IX_16 s) (\<lambda>ea s.
        chain (m68ki_write_16 ea res s) (\<lambda>_ s.
        Ret () (s\<lparr>n_flag := NFLAG_16 res,
          not_z_flag := res,
          v_flag := VFLAG_CLEAR,
          c_flag := CFLAG_CLEAR\<rparr>))))"

definition m68k_op_move_16_ix_ai :: "'b op" where
  "m68k_op_move_16_ix_ai s =
    (chain (OPER_AY_AI_16 s) (\<lambda>res s.
     chain (EA_AX_IX_16 s) (\<lambda>ea s.
     chain (m68ki_write_16 ea res s) (\<lambda>_ s.
     Ret () (s\<lparr>n_flag := NFLAG_16 res,
       not_z_flag := res,
       v_flag := VFLAG_CLEAR,
       c_flag := CFLAG_CLEAR\<rparr>)))))"

definition m68k_op_move_16_ix_pi :: "'b op" where
  "m68k_op_move_16_ix_pi s =
    (chain (OPER_AY_PI_16 s) (\<lambda>res s.
     chain (EA_AX_IX_16 s) (\<lambda>ea s.
     chain (m68ki_write_16 ea res s) (\<lambda>_ s.
     Ret () (s\<lparr>n_flag := NFLAG_16 res,
       not_z_flag := res,
       v_flag := VFLAG_CLEAR,
       c_flag := CFLAG_CLEAR\<rparr>)))))"

definition m68k_op_move_16_ix_pd :: "'b op" where
  "m68k_op_move_16_ix_pd s =
    (chain (OPER_AY_PD_16 s) (\<lambda>res s.
     chain (EA_AX_IX_16 s) (\<lambda>ea s.
     chain (m68ki_write_16 ea res s) (\<lambda>_ s.
     Ret () (s\<lparr>n_flag := NFLAG_16 res,
       not_z_flag := res,
       v_flag := VFLAG_CLEAR,
       c_flag := CFLAG_CLEAR\<rparr>)))))"

definition m68k_op_move_16_ix_di :: "'b op" where
  "m68k_op_move_16_ix_di s =
    (chain (OPER_AY_DI_16 s) (\<lambda>res s.
     chain (EA_AX_IX_16 s) (\<lambda>ea s.
     chain (m68ki_write_16 ea res s) (\<lambda>_ s.
     Ret () (s\<lparr>n_flag := NFLAG_16 res,
       not_z_flag := res,
       v_flag := VFLAG_CLEAR,
       c_flag := CFLAG_CLEAR\<rparr>)))))"

definition m68k_op_move_16_ix_ix :: "'b op" where
  "m68k_op_move_16_ix_ix s =
    (chain (OPER_AY_IX_16 s) (\<lambda>res s.
     chain (EA_AX_IX_16 s) (\<lambda>ea s.
     chain (m68ki_write_16 ea res s) (\<lambda>_ s.
     Ret () (s\<lparr>n_flag := NFLAG_16 res,
       not_z_flag := res,
       v_flag := VFLAG_CLEAR,
       c_flag := CFLAG_CLEAR\<rparr>)))))"

definition m68k_op_move_16_ix_aw :: "'b op" where
  "m68k_op_move_16_ix_aw s =
    (chain (OPER_AW_16 s) (\<lambda>res s.
     chain (EA_AX_IX_16 s) (\<lambda>ea s.
     chain (m68ki_write_16 ea res s) (\<lambda>_ s.
     Ret () (s\<lparr>n_flag := NFLAG_16 res,
       not_z_flag := res,
       v_flag := VFLAG_CLEAR,
       c_flag := CFLAG_CLEAR\<rparr>)))))"

definition m68k_op_move_16_ix_al :: "'b op" where
  "m68k_op_move_16_ix_al s =
    (chain (OPER_AL_16 s) (\<lambda>res s.
     chain (EA_AX_IX_16 s) (\<lambda>ea s.
     chain (m68ki_write_16 ea res s) (\<lambda>_ s.
     Ret () (s\<lparr>n_flag := NFLAG_16 res,
       not_z_flag := res,
       v_flag := VFLAG_CLEAR,
       c_flag := CFLAG_CLEAR\<rparr>)))))"

definition m68k_op_move_16_ix_pcdi :: "'b op" where
  "m68k_op_move_16_ix_pcdi s =
    (chain (OPER_PCDI_16 s) (\<lambda>res s.
     chain (EA_AX_IX_16 s) (\<lambda>ea s.
     chain (m68ki_write_16 ea res s) (\<lambda>_ s.
     Ret () (s\<lparr>n_flag := NFLAG_16 res,
       not_z_flag := res,
       v_flag := VFLAG_CLEAR,
       c_flag := CFLAG_CLEAR\<rparr>)))))"

definition m68k_op_move_16_ix_pcix :: "'b op" where
  "m68k_op_move_16_ix_pcix s =
    (chain (OPER_PCIX_16 s) (\<lambda>res s.
     chain (EA_AX_IX_16 s) (\<lambda>ea s.
     chain (m68ki_write_16 ea res s) (\<lambda>_ s.
     Ret () (s\<lparr>n_flag := NFLAG_16 res,
       not_z_flag := res,
       v_flag := VFLAG_CLEAR,
       c_flag := CFLAG_CLEAR\<rparr>)))))"

definition m68k_op_move_16_ix_i :: "'b op" where
  "m68k_op_move_16_ix_i s =
    (chain (OPER_I_16 s) (\<lambda>res s.
     chain (EA_AX_IX_16 s) (\<lambda>ea s.
     chain (m68ki_write_16 ea res s) (\<lambda>_ s.
     Ret () (s\<lparr>n_flag := NFLAG_16 res,
       not_z_flag := res,
       v_flag := VFLAG_CLEAR,
       c_flag := CFLAG_CLEAR\<rparr>)))))"

definition m68k_op_move_16_aw_d :: "'b op" where
  "m68k_op_move_16_aw_d s =
    (let res = MASK_OUT_ABOVE_16 (DY s)
     in chain (EA_AW_16 s) (\<lambda>ea s.
        chain (m68ki_write_16 ea res s) (\<lambda>_ s.
        Ret () (s\<lparr>n_flag := NFLAG_16 res,
          not_z_flag := res,
          v_flag := VFLAG_CLEAR,
          c_flag := CFLAG_CLEAR\<rparr>))))"

definition m68k_op_move_16_aw_a :: "'b op" where
  "m68k_op_move_16_aw_a s =
    (let res = MASK_OUT_ABOVE_16 (AY s)
     in chain (EA_AW_16 s) (\<lambda>ea s.
        chain (m68ki_write_16 ea res s) (\<lambda>_ s.
        Ret () (s\<lparr>n_flag := NFLAG_16 res,
          not_z_flag := res,
          v_flag := VFLAG_CLEAR,
          c_flag := CFLAG_CLEAR\<rparr>))))"

definition m68k_op_move_16_aw_ai :: "'b op" where
  "m68k_op_move_16_aw_ai s =
    (chain (OPER_AY_AI_16 s) (\<lambda>res s.
     chain (EA_AW_16 s) (\<lambda>ea s.
     chain (m68ki_write_16 ea res s) (\<lambda>_ s.
     Ret () (s\<lparr>n_flag := NFLAG_16 res,
       not_z_flag := res,
       v_flag := VFLAG_CLEAR,
       c_flag := CFLAG_CLEAR\<rparr>)))))"

definition m68k_op_move_16_aw_pi :: "'b op" where
  "m68k_op_move_16_aw_pi s =
    (chain (OPER_AY_PI_16 s) (\<lambda>res s.
     chain (EA_AW_16 s) (\<lambda>ea s.
     chain (m68ki_write_16 ea res s) (\<lambda>_ s.
     Ret () (s\<lparr>n_flag := NFLAG_16 res,
       not_z_flag := res,
       v_flag := VFLAG_CLEAR,
       c_flag := CFLAG_CLEAR\<rparr>)))))"

definition m68k_op_move_16_aw_pd :: "'b op" where
  "m68k_op_move_16_aw_pd s =
    (chain (OPER_AY_PD_16 s) (\<lambda>res s.
     chain (EA_AW_16 s) (\<lambda>ea s.
     chain (m68ki_write_16 ea res s) (\<lambda>_ s.
     Ret () (s\<lparr>n_flag := NFLAG_16 res,
       not_z_flag := res,
       v_flag := VFLAG_CLEAR,
       c_flag := CFLAG_CLEAR\<rparr>)))))"

definition m68k_op_move_16_aw_di :: "'b op" where
  "m68k_op_move_16_aw_di s =
    (chain (OPER_AY_DI_16 s) (\<lambda>res s.
     chain (EA_AW_16 s) (\<lambda>ea s.
     chain (m68ki_write_16 ea res s) (\<lambda>_ s.
     Ret () (s\<lparr>n_flag := NFLAG_16 res,
       not_z_flag := res,
       v_flag := VFLAG_CLEAR,
       c_flag := CFLAG_CLEAR\<rparr>)))))"

definition m68k_op_move_16_aw_ix :: "'b op" where
  "m68k_op_move_16_aw_ix s =
    (chain (OPER_AY_IX_16 s) (\<lambda>res s.
     chain (EA_AW_16 s) (\<lambda>ea s.
     chain (m68ki_write_16 ea res s) (\<lambda>_ s.
     Ret () (s\<lparr>n_flag := NFLAG_16 res,
       not_z_flag := res,
       v_flag := VFLAG_CLEAR,
       c_flag := CFLAG_CLEAR\<rparr>)))))"

definition m68k_op_move_16_aw_aw :: "'b op" where
  "m68k_op_move_16_aw_aw s =
    (chain (OPER_AW_16 s) (\<lambda>res s.
     chain (EA_AW_16 s) (\<lambda>ea s.
     chain (m68ki_write_16 ea res s) (\<lambda>_ s.
     Ret () (s\<lparr>n_flag := NFLAG_16 res,
       not_z_flag := res,
       v_flag := VFLAG_CLEAR,
       c_flag := CFLAG_CLEAR\<rparr>)))))"

definition m68k_op_move_16_aw_al :: "'b op" where
  "m68k_op_move_16_aw_al s =
    (chain (OPER_AL_16 s) (\<lambda>res s.
     chain (EA_AW_16 s) (\<lambda>ea s.
     chain (m68ki_write_16 ea res s) (\<lambda>_ s.
     Ret () (s\<lparr>n_flag := NFLAG_16 res,
       not_z_flag := res,
       v_flag := VFLAG_CLEAR,
       c_flag := CFLAG_CLEAR\<rparr>)))))"

definition m68k_op_move_16_aw_pcdi :: "'b op" where
  "m68k_op_move_16_aw_pcdi s =
    (chain (OPER_PCDI_16 s) (\<lambda>res s.
     chain (EA_AW_16 s) (\<lambda>ea s.
     chain (m68ki_write_16 ea res s) (\<lambda>_ s.
     Ret () (s\<lparr>n_flag := NFLAG_16 res,
       not_z_flag := res,
       v_flag := VFLAG_CLEAR,
       c_flag := CFLAG_CLEAR\<rparr>)))))"

definition m68k_op_move_16_aw_pcix :: "'b op" where
  "m68k_op_move_16_aw_pcix s =
    (chain (OPER_PCIX_16 s) (\<lambda>res s.
     chain (EA_AW_16 s) (\<lambda>ea s.
     chain (m68ki_write_16 ea res s) (\<lambda>_ s.
     Ret () (s\<lparr>n_flag := NFLAG_16 res,
       not_z_flag := res,
       v_flag := VFLAG_CLEAR,
       c_flag := CFLAG_CLEAR\<rparr>)))))"

definition m68k_op_move_16_aw_i :: "'b op" where
  "m68k_op_move_16_aw_i s =
    (chain (OPER_I_16 s) (\<lambda>res s.
     chain (EA_AW_16 s) (\<lambda>ea s.
     chain (m68ki_write_16 ea res s) (\<lambda>_ s.
     Ret () (s\<lparr>n_flag := NFLAG_16 res,
       not_z_flag := res,
       v_flag := VFLAG_CLEAR,
       c_flag := CFLAG_CLEAR\<rparr>)))))"

definition m68k_op_move_16_al_d :: "'b op" where
  "m68k_op_move_16_al_d s =
    (let res = MASK_OUT_ABOVE_16 (DY s)
     in chain (EA_AL_16 s) (\<lambda>ea s.
        chain (m68ki_write_16 ea res s) (\<lambda>_ s.
        Ret () (s\<lparr>n_flag := NFLAG_16 res,
          not_z_flag := res,
          v_flag := VFLAG_CLEAR,
          c_flag := CFLAG_CLEAR\<rparr>))))"

definition m68k_op_move_16_al_a :: "'b op" where
  "m68k_op_move_16_al_a s =
    (let res = MASK_OUT_ABOVE_16 (AY s)
     in chain (EA_AL_16 s) (\<lambda>ea s.
        chain (m68ki_write_16 ea res s) (\<lambda>_ s.
        Ret () (s\<lparr>n_flag := NFLAG_16 res,
          not_z_flag := res,
          v_flag := VFLAG_CLEAR,
          c_flag := CFLAG_CLEAR\<rparr>))))"

definition m68k_op_move_16_al_ai :: "'b op" where
  "m68k_op_move_16_al_ai s =
    (chain (OPER_AY_AI_16 s) (\<lambda>res s.
     chain (EA_AL_16 s) (\<lambda>ea s.
     chain (m68ki_write_16 ea res s) (\<lambda>_ s.
     Ret () (s\<lparr>n_flag := NFLAG_16 res,
       not_z_flag := res,
       v_flag := VFLAG_CLEAR,
       c_flag := CFLAG_CLEAR\<rparr>)))))"

definition m68k_op_move_16_al_pi :: "'b op" where
  "m68k_op_move_16_al_pi s =
    (chain (OPER_AY_PI_16 s) (\<lambda>res s.
     chain (EA_AL_16 s) (\<lambda>ea s.
     chain (m68ki_write_16 ea res s) (\<lambda>_ s.
     Ret () (s\<lparr>n_flag := NFLAG_16 res,
       not_z_flag := res,
       v_flag := VFLAG_CLEAR,
       c_flag := CFLAG_CLEAR\<rparr>)))))"

definition m68k_op_move_16_al_pd :: "'b op" where
  "m68k_op_move_16_al_pd s =
    (chain (OPER_AY_PD_16 s) (\<lambda>res s.
     chain (EA_AL_16 s) (\<lambda>ea s.
     chain (m68ki_write_16 ea res s) (\<lambda>_ s.
     Ret () (s\<lparr>n_flag := NFLAG_16 res,
       not_z_flag := res,
       v_flag := VFLAG_CLEAR,
       c_flag := CFLAG_CLEAR\<rparr>)))))"

definition m68k_op_move_16_al_di :: "'b op" where
  "m68k_op_move_16_al_di s =
    (chain (OPER_AY_DI_16 s) (\<lambda>res s.
     chain (EA_AL_16 s) (\<lambda>ea s.
     chain (m68ki_write_16 ea res s) (\<lambda>_ s.
     Ret () (s\<lparr>n_flag := NFLAG_16 res,
       not_z_flag := res,
       v_flag := VFLAG_CLEAR,
       c_flag := CFLAG_CLEAR\<rparr>)))))"

definition m68k_op_move_16_al_ix :: "'b op" where
  "m68k_op_move_16_al_ix s =
    (chain (OPER_AY_IX_16 s) (\<lambda>res s.
     chain (EA_AL_16 s) (\<lambda>ea s.
     chain (m68ki_write_16 ea res s) (\<lambda>_ s.
     Ret () (s\<lparr>n_flag := NFLAG_16 res,
       not_z_flag := res,
       v_flag := VFLAG_CLEAR,
       c_flag := CFLAG_CLEAR\<rparr>)))))"

definition m68k_op_move_16_al_aw :: "'b op" where
  "m68k_op_move_16_al_aw s =
    (chain (OPER_AW_16 s) (\<lambda>res s.
     chain (EA_AL_16 s) (\<lambda>ea s.
     chain (m68ki_write_16 ea res s) (\<lambda>_ s.
     Ret () (s\<lparr>n_flag := NFLAG_16 res,
       not_z_flag := res,
       v_flag := VFLAG_CLEAR,
       c_flag := CFLAG_CLEAR\<rparr>)))))"

definition m68k_op_move_16_al_al :: "'b op" where
  "m68k_op_move_16_al_al s =
    (chain (OPER_AL_16 s) (\<lambda>res s.
     chain (EA_AL_16 s) (\<lambda>ea s.
     chain (m68ki_write_16 ea res s) (\<lambda>_ s.
     Ret () (s\<lparr>n_flag := NFLAG_16 res,
       not_z_flag := res,
       v_flag := VFLAG_CLEAR,
       c_flag := CFLAG_CLEAR\<rparr>)))))"

definition m68k_op_move_16_al_pcdi :: "'b op" where
  "m68k_op_move_16_al_pcdi s =
    (chain (OPER_PCDI_16 s) (\<lambda>res s.
     chain (EA_AL_16 s) (\<lambda>ea s.
     chain (m68ki_write_16 ea res s) (\<lambda>_ s.
     Ret () (s\<lparr>n_flag := NFLAG_16 res,
       not_z_flag := res,
       v_flag := VFLAG_CLEAR,
       c_flag := CFLAG_CLEAR\<rparr>)))))"

definition m68k_op_move_16_al_pcix :: "'b op" where
  "m68k_op_move_16_al_pcix s =
    (chain (OPER_PCIX_16 s) (\<lambda>res s.
     chain (EA_AL_16 s) (\<lambda>ea s.
     chain (m68ki_write_16 ea res s) (\<lambda>_ s.
     Ret () (s\<lparr>n_flag := NFLAG_16 res,
       not_z_flag := res,
       v_flag := VFLAG_CLEAR,
       c_flag := CFLAG_CLEAR\<rparr>)))))"

definition m68k_op_move_16_al_i :: "'b op" where
  "m68k_op_move_16_al_i s =
    (chain (OPER_I_16 s) (\<lambda>res s.
     chain (EA_AL_16 s) (\<lambda>ea s.
     chain (m68ki_write_16 ea res s) (\<lambda>_ s.
     Ret () (s\<lparr>n_flag := NFLAG_16 res,
       not_z_flag := res,
       v_flag := VFLAG_CLEAR,
       c_flag := CFLAG_CLEAR\<rparr>)))))"

end
