(* ===== verification/OpsMove32.thy ===== *)
theory OpsMove32
  imports OpsBase
begin

section \<open>Instruction handlers: MOVE.L\<close>

text \<open>
  The handlers of m68kops.c for MOVE.L.
  One definition per handler, under the name of its C function; the effective address is part of
  the name.
\<close>

unbundle bit_operations_syntax

definition m68k_op_move_32_d_d :: "'b op" where
  "m68k_op_move_32_d_d s =
    (let res = DY s;
         s = set_DX res s
     in Ret () (s\<lparr>n_flag := NFLAG_32 res,
          not_z_flag := res,
          v_flag := VFLAG_CLEAR,
          c_flag := CFLAG_CLEAR\<rparr>))"

definition m68k_op_move_32_d_a :: "'b op" where
  "m68k_op_move_32_d_a s =
    (let res = AY s;
         s = set_DX res s
     in Ret () (s\<lparr>n_flag := NFLAG_32 res,
          not_z_flag := res,
          v_flag := VFLAG_CLEAR,
          c_flag := CFLAG_CLEAR\<rparr>))"

definition m68k_op_move_32_d_ai :: "'b op" where
  "m68k_op_move_32_d_ai s =
    (chain (OPER_AY_AI_32 s) (\<lambda>res s.
     let s = set_DX res s
     in Ret () (s\<lparr>n_flag := NFLAG_32 res,
          not_z_flag := res,
          v_flag := VFLAG_CLEAR,
          c_flag := CFLAG_CLEAR\<rparr>)))"

definition m68k_op_move_32_d_pi :: "'b op" where
  "m68k_op_move_32_d_pi s =
    (chain (OPER_AY_PI_32 s) (\<lambda>res s.
     let s = set_DX res s
     in Ret () (s\<lparr>n_flag := NFLAG_32 res,
          not_z_flag := res,
          v_flag := VFLAG_CLEAR,
          c_flag := CFLAG_CLEAR\<rparr>)))"

definition m68k_op_move_32_d_pd :: "'b op" where
  "m68k_op_move_32_d_pd s =
    (chain (OPER_AY_PD_32 s) (\<lambda>res s.
     let s = set_DX res s
     in Ret () (s\<lparr>n_flag := NFLAG_32 res,
          not_z_flag := res,
          v_flag := VFLAG_CLEAR,
          c_flag := CFLAG_CLEAR\<rparr>)))"

definition m68k_op_move_32_d_di :: "'b op" where
  "m68k_op_move_32_d_di s =
    (chain (OPER_AY_DI_32 s) (\<lambda>res s.
     let s = set_DX res s
     in Ret () (s\<lparr>n_flag := NFLAG_32 res,
          not_z_flag := res,
          v_flag := VFLAG_CLEAR,
          c_flag := CFLAG_CLEAR\<rparr>)))"

definition m68k_op_move_32_d_ix :: "'b op" where
  "m68k_op_move_32_d_ix s =
    (chain (OPER_AY_IX_32 s) (\<lambda>res s.
     let s = set_DX res s
     in Ret () (s\<lparr>n_flag := NFLAG_32 res,
          not_z_flag := res,
          v_flag := VFLAG_CLEAR,
          c_flag := CFLAG_CLEAR\<rparr>)))"

definition m68k_op_move_32_d_aw :: "'b op" where
  "m68k_op_move_32_d_aw s =
    (chain (OPER_AW_32 s) (\<lambda>res s.
     let s = set_DX res s
     in Ret () (s\<lparr>n_flag := NFLAG_32 res,
          not_z_flag := res,
          v_flag := VFLAG_CLEAR,
          c_flag := CFLAG_CLEAR\<rparr>)))"

definition m68k_op_move_32_d_al :: "'b op" where
  "m68k_op_move_32_d_al s =
    (chain (OPER_AL_32 s) (\<lambda>res s.
     let s = set_DX res s
     in Ret () (s\<lparr>n_flag := NFLAG_32 res,
          not_z_flag := res,
          v_flag := VFLAG_CLEAR,
          c_flag := CFLAG_CLEAR\<rparr>)))"

definition m68k_op_move_32_d_pcdi :: "'b op" where
  "m68k_op_move_32_d_pcdi s =
    (chain (OPER_PCDI_32 s) (\<lambda>res s.
     let s = set_DX res s
     in Ret () (s\<lparr>n_flag := NFLAG_32 res,
          not_z_flag := res,
          v_flag := VFLAG_CLEAR,
          c_flag := CFLAG_CLEAR\<rparr>)))"

definition m68k_op_move_32_d_pcix :: "'b op" where
  "m68k_op_move_32_d_pcix s =
    (chain (OPER_PCIX_32 s) (\<lambda>res s.
     let s = set_DX res s
     in Ret () (s\<lparr>n_flag := NFLAG_32 res,
          not_z_flag := res,
          v_flag := VFLAG_CLEAR,
          c_flag := CFLAG_CLEAR\<rparr>)))"

definition m68k_op_move_32_d_i :: "'b op" where
  "m68k_op_move_32_d_i s =
    (chain (OPER_I_32 s) (\<lambda>res s.
     let s = set_DX res s
     in Ret () (s\<lparr>n_flag := NFLAG_32 res,
          not_z_flag := res,
          v_flag := VFLAG_CLEAR,
          c_flag := CFLAG_CLEAR\<rparr>)))"

definition m68k_op_move_32_ai_d :: "'b op" where
  "m68k_op_move_32_ai_d s =
    (let res = DY s
     in chain (EA_AX_AI_32 s) (\<lambda>ea s.
        chain (m68ki_write_32 ea res s) (\<lambda>_ s.
        Ret () (s\<lparr>n_flag := NFLAG_32 res,
          not_z_flag := res,
          v_flag := VFLAG_CLEAR,
          c_flag := CFLAG_CLEAR\<rparr>))))"

definition m68k_op_move_32_ai_a :: "'b op" where
  "m68k_op_move_32_ai_a s =
    (let res = AY s
     in chain (EA_AX_AI_32 s) (\<lambda>ea s.
        chain (m68ki_write_32 ea res s) (\<lambda>_ s.
        Ret () (s\<lparr>n_flag := NFLAG_32 res,
          not_z_flag := res,
          v_flag := VFLAG_CLEAR,
          c_flag := CFLAG_CLEAR\<rparr>))))"

definition m68k_op_move_32_ai_ai :: "'b op" where
  "m68k_op_move_32_ai_ai s =
    (chain (OPER_AY_AI_32 s) (\<lambda>res s.
     chain (EA_AX_AI_32 s) (\<lambda>ea s.
     chain (m68ki_write_32 ea res s) (\<lambda>_ s.
     Ret () (s\<lparr>n_flag := NFLAG_32 res,
       not_z_flag := res,
       v_flag := VFLAG_CLEAR,
       c_flag := CFLAG_CLEAR\<rparr>)))))"

definition m68k_op_move_32_ai_pi :: "'b op" where
  "m68k_op_move_32_ai_pi s =
    (chain (OPER_AY_PI_32 s) (\<lambda>res s.
     chain (EA_AX_AI_32 s) (\<lambda>ea s.
     chain (m68ki_write_32 ea res s) (\<lambda>_ s.
     Ret () (s\<lparr>n_flag := NFLAG_32 res,
       not_z_flag := res,
       v_flag := VFLAG_CLEAR,
       c_flag := CFLAG_CLEAR\<rparr>)))))"

definition m68k_op_move_32_ai_pd :: "'b op" where
  "m68k_op_move_32_ai_pd s =
    (chain (OPER_AY_PD_32 s) (\<lambda>res s.
     chain (EA_AX_AI_32 s) (\<lambda>ea s.
     chain (m68ki_write_32 ea res s) (\<lambda>_ s.
     Ret () (s\<lparr>n_flag := NFLAG_32 res,
       not_z_flag := res,
       v_flag := VFLAG_CLEAR,
       c_flag := CFLAG_CLEAR\<rparr>)))))"

definition m68k_op_move_32_ai_di :: "'b op" where
  "m68k_op_move_32_ai_di s =
    (chain (OPER_AY_DI_32 s) (\<lambda>res s.
     chain (EA_AX_AI_32 s) (\<lambda>ea s.
     chain (m68ki_write_32 ea res s) (\<lambda>_ s.
     Ret () (s\<lparr>n_flag := NFLAG_32 res,
       not_z_flag := res,
       v_flag := VFLAG_CLEAR,
       c_flag := CFLAG_CLEAR\<rparr>)))))"

definition m68k_op_move_32_ai_ix :: "'b op" where
  "m68k_op_move_32_ai_ix s =
    (chain (OPER_AY_IX_32 s) (\<lambda>res s.
     chain (EA_AX_AI_32 s) (\<lambda>ea s.
     chain (m68ki_write_32 ea res s) (\<lambda>_ s.
     Ret () (s\<lparr>n_flag := NFLAG_32 res,
       not_z_flag := res,
       v_flag := VFLAG_CLEAR,
       c_flag := CFLAG_CLEAR\<rparr>)))))"

definition m68k_op_move_32_ai_aw :: "'b op" where
  "m68k_op_move_32_ai_aw s =
    (chain (OPER_AW_32 s) (\<lambda>res s.
     chain (EA_AX_AI_32 s) (\<lambda>ea s.
     chain (m68ki_write_32 ea res s) (\<lambda>_ s.
     Ret () (s\<lparr>n_flag := NFLAG_32 res,
       not_z_flag := res,
       v_flag := VFLAG_CLEAR,
       c_flag := CFLAG_CLEAR\<rparr>)))))"

definition m68k_op_move_32_ai_al :: "'b op" where
  "m68k_op_move_32_ai_al s =
    (chain (OPER_AL_32 s) (\<lambda>res s.
     chain (EA_AX_AI_32 s) (\<lambda>ea s.
     chain (m68ki_write_32 ea res s) (\<lambda>_ s.
     Ret () (s\<lparr>n_flag := NFLAG_32 res,
       not_z_flag := res,
       v_flag := VFLAG_CLEAR,
       c_flag := CFLAG_CLEAR\<rparr>)))))"

definition m68k_op_move_32_ai_pcdi :: "'b op" where
  "m68k_op_move_32_ai_pcdi s =
    (chain (OPER_PCDI_32 s) (\<lambda>res s.
     chain (EA_AX_AI_32 s) (\<lambda>ea s.
     chain (m68ki_write_32 ea res s) (\<lambda>_ s.
     Ret () (s\<lparr>n_flag := NFLAG_32 res,
       not_z_flag := res,
       v_flag := VFLAG_CLEAR,
       c_flag := CFLAG_CLEAR\<rparr>)))))"

definition m68k_op_move_32_ai_pcix :: "'b op" where
  "m68k_op_move_32_ai_pcix s =
    (chain (OPER_PCIX_32 s) (\<lambda>res s.
     chain (EA_AX_AI_32 s) (\<lambda>ea s.
     chain (m68ki_write_32 ea res s) (\<lambda>_ s.
     Ret () (s\<lparr>n_flag := NFLAG_32 res,
       not_z_flag := res,
       v_flag := VFLAG_CLEAR,
       c_flag := CFLAG_CLEAR\<rparr>)))))"

definition m68k_op_move_32_ai_i :: "'b op" where
  "m68k_op_move_32_ai_i s =
    (chain (OPER_I_32 s) (\<lambda>res s.
     chain (EA_AX_AI_32 s) (\<lambda>ea s.
     chain (m68ki_write_32 ea res s) (\<lambda>_ s.
     Ret () (s\<lparr>n_flag := NFLAG_32 res,
       not_z_flag := res,
       v_flag := VFLAG_CLEAR,
       c_flag := CFLAG_CLEAR\<rparr>)))))"

definition m68k_op_move_32_pi_d :: "'b op" where
  "m68k_op_move_32_pi_d s =
    (let res = DY s
     in chain (EA_AX_PI_32 s) (\<lambda>ea s.
        chain (m68ki_write_32 ea res s) (\<lambda>_ s.
        Ret () (s\<lparr>n_flag := NFLAG_32 res,
          not_z_flag := res,
          v_flag := VFLAG_CLEAR,
          c_flag := CFLAG_CLEAR\<rparr>))))"

definition m68k_op_move_32_pi_a :: "'b op" where
  "m68k_op_move_32_pi_a s =
    (let res = AY s
     in chain (EA_AX_PI_32 s) (\<lambda>ea s.
        chain (m68ki_write_32 ea res s) (\<lambda>_ s.
        Ret () (s\<lparr>n_flag := NFLAG_32 res,
          not_z_flag := res,
          v_flag := VFLAG_CLEAR,
          c_flag := CFLAG_CLEAR\<rparr>))))"

definition m68k_op_move_32_pi_ai :: "'b op" where
  "m68k_op_move_32_pi_ai s =
    (chain (OPER_AY_AI_32 s) (\<lambda>res s.
     chain (EA_AX_PI_32 s) (\<lambda>ea s.
     chain (m68ki_write_32 ea res s) (\<lambda>_ s.
     Ret () (s\<lparr>n_flag := NFLAG_32 res,
       not_z_flag := res,
       v_flag := VFLAG_CLEAR,
       c_flag := CFLAG_CLEAR\<rparr>)))))"

definition m68k_op_move_32_pi_pi :: "'b op" where
  "m68k_op_move_32_pi_pi s =
    (chain (OPER_AY_PI_32 s) (\<lambda>res s.
     chain (EA_AX_PI_32 s) (\<lambda>ea s.
     chain (m68ki_write_32 ea res s) (\<lambda>_ s.
     Ret () (s\<lparr>n_flag := NFLAG_32 res,
       not_z_flag := res,
       v_flag := VFLAG_CLEAR,
       c_flag := CFLAG_CLEAR\<rparr>)))))"

definition m68k_op_move_32_pi_pd :: "'b op" where
  "m68k_op_move_32_pi_pd s =
    (chain (OPER_AY_PD_32 s) (\<lambda>res s.
     chain (EA_AX_PI_32 s) (\<lambda>ea s.
     chain (m68ki_write_32 ea res s) (\<lambda>_ s.
     Ret () (s\<lparr>n_flag := NFLAG_32 res,
       not_z_flag := res,
       v_flag := VFLAG_CLEAR,
       c_flag := CFLAG_CLEAR\<rparr>)))))"

definition m68k_op_move_32_pi_di :: "'b op" where
  "m68k_op_move_32_pi_di s =
    (chain (OPER_AY_DI_32 s) (\<lambda>res s.
     chain (EA_AX_PI_32 s) (\<lambda>ea s.
     chain (m68ki_write_32 ea res s) (\<lambda>_ s.
     Ret () (s\<lparr>n_flag := NFLAG_32 res,
       not_z_flag := res,
       v_flag := VFLAG_CLEAR,
       c_flag := CFLAG_CLEAR\<rparr>)))))"

definition m68k_op_move_32_pi_ix :: "'b op" where
  "m68k_op_move_32_pi_ix s =
    (chain (OPER_AY_IX_32 s) (\<lambda>res s.
     chain (EA_AX_PI_32 s) (\<lambda>ea s.
     chain (m68ki_write_32 ea res s) (\<lambda>_ s.
     Ret () (s\<lparr>n_flag := NFLAG_32 res,
       not_z_flag := res,
       v_flag := VFLAG_CLEAR,
       c_flag := CFLAG_CLEAR\<rparr>)))))"

definition m68k_op_move_32_pi_aw :: "'b op" where
  "m68k_op_move_32_pi_aw s =
    (chain (OPER_AW_32 s) (\<lambda>res s.
     chain (EA_AX_PI_32 s) (\<lambda>ea s.
     chain (m68ki_write_32 ea res s) (\<lambda>_ s.
     Ret () (s\<lparr>n_flag := NFLAG_32 res,
       not_z_flag := res,
       v_flag := VFLAG_CLEAR,
       c_flag := CFLAG_CLEAR\<rparr>)))))"

definition m68k_op_move_32_pi_al :: "'b op" where
  "m68k_op_move_32_pi_al s =
    (chain (OPER_AL_32 s) (\<lambda>res s.
     chain (EA_AX_PI_32 s) (\<lambda>ea s.
     chain (m68ki_write_32 ea res s) (\<lambda>_ s.
     Ret () (s\<lparr>n_flag := NFLAG_32 res,
       not_z_flag := res,
       v_flag := VFLAG_CLEAR,
       c_flag := CFLAG_CLEAR\<rparr>)))))"

definition m68k_op_move_32_pi_pcdi :: "'b op" where
  "m68k_op_move_32_pi_pcdi s =
    (chain (OPER_PCDI_32 s) (\<lambda>res s.
     chain (EA_AX_PI_32 s) (\<lambda>ea s.
     chain (m68ki_write_32 ea res s) (\<lambda>_ s.
     Ret () (s\<lparr>n_flag := NFLAG_32 res,
       not_z_flag := res,
       v_flag := VFLAG_CLEAR,
       c_flag := CFLAG_CLEAR\<rparr>)))))"

definition m68k_op_move_32_pi_pcix :: "'b op" where
  "m68k_op_move_32_pi_pcix s =
    (chain (OPER_PCIX_32 s) (\<lambda>res s.
     chain (EA_AX_PI_32 s) (\<lambda>ea s.
     chain (m68ki_write_32 ea res s) (\<lambda>_ s.
     Ret () (s\<lparr>n_flag := NFLAG_32 res,
       not_z_flag := res,
       v_flag := VFLAG_CLEAR,
       c_flag := CFLAG_CLEAR\<rparr>)))))"

definition m68k_op_move_32_pi_i :: "'b op" where
  "m68k_op_move_32_pi_i s =
    (chain (OPER_I_32 s) (\<lambda>res s.
     chain (EA_AX_PI_32 s) (\<lambda>ea s.
     chain (m68ki_write_32 ea res s) (\<lambda>_ s.
     Ret () (s\<lparr>n_flag := NFLAG_32 res,
       not_z_flag := res,
       v_flag := VFLAG_CLEAR,
       c_flag := CFLAG_CLEAR\<rparr>)))))"

definition m68k_op_move_32_pd_d :: "'b op" where
  "m68k_op_move_32_pd_d s =
    (let res = DY s
     in chain (EA_AX_PD_32 s) (\<lambda>ea s.
        chain (m68ki_write_16 (ea + 2) (res AND 0xFFFF) s) (\<lambda>_ s.
        chain (m68ki_write_16 ea (drop_bit 16 res AND 0xFFFF) s) (\<lambda>_ s.
        Ret () (s\<lparr>n_flag := NFLAG_32 res,
          not_z_flag := res,
          v_flag := VFLAG_CLEAR,
          c_flag := CFLAG_CLEAR\<rparr>)))))"

definition m68k_op_move_32_pd_a :: "'b op" where
  "m68k_op_move_32_pd_a s =
    (let res = AY s
     in chain (EA_AX_PD_32 s) (\<lambda>ea s.
        chain (m68ki_write_16 (ea + 2) (res AND 0xFFFF) s) (\<lambda>_ s.
        chain (m68ki_write_16 ea (drop_bit 16 res AND 0xFFFF) s) (\<lambda>_ s.
        Ret () (s\<lparr>n_flag := NFLAG_32 res,
          not_z_flag := res,
          v_flag := VFLAG_CLEAR,
          c_flag := CFLAG_CLEAR\<rparr>)))))"

definition m68k_op_move_32_pd_ai :: "'b op" where
  "m68k_op_move_32_pd_ai s =
    (chain (OPER_AY_AI_32 s) (\<lambda>res s.
     chain (EA_AX_PD_32 s) (\<lambda>ea s.
     chain (m68ki_write_16 (ea + 2) (res AND 0xFFFF) s) (\<lambda>_ s.
     chain (m68ki_write_16 ea (drop_bit 16 res AND 0xFFFF) s) (\<lambda>_ s.
     Ret () (s\<lparr>n_flag := NFLAG_32 res,
       not_z_flag := res,
       v_flag := VFLAG_CLEAR,
       c_flag := CFLAG_CLEAR\<rparr>))))))"

definition m68k_op_move_32_pd_pi :: "'b op" where
  "m68k_op_move_32_pd_pi s =
    (chain (OPER_AY_PI_32 s) (\<lambda>res s.
     chain (EA_AX_PD_32 s) (\<lambda>ea s.
     chain (m68ki_write_16 (ea + 2) (res AND 0xFFFF) s) (\<lambda>_ s.
     chain (m68ki_write_16 ea (drop_bit 16 res AND 0xFFFF) s) (\<lambda>_ s.
     Ret () (s\<lparr>n_flag := NFLAG_32 res,
       not_z_flag := res,
       v_flag := VFLAG_CLEAR,
       c_flag := CFLAG_CLEAR\<rparr>))))))"

definition m68k_op_move_32_pd_pd :: "'b op" where
  "m68k_op_move_32_pd_pd s =
    (chain (OPER_AY_PD_32 s) (\<lambda>res s.
     chain (EA_AX_PD_32 s) (\<lambda>ea s.
     chain (m68ki_write_16 (ea + 2) (res AND 0xFFFF) s) (\<lambda>_ s.
     chain (m68ki_write_16 ea (drop_bit 16 res AND 0xFFFF) s) (\<lambda>_ s.
     Ret () (s\<lparr>n_flag := NFLAG_32 res,
       not_z_flag := res,
       v_flag := VFLAG_CLEAR,
       c_flag := CFLAG_CLEAR\<rparr>))))))"

definition m68k_op_move_32_pd_di :: "'b op" where
  "m68k_op_move_32_pd_di s =
    (chain (OPER_AY_DI_32 s) (\<lambda>res s.
     chain (EA_AX_PD_32 s) (\<lambda>ea s.
     chain (m68ki_write_16 (ea + 2) (res AND 0xFFFF) s) (\<lambda>_ s.
     chain (m68ki_write_16 ea (drop_bit 16 res AND 0xFFFF) s) (\<lambda>_ s.
     Ret () (s\<lparr>n_flag := NFLAG_32 res,
       not_z_flag := res,
       v_flag := VFLAG_CLEAR,
       c_flag := CFLAG_CLEAR\<rparr>))))))"

definition m68k_op_move_32_pd_ix :: "'b op" where
  "m68k_op_move_32_pd_ix s =
    (chain (OPER_AY_IX_32 s) (\<lambda>res s.
     chain (EA_AX_PD_32 s) (\<lambda>ea s.
     chain (m68ki_write_16 (ea + 2) (res AND 0xFFFF) s) (\<lambda>_ s.
     chain (m68ki_write_16 ea (drop_bit 16 res AND 0xFFFF) s) (\<lambda>_ s.
     Ret () (s\<lparr>n_flag := NFLAG_32 res,
       not_z_flag := res,
       v_flag := VFLAG_CLEAR,
       c_flag := CFLAG_CLEAR\<rparr>))))))"

definition m68k_op_move_32_pd_aw :: "'b op" where
  "m68k_op_move_32_pd_aw s =
    (chain (OPER_AW_32 s) (\<lambda>res s.
     chain (EA_AX_PD_32 s) (\<lambda>ea s.
     chain (m68ki_write_16 (ea + 2) (res AND 0xFFFF) s) (\<lambda>_ s.
     chain (m68ki_write_16 ea (drop_bit 16 res AND 0xFFFF) s) (\<lambda>_ s.
     Ret () (s\<lparr>n_flag := NFLAG_32 res,
       not_z_flag := res,
       v_flag := VFLAG_CLEAR,
       c_flag := CFLAG_CLEAR\<rparr>))))))"

definition m68k_op_move_32_pd_al :: "'b op" where
  "m68k_op_move_32_pd_al s =
    (chain (OPER_AL_32 s) (\<lambda>res s.
     chain (EA_AX_PD_32 s) (\<lambda>ea s.
     chain (m68ki_write_16 (ea + 2) (res AND 0xFFFF) s) (\<lambda>_ s.
     chain (m68ki_write_16 ea (drop_bit 16 res AND 0xFFFF) s) (\<lambda>_ s.
     Ret () (s\<lparr>n_flag := NFLAG_32 res,
       not_z_flag := res,
       v_flag := VFLAG_CLEAR,
       c_flag := CFLAG_CLEAR\<rparr>))))))"

definition m68k_op_move_32_pd_pcdi :: "'b op" where
  "m68k_op_move_32_pd_pcdi s =
    (chain (OPER_PCDI_32 s) (\<lambda>res s.
     chain (EA_AX_PD_32 s) (\<lambda>ea s.
     chain (m68ki_write_16 (ea + 2) (res AND 0xFFFF) s) (\<lambda>_ s.
     chain (m68ki_write_16 ea (drop_bit 16 res AND 0xFFFF) s) (\<lambda>_ s.
     Ret () (s\<lparr>n_flag := NFLAG_32 res,
       not_z_flag := res,
       v_flag := VFLAG_CLEAR,
       c_flag := CFLAG_CLEAR\<rparr>))))))"

definition m68k_op_move_32_pd_pcix :: "'b op" where
  "m68k_op_move_32_pd_pcix s =
    (chain (OPER_PCIX_32 s) (\<lambda>res s.
     chain (EA_AX_PD_32 s) (\<lambda>ea s.
     chain (m68ki_write_16 (ea + 2) (res AND 0xFFFF) s) (\<lambda>_ s.
     chain (m68ki_write_16 ea (drop_bit 16 res AND 0xFFFF) s) (\<lambda>_ s.
     Ret () (s\<lparr>n_flag := NFLAG_32 res,
       not_z_flag := res,
       v_flag := VFLAG_CLEAR,
       c_flag := CFLAG_CLEAR\<rparr>))))))"

definition m68k_op_move_32_pd_i :: "'b op" where
  "m68k_op_move_32_pd_i s =
    (chain (OPER_I_32 s) (\<lambda>res s.
     chain (EA_AX_PD_32 s) (\<lambda>ea s.
     chain (m68ki_write_16 (ea + 2) (res AND 0xFFFF) s) (\<lambda>_ s.
     chain (m68ki_write_16 ea (drop_bit 16 res AND 0xFFFF) s) (\<lambda>_ s.
     Ret () (s\<lparr>n_flag := NFLAG_32 res,
       not_z_flag := res,
       v_flag := VFLAG_CLEAR,
       c_flag := CFLAG_CLEAR\<rparr>))))))"

definition m68k_op_move_32_di_d :: "'b op" where
  "m68k_op_move_32_di_d s =
    (let res = DY s
     in chain (EA_AX_DI_32 s) (\<lambda>ea s.
        chain (m68ki_write_32 ea res s) (\<lambda>_ s.
        Ret () (s\<lparr>n_flag := NFLAG_32 res,
          not_z_flag := res,
          v_flag := VFLAG_CLEAR,
          c_flag := CFLAG_CLEAR\<rparr>))))"

definition m68k_op_move_32_di_a :: "'b op" where
  "m68k_op_move_32_di_a s =
    (let res = AY s
     in chain (EA_AX_DI_32 s) (\<lambda>ea s.
        chain (m68ki_write_32 ea res s) (\<lambda>_ s.
        Ret () (s\<lparr>n_flag := NFLAG_32 res,
          not_z_flag := res,
          v_flag := VFLAG_CLEAR,
          c_flag := CFLAG_CLEAR\<rparr>))))"

definition m68k_op_move_32_di_ai :: "'b op" where
  "m68k_op_move_32_di_ai s =
    (chain (OPER_AY_AI_32 s) (\<lambda>res s.
     chain (EA_AX_DI_32 s) (\<lambda>ea s.
     chain (m68ki_write_32 ea res s) (\<lambda>_ s.
     Ret () (s\<lparr>n_flag := NFLAG_32 res,
       not_z_flag := res,
       v_flag := VFLAG_CLEAR,
       c_flag := CFLAG_CLEAR\<rparr>)))))"

definition m68k_op_move_32_di_pi :: "'b op" where
  "m68k_op_move_32_di_pi s =
    (chain (OPER_AY_PI_32 s) (\<lambda>res s.
     chain (EA_AX_DI_32 s) (\<lambda>ea s.
     chain (m68ki_write_32 ea res s) (\<lambda>_ s.
     Ret () (s\<lparr>n_flag := NFLAG_32 res,
       not_z_flag := res,
       v_flag := VFLAG_CLEAR,
       c_flag := CFLAG_CLEAR\<rparr>)))))"

definition m68k_op_move_32_di_pd :: "'b op" where
  "m68k_op_move_32_di_pd s =
    (chain (OPER_AY_PD_32 s) (\<lambda>res s.
     chain (EA_AX_DI_32 s) (\<lambda>ea s.
     chain (m68ki_write_32 ea res s) (\<lambda>_ s.
     Ret () (s\<lparr>n_flag := NFLAG_32 res,
       not_z_flag := res,
       v_flag := VFLAG_CLEAR,
       c_flag := CFLAG_CLEAR\<rparr>)))))"

definition m68k_op_move_32_di_di :: "'b op" where
  "m68k_op_move_32_di_di s =
    (chain (OPER_AY_DI_32 s) (\<lambda>res s.
     chain (EA_AX_DI_32 s) (\<lambda>ea s.
     chain (m68ki_write_32 ea res s) (\<lambda>_ s.
     Ret () (s\<lparr>n_flag := NFLAG_32 res,
       not_z_flag := res,
       v_flag := VFLAG_CLEAR,
       c_flag := CFLAG_CLEAR\<rparr>)))))"

definition m68k_op_move_32_di_ix :: "'b op" where
  "m68k_op_move_32_di_ix s =
    (chain (OPER_AY_IX_32 s) (\<lambda>res s.
     chain (EA_AX_DI_32 s) (\<lambda>ea s.
     chain (m68ki_write_32 ea res s) (\<lambda>_ s.
     Ret () (s\<lparr>n_flag := NFLAG_32 res,
       not_z_flag := res,
       v_flag := VFLAG_CLEAR,
       c_flag := CFLAG_CLEAR\<rparr>)))))"

definition m68k_op_move_32_di_aw :: "'b op" where
  "m68k_op_move_32_di_aw s =
    (chain (OPER_AW_32 s) (\<lambda>res s.
     chain (EA_AX_DI_32 s) (\<lambda>ea s.
     chain (m68ki_write_32 ea res s) (\<lambda>_ s.
     Ret () (s\<lparr>n_flag := NFLAG_32 res,
       not_z_flag := res,
       v_flag := VFLAG_CLEAR,
       c_flag := CFLAG_CLEAR\<rparr>)))))"

definition m68k_op_move_32_di_al :: "'b op" where
  "m68k_op_move_32_di_al s =
    (chain (OPER_AL_32 s) (\<lambda>res s.
     chain (EA_AX_DI_32 s) (\<lambda>ea s.
     chain (m68ki_write_32 ea res s) (\<lambda>_ s.
     Ret () (s\<lparr>n_flag := NFLAG_32 res,
       not_z_flag := res,
       v_flag := VFLAG_CLEAR,
       c_flag := CFLAG_CLEAR\<rparr>)))))"

definition m68k_op_move_32_di_pcdi :: "'b op" where
  "m68k_op_move_32_di_pcdi s =
    (chain (OPER_PCDI_32 s) (\<lambda>res s.
     chain (EA_AX_DI_32 s) (\<lambda>ea s.
     chain (m68ki_write_32 ea res s) (\<lambda>_ s.
     Ret () (s\<lparr>n_flag := NFLAG_32 res,
       not_z_flag := res,
       v_flag := VFLAG_CLEAR,
       c_flag := CFLAG_CLEAR\<rparr>)))))"

definition m68k_op_move_32_di_pcix :: "'b op" where
  "m68k_op_move_32_di_pcix s =
    (chain (OPER_PCIX_32 s) (\<lambda>res s.
     chain (EA_AX_DI_32 s) (\<lambda>ea s.
     chain (m68ki_write_32 ea res s) (\<lambda>_ s.
     Ret () (s\<lparr>n_flag := NFLAG_32 res,
       not_z_flag := res,
       v_flag := VFLAG_CLEAR,
       c_flag := CFLAG_CLEAR\<rparr>)))))"

definition m68k_op_move_32_di_i :: "'b op" where
  "m68k_op_move_32_di_i s =
    (chain (OPER_I_32 s) (\<lambda>res s.
     chain (EA_AX_DI_32 s) (\<lambda>ea s.
     chain (m68ki_write_32 ea res s) (\<lambda>_ s.
     Ret () (s\<lparr>n_flag := NFLAG_32 res,
       not_z_flag := res,
       v_flag := VFLAG_CLEAR,
       c_flag := CFLAG_CLEAR\<rparr>)))))"

definition m68k_op_move_32_ix_d :: "'b op" where
  "m68k_op_move_32_ix_d s =
    (let res = DY s
     in chain (EA_AX_IX_32 s) (\<lambda>ea s.
        chain (m68ki_write_32 ea res s) (\<lambda>_ s.
        Ret () (s\<lparr>n_flag := NFLAG_32 res,
          not_z_flag := res,
          v_flag := VFLAG_CLEAR,
          c_flag := CFLAG_CLEAR\<rparr>))))"

definition m68k_op_move_32_ix_a :: "'b op" where
  "m68k_op_move_32_ix_a s =
    (let res = AY s
     in chain (EA_AX_IX_32 s) (\<lambda>ea s.
        chain (m68ki_write_32 ea res s) (\<lambda>_ s.
        Ret () (s\<lparr>n_flag := NFLAG_32 res,
          not_z_flag := res,
          v_flag := VFLAG_CLEAR,
          c_flag := CFLAG_CLEAR\<rparr>))))"

definition m68k_op_move_32_ix_ai :: "'b op" where
  "m68k_op_move_32_ix_ai s =
    (chain (OPER_AY_AI_32 s) (\<lambda>res s.
     chain (EA_AX_IX_32 s) (\<lambda>ea s.
     chain (m68ki_write_32 ea res s) (\<lambda>_ s.
     Ret () (s\<lparr>n_flag := NFLAG_32 res,
       not_z_flag := res,
       v_flag := VFLAG_CLEAR,
       c_flag := CFLAG_CLEAR\<rparr>)))))"

definition m68k_op_move_32_ix_pi :: "'b op" where
  "m68k_op_move_32_ix_pi s =
    (chain (OPER_AY_PI_32 s) (\<lambda>res s.
     chain (EA_AX_IX_32 s) (\<lambda>ea s.
     chain (m68ki_write_32 ea res s) (\<lambda>_ s.
     Ret () (s\<lparr>n_flag := NFLAG_32 res,
       not_z_flag := res,
       v_flag := VFLAG_CLEAR,
       c_flag := CFLAG_CLEAR\<rparr>)))))"

definition m68k_op_move_32_ix_pd :: "'b op" where
  "m68k_op_move_32_ix_pd s =
    (chain (OPER_AY_PD_32 s) (\<lambda>res s.
     chain (EA_AX_IX_32 s) (\<lambda>ea s.
     chain (m68ki_write_32 ea res s) (\<lambda>_ s.
     Ret () (s\<lparr>n_flag := NFLAG_32 res,
       not_z_flag := res,
       v_flag := VFLAG_CLEAR,
       c_flag := CFLAG_CLEAR\<rparr>)))))"

definition m68k_op_move_32_ix_di :: "'b op" where
  "m68k_op_move_32_ix_di s =
    (chain (OPER_AY_DI_32 s) (\<lambda>res s.
     chain (EA_AX_IX_32 s) (\<lambda>ea s.
     chain (m68ki_write_32 ea res s) (\<lambda>_ s.
     Ret () (s\<lparr>n_flag := NFLAG_32 res,
       not_z_flag := res,
       v_flag := VFLAG_CLEAR,
       c_flag := CFLAG_CLEAR\<rparr>)))))"

definition m68k_op_move_32_ix_ix :: "'b op" where
  "m68k_op_move_32_ix_ix s =
    (chain (OPER_AY_IX_32 s) (\<lambda>res s.
     chain (EA_AX_IX_32 s) (\<lambda>ea s.
     chain (m68ki_write_32 ea res s) (\<lambda>_ s.
     Ret () (s\<lparr>n_flag := NFLAG_32 res,
       not_z_flag := res,
       v_flag := VFLAG_CLEAR,
       c_flag := CFLAG_CLEAR\<rparr>)))))"

definition m68k_op_move_32_ix_aw :: "'b op" where
  "m68k_op_move_32_ix_aw s =
    (chain (OPER_AW_32 s) (\<lambda>res s.
     chain (EA_AX_IX_32 s) (\<lambda>ea s.
     chain (m68ki_write_32 ea res s) (\<lambda>_ s.
     Ret () (s\<lparr>n_flag := NFLAG_32 res,
       not_z_flag := res,
       v_flag := VFLAG_CLEAR,
       c_flag := CFLAG_CLEAR\<rparr>)))))"

definition m68k_op_move_32_ix_al :: "'b op" where
  "m68k_op_move_32_ix_al s =
    (chain (OPER_AL_32 s) (\<lambda>res s.
     chain (EA_AX_IX_32 s) (\<lambda>ea s.
     chain (m68ki_write_32 ea res s) (\<lambda>_ s.
     Ret () (s\<lparr>n_flag := NFLAG_32 res,
       not_z_flag := res,
       v_flag := VFLAG_CLEAR,
       c_flag := CFLAG_CLEAR\<rparr>)))))"

definition m68k_op_move_32_ix_pcdi :: "'b op" where
  "m68k_op_move_32_ix_pcdi s =
    (chain (OPER_PCDI_32 s) (\<lambda>res s.
     chain (EA_AX_IX_32 s) (\<lambda>ea s.
     chain (m68ki_write_32 ea res s) (\<lambda>_ s.
     Ret () (s\<lparr>n_flag := NFLAG_32 res,
       not_z_flag := res,
       v_flag := VFLAG_CLEAR,
       c_flag := CFLAG_CLEAR\<rparr>)))))"

definition m68k_op_move_32_ix_pcix :: "'b op" where
  "m68k_op_move_32_ix_pcix s =
    (chain (OPER_PCIX_32 s) (\<lambda>res s.
     chain (EA_AX_IX_32 s) (\<lambda>ea s.
     chain (m68ki_write_32 ea res s) (\<lambda>_ s.
     Ret () (s\<lparr>n_flag := NFLAG_32 res,
       not_z_flag := res,
       v_flag := VFLAG_CLEAR,
       c_flag := CFLAG_CLEAR\<rparr>)))))"

definition m68k_op_move_32_ix_i :: "'b op" where
  "m68k_op_move_32_ix_i s =
    (chain (OPER_I_32 s) (\<lambda>res s.
     chain (EA_AX_IX_32 s) (\<lambda>ea s.
     chain (m68ki_write_32 ea res s) (\<lambda>_ s.
     Ret () (s\<lparr>n_flag := NFLAG_32 res,
       not_z_flag := res,
       v_flag := VFLAG_CLEAR,
       c_flag := CFLAG_CLEAR\<rparr>)))))"

definition m68k_op_move_32_aw_d :: "'b op" where
  "m68k_op_move_32_aw_d s =
    (let res = DY s
     in chain (EA_AW_32 s) (\<lambda>ea s.
        chain (m68ki_write_32 ea res s) (\<lambda>_ s.
        Ret () (s\<lparr>n_flag := NFLAG_32 res,
          not_z_flag := res,
          v_flag := VFLAG_CLEAR,
          c_flag := CFLAG_CLEAR\<rparr>))))"

definition m68k_op_move_32_aw_a :: "'b op" where
  "m68k_op_move_32_aw_a s =
    (let res = AY s
     in chain (EA_AW_32 s) (\<lambda>ea s.
        chain (m68ki_write_32 ea res s) (\<lambda>_ s.
        Ret () (s\<lparr>n_flag := NFLAG_32 res,
          not_z_flag := res,
          v_flag := VFLAG_CLEAR,
          c_flag := CFLAG_CLEAR\<rparr>))))"

definition m68k_op_move_32_aw_ai :: "'b op" where
  "m68k_op_move_32_aw_ai s =
    (chain (OPER_AY_AI_32 s) (\<lambda>res s.
     chain (EA_AW_32 s) (\<lambda>ea s.
     chain (m68ki_write_32 ea res s) (\<lambda>_ s.
     Ret () (s\<lparr>n_flag := NFLAG_32 res,
       not_z_flag := res,
       v_flag := VFLAG_CLEAR,
       c_flag := CFLAG_CLEAR\<rparr>)))))"

definition m68k_op_move_32_aw_pi :: "'b op" where
  "m68k_op_move_32_aw_pi s =
    (chain (OPER_AY_PI_32 s) (\<lambda>res s.
     chain (EA_AW_32 s) (\<lambda>ea s.
     chain (m68ki_write_32 ea res s) (\<lambda>_ s.
     Ret () (s\<lparr>n_flag := NFLAG_32 res,
       not_z_flag := res,
       v_flag := VFLAG_CLEAR,
       c_flag := CFLAG_CLEAR\<rparr>)))))"

definition m68k_op_move_32_aw_pd :: "'b op" where
  "m68k_op_move_32_aw_pd s =
    (chain (OPER_AY_PD_32 s) (\<lambda>res s.
     chain (EA_AW_32 s) (\<lambda>ea s.
     chain (m68ki_write_32 ea res s) (\<lambda>_ s.
     Ret () (s\<lparr>n_flag := NFLAG_32 res,
       not_z_flag := res,
       v_flag := VFLAG_CLEAR,
       c_flag := CFLAG_CLEAR\<rparr>)))))"

definition m68k_op_move_32_aw_di :: "'b op" where
  "m68k_op_move_32_aw_di s =
    (chain (OPER_AY_DI_32 s) (\<lambda>res s.
     chain (EA_AW_32 s) (\<lambda>ea s.
     chain (m68ki_write_32 ea res s) (\<lambda>_ s.
     Ret () (s\<lparr>n_flag := NFLAG_32 res,
       not_z_flag := res,
       v_flag := VFLAG_CLEAR,
       c_flag := CFLAG_CLEAR\<rparr>)))))"

definition m68k_op_move_32_aw_ix :: "'b op" where
  "m68k_op_move_32_aw_ix s =
    (chain (OPER_AY_IX_32 s) (\<lambda>res s.
     chain (EA_AW_32 s) (\<lambda>ea s.
     chain (m68ki_write_32 ea res s) (\<lambda>_ s.
     Ret () (s\<lparr>n_flag := NFLAG_32 res,
       not_z_flag := res,
       v_flag := VFLAG_CLEAR,
       c_flag := CFLAG_CLEAR\<rparr>)))))"

definition m68k_op_move_32_aw_aw :: "'b op" where
  "m68k_op_move_32_aw_aw s =
    (chain (OPER_AW_32 s) (\<lambda>res s.
     chain (EA_AW_32 s) (\<lambda>ea s.
     chain (m68ki_write_32 ea res s) (\<lambda>_ s.
     Ret () (s\<lparr>n_flag := NFLAG_32 res,
       not_z_flag := res,
       v_flag := VFLAG_CLEAR,
       c_flag := CFLAG_CLEAR\<rparr>)))))"

definition m68k_op_move_32_aw_al :: "'b op" where
  "m68k_op_move_32_aw_al s =
    (chain (OPER_AL_32 s) (\<lambda>res s.
     chain (EA_AW_32 s) (\<lambda>ea s.
     chain (m68ki_write_32 ea res s) (\<lambda>_ s.
     Ret () (s\<lparr>n_flag := NFLAG_32 res,
       not_z_flag := res,
       v_flag := VFLAG_CLEAR,
       c_flag := CFLAG_CLEAR\<rparr>)))))"

definition m68k_op_move_32_aw_pcdi :: "'b op" where
  "m68k_op_move_32_aw_pcdi s =
    (chain (OPER_PCDI_32 s) (\<lambda>res s.
     chain (EA_AW_32 s) (\<lambda>ea s.
     chain (m68ki_write_32 ea res s) (\<lambda>_ s.
     Ret () (s\<lparr>n_flag := NFLAG_32 res,
       not_z_flag := res,
       v_flag := VFLAG_CLEAR,
       c_flag := CFLAG_CLEAR\<rparr>)))))"

definition m68k_op_move_32_aw_pcix :: "'b op" where
  "m68k_op_move_32_aw_pcix s =
    (chain (OPER_PCIX_32 s) (\<lambda>res s.
     chain (EA_AW_32 s) (\<lambda>ea s.
     chain (m68ki_write_32 ea res s) (\<lambda>_ s.
     Ret () (s\<lparr>n_flag := NFLAG_32 res,
       not_z_flag := res,
       v_flag := VFLAG_CLEAR,
       c_flag := CFLAG_CLEAR\<rparr>)))))"

definition m68k_op_move_32_aw_i :: "'b op" where
  "m68k_op_move_32_aw_i s =
    (chain (OPER_I_32 s) (\<lambda>res s.
     chain (EA_AW_32 s) (\<lambda>ea s.
     chain (m68ki_write_32 ea res s) (\<lambda>_ s.
     Ret () (s\<lparr>n_flag := NFLAG_32 res,
       not_z_flag := res,
       v_flag := VFLAG_CLEAR,
       c_flag := CFLAG_CLEAR\<rparr>)))))"

definition m68k_op_move_32_al_d :: "'b op" where
  "m68k_op_move_32_al_d s =
    (let res = DY s
     in chain (EA_AL_32 s) (\<lambda>ea s.
        chain (m68ki_write_32 ea res s) (\<lambda>_ s.
        Ret () (s\<lparr>n_flag := NFLAG_32 res,
          not_z_flag := res,
          v_flag := VFLAG_CLEAR,
          c_flag := CFLAG_CLEAR\<rparr>))))"

definition m68k_op_move_32_al_a :: "'b op" where
  "m68k_op_move_32_al_a s =
    (let res = AY s
     in chain (EA_AL_32 s) (\<lambda>ea s.
        chain (m68ki_write_32 ea res s) (\<lambda>_ s.
        Ret () (s\<lparr>n_flag := NFLAG_32 res,
          not_z_flag := res,
          v_flag := VFLAG_CLEAR,
          c_flag := CFLAG_CLEAR\<rparr>))))"

definition m68k_op_move_32_al_ai :: "'b op" where
  "m68k_op_move_32_al_ai s =
    (chain (OPER_AY_AI_32 s) (\<lambda>res s.
     chain (EA_AL_32 s) (\<lambda>ea s.
     chain (m68ki_write_32 ea res s) (\<lambda>_ s.
     Ret () (s\<lparr>n_flag := NFLAG_32 res,
       not_z_flag := res,
       v_flag := VFLAG_CLEAR,
       c_flag := CFLAG_CLEAR\<rparr>)))))"

definition m68k_op_move_32_al_pi :: "'b op" where
  "m68k_op_move_32_al_pi s =
    (chain (OPER_AY_PI_32 s) (\<lambda>res s.
     chain (EA_AL_32 s) (\<lambda>ea s.
     chain (m68ki_write_32 ea res s) (\<lambda>_ s.
     Ret () (s\<lparr>n_flag := NFLAG_32 res,
       not_z_flag := res,
       v_flag := VFLAG_CLEAR,
       c_flag := CFLAG_CLEAR\<rparr>)))))"

definition m68k_op_move_32_al_pd :: "'b op" where
  "m68k_op_move_32_al_pd s =
    (chain (OPER_AY_PD_32 s) (\<lambda>res s.
     chain (EA_AL_32 s) (\<lambda>ea s.
     chain (m68ki_write_32 ea res s) (\<lambda>_ s.
     Ret () (s\<lparr>n_flag := NFLAG_32 res,
       not_z_flag := res,
       v_flag := VFLAG_CLEAR,
       c_flag := CFLAG_CLEAR\<rparr>)))))"

definition m68k_op_move_32_al_di :: "'b op" where
  "m68k_op_move_32_al_di s =
    (chain (OPER_AY_DI_32 s) (\<lambda>res s.
     chain (EA_AL_32 s) (\<lambda>ea s.
     chain (m68ki_write_32 ea res s) (\<lambda>_ s.
     Ret () (s\<lparr>n_flag := NFLAG_32 res,
       not_z_flag := res,
       v_flag := VFLAG_CLEAR,
       c_flag := CFLAG_CLEAR\<rparr>)))))"

definition m68k_op_move_32_al_ix :: "'b op" where
  "m68k_op_move_32_al_ix s =
    (chain (OPER_AY_IX_32 s) (\<lambda>res s.
     chain (EA_AL_32 s) (\<lambda>ea s.
     chain (m68ki_write_32 ea res s) (\<lambda>_ s.
     Ret () (s\<lparr>n_flag := NFLAG_32 res,
       not_z_flag := res,
       v_flag := VFLAG_CLEAR,
       c_flag := CFLAG_CLEAR\<rparr>)))))"

definition m68k_op_move_32_al_aw :: "'b op" where
  "m68k_op_move_32_al_aw s =
    (chain (OPER_AW_32 s) (\<lambda>res s.
     chain (EA_AL_32 s) (\<lambda>ea s.
     chain (m68ki_write_32 ea res s) (\<lambda>_ s.
     Ret () (s\<lparr>n_flag := NFLAG_32 res,
       not_z_flag := res,
       v_flag := VFLAG_CLEAR,
       c_flag := CFLAG_CLEAR\<rparr>)))))"

definition m68k_op_move_32_al_al :: "'b op" where
  "m68k_op_move_32_al_al s =
    (chain (OPER_AL_32 s) (\<lambda>res s.
     chain (EA_AL_32 s) (\<lambda>ea s.
     chain (m68ki_write_32 ea res s) (\<lambda>_ s.
     Ret () (s\<lparr>n_flag := NFLAG_32 res,
       not_z_flag := res,
       v_flag := VFLAG_CLEAR,
       c_flag := CFLAG_CLEAR\<rparr>)))))"

definition m68k_op_move_32_al_pcdi :: "'b op" where
  "m68k_op_move_32_al_pcdi s =
    (chain (OPER_PCDI_32 s) (\<lambda>res s.
     chain (EA_AL_32 s) (\<lambda>ea s.
     chain (m68ki_write_32 ea res s) (\<lambda>_ s.
     Ret () (s\<lparr>n_flag := NFLAG_32 res,
       not_z_flag := res,
       v_flag := VFLAG_CLEAR,
       c_flag := CFLAG_CLEAR\<rparr>)))))"

definition m68k_op_move_32_al_pcix :: "'b op" where
  "m68k_op_move_32_al_pcix s =
    (chain (OPER_PCIX_32 s) (\<lambda>res s.
     chain (EA_AL_32 s) (\<lambda>ea s.
     chain (m68ki_write_32 ea res s) (\<lambda>_ s.
     Ret () (s\<lparr>n_flag := NFLAG_32 res,
       not_z_flag := res,
       v_flag := VFLAG_CLEAR,
       c_flag := CFLAG_CLEAR\<rparr>)))))"

definition m68k_op_move_32_al_i :: "'b op" where
  "m68k_op_move_32_al_i s =
    (chain (OPER_I_32 s) (\<lambda>res s.
     chain (EA_AL_32 s) (\<lambda>ea s.
     chain (m68ki_write_32 ea res s) (\<lambda>_ s.
     Ret () (s\<lparr>n_flag := NFLAG_32 res,
       not_z_flag := res,
       v_flag := VFLAG_CLEAR,
       c_flag := CFLAG_CLEAR\<rparr>)))))"

end
