(* ===== verification/OpsMove8.thy ===== *)
theory OpsMove8
  imports OpsBase
begin

section \<open>Instruction handlers: MOVE.B\<close>

text \<open>
  The handlers of m68kops.c for MOVE.B.
  One definition per handler, under the name of its C function; the effective address is part of
  the name.
\<close>

unbundle bit_operations_syntax

definition m68k_op_move_8_d_d :: "'b op" where
  "m68k_op_move_8_d_d s =
    (let res = MASK_OUT_ABOVE_8 (DY s);
         s = set_DX (MASK_OUT_BELOW_8 (DX s) OR res) s
     in Ret () (s\<lparr>n_flag := NFLAG_8 res,
          not_z_flag := res,
          v_flag := VFLAG_CLEAR,
          c_flag := CFLAG_CLEAR\<rparr>))"

definition m68k_op_move_8_d_ai :: "'b op" where
  "m68k_op_move_8_d_ai s =
    (chain (OPER_AY_AI_8 s) (\<lambda>res s.
     let s = set_DX (MASK_OUT_BELOW_8 (DX s) OR res) s
     in Ret () (s\<lparr>n_flag := NFLAG_8 res,
          not_z_flag := res,
          v_flag := VFLAG_CLEAR,
          c_flag := CFLAG_CLEAR\<rparr>)))"

definition m68k_op_move_8_d_pi :: "'b op" where
  "m68k_op_move_8_d_pi s =
    (chain (OPER_AY_PI_8 s) (\<lambda>res s.
     let s = set_DX (MASK_OUT_BELOW_8 (DX s) OR res) s
     in Ret () (s\<lparr>n_flag := NFLAG_8 res,
          not_z_flag := res,
          v_flag := VFLAG_CLEAR,
          c_flag := CFLAG_CLEAR\<rparr>)))"

definition m68k_op_move_8_d_pi7 :: "'b op" where
  "m68k_op_move_8_d_pi7 s =
    (chain (OPER_A7_PI_8 s) (\<lambda>res s.
     let s = set_DX (MASK_OUT_BELOW_8 (DX s) OR res) s
     in Ret () (s\<lparr>n_flag := NFLAG_8 res,
          not_z_flag := res,
          v_flag := VFLAG_CLEAR,
          c_flag := CFLAG_CLEAR\<rparr>)))"

definition m68k_op_move_8_d_pd :: "'b op" where
  "m68k_op_move_8_d_pd s =
    (chain (OPER_AY_PD_8 s) (\<lambda>res s.
     let s = set_DX (MASK_OUT_BELOW_8 (DX s) OR res) s
     in Ret () (s\<lparr>n_flag := NFLAG_8 res,
          not_z_flag := res,
          v_flag := VFLAG_CLEAR,
          c_flag := CFLAG_CLEAR\<rparr>)))"

definition m68k_op_move_8_d_pd7 :: "'b op" where
  "m68k_op_move_8_d_pd7 s =
    (chain (OPER_A7_PD_8 s) (\<lambda>res s.
     let s = set_DX (MASK_OUT_BELOW_8 (DX s) OR res) s
     in Ret () (s\<lparr>n_flag := NFLAG_8 res,
          not_z_flag := res,
          v_flag := VFLAG_CLEAR,
          c_flag := CFLAG_CLEAR\<rparr>)))"

definition m68k_op_move_8_d_di :: "'b op" where
  "m68k_op_move_8_d_di s =
    (chain (OPER_AY_DI_8 s) (\<lambda>res s.
     let s = set_DX (MASK_OUT_BELOW_8 (DX s) OR res) s
     in Ret () (s\<lparr>n_flag := NFLAG_8 res,
          not_z_flag := res,
          v_flag := VFLAG_CLEAR,
          c_flag := CFLAG_CLEAR\<rparr>)))"

definition m68k_op_move_8_d_ix :: "'b op" where
  "m68k_op_move_8_d_ix s =
    (chain (OPER_AY_IX_8 s) (\<lambda>res s.
     let s = set_DX (MASK_OUT_BELOW_8 (DX s) OR res) s
     in Ret () (s\<lparr>n_flag := NFLAG_8 res,
          not_z_flag := res,
          v_flag := VFLAG_CLEAR,
          c_flag := CFLAG_CLEAR\<rparr>)))"

definition m68k_op_move_8_d_aw :: "'b op" where
  "m68k_op_move_8_d_aw s =
    (chain (OPER_AW_8 s) (\<lambda>res s.
     let s = set_DX (MASK_OUT_BELOW_8 (DX s) OR res) s
     in Ret () (s\<lparr>n_flag := NFLAG_8 res,
          not_z_flag := res,
          v_flag := VFLAG_CLEAR,
          c_flag := CFLAG_CLEAR\<rparr>)))"

definition m68k_op_move_8_d_al :: "'b op" where
  "m68k_op_move_8_d_al s =
    (chain (OPER_AL_8 s) (\<lambda>res s.
     let s = set_DX (MASK_OUT_BELOW_8 (DX s) OR res) s
     in Ret () (s\<lparr>n_flag := NFLAG_8 res,
          not_z_flag := res,
          v_flag := VFLAG_CLEAR,
          c_flag := CFLAG_CLEAR\<rparr>)))"

definition m68k_op_move_8_d_pcdi :: "'b op" where
  "m68k_op_move_8_d_pcdi s =
    (chain (OPER_PCDI_8 s) (\<lambda>res s.
     let s = set_DX (MASK_OUT_BELOW_8 (DX s) OR res) s
     in Ret () (s\<lparr>n_flag := NFLAG_8 res,
          not_z_flag := res,
          v_flag := VFLAG_CLEAR,
          c_flag := CFLAG_CLEAR\<rparr>)))"

definition m68k_op_move_8_d_pcix :: "'b op" where
  "m68k_op_move_8_d_pcix s =
    (chain (OPER_PCIX_8 s) (\<lambda>res s.
     let s = set_DX (MASK_OUT_BELOW_8 (DX s) OR res) s
     in Ret () (s\<lparr>n_flag := NFLAG_8 res,
          not_z_flag := res,
          v_flag := VFLAG_CLEAR,
          c_flag := CFLAG_CLEAR\<rparr>)))"

definition m68k_op_move_8_d_i :: "'b op" where
  "m68k_op_move_8_d_i s =
    (chain (OPER_I_8 s) (\<lambda>res s.
     let s = set_DX (MASK_OUT_BELOW_8 (DX s) OR res) s
     in Ret () (s\<lparr>n_flag := NFLAG_8 res,
          not_z_flag := res,
          v_flag := VFLAG_CLEAR,
          c_flag := CFLAG_CLEAR\<rparr>)))"

definition m68k_op_move_8_ai_d :: "'b op" where
  "m68k_op_move_8_ai_d s =
    (let res = MASK_OUT_ABOVE_8 (DY s)
     in chain (EA_AX_AI_8 s) (\<lambda>ea s.
        chain (m68ki_write_8 ea res s) (\<lambda>_ s.
        Ret () (s\<lparr>n_flag := NFLAG_8 res,
          not_z_flag := res,
          v_flag := VFLAG_CLEAR,
          c_flag := CFLAG_CLEAR\<rparr>))))"

definition m68k_op_move_8_ai_ai :: "'b op" where
  "m68k_op_move_8_ai_ai s =
    (chain (OPER_AY_AI_8 s) (\<lambda>res s.
     chain (EA_AX_AI_8 s) (\<lambda>ea s.
     chain (m68ki_write_8 ea res s) (\<lambda>_ s.
     Ret () (s\<lparr>n_flag := NFLAG_8 res,
       not_z_flag := res,
       v_flag := VFLAG_CLEAR,
       c_flag := CFLAG_CLEAR\<rparr>)))))"

definition m68k_op_move_8_ai_pi :: "'b op" where
  "m68k_op_move_8_ai_pi s =
    (chain (OPER_AY_PI_8 s) (\<lambda>res s.
     chain (EA_AX_AI_8 s) (\<lambda>ea s.
     chain (m68ki_write_8 ea res s) (\<lambda>_ s.
     Ret () (s\<lparr>n_flag := NFLAG_8 res,
       not_z_flag := res,
       v_flag := VFLAG_CLEAR,
       c_flag := CFLAG_CLEAR\<rparr>)))))"

definition m68k_op_move_8_ai_pi7 :: "'b op" where
  "m68k_op_move_8_ai_pi7 s =
    (chain (OPER_A7_PI_8 s) (\<lambda>res s.
     chain (EA_AX_AI_8 s) (\<lambda>ea s.
     chain (m68ki_write_8 ea res s) (\<lambda>_ s.
     Ret () (s\<lparr>n_flag := NFLAG_8 res,
       not_z_flag := res,
       v_flag := VFLAG_CLEAR,
       c_flag := CFLAG_CLEAR\<rparr>)))))"

definition m68k_op_move_8_ai_pd :: "'b op" where
  "m68k_op_move_8_ai_pd s =
    (chain (OPER_AY_PD_8 s) (\<lambda>res s.
     chain (EA_AX_AI_8 s) (\<lambda>ea s.
     chain (m68ki_write_8 ea res s) (\<lambda>_ s.
     Ret () (s\<lparr>n_flag := NFLAG_8 res,
       not_z_flag := res,
       v_flag := VFLAG_CLEAR,
       c_flag := CFLAG_CLEAR\<rparr>)))))"

definition m68k_op_move_8_ai_pd7 :: "'b op" where
  "m68k_op_move_8_ai_pd7 s =
    (chain (OPER_A7_PD_8 s) (\<lambda>res s.
     chain (EA_AX_AI_8 s) (\<lambda>ea s.
     chain (m68ki_write_8 ea res s) (\<lambda>_ s.
     Ret () (s\<lparr>n_flag := NFLAG_8 res,
       not_z_flag := res,
       v_flag := VFLAG_CLEAR,
       c_flag := CFLAG_CLEAR\<rparr>)))))"

definition m68k_op_move_8_ai_di :: "'b op" where
  "m68k_op_move_8_ai_di s =
    (chain (OPER_AY_DI_8 s) (\<lambda>res s.
     chain (EA_AX_AI_8 s) (\<lambda>ea s.
     chain (m68ki_write_8 ea res s) (\<lambda>_ s.
     Ret () (s\<lparr>n_flag := NFLAG_8 res,
       not_z_flag := res,
       v_flag := VFLAG_CLEAR,
       c_flag := CFLAG_CLEAR\<rparr>)))))"

definition m68k_op_move_8_ai_ix :: "'b op" where
  "m68k_op_move_8_ai_ix s =
    (chain (OPER_AY_IX_8 s) (\<lambda>res s.
     chain (EA_AX_AI_8 s) (\<lambda>ea s.
     chain (m68ki_write_8 ea res s) (\<lambda>_ s.
     Ret () (s\<lparr>n_flag := NFLAG_8 res,
       not_z_flag := res,
       v_flag := VFLAG_CLEAR,
       c_flag := CFLAG_CLEAR\<rparr>)))))"

definition m68k_op_move_8_ai_aw :: "'b op" where
  "m68k_op_move_8_ai_aw s =
    (chain (OPER_AW_8 s) (\<lambda>res s.
     chain (EA_AX_AI_8 s) (\<lambda>ea s.
     chain (m68ki_write_8 ea res s) (\<lambda>_ s.
     Ret () (s\<lparr>n_flag := NFLAG_8 res,
       not_z_flag := res,
       v_flag := VFLAG_CLEAR,
       c_flag := CFLAG_CLEAR\<rparr>)))))"

definition m68k_op_move_8_ai_al :: "'b op" where
  "m68k_op_move_8_ai_al s =
    (chain (OPER_AL_8 s) (\<lambda>res s.
     chain (EA_AX_AI_8 s) (\<lambda>ea s.
     chain (m68ki_write_8 ea res s) (\<lambda>_ s.
     Ret () (s\<lparr>n_flag := NFLAG_8 res,
       not_z_flag := res,
       v_flag := VFLAG_CLEAR,
       c_flag := CFLAG_CLEAR\<rparr>)))))"

definition m68k_op_move_8_ai_pcdi :: "'b op" where
  "m68k_op_move_8_ai_pcdi s =
    (chain (OPER_PCDI_8 s) (\<lambda>res s.
     chain (EA_AX_AI_8 s) (\<lambda>ea s.
     chain (m68ki_write_8 ea res s) (\<lambda>_ s.
     Ret () (s\<lparr>n_flag := NFLAG_8 res,
       not_z_flag := res,
       v_flag := VFLAG_CLEAR,
       c_flag := CFLAG_CLEAR\<rparr>)))))"

definition m68k_op_move_8_ai_pcix :: "'b op" where
  "m68k_op_move_8_ai_pcix s =
    (chain (OPER_PCIX_8 s) (\<lambda>res s.
     chain (EA_AX_AI_8 s) (\<lambda>ea s.
     chain (m68ki_write_8 ea res s) (\<lambda>_ s.
     Ret () (s\<lparr>n_flag := NFLAG_8 res,
       not_z_flag := res,
       v_flag := VFLAG_CLEAR,
       c_flag := CFLAG_CLEAR\<rparr>)))))"

definition m68k_op_move_8_ai_i :: "'b op" where
  "m68k_op_move_8_ai_i s =
    (chain (OPER_I_8 s) (\<lambda>res s.
     chain (EA_AX_AI_8 s) (\<lambda>ea s.
     chain (m68ki_write_8 ea res s) (\<lambda>_ s.
     Ret () (s\<lparr>n_flag := NFLAG_8 res,
       not_z_flag := res,
       v_flag := VFLAG_CLEAR,
       c_flag := CFLAG_CLEAR\<rparr>)))))"

definition m68k_op_move_8_pi7_d :: "'b op" where
  "m68k_op_move_8_pi7_d s =
    (let res = MASK_OUT_ABOVE_8 (DY s)
     in chain (EA_A7_PI_8 s) (\<lambda>ea s.
        chain (m68ki_write_8 ea res s) (\<lambda>_ s.
        Ret () (s\<lparr>n_flag := NFLAG_8 res,
          not_z_flag := res,
          v_flag := VFLAG_CLEAR,
          c_flag := CFLAG_CLEAR\<rparr>))))"

definition m68k_op_move_8_pi_d :: "'b op" where
  "m68k_op_move_8_pi_d s =
    (let res = MASK_OUT_ABOVE_8 (DY s)
     in chain (EA_AX_PI_8 s) (\<lambda>ea s.
        chain (m68ki_write_8 ea res s) (\<lambda>_ s.
        Ret () (s\<lparr>n_flag := NFLAG_8 res,
          not_z_flag := res,
          v_flag := VFLAG_CLEAR,
          c_flag := CFLAG_CLEAR\<rparr>))))"

definition m68k_op_move_8_pi7_ai :: "'b op" where
  "m68k_op_move_8_pi7_ai s =
    (chain (OPER_AY_AI_8 s) (\<lambda>res s.
     chain (EA_A7_PI_8 s) (\<lambda>ea s.
     chain (m68ki_write_8 ea res s) (\<lambda>_ s.
     Ret () (s\<lparr>n_flag := NFLAG_8 res,
       not_z_flag := res,
       v_flag := VFLAG_CLEAR,
       c_flag := CFLAG_CLEAR\<rparr>)))))"

definition m68k_op_move_8_pi7_pi :: "'b op" where
  "m68k_op_move_8_pi7_pi s =
    (chain (OPER_AY_PI_8 s) (\<lambda>res s.
     chain (EA_A7_PI_8 s) (\<lambda>ea s.
     chain (m68ki_write_8 ea res s) (\<lambda>_ s.
     Ret () (s\<lparr>n_flag := NFLAG_8 res,
       not_z_flag := res,
       v_flag := VFLAG_CLEAR,
       c_flag := CFLAG_CLEAR\<rparr>)))))"

definition m68k_op_move_8_pi7_pi7 :: "'b op" where
  "m68k_op_move_8_pi7_pi7 s =
    (chain (OPER_A7_PI_8 s) (\<lambda>res s.
     chain (EA_A7_PI_8 s) (\<lambda>ea s.
     chain (m68ki_write_8 ea res s) (\<lambda>_ s.
     Ret () (s\<lparr>n_flag := NFLAG_8 res,
       not_z_flag := res,
       v_flag := VFLAG_CLEAR,
       c_flag := CFLAG_CLEAR\<rparr>)))))"

definition m68k_op_move_8_pi7_pd :: "'b op" where
  "m68k_op_move_8_pi7_pd s =
    (chain (OPER_AY_PD_8 s) (\<lambda>res s.
     chain (EA_A7_PI_8 s) (\<lambda>ea s.
     chain (m68ki_write_8 ea res s) (\<lambda>_ s.
     Ret () (s\<lparr>n_flag := NFLAG_8 res,
       not_z_flag := res,
       v_flag := VFLAG_CLEAR,
       c_flag := CFLAG_CLEAR\<rparr>)))))"

definition m68k_op_move_8_pi7_pd7 :: "'b op" where
  "m68k_op_move_8_pi7_pd7 s =
    (chain (OPER_A7_PD_8 s) (\<lambda>res s.
     chain (EA_A7_PI_8 s) (\<lambda>ea s.
     chain (m68ki_write_8 ea res s) (\<lambda>_ s.
     Ret () (s\<lparr>n_flag := NFLAG_8 res,
       not_z_flag := res,
       v_flag := VFLAG_CLEAR,
       c_flag := CFLAG_CLEAR\<rparr>)))))"

definition m68k_op_move_8_pi7_di :: "'b op" where
  "m68k_op_move_8_pi7_di s =
    (chain (OPER_AY_DI_8 s) (\<lambda>res s.
     chain (EA_A7_PI_8 s) (\<lambda>ea s.
     chain (m68ki_write_8 ea res s) (\<lambda>_ s.
     Ret () (s\<lparr>n_flag := NFLAG_8 res,
       not_z_flag := res,
       v_flag := VFLAG_CLEAR,
       c_flag := CFLAG_CLEAR\<rparr>)))))"

definition m68k_op_move_8_pi7_ix :: "'b op" where
  "m68k_op_move_8_pi7_ix s =
    (chain (OPER_AY_IX_8 s) (\<lambda>res s.
     chain (EA_A7_PI_8 s) (\<lambda>ea s.
     chain (m68ki_write_8 ea res s) (\<lambda>_ s.
     Ret () (s\<lparr>n_flag := NFLAG_8 res,
       not_z_flag := res,
       v_flag := VFLAG_CLEAR,
       c_flag := CFLAG_CLEAR\<rparr>)))))"

definition m68k_op_move_8_pi7_aw :: "'b op" where
  "m68k_op_move_8_pi7_aw s =
    (chain (OPER_AW_8 s) (\<lambda>res s.
     chain (EA_A7_PI_8 s) (\<lambda>ea s.
     chain (m68ki_write_8 ea res s) (\<lambda>_ s.
     Ret () (s\<lparr>n_flag := NFLAG_8 res,
       not_z_flag := res,
       v_flag := VFLAG_CLEAR,
       c_flag := CFLAG_CLEAR\<rparr>)))))"

definition m68k_op_move_8_pi7_al :: "'b op" where
  "m68k_op_move_8_pi7_al s =
    (chain (OPER_AL_8 s) (\<lambda>res s.
     chain (EA_A7_PI_8 s) (\<lambda>ea s.
     chain (m68ki_write_8 ea res s) (\<lambda>_ s.
     Ret () (s\<lparr>n_flag := NFLAG_8 res,
       not_z_flag := res,
       v_flag := VFLAG_CLEAR,
       c_flag := CFLAG_CLEAR\<rparr>)))))"

definition m68k_op_move_8_pi7_pcdi :: "'b op" where
  "m68k_op_move_8_pi7_pcdi s =
    (chain (OPER_PCDI_8 s) (\<lambda>res s.
     chain (EA_A7_PI_8 s) (\<lambda>ea s.
     chain (m68ki_write_8 ea res s) (\<lambda>_ s.
     Ret () (s\<lparr>n_flag := NFLAG_8 res,
       not_z_flag := res,
       v_flag := VFLAG_CLEAR,
       c_flag := CFLAG_CLEAR\<rparr>)))))"

definition m68k_op_move_8_pi7_pcix :: "'b op" where
  "m68k_op_move_8_pi7_pcix s =
    (chain (OPER_PCIX_8 s) (\<lambda>res s.
     chain (EA_A7_PI_8 s) (\<lambda>ea s.
     chain (m68ki_write_8 ea res s) (\<lambda>_ s.
     Ret () (s\<lparr>n_flag := NFLAG_8 res,
       not_z_flag := res,
       v_flag := VFLAG_CLEAR,
       c_flag := CFLAG_CLEAR\<rparr>)))))"

definition m68k_op_move_8_pi7_i :: "'b op" where
  "m68k_op_move_8_pi7_i s =
    (chain (OPER_I_8 s) (\<lambda>res s.
     chain (EA_A7_PI_8 s) (\<lambda>ea s.
     chain (m68ki_write_8 ea res s) (\<lambda>_ s.
     Ret () (s\<lparr>n_flag := NFLAG_8 res,
       not_z_flag := res,
       v_flag := VFLAG_CLEAR,
       c_flag := CFLAG_CLEAR\<rparr>)))))"

definition m68k_op_move_8_pi_ai :: "'b op" where
  "m68k_op_move_8_pi_ai s =
    (chain (OPER_AY_AI_8 s) (\<lambda>res s.
     chain (EA_AX_PI_8 s) (\<lambda>ea s.
     chain (m68ki_write_8 ea res s) (\<lambda>_ s.
     Ret () (s\<lparr>n_flag := NFLAG_8 res,
       not_z_flag := res,
       v_flag := VFLAG_CLEAR,
       c_flag := CFLAG_CLEAR\<rparr>)))))"

definition m68k_op_move_8_pi_pi :: "'b op" where
  "m68k_op_move_8_pi_pi s =
    (chain (OPER_AY_PI_8 s) (\<lambda>res s.
     chain (EA_AX_PI_8 s) (\<lambda>ea s.
     chain (m68ki_write_8 ea res s) (\<lambda>_ s.
     Ret () (s\<lparr>n_flag := NFLAG_8 res,
       not_z_flag := res,
       v_flag := VFLAG_CLEAR,
       c_flag := CFLAG_CLEAR\<rparr>)))))"

definition m68k_op_move_8_pi_pi7 :: "'b op" where
  "m68k_op_move_8_pi_pi7 s =
    (chain (OPER_A7_PI_8 s) (\<lambda>res s.
     chain (EA_AX_PI_8 s) (\<lambda>ea s.
     chain (m68ki_write_8 ea res s) (\<lambda>_ s.
     Ret () (s\<lparr>n_flag := NFLAG_8 res,
       not_z_flag := res,
       v_flag := VFLAG_CLEAR,
       c_flag := CFLAG_CLEAR\<rparr>)))))"

definition m68k_op_move_8_pi_pd :: "'b op" where
  "m68k_op_move_8_pi_pd s =
    (chain (OPER_AY_PD_8 s) (\<lambda>res s.
     chain (EA_AX_PI_8 s) (\<lambda>ea s.
     chain (m68ki_write_8 ea res s) (\<lambda>_ s.
     Ret () (s\<lparr>n_flag := NFLAG_8 res,
       not_z_flag := res,
       v_flag := VFLAG_CLEAR,
       c_flag := CFLAG_CLEAR\<rparr>)))))"

definition m68k_op_move_8_pi_pd7 :: "'b op" where
  "m68k_op_move_8_pi_pd7 s =
    (chain (OPER_A7_PD_8 s) (\<lambda>res s.
     chain (EA_AX_PI_8 s) (\<lambda>ea s.
     chain (m68ki_write_8 ea res s) (\<lambda>_ s.
     Ret () (s\<lparr>n_flag := NFLAG_8 res,
       not_z_flag := res,
       v_flag := VFLAG_CLEAR,
       c_flag := CFLAG_CLEAR\<rparr>)))))"

definition m68k_op_move_8_pi_di :: "'b op" where
  "m68k_op_move_8_pi_di s =
    (chain (OPER_AY_DI_8 s) (\<lambda>res s.
     chain (EA_AX_PI_8 s) (\<lambda>ea s.
     chain (m68ki_write_8 ea res s) (\<lambda>_ s.
     Ret () (s\<lparr>n_flag := NFLAG_8 res,
       not_z_flag := res,
       v_flag := VFLAG_CLEAR,
       c_flag := CFLAG_CLEAR\<rparr>)))))"

definition m68k_op_move_8_pi_ix :: "'b op" where
  "m68k_op_move_8_pi_ix s =
    (chain (OPER_AY_IX_8 s) (\<lambda>res s.
     chain (EA_AX_PI_8 s) (\<lambda>ea s.
     chain (m68ki_write_8 ea res s) (\<lambda>_ s.
     Ret () (s\<lparr>n_flag := NFLAG_8 res,
       not_z_flag := res,
       v_flag := VFLAG_CLEAR,
       c_flag := CFLAG_CLEAR\<rparr>)))))"

definition m68k_op_move_8_pi_aw :: "'b op" where
  "m68k_op_move_8_pi_aw s =
    (chain (OPER_AW_8 s) (\<lambda>res s.
     chain (EA_AX_PI_8 s) (\<lambda>ea s.
     chain (m68ki_write_8 ea res s) (\<lambda>_ s.
     Ret () (s\<lparr>n_flag := NFLAG_8 res,
       not_z_flag := res,
       v_flag := VFLAG_CLEAR,
       c_flag := CFLAG_CLEAR\<rparr>)))))"

definition m68k_op_move_8_pi_al :: "'b op" where
  "m68k_op_move_8_pi_al s =
    (chain (OPER_AL_8 s) (\<lambda>res s.
     chain (EA_AX_PI_8 s) (\<lambda>ea s.
     chain (m68ki_write_8 ea res s) (\<lambda>_ s.
     Ret () (s\<lparr>n_flag := NFLAG_8 res,
       not_z_flag := res,
       v_flag := VFLAG_CLEAR,
       c_flag := CFLAG_CLEAR\<rparr>)))))"

definition m68k_op_move_8_pi_pcdi :: "'b op" where
  "m68k_op_move_8_pi_pcdi s =
    (chain (OPER_PCDI_8 s) (\<lambda>res s.
     chain (EA_AX_PI_8 s) (\<lambda>ea s.
     chain (m68ki_write_8 ea res s) (\<lambda>_ s.
     Ret () (s\<lparr>n_flag := NFLAG_8 res,
       not_z_flag := res,
       v_flag := VFLAG_CLEAR,
       c_flag := CFLAG_CLEAR\<rparr>)))))"

definition m68k_op_move_8_pi_pcix :: "'b op" where
  "m68k_op_move_8_pi_pcix s =
    (chain (OPER_PCIX_8 s) (\<lambda>res s.
     chain (EA_AX_PI_8 s) (\<lambda>ea s.
     chain (m68ki_write_8 ea res s) (\<lambda>_ s.
     Ret () (s\<lparr>n_flag := NFLAG_8 res,
       not_z_flag := res,
       v_flag := VFLAG_CLEAR,
       c_flag := CFLAG_CLEAR\<rparr>)))))"

definition m68k_op_move_8_pi_i :: "'b op" where
  "m68k_op_move_8_pi_i s =
    (chain (OPER_I_8 s) (\<lambda>res s.
     chain (EA_AX_PI_8 s) (\<lambda>ea s.
     chain (m68ki_write_8 ea res s) (\<lambda>_ s.
     Ret () (s\<lparr>n_flag := NFLAG_8 res,
       not_z_flag := res,
       v_flag := VFLAG_CLEAR,
       c_flag := CFLAG_CLEAR\<rparr>)))))"

definition m68k_op_move_8_pd7_d :: "'b op" where
  "m68k_op_move_8_pd7_d s =
    (let res = MASK_OUT_ABOVE_8 (DY s)
     in chain (EA_A7_PD_8 s) (\<lambda>ea s.
        chain (m68ki_write_8 ea res s) (\<lambda>_ s.
        Ret () (s\<lparr>n_flag := NFLAG_8 res,
          not_z_flag := res,
          v_flag := VFLAG_CLEAR,
          c_flag := CFLAG_CLEAR\<rparr>))))"

definition m68k_op_move_8_pd_d :: "'b op" where
  "m68k_op_move_8_pd_d s =
    (let res = MASK_OUT_ABOVE_8 (DY s)
     in chain (EA_AX_PD_8 s) (\<lambda>ea s.
        chain (m68ki_write_8 ea res s) (\<lambda>_ s.
        Ret () (s\<lparr>n_flag := NFLAG_8 res,
          not_z_flag := res,
          v_flag := VFLAG_CLEAR,
          c_flag := CFLAG_CLEAR\<rparr>))))"

definition m68k_op_move_8_pd7_ai :: "'b op" where
  "m68k_op_move_8_pd7_ai s =
    (chain (OPER_AY_AI_8 s) (\<lambda>res s.
     chain (EA_A7_PD_8 s) (\<lambda>ea s.
     chain (m68ki_write_8 ea res s) (\<lambda>_ s.
     Ret () (s\<lparr>n_flag := NFLAG_8 res,
       not_z_flag := res,
       v_flag := VFLAG_CLEAR,
       c_flag := CFLAG_CLEAR\<rparr>)))))"

definition m68k_op_move_8_pd7_pi :: "'b op" where
  "m68k_op_move_8_pd7_pi s =
    (chain (OPER_AY_PI_8 s) (\<lambda>res s.
     chain (EA_A7_PD_8 s) (\<lambda>ea s.
     chain (m68ki_write_8 ea res s) (\<lambda>_ s.
     Ret () (s\<lparr>n_flag := NFLAG_8 res,
       not_z_flag := res,
       v_flag := VFLAG_CLEAR,
       c_flag := CFLAG_CLEAR\<rparr>)))))"

definition m68k_op_move_8_pd7_pi7 :: "'b op" where
  "m68k_op_move_8_pd7_pi7 s =
    (chain (OPER_A7_PI_8 s) (\<lambda>res s.
     chain (EA_A7_PD_8 s) (\<lambda>ea s.
     chain (m68ki_write_8 ea res s) (\<lambda>_ s.
     Ret () (s\<lparr>n_flag := NFLAG_8 res,
       not_z_flag := res,
       v_flag := VFLAG_CLEAR,
       c_flag := CFLAG_CLEAR\<rparr>)))))"

definition m68k_op_move_8_pd7_pd :: "'b op" where
  "m68k_op_move_8_pd7_pd s =
    (chain (OPER_AY_PD_8 s) (\<lambda>res s.
     chain (EA_A7_PD_8 s) (\<lambda>ea s.
     chain (m68ki_write_8 ea res s) (\<lambda>_ s.
     Ret () (s\<lparr>n_flag := NFLAG_8 res,
       not_z_flag := res,
       v_flag := VFLAG_CLEAR,
       c_flag := CFLAG_CLEAR\<rparr>)))))"

definition m68k_op_move_8_pd7_pd7 :: "'b op" where
  "m68k_op_move_8_pd7_pd7 s =
    (chain (OPER_A7_PD_8 s) (\<lambda>res s.
     chain (EA_A7_PD_8 s) (\<lambda>ea s.
     chain (m68ki_write_8 ea res s) (\<lambda>_ s.
     Ret () (s\<lparr>n_flag := NFLAG_8 res,
       not_z_flag := res,
       v_flag := VFLAG_CLEAR,
       c_flag := CFLAG_CLEAR\<rparr>)))))"

definition m68k_op_move_8_pd7_di :: "'b op" where
  "m68k_op_move_8_pd7_di s =
    (chain (OPER_AY_DI_8 s) (\<lambda>res s.
     chain (EA_A7_PD_8 s) (\<lambda>ea s.
     chain (m68ki_write_8 ea res s) (\<lambda>_ s.
     Ret () (s\<lparr>n_flag := NFLAG_8 res,
       not_z_flag := res,
       v_flag := VFLAG_CLEAR,
       c_flag := CFLAG_CLEAR\<rparr>)))))"

definition m68k_op_move_8_pd7_ix :: "'b op" where
  "m68k_op_move_8_pd7_ix s =
    (chain (OPER_AY_IX_8 s) (\<lambda>res s.
     chain (EA_A7_PD_8 s) (\<lambda>ea s.
     chain (m68ki_write_8 ea res s) (\<lambda>_ s.
     Ret () (s\<lparr>n_flag := NFLAG_8 res,
       not_z_flag := res,
       v_flag := VFLAG_CLEAR,
       c_flag := CFLAG_CLEAR\<rparr>)))))"

definition m68k_op_move_8_pd7_aw :: "'b op" where
  "m68k_op_move_8_pd7_aw s =
    (chain (OPER_AW_8 s) (\<lambda>res s.
     chain (EA_A7_PD_8 s) (\<lambda>ea s.
     chain (m68ki_write_8 ea res s) (\<lambda>_ s.
     Ret () (s\<lparr>n_flag := NFLAG_8 res,
       not_z_flag := res,
       v_flag := VFLAG_CLEAR,
       c_flag := CFLAG_CLEAR\<rparr>)))))"

definition m68k_op_move_8_pd7_al :: "'b op" where
  "m68k_op_move_8_pd7_al s =
    (chain (OPER_AL_8 s) (\<lambda>res s.
     chain (EA_A7_PD_8 s) (\<lambda>ea s.
     chain (m68ki_write_8 ea res s) (\<lambda>_ s.
     Ret () (s\<lparr>n_flag := NFLAG_8 res,
       not_z_flag := res,
       v_flag := VFLAG_CLEAR,
       c_flag := CFLAG_CLEAR\<rparr>)))))"

definition m68k_op_move_8_pd7_pcdi :: "'b op" where
  "m68k_op_move_8_pd7_pcdi s =
    (chain (OPER_PCDI_8 s) (\<lambda>res s.
     chain (EA_A7_PD_8 s) (\<lambda>ea s.
     chain (m68ki_write_8 ea res s) (\<lambda>_ s.
     Ret () (s\<lparr>n_flag := NFLAG_8 res,
       not_z_flag := res,
       v_flag := VFLAG_CLEAR,
       c_flag := CFLAG_CLEAR\<rparr>)))))"

definition m68k_op_move_8_pd7_pcix :: "'b op" where
  "m68k_op_move_8_pd7_pcix s =
    (chain (OPER_PCIX_8 s) (\<lambda>res s.
     chain (EA_A7_PD_8 s) (\<lambda>ea s.
     chain (m68ki_write_8 ea res s) (\<lambda>_ s.
     Ret () (s\<lparr>n_flag := NFLAG_8 res,
       not_z_flag := res,
       v_flag := VFLAG_CLEAR,
       c_flag := CFLAG_CLEAR\<rparr>)))))"

definition m68k_op_move_8_pd7_i :: "'b op" where
  "m68k_op_move_8_pd7_i s =
    (chain (OPER_I_8 s) (\<lambda>res s.
     chain (EA_A7_PD_8 s) (\<lambda>ea s.
     chain (m68ki_write_8 ea res s) (\<lambda>_ s.
     Ret () (s\<lparr>n_flag := NFLAG_8 res,
       not_z_flag := res,
       v_flag := VFLAG_CLEAR,
       c_flag := CFLAG_CLEAR\<rparr>)))))"

definition m68k_op_move_8_pd_ai :: "'b op" where
  "m68k_op_move_8_pd_ai s =
    (chain (OPER_AY_AI_8 s) (\<lambda>res s.
     chain (EA_AX_PD_8 s) (\<lambda>ea s.
     chain (m68ki_write_8 ea res s) (\<lambda>_ s.
     Ret () (s\<lparr>n_flag := NFLAG_8 res,
       not_z_flag := res,
       v_flag := VFLAG_CLEAR,
       c_flag := CFLAG_CLEAR\<rparr>)))))"

definition m68k_op_move_8_pd_pi :: "'b op" where
  "m68k_op_move_8_pd_pi s =
    (chain (OPER_AY_PI_8 s) (\<lambda>res s.
     chain (EA_AX_PD_8 s) (\<lambda>ea s.
     chain (m68ki_write_8 ea res s) (\<lambda>_ s.
     Ret () (s\<lparr>n_flag := NFLAG_8 res,
       not_z_flag := res,
       v_flag := VFLAG_CLEAR,
       c_flag := CFLAG_CLEAR\<rparr>)))))"

definition m68k_op_move_8_pd_pi7 :: "'b op" where
  "m68k_op_move_8_pd_pi7 s =
    (chain (OPER_A7_PI_8 s) (\<lambda>res s.
     chain (EA_AX_PD_8 s) (\<lambda>ea s.
     chain (m68ki_write_8 ea res s) (\<lambda>_ s.
     Ret () (s\<lparr>n_flag := NFLAG_8 res,
       not_z_flag := res,
       v_flag := VFLAG_CLEAR,
       c_flag := CFLAG_CLEAR\<rparr>)))))"

definition m68k_op_move_8_pd_pd :: "'b op" where
  "m68k_op_move_8_pd_pd s =
    (chain (OPER_AY_PD_8 s) (\<lambda>res s.
     chain (EA_AX_PD_8 s) (\<lambda>ea s.
     chain (m68ki_write_8 ea res s) (\<lambda>_ s.
     Ret () (s\<lparr>n_flag := NFLAG_8 res,
       not_z_flag := res,
       v_flag := VFLAG_CLEAR,
       c_flag := CFLAG_CLEAR\<rparr>)))))"

definition m68k_op_move_8_pd_pd7 :: "'b op" where
  "m68k_op_move_8_pd_pd7 s =
    (chain (OPER_A7_PD_8 s) (\<lambda>res s.
     chain (EA_AX_PD_8 s) (\<lambda>ea s.
     chain (m68ki_write_8 ea res s) (\<lambda>_ s.
     Ret () (s\<lparr>n_flag := NFLAG_8 res,
       not_z_flag := res,
       v_flag := VFLAG_CLEAR,
       c_flag := CFLAG_CLEAR\<rparr>)))))"

definition m68k_op_move_8_pd_di :: "'b op" where
  "m68k_op_move_8_pd_di s =
    (chain (OPER_AY_DI_8 s) (\<lambda>res s.
     chain (EA_AX_PD_8 s) (\<lambda>ea s.
     chain (m68ki_write_8 ea res s) (\<lambda>_ s.
     Ret () (s\<lparr>n_flag := NFLAG_8 res,
       not_z_flag := res,
       v_flag := VFLAG_CLEAR,
       c_flag := CFLAG_CLEAR\<rparr>)))))"

definition m68k_op_move_8_pd_ix :: "'b op" where
  "m68k_op_move_8_pd_ix s =
    (chain (OPER_AY_IX_8 s) (\<lambda>res s.
     chain (EA_AX_PD_8 s) (\<lambda>ea s.
     chain (m68ki_write_8 ea res s) (\<lambda>_ s.
     Ret () (s\<lparr>n_flag := NFLAG_8 res,
       not_z_flag := res,
       v_flag := VFLAG_CLEAR,
       c_flag := CFLAG_CLEAR\<rparr>)))))"

definition m68k_op_move_8_pd_aw :: "'b op" where
  "m68k_op_move_8_pd_aw s =
    (chain (OPER_AW_8 s) (\<lambda>res s.
     chain (EA_AX_PD_8 s) (\<lambda>ea s.
     chain (m68ki_write_8 ea res s) (\<lambda>_ s.
     Ret () (s\<lparr>n_flag := NFLAG_8 res,
       not_z_flag := res,
       v_flag := VFLAG_CLEAR,
       c_flag := CFLAG_CLEAR\<rparr>)))))"

definition m68k_op_move_8_pd_al :: "'b op" where
  "m68k_op_move_8_pd_al s =
    (chain (OPER_AL_8 s) (\<lambda>res s.
     chain (EA_AX_PD_8 s) (\<lambda>ea s.
     chain (m68ki_write_8 ea res s) (\<lambda>_ s.
     Ret () (s\<lparr>n_flag := NFLAG_8 res,
       not_z_flag := res,
       v_flag := VFLAG_CLEAR,
       c_flag := CFLAG_CLEAR\<rparr>)))))"

definition m68k_op_move_8_pd_pcdi :: "'b op" where
  "m68k_op_move_8_pd_pcdi s =
    (chain (OPER_PCDI_8 s) (\<lambda>res s.
     chain (EA_AX_PD_8 s) (\<lambda>ea s.
     chain (m68ki_write_8 ea res s) (\<lambda>_ s.
     Ret () (s\<lparr>n_flag := NFLAG_8 res,
       not_z_flag := res,
       v_flag := VFLAG_CLEAR,
       c_flag := CFLAG_CLEAR\<rparr>)))))"

definition m68k_op_move_8_pd_pcix :: "'b op" where
  "m68k_op_move_8_pd_pcix s =
    (chain (OPER_PCIX_8 s) (\<lambda>res s.
     chain (EA_AX_PD_8 s) (\<lambda>ea s.
     chain (m68ki_write_8 ea res s) (\<lambda>_ s.
     Ret () (s\<lparr>n_flag := NFLAG_8 res,
       not_z_flag := res,
       v_flag := VFLAG_CLEAR,
       c_flag := CFLAG_CLEAR\<rparr>)))))"

definition m68k_op_move_8_pd_i :: "'b op" where
  "m68k_op_move_8_pd_i s =
    (chain (OPER_I_8 s) (\<lambda>res s.
     chain (EA_AX_PD_8 s) (\<lambda>ea s.
     chain (m68ki_write_8 ea res s) (\<lambda>_ s.
     Ret () (s\<lparr>n_flag := NFLAG_8 res,
       not_z_flag := res,
       v_flag := VFLAG_CLEAR,
       c_flag := CFLAG_CLEAR\<rparr>)))))"

definition m68k_op_move_8_di_d :: "'b op" where
  "m68k_op_move_8_di_d s =
    (let res = MASK_OUT_ABOVE_8 (DY s)
     in chain (EA_AX_DI_8 s) (\<lambda>ea s.
        chain (m68ki_write_8 ea res s) (\<lambda>_ s.
        Ret () (s\<lparr>n_flag := NFLAG_8 res,
          not_z_flag := res,
          v_flag := VFLAG_CLEAR,
          c_flag := CFLAG_CLEAR\<rparr>))))"

definition m68k_op_move_8_di_ai :: "'b op" where
  "m68k_op_move_8_di_ai s =
    (chain (OPER_AY_AI_8 s) (\<lambda>res s.
     chain (EA_AX_DI_8 s) (\<lambda>ea s.
     chain (m68ki_write_8 ea res s) (\<lambda>_ s.
     Ret () (s\<lparr>n_flag := NFLAG_8 res,
       not_z_flag := res,
       v_flag := VFLAG_CLEAR,
       c_flag := CFLAG_CLEAR\<rparr>)))))"

definition m68k_op_move_8_di_pi :: "'b op" where
  "m68k_op_move_8_di_pi s =
    (chain (OPER_AY_PI_8 s) (\<lambda>res s.
     chain (EA_AX_DI_8 s) (\<lambda>ea s.
     chain (m68ki_write_8 ea res s) (\<lambda>_ s.
     Ret () (s\<lparr>n_flag := NFLAG_8 res,
       not_z_flag := res,
       v_flag := VFLAG_CLEAR,
       c_flag := CFLAG_CLEAR\<rparr>)))))"

definition m68k_op_move_8_di_pi7 :: "'b op" where
  "m68k_op_move_8_di_pi7 s =
    (chain (OPER_A7_PI_8 s) (\<lambda>res s.
     chain (EA_AX_DI_8 s) (\<lambda>ea s.
     chain (m68ki_write_8 ea res s) (\<lambda>_ s.
     Ret () (s\<lparr>n_flag := NFLAG_8 res,
       not_z_flag := res,
       v_flag := VFLAG_CLEAR,
       c_flag := CFLAG_CLEAR\<rparr>)))))"

definition m68k_op_move_8_di_pd :: "'b op" where
  "m68k_op_move_8_di_pd s =
    (chain (OPER_AY_PD_8 s) (\<lambda>res s.
     chain (EA_AX_DI_8 s) (\<lambda>ea s.
     chain (m68ki_write_8 ea res s) (\<lambda>_ s.
     Ret () (s\<lparr>n_flag := NFLAG_8 res,
       not_z_flag := res,
       v_flag := VFLAG_CLEAR,
       c_flag := CFLAG_CLEAR\<rparr>)))))"

definition m68k_op_move_8_di_pd7 :: "'b op" where
  "m68k_op_move_8_di_pd7 s =
    (chain (OPER_A7_PD_8 s) (\<lambda>res s.
     chain (EA_AX_DI_8 s) (\<lambda>ea s.
     chain (m68ki_write_8 ea res s) (\<lambda>_ s.
     Ret () (s\<lparr>n_flag := NFLAG_8 res,
       not_z_flag := res,
       v_flag := VFLAG_CLEAR,
       c_flag := CFLAG_CLEAR\<rparr>)))))"

definition m68k_op_move_8_di_di :: "'b op" where
  "m68k_op_move_8_di_di s =
    (chain (OPER_AY_DI_8 s) (\<lambda>res s.
     chain (EA_AX_DI_8 s) (\<lambda>ea s.
     chain (m68ki_write_8 ea res s) (\<lambda>_ s.
     Ret () (s\<lparr>n_flag := NFLAG_8 res,
       not_z_flag := res,
       v_flag := VFLAG_CLEAR,
       c_flag := CFLAG_CLEAR\<rparr>)))))"

definition m68k_op_move_8_di_ix :: "'b op" where
  "m68k_op_move_8_di_ix s =
    (chain (OPER_AY_IX_8 s) (\<lambda>res s.
     chain (EA_AX_DI_8 s) (\<lambda>ea s.
     chain (m68ki_write_8 ea res s) (\<lambda>_ s.
     Ret () (s\<lparr>n_flag := NFLAG_8 res,
       not_z_flag := res,
       v_flag := VFLAG_CLEAR,
       c_flag := CFLAG_CLEAR\<rparr>)))))"

definition m68k_op_move_8_di_aw :: "'b op" where
  "m68k_op_move_8_di_aw s =
    (chain (OPER_AW_8 s) (\<lambda>res s.
     chain (EA_AX_DI_8 s) (\<lambda>ea s.
     chain (m68ki_write_8 ea res s) (\<lambda>_ s.
     Ret () (s\<lparr>n_flag := NFLAG_8 res,
       not_z_flag := res,
       v_flag := VFLAG_CLEAR,
       c_flag := CFLAG_CLEAR\<rparr>)))))"

definition m68k_op_move_8_di_al :: "'b op" where
  "m68k_op_move_8_di_al s =
    (chain (OPER_AL_8 s) (\<lambda>res s.
     chain (EA_AX_DI_8 s) (\<lambda>ea s.
     chain (m68ki_write_8 ea res s) (\<lambda>_ s.
     Ret () (s\<lparr>n_flag := NFLAG_8 res,
       not_z_flag := res,
       v_flag := VFLAG_CLEAR,
       c_flag := CFLAG_CLEAR\<rparr>)))))"

definition m68k_op_move_8_di_pcdi :: "'b op" where
  "m68k_op_move_8_di_pcdi s =
    (chain (OPER_PCDI_8 s) (\<lambda>res s.
     chain (EA_AX_DI_8 s) (\<lambda>ea s.
     chain (m68ki_write_8 ea res s) (\<lambda>_ s.
     Ret () (s\<lparr>n_flag := NFLAG_8 res,
       not_z_flag := res,
       v_flag := VFLAG_CLEAR,
       c_flag := CFLAG_CLEAR\<rparr>)))))"

definition m68k_op_move_8_di_pcix :: "'b op" where
  "m68k_op_move_8_di_pcix s =
    (chain (OPER_PCIX_8 s) (\<lambda>res s.
     chain (EA_AX_DI_8 s) (\<lambda>ea s.
     chain (m68ki_write_8 ea res s) (\<lambda>_ s.
     Ret () (s\<lparr>n_flag := NFLAG_8 res,
       not_z_flag := res,
       v_flag := VFLAG_CLEAR,
       c_flag := CFLAG_CLEAR\<rparr>)))))"

definition m68k_op_move_8_di_i :: "'b op" where
  "m68k_op_move_8_di_i s =
    (chain (OPER_I_8 s) (\<lambda>res s.
     chain (EA_AX_DI_8 s) (\<lambda>ea s.
     chain (m68ki_write_8 ea res s) (\<lambda>_ s.
     Ret () (s\<lparr>n_flag := NFLAG_8 res,
       not_z_flag := res,
       v_flag := VFLAG_CLEAR,
       c_flag := CFLAG_CLEAR\<rparr>)))))"

definition m68k_op_move_8_ix_d :: "'b op" where
  "m68k_op_move_8_ix_d s =
    (let res = MASK_OUT_ABOVE_8 (DY s)
     in chain (EA_AX_IX_8 s) (\<lambda>ea s.
        chain (m68ki_write_8 ea res s) (\<lambda>_ s.
        Ret () (s\<lparr>n_flag := NFLAG_8 res,
          not_z_flag := res,
          v_flag := VFLAG_CLEAR,
          c_flag := CFLAG_CLEAR\<rparr>))))"

definition m68k_op_move_8_ix_ai :: "'b op" where
  "m68k_op_move_8_ix_ai s =
    (chain (OPER_AY_AI_8 s) (\<lambda>res s.
     chain (EA_AX_IX_8 s) (\<lambda>ea s.
     chain (m68ki_write_8 ea res s) (\<lambda>_ s.
     Ret () (s\<lparr>n_flag := NFLAG_8 res,
       not_z_flag := res,
       v_flag := VFLAG_CLEAR,
       c_flag := CFLAG_CLEAR\<rparr>)))))"

definition m68k_op_move_8_ix_pi :: "'b op" where
  "m68k_op_move_8_ix_pi s =
    (chain (OPER_AY_PI_8 s) (\<lambda>res s.
     chain (EA_AX_IX_8 s) (\<lambda>ea s.
     chain (m68ki_write_8 ea res s) (\<lambda>_ s.
     Ret () (s\<lparr>n_flag := NFLAG_8 res,
       not_z_flag := res,
       v_flag := VFLAG_CLEAR,
       c_flag := CFLAG_CLEAR\<rparr>)))))"

definition m68k_op_move_8_ix_pi7 :: "'b op" where
  "m68k_op_move_8_ix_pi7 s =
    (chain (OPER_A7_PI_8 s) (\<lambda>res s.
     chain (EA_AX_IX_8 s) (\<lambda>ea s.
     chain (m68ki_write_8 ea res s) (\<lambda>_ s.
     Ret () (s\<lparr>n_flag := NFLAG_8 res,
       not_z_flag := res,
       v_flag := VFLAG_CLEAR,
       c_flag := CFLAG_CLEAR\<rparr>)))))"

definition m68k_op_move_8_ix_pd :: "'b op" where
  "m68k_op_move_8_ix_pd s =
    (chain (OPER_AY_PD_8 s) (\<lambda>res s.
     chain (EA_AX_IX_8 s) (\<lambda>ea s.
     chain (m68ki_write_8 ea res s) (\<lambda>_ s.
     Ret () (s\<lparr>n_flag := NFLAG_8 res,
       not_z_flag := res,
       v_flag := VFLAG_CLEAR,
       c_flag := CFLAG_CLEAR\<rparr>)))))"

definition m68k_op_move_8_ix_pd7 :: "'b op" where
  "m68k_op_move_8_ix_pd7 s =
    (chain (OPER_A7_PD_8 s) (\<lambda>res s.
     chain (EA_AX_IX_8 s) (\<lambda>ea s.
     chain (m68ki_write_8 ea res s) (\<lambda>_ s.
     Ret () (s\<lparr>n_flag := NFLAG_8 res,
       not_z_flag := res,
       v_flag := VFLAG_CLEAR,
       c_flag := CFLAG_CLEAR\<rparr>)))))"

definition m68k_op_move_8_ix_di :: "'b op" where
  "m68k_op_move_8_ix_di s =
    (chain (OPER_AY_DI_8 s) (\<lambda>res s.
     chain (EA_AX_IX_8 s) (\<lambda>ea s.
     chain (m68ki_write_8 ea res s) (\<lambda>_ s.
     Ret () (s\<lparr>n_flag := NFLAG_8 res,
       not_z_flag := res,
       v_flag := VFLAG_CLEAR,
       c_flag := CFLAG_CLEAR\<rparr>)))))"

definition m68k_op_move_8_ix_ix :: "'b op" where
  "m68k_op_move_8_ix_ix s =
    (chain (OPER_AY_IX_8 s) (\<lambda>res s.
     chain (EA_AX_IX_8 s) (\<lambda>ea s.
     chain (m68ki_write_8 ea res s) (\<lambda>_ s.
     Ret () (s\<lparr>n_flag := NFLAG_8 res,
       not_z_flag := res,
       v_flag := VFLAG_CLEAR,
       c_flag := CFLAG_CLEAR\<rparr>)))))"

definition m68k_op_move_8_ix_aw :: "'b op" where
  "m68k_op_move_8_ix_aw s =
    (chain (OPER_AW_8 s) (\<lambda>res s.
     chain (EA_AX_IX_8 s) (\<lambda>ea s.
     chain (m68ki_write_8 ea res s) (\<lambda>_ s.
     Ret () (s\<lparr>n_flag := NFLAG_8 res,
       not_z_flag := res,
       v_flag := VFLAG_CLEAR,
       c_flag := CFLAG_CLEAR\<rparr>)))))"

definition m68k_op_move_8_ix_al :: "'b op" where
  "m68k_op_move_8_ix_al s =
    (chain (OPER_AL_8 s) (\<lambda>res s.
     chain (EA_AX_IX_8 s) (\<lambda>ea s.
     chain (m68ki_write_8 ea res s) (\<lambda>_ s.
     Ret () (s\<lparr>n_flag := NFLAG_8 res,
       not_z_flag := res,
       v_flag := VFLAG_CLEAR,
       c_flag := CFLAG_CLEAR\<rparr>)))))"

definition m68k_op_move_8_ix_pcdi :: "'b op" where
  "m68k_op_move_8_ix_pcdi s =
    (chain (OPER_PCDI_8 s) (\<lambda>res s.
     chain (EA_AX_IX_8 s) (\<lambda>ea s.
     chain (m68ki_write_8 ea res s) (\<lambda>_ s.
     Ret () (s\<lparr>n_flag := NFLAG_8 res,
       not_z_flag := res,
       v_flag := VFLAG_CLEAR,
       c_flag := CFLAG_CLEAR\<rparr>)))))"

definition m68k_op_move_8_ix_pcix :: "'b op" where
  "m68k_op_move_8_ix_pcix s =
    (chain (OPER_PCIX_8 s) (\<lambda>res s.
     chain (EA_AX_IX_8 s) (\<lambda>ea s.
     chain (m68ki_write_8 ea res s) (\<lambda>_ s.
     Ret () (s\<lparr>n_flag := NFLAG_8 res,
       not_z_flag := res,
       v_flag := VFLAG_CLEAR,
       c_flag := CFLAG_CLEAR\<rparr>)))))"

definition m68k_op_move_8_ix_i :: "'b op" where
  "m68k_op_move_8_ix_i s =
    (chain (OPER_I_8 s) (\<lambda>res s.
     chain (EA_AX_IX_8 s) (\<lambda>ea s.
     chain (m68ki_write_8 ea res s) (\<lambda>_ s.
     Ret () (s\<lparr>n_flag := NFLAG_8 res,
       not_z_flag := res,
       v_flag := VFLAG_CLEAR,
       c_flag := CFLAG_CLEAR\<rparr>)))))"

definition m68k_op_move_8_aw_d :: "'b op" where
  "m68k_op_move_8_aw_d s =
    (let res = MASK_OUT_ABOVE_8 (DY s)
     in chain (EA_AW_8 s) (\<lambda>ea s.
        chain (m68ki_write_8 ea res s) (\<lambda>_ s.
        Ret () (s\<lparr>n_flag := NFLAG_8 res,
          not_z_flag := res,
          v_flag := VFLAG_CLEAR,
          c_flag := CFLAG_CLEAR\<rparr>))))"

definition m68k_op_move_8_aw_ai :: "'b op" where
  "m68k_op_move_8_aw_ai s =
    (chain (OPER_AY_AI_8 s) (\<lambda>res s.
     chain (EA_AW_8 s) (\<lambda>ea s.
     chain (m68ki_write_8 ea res s) (\<lambda>_ s.
     Ret () (s\<lparr>n_flag := NFLAG_8 res,
       not_z_flag := res,
       v_flag := VFLAG_CLEAR,
       c_flag := CFLAG_CLEAR\<rparr>)))))"

definition m68k_op_move_8_aw_pi :: "'b op" where
  "m68k_op_move_8_aw_pi s =
    (chain (OPER_AY_PI_8 s) (\<lambda>res s.
     chain (EA_AW_8 s) (\<lambda>ea s.
     chain (m68ki_write_8 ea res s) (\<lambda>_ s.
     Ret () (s\<lparr>n_flag := NFLAG_8 res,
       not_z_flag := res,
       v_flag := VFLAG_CLEAR,
       c_flag := CFLAG_CLEAR\<rparr>)))))"

definition m68k_op_move_8_aw_pi7 :: "'b op" where
  "m68k_op_move_8_aw_pi7 s =
    (chain (OPER_A7_PI_8 s) (\<lambda>res s.
     chain (EA_AW_8 s) (\<lambda>ea s.
     chain (m68ki_write_8 ea res s) (\<lambda>_ s.
     Ret () (s\<lparr>n_flag := NFLAG_8 res,
       not_z_flag := res,
       v_flag := VFLAG_CLEAR,
       c_flag := CFLAG_CLEAR\<rparr>)))))"

definition m68k_op_move_8_aw_pd :: "'b op" where
  "m68k_op_move_8_aw_pd s =
    (chain (OPER_AY_PD_8 s) (\<lambda>res s.
     chain (EA_AW_8 s) (\<lambda>ea s.
     chain (m68ki_write_8 ea res s) (\<lambda>_ s.
     Ret () (s\<lparr>n_flag := NFLAG_8 res,
       not_z_flag := res,
       v_flag := VFLAG_CLEAR,
       c_flag := CFLAG_CLEAR\<rparr>)))))"

definition m68k_op_move_8_aw_pd7 :: "'b op" where
  "m68k_op_move_8_aw_pd7 s =
    (chain (OPER_A7_PD_8 s) (\<lambda>res s.
     chain (EA_AW_8 s) (\<lambda>ea s.
     chain (m68ki_write_8 ea res s) (\<lambda>_ s.
     Ret () (s\<lparr>n_flag := NFLAG_8 res,
       not_z_flag := res,
       v_flag := VFLAG_CLEAR,
       c_flag := CFLAG_CLEAR\<rparr>)))))"

definition m68k_op_move_8_aw_di :: "'b op" where
  "m68k_op_move_8_aw_di s =
    (chain (OPER_AY_DI_8 s) (\<lambda>res s.
     chain (EA_AW_8 s) (\<lambda>ea s.
     chain (m68ki_write_8 ea res s) (\<lambda>_ s.
     Ret () (s\<lparr>n_flag := NFLAG_8 res,
       not_z_flag := res,
       v_flag := VFLAG_CLEAR,
       c_flag := CFLAG_CLEAR\<rparr>)))))"

definition m68k_op_move_8_aw_ix :: "'b op" where
  "m68k_op_move_8_aw_ix s =
    (chain (OPER_AY_IX_8 s) (\<lambda>res s.
     chain (EA_AW_8 s) (\<lambda>ea s.
     chain (m68ki_write_8 ea res s) (\<lambda>_ s.
     Ret () (s\<lparr>n_flag := NFLAG_8 res,
       not_z_flag := res,
       v_flag := VFLAG_CLEAR,
       c_flag := CFLAG_CLEAR\<rparr>)))))"

definition m68k_op_move_8_aw_aw :: "'b op" where
  "m68k_op_move_8_aw_aw s =
    (chain (OPER_AW_8 s) (\<lambda>res s.
     chain (EA_AW_8 s) (\<lambda>ea s.
     chain (m68ki_write_8 ea res s) (\<lambda>_ s.
     Ret () (s\<lparr>n_flag := NFLAG_8 res,
       not_z_flag := res,
       v_flag := VFLAG_CLEAR,
       c_flag := CFLAG_CLEAR\<rparr>)))))"

definition m68k_op_move_8_aw_al :: "'b op" where
  "m68k_op_move_8_aw_al s =
    (chain (OPER_AL_8 s) (\<lambda>res s.
     chain (EA_AW_8 s) (\<lambda>ea s.
     chain (m68ki_write_8 ea res s) (\<lambda>_ s.
     Ret () (s\<lparr>n_flag := NFLAG_8 res,
       not_z_flag := res,
       v_flag := VFLAG_CLEAR,
       c_flag := CFLAG_CLEAR\<rparr>)))))"

definition m68k_op_move_8_aw_pcdi :: "'b op" where
  "m68k_op_move_8_aw_pcdi s =
    (chain (OPER_PCDI_8 s) (\<lambda>res s.
     chain (EA_AW_8 s) (\<lambda>ea s.
     chain (m68ki_write_8 ea res s) (\<lambda>_ s.
     Ret () (s\<lparr>n_flag := NFLAG_8 res,
       not_z_flag := res,
       v_flag := VFLAG_CLEAR,
       c_flag := CFLAG_CLEAR\<rparr>)))))"

definition m68k_op_move_8_aw_pcix :: "'b op" where
  "m68k_op_move_8_aw_pcix s =
    (chain (OPER_PCIX_8 s) (\<lambda>res s.
     chain (EA_AW_8 s) (\<lambda>ea s.
     chain (m68ki_write_8 ea res s) (\<lambda>_ s.
     Ret () (s\<lparr>n_flag := NFLAG_8 res,
       not_z_flag := res,
       v_flag := VFLAG_CLEAR,
       c_flag := CFLAG_CLEAR\<rparr>)))))"

definition m68k_op_move_8_aw_i :: "'b op" where
  "m68k_op_move_8_aw_i s =
    (chain (OPER_I_8 s) (\<lambda>res s.
     chain (EA_AW_8 s) (\<lambda>ea s.
     chain (m68ki_write_8 ea res s) (\<lambda>_ s.
     Ret () (s\<lparr>n_flag := NFLAG_8 res,
       not_z_flag := res,
       v_flag := VFLAG_CLEAR,
       c_flag := CFLAG_CLEAR\<rparr>)))))"

definition m68k_op_move_8_al_d :: "'b op" where
  "m68k_op_move_8_al_d s =
    (let res = MASK_OUT_ABOVE_8 (DY s)
     in chain (EA_AL_8 s) (\<lambda>ea s.
        chain (m68ki_write_8 ea res s) (\<lambda>_ s.
        Ret () (s\<lparr>n_flag := NFLAG_8 res,
          not_z_flag := res,
          v_flag := VFLAG_CLEAR,
          c_flag := CFLAG_CLEAR\<rparr>))))"

definition m68k_op_move_8_al_ai :: "'b op" where
  "m68k_op_move_8_al_ai s =
    (chain (OPER_AY_AI_8 s) (\<lambda>res s.
     chain (EA_AL_8 s) (\<lambda>ea s.
     chain (m68ki_write_8 ea res s) (\<lambda>_ s.
     Ret () (s\<lparr>n_flag := NFLAG_8 res,
       not_z_flag := res,
       v_flag := VFLAG_CLEAR,
       c_flag := CFLAG_CLEAR\<rparr>)))))"

definition m68k_op_move_8_al_pi :: "'b op" where
  "m68k_op_move_8_al_pi s =
    (chain (OPER_AY_PI_8 s) (\<lambda>res s.
     chain (EA_AL_8 s) (\<lambda>ea s.
     chain (m68ki_write_8 ea res s) (\<lambda>_ s.
     Ret () (s\<lparr>n_flag := NFLAG_8 res,
       not_z_flag := res,
       v_flag := VFLAG_CLEAR,
       c_flag := CFLAG_CLEAR\<rparr>)))))"

definition m68k_op_move_8_al_pi7 :: "'b op" where
  "m68k_op_move_8_al_pi7 s =
    (chain (OPER_A7_PI_8 s) (\<lambda>res s.
     chain (EA_AL_8 s) (\<lambda>ea s.
     chain (m68ki_write_8 ea res s) (\<lambda>_ s.
     Ret () (s\<lparr>n_flag := NFLAG_8 res,
       not_z_flag := res,
       v_flag := VFLAG_CLEAR,
       c_flag := CFLAG_CLEAR\<rparr>)))))"

definition m68k_op_move_8_al_pd :: "'b op" where
  "m68k_op_move_8_al_pd s =
    (chain (OPER_AY_PD_8 s) (\<lambda>res s.
     chain (EA_AL_8 s) (\<lambda>ea s.
     chain (m68ki_write_8 ea res s) (\<lambda>_ s.
     Ret () (s\<lparr>n_flag := NFLAG_8 res,
       not_z_flag := res,
       v_flag := VFLAG_CLEAR,
       c_flag := CFLAG_CLEAR\<rparr>)))))"

definition m68k_op_move_8_al_pd7 :: "'b op" where
  "m68k_op_move_8_al_pd7 s =
    (chain (OPER_A7_PD_8 s) (\<lambda>res s.
     chain (EA_AL_8 s) (\<lambda>ea s.
     chain (m68ki_write_8 ea res s) (\<lambda>_ s.
     Ret () (s\<lparr>n_flag := NFLAG_8 res,
       not_z_flag := res,
       v_flag := VFLAG_CLEAR,
       c_flag := CFLAG_CLEAR\<rparr>)))))"

definition m68k_op_move_8_al_di :: "'b op" where
  "m68k_op_move_8_al_di s =
    (chain (OPER_AY_DI_8 s) (\<lambda>res s.
     chain (EA_AL_8 s) (\<lambda>ea s.
     chain (m68ki_write_8 ea res s) (\<lambda>_ s.
     Ret () (s\<lparr>n_flag := NFLAG_8 res,
       not_z_flag := res,
       v_flag := VFLAG_CLEAR,
       c_flag := CFLAG_CLEAR\<rparr>)))))"

definition m68k_op_move_8_al_ix :: "'b op" where
  "m68k_op_move_8_al_ix s =
    (chain (OPER_AY_IX_8 s) (\<lambda>res s.
     chain (EA_AL_8 s) (\<lambda>ea s.
     chain (m68ki_write_8 ea res s) (\<lambda>_ s.
     Ret () (s\<lparr>n_flag := NFLAG_8 res,
       not_z_flag := res,
       v_flag := VFLAG_CLEAR,
       c_flag := CFLAG_CLEAR\<rparr>)))))"

definition m68k_op_move_8_al_aw :: "'b op" where
  "m68k_op_move_8_al_aw s =
    (chain (OPER_AW_8 s) (\<lambda>res s.
     chain (EA_AL_8 s) (\<lambda>ea s.
     chain (m68ki_write_8 ea res s) (\<lambda>_ s.
     Ret () (s\<lparr>n_flag := NFLAG_8 res,
       not_z_flag := res,
       v_flag := VFLAG_CLEAR,
       c_flag := CFLAG_CLEAR\<rparr>)))))"

definition m68k_op_move_8_al_al :: "'b op" where
  "m68k_op_move_8_al_al s =
    (chain (OPER_AL_8 s) (\<lambda>res s.
     chain (EA_AL_8 s) (\<lambda>ea s.
     chain (m68ki_write_8 ea res s) (\<lambda>_ s.
     Ret () (s\<lparr>n_flag := NFLAG_8 res,
       not_z_flag := res,
       v_flag := VFLAG_CLEAR,
       c_flag := CFLAG_CLEAR\<rparr>)))))"

definition m68k_op_move_8_al_pcdi :: "'b op" where
  "m68k_op_move_8_al_pcdi s =
    (chain (OPER_PCDI_8 s) (\<lambda>res s.
     chain (EA_AL_8 s) (\<lambda>ea s.
     chain (m68ki_write_8 ea res s) (\<lambda>_ s.
     Ret () (s\<lparr>n_flag := NFLAG_8 res,
       not_z_flag := res,
       v_flag := VFLAG_CLEAR,
       c_flag := CFLAG_CLEAR\<rparr>)))))"

definition m68k_op_move_8_al_pcix :: "'b op" where
  "m68k_op_move_8_al_pcix s =
    (chain (OPER_PCIX_8 s) (\<lambda>res s.
     chain (EA_AL_8 s) (\<lambda>ea s.
     chain (m68ki_write_8 ea res s) (\<lambda>_ s.
     Ret () (s\<lparr>n_flag := NFLAG_8 res,
       not_z_flag := res,
       v_flag := VFLAG_CLEAR,
       c_flag := CFLAG_CLEAR\<rparr>)))))"

definition m68k_op_move_8_al_i :: "'b op" where
  "m68k_op_move_8_al_i s =
    (chain (OPER_I_8 s) (\<lambda>res s.
     chain (EA_AL_8 s) (\<lambda>ea s.
     chain (m68ki_write_8 ea res s) (\<lambda>_ s.
     Ret () (s\<lparr>n_flag := NFLAG_8 res,
       not_z_flag := res,
       v_flag := VFLAG_CLEAR,
       c_flag := CFLAG_CLEAR\<rparr>)))))"

end
