(* ===== verification/OpsMoveMisc.thy ===== *)
theory OpsMoveMisc
  imports OpsBase
begin

section \<open>Instruction handlers: MOVEA\<close>

text \<open>
  The handlers of m68kops.c for MOVEA, MOVEQ, MOVEM, MOVEP, MOVES, MOVEC, MOVE16 and MOVE with CCR, SR and USP.
  One definition per handler, under the name of its C function; the effective address is part of
  the name.
\<close>

unbundle bit_operations_syntax

definition m68k_op_movea_16_d :: "'b op" where
  "m68k_op_movea_16_d s =
    (Ret () (set_AX (MAKE_INT_16 (DY s)) s))"

definition m68k_op_movea_16_a :: "'b op" where
  "m68k_op_movea_16_a s =
    (Ret () (set_AX (MAKE_INT_16 (AY s)) s))"

definition m68k_op_movea_16_ai :: "'b op" where
  "m68k_op_movea_16_ai s =
    (chain (OPER_AY_AI_16 s) (\<lambda>v s.
     Ret () (set_AX (MAKE_INT_16 v) s)))"

definition m68k_op_movea_16_pi :: "'b op" where
  "m68k_op_movea_16_pi s =
    (chain (OPER_AY_PI_16 s) (\<lambda>v s.
     Ret () (set_AX (MAKE_INT_16 v) s)))"

definition m68k_op_movea_16_pd :: "'b op" where
  "m68k_op_movea_16_pd s =
    (chain (OPER_AY_PD_16 s) (\<lambda>v s.
     Ret () (set_AX (MAKE_INT_16 v) s)))"

definition m68k_op_movea_16_di :: "'b op" where
  "m68k_op_movea_16_di s =
    (chain (OPER_AY_DI_16 s) (\<lambda>v s.
     Ret () (set_AX (MAKE_INT_16 v) s)))"

definition m68k_op_movea_16_ix :: "'b op" where
  "m68k_op_movea_16_ix s =
    (chain (OPER_AY_IX_16 s) (\<lambda>v s.
     Ret () (set_AX (MAKE_INT_16 v) s)))"

definition m68k_op_movea_16_aw :: "'b op" where
  "m68k_op_movea_16_aw s =
    (chain (OPER_AW_16 s) (\<lambda>v s.
     Ret () (set_AX (MAKE_INT_16 v) s)))"

definition m68k_op_movea_16_al :: "'b op" where
  "m68k_op_movea_16_al s =
    (chain (OPER_AL_16 s) (\<lambda>v s.
     Ret () (set_AX (MAKE_INT_16 v) s)))"

definition m68k_op_movea_16_pcdi :: "'b op" where
  "m68k_op_movea_16_pcdi s =
    (chain (OPER_PCDI_16 s) (\<lambda>v s.
     Ret () (set_AX (MAKE_INT_16 v) s)))"

definition m68k_op_movea_16_pcix :: "'b op" where
  "m68k_op_movea_16_pcix s =
    (chain (OPER_PCIX_16 s) (\<lambda>v s.
     Ret () (set_AX (MAKE_INT_16 v) s)))"

definition m68k_op_movea_16_i :: "'b op" where
  "m68k_op_movea_16_i s =
    (chain (OPER_I_16 s) (\<lambda>v s.
     Ret () (set_AX (MAKE_INT_16 v) s)))"

definition m68k_op_movea_32_d :: "'b op" where
  "m68k_op_movea_32_d s =
    (Ret () (set_AX (DY s) s))"

definition m68k_op_movea_32_a :: "'b op" where
  "m68k_op_movea_32_a s =
    (Ret () (set_AX (AY s) s))"

definition m68k_op_movea_32_ai :: "'b op" where
  "m68k_op_movea_32_ai s =
    (chain (OPER_AY_AI_32 s) (\<lambda>v s.
     Ret () (set_AX v s)))"

definition m68k_op_movea_32_pi :: "'b op" where
  "m68k_op_movea_32_pi s =
    (chain (OPER_AY_PI_32 s) (\<lambda>v s.
     Ret () (set_AX v s)))"

definition m68k_op_movea_32_pd :: "'b op" where
  "m68k_op_movea_32_pd s =
    (chain (OPER_AY_PD_32 s) (\<lambda>v s.
     Ret () (set_AX v s)))"

definition m68k_op_movea_32_di :: "'b op" where
  "m68k_op_movea_32_di s =
    (chain (OPER_AY_DI_32 s) (\<lambda>v s.
     Ret () (set_AX v s)))"

definition m68k_op_movea_32_ix :: "'b op" where
  "m68k_op_movea_32_ix s =
    (chain (OPER_AY_IX_32 s) (\<lambda>v s.
     Ret () (set_AX v s)))"

definition m68k_op_movea_32_aw :: "'b op" where
  "m68k_op_movea_32_aw s =
    (chain (OPER_AW_32 s) (\<lambda>v s.
     Ret () (set_AX v s)))"

definition m68k_op_movea_32_al :: "'b op" where
  "m68k_op_movea_32_al s =
    (chain (OPER_AL_32 s) (\<lambda>v s.
     Ret () (set_AX v s)))"

definition m68k_op_movea_32_pcdi :: "'b op" where
  "m68k_op_movea_32_pcdi s =
    (chain (OPER_PCDI_32 s) (\<lambda>v s.
     Ret () (set_AX v s)))"

definition m68k_op_movea_32_pcix :: "'b op" where
  "m68k_op_movea_32_pcix s =
    (chain (OPER_PCIX_32 s) (\<lambda>v s.
     Ret () (set_AX v s)))"

definition m68k_op_movea_32_i :: "'b op" where
  "m68k_op_movea_32_i s =
    (chain (OPER_I_32 s) (\<lambda>v s.
     Ret () (set_AX v s)))"

definition m68k_op_move_16_frc_d :: "'b op" where
  "m68k_op_move_16_frc_d s =
    (if CPU_TYPE_IS_010_PLUS (cpu_type s)
     then Ret () (set_DY (MASK_OUT_BELOW_16 (DY s) OR m68ki_get_ccr s) s)
     else m68ki_exception_illegal s)"

definition m68k_op_move_16_frc_ai :: "'b op" where
  "m68k_op_move_16_frc_ai s =
    (if CPU_TYPE_IS_010_PLUS (cpu_type s)
     then chain (EA_AY_AI_16 s) (\<lambda>ea s.
          m68ki_write_16 ea (m68ki_get_ccr s) s)
     else m68ki_exception_illegal s)"

definition m68k_op_move_16_frc_pi :: "'b op" where
  "m68k_op_move_16_frc_pi s =
    (if CPU_TYPE_IS_010_PLUS (cpu_type s)
     then chain (EA_AY_PI_16 s) (\<lambda>ea s.
          m68ki_write_16 ea (m68ki_get_ccr s) s)
     else m68ki_exception_illegal s)"

definition m68k_op_move_16_frc_pd :: "'b op" where
  "m68k_op_move_16_frc_pd s =
    (if CPU_TYPE_IS_010_PLUS (cpu_type s)
     then chain (EA_AY_PD_16 s) (\<lambda>ea s.
          m68ki_write_16 ea (m68ki_get_ccr s) s)
     else m68ki_exception_illegal s)"

definition m68k_op_move_16_frc_di :: "'b op" where
  "m68k_op_move_16_frc_di s =
    (if CPU_TYPE_IS_010_PLUS (cpu_type s)
     then chain (EA_AY_DI_16 s) (\<lambda>ea s.
          m68ki_write_16 ea (m68ki_get_ccr s) s)
     else m68ki_exception_illegal s)"

definition m68k_op_move_16_frc_ix :: "'b op" where
  "m68k_op_move_16_frc_ix s =
    (if CPU_TYPE_IS_010_PLUS (cpu_type s)
     then chain (EA_AY_IX_16 s) (\<lambda>ea s.
          m68ki_write_16 ea (m68ki_get_ccr s) s)
     else m68ki_exception_illegal s)"

definition m68k_op_move_16_frc_aw :: "'b op" where
  "m68k_op_move_16_frc_aw s =
    (if CPU_TYPE_IS_010_PLUS (cpu_type s)
     then chain (EA_AW_16 s) (\<lambda>ea s.
          m68ki_write_16 ea (m68ki_get_ccr s) s)
     else m68ki_exception_illegal s)"

definition m68k_op_move_16_frc_al :: "'b op" where
  "m68k_op_move_16_frc_al s =
    (if CPU_TYPE_IS_010_PLUS (cpu_type s)
     then chain (EA_AL_16 s) (\<lambda>ea s.
          m68ki_write_16 ea (m68ki_get_ccr s) s)
     else m68ki_exception_illegal s)"

definition m68k_op_move_16_toc_d :: "'b op" where
  "m68k_op_move_16_toc_d s =
    (Ret () (m68ki_set_ccr (DY s) s))"

definition m68k_op_move_16_toc_ai :: "'b op" where
  "m68k_op_move_16_toc_ai s =
    (chain (OPER_AY_AI_16 s) (\<lambda>v s.
     Ret () (m68ki_set_ccr v s)))"

definition m68k_op_move_16_toc_pi :: "'b op" where
  "m68k_op_move_16_toc_pi s =
    (chain (OPER_AY_PI_16 s) (\<lambda>v s.
     Ret () (m68ki_set_ccr v s)))"

definition m68k_op_move_16_toc_pd :: "'b op" where
  "m68k_op_move_16_toc_pd s =
    (chain (OPER_AY_PD_16 s) (\<lambda>v s.
     Ret () (m68ki_set_ccr v s)))"

definition m68k_op_move_16_toc_di :: "'b op" where
  "m68k_op_move_16_toc_di s =
    (chain (OPER_AY_DI_16 s) (\<lambda>v s.
     Ret () (m68ki_set_ccr v s)))"

definition m68k_op_move_16_toc_ix :: "'b op" where
  "m68k_op_move_16_toc_ix s =
    (chain (OPER_AY_IX_16 s) (\<lambda>v s.
     Ret () (m68ki_set_ccr v s)))"

definition m68k_op_move_16_toc_aw :: "'b op" where
  "m68k_op_move_16_toc_aw s =
    (chain (OPER_AW_16 s) (\<lambda>v s.
     Ret () (m68ki_set_ccr v s)))"

definition m68k_op_move_16_toc_al :: "'b op" where
  "m68k_op_move_16_toc_al s =
    (chain (OPER_AL_16 s) (\<lambda>v s.
     Ret () (m68ki_set_ccr v s)))"

definition m68k_op_move_16_toc_pcdi :: "'b op" where
  "m68k_op_move_16_toc_pcdi s =
    (chain (OPER_PCDI_16 s) (\<lambda>v s.
     Ret () (m68ki_set_ccr v s)))"

definition m68k_op_move_16_toc_pcix :: "'b op" where
  "m68k_op_move_16_toc_pcix s =
    (chain (OPER_PCIX_16 s) (\<lambda>v s.
     Ret () (m68ki_set_ccr v s)))"

definition m68k_op_move_16_toc_i :: "'b op" where
  "m68k_op_move_16_toc_i s =
    (chain (OPER_I_16 s) (\<lambda>v s.
     Ret () (m68ki_set_ccr v s)))"

definition m68k_op_move_16_frs_d :: "'b op" where
  "m68k_op_move_16_frs_d s =
    (if CPU_TYPE_IS_000 (cpu_type s) \<or> s_flag s \<noteq> 0
     then Ret () (set_DY (MASK_OUT_BELOW_16 (DY s) OR m68ki_get_sr s) s)
     else m68ki_exception_privilege_violation s)"

definition m68k_op_move_16_frs_ai :: "'b op" where
  "m68k_op_move_16_frs_ai s =
    (if CPU_TYPE_IS_000 (cpu_type s) \<or> s_flag s \<noteq> 0
     then chain (EA_AY_AI_16 s) (\<lambda>ea s.
          m68ki_write_16 ea (m68ki_get_sr s) s)
     else m68ki_exception_privilege_violation s)"

definition m68k_op_move_16_frs_pi :: "'b op" where
  "m68k_op_move_16_frs_pi s =
    (if CPU_TYPE_IS_000 (cpu_type s) \<or> s_flag s \<noteq> 0
     then chain (EA_AY_PI_16 s) (\<lambda>ea s.
          m68ki_write_16 ea (m68ki_get_sr s) s)
     else m68ki_exception_privilege_violation s)"

definition m68k_op_move_16_frs_pd :: "'b op" where
  "m68k_op_move_16_frs_pd s =
    (if CPU_TYPE_IS_000 (cpu_type s) \<or> s_flag s \<noteq> 0
     then chain (EA_AY_PD_16 s) (\<lambda>ea s.
          m68ki_write_16 ea (m68ki_get_sr s) s)
     else m68ki_exception_privilege_violation s)"

definition m68k_op_move_16_frs_di :: "'b op" where
  "m68k_op_move_16_frs_di s =
    (if CPU_TYPE_IS_000 (cpu_type s) \<or> s_flag s \<noteq> 0
     then chain (EA_AY_DI_16 s) (\<lambda>ea s.
          m68ki_write_16 ea (m68ki_get_sr s) s)
     else m68ki_exception_privilege_violation s)"

definition m68k_op_move_16_frs_ix :: "'b op" where
  "m68k_op_move_16_frs_ix s =
    (if CPU_TYPE_IS_000 (cpu_type s) \<or> s_flag s \<noteq> 0
     then chain (EA_AY_IX_16 s) (\<lambda>ea s.
          m68ki_write_16 ea (m68ki_get_sr s) s)
     else m68ki_exception_privilege_violation s)"

definition m68k_op_move_16_frs_aw :: "'b op" where
  "m68k_op_move_16_frs_aw s =
    (if CPU_TYPE_IS_000 (cpu_type s) \<or> s_flag s \<noteq> 0
     then chain (EA_AW_16 s) (\<lambda>ea s.
          m68ki_write_16 ea (m68ki_get_sr s) s)
     else m68ki_exception_privilege_violation s)"

definition m68k_op_move_16_frs_al :: "'b op" where
  "m68k_op_move_16_frs_al s =
    (if CPU_TYPE_IS_000 (cpu_type s) \<or> s_flag s \<noteq> 0
     then chain (EA_AL_16 s) (\<lambda>ea s.
          m68ki_write_16 ea (m68ki_get_sr s) s)
     else m68ki_exception_privilege_violation s)"

definition m68k_op_move_16_tos_d :: "'b op" where
  "m68k_op_move_16_tos_d s =
    (if s_flag s \<noteq> 0
     then m68ki_set_sr (DY s) s
     else m68ki_exception_privilege_violation s)"

definition m68k_op_move_16_tos_ai :: "'b op" where
  "m68k_op_move_16_tos_ai s =
    (if s_flag s \<noteq> 0
     then chain (OPER_AY_AI_16 s) (\<lambda>new_sr s.
          m68ki_set_sr new_sr s)
     else m68ki_exception_privilege_violation s)"

definition m68k_op_move_16_tos_pi :: "'b op" where
  "m68k_op_move_16_tos_pi s =
    (if s_flag s \<noteq> 0
     then chain (OPER_AY_PI_16 s) (\<lambda>new_sr s.
          m68ki_set_sr new_sr s)
     else m68ki_exception_privilege_violation s)"

definition m68k_op_move_16_tos_pd :: "'b op" where
  "m68k_op_move_16_tos_pd s =
    (if s_flag s \<noteq> 0
     then chain (OPER_AY_PD_16 s) (\<lambda>new_sr s.
          m68ki_set_sr new_sr s)
     else m68ki_exception_privilege_violation s)"

definition m68k_op_move_16_tos_di :: "'b op" where
  "m68k_op_move_16_tos_di s =
    (if s_flag s \<noteq> 0
     then chain (OPER_AY_DI_16 s) (\<lambda>new_sr s.
          m68ki_set_sr new_sr s)
     else m68ki_exception_privilege_violation s)"

definition m68k_op_move_16_tos_ix :: "'b op" where
  "m68k_op_move_16_tos_ix s =
    (if s_flag s \<noteq> 0
     then chain (OPER_AY_IX_16 s) (\<lambda>new_sr s.
          m68ki_set_sr new_sr s)
     else m68ki_exception_privilege_violation s)"

definition m68k_op_move_16_tos_aw :: "'b op" where
  "m68k_op_move_16_tos_aw s =
    (if s_flag s \<noteq> 0
     then chain (OPER_AW_16 s) (\<lambda>new_sr s.
          m68ki_set_sr new_sr s)
     else m68ki_exception_privilege_violation s)"

definition m68k_op_move_16_tos_al :: "'b op" where
  "m68k_op_move_16_tos_al s =
    (if s_flag s \<noteq> 0
     then chain (OPER_AL_16 s) (\<lambda>new_sr s.
          m68ki_set_sr new_sr s)
     else m68ki_exception_privilege_violation s)"

definition m68k_op_move_16_tos_pcdi :: "'b op" where
  "m68k_op_move_16_tos_pcdi s =
    (if s_flag s \<noteq> 0
     then chain (OPER_PCDI_16 s) (\<lambda>new_sr s.
          m68ki_set_sr new_sr s)
     else m68ki_exception_privilege_violation s)"

definition m68k_op_move_16_tos_pcix :: "'b op" where
  "m68k_op_move_16_tos_pcix s =
    (if s_flag s \<noteq> 0
     then chain (OPER_PCIX_16 s) (\<lambda>new_sr s.
          m68ki_set_sr new_sr s)
     else m68ki_exception_privilege_violation s)"

definition m68k_op_move_16_tos_i :: "'b op" where
  "m68k_op_move_16_tos_i s =
    (if s_flag s \<noteq> 0
     then chain (OPER_I_16 s) (\<lambda>new_sr s.
          m68ki_set_sr new_sr s)
     else m68ki_exception_privilege_violation s)"

definition m68k_op_move_32_fru :: "'b op" where
  "m68k_op_move_32_fru s =
    (if s_flag s \<noteq> 0
     then Ret () (set_AY (sp s 0) s)
     else m68ki_exception_privilege_violation s)"

definition m68k_op_move_32_tou :: "'b op" where
  "m68k_op_move_32_tou s =
    (if s_flag s \<noteq> 0
     then Ret () (s\<lparr>sp := (sp s)(0 := AY s)\<rparr>)
     else m68ki_exception_privilege_violation s)"

definition m68k_op_movec_32_cr :: "'b op" where
  "m68k_op_movec_32_cr s =
    (if CPU_TYPE_IS_010_PLUS (cpu_type s)
     then if s_flag s \<noteq> 0
          then chain (OPER_I_16 s) (\<lambda>word2 s.
               if word2 AND 0xfff = 0x000
               then Ret () (set_REG_DA (drop_bit 12 word2 AND 15) (sfc s) s)
               else if word2 AND 0xfff = 0x001
               then Ret () (set_REG_DA (drop_bit 12 word2 AND 15) (dfc s) s)
               else if word2 AND 0xfff = 0x002
               then if CPU_TYPE_IS_EC020_PLUS (cpu_type s)
                    then Ret () (set_REG_DA (drop_bit 12 word2 AND 15) (cacr s) s)
                    else Ret () s
               else if word2 AND 0xfff = 0x800
               then Ret () (set_REG_DA (drop_bit 12 word2 AND 15) (sp s 0) s)
               else if word2 AND 0xfff = 0x801
               then Ret () (set_REG_DA (drop_bit 12 word2 AND 15) (vbr s) s)
               else if word2 AND 0xfff = 0x802
               then if CPU_TYPE_IS_EC020_PLUS (cpu_type s)
                    then Ret () (set_REG_DA (drop_bit 12 word2 AND 15) (caar s) s)
                    else chain (m68ki_exception_illegal s) (\<lambda>_ s.
                         m68ki_exception_privilege_violation s)
               else if word2 AND 0xfff = 0x803
               then if CPU_TYPE_IS_EC020_PLUS (cpu_type s)
                    then Ret () (set_REG_DA (drop_bit 12 word2 AND 15) (if m_flag s \<noteq> 0 then
                          REG_SP s else sp s 6) s)
                    else m68ki_exception_illegal s
               else if word2 AND 0xfff = 0x804
               then if CPU_TYPE_IS_EC020_PLUS (cpu_type s)
                    then Ret () (set_REG_DA (drop_bit 12 word2 AND 15) (if m_flag s \<noteq> 0 then
                          sp s 4 else REG_SP s) s)
                    else m68ki_exception_illegal s
               else if word2 AND 0xfff = 0x003
               then if CPU_TYPE_IS_040_PLUS (cpu_type s)
                    then Ret () (set_REG_DA (drop_bit 12 word2 AND 15) (mmu_tc s) s)
                    else m68ki_exception_illegal s
               else if word2 AND 0xfff = 0x004
               then if CPU_TYPE_IS_040_PLUS (cpu_type s)
                    then Ret () (set_REG_DA (drop_bit 12 word2 AND 15) (mmu_itt0 s) s)
                    else m68ki_exception_illegal s
               else if word2 AND 0xfff = 0x005
               then if CPU_TYPE_IS_040_PLUS (cpu_type s)
                    then Ret () (set_REG_DA (drop_bit 12 word2 AND 15) (mmu_itt1 s) s)
                    else m68ki_exception_illegal s
               else if word2 AND 0xfff = 0x006
               then if CPU_TYPE_IS_040_PLUS (cpu_type s)
                    then Ret () (set_REG_DA (drop_bit 12 word2 AND 15) (mmu_dtt0 s) s)
                    else m68ki_exception_illegal s
               else if word2 AND 0xfff = 0x007
               then if CPU_TYPE_IS_040_PLUS (cpu_type s)
                    then Ret () (set_REG_DA (drop_bit 12 word2 AND 15) (mmu_dtt1 s) s)
                    else m68ki_exception_illegal s
               else if word2 AND 0xfff = 0x805
               then if CPU_TYPE_IS_040_PLUS (cpu_type s)
                    then Ret () (set_REG_DA (drop_bit 12 word2 AND 15) (mmu_sr_040 s) s)
                    else m68ki_exception_illegal s
               else if word2 AND 0xfff = 0x806
               then if CPU_TYPE_IS_040_PLUS (cpu_type s)
                    then Ret () (set_REG_DA (drop_bit 12 word2 AND 15) (mmu_urp_aptr s) s)
                    else m68ki_exception_illegal s
               else if word2 AND 0xfff = 0x807
               then if CPU_TYPE_IS_040_PLUS (cpu_type s)
                    then Ret () (set_REG_DA (drop_bit 12 word2 AND 15) (mmu_srp_aptr s) s)
                    else m68ki_exception_illegal s
               else m68ki_exception_illegal s)
          else m68ki_exception_privilege_violation s
     else m68ki_exception_illegal s)"

definition m68k_op_movec_32_rc :: "'b op" where
  "m68k_op_movec_32_rc s =
    (if CPU_TYPE_IS_010_PLUS (cpu_type s)
     then if s_flag s \<noteq> 0
          then chain (OPER_I_16 s) (\<lambda>word2 s.
               if word2 AND 0xfff = 0x000
               then Ret () (s\<lparr>sfc := REG_DA s (drop_bit 12 word2 AND 15) AND 7\<rparr>)
               else if word2 AND 0xfff = 0x001
               then Ret () (s\<lparr>dfc := REG_DA s (drop_bit 12 word2 AND 15) AND 7\<rparr>)
               else if word2 AND 0xfff = 0x002
               then if CPU_TYPE_IS_EC020_PLUS (cpu_type s)
                    then Ret () (if CPU_TYPE_IS_040_PLUS (cpu_type s)
                          then s\<lparr>cacr := REG_DA s (drop_bit 12 word2 AND 15)\<rparr>
                          else (if CPU_TYPE_IS_030_PLUS (cpu_type s)
                                then s\<lparr>cacr := REG_DA s (drop_bit 12 word2 AND 15) AND 0xff1f\<rparr>
                                else s\<lparr>cacr := REG_DA s (drop_bit 12 word2 AND 15) AND 0x0f\<rparr>))
                    else m68ki_exception_illegal s
               else if word2 AND 0xfff = 0x800
               then Ret () (s\<lparr>sp := (sp s)(0 := REG_DA s (drop_bit 12 word2 AND 15))\<rparr>)
               else if word2 AND 0xfff = 0x801
               then Ret () (s\<lparr>vbr := REG_DA s (drop_bit 12 word2 AND 15)\<rparr>)
               else if word2 AND 0xfff = 0x802
               then if CPU_TYPE_IS_EC020_PLUS (cpu_type s)
                    then Ret () (s\<lparr>caar := REG_DA s (drop_bit 12 word2 AND 15)\<rparr>)
                    else m68ki_exception_illegal s
               else if word2 AND 0xfff = 0x803
               then if CPU_TYPE_IS_EC020_PLUS (cpu_type s)
                    then if m_flag s = 0
                         then Ret () (s\<lparr>sp := (sp s)(6 := REG_DA s (drop_bit 12 word2 AND
                               15))\<rparr>)
                         else Ret () (set_REG_SP (REG_DA s (drop_bit 12 word2 AND 15)) s)
                    else m68ki_exception_illegal s
               else if word2 AND 0xfff = 0x804
               then if CPU_TYPE_IS_EC020_PLUS (cpu_type s)
                    then if m_flag s = 0
                         then Ret () (set_REG_SP (REG_DA s (drop_bit 12 word2 AND 15)) s)
                         else Ret () (s\<lparr>sp := (sp s)(4 := REG_DA s (drop_bit 12 word2 AND
                               15))\<rparr>)
                    else m68ki_exception_illegal s
               else if word2 AND 0xfff = 0x003
               then if CPU_TYPE_IS_040_PLUS (cpu_type s)
                    then let s = s\<lparr>mmu_tc := REG_DA s (drop_bit 12 word2 AND 15)\<rparr>;
                             s = s\<lparr>pmmu_enabled := (bool_word (mmu_tc s AND 0x8000 \<noteq>
                                   0))\<rparr>
                         in Ret () (pmmu_atc_flush s)
                    else m68ki_exception_illegal s
               else if word2 AND 0xfff = 0x004
               then if CPU_TYPE_IS_040_PLUS (cpu_type s)
                    then Ret () (s\<lparr>mmu_itt0 := REG_DA s (drop_bit 12 word2 AND 15)\<rparr>)
                    else m68ki_exception_illegal s
               else if word2 AND 0xfff = 0x005
               then if CPU_TYPE_IS_040_PLUS (cpu_type s)
                    then Ret () (s\<lparr>mmu_itt1 := REG_DA s (drop_bit 12 word2 AND 15)\<rparr>)
                    else m68ki_exception_illegal s
               else if word2 AND 0xfff = 0x006
               then if CPU_TYPE_IS_040_PLUS (cpu_type s)
                    then Ret () (s\<lparr>mmu_dtt0 := REG_DA s (drop_bit 12 word2 AND 15)\<rparr>)
                    else m68ki_exception_illegal s
               else if word2 AND 0xfff = 0x007
               then if CPU_TYPE_IS_040_PLUS (cpu_type s)
                    then Ret () (s\<lparr>mmu_dtt1 := REG_DA s (drop_bit 12 word2 AND 15)\<rparr>)
                    else m68ki_exception_illegal s
               else if word2 AND 0xfff = 0x805
               then if CPU_TYPE_IS_040_PLUS (cpu_type s)
                    then Ret () (s\<lparr>mmu_sr_040 := REG_DA s (drop_bit 12 word2 AND 15)\<rparr>)
                    else m68ki_exception_illegal s
               else if word2 AND 0xfff = 0x806
               then if CPU_TYPE_IS_040_PLUS (cpu_type s)
                    then let s = s\<lparr>mmu_urp_aptr := REG_DA s (drop_bit 12 word2 AND 15)\<rparr>
                         in Ret () (pmmu_atc_flush s)
                    else m68ki_exception_illegal s
               else if word2 AND 0xfff = 0x807
               then if CPU_TYPE_IS_040_PLUS (cpu_type s)
                    then let s = s\<lparr>mmu_srp_aptr := REG_DA s (drop_bit 12 word2 AND 15)\<rparr>
                         in Ret () (pmmu_atc_flush s)
                    else m68ki_exception_illegal s
               else m68ki_exception_illegal s)
          else m68ki_exception_privilege_violation s
     else m68ki_exception_illegal s)"

definition m68k_op_movem_16_re_pd :: "'b op" where
  "m68k_op_movem_16_re_pd s =
    (chain (OPER_I_16 s) (\<lambda>register_list s.
     let ea = AY s;
         count = 0
     in chain (for_each indices16 (\<lambda>i (count, ea) s.
          if register_list AND push_bit (unat i) 1 \<noteq> 0
          then let ea = ea - 2
               in chain (m68ki_write_16 ea (MASK_OUT_ABOVE_16 (REG_DA s (15 - i))) s) (\<lambda>_ s.
                  let count = count + 1
                  in Ret (count, ea) s)
          else Ret (count, ea) s) (count, ea) s) (\<lambda>(count, ea) s.
        let s = set_AY ea s
        in Ret () (USE_CYCLES (push_bit (unat (cyc_movem_w s)) count) s))))"

definition m68k_op_movem_16_re_ai :: "'b op" where
  "m68k_op_movem_16_re_ai s =
    (chain (OPER_I_16 s) (\<lambda>register_list s.
     chain (EA_AY_AI_16 s) (\<lambda>ea s.
     let count = 0
     in chain (for_each indices16 (\<lambda>i (count, ea) s.
          if register_list AND push_bit (unat i) 1 \<noteq> 0
          then chain (m68ki_write_16 ea (MASK_OUT_ABOVE_16 (REG_DA s i)) s) (\<lambda>_ s.
               let ea = ea + 2;
                   count = count + 1
               in Ret (count, ea) s)
          else Ret (count, ea) s) (count, ea) s) (\<lambda>(count, ea) s.
        Ret () (USE_CYCLES (push_bit (unat (cyc_movem_w s)) count) s)))))"

definition m68k_op_movem_16_re_di :: "'b op" where
  "m68k_op_movem_16_re_di s =
    (chain (OPER_I_16 s) (\<lambda>register_list s.
     chain (EA_AY_DI_16 s) (\<lambda>ea s.
     let count = 0
     in chain (for_each indices16 (\<lambda>i (count, ea) s.
          if register_list AND push_bit (unat i) 1 \<noteq> 0
          then chain (m68ki_write_16 ea (MASK_OUT_ABOVE_16 (REG_DA s i)) s) (\<lambda>_ s.
               let ea = ea + 2;
                   count = count + 1
               in Ret (count, ea) s)
          else Ret (count, ea) s) (count, ea) s) (\<lambda>(count, ea) s.
        Ret () (USE_CYCLES (push_bit (unat (cyc_movem_w s)) count) s)))))"

definition m68k_op_movem_16_re_ix :: "'b op" where
  "m68k_op_movem_16_re_ix s =
    (chain (OPER_I_16 s) (\<lambda>register_list s.
     chain (EA_AY_IX_16 s) (\<lambda>ea s.
     let count = 0
     in chain (for_each indices16 (\<lambda>i (count, ea) s.
          if register_list AND push_bit (unat i) 1 \<noteq> 0
          then chain (m68ki_write_16 ea (MASK_OUT_ABOVE_16 (REG_DA s i)) s) (\<lambda>_ s.
               let ea = ea + 2;
                   count = count + 1
               in Ret (count, ea) s)
          else Ret (count, ea) s) (count, ea) s) (\<lambda>(count, ea) s.
        Ret () (USE_CYCLES (push_bit (unat (cyc_movem_w s)) count) s)))))"

definition m68k_op_movem_16_re_aw :: "'b op" where
  "m68k_op_movem_16_re_aw s =
    (chain (OPER_I_16 s) (\<lambda>register_list s.
     chain (EA_AW_16 s) (\<lambda>ea s.
     let count = 0
     in chain (for_each indices16 (\<lambda>i (count, ea) s.
          if register_list AND push_bit (unat i) 1 \<noteq> 0
          then chain (m68ki_write_16 ea (MASK_OUT_ABOVE_16 (REG_DA s i)) s) (\<lambda>_ s.
               let ea = ea + 2;
                   count = count + 1
               in Ret (count, ea) s)
          else Ret (count, ea) s) (count, ea) s) (\<lambda>(count, ea) s.
        Ret () (USE_CYCLES (push_bit (unat (cyc_movem_w s)) count) s)))))"

definition m68k_op_movem_16_re_al :: "'b op" where
  "m68k_op_movem_16_re_al s =
    (chain (OPER_I_16 s) (\<lambda>register_list s.
     chain (EA_AL_16 s) (\<lambda>ea s.
     let count = 0
     in chain (for_each indices16 (\<lambda>i (count, ea) s.
          if register_list AND push_bit (unat i) 1 \<noteq> 0
          then chain (m68ki_write_16 ea (MASK_OUT_ABOVE_16 (REG_DA s i)) s) (\<lambda>_ s.
               let ea = ea + 2;
                   count = count + 1
               in Ret (count, ea) s)
          else Ret (count, ea) s) (count, ea) s) (\<lambda>(count, ea) s.
        Ret () (USE_CYCLES (push_bit (unat (cyc_movem_w s)) count) s)))))"

definition m68k_op_movem_32_re_pd :: "'b op" where
  "m68k_op_movem_32_re_pd s =
    (chain (OPER_I_16 s) (\<lambda>register_list s.
     let ea = AY s;
         count = 0
     in chain (for_each indices16 (\<lambda>i (count, ea) s.
          if register_list AND push_bit (unat i) 1 \<noteq> 0
          then let ea = ea - 4
               in chain (m68ki_write_16 (ea + 2) (REG_DA s (15 - i) AND 0xFFFF) s) (\<lambda>_ s.
                  chain (m68ki_write_16 ea (drop_bit 16 (REG_DA s (15 - i)) AND 0xFFFF) s) (\<lambda>_ s.
                  let count = count + 1
                  in Ret (count, ea) s))
          else Ret (count, ea) s) (count, ea) s) (\<lambda>(count, ea) s.
        let s = set_AY ea s
        in Ret () (USE_CYCLES (push_bit (unat (cyc_movem_l s)) count) s))))"

definition m68k_op_movem_32_re_ai :: "'b op" where
  "m68k_op_movem_32_re_ai s =
    (chain (OPER_I_16 s) (\<lambda>register_list s.
     chain (EA_AY_AI_32 s) (\<lambda>ea s.
     let count = 0
     in chain (for_each indices16 (\<lambda>i (count, ea) s.
          if register_list AND push_bit (unat i) 1 \<noteq> 0
          then chain (m68ki_write_32 ea (REG_DA s i) s) (\<lambda>_ s.
               let ea = ea + 4;
                   count = count + 1
               in Ret (count, ea) s)
          else Ret (count, ea) s) (count, ea) s) (\<lambda>(count, ea) s.
        Ret () (USE_CYCLES (push_bit (unat (cyc_movem_l s)) count) s)))))"

definition m68k_op_movem_32_re_di :: "'b op" where
  "m68k_op_movem_32_re_di s =
    (chain (OPER_I_16 s) (\<lambda>register_list s.
     chain (EA_AY_DI_32 s) (\<lambda>ea s.
     let count = 0
     in chain (for_each indices16 (\<lambda>i (count, ea) s.
          if register_list AND push_bit (unat i) 1 \<noteq> 0
          then chain (m68ki_write_32 ea (REG_DA s i) s) (\<lambda>_ s.
               let ea = ea + 4;
                   count = count + 1
               in Ret (count, ea) s)
          else Ret (count, ea) s) (count, ea) s) (\<lambda>(count, ea) s.
        Ret () (USE_CYCLES (push_bit (unat (cyc_movem_l s)) count) s)))))"

definition m68k_op_movem_32_re_ix :: "'b op" where
  "m68k_op_movem_32_re_ix s =
    (chain (OPER_I_16 s) (\<lambda>register_list s.
     chain (EA_AY_IX_32 s) (\<lambda>ea s.
     let count = 0
     in chain (for_each indices16 (\<lambda>i (count, ea) s.
          if register_list AND push_bit (unat i) 1 \<noteq> 0
          then chain (m68ki_write_32 ea (REG_DA s i) s) (\<lambda>_ s.
               let ea = ea + 4;
                   count = count + 1
               in Ret (count, ea) s)
          else Ret (count, ea) s) (count, ea) s) (\<lambda>(count, ea) s.
        Ret () (USE_CYCLES (push_bit (unat (cyc_movem_l s)) count) s)))))"

definition m68k_op_movem_32_re_aw :: "'b op" where
  "m68k_op_movem_32_re_aw s =
    (chain (OPER_I_16 s) (\<lambda>register_list s.
     chain (EA_AW_32 s) (\<lambda>ea s.
     let count = 0
     in chain (for_each indices16 (\<lambda>i (count, ea) s.
          if register_list AND push_bit (unat i) 1 \<noteq> 0
          then chain (m68ki_write_32 ea (REG_DA s i) s) (\<lambda>_ s.
               let ea = ea + 4;
                   count = count + 1
               in Ret (count, ea) s)
          else Ret (count, ea) s) (count, ea) s) (\<lambda>(count, ea) s.
        Ret () (USE_CYCLES (push_bit (unat (cyc_movem_l s)) count) s)))))"

definition m68k_op_movem_32_re_al :: "'b op" where
  "m68k_op_movem_32_re_al s =
    (chain (OPER_I_16 s) (\<lambda>register_list s.
     chain (EA_AL_32 s) (\<lambda>ea s.
     let count = 0
     in chain (for_each indices16 (\<lambda>i (count, ea) s.
          if register_list AND push_bit (unat i) 1 \<noteq> 0
          then chain (m68ki_write_32 ea (REG_DA s i) s) (\<lambda>_ s.
               let ea = ea + 4;
                   count = count + 1
               in Ret (count, ea) s)
          else Ret (count, ea) s) (count, ea) s) (\<lambda>(count, ea) s.
        Ret () (USE_CYCLES (push_bit (unat (cyc_movem_l s)) count) s)))))"

definition m68k_op_movem_16_er_pi :: "'b op" where
  "m68k_op_movem_16_er_pi s =
    (chain (OPER_I_16 s) (\<lambda>register_list s.
     let ea = AY s;
         count = 0
     in chain (for_each indices16 (\<lambda>i (count, ea) s.
          if register_list AND push_bit (unat i) 1 \<noteq> 0
          then chain (m68ki_read_16 ea s) (\<lambda>v2 s.
               let s = set_REG_DA i (MAKE_INT_16 (MASK_OUT_ABOVE_16 v2)) s;
                   ea = ea + 2;
                   count = count + 1
               in Ret (count, ea) s)
          else Ret (count, ea) s) (count, ea) s) (\<lambda>(count, ea) s.
        let s = set_AY ea s
        in Ret () (USE_CYCLES (push_bit (unat (cyc_movem_w s)) count) s))))"

definition m68k_op_movem_16_er_pcdi :: "'b op" where
  "m68k_op_movem_16_er_pcdi s =
    (chain (OPER_I_16 s) (\<lambda>register_list s.
     chain (EA_PCDI_16 s) (\<lambda>ea s.
     let count = 0
     in chain (for_each indices16 (\<lambda>i (count, ea) s.
          if register_list AND push_bit (unat i) 1 \<noteq> 0
          then chain (m68ki_read_pcrel_16 ea s) (\<lambda>v3 s.
               let s = set_REG_DA i (MAKE_INT_16 (MASK_OUT_ABOVE_16 v3)) s;
                   ea = ea + 2;
                   count = count + 1
               in Ret (count, ea) s)
          else Ret (count, ea) s) (count, ea) s) (\<lambda>(count, ea) s.
        Ret () (USE_CYCLES (push_bit (unat (cyc_movem_w s)) count) s)))))"

definition m68k_op_movem_16_er_pcix :: "'b op" where
  "m68k_op_movem_16_er_pcix s =
    (chain (OPER_I_16 s) (\<lambda>register_list s.
     chain (EA_PCIX_16 s) (\<lambda>ea s.
     let count = 0
     in chain (for_each indices16 (\<lambda>i (count, ea) s.
          if register_list AND push_bit (unat i) 1 \<noteq> 0
          then chain (m68ki_read_pcrel_16 ea s) (\<lambda>v3 s.
               let s = set_REG_DA i (MAKE_INT_16 (MASK_OUT_ABOVE_16 v3)) s;
                   ea = ea + 2;
                   count = count + 1
               in Ret (count, ea) s)
          else Ret (count, ea) s) (count, ea) s) (\<lambda>(count, ea) s.
        Ret () (USE_CYCLES (push_bit (unat (cyc_movem_w s)) count) s)))))"

definition m68k_op_movem_16_er_ai :: "'b op" where
  "m68k_op_movem_16_er_ai s =
    (chain (OPER_I_16 s) (\<lambda>register_list s.
     chain (EA_AY_AI_16 s) (\<lambda>ea s.
     let count = 0
     in chain (for_each indices16 (\<lambda>i (count, ea) s.
          if register_list AND push_bit (unat i) 1 \<noteq> 0
          then chain (m68ki_read_16 ea s) (\<lambda>v3 s.
               let s = set_REG_DA i (MAKE_INT_16 (MASK_OUT_ABOVE_16 v3)) s;
                   ea = ea + 2;
                   count = count + 1
               in Ret (count, ea) s)
          else Ret (count, ea) s) (count, ea) s) (\<lambda>(count, ea) s.
        Ret () (USE_CYCLES (push_bit (unat (cyc_movem_w s)) count) s)))))"

definition m68k_op_movem_16_er_di :: "'b op" where
  "m68k_op_movem_16_er_di s =
    (chain (OPER_I_16 s) (\<lambda>register_list s.
     chain (EA_AY_DI_16 s) (\<lambda>ea s.
     let count = 0
     in chain (for_each indices16 (\<lambda>i (count, ea) s.
          if register_list AND push_bit (unat i) 1 \<noteq> 0
          then chain (m68ki_read_16 ea s) (\<lambda>v3 s.
               let s = set_REG_DA i (MAKE_INT_16 (MASK_OUT_ABOVE_16 v3)) s;
                   ea = ea + 2;
                   count = count + 1
               in Ret (count, ea) s)
          else Ret (count, ea) s) (count, ea) s) (\<lambda>(count, ea) s.
        Ret () (USE_CYCLES (push_bit (unat (cyc_movem_w s)) count) s)))))"

definition m68k_op_movem_16_er_ix :: "'b op" where
  "m68k_op_movem_16_er_ix s =
    (chain (OPER_I_16 s) (\<lambda>register_list s.
     chain (EA_AY_IX_16 s) (\<lambda>ea s.
     let count = 0
     in chain (for_each indices16 (\<lambda>i (count, ea) s.
          if register_list AND push_bit (unat i) 1 \<noteq> 0
          then chain (m68ki_read_16 ea s) (\<lambda>v3 s.
               let s = set_REG_DA i (MAKE_INT_16 (MASK_OUT_ABOVE_16 v3)) s;
                   ea = ea + 2;
                   count = count + 1
               in Ret (count, ea) s)
          else Ret (count, ea) s) (count, ea) s) (\<lambda>(count, ea) s.
        Ret () (USE_CYCLES (push_bit (unat (cyc_movem_w s)) count) s)))))"

definition m68k_op_movem_16_er_aw :: "'b op" where
  "m68k_op_movem_16_er_aw s =
    (chain (OPER_I_16 s) (\<lambda>register_list s.
     chain (EA_AW_16 s) (\<lambda>ea s.
     let count = 0
     in chain (for_each indices16 (\<lambda>i (count, ea) s.
          if register_list AND push_bit (unat i) 1 \<noteq> 0
          then chain (m68ki_read_16 ea s) (\<lambda>v3 s.
               let s = set_REG_DA i (MAKE_INT_16 (MASK_OUT_ABOVE_16 v3)) s;
                   ea = ea + 2;
                   count = count + 1
               in Ret (count, ea) s)
          else Ret (count, ea) s) (count, ea) s) (\<lambda>(count, ea) s.
        Ret () (USE_CYCLES (push_bit (unat (cyc_movem_w s)) count) s)))))"

definition m68k_op_movem_16_er_al :: "'b op" where
  "m68k_op_movem_16_er_al s =
    (chain (OPER_I_16 s) (\<lambda>register_list s.
     chain (EA_AL_16 s) (\<lambda>ea s.
     let count = 0
     in chain (for_each indices16 (\<lambda>i (count, ea) s.
          if register_list AND push_bit (unat i) 1 \<noteq> 0
          then chain (m68ki_read_16 ea s) (\<lambda>v3 s.
               let s = set_REG_DA i (MAKE_INT_16 (MASK_OUT_ABOVE_16 v3)) s;
                   ea = ea + 2;
                   count = count + 1
               in Ret (count, ea) s)
          else Ret (count, ea) s) (count, ea) s) (\<lambda>(count, ea) s.
        Ret () (USE_CYCLES (push_bit (unat (cyc_movem_w s)) count) s)))))"

definition m68k_op_movem_32_er_pi :: "'b op" where
  "m68k_op_movem_32_er_pi s =
    (chain (OPER_I_16 s) (\<lambda>register_list s.
     let ea = AY s;
         count = 0
     in chain (for_each indices16 (\<lambda>i (count, ea) s.
          if register_list AND push_bit (unat i) 1 \<noteq> 0
          then chain (m68ki_read_32 ea s) (\<lambda>v2 s.
               let s = set_REG_DA i v2 s;
                   ea = ea + 4;
                   count = count + 1
               in Ret (count, ea) s)
          else Ret (count, ea) s) (count, ea) s) (\<lambda>(count, ea) s.
        let s = set_AY ea s
        in Ret () (USE_CYCLES (push_bit (unat (cyc_movem_l s)) count) s))))"

definition m68k_op_movem_32_er_pcdi :: "'b op" where
  "m68k_op_movem_32_er_pcdi s =
    (chain (OPER_I_16 s) (\<lambda>register_list s.
     chain (EA_PCDI_32 s) (\<lambda>ea s.
     let count = 0
     in chain (for_each indices16 (\<lambda>i (count, ea) s.
          if register_list AND push_bit (unat i) 1 \<noteq> 0
          then chain (m68ki_read_pcrel_32 ea s) (\<lambda>v3 s.
               let s = set_REG_DA i v3 s;
                   ea = ea + 4;
                   count = count + 1
               in Ret (count, ea) s)
          else Ret (count, ea) s) (count, ea) s) (\<lambda>(count, ea) s.
        Ret () (USE_CYCLES (push_bit (unat (cyc_movem_l s)) count) s)))))"

definition m68k_op_movem_32_er_pcix :: "'b op" where
  "m68k_op_movem_32_er_pcix s =
    (chain (OPER_I_16 s) (\<lambda>register_list s.
     chain (EA_PCIX_32 s) (\<lambda>ea s.
     let count = 0
     in chain (for_each indices16 (\<lambda>i (count, ea) s.
          if register_list AND push_bit (unat i) 1 \<noteq> 0
          then chain (m68ki_read_pcrel_32 ea s) (\<lambda>v3 s.
               let s = set_REG_DA i v3 s;
                   ea = ea + 4;
                   count = count + 1
               in Ret (count, ea) s)
          else Ret (count, ea) s) (count, ea) s) (\<lambda>(count, ea) s.
        Ret () (USE_CYCLES (push_bit (unat (cyc_movem_l s)) count) s)))))"

definition m68k_op_movem_32_er_ai :: "'b op" where
  "m68k_op_movem_32_er_ai s =
    (chain (OPER_I_16 s) (\<lambda>register_list s.
     chain (EA_AY_AI_32 s) (\<lambda>ea s.
     let count = 0
     in chain (for_each indices16 (\<lambda>i (count, ea) s.
          if register_list AND push_bit (unat i) 1 \<noteq> 0
          then chain (m68ki_read_32 ea s) (\<lambda>v3 s.
               let s = set_REG_DA i v3 s;
                   ea = ea + 4;
                   count = count + 1
               in Ret (count, ea) s)
          else Ret (count, ea) s) (count, ea) s) (\<lambda>(count, ea) s.
        Ret () (USE_CYCLES (push_bit (unat (cyc_movem_l s)) count) s)))))"

definition m68k_op_movem_32_er_di :: "'b op" where
  "m68k_op_movem_32_er_di s =
    (chain (OPER_I_16 s) (\<lambda>register_list s.
     chain (EA_AY_DI_32 s) (\<lambda>ea s.
     let count = 0
     in chain (for_each indices16 (\<lambda>i (count, ea) s.
          if register_list AND push_bit (unat i) 1 \<noteq> 0
          then chain (m68ki_read_32 ea s) (\<lambda>v3 s.
               let s = set_REG_DA i v3 s;
                   ea = ea + 4;
                   count = count + 1
               in Ret (count, ea) s)
          else Ret (count, ea) s) (count, ea) s) (\<lambda>(count, ea) s.
        Ret () (USE_CYCLES (push_bit (unat (cyc_movem_l s)) count) s)))))"

definition m68k_op_movem_32_er_ix :: "'b op" where
  "m68k_op_movem_32_er_ix s =
    (chain (OPER_I_16 s) (\<lambda>register_list s.
     chain (EA_AY_IX_32 s) (\<lambda>ea s.
     let count = 0
     in chain (for_each indices16 (\<lambda>i (count, ea) s.
          if register_list AND push_bit (unat i) 1 \<noteq> 0
          then chain (m68ki_read_32 ea s) (\<lambda>v3 s.
               let s = set_REG_DA i v3 s;
                   ea = ea + 4;
                   count = count + 1
               in Ret (count, ea) s)
          else Ret (count, ea) s) (count, ea) s) (\<lambda>(count, ea) s.
        Ret () (USE_CYCLES (push_bit (unat (cyc_movem_l s)) count) s)))))"

definition m68k_op_movem_32_er_aw :: "'b op" where
  "m68k_op_movem_32_er_aw s =
    (chain (OPER_I_16 s) (\<lambda>register_list s.
     chain (EA_AW_32 s) (\<lambda>ea s.
     let count = 0
     in chain (for_each indices16 (\<lambda>i (count, ea) s.
          if register_list AND push_bit (unat i) 1 \<noteq> 0
          then chain (m68ki_read_32 ea s) (\<lambda>v3 s.
               let s = set_REG_DA i v3 s;
                   ea = ea + 4;
                   count = count + 1
               in Ret (count, ea) s)
          else Ret (count, ea) s) (count, ea) s) (\<lambda>(count, ea) s.
        Ret () (USE_CYCLES (push_bit (unat (cyc_movem_l s)) count) s)))))"

definition m68k_op_movem_32_er_al :: "'b op" where
  "m68k_op_movem_32_er_al s =
    (chain (OPER_I_16 s) (\<lambda>register_list s.
     chain (EA_AL_32 s) (\<lambda>ea s.
     let count = 0
     in chain (for_each indices16 (\<lambda>i (count, ea) s.
          if register_list AND push_bit (unat i) 1 \<noteq> 0
          then chain (m68ki_read_32 ea s) (\<lambda>v3 s.
               let s = set_REG_DA i v3 s;
                   ea = ea + 4;
                   count = count + 1
               in Ret (count, ea) s)
          else Ret (count, ea) s) (count, ea) s) (\<lambda>(count, ea) s.
        Ret () (USE_CYCLES (push_bit (unat (cyc_movem_l s)) count) s)))))"

definition m68k_op_movep_16_re :: "'b op" where
  "m68k_op_movep_16_re s =
    (chain (EA_AY_DI_16 s) (\<lambda>ea s.
     let src = DX s
     in chain (m68ki_write_8 ea (MASK_OUT_ABOVE_8 (drop_bit 8 src)) s) (\<lambda>_ s.
        let ea = ea + 2
        in m68ki_write_8 ea (MASK_OUT_ABOVE_8 src) s)))"

definition m68k_op_movep_32_re :: "'b op" where
  "m68k_op_movep_32_re s =
    (chain (EA_AY_DI_32 s) (\<lambda>ea s.
     let src = DX s
     in chain (m68ki_write_8 ea (MASK_OUT_ABOVE_8 (drop_bit 24 src)) s) (\<lambda>_ s.
        let ea = ea + 2
        in chain (m68ki_write_8 ea (MASK_OUT_ABOVE_8 (drop_bit 16 src)) s) (\<lambda>_ s.
           let ea = ea + 2
           in chain (m68ki_write_8 ea (MASK_OUT_ABOVE_8 (drop_bit 8 src)) s) (\<lambda>_ s.
              let ea = ea + 2
              in m68ki_write_8 ea (MASK_OUT_ABOVE_8 src) s)))))"

definition m68k_op_movep_16_er :: "'b op" where
  "m68k_op_movep_16_er s =
    (chain (EA_AY_DI_16 s) (\<lambda>ea s.
     chain (m68ki_read_8 ea s) (\<lambda>v2 s.
     chain (m68ki_read_8 (ea + 2) s) (\<lambda>v3 s.
     Ret () (set_DX (MASK_OUT_BELOW_16 (DX s) OR (push_bit 8 v2 + v3)) s)))))"

definition m68k_op_movep_32_er :: "'b op" where
  "m68k_op_movep_32_er s =
    (chain (EA_AY_DI_32 s) (\<lambda>ea s.
     chain (m68ki_read_8 ea s) (\<lambda>v2 s.
     chain (m68ki_read_8 (ea + 2) s) (\<lambda>v3 s.
     chain (m68ki_read_8 (ea + 4) s) (\<lambda>v4 s.
     chain (m68ki_read_8 (ea + 6) s) (\<lambda>v5 s.
     Ret () (set_DX (push_bit 24 v2 + push_bit 16 v3 + push_bit 8 v4 + v5) s)))))))"

definition m68k_op_moves_8_ai :: "'b op" where
  "m68k_op_moves_8_ai s =
    (if CPU_TYPE_IS_010_PLUS (cpu_type s)
     then if s_flag s \<noteq> 0
          then chain (OPER_I_16 s) (\<lambda>word2 s.
               chain (EA_AY_AI_8 s) (\<lambda>ea s.
               if BIT 11 word2 \<noteq> 0
               then m68ki_write_8_fc ea (dfc s) (MASK_OUT_ABOVE_8 (REG_DA s (drop_bit 12 word2 AND 15))) s
               else if BIT 15 word2 \<noteq> 0
               then chain (m68ki_read_8_fc ea (sfc s) s) (\<lambda>v3 s.
                    let s = set_REG_A (drop_bit 12 word2 AND 7) (MAKE_INT_8 v3) s;
                        s = (if CPU_TYPE_IS_020_VARIANT (cpu_type s)
                             then USE_CYCLES 2 s
                             else s)
                    in Ret () s)
               else chain (m68ki_read_8_fc ea (sfc s) s) (\<lambda>v4 s.
                    let s = set_REG_D (drop_bit 12 word2 AND 7) (MASK_OUT_BELOW_8 (REG_D s
                          (drop_bit 12 word2 AND 7)) OR v4) s;
                        s = (if CPU_TYPE_IS_020_VARIANT (cpu_type s)
                             then USE_CYCLES 2 s
                             else s)
                    in Ret () s)))
          else m68ki_exception_privilege_violation s
     else m68ki_exception_illegal s)"

definition m68k_op_moves_8_pi :: "'b op" where
  "m68k_op_moves_8_pi s =
    (if CPU_TYPE_IS_010_PLUS (cpu_type s)
     then if s_flag s \<noteq> 0
          then chain (OPER_I_16 s) (\<lambda>word2 s.
               chain (EA_AY_PI_8 s) (\<lambda>ea s.
               if BIT 11 word2 \<noteq> 0
               then m68ki_write_8_fc ea (dfc s) (MASK_OUT_ABOVE_8 (REG_DA s (drop_bit 12 word2 AND 15))) s
               else if BIT 15 word2 \<noteq> 0
               then chain (m68ki_read_8_fc ea (sfc s) s) (\<lambda>v3 s.
                    let s = set_REG_A (drop_bit 12 word2 AND 7) (MAKE_INT_8 v3) s;
                        s = (if CPU_TYPE_IS_020_VARIANT (cpu_type s)
                             then USE_CYCLES 2 s
                             else s)
                    in Ret () s)
               else chain (m68ki_read_8_fc ea (sfc s) s) (\<lambda>v4 s.
                    let s = set_REG_D (drop_bit 12 word2 AND 7) (MASK_OUT_BELOW_8 (REG_D s
                          (drop_bit 12 word2 AND 7)) OR v4) s;
                        s = (if CPU_TYPE_IS_020_VARIANT (cpu_type s)
                             then USE_CYCLES 2 s
                             else s)
                    in Ret () s)))
          else m68ki_exception_privilege_violation s
     else m68ki_exception_illegal s)"

definition m68k_op_moves_8_pi7 :: "'b op" where
  "m68k_op_moves_8_pi7 s =
    (if CPU_TYPE_IS_010_PLUS (cpu_type s)
     then if s_flag s \<noteq> 0
          then chain (OPER_I_16 s) (\<lambda>word2 s.
               chain (EA_A7_PI_8 s) (\<lambda>ea s.
               if BIT 11 word2 \<noteq> 0
               then m68ki_write_8_fc ea (dfc s) (MASK_OUT_ABOVE_8 (REG_DA s (drop_bit 12 word2 AND 15))) s
               else if BIT 15 word2 \<noteq> 0
               then chain (m68ki_read_8_fc ea (sfc s) s) (\<lambda>v3 s.
                    let s = set_REG_A (drop_bit 12 word2 AND 7) (MAKE_INT_8 v3) s;
                        s = (if CPU_TYPE_IS_020_VARIANT (cpu_type s)
                             then USE_CYCLES 2 s
                             else s)
                    in Ret () s)
               else chain (m68ki_read_8_fc ea (sfc s) s) (\<lambda>v4 s.
                    let s = set_REG_D (drop_bit 12 word2 AND 7) (MASK_OUT_BELOW_8 (REG_D s
                          (drop_bit 12 word2 AND 7)) OR v4) s;
                        s = (if CPU_TYPE_IS_020_VARIANT (cpu_type s)
                             then USE_CYCLES 2 s
                             else s)
                    in Ret () s)))
          else m68ki_exception_privilege_violation s
     else m68ki_exception_illegal s)"

definition m68k_op_moves_8_pd :: "'b op" where
  "m68k_op_moves_8_pd s =
    (if CPU_TYPE_IS_010_PLUS (cpu_type s)
     then if s_flag s \<noteq> 0
          then chain (OPER_I_16 s) (\<lambda>word2 s.
               chain (EA_AY_PD_8 s) (\<lambda>ea s.
               if BIT 11 word2 \<noteq> 0
               then m68ki_write_8_fc ea (dfc s) (MASK_OUT_ABOVE_8 (REG_DA s (drop_bit 12 word2 AND 15))) s
               else if BIT 15 word2 \<noteq> 0
               then chain (m68ki_read_8_fc ea (sfc s) s) (\<lambda>v3 s.
                    let s = set_REG_A (drop_bit 12 word2 AND 7) (MAKE_INT_8 v3) s;
                        s = (if CPU_TYPE_IS_020_VARIANT (cpu_type s)
                             then USE_CYCLES 2 s
                             else s)
                    in Ret () s)
               else chain (m68ki_read_8_fc ea (sfc s) s) (\<lambda>v4 s.
                    let s = set_REG_D (drop_bit 12 word2 AND 7) (MASK_OUT_BELOW_8 (REG_D s
                          (drop_bit 12 word2 AND 7)) OR v4) s;
                        s = (if CPU_TYPE_IS_020_VARIANT (cpu_type s)
                             then USE_CYCLES 2 s
                             else s)
                    in Ret () s)))
          else m68ki_exception_privilege_violation s
     else m68ki_exception_illegal s)"

definition m68k_op_moves_8_pd7 :: "'b op" where
  "m68k_op_moves_8_pd7 s =
    (if CPU_TYPE_IS_010_PLUS (cpu_type s)
     then if s_flag s \<noteq> 0
          then chain (OPER_I_16 s) (\<lambda>word2 s.
               chain (EA_A7_PD_8 s) (\<lambda>ea s.
               if BIT 11 word2 \<noteq> 0
               then m68ki_write_8_fc ea (dfc s) (MASK_OUT_ABOVE_8 (REG_DA s (drop_bit 12 word2 AND 15))) s
               else if BIT 15 word2 \<noteq> 0
               then chain (m68ki_read_8_fc ea (sfc s) s) (\<lambda>v3 s.
                    let s = set_REG_A (drop_bit 12 word2 AND 7) (MAKE_INT_8 v3) s;
                        s = (if CPU_TYPE_IS_020_VARIANT (cpu_type s)
                             then USE_CYCLES 2 s
                             else s)
                    in Ret () s)
               else chain (m68ki_read_8_fc ea (sfc s) s) (\<lambda>v4 s.
                    let s = set_REG_D (drop_bit 12 word2 AND 7) (MASK_OUT_BELOW_8 (REG_D s
                          (drop_bit 12 word2 AND 7)) OR v4) s;
                        s = (if CPU_TYPE_IS_020_VARIANT (cpu_type s)
                             then USE_CYCLES 2 s
                             else s)
                    in Ret () s)))
          else m68ki_exception_privilege_violation s
     else m68ki_exception_illegal s)"

definition m68k_op_moves_8_di :: "'b op" where
  "m68k_op_moves_8_di s =
    (if CPU_TYPE_IS_010_PLUS (cpu_type s)
     then if s_flag s \<noteq> 0
          then chain (OPER_I_16 s) (\<lambda>word2 s.
               chain (EA_AY_DI_8 s) (\<lambda>ea s.
               if BIT 11 word2 \<noteq> 0
               then m68ki_write_8_fc ea (dfc s) (MASK_OUT_ABOVE_8 (REG_DA s (drop_bit 12 word2 AND 15))) s
               else if BIT 15 word2 \<noteq> 0
               then chain (m68ki_read_8_fc ea (sfc s) s) (\<lambda>v3 s.
                    let s = set_REG_A (drop_bit 12 word2 AND 7) (MAKE_INT_8 v3) s;
                        s = (if CPU_TYPE_IS_020_VARIANT (cpu_type s)
                             then USE_CYCLES 2 s
                             else s)
                    in Ret () s)
               else chain (m68ki_read_8_fc ea (sfc s) s) (\<lambda>v4 s.
                    let s = set_REG_D (drop_bit 12 word2 AND 7) (MASK_OUT_BELOW_8 (REG_D s
                          (drop_bit 12 word2 AND 7)) OR v4) s;
                        s = (if CPU_TYPE_IS_020_VARIANT (cpu_type s)
                             then USE_CYCLES 2 s
                             else s)
                    in Ret () s)))
          else m68ki_exception_privilege_violation s
     else m68ki_exception_illegal s)"

definition m68k_op_moves_8_ix :: "'b op" where
  "m68k_op_moves_8_ix s =
    (if CPU_TYPE_IS_010_PLUS (cpu_type s)
     then if s_flag s \<noteq> 0
          then chain (OPER_I_16 s) (\<lambda>word2 s.
               chain (EA_AY_IX_8 s) (\<lambda>ea s.
               if BIT 11 word2 \<noteq> 0
               then m68ki_write_8_fc ea (dfc s) (MASK_OUT_ABOVE_8 (REG_DA s (drop_bit 12 word2 AND 15))) s
               else if BIT 15 word2 \<noteq> 0
               then chain (m68ki_read_8_fc ea (sfc s) s) (\<lambda>v3 s.
                    let s = set_REG_A (drop_bit 12 word2 AND 7) (MAKE_INT_8 v3) s;
                        s = (if CPU_TYPE_IS_020_VARIANT (cpu_type s)
                             then USE_CYCLES 2 s
                             else s)
                    in Ret () s)
               else chain (m68ki_read_8_fc ea (sfc s) s) (\<lambda>v4 s.
                    let s = set_REG_D (drop_bit 12 word2 AND 7) (MASK_OUT_BELOW_8 (REG_D s
                          (drop_bit 12 word2 AND 7)) OR v4) s;
                        s = (if CPU_TYPE_IS_020_VARIANT (cpu_type s)
                             then USE_CYCLES 2 s
                             else s)
                    in Ret () s)))
          else m68ki_exception_privilege_violation s
     else m68ki_exception_illegal s)"

definition m68k_op_moves_8_aw :: "'b op" where
  "m68k_op_moves_8_aw s =
    (if CPU_TYPE_IS_010_PLUS (cpu_type s)
     then if s_flag s \<noteq> 0
          then chain (OPER_I_16 s) (\<lambda>word2 s.
               chain (EA_AW_8 s) (\<lambda>ea s.
               if BIT 11 word2 \<noteq> 0
               then m68ki_write_8_fc ea (dfc s) (MASK_OUT_ABOVE_8 (REG_DA s (drop_bit 12 word2 AND 15))) s
               else if BIT 15 word2 \<noteq> 0
               then chain (m68ki_read_8_fc ea (sfc s) s) (\<lambda>v3 s.
                    let s = set_REG_A (drop_bit 12 word2 AND 7) (MAKE_INT_8 v3) s;
                        s = (if CPU_TYPE_IS_020_VARIANT (cpu_type s)
                             then USE_CYCLES 2 s
                             else s)
                    in Ret () s)
               else chain (m68ki_read_8_fc ea (sfc s) s) (\<lambda>v4 s.
                    let s = set_REG_D (drop_bit 12 word2 AND 7) (MASK_OUT_BELOW_8 (REG_D s
                          (drop_bit 12 word2 AND 7)) OR v4) s;
                        s = (if CPU_TYPE_IS_020_VARIANT (cpu_type s)
                             then USE_CYCLES 2 s
                             else s)
                    in Ret () s)))
          else m68ki_exception_privilege_violation s
     else m68ki_exception_illegal s)"

definition m68k_op_moves_8_al :: "'b op" where
  "m68k_op_moves_8_al s =
    (if CPU_TYPE_IS_010_PLUS (cpu_type s)
     then if s_flag s \<noteq> 0
          then chain (OPER_I_16 s) (\<lambda>word2 s.
               chain (EA_AL_8 s) (\<lambda>ea s.
               if BIT 11 word2 \<noteq> 0
               then m68ki_write_8_fc ea (dfc s) (MASK_OUT_ABOVE_8 (REG_DA s (drop_bit 12 word2 AND 15))) s
               else if BIT 15 word2 \<noteq> 0
               then chain (m68ki_read_8_fc ea (sfc s) s) (\<lambda>v3 s.
                    let s = set_REG_A (drop_bit 12 word2 AND 7) (MAKE_INT_8 v3) s;
                        s = (if CPU_TYPE_IS_020_VARIANT (cpu_type s)
                             then USE_CYCLES 2 s
                             else s)
                    in Ret () s)
               else chain (m68ki_read_8_fc ea (sfc s) s) (\<lambda>v4 s.
                    let s = set_REG_D (drop_bit 12 word2 AND 7) (MASK_OUT_BELOW_8 (REG_D s
                          (drop_bit 12 word2 AND 7)) OR v4) s;
                        s = (if CPU_TYPE_IS_020_VARIANT (cpu_type s)
                             then USE_CYCLES 2 s
                             else s)
                    in Ret () s)))
          else m68ki_exception_privilege_violation s
     else m68ki_exception_illegal s)"

definition m68k_op_moves_16_ai :: "'b op" where
  "m68k_op_moves_16_ai s =
    (if CPU_TYPE_IS_010_PLUS (cpu_type s)
     then if s_flag s \<noteq> 0
          then chain (OPER_I_16 s) (\<lambda>word2 s.
               chain (EA_AY_AI_16 s) (\<lambda>ea s.
               if BIT 11 word2 \<noteq> 0
               then m68ki_write_16_fc ea (dfc s) (MASK_OUT_ABOVE_16 (REG_DA s (drop_bit 12 word2 AND 15))) s
               else if BIT 15 word2 \<noteq> 0
               then chain (m68ki_read_16_fc ea (sfc s) s) (\<lambda>v3 s.
                    let s = set_REG_A (drop_bit 12 word2 AND 7) (MAKE_INT_16 v3) s;
                        s = (if CPU_TYPE_IS_020_VARIANT (cpu_type s)
                             then USE_CYCLES 2 s
                             else s)
                    in Ret () s)
               else chain (m68ki_read_16_fc ea (sfc s) s) (\<lambda>v4 s.
                    let s = set_REG_D (drop_bit 12 word2 AND 7) (MASK_OUT_BELOW_16 (REG_D s
                          (drop_bit 12 word2 AND 7)) OR v4) s;
                        s = (if CPU_TYPE_IS_020_VARIANT (cpu_type s)
                             then USE_CYCLES 2 s
                             else s)
                    in Ret () s)))
          else m68ki_exception_privilege_violation s
     else m68ki_exception_illegal s)"

definition m68k_op_moves_16_pi :: "'b op" where
  "m68k_op_moves_16_pi s =
    (if CPU_TYPE_IS_010_PLUS (cpu_type s)
     then if s_flag s \<noteq> 0
          then chain (OPER_I_16 s) (\<lambda>word2 s.
               chain (EA_AY_PI_16 s) (\<lambda>ea s.
               if BIT 11 word2 \<noteq> 0
               then m68ki_write_16_fc ea (dfc s) (MASK_OUT_ABOVE_16 (REG_DA s (drop_bit 12 word2 AND 15))) s
               else if BIT 15 word2 \<noteq> 0
               then chain (m68ki_read_16_fc ea (sfc s) s) (\<lambda>v3 s.
                    let s = set_REG_A (drop_bit 12 word2 AND 7) (MAKE_INT_16 v3) s;
                        s = (if CPU_TYPE_IS_020_VARIANT (cpu_type s)
                             then USE_CYCLES 2 s
                             else s)
                    in Ret () s)
               else chain (m68ki_read_16_fc ea (sfc s) s) (\<lambda>v4 s.
                    let s = set_REG_D (drop_bit 12 word2 AND 7) (MASK_OUT_BELOW_16 (REG_D s
                          (drop_bit 12 word2 AND 7)) OR v4) s;
                        s = (if CPU_TYPE_IS_020_VARIANT (cpu_type s)
                             then USE_CYCLES 2 s
                             else s)
                    in Ret () s)))
          else m68ki_exception_privilege_violation s
     else m68ki_exception_illegal s)"

definition m68k_op_moves_16_pd :: "'b op" where
  "m68k_op_moves_16_pd s =
    (if CPU_TYPE_IS_010_PLUS (cpu_type s)
     then if s_flag s \<noteq> 0
          then chain (OPER_I_16 s) (\<lambda>word2 s.
               chain (EA_AY_PD_16 s) (\<lambda>ea s.
               if BIT 11 word2 \<noteq> 0
               then m68ki_write_16_fc ea (dfc s) (MASK_OUT_ABOVE_16 (REG_DA s (drop_bit 12 word2 AND 15))) s
               else if BIT 15 word2 \<noteq> 0
               then chain (m68ki_read_16_fc ea (sfc s) s) (\<lambda>v3 s.
                    let s = set_REG_A (drop_bit 12 word2 AND 7) (MAKE_INT_16 v3) s;
                        s = (if CPU_TYPE_IS_020_VARIANT (cpu_type s)
                             then USE_CYCLES 2 s
                             else s)
                    in Ret () s)
               else chain (m68ki_read_16_fc ea (sfc s) s) (\<lambda>v4 s.
                    let s = set_REG_D (drop_bit 12 word2 AND 7) (MASK_OUT_BELOW_16 (REG_D s
                          (drop_bit 12 word2 AND 7)) OR v4) s;
                        s = (if CPU_TYPE_IS_020_VARIANT (cpu_type s)
                             then USE_CYCLES 2 s
                             else s)
                    in Ret () s)))
          else m68ki_exception_privilege_violation s
     else m68ki_exception_illegal s)"

definition m68k_op_moves_16_di :: "'b op" where
  "m68k_op_moves_16_di s =
    (if CPU_TYPE_IS_010_PLUS (cpu_type s)
     then if s_flag s \<noteq> 0
          then chain (OPER_I_16 s) (\<lambda>word2 s.
               chain (EA_AY_DI_16 s) (\<lambda>ea s.
               if BIT 11 word2 \<noteq> 0
               then m68ki_write_16_fc ea (dfc s) (MASK_OUT_ABOVE_16 (REG_DA s (drop_bit 12 word2 AND 15))) s
               else if BIT 15 word2 \<noteq> 0
               then chain (m68ki_read_16_fc ea (sfc s) s) (\<lambda>v3 s.
                    let s = set_REG_A (drop_bit 12 word2 AND 7) (MAKE_INT_16 v3) s;
                        s = (if CPU_TYPE_IS_020_VARIANT (cpu_type s)
                             then USE_CYCLES 2 s
                             else s)
                    in Ret () s)
               else chain (m68ki_read_16_fc ea (sfc s) s) (\<lambda>v4 s.
                    let s = set_REG_D (drop_bit 12 word2 AND 7) (MASK_OUT_BELOW_16 (REG_D s
                          (drop_bit 12 word2 AND 7)) OR v4) s;
                        s = (if CPU_TYPE_IS_020_VARIANT (cpu_type s)
                             then USE_CYCLES 2 s
                             else s)
                    in Ret () s)))
          else m68ki_exception_privilege_violation s
     else m68ki_exception_illegal s)"

definition m68k_op_moves_16_ix :: "'b op" where
  "m68k_op_moves_16_ix s =
    (if CPU_TYPE_IS_010_PLUS (cpu_type s)
     then if s_flag s \<noteq> 0
          then chain (OPER_I_16 s) (\<lambda>word2 s.
               chain (EA_AY_IX_16 s) (\<lambda>ea s.
               if BIT 11 word2 \<noteq> 0
               then m68ki_write_16_fc ea (dfc s) (MASK_OUT_ABOVE_16 (REG_DA s (drop_bit 12 word2 AND 15))) s
               else if BIT 15 word2 \<noteq> 0
               then chain (m68ki_read_16_fc ea (sfc s) s) (\<lambda>v3 s.
                    let s = set_REG_A (drop_bit 12 word2 AND 7) (MAKE_INT_16 v3) s;
                        s = (if CPU_TYPE_IS_020_VARIANT (cpu_type s)
                             then USE_CYCLES 2 s
                             else s)
                    in Ret () s)
               else chain (m68ki_read_16_fc ea (sfc s) s) (\<lambda>v4 s.
                    let s = set_REG_D (drop_bit 12 word2 AND 7) (MASK_OUT_BELOW_16 (REG_D s
                          (drop_bit 12 word2 AND 7)) OR v4) s;
                        s = (if CPU_TYPE_IS_020_VARIANT (cpu_type s)
                             then USE_CYCLES 2 s
                             else s)
                    in Ret () s)))
          else m68ki_exception_privilege_violation s
     else m68ki_exception_illegal s)"

definition m68k_op_moves_16_aw :: "'b op" where
  "m68k_op_moves_16_aw s =
    (if CPU_TYPE_IS_010_PLUS (cpu_type s)
     then if s_flag s \<noteq> 0
          then chain (OPER_I_16 s) (\<lambda>word2 s.
               chain (EA_AW_16 s) (\<lambda>ea s.
               if BIT 11 word2 \<noteq> 0
               then m68ki_write_16_fc ea (dfc s) (MASK_OUT_ABOVE_16 (REG_DA s (drop_bit 12 word2 AND 15))) s
               else if BIT 15 word2 \<noteq> 0
               then chain (m68ki_read_16_fc ea (sfc s) s) (\<lambda>v3 s.
                    let s = set_REG_A (drop_bit 12 word2 AND 7) (MAKE_INT_16 v3) s;
                        s = (if CPU_TYPE_IS_020_VARIANT (cpu_type s)
                             then USE_CYCLES 2 s
                             else s)
                    in Ret () s)
               else chain (m68ki_read_16_fc ea (sfc s) s) (\<lambda>v4 s.
                    let s = set_REG_D (drop_bit 12 word2 AND 7) (MASK_OUT_BELOW_16 (REG_D s
                          (drop_bit 12 word2 AND 7)) OR v4) s;
                        s = (if CPU_TYPE_IS_020_VARIANT (cpu_type s)
                             then USE_CYCLES 2 s
                             else s)
                    in Ret () s)))
          else m68ki_exception_privilege_violation s
     else m68ki_exception_illegal s)"

definition m68k_op_moves_16_al :: "'b op" where
  "m68k_op_moves_16_al s =
    (if CPU_TYPE_IS_010_PLUS (cpu_type s)
     then if s_flag s \<noteq> 0
          then chain (OPER_I_16 s) (\<lambda>word2 s.
               chain (EA_AL_16 s) (\<lambda>ea s.
               if BIT 11 word2 \<noteq> 0
               then m68ki_write_16_fc ea (dfc s) (MASK_OUT_ABOVE_16 (REG_DA s (drop_bit 12 word2 AND 15))) s
               else if BIT 15 word2 \<noteq> 0
               then chain (m68ki_read_16_fc ea (sfc s) s) (\<lambda>v3 s.
                    let s = set_REG_A (drop_bit 12 word2 AND 7) (MAKE_INT_16 v3) s;
                        s = (if CPU_TYPE_IS_020_VARIANT (cpu_type s)
                             then USE_CYCLES 2 s
                             else s)
                    in Ret () s)
               else chain (m68ki_read_16_fc ea (sfc s) s) (\<lambda>v4 s.
                    let s = set_REG_D (drop_bit 12 word2 AND 7) (MASK_OUT_BELOW_16 (REG_D s
                          (drop_bit 12 word2 AND 7)) OR v4) s;
                        s = (if CPU_TYPE_IS_020_VARIANT (cpu_type s)
                             then USE_CYCLES 2 s
                             else s)
                    in Ret () s)))
          else m68ki_exception_privilege_violation s
     else m68ki_exception_illegal s)"

definition m68k_op_moves_32_ai :: "'b op" where
  "m68k_op_moves_32_ai s =
    (if CPU_TYPE_IS_010_PLUS (cpu_type s)
     then if s_flag s \<noteq> 0
          then chain (OPER_I_16 s) (\<lambda>word2 s.
               chain (EA_AY_AI_32 s) (\<lambda>ea s.
               if BIT 11 word2 \<noteq> 0
               then chain (m68ki_write_32_fc ea (dfc s) (REG_DA s (drop_bit 12 word2 AND 15)) s)
                     (\<lambda>_ s.
                    Ret () (if CPU_TYPE_IS_020_VARIANT (cpu_type s)
                     then USE_CYCLES 2 s
                     else s))
               else chain (m68ki_read_32_fc ea (sfc s) s) (\<lambda>v3 s.
                    let s = set_REG_DA (drop_bit 12 word2 AND 15) v3 s;
                        s = (if CPU_TYPE_IS_020_VARIANT (cpu_type s)
                             then USE_CYCLES 2 s
                             else s)
                    in Ret () s)))
          else m68ki_exception_privilege_violation s
     else m68ki_exception_illegal s)"

definition m68k_op_moves_32_pi :: "'b op" where
  "m68k_op_moves_32_pi s =
    (if CPU_TYPE_IS_010_PLUS (cpu_type s)
     then if s_flag s \<noteq> 0
          then chain (OPER_I_16 s) (\<lambda>word2 s.
               chain (EA_AY_PI_32 s) (\<lambda>ea s.
               if BIT 11 word2 \<noteq> 0
               then chain (m68ki_write_32_fc ea (dfc s) (REG_DA s (drop_bit 12 word2 AND 15)) s)
                     (\<lambda>_ s.
                    Ret () (if CPU_TYPE_IS_020_VARIANT (cpu_type s)
                     then USE_CYCLES 2 s
                     else s))
               else chain (m68ki_read_32_fc ea (sfc s) s) (\<lambda>v3 s.
                    let s = set_REG_DA (drop_bit 12 word2 AND 15) v3 s;
                        s = (if CPU_TYPE_IS_020_VARIANT (cpu_type s)
                             then USE_CYCLES 2 s
                             else s)
                    in Ret () s)))
          else m68ki_exception_privilege_violation s
     else m68ki_exception_illegal s)"

definition m68k_op_moves_32_pd :: "'b op" where
  "m68k_op_moves_32_pd s =
    (if CPU_TYPE_IS_010_PLUS (cpu_type s)
     then if s_flag s \<noteq> 0
          then chain (OPER_I_16 s) (\<lambda>word2 s.
               chain (EA_AY_PD_32 s) (\<lambda>ea s.
               if BIT 11 word2 \<noteq> 0
               then chain (m68ki_write_32_fc ea (dfc s) (REG_DA s (drop_bit 12 word2 AND 15)) s)
                     (\<lambda>_ s.
                    Ret () (if CPU_TYPE_IS_020_VARIANT (cpu_type s)
                     then USE_CYCLES 2 s
                     else s))
               else chain (m68ki_read_32_fc ea (sfc s) s) (\<lambda>v3 s.
                    let s = set_REG_DA (drop_bit 12 word2 AND 15) v3 s;
                        s = (if CPU_TYPE_IS_020_VARIANT (cpu_type s)
                             then USE_CYCLES 2 s
                             else s)
                    in Ret () s)))
          else m68ki_exception_privilege_violation s
     else m68ki_exception_illegal s)"

definition m68k_op_moves_32_di :: "'b op" where
  "m68k_op_moves_32_di s =
    (if CPU_TYPE_IS_010_PLUS (cpu_type s)
     then if s_flag s \<noteq> 0
          then chain (OPER_I_16 s) (\<lambda>word2 s.
               chain (EA_AY_DI_32 s) (\<lambda>ea s.
               if BIT 11 word2 \<noteq> 0
               then chain (m68ki_write_32_fc ea (dfc s) (REG_DA s (drop_bit 12 word2 AND 15)) s)
                     (\<lambda>_ s.
                    Ret () (if CPU_TYPE_IS_020_VARIANT (cpu_type s)
                     then USE_CYCLES 2 s
                     else s))
               else chain (m68ki_read_32_fc ea (sfc s) s) (\<lambda>v3 s.
                    let s = set_REG_DA (drop_bit 12 word2 AND 15) v3 s;
                        s = (if CPU_TYPE_IS_020_VARIANT (cpu_type s)
                             then USE_CYCLES 2 s
                             else s)
                    in Ret () s)))
          else m68ki_exception_privilege_violation s
     else m68ki_exception_illegal s)"

definition m68k_op_moves_32_ix :: "'b op" where
  "m68k_op_moves_32_ix s =
    (if CPU_TYPE_IS_010_PLUS (cpu_type s)
     then if s_flag s \<noteq> 0
          then chain (OPER_I_16 s) (\<lambda>word2 s.
               chain (EA_AY_IX_32 s) (\<lambda>ea s.
               if BIT 11 word2 \<noteq> 0
               then chain (m68ki_write_32_fc ea (dfc s) (REG_DA s (drop_bit 12 word2 AND 15)) s)
                     (\<lambda>_ s.
                    Ret () (if CPU_TYPE_IS_020_VARIANT (cpu_type s)
                     then USE_CYCLES 2 s
                     else s))
               else chain (m68ki_read_32_fc ea (sfc s) s) (\<lambda>v3 s.
                    let s = set_REG_DA (drop_bit 12 word2 AND 15) v3 s;
                        s = (if CPU_TYPE_IS_020_VARIANT (cpu_type s)
                             then USE_CYCLES 2 s
                             else s)
                    in Ret () s)))
          else m68ki_exception_privilege_violation s
     else m68ki_exception_illegal s)"

definition m68k_op_moves_32_aw :: "'b op" where
  "m68k_op_moves_32_aw s =
    (if CPU_TYPE_IS_010_PLUS (cpu_type s)
     then if s_flag s \<noteq> 0
          then chain (OPER_I_16 s) (\<lambda>word2 s.
               chain (EA_AW_32 s) (\<lambda>ea s.
               if BIT 11 word2 \<noteq> 0
               then chain (m68ki_write_32_fc ea (dfc s) (REG_DA s (drop_bit 12 word2 AND 15)) s)
                     (\<lambda>_ s.
                    Ret () (if CPU_TYPE_IS_020_VARIANT (cpu_type s)
                     then USE_CYCLES 2 s
                     else s))
               else chain (m68ki_read_32_fc ea (sfc s) s) (\<lambda>v3 s.
                    let s = set_REG_DA (drop_bit 12 word2 AND 15) v3 s;
                        s = (if CPU_TYPE_IS_020_VARIANT (cpu_type s)
                             then USE_CYCLES 2 s
                             else s)
                    in Ret () s)))
          else m68ki_exception_privilege_violation s
     else m68ki_exception_illegal s)"

definition m68k_op_moves_32_al :: "'b op" where
  "m68k_op_moves_32_al s =
    (if CPU_TYPE_IS_010_PLUS (cpu_type s)
     then if s_flag s \<noteq> 0
          then chain (OPER_I_16 s) (\<lambda>word2 s.
               chain (EA_AL_32 s) (\<lambda>ea s.
               if BIT 11 word2 \<noteq> 0
               then chain (m68ki_write_32_fc ea (dfc s) (REG_DA s (drop_bit 12 word2 AND 15)) s)
                     (\<lambda>_ s.
                    Ret () (if CPU_TYPE_IS_020_VARIANT (cpu_type s)
                     then USE_CYCLES 2 s
                     else s))
               else chain (m68ki_read_32_fc ea (sfc s) s) (\<lambda>v3 s.
                    let s = set_REG_DA (drop_bit 12 word2 AND 15) v3 s;
                        s = (if CPU_TYPE_IS_020_VARIANT (cpu_type s)
                             then USE_CYCLES 2 s
                             else s)
                    in Ret () s)))
          else m68ki_exception_privilege_violation s
     else m68ki_exception_illegal s)"

definition m68k_op_moveq_32 :: "'b op" where
  "m68k_op_moveq_32 s =
    (let s = set_DX (MAKE_INT_8 (MASK_OUT_ABOVE_8 (ir s))) s;
         res = DX s
     in Ret () (s\<lparr>n_flag := NFLAG_32 res,
          not_z_flag := res,
          v_flag := VFLAG_CLEAR,
          c_flag := CFLAG_CLEAR\<rparr>))"

definition m68k_op_move16_32 :: "'b op" where
  "m68k_op_move16_32 s =
    (chain (OPER_I_16 s) (\<lambda>v s.
     let w2 = (ucast v :: u16);
         ax = ir s AND 7;
         ay = signed_drop_bit 12 (ucast w2) AND 7
     in chain (m68ki_read_32 (REG_A s ax) s) (\<lambda>v2 s.
        chain (m68ki_write_32 (REG_A s ay) v2 s) (\<lambda>_ s.
        chain (m68ki_read_32 (REG_A s ax + 4) s) (\<lambda>v3 s.
        chain (m68ki_write_32 (REG_A s ay + 4) v3 s) (\<lambda>_ s.
        chain (m68ki_read_32 (REG_A s ax + 8) s) (\<lambda>v4 s.
        chain (m68ki_write_32 (REG_A s ay + 8) v4 s) (\<lambda>_ s.
        chain (m68ki_read_32 (REG_A s ax + 12) s) (\<lambda>v5 s.
        chain (m68ki_write_32 (REG_A s ay + 12) v5 s) (\<lambda>_ s.
        let s = set_REG_A ax ((REG_A s ax) + 16) s
        in Ret () (set_REG_A ay ((REG_A s ay) + 16) s)))))))))))"

end
