(* ===== verification/OpsMulDiv.thy ===== *)
theory OpsMulDiv
  imports OpsBase
begin

section \<open>Instruction handlers: MULS, MULU, MULL, DIVS, DIVU and DIVL\<close>

text \<open>
  The handlers of m68kops.c for MULS, MULU, MULL, DIVS, DIVU and DIVL.
  One definition per handler, under the name of its C function; the effective address is part of
  the name.
\<close>

unbundle bit_operations_syntax

definition m68k_op_divs_16_d :: "'b op" where
  "m68k_op_divs_16_d s =
    (let src = MAKE_INT_16 (DY s)
     in if src \<noteq> 0
        then if DX s = 0x80000000 \<and> src = - 1
             then let s = s\<lparr>not_z_flag := 0,
                            n_flag := NFLAG_CLEAR,
                            v_flag := VFLAG_CLEAR,
                            c_flag := CFLAG_CLEAR\<rparr>
                  in Ret () (set_DX 0 s)
             else let quot = sdiv32 (DX s) src;
                      remainder = smod32 (DX s) src
                  in if quot = MAKE_INT_16 quot
                     then let s = s\<lparr>not_z_flag := quot,
                                    n_flag := NFLAG_16 quot,
                                    v_flag := VFLAG_CLEAR,
                                    c_flag := CFLAG_CLEAR\<rparr>
                          in Ret () (set_DX (MASK_OUT_ABOVE_32 (MASK_OUT_ABOVE_16 quot OR push_bit
                                16 remainder)) s)
                     else Ret () (s\<lparr>v_flag := VFLAG_SET\<rparr>)
        else m68ki_exception_trap EXCEPTION_ZERO_DIVIDE s)"

definition m68k_op_divs_16_ai :: "'b op" where
  "m68k_op_divs_16_ai s =
    (chain (OPER_AY_AI_16 s) (\<lambda>v s.
     let src = MAKE_INT_16 v
     in if src \<noteq> 0
        then if DX s = 0x80000000 \<and> src = - 1
             then let s = s\<lparr>not_z_flag := 0,
                            n_flag := NFLAG_CLEAR,
                            v_flag := VFLAG_CLEAR,
                            c_flag := CFLAG_CLEAR\<rparr>
                  in Ret () (set_DX 0 s)
             else let quot = sdiv32 (DX s) src;
                      remainder = smod32 (DX s) src
                  in if quot = MAKE_INT_16 quot
                     then let s = s\<lparr>not_z_flag := quot,
                                    n_flag := NFLAG_16 quot,
                                    v_flag := VFLAG_CLEAR,
                                    c_flag := CFLAG_CLEAR\<rparr>
                          in Ret () (set_DX (MASK_OUT_ABOVE_32 (MASK_OUT_ABOVE_16 quot OR push_bit
                                16 remainder)) s)
                     else Ret () (s\<lparr>v_flag := VFLAG_SET\<rparr>)
        else m68ki_exception_trap EXCEPTION_ZERO_DIVIDE s))"

definition m68k_op_divs_16_pi :: "'b op" where
  "m68k_op_divs_16_pi s =
    (chain (OPER_AY_PI_16 s) (\<lambda>v s.
     let src = MAKE_INT_16 v
     in if src \<noteq> 0
        then if DX s = 0x80000000 \<and> src = - 1
             then let s = s\<lparr>not_z_flag := 0,
                            n_flag := NFLAG_CLEAR,
                            v_flag := VFLAG_CLEAR,
                            c_flag := CFLAG_CLEAR\<rparr>
                  in Ret () (set_DX 0 s)
             else let quot = sdiv32 (DX s) src;
                      remainder = smod32 (DX s) src
                  in if quot = MAKE_INT_16 quot
                     then let s = s\<lparr>not_z_flag := quot,
                                    n_flag := NFLAG_16 quot,
                                    v_flag := VFLAG_CLEAR,
                                    c_flag := CFLAG_CLEAR\<rparr>
                          in Ret () (set_DX (MASK_OUT_ABOVE_32 (MASK_OUT_ABOVE_16 quot OR push_bit
                                16 remainder)) s)
                     else Ret () (s\<lparr>v_flag := VFLAG_SET\<rparr>)
        else m68ki_exception_trap EXCEPTION_ZERO_DIVIDE s))"

definition m68k_op_divs_16_pd :: "'b op" where
  "m68k_op_divs_16_pd s =
    (chain (OPER_AY_PD_16 s) (\<lambda>v s.
     let src = MAKE_INT_16 v
     in if src \<noteq> 0
        then if DX s = 0x80000000 \<and> src = - 1
             then let s = s\<lparr>not_z_flag := 0,
                            n_flag := NFLAG_CLEAR,
                            v_flag := VFLAG_CLEAR,
                            c_flag := CFLAG_CLEAR\<rparr>
                  in Ret () (set_DX 0 s)
             else let quot = sdiv32 (DX s) src;
                      remainder = smod32 (DX s) src
                  in if quot = MAKE_INT_16 quot
                     then let s = s\<lparr>not_z_flag := quot,
                                    n_flag := NFLAG_16 quot,
                                    v_flag := VFLAG_CLEAR,
                                    c_flag := CFLAG_CLEAR\<rparr>
                          in Ret () (set_DX (MASK_OUT_ABOVE_32 (MASK_OUT_ABOVE_16 quot OR push_bit
                                16 remainder)) s)
                     else Ret () (s\<lparr>v_flag := VFLAG_SET\<rparr>)
        else m68ki_exception_trap EXCEPTION_ZERO_DIVIDE s))"

definition m68k_op_divs_16_di :: "'b op" where
  "m68k_op_divs_16_di s =
    (chain (OPER_AY_DI_16 s) (\<lambda>v s.
     let src = MAKE_INT_16 v
     in if src \<noteq> 0
        then if DX s = 0x80000000 \<and> src = - 1
             then let s = s\<lparr>not_z_flag := 0,
                            n_flag := NFLAG_CLEAR,
                            v_flag := VFLAG_CLEAR,
                            c_flag := CFLAG_CLEAR\<rparr>
                  in Ret () (set_DX 0 s)
             else let quot = sdiv32 (DX s) src;
                      remainder = smod32 (DX s) src
                  in if quot = MAKE_INT_16 quot
                     then let s = s\<lparr>not_z_flag := quot,
                                    n_flag := NFLAG_16 quot,
                                    v_flag := VFLAG_CLEAR,
                                    c_flag := CFLAG_CLEAR\<rparr>
                          in Ret () (set_DX (MASK_OUT_ABOVE_32 (MASK_OUT_ABOVE_16 quot OR push_bit
                                16 remainder)) s)
                     else Ret () (s\<lparr>v_flag := VFLAG_SET\<rparr>)
        else m68ki_exception_trap EXCEPTION_ZERO_DIVIDE s))"

definition m68k_op_divs_16_ix :: "'b op" where
  "m68k_op_divs_16_ix s =
    (chain (OPER_AY_IX_16 s) (\<lambda>v s.
     let src = MAKE_INT_16 v
     in if src \<noteq> 0
        then if DX s = 0x80000000 \<and> src = - 1
             then let s = s\<lparr>not_z_flag := 0,
                            n_flag := NFLAG_CLEAR,
                            v_flag := VFLAG_CLEAR,
                            c_flag := CFLAG_CLEAR\<rparr>
                  in Ret () (set_DX 0 s)
             else let quot = sdiv32 (DX s) src;
                      remainder = smod32 (DX s) src
                  in if quot = MAKE_INT_16 quot
                     then let s = s\<lparr>not_z_flag := quot,
                                    n_flag := NFLAG_16 quot,
                                    v_flag := VFLAG_CLEAR,
                                    c_flag := CFLAG_CLEAR\<rparr>
                          in Ret () (set_DX (MASK_OUT_ABOVE_32 (MASK_OUT_ABOVE_16 quot OR push_bit
                                16 remainder)) s)
                     else Ret () (s\<lparr>v_flag := VFLAG_SET\<rparr>)
        else m68ki_exception_trap EXCEPTION_ZERO_DIVIDE s))"

definition m68k_op_divs_16_aw :: "'b op" where
  "m68k_op_divs_16_aw s =
    (chain (OPER_AW_16 s) (\<lambda>v s.
     let src = MAKE_INT_16 v
     in if src \<noteq> 0
        then if DX s = 0x80000000 \<and> src = - 1
             then let s = s\<lparr>not_z_flag := 0,
                            n_flag := NFLAG_CLEAR,
                            v_flag := VFLAG_CLEAR,
                            c_flag := CFLAG_CLEAR\<rparr>
                  in Ret () (set_DX 0 s)
             else let quot = sdiv32 (DX s) src;
                      remainder = smod32 (DX s) src
                  in if quot = MAKE_INT_16 quot
                     then let s = s\<lparr>not_z_flag := quot,
                                    n_flag := NFLAG_16 quot,
                                    v_flag := VFLAG_CLEAR,
                                    c_flag := CFLAG_CLEAR\<rparr>
                          in Ret () (set_DX (MASK_OUT_ABOVE_32 (MASK_OUT_ABOVE_16 quot OR push_bit
                                16 remainder)) s)
                     else Ret () (s\<lparr>v_flag := VFLAG_SET\<rparr>)
        else m68ki_exception_trap EXCEPTION_ZERO_DIVIDE s))"

definition m68k_op_divs_16_al :: "'b op" where
  "m68k_op_divs_16_al s =
    (chain (OPER_AL_16 s) (\<lambda>v s.
     let src = MAKE_INT_16 v
     in if src \<noteq> 0
        then if DX s = 0x80000000 \<and> src = - 1
             then let s = s\<lparr>not_z_flag := 0,
                            n_flag := NFLAG_CLEAR,
                            v_flag := VFLAG_CLEAR,
                            c_flag := CFLAG_CLEAR\<rparr>
                  in Ret () (set_DX 0 s)
             else let quot = sdiv32 (DX s) src;
                      remainder = smod32 (DX s) src
                  in if quot = MAKE_INT_16 quot
                     then let s = s\<lparr>not_z_flag := quot,
                                    n_flag := NFLAG_16 quot,
                                    v_flag := VFLAG_CLEAR,
                                    c_flag := CFLAG_CLEAR\<rparr>
                          in Ret () (set_DX (MASK_OUT_ABOVE_32 (MASK_OUT_ABOVE_16 quot OR push_bit
                                16 remainder)) s)
                     else Ret () (s\<lparr>v_flag := VFLAG_SET\<rparr>)
        else m68ki_exception_trap EXCEPTION_ZERO_DIVIDE s))"

definition m68k_op_divs_16_pcdi :: "'b op" where
  "m68k_op_divs_16_pcdi s =
    (chain (OPER_PCDI_16 s) (\<lambda>v s.
     let src = MAKE_INT_16 v
     in if src \<noteq> 0
        then if DX s = 0x80000000 \<and> src = - 1
             then let s = s\<lparr>not_z_flag := 0,
                            n_flag := NFLAG_CLEAR,
                            v_flag := VFLAG_CLEAR,
                            c_flag := CFLAG_CLEAR\<rparr>
                  in Ret () (set_DX 0 s)
             else let quot = sdiv32 (DX s) src;
                      remainder = smod32 (DX s) src
                  in if quot = MAKE_INT_16 quot
                     then let s = s\<lparr>not_z_flag := quot,
                                    n_flag := NFLAG_16 quot,
                                    v_flag := VFLAG_CLEAR,
                                    c_flag := CFLAG_CLEAR\<rparr>
                          in Ret () (set_DX (MASK_OUT_ABOVE_32 (MASK_OUT_ABOVE_16 quot OR push_bit
                                16 remainder)) s)
                     else Ret () (s\<lparr>v_flag := VFLAG_SET\<rparr>)
        else m68ki_exception_trap EXCEPTION_ZERO_DIVIDE s))"

definition m68k_op_divs_16_pcix :: "'b op" where
  "m68k_op_divs_16_pcix s =
    (chain (OPER_PCIX_16 s) (\<lambda>v s.
     let src = MAKE_INT_16 v
     in if src \<noteq> 0
        then if DX s = 0x80000000 \<and> src = - 1
             then let s = s\<lparr>not_z_flag := 0,
                            n_flag := NFLAG_CLEAR,
                            v_flag := VFLAG_CLEAR,
                            c_flag := CFLAG_CLEAR\<rparr>
                  in Ret () (set_DX 0 s)
             else let quot = sdiv32 (DX s) src;
                      remainder = smod32 (DX s) src
                  in if quot = MAKE_INT_16 quot
                     then let s = s\<lparr>not_z_flag := quot,
                                    n_flag := NFLAG_16 quot,
                                    v_flag := VFLAG_CLEAR,
                                    c_flag := CFLAG_CLEAR\<rparr>
                          in Ret () (set_DX (MASK_OUT_ABOVE_32 (MASK_OUT_ABOVE_16 quot OR push_bit
                                16 remainder)) s)
                     else Ret () (s\<lparr>v_flag := VFLAG_SET\<rparr>)
        else m68ki_exception_trap EXCEPTION_ZERO_DIVIDE s))"

definition m68k_op_divs_16_i :: "'b op" where
  "m68k_op_divs_16_i s =
    (chain (OPER_I_16 s) (\<lambda>v s.
     let src = MAKE_INT_16 v
     in if src \<noteq> 0
        then if DX s = 0x80000000 \<and> src = - 1
             then let s = s\<lparr>not_z_flag := 0,
                            n_flag := NFLAG_CLEAR,
                            v_flag := VFLAG_CLEAR,
                            c_flag := CFLAG_CLEAR\<rparr>
                  in Ret () (set_DX 0 s)
             else let quot = sdiv32 (DX s) src;
                      remainder = smod32 (DX s) src
                  in if quot = MAKE_INT_16 quot
                     then let s = s\<lparr>not_z_flag := quot,
                                    n_flag := NFLAG_16 quot,
                                    v_flag := VFLAG_CLEAR,
                                    c_flag := CFLAG_CLEAR\<rparr>
                          in Ret () (set_DX (MASK_OUT_ABOVE_32 (MASK_OUT_ABOVE_16 quot OR push_bit
                                16 remainder)) s)
                     else Ret () (s\<lparr>v_flag := VFLAG_SET\<rparr>)
        else m68ki_exception_trap EXCEPTION_ZERO_DIVIDE s))"

definition m68k_op_divu_16_d :: "'b op" where
  "m68k_op_divu_16_d s =
    (let src = MASK_OUT_ABOVE_16 (DY s)
     in if src \<noteq> 0
        then let quot = DX s div src;
                 remainder = DX s mod src
             in if quot < 0x10000
                then let s = s\<lparr>not_z_flag := quot,
                               n_flag := NFLAG_16 quot,
                               v_flag := VFLAG_CLEAR,
                               c_flag := CFLAG_CLEAR\<rparr>
                     in Ret () (set_DX (MASK_OUT_ABOVE_32 (MASK_OUT_ABOVE_16 quot OR push_bit 16
                           remainder)) s)
                else Ret () (s\<lparr>v_flag := VFLAG_SET\<rparr>)
        else m68ki_exception_trap EXCEPTION_ZERO_DIVIDE s)"

definition m68k_op_divu_16_ai :: "'b op" where
  "m68k_op_divu_16_ai s =
    (chain (OPER_AY_AI_16 s) (\<lambda>src s.
     if src \<noteq> 0
     then let quot = DX s div src;
              remainder = DX s mod src
          in if quot < 0x10000
             then let s = s\<lparr>not_z_flag := quot,
                            n_flag := NFLAG_16 quot,
                            v_flag := VFLAG_CLEAR,
                            c_flag := CFLAG_CLEAR\<rparr>
                  in Ret () (set_DX (MASK_OUT_ABOVE_32 (MASK_OUT_ABOVE_16 quot OR push_bit 16 remainder)) s)
             else Ret () (s\<lparr>v_flag := VFLAG_SET\<rparr>)
     else m68ki_exception_trap EXCEPTION_ZERO_DIVIDE s))"

definition m68k_op_divu_16_pi :: "'b op" where
  "m68k_op_divu_16_pi s =
    (chain (OPER_AY_PI_16 s) (\<lambda>src s.
     if src \<noteq> 0
     then let quot = DX s div src;
              remainder = DX s mod src
          in if quot < 0x10000
             then let s = s\<lparr>not_z_flag := quot,
                            n_flag := NFLAG_16 quot,
                            v_flag := VFLAG_CLEAR,
                            c_flag := CFLAG_CLEAR\<rparr>
                  in Ret () (set_DX (MASK_OUT_ABOVE_32 (MASK_OUT_ABOVE_16 quot OR push_bit 16 remainder)) s)
             else Ret () (s\<lparr>v_flag := VFLAG_SET\<rparr>)
     else m68ki_exception_trap EXCEPTION_ZERO_DIVIDE s))"

definition m68k_op_divu_16_pd :: "'b op" where
  "m68k_op_divu_16_pd s =
    (chain (OPER_AY_PD_16 s) (\<lambda>src s.
     if src \<noteq> 0
     then let quot = DX s div src;
              remainder = DX s mod src
          in if quot < 0x10000
             then let s = s\<lparr>not_z_flag := quot,
                            n_flag := NFLAG_16 quot,
                            v_flag := VFLAG_CLEAR,
                            c_flag := CFLAG_CLEAR\<rparr>
                  in Ret () (set_DX (MASK_OUT_ABOVE_32 (MASK_OUT_ABOVE_16 quot OR push_bit 16 remainder)) s)
             else Ret () (s\<lparr>v_flag := VFLAG_SET\<rparr>)
     else m68ki_exception_trap EXCEPTION_ZERO_DIVIDE s))"

definition m68k_op_divu_16_di :: "'b op" where
  "m68k_op_divu_16_di s =
    (chain (OPER_AY_DI_16 s) (\<lambda>src s.
     if src \<noteq> 0
     then let quot = DX s div src;
              remainder = DX s mod src
          in if quot < 0x10000
             then let s = s\<lparr>not_z_flag := quot,
                            n_flag := NFLAG_16 quot,
                            v_flag := VFLAG_CLEAR,
                            c_flag := CFLAG_CLEAR\<rparr>
                  in Ret () (set_DX (MASK_OUT_ABOVE_32 (MASK_OUT_ABOVE_16 quot OR push_bit 16 remainder)) s)
             else Ret () (s\<lparr>v_flag := VFLAG_SET\<rparr>)
     else m68ki_exception_trap EXCEPTION_ZERO_DIVIDE s))"

definition m68k_op_divu_16_ix :: "'b op" where
  "m68k_op_divu_16_ix s =
    (chain (OPER_AY_IX_16 s) (\<lambda>src s.
     if src \<noteq> 0
     then let quot = DX s div src;
              remainder = DX s mod src
          in if quot < 0x10000
             then let s = s\<lparr>not_z_flag := quot,
                            n_flag := NFLAG_16 quot,
                            v_flag := VFLAG_CLEAR,
                            c_flag := CFLAG_CLEAR\<rparr>
                  in Ret () (set_DX (MASK_OUT_ABOVE_32 (MASK_OUT_ABOVE_16 quot OR push_bit 16 remainder)) s)
             else Ret () (s\<lparr>v_flag := VFLAG_SET\<rparr>)
     else m68ki_exception_trap EXCEPTION_ZERO_DIVIDE s))"

definition m68k_op_divu_16_aw :: "'b op" where
  "m68k_op_divu_16_aw s =
    (chain (OPER_AW_16 s) (\<lambda>src s.
     if src \<noteq> 0
     then let quot = DX s div src;
              remainder = DX s mod src
          in if quot < 0x10000
             then let s = s\<lparr>not_z_flag := quot,
                            n_flag := NFLAG_16 quot,
                            v_flag := VFLAG_CLEAR,
                            c_flag := CFLAG_CLEAR\<rparr>
                  in Ret () (set_DX (MASK_OUT_ABOVE_32 (MASK_OUT_ABOVE_16 quot OR push_bit 16 remainder)) s)
             else Ret () (s\<lparr>v_flag := VFLAG_SET\<rparr>)
     else m68ki_exception_trap EXCEPTION_ZERO_DIVIDE s))"

definition m68k_op_divu_16_al :: "'b op" where
  "m68k_op_divu_16_al s =
    (chain (OPER_AL_16 s) (\<lambda>src s.
     if src \<noteq> 0
     then let quot = DX s div src;
              remainder = DX s mod src
          in if quot < 0x10000
             then let s = s\<lparr>not_z_flag := quot,
                            n_flag := NFLAG_16 quot,
                            v_flag := VFLAG_CLEAR,
                            c_flag := CFLAG_CLEAR\<rparr>
                  in Ret () (set_DX (MASK_OUT_ABOVE_32 (MASK_OUT_ABOVE_16 quot OR push_bit 16 remainder)) s)
             else Ret () (s\<lparr>v_flag := VFLAG_SET\<rparr>)
     else m68ki_exception_trap EXCEPTION_ZERO_DIVIDE s))"

definition m68k_op_divu_16_pcdi :: "'b op" where
  "m68k_op_divu_16_pcdi s =
    (chain (OPER_PCDI_16 s) (\<lambda>src s.
     if src \<noteq> 0
     then let quot = DX s div src;
              remainder = DX s mod src
          in if quot < 0x10000
             then let s = s\<lparr>not_z_flag := quot,
                            n_flag := NFLAG_16 quot,
                            v_flag := VFLAG_CLEAR,
                            c_flag := CFLAG_CLEAR\<rparr>
                  in Ret () (set_DX (MASK_OUT_ABOVE_32 (MASK_OUT_ABOVE_16 quot OR push_bit 16 remainder)) s)
             else Ret () (s\<lparr>v_flag := VFLAG_SET\<rparr>)
     else m68ki_exception_trap EXCEPTION_ZERO_DIVIDE s))"

definition m68k_op_divu_16_pcix :: "'b op" where
  "m68k_op_divu_16_pcix s =
    (chain (OPER_PCIX_16 s) (\<lambda>src s.
     if src \<noteq> 0
     then let quot = DX s div src;
              remainder = DX s mod src
          in if quot < 0x10000
             then let s = s\<lparr>not_z_flag := quot,
                            n_flag := NFLAG_16 quot,
                            v_flag := VFLAG_CLEAR,
                            c_flag := CFLAG_CLEAR\<rparr>
                  in Ret () (set_DX (MASK_OUT_ABOVE_32 (MASK_OUT_ABOVE_16 quot OR push_bit 16 remainder)) s)
             else Ret () (s\<lparr>v_flag := VFLAG_SET\<rparr>)
     else m68ki_exception_trap EXCEPTION_ZERO_DIVIDE s))"

definition m68k_op_divu_16_i :: "'b op" where
  "m68k_op_divu_16_i s =
    (chain (OPER_I_16 s) (\<lambda>src s.
     if src \<noteq> 0
     then let quot = DX s div src;
              remainder = DX s mod src
          in if quot < 0x10000
             then let s = s\<lparr>not_z_flag := quot,
                            n_flag := NFLAG_16 quot,
                            v_flag := VFLAG_CLEAR,
                            c_flag := CFLAG_CLEAR\<rparr>
                  in Ret () (set_DX (MASK_OUT_ABOVE_32 (MASK_OUT_ABOVE_16 quot OR push_bit 16 remainder)) s)
             else Ret () (s\<lparr>v_flag := VFLAG_SET\<rparr>)
     else m68ki_exception_trap EXCEPTION_ZERO_DIVIDE s))"

definition m68k_op_divl_32_d :: "'b op" where
  "m68k_op_divl_32_d s =
    (if CPU_TYPE_IS_EC020_PLUS (cpu_type s)
     then chain (OPER_I_16 s) (\<lambda>word2 s.
          let divisor = (ucast (DY s) :: u64);
              dividend = (0 :: u64);
              quot = (0 :: u64);
              remainder = (0 :: u64)
          in if divisor \<noteq> 0
             then if BIT 10 word2 \<noteq> 0
                  then let dividend = (ucast (REG_D s (word2 AND 7)) :: u64);
                           dividend = push_bit 32 dividend;
                           dividend = dividend OR (ucast (REG_D s (drop_bit 12 word2 AND 7)))
                       in if BIT 11 word2 \<noteq> 0
                          then let quot = sdiv64 dividend (scast (ucast divisor :: u32) :: u64);
                                   remainder = smod64 dividend (scast (ucast divisor :: u32) :: u64)
                               in if quot \<noteq> (scast (ucast quot :: u32) :: u64)
                                  then Ret () (s\<lparr>v_flag := VFLAG_SET\<rparr>)
                                  else let s = set_REG_D (word2 AND 7) (ucast remainder) s;
                                           s = set_REG_D (drop_bit 12 word2 AND 7) (ucast quot) s
                                       in Ret () (s\<lparr>n_flag := (ucast (drop_bit 24 quot)),
                                            not_z_flag := (ucast quot),
                                            v_flag := VFLAG_CLEAR,
                                            c_flag := CFLAG_CLEAR\<rparr>)
                          else let quot = (dividend div divisor :: u64)
                               in if 0xffffffff < quot
                                  then Ret () (s\<lparr>v_flag := VFLAG_SET\<rparr>)
                                  else let remainder = (dividend mod divisor :: u64);
                                           s = set_REG_D (word2 AND 7) (ucast remainder) s;
                                           s = set_REG_D (drop_bit 12 word2 AND 7) (ucast quot) s
                                       in Ret () (s\<lparr>n_flag := (ucast (drop_bit 24 quot)),
                                            not_z_flag := (ucast quot),
                                            v_flag := VFLAG_CLEAR,
                                            c_flag := CFLAG_CLEAR\<rparr>)
                  else let dividend = (ucast (REG_D s (drop_bit 12 word2 AND 7)) :: u64);
                           (quot, remainder) = (if BIT 11 word2 \<noteq> 0
                                                then let quot = sdiv64 (scast (ucast dividend ::
                                                      u32) :: u64) (scast (ucast divisor :: u32) ::
                                                      u64);
                                                         remainder = smod64 (scast (ucast dividend
                                                               :: u32) :: u64) (scast (ucast
                                                               divisor :: u32) :: u64)
                                                     in (quot, remainder)
                                                else let quot = (dividend div divisor :: u64);
                                                         remainder = (dividend mod divisor :: u64)
                                                     in (quot, remainder));
                           s = set_REG_D (word2 AND 7) (ucast remainder) s;
                           s = set_REG_D (drop_bit 12 word2 AND 7) (ucast quot) s
                       in Ret () (s\<lparr>n_flag := (ucast (drop_bit 24 quot)),
                            not_z_flag := (ucast quot),
                            v_flag := VFLAG_CLEAR,
                            c_flag := CFLAG_CLEAR\<rparr>)
             else m68ki_exception_trap EXCEPTION_ZERO_DIVIDE s)
     else m68ki_exception_illegal s)"

definition m68k_op_divl_32_ai :: "'b op" where
  "m68k_op_divl_32_ai s =
    (if CPU_TYPE_IS_EC020_PLUS (cpu_type s)
     then chain (OPER_I_16 s) (\<lambda>word2 s.
          chain (OPER_AY_AI_32 s) (\<lambda>v2 s.
          let divisor = (ucast v2 :: u64);
              dividend = (0 :: u64);
              quot = (0 :: u64);
              remainder = (0 :: u64)
          in if divisor \<noteq> 0
             then if BIT 10 word2 \<noteq> 0
                  then let dividend = (ucast (REG_D s (word2 AND 7)) :: u64);
                           dividend = push_bit 32 dividend;
                           dividend = dividend OR (ucast (REG_D s (drop_bit 12 word2 AND 7)))
                       in if BIT 11 word2 \<noteq> 0
                          then let quot = sdiv64 dividend (scast (ucast divisor :: u32) :: u64);
                                   remainder = smod64 dividend (scast (ucast divisor :: u32) :: u64)
                               in if quot \<noteq> (scast (ucast quot :: u32) :: u64)
                                  then Ret () (s\<lparr>v_flag := VFLAG_SET\<rparr>)
                                  else let s = set_REG_D (word2 AND 7) (ucast remainder) s;
                                           s = set_REG_D (drop_bit 12 word2 AND 7) (ucast quot) s
                                       in Ret () (s\<lparr>n_flag := (ucast (drop_bit 24 quot)),
                                            not_z_flag := (ucast quot),
                                            v_flag := VFLAG_CLEAR,
                                            c_flag := CFLAG_CLEAR\<rparr>)
                          else let quot = (dividend div divisor :: u64)
                               in if 0xffffffff < quot
                                  then Ret () (s\<lparr>v_flag := VFLAG_SET\<rparr>)
                                  else let remainder = (dividend mod divisor :: u64);
                                           s = set_REG_D (word2 AND 7) (ucast remainder) s;
                                           s = set_REG_D (drop_bit 12 word2 AND 7) (ucast quot) s
                                       in Ret () (s\<lparr>n_flag := (ucast (drop_bit 24 quot)),
                                            not_z_flag := (ucast quot),
                                            v_flag := VFLAG_CLEAR,
                                            c_flag := CFLAG_CLEAR\<rparr>)
                  else let dividend = (ucast (REG_D s (drop_bit 12 word2 AND 7)) :: u64);
                           (quot, remainder) = (if BIT 11 word2 \<noteq> 0
                                                then let quot = sdiv64 (scast (ucast dividend ::
                                                      u32) :: u64) (scast (ucast divisor :: u32) ::
                                                      u64);
                                                         remainder = smod64 (scast (ucast dividend
                                                               :: u32) :: u64) (scast (ucast
                                                               divisor :: u32) :: u64)
                                                     in (quot, remainder)
                                                else let quot = (dividend div divisor :: u64);
                                                         remainder = (dividend mod divisor :: u64)
                                                     in (quot, remainder));
                           s = set_REG_D (word2 AND 7) (ucast remainder) s;
                           s = set_REG_D (drop_bit 12 word2 AND 7) (ucast quot) s
                       in Ret () (s\<lparr>n_flag := (ucast (drop_bit 24 quot)),
                            not_z_flag := (ucast quot),
                            v_flag := VFLAG_CLEAR,
                            c_flag := CFLAG_CLEAR\<rparr>)
             else m68ki_exception_trap EXCEPTION_ZERO_DIVIDE s))
     else m68ki_exception_illegal s)"

definition m68k_op_divl_32_pi :: "'b op" where
  "m68k_op_divl_32_pi s =
    (if CPU_TYPE_IS_EC020_PLUS (cpu_type s)
     then chain (OPER_I_16 s) (\<lambda>word2 s.
          chain (OPER_AY_PI_32 s) (\<lambda>v2 s.
          let divisor = (ucast v2 :: u64);
              dividend = (0 :: u64);
              quot = (0 :: u64);
              remainder = (0 :: u64)
          in if divisor \<noteq> 0
             then if BIT 10 word2 \<noteq> 0
                  then let dividend = (ucast (REG_D s (word2 AND 7)) :: u64);
                           dividend = push_bit 32 dividend;
                           dividend = dividend OR (ucast (REG_D s (drop_bit 12 word2 AND 7)))
                       in if BIT 11 word2 \<noteq> 0
                          then let quot = sdiv64 dividend (scast (ucast divisor :: u32) :: u64);
                                   remainder = smod64 dividend (scast (ucast divisor :: u32) :: u64)
                               in if quot \<noteq> (scast (ucast quot :: u32) :: u64)
                                  then Ret () (s\<lparr>v_flag := VFLAG_SET\<rparr>)
                                  else let s = set_REG_D (word2 AND 7) (ucast remainder) s;
                                           s = set_REG_D (drop_bit 12 word2 AND 7) (ucast quot) s
                                       in Ret () (s\<lparr>n_flag := (ucast (drop_bit 24 quot)),
                                            not_z_flag := (ucast quot),
                                            v_flag := VFLAG_CLEAR,
                                            c_flag := CFLAG_CLEAR\<rparr>)
                          else let quot = (dividend div divisor :: u64)
                               in if 0xffffffff < quot
                                  then Ret () (s\<lparr>v_flag := VFLAG_SET\<rparr>)
                                  else let remainder = (dividend mod divisor :: u64);
                                           s = set_REG_D (word2 AND 7) (ucast remainder) s;
                                           s = set_REG_D (drop_bit 12 word2 AND 7) (ucast quot) s
                                       in Ret () (s\<lparr>n_flag := (ucast (drop_bit 24 quot)),
                                            not_z_flag := (ucast quot),
                                            v_flag := VFLAG_CLEAR,
                                            c_flag := CFLAG_CLEAR\<rparr>)
                  else let dividend = (ucast (REG_D s (drop_bit 12 word2 AND 7)) :: u64);
                           (quot, remainder) = (if BIT 11 word2 \<noteq> 0
                                                then let quot = sdiv64 (scast (ucast dividend ::
                                                      u32) :: u64) (scast (ucast divisor :: u32) ::
                                                      u64);
                                                         remainder = smod64 (scast (ucast dividend
                                                               :: u32) :: u64) (scast (ucast
                                                               divisor :: u32) :: u64)
                                                     in (quot, remainder)
                                                else let quot = (dividend div divisor :: u64);
                                                         remainder = (dividend mod divisor :: u64)
                                                     in (quot, remainder));
                           s = set_REG_D (word2 AND 7) (ucast remainder) s;
                           s = set_REG_D (drop_bit 12 word2 AND 7) (ucast quot) s
                       in Ret () (s\<lparr>n_flag := (ucast (drop_bit 24 quot)),
                            not_z_flag := (ucast quot),
                            v_flag := VFLAG_CLEAR,
                            c_flag := CFLAG_CLEAR\<rparr>)
             else m68ki_exception_trap EXCEPTION_ZERO_DIVIDE s))
     else m68ki_exception_illegal s)"

definition m68k_op_divl_32_pd :: "'b op" where
  "m68k_op_divl_32_pd s =
    (if CPU_TYPE_IS_EC020_PLUS (cpu_type s)
     then chain (OPER_I_16 s) (\<lambda>word2 s.
          chain (OPER_AY_PD_32 s) (\<lambda>v2 s.
          let divisor = (ucast v2 :: u64);
              dividend = (0 :: u64);
              quot = (0 :: u64);
              remainder = (0 :: u64)
          in if divisor \<noteq> 0
             then if BIT 10 word2 \<noteq> 0
                  then let dividend = (ucast (REG_D s (word2 AND 7)) :: u64);
                           dividend = push_bit 32 dividend;
                           dividend = dividend OR (ucast (REG_D s (drop_bit 12 word2 AND 7)))
                       in if BIT 11 word2 \<noteq> 0
                          then let quot = sdiv64 dividend (scast (ucast divisor :: u32) :: u64);
                                   remainder = smod64 dividend (scast (ucast divisor :: u32) :: u64)
                               in if quot \<noteq> (scast (ucast quot :: u32) :: u64)
                                  then Ret () (s\<lparr>v_flag := VFLAG_SET\<rparr>)
                                  else let s = set_REG_D (word2 AND 7) (ucast remainder) s;
                                           s = set_REG_D (drop_bit 12 word2 AND 7) (ucast quot) s
                                       in Ret () (s\<lparr>n_flag := (ucast (drop_bit 24 quot)),
                                            not_z_flag := (ucast quot),
                                            v_flag := VFLAG_CLEAR,
                                            c_flag := CFLAG_CLEAR\<rparr>)
                          else let quot = (dividend div divisor :: u64)
                               in if 0xffffffff < quot
                                  then Ret () (s\<lparr>v_flag := VFLAG_SET\<rparr>)
                                  else let remainder = (dividend mod divisor :: u64);
                                           s = set_REG_D (word2 AND 7) (ucast remainder) s;
                                           s = set_REG_D (drop_bit 12 word2 AND 7) (ucast quot) s
                                       in Ret () (s\<lparr>n_flag := (ucast (drop_bit 24 quot)),
                                            not_z_flag := (ucast quot),
                                            v_flag := VFLAG_CLEAR,
                                            c_flag := CFLAG_CLEAR\<rparr>)
                  else let dividend = (ucast (REG_D s (drop_bit 12 word2 AND 7)) :: u64);
                           (quot, remainder) = (if BIT 11 word2 \<noteq> 0
                                                then let quot = sdiv64 (scast (ucast dividend ::
                                                      u32) :: u64) (scast (ucast divisor :: u32) ::
                                                      u64);
                                                         remainder = smod64 (scast (ucast dividend
                                                               :: u32) :: u64) (scast (ucast
                                                               divisor :: u32) :: u64)
                                                     in (quot, remainder)
                                                else let quot = (dividend div divisor :: u64);
                                                         remainder = (dividend mod divisor :: u64)
                                                     in (quot, remainder));
                           s = set_REG_D (word2 AND 7) (ucast remainder) s;
                           s = set_REG_D (drop_bit 12 word2 AND 7) (ucast quot) s
                       in Ret () (s\<lparr>n_flag := (ucast (drop_bit 24 quot)),
                            not_z_flag := (ucast quot),
                            v_flag := VFLAG_CLEAR,
                            c_flag := CFLAG_CLEAR\<rparr>)
             else m68ki_exception_trap EXCEPTION_ZERO_DIVIDE s))
     else m68ki_exception_illegal s)"

definition m68k_op_divl_32_di :: "'b op" where
  "m68k_op_divl_32_di s =
    (if CPU_TYPE_IS_EC020_PLUS (cpu_type s)
     then chain (OPER_I_16 s) (\<lambda>word2 s.
          chain (OPER_AY_DI_32 s) (\<lambda>v2 s.
          let divisor = (ucast v2 :: u64);
              dividend = (0 :: u64);
              quot = (0 :: u64);
              remainder = (0 :: u64)
          in if divisor \<noteq> 0
             then if BIT 10 word2 \<noteq> 0
                  then let dividend = (ucast (REG_D s (word2 AND 7)) :: u64);
                           dividend = push_bit 32 dividend;
                           dividend = dividend OR (ucast (REG_D s (drop_bit 12 word2 AND 7)))
                       in if BIT 11 word2 \<noteq> 0
                          then let quot = sdiv64 dividend (scast (ucast divisor :: u32) :: u64);
                                   remainder = smod64 dividend (scast (ucast divisor :: u32) :: u64)
                               in if quot \<noteq> (scast (ucast quot :: u32) :: u64)
                                  then Ret () (s\<lparr>v_flag := VFLAG_SET\<rparr>)
                                  else let s = set_REG_D (word2 AND 7) (ucast remainder) s;
                                           s = set_REG_D (drop_bit 12 word2 AND 7) (ucast quot) s
                                       in Ret () (s\<lparr>n_flag := (ucast (drop_bit 24 quot)),
                                            not_z_flag := (ucast quot),
                                            v_flag := VFLAG_CLEAR,
                                            c_flag := CFLAG_CLEAR\<rparr>)
                          else let quot = (dividend div divisor :: u64)
                               in if 0xffffffff < quot
                                  then Ret () (s\<lparr>v_flag := VFLAG_SET\<rparr>)
                                  else let remainder = (dividend mod divisor :: u64);
                                           s = set_REG_D (word2 AND 7) (ucast remainder) s;
                                           s = set_REG_D (drop_bit 12 word2 AND 7) (ucast quot) s
                                       in Ret () (s\<lparr>n_flag := (ucast (drop_bit 24 quot)),
                                            not_z_flag := (ucast quot),
                                            v_flag := VFLAG_CLEAR,
                                            c_flag := CFLAG_CLEAR\<rparr>)
                  else let dividend = (ucast (REG_D s (drop_bit 12 word2 AND 7)) :: u64);
                           (quot, remainder) = (if BIT 11 word2 \<noteq> 0
                                                then let quot = sdiv64 (scast (ucast dividend ::
                                                      u32) :: u64) (scast (ucast divisor :: u32) ::
                                                      u64);
                                                         remainder = smod64 (scast (ucast dividend
                                                               :: u32) :: u64) (scast (ucast
                                                               divisor :: u32) :: u64)
                                                     in (quot, remainder)
                                                else let quot = (dividend div divisor :: u64);
                                                         remainder = (dividend mod divisor :: u64)
                                                     in (quot, remainder));
                           s = set_REG_D (word2 AND 7) (ucast remainder) s;
                           s = set_REG_D (drop_bit 12 word2 AND 7) (ucast quot) s
                       in Ret () (s\<lparr>n_flag := (ucast (drop_bit 24 quot)),
                            not_z_flag := (ucast quot),
                            v_flag := VFLAG_CLEAR,
                            c_flag := CFLAG_CLEAR\<rparr>)
             else m68ki_exception_trap EXCEPTION_ZERO_DIVIDE s))
     else m68ki_exception_illegal s)"

definition m68k_op_divl_32_ix :: "'b op" where
  "m68k_op_divl_32_ix s =
    (if CPU_TYPE_IS_EC020_PLUS (cpu_type s)
     then chain (OPER_I_16 s) (\<lambda>word2 s.
          chain (OPER_AY_IX_32 s) (\<lambda>v2 s.
          let divisor = (ucast v2 :: u64);
              dividend = (0 :: u64);
              quot = (0 :: u64);
              remainder = (0 :: u64)
          in if divisor \<noteq> 0
             then if BIT 10 word2 \<noteq> 0
                  then let dividend = (ucast (REG_D s (word2 AND 7)) :: u64);
                           dividend = push_bit 32 dividend;
                           dividend = dividend OR (ucast (REG_D s (drop_bit 12 word2 AND 7)))
                       in if BIT 11 word2 \<noteq> 0
                          then let quot = sdiv64 dividend (scast (ucast divisor :: u32) :: u64);
                                   remainder = smod64 dividend (scast (ucast divisor :: u32) :: u64)
                               in if quot \<noteq> (scast (ucast quot :: u32) :: u64)
                                  then Ret () (s\<lparr>v_flag := VFLAG_SET\<rparr>)
                                  else let s = set_REG_D (word2 AND 7) (ucast remainder) s;
                                           s = set_REG_D (drop_bit 12 word2 AND 7) (ucast quot) s
                                       in Ret () (s\<lparr>n_flag := (ucast (drop_bit 24 quot)),
                                            not_z_flag := (ucast quot),
                                            v_flag := VFLAG_CLEAR,
                                            c_flag := CFLAG_CLEAR\<rparr>)
                          else let quot = (dividend div divisor :: u64)
                               in if 0xffffffff < quot
                                  then Ret () (s\<lparr>v_flag := VFLAG_SET\<rparr>)
                                  else let remainder = (dividend mod divisor :: u64);
                                           s = set_REG_D (word2 AND 7) (ucast remainder) s;
                                           s = set_REG_D (drop_bit 12 word2 AND 7) (ucast quot) s
                                       in Ret () (s\<lparr>n_flag := (ucast (drop_bit 24 quot)),
                                            not_z_flag := (ucast quot),
                                            v_flag := VFLAG_CLEAR,
                                            c_flag := CFLAG_CLEAR\<rparr>)
                  else let dividend = (ucast (REG_D s (drop_bit 12 word2 AND 7)) :: u64);
                           (quot, remainder) = (if BIT 11 word2 \<noteq> 0
                                                then let quot = sdiv64 (scast (ucast dividend ::
                                                      u32) :: u64) (scast (ucast divisor :: u32) ::
                                                      u64);
                                                         remainder = smod64 (scast (ucast dividend
                                                               :: u32) :: u64) (scast (ucast
                                                               divisor :: u32) :: u64)
                                                     in (quot, remainder)
                                                else let quot = (dividend div divisor :: u64);
                                                         remainder = (dividend mod divisor :: u64)
                                                     in (quot, remainder));
                           s = set_REG_D (word2 AND 7) (ucast remainder) s;
                           s = set_REG_D (drop_bit 12 word2 AND 7) (ucast quot) s
                       in Ret () (s\<lparr>n_flag := (ucast (drop_bit 24 quot)),
                            not_z_flag := (ucast quot),
                            v_flag := VFLAG_CLEAR,
                            c_flag := CFLAG_CLEAR\<rparr>)
             else m68ki_exception_trap EXCEPTION_ZERO_DIVIDE s))
     else m68ki_exception_illegal s)"

definition m68k_op_divl_32_aw :: "'b op" where
  "m68k_op_divl_32_aw s =
    (if CPU_TYPE_IS_EC020_PLUS (cpu_type s)
     then chain (OPER_I_16 s) (\<lambda>word2 s.
          chain (OPER_AW_32 s) (\<lambda>v2 s.
          let divisor = (ucast v2 :: u64);
              dividend = (0 :: u64);
              quot = (0 :: u64);
              remainder = (0 :: u64)
          in if divisor \<noteq> 0
             then if BIT 10 word2 \<noteq> 0
                  then let dividend = (ucast (REG_D s (word2 AND 7)) :: u64);
                           dividend = push_bit 32 dividend;
                           dividend = dividend OR (ucast (REG_D s (drop_bit 12 word2 AND 7)))
                       in if BIT 11 word2 \<noteq> 0
                          then let quot = sdiv64 dividend (scast (ucast divisor :: u32) :: u64);
                                   remainder = smod64 dividend (scast (ucast divisor :: u32) :: u64)
                               in if quot \<noteq> (scast (ucast quot :: u32) :: u64)
                                  then Ret () (s\<lparr>v_flag := VFLAG_SET\<rparr>)
                                  else let s = set_REG_D (word2 AND 7) (ucast remainder) s;
                                           s = set_REG_D (drop_bit 12 word2 AND 7) (ucast quot) s
                                       in Ret () (s\<lparr>n_flag := (ucast (drop_bit 24 quot)),
                                            not_z_flag := (ucast quot),
                                            v_flag := VFLAG_CLEAR,
                                            c_flag := CFLAG_CLEAR\<rparr>)
                          else let quot = (dividend div divisor :: u64)
                               in if 0xffffffff < quot
                                  then Ret () (s\<lparr>v_flag := VFLAG_SET\<rparr>)
                                  else let remainder = (dividend mod divisor :: u64);
                                           s = set_REG_D (word2 AND 7) (ucast remainder) s;
                                           s = set_REG_D (drop_bit 12 word2 AND 7) (ucast quot) s
                                       in Ret () (s\<lparr>n_flag := (ucast (drop_bit 24 quot)),
                                            not_z_flag := (ucast quot),
                                            v_flag := VFLAG_CLEAR,
                                            c_flag := CFLAG_CLEAR\<rparr>)
                  else let dividend = (ucast (REG_D s (drop_bit 12 word2 AND 7)) :: u64);
                           (quot, remainder) = (if BIT 11 word2 \<noteq> 0
                                                then let quot = sdiv64 (scast (ucast dividend ::
                                                      u32) :: u64) (scast (ucast divisor :: u32) ::
                                                      u64);
                                                         remainder = smod64 (scast (ucast dividend
                                                               :: u32) :: u64) (scast (ucast
                                                               divisor :: u32) :: u64)
                                                     in (quot, remainder)
                                                else let quot = (dividend div divisor :: u64);
                                                         remainder = (dividend mod divisor :: u64)
                                                     in (quot, remainder));
                           s = set_REG_D (word2 AND 7) (ucast remainder) s;
                           s = set_REG_D (drop_bit 12 word2 AND 7) (ucast quot) s
                       in Ret () (s\<lparr>n_flag := (ucast (drop_bit 24 quot)),
                            not_z_flag := (ucast quot),
                            v_flag := VFLAG_CLEAR,
                            c_flag := CFLAG_CLEAR\<rparr>)
             else m68ki_exception_trap EXCEPTION_ZERO_DIVIDE s))
     else m68ki_exception_illegal s)"

definition m68k_op_divl_32_al :: "'b op" where
  "m68k_op_divl_32_al s =
    (if CPU_TYPE_IS_EC020_PLUS (cpu_type s)
     then chain (OPER_I_16 s) (\<lambda>word2 s.
          chain (OPER_AL_32 s) (\<lambda>v2 s.
          let divisor = (ucast v2 :: u64);
              dividend = (0 :: u64);
              quot = (0 :: u64);
              remainder = (0 :: u64)
          in if divisor \<noteq> 0
             then if BIT 10 word2 \<noteq> 0
                  then let dividend = (ucast (REG_D s (word2 AND 7)) :: u64);
                           dividend = push_bit 32 dividend;
                           dividend = dividend OR (ucast (REG_D s (drop_bit 12 word2 AND 7)))
                       in if BIT 11 word2 \<noteq> 0
                          then let quot = sdiv64 dividend (scast (ucast divisor :: u32) :: u64);
                                   remainder = smod64 dividend (scast (ucast divisor :: u32) :: u64)
                               in if quot \<noteq> (scast (ucast quot :: u32) :: u64)
                                  then Ret () (s\<lparr>v_flag := VFLAG_SET\<rparr>)
                                  else let s = set_REG_D (word2 AND 7) (ucast remainder) s;
                                           s = set_REG_D (drop_bit 12 word2 AND 7) (ucast quot) s
                                       in Ret () (s\<lparr>n_flag := (ucast (drop_bit 24 quot)),
                                            not_z_flag := (ucast quot),
                                            v_flag := VFLAG_CLEAR,
                                            c_flag := CFLAG_CLEAR\<rparr>)
                          else let quot = (dividend div divisor :: u64)
                               in if 0xffffffff < quot
                                  then Ret () (s\<lparr>v_flag := VFLAG_SET\<rparr>)
                                  else let remainder = (dividend mod divisor :: u64);
                                           s = set_REG_D (word2 AND 7) (ucast remainder) s;
                                           s = set_REG_D (drop_bit 12 word2 AND 7) (ucast quot) s
                                       in Ret () (s\<lparr>n_flag := (ucast (drop_bit 24 quot)),
                                            not_z_flag := (ucast quot),
                                            v_flag := VFLAG_CLEAR,
                                            c_flag := CFLAG_CLEAR\<rparr>)
                  else let dividend = (ucast (REG_D s (drop_bit 12 word2 AND 7)) :: u64);
                           (quot, remainder) = (if BIT 11 word2 \<noteq> 0
                                                then let quot = sdiv64 (scast (ucast dividend ::
                                                      u32) :: u64) (scast (ucast divisor :: u32) ::
                                                      u64);
                                                         remainder = smod64 (scast (ucast dividend
                                                               :: u32) :: u64) (scast (ucast
                                                               divisor :: u32) :: u64)
                                                     in (quot, remainder)
                                                else let quot = (dividend div divisor :: u64);
                                                         remainder = (dividend mod divisor :: u64)
                                                     in (quot, remainder));
                           s = set_REG_D (word2 AND 7) (ucast remainder) s;
                           s = set_REG_D (drop_bit 12 word2 AND 7) (ucast quot) s
                       in Ret () (s\<lparr>n_flag := (ucast (drop_bit 24 quot)),
                            not_z_flag := (ucast quot),
                            v_flag := VFLAG_CLEAR,
                            c_flag := CFLAG_CLEAR\<rparr>)
             else m68ki_exception_trap EXCEPTION_ZERO_DIVIDE s))
     else m68ki_exception_illegal s)"

definition m68k_op_divl_32_pcdi :: "'b op" where
  "m68k_op_divl_32_pcdi s =
    (if CPU_TYPE_IS_EC020_PLUS (cpu_type s)
     then chain (OPER_I_16 s) (\<lambda>word2 s.
          chain (OPER_PCDI_32 s) (\<lambda>v2 s.
          let divisor = (ucast v2 :: u64);
              dividend = (0 :: u64);
              quot = (0 :: u64);
              remainder = (0 :: u64)
          in if divisor \<noteq> 0
             then if BIT 10 word2 \<noteq> 0
                  then let dividend = (ucast (REG_D s (word2 AND 7)) :: u64);
                           dividend = push_bit 32 dividend;
                           dividend = dividend OR (ucast (REG_D s (drop_bit 12 word2 AND 7)))
                       in if BIT 11 word2 \<noteq> 0
                          then let quot = sdiv64 dividend (scast (ucast divisor :: u32) :: u64);
                                   remainder = smod64 dividend (scast (ucast divisor :: u32) :: u64)
                               in if quot \<noteq> (scast (ucast quot :: u32) :: u64)
                                  then Ret () (s\<lparr>v_flag := VFLAG_SET\<rparr>)
                                  else let s = set_REG_D (word2 AND 7) (ucast remainder) s;
                                           s = set_REG_D (drop_bit 12 word2 AND 7) (ucast quot) s
                                       in Ret () (s\<lparr>n_flag := (ucast (drop_bit 24 quot)),
                                            not_z_flag := (ucast quot),
                                            v_flag := VFLAG_CLEAR,
                                            c_flag := CFLAG_CLEAR\<rparr>)
                          else let quot = (dividend div divisor :: u64)
                               in if 0xffffffff < quot
                                  then Ret () (s\<lparr>v_flag := VFLAG_SET\<rparr>)
                                  else let remainder = (dividend mod divisor :: u64);
                                           s = set_REG_D (word2 AND 7) (ucast remainder) s;
                                           s = set_REG_D (drop_bit 12 word2 AND 7) (ucast quot) s
                                       in Ret () (s\<lparr>n_flag := (ucast (drop_bit 24 quot)),
                                            not_z_flag := (ucast quot),
                                            v_flag := VFLAG_CLEAR,
                                            c_flag := CFLAG_CLEAR\<rparr>)
                  else let dividend = (ucast (REG_D s (drop_bit 12 word2 AND 7)) :: u64);
                           (quot, remainder) = (if BIT 11 word2 \<noteq> 0
                                                then let quot = sdiv64 (scast (ucast dividend ::
                                                      u32) :: u64) (scast (ucast divisor :: u32) ::
                                                      u64);
                                                         remainder = smod64 (scast (ucast dividend
                                                               :: u32) :: u64) (scast (ucast
                                                               divisor :: u32) :: u64)
                                                     in (quot, remainder)
                                                else let quot = (dividend div divisor :: u64);
                                                         remainder = (dividend mod divisor :: u64)
                                                     in (quot, remainder));
                           s = set_REG_D (word2 AND 7) (ucast remainder) s;
                           s = set_REG_D (drop_bit 12 word2 AND 7) (ucast quot) s
                       in Ret () (s\<lparr>n_flag := (ucast (drop_bit 24 quot)),
                            not_z_flag := (ucast quot),
                            v_flag := VFLAG_CLEAR,
                            c_flag := CFLAG_CLEAR\<rparr>)
             else m68ki_exception_trap EXCEPTION_ZERO_DIVIDE s))
     else m68ki_exception_illegal s)"

definition m68k_op_divl_32_pcix :: "'b op" where
  "m68k_op_divl_32_pcix s =
    (if CPU_TYPE_IS_EC020_PLUS (cpu_type s)
     then chain (OPER_I_16 s) (\<lambda>word2 s.
          chain (OPER_PCIX_32 s) (\<lambda>v2 s.
          let divisor = (ucast v2 :: u64);
              dividend = (0 :: u64);
              quot = (0 :: u64);
              remainder = (0 :: u64)
          in if divisor \<noteq> 0
             then if BIT 10 word2 \<noteq> 0
                  then let dividend = (ucast (REG_D s (word2 AND 7)) :: u64);
                           dividend = push_bit 32 dividend;
                           dividend = dividend OR (ucast (REG_D s (drop_bit 12 word2 AND 7)))
                       in if BIT 11 word2 \<noteq> 0
                          then let quot = sdiv64 dividend (scast (ucast divisor :: u32) :: u64);
                                   remainder = smod64 dividend (scast (ucast divisor :: u32) :: u64)
                               in if quot \<noteq> (scast (ucast quot :: u32) :: u64)
                                  then Ret () (s\<lparr>v_flag := VFLAG_SET\<rparr>)
                                  else let s = set_REG_D (word2 AND 7) (ucast remainder) s;
                                           s = set_REG_D (drop_bit 12 word2 AND 7) (ucast quot) s
                                       in Ret () (s\<lparr>n_flag := (ucast (drop_bit 24 quot)),
                                            not_z_flag := (ucast quot),
                                            v_flag := VFLAG_CLEAR,
                                            c_flag := CFLAG_CLEAR\<rparr>)
                          else let quot = (dividend div divisor :: u64)
                               in if 0xffffffff < quot
                                  then Ret () (s\<lparr>v_flag := VFLAG_SET\<rparr>)
                                  else let remainder = (dividend mod divisor :: u64);
                                           s = set_REG_D (word2 AND 7) (ucast remainder) s;
                                           s = set_REG_D (drop_bit 12 word2 AND 7) (ucast quot) s
                                       in Ret () (s\<lparr>n_flag := (ucast (drop_bit 24 quot)),
                                            not_z_flag := (ucast quot),
                                            v_flag := VFLAG_CLEAR,
                                            c_flag := CFLAG_CLEAR\<rparr>)
                  else let dividend = (ucast (REG_D s (drop_bit 12 word2 AND 7)) :: u64);
                           (quot, remainder) = (if BIT 11 word2 \<noteq> 0
                                                then let quot = sdiv64 (scast (ucast dividend ::
                                                      u32) :: u64) (scast (ucast divisor :: u32) ::
                                                      u64);
                                                         remainder = smod64 (scast (ucast dividend
                                                               :: u32) :: u64) (scast (ucast
                                                               divisor :: u32) :: u64)
                                                     in (quot, remainder)
                                                else let quot = (dividend div divisor :: u64);
                                                         remainder = (dividend mod divisor :: u64)
                                                     in (quot, remainder));
                           s = set_REG_D (word2 AND 7) (ucast remainder) s;
                           s = set_REG_D (drop_bit 12 word2 AND 7) (ucast quot) s
                       in Ret () (s\<lparr>n_flag := (ucast (drop_bit 24 quot)),
                            not_z_flag := (ucast quot),
                            v_flag := VFLAG_CLEAR,
                            c_flag := CFLAG_CLEAR\<rparr>)
             else m68ki_exception_trap EXCEPTION_ZERO_DIVIDE s))
     else m68ki_exception_illegal s)"

definition m68k_op_divl_32_i :: "'b op" where
  "m68k_op_divl_32_i s =
    (if CPU_TYPE_IS_EC020_PLUS (cpu_type s)
     then chain (OPER_I_16 s) (\<lambda>word2 s.
          chain (OPER_I_32 s) (\<lambda>v2 s.
          let divisor = (ucast v2 :: u64);
              dividend = (0 :: u64);
              quot = (0 :: u64);
              remainder = (0 :: u64)
          in if divisor \<noteq> 0
             then if BIT 10 word2 \<noteq> 0
                  then let dividend = (ucast (REG_D s (word2 AND 7)) :: u64);
                           dividend = push_bit 32 dividend;
                           dividend = dividend OR (ucast (REG_D s (drop_bit 12 word2 AND 7)))
                       in if BIT 11 word2 \<noteq> 0
                          then let quot = sdiv64 dividend (scast (ucast divisor :: u32) :: u64);
                                   remainder = smod64 dividend (scast (ucast divisor :: u32) :: u64)
                               in if quot \<noteq> (scast (ucast quot :: u32) :: u64)
                                  then Ret () (s\<lparr>v_flag := VFLAG_SET\<rparr>)
                                  else let s = set_REG_D (word2 AND 7) (ucast remainder) s;
                                           s = set_REG_D (drop_bit 12 word2 AND 7) (ucast quot) s
                                       in Ret () (s\<lparr>n_flag := (ucast (drop_bit 24 quot)),
                                            not_z_flag := (ucast quot),
                                            v_flag := VFLAG_CLEAR,
                                            c_flag := CFLAG_CLEAR\<rparr>)
                          else let quot = (dividend div divisor :: u64)
                               in if 0xffffffff < quot
                                  then Ret () (s\<lparr>v_flag := VFLAG_SET\<rparr>)
                                  else let remainder = (dividend mod divisor :: u64);
                                           s = set_REG_D (word2 AND 7) (ucast remainder) s;
                                           s = set_REG_D (drop_bit 12 word2 AND 7) (ucast quot) s
                                       in Ret () (s\<lparr>n_flag := (ucast (drop_bit 24 quot)),
                                            not_z_flag := (ucast quot),
                                            v_flag := VFLAG_CLEAR,
                                            c_flag := CFLAG_CLEAR\<rparr>)
                  else let dividend = (ucast (REG_D s (drop_bit 12 word2 AND 7)) :: u64);
                           (quot, remainder) = (if BIT 11 word2 \<noteq> 0
                                                then let quot = sdiv64 (scast (ucast dividend ::
                                                      u32) :: u64) (scast (ucast divisor :: u32) ::
                                                      u64);
                                                         remainder = smod64 (scast (ucast dividend
                                                               :: u32) :: u64) (scast (ucast
                                                               divisor :: u32) :: u64)
                                                     in (quot, remainder)
                                                else let quot = (dividend div divisor :: u64);
                                                         remainder = (dividend mod divisor :: u64)
                                                     in (quot, remainder));
                           s = set_REG_D (word2 AND 7) (ucast remainder) s;
                           s = set_REG_D (drop_bit 12 word2 AND 7) (ucast quot) s
                       in Ret () (s\<lparr>n_flag := (ucast (drop_bit 24 quot)),
                            not_z_flag := (ucast quot),
                            v_flag := VFLAG_CLEAR,
                            c_flag := CFLAG_CLEAR\<rparr>)
             else m68ki_exception_trap EXCEPTION_ZERO_DIVIDE s))
     else m68ki_exception_illegal s)"

definition m68k_op_muls_16_d :: "'b op" where
  "m68k_op_muls_16_d s =
    (let x = MAKE_INT_16 (DY s);
         s = (if CPU_TYPE_IS_010_LESS (cpu_type s)
              then let c = 0;
                       c = muls_cycle_count x 0 c;
                       s = USE_CYCLES c s
                   in s
              else s);
         res = MASK_OUT_ABOVE_32 (x * MAKE_INT_16 (MASK_OUT_ABOVE_16 (DX s)));
         s = set_DX res s
     in Ret () (s\<lparr>not_z_flag := res,
          n_flag := NFLAG_32 res,
          v_flag := VFLAG_CLEAR,
          c_flag := CFLAG_CLEAR\<rparr>))"

definition m68k_op_muls_16_ai :: "'b op" where
  "m68k_op_muls_16_ai s =
    (chain (OPER_AY_AI_16 s) (\<lambda>v s.
     let x = MAKE_INT_16 v;
         s = (if CPU_TYPE_IS_010_LESS (cpu_type s)
              then let c = 0;
                       c = muls_cycle_count x 0 c;
                       s = USE_CYCLES c s
                   in s
              else s);
         res = MASK_OUT_ABOVE_32 (x * MAKE_INT_16 (MASK_OUT_ABOVE_16 (DX s)));
         s = set_DX res s
     in Ret () (s\<lparr>not_z_flag := res,
          n_flag := NFLAG_32 res,
          v_flag := VFLAG_CLEAR,
          c_flag := CFLAG_CLEAR\<rparr>)))"

definition m68k_op_muls_16_pi :: "'b op" where
  "m68k_op_muls_16_pi s =
    (chain (OPER_AY_PI_16 s) (\<lambda>v s.
     let x = MAKE_INT_16 v;
         s = (if CPU_TYPE_IS_010_LESS (cpu_type s)
              then let c = 0;
                       c = muls_cycle_count x 0 c;
                       s = USE_CYCLES c s
                   in s
              else s);
         res = MASK_OUT_ABOVE_32 (x * MAKE_INT_16 (MASK_OUT_ABOVE_16 (DX s)));
         s = set_DX res s
     in Ret () (s\<lparr>not_z_flag := res,
          n_flag := NFLAG_32 res,
          v_flag := VFLAG_CLEAR,
          c_flag := CFLAG_CLEAR\<rparr>)))"

definition m68k_op_muls_16_pd :: "'b op" where
  "m68k_op_muls_16_pd s =
    (chain (OPER_AY_PD_16 s) (\<lambda>v s.
     let x = MAKE_INT_16 v;
         s = (if CPU_TYPE_IS_010_LESS (cpu_type s)
              then let c = 0;
                       c = muls_cycle_count x 0 c;
                       s = USE_CYCLES c s
                   in s
              else s);
         res = MASK_OUT_ABOVE_32 (x * MAKE_INT_16 (MASK_OUT_ABOVE_16 (DX s)));
         s = set_DX res s
     in Ret () (s\<lparr>not_z_flag := res,
          n_flag := NFLAG_32 res,
          v_flag := VFLAG_CLEAR,
          c_flag := CFLAG_CLEAR\<rparr>)))"

definition m68k_op_muls_16_di :: "'b op" where
  "m68k_op_muls_16_di s =
    (chain (OPER_AY_DI_16 s) (\<lambda>v s.
     let x = MAKE_INT_16 v;
         s = (if CPU_TYPE_IS_010_LESS (cpu_type s)
              then let c = 0;
                       c = muls_cycle_count x 0 c;
                       s = USE_CYCLES c s
                   in s
              else s);
         res = MASK_OUT_ABOVE_32 (x * MAKE_INT_16 (MASK_OUT_ABOVE_16 (DX s)));
         s = set_DX res s
     in Ret () (s\<lparr>not_z_flag := res,
          n_flag := NFLAG_32 res,
          v_flag := VFLAG_CLEAR,
          c_flag := CFLAG_CLEAR\<rparr>)))"

definition m68k_op_muls_16_ix :: "'b op" where
  "m68k_op_muls_16_ix s =
    (chain (OPER_AY_IX_16 s) (\<lambda>v s.
     let x = MAKE_INT_16 v;
         s = (if CPU_TYPE_IS_010_LESS (cpu_type s)
              then let c = 0;
                       c = muls_cycle_count x 0 c;
                       s = USE_CYCLES c s
                   in s
              else s);
         res = MASK_OUT_ABOVE_32 (x * MAKE_INT_16 (MASK_OUT_ABOVE_16 (DX s)));
         s = set_DX res s
     in Ret () (s\<lparr>not_z_flag := res,
          n_flag := NFLAG_32 res,
          v_flag := VFLAG_CLEAR,
          c_flag := CFLAG_CLEAR\<rparr>)))"

definition m68k_op_muls_16_aw :: "'b op" where
  "m68k_op_muls_16_aw s =
    (chain (OPER_AW_16 s) (\<lambda>v s.
     let x = MAKE_INT_16 v;
         s = (if CPU_TYPE_IS_010_LESS (cpu_type s)
              then let c = 0;
                       c = muls_cycle_count x 0 c;
                       s = USE_CYCLES c s
                   in s
              else s);
         res = MASK_OUT_ABOVE_32 (x * MAKE_INT_16 (MASK_OUT_ABOVE_16 (DX s)));
         s = set_DX res s
     in Ret () (s\<lparr>not_z_flag := res,
          n_flag := NFLAG_32 res,
          v_flag := VFLAG_CLEAR,
          c_flag := CFLAG_CLEAR\<rparr>)))"

definition m68k_op_muls_16_al :: "'b op" where
  "m68k_op_muls_16_al s =
    (chain (OPER_AL_16 s) (\<lambda>v s.
     let x = MAKE_INT_16 v;
         s = (if CPU_TYPE_IS_010_LESS (cpu_type s)
              then let c = 0;
                       c = muls_cycle_count x 0 c;
                       s = USE_CYCLES c s
                   in s
              else s);
         res = MASK_OUT_ABOVE_32 (x * MAKE_INT_16 (MASK_OUT_ABOVE_16 (DX s)));
         s = set_DX res s
     in Ret () (s\<lparr>not_z_flag := res,
          n_flag := NFLAG_32 res,
          v_flag := VFLAG_CLEAR,
          c_flag := CFLAG_CLEAR\<rparr>)))"

definition m68k_op_muls_16_pcdi :: "'b op" where
  "m68k_op_muls_16_pcdi s =
    (chain (OPER_PCDI_16 s) (\<lambda>v s.
     let x = MAKE_INT_16 v;
         s = (if CPU_TYPE_IS_010_LESS (cpu_type s)
              then let c = 0;
                       c = muls_cycle_count x 0 c;
                       s = USE_CYCLES c s
                   in s
              else s);
         res = MASK_OUT_ABOVE_32 (x * MAKE_INT_16 (MASK_OUT_ABOVE_16 (DX s)));
         s = set_DX res s
     in Ret () (s\<lparr>not_z_flag := res,
          n_flag := NFLAG_32 res,
          v_flag := VFLAG_CLEAR,
          c_flag := CFLAG_CLEAR\<rparr>)))"

definition m68k_op_muls_16_pcix :: "'b op" where
  "m68k_op_muls_16_pcix s =
    (chain (OPER_PCIX_16 s) (\<lambda>v s.
     let x = MAKE_INT_16 v;
         s = (if CPU_TYPE_IS_010_LESS (cpu_type s)
              then let c = 0;
                       c = muls_cycle_count x 0 c;
                       s = USE_CYCLES c s
                   in s
              else s);
         res = MASK_OUT_ABOVE_32 (x * MAKE_INT_16 (MASK_OUT_ABOVE_16 (DX s)));
         s = set_DX res s
     in Ret () (s\<lparr>not_z_flag := res,
          n_flag := NFLAG_32 res,
          v_flag := VFLAG_CLEAR,
          c_flag := CFLAG_CLEAR\<rparr>)))"

definition m68k_op_muls_16_i :: "'b op" where
  "m68k_op_muls_16_i s =
    (chain (OPER_I_16 s) (\<lambda>v s.
     let x = MAKE_INT_16 v;
         s = (if CPU_TYPE_IS_010_LESS (cpu_type s)
              then let c = 0;
                       c = muls_cycle_count x 0 c;
                       s = USE_CYCLES c s
                   in s
              else s);
         res = MASK_OUT_ABOVE_32 (x * MAKE_INT_16 (MASK_OUT_ABOVE_16 (DX s)));
         s = set_DX res s
     in Ret () (s\<lparr>not_z_flag := res,
          n_flag := NFLAG_32 res,
          v_flag := VFLAG_CLEAR,
          c_flag := CFLAG_CLEAR\<rparr>)))"

definition m68k_op_mulu_16_d :: "'b op" where
  "m68k_op_mulu_16_d s =
    (let x = MASK_OUT_ABOVE_16 (DY s);
         s = (if CPU_TYPE_IS_010_LESS (cpu_type s)
              then let c = 0;
                       c = mulu_cycle_count x c;
                       s = USE_CYCLES c s
                   in s
              else s);
         res = x * MASK_OUT_ABOVE_16 (DX s);
         s = set_DX res s
     in Ret () (s\<lparr>not_z_flag := res,
          n_flag := NFLAG_32 res,
          v_flag := VFLAG_CLEAR,
          c_flag := CFLAG_CLEAR\<rparr>))"

definition m68k_op_mulu_16_ai :: "'b op" where
  "m68k_op_mulu_16_ai s =
    (chain (OPER_AY_AI_16 s) (\<lambda>x s.
     let s = (if CPU_TYPE_IS_010_LESS (cpu_type s)
              then let c = 0;
                       c = mulu_cycle_count x c;
                       s = USE_CYCLES c s
                   in s
              else s);
         res = x * MASK_OUT_ABOVE_16 (DX s);
         s = set_DX res s
     in Ret () (s\<lparr>not_z_flag := res,
          n_flag := NFLAG_32 res,
          v_flag := VFLAG_CLEAR,
          c_flag := CFLAG_CLEAR\<rparr>)))"

definition m68k_op_mulu_16_pi :: "'b op" where
  "m68k_op_mulu_16_pi s =
    (chain (OPER_AY_PI_16 s) (\<lambda>x s.
     let s = (if CPU_TYPE_IS_010_LESS (cpu_type s)
              then let c = 0;
                       c = mulu_cycle_count x c;
                       s = USE_CYCLES c s
                   in s
              else s);
         res = x * MASK_OUT_ABOVE_16 (DX s);
         s = set_DX res s
     in Ret () (s\<lparr>not_z_flag := res,
          n_flag := NFLAG_32 res,
          v_flag := VFLAG_CLEAR,
          c_flag := CFLAG_CLEAR\<rparr>)))"

definition m68k_op_mulu_16_pd :: "'b op" where
  "m68k_op_mulu_16_pd s =
    (chain (OPER_AY_PD_16 s) (\<lambda>x s.
     let s = (if CPU_TYPE_IS_010_LESS (cpu_type s)
              then let c = 0;
                       c = mulu_cycle_count x c;
                       s = USE_CYCLES c s
                   in s
              else s);
         res = x * MASK_OUT_ABOVE_16 (DX s);
         s = set_DX res s
     in Ret () (s\<lparr>not_z_flag := res,
          n_flag := NFLAG_32 res,
          v_flag := VFLAG_CLEAR,
          c_flag := CFLAG_CLEAR\<rparr>)))"

definition m68k_op_mulu_16_di :: "'b op" where
  "m68k_op_mulu_16_di s =
    (chain (OPER_AY_DI_16 s) (\<lambda>x s.
     let s = (if CPU_TYPE_IS_010_LESS (cpu_type s)
              then let c = 0;
                       c = mulu_cycle_count x c;
                       s = USE_CYCLES c s
                   in s
              else s);
         res = x * MASK_OUT_ABOVE_16 (DX s);
         s = set_DX res s
     in Ret () (s\<lparr>not_z_flag := res,
          n_flag := NFLAG_32 res,
          v_flag := VFLAG_CLEAR,
          c_flag := CFLAG_CLEAR\<rparr>)))"

definition m68k_op_mulu_16_ix :: "'b op" where
  "m68k_op_mulu_16_ix s =
    (chain (OPER_AY_IX_16 s) (\<lambda>x s.
     let s = (if CPU_TYPE_IS_010_LESS (cpu_type s)
              then let c = 0;
                       c = mulu_cycle_count x c;
                       s = USE_CYCLES c s
                   in s
              else s);
         res = x * MASK_OUT_ABOVE_16 (DX s);
         s = set_DX res s
     in Ret () (s\<lparr>not_z_flag := res,
          n_flag := NFLAG_32 res,
          v_flag := VFLAG_CLEAR,
          c_flag := CFLAG_CLEAR\<rparr>)))"

definition m68k_op_mulu_16_aw :: "'b op" where
  "m68k_op_mulu_16_aw s =
    (chain (OPER_AW_16 s) (\<lambda>x s.
     let s = (if CPU_TYPE_IS_010_LESS (cpu_type s)
              then let c = 0;
                       c = mulu_cycle_count x c;
                       s = USE_CYCLES c s
                   in s
              else s);
         res = x * MASK_OUT_ABOVE_16 (DX s);
         s = set_DX res s
     in Ret () (s\<lparr>not_z_flag := res,
          n_flag := NFLAG_32 res,
          v_flag := VFLAG_CLEAR,
          c_flag := CFLAG_CLEAR\<rparr>)))"

definition m68k_op_mulu_16_al :: "'b op" where
  "m68k_op_mulu_16_al s =
    (chain (OPER_AL_16 s) (\<lambda>x s.
     let s = (if CPU_TYPE_IS_010_LESS (cpu_type s)
              then let c = 0;
                       c = mulu_cycle_count x c;
                       s = USE_CYCLES c s
                   in s
              else s);
         res = x * MASK_OUT_ABOVE_16 (DX s);
         s = set_DX res s
     in Ret () (s\<lparr>not_z_flag := res,
          n_flag := NFLAG_32 res,
          v_flag := VFLAG_CLEAR,
          c_flag := CFLAG_CLEAR\<rparr>)))"

definition m68k_op_mulu_16_pcdi :: "'b op" where
  "m68k_op_mulu_16_pcdi s =
    (chain (OPER_PCDI_16 s) (\<lambda>x s.
     let s = (if CPU_TYPE_IS_010_LESS (cpu_type s)
              then let c = 0;
                       c = mulu_cycle_count x c;
                       s = USE_CYCLES c s
                   in s
              else s);
         res = x * MASK_OUT_ABOVE_16 (DX s);
         s = set_DX res s
     in Ret () (s\<lparr>not_z_flag := res,
          n_flag := NFLAG_32 res,
          v_flag := VFLAG_CLEAR,
          c_flag := CFLAG_CLEAR\<rparr>)))"

definition m68k_op_mulu_16_pcix :: "'b op" where
  "m68k_op_mulu_16_pcix s =
    (chain (OPER_PCIX_16 s) (\<lambda>x s.
     let s = (if CPU_TYPE_IS_010_LESS (cpu_type s)
              then let c = 0;
                       c = mulu_cycle_count x c;
                       s = USE_CYCLES c s
                   in s
              else s);
         res = x * MASK_OUT_ABOVE_16 (DX s);
         s = set_DX res s
     in Ret () (s\<lparr>not_z_flag := res,
          n_flag := NFLAG_32 res,
          v_flag := VFLAG_CLEAR,
          c_flag := CFLAG_CLEAR\<rparr>)))"

definition m68k_op_mulu_16_i :: "'b op" where
  "m68k_op_mulu_16_i s =
    (chain (OPER_I_16 s) (\<lambda>x s.
     let s = (if CPU_TYPE_IS_010_LESS (cpu_type s)
              then let c = 0;
                       c = mulu_cycle_count x c;
                       s = USE_CYCLES c s
                   in s
              else s);
         res = x * MASK_OUT_ABOVE_16 (DX s);
         s = set_DX res s
     in Ret () (s\<lparr>not_z_flag := res,
          n_flag := NFLAG_32 res,
          v_flag := VFLAG_CLEAR,
          c_flag := CFLAG_CLEAR\<rparr>)))"

definition m68k_op_mull_32_d :: "'b op" where
  "m68k_op_mull_32_d s =
    (if CPU_TYPE_IS_EC020_PLUS (cpu_type s)
     then chain (OPER_I_16 s) (\<lambda>word2 s.
          let src = (ucast (DY s) :: u64);
              dst = (ucast (REG_D s (drop_bit 12 word2 AND 7)) :: u64);
              s = s\<lparr>c_flag := CFLAG_CLEAR\<rparr>
          in if BIT 11 word2 \<noteq> 0
             then let res = (scast (ucast src :: u32) :: u64) * (scast (ucast dst :: u32) :: u64)
                  in if BIT 10 word2 = 0
                     then let s = s\<lparr>not_z_flag := (ucast (res AND 0xffffffff)),
                                    n_flag := (ucast (drop_bit 24 res)),
                                    v_flag := push_bit 7 (bool_word (res \<noteq> (scast (ucast res
                                          :: u32))))\<rparr>
                          in Ret () (set_REG_D (drop_bit 12 word2 AND 7) (not_z_flag s) s)
                     else let s = s\<lparr>not_z_flag := (ucast ((res AND 0xffffffff) OR drop_bit 32 res)),
                                    n_flag := (ucast (NFLAG_64 res)),
                                    v_flag := VFLAG_CLEAR\<rparr>;
                              s = set_REG_D (word2 AND 7) (ucast (drop_bit 32 res)) s
                          in Ret () (set_REG_D (drop_bit 12 word2 AND 7) (ucast (res AND 0xffffffff)) s)
             else let res = (src * dst :: u64)
                  in if BIT 10 word2 = 0
                     then let s = s\<lparr>not_z_flag := (ucast (res AND 0xffffffff)),
                                    n_flag := (ucast (drop_bit 24 res)),
                                    v_flag := push_bit 7 (bool_word (0xffffffff < res))\<rparr>
                          in Ret () (set_REG_D (drop_bit 12 word2 AND 7) (not_z_flag s) s)
                     else let s = s\<lparr>not_z_flag := (ucast ((res AND 0xffffffff) OR drop_bit 32 res)),
                                    n_flag := (ucast (NFLAG_64 res)),
                                    v_flag := VFLAG_CLEAR\<rparr>;
                              s = set_REG_D (word2 AND 7) (ucast (drop_bit 32 res)) s
                          in Ret () (set_REG_D (drop_bit 12 word2 AND 7) (ucast (res AND 0xffffffff)) s))
     else m68ki_exception_illegal s)"

definition m68k_op_mull_32_ai :: "'b op" where
  "m68k_op_mull_32_ai s =
    (if CPU_TYPE_IS_EC020_PLUS (cpu_type s)
     then chain (OPER_I_16 s) (\<lambda>word2 s.
          chain (OPER_AY_AI_32 s) (\<lambda>v2 s.
          let src = (ucast v2 :: u64);
              dst = (ucast (REG_D s (drop_bit 12 word2 AND 7)) :: u64);
              s = s\<lparr>c_flag := CFLAG_CLEAR\<rparr>
          in if BIT 11 word2 \<noteq> 0
             then let res = (scast (ucast src :: u32) :: u64) * (scast (ucast dst :: u32) :: u64)
                  in if BIT 10 word2 = 0
                     then let s = s\<lparr>not_z_flag := (ucast (res AND 0xffffffff)),
                                    n_flag := (ucast (drop_bit 24 res)),
                                    v_flag := push_bit 7 (bool_word (res \<noteq> (scast (ucast res
                                          :: u32))))\<rparr>
                          in Ret () (set_REG_D (drop_bit 12 word2 AND 7) (not_z_flag s) s)
                     else let s = s\<lparr>not_z_flag := (ucast ((res AND 0xffffffff) OR drop_bit 32 res)),
                                    n_flag := (ucast (NFLAG_64 res)),
                                    v_flag := VFLAG_CLEAR\<rparr>;
                              s = set_REG_D (word2 AND 7) (ucast (drop_bit 32 res)) s
                          in Ret () (set_REG_D (drop_bit 12 word2 AND 7) (ucast (res AND 0xffffffff)) s)
             else let res = (src * dst :: u64)
                  in if BIT 10 word2 = 0
                     then let s = s\<lparr>not_z_flag := (ucast (res AND 0xffffffff)),
                                    n_flag := (ucast (drop_bit 24 res)),
                                    v_flag := push_bit 7 (bool_word (0xffffffff < res))\<rparr>
                          in Ret () (set_REG_D (drop_bit 12 word2 AND 7) (not_z_flag s) s)
                     else let s = s\<lparr>not_z_flag := (ucast ((res AND 0xffffffff) OR drop_bit 32 res)),
                                    n_flag := (ucast (NFLAG_64 res)),
                                    v_flag := VFLAG_CLEAR\<rparr>;
                              s = set_REG_D (word2 AND 7) (ucast (drop_bit 32 res)) s
                          in Ret () (set_REG_D (drop_bit 12 word2 AND 7) (ucast (res AND 0xffffffff)) s)))
     else m68ki_exception_illegal s)"

definition m68k_op_mull_32_pi :: "'b op" where
  "m68k_op_mull_32_pi s =
    (if CPU_TYPE_IS_EC020_PLUS (cpu_type s)
     then chain (OPER_I_16 s) (\<lambda>word2 s.
          chain (OPER_AY_PI_32 s) (\<lambda>v2 s.
          let src = (ucast v2 :: u64);
              dst = (ucast (REG_D s (drop_bit 12 word2 AND 7)) :: u64);
              s = s\<lparr>c_flag := CFLAG_CLEAR\<rparr>
          in if BIT 11 word2 \<noteq> 0
             then let res = (scast (ucast src :: u32) :: u64) * (scast (ucast dst :: u32) :: u64)
                  in if BIT 10 word2 = 0
                     then let s = s\<lparr>not_z_flag := (ucast (res AND 0xffffffff)),
                                    n_flag := (ucast (drop_bit 24 res)),
                                    v_flag := push_bit 7 (bool_word (res \<noteq> (scast (ucast res
                                          :: u32))))\<rparr>
                          in Ret () (set_REG_D (drop_bit 12 word2 AND 7) (not_z_flag s) s)
                     else let s = s\<lparr>not_z_flag := (ucast ((res AND 0xffffffff) OR drop_bit 32 res)),
                                    n_flag := (ucast (NFLAG_64 res)),
                                    v_flag := VFLAG_CLEAR\<rparr>;
                              s = set_REG_D (word2 AND 7) (ucast (drop_bit 32 res)) s
                          in Ret () (set_REG_D (drop_bit 12 word2 AND 7) (ucast (res AND 0xffffffff)) s)
             else let res = (src * dst :: u64)
                  in if BIT 10 word2 = 0
                     then let s = s\<lparr>not_z_flag := (ucast (res AND 0xffffffff)),
                                    n_flag := (ucast (drop_bit 24 res)),
                                    v_flag := push_bit 7 (bool_word (0xffffffff < res))\<rparr>
                          in Ret () (set_REG_D (drop_bit 12 word2 AND 7) (not_z_flag s) s)
                     else let s = s\<lparr>not_z_flag := (ucast ((res AND 0xffffffff) OR drop_bit 32 res)),
                                    n_flag := (ucast (NFLAG_64 res)),
                                    v_flag := VFLAG_CLEAR\<rparr>;
                              s = set_REG_D (word2 AND 7) (ucast (drop_bit 32 res)) s
                          in Ret () (set_REG_D (drop_bit 12 word2 AND 7) (ucast (res AND 0xffffffff)) s)))
     else m68ki_exception_illegal s)"

definition m68k_op_mull_32_pd :: "'b op" where
  "m68k_op_mull_32_pd s =
    (if CPU_TYPE_IS_EC020_PLUS (cpu_type s)
     then chain (OPER_I_16 s) (\<lambda>word2 s.
          chain (OPER_AY_PD_32 s) (\<lambda>v2 s.
          let src = (ucast v2 :: u64);
              dst = (ucast (REG_D s (drop_bit 12 word2 AND 7)) :: u64);
              s = s\<lparr>c_flag := CFLAG_CLEAR\<rparr>
          in if BIT 11 word2 \<noteq> 0
             then let res = (scast (ucast src :: u32) :: u64) * (scast (ucast dst :: u32) :: u64)
                  in if BIT 10 word2 = 0
                     then let s = s\<lparr>not_z_flag := (ucast (res AND 0xffffffff)),
                                    n_flag := (ucast (drop_bit 24 res)),
                                    v_flag := push_bit 7 (bool_word (res \<noteq> (scast (ucast res
                                          :: u32))))\<rparr>
                          in Ret () (set_REG_D (drop_bit 12 word2 AND 7) (not_z_flag s) s)
                     else let s = s\<lparr>not_z_flag := (ucast ((res AND 0xffffffff) OR drop_bit 32 res)),
                                    n_flag := (ucast (NFLAG_64 res)),
                                    v_flag := VFLAG_CLEAR\<rparr>;
                              s = set_REG_D (word2 AND 7) (ucast (drop_bit 32 res)) s
                          in Ret () (set_REG_D (drop_bit 12 word2 AND 7) (ucast (res AND 0xffffffff)) s)
             else let res = (src * dst :: u64)
                  in if BIT 10 word2 = 0
                     then let s = s\<lparr>not_z_flag := (ucast (res AND 0xffffffff)),
                                    n_flag := (ucast (drop_bit 24 res)),
                                    v_flag := push_bit 7 (bool_word (0xffffffff < res))\<rparr>
                          in Ret () (set_REG_D (drop_bit 12 word2 AND 7) (not_z_flag s) s)
                     else let s = s\<lparr>not_z_flag := (ucast ((res AND 0xffffffff) OR drop_bit 32 res)),
                                    n_flag := (ucast (NFLAG_64 res)),
                                    v_flag := VFLAG_CLEAR\<rparr>;
                              s = set_REG_D (word2 AND 7) (ucast (drop_bit 32 res)) s
                          in Ret () (set_REG_D (drop_bit 12 word2 AND 7) (ucast (res AND 0xffffffff)) s)))
     else m68ki_exception_illegal s)"

definition m68k_op_mull_32_di :: "'b op" where
  "m68k_op_mull_32_di s =
    (if CPU_TYPE_IS_EC020_PLUS (cpu_type s)
     then chain (OPER_I_16 s) (\<lambda>word2 s.
          chain (OPER_AY_DI_32 s) (\<lambda>v2 s.
          let src = (ucast v2 :: u64);
              dst = (ucast (REG_D s (drop_bit 12 word2 AND 7)) :: u64);
              s = s\<lparr>c_flag := CFLAG_CLEAR\<rparr>
          in if BIT 11 word2 \<noteq> 0
             then let res = (scast (ucast src :: u32) :: u64) * (scast (ucast dst :: u32) :: u64)
                  in if BIT 10 word2 = 0
                     then let s = s\<lparr>not_z_flag := (ucast (res AND 0xffffffff)),
                                    n_flag := (ucast (drop_bit 24 res)),
                                    v_flag := push_bit 7 (bool_word (res \<noteq> (scast (ucast res
                                          :: u32))))\<rparr>
                          in Ret () (set_REG_D (drop_bit 12 word2 AND 7) (not_z_flag s) s)
                     else let s = s\<lparr>not_z_flag := (ucast ((res AND 0xffffffff) OR drop_bit 32 res)),
                                    n_flag := (ucast (NFLAG_64 res)),
                                    v_flag := VFLAG_CLEAR\<rparr>;
                              s = set_REG_D (word2 AND 7) (ucast (drop_bit 32 res)) s
                          in Ret () (set_REG_D (drop_bit 12 word2 AND 7) (ucast (res AND 0xffffffff)) s)
             else let res = (src * dst :: u64)
                  in if BIT 10 word2 = 0
                     then let s = s\<lparr>not_z_flag := (ucast (res AND 0xffffffff)),
                                    n_flag := (ucast (drop_bit 24 res)),
                                    v_flag := push_bit 7 (bool_word (0xffffffff < res))\<rparr>
                          in Ret () (set_REG_D (drop_bit 12 word2 AND 7) (not_z_flag s) s)
                     else let s = s\<lparr>not_z_flag := (ucast ((res AND 0xffffffff) OR drop_bit 32 res)),
                                    n_flag := (ucast (NFLAG_64 res)),
                                    v_flag := VFLAG_CLEAR\<rparr>;
                              s = set_REG_D (word2 AND 7) (ucast (drop_bit 32 res)) s
                          in Ret () (set_REG_D (drop_bit 12 word2 AND 7) (ucast (res AND 0xffffffff)) s)))
     else m68ki_exception_illegal s)"

definition m68k_op_mull_32_ix :: "'b op" where
  "m68k_op_mull_32_ix s =
    (if CPU_TYPE_IS_EC020_PLUS (cpu_type s)
     then chain (OPER_I_16 s) (\<lambda>word2 s.
          chain (OPER_AY_IX_32 s) (\<lambda>v2 s.
          let src = (ucast v2 :: u64);
              dst = (ucast (REG_D s (drop_bit 12 word2 AND 7)) :: u64);
              s = s\<lparr>c_flag := CFLAG_CLEAR\<rparr>
          in if BIT 11 word2 \<noteq> 0
             then let res = (scast (ucast src :: u32) :: u64) * (scast (ucast dst :: u32) :: u64)
                  in if BIT 10 word2 = 0
                     then let s = s\<lparr>not_z_flag := (ucast (res AND 0xffffffff)),
                                    n_flag := (ucast (drop_bit 24 res)),
                                    v_flag := push_bit 7 (bool_word (res \<noteq> (scast (ucast res
                                          :: u32))))\<rparr>
                          in Ret () (set_REG_D (drop_bit 12 word2 AND 7) (not_z_flag s) s)
                     else let s = s\<lparr>not_z_flag := (ucast ((res AND 0xffffffff) OR drop_bit 32 res)),
                                    n_flag := (ucast (NFLAG_64 res)),
                                    v_flag := VFLAG_CLEAR\<rparr>;
                              s = set_REG_D (word2 AND 7) (ucast (drop_bit 32 res)) s
                          in Ret () (set_REG_D (drop_bit 12 word2 AND 7) (ucast (res AND 0xffffffff)) s)
             else let res = (src * dst :: u64)
                  in if BIT 10 word2 = 0
                     then let s = s\<lparr>not_z_flag := (ucast (res AND 0xffffffff)),
                                    n_flag := (ucast (drop_bit 24 res)),
                                    v_flag := push_bit 7 (bool_word (0xffffffff < res))\<rparr>
                          in Ret () (set_REG_D (drop_bit 12 word2 AND 7) (not_z_flag s) s)
                     else let s = s\<lparr>not_z_flag := (ucast ((res AND 0xffffffff) OR drop_bit 32 res)),
                                    n_flag := (ucast (NFLAG_64 res)),
                                    v_flag := VFLAG_CLEAR\<rparr>;
                              s = set_REG_D (word2 AND 7) (ucast (drop_bit 32 res)) s
                          in Ret () (set_REG_D (drop_bit 12 word2 AND 7) (ucast (res AND 0xffffffff)) s)))
     else m68ki_exception_illegal s)"

definition m68k_op_mull_32_aw :: "'b op" where
  "m68k_op_mull_32_aw s =
    (if CPU_TYPE_IS_EC020_PLUS (cpu_type s)
     then chain (OPER_I_16 s) (\<lambda>word2 s.
          chain (OPER_AW_32 s) (\<lambda>v2 s.
          let src = (ucast v2 :: u64);
              dst = (ucast (REG_D s (drop_bit 12 word2 AND 7)) :: u64);
              s = s\<lparr>c_flag := CFLAG_CLEAR\<rparr>
          in if BIT 11 word2 \<noteq> 0
             then let res = (scast (ucast src :: u32) :: u64) * (scast (ucast dst :: u32) :: u64)
                  in if BIT 10 word2 = 0
                     then let s = s\<lparr>not_z_flag := (ucast (res AND 0xffffffff)),
                                    n_flag := (ucast (drop_bit 24 res)),
                                    v_flag := push_bit 7 (bool_word (res \<noteq> (scast (ucast res
                                          :: u32))))\<rparr>
                          in Ret () (set_REG_D (drop_bit 12 word2 AND 7) (not_z_flag s) s)
                     else let s = s\<lparr>not_z_flag := (ucast ((res AND 0xffffffff) OR drop_bit 32 res)),
                                    n_flag := (ucast (NFLAG_64 res)),
                                    v_flag := VFLAG_CLEAR\<rparr>;
                              s = set_REG_D (word2 AND 7) (ucast (drop_bit 32 res)) s
                          in Ret () (set_REG_D (drop_bit 12 word2 AND 7) (ucast (res AND 0xffffffff)) s)
             else let res = (src * dst :: u64)
                  in if BIT 10 word2 = 0
                     then let s = s\<lparr>not_z_flag := (ucast (res AND 0xffffffff)),
                                    n_flag := (ucast (drop_bit 24 res)),
                                    v_flag := push_bit 7 (bool_word (0xffffffff < res))\<rparr>
                          in Ret () (set_REG_D (drop_bit 12 word2 AND 7) (not_z_flag s) s)
                     else let s = s\<lparr>not_z_flag := (ucast ((res AND 0xffffffff) OR drop_bit 32 res)),
                                    n_flag := (ucast (NFLAG_64 res)),
                                    v_flag := VFLAG_CLEAR\<rparr>;
                              s = set_REG_D (word2 AND 7) (ucast (drop_bit 32 res)) s
                          in Ret () (set_REG_D (drop_bit 12 word2 AND 7) (ucast (res AND 0xffffffff)) s)))
     else m68ki_exception_illegal s)"

definition m68k_op_mull_32_al :: "'b op" where
  "m68k_op_mull_32_al s =
    (if CPU_TYPE_IS_EC020_PLUS (cpu_type s)
     then chain (OPER_I_16 s) (\<lambda>word2 s.
          chain (OPER_AL_32 s) (\<lambda>v2 s.
          let src = (ucast v2 :: u64);
              dst = (ucast (REG_D s (drop_bit 12 word2 AND 7)) :: u64);
              s = s\<lparr>c_flag := CFLAG_CLEAR\<rparr>
          in if BIT 11 word2 \<noteq> 0
             then let res = (scast (ucast src :: u32) :: u64) * (scast (ucast dst :: u32) :: u64)
                  in if BIT 10 word2 = 0
                     then let s = s\<lparr>not_z_flag := (ucast (res AND 0xffffffff)),
                                    n_flag := (ucast (drop_bit 24 res)),
                                    v_flag := push_bit 7 (bool_word (res \<noteq> (scast (ucast res
                                          :: u32))))\<rparr>
                          in Ret () (set_REG_D (drop_bit 12 word2 AND 7) (not_z_flag s) s)
                     else let s = s\<lparr>not_z_flag := (ucast ((res AND 0xffffffff) OR drop_bit 32 res)),
                                    n_flag := (ucast (NFLAG_64 res)),
                                    v_flag := VFLAG_CLEAR\<rparr>;
                              s = set_REG_D (word2 AND 7) (ucast (drop_bit 32 res)) s
                          in Ret () (set_REG_D (drop_bit 12 word2 AND 7) (ucast (res AND 0xffffffff)) s)
             else let res = (src * dst :: u64)
                  in if BIT 10 word2 = 0
                     then let s = s\<lparr>not_z_flag := (ucast (res AND 0xffffffff)),
                                    n_flag := (ucast (drop_bit 24 res)),
                                    v_flag := push_bit 7 (bool_word (0xffffffff < res))\<rparr>
                          in Ret () (set_REG_D (drop_bit 12 word2 AND 7) (not_z_flag s) s)
                     else let s = s\<lparr>not_z_flag := (ucast ((res AND 0xffffffff) OR drop_bit 32 res)),
                                    n_flag := (ucast (NFLAG_64 res)),
                                    v_flag := VFLAG_CLEAR\<rparr>;
                              s = set_REG_D (word2 AND 7) (ucast (drop_bit 32 res)) s
                          in Ret () (set_REG_D (drop_bit 12 word2 AND 7) (ucast (res AND 0xffffffff)) s)))
     else m68ki_exception_illegal s)"

definition m68k_op_mull_32_pcdi :: "'b op" where
  "m68k_op_mull_32_pcdi s =
    (if CPU_TYPE_IS_EC020_PLUS (cpu_type s)
     then chain (OPER_I_16 s) (\<lambda>word2 s.
          chain (OPER_PCDI_32 s) (\<lambda>v2 s.
          let src = (ucast v2 :: u64);
              dst = (ucast (REG_D s (drop_bit 12 word2 AND 7)) :: u64);
              s = s\<lparr>c_flag := CFLAG_CLEAR\<rparr>
          in if BIT 11 word2 \<noteq> 0
             then let res = (scast (ucast src :: u32) :: u64) * (scast (ucast dst :: u32) :: u64)
                  in if BIT 10 word2 = 0
                     then let s = s\<lparr>not_z_flag := (ucast (res AND 0xffffffff)),
                                    n_flag := (ucast (drop_bit 24 res)),
                                    v_flag := push_bit 7 (bool_word (res \<noteq> (scast (ucast res
                                          :: u32))))\<rparr>
                          in Ret () (set_REG_D (drop_bit 12 word2 AND 7) (not_z_flag s) s)
                     else let s = s\<lparr>not_z_flag := (ucast ((res AND 0xffffffff) OR drop_bit 32 res)),
                                    n_flag := (ucast (NFLAG_64 res)),
                                    v_flag := VFLAG_CLEAR\<rparr>;
                              s = set_REG_D (word2 AND 7) (ucast (drop_bit 32 res)) s
                          in Ret () (set_REG_D (drop_bit 12 word2 AND 7) (ucast (res AND 0xffffffff)) s)
             else let res = (src * dst :: u64)
                  in if BIT 10 word2 = 0
                     then let s = s\<lparr>not_z_flag := (ucast (res AND 0xffffffff)),
                                    n_flag := (ucast (drop_bit 24 res)),
                                    v_flag := push_bit 7 (bool_word (0xffffffff < res))\<rparr>
                          in Ret () (set_REG_D (drop_bit 12 word2 AND 7) (not_z_flag s) s)
                     else let s = s\<lparr>not_z_flag := (ucast ((res AND 0xffffffff) OR drop_bit 32 res)),
                                    n_flag := (ucast (NFLAG_64 res)),
                                    v_flag := VFLAG_CLEAR\<rparr>;
                              s = set_REG_D (word2 AND 7) (ucast (drop_bit 32 res)) s
                          in Ret () (set_REG_D (drop_bit 12 word2 AND 7) (ucast (res AND 0xffffffff)) s)))
     else m68ki_exception_illegal s)"

definition m68k_op_mull_32_pcix :: "'b op" where
  "m68k_op_mull_32_pcix s =
    (if CPU_TYPE_IS_EC020_PLUS (cpu_type s)
     then chain (OPER_I_16 s) (\<lambda>word2 s.
          chain (OPER_PCIX_32 s) (\<lambda>v2 s.
          let src = (ucast v2 :: u64);
              dst = (ucast (REG_D s (drop_bit 12 word2 AND 7)) :: u64);
              s = s\<lparr>c_flag := CFLAG_CLEAR\<rparr>
          in if BIT 11 word2 \<noteq> 0
             then let res = (scast (ucast src :: u32) :: u64) * (scast (ucast dst :: u32) :: u64)
                  in if BIT 10 word2 = 0
                     then let s = s\<lparr>not_z_flag := (ucast (res AND 0xffffffff)),
                                    n_flag := (ucast (drop_bit 24 res)),
                                    v_flag := push_bit 7 (bool_word (res \<noteq> (scast (ucast res
                                          :: u32))))\<rparr>
                          in Ret () (set_REG_D (drop_bit 12 word2 AND 7) (not_z_flag s) s)
                     else let s = s\<lparr>not_z_flag := (ucast ((res AND 0xffffffff) OR drop_bit 32 res)),
                                    n_flag := (ucast (NFLAG_64 res)),
                                    v_flag := VFLAG_CLEAR\<rparr>;
                              s = set_REG_D (word2 AND 7) (ucast (drop_bit 32 res)) s
                          in Ret () (set_REG_D (drop_bit 12 word2 AND 7) (ucast (res AND 0xffffffff)) s)
             else let res = (src * dst :: u64)
                  in if BIT 10 word2 = 0
                     then let s = s\<lparr>not_z_flag := (ucast (res AND 0xffffffff)),
                                    n_flag := (ucast (drop_bit 24 res)),
                                    v_flag := push_bit 7 (bool_word (0xffffffff < res))\<rparr>
                          in Ret () (set_REG_D (drop_bit 12 word2 AND 7) (not_z_flag s) s)
                     else let s = s\<lparr>not_z_flag := (ucast ((res AND 0xffffffff) OR drop_bit 32 res)),
                                    n_flag := (ucast (NFLAG_64 res)),
                                    v_flag := VFLAG_CLEAR\<rparr>;
                              s = set_REG_D (word2 AND 7) (ucast (drop_bit 32 res)) s
                          in Ret () (set_REG_D (drop_bit 12 word2 AND 7) (ucast (res AND 0xffffffff)) s)))
     else m68ki_exception_illegal s)"

definition m68k_op_mull_32_i :: "'b op" where
  "m68k_op_mull_32_i s =
    (if CPU_TYPE_IS_EC020_PLUS (cpu_type s)
     then chain (OPER_I_16 s) (\<lambda>word2 s.
          chain (OPER_I_32 s) (\<lambda>v2 s.
          let src = (ucast v2 :: u64);
              dst = (ucast (REG_D s (drop_bit 12 word2 AND 7)) :: u64);
              s = s\<lparr>c_flag := CFLAG_CLEAR\<rparr>
          in if BIT 11 word2 \<noteq> 0
             then let res = (scast (ucast src :: u32) :: u64) * (scast (ucast dst :: u32) :: u64)
                  in if BIT 10 word2 = 0
                     then let s = s\<lparr>not_z_flag := (ucast (res AND 0xffffffff)),
                                    n_flag := (ucast (drop_bit 24 res)),
                                    v_flag := push_bit 7 (bool_word (res \<noteq> (scast (ucast res
                                          :: u32))))\<rparr>
                          in Ret () (set_REG_D (drop_bit 12 word2 AND 7) (not_z_flag s) s)
                     else let s = s\<lparr>not_z_flag := (ucast ((res AND 0xffffffff) OR drop_bit 32 res)),
                                    n_flag := (ucast (NFLAG_64 res)),
                                    v_flag := VFLAG_CLEAR\<rparr>;
                              s = set_REG_D (word2 AND 7) (ucast (drop_bit 32 res)) s
                          in Ret () (set_REG_D (drop_bit 12 word2 AND 7) (ucast (res AND 0xffffffff)) s)
             else let res = (src * dst :: u64)
                  in if BIT 10 word2 = 0
                     then let s = s\<lparr>not_z_flag := (ucast (res AND 0xffffffff)),
                                    n_flag := (ucast (drop_bit 24 res)),
                                    v_flag := push_bit 7 (bool_word (0xffffffff < res))\<rparr>
                          in Ret () (set_REG_D (drop_bit 12 word2 AND 7) (not_z_flag s) s)
                     else let s = s\<lparr>not_z_flag := (ucast ((res AND 0xffffffff) OR drop_bit 32 res)),
                                    n_flag := (ucast (NFLAG_64 res)),
                                    v_flag := VFLAG_CLEAR\<rparr>;
                              s = set_REG_D (word2 AND 7) (ucast (drop_bit 32 res)) s
                          in Ret () (set_REG_D (drop_bit 12 word2 AND 7) (ucast (res AND 0xffffffff)) s)))
     else m68ki_exception_illegal s)"

end
