(* ===== verification/OpsRegister.thy ===== *)
theory OpsRegister
  imports OpsBase
begin

section \<open>Instruction handlers: EXG, EXT, SWAP, LEA, PEA, LINK and UNLK\<close>

text \<open>
  The handlers of m68kops.c for EXG, EXT, SWAP, LEA, PEA, LINK and UNLK.
  One definition per handler, under the name of its C function; the effective address is part of
  the name.
\<close>

unbundle bit_operations_syntax

definition m68k_op_exg_32_dd :: "'b op" where
  "m68k_op_exg_32_dd s =
    (let tmp = DX s;
         s = set_DX (DY s) s
     in Ret () (set_DY tmp s))"

definition m68k_op_exg_32_aa :: "'b op" where
  "m68k_op_exg_32_aa s =
    (let tmp = AX s;
         s = set_AX (AY s) s
     in Ret () (set_AY tmp s))"

definition m68k_op_exg_32_da :: "'b op" where
  "m68k_op_exg_32_da s =
    (let tmp = DX s;
         s = set_DX (AY s) s
     in Ret () (set_AY tmp s))"

definition m68k_op_ext_16 :: "'b op" where
  "m68k_op_ext_16 s =
    (let s = set_DY (MASK_OUT_BELOW_16 (DY s) OR MASK_OUT_ABOVE_8 (DY s) OR (if BIT 7 (DY s)
          \<noteq> 0 then 0xff00 else 0)) s
     in Ret () (s\<lparr>n_flag := NFLAG_16 (DY s),
          not_z_flag := MASK_OUT_ABOVE_16 (DY s),
          v_flag := VFLAG_CLEAR,
          c_flag := CFLAG_CLEAR\<rparr>))"

definition m68k_op_ext_32 :: "'b op" where
  "m68k_op_ext_32 s =
    (let s = set_DY (MASK_OUT_ABOVE_16 (DY s) OR (if BIT 15 (DY s) \<noteq> 0 then 0xffff0000 else 0)) s
     in Ret () (s\<lparr>n_flag := NFLAG_32 (DY s),
          not_z_flag := DY s,
          v_flag := VFLAG_CLEAR,
          c_flag := CFLAG_CLEAR\<rparr>))"

definition m68k_op_extb_32 :: "'b op" where
  "m68k_op_extb_32 s =
    (if CPU_TYPE_IS_EC020_PLUS (cpu_type s)
     then let s = set_DY (MASK_OUT_ABOVE_8 (DY s) OR (if BIT 7 (DY s) \<noteq> 0 then 0xffffff00 else 0)) s
          in Ret () (s\<lparr>n_flag := NFLAG_32 (DY s),
               not_z_flag := DY s,
               v_flag := VFLAG_CLEAR,
               c_flag := CFLAG_CLEAR\<rparr>)
     else m68ki_exception_illegal s)"

definition m68k_op_lea_32_ai :: "'b op" where
  "m68k_op_lea_32_ai s =
    (chain (EA_AY_AI_32 s) (\<lambda>ea s.
     Ret () (set_AX ea s)))"

definition m68k_op_lea_32_di :: "'b op" where
  "m68k_op_lea_32_di s =
    (chain (EA_AY_DI_32 s) (\<lambda>ea s.
     Ret () (set_AX ea s)))"

definition m68k_op_lea_32_ix :: "'b op" where
  "m68k_op_lea_32_ix s =
    (chain (EA_AY_IX_32 s) (\<lambda>ea s.
     Ret () (set_AX ea s)))"

definition m68k_op_lea_32_aw :: "'b op" where
  "m68k_op_lea_32_aw s =
    (chain (EA_AW_32 s) (\<lambda>ea s.
     Ret () (set_AX ea s)))"

definition m68k_op_lea_32_al :: "'b op" where
  "m68k_op_lea_32_al s =
    (chain (EA_AL_32 s) (\<lambda>ea s.
     Ret () (set_AX ea s)))"

definition m68k_op_lea_32_pcdi :: "'b op" where
  "m68k_op_lea_32_pcdi s =
    (chain (EA_PCDI_32 s) (\<lambda>ea s.
     Ret () (set_AX ea s)))"

definition m68k_op_lea_32_pcix :: "'b op" where
  "m68k_op_lea_32_pcix s =
    (chain (EA_PCIX_32 s) (\<lambda>ea s.
     Ret () (set_AX ea s)))"

definition m68k_op_link_16_a7 :: "'b op" where
  "m68k_op_link_16_a7 s =
    (let s = set_REG_A 7 ((REG_A s 7) - 4) s
     in chain (m68ki_write_32 (REG_A s 7) (REG_A s 7) s) (\<lambda>_ s.
        chain (OPER_I_16 s) (\<lambda>v s.
        Ret () (set_REG_A 7 (MASK_OUT_ABOVE_32 (REG_A s 7 + MAKE_INT_16 v)) s))))"

definition m68k_op_link_16 :: "'b op" where
  "m68k_op_link_16 s =
    (chain (m68ki_push_32 (AY s) s) (\<lambda>_ s.
     let s = set_AY (REG_A s 7) s
     in chain (OPER_I_16 s) (\<lambda>v s.
        Ret () (set_REG_A 7 (MASK_OUT_ABOVE_32 (REG_A s 7 + MAKE_INT_16 v)) s))))"

definition m68k_op_link_32_a7 :: "'b op" where
  "m68k_op_link_32_a7 s =
    (if CPU_TYPE_IS_EC020_PLUS (cpu_type s)
     then let s = set_REG_A 7 ((REG_A s 7) - 4) s
          in chain (m68ki_write_32 (REG_A s 7) (REG_A s 7) s) (\<lambda>_ s.
             chain (OPER_I_32 s) (\<lambda>v s.
             Ret () (set_REG_A 7 (MASK_OUT_ABOVE_32 (REG_A s 7 + v)) s)))
     else m68ki_exception_illegal s)"

definition m68k_op_link_32 :: "'b op" where
  "m68k_op_link_32 s =
    (if CPU_TYPE_IS_EC020_PLUS (cpu_type s)
     then chain (m68ki_push_32 (AY s) s) (\<lambda>_ s.
          let s = set_AY (REG_A s 7) s
          in chain (OPER_I_32 s) (\<lambda>v s.
             Ret () (set_REG_A 7 (MASK_OUT_ABOVE_32 (REG_A s 7 + v)) s)))
     else m68ki_exception_illegal s)"

definition m68k_op_pea_32_ai :: "'b op" where
  "m68k_op_pea_32_ai s =
    (chain (EA_AY_AI_32 s) (\<lambda>ea s.
     m68ki_push_32 ea s))"

definition m68k_op_pea_32_di :: "'b op" where
  "m68k_op_pea_32_di s =
    (chain (EA_AY_DI_32 s) (\<lambda>ea s.
     m68ki_push_32 ea s))"

definition m68k_op_pea_32_ix :: "'b op" where
  "m68k_op_pea_32_ix s =
    (chain (EA_AY_IX_32 s) (\<lambda>ea s.
     m68ki_push_32 ea s))"

definition m68k_op_pea_32_aw :: "'b op" where
  "m68k_op_pea_32_aw s =
    (chain (EA_AW_32 s) (\<lambda>ea s.
     m68ki_push_32 ea s))"

definition m68k_op_pea_32_al :: "'b op" where
  "m68k_op_pea_32_al s =
    (chain (EA_AL_32 s) (\<lambda>ea s.
     m68ki_push_32 ea s))"

definition m68k_op_pea_32_pcdi :: "'b op" where
  "m68k_op_pea_32_pcdi s =
    (chain (EA_PCDI_32 s) (\<lambda>ea s.
     m68ki_push_32 ea s))"

definition m68k_op_pea_32_pcix :: "'b op" where
  "m68k_op_pea_32_pcix s =
    (chain (EA_PCIX_32 s) (\<lambda>ea s.
     m68ki_push_32 ea s))"

definition m68k_op_swap_32 :: "'b op" where
  "m68k_op_swap_32 s =
    (let s = s\<lparr>not_z_flag := MASK_OUT_ABOVE_32 (push_bit 16 (DY s))\<rparr>;
         s = set_DY (drop_bit 16 (DY s) OR not_z_flag s) s
     in Ret () (s\<lparr>not_z_flag := DY s,
          n_flag := NFLAG_32 (DY s),
          c_flag := CFLAG_CLEAR,
          v_flag := VFLAG_CLEAR\<rparr>))"

definition m68k_op_unlk_32_a7 :: "'b op" where
  "m68k_op_unlk_32_a7 s =
    (chain (m68ki_read_32 (REG_A s 7) s) (\<lambda>v s.
     Ret () (set_REG_A 7 v s)))"

definition m68k_op_unlk_32 :: "'b op" where
  "m68k_op_unlk_32 s =
    (let s = set_REG_A 7 (AY s) s
     in chain (m68ki_pull_32 s) (\<lambda>v s.
        Ret () (set_AY v s)))"

end
