(* ===== verification/OpsShift.thy ===== *)
theory OpsShift
  imports OpsBase
begin

section \<open>Instruction handlers: the shifts and rotations\<close>

text \<open>
  The handlers of m68kops.c for the shifts and rotations.
  One definition per handler, under the name of its C function; the effective address is part of
  the name.
\<close>

unbundle bit_operations_syntax

definition m68k_op_asr_8_s :: "'b op" where
  "m68k_op_asr_8_s s =
    (let shift = ((drop_bit 9 (ir s) - 1) AND 7) + 1;
         src = MASK_OUT_ABOVE_8 (DY s);
         res = drop_bit (unat shift) src;
         s = (if shift \<noteq> 0 \<and> CPU_TYPE_IS_010_LESS (cpu_type s)
              then USE_CYCLES (push_bit (unat (cyc_shift s)) shift) s
              else s);
         res = (if BIT 7 src \<noteq> 0
                then res OR (m68ki_shift_8_table ! unat shift)
                else res);
         s = set_DY (MASK_OUT_BELOW_8 (DY s) OR res) s
     in Ret () (s\<lparr>n_flag := NFLAG_8 res,
          not_z_flag := res,
          v_flag := VFLAG_CLEAR,
          c_flag := push_bit (unat (9 - shift)) src,
          x_flag := push_bit (unat (9 - shift)) src\<rparr>))"

definition m68k_op_asr_16_s :: "'b op" where
  "m68k_op_asr_16_s s =
    (let shift = ((drop_bit 9 (ir s) - 1) AND 7) + 1;
         src = MASK_OUT_ABOVE_16 (DY s);
         res = drop_bit (unat shift) src;
         s = (if shift \<noteq> 0 \<and> CPU_TYPE_IS_010_LESS (cpu_type s)
              then USE_CYCLES (push_bit (unat (cyc_shift s)) shift) s
              else s);
         res = (if BIT 15 src \<noteq> 0
                then res OR (m68ki_shift_16_table ! unat shift)
                else res);
         s = set_DY (MASK_OUT_BELOW_16 (DY s) OR res) s
     in Ret () (s\<lparr>n_flag := NFLAG_16 res,
          not_z_flag := res,
          v_flag := VFLAG_CLEAR,
          c_flag := push_bit (unat (9 - shift)) src,
          x_flag := push_bit (unat (9 - shift)) src\<rparr>))"

definition m68k_op_asr_32_s :: "'b op" where
  "m68k_op_asr_32_s s =
    (let shift = ((drop_bit 9 (ir s) - 1) AND 7) + 1;
         src = DY s;
         res = drop_bit (unat shift) src;
         s = (if shift \<noteq> 0 \<and> CPU_TYPE_IS_010_LESS (cpu_type s)
              then USE_CYCLES (push_bit (unat (cyc_shift s)) shift) s
              else s);
         res = (if BIT 31 src \<noteq> 0
                then res OR (m68ki_shift_32_table ! unat shift)
                else res);
         s = set_DY res s
     in Ret () (s\<lparr>n_flag := NFLAG_32 res,
          not_z_flag := res,
          v_flag := VFLAG_CLEAR,
          c_flag := push_bit (unat (9 - shift)) src,
          x_flag := push_bit (unat (9 - shift)) src\<rparr>))"

definition m68k_op_asr_8_r :: "'b op" where
  "m68k_op_asr_8_r s =
    (let shift = DX s AND 0x3f;
         src = MASK_OUT_ABOVE_8 (DY s);
         res = drop_bit (unat shift) src
     in if shift \<noteq> 0
        then let s = (if CPU_TYPE_IS_010_LESS (cpu_type s)
                      then USE_CYCLES (push_bit (unat (cyc_shift s)) shift) s
                      else s)
             in if shift < 8
                then let res = (if BIT 7 src \<noteq> 0
                                then res OR (m68ki_shift_8_table ! unat shift)
                                else res);
                         s = set_DY (MASK_OUT_BELOW_8 (DY s) OR res) s
                     in Ret () (s\<lparr>c_flag := push_bit (unat (9 - shift)) src,
                          x_flag := push_bit (unat (9 - shift)) src,
                          n_flag := NFLAG_8 res,
                          not_z_flag := res,
                          v_flag := VFLAG_CLEAR\<rparr>)
                else if BIT 7 src \<noteq> 0
                then let s = set_DY ((DY s) OR 0xff) s
                     in Ret () (s\<lparr>c_flag := CFLAG_SET,
                          x_flag := XFLAG_SET,
                          n_flag := NFLAG_SET,
                          not_z_flag := ZFLAG_CLEAR,
                          v_flag := VFLAG_CLEAR\<rparr>)
                else let s = set_DY ((DY s) AND 0xffffff00) s
                     in Ret () (s\<lparr>c_flag := CFLAG_CLEAR,
                          x_flag := XFLAG_CLEAR,
                          n_flag := NFLAG_CLEAR,
                          not_z_flag := ZFLAG_SET,
                          v_flag := VFLAG_CLEAR\<rparr>)
        else Ret () (s\<lparr>c_flag := CFLAG_CLEAR,
               n_flag := NFLAG_8 src,
               not_z_flag := src,
               v_flag := VFLAG_CLEAR\<rparr>))"

definition m68k_op_asr_16_r :: "'b op" where
  "m68k_op_asr_16_r s =
    (let shift = DX s AND 0x3f;
         src = MASK_OUT_ABOVE_16 (DY s);
         res = drop_bit (unat shift) src
     in if shift \<noteq> 0
        then let s = (if CPU_TYPE_IS_010_LESS (cpu_type s)
                      then USE_CYCLES (push_bit (unat (cyc_shift s)) shift) s
                      else s)
             in if shift < 16
                then let res = (if BIT 15 src \<noteq> 0
                                then res OR (m68ki_shift_16_table ! unat shift)
                                else res);
                         s = set_DY (MASK_OUT_BELOW_16 (DY s) OR res) s
                     in Ret () (s\<lparr>x_flag := push_bit 8 (drop_bit (unat (shift - 1)) src),
                          c_flag := push_bit 8 (drop_bit (unat (shift - 1)) src),
                          n_flag := NFLAG_16 res,
                          not_z_flag := res,
                          v_flag := VFLAG_CLEAR\<rparr>)
                else if BIT 15 src \<noteq> 0
                then let s = set_DY ((DY s) OR 0xffff) s
                     in Ret () (s\<lparr>c_flag := CFLAG_SET,
                          x_flag := XFLAG_SET,
                          n_flag := NFLAG_SET,
                          not_z_flag := ZFLAG_CLEAR,
                          v_flag := VFLAG_CLEAR\<rparr>)
                else let s = set_DY ((DY s) AND 0xffff0000) s
                     in Ret () (s\<lparr>c_flag := CFLAG_CLEAR,
                          x_flag := XFLAG_CLEAR,
                          n_flag := NFLAG_CLEAR,
                          not_z_flag := ZFLAG_SET,
                          v_flag := VFLAG_CLEAR\<rparr>)
        else Ret () (s\<lparr>c_flag := CFLAG_CLEAR,
               n_flag := NFLAG_16 src,
               not_z_flag := src,
               v_flag := VFLAG_CLEAR\<rparr>))"

definition m68k_op_asr_32_r :: "'b op" where
  "m68k_op_asr_32_r s =
    (let shift = DX s AND 0x3f;
         src = DY s;
         res = drop_bit (unat shift) src
     in if shift \<noteq> 0
        then let s = (if CPU_TYPE_IS_010_LESS (cpu_type s)
                      then USE_CYCLES (push_bit (unat (cyc_shift s)) shift) s
                      else s)
             in if shift < 32
                then let res = (if BIT 31 src \<noteq> 0
                                then res OR (m68ki_shift_32_table ! unat shift)
                                else res);
                         s = set_DY res s
                     in Ret () (s\<lparr>x_flag := push_bit 8 (drop_bit (unat (shift - 1)) src),
                          c_flag := push_bit 8 (drop_bit (unat (shift - 1)) src),
                          n_flag := NFLAG_32 res,
                          not_z_flag := res,
                          v_flag := VFLAG_CLEAR\<rparr>)
                else if BIT 31 src \<noteq> 0
                then let s = set_DY 0xffffffff s
                     in Ret () (s\<lparr>c_flag := CFLAG_SET,
                          x_flag := XFLAG_SET,
                          n_flag := NFLAG_SET,
                          not_z_flag := ZFLAG_CLEAR,
                          v_flag := VFLAG_CLEAR\<rparr>)
                else let s = set_DY 0 s
                     in Ret () (s\<lparr>c_flag := CFLAG_CLEAR,
                          x_flag := XFLAG_CLEAR,
                          n_flag := NFLAG_CLEAR,
                          not_z_flag := ZFLAG_SET,
                          v_flag := VFLAG_CLEAR\<rparr>)
        else Ret () (s\<lparr>c_flag := CFLAG_CLEAR,
               n_flag := NFLAG_32 src,
               not_z_flag := src,
               v_flag := VFLAG_CLEAR\<rparr>))"

definition m68k_op_asr_16_ai :: "'b op" where
  "m68k_op_asr_16_ai s =
    (chain (EA_AY_AI_16 s) (\<lambda>ea s.
     chain (m68ki_read_16 ea s) (\<lambda>src s.
     let res = drop_bit 1 src;
         res = (if BIT 15 src \<noteq> 0
                then res OR 0x8000
                else res)
     in chain (m68ki_write_16 ea res s) (\<lambda>_ s.
        Ret () (s\<lparr>n_flag := NFLAG_16 res,
          not_z_flag := res,
          v_flag := VFLAG_CLEAR,
          x_flag := push_bit 8 src,
          c_flag := push_bit 8 src\<rparr>)))))"

definition m68k_op_asr_16_pi :: "'b op" where
  "m68k_op_asr_16_pi s =
    (chain (EA_AY_PI_16 s) (\<lambda>ea s.
     chain (m68ki_read_16 ea s) (\<lambda>src s.
     let res = drop_bit 1 src;
         res = (if BIT 15 src \<noteq> 0
                then res OR 0x8000
                else res)
     in chain (m68ki_write_16 ea res s) (\<lambda>_ s.
        Ret () (s\<lparr>n_flag := NFLAG_16 res,
          not_z_flag := res,
          v_flag := VFLAG_CLEAR,
          x_flag := push_bit 8 src,
          c_flag := push_bit 8 src\<rparr>)))))"

definition m68k_op_asr_16_pd :: "'b op" where
  "m68k_op_asr_16_pd s =
    (chain (EA_AY_PD_16 s) (\<lambda>ea s.
     chain (m68ki_read_16 ea s) (\<lambda>src s.
     let res = drop_bit 1 src;
         res = (if BIT 15 src \<noteq> 0
                then res OR 0x8000
                else res)
     in chain (m68ki_write_16 ea res s) (\<lambda>_ s.
        Ret () (s\<lparr>n_flag := NFLAG_16 res,
          not_z_flag := res,
          v_flag := VFLAG_CLEAR,
          x_flag := push_bit 8 src,
          c_flag := push_bit 8 src\<rparr>)))))"

definition m68k_op_asr_16_di :: "'b op" where
  "m68k_op_asr_16_di s =
    (chain (EA_AY_DI_16 s) (\<lambda>ea s.
     chain (m68ki_read_16 ea s) (\<lambda>src s.
     let res = drop_bit 1 src;
         res = (if BIT 15 src \<noteq> 0
                then res OR 0x8000
                else res)
     in chain (m68ki_write_16 ea res s) (\<lambda>_ s.
        Ret () (s\<lparr>n_flag := NFLAG_16 res,
          not_z_flag := res,
          v_flag := VFLAG_CLEAR,
          x_flag := push_bit 8 src,
          c_flag := push_bit 8 src\<rparr>)))))"

definition m68k_op_asr_16_ix :: "'b op" where
  "m68k_op_asr_16_ix s =
    (chain (EA_AY_IX_16 s) (\<lambda>ea s.
     chain (m68ki_read_16 ea s) (\<lambda>src s.
     let res = drop_bit 1 src;
         res = (if BIT 15 src \<noteq> 0
                then res OR 0x8000
                else res)
     in chain (m68ki_write_16 ea res s) (\<lambda>_ s.
        Ret () (s\<lparr>n_flag := NFLAG_16 res,
          not_z_flag := res,
          v_flag := VFLAG_CLEAR,
          x_flag := push_bit 8 src,
          c_flag := push_bit 8 src\<rparr>)))))"

definition m68k_op_asr_16_aw :: "'b op" where
  "m68k_op_asr_16_aw s =
    (chain (EA_AW_16 s) (\<lambda>ea s.
     chain (m68ki_read_16 ea s) (\<lambda>src s.
     let res = drop_bit 1 src;
         res = (if BIT 15 src \<noteq> 0
                then res OR 0x8000
                else res)
     in chain (m68ki_write_16 ea res s) (\<lambda>_ s.
        Ret () (s\<lparr>n_flag := NFLAG_16 res,
          not_z_flag := res,
          v_flag := VFLAG_CLEAR,
          x_flag := push_bit 8 src,
          c_flag := push_bit 8 src\<rparr>)))))"

definition m68k_op_asr_16_al :: "'b op" where
  "m68k_op_asr_16_al s =
    (chain (EA_AL_16 s) (\<lambda>ea s.
     chain (m68ki_read_16 ea s) (\<lambda>src s.
     let res = drop_bit 1 src;
         res = (if BIT 15 src \<noteq> 0
                then res OR 0x8000
                else res)
     in chain (m68ki_write_16 ea res s) (\<lambda>_ s.
        Ret () (s\<lparr>n_flag := NFLAG_16 res,
          not_z_flag := res,
          v_flag := VFLAG_CLEAR,
          x_flag := push_bit 8 src,
          c_flag := push_bit 8 src\<rparr>)))))"

definition m68k_op_asl_8_s :: "'b op" where
  "m68k_op_asl_8_s s =
    (let shift = ((drop_bit 9 (ir s) - 1) AND 7) + 1;
         src = MASK_OUT_ABOVE_8 (DY s);
         res = MASK_OUT_ABOVE_8 (push_bit (unat shift) src);
         s = (if shift \<noteq> 0 \<and> CPU_TYPE_IS_010_LESS (cpu_type s)
              then USE_CYCLES (push_bit (unat (cyc_shift s)) shift) s
              else s);
         s = set_DY (MASK_OUT_BELOW_8 (DY s) OR res) s;
         s = s\<lparr>c_flag := push_bit (unat shift) src,
               x_flag := push_bit (unat shift) src,
               n_flag := NFLAG_8 res,
               not_z_flag := res\<rparr>;
         src = src AND (m68ki_shift_8_table ! unat (shift + 1))
     in Ret () (s\<lparr>v_flag := push_bit 7 (bool_word (\<not> (src = 0 \<or> (src =
           m68ki_shift_8_table ! unat (shift + 1) \<and> shift < 8))))\<rparr>))"

definition m68k_op_asl_16_s :: "'b op" where
  "m68k_op_asl_16_s s =
    (let shift = ((drop_bit 9 (ir s) - 1) AND 7) + 1;
         src = MASK_OUT_ABOVE_16 (DY s);
         res = MASK_OUT_ABOVE_16 (push_bit (unat shift) src);
         s = (if shift \<noteq> 0 \<and> CPU_TYPE_IS_010_LESS (cpu_type s)
              then USE_CYCLES (push_bit (unat (cyc_shift s)) shift) s
              else s);
         s = set_DY (MASK_OUT_BELOW_16 (DY s) OR res) s;
         s = s\<lparr>n_flag := NFLAG_16 res,
               not_z_flag := res,
               c_flag := drop_bit (unat (8 - shift)) src,
               x_flag := drop_bit (unat (8 - shift)) src\<rparr>;
         src = src AND (m68ki_shift_16_table ! unat (shift + 1))
     in Ret () (s\<lparr>v_flag := push_bit 7 (bool_word (\<not> (src = 0 \<or> src =
           m68ki_shift_16_table ! unat (shift + 1))))\<rparr>))"

definition m68k_op_asl_32_s :: "'b op" where
  "m68k_op_asl_32_s s =
    (let shift = ((drop_bit 9 (ir s) - 1) AND 7) + 1;
         src = DY s;
         res = MASK_OUT_ABOVE_32 (push_bit (unat shift) src);
         s = (if shift \<noteq> 0 \<and> CPU_TYPE_IS_010_LESS (cpu_type s)
              then USE_CYCLES (push_bit (unat (cyc_shift s)) shift) s
              else s);
         s = set_DY res s;
         s = s\<lparr>n_flag := NFLAG_32 res,
               not_z_flag := res,
               c_flag := drop_bit (unat (24 - shift)) src,
               x_flag := drop_bit (unat (24 - shift)) src\<rparr>;
         src = src AND (m68ki_shift_32_table ! unat (shift + 1))
     in Ret () (s\<lparr>v_flag := push_bit 7 (bool_word (\<not> (src = 0 \<or> src =
           m68ki_shift_32_table ! unat (shift + 1))))\<rparr>))"

definition m68k_op_asl_8_r :: "'b op" where
  "m68k_op_asl_8_r s =
    (let shift = DX s AND 0x3f;
         src = MASK_OUT_ABOVE_8 (DY s);
         res = MASK_OUT_ABOVE_8 (push_bit (unat shift) src)
     in if shift \<noteq> 0
        then let s = (if CPU_TYPE_IS_010_LESS (cpu_type s)
                      then USE_CYCLES (push_bit (unat (cyc_shift s)) shift) s
                      else s)
             in if shift < 8
                then let s = set_DY (MASK_OUT_BELOW_8 (DY s) OR res) s;
                         s = s\<lparr>c_flag := push_bit (unat shift) src,
                               x_flag := push_bit (unat shift) src,
                               n_flag := NFLAG_8 res,
                               not_z_flag := res\<rparr>;
                         src = src AND (m68ki_shift_8_table ! unat (shift + 1))
                     in Ret () (s\<lparr>v_flag := push_bit 7 (bool_word (\<not> (src = 0 \<or> src
                           = m68ki_shift_8_table ! unat (shift + 1))))\<rparr>)
                else let s = set_DY ((DY s) AND 0xffffff00) s
                     in Ret () (s\<lparr>c_flag := push_bit 8 (if shift = 8 then src AND 1 else 0),
                          x_flag := push_bit 8 (if shift = 8 then src AND 1 else 0),
                          n_flag := NFLAG_CLEAR,
                          not_z_flag := ZFLAG_SET,
                          v_flag := push_bit 7 (bool_word (\<not> (src = 0)))\<rparr>)
        else Ret () (s\<lparr>c_flag := CFLAG_CLEAR,
               n_flag := NFLAG_8 src,
               not_z_flag := src,
               v_flag := VFLAG_CLEAR\<rparr>))"

definition m68k_op_asl_16_r :: "'b op" where
  "m68k_op_asl_16_r s =
    (let shift = DX s AND 0x3f;
         src = MASK_OUT_ABOVE_16 (DY s);
         res = MASK_OUT_ABOVE_16 (push_bit (unat shift) src)
     in if shift \<noteq> 0
        then let s = (if CPU_TYPE_IS_010_LESS (cpu_type s)
                      then USE_CYCLES (push_bit (unat (cyc_shift s)) shift) s
                      else s)
             in if shift < 16
                then let s = set_DY (MASK_OUT_BELOW_16 (DY s) OR res) s;
                         s = s\<lparr>c_flag := drop_bit 8 (push_bit (unat shift) src),
                               x_flag := drop_bit 8 (push_bit (unat shift) src),
                               n_flag := NFLAG_16 res,
                               not_z_flag := res\<rparr>;
                         src = src AND (m68ki_shift_16_table ! unat (shift + 1))
                     in Ret () (s\<lparr>v_flag := push_bit 7 (bool_word (\<not> (src = 0 \<or> src
                           = m68ki_shift_16_table ! unat (shift + 1))))\<rparr>)
                else let s = set_DY ((DY s) AND 0xffff0000) s
                     in Ret () (s\<lparr>c_flag := push_bit 8 (if shift = 16 then src AND 1 else 0),
                          x_flag := push_bit 8 (if shift = 16 then src AND 1 else 0),
                          n_flag := NFLAG_CLEAR,
                          not_z_flag := ZFLAG_SET,
                          v_flag := push_bit 7 (bool_word (\<not> (src = 0)))\<rparr>)
        else Ret () (s\<lparr>c_flag := CFLAG_CLEAR,
               n_flag := NFLAG_16 src,
               not_z_flag := src,
               v_flag := VFLAG_CLEAR\<rparr>))"

definition m68k_op_asl_32_r :: "'b op" where
  "m68k_op_asl_32_r s =
    (let shift = DX s AND 0x3f;
         src = DY s;
         res = MASK_OUT_ABOVE_32 (push_bit (unat shift) src)
     in if shift \<noteq> 0
        then let s = (if CPU_TYPE_IS_010_LESS (cpu_type s)
                      then USE_CYCLES (push_bit (unat (cyc_shift s)) shift) s
                      else s)
             in if shift < 32
                then let s = set_DY res s;
                         s = s\<lparr>c_flag := push_bit 8 (drop_bit (unat (32 - shift)) src),
                               x_flag := push_bit 8 (drop_bit (unat (32 - shift)) src),
                               n_flag := NFLAG_32 res,
                               not_z_flag := res\<rparr>;
                         src = src AND (m68ki_shift_32_table ! unat (shift + 1))
                     in Ret () (s\<lparr>v_flag := push_bit 7 (bool_word (\<not> (src = 0 \<or> src
                           = m68ki_shift_32_table ! unat (shift + 1))))\<rparr>)
                else let s = set_DY 0 s
                     in Ret () (s\<lparr>c_flag := push_bit 8 (if shift = 32 then src AND 1 else 0),
                          x_flag := push_bit 8 (if shift = 32 then src AND 1 else 0),
                          n_flag := NFLAG_CLEAR,
                          not_z_flag := ZFLAG_SET,
                          v_flag := push_bit 7 (bool_word (\<not> (src = 0)))\<rparr>)
        else Ret () (s\<lparr>c_flag := CFLAG_CLEAR,
               n_flag := NFLAG_32 src,
               not_z_flag := src,
               v_flag := VFLAG_CLEAR\<rparr>))"

definition m68k_op_asl_16_ai :: "'b op" where
  "m68k_op_asl_16_ai s =
    (chain (EA_AY_AI_16 s) (\<lambda>ea s.
     chain (m68ki_read_16 ea s) (\<lambda>src s.
     let res = MASK_OUT_ABOVE_16 (push_bit 1 src)
     in chain (m68ki_write_16 ea res s) (\<lambda>_ s.
        let s = s\<lparr>n_flag := NFLAG_16 res,
                  not_z_flag := res,
                  c_flag := drop_bit 7 src,
                  x_flag := drop_bit 7 src\<rparr>;
            src = src AND 0xc000
        in Ret () (s\<lparr>v_flag := push_bit 7 (bool_word (\<not> (src = 0 \<or> src =
              0xc000)))\<rparr>)))))"

definition m68k_op_asl_16_pi :: "'b op" where
  "m68k_op_asl_16_pi s =
    (chain (EA_AY_PI_16 s) (\<lambda>ea s.
     chain (m68ki_read_16 ea s) (\<lambda>src s.
     let res = MASK_OUT_ABOVE_16 (push_bit 1 src)
     in chain (m68ki_write_16 ea res s) (\<lambda>_ s.
        let s = s\<lparr>n_flag := NFLAG_16 res,
                  not_z_flag := res,
                  c_flag := drop_bit 7 src,
                  x_flag := drop_bit 7 src\<rparr>;
            src = src AND 0xc000
        in Ret () (s\<lparr>v_flag := push_bit 7 (bool_word (\<not> (src = 0 \<or> src =
              0xc000)))\<rparr>)))))"

definition m68k_op_asl_16_pd :: "'b op" where
  "m68k_op_asl_16_pd s =
    (chain (EA_AY_PD_16 s) (\<lambda>ea s.
     chain (m68ki_read_16 ea s) (\<lambda>src s.
     let res = MASK_OUT_ABOVE_16 (push_bit 1 src)
     in chain (m68ki_write_16 ea res s) (\<lambda>_ s.
        let s = s\<lparr>n_flag := NFLAG_16 res,
                  not_z_flag := res,
                  c_flag := drop_bit 7 src,
                  x_flag := drop_bit 7 src\<rparr>;
            src = src AND 0xc000
        in Ret () (s\<lparr>v_flag := push_bit 7 (bool_word (\<not> (src = 0 \<or> src =
              0xc000)))\<rparr>)))))"

definition m68k_op_asl_16_di :: "'b op" where
  "m68k_op_asl_16_di s =
    (chain (EA_AY_DI_16 s) (\<lambda>ea s.
     chain (m68ki_read_16 ea s) (\<lambda>src s.
     let res = MASK_OUT_ABOVE_16 (push_bit 1 src)
     in chain (m68ki_write_16 ea res s) (\<lambda>_ s.
        let s = s\<lparr>n_flag := NFLAG_16 res,
                  not_z_flag := res,
                  c_flag := drop_bit 7 src,
                  x_flag := drop_bit 7 src\<rparr>;
            src = src AND 0xc000
        in Ret () (s\<lparr>v_flag := push_bit 7 (bool_word (\<not> (src = 0 \<or> src =
              0xc000)))\<rparr>)))))"

definition m68k_op_asl_16_ix :: "'b op" where
  "m68k_op_asl_16_ix s =
    (chain (EA_AY_IX_16 s) (\<lambda>ea s.
     chain (m68ki_read_16 ea s) (\<lambda>src s.
     let res = MASK_OUT_ABOVE_16 (push_bit 1 src)
     in chain (m68ki_write_16 ea res s) (\<lambda>_ s.
        let s = s\<lparr>n_flag := NFLAG_16 res,
                  not_z_flag := res,
                  c_flag := drop_bit 7 src,
                  x_flag := drop_bit 7 src\<rparr>;
            src = src AND 0xc000
        in Ret () (s\<lparr>v_flag := push_bit 7 (bool_word (\<not> (src = 0 \<or> src =
              0xc000)))\<rparr>)))))"

definition m68k_op_asl_16_aw :: "'b op" where
  "m68k_op_asl_16_aw s =
    (chain (EA_AW_16 s) (\<lambda>ea s.
     chain (m68ki_read_16 ea s) (\<lambda>src s.
     let res = MASK_OUT_ABOVE_16 (push_bit 1 src)
     in chain (m68ki_write_16 ea res s) (\<lambda>_ s.
        let s = s\<lparr>n_flag := NFLAG_16 res,
                  not_z_flag := res,
                  c_flag := drop_bit 7 src,
                  x_flag := drop_bit 7 src\<rparr>;
            src = src AND 0xc000
        in Ret () (s\<lparr>v_flag := push_bit 7 (bool_word (\<not> (src = 0 \<or> src =
              0xc000)))\<rparr>)))))"

definition m68k_op_asl_16_al :: "'b op" where
  "m68k_op_asl_16_al s =
    (chain (EA_AL_16 s) (\<lambda>ea s.
     chain (m68ki_read_16 ea s) (\<lambda>src s.
     let res = MASK_OUT_ABOVE_16 (push_bit 1 src)
     in chain (m68ki_write_16 ea res s) (\<lambda>_ s.
        let s = s\<lparr>n_flag := NFLAG_16 res,
                  not_z_flag := res,
                  c_flag := drop_bit 7 src,
                  x_flag := drop_bit 7 src\<rparr>;
            src = src AND 0xc000
        in Ret () (s\<lparr>v_flag := push_bit 7 (bool_word (\<not> (src = 0 \<or> src =
              0xc000)))\<rparr>)))))"

definition m68k_op_lsr_8_s :: "'b op" where
  "m68k_op_lsr_8_s s =
    (let shift = ((drop_bit 9 (ir s) - 1) AND 7) + 1;
         src = MASK_OUT_ABOVE_8 (DY s);
         res = drop_bit (unat shift) src;
         s = (if shift \<noteq> 0 \<and> CPU_TYPE_IS_010_LESS (cpu_type s)
              then USE_CYCLES (push_bit (unat (cyc_shift s)) shift) s
              else s);
         s = set_DY (MASK_OUT_BELOW_8 (DY s) OR res) s
     in Ret () (s\<lparr>n_flag := NFLAG_CLEAR,
          not_z_flag := res,
          c_flag := push_bit (unat (9 - shift)) src,
          x_flag := push_bit (unat (9 - shift)) src,
          v_flag := VFLAG_CLEAR\<rparr>))"

definition m68k_op_lsr_16_s :: "'b op" where
  "m68k_op_lsr_16_s s =
    (let shift = ((drop_bit 9 (ir s) - 1) AND 7) + 1;
         src = MASK_OUT_ABOVE_16 (DY s);
         res = drop_bit (unat shift) src;
         s = (if shift \<noteq> 0 \<and> CPU_TYPE_IS_010_LESS (cpu_type s)
              then USE_CYCLES (push_bit (unat (cyc_shift s)) shift) s
              else s);
         s = set_DY (MASK_OUT_BELOW_16 (DY s) OR res) s
     in Ret () (s\<lparr>n_flag := NFLAG_CLEAR,
          not_z_flag := res,
          c_flag := push_bit (unat (9 - shift)) src,
          x_flag := push_bit (unat (9 - shift)) src,
          v_flag := VFLAG_CLEAR\<rparr>))"

definition m68k_op_lsr_32_s :: "'b op" where
  "m68k_op_lsr_32_s s =
    (let shift = ((drop_bit 9 (ir s) - 1) AND 7) + 1;
         src = DY s;
         res = drop_bit (unat shift) src;
         s = (if shift \<noteq> 0 \<and> CPU_TYPE_IS_010_LESS (cpu_type s)
              then USE_CYCLES (push_bit (unat (cyc_shift s)) shift) s
              else s);
         s = set_DY res s
     in Ret () (s\<lparr>n_flag := NFLAG_CLEAR,
          not_z_flag := res,
          c_flag := push_bit (unat (9 - shift)) src,
          x_flag := push_bit (unat (9 - shift)) src,
          v_flag := VFLAG_CLEAR\<rparr>))"

definition m68k_op_lsr_8_r :: "'b op" where
  "m68k_op_lsr_8_r s =
    (let shift = DX s AND 0x3f;
         src = MASK_OUT_ABOVE_8 (DY s);
         res = drop_bit (unat shift) src
     in if shift \<noteq> 0
        then let s = (if CPU_TYPE_IS_010_LESS (cpu_type s)
                      then USE_CYCLES (push_bit (unat (cyc_shift s)) shift) s
                      else s)
             in if shift \<le> 8
                then let s = set_DY (MASK_OUT_BELOW_8 (DY s) OR res) s
                     in Ret () (s\<lparr>c_flag := push_bit (unat (9 - shift)) src,
                          x_flag := push_bit (unat (9 - shift)) src,
                          n_flag := NFLAG_CLEAR,
                          not_z_flag := res,
                          v_flag := VFLAG_CLEAR\<rparr>)
                else let s = set_DY ((DY s) AND 0xffffff00) s
                     in Ret () (s\<lparr>x_flag := XFLAG_CLEAR,
                          c_flag := CFLAG_CLEAR,
                          n_flag := NFLAG_CLEAR,
                          not_z_flag := ZFLAG_SET,
                          v_flag := VFLAG_CLEAR\<rparr>)
        else Ret () (s\<lparr>c_flag := CFLAG_CLEAR,
               n_flag := NFLAG_8 src,
               not_z_flag := src,
               v_flag := VFLAG_CLEAR\<rparr>))"

definition m68k_op_lsr_16_r :: "'b op" where
  "m68k_op_lsr_16_r s =
    (let shift = DX s AND 0x3f;
         src = MASK_OUT_ABOVE_16 (DY s);
         res = drop_bit (unat shift) src
     in if shift \<noteq> 0
        then let s = (if CPU_TYPE_IS_010_LESS (cpu_type s)
                      then USE_CYCLES (push_bit (unat (cyc_shift s)) shift) s
                      else s)
             in if shift \<le> 16
                then let s = set_DY (MASK_OUT_BELOW_16 (DY s) OR res) s
                     in Ret () (s\<lparr>x_flag := push_bit 8 (drop_bit (unat (shift - 1)) src),
                          c_flag := push_bit 8 (drop_bit (unat (shift - 1)) src),
                          n_flag := NFLAG_CLEAR,
                          not_z_flag := res,
                          v_flag := VFLAG_CLEAR\<rparr>)
                else let s = set_DY ((DY s) AND 0xffff0000) s
                     in Ret () (s\<lparr>x_flag := XFLAG_CLEAR,
                          c_flag := CFLAG_CLEAR,
                          n_flag := NFLAG_CLEAR,
                          not_z_flag := ZFLAG_SET,
                          v_flag := VFLAG_CLEAR\<rparr>)
        else Ret () (s\<lparr>c_flag := CFLAG_CLEAR,
               n_flag := NFLAG_16 src,
               not_z_flag := src,
               v_flag := VFLAG_CLEAR\<rparr>))"

definition m68k_op_lsr_32_r :: "'b op" where
  "m68k_op_lsr_32_r s =
    (let shift = DX s AND 0x3f;
         src = DY s;
         res = drop_bit (unat shift) src
     in if shift \<noteq> 0
        then let s = (if CPU_TYPE_IS_010_LESS (cpu_type s)
                      then USE_CYCLES (push_bit (unat (cyc_shift s)) shift) s
                      else s)
             in if shift < 32
                then let s = set_DY res s
                     in Ret () (s\<lparr>x_flag := push_bit 8 (drop_bit (unat (shift - 1)) src),
                          c_flag := push_bit 8 (drop_bit (unat (shift - 1)) src),
                          n_flag := NFLAG_CLEAR,
                          not_z_flag := res,
                          v_flag := VFLAG_CLEAR\<rparr>)
                else let s = set_DY 0 s
                     in Ret () (s\<lparr>c_flag := (if shift = 32 then drop_bit 23 (BIT 31 src) else 0),
                          x_flag := (if shift = 32 then drop_bit 23 (BIT 31 src) else 0),
                          n_flag := NFLAG_CLEAR,
                          not_z_flag := ZFLAG_SET,
                          v_flag := VFLAG_CLEAR\<rparr>)
        else Ret () (s\<lparr>c_flag := CFLAG_CLEAR,
               n_flag := NFLAG_32 src,
               not_z_flag := src,
               v_flag := VFLAG_CLEAR\<rparr>))"

definition m68k_op_lsr_16_ai :: "'b op" where
  "m68k_op_lsr_16_ai s =
    (chain (EA_AY_AI_16 s) (\<lambda>ea s.
     chain (m68ki_read_16 ea s) (\<lambda>src s.
     let res = drop_bit 1 src
     in chain (m68ki_write_16 ea res s) (\<lambda>_ s.
        Ret () (s\<lparr>n_flag := NFLAG_CLEAR,
          not_z_flag := res,
          x_flag := push_bit 8 src,
          c_flag := push_bit 8 src,
          v_flag := VFLAG_CLEAR\<rparr>)))))"

definition m68k_op_lsr_16_pi :: "'b op" where
  "m68k_op_lsr_16_pi s =
    (chain (EA_AY_PI_16 s) (\<lambda>ea s.
     chain (m68ki_read_16 ea s) (\<lambda>src s.
     let res = drop_bit 1 src
     in chain (m68ki_write_16 ea res s) (\<lambda>_ s.
        Ret () (s\<lparr>n_flag := NFLAG_CLEAR,
          not_z_flag := res,
          x_flag := push_bit 8 src,
          c_flag := push_bit 8 src,
          v_flag := VFLAG_CLEAR\<rparr>)))))"

definition m68k_op_lsr_16_pd :: "'b op" where
  "m68k_op_lsr_16_pd s =
    (chain (EA_AY_PD_16 s) (\<lambda>ea s.
     chain (m68ki_read_16 ea s) (\<lambda>src s.
     let res = drop_bit 1 src
     in chain (m68ki_write_16 ea res s) (\<lambda>_ s.
        Ret () (s\<lparr>n_flag := NFLAG_CLEAR,
          not_z_flag := res,
          x_flag := push_bit 8 src,
          c_flag := push_bit 8 src,
          v_flag := VFLAG_CLEAR\<rparr>)))))"

definition m68k_op_lsr_16_di :: "'b op" where
  "m68k_op_lsr_16_di s =
    (chain (EA_AY_DI_16 s) (\<lambda>ea s.
     chain (m68ki_read_16 ea s) (\<lambda>src s.
     let res = drop_bit 1 src
     in chain (m68ki_write_16 ea res s) (\<lambda>_ s.
        Ret () (s\<lparr>n_flag := NFLAG_CLEAR,
          not_z_flag := res,
          x_flag := push_bit 8 src,
          c_flag := push_bit 8 src,
          v_flag := VFLAG_CLEAR\<rparr>)))))"

definition m68k_op_lsr_16_ix :: "'b op" where
  "m68k_op_lsr_16_ix s =
    (chain (EA_AY_IX_16 s) (\<lambda>ea s.
     chain (m68ki_read_16 ea s) (\<lambda>src s.
     let res = drop_bit 1 src
     in chain (m68ki_write_16 ea res s) (\<lambda>_ s.
        Ret () (s\<lparr>n_flag := NFLAG_CLEAR,
          not_z_flag := res,
          x_flag := push_bit 8 src,
          c_flag := push_bit 8 src,
          v_flag := VFLAG_CLEAR\<rparr>)))))"

definition m68k_op_lsr_16_aw :: "'b op" where
  "m68k_op_lsr_16_aw s =
    (chain (EA_AW_16 s) (\<lambda>ea s.
     chain (m68ki_read_16 ea s) (\<lambda>src s.
     let res = drop_bit 1 src
     in chain (m68ki_write_16 ea res s) (\<lambda>_ s.
        Ret () (s\<lparr>n_flag := NFLAG_CLEAR,
          not_z_flag := res,
          x_flag := push_bit 8 src,
          c_flag := push_bit 8 src,
          v_flag := VFLAG_CLEAR\<rparr>)))))"

definition m68k_op_lsr_16_al :: "'b op" where
  "m68k_op_lsr_16_al s =
    (chain (EA_AL_16 s) (\<lambda>ea s.
     chain (m68ki_read_16 ea s) (\<lambda>src s.
     let res = drop_bit 1 src
     in chain (m68ki_write_16 ea res s) (\<lambda>_ s.
        Ret () (s\<lparr>n_flag := NFLAG_CLEAR,
          not_z_flag := res,
          x_flag := push_bit 8 src,
          c_flag := push_bit 8 src,
          v_flag := VFLAG_CLEAR\<rparr>)))))"

definition m68k_op_lsl_8_s :: "'b op" where
  "m68k_op_lsl_8_s s =
    (let shift = ((drop_bit 9 (ir s) - 1) AND 7) + 1;
         src = MASK_OUT_ABOVE_8 (DY s);
         res = MASK_OUT_ABOVE_8 (push_bit (unat shift) src);
         s = (if shift \<noteq> 0 \<and> CPU_TYPE_IS_010_LESS (cpu_type s)
              then USE_CYCLES (push_bit (unat (cyc_shift s)) shift) s
              else s);
         s = set_DY (MASK_OUT_BELOW_8 (DY s) OR res) s
     in Ret () (s\<lparr>n_flag := NFLAG_8 res,
          not_z_flag := res,
          c_flag := push_bit (unat shift) src,
          x_flag := push_bit (unat shift) src,
          v_flag := VFLAG_CLEAR\<rparr>))"

definition m68k_op_lsl_16_s :: "'b op" where
  "m68k_op_lsl_16_s s =
    (let shift = ((drop_bit 9 (ir s) - 1) AND 7) + 1;
         src = MASK_OUT_ABOVE_16 (DY s);
         res = MASK_OUT_ABOVE_16 (push_bit (unat shift) src);
         s = (if shift \<noteq> 0 \<and> CPU_TYPE_IS_010_LESS (cpu_type s)
              then USE_CYCLES (push_bit (unat (cyc_shift s)) shift) s
              else s);
         s = set_DY (MASK_OUT_BELOW_16 (DY s) OR res) s
     in Ret () (s\<lparr>n_flag := NFLAG_16 res,
          not_z_flag := res,
          c_flag := drop_bit (unat (8 - shift)) src,
          x_flag := drop_bit (unat (8 - shift)) src,
          v_flag := VFLAG_CLEAR\<rparr>))"

definition m68k_op_lsl_32_s :: "'b op" where
  "m68k_op_lsl_32_s s =
    (let shift = ((drop_bit 9 (ir s) - 1) AND 7) + 1;
         src = DY s;
         res = MASK_OUT_ABOVE_32 (push_bit (unat shift) src);
         s = (if shift \<noteq> 0 \<and> CPU_TYPE_IS_010_LESS (cpu_type s)
              then USE_CYCLES (push_bit (unat (cyc_shift s)) shift) s
              else s);
         s = set_DY res s
     in Ret () (s\<lparr>n_flag := NFLAG_32 res,
          not_z_flag := res,
          c_flag := drop_bit (unat (24 - shift)) src,
          x_flag := drop_bit (unat (24 - shift)) src,
          v_flag := VFLAG_CLEAR\<rparr>))"

definition m68k_op_lsl_8_r :: "'b op" where
  "m68k_op_lsl_8_r s =
    (let shift = DX s AND 0x3f;
         src = MASK_OUT_ABOVE_8 (DY s);
         res = MASK_OUT_ABOVE_8 (push_bit (unat shift) src)
     in if shift \<noteq> 0
        then let s = (if CPU_TYPE_IS_010_LESS (cpu_type s)
                      then USE_CYCLES (push_bit (unat (cyc_shift s)) shift) s
                      else s)
             in if shift \<le> 8
                then let s = set_DY (MASK_OUT_BELOW_8 (DY s) OR res) s
                     in Ret () (s\<lparr>c_flag := push_bit (unat shift) src,
                          x_flag := push_bit (unat shift) src,
                          n_flag := NFLAG_8 res,
                          not_z_flag := res,
                          v_flag := VFLAG_CLEAR\<rparr>)
                else let s = set_DY ((DY s) AND 0xffffff00) s
                     in Ret () (s\<lparr>x_flag := XFLAG_CLEAR,
                          c_flag := CFLAG_CLEAR,
                          n_flag := NFLAG_CLEAR,
                          not_z_flag := ZFLAG_SET,
                          v_flag := VFLAG_CLEAR\<rparr>)
        else Ret () (s\<lparr>c_flag := CFLAG_CLEAR,
               n_flag := NFLAG_8 src,
               not_z_flag := src,
               v_flag := VFLAG_CLEAR\<rparr>))"

definition m68k_op_lsl_16_r :: "'b op" where
  "m68k_op_lsl_16_r s =
    (let shift = DX s AND 0x3f;
         src = MASK_OUT_ABOVE_16 (DY s);
         res = MASK_OUT_ABOVE_16 (push_bit (unat shift) src)
     in if shift \<noteq> 0
        then let s = (if CPU_TYPE_IS_010_LESS (cpu_type s)
                      then USE_CYCLES (push_bit (unat (cyc_shift s)) shift) s
                      else s)
             in if shift \<le> 16
                then let s = set_DY (MASK_OUT_BELOW_16 (DY s) OR res) s
                     in Ret () (s\<lparr>c_flag := drop_bit 8 (push_bit (unat shift) src),
                          x_flag := drop_bit 8 (push_bit (unat shift) src),
                          n_flag := NFLAG_16 res,
                          not_z_flag := res,
                          v_flag := VFLAG_CLEAR\<rparr>)
                else let s = set_DY ((DY s) AND 0xffff0000) s
                     in Ret () (s\<lparr>x_flag := XFLAG_CLEAR,
                          c_flag := CFLAG_CLEAR,
                          n_flag := NFLAG_CLEAR,
                          not_z_flag := ZFLAG_SET,
                          v_flag := VFLAG_CLEAR\<rparr>)
        else Ret () (s\<lparr>c_flag := CFLAG_CLEAR,
               n_flag := NFLAG_16 src,
               not_z_flag := src,
               v_flag := VFLAG_CLEAR\<rparr>))"

definition m68k_op_lsl_32_r :: "'b op" where
  "m68k_op_lsl_32_r s =
    (let shift = DX s AND 0x3f;
         src = DY s;
         res = MASK_OUT_ABOVE_32 (push_bit (unat shift) src)
     in if shift \<noteq> 0
        then let s = (if CPU_TYPE_IS_010_LESS (cpu_type s)
                      then USE_CYCLES (push_bit (unat (cyc_shift s)) shift) s
                      else s)
             in if shift < 32
                then let s = set_DY res s
                     in Ret () (s\<lparr>c_flag := push_bit 8 (drop_bit (unat (32 - shift)) src),
                          x_flag := push_bit 8 (drop_bit (unat (32 - shift)) src),
                          n_flag := NFLAG_32 res,
                          not_z_flag := res,
                          v_flag := VFLAG_CLEAR\<rparr>)
                else let s = set_DY 0 s
                     in Ret () (s\<lparr>c_flag := push_bit 8 (if shift = 32 then src AND 1 else 0),
                          x_flag := push_bit 8 (if shift = 32 then src AND 1 else 0),
                          n_flag := NFLAG_CLEAR,
                          not_z_flag := ZFLAG_SET,
                          v_flag := VFLAG_CLEAR\<rparr>)
        else Ret () (s\<lparr>c_flag := CFLAG_CLEAR,
               n_flag := NFLAG_32 src,
               not_z_flag := src,
               v_flag := VFLAG_CLEAR\<rparr>))"

definition m68k_op_lsl_16_ai :: "'b op" where
  "m68k_op_lsl_16_ai s =
    (chain (EA_AY_AI_16 s) (\<lambda>ea s.
     chain (m68ki_read_16 ea s) (\<lambda>src s.
     let res = MASK_OUT_ABOVE_16 (push_bit 1 src)
     in chain (m68ki_write_16 ea res s) (\<lambda>_ s.
        Ret () (s\<lparr>n_flag := NFLAG_16 res,
          not_z_flag := res,
          c_flag := drop_bit 7 src,
          x_flag := drop_bit 7 src,
          v_flag := VFLAG_CLEAR\<rparr>)))))"

definition m68k_op_lsl_16_pi :: "'b op" where
  "m68k_op_lsl_16_pi s =
    (chain (EA_AY_PI_16 s) (\<lambda>ea s.
     chain (m68ki_read_16 ea s) (\<lambda>src s.
     let res = MASK_OUT_ABOVE_16 (push_bit 1 src)
     in chain (m68ki_write_16 ea res s) (\<lambda>_ s.
        Ret () (s\<lparr>n_flag := NFLAG_16 res,
          not_z_flag := res,
          c_flag := drop_bit 7 src,
          x_flag := drop_bit 7 src,
          v_flag := VFLAG_CLEAR\<rparr>)))))"

definition m68k_op_lsl_16_pd :: "'b op" where
  "m68k_op_lsl_16_pd s =
    (chain (EA_AY_PD_16 s) (\<lambda>ea s.
     chain (m68ki_read_16 ea s) (\<lambda>src s.
     let res = MASK_OUT_ABOVE_16 (push_bit 1 src)
     in chain (m68ki_write_16 ea res s) (\<lambda>_ s.
        Ret () (s\<lparr>n_flag := NFLAG_16 res,
          not_z_flag := res,
          c_flag := drop_bit 7 src,
          x_flag := drop_bit 7 src,
          v_flag := VFLAG_CLEAR\<rparr>)))))"

definition m68k_op_lsl_16_di :: "'b op" where
  "m68k_op_lsl_16_di s =
    (chain (EA_AY_DI_16 s) (\<lambda>ea s.
     chain (m68ki_read_16 ea s) (\<lambda>src s.
     let res = MASK_OUT_ABOVE_16 (push_bit 1 src)
     in chain (m68ki_write_16 ea res s) (\<lambda>_ s.
        Ret () (s\<lparr>n_flag := NFLAG_16 res,
          not_z_flag := res,
          c_flag := drop_bit 7 src,
          x_flag := drop_bit 7 src,
          v_flag := VFLAG_CLEAR\<rparr>)))))"

definition m68k_op_lsl_16_ix :: "'b op" where
  "m68k_op_lsl_16_ix s =
    (chain (EA_AY_IX_16 s) (\<lambda>ea s.
     chain (m68ki_read_16 ea s) (\<lambda>src s.
     let res = MASK_OUT_ABOVE_16 (push_bit 1 src)
     in chain (m68ki_write_16 ea res s) (\<lambda>_ s.
        Ret () (s\<lparr>n_flag := NFLAG_16 res,
          not_z_flag := res,
          c_flag := drop_bit 7 src,
          x_flag := drop_bit 7 src,
          v_flag := VFLAG_CLEAR\<rparr>)))))"

definition m68k_op_lsl_16_aw :: "'b op" where
  "m68k_op_lsl_16_aw s =
    (chain (EA_AW_16 s) (\<lambda>ea s.
     chain (m68ki_read_16 ea s) (\<lambda>src s.
     let res = MASK_OUT_ABOVE_16 (push_bit 1 src)
     in chain (m68ki_write_16 ea res s) (\<lambda>_ s.
        Ret () (s\<lparr>n_flag := NFLAG_16 res,
          not_z_flag := res,
          c_flag := drop_bit 7 src,
          x_flag := drop_bit 7 src,
          v_flag := VFLAG_CLEAR\<rparr>)))))"

definition m68k_op_lsl_16_al :: "'b op" where
  "m68k_op_lsl_16_al s =
    (chain (EA_AL_16 s) (\<lambda>ea s.
     chain (m68ki_read_16 ea s) (\<lambda>src s.
     let res = MASK_OUT_ABOVE_16 (push_bit 1 src)
     in chain (m68ki_write_16 ea res s) (\<lambda>_ s.
        Ret () (s\<lparr>n_flag := NFLAG_16 res,
          not_z_flag := res,
          c_flag := drop_bit 7 src,
          x_flag := drop_bit 7 src,
          v_flag := VFLAG_CLEAR\<rparr>)))))"

definition m68k_op_ror_8_s :: "'b op" where
  "m68k_op_ror_8_s s =
    (let orig_shift = ((drop_bit 9 (ir s) - 1) AND 7) + 1;
         shift = orig_shift AND 7;
         src = MASK_OUT_ABOVE_8 (DY s);
         res = ROR_8 src shift;
         s = (if orig_shift \<noteq> 0
              then USE_CYCLES (push_bit (unat (cyc_shift s)) orig_shift) s
              else s);
         s = set_DY (MASK_OUT_BELOW_8 (DY s) OR res) s
     in Ret () (s\<lparr>n_flag := NFLAG_8 res,
          not_z_flag := res,
          c_flag := push_bit (unat (9 - orig_shift)) src,
          v_flag := VFLAG_CLEAR\<rparr>))"

definition m68k_op_ror_16_s :: "'b op" where
  "m68k_op_ror_16_s s =
    (let shift = ((drop_bit 9 (ir s) - 1) AND 7) + 1;
         src = MASK_OUT_ABOVE_16 (DY s);
         res = ROR_16 src shift;
         s = (if shift \<noteq> 0
              then USE_CYCLES (push_bit (unat (cyc_shift s)) shift) s
              else s);
         s = set_DY (MASK_OUT_BELOW_16 (DY s) OR res) s
     in Ret () (s\<lparr>n_flag := NFLAG_16 res,
          not_z_flag := res,
          c_flag := push_bit (unat (9 - shift)) src,
          v_flag := VFLAG_CLEAR\<rparr>))"

definition m68k_op_ror_32_s :: "'b op" where
  "m68k_op_ror_32_s s =
    (let shift = ((drop_bit 9 (ir s) - 1) AND 7) + 1;
         src = (ucast (DY s) :: u64);
         res = (ucast (ROR_32_u64 src shift));
         s = (if shift \<noteq> 0
              then USE_CYCLES (push_bit (unat (cyc_shift s)) shift) s
              else s);
         s = set_DY res s
     in Ret () (s\<lparr>n_flag := NFLAG_32 res,
          not_z_flag := res,
          c_flag := (ucast (push_bit (unat (9 - shift)) src)),
          v_flag := VFLAG_CLEAR\<rparr>))"

definition m68k_op_ror_8_r :: "'b op" where
  "m68k_op_ror_8_r s =
    (let orig_shift = DX s AND 0x3f;
         shift = orig_shift AND 7;
         src = MASK_OUT_ABOVE_8 (DY s);
         res = ROR_8 src shift
     in if orig_shift \<noteq> 0
        then let s = USE_CYCLES (push_bit (unat (cyc_shift s)) orig_shift) s;
                 s = set_DY (MASK_OUT_BELOW_8 (DY s) OR res) s
             in Ret () (s\<lparr>c_flag := push_bit (unat (8 - ((shift - 1) AND 7))) src,
                  n_flag := NFLAG_8 res,
                  not_z_flag := res,
                  v_flag := VFLAG_CLEAR\<rparr>)
        else Ret () (s\<lparr>c_flag := CFLAG_CLEAR,
               n_flag := NFLAG_8 src,
               not_z_flag := src,
               v_flag := VFLAG_CLEAR\<rparr>))"

definition m68k_op_ror_16_r :: "'b op" where
  "m68k_op_ror_16_r s =
    (let orig_shift = DX s AND 0x3f;
         shift = orig_shift AND 15;
         src = MASK_OUT_ABOVE_16 (DY s);
         res = ROR_16 src shift
     in if orig_shift \<noteq> 0
        then let s = USE_CYCLES (push_bit (unat (cyc_shift s)) orig_shift) s;
                 s = set_DY (MASK_OUT_BELOW_16 (DY s) OR res) s
             in Ret () (s\<lparr>c_flag := push_bit 8 (drop_bit (unat ((shift - 1) AND 15)) src),
                  n_flag := NFLAG_16 res,
                  not_z_flag := res,
                  v_flag := VFLAG_CLEAR\<rparr>)
        else Ret () (s\<lparr>c_flag := CFLAG_CLEAR,
               n_flag := NFLAG_16 src,
               not_z_flag := src,
               v_flag := VFLAG_CLEAR\<rparr>))"

definition m68k_op_ror_32_r :: "'b op" where
  "m68k_op_ror_32_r s =
    (let orig_shift = DX s AND 0x3f;
         shift = orig_shift AND 31;
         src = (ucast (DY s) :: u64);
         res = (ucast (ROR_32_u64 src shift))
     in if orig_shift \<noteq> 0
        then let s = USE_CYCLES (push_bit (unat (cyc_shift s)) orig_shift) s;
                 s = set_DY res s
             in Ret () (s\<lparr>c_flag := (ucast (push_bit 8 (drop_bit (unat ((shift - 1) AND 31)) src))),
                  n_flag := NFLAG_32 res,
                  not_z_flag := res,
                  v_flag := VFLAG_CLEAR\<rparr>)
        else Ret () (s\<lparr>c_flag := CFLAG_CLEAR,
               n_flag := (ucast (drop_bit 24 src)),
               not_z_flag := (ucast src),
               v_flag := VFLAG_CLEAR\<rparr>))"

definition m68k_op_ror_16_ai :: "'b op" where
  "m68k_op_ror_16_ai s =
    (chain (EA_AY_AI_16 s) (\<lambda>ea s.
     chain (m68ki_read_16 ea s) (\<lambda>src s.
     let res = ROR_16 src 1
     in chain (m68ki_write_16 ea res s) (\<lambda>_ s.
        Ret () (s\<lparr>n_flag := NFLAG_16 res,
          not_z_flag := res,
          c_flag := push_bit 8 src,
          v_flag := VFLAG_CLEAR\<rparr>)))))"

definition m68k_op_ror_16_pi :: "'b op" where
  "m68k_op_ror_16_pi s =
    (chain (EA_AY_PI_16 s) (\<lambda>ea s.
     chain (m68ki_read_16 ea s) (\<lambda>src s.
     let res = ROR_16 src 1
     in chain (m68ki_write_16 ea res s) (\<lambda>_ s.
        Ret () (s\<lparr>n_flag := NFLAG_16 res,
          not_z_flag := res,
          c_flag := push_bit 8 src,
          v_flag := VFLAG_CLEAR\<rparr>)))))"

definition m68k_op_ror_16_pd :: "'b op" where
  "m68k_op_ror_16_pd s =
    (chain (EA_AY_PD_16 s) (\<lambda>ea s.
     chain (m68ki_read_16 ea s) (\<lambda>src s.
     let res = ROR_16 src 1
     in chain (m68ki_write_16 ea res s) (\<lambda>_ s.
        Ret () (s\<lparr>n_flag := NFLAG_16 res,
          not_z_flag := res,
          c_flag := push_bit 8 src,
          v_flag := VFLAG_CLEAR\<rparr>)))))"

definition m68k_op_ror_16_di :: "'b op" where
  "m68k_op_ror_16_di s =
    (chain (EA_AY_DI_16 s) (\<lambda>ea s.
     chain (m68ki_read_16 ea s) (\<lambda>src s.
     let res = ROR_16 src 1
     in chain (m68ki_write_16 ea res s) (\<lambda>_ s.
        Ret () (s\<lparr>n_flag := NFLAG_16 res,
          not_z_flag := res,
          c_flag := push_bit 8 src,
          v_flag := VFLAG_CLEAR\<rparr>)))))"

definition m68k_op_ror_16_ix :: "'b op" where
  "m68k_op_ror_16_ix s =
    (chain (EA_AY_IX_16 s) (\<lambda>ea s.
     chain (m68ki_read_16 ea s) (\<lambda>src s.
     let res = ROR_16 src 1
     in chain (m68ki_write_16 ea res s) (\<lambda>_ s.
        Ret () (s\<lparr>n_flag := NFLAG_16 res,
          not_z_flag := res,
          c_flag := push_bit 8 src,
          v_flag := VFLAG_CLEAR\<rparr>)))))"

definition m68k_op_ror_16_aw :: "'b op" where
  "m68k_op_ror_16_aw s =
    (chain (EA_AW_16 s) (\<lambda>ea s.
     chain (m68ki_read_16 ea s) (\<lambda>src s.
     let res = ROR_16 src 1
     in chain (m68ki_write_16 ea res s) (\<lambda>_ s.
        Ret () (s\<lparr>n_flag := NFLAG_16 res,
          not_z_flag := res,
          c_flag := push_bit 8 src,
          v_flag := VFLAG_CLEAR\<rparr>)))))"

definition m68k_op_ror_16_al :: "'b op" where
  "m68k_op_ror_16_al s =
    (chain (EA_AL_16 s) (\<lambda>ea s.
     chain (m68ki_read_16 ea s) (\<lambda>src s.
     let res = ROR_16 src 1
     in chain (m68ki_write_16 ea res s) (\<lambda>_ s.
        Ret () (s\<lparr>n_flag := NFLAG_16 res,
          not_z_flag := res,
          c_flag := push_bit 8 src,
          v_flag := VFLAG_CLEAR\<rparr>)))))"

definition m68k_op_rol_8_s :: "'b op" where
  "m68k_op_rol_8_s s =
    (let orig_shift = ((drop_bit 9 (ir s) - 1) AND 7) + 1;
         shift = orig_shift AND 7;
         src = MASK_OUT_ABOVE_8 (DY s);
         res = ROL_8 src shift;
         s = (if orig_shift \<noteq> 0
              then USE_CYCLES (push_bit (unat (cyc_shift s)) orig_shift) s
              else s);
         s = set_DY (MASK_OUT_BELOW_8 (DY s) OR res) s
     in Ret () (s\<lparr>n_flag := NFLAG_8 res,
          not_z_flag := res,
          c_flag := push_bit (unat orig_shift) src,
          v_flag := VFLAG_CLEAR\<rparr>))"

definition m68k_op_rol_16_s :: "'b op" where
  "m68k_op_rol_16_s s =
    (let shift = ((drop_bit 9 (ir s) - 1) AND 7) + 1;
         src = MASK_OUT_ABOVE_16 (DY s);
         res = ROL_16 src shift;
         s = (if shift \<noteq> 0
              then USE_CYCLES (push_bit (unat (cyc_shift s)) shift) s
              else s);
         s = set_DY (MASK_OUT_BELOW_16 (DY s) OR res) s
     in Ret () (s\<lparr>n_flag := NFLAG_16 res,
          not_z_flag := res,
          c_flag := drop_bit (unat (8 - shift)) src,
          v_flag := VFLAG_CLEAR\<rparr>))"

definition m68k_op_rol_32_s :: "'b op" where
  "m68k_op_rol_32_s s =
    (let shift = ((drop_bit 9 (ir s) - 1) AND 7) + 1;
         src = (ucast (DY s) :: u64);
         res = (ucast (ROL_32_u64 src shift));
         s = (if shift \<noteq> 0
              then USE_CYCLES (push_bit (unat (cyc_shift s)) shift) s
              else s);
         s = set_DY res s
     in Ret () (s\<lparr>n_flag := NFLAG_32 res,
          not_z_flag := res,
          c_flag := (ucast (drop_bit (unat (24 - shift)) src)),
          v_flag := VFLAG_CLEAR\<rparr>))"

definition m68k_op_rol_8_r :: "'b op" where
  "m68k_op_rol_8_r s =
    (let orig_shift = DX s AND 0x3f;
         shift = orig_shift AND 7;
         src = MASK_OUT_ABOVE_8 (DY s);
         res = ROL_8 src shift
     in if orig_shift \<noteq> 0
        then let s = USE_CYCLES (push_bit (unat (cyc_shift s)) orig_shift) s
             in if shift \<noteq> 0
                then let s = set_DY (MASK_OUT_BELOW_8 (DY s) OR res) s
                     in Ret () (s\<lparr>c_flag := push_bit (unat shift) src,
                          n_flag := NFLAG_8 res,
                          not_z_flag := res,
                          v_flag := VFLAG_CLEAR\<rparr>)
                else Ret () (s\<lparr>c_flag := push_bit 8 (src AND 1),
                       n_flag := NFLAG_8 src,
                       not_z_flag := src,
                       v_flag := VFLAG_CLEAR\<rparr>)
        else Ret () (s\<lparr>c_flag := CFLAG_CLEAR,
               n_flag := NFLAG_8 src,
               not_z_flag := src,
               v_flag := VFLAG_CLEAR\<rparr>))"

definition m68k_op_rol_16_r :: "'b op" where
  "m68k_op_rol_16_r s =
    (let orig_shift = DX s AND 0x3f;
         shift = orig_shift AND 15;
         src = MASK_OUT_ABOVE_16 (DY s);
         res = MASK_OUT_ABOVE_16 (ROL_16 src shift)
     in if orig_shift \<noteq> 0
        then let s = USE_CYCLES (push_bit (unat (cyc_shift s)) orig_shift) s
             in if shift \<noteq> 0
                then let s = set_DY (MASK_OUT_BELOW_16 (DY s) OR res) s
                     in Ret () (s\<lparr>c_flag := drop_bit 8 (push_bit (unat shift) src),
                          n_flag := NFLAG_16 res,
                          not_z_flag := res,
                          v_flag := VFLAG_CLEAR\<rparr>)
                else Ret () (s\<lparr>c_flag := push_bit 8 (src AND 1),
                       n_flag := NFLAG_16 src,
                       not_z_flag := src,
                       v_flag := VFLAG_CLEAR\<rparr>)
        else Ret () (s\<lparr>c_flag := CFLAG_CLEAR,
               n_flag := NFLAG_16 src,
               not_z_flag := src,
               v_flag := VFLAG_CLEAR\<rparr>))"

definition m68k_op_rol_32_r :: "'b op" where
  "m68k_op_rol_32_r s =
    (let orig_shift = DX s AND 0x3f;
         shift = orig_shift AND 31;
         src = (ucast (DY s) :: u64);
         res = (ucast (ROL_32_u64 src shift))
     in if orig_shift \<noteq> 0
        then let s = USE_CYCLES (push_bit (unat (cyc_shift s)) orig_shift) s;
                 s = set_DY res s
             in Ret () (s\<lparr>c_flag := (ucast (push_bit 8 (drop_bit (unat ((32 - shift) AND
                   0x1f)) src))),
                  n_flag := NFLAG_32 res,
                  not_z_flag := res,
                  v_flag := VFLAG_CLEAR\<rparr>)
        else Ret () (s\<lparr>c_flag := CFLAG_CLEAR,
               n_flag := (ucast (drop_bit 24 src)),
               not_z_flag := (ucast src),
               v_flag := VFLAG_CLEAR\<rparr>))"

definition m68k_op_rol_16_ai :: "'b op" where
  "m68k_op_rol_16_ai s =
    (chain (EA_AY_AI_16 s) (\<lambda>ea s.
     chain (m68ki_read_16 ea s) (\<lambda>src s.
     let res = MASK_OUT_ABOVE_16 (ROL_16 src 1)
     in chain (m68ki_write_16 ea res s) (\<lambda>_ s.
        Ret () (s\<lparr>n_flag := NFLAG_16 res,
          not_z_flag := res,
          c_flag := drop_bit 7 src,
          v_flag := VFLAG_CLEAR\<rparr>)))))"

definition m68k_op_rol_16_pi :: "'b op" where
  "m68k_op_rol_16_pi s =
    (chain (EA_AY_PI_16 s) (\<lambda>ea s.
     chain (m68ki_read_16 ea s) (\<lambda>src s.
     let res = MASK_OUT_ABOVE_16 (ROL_16 src 1)
     in chain (m68ki_write_16 ea res s) (\<lambda>_ s.
        Ret () (s\<lparr>n_flag := NFLAG_16 res,
          not_z_flag := res,
          c_flag := drop_bit 7 src,
          v_flag := VFLAG_CLEAR\<rparr>)))))"

definition m68k_op_rol_16_pd :: "'b op" where
  "m68k_op_rol_16_pd s =
    (chain (EA_AY_PD_16 s) (\<lambda>ea s.
     chain (m68ki_read_16 ea s) (\<lambda>src s.
     let res = MASK_OUT_ABOVE_16 (ROL_16 src 1)
     in chain (m68ki_write_16 ea res s) (\<lambda>_ s.
        Ret () (s\<lparr>n_flag := NFLAG_16 res,
          not_z_flag := res,
          c_flag := drop_bit 7 src,
          v_flag := VFLAG_CLEAR\<rparr>)))))"

definition m68k_op_rol_16_di :: "'b op" where
  "m68k_op_rol_16_di s =
    (chain (EA_AY_DI_16 s) (\<lambda>ea s.
     chain (m68ki_read_16 ea s) (\<lambda>src s.
     let res = MASK_OUT_ABOVE_16 (ROL_16 src 1)
     in chain (m68ki_write_16 ea res s) (\<lambda>_ s.
        Ret () (s\<lparr>n_flag := NFLAG_16 res,
          not_z_flag := res,
          c_flag := drop_bit 7 src,
          v_flag := VFLAG_CLEAR\<rparr>)))))"

definition m68k_op_rol_16_ix :: "'b op" where
  "m68k_op_rol_16_ix s =
    (chain (EA_AY_IX_16 s) (\<lambda>ea s.
     chain (m68ki_read_16 ea s) (\<lambda>src s.
     let res = MASK_OUT_ABOVE_16 (ROL_16 src 1)
     in chain (m68ki_write_16 ea res s) (\<lambda>_ s.
        Ret () (s\<lparr>n_flag := NFLAG_16 res,
          not_z_flag := res,
          c_flag := drop_bit 7 src,
          v_flag := VFLAG_CLEAR\<rparr>)))))"

definition m68k_op_rol_16_aw :: "'b op" where
  "m68k_op_rol_16_aw s =
    (chain (EA_AW_16 s) (\<lambda>ea s.
     chain (m68ki_read_16 ea s) (\<lambda>src s.
     let res = MASK_OUT_ABOVE_16 (ROL_16 src 1)
     in chain (m68ki_write_16 ea res s) (\<lambda>_ s.
        Ret () (s\<lparr>n_flag := NFLAG_16 res,
          not_z_flag := res,
          c_flag := drop_bit 7 src,
          v_flag := VFLAG_CLEAR\<rparr>)))))"

definition m68k_op_rol_16_al :: "'b op" where
  "m68k_op_rol_16_al s =
    (chain (EA_AL_16 s) (\<lambda>ea s.
     chain (m68ki_read_16 ea s) (\<lambda>src s.
     let res = MASK_OUT_ABOVE_16 (ROL_16 src 1)
     in chain (m68ki_write_16 ea res s) (\<lambda>_ s.
        Ret () (s\<lparr>n_flag := NFLAG_16 res,
          not_z_flag := res,
          c_flag := drop_bit 7 src,
          v_flag := VFLAG_CLEAR\<rparr>)))))"

definition m68k_op_roxr_8_s :: "'b op" where
  "m68k_op_roxr_8_s s =
    (let shift = ((drop_bit 9 (ir s) - 1) AND 7) + 1;
         src = MASK_OUT_ABOVE_8 (DY s);
         res = ROR_9 (src OR push_bit 8 (XFLAG_AS_1 s)) shift;
         s = (if shift \<noteq> 0
              then USE_CYCLES (push_bit (unat (cyc_shift s)) shift) s
              else s);
         s = s\<lparr>x_flag := res, c_flag := res\<rparr>;
         res = MASK_OUT_ABOVE_8 res;
         s = set_DY (MASK_OUT_BELOW_8 (DY s) OR res) s
     in Ret () (s\<lparr>n_flag := NFLAG_8 res,
          not_z_flag := res,
          v_flag := VFLAG_CLEAR\<rparr>))"

definition m68k_op_roxr_16_s :: "'b op" where
  "m68k_op_roxr_16_s s =
    (let shift = ((drop_bit 9 (ir s) - 1) AND 7) + 1;
         src = MASK_OUT_ABOVE_16 (DY s);
         res = ROR_17 (src OR push_bit 16 (XFLAG_AS_1 s)) shift;
         s = (if shift \<noteq> 0
              then USE_CYCLES (push_bit (unat (cyc_shift s)) shift) s
              else s);
         s = s\<lparr>x_flag := drop_bit 8 res, c_flag := drop_bit 8 res\<rparr>;
         res = MASK_OUT_ABOVE_16 res;
         s = set_DY (MASK_OUT_BELOW_16 (DY s) OR res) s
     in Ret () (s\<lparr>n_flag := NFLAG_16 res,
          not_z_flag := res,
          v_flag := VFLAG_CLEAR\<rparr>))"

definition m68k_op_roxr_32_s :: "'b op" where
  "m68k_op_roxr_32_s s =
    (let shift = ((drop_bit 9 (ir s) - 1) AND 7) + 1;
         src = (ucast (DY s) :: u64);
         res = src OR push_bit 32 (ucast (XFLAG_AS_1 s) :: u64);
         s = (if shift \<noteq> 0
              then USE_CYCLES (push_bit (unat (cyc_shift s)) shift) s
              else s);
         res = (ROR_33_64 res shift :: u64);
         s = s\<lparr>x_flag := (ucast (drop_bit 24 res)),
               c_flag := (ucast (drop_bit 24 res))\<rparr>;
         res = (res AND 0xffffffff :: u64);
         s = set_DY (ucast res) s
     in Ret () (s\<lparr>n_flag := (ucast (drop_bit 24 res)),
          not_z_flag := (ucast res),
          v_flag := VFLAG_CLEAR\<rparr>))"

definition m68k_op_roxr_8_r :: "'b op" where
  "m68k_op_roxr_8_r s =
    (let orig_shift = DX s AND 0x3f
     in if orig_shift \<noteq> 0
        then let shift = orig_shift mod 9;
                 src = MASK_OUT_ABOVE_8 (DY s);
                 res = ROR_9 (src OR push_bit 8 (XFLAG_AS_1 s)) shift;
                 s = USE_CYCLES (push_bit (unat (cyc_shift s)) orig_shift) s;
                 s = s\<lparr>x_flag := res, c_flag := res\<rparr>;
                 res = MASK_OUT_ABOVE_8 res;
                 s = set_DY (MASK_OUT_BELOW_8 (DY s) OR res) s
             in Ret () (s\<lparr>n_flag := NFLAG_8 res,
                  not_z_flag := res,
                  v_flag := VFLAG_CLEAR\<rparr>)
        else Ret () (s\<lparr>c_flag := x_flag s,
               n_flag := NFLAG_8 (DY s),
               not_z_flag := MASK_OUT_ABOVE_8 (DY s),
               v_flag := VFLAG_CLEAR\<rparr>))"

definition m68k_op_roxr_16_r :: "'b op" where
  "m68k_op_roxr_16_r s =
    (let orig_shift = DX s AND 0x3f
     in if orig_shift \<noteq> 0
        then let shift = orig_shift mod 17;
                 src = MASK_OUT_ABOVE_16 (DY s);
                 res = ROR_17 (src OR push_bit 16 (XFLAG_AS_1 s)) shift;
                 s = USE_CYCLES (push_bit (unat (cyc_shift s)) orig_shift) s;
                 s = s\<lparr>x_flag := drop_bit 8 res, c_flag := drop_bit 8 res\<rparr>;
                 res = MASK_OUT_ABOVE_16 res;
                 s = set_DY (MASK_OUT_BELOW_16 (DY s) OR res) s
             in Ret () (s\<lparr>n_flag := NFLAG_16 res,
                  not_z_flag := res,
                  v_flag := VFLAG_CLEAR\<rparr>)
        else Ret () (s\<lparr>c_flag := x_flag s,
               n_flag := NFLAG_16 (DY s),
               not_z_flag := MASK_OUT_ABOVE_16 (DY s),
               v_flag := VFLAG_CLEAR\<rparr>))"

definition m68k_op_roxr_32_r :: "'b op" where
  "m68k_op_roxr_32_r s =
    (let orig_shift = DX s AND 0x3f
     in if orig_shift \<noteq> 0
        then let shift = orig_shift mod 33;
                 src = (ucast (DY s) :: u64);
                 res = src OR push_bit 32 (ucast (XFLAG_AS_1 s) :: u64);
                 res = (ROR_33_64 res shift :: u64);
                 s = USE_CYCLES (push_bit (unat (cyc_shift s)) orig_shift) s;
                 s = s\<lparr>x_flag := (ucast (drop_bit 24 res)),
                       c_flag := (ucast (drop_bit 24 res))\<rparr>;
                 res = (res AND 0xffffffff :: u64);
                 s = set_DY (ucast res) s
             in Ret () (s\<lparr>n_flag := (ucast (drop_bit 24 res)),
                  not_z_flag := (ucast res),
                  v_flag := VFLAG_CLEAR\<rparr>)
        else Ret () (s\<lparr>c_flag := x_flag s,
               n_flag := NFLAG_32 (DY s),
               not_z_flag := DY s,
               v_flag := VFLAG_CLEAR\<rparr>))"

definition m68k_op_roxr_16_ai :: "'b op" where
  "m68k_op_roxr_16_ai s =
    (chain (EA_AY_AI_16 s) (\<lambda>ea s.
     chain (m68ki_read_16 ea s) (\<lambda>src s.
     let res = ROR_17 (src OR push_bit 16 (XFLAG_AS_1 s)) 1;
         s = s\<lparr>x_flag := drop_bit 8 res, c_flag := drop_bit 8 res\<rparr>;
         res = MASK_OUT_ABOVE_16 res
     in chain (m68ki_write_16 ea res s) (\<lambda>_ s.
        Ret () (s\<lparr>n_flag := NFLAG_16 res,
          not_z_flag := res,
          v_flag := VFLAG_CLEAR\<rparr>)))))"

definition m68k_op_roxr_16_pi :: "'b op" where
  "m68k_op_roxr_16_pi s =
    (chain (EA_AY_PI_16 s) (\<lambda>ea s.
     chain (m68ki_read_16 ea s) (\<lambda>src s.
     let res = ROR_17 (src OR push_bit 16 (XFLAG_AS_1 s)) 1;
         s = s\<lparr>x_flag := drop_bit 8 res, c_flag := drop_bit 8 res\<rparr>;
         res = MASK_OUT_ABOVE_16 res
     in chain (m68ki_write_16 ea res s) (\<lambda>_ s.
        Ret () (s\<lparr>n_flag := NFLAG_16 res,
          not_z_flag := res,
          v_flag := VFLAG_CLEAR\<rparr>)))))"

definition m68k_op_roxr_16_pd :: "'b op" where
  "m68k_op_roxr_16_pd s =
    (chain (EA_AY_PD_16 s) (\<lambda>ea s.
     chain (m68ki_read_16 ea s) (\<lambda>src s.
     let res = ROR_17 (src OR push_bit 16 (XFLAG_AS_1 s)) 1;
         s = s\<lparr>x_flag := drop_bit 8 res, c_flag := drop_bit 8 res\<rparr>;
         res = MASK_OUT_ABOVE_16 res
     in chain (m68ki_write_16 ea res s) (\<lambda>_ s.
        Ret () (s\<lparr>n_flag := NFLAG_16 res,
          not_z_flag := res,
          v_flag := VFLAG_CLEAR\<rparr>)))))"

definition m68k_op_roxr_16_di :: "'b op" where
  "m68k_op_roxr_16_di s =
    (chain (EA_AY_DI_16 s) (\<lambda>ea s.
     chain (m68ki_read_16 ea s) (\<lambda>src s.
     let res = ROR_17 (src OR push_bit 16 (XFLAG_AS_1 s)) 1;
         s = s\<lparr>x_flag := drop_bit 8 res, c_flag := drop_bit 8 res\<rparr>;
         res = MASK_OUT_ABOVE_16 res
     in chain (m68ki_write_16 ea res s) (\<lambda>_ s.
        Ret () (s\<lparr>n_flag := NFLAG_16 res,
          not_z_flag := res,
          v_flag := VFLAG_CLEAR\<rparr>)))))"

definition m68k_op_roxr_16_ix :: "'b op" where
  "m68k_op_roxr_16_ix s =
    (chain (EA_AY_IX_16 s) (\<lambda>ea s.
     chain (m68ki_read_16 ea s) (\<lambda>src s.
     let res = ROR_17 (src OR push_bit 16 (XFLAG_AS_1 s)) 1;
         s = s\<lparr>x_flag := drop_bit 8 res, c_flag := drop_bit 8 res\<rparr>;
         res = MASK_OUT_ABOVE_16 res
     in chain (m68ki_write_16 ea res s) (\<lambda>_ s.
        Ret () (s\<lparr>n_flag := NFLAG_16 res,
          not_z_flag := res,
          v_flag := VFLAG_CLEAR\<rparr>)))))"

definition m68k_op_roxr_16_aw :: "'b op" where
  "m68k_op_roxr_16_aw s =
    (chain (EA_AW_16 s) (\<lambda>ea s.
     chain (m68ki_read_16 ea s) (\<lambda>src s.
     let res = ROR_17 (src OR push_bit 16 (XFLAG_AS_1 s)) 1;
         s = s\<lparr>x_flag := drop_bit 8 res, c_flag := drop_bit 8 res\<rparr>;
         res = MASK_OUT_ABOVE_16 res
     in chain (m68ki_write_16 ea res s) (\<lambda>_ s.
        Ret () (s\<lparr>n_flag := NFLAG_16 res,
          not_z_flag := res,
          v_flag := VFLAG_CLEAR\<rparr>)))))"

definition m68k_op_roxr_16_al :: "'b op" where
  "m68k_op_roxr_16_al s =
    (chain (EA_AL_16 s) (\<lambda>ea s.
     chain (m68ki_read_16 ea s) (\<lambda>src s.
     let res = ROR_17 (src OR push_bit 16 (XFLAG_AS_1 s)) 1;
         s = s\<lparr>x_flag := drop_bit 8 res, c_flag := drop_bit 8 res\<rparr>;
         res = MASK_OUT_ABOVE_16 res
     in chain (m68ki_write_16 ea res s) (\<lambda>_ s.
        Ret () (s\<lparr>n_flag := NFLAG_16 res,
          not_z_flag := res,
          v_flag := VFLAG_CLEAR\<rparr>)))))"

definition m68k_op_roxl_8_s :: "'b op" where
  "m68k_op_roxl_8_s s =
    (let shift = ((drop_bit 9 (ir s) - 1) AND 7) + 1;
         src = MASK_OUT_ABOVE_8 (DY s);
         res = ROL_9 (src OR push_bit 8 (XFLAG_AS_1 s)) shift;
         s = (if shift \<noteq> 0
              then USE_CYCLES (push_bit (unat (cyc_shift s)) shift) s
              else s);
         s = s\<lparr>x_flag := res, c_flag := res\<rparr>;
         res = MASK_OUT_ABOVE_8 res;
         s = set_DY (MASK_OUT_BELOW_8 (DY s) OR res) s
     in Ret () (s\<lparr>n_flag := NFLAG_8 res,
          not_z_flag := res,
          v_flag := VFLAG_CLEAR\<rparr>))"

definition m68k_op_roxl_16_s :: "'b op" where
  "m68k_op_roxl_16_s s =
    (let shift = ((drop_bit 9 (ir s) - 1) AND 7) + 1;
         src = MASK_OUT_ABOVE_16 (DY s);
         res = ROL_17 (src OR push_bit 16 (XFLAG_AS_1 s)) shift;
         s = (if shift \<noteq> 0
              then USE_CYCLES (push_bit (unat (cyc_shift s)) shift) s
              else s);
         s = s\<lparr>x_flag := drop_bit 8 res, c_flag := drop_bit 8 res\<rparr>;
         res = MASK_OUT_ABOVE_16 res;
         s = set_DY (MASK_OUT_BELOW_16 (DY s) OR res) s
     in Ret () (s\<lparr>n_flag := NFLAG_16 res,
          not_z_flag := res,
          v_flag := VFLAG_CLEAR\<rparr>))"

definition m68k_op_roxl_32_s :: "'b op" where
  "m68k_op_roxl_32_s s =
    (let shift = ((drop_bit 9 (ir s) - 1) AND 7) + 1;
         src = (ucast (DY s) :: u64);
         res = src OR push_bit 32 (ucast (XFLAG_AS_1 s) :: u64);
         s = (if shift \<noteq> 0
              then USE_CYCLES (push_bit (unat (cyc_shift s)) shift) s
              else s);
         res = (ROL_33_64 res shift :: u64);
         s = s\<lparr>x_flag := (ucast (drop_bit 24 res)),
               c_flag := (ucast (drop_bit 24 res))\<rparr>;
         res = (res AND 0xffffffff :: u64);
         s = set_DY (ucast res) s
     in Ret () (s\<lparr>n_flag := (ucast (drop_bit 24 res)),
          not_z_flag := (ucast res),
          v_flag := VFLAG_CLEAR\<rparr>))"

definition m68k_op_roxl_8_r :: "'b op" where
  "m68k_op_roxl_8_r s =
    (let orig_shift = DX s AND 0x3f
     in if orig_shift \<noteq> 0
        then let shift = orig_shift mod 9;
                 src = MASK_OUT_ABOVE_8 (DY s);
                 res = ROL_9 (src OR push_bit 8 (XFLAG_AS_1 s)) shift;
                 s = USE_CYCLES (push_bit (unat (cyc_shift s)) orig_shift) s;
                 s = s\<lparr>x_flag := res, c_flag := res\<rparr>;
                 res = MASK_OUT_ABOVE_8 res;
                 s = set_DY (MASK_OUT_BELOW_8 (DY s) OR res) s
             in Ret () (s\<lparr>n_flag := NFLAG_8 res,
                  not_z_flag := res,
                  v_flag := VFLAG_CLEAR\<rparr>)
        else Ret () (s\<lparr>c_flag := x_flag s,
               n_flag := NFLAG_8 (DY s),
               not_z_flag := MASK_OUT_ABOVE_8 (DY s),
               v_flag := VFLAG_CLEAR\<rparr>))"

definition m68k_op_roxl_16_r :: "'b op" where
  "m68k_op_roxl_16_r s =
    (let orig_shift = DX s AND 0x3f
     in if orig_shift \<noteq> 0
        then let shift = orig_shift mod 17;
                 src = MASK_OUT_ABOVE_16 (DY s);
                 res = ROL_17 (src OR push_bit 16 (XFLAG_AS_1 s)) shift;
                 s = USE_CYCLES (push_bit (unat (cyc_shift s)) orig_shift) s;
                 s = s\<lparr>x_flag := drop_bit 8 res, c_flag := drop_bit 8 res\<rparr>;
                 res = MASK_OUT_ABOVE_16 res;
                 s = set_DY (MASK_OUT_BELOW_16 (DY s) OR res) s
             in Ret () (s\<lparr>n_flag := NFLAG_16 res,
                  not_z_flag := res,
                  v_flag := VFLAG_CLEAR\<rparr>)
        else Ret () (s\<lparr>c_flag := x_flag s,
               n_flag := NFLAG_16 (DY s),
               not_z_flag := MASK_OUT_ABOVE_16 (DY s),
               v_flag := VFLAG_CLEAR\<rparr>))"

definition m68k_op_roxl_32_r :: "'b op" where
  "m68k_op_roxl_32_r s =
    (let orig_shift = DX s AND 0x3f
     in if orig_shift \<noteq> 0
        then let shift = orig_shift mod 33;
                 src = (ucast (DY s) :: u64);
                 res = src OR push_bit 32 (ucast (XFLAG_AS_1 s) :: u64);
                 res = (ROL_33_64 res shift :: u64);
                 s = USE_CYCLES (push_bit (unat (cyc_shift s)) orig_shift) s;
                 s = s\<lparr>x_flag := (ucast (drop_bit 24 res)),
                       c_flag := (ucast (drop_bit 24 res))\<rparr>;
                 res = (res AND 0xffffffff :: u64);
                 s = set_DY (ucast res) s
             in Ret () (s\<lparr>n_flag := (ucast (drop_bit 24 res)),
                  not_z_flag := (ucast res),
                  v_flag := VFLAG_CLEAR\<rparr>)
        else Ret () (s\<lparr>c_flag := x_flag s,
               n_flag := NFLAG_32 (DY s),
               not_z_flag := DY s,
               v_flag := VFLAG_CLEAR\<rparr>))"

definition m68k_op_roxl_16_ai :: "'b op" where
  "m68k_op_roxl_16_ai s =
    (chain (EA_AY_AI_16 s) (\<lambda>ea s.
     chain (m68ki_read_16 ea s) (\<lambda>src s.
     let res = ROL_17 (src OR push_bit 16 (XFLAG_AS_1 s)) 1;
         s = s\<lparr>x_flag := drop_bit 8 res, c_flag := drop_bit 8 res\<rparr>;
         res = MASK_OUT_ABOVE_16 res
     in chain (m68ki_write_16 ea res s) (\<lambda>_ s.
        Ret () (s\<lparr>n_flag := NFLAG_16 res,
          not_z_flag := res,
          v_flag := VFLAG_CLEAR\<rparr>)))))"

definition m68k_op_roxl_16_pi :: "'b op" where
  "m68k_op_roxl_16_pi s =
    (chain (EA_AY_PI_16 s) (\<lambda>ea s.
     chain (m68ki_read_16 ea s) (\<lambda>src s.
     let res = ROL_17 (src OR push_bit 16 (XFLAG_AS_1 s)) 1;
         s = s\<lparr>x_flag := drop_bit 8 res, c_flag := drop_bit 8 res\<rparr>;
         res = MASK_OUT_ABOVE_16 res
     in chain (m68ki_write_16 ea res s) (\<lambda>_ s.
        Ret () (s\<lparr>n_flag := NFLAG_16 res,
          not_z_flag := res,
          v_flag := VFLAG_CLEAR\<rparr>)))))"

definition m68k_op_roxl_16_pd :: "'b op" where
  "m68k_op_roxl_16_pd s =
    (chain (EA_AY_PD_16 s) (\<lambda>ea s.
     chain (m68ki_read_16 ea s) (\<lambda>src s.
     let res = ROL_17 (src OR push_bit 16 (XFLAG_AS_1 s)) 1;
         s = s\<lparr>x_flag := drop_bit 8 res, c_flag := drop_bit 8 res\<rparr>;
         res = MASK_OUT_ABOVE_16 res
     in chain (m68ki_write_16 ea res s) (\<lambda>_ s.
        Ret () (s\<lparr>n_flag := NFLAG_16 res,
          not_z_flag := res,
          v_flag := VFLAG_CLEAR\<rparr>)))))"

definition m68k_op_roxl_16_di :: "'b op" where
  "m68k_op_roxl_16_di s =
    (chain (EA_AY_DI_16 s) (\<lambda>ea s.
     chain (m68ki_read_16 ea s) (\<lambda>src s.
     let res = ROL_17 (src OR push_bit 16 (XFLAG_AS_1 s)) 1;
         s = s\<lparr>x_flag := drop_bit 8 res, c_flag := drop_bit 8 res\<rparr>;
         res = MASK_OUT_ABOVE_16 res
     in chain (m68ki_write_16 ea res s) (\<lambda>_ s.
        Ret () (s\<lparr>n_flag := NFLAG_16 res,
          not_z_flag := res,
          v_flag := VFLAG_CLEAR\<rparr>)))))"

definition m68k_op_roxl_16_ix :: "'b op" where
  "m68k_op_roxl_16_ix s =
    (chain (EA_AY_IX_16 s) (\<lambda>ea s.
     chain (m68ki_read_16 ea s) (\<lambda>src s.
     let res = ROL_17 (src OR push_bit 16 (XFLAG_AS_1 s)) 1;
         s = s\<lparr>x_flag := drop_bit 8 res, c_flag := drop_bit 8 res\<rparr>;
         res = MASK_OUT_ABOVE_16 res
     in chain (m68ki_write_16 ea res s) (\<lambda>_ s.
        Ret () (s\<lparr>n_flag := NFLAG_16 res,
          not_z_flag := res,
          v_flag := VFLAG_CLEAR\<rparr>)))))"

definition m68k_op_roxl_16_aw :: "'b op" where
  "m68k_op_roxl_16_aw s =
    (chain (EA_AW_16 s) (\<lambda>ea s.
     chain (m68ki_read_16 ea s) (\<lambda>src s.
     let res = ROL_17 (src OR push_bit 16 (XFLAG_AS_1 s)) 1;
         s = s\<lparr>x_flag := drop_bit 8 res, c_flag := drop_bit 8 res\<rparr>;
         res = MASK_OUT_ABOVE_16 res
     in chain (m68ki_write_16 ea res s) (\<lambda>_ s.
        Ret () (s\<lparr>n_flag := NFLAG_16 res,
          not_z_flag := res,
          v_flag := VFLAG_CLEAR\<rparr>)))))"

definition m68k_op_roxl_16_al :: "'b op" where
  "m68k_op_roxl_16_al s =
    (chain (EA_AL_16 s) (\<lambda>ea s.
     chain (m68ki_read_16 ea s) (\<lambda>src s.
     let res = ROL_17 (src OR push_bit 16 (XFLAG_AS_1 s)) 1;
         s = s\<lparr>x_flag := drop_bit 8 res, c_flag := drop_bit 8 res\<rparr>;
         res = MASK_OUT_ABOVE_16 res
     in chain (m68ki_write_16 ea res s) (\<lambda>_ s.
        Ret () (s\<lparr>n_flag := NFLAG_16 res,
          not_z_flag := res,
          v_flag := VFLAG_CLEAR\<rparr>)))))"

end
