(* ===== verification/OpsTrap.thy ===== *)
theory OpsTrap
  imports OpsBase PmmuOps
begin

section \<open>Instruction handlers: TRAP\<close>

text \<open>
  The handlers of m68kops.c for TRAP, TRAPcc, TRAPV, ILLEGAL, the line-1010 and line-1111 traps, the coprocessor encodings of the 68020, BKPT, RESET, STOP, NOP, RTE and the PMMU and cache instructions.
  One definition per handler, under the name of its C function; the effective address is part of
  the name.
\<close>

unbundle bit_operations_syntax

definition m68k_op_1010 :: "'b op" where
  "m68k_op_1010 s =
    (m68ki_exception_1010 s)"

definition m68k_op_1111 :: "'b op" where
  "m68k_op_1111 s =
    (m68ki_exception_1111 s)"

definition m68k_op_bkpt :: "'b op" where
  "m68k_op_bkpt s =
    (let () = (if CPU_TYPE_IS_010_PLUS (cpu_type s)
               then ()
               else ())
     in m68ki_exception_illegal s)"

definition m68k_op_cpbcc_32 :: "'b op" where
  "m68k_op_cpbcc_32 s =
    (if CPU_TYPE_IS_EC020_PLUS (cpu_type s)
     then Ret () s
     else m68ki_exception_1111 s)"

definition m68k_op_cpdbcc_32 :: "'b op" where
  "m68k_op_cpdbcc_32 s =
    (if CPU_TYPE_IS_EC020_PLUS (cpu_type s)
     then Ret () s
     else m68ki_exception_1111 s)"

definition m68k_op_cpgen_32 :: "'b op" where
  "m68k_op_cpgen_32 s =
    (if CPU_TYPE_IS_EC020_PLUS (cpu_type s)
     then Ret () s
     else m68ki_exception_1111 s)"

definition m68k_op_cpscc_32 :: "'b op" where
  "m68k_op_cpscc_32 s =
    (if CPU_TYPE_IS_EC020_PLUS (cpu_type s)
     then Ret () s
     else m68ki_exception_1111 s)"

definition m68k_op_cptrapcc_32 :: "'b op" where
  "m68k_op_cptrapcc_32 s =
    (if CPU_TYPE_IS_EC020_PLUS (cpu_type s)
     then Ret () (s\<lparr>pc := (pc s) + 4\<rparr>)
     else m68ki_exception_1111 s)"

definition m68k_op_illegal :: "'b op" where
  "m68k_op_illegal s =
    (m68ki_exception_illegal s)"

definition m68k_op_nop :: "'b op" where
  "m68k_op_nop s =
    (Ret () s)"

definition m68k_op_pflush_32 :: "'b op" where
  "m68k_op_pflush_32 s =
    (if CPU_TYPE_IS_040_PLUS (cpu_type s) \<and> has_pmmu s \<noteq> 0
     then if s_flag s = 0
          then m68ki_exception_privilege_violation s
          else Ret () (pmmu_atc_flush s)
     else m68ki_exception_1111 s)"

definition m68k_op_cache_040 :: "'b op" where
  "m68k_op_cache_040 s =
    (if \<not> CPU_TYPE_IS_040_PLUS (cpu_type s)
     then m68k_op_1111 s
     else if ir s AND 0x18 = 0
     then m68ki_exception_illegal s
     else if s_flag s = 0
     then m68ki_exception_privilege_violation s
     else Ret () s)"

definition m68k_op_ptest_32 :: "'b op" where
  "m68k_op_ptest_32 s =
    (if CPU_TYPE_IS_040_PLUS (cpu_type s) \<and> has_pmmu s \<noteq> 0
     then if s_flag s = 0
          then m68ki_exception_privilege_violation s
          else m68040_ptest s
     else m68ki_exception_1111 s)"

definition m68k_op_pmmu_32 :: "'b op" where
  "m68k_op_pmmu_32 s =
    (if CPU_TYPE_IS_EC020_PLUS (cpu_type s) \<and> has_pmmu s \<noteq> 0
     then m68881_mmu_ops s
     else m68ki_exception_1111 s)"

definition m68k_op_reset :: "'b op" where
  "m68k_op_reset s =
    (if s_flag s \<noteq> 0
     then Ret () (USE_CYCLES (cyc_reset s) s)
     else m68ki_exception_privilege_violation s)"

text \<open>
  RTE.  On the 68020 and later the frame loop goes on after a throwaway frame (format 1), which
  switches from the interrupt to the master stack.  Nothing in the code bounds the number of
  throwaway frames, so the loop is a partial function; \<open>None\<close> stands for a loop that does not end.
  \<open>rte_frame_020\<close> is one pass; its value tells whether the loop goes on.
\<close>

definition rte_finish :: "u32 \<Rightarrow> u32 \<Rightarrow> 'b op" where
  "rte_finish new_pc new_sr s =
    (let s = m68ki_jump new_pc s
     in chain (m68ki_set_sr new_sr s) (\<lambda>_ s.
        Ret () (s\<lparr>instr_mode := INSTRUCTION_YES, run_mode := RUN_MODE_NORMAL\<rparr>)))"

definition rte_bad_format :: "'b op" where
  "rte_bad_format s =
     m68ki_exception_format_error (s\<lparr>instr_mode := INSTRUCTION_YES, run_mode := RUN_MODE_NORMAL\<rparr>)"

text \<open>Pull SR and PC, skip the format word and the rest of the frame with \<open>skip\<close>, and finish.\<close>

definition rte_pull :: "('b machine \<Rightarrow> 'b machine) \<Rightarrow> 'b op" where
  "rte_pull skip s =
     chain (m68ki_pull_16 s) (\<lambda>new_sr s.
     chain (m68ki_pull_32 s) (\<lambda>new_pc s.
     let s = m68ki_fake_pull_16 s;
         s = skip s
     in rte_finish new_pc new_sr s))"

text \<open>The words of the format 8 frame after the format word.\<close>

definition rte_skip_1000 :: "'b machine \<Rightarrow> 'b machine" where
  "rte_skip_1000 s =
    (let s = m68ki_fake_pull_16 s;
         s = m68ki_fake_pull_32 s;
         s = m68ki_fake_pull_16 s;
         s = m68ki_fake_pull_16 s;
         s = m68ki_fake_pull_16 s;
         s = m68ki_fake_pull_16 s;
         s = m68ki_fake_pull_16 s;
         s = m68ki_fake_pull_16 s
     in (m68ki_fake_pull_32 ^^ 8) s)"

definition rte_frame_020 :: "'b machine \<Rightarrow> ('b, bool) result" where
  "rte_frame_020 s =
     chain (m68ki_read_16 (REG_A s 7 + 6) s) (\<lambda>w s.
     let format_word = drop_bit 12 w;
         stop_loop = (\<lambda>_. Ret False)
     in if format_word = 0 then chain (rte_pull (\<lambda>s. s) s) stop_loop
        else if format_word = 1
        then chain (m68ki_pull_16 s) (\<lambda>new_sr s.
             let s = m68ki_fake_pull_32 s;
                 s = m68ki_fake_pull_16 s
             in Ret True (m68ki_set_sr_noint new_sr s))
        else if format_word = 2 then chain (rte_pull m68ki_fake_pull_32 s) stop_loop
        else if format_word = 7
        then chain (rte_pull (\<lambda>s. set_REG_A 7 (MASK_OUT_ABOVE_32 (REG_A s 7 + 52)) s) s) stop_loop
        else if format_word = 10
        then chain (rte_pull (\<lambda>s. set_REG_A 7 (MASK_OUT_ABOVE_32 (REG_A s 7 + 24)) s) s) stop_loop
        else if format_word = 11
        then chain (rte_pull (\<lambda>s. set_REG_A 7 (MASK_OUT_ABOVE_32 (REG_A s 7 + 84)) s) s) stop_loop
        else chain (rte_bad_format s) stop_loop)"

partial_function (option) rte_loop :: "'b machine \<Rightarrow> ('b, unit) result option" where
  "rte_loop s =
    (case rte_frame_020 s of
       Jump j s' \<Rightarrow> Some (Jump j s')
     | Ret again s' \<Rightarrow> if again then rte_loop s' else Some (Ret () s'))"

definition m68k_op_rte_32 :: "'b op" where
  "m68k_op_rte_32 s =
    (if s_flag s = 0 then m68ki_exception_privilege_violation s
     else if CPU_TYPE_IS_000 (cpu_type s)
     then chain (m68ki_pull_16 s) (\<lambda>new_sr s.
          chain (m68ki_pull_32 s) (\<lambda>new_pc s.
          rte_finish new_pc new_sr s))
     else if CPU_TYPE_IS_010 (cpu_type s)
     then chain (m68ki_read_16 (REG_A s 7 + 6) s) (\<lambda>w s.
          let format_word = drop_bit 12 w
          in if format_word = 0 then rte_pull (\<lambda>s. s) s
             else if format_word = 8 then rte_pull rte_skip_1000 s
             else rte_bad_format s)
     else case rte_loop s of Some r \<Rightarrow> r | None \<Rightarrow> Jump Diverged s)"

definition m68k_op_stop :: "'b op" where
  "m68k_op_stop s =
    (if s_flag s \<noteq> 0
     then chain (OPER_I_16 s) (\<lambda>new_sr s.
          let s = s\<lparr>stopped := (stopped s) OR STOP_LEVEL_STOP\<rparr>
          in chain (m68ki_set_sr new_sr s) (\<lambda>_ s.
             Ret () (if word_sle (CYC_INSTRUCTION s) (remaining_cycles s)
              then s\<lparr>remaining_cycles := CYC_INSTRUCTION s\<rparr>
              else USE_ALL_CYCLES s)))
     else m68ki_exception_privilege_violation s)"

definition m68k_op_trap :: "'b op" where
  "m68k_op_trap s =
    (m68ki_exception_trapN (EXCEPTION_TRAP_BASE + (ir s AND 0xf)) s)"

definition m68k_op_trapt :: "'b op" where
  "m68k_op_trapt s =
    (if CPU_TYPE_IS_EC020_PLUS (cpu_type s)
     then m68ki_exception_trap EXCEPTION_TRAPV s
     else m68ki_exception_illegal s)"

definition m68k_op_trapt_16 :: "'b op" where
  "m68k_op_trapt_16 s =
    (if CPU_TYPE_IS_EC020_PLUS (cpu_type s)
     then let s = s\<lparr>pc := (pc s) + 2\<rparr>
          in m68ki_exception_trap EXCEPTION_TRAPV s
     else m68ki_exception_illegal s)"

definition m68k_op_trapt_32 :: "'b op" where
  "m68k_op_trapt_32 s =
    (if CPU_TYPE_IS_EC020_PLUS (cpu_type s)
     then let s = s\<lparr>pc := (pc s) + 4\<rparr>
          in m68ki_exception_trap EXCEPTION_TRAPV s
     else m68ki_exception_illegal s)"

definition m68k_op_trapf :: "'b op" where
  "m68k_op_trapf s =
    (if CPU_TYPE_IS_EC020_PLUS (cpu_type s)
     then Ret () s
     else m68ki_exception_illegal s)"

definition m68k_op_trapf_16 :: "'b op" where
  "m68k_op_trapf_16 s =
    (if CPU_TYPE_IS_EC020_PLUS (cpu_type s)
     then Ret () (s\<lparr>pc := (pc s) + 2\<rparr>)
     else m68ki_exception_illegal s)"

definition m68k_op_trapf_32 :: "'b op" where
  "m68k_op_trapf_32 s =
    (if CPU_TYPE_IS_EC020_PLUS (cpu_type s)
     then Ret () (s\<lparr>pc := (pc s) + 4\<rparr>)
     else m68ki_exception_illegal s)"

definition m68k_op_traphi :: "'b op" where
  "m68k_op_traphi s =
    (if CPU_TYPE_IS_EC020_PLUS (cpu_type s)
     then if COND_HI s
          then m68ki_exception_trap EXCEPTION_TRAPV s
          else Ret () s
     else m68ki_exception_illegal s)"

definition m68k_op_trapls :: "'b op" where
  "m68k_op_trapls s =
    (if CPU_TYPE_IS_EC020_PLUS (cpu_type s)
     then if COND_LS s
          then m68ki_exception_trap EXCEPTION_TRAPV s
          else Ret () s
     else m68ki_exception_illegal s)"

definition m68k_op_trapcc :: "'b op" where
  "m68k_op_trapcc s =
    (if CPU_TYPE_IS_EC020_PLUS (cpu_type s)
     then if COND_CC s
          then m68ki_exception_trap EXCEPTION_TRAPV s
          else Ret () s
     else m68ki_exception_illegal s)"

definition m68k_op_trapcs :: "'b op" where
  "m68k_op_trapcs s =
    (if CPU_TYPE_IS_EC020_PLUS (cpu_type s)
     then if COND_CS s
          then m68ki_exception_trap EXCEPTION_TRAPV s
          else Ret () s
     else m68ki_exception_illegal s)"

definition m68k_op_trapne :: "'b op" where
  "m68k_op_trapne s =
    (if CPU_TYPE_IS_EC020_PLUS (cpu_type s)
     then if COND_NE s
          then m68ki_exception_trap EXCEPTION_TRAPV s
          else Ret () s
     else m68ki_exception_illegal s)"

definition m68k_op_trapeq :: "'b op" where
  "m68k_op_trapeq s =
    (if CPU_TYPE_IS_EC020_PLUS (cpu_type s)
     then if COND_EQ s
          then m68ki_exception_trap EXCEPTION_TRAPV s
          else Ret () s
     else m68ki_exception_illegal s)"

definition m68k_op_trapvc :: "'b op" where
  "m68k_op_trapvc s =
    (if CPU_TYPE_IS_EC020_PLUS (cpu_type s)
     then if COND_VC s
          then m68ki_exception_trap EXCEPTION_TRAPV s
          else Ret () s
     else m68ki_exception_illegal s)"

definition m68k_op_trapvs :: "'b op" where
  "m68k_op_trapvs s =
    (if CPU_TYPE_IS_EC020_PLUS (cpu_type s)
     then if COND_VS s
          then m68ki_exception_trap EXCEPTION_TRAPV s
          else Ret () s
     else m68ki_exception_illegal s)"

definition m68k_op_trappl :: "'b op" where
  "m68k_op_trappl s =
    (if CPU_TYPE_IS_EC020_PLUS (cpu_type s)
     then if COND_PL s
          then m68ki_exception_trap EXCEPTION_TRAPV s
          else Ret () s
     else m68ki_exception_illegal s)"

definition m68k_op_trapmi :: "'b op" where
  "m68k_op_trapmi s =
    (if CPU_TYPE_IS_EC020_PLUS (cpu_type s)
     then if COND_MI s
          then m68ki_exception_trap EXCEPTION_TRAPV s
          else Ret () s
     else m68ki_exception_illegal s)"

definition m68k_op_trapge :: "'b op" where
  "m68k_op_trapge s =
    (if CPU_TYPE_IS_EC020_PLUS (cpu_type s)
     then if COND_GE s
          then m68ki_exception_trap EXCEPTION_TRAPV s
          else Ret () s
     else m68ki_exception_illegal s)"

definition m68k_op_traplt :: "'b op" where
  "m68k_op_traplt s =
    (if CPU_TYPE_IS_EC020_PLUS (cpu_type s)
     then if COND_LT s
          then m68ki_exception_trap EXCEPTION_TRAPV s
          else Ret () s
     else m68ki_exception_illegal s)"

definition m68k_op_trapgt :: "'b op" where
  "m68k_op_trapgt s =
    (if CPU_TYPE_IS_EC020_PLUS (cpu_type s)
     then if COND_GT s
          then m68ki_exception_trap EXCEPTION_TRAPV s
          else Ret () s
     else m68ki_exception_illegal s)"

definition m68k_op_traple :: "'b op" where
  "m68k_op_traple s =
    (if CPU_TYPE_IS_EC020_PLUS (cpu_type s)
     then if COND_LE s
          then m68ki_exception_trap EXCEPTION_TRAPV s
          else Ret () s
     else m68ki_exception_illegal s)"

definition m68k_op_traphi_16 :: "'b op" where
  "m68k_op_traphi_16 s =
    (if CPU_TYPE_IS_EC020_PLUS (cpu_type s)
     then let s = s\<lparr>pc := (pc s) + 2\<rparr>
          in if COND_HI s
             then m68ki_exception_trap EXCEPTION_TRAPV s
             else Ret () s
     else m68ki_exception_illegal s)"

definition m68k_op_trapls_16 :: "'b op" where
  "m68k_op_trapls_16 s =
    (if CPU_TYPE_IS_EC020_PLUS (cpu_type s)
     then let s = s\<lparr>pc := (pc s) + 2\<rparr>
          in if COND_LS s
             then m68ki_exception_trap EXCEPTION_TRAPV s
             else Ret () s
     else m68ki_exception_illegal s)"

definition m68k_op_trapcc_16 :: "'b op" where
  "m68k_op_trapcc_16 s =
    (if CPU_TYPE_IS_EC020_PLUS (cpu_type s)
     then let s = s\<lparr>pc := (pc s) + 2\<rparr>
          in if COND_CC s
             then m68ki_exception_trap EXCEPTION_TRAPV s
             else Ret () s
     else m68ki_exception_illegal s)"

definition m68k_op_trapcs_16 :: "'b op" where
  "m68k_op_trapcs_16 s =
    (if CPU_TYPE_IS_EC020_PLUS (cpu_type s)
     then let s = s\<lparr>pc := (pc s) + 2\<rparr>
          in if COND_CS s
             then m68ki_exception_trap EXCEPTION_TRAPV s
             else Ret () s
     else m68ki_exception_illegal s)"

definition m68k_op_trapne_16 :: "'b op" where
  "m68k_op_trapne_16 s =
    (if CPU_TYPE_IS_EC020_PLUS (cpu_type s)
     then let s = s\<lparr>pc := (pc s) + 2\<rparr>
          in if COND_NE s
             then m68ki_exception_trap EXCEPTION_TRAPV s
             else Ret () s
     else m68ki_exception_illegal s)"

definition m68k_op_trapeq_16 :: "'b op" where
  "m68k_op_trapeq_16 s =
    (if CPU_TYPE_IS_EC020_PLUS (cpu_type s)
     then let s = s\<lparr>pc := (pc s) + 2\<rparr>
          in if COND_EQ s
             then m68ki_exception_trap EXCEPTION_TRAPV s
             else Ret () s
     else m68ki_exception_illegal s)"

definition m68k_op_trapvc_16 :: "'b op" where
  "m68k_op_trapvc_16 s =
    (if CPU_TYPE_IS_EC020_PLUS (cpu_type s)
     then let s = s\<lparr>pc := (pc s) + 2\<rparr>
          in if COND_VC s
             then m68ki_exception_trap EXCEPTION_TRAPV s
             else Ret () s
     else m68ki_exception_illegal s)"

definition m68k_op_trapvs_16 :: "'b op" where
  "m68k_op_trapvs_16 s =
    (if CPU_TYPE_IS_EC020_PLUS (cpu_type s)
     then let s = s\<lparr>pc := (pc s) + 2\<rparr>
          in if COND_VS s
             then m68ki_exception_trap EXCEPTION_TRAPV s
             else Ret () s
     else m68ki_exception_illegal s)"

definition m68k_op_trappl_16 :: "'b op" where
  "m68k_op_trappl_16 s =
    (if CPU_TYPE_IS_EC020_PLUS (cpu_type s)
     then let s = s\<lparr>pc := (pc s) + 2\<rparr>
          in if COND_PL s
             then m68ki_exception_trap EXCEPTION_TRAPV s
             else Ret () s
     else m68ki_exception_illegal s)"

definition m68k_op_trapmi_16 :: "'b op" where
  "m68k_op_trapmi_16 s =
    (if CPU_TYPE_IS_EC020_PLUS (cpu_type s)
     then let s = s\<lparr>pc := (pc s) + 2\<rparr>
          in if COND_MI s
             then m68ki_exception_trap EXCEPTION_TRAPV s
             else Ret () s
     else m68ki_exception_illegal s)"

definition m68k_op_trapge_16 :: "'b op" where
  "m68k_op_trapge_16 s =
    (if CPU_TYPE_IS_EC020_PLUS (cpu_type s)
     then let s = s\<lparr>pc := (pc s) + 2\<rparr>
          in if COND_GE s
             then m68ki_exception_trap EXCEPTION_TRAPV s
             else Ret () s
     else m68ki_exception_illegal s)"

definition m68k_op_traplt_16 :: "'b op" where
  "m68k_op_traplt_16 s =
    (if CPU_TYPE_IS_EC020_PLUS (cpu_type s)
     then let s = s\<lparr>pc := (pc s) + 2\<rparr>
          in if COND_LT s
             then m68ki_exception_trap EXCEPTION_TRAPV s
             else Ret () s
     else m68ki_exception_illegal s)"

definition m68k_op_trapgt_16 :: "'b op" where
  "m68k_op_trapgt_16 s =
    (if CPU_TYPE_IS_EC020_PLUS (cpu_type s)
     then let s = s\<lparr>pc := (pc s) + 2\<rparr>
          in if COND_GT s
             then m68ki_exception_trap EXCEPTION_TRAPV s
             else Ret () s
     else m68ki_exception_illegal s)"

definition m68k_op_traple_16 :: "'b op" where
  "m68k_op_traple_16 s =
    (if CPU_TYPE_IS_EC020_PLUS (cpu_type s)
     then let s = s\<lparr>pc := (pc s) + 2\<rparr>
          in if COND_LE s
             then m68ki_exception_trap EXCEPTION_TRAPV s
             else Ret () s
     else m68ki_exception_illegal s)"

definition m68k_op_traphi_32 :: "'b op" where
  "m68k_op_traphi_32 s =
    (if CPU_TYPE_IS_EC020_PLUS (cpu_type s)
     then let s = s\<lparr>pc := (pc s) + 4\<rparr>
          in if COND_HI s
             then m68ki_exception_trap EXCEPTION_TRAPV s
             else Ret () s
     else m68ki_exception_illegal s)"

definition m68k_op_trapls_32 :: "'b op" where
  "m68k_op_trapls_32 s =
    (if CPU_TYPE_IS_EC020_PLUS (cpu_type s)
     then let s = s\<lparr>pc := (pc s) + 4\<rparr>
          in if COND_LS s
             then m68ki_exception_trap EXCEPTION_TRAPV s
             else Ret () s
     else m68ki_exception_illegal s)"

definition m68k_op_trapcc_32 :: "'b op" where
  "m68k_op_trapcc_32 s =
    (if CPU_TYPE_IS_EC020_PLUS (cpu_type s)
     then let s = s\<lparr>pc := (pc s) + 4\<rparr>
          in if COND_CC s
             then m68ki_exception_trap EXCEPTION_TRAPV s
             else Ret () s
     else m68ki_exception_illegal s)"

definition m68k_op_trapcs_32 :: "'b op" where
  "m68k_op_trapcs_32 s =
    (if CPU_TYPE_IS_EC020_PLUS (cpu_type s)
     then let s = s\<lparr>pc := (pc s) + 4\<rparr>
          in if COND_CS s
             then m68ki_exception_trap EXCEPTION_TRAPV s
             else Ret () s
     else m68ki_exception_illegal s)"

definition m68k_op_trapne_32 :: "'b op" where
  "m68k_op_trapne_32 s =
    (if CPU_TYPE_IS_EC020_PLUS (cpu_type s)
     then let s = s\<lparr>pc := (pc s) + 4\<rparr>
          in if COND_NE s
             then m68ki_exception_trap EXCEPTION_TRAPV s
             else Ret () s
     else m68ki_exception_illegal s)"

definition m68k_op_trapeq_32 :: "'b op" where
  "m68k_op_trapeq_32 s =
    (if CPU_TYPE_IS_EC020_PLUS (cpu_type s)
     then let s = s\<lparr>pc := (pc s) + 4\<rparr>
          in if COND_EQ s
             then m68ki_exception_trap EXCEPTION_TRAPV s
             else Ret () s
     else m68ki_exception_illegal s)"

definition m68k_op_trapvc_32 :: "'b op" where
  "m68k_op_trapvc_32 s =
    (if CPU_TYPE_IS_EC020_PLUS (cpu_type s)
     then let s = s\<lparr>pc := (pc s) + 4\<rparr>
          in if COND_VC s
             then m68ki_exception_trap EXCEPTION_TRAPV s
             else Ret () s
     else m68ki_exception_illegal s)"

definition m68k_op_trapvs_32 :: "'b op" where
  "m68k_op_trapvs_32 s =
    (if CPU_TYPE_IS_EC020_PLUS (cpu_type s)
     then let s = s\<lparr>pc := (pc s) + 4\<rparr>
          in if COND_VS s
             then m68ki_exception_trap EXCEPTION_TRAPV s
             else Ret () s
     else m68ki_exception_illegal s)"

definition m68k_op_trappl_32 :: "'b op" where
  "m68k_op_trappl_32 s =
    (if CPU_TYPE_IS_EC020_PLUS (cpu_type s)
     then let s = s\<lparr>pc := (pc s) + 4\<rparr>
          in if COND_PL s
             then m68ki_exception_trap EXCEPTION_TRAPV s
             else Ret () s
     else m68ki_exception_illegal s)"

definition m68k_op_trapmi_32 :: "'b op" where
  "m68k_op_trapmi_32 s =
    (if CPU_TYPE_IS_EC020_PLUS (cpu_type s)
     then let s = s\<lparr>pc := (pc s) + 4\<rparr>
          in if COND_MI s
             then m68ki_exception_trap EXCEPTION_TRAPV s
             else Ret () s
     else m68ki_exception_illegal s)"

definition m68k_op_trapge_32 :: "'b op" where
  "m68k_op_trapge_32 s =
    (if CPU_TYPE_IS_EC020_PLUS (cpu_type s)
     then let s = s\<lparr>pc := (pc s) + 4\<rparr>
          in if COND_GE s
             then m68ki_exception_trap EXCEPTION_TRAPV s
             else Ret () s
     else m68ki_exception_illegal s)"

definition m68k_op_traplt_32 :: "'b op" where
  "m68k_op_traplt_32 s =
    (if CPU_TYPE_IS_EC020_PLUS (cpu_type s)
     then let s = s\<lparr>pc := (pc s) + 4\<rparr>
          in if COND_LT s
             then m68ki_exception_trap EXCEPTION_TRAPV s
             else Ret () s
     else m68ki_exception_illegal s)"

definition m68k_op_trapgt_32 :: "'b op" where
  "m68k_op_trapgt_32 s =
    (if CPU_TYPE_IS_EC020_PLUS (cpu_type s)
     then let s = s\<lparr>pc := (pc s) + 4\<rparr>
          in if COND_GT s
             then m68ki_exception_trap EXCEPTION_TRAPV s
             else Ret () s
     else m68ki_exception_illegal s)"

definition m68k_op_traple_32 :: "'b op" where
  "m68k_op_traple_32 s =
    (if CPU_TYPE_IS_EC020_PLUS (cpu_type s)
     then let s = s\<lparr>pc := (pc s) + 4\<rparr>
          in if COND_LE s
             then m68ki_exception_trap EXCEPTION_TRAPV s
             else Ret () s
     else m68ki_exception_illegal s)"

definition m68k_op_trapv :: "'b op" where
  "m68k_op_trapv s =
    (if COND_VC s
     then Ret () s
     else m68ki_exception_trap EXCEPTION_TRAPV s)"

end
