(* ===== verification/SoftFloat.thy ===== *)
theory SoftFloat
  imports FloatTypes "HOL-Library.While_Combinator"
begin

section \<open>Software floating point\<close>

text \<open>
  The functions of SoftFloat (\<open>softfloat/softfloat.c\<close> with \<open>softfloat-macros\<close> and
  \<open>softfloat-specialize\<close>) that the floating point unit calls.  Significands are words of their C
  width.  Exponents and shift counts, which are sums of a few 15-bit fields and so never leave their
  C types, are integers.  The global variables are passed as a \<open>float_status\<close>.
\<close>

unbundle bit_operations_syntax

definition float_round_nearest_even :: u8 where "float_round_nearest_even = 0"
definition float_round_to_zero :: u8 where "float_round_to_zero = 1"
definition float_round_down :: u8 where "float_round_down = 2"
definition float_round_up :: u8 where "float_round_up = 3"
definition float_flag_invalid :: u8 where "float_flag_invalid = 0x01"
definition float_flag_divbyzero :: u8 where "float_flag_divbyzero = 0x04"
definition float_flag_overflow :: u8 where "float_flag_overflow = 0x08"
definition float_flag_underflow :: u8 where "float_flag_underflow = 0x10"
definition float_flag_inexact :: u8 where "float_flag_inexact = 0x20"
definition floatx80_rounding_precision :: int where "floatx80_rounding_precision = 80"

lemmas float_modes = float_round_nearest_even_def float_round_to_zero_def float_round_down_def
  float_round_up_def
lemmas float_flags = float_flag_invalid_def float_flag_divbyzero_def float_flag_overflow_def
  float_flag_underflow_def float_flag_inexact_def

definition float_raise :: "u8 \<Rightarrow> float_status \<Rightarrow> float_status" where
  "float_raise flags st = st\<lparr>float_exception_flags := float_exception_flags st OR flags\<rparr>"

definition raise_if :: "bool \<Rightarrow> u8 \<Rightarrow> float_status \<Rightarrow> float_status" where
  "raise_if c flags st = (if c then float_raise flags st else st)"

text \<open>A word read as a signed number is negative.\<close>

definition neg64 :: "u64 \<Rightarrow> bool" where "neg64 w \<longleftrightarrow> bit w 63"

text \<open>The loops of the library, each of which ends; where one did not, this would be its start.\<close>

definition while_do :: "('s \<Rightarrow> bool) \<Rightarrow> ('s \<Rightarrow> 's) \<Rightarrow> 's \<Rightarrow> 's" where
  "while_do b c s = (case while_option b c s of Some t \<Rightarrow> t | None \<Rightarrow> s)"

subsection \<open>Shifts and arithmetic on several words (softfloat-macros)\<close>

definition negCount :: "int \<Rightarrow> nat" where "negCount count = nat ((- count) mod 64)"

definition shift32RightJamming :: "u32 \<Rightarrow> int \<Rightarrow> u32" where
  "shift32RightJamming a count =
    (if count = 0 then a
     else if count < 32
     then drop_bit (nat count) a OR of_bool (push_bit (nat ((- count) mod 32)) a \<noteq> 0)
     else of_bool (a \<noteq> 0))"

definition shift64RightJamming :: "u64 \<Rightarrow> int \<Rightarrow> u64" where
  "shift64RightJamming a count =
    (if count = 0 then a
     else if count < 64
     then drop_bit (nat count) a OR of_bool (push_bit (negCount count) a \<noteq> 0)
     else of_bool (a \<noteq> 0))"

definition shift64ExtraRightJamming :: "u64 \<Rightarrow> u64 \<Rightarrow> int \<Rightarrow> u64 \<times> u64" where
  "shift64ExtraRightJamming a0 a1 count =
    (if count = 0 then (a0, a1)
     else if count < 64
     then (drop_bit (nat count) a0, push_bit (negCount count) a0 OR of_bool (a1 \<noteq> 0))
     else (0, if count = 64 then a0 OR of_bool (a1 \<noteq> 0) else of_bool (a0 OR a1 \<noteq> 0)))"

definition shift128Right :: "u64 \<Rightarrow> u64 \<Rightarrow> int \<Rightarrow> u64 \<times> u64" where
  "shift128Right a0 a1 count =
    (if count = 0 then (a0, a1)
     else if count < 64
     then (drop_bit (nat count) a0, push_bit (negCount count) a0 OR drop_bit (nat count) a1)
     else (0, if count < 64 then drop_bit (nat (count mod 64)) a0 else 0))"

definition shift128RightJamming :: "u64 \<Rightarrow> u64 \<Rightarrow> int \<Rightarrow> u64 \<times> u64" where
  "shift128RightJamming a0 a1 count =
    (if count = 0 then (a0, a1)
     else if count < 64
     then (drop_bit (nat count) a0,
           push_bit (negCount count) a0 OR drop_bit (nat count) a1 OR
           of_bool (push_bit (negCount count) a1 \<noteq> 0))
     else (0, if count = 64 then a0 OR of_bool (a1 \<noteq> 0)
              else if count < 128
              then drop_bit (nat (count mod 64)) a0 OR of_bool (push_bit (negCount count) a0 OR a1 \<noteq> 0)
              else of_bool (a0 OR a1 \<noteq> 0)))"

definition shortShift128Left :: "u64 \<Rightarrow> u64 \<Rightarrow> int \<Rightarrow> u64 \<times> u64" where
  "shortShift128Left a0 a1 count =
    (if count = 0 then a0 else push_bit (nat count) a0 OR drop_bit (negCount count) a1,
     push_bit (nat count) a1)"

definition add128 :: "u64 \<Rightarrow> u64 \<Rightarrow> u64 \<Rightarrow> u64 \<Rightarrow> u64 \<times> u64" where
  "add128 a0 a1 b0 b1 = (let z1 = a1 + b1 in (a0 + b0 + of_bool (z1 < a1), z1))"

definition add192 :: "u64 \<Rightarrow> u64 \<Rightarrow> u64 \<Rightarrow> u64 \<Rightarrow> u64 \<Rightarrow> u64 \<Rightarrow> u64 \<times> u64 \<times> u64" where
  "add192 a0 a1 a2 b0 b1 b2 =
    (let z2 = a2 + b2; carry1 = of_bool (z2 < a2); z1 = a1 + b1; carry0 = of_bool (z1 < a1); z0 = a0 + b0;
         z1 = z1 + carry1; z0 = z0 + of_bool (z1 < carry1); z0 = z0 + carry0
     in (z0, z1, z2))"

definition sub128 :: "u64 \<Rightarrow> u64 \<Rightarrow> u64 \<Rightarrow> u64 \<Rightarrow> u64 \<times> u64" where
  "sub128 a0 a1 b0 b1 = (a0 - b0 - of_bool (a1 < b1), a1 - b1)"

definition sub192 :: "u64 \<Rightarrow> u64 \<Rightarrow> u64 \<Rightarrow> u64 \<Rightarrow> u64 \<Rightarrow> u64 \<Rightarrow> u64 \<times> u64 \<times> u64" where
  "sub192 a0 a1 a2 b0 b1 b2 =
    (let z2 = a2 - b2; borrow1 = of_bool (a2 < b2); z1 = a1 - b1; borrow0 = of_bool (a1 < b1); z0 = a0 - b0;
         z0 = z0 - of_bool (z1 < borrow1); z1 = z1 - borrow1; z0 = z0 - borrow0
     in (z0, z1, z2))"

definition mul64To128 :: "u64 \<Rightarrow> u64 \<Rightarrow> u64 \<times> u64" where
  "mul64To128 a b =
    (let aLow = ucast (ucast a :: u32); aHigh = ucast (ucast (drop_bit 32 a) :: u32);
         bLow = ucast (ucast b :: u32); bHigh = ucast (ucast (drop_bit 32 b) :: u32);
         z1 = aLow * bLow; zMiddleA = aLow * bHigh; zMiddleB = aHigh * bLow; z0 = aHigh * bHigh;
         zMiddleA = zMiddleA + zMiddleB;
         z0 = z0 + (push_bit 32 (of_bool (zMiddleA < zMiddleB)) + drop_bit 32 zMiddleA);
         zMiddleA = push_bit 32 zMiddleA;
         z1 = z1 + zMiddleA;
         z0 = z0 + of_bool (z1 < zMiddleA)
     in (z0, z1))"

definition estimateDiv128To64 :: "u64 \<Rightarrow> u64 \<Rightarrow> u64 \<Rightarrow> u64" where
  "estimateDiv128To64 a0 a1 b =
    (if b \<le> a0 then 0xFFFFFFFFFFFFFFFF
     else
       let b0 = drop_bit 32 b;
           z = (if push_bit 32 b0 \<le> a0 then 0xFFFFFFFF00000000 else push_bit 32 (a0 div b0));
           (term0, term1) = mul64To128 b z;
           (rem0, rem1) = sub128 a0 a1 term0 term1;
           (z, rem0, rem1) = while_do (\<lambda>(z, rem0, rem1). neg64 rem0)
             (\<lambda>(z, rem0, rem1). (z - 0x100000000, add128 rem0 rem1 b0 (push_bit 32 b))) (z, rem0, rem1);
           rem0 = push_bit 32 rem0 OR drop_bit 32 rem1
       in z OR (if push_bit 32 b0 \<le> rem0 then 0xFFFFFFFF else rem0 div b0))"

definition sqrtOddAdjustments :: "u32 list" where
  "sqrtOddAdjustments =
    [0x0004, 0x0022, 0x005D, 0x00B1, 0x011D, 0x019F, 0x0236, 0x02E0,
     0x039C, 0x0468, 0x0545, 0x0631, 0x072B, 0x0832, 0x0946, 0x0A67]"

definition sqrtEvenAdjustments :: "u32 list" where
  "sqrtEvenAdjustments =
    [0x0A2D, 0x08AF, 0x075A, 0x0629, 0x051A, 0x0429, 0x0356, 0x029E,
     0x0200, 0x0179, 0x0109, 0x00AF, 0x0068, 0x0034, 0x0012, 0x0002]"

definition estimateSqrt32 :: "int \<Rightarrow> u32 \<Rightarrow> u32" where
  "estimateSqrt32 aExp a =
    (let i = unat (drop_bit 27 a AND 15);
         last = (\<lambda>a z. ucast (push_bit 31 (ucast a :: u64) div ucast z) + drop_bit 1 z)
     in if odd aExp
        then let z = 0x4000 + drop_bit 17 a - sqrtOddAdjustments ! i;
                 z = push_bit 14 (a div z) + push_bit 15 z
             in last (drop_bit 1 a) z
        else let z = 0x8000 + drop_bit 17 a - sqrtEvenAdjustments ! i;
                 z = a div z + z;
                 z = (if 0x20000 \<le> z then 0xFFFF8000 else push_bit 15 z)
             in if z \<le> a then signed_drop_bit 1 a else last a z)"

text \<open>The table of leading zeros of a byte is the count the C array spells out.\<close>

definition countLeadingZerosHigh :: "u32 \<Rightarrow> int" where
  "countLeadingZerosHigh n =
    (if n = 0 then 8 else if n < 2 then 7 else if n < 4 then 6 else if n < 8 then 5 else if n < 16 then 4
     else if n < 32 then 3 else if n < 64 then 2 else if n < 128 then 1 else 0)"

definition countLeadingZeros32 :: "u32 \<Rightarrow> int" where
  "countLeadingZeros32 a =
    (let (a, shiftCount) = (if a < 0x10000 then (push_bit 16 a, 16) else (a, 0));
         (a, shiftCount) = (if a < 0x1000000 then (push_bit 8 a, shiftCount + 8) else (a, shiftCount))
     in shiftCount + countLeadingZerosHigh (drop_bit 24 a))"

definition countLeadingZeros64 :: "u64 \<Rightarrow> int" where
  "countLeadingZeros64 a =
    (if a < 0x100000000 then 32 + countLeadingZeros32 (ucast a) else countLeadingZeros32 (ucast (drop_bit 32 a)))"

definition eq128 :: "u64 \<Rightarrow> u64 \<Rightarrow> u64 \<Rightarrow> u64 \<Rightarrow> bool" where
  "eq128 a0 a1 b0 b1 \<longleftrightarrow> a0 = b0 \<and> a1 = b1"

definition le128 :: "u64 \<Rightarrow> u64 \<Rightarrow> u64 \<Rightarrow> u64 \<Rightarrow> bool" where
  "le128 a0 a1 b0 b1 \<longleftrightarrow> a0 < b0 \<or> a0 = b0 \<and> a1 \<le> b1"

definition lt128 :: "u64 \<Rightarrow> u64 \<Rightarrow> u64 \<Rightarrow> u64 \<Rightarrow> bool" where
  "lt128 a0 a1 b0 b1 \<longleftrightarrow> a0 < b0 \<or> a0 = b0 \<and> a1 < b1"

subsection \<open>NaNs (softfloat-specialize)\<close>

record commonNaNT =
  nan_sign :: bool
  nan_high :: u64
  nan_low :: u64

definition float32_is_signaling_nan :: "u32 \<Rightarrow> bool" where
  "float32_is_signaling_nan a \<longleftrightarrow> drop_bit 22 a AND 0x1FF = 0x1FE \<and> a AND 0x003FFFFF \<noteq> 0"

definition float32ToCommonNaN :: "u32 \<Rightarrow> float_status \<Rightarrow> commonNaNT \<times> float_status" where
  "float32ToCommonNaN a st =
    (\<lparr>nan_sign = bit a 31, nan_high = push_bit 41 (ucast a), nan_low = 0\<rparr>,
     raise_if (float32_is_signaling_nan a) float_flag_invalid st)"

definition commonNaNToFloat32 :: "commonNaNT \<Rightarrow> u32" where
  "commonNaNToFloat32 a = push_bit 31 (of_bool (nan_sign a)) OR 0x7FC00000 OR ucast (drop_bit 41 (nan_high a))"

definition float64_is_signaling_nan :: "u64 \<Rightarrow> bool" where
  "float64_is_signaling_nan a \<longleftrightarrow> drop_bit 51 a AND 0xFFF = 0xFFE \<and> a AND 0x0007FFFFFFFFFFFF \<noteq> 0"

definition float64ToCommonNaN :: "u64 \<Rightarrow> float_status \<Rightarrow> commonNaNT \<times> float_status" where
  "float64ToCommonNaN a st =
    (\<lparr>nan_sign = bit a 63, nan_high = push_bit 12 a, nan_low = 0\<rparr>,
     raise_if (float64_is_signaling_nan a) float_flag_invalid st)"

definition commonNaNToFloat64 :: "commonNaNT \<Rightarrow> u64" where
  "commonNaNToFloat64 a = push_bit 63 (of_bool (nan_sign a)) OR 0x7FF8000000000000 OR drop_bit 12 (nan_high a)"

definition floatx80_default_nan :: floatx80 where
  "floatx80_default_nan = \<lparr>fx_high = 0xFFFF, fx_low = 0xFFFFFFFFFFFFFFFF\<rparr>"

definition floatx80_is_nan :: "floatx80 \<Rightarrow> bool" where
  "floatx80_is_nan a \<longleftrightarrow> fx_high a AND 0x7FFF = 0x7FFF \<and> push_bit 1 (fx_low a) \<noteq> 0"

definition floatx80_is_signaling_nan :: "floatx80 \<Rightarrow> bool" where
  "floatx80_is_signaling_nan a \<longleftrightarrow>
    (let aLow = fx_low a AND NOT 0x4000000000000000
     in fx_high a AND 0x7FFF = 0x7FFF \<and> push_bit 1 aLow \<noteq> 0 \<and> fx_low a = aLow)"

definition floatx80ToCommonNaN :: "floatx80 \<Rightarrow> float_status \<Rightarrow> commonNaNT \<times> float_status" where
  "floatx80ToCommonNaN a st =
    (\<lparr>nan_sign = bit (fx_high a) 15, nan_high = push_bit 1 (fx_low a), nan_low = 0\<rparr>,
     raise_if (floatx80_is_signaling_nan a) float_flag_invalid st)"

definition commonNaNToFloatx80 :: "commonNaNT \<Rightarrow> floatx80" where
  "commonNaNToFloatx80 a =
    \<lparr>fx_high = push_bit 15 (of_bool (nan_sign a)) OR 0x7FFF, fx_low = 0xC000000000000000 OR drop_bit 1 (nan_high a)\<rparr>"

definition propagateFloatx80NaN :: "floatx80 \<Rightarrow> floatx80 \<Rightarrow> float_status \<Rightarrow> floatx80 \<times> float_status" where
  "propagateFloatx80NaN a b st =
    (let aIsNaN = floatx80_is_nan a; aIsSignalingNaN = floatx80_is_signaling_nan a;
         bIsNaN = floatx80_is_nan b; bIsSignalingNaN = floatx80_is_signaling_nan b;
         a = a\<lparr>fx_low := fx_low a OR 0xC000000000000000\<rparr>;
         b = b\<lparr>fx_low := fx_low b OR 0xC000000000000000\<rparr>
     in (if aIsNaN then if aIsSignalingNaN \<and> bIsNaN then b else a else b,
         raise_if (aIsSignalingNaN \<or> bIsSignalingNaN) float_flag_invalid st))"

definition extractFloatx80Frac :: "floatx80 \<Rightarrow> u64" where
  "extractFloatx80Frac a = fx_low a"

definition extractFloatx80Exp :: "floatx80 \<Rightarrow> int" where
  "extractFloatx80Exp a = uint (fx_high a AND 0x7FFF)"

definition extractFloatx80Sign :: "floatx80 \<Rightarrow> bool" where
  "extractFloatx80Sign a = bit (fx_high a) 15"

definition normalizeFloatx80Subnormal :: "u64 \<Rightarrow> int \<times> u64" where
  "normalizeFloatx80Subnormal aSig =
    (let shiftCount = countLeadingZeros64 aSig in (1 - shiftCount, push_bit (nat shiftCount) aSig))"

definition packFloatx80 :: "bool \<Rightarrow> int \<Rightarrow> u64 \<Rightarrow> floatx80" where
  "packFloatx80 zSign zExp zSig =
    \<lparr>fx_high = push_bit 15 (of_bool zSign) + word_of_int zExp, fx_low = zSig\<rparr>"

subsection \<open>Rounding\<close>

text \<open>The amount added before the low bits are cut off, as the rounding routines compute it.\<close>

definition round_increment :: "bool \<Rightarrow> 'a::len word \<Rightarrow> 'a word \<Rightarrow> float_status \<Rightarrow> 'a word" where
  "round_increment zSign half most st =
    (let roundingMode = float_rounding_mode st
     in if roundingMode = float_round_nearest_even then half
        else if roundingMode = float_round_to_zero then 0
        else if zSign then if roundingMode = float_round_up then 0 else most
        else if roundingMode = float_round_down then 0 else most)"

definition nearest_even :: "float_status \<Rightarrow> bool" where
  "nearest_even st \<longleftrightarrow> float_rounding_mode st = float_round_nearest_even"

definition roundAndPackInt32 :: "bool \<Rightarrow> u64 \<Rightarrow> float_status \<Rightarrow> u32 \<times> float_status" where
  "roundAndPackInt32 zSign absZ st =
    (let roundBits = absZ AND 0x7F;
         absZ = drop_bit 7 (absZ + round_increment zSign 0x40 0x7F st);
         absZ = absZ AND NOT (of_bool (roundBits XOR 0x40 = 0 \<and> nearest_even st));
         z = ucast absZ :: u32;
         z = (if zSign then - z else z)
     in if drop_bit 32 absZ \<noteq> 0 \<or> z \<noteq> 0 \<and> bit z 31 \<noteq> zSign
        then (if zSign then 0x80000000 else 0x7FFFFFFF, float_raise float_flag_invalid st)
        else (z, raise_if (roundBits \<noteq> 0) float_flag_inexact st))"

definition extractFloat32Frac :: "u32 \<Rightarrow> u32" where "extractFloat32Frac a = a AND 0x007FFFFF"
definition extractFloat32Exp :: "u32 \<Rightarrow> int" where "extractFloat32Exp a = uint (drop_bit 23 a AND 0xFF)"
definition extractFloat32Sign :: "u32 \<Rightarrow> bool" where "extractFloat32Sign a = bit a 31"

definition normalizeFloat32Subnormal :: "u32 \<Rightarrow> int \<times> u32" where
  "normalizeFloat32Subnormal aSig =
    (let shiftCount = countLeadingZeros32 aSig - 8 in (1 - shiftCount, push_bit (nat shiftCount) aSig))"

definition packFloat32 :: "bool \<Rightarrow> int \<Rightarrow> u32 \<Rightarrow> u32" where
  "packFloat32 zSign zExp zSig = push_bit 31 (of_bool zSign) + push_bit 23 (word_of_int zExp) + zSig"

definition roundAndPackFloat32 :: "bool \<Rightarrow> int \<Rightarrow> u32 \<Rightarrow> float_status \<Rightarrow> u32 \<times> float_status" where
  "roundAndPackFloat32 zSign zExp zSig st =
    (let roundIncrement = round_increment zSign 0x40 0x7F st;
         roundBits = zSig AND 0x7F
     in if 0xFD < zExp \<or> zExp = 0xFD \<and> bit (zSig + roundIncrement) 31
        then (packFloat32 zSign 0xFF 0 - of_bool (roundIncrement = 0),
              float_raise (float_flag_overflow OR float_flag_inexact) st)
        else
          let (zExp, zSig, roundBits, st) =
            (if zExp < 0
             then let isTiny = (zExp < - 1 \<or> zSig + roundIncrement < 0x80000000);
                      zSig = shift32RightJamming zSig (- zExp);
                      roundBits = zSig AND 0x7F
                  in (0, zSig, roundBits, raise_if (isTiny \<and> roundBits \<noteq> 0) float_flag_underflow st)
             else (zExp, zSig, roundBits, st));
              st = raise_if (roundBits \<noteq> 0) float_flag_inexact st;
              zSig = drop_bit 7 (zSig + roundIncrement);
              zSig = zSig AND NOT (of_bool (roundBits XOR 0x40 = 0 \<and> nearest_even st));
              zExp = (if zSig = 0 then 0 else zExp)
          in (packFloat32 zSign zExp zSig, st))"

definition extractFloat64Frac :: "u64 \<Rightarrow> u64" where "extractFloat64Frac a = a AND 0x000FFFFFFFFFFFFF"
definition extractFloat64Exp :: "u64 \<Rightarrow> int" where "extractFloat64Exp a = uint (drop_bit 52 a AND 0x7FF)"
definition extractFloat64Sign :: "u64 \<Rightarrow> bool" where "extractFloat64Sign a = bit a 63"

definition normalizeFloat64Subnormal :: "u64 \<Rightarrow> int \<times> u64" where
  "normalizeFloat64Subnormal aSig =
    (let shiftCount = countLeadingZeros64 aSig - 11 in (1 - shiftCount, push_bit (nat shiftCount) aSig))"

definition packFloat64 :: "bool \<Rightarrow> int \<Rightarrow> u64 \<Rightarrow> u64" where
  "packFloat64 zSign zExp zSig = push_bit 63 (of_bool zSign) + push_bit 52 (word_of_int zExp) + zSig"

definition roundAndPackFloat64 :: "bool \<Rightarrow> int \<Rightarrow> u64 \<Rightarrow> float_status \<Rightarrow> u64 \<times> float_status" where
  "roundAndPackFloat64 zSign zExp zSig st =
    (let roundIncrement = round_increment zSign 0x200 0x3FF st;
         roundBits = zSig AND 0x3FF
     in if 0x7FD < zExp \<or> zExp = 0x7FD \<and> bit (zSig + roundIncrement) 63
        then (packFloat64 zSign 0x7FF 0 - of_bool (roundIncrement = 0),
              float_raise (float_flag_overflow OR float_flag_inexact) st)
        else
          let (zExp, zSig, roundBits, st) =
            (if zExp < 0
             then let isTiny = (zExp < - 1 \<or> zSig + roundIncrement < 0x8000000000000000);
                      zSig = shift64RightJamming zSig (- zExp);
                      roundBits = zSig AND 0x3FF
                  in (0, zSig, roundBits, raise_if (isTiny \<and> roundBits \<noteq> 0) float_flag_underflow st)
             else (zExp, zSig, roundBits, st));
              st = raise_if (roundBits \<noteq> 0) float_flag_inexact st;
              zSig = drop_bit 10 (zSig + roundIncrement);
              zSig = zSig AND NOT (of_bool (roundBits XOR 0x200 = 0 \<and> nearest_even st));
              zExp = (if zSig = 0 then 0 else zExp)
          in (packFloat64 zSign zExp zSig, st))"

text \<open>The label \<open>overflow\<close> of the rounding of extended numbers.\<close>

definition overflowFloatx80 :: "bool \<Rightarrow> u64 \<Rightarrow> float_status \<Rightarrow> floatx80 \<times> float_status" where
  "overflowFloatx80 zSign roundMask st =
    (let roundingMode = float_rounding_mode st
     in (if roundingMode = float_round_to_zero \<or> zSign \<and> roundingMode = float_round_up \<or>
            \<not> zSign \<and> roundingMode = float_round_down
         then packFloatx80 zSign 0x7FFE (NOT roundMask)
         else packFloatx80 zSign 0x7FFF 0x8000000000000000,
         float_raise (float_flag_overflow OR float_flag_inexact) st))"

definition increment80 :: "bool \<Rightarrow> u64 \<Rightarrow> float_status \<Rightarrow> bool" where
  "increment80 zSign zSig1 st =
    (let roundingMode = float_rounding_mode st
     in if roundingMode = float_round_nearest_even then neg64 zSig1
        else if roundingMode = float_round_to_zero then False
        else if zSign then roundingMode = float_round_down \<and> zSig1 \<noteq> 0
        else roundingMode = float_round_up \<and> zSig1 \<noteq> 0)"

text \<open>The label \<open>precision80\<close>.\<close>

definition roundAndPack80 :: "bool \<Rightarrow> int \<Rightarrow> u64 \<Rightarrow> u64 \<Rightarrow> float_status \<Rightarrow> floatx80 \<times> float_status" where
  "roundAndPack80 zSign zExp zSig0 zSig1 st =
    (let inc = increment80 zSign zSig1 st
     in if 0x7FFE < zExp \<or> zExp = 0x7FFE \<and> zSig0 = 0xFFFFFFFFFFFFFFFF \<and> inc
        then overflowFloatx80 zSign 0 st
        else if zExp \<le> 0 then
          let isTiny = (zExp < 0 \<or> \<not> inc \<or> zSig0 < 0xFFFFFFFFFFFFFFFF);
              (zSig0, zSig1) = shift64ExtraRightJamming zSig0 zSig1 (1 - zExp);
              st = raise_if (isTiny \<and> zSig1 \<noteq> 0) float_flag_underflow st;
              st = raise_if (zSig1 \<noteq> 0) float_flag_inexact st
          in if increment80 zSign zSig1 st
             then let zSig0 = (zSig0 + 1) AND NOT (of_bool (push_bit 1 zSig1 = 0 \<and> nearest_even st))
                  in (packFloatx80 zSign (if neg64 zSig0 then 1 else 0) zSig0, st)
             else (packFloatx80 zSign 0 zSig0, st)
        else
          let st = raise_if (zSig1 \<noteq> 0) float_flag_inexact st
          in if inc
             then let zSig0 = zSig0 + 1
                  in if zSig0 = 0 then (packFloatx80 zSign (zExp + 1) 0x8000000000000000, st)
                     else (packFloatx80 zSign zExp
                             (zSig0 AND NOT (of_bool (push_bit 1 zSig1 = 0 \<and> nearest_even st))), st)
             else (packFloatx80 zSign (if zSig0 = 0 then 0 else zExp) zSig0, st))"

text \<open>Rounding to the precision of a double or single number.\<close>

definition roundAndPackShort ::
    "u64 \<Rightarrow> u64 \<Rightarrow> bool \<Rightarrow> int \<Rightarrow> u64 \<Rightarrow> u64 \<Rightarrow> float_status \<Rightarrow> floatx80 \<times> float_status" where
  "roundAndPackShort half roundMask zSign zExp zSig0 zSig1 st =
    (let zSig0 = zSig0 OR of_bool (zSig1 \<noteq> 0);
         roundIncrement = round_increment zSign half roundMask st;
         roundBits = zSig0 AND roundMask;
         keep = (\<lambda>roundBits. if nearest_even st \<and> push_bit 1 roundBits = roundMask + 1
                             then roundMask OR (roundMask + 1) else roundMask)
     in if 0x7FFE < zExp \<or> zExp = 0x7FFE \<and> zSig0 + roundIncrement < zSig0
        then overflowFloatx80 zSign roundMask st
        else if zExp \<le> 0 then
          let isTiny = (zExp < 0 \<or> zSig0 \<le> zSig0 + roundIncrement);
              zSig0 = shift64RightJamming zSig0 (1 - zExp);
              roundBits = zSig0 AND roundMask;
              st = raise_if (isTiny \<and> roundBits \<noteq> 0) float_flag_underflow st;
              st = raise_if (roundBits \<noteq> 0) float_flag_inexact st;
              zSig0 = zSig0 + roundIncrement;
              zExp = (if neg64 zSig0 then 1 else 0)
          in (packFloatx80 zSign zExp (zSig0 AND NOT (keep roundBits)), st)
        else
          let st = raise_if (roundBits \<noteq> 0) float_flag_inexact st;
              zSig0 = zSig0 + roundIncrement;
              (zExp, zSig0) = (if zSig0 < roundIncrement then (zExp + 1, 0x8000000000000000) else (zExp, zSig0));
              zSig0 = zSig0 AND NOT (keep roundBits);
              zExp = (if zSig0 = 0 then 0 else zExp)
          in (packFloatx80 zSign zExp zSig0, st))"

definition roundAndPackFloatx80 ::
    "int \<Rightarrow> bool \<Rightarrow> int \<Rightarrow> u64 \<Rightarrow> u64 \<Rightarrow> float_status \<Rightarrow> floatx80 \<times> float_status" where
  "roundAndPackFloatx80 roundingPrecision zSign zExp zSig0 zSig1 st =
    (if roundingPrecision = 64 then roundAndPackShort 0x400 0x7FF zSign zExp zSig0 zSig1 st
     else if roundingPrecision = 32 then roundAndPackShort 0x8000000000 0xFFFFFFFFFF zSign zExp zSig0 zSig1 st
     else roundAndPack80 zSign zExp zSig0 zSig1 st)"

definition normalizeRoundAndPackFloatx80 ::
    "int \<Rightarrow> bool \<Rightarrow> int \<Rightarrow> u64 \<Rightarrow> u64 \<Rightarrow> float_status \<Rightarrow> floatx80 \<times> float_status" where
  "normalizeRoundAndPackFloatx80 roundingPrecision zSign zExp zSig0 zSig1 st =
    (let (zSig0, zSig1, zExp) = (if zSig0 = 0 then (zSig1, 0, zExp - 64) else (zSig0, zSig1, zExp));
         shiftCount = countLeadingZeros64 zSig0;
         (zSig0, zSig1) = shortShift128Left zSig0 zSig1 shiftCount
     in roundAndPackFloatx80 roundingPrecision zSign (zExp - shiftCount) zSig0 zSig1 st)"

subsection \<open>Conversions\<close>

definition int32_to_floatx80 :: "u32 \<Rightarrow> floatx80" where
  "int32_to_floatx80 a =
    (if a = 0 then packFloatx80 False 0 0
     else
       let zSign = bit a 31;
           absA = (if zSign then - a else a);
           shiftCount = countLeadingZeros32 absA + 32
       in packFloatx80 zSign (0x403E - shiftCount) (push_bit (nat shiftCount) (ucast absA)))"

definition float32_to_floatx80 :: "u32 \<Rightarrow> float_status \<Rightarrow> floatx80 \<times> float_status" where
  "float32_to_floatx80 a st =
    (let aSig = extractFloat32Frac a; aExp = extractFloat32Exp a; aSign = extractFloat32Sign a
     in if aExp = 0xFF
        then if aSig \<noteq> 0 then let (n, st) = float32ToCommonNaN a st in (commonNaNToFloatx80 n, st)
             else (packFloatx80 aSign 0x7FFF 0x8000000000000000, st)
        else if aExp = 0 \<and> aSig = 0 then (packFloatx80 aSign 0 0, st)
        else
          let (aExp, aSig) = (if aExp = 0 then normalizeFloat32Subnormal aSig else (aExp, aSig));
              aSig = aSig OR 0x00800000
          in (packFloatx80 aSign (aExp + 0x3F80) (push_bit 40 (ucast aSig)), st))"

definition float64_to_floatx80 :: "u64 \<Rightarrow> float_status \<Rightarrow> floatx80 \<times> float_status" where
  "float64_to_floatx80 a st =
    (let aSig = extractFloat64Frac a; aExp = extractFloat64Exp a; aSign = extractFloat64Sign a
     in if aExp = 0x7FF
        then if aSig \<noteq> 0 then let (n, st) = float64ToCommonNaN a st in (commonNaNToFloatx80 n, st)
             else (packFloatx80 aSign 0x7FFF 0x8000000000000000, st)
        else if aExp = 0 \<and> aSig = 0 then (packFloatx80 aSign 0 0, st)
        else
          let (aExp, aSig) = (if aExp = 0 then normalizeFloat64Subnormal aSig else (aExp, aSig))
          in (packFloatx80 aSign (aExp + 0x3C00) (push_bit 11 (aSig OR 0x0010000000000000)), st))"

definition floatx80_to_int32 :: "floatx80 \<Rightarrow> float_status \<Rightarrow> u32 \<times> float_status" where
  "floatx80_to_int32 a st =
    (let aSig = extractFloatx80Frac a; aExp = extractFloatx80Exp a; aSign = extractFloatx80Sign a;
         aSign = (if aExp = 0x7FFF \<and> push_bit 1 aSig \<noteq> 0 then False else aSign);
         shiftCount = 0x4037 - aExp;
         shiftCount = (if shiftCount \<le> 0 then 1 else shiftCount)
     in roundAndPackInt32 aSign (shift64RightJamming aSig shiftCount) st)"

definition floatx80_to_int32_round_to_zero :: "floatx80 \<Rightarrow> float_status \<Rightarrow> u32 \<times> float_status" where
  "floatx80_to_int32_round_to_zero a st =
    (let aSig = extractFloatx80Frac a; aExp = extractFloatx80Exp a; aSign = extractFloatx80Sign a;
         invalid = (\<lambda>aSign. (if aSign then 0x80000000 else 0x7FFFFFFF, float_raise float_flag_invalid st))
     in if 0x401E < aExp
        then invalid (if aExp = 0x7FFF \<and> push_bit 1 aSig \<noteq> 0 then False else aSign)
        else if aExp < 0x3FFF then (0, raise_if (aExp \<noteq> 0 \<or> aSig \<noteq> 0) float_flag_inexact st)
        else
          let shiftCount = nat (0x403E - aExp);
              savedASig = aSig;
              aSig = drop_bit shiftCount aSig;
              z = ucast aSig :: u32;
              z = (if aSign then - z else z)
          in if bit z 31 \<noteq> aSign then invalid aSign
             else (z, raise_if (push_bit shiftCount aSig \<noteq> savedASig) float_flag_inexact st))"

definition floatx80_to_float32 :: "floatx80 \<Rightarrow> float_status \<Rightarrow> u32 \<times> float_status" where
  "floatx80_to_float32 a st =
    (let aSig = extractFloatx80Frac a; aExp = extractFloatx80Exp a; aSign = extractFloatx80Sign a
     in if aExp = 0x7FFF
        then if push_bit 1 aSig \<noteq> 0
             then let (n, st) = floatx80ToCommonNaN a st in (commonNaNToFloat32 n, st)
             else (packFloat32 aSign 0xFF 0, st)
        else
          let aSig = shift64RightJamming aSig 33;
              aExp = (if aExp \<noteq> 0 \<or> aSig \<noteq> 0 then aExp - 0x3F81 else aExp)
          in roundAndPackFloat32 aSign aExp (ucast aSig) st)"

definition floatx80_to_float64 :: "floatx80 \<Rightarrow> float_status \<Rightarrow> u64 \<times> float_status" where
  "floatx80_to_float64 a st =
    (let aSig = extractFloatx80Frac a; aExp = extractFloatx80Exp a; aSign = extractFloatx80Sign a
     in if aExp = 0x7FFF
        then if push_bit 1 aSig \<noteq> 0
             then let (n, st) = floatx80ToCommonNaN a st in (commonNaNToFloat64 n, st)
             else (packFloat64 aSign 0x7FF 0, st)
        else
          let zSig = shift64RightJamming aSig 1;
              aExp = (if aExp \<noteq> 0 \<or> aSig \<noteq> 0 then aExp - 0x3C01 else aExp)
          in roundAndPackFloat64 aSign aExp zSig st)"

subsection \<open>Arithmetic\<close>

definition invalid_result :: "float_status \<Rightarrow> floatx80 \<times> float_status" where
  "invalid_result st = (floatx80_default_nan, float_raise float_flag_invalid st)"

definition floatx80_infinity :: "bool \<Rightarrow> floatx80" where
  "floatx80_infinity zSign = packFloatx80 zSign 0x7FFF 0x8000000000000000"

definition addFloatx80Sigs :: "floatx80 \<Rightarrow> floatx80 \<Rightarrow> bool \<Rightarrow> float_status \<Rightarrow> floatx80 \<times> float_status" where
  "addFloatx80Sigs a b zSign st =
    (let aSig = extractFloatx80Frac a; aExp = extractFloatx80Exp a;
         bSig = extractFloatx80Frac b; bExp = extractFloatx80Exp b;
         expDiff = aExp - bExp;
         roundAndPack = (\<lambda>zExp zSig0 zSig1.
           roundAndPackFloatx80 floatx80_rounding_precision zSign zExp zSig0 zSig1 st);
         shiftRight1 = (\<lambda>zExp zSig0 zSig1.
           let (zSig0, zSig1) = shift64ExtraRightJamming zSig0 zSig1 1
           in roundAndPack (zExp + 1) (zSig0 OR 0x8000000000000000) zSig1);
         sum = (\<lambda>zExp aSig bSig zSig1.
           let zSig0 = aSig + bSig
           in if neg64 zSig0 then roundAndPack zExp zSig0 zSig1 else shiftRight1 zExp zSig0 zSig1)
     in if 0 < expDiff then
          if aExp = 0x7FFF then if push_bit 1 aSig \<noteq> 0 then propagateFloatx80NaN a b st else (a, st)
          else
            let expDiff = (if bExp = 0 then expDiff - 1 else expDiff);
                (bSig, zSig1) = shift64ExtraRightJamming bSig 0 expDiff
            in sum aExp aSig bSig zSig1
        else if expDiff < 0 then
          if bExp = 0x7FFF
          then if push_bit 1 bSig \<noteq> 0 then propagateFloatx80NaN a b st else (floatx80_infinity zSign, st)
          else
            let expDiff = (if aExp = 0 then expDiff + 1 else expDiff);
                (aSig, zSig1) = shift64ExtraRightJamming aSig 0 (- expDiff)
            in sum bExp aSig bSig zSig1
        else if aExp = 0x7FFF then
          if push_bit 1 (aSig OR bSig) \<noteq> 0 then propagateFloatx80NaN a b st else (a, st)
        else
          let zSig0 = aSig + bSig
          in if aExp = 0
             then let (zExp, zSig0) = normalizeFloatx80Subnormal zSig0 in roundAndPack zExp zSig0 0
             else shiftRight1 aExp zSig0 0)"

definition subFloatx80Sigs :: "floatx80 \<Rightarrow> floatx80 \<Rightarrow> bool \<Rightarrow> float_status \<Rightarrow> floatx80 \<times> float_status" where
  "subFloatx80Sigs a b zSign st =
    (let aSig = extractFloatx80Frac a; aExp = extractFloatx80Exp a;
         bSig = extractFloatx80Frac b; bExp = extractFloatx80Exp b;
         expDiff = aExp - bExp;
         bBigger = (\<lambda>bExp aSig zSig1.
           let (zSig0, zSig1) = sub128 bSig 0 aSig zSig1
           in normalizeRoundAndPackFloatx80 floatx80_rounding_precision (\<not> zSign) bExp zSig0 zSig1 st);
         aBigger = (\<lambda>aExp bSig zSig1.
           let (zSig0, zSig1) = sub128 aSig 0 bSig zSig1
           in normalizeRoundAndPackFloatx80 floatx80_rounding_precision zSign aExp zSig0 zSig1 st)
     in if 0 < expDiff then
          if aExp = 0x7FFF then if push_bit 1 aSig \<noteq> 0 then propagateFloatx80NaN a b st else (a, st)
          else
            let expDiff = (if bExp = 0 then expDiff - 1 else expDiff);
                (bSig, zSig1) = shift128RightJamming bSig 0 expDiff
            in aBigger aExp bSig zSig1
        else if expDiff < 0 then
          if bExp = 0x7FFF
          then if push_bit 1 bSig \<noteq> 0 then propagateFloatx80NaN a b st else (floatx80_infinity (\<not> zSign), st)
          else
            let expDiff = (if aExp = 0 then expDiff + 1 else expDiff);
                (aSig, zSig1) = shift128RightJamming aSig 0 (- expDiff)
            in bBigger bExp aSig zSig1
        else if aExp = 0x7FFF then
          if push_bit 1 (aSig OR bSig) \<noteq> 0 then propagateFloatx80NaN a b st else invalid_result st
        else
          let aExp = (if aExp = 0 then 1 else aExp)
          in if bSig < aSig then aBigger aExp bSig 0
             else if aSig < bSig then bBigger aExp aSig 0
             else (packFloatx80 (float_rounding_mode st = float_round_down) 0 0, st))"

definition floatx80_add :: "floatx80 \<Rightarrow> floatx80 \<Rightarrow> float_status \<Rightarrow> floatx80 \<times> float_status" where
  "floatx80_add a b st =
    (let aSign = extractFloatx80Sign a; bSign = extractFloatx80Sign b
     in if aSign = bSign then addFloatx80Sigs a b aSign st else subFloatx80Sigs a b aSign st)"

definition floatx80_sub :: "floatx80 \<Rightarrow> floatx80 \<Rightarrow> float_status \<Rightarrow> floatx80 \<times> float_status" where
  "floatx80_sub a b st =
    (let aSign = extractFloatx80Sign a; bSign = extractFloatx80Sign b
     in if aSign = bSign then subFloatx80Sigs a b aSign st else addFloatx80Sigs a b aSign st)"

definition floatx80_mul :: "floatx80 \<Rightarrow> floatx80 \<Rightarrow> float_status \<Rightarrow> floatx80 \<times> float_status" where
  "floatx80_mul a b st =
    (let aSig = extractFloatx80Frac a; aExp = extractFloatx80Exp a; aSign = extractFloatx80Sign a;
         bSig = extractFloatx80Frac b; bExp = extractFloatx80Exp b; bSign = extractFloatx80Sign b;
         zSign = (aSign \<noteq> bSign)
     in if aExp = 0x7FFF then
          if push_bit 1 aSig \<noteq> 0 \<or> bExp = 0x7FFF \<and> push_bit 1 bSig \<noteq> 0 then propagateFloatx80NaN a b st
          else if bExp = 0 \<and> bSig = 0 then invalid_result st
          else (floatx80_infinity zSign, st)
        else if bExp = 0x7FFF then
          if push_bit 1 bSig \<noteq> 0 then propagateFloatx80NaN a b st
          else if aExp = 0 \<and> aSig = 0 then invalid_result st
          else (floatx80_infinity zSign, st)
        else if aExp = 0 \<and> aSig = 0 then (packFloatx80 zSign 0 0, st)
        else
          let (aExp, aSig) = (if aExp = 0 then normalizeFloatx80Subnormal aSig else (aExp, aSig))
          in if bExp = 0 \<and> bSig = 0 then (packFloatx80 zSign 0 0, st)
             else
               let (bExp, bSig) = (if bExp = 0 then normalizeFloatx80Subnormal bSig else (bExp, bSig));
                   zExp = aExp + bExp - 0x3FFE;
                   (zSig0, zSig1) = mul64To128 aSig bSig
               in if \<not> neg64 zSig0 \<and> zSig0 \<noteq> 0
                  then let (zSig0, zSig1) = shortShift128Left zSig0 zSig1 1
                       in roundAndPackFloatx80 floatx80_rounding_precision zSign (zExp - 1) zSig0 zSig1 st
                  else roundAndPackFloatx80 floatx80_rounding_precision zSign zExp zSig0 zSig1 st)"

text \<open>The quotient of two significands, with a remainder bit.\<close>

definition div_correct :: "u64 \<Rightarrow> u64 \<times> u64 \<times> u64 \<Rightarrow> u64 \<times> u64 \<times> u64" where
  "div_correct bSig = while_do (\<lambda>(z, rem0, rem1). neg64 rem0)
     (\<lambda>(z, rem0, rem1). (z - 1, add128 rem0 rem1 0 bSig))"

definition div_significands :: "u64 \<Rightarrow> u64 \<Rightarrow> u64 \<Rightarrow> u64 \<times> u64" where
  "div_significands aSig rem1 bSig =
    (let zSig0 = estimateDiv128To64 aSig rem1 bSig;
         (term0, term1) = mul64To128 bSig zSig0;
         (zSig0, rem0, rem1) = div_correct bSig (zSig0, sub128 aSig rem1 term0 term1);
         zSig1 = estimateDiv128To64 rem1 0 bSig
     in if push_bit 1 zSig1 \<le> 8
        then let (term1, term2) = mul64To128 bSig zSig1;
                 (zSig1, rem1, rem2) = div_correct bSig (zSig1, sub128 rem1 0 term1 term2)
             in (zSig0, zSig1 OR of_bool (rem1 OR rem2 \<noteq> 0))
        else (zSig0, zSig1))"

definition floatx80_div :: "floatx80 \<Rightarrow> floatx80 \<Rightarrow> float_status \<Rightarrow> floatx80 \<times> float_status" where
  "floatx80_div a b st =
    (let aSig = extractFloatx80Frac a; aExp = extractFloatx80Exp a; aSign = extractFloatx80Sign a;
         bSig = extractFloatx80Frac b; bExp = extractFloatx80Exp b; bSign = extractFloatx80Sign b;
         zSign = (aSign \<noteq> bSign)
     in if aExp = 0x7FFF then
          if push_bit 1 aSig \<noteq> 0 then propagateFloatx80NaN a b st
          else if bExp = 0x7FFF
          then if push_bit 1 bSig \<noteq> 0 then propagateFloatx80NaN a b st else invalid_result st
          else (floatx80_infinity zSign, st)
        else if bExp = 0x7FFF then
          if push_bit 1 bSig \<noteq> 0 then propagateFloatx80NaN a b st else (packFloatx80 zSign 0 0, st)
        else if bExp = 0 \<and> bSig = 0 then
          if aExp = 0 \<and> aSig = 0 then invalid_result st
          else (floatx80_infinity zSign, float_raise float_flag_divbyzero st)
        else
          let (bExp, bSig) = (if bExp = 0 then normalizeFloatx80Subnormal bSig else (bExp, bSig))
          in if aExp = 0 \<and> aSig = 0 then (packFloatx80 zSign 0 0, st)
             else
               let (aExp, aSig) = (if aExp = 0 then normalizeFloatx80Subnormal aSig else (aExp, aSig));
                   zExp = aExp - bExp + 0x3FFE;
                   (aSig, rem1, zExp) = (if bSig \<le> aSig
                     then let (aSig, rem1) = shift128Right aSig 0 1 in (aSig, rem1, zExp + 1)
                     else (aSig, 0, zExp));
                   (zSig0, zSig1) = div_significands aSig rem1 bSig
               in roundAndPackFloatx80 floatx80_rounding_precision zSign zExp zSig0 zSig1 st)"

text \<open>The steps of the remainder: 62 bits of quotient at a time.\<close>

function rem_loop :: "u64 \<Rightarrow> u64 \<Rightarrow> u64 \<Rightarrow> u64 \<Rightarrow> int \<Rightarrow> u64 \<times> u64 \<times> u64 \<times> int" where
  "rem_loop bSig q aSig0 aSig1 expDiff =
    (if 0 < expDiff
     then let q = estimateDiv128To64 aSig0 aSig1 bSig;
              q = (if 2 < q then q - 2 else 0);
              (term0, term1) = mul64To128 bSig q;
              (aSig0, aSig1) = sub128 aSig0 aSig1 term0 term1;
              (aSig0, aSig1) = shortShift128Left aSig0 aSig1 62
          in rem_loop bSig q aSig0 aSig1 (expDiff - 62)
     else (q, aSig0, aSig1, expDiff))"
  by pat_completeness auto
termination by (relation "measure (\<lambda>(_, _, _, _, expDiff). nat expDiff)") auto

declare rem_loop.simps [simp del]

definition floatx80_rem :: "floatx80 \<Rightarrow> floatx80 \<Rightarrow> float_status \<Rightarrow> floatx80 \<times> float_status" where
  "floatx80_rem a b st =
    (let aSig0 = extractFloatx80Frac a; aExp = extractFloatx80Exp a; aSign = extractFloatx80Sign a;
         bSig = extractFloatx80Frac b; bExp = extractFloatx80Exp b
     in if aExp = 0x7FFF then
          if push_bit 1 aSig0 \<noteq> 0 \<or> bExp = 0x7FFF \<and> push_bit 1 bSig \<noteq> 0 then propagateFloatx80NaN a b st
          else invalid_result st
        else if bExp = 0x7FFF then
          if push_bit 1 bSig \<noteq> 0 then propagateFloatx80NaN a b st else (a, st)
        else if bExp = 0 \<and> bSig = 0 then invalid_result st
        else
          let (bExp, bSig) = (if bExp = 0 then normalizeFloatx80Subnormal bSig else (bExp, bSig))
          in if aExp = 0 \<and> push_bit 1 aSig0 = 0 then (a, st)
             else
               let (aExp, aSig0) = (if aExp = 0 then normalizeFloatx80Subnormal aSig0 else (aExp, aSig0));
                   bSig = bSig OR 0x8000000000000000;
                   expDiff = aExp - bExp
               in if expDiff < - 1 then (a, st)
                  else
                    let ((aSig0, aSig1), expDiff) = (if expDiff < 0 then (shift128Right aSig0 0 1, 0)
                          else ((aSig0, 0), expDiff));
                        q = of_bool (bSig \<le> aSig0);
                        aSig0 = (if q \<noteq> 0 then aSig0 - bSig else aSig0);
                        (q, aSig0, aSig1, expDiff) = rem_loop bSig q aSig0 aSig1 (expDiff - 64);
                        expDiff = expDiff + 64;
                        (q, aSig0, aSig1, term0, term1) =
                          (if 0 < expDiff
                           then let q = estimateDiv128To64 aSig0 aSig1 bSig;
                                    q = (if 2 < q then q - 2 else 0);
                                    q = drop_bit (nat (64 - expDiff)) q;
                                    (term0, term1) = mul64To128 bSig (push_bit (nat (64 - expDiff)) q);
                                    (aSig0, aSig1) = sub128 aSig0 aSig1 term0 term1;
                                    (term0, term1) = shortShift128Left 0 bSig (64 - expDiff);
                                    (q, aSig0, aSig1) = while_do (\<lambda>(q, aSig0, aSig1). le128 term0 term1 aSig0 aSig1)
                                      (\<lambda>(q, aSig0, aSig1). (q + 1, sub128 aSig0 aSig1 term0 term1)) (q, aSig0, aSig1)
                                in (q, aSig0, aSig1, term0, term1)
                           else (q, aSig0, aSig1, bSig, 0));
                        (alternateASig0, alternateASig1) = sub128 term0 term1 aSig0 aSig1;
                        swap = (lt128 alternateASig0 alternateASig1 aSig0 aSig1 \<or>
                          eq128 alternateASig0 alternateASig1 aSig0 aSig1 \<and> q AND 1 \<noteq> 0)
                    in normalizeRoundAndPackFloatx80 80 (if swap then \<not> aSign else aSign) (bExp + expDiff)
                         (if swap then alternateASig0 else aSig0) (if swap then alternateASig1 else aSig1) st)"

text \<open>The second word of a square root.\<close>

definition sqrt_extra :: "u64 \<Rightarrow> u64 \<Rightarrow> u64" where
  "sqrt_extra rem1 doubleZSig0 =
    (let zSig1 = estimateDiv128To64 rem1 0 doubleZSig0
     in if zSig1 AND 0x3FFFFFFFFFFFFFFF \<le> 5
        then let zSig1 = (if zSig1 = 0 then 1 else zSig1);
                 (term1, term2) = mul64To128 doubleZSig0 zSig1;
                 (rem1, rem2) = sub128 rem1 0 term1 term2;
                 (term2, term3) = mul64To128 zSig1 zSig1;
                 (zSig1, rem1, rem2, rem3) = while_do (\<lambda>(zSig1, rem1, rem2, rem3). neg64 rem1)
                   (\<lambda>(zSig1, rem1, rem2, rem3).
                      let zSig1 = zSig1 - 1; (term2, term3) = shortShift128Left 0 zSig1 1;
                          term3 = term3 OR 1; term2 = term2 OR doubleZSig0
                      in (zSig1, add192 rem1 rem2 rem3 0 term2 term3))
                   (zSig1, sub192 rem1 rem2 0 0 term2 term3)
             in zSig1 OR of_bool (rem1 OR rem2 OR rem3 \<noteq> 0)
        else zSig1)"

definition floatx80_sqrt :: "floatx80 \<Rightarrow> float_status \<Rightarrow> floatx80 \<times> float_status" where
  "floatx80_sqrt a st =
    (let aSig0 = extractFloatx80Frac a; aExp = extractFloatx80Exp a; aSign = extractFloatx80Sign a
     in if aExp = 0x7FFF then
          if push_bit 1 aSig0 \<noteq> 0 then propagateFloatx80NaN a a st
          else if \<not> aSign then (a, st) else invalid_result st
        else if aSign then if aExp = 0 \<and> aSig0 = 0 then (a, st) else invalid_result st
        else if aExp = 0 \<and> aSig0 = 0 then (packFloatx80 False 0 0, st)
        else
          let (aExp, aSig0) = (if aExp = 0 then normalizeFloatx80Subnormal aSig0 else (aExp, aSig0));
              zExp = (aExp - 0x3FFF) div 2 + 0x3FFF;
              zSig0 = ucast (estimateSqrt32 aExp (ucast (drop_bit 32 aSig0))) :: u64;
              (aSig0, aSig1) = shift128Right aSig0 0 (2 + aExp mod 2);
              zSig0 = estimateDiv128To64 aSig0 aSig1 (push_bit 32 zSig0) + push_bit 30 zSig0;
              doubleZSig0 = push_bit 1 zSig0;
              (term0, term1) = mul64To128 zSig0 zSig0;
              (zSig0, doubleZSig0, rem0, rem1) = while_do (\<lambda>(zSig0, doubleZSig0, rem0, rem1). neg64 rem0)
                (\<lambda>(zSig0, doubleZSig0, rem0, rem1).
                   let zSig0 = zSig0 - 1; doubleZSig0 = doubleZSig0 - 2
                   in (zSig0, doubleZSig0, add128 rem0 rem1 (drop_bit 63 zSig0) (doubleZSig0 OR 1)))
                (zSig0, doubleZSig0, sub128 aSig0 aSig1 term0 term1);
              (zSig0, zSig1) = shortShift128Left 0 (sqrt_extra rem1 doubleZSig0) 1
          in roundAndPackFloatx80 floatx80_rounding_precision False zExp (zSig0 OR doubleZSig0) zSig1 st)"

end
