(* ===== verification/Fpu.thy ===== *)
theory Fpu
  imports PmmuOps OpsBase Api SoftFloat
begin

section \<open>The floating point unit\<close>

text \<open>
  \<open>m68kfpu.c\<close> with the two handlers of m68kops.c that call it.  The extended registers are the field
  \<open>fpr\<close>, the status registers \<open>fpsr\<close>, \<open>fpcr\<close> and \<open>fpiar\<close>; the globals of SoftFloat are the field
  \<open>softfloat\<close>.  A C \<open>double\<close> is the word of its bits.  The functions of the mathematical library of the
  host and its conversion of numbers from and to text are a parameter, \<open>host_math\<close>.  The reports of
  refused encodings to the host are left out; what remains is the line-1111 exception, after which the
  handlers go on, as in C.
\<close>

unbundle bit_operations_syntax

datatype libm_function = Sin | Cos | Sinh | Log1p | Expm1 | Tanh | Atan | Asin | Atanh | Tan | Exp | Exp2
  | PowTen | Log | LogTen | LogTwo | Cosh | Acos

record host_math =
  libm :: "libm_function \<Rightarrow> u64 \<Rightarrow> u64"
  ldexp :: "u64 \<Rightarrow> u32 \<Rightarrow> u64"
  sscanf_le :: "string \<Rightarrow> u64"
  sprintf_16e :: "u64 \<Rightarrow> string"

definition fpu_unimplemented :: "'b op" where
  "fpu_unimplemented = m68ki_exception_1111"

definition FPCC_N :: u32 where "FPCC_N = 0x08000000"
definition FPCC_Z :: u32 where "FPCC_Z = 0x04000000"
definition FPCC_I :: u32 where "FPCC_I = 0x02000000"
definition FPCC_NAN :: u32 where "FPCC_NAN = 0x01000000"
definition FPES_BSUN :: u32 where "FPES_BSUN = 0x00008000"
definition FPES_SNAN :: u32 where "FPES_SNAN = 0x00004000"
definition FPES_OPERR :: u32 where "FPES_OPERR = 0x00002000"
definition FPES_OVFL :: u32 where "FPES_OVFL = 0x00001000"
definition FPES_UNFL :: u32 where "FPES_UNFL = 0x00000800"
definition FPES_DZ :: u32 where "FPES_DZ = 0x00000400"
definition FPES_INEX2 :: u32 where "FPES_INEX2 = 0x00000200"
definition FPES_INEX1 :: u32 where "FPES_INEX1 = 0x00000100"
definition FPAE_IOP :: u32 where "FPAE_IOP = 0x00000080"
definition FPAE_OVFL :: u32 where "FPAE_OVFL = 0x00000040"
definition FPAE_UNFL :: u32 where "FPAE_UNFL = 0x00000020"
definition FPAE_DZ :: u32 where "FPAE_DZ = 0x00000010"
definition FPAE_INEX :: u32 where "FPAE_INEX = 0x00000008"

lemmas fpcc_defs = FPCC_N_def FPCC_Z_def FPCC_I_def FPCC_NAN_def
lemmas fpes_defs = FPES_BSUN_def FPES_SNAN_def FPES_OPERR_def FPES_OVFL_def FPES_UNFL_def FPES_DZ_def
  FPES_INEX2_def FPES_INEX1_def
lemmas fpae_defs = FPAE_IOP_def FPAE_OVFL_def FPAE_UNFL_def FPAE_DZ_def FPAE_INEX_def

subsection \<open>SoftFloat on the state of the processor\<close>

definition with_float :: "(float_status \<Rightarrow> 'v \<times> float_status) \<Rightarrow> 'b machine \<Rightarrow> 'v \<times> 'b machine" where
  "with_float f s = (let (v, st) = f (softfloat s) in (v, s\<lparr>softfloat := st\<rparr>))"

definition REG_FP :: "'b machine \<Rightarrow> u32 \<Rightarrow> floatx80" where
  "REG_FP s i = fpr s (unat i)"

definition set_REG_FP :: "u32 \<Rightarrow> floatx80 \<Rightarrow> 'b machine \<Rightarrow> 'b machine" where
  "set_REG_FP i v s = s\<lparr>fpr := (fpr s)(unat i := v)\<rparr>"

definition fx80_to_double :: "floatx80 \<Rightarrow> 'b machine \<Rightarrow> u64 \<times> 'b machine" where
  "fx80_to_double fx = with_float (floatx80_to_float64 fx)"

definition double_to_fx80 :: "u64 \<Rightarrow> 'b machine \<Rightarrow> floatx80 \<times> 'b machine" where
  "double_to_fx80 d = with_float (float64_to_floatx80 d)"

text \<open>
  The conversions of C: \<open>(float)\<close> of a \<open>double\<close> rounds to nearest and widens again without loss,
  \<open>(double)\<close> of a small integer is exact.
\<close>

definition c_float :: "u64 \<Rightarrow> u64" where
  "c_float d =
    (let st = \<lparr>float_rounding_mode = 0, float_exception_flags = 0\<rparr>;
         narrow = fst (floatx80_to_float32 (fst (float64_to_floatx80 d st)) st)
     in fst (floatx80_to_float64 (fst (float32_to_floatx80 narrow st)) st))"

definition c_double :: "int \<Rightarrow> u64" where
  "c_double n =
    (if n = 0 then 0
     else
       let absA = word_of_int \<bar>n\<bar>; shiftCount = countLeadingZeros32 absA + 21
       in packFloat64 (n < 0) (0x432 - shiftCount) (push_bit (nat shiftCount) (ucast absA)))"

definition load_extended_float80 :: "u32 \<Rightarrow> 'b machine \<Rightarrow> ('b, floatx80) result" where
  "load_extended_float80 ea s =
     chain (m68ki_read_16 ea s) (\<lambda>d3 s.
     chain (m68ki_read_32 (ea + 4) s) (\<lambda>d1 s.
     chain (m68ki_read_32 (ea + 8) s) (\<lambda>d2.
     Ret \<lparr>fx_high = ucast d3, fx_low = push_bit 32 (ucast d1) OR ucast d2\<rparr>)))"

definition store_extended_float80 :: "u32 \<Rightarrow> floatx80 \<Rightarrow> 'b op" where
  "store_extended_float80 ea v s =
     chain (m68ki_write_16 ea (ucast (fx_high v)) s) (\<lambda>_ s.
     chain (m68ki_write_16 (ea + 2) 0 s) (\<lambda>_ s.
     chain (m68ki_write_32 (ea + 4) (ucast (drop_bit 32 (fx_low v))) s) (\<lambda>_.
     m68ki_write_32 (ea + 8) (ucast (fx_low v)))))"

subsection \<open>Packed decimal\<close>

text \<open>A digit as a character; hexadecimal digits above nine become the characters after \<open>9\<close>.\<close>

definition digit :: "u32 \<Rightarrow> nat \<Rightarrow> char" where
  "digit dw shift = char_of (unat (drop_bit shift dw AND 0xf) + 48)"

definition packed_text :: "u32 \<Rightarrow> u32 \<Rightarrow> u32 \<Rightarrow> string" where
  "packed_text dw1 dw2 dw3 =
     (if dw1 AND 0x80000000 \<noteq> 0 then ''-'' else []) @ [digit dw1 0, CHR ''.''] @
     map (digit dw2) [28, 24, 20, 16, 12, 8, 4, 0] @ map (digit dw3) [28, 24, 20, 16, 12, 8, 4, 0] @ ''E'' @
     (if dw1 AND 0x40000000 \<noteq> 0 then ''-'' else []) @ map (digit dw1) [24, 20, 16]"

definition load_pack_float80 :: "host_math \<Rightarrow> u32 \<Rightarrow> 'b machine \<Rightarrow> ('b, floatx80) result" where
  "load_pack_float80 math ea s =
     chain (m68ki_read_32 ea s) (\<lambda>dw1 s.
     chain (m68ki_read_32 (ea + 4) s) (\<lambda>dw2 s.
     chain (m68ki_read_32 (ea + 8) s) (\<lambda>dw3 s.
     case_prod Ret (double_to_fx80 (sscanf_le math (packed_text dw1 dw2 dw3)) s))))"

definition pkmask2 :: "u32 list" where
  "pkmask2 = [0xffffffff, 0, 0xf0000000, 0xff000000, 0xfff00000, 0xffff0000, 0xfffff000, 0xffffff00,
     0xfffffff0, 0xffffffff, 0xffffffff, 0xffffffff, 0xffffffff, 0xffffffff, 0xffffffff, 0xffffffff,
     0xffffffff, 0xffffffff]"

definition pkmask3 :: "u32 list" where
  "pkmask3 = [0xffffffff, 0, 0, 0, 0, 0, 0, 0, 0, 0, 0xf0000000, 0xff000000, 0xfff00000, 0xffff0000,
     0xfffff000, 0xffffff00, 0xfffffff0, 0xffffffff]"

text \<open>
  The character array \<open>str\<close> as a function of the position, zero after the text; the pointer \<open>ch\<close> is a
  position.  A position outside the array, which the C code can compute for large exponents, is just
  another position here.
\<close>

definition chars_of :: "string \<Rightarrow> int \<Rightarrow> int" where
  "chars_of text i = (if 0 \<le> i \<and> nat i < length text then of_char (text ! nat i) else 0)"

definition is_digit :: "int \<Rightarrow> bool" where "is_digit c \<longleftrightarrow> 48 \<le> c \<and> c \<le> 57"

text \<open>The digits found at successive positions, put together with four bits each.\<close>

fun take_digits :: "nat \<Rightarrow> (int \<Rightarrow> int) \<Rightarrow> int \<Rightarrow> u32 \<Rightarrow> u32 \<times> int" where
  "take_digits 0 str ch dw = (dw, ch)"
| "take_digits (Suc n) str ch dw =
    (if is_digit (str ch) then take_digits n str (ch + 1) (push_bit 4 dw OR word_of_int (str ch - 48))
     else take_digits n str ch (push_bit 4 dw))"

fun take_exponent :: "nat \<Rightarrow> (int \<Rightarrow> int) \<Rightarrow> int \<Rightarrow> int \<Rightarrow> int \<times> int" where
  "take_exponent 0 str ch j = (j, ch)"
| "take_exponent (Suc n) str ch j =
    (if is_digit (str ch) then take_exponent n str (ch + 1) (j * 16 + (str ch - 48))
     else take_exponent n str ch j)"

text \<open>A negative k-factor counts digits after the point: the mantissa is rounded in the text.\<close>

definition cut_mantissa :: "int \<Rightarrow> (int \<Rightarrow> int) \<Rightarrow> int \<Rightarrow> int \<Rightarrow> int" where
  "cut_mantissa k str ch =
    (let e = fold (\<lambda>i e. if is_digit (str (ch + 18 + i)) then e * 16 + (str (ch + 18 + i) - 48) else e)
               [0, 1, 2] 0;
         e = (if str (ch + 17) = 45 then - e else e);
         k = - k + (e - 1);
         str = (if 53 \<le> str (ch + k + 1) then str(ch + k := str (ch + k) + 1) else str)
     in (\<lambda>i. if ch + k + 1 \<le> i \<and> i < ch + 16 then 48 else str i))"

definition pack_decimal :: "int \<Rightarrow> (int \<Rightarrow> int) \<Rightarrow> u32 \<times> u32 \<times> u32" where
  "pack_decimal k str =
    (let (dw1, ch) = (if str 0 = 45 then (0x80000000, 1) else (0, 0));
         ch = (if str ch = 43 then ch + 1 else ch);
         dw1 = dw1 OR word_of_int (str ch - 48); ch = ch + 1;
         ch = (if str ch = 46 then ch + 1 else ch);
         (k, str) = (if k \<le> 0 \<and> - 13 \<le> k then (0, cut_mantissa k str ch) else (k, str));
         (dw2, ch) = take_digits 8 str ch 0;
         (dw3, ch) = take_digits 8 str ch 0;
         (dw2, dw3) = (if 1 \<le> k
            then let m = (if k \<le> 17 then nat k else 17) in (dw2 AND pkmask2 ! m, dw3 AND pkmask3 ! m)
            else (dw2, dw3))
     in if str ch = 101 \<or> str ch = 69
        then let ch = ch + 1;
                 (dw1, ch) = (if str ch = 45 then (dw1 OR 0x40000000, ch + 1) else (dw1, ch));
                 ch = (if str ch = 43 then ch + 1 else ch);
                 (j, ch) = take_exponent 3 str ch 0
             in (dw1 OR push_bit 16 (word_of_int j), dw2, dw3)
        else (dw1, dw2, dw3))"

definition store_pack_float80 :: "host_math \<Rightarrow> u32 \<Rightarrow> u32 \<Rightarrow> floatx80 \<Rightarrow> 'b op" where
  "store_pack_float80 math ea k v s =
    (let (d, s) = fx80_to_double v s;
         (dw1, dw2, dw3) = pack_decimal (sint k) (chars_of (sprintf_16e math d))
     in chain (m68ki_write_32 ea dw1 s) (\<lambda>_ s.
        chain (m68ki_write_32 (ea + 4) dw2 s) (\<lambda>_.
        m68ki_write_32 (ea + 8) dw3)))"

subsection \<open>The status register\<close>

definition raise_fpsr :: "bool \<Rightarrow> u32 \<Rightarrow> 'b machine \<Rightarrow> 'b machine" where
  "raise_fpsr c b s = (if c then s\<lparr>fpsr := fpsr s OR b\<rparr> else s)"

definition UPDATE_ACCRUED_EXCEPTIONS :: "'b machine \<Rightarrow> 'b machine" where
  "UPDATE_ACCRUED_EXCEPTIONS s =
    (let s = raise_fpsr (fpsr s AND (FPES_BSUN OR FPES_SNAN OR FPES_OPERR) \<noteq> 0) FPAE_IOP s;
         s = raise_fpsr (fpsr s AND FPES_OVFL \<noteq> 0) FPAE_OVFL s;
         s = raise_fpsr (fpsr s AND FPES_UNFL \<noteq> 0 \<and> fpsr s AND FPES_INEX2 \<noteq> 0) FPAE_UNFL s;
         s = raise_fpsr (fpsr s AND FPES_DZ \<noteq> 0) FPAE_DZ s
     in raise_fpsr (fpsr s AND (FPES_INEX1 OR FPES_INEX2 OR FPES_OVFL) \<noteq> 0) FPAE_INEX s)"

definition SET_EXCEPTION_FLAGS :: "'b machine \<Rightarrow> 'b machine" where
  "SET_EXCEPTION_FLAGS s =
    (let flags = float_exception_flags (softfloat s);
         s = s\<lparr>softfloat := (softfloat s)\<lparr>float_exception_flags := 0\<rparr>\<rparr>;
         s = s\<lparr>fpsr := fpsr s AND NOT (FPES_SNAN OR FPES_OPERR OR FPES_OVFL OR FPES_UNFL OR FPES_DZ
                                      OR FPES_INEX2 OR FPES_INEX1)\<rparr>;
         s = raise_fpsr (flags AND float_flag_invalid \<noteq> 0) FPES_OPERR s;
         s = raise_fpsr (flags AND float_flag_divbyzero \<noteq> 0) FPES_DZ s;
         s = raise_fpsr (flags AND float_flag_overflow \<noteq> 0) FPES_OVFL s;
         s = raise_fpsr (flags AND float_flag_underflow \<noteq> 0) FPES_UNFL s;
         s = raise_fpsr (flags AND float_flag_inexact \<noteq> 0) FPES_INEX2 s
     in UPDATE_ACCRUED_EXCEPTIONS s)"

definition SET_OPERR_IF_NAN :: "floatx80 \<Rightarrow> floatx80 \<Rightarrow> 'b machine \<Rightarrow> 'b machine" where
  "SET_OPERR_IF_NAN res source s =
    (let resultIsNan = fx_high res AND 0x7fff = 0x7fff \<and> push_bit 1 (fx_low res) \<noteq> 0;
         sourceIsNan = fx_high source AND 0x7fff = 0x7fff \<and> push_bit 1 (fx_low source) \<noteq> 0;
         s = s\<lparr>fpsr := fpsr s AND NOT (FPES_OPERR OR FPES_INEX2)\<rparr>
     in UPDATE_ACCRUED_EXCEPTIONS (raise_fpsr (resultIsNan \<and> \<not> sourceIsNan) FPES_OPERR s))"

definition SET_CONDITION_CODES :: "floatx80 \<Rightarrow> 'b machine \<Rightarrow> 'b machine" where
  "SET_CONDITION_CODES reg s =
    (let s = s\<lparr>fpsr := fpsr s AND NOT (FPCC_N OR FPCC_Z OR FPCC_I OR FPCC_NAN)\<rparr>;
         s = raise_fpsr (fx_high reg AND 0x8000 \<noteq> 0) FPCC_N s;
         s = raise_fpsr (fx_high reg AND 0x7fff = 0 \<and> push_bit 1 (fx_low reg) = 0) FPCC_Z s;
         s = raise_fpsr (fx_high reg AND 0x7fff = 0x7fff \<and> push_bit 1 (fx_low reg) = 0) FPCC_I s
     in raise_fpsr (floatx80_is_nan reg) FPCC_NAN s)"

text \<open>The sixteen conditions; the second half of the table, which would signal BSUN, repeats them.\<close>

definition fpu_condition :: "u32 \<Rightarrow> bool \<Rightarrow> bool \<Rightarrow> bool \<Rightarrow> bool" where
  "fpu_condition c n z nan =
    (if c = 0x0 then False
     else if c = 0x1 then z
     else if c = 0x2 then \<not> (nan \<or> z \<or> n)
     else if c = 0x3 then z \<or> \<not> (nan \<or> n)
     else if c = 0x4 then n \<and> \<not> (nan \<or> z)
     else if c = 0x5 then z \<or> (n \<and> \<not> nan)
     else if c = 0x6 then \<not> nan \<and> \<not> z
     else if c = 0x7 then \<not> nan
     else if c = 0x8 then nan
     else if c = 0x9 then nan \<or> z
     else if c = 0xa then nan \<or> \<not> (n \<or> z)
     else if c = 0xb then nan \<or> z \<or> \<not> n
     else if c = 0xc then nan \<or> (n \<and> \<not> z)
     else if c = 0xd then nan \<or> z \<or> n
     else if c = 0xe then \<not> z
     else True)"

definition TEST_CONDITION :: "u32 \<Rightarrow> 'b machine \<Rightarrow> ('b, bool) result" where
  "TEST_CONDITION condition s =
    (let n = fpsr s AND FPCC_N \<noteq> 0; z = fpsr s AND FPCC_Z \<noteq> 0; nan = fpsr s AND FPCC_NAN \<noteq> 0
     in if condition < 0x20 then Ret (fpu_condition (condition AND 0xf) n z nan) s
        else chain (fatalerror s) (\<lambda>_. Ret False))"

subsection \<open>Extended and packed operands\<close>

definition floatx80_zero :: floatx80 where
  "floatx80_zero = \<lparr>fx_high = 0, fx_low = 0\<rparr>"

definition READ_EA_FPE :: "u32 \<Rightarrow> u32 \<Rightarrow> u32 \<Rightarrow> 'b machine \<Rightarrow> ('b, floatx80) result" where
  "READ_EA_FPE mode reg di_mode_ea s =
    (if mode = 2 then load_extended_float80 (REG_A s reg) s
     else if mode = 3 then
       (let ea = REG_A s reg; s = set_REG_A reg (REG_A s reg + 12) s in load_extended_float80 ea s)
     else if mode = 4 then
       (let s = set_REG_A reg (REG_A s reg - 12) s in load_extended_float80 (REG_A s reg) s)
     else if mode = 5 then load_extended_float80 di_mode_ea s
     else if mode = 6 then chain (EA_AY_IX_16 s) load_extended_float80
     else if mode = 7 \<and> reg = 1 then chain (ea_long s) load_extended_float80
     else if mode = 7 \<and> reg = 2 then chain (EA_PCDI_32 s) load_extended_float80
     else if mode = 7 \<and> reg = 3 then chain (EA_PCIX_32 s) load_extended_float80
     else if mode = 7 \<and> reg = 4 then
       chain (load_extended_float80 (pc s) s) (\<lambda>v s. Ret v (s\<lparr>pc := pc s + 12\<rparr>))
     else bad_read floatx80_zero s)"

definition READ_EA_PACK :: "host_math \<Rightarrow> u32 \<Rightarrow> 'b machine \<Rightarrow> ('b, floatx80) result" where
  "READ_EA_PACK math ea s =
    (let mode = drop_bit 3 ea AND 7; reg = ea AND 7
     in if mode = 2 then load_pack_float80 math (REG_A s reg) s
        else if mode = 3 then
          (let ea = REG_A s reg; s = set_REG_A reg (REG_A s reg + 12) s in load_pack_float80 math ea s)
        else if mode = 4 then
          (let s = set_REG_A reg (REG_A s reg - 12) s in load_pack_float80 math (REG_A s reg) s)
        else if mode = 7 \<and> reg = 3 then chain (EA_PCIX_32 s) (load_pack_float80 math)
        else bad_read floatx80_zero s)"

definition WRITE_EA_FPE :: "u32 \<Rightarrow> u32 \<Rightarrow> floatx80 \<Rightarrow> u32 \<Rightarrow> 'b op" where
  "WRITE_EA_FPE mode reg v di_mode_ea s =
    (if mode = 2 then store_extended_float80 (REG_A s reg) v s
     else if mode = 3 then
       chain (store_extended_float80 (REG_A s reg) v s) (\<lambda>_ s.
       Ret () (set_REG_A reg (REG_A s reg + 12) s))
     else if mode = 4 then
       (let s = set_REG_A reg (REG_A s reg - 12) s in store_extended_float80 (REG_A s reg) v s)
     else if mode = 5 then store_extended_float80 di_mode_ea v s
     else if mode = 7 \<and> reg = 1 then chain (ea_long s) (\<lambda>ea. store_extended_float80 ea v)
     else fatalerror s)"

definition WRITE_EA_PACK :: "host_math \<Rightarrow> u32 \<Rightarrow> u32 \<Rightarrow> floatx80 \<Rightarrow> 'b op" where
  "WRITE_EA_PACK math ea k v s =
    (let mode = drop_bit 3 ea AND 7; reg = ea AND 7
     in if mode = 2 then store_pack_float80 math (REG_A s reg) k v s
        else if mode = 3 then
          chain (store_pack_float80 math (REG_A s reg) k v s) (\<lambda>_ s.
          Ret () (set_REG_A reg (REG_A s reg + 12) s))
        else if mode = 4 then
          (let s = set_REG_A reg (REG_A s reg - 12) s in store_pack_float80 math (REG_A s reg) k v s)
        else fatalerror s)"

end
