(* ===== verification/FpuOps.thy ===== *)
theory FpuOps
  imports Fpu
begin

section \<open>The instructions of the floating point unit\<close>

text \<open>
  The instruction routines of \<open>m68kfpu.c\<close>: the arithmetic instructions \<open>fpgen_rm_reg\<close>, the moves, the
  conditional instructions, FSAVE and FRESTORE, and the two handlers of m68kops.c.
\<close>

unbundle bit_operations_syntax

subsection \<open>Arithmetic\<close>

definition is_inf :: "floatx80 \<Rightarrow> int" where
  "is_inf reg =
    (if fx_high reg AND 0x7fff = 0x7fff \<and> push_bit 1 (fx_low reg) = 0
     then (if fx_high reg AND 0x8000 \<noteq> 0 then - 1 else 1) else 0)"

text \<open>The displacement of mode (d16, An), fetched once before the operand is accessed.\<close>

definition di_mode_address :: "u32 \<Rightarrow> u32 \<Rightarrow> 'b machine \<Rightarrow> ('b, u32) result" where
  "di_mode_address imode reg s =
    (if imode = 5 then chain (m68ki_read_imm_16 s) (\<lambda>d s. Ret (REG_A s reg + MAKE_INT_16 d) s)
     else Ret 0 s)"

definition fpgen_source :: "host_math \<Rightarrow> u32 \<Rightarrow> u32 \<Rightarrow> 'b machine \<Rightarrow> ('b, floatx80) result" where
  "fpgen_source math src ea s =
    (if src = 0 then chain (READ_EA_32 ea s) (\<lambda>d. Ret (int32_to_floatx80 d))
     else if src = 1 then chain (READ_EA_32 ea s) (\<lambda>d s. case_prod Ret (with_float (float32_to_floatx80 d) s))
     else if src = 2 then
       (let imode = drop_bit 3 ea AND 7; reg = ea AND 7
        in chain (di_mode_address imode reg s) (READ_EA_FPE imode reg))
     else if src = 3 then READ_EA_PACK math ea s
     else if src = 4 then chain (READ_EA_16 ea s) (\<lambda>d. Ret (int32_to_floatx80 (scast d)))
     else if src = 5 then chain (READ_EA_64 ea s) (\<lambda>d s. case_prod Ret (with_float (float64_to_floatx80 d) s))
     else chain (READ_EA_8 ea s) (\<lambda>d. Ret (int32_to_floatx80 (scast d))))"

text \<open>The constant ROM of FMOVECR; the powers of ten as the bits of the C constants.\<close>

fun square_times :: "nat \<Rightarrow> floatx80 \<times> 'b machine \<Rightarrow> floatx80 \<times> 'b machine" where
  "square_times 0 (v, s) = (v, s)"
| "square_times (Suc n) (v, s) = square_times n (with_float (floatx80_mul v v) s)"

definition fpu_constant :: "u16 \<Rightarrow> 'b machine \<Rightarrow> floatx80 \<times> 'b machine" where
  "fpu_constant n s =
    (if n = 0x0 then (\<lparr>fx_high = 0x4000, fx_low = 0xc90fdaa22168c235\<rparr>, s)
     else if n = 0xb then (\<lparr>fx_high = 0x3ffd, fx_low = 0x9a209a84fbcff798\<rparr>, s)
     else if n = 0xc then (\<lparr>fx_high = 0x4000, fx_low = 0xadf85458a2bb4a9b\<rparr>, s)
     else if n = 0xd then (\<lparr>fx_high = 0x3fff, fx_low = 0xb8aa3b295c17f0bc\<rparr>, s)
     else if n = 0xe then (\<lparr>fx_high = 0x3ffd, fx_low = 0xde5bd8a937287195\<rparr>, s)
     else if n = 0xf then (int32_to_floatx80 0, s)
     else if n = 0x30 then (\<lparr>fx_high = 0x3ffe, fx_low = 0xb17217f7d1cf79ac\<rparr>, s)
     else if n = 0x31 then (\<lparr>fx_high = 0x4000, fx_low = 0x935d8dddaaa8ac17\<rparr>, s)
     else if n = 0x32 then (int32_to_floatx80 1, s)
     else if n = 0x33 then (int32_to_floatx80 10, s)
     else if n = 0x34 then (int32_to_floatx80 (10 * 10), s)
     else if n = 0x35 then (int32_to_floatx80 10000, s)
     else if n = 0x36 then double_to_fx80 0x4197d78400000000 s
     else if n = 0x37 then double_to_fx80 0x4341c37937e08000 s
     else if n = 0x38 then double_to_fx80 0x4693b8b5b5056e17 s
     else if n = 0x39 then double_to_fx80 0x4d384f03e93ff9f5 s
     else if n = 0x3a then double_to_fx80 0x5a827748f9301d32 s
     else if n = 0x3b then double_to_fx80 0x75154fdd7f73bf3c s
     else if n = 0x3c then square_times 1 (double_to_fx80 0x75154fdd7f73bf3c s)
     else if n = 0x3d then square_times 2 (double_to_fx80 0x75154fdd7f73bf3c s)
     else if n = 0x3e then square_times 3 (double_to_fx80 0x75154fdd7f73bf3c s)
     else if n = 0x3f then square_times 4 (double_to_fx80 0x75154fdd7f73bf3c s)
     else (int32_to_floatx80 0, s))"

text \<open>A result in the destination register, the exceptions when asked for, and the condition codes.\<close>

definition put_FP :: "u32 \<Rightarrow> floatx80 \<times> 'b machine \<Rightarrow> 'b machine" where
  "put_FP dst r = (case r of (v, s) \<Rightarrow> SET_CONDITION_CODES v (set_REG_FP dst v s))"

definition put_FP_flags :: "u32 \<Rightarrow> floatx80 \<times> 'b machine \<Rightarrow> 'b machine" where
  "put_FP_flags dst r = (case r of (v, s) \<Rightarrow> SET_CONDITION_CODES v (SET_EXCEPTION_FLAGS (set_REG_FP dst v s)))"

definition put_FP_libm :: "u32 \<Rightarrow> floatx80 \<Rightarrow> floatx80 \<times> 'b machine \<Rightarrow> 'b machine" where
  "put_FP_libm dst source r =
     (case r of (v, s) \<Rightarrow> SET_CONDITION_CODES v (SET_OPERR_IF_NAN v source (set_REG_FP dst v s)))"

definition through_libm :: "host_math \<Rightarrow> libm_function \<Rightarrow> floatx80 \<Rightarrow> 'b machine \<Rightarrow> floatx80 \<times> 'b machine" where
  "through_libm math f v s = (let (d, s) = fx80_to_double v s in double_to_fx80 (libm math f d) s)"

text \<open>Rounding to single precision through the host type \<open>float\<close>, and to double.\<close>

definition round_single :: "floatx80 \<times> 'b machine \<Rightarrow> floatx80 \<times> 'b machine" where
  "round_single r = (case r of (v, s) \<Rightarrow> let (d, s) = fx80_to_double v s in double_to_fx80 (c_float d) s)"

definition round_double :: "floatx80 \<times> 'b machine \<Rightarrow> floatx80 \<times> 'b machine" where
  "round_double r = (case r of (v, s) \<Rightarrow> let (d, s) = fx80_to_double v s in double_to_fx80 d s)"

definition fpgen_compare :: "u32 \<Rightarrow> floatx80 \<Rightarrow> 'b machine \<Rightarrow> 'b machine" where
  "fpgen_compare dst source s =
    (let d = is_inf (REG_FP s dst); i = is_inf source
     in if \<not> floatx80_is_nan (REG_FP s dst) \<and> \<not> floatx80_is_nan source \<and> (d \<noteq> 0 \<or> i \<noteq> 0)
        then (let s = s\<lparr>fpsr := fpsr s AND NOT (FPCC_N OR FPCC_Z OR FPCC_I OR FPCC_NAN)\<rparr>
              in if i < 0 then raise_fpsr (d < 0) (FPCC_N OR FPCC_Z) s
                 else if 0 < i then (if 0 < d then raise_fpsr True FPCC_Z s else raise_fpsr True FPCC_N s)
                 else raise_fpsr (d < 0) FPCC_N s)
        else (let (res, s) = with_float (floatx80_sub (REG_FP s dst) source) s in SET_CONDITION_CODES res s))"

definition fpgen_getman :: "floatx80 \<Rightarrow> floatx80" where
  "fpgen_getman source =
    (if fx_high source AND 0x7fff \<noteq> 0 \<or> fx_low source \<noteq> 0
     then source\<lparr>fx_high := (fx_high source AND 0x8000) OR 0x3fff\<rparr> else source)"

definition fpgen_scale :: "host_math \<Rightarrow> u32 \<Rightarrow> floatx80 \<Rightarrow> 'b machine \<Rightarrow> floatx80 \<times> 'b machine" where
  "fpgen_scale math dst source s =
    (let (factor, s) = with_float (floatx80_to_int32_round_to_zero source) s;
         res = REG_FP s dst;
         exponent = ucast (fx_high res AND 0x7fff) :: u32
     in if exponent \<noteq> 0 \<or> fx_low res \<noteq> 0
        then (let exponent = exponent + factor
              in if word_sless 0 exponent \<and> word_sless exponent 0x7fff
                 then (res\<lparr>fx_high := (fx_high res AND 0x8000) OR ucast exponent\<rparr>, s)
                 else (let (d, s) = fx80_to_double (REG_FP s dst) s in double_to_fx80 (ldexp math d factor) s))
        else (res, s))"

text \<open>
  The opcode of an operation after the precision bits are removed: first the operations computed
  by SoftFloat or on the bits, then those that go through the mathematical library of the host.
\<close>

definition fpgen_unary :: "host_math \<Rightarrow> u16 \<Rightarrow> u32 \<Rightarrow> floatx80 \<Rightarrow> 'b machine \<Rightarrow> 'b machine option" where
  "fpgen_unary math opmode dst source s =
    (if opmode = 0x00 then Some (USE_CYCLES 4 (put_FP dst (source, s)))
     else if opmode = 0x01 then
       (let s = USE_CYCLES 43 s; (temp, s) = with_float (floatx80_to_int32 source) s
        in Some (put_FP dst (int32_to_floatx80 temp, s)))
     else if opmode = 0x03 then
       (let s = USE_CYCLES 43 s; (temp, s) = with_float (floatx80_to_int32_round_to_zero source) s
        in Some (put_FP dst (int32_to_floatx80 temp, s)))
     else if opmode = 0x04 then Some (USE_CYCLES 109 (put_FP_flags dst (with_float (floatx80_sqrt source) s)))
     else if opmode = 0x18 then
       Some (USE_CYCLES 3 (put_FP dst (source\<lparr>fx_high := fx_high source AND 0x7fff\<rparr>, s)))
     else if opmode = 0x1a then
       Some (USE_CYCLES 3 (put_FP dst (source\<lparr>fx_high := fx_high source XOR 0x8000\<rparr>, s)))
     else if opmode = 0x0e then Some (USE_CYCLES 400 (put_FP dst (through_libm math Sin source s)))
     else if opmode = 0x1d then Some (USE_CYCLES 400 (put_FP dst (through_libm math Cos source s)))
     else if 0x30 \<le> opmode \<and> opmode \<le> 0x37 then
       (let (ds, s) = fx80_to_double source s;
            (a, s) = double_to_fx80 (libm math Sin ds) s; s = set_REG_FP dst a s;
            (b, s) = double_to_fx80 (libm math Cos ds) s; s = set_REG_FP (ucast (opmode AND 7)) b s
        in Some (USE_CYCLES 400 (SET_CONDITION_CODES (REG_FP s dst) s)))
     else if opmode = 0x1e then
       Some (USE_CYCLES 6 (put_FP dst (double_to_fx80 (c_double (uint (fx_high source AND 0x7fff) - 0x3fff)) s)))
     else None)"

definition fpgen_binary :: "u16 \<Rightarrow> u32 \<Rightarrow> floatx80 \<Rightarrow> 'b machine \<Rightarrow> 'b machine option" where
  "fpgen_binary opmode dst source s =
    (if opmode = 0x20 then
       Some (USE_CYCLES 43 (put_FP_flags dst (with_float (floatx80_div (REG_FP s dst) source) s)))
     else if opmode = 0x21 then
       Some (USE_CYCLES 43 (put_FP_flags dst (with_float (floatx80_rem (REG_FP s dst) source) s)))
     else if opmode = 0x24 then
       Some (USE_CYCLES 43 (put_FP dst (round_single (with_float (floatx80_div (REG_FP s dst) source) s))))
     else if opmode = 0x22 then
       Some (USE_CYCLES 9 (put_FP_flags dst (with_float (floatx80_add (REG_FP s dst) source) s)))
     else if opmode = 0x23 then
       Some (USE_CYCLES 11 (put_FP_flags dst (with_float (floatx80_mul (REG_FP s dst) source) s)))
     else if opmode = 0x27 then
       Some (USE_CYCLES 11 (put_FP dst (round_single (with_float (floatx80_mul (REG_FP s dst) source) s))))
     else if opmode = 0x25 then
       Some (USE_CYCLES 43 (put_FP_flags dst (with_float (floatx80_rem (REG_FP s dst) source) s)))
     else if opmode = 0x28 then
       Some (USE_CYCLES 9 (put_FP_flags dst (with_float (floatx80_sub (REG_FP s dst) source) s)))
     else if opmode = 0x38 then Some (USE_CYCLES 7 (fpgen_compare dst source s))
     else if opmode = 0x3a then Some (USE_CYCLES 7 (SET_CONDITION_CODES source s))
     else None)"

definition fpgen_operation :: "host_math \<Rightarrow> u16 \<Rightarrow> u32 \<Rightarrow> floatx80 \<Rightarrow> 'b machine \<Rightarrow> 'b machine option" where
  "fpgen_operation math opmode dst source s =
    (if opmode = 0x1f then Some (USE_CYCLES 31 (put_FP dst (fpgen_getman source, s)))
     else if opmode = 0x26 then Some (USE_CYCLES 31 (put_FP dst (fpgen_scale math dst source s)))
     else case fpgen_unary math opmode dst source s of
            Some s \<Rightarrow> Some s
          | None \<Rightarrow> fpgen_binary opmode dst source s)"

definition libm_operations :: "(u16 \<times> libm_function \<times> u32) list" where
  "libm_operations =
    [(0x02, Sinh, 600), (0x06, Log1p, 600), (0x08, Expm1, 600), (0x09, Tanh, 600), (0x0a, Atan, 400),
     (0x0c, Asin, 600), (0x0d, Atanh, 600), (0x0f, Tan, 500), (0x10, Exp, 500), (0x11, Exp2, 500),
     (0x12, PowTen, 500), (0x14, Log, 525), (0x15, LogTen, 525), (0x16, LogTwo, 525), (0x19, Cosh, 600),
     (0x1c, Acos, 600)]"

definition fpgen_libm :: "host_math \<Rightarrow> u16 \<Rightarrow> u32 \<Rightarrow> floatx80 \<Rightarrow> 'b op" where
  "fpgen_libm math opmode dst source s =
    (case map_of libm_operations opmode of
       Some (f, cycles) \<Rightarrow> Ret () (USE_CYCLES cycles (put_FP_libm dst source (through_libm math f source s)))
     | None \<Rightarrow> fpu_unimplemented s)"

text \<open>The precision named by the instruction (1 single, 2 double, 0 none) and the remaining bits.\<close>

definition fpgen_opmode :: "u16 \<Rightarrow> u32 \<times> u16" where
  "fpgen_opmode opmode =
    (if opmode AND 0x44 = 0x44 then (2, opmode AND NOT 0x44)
     else if opmode AND 0x40 \<noteq> 0 then (1, opmode AND NOT 0x40)
     else (0, opmode))"

definition fpgen_round :: "u32 \<Rightarrow> u32 \<Rightarrow> 'b machine \<Rightarrow> 'b machine" where
  "fpgen_round round dst s =
    (let round = (if round = 0 then drop_bit 6 (fpcr s) AND 3 else round)
     in if round = 1 then (case round_single (REG_FP s dst, s) of (v, s) \<Rightarrow> set_REG_FP dst v s)
        else if round = 2 then (case round_double (REG_FP s dst, s) of (v, s) \<Rightarrow> set_REG_FP dst v s)
        else s)"

definition fpgen_execute :: "host_math \<Rightarrow> u16 \<Rightarrow> u32 \<Rightarrow> floatx80 \<Rightarrow> 'b op" where
  "fpgen_execute math opmode dst source s =
    (let (round, opmode) = fpgen_opmode opmode
     in chain (case fpgen_operation math opmode dst source s of
                 Some s \<Rightarrow> Ret () s
               | None \<Rightarrow> fpgen_libm math opmode dst source s)
          (\<lambda>_ s. Ret () (fpgen_round round dst s)))"

definition fpgen_rm_reg :: "host_math \<Rightarrow> u16 \<Rightarrow> 'b op" where
  "fpgen_rm_reg math w2 s =
    (let ea = ir s AND 0x3f;
         rm = drop_bit 14 w2 AND 1;
         src = ucast (drop_bit 10 w2 AND 7);
         dst = ucast (drop_bit 7 w2 AND 7);
         opmode = w2 AND 0x7f
     in if rm \<noteq> 0
        then (if src = 7 then Ret () (USE_CYCLES 4 (put_FP dst (fpu_constant opmode s)))
              else chain (fpgen_source math src ea s) (fpgen_execute math opmode dst))
        else fpgen_execute math opmode dst (REG_FP s src) s)"

subsection \<open>Moves\<close>

definition fmove_reg_mem :: "host_math \<Rightarrow> u16 \<Rightarrow> 'b op" where
  "fmove_reg_mem math w2 s =
    (let ea = ir s AND 0x3f;
         src = ucast (drop_bit 7 w2 AND 7) :: u32;
         dst = drop_bit 10 w2 AND 7;
         k = ucast (w2 AND 0x7f) :: u32
     in chain
         (if dst = 0 then (case with_float (floatx80_to_int32 (REG_FP s src)) s of (d, s) \<Rightarrow> WRITE_EA_32 ea d s)
          else if dst = 1 then
            (case with_float (floatx80_to_float32 (REG_FP s src)) s of (d, s) \<Rightarrow> WRITE_EA_32 ea d s)
          else if dst = 2 then
            (let mode = drop_bit 3 ea AND 7; reg = ea AND 7
             in chain (di_mode_address mode reg s) (\<lambda>di s. WRITE_EA_FPE mode reg (REG_FP s src) di s))
          else if dst = 3 then
            (let k = (if k AND 0x40 \<noteq> 0 then k OR 0xffffff80 else k AND 0x7f)
             in WRITE_EA_PACK math ea k (REG_FP s src) s)
          else if dst = 4 then
            (case with_float (floatx80_to_int32 (REG_FP s src)) s of (d, s) \<Rightarrow> WRITE_EA_16 ea (ucast d) s)
          else if dst = 5 then
            (case with_float (floatx80_to_float64 (REG_FP s src)) s of (d, s) \<Rightarrow> WRITE_EA_64 ea d s)
          else if dst = 6 then
            (case with_float (floatx80_to_int32 (REG_FP s src)) s of (d, s) \<Rightarrow> WRITE_EA_8 ea (ucast d) s)
          else WRITE_EA_PACK math ea (REG_D s (drop_bit 4 k)) (REG_FP s src) s)
         (\<lambda>_ s. Ret () (USE_CYCLES 12 s)))"

definition EA_CONTROL_ADDRESS_32 :: "u32 \<Rightarrow> 'b machine \<Rightarrow> ('b, u32 option) result" where
  "EA_CONTROL_ADDRESS_32 ea s =
    (let mode = drop_bit 3 ea AND 7; reg = ea AND 7
     in if mode = 2 then Ret (Some (REG_A s reg)) s
        else if mode = 5 then chain (EA_AY_DI_32 s) (\<lambda>a. Ret (Some a))
        else if mode = 6 then chain (EA_AY_IX_32 s) (\<lambda>a. Ret (Some a))
        else if mode = 7 \<and> reg = 0 then chain (EA_AW_32 s) (\<lambda>a. Ret (Some a))
        else if mode = 7 \<and> reg = 1 then chain (EA_AL_32 s) (\<lambda>a. Ret (Some a))
        else if mode = 7 \<and> reg = 2 then chain (EA_PCDI_32 s) (\<lambda>a. Ret (Some a))
        else if mode = 7 \<and> reg = 3 then chain (EA_PCIX_32 s) (\<lambda>a. Ret (Some a))
        else Ret None s)"

text \<open>A control register: 0 is FPCR, which also sets the rounding mode, 1 is FPSR, 2 is FPIAR.\<close>

datatype fp_control = FPCR | FPSR | FPIAR

fun get_control :: "fp_control \<Rightarrow> 'b machine \<Rightarrow> u32" where
  "get_control FPCR s = fpcr s"
| "get_control FPSR s = fpsr s"
| "get_control FPIAR s = fpiar s"

fun set_control :: "fp_control \<Rightarrow> u32 \<Rightarrow> 'b machine \<Rightarrow> 'b machine" where
  "set_control FPCR v s =
     s\<lparr>fpcr := v, softfloat := (softfloat s)\<lparr>float_rounding_mode := ucast (drop_bit 4 v AND 3)\<rparr>\<rparr>"
| "set_control FPSR v s = s\<lparr>fpsr := v\<rparr>"
| "set_control FPIAR v s = s\<lparr>fpiar := v\<rparr>"

definition selected_controls :: "u32 \<Rightarrow> fp_control list" where
  "selected_controls reg =
    (if reg AND 4 \<noteq> 0 then [FPCR] else []) @ (if reg AND 2 \<noteq> 0 then [FPSR] else []) @
    (if reg AND 1 \<noteq> 0 then [FPIAR] else [])"

primrec write_controls :: "fp_control list \<Rightarrow> u32 \<Rightarrow> 'b op" where
  "write_controls [] address s = Ret () s"
| "write_controls (c # cs) address s =
     chain (m68ki_write_32 address (get_control c s) s) (\<lambda>_. write_controls cs (address + 4))"

primrec read_controls :: "fp_control list \<Rightarrow> u32 \<Rightarrow> 'b op" where
  "read_controls [] address s = Ret () s"
| "read_controls (c # cs) address s =
     chain (m68ki_read_32 address s) (\<lambda>v s. read_controls cs (address + 4) (set_control c v s))"

primrec write_controls_ea :: "fp_control list \<Rightarrow> u32 \<Rightarrow> 'b op" where
  "write_controls_ea [] ea s = Ret () s"
| "write_controls_ea (c # cs) ea s =
     chain (WRITE_EA_32 ea (get_control c s) s) (\<lambda>_. write_controls_ea cs ea)"

primrec read_controls_ea :: "fp_control list \<Rightarrow> u32 \<Rightarrow> 'b op" where
  "read_controls_ea [] ea s = Ret () s"
| "read_controls_ea (c # cs) ea s =
     chain (READ_EA_32 ea s) (\<lambda>v s. read_controls_ea cs ea (set_control c v s))"

definition fmove_fpcr_each :: "u16 \<Rightarrow> 'b op" where
  "fmove_fpcr_each w2 s =
    (let ea = ir s AND 0x3f;
         controls = selected_controls (ucast (drop_bit 10 w2 AND 7))
     in chain (if drop_bit 13 w2 AND 1 \<noteq> 0 then write_controls_ea controls ea s else read_controls_ea controls ea s)
          (\<lambda>_ s. Ret () (USE_CYCLES 10 s)))"

definition fmove_fpcr :: "u16 \<Rightarrow> 'b op" where
  "fmove_fpcr w2 s =
    (let ea = ir s AND 0x3f;
         dir = drop_bit 13 w2 AND 1;
         controls = selected_controls (ucast (drop_bit 10 w2 AND 7));
         mode = drop_bit 3 ea AND 7
     in if 1 < length controls \<and> mode \<noteq> 3 \<and> mode \<noteq> 4
        then chain (EA_CONTROL_ADDRESS_32 ea s) (\<lambda>address s.
             case address of
               Some a \<Rightarrow> chain (if dir \<noteq> 0 then write_controls controls a s else read_controls controls a s)
                           (\<lambda>_ s. Ret () (USE_CYCLES 10 s))
             | None \<Rightarrow> fmove_fpcr_each w2 s)
        else fmove_fpcr_each w2 s)"

text \<open>
  FMOVEM: the registers of the list, in the order of the loop.  Only the address of mode (d16, An)
  moves on from one register to the next here; (An)+ and -(An) move in \<open>READ_EA_FPE\<close> and
  \<open>WRITE_EA_FPE\<close>.
\<close>

definition fmovem_registers :: "u16 \<Rightarrow> nat list" where
  "fmovem_registers w2 = filter (\<lambda>i. bit w2 i) [0..<8]"

definition next_di :: "u32 \<Rightarrow> u32 \<Rightarrow> u32" where
  "next_di imode di = (if imode = 5 then di + 12 else di)"

primrec fmovem_store :: "nat list \<Rightarrow> (nat \<Rightarrow> u32) \<Rightarrow> u32 \<Rightarrow> u32 \<Rightarrow> u32 \<Rightarrow> 'b op" where
  "fmovem_store [] register imode reg di s = Ret () s"
| "fmovem_store (i # is) register imode reg di s =
     chain (WRITE_EA_FPE imode reg (REG_FP s (register i)) di s) (\<lambda>_ s.
     fmovem_store is register imode reg (next_di imode di) (USE_CYCLES 2 s))"

primrec fmovem_load :: "nat list \<Rightarrow> (nat \<Rightarrow> u32) \<Rightarrow> u32 \<Rightarrow> u32 \<Rightarrow> u32 \<Rightarrow> 'b op" where
  "fmovem_load [] register imode reg di s = Ret () s"
| "fmovem_load (i # is) register imode reg di s =
     chain (READ_EA_FPE imode reg di s) (\<lambda>v s.
     fmovem_load is register imode reg (next_di imode di) (USE_CYCLES 2 (set_REG_FP (register i) v s)))"

definition fmovem :: "u16 \<Rightarrow> 'b op" where
  "fmovem w2 s =
    (let ea = ir s AND 0x3f;
         dir = drop_bit 13 w2 AND 1;
         mode = drop_bit 11 w2 AND 3;
         imode = drop_bit 3 ea AND 7; reg = ea AND 7;
         descending = (\<lambda>i. 7 - of_nat i)
     in if dir \<noteq> 0
        then (if mode = 2 then chain (di_mode_address imode reg s)
                (fmovem_store (fmovem_registers w2) descending imode reg)
              else if mode = 0 then chain (di_mode_address imode reg s)
                (fmovem_store (fmovem_registers w2) of_nat imode reg)
              else fpu_unimplemented s)
        else if mode = 2 then chain (di_mode_address imode reg s)
               (fmovem_load (fmovem_registers w2) descending imode reg)
        else fpu_unimplemented s)"

subsection \<open>Conditional instructions\<close>

definition fscc :: "'b op" where
  "fscc s =
     chain (OPER_I_16 s) (\<lambda>w s.
     chain (TEST_CONDITION (w AND 0x3f) s) (\<lambda>cc s.
     let mode = drop_bit 3 (ir s AND 0x38);
         v = (if cc then 0xff else 0);
         reg = ir s AND 7
     in chain
          (if mode = 0 then Ret () (set_REG_D reg ((REG_D s reg AND 0xFFFFFF00) OR v) s)
           else if mode = 5 then
             chain (m68ki_read_imm_16 s) (\<lambda>d s. m68ki_write_8 (REG_A s reg + MAKE_INT_16 d) v s)
           else fpu_unimplemented s)
          (\<lambda>_ s. Ret () (USE_CYCLES 7 s))))"

definition fbcc16 :: "'b op" where
  "fbcc16 s =
    (let condition = ir s AND 0x3f
     in chain (OPER_I_16 s) (\<lambda>offset s.
        chain (TEST_CONDITION condition s) (\<lambda>cc s.
        Ret () (USE_CYCLES 7 (if cc then m68ki_branch_16 (MAKE_INT_16 offset - 2) s else s)))))"

definition fbcc32 :: "'b op" where
  "fbcc32 s =
    (let condition = ir s AND 0x3f
     in chain (OPER_I_32 s) (\<lambda>offset s.
        chain (TEST_CONDITION condition s) (\<lambda>cc s.
        Ret () (USE_CYCLES 7 (if cc then m68ki_branch_32 (offset - 4) s else s)))))"

subsection \<open>The two groups of opcodes\<close>

definition m68040_fpu_op0 :: "host_math \<Rightarrow> 'b op" where
  "m68040_fpu_op0 math s =
    (let s = s\<lparr>fpu_just_reset := 0\<rparr>;
         s = s\<lparr>fpiar := ADDRESS_68K s (ppc s)\<rparr>;
         group = drop_bit 6 (ir s) AND 3
     in if group = 0
        then chain (OPER_I_16 s) (\<lambda>w s.
             let w2 = ucast w :: u16; subop = drop_bit 13 w2 AND 7
             in if subop = 0 \<or> subop = 2 then fpgen_rm_reg math w2 s
                else if subop = 3 then fmove_reg_mem math w2 s
                else if subop = 4 \<or> subop = 5 then fmove_fpcr w2 s
                else if subop = 6 \<or> subop = 7 then fmovem w2 s
                else fpu_unimplemented s)
        else if group = 1 then fscc s
        else if group = 2 then fbcc16 s
        else fbcc32 s)"

definition fpu_idle_frame_header :: "'b machine \<Rightarrow> u32" where
  "fpu_idle_frame_header s =
    (if fpu_model s = M68K_FPU_MODEL_68040 then 0x00000000
     else if fpu_model s = M68K_FPU_MODEL_68882 then 0x2f180000
     else 0x1f180000)"

definition m68ki_fpu_state_frame_bytes :: "'b machine \<Rightarrow> u32" where
  "m68ki_fpu_state_frame_bytes s = (if fpu_model s = M68K_FPU_MODEL_68040 then 4 else 7 * 4)"

primrec write_words :: "(u32 \<times> u32) list \<Rightarrow> 'b op" where
  "write_words [] s = Ret () s"
| "write_words (w # ws) s = chain (m68ki_write_32 (fst w) (snd w) s) (\<lambda>_. write_words ws)"

definition perform_fsave :: "u32 \<Rightarrow> bool \<Rightarrow> 'b op" where
  "perform_fsave addr inc s =
    (let header = fpu_idle_frame_header s
     in if fpu_model s = M68K_FPU_MODEL_68040 then m68ki_write_32 addr header s
        else if inc
        then write_words [(addr, header), (addr + 4, 0), (addr + 8, 0), (addr + 12, 0), (addr + 16, 0),
               (addr + 20, 0), (addr + 24, 0x70000000)] s
        else write_words [(addr, 0x70000000), (addr - 4, 0), (addr - 8, 0), (addr - 12, 0), (addr - 16, 0),
               (addr - 20, 0), (addr - 24, header)] s)"

definition do_frestore_null :: "'b machine \<Rightarrow> 'b machine" where
  "do_frestore_null s =
    (let s = s\<lparr>fpcr := 0\<rparr>; s = s\<lparr>fpsr := 0\<rparr>; s = s\<lparr>fpiar := 0\<rparr>;
         s = s\<lparr>fpr := (\<lambda>i. if i < 8 then \<lparr>fx_high = 0x7fff, fx_low = 0xffffffffffffffff\<rparr> else fpr s i)\<rparr>
     in s\<lparr>fpu_just_reset := 1\<rparr>)"

definition fsave :: "u32 \<Rightarrow> u32 \<Rightarrow> 'b op" where
  "fsave mode reg s =
    (if mode = 2 then
       (if fpu_just_reset s \<noteq> 0 then m68ki_write_32 (REG_A s reg) 0 s else perform_fsave (REG_A s reg) True s)
     else if mode = 3 then
       chain (EA_AY_PI_32 s) (\<lambda>addr s.
       if fpu_just_reset s \<noteq> 0 then m68ki_write_32 addr 0 s
       else perform_fsave addr True (set_REG_A reg (REG_A s reg + (m68ki_fpu_state_frame_bytes s - 4)) s))
     else if mode = 4 then
       chain (EA_AY_PD_32 s) (\<lambda>addr s.
       if fpu_just_reset s \<noteq> 0 then m68ki_write_32 addr 0 s
       else perform_fsave addr False (set_REG_A reg (REG_A s reg - (m68ki_fpu_state_frame_bytes s - 4)) s))
     else fpu_unimplemented s)"

definition frestore :: "u32 \<Rightarrow> u32 \<Rightarrow> 'b op" where
  "frestore mode reg s =
    (if mode = 2 then
       chain (m68ki_read_32 (REG_A s reg) s) (\<lambda>temp s.
       Ret () (if temp AND 0xff000000 \<noteq> 0 then s\<lparr>fpu_just_reset := 0\<rparr> else do_frestore_null s))
     else if mode = 3 then
       chain (EA_AY_PI_32 s) (\<lambda>addr s.
       chain (m68ki_read_32 addr s) (\<lambda>temp s.
       Ret () (if temp AND 0xff000000 \<noteq> 0
               then (let s = s\<lparr>fpu_just_reset := 0\<rparr>
                     in if temp AND 0x00ff0000 = 0x00180000 then set_REG_A reg (REG_A s reg + 6 * 4) s
                        else if temp AND 0x00ff0000 = 0x00380000 then set_REG_A reg (REG_A s reg + 14 * 4) s
                        else if temp AND 0x00ff0000 = 0x00b40000 then set_REG_A reg (REG_A s reg + 45 * 4) s
                        else s)
               else do_frestore_null s)))
     else fpu_unimplemented s)"

definition m68040_fpu_op1 :: "'b op" where
  "m68040_fpu_op1 s =
    (let ea = ir s AND 0x3f;
         s = s\<lparr>fpiar := ADDRESS_68K s (ppc s)\<rparr>;
         mode = drop_bit 3 ea AND 7; reg = ea AND 7;
         group = drop_bit 6 (ir s) AND 3
     in if group = 0 then fsave mode reg s
        else if group = 1 then frestore mode reg s
        else fpu_unimplemented s)"

definition m68k_op_040fpu0_32 :: "host_math \<Rightarrow> 'b op" where
  "m68k_op_040fpu0_32 math s =
    (if CPU_TYPE_IS_030_PLUS (cpu_type s) \<and> fpu_model s \<noteq> M68K_FPU_MODEL_NONE
     then m68040_fpu_op0 math s else m68ki_exception_1111 s)"

definition m68k_op_040fpu1_32 :: "'b op" where
  "m68k_op_040fpu1_32 s =
    (if CPU_TYPE_IS_030_PLUS (cpu_type s) \<and> fpu_model s \<noteq> M68K_FPU_MODEL_NONE
     then m68040_fpu_op1 s else m68ki_exception_1111 s)"

end
