(* ===== verification/OpcodeDecode.thy ===== *)
theory OpcodeDecode
  imports OpcodeTable Samples
begin

section \<open>Building and reading the jump table\<close>

text \<open>
  \<open>m68ki_build_opcode_table\<close> (m68kops.c).  It fills \<open>m68ki_instruction_jump_table\<close> and
  \<open>m68ki_cycles\<close> by one loop for each mask the table is sorted by, each loop enumerating the
  instruction words of a row in its own way.  The theorem: for every instruction word the result is
  the last row of the table that covers the word, and the illegal instruction where none does.  So
  the loops read the whole table, in spite of their order of masks, and enumerate the right words.
\<close>

unbundle bit_operations_syntax

subsection \<open>The loops\<close>

definition NUM_CPU_TYPES :: nat where "NUM_CPU_TYPES = 5"

record 'b opcode_tables =
  m68ki_instruction_jump_table :: "u32 \<Rightarrow> 'b op"
  m68ki_cycles :: "nat \<Rightarrow> u32 \<Rightarrow> u8"

definition illegal_tables :: "'b opcode_tables" where
  "illegal_tables = \<lparr>m68ki_instruction_jump_table = (\<lambda>i. m68k_op_illegal), m68ki_cycles = (\<lambda>k i. 0)\<rparr>"

definition install :: "'b opcode_handler_struct \<Rightarrow> u32 \<Rightarrow> 'b opcode_tables \<Rightarrow> 'b opcode_tables" where
  "install e i t =
     t\<lparr>m68ki_instruction_jump_table := (m68ki_instruction_jump_table t)(i := opcode_handler e),
       m68ki_cycles := (\<lambda>k. if k < NUM_CPU_TYPES then (m68ki_cycles t k)(i := op_cycles e ! k)
                            else m68ki_cycles t k)\<rparr>"

text \<open>The instruction words of a row, as the loop for its mask enumerates them.\<close>

definition all_words :: "u32 list" where
  "all_words = map of_nat [0..<0x10000]"

definition generic_words :: "'b opcode_handler_struct \<Rightarrow> u32 list" where
  "generic_words e = filter (\<lambda>i. i AND op_mask e = op_match e) all_words"

definition ff00_words :: "'b opcode_handler_struct \<Rightarrow> u32 list" where
  "ff00_words e = map (\<lambda>i. op_match e OR of_nat i) [0..<0x100]"

definition cache_word :: "u32 \<Rightarrow> bool" where
  "cache_word i \<longleftrightarrow> i AND 0xff20 = 0xf400 \<or> i AND 0xff20 = 0xf420"

definition f1f8_words :: "'b opcode_handler_struct \<Rightarrow> u32 list" where
  "f1f8_words e =
     filter (\<lambda>instr. \<not> cache_word instr)
       (concat (map (\<lambda>i. map (\<lambda>j. op_match e OR push_bit 9 (of_nat i) OR of_nat j) [0..<8]) [0..<8]))"

definition fff0_words :: "'b opcode_handler_struct \<Rightarrow> u32 list" where
  "fff0_words e = map (\<lambda>i. op_match e OR of_nat i) [0..<0x10]"

definition f1ff_words :: "'b opcode_handler_struct \<Rightarrow> u32 list" where
  "f1ff_words e = map (\<lambda>i. op_match e OR push_bit 9 (of_nat i)) [0..<8]"

definition fff8_words :: "'b opcode_handler_struct \<Rightarrow> u32 list" where
  "fff8_words e = map (\<lambda>i. op_match e OR of_nat i) [0..<8]"

definition ffff_words :: "'b opcode_handler_struct \<Rightarrow> u32 list" where
  "ffff_words e = [op_match e]"

definition install_rows ::
    "('b opcode_handler_struct \<Rightarrow> u32 list) \<Rightarrow> 'b opcode_handler_struct list \<Rightarrow> 'b opcode_tables \<Rightarrow> 'b opcode_tables" where
  "install_rows words = fold (\<lambda>e. fold (install e) (words e))"

text \<open>One loop: it takes the rows from the front of the table as long as their mask fits.\<close>

definition while_mask ::
    "(u32 \<Rightarrow> bool) \<Rightarrow> ('b opcode_handler_struct \<Rightarrow> u32 list) \<Rightarrow>
     'b opcode_handler_struct list \<times> 'b opcode_tables \<Rightarrow> 'b opcode_handler_struct list \<times> 'b opcode_tables" where
  "while_mask fits words p =
    (case p of (ostruct, t) \<Rightarrow>
       (dropWhile (\<lambda>e. fits (op_mask e)) ostruct,
        install_rows words (takeWhile (\<lambda>e. fits (op_mask e)) ostruct) t))"

definition m68ki_build_opcode_table :: "host_math \<Rightarrow> 'b opcode_tables" where
  "m68ki_build_opcode_table math =
    (let p = (m68k_opcode_handler_table math, illegal_tables);
         p = while_mask (\<lambda>m. m \<noteq> 0xff00) generic_words p;
         p = while_mask (\<lambda>m. m = 0xff00) ff00_words p;
         p = while_mask (\<lambda>m. m = 0xf1f8) f1f8_words p;
         p = while_mask (\<lambda>m. m = 0xfff0) fff0_words p;
         p = while_mask (\<lambda>m. m = 0xf1ff) f1ff_words p;
         p = while_mask (\<lambda>m. m = 0xfff8) fff8_words p;
         p = while_mask (\<lambda>m. m = 0xffff) ffff_words p
     in snd p)"

subsection \<open>The specification\<close>

text \<open>A row covers a word; the rows of mask 0xf1f8 leave the cache instructions of the 68040 out.\<close>

definition covers :: "u32 \<Rightarrow> 'b opcode_handler_struct \<Rightarrow> bool" where
  "covers i e \<longleftrightarrow> i AND op_mask e = op_match e \<and> \<not> (op_mask e = 0xf1f8 \<and> cache_word i)"

definition row_of :: "host_math \<Rightarrow> u32 \<Rightarrow> 'b opcode_handler_struct option" where
  "row_of math i = find (covers i) (rev (m68k_opcode_handler_table math))"

definition handler_or :: "'b op \<Rightarrow> 'b opcode_handler_struct option \<Rightarrow> 'b op" where
  "handler_or h r = (case r of None \<Rightarrow> h | Some e \<Rightarrow> opcode_handler e)"

definition cycles_or :: "u8 \<Rightarrow> nat \<Rightarrow> 'b opcode_handler_struct option \<Rightarrow> u8" where
  "cycles_or c k r = (case r of None \<Rightarrow> c | Some e \<Rightarrow> op_cycles e ! k)"

subsection \<open>Installing rows\<close>

lemma install_apply:
  "m68ki_instruction_jump_table (install e j t) i =
     (if i = j then opcode_handler e else m68ki_instruction_jump_table t i)"
  "k < NUM_CPU_TYPES \<Longrightarrow> m68ki_cycles (install e j t) k i = (if i = j then op_cycles e ! k else m68ki_cycles t k i)"
  by (simp_all add: install_def)

lemma install_words:
  "m68ki_instruction_jump_table (fold (install e) ws t) i =
     (if i \<in> set ws then opcode_handler e else m68ki_instruction_jump_table t i)"
  "k < NUM_CPU_TYPES \<Longrightarrow> m68ki_cycles (fold (install e) ws t) k i =
     (if i \<in> set ws then op_cycles e ! k else m68ki_cycles t k i)"
  by (induction ws arbitrary: t) (simp_all add: install_apply)

lemma install_rows_apply:
  "m68ki_instruction_jump_table (install_rows words es t) i =
     handler_or (m68ki_instruction_jump_table t i) (find (\<lambda>e. i \<in> set (words e)) (rev es))"
  "k < NUM_CPU_TYPES \<Longrightarrow> m68ki_cycles (install_rows words es t) k i =
     cycles_or (m68ki_cycles t k i) k (find (\<lambda>e. i \<in> set (words e)) (rev es))"
  by (induction es rule: rev_induct)
     (simp_all add: install_rows_def install_words handler_or_def cycles_or_def)

lemma find_append: "find P (xs @ ys) = (case find P xs of None \<Rightarrow> find P ys | Some x \<Rightarrow> Some x)"
  by (induction xs) simp_all

lemma find_cong_set: "(\<And>x. x \<in> set xs \<Longrightarrow> P x = Q x) \<Longrightarrow> find P xs = find Q xs"
  by (induction xs) simp_all

lemma or_append:
  "handler_or (handler_or h (find P xs)) (find P ys) = handler_or h (find P (ys @ xs))"
  "cycles_or (cycles_or c k (find P xs)) k (find P ys) = cycles_or c k (find P (ys @ xs))"
  by (simp_all add: handler_or_def cycles_or_def find_append split: option.split)

subsection \<open>The rows of the table\<close>

definition rows_ok :: "u32 \<Rightarrow> 'b opcode_handler_struct list \<Rightarrow> bool" where
  "rows_ok m = list_all (\<lambda>e. op_mask e = m \<and> op_match e AND NOT m = 0)"

lemma rows_okD: "rows_ok m es \<Longrightarrow> e \<in> set es \<Longrightarrow> op_mask e = m \<and> op_match e AND NOT m = 0"
  by (simp add: rows_ok_def list_all_iff)

lemma rows_ok_append [simp]: "rows_ok m (xs @ ys) \<longleftrightarrow> rows_ok m xs \<and> rows_ok m ys"
  by (simp add: rows_ok_def)

lemma rows_ff00: "rows_ok 0xff00 (opcodes_ff00 math)"
  by (simp add: rows_ok_def opcodes_ff00_def)

lemma rows_fff0: "rows_ok 0xfff0 opcodes_fff0"
  by (simp add: rows_ok_def opcodes_fff0_def)

lemma rows_f1f8_0: "rows_ok 0xf1f8 opcodes_f1f8_0"
  by (simp add: rows_ok_def opcodes_f1f8_0_def)
lemma rows_f1f8_1: "rows_ok 0xf1f8 opcodes_f1f8_1"
  by (simp add: rows_ok_def opcodes_f1f8_1_def)
lemma rows_f1f8_2: "rows_ok 0xf1f8 opcodes_f1f8_2"
  by (simp add: rows_ok_def opcodes_f1f8_2_def)
lemma rows_f1f8_3: "rows_ok 0xf1f8 opcodes_f1f8_3"
  by (simp add: rows_ok_def opcodes_f1f8_3_def)

lemma rows_f1ff_0: "rows_ok 0xf1ff opcodes_f1ff_0"
  by (simp add: rows_ok_def opcodes_f1ff_0_def)
lemma rows_f1ff_1: "rows_ok 0xf1ff opcodes_f1ff_1"
  by (simp add: rows_ok_def opcodes_f1ff_1_def)
lemma rows_f1ff_2: "rows_ok 0xf1ff opcodes_f1ff_2"
  by (simp add: rows_ok_def opcodes_f1ff_2_def)

lemma rows_fff8_0: "rows_ok 0xfff8 opcodes_fff8_0"
  by (simp add: rows_ok_def opcodes_fff8_0_def)
lemma rows_fff8_1: "rows_ok 0xfff8 opcodes_fff8_1"
  by (simp add: rows_ok_def opcodes_fff8_1_def)
lemma rows_fff8_2: "rows_ok 0xfff8 opcodes_fff8_2"
  by (simp add: rows_ok_def opcodes_fff8_2_def)
lemma rows_fff8_3: "rows_ok 0xfff8 opcodes_fff8_3"
  by (simp add: rows_ok_def opcodes_fff8_3_def)

lemma rows_ffff_0: "rows_ok 0xffff opcodes_ffff_0"
  by (simp add: rows_ok_def opcodes_ffff_0_def)
lemma rows_ffff_1: "rows_ok 0xffff opcodes_ffff_1"
  by (simp add: rows_ok_def opcodes_ffff_1_def)
lemma rows_ffff_2: "rows_ok 0xffff opcodes_ffff_2"
  by (simp add: rows_ok_def opcodes_ffff_2_def)
lemma rows_ffff_3: "rows_ok 0xffff opcodes_ffff_3"
  by (simp add: rows_ok_def opcodes_ffff_3_def)

lemma rows_groups:
  "rows_ok 0xf1f8 opcodes_f1f8" "rows_ok 0xf1ff opcodes_f1ff" "rows_ok 0xfff8 opcodes_fff8"
  "rows_ok 0xffff opcodes_ffff"
  by (simp_all add: opcodes_f1f8_def opcodes_f1ff_def opcodes_fff8_def opcodes_ffff_def
      rows_f1f8_0 rows_f1f8_1 rows_f1f8_2 rows_f1f8_3 rows_f1ff_0 rows_f1ff_1 rows_f1ff_2
      rows_fff8_0 rows_fff8_1 rows_fff8_2 rows_fff8_3 rows_ffff_0 rows_ffff_1 rows_ffff_2 rows_ffff_3)

lemma rows_generic:
  "\<forall>e\<in>set opcodes_generic. op_mask e \<noteq> 0xff00" "\<forall>e\<in>set opcodes_generic. op_mask e \<noteq> 0xf1f8"
  by (simp_all add: opcodes_generic_def)

subsection \<open>The enumerations\<close>

lemma set_low_words: "set (map of_nat [0..<2 ^ n]) = {y :: u32. take_bit n y = y}"
proof -
  have "(of_nat j :: u32) = take_bit n (of_nat j)" if "j < 2 ^ n" for j
    using that by (simp add: take_bit_of_nat take_bit_nat_eq_self)
  moreover have "y \<in> of_nat ` {0..<2 ^ n}" if "take_bit n y = y" for y :: u32
  proof -
    have "unat y < 2 ^ n"
      using that by (metis take_bit_nat_less_exp unsigned_take_bit_eq)
    then show ?thesis
      by (intro image_eqI [where x = "unat y"]) simp_all
  qed
  ultimately show ?thesis
    by (auto simp: set_map)
qed

lemma low_words_numeral:
  "of_nat ` {0..<8} = {y :: u32. take_bit 3 y = y}"
  "of_nat ` {0..<16} = {y :: u32. take_bit 4 y = y}"
  "of_nat ` {0..<256} = {y :: u32. take_bit 8 y = y}"
  "of_nat ` {0..<65536} = {y :: u32. take_bit 16 y = y}"
  using set_low_words [of 3] set_low_words [of 4] set_low_words [of 8] set_low_words [of 16] by simp_all

lemma word16_iff: "i < 0x10000 \<longleftrightarrow> take_bit 16 i = i" for i :: u32
proof -
  have "take_bit 16 i = i \<longleftrightarrow> take_bit 16 (unat i) = unat i"
    by (metis unsigned_take_bit_eq word_eq_iff_unsigned)
  then show ?thesis
    by (simp add: take_bit_nat_eq_self_iff word_less_nat_alt)
qed

text \<open>A row with the free bits \<open>X\<close> enumerates the words it matches.\<close>

lemma or_image_iff:
  fixes m M i :: u32
  assumes m: "m AND NOT M = 0" and X: "X = {x. x AND M = 0 \<and> take_bit 16 x = x}" and i: "take_bit 16 i = i"
  shows "i \<in> (\<lambda>x. m OR x) ` X \<longleftrightarrow> i AND M = m"
proof -
  have clear: "\<not> bit m n" if "\<not> bit M n" for n
  proof
    assume "bit m n"
    moreover from this have "n < LENGTH(32)"
      by (rule bit_imp_le_length)
    ultimately have "bit (m AND NOT M) n"
      using that by (simp add: bit_simps)
    then show False
      by (simp add: m)
  qed
  show ?thesis
  proof
    assume "i \<in> (\<lambda>x. m OR x) ` X"
    then obtain x where x: "i = m OR x" "x AND M = 0"
      using X by auto
    have "\<not> bit x n" if "bit M n" for n
      using that arg_cong [OF x(2), of "\<lambda>w. bit w n"] by (simp add: bit_simps)
    then show "i AND M = m"
      unfolding x(1) using clear by (intro bit_word_eqI) (auto simp: bit_simps)
  next
    assume a: "i AND M = m"
    have low: "take_bit 16 (i AND NOT M) = i AND NOT M"
    proof (intro bit_word_eqI)
      fix n
      have "n < 16" if "bit i n"
        using that i by (metis bit_take_bit_iff)
      then show "bit (take_bit 16 (i AND NOT M)) n = bit (i AND NOT M) n"
        by (auto simp: bit_simps)
    qed
    have rest: "(i AND NOT M) AND M = 0"
      by (intro bit_word_eqI) (auto simp: bit_simps)
    have "i = m OR (i AND NOT M)"
      unfolding a [symmetric] by (intro bit_word_eqI) (auto simp: bit_simps)
    then show "i \<in> (\<lambda>x. m OR x) ` X"
      unfolding X using low rest by (intro image_eqI [where x = "i AND NOT M"]) auto
  qed
qed

text \<open>The free bits of each mask.\<close>

lemma free_bits:
  fixes x :: u32
  shows "x AND 0xff00 = 0 \<and> take_bit 16 x = x \<longleftrightarrow> take_bit 8 x = x"
    and "x AND 0xfff0 = 0 \<and> take_bit 16 x = x \<longleftrightarrow> take_bit 4 x = x"
    and "x AND 0xfff8 = 0 \<and> take_bit 16 x = x \<longleftrightarrow> take_bit 3 x = x"
    and "x AND 0xffff = 0 \<and> take_bit 16 x = x \<longleftrightarrow> x = 0"
    and "x AND 0xf1ff = 0 \<and> take_bit 16 x = x \<longleftrightarrow> push_bit 9 (take_bit 3 (drop_bit 9 x)) = x"
    and "x AND 0xf1f8 = 0 \<and> take_bit 16 x = x \<longleftrightarrow>
         push_bit 9 (take_bit 3 (drop_bit 9 x)) OR take_bit 3 x = x"
  by (simp_all add: word32_eq bit_simps)

lemma free_sets:
  "of_nat ` {0..<256} = {x :: u32. x AND 0xff00 = 0 \<and> take_bit 16 x = x}"
  "of_nat ` {0..<16} = {x :: u32. x AND 0xfff0 = 0 \<and> take_bit 16 x = x}"
  "of_nat ` {0..<8} = {x :: u32. x AND 0xfff8 = 0 \<and> take_bit 16 x = x}"
  "{0} = {x :: u32. x AND 0xffff = 0 \<and> take_bit 16 x = x}"
  by (simp_all add: free_bits low_words_numeral)

lemma free_set_f1ff:
  "push_bit 9 ` (of_nat ` {0..<8}) = {x :: u32. x AND 0xf1ff = 0 \<and> take_bit 16 x = x}"
  unfolding low_words_numeral free_bits
  by (auto simp: image_iff word32_eq bit_simps intro!: exI [where x = "take_bit 3 (drop_bit 9 x)" for x])

lemma free_set_f1f8:
  "(\<Union>i \<in> of_nat ` {0..<8}. (\<lambda>j. push_bit 9 i OR j) ` (of_nat ` {0..<8}))
     = {x :: u32. x AND 0xf1f8 = 0 \<and> take_bit 16 x = x}"
  unfolding low_words_numeral free_bits
proof (intro set_eqI iffI)
  fix x :: u32
  assume "x \<in> (\<Union>i \<in> {y. take_bit 3 y = y}. (\<lambda>j. push_bit 9 i OR j) ` {y. take_bit 3 y = y})"
  then obtain i j where "x = push_bit 9 i OR j" "take_bit 3 i = i" "take_bit 3 j = j"
    by auto
  then show "x \<in> {x. push_bit 9 (take_bit 3 (drop_bit 9 x)) OR take_bit 3 x = x}"
    by (simp add: word32_eq bit_simps)
next
  fix x :: u32
  assume "x \<in> {x. push_bit 9 (take_bit 3 (drop_bit 9 x)) OR take_bit 3 x = x}"
  then have "x = push_bit 9 (take_bit 3 (drop_bit 9 x)) OR take_bit 3 x"
    by simp
  then show "x \<in> (\<Union>i \<in> {y. take_bit 3 y = y}. (\<lambda>j. push_bit 9 i OR j) ` {y. take_bit 3 y = y})"
    by (intro UN_I [of "take_bit 3 (drop_bit 9 x)"] image_eqI [of _ _ "take_bit 3 x"]) simp_all
qed

lemma words_cover:
  assumes i: "i < 0x10000" and e: "op_mask e = m" "op_match e AND NOT m = 0"
  shows "m = 0xff00 \<Longrightarrow> i \<in> set (ff00_words e) \<longleftrightarrow> covers i e"
    and "m = 0xfff0 \<Longrightarrow> i \<in> set (fff0_words e) \<longleftrightarrow> covers i e"
    and "m = 0xf1ff \<Longrightarrow> i \<in> set (f1ff_words e) \<longleftrightarrow> covers i e"
    and "m = 0xfff8 \<Longrightarrow> i \<in> set (fff8_words e) \<longleftrightarrow> covers i e"
    and "m = 0xffff \<Longrightarrow> i \<in> set (ffff_words e) \<longleftrightarrow> covers i e"
    and "m = 0xf1f8 \<Longrightarrow> i \<in> set (f1f8_words e) \<longleftrightarrow> covers i e"
proof -
  have i16: "take_bit 16 i = i"
    using i by (simp add: word16_iff)
  note or = or_image_iff [OF e(2) _ i16]
  show "m = 0xff00 \<Longrightarrow> i \<in> set (ff00_words e) \<longleftrightarrow> covers i e"
    using or [of "of_nat ` {0..<256}"] e(1)
    by (simp add: ff00_words_def covers_def free_sets [symmetric] image_image)
  show "m = 0xfff0 \<Longrightarrow> i \<in> set (fff0_words e) \<longleftrightarrow> covers i e"
    using or [of "of_nat ` {0..<16}"] e(1)
    by (simp add: fff0_words_def covers_def free_sets [symmetric] image_image)
  show "m = 0xfff8 \<Longrightarrow> i \<in> set (fff8_words e) \<longleftrightarrow> covers i e"
    using or [of "of_nat ` {0..<8}"] e(1)
    by (simp add: fff8_words_def covers_def free_sets [symmetric] image_image)
  show "m = 0xffff \<Longrightarrow> i \<in> set (ffff_words e) \<longleftrightarrow> covers i e"
    using or [of "{0}"] e(1)
    by (simp add: ffff_words_def covers_def free_sets [symmetric])
  show "m = 0xf1ff \<Longrightarrow> i \<in> set (f1ff_words e) \<longleftrightarrow> covers i e"
    using or [of "push_bit 9 ` (of_nat ` {0..<8})"] e(1)
    by (simp add: f1ff_words_def covers_def free_set_f1ff [symmetric] image_image)
  show "m = 0xf1f8 \<Longrightarrow> i \<in> set (f1f8_words e) \<longleftrightarrow> covers i e"
    using or [of "\<Union>i \<in> of_nat ` {0..<8}. (\<lambda>j. push_bit 9 i OR j) ` (of_nat ` {0..<8})"] e(1)
    by (simp add: f1f8_words_def covers_def free_set_f1f8 [symmetric] image_image image_UN or.assoc)
qed

lemma generic_words_cover:
  "i < 0x10000 \<Longrightarrow> op_mask e \<noteq> 0xf1f8 \<Longrightarrow> i \<in> set (generic_words e) \<longleftrightarrow> covers i e"
  by (simp add: generic_words_def all_words_def covers_def low_words_numeral word16_iff)

subsection \<open>The loops in sequence\<close>

lemma while_mask_step:
  assumes "\<forall>e\<in>set xs. fits (op_mask e)" and "rows_ok m ys" and "ys \<noteq> []" and "\<not> fits m"
  shows "while_mask fits words (xs @ ys @ zs, t) = (ys @ zs, install_rows words xs t)"
proof -
  obtain y where "y \<in> set ys" "hd (ys @ zs) = y" "ys @ zs \<noteq> []"
    using assms(3) by (cases ys) auto
  then have "\<not> fits (op_mask (hd (ys @ zs)))" "ys @ zs \<noteq> []"
    using assms(2,4) rows_okD by auto
  then have "takeWhile (\<lambda>e. fits (op_mask e)) (ys @ zs) = []"
      "dropWhile (\<lambda>e. fits (op_mask e)) (ys @ zs) = ys @ zs"
    by (cases "ys @ zs"; simp)+
  then show ?thesis
    using assms(1) by (simp add: while_mask_def takeWhile_append dropWhile_append)
qed

lemma while_mask_last:
  "\<forall>e\<in>set xs. fits (op_mask e) \<Longrightarrow> while_mask fits words (xs, t) = ([], install_rows words xs t)"
  by (simp add: while_mask_def takeWhile_eq_all_conv [THEN iffD2])

lemma rows_nonempty:
  "opcodes_ff00 math \<noteq> []" "opcodes_f1f8 \<noteq> []" "opcodes_fff0 \<noteq> []" "opcodes_f1ff \<noteq> []"
  "opcodes_fff8 \<noteq> []" "opcodes_ffff \<noteq> []"
  by (simp_all add: opcodes_ff00_def opcodes_f1f8_def opcodes_f1f8_0_def opcodes_fff0_def opcodes_f1ff_def
      opcodes_f1ff_0_def opcodes_fff8_def opcodes_fff8_0_def opcodes_ffff_def opcodes_ffff_0_def)

lemma rows_fit: "rows_ok m xs \<Longrightarrow> fits m \<Longrightarrow> \<forall>e\<in>set xs. fits (op_mask e)"
  using rows_okD by fastforce

lemma build_unfold:
  "m68ki_build_opcode_table math =
    install_rows ffff_words opcodes_ffff (install_rows fff8_words opcodes_fff8
      (install_rows f1ff_words opcodes_f1ff (install_rows fff0_words opcodes_fff0
        (install_rows f1f8_words opcodes_f1f8 (install_rows ff00_words (opcodes_ff00 math)
          (install_rows generic_words opcodes_generic illegal_tables))))))"
proof -
  note step = while_mask_step [OF rows_generic(1) rows_ff00 rows_nonempty(1)]
    while_mask_step [OF rows_fit [OF rows_ff00, of "\<lambda>m. m = 0xff00"] rows_groups(1) rows_nonempty(2)]
    while_mask_step [OF rows_fit [OF rows_groups(1), of "\<lambda>m. m = 0xf1f8"] rows_fff0 rows_nonempty(3)]
    while_mask_step [OF rows_fit [OF rows_fff0, of "\<lambda>m. m = 0xfff0"] rows_groups(2) rows_nonempty(4)]
    while_mask_step [OF rows_fit [OF rows_groups(2), of "\<lambda>m. m = 0xf1ff"] rows_groups(3) rows_nonempty(5)]
    while_mask_step [OF rows_fit [OF rows_groups(3), of "\<lambda>m. m = 0xfff8"] rows_groups(4) rows_nonempty(6),
      where zs = "[]", simplified]
    while_mask_last [OF rows_fit [OF rows_groups(4), of "\<lambda>m. m = 0xffff"]]
  show ?thesis
    by (simp add: m68ki_build_opcode_table_def m68k_opcode_handler_table_def step)
qed

text \<open>Each group of rows, looked up by the words it enumerates or by the words it covers.\<close>

lemma find_rows:
  assumes "i < 0x10000" and "rows_ok m es"
  shows "m = 0xff00 \<Longrightarrow> find (\<lambda>e. i \<in> set (ff00_words e)) (rev es) = find (covers i) (rev es)"
    and "m = 0xf1f8 \<Longrightarrow> find (\<lambda>e. i \<in> set (f1f8_words e)) (rev es) = find (covers i) (rev es)"
    and "m = 0xfff0 \<Longrightarrow> find (\<lambda>e. i \<in> set (fff0_words e)) (rev es) = find (covers i) (rev es)"
    and "m = 0xf1ff \<Longrightarrow> find (\<lambda>e. i \<in> set (f1ff_words e)) (rev es) = find (covers i) (rev es)"
    and "m = 0xfff8 \<Longrightarrow> find (\<lambda>e. i \<in> set (fff8_words e)) (rev es) = find (covers i) (rev es)"
    and "m = 0xffff \<Longrightarrow> find (\<lambda>e. i \<in> set (ffff_words e)) (rev es) = find (covers i) (rev es)"
proof -
  have ok: "op_mask e = m" "op_match e AND NOT m = 0" if "e \<in> set (rev es)" for e
    using rows_okD [OF assms(2)] that by simp_all
  show "m = 0xff00 \<Longrightarrow> find (\<lambda>e. i \<in> set (ff00_words e)) (rev es) = find (covers i) (rev es)"
    by (rule find_cong_set, rule words_cover(1) [OF assms(1) ok])
  show "m = 0xf1f8 \<Longrightarrow> find (\<lambda>e. i \<in> set (f1f8_words e)) (rev es) = find (covers i) (rev es)"
    by (rule find_cong_set, rule words_cover(6) [OF assms(1) ok])
  show "m = 0xfff0 \<Longrightarrow> find (\<lambda>e. i \<in> set (fff0_words e)) (rev es) = find (covers i) (rev es)"
    by (rule find_cong_set, rule words_cover(2) [OF assms(1) ok])
  show "m = 0xf1ff \<Longrightarrow> find (\<lambda>e. i \<in> set (f1ff_words e)) (rev es) = find (covers i) (rev es)"
    by (rule find_cong_set, rule words_cover(3) [OF assms(1) ok])
  show "m = 0xfff8 \<Longrightarrow> find (\<lambda>e. i \<in> set (fff8_words e)) (rev es) = find (covers i) (rev es)"
    by (rule find_cong_set, rule words_cover(4) [OF assms(1) ok])
  show "m = 0xffff \<Longrightarrow> find (\<lambda>e. i \<in> set (ffff_words e)) (rev es) = find (covers i) (rev es)"
    by (rule find_cong_set, rule words_cover(5) [OF assms(1) ok])
qed

lemma find_generic:
  "i < 0x10000 \<Longrightarrow>
   find (\<lambda>e. i \<in> set (generic_words e)) (rev opcodes_generic) = find (covers i) (rev opcodes_generic)"
  by (rule find_cong_set, rule generic_words_cover) (simp_all add: rows_generic(2))

lemma row_of_unfold:
  "row_of math i =
    find (covers i) (rev opcodes_ffff @ rev opcodes_fff8 @ rev opcodes_f1ff @ rev opcodes_fff0 @ rev opcodes_f1f8
      @ rev (opcodes_ff00 math) @ rev opcodes_generic)"
  by (simp add: row_of_def m68k_opcode_handler_table_def)

lemma jump_table_row:
  "i < 0x10000 \<Longrightarrow> m68ki_instruction_jump_table (m68ki_build_opcode_table math) i
     = handler_or m68k_op_illegal (row_of math i)"
  by (simp only: build_unfold install_rows_apply(1) find_generic find_rows(1) [OF _ rows_ff00 refl]
      find_rows(2) [OF _ rows_groups(1) refl] find_rows(3) [OF _ rows_fff0 refl]
      find_rows(4) [OF _ rows_groups(2) refl] find_rows(5) [OF _ rows_groups(3) refl]
      find_rows(6) [OF _ rows_groups(4) refl] or_append row_of_unfold)
     (simp add: illegal_tables_def)

lemma cycle_table_row:
  "i < 0x10000 \<Longrightarrow> k < NUM_CPU_TYPES \<Longrightarrow>
   m68ki_cycles (m68ki_build_opcode_table math :: 'b opcode_tables) k i
     = cycles_or 0 k (row_of math i :: 'b opcode_handler_struct option)"
  by (simp only: build_unfold install_rows_apply(2) find_generic find_rows(1) [OF _ rows_ff00 refl]
      find_rows(2) [OF _ rows_groups(1) refl] find_rows(3) [OF _ rows_fff0 refl]
      find_rows(4) [OF _ rows_groups(2) refl] find_rows(5) [OF _ rows_groups(3) refl]
      find_rows(6) [OF _ rows_groups(4) refl] or_append row_of_unfold)
     (simp add: illegal_tables_def)

subsection \<open>Families of instruction words\<close>

text \<open>The words \<open>i AND M = V\<close> miss a row when the two patterns differ on a bit that both fix.\<close>

definition misses :: "u32 \<Rightarrow> u32 \<Rightarrow> 'b opcode_handler_struct \<Rightarrow> bool" where
  "misses M V e \<longleftrightarrow> V AND op_mask e \<noteq> op_match e AND M"

lemma misses_not_covers: "misses M V e \<Longrightarrow> i AND M = V \<Longrightarrow> \<not> covers i e"
  by (auto simp: misses_def covers_def ac_simps)

text \<open>The rows that words of a family can meet.\<close>

definition candidates :: "host_math \<Rightarrow> u32 \<Rightarrow> u32 \<Rightarrow> 'b opcode_handler_struct list" where
  "candidates math M V = filter (\<lambda>e. \<not> misses M V e) (m68k_opcode_handler_table math)"

lemma find_filter: "(\<And>x. P x \<Longrightarrow> Q x) \<Longrightarrow> find P (filter Q xs) = find P xs"
  by (induction xs) auto

lemma row_of_candidates: "i AND M = V \<Longrightarrow> row_of math i = find (covers i) (rev (candidates math M V))"
  unfolding row_of_def candidates_def rev_filter
  by (rule find_filter [symmetric]) (auto dest: misses_not_covers)

lemmas table_groups =
  m68k_opcode_handler_table_def opcodes_f1f8_def opcodes_f1ff_def opcodes_fff8_def opcodes_ffff_def

lemmas table_pieces =
  opcodes_generic_def opcodes_ff00_def opcodes_fff0_def
  opcodes_f1f8_0_def opcodes_f1f8_1_def opcodes_f1f8_2_def opcodes_f1f8_3_def
  opcodes_f1ff_0_def opcodes_f1ff_1_def opcodes_f1ff_2_def
  opcodes_fff8_0_def opcodes_fff8_1_def opcodes_fff8_2_def opcodes_fff8_3_def
  opcodes_ffff_0_def opcodes_ffff_1_def opcodes_ffff_2_def opcodes_ffff_3_def

lemma filter_misses: "list_all (misses M V) es \<Longrightarrow> filter (\<lambda>e. \<not> misses M V e) es = []"
  by (induction es) simp_all

lemma filter_skip: "misses M V e \<Longrightarrow> filter (\<lambda>e. \<not> misses M V e) (e # es) = filter (\<lambda>e. \<not> misses M V e) es"
  by simp

lemma a_line_misses:
  "list_all (misses 0xf000 0xa000) (opcodes_ff00 math)"
  "list_all (misses 0xf000 0xa000) opcodes_f1f8_0"
  "list_all (misses 0xf000 0xa000) opcodes_f1f8_1"
  "list_all (misses 0xf000 0xa000) opcodes_f1f8_2"
  "list_all (misses 0xf000 0xa000) opcodes_f1f8_3"
  "list_all (misses 0xf000 0xa000) opcodes_fff0"
  "list_all (misses 0xf000 0xa000) opcodes_f1ff_0"
  "list_all (misses 0xf000 0xa000) opcodes_f1ff_1"
  "list_all (misses 0xf000 0xa000) opcodes_f1ff_2"
  "list_all (misses 0xf000 0xa000) opcodes_fff8_0"
  "list_all (misses 0xf000 0xa000) opcodes_fff8_1"
  "list_all (misses 0xf000 0xa000) opcodes_fff8_2"
  "list_all (misses 0xf000 0xa000) opcodes_fff8_3"
  "list_all (misses 0xf000 0xa000) opcodes_ffff_0"
  "list_all (misses 0xf000 0xa000) opcodes_ffff_1"
  "list_all (misses 0xf000 0xa000) opcodes_ffff_2"
  "list_all (misses 0xf000 0xa000) opcodes_ffff_3"
  by (simp_all add: table_pieces misses_def)

lemma candidates_a_line:
  "candidates math 0xf000 0xa000 = [row m68k_op_1010 0xf000 0xa000 [4, 4, 4, 4, 4]]"
  by (simp add: candidates_def table_groups filter_misses a_line_misses)
     (simp add: opcodes_generic_def misses_def)

lemma fdbcc_misses:
  "list_all (misses 0xfff8 0xf248) opcodes_f1f8_0"
  "list_all (misses 0xfff8 0xf248) opcodes_f1f8_1"
  "list_all (misses 0xfff8 0xf248) opcodes_f1f8_2"
  "list_all (misses 0xfff8 0xf248) opcodes_fff0"
  "list_all (misses 0xfff8 0xf248) opcodes_f1ff_0"
  "list_all (misses 0xfff8 0xf248) opcodes_f1ff_1"
  "list_all (misses 0xfff8 0xf248) opcodes_f1ff_2"
  "list_all (misses 0xfff8 0xf248) opcodes_fff8_0"
  "list_all (misses 0xfff8 0xf248) opcodes_fff8_1"
  "list_all (misses 0xfff8 0xf248) opcodes_fff8_2"
  "list_all (misses 0xfff8 0xf248) opcodes_fff8_3"
  "list_all (misses 0xfff8 0xf248) opcodes_ffff_0"
  "list_all (misses 0xfff8 0xf248) opcodes_ffff_1"
  "list_all (misses 0xfff8 0xf248) opcodes_ffff_2"
  "list_all (misses 0xfff8 0xf248) opcodes_ffff_3"
  by (simp_all add: table_pieces misses_def)

lemma candidates_fdbcc:
  "candidates math 0xfff8 0xf248 = [row m68k_op_1111 0xf000 0xf000 [4, 4, 4, 4, 4],
     row m68k_op_cpscc_32 0xf1c0 0xf040 [0, 0, 4, 4, 0],
     row (m68k_op_040fpu0_32 math) 0xff00 0xf200 [0, 0, 0, 0, 0],
     row m68k_op_cpdbcc_32 0xf1f8 0xf048 [0, 0, 4, 4, 0]]"
  by (simp add: candidates_def table_groups filter_misses fdbcc_misses)
     (simp add: opcodes_generic_def opcodes_ff00_def opcodes_f1f8_3_def misses_def)

lemma nop_misses:
  "list_all (misses 0xffff 0x4e71) opcodes_generic"
  "list_all (misses 0xffff 0x4e71) (opcodes_ff00 math)"
  "list_all (misses 0xffff 0x4e71) opcodes_f1f8_0"
  "list_all (misses 0xffff 0x4e71) opcodes_f1f8_1"
  "list_all (misses 0xffff 0x4e71) opcodes_f1f8_2"
  "list_all (misses 0xffff 0x4e71) opcodes_f1f8_3"
  "list_all (misses 0xffff 0x4e71) opcodes_fff0"
  "list_all (misses 0xffff 0x4e71) opcodes_f1ff_0"
  "list_all (misses 0xffff 0x4e71) opcodes_f1ff_1"
  "list_all (misses 0xffff 0x4e71) opcodes_f1ff_2"
  "list_all (misses 0xffff 0x4e71) opcodes_fff8_0"
  "list_all (misses 0xffff 0x4e71) opcodes_fff8_1"
  "list_all (misses 0xffff 0x4e71) opcodes_fff8_2"
  "list_all (misses 0xffff 0x4e71) opcodes_fff8_3"
  "list_all (misses 0xffff 0x4e71) opcodes_ffff_0"
  "list_all (misses 0xffff 0x4e71) opcodes_ffff_1"
  "list_all (misses 0xffff 0x4e71) opcodes_ffff_3"
  by (simp_all add: table_pieces misses_def)

lemma candidates_nop:
  "candidates math 0xffff 0x4e71 = [row m68k_op_nop 0xffff 0x4e71 [4, 4, 2, 2, 2]]"
  by (simp add: candidates_def table_groups filter_misses nop_misses)
     (simp add: opcodes_ffff_2_def misses_def)

subsection \<open>Properties\<close>

text \<open>
  C34. \<open>m68ki_build_opcode_table\<close>: for every 16-bit instruction word the handler entered in the jump
  table and the cycle count of each of the five processor types are those of the last row of
  \<open>m68k_opcode_handler_table\<close> that covers the word, and the illegal instruction with no cycles where
  no row covers it.
\<close>
theorem opcode_table_is_last_row:
  fixes math :: host_math
  assumes "i < 0x10000" and "k < NUM_CPU_TYPES"
  shows "m68ki_instruction_jump_table (m68ki_build_opcode_table math) i = handler_or m68k_op_illegal (row_of math i)
    \<and> m68ki_cycles (m68ki_build_opcode_table math :: 'b opcode_tables) k i
      = cycles_or 0 k (row_of math i :: 'b opcode_handler_struct option)"
  using assms by (simp add: jump_table_row cycle_table_row)

lemma row_of_nop: "row_of math 0x4e71 = Some (row m68k_op_nop 0xffff 0x4e71 [4, 4, 2, 2, 2])"
  by (simp add: row_of_candidates [where M = "0xffff" and V = "0x4e71"] candidates_nop covers_def)

text \<open>The library of mathematical functions of the samples.\<close>

definition sample_math :: host_math where
  "sample_math = \<lparr>libm = (\<lambda>f d. d), ldexp = (\<lambda>d n. d), sscanf_le = (\<lambda>text. 0), sprintf_16e = (\<lambda>d. ''0'')\<rparr>"

theorem opcode_table_is_last_row_witness:
  "m68ki_instruction_jump_table (m68ki_build_opcode_table sample_math) 0x4e71 = m68k_op_nop
   \<and> m68ki_cycles (m68ki_build_opcode_table sample_math :: unit opcode_tables) 0 0x4e71 = 4"
  using opcode_table_is_last_row [where i = "0x4e71" and k = 0 and math = sample_math]
  by (simp add: NUM_CPU_TYPES_def row_of_nop handler_or_def cycles_or_def)

text \<open>
  C33. The traps of the Macintosh: each of the 4096 instruction words that begin with the digit A is
  dispatched to \<open>m68k_op_1010\<close>, which takes the line-1010 exception.
\<close>
theorem a_line_words_trap:
  assumes "i < 0x10000" and "i AND 0xf000 = 0xa000"
  shows "m68ki_instruction_jump_table (m68ki_build_opcode_table math) i s = m68ki_exception_1010 s"
  using assms
  by (simp add: jump_table_row row_of_candidates [OF assms(2)] candidates_a_line covers_def handler_or_def
      m68k_op_1010_def)

theorem a_line_words_trap_witness:
  "m68ki_instruction_jump_table (m68ki_build_opcode_table sample_math) 0xa9f4 sample = m68ki_exception_1010 sample"
  by (rule a_line_words_trap) simp_all

lemma fdbcc_covered:
  assumes "i AND 0xfff8 = 0xf248"
  shows "covers i (row h 0xf1f8 0xf048 c)"
proof -
  have "i AND 0xf1f8 = (i AND 0xfff8) AND 0xf1f8" "i AND 0xff20 = (i AND 0xfff8) AND 0xff20"
    by (simp_all add: word32_eq bit_simps)
  then show ?thesis
    using assms by (simp add: covers_def cache_word_def)
qed

text \<open>
  FDBcc: on a processor with the coprocessor interface the eight instruction words of FDBcc are
  dispatched to a handler that does nothing, although \<open>m68k_op_040fpu0_32\<close> precedes it in the table;
  the loop is not taken, and the condition and displacement words are left to be executed.
\<close>
theorem fdbcc_is_ignored:
  assumes "i < 0x10000" and "i AND 0xfff8 = 0xf248" and "CPU_TYPE_IS_EC020_PLUS (cpu_type s)"
  shows "m68ki_instruction_jump_table (m68ki_build_opcode_table math) i s = Ret () s"
  using assms
  by (simp add: jump_table_row row_of_candidates [OF assms(2)] candidates_fdbcc fdbcc_covered handler_or_def
      m68k_op_cpdbcc_32_def)

theorem fdbcc_is_ignored_witness:
  "m68ki_instruction_jump_table (m68ki_build_opcode_table sample_math) 0xf24a (sample\<lparr>cpu_type := CPU_TYPE_030\<rparr>)
     = Ret () (sample\<lparr>cpu_type := CPU_TYPE_030\<rparr>)"
  by (rule fdbcc_is_ignored) (simp_all add: CPU_TYPE_IS_EC020_PLUS_def cpu_types)

end
