(* ===== verification/MultiWord.thy ===== *)
theory MultiWord
  imports SoftFloat
begin

section \<open>Arithmetic on two words\<close>

text \<open>
  The routines of softfloat-macros on pairs of 64-bit words compute on the number the pair stands for:
  addition and subtraction modulo \<open>2 ^ 128\<close>, the full product, and the quotient estimate with the
  bounds its comment promises.  The correction loops of the library end.
\<close>

unbundle bit_operations_syntax

definition val128 :: "u64 \<times> u64 \<Rightarrow> int" where
  "val128 p = uint (fst p) * 2 ^ 64 + uint (snd p)"

lemma uint64_bounds: "0 \<le> uint (w :: u64)" "uint w < 2 ^ 64"
  using uint_bounded [of w] by simp_all

lemma val128_bounds: "0 \<le> val128 p" "val128 p < 2 ^ 128"
  using uint64_bounds [of "fst p"] uint64_bounds [of "snd p"] by (simp_all add: val128_def)

lemma val128_small:
  assumes "val128 (h, l) < 2 ^ 64"
  shows "h = 0" and "l = word_of_int (val128 (h, l))"
proof -
  have "val128 (h, l) div 2 ^ 64 = uint h"
    using uint64_bounds [of l] by (simp add: val128_def)
  moreover have "val128 (h, l) div 2 ^ 64 = 0"
    using assms val128_bounds(1) [of "(h, l)"] by simp
  ultimately show "h = 0"
    by (simp add: uint_0_iff)
  then show "l = word_of_int (val128 (h, l))"
    by (simp add: val128_def)
qed

lemma mod_unique_int: "0 \<le> r \<Longrightarrow> r < m \<Longrightarrow> a = m * k + r \<Longrightarrow> a mod m = r" for a r m k :: int
  by simp

lemma uint_add_carry: "uint (x + y) + 2 ^ 64 * of_bool (x + y < y) = uint x + uint y" for x y :: u64
  using uint64_bounds [of x] uint64_bounds [of y]
  by (cases "uint x + uint y < 2 ^ 64") (simp_all add: uint_plus_if_size word_less_def word_size)

lemma uint_add_carry': "uint (x + y) + 2 ^ 64 * of_bool (x + y < x) = uint x + uint y" for x y :: u64
  using uint_add_carry [of y x] by (simp add: ac_simps)

lemma uint_sub_borrow: "uint (x - y) = uint x - uint y + 2 ^ 64 * of_bool (x < y)" for x y :: u64
  by (auto simp: uint_sub_if_size word_less_def word_size)

lemma add128_val: "val128 (add128 a0 a1 b0 b1) = (val128 (a0, a1) + val128 (b0, b1)) mod 2 ^ 128"
proof -
  have "uint (a0 + b0 + of_bool (a1 + b1 < a1)) = (uint a0 + uint b0 + of_bool (a1 + b1 < a1)) mod 2 ^ 64"
    by (simp add: uint_word_ariths mod_simps)
  then obtain k where
    k: "uint (a0 + b0 + of_bool (a1 + b1 < a1)) = uint a0 + uint b0 + of_bool (a1 + b1 < a1) - 2 ^ 64 * k"
    by (metis minus_mult_div_eq_mod)
  have "val128 (a0, a1) + val128 (b0, b1) = 2 ^ 128 * k + val128 (add128 a0 a1 b0 b1)"
    unfolding val128_def add128_def Let_def fst_conv snd_conv k
    using uint_add_carry' [of a1 b1] by (cases "a1 + b1 < a1") (simp_all add: algebra_simps)
  then show ?thesis
    using val128_bounds [of "add128 a0 a1 b0 b1"] by simp
qed

lemma sub128_val: "val128 (sub128 a0 a1 b0 b1) = (val128 (a0, a1) - val128 (b0, b1)) mod 2 ^ 128"
proof -
  have "uint (a0 - b0 - of_bool (a1 < b1)) = (uint a0 - uint b0 - of_bool (a1 < b1)) mod 2 ^ 64"
    by (simp add: uint_word_ariths mod_simps)
  then obtain k where
    k: "uint (a0 - b0 - of_bool (a1 < b1)) = uint a0 - uint b0 - of_bool (a1 < b1) - 2 ^ 64 * k"
    by (metis minus_mult_div_eq_mod)
  have "val128 (a0, a1) - val128 (b0, b1) = 2 ^ 128 * k + val128 (sub128 a0 a1 b0 b1)"
    unfolding val128_def sub128_def Let_def fst_conv snd_conv k
    using uint_sub_borrow [of a1 b1] by (cases "a1 < b1") (simp_all add: algebra_simps)
  then show ?thesis
    using val128_bounds [of "sub128 a0 a1 b0 b1"] by simp
qed

lemma neg64_iff: "neg64 h \<longleftrightarrow> 2 ^ 127 \<le> val128 (h, l)"
proof -
  have "uint h div 2 ^ 63 = (if 2 ^ 63 \<le> uint h then 1 else 0)"
    using uint64_bounds [of h] by auto
  then have "bit (uint h) 63 \<longleftrightarrow> 2 ^ 63 \<le> uint h"
    unfolding bit_iff_odd by simp
  then have "bit h 63 \<longleftrightarrow> 2 ^ 63 \<le> uint h"
    by (simp add: bit_uint_iff)
  moreover have "2 ^ 63 \<le> uint h \<longleftrightarrow> 2 ^ 127 \<le> uint h * 2 ^ 64 + uint l"
    using uint64_bounds [of l] by (cases "2 ^ 63 \<le> uint h") (simp_all add: algebra_simps add_increasing)
  ultimately show ?thesis
    by (simp add: neg64_def val128_def)
qed

subsection \<open>Multiplication\<close>

lemma uint_drop_bit: "uint (drop_bit n w) = uint w div 2 ^ n" for w :: "'a::len word"
  by (simp only: unsigned_drop_bit_eq) (simp add: drop_bit_eq_div take_bit_int_eq_self)

lemma uint_push_bit: "uint (push_bit n w) = uint w * 2 ^ n mod 2 ^ LENGTH('a)" for w :: "'a::len word"
  by (simp only: unsigned_push_bit_eq) (simp add: push_bit_eq_mult take_bit_eq_mod)

lemma low_high: "uint w = uint (drop_bit 32 w) * 2 ^ 32 + uint (ucast w :: u32)" for w :: u64
  by (simp add: unsigned_ucast_eq take_bit_eq_mod uint_drop_bit)

lemma product_bound: "0 \<le> x \<Longrightarrow> x < 2 ^ 32 \<Longrightarrow> 0 \<le> y \<Longrightarrow> y < 2 ^ 32 \<Longrightarrow> x * y \<le> (2 ^ 32 - 1) * (2 ^ 32 - 1)"
  for x y :: int
  by (intro mult_mono) auto

lemma same_residue:
  "0 \<le> p \<Longrightarrow> p < 2 ^ 128 \<Longrightarrow> 0 \<le> p - 2 ^ 128 * k \<Longrightarrow> p - 2 ^ 128 * k < 2 ^ 128 \<Longrightarrow> k = 0" for p k :: int
  by simp

lemma mul64To128_val: "val128 (mul64To128 a b) = uint a * uint b"
proof -
  define aL where "aL = uint (ucast a :: u32)"
  define aH where "aH = uint (drop_bit 32 a)"
  define bL where "bL = uint (ucast b :: u32)"
  define bH where "bH = uint (drop_bit 32 b)"
  have high: "uint (drop_bit 32 w) < 2 ^ 32" for w :: u64
    using uint64_bounds [of w] unfolding uint_drop_bit by simp
  have low: "uint (w :: u32) < 2 ^ 32" for w
    using uint_bounded [of w] by simp
  have range: "0 \<le> aL" "aL < 2 ^ 32" "0 \<le> aH" "aH < 2 ^ 32" "0 \<le> bL" "bL < 2 ^ 32" "0 \<le> bH" "bH < 2 ^ 32"
    using low high by (simp_all add: aL_def aH_def bL_def bH_def)
  have a: "uint a = aH * 2 ^ 32 + aL" and b: "uint b = bH * 2 ^ 32 + bL"
    using low_high [of a] low_high [of b] by (simp_all only: aL_def aH_def bL_def bH_def)
  have widen: "uint (ucast (ucast w :: u32) :: u64) = uint (ucast w :: u32)"
      "uint (ucast (drop_bit 32 w) :: u32) = uint (drop_bit 32 w)" for w :: u64
    using high [of w] by (simp_all add: unsigned_ucast_eq unsigned_take_bit_eq take_bit_int_eq_self)
  have product: "uint (x * y) = uint x * uint y"
    if "uint x < 2 ^ 32" "uint y < 2 ^ 32" for x y :: u64
    using product_bound [of "uint x" "uint y"] that by (simp add: uint_word_ariths)
  define A B L H :: u64 where "A = ucast (ucast a :: u32) * ucast (ucast (drop_bit 32 b) :: u32)"
    and "B = ucast (ucast (drop_bit 32 a) :: u32) * ucast (ucast b :: u32)"
    and "L = ucast (ucast a :: u32) * ucast (ucast b :: u32)"
    and "H = ucast (ucast (drop_bit 32 a) :: u32) * ucast (ucast (drop_bit 32 b) :: u32)"
  have AB: "uint A = aL * bH" "uint B = aH * bL" "uint L = aL * bL" "uint H = aH * bH"
    using range unfolding A_def B_def L_def H_def aL_def aH_def bL_def bH_def
    by (simp_all only: product widen)
  define M where "M = uint (A + B)"
  define c where "c = (A + B < B)"
  have M: "M + 2 ^ 64 * of_bool c = aL * bH + aH * bL"
    unfolding M_def c_def using uint_add_carry [of A B] by (simp only: AB)
  define Z where "Z = push_bit 32 (A + B)"
  have Z: "uint Z = M mod 2 ^ 32 * 2 ^ 32"
    unfolding Z_def M_def uint_push_bit by (simp add: mult_mod_left)
  define d where "d = (L + Z < Z)"
  have d: "uint (L + Z) + 2 ^ 64 * of_bool d = aL * bL + M mod 2 ^ 32 * 2 ^ 32"
    unfolding d_def using uint_add_carry [of L Z] by (simp only: AB Z)
  define T where "T = H + (push_bit 32 (of_bool c) + drop_bit 32 (A + B)) + of_bool d"
  have add4: "uint (p + (q + r) + s) = (uint p + uint q + uint r + uint s) mod 2 ^ 64" for p q r s :: u64
    by (simp add: uint_word_ariths mod_simps ac_simps)
  have "uint (push_bit 32 (of_bool c) :: u64) = of_bool c * 2 ^ 32" "uint (of_bool d :: u64) = of_bool d"
    by (cases c; simp) (cases d; simp)
  then have "uint T = (aH * bH + of_bool c * 2 ^ 32 + M div 2 ^ 32 + of_bool d) mod 2 ^ 64"
    unfolding T_def add4 M_def AB(4) [symmetric] uint_drop_bit by simp
  then obtain k where k: "uint T = aH * bH + of_bool c * 2 ^ 32 + M div 2 ^ 32 + of_bool d - 2 ^ 64 * k"
    by (metis minus_mult_div_eq_mod)
  obtain Mh Ml where Mhl: "Mh = M div 2 ^ 32" "Ml = M mod 2 ^ 32"
    by blast
  then have parts: "M = Mh * 2 ^ 32 + Ml"
    by simp
  note k = k [folded Mhl] and d = d [folded Mhl]
  have "mul64To128 a b = (T, L + Z)"
    by (simp add: mul64To128_def Let_def T_def Z_def A_def B_def L_def H_def c_def d_def)
  then have val: "val128 (mul64To128 a b) = uint T * 2 ^ 64 + uint (L + Z)"
    by (simp add: val128_def)
  have "uint a * uint b = aH * bH * 2 ^ 64 + (aL * bH + aH * bL) * 2 ^ 32 + aL * bL"
    by (simp add: a b algebra_simps)
  then have "val128 (mul64To128 a b) = uint a * uint b - 2 ^ 128 * k"
    using k d M parts unfolding val by (cases c; cases d) simp_all
  moreover have "0 \<le> uint a * uint b" "uint a * uint b < 2 ^ 64 * 2 ^ 64"
    using uint64_bounds [of a] uint64_bounds [of b] by (simp, intro mult_strict_mono) auto
  ultimately show ?thesis
    using val128_bounds [of "mul64To128 a b"] same_residue [of "uint a * uint b" k] by simp
qed

subsection \<open>The correction loops\<close>

text \<open>
  A loop that adds a divisor to a negative number until it is not negative.  The number is kept
  modulo \<open>2 ^ 128\<close> in two words; it is \<open>R\<close>, and \<open>n\<close> is the number of steps.
\<close>

definition correct :: "u64 \<Rightarrow> u64 \<Rightarrow> u64 \<Rightarrow> u64 \<times> u64 \<times> u64 \<Rightarrow> u64 \<times> u64 \<times> u64" where
  "correct c d0 d1 = (\<lambda>(z, rem0, rem1). (z - c, add128 rem0 rem1 d0 d1))"

definition negative_rem :: "u64 \<times> u64 \<times> u64 \<Rightarrow> bool" where
  "negative_rem = (\<lambda>(z, rem0, rem1). neg64 rem0)"

lemma neg64_signed:
  assumes "val128 (h, l) = R mod 2 ^ 128" and "- (2 ^ 127) \<le> R" and "R < 2 ^ 127"
  shows "neg64 h \<longleftrightarrow> R < 0"
proof (cases "R < 0")
  case True
  then have "R mod 2 ^ 128 = R + 2 ^ 128"
    using assms(2) by (intro mod_unique_int [where k = "- 1"]) auto
  then show ?thesis
    using True assms(2) by (simp add: neg64_iff [of h l] assms(1))
next
  case False
  then have "R mod 2 ^ 128 = R"
    using assms(3) by simp
  then show ?thesis
    using False assms(3) by (simp add: neg64_iff [of h l] assms(1))
qed

lemma correct_loop:
  assumes "0 < D" and "D < 2 ^ 127" and "D = val128 (d0, d1)"
    and "val128 (h, l) = R mod 2 ^ 128" and "- (2 ^ 127) \<le> R" and "R < 2 ^ 127"
    and "0 \<le> R + int n * D" and "n = 0 \<or> R + (int n - 1) * D < 0"
  shows "\<exists>h' l'. while_option negative_rem (correct c d0 d1) (z, h, l) = Some (z - of_nat n * c, h', l')
    \<and> val128 (h', l') = R + int n * D"
  using assms(4-8)
proof (induction n arbitrary: z h l R)
  case 0
  then have "\<not> neg64 h"
    using neg64_signed [OF 0(1-3)] by simp
  moreover have "val128 (h, l) = R"
    using 0 by simp
  ultimately show ?case
    by (simp add: while_option_unfold negative_rem_def)
next
  case (Suc n)
  have "R + int n * D < 0"
    using Suc.prems(5) by simp
  moreover have "0 \<le> int n * D"
    using assms(1) by simp
  ultimately have R: "R < 0"
    by linarith
  then have step: "while_option negative_rem (correct c d0 d1) (z, h, l)
      = while_option negative_rem (correct c d0 d1) (z - c, add128 h l d0 d1)"
    using neg64_signed [OF Suc.prems(1-3)] by (simp add: while_option_unfold [of _ _ "(z, h, l)"] negative_rem_def correct_def)
  obtain h' l' where hl: "add128 h l d0 d1 = (h', l')"
    by (cases "add128 h l d0 d1")
  have "val128 (h', l') = (R + D) mod 2 ^ 128"
    using add128_val [of h l d0 d1] unfolding hl Suc.prems(1) assms(3) [symmetric] by (simp add: mod_simps)
  moreover have "- (2 ^ 127) \<le> R + D" "R + D < 2 ^ 127"
    using R Suc.prems(2) assms(1,2) by linarith+
  moreover have "0 \<le> R + D + int n * D" "n = 0 \<or> R + D + (int n - 1) * D < 0"
    using Suc.prems(4,5) by (simp_all add: algebra_simps)
  ultimately obtain h'' l'' where "while_option negative_rem (correct c d0 d1) (z - c, h', l')
        = Some (z - c - of_nat n * c, h'', l'')" "val128 (h'', l'') = R + D + int n * D"
    using Suc.IH by blast
  then show ?case
    unfolding step hl by (simp add: algebra_simps)
qed

subsection \<open>The quotient estimate\<close>

text \<open>A quotient digit from the leading parts exceeds the true digit by two at most.\<close>

definition digit_estimate :: "int \<Rightarrow> int \<Rightarrow> int" where
  "digit_estimate n b0 = (if b0 * 2 ^ 32 \<le> n then 2 ^ 32 - 1 else n div b0)"

lemma le_div_iff: "0 < b \<Longrightarrow> q \<le> n div b \<longleftrightarrow> q * b \<le> n" for q n b :: int
proof
  assume "0 < b" "q \<le> n div b"
  then have "q * b \<le> n div b * b"
    by simp
  then show "q * b \<le> n"
    using \<open>0 < b\<close> by (smt (verit) div_mult_mod_eq pos_mod_sign)
next
  assume "0 < b" "q * b \<le> n"
  then show "q \<le> n div b"
    by (metis nonzero_mult_div_cancel_right order_less_irrefl zdiv_mono1)
qed

lemma div_less_iff: "0 < b \<Longrightarrow> n div b < q \<longleftrightarrow> n < q * b" for q n b :: int
  using le_div_iff [of b q n] by linarith

lemma digit_estimate_bounds:
  assumes b: "2 ^ 63 \<le> b" "b < 2 ^ 64" and N: "0 \<le> N" "N < b * 2 ^ 32"
  shows "N div b \<le> digit_estimate (N div 2 ^ 32) (b div 2 ^ 32)"
    and "digit_estimate (N div 2 ^ 32) (b div 2 ^ 32) \<le> N div b + 2"
    and "digit_estimate (N div 2 ^ 32) (b div 2 ^ 32) < 2 ^ 32"
    and "0 \<le> digit_estimate (N div 2 ^ 32) (b div 2 ^ 32)"
proof -
  define q where "q = N div b"
  define b0 where "b0 = b div 2 ^ 32"
  define bl where "bl = b mod 2 ^ 32"
  define n where "n = N div 2 ^ 32"
  define e where "e = digit_estimate n b0"
  have bb: "b = b0 * 2 ^ 32 + bl" and bl: "0 \<le> bl" "bl < 2 ^ 32" and b0: "2 ^ 31 \<le> b0"
    using b by (simp_all add: b0_def bl_def le_div_iff)
  have q: "q * b \<le> N" "0 \<le> q" "q \<le> 2 ^ 32 - 1"
    using b N le_div_iff [of b q N] div_less_iff [of b N "2 ^ 32"]
    by (simp_all add: q_def mult.commute pos_imp_zdiv_nonneg_iff)
  have above: "N < (q + 1) * b"
    using b div_less_iff [of b N "q + 1"] by (simp add: q_def)
  have n: "n * 2 ^ 32 \<le> N" "0 \<le> n"
    using N le_div_iff [of "2 ^ 32" n N] by (simp_all add: n_def)
  have "q * b = q * b0 * 2 ^ 32 + q * bl"
    by (simp add: bb algebra_simps)
  moreover have "0 \<le> q * bl"
    using q bl by simp
  ultimately have qn: "q * b0 \<le> n"
    using q(1) by (simp add: n_def le_div_iff)
  have e: "e \<le> 2 ^ 32 - 1" "0 \<le> e" "e * b0 \<le> n"
    using b0 n div_less_iff [of b0 n "2 ^ 32"] le_div_iff [of b0 e n] le_div_iff [of b0 0 n]
    by (auto simp: e_def digit_estimate_def mult.commute)
  have "q \<le> e"
    using qn q(3) b0 by (simp add: e_def digit_estimate_def le_div_iff)
  moreover have "e \<le> q + 2"
  proof (rule ccontr)
    assume "\<not> e \<le> q + 2"
    then have "(q + 1) * b \<le> (e - 2) * b"
      using b by (intro mult_right_mono) auto
    moreover have "(e - 2) * b = (e - 2) * b0 * 2 ^ 32 + (e - 2) * bl"
      by (simp add: bb algebra_simps)
    moreover have "(e - 2) * bl \<le> (2 ^ 32 - 1) * 2 ^ 32"
      using e bl \<open>\<not> e \<le> q + 2\<close> q by (intro mult_mono) auto
    ultimately show False
      using above n(1) e(3) b0 by (simp add: algebra_simps)
  qed
  ultimately show "N div b \<le> digit_estimate (N div 2 ^ 32) (b div 2 ^ 32)"
      "digit_estimate (N div 2 ^ 32) (b div 2 ^ 32) \<le> N div b + 2"
      "digit_estimate (N div 2 ^ 32) (b div 2 ^ 32) < 2 ^ 32"
      "0 \<le> digit_estimate (N div 2 ^ 32) (b div 2 ^ 32)"
    using e by (simp_all add: e_def q_def b0_def n_def)
qed

text \<open>
  \<open>estimateDiv128To64\<close> of a divisor of at least \<open>2 ^ 63\<close>: its loop ends, and the result is the
  quotient, one more or two more.
\<close>

lemma negative_rem_eq: "(\<lambda>(z, rem0, rem1). neg64 rem0) = negative_rem"
  by (simp add: negative_rem_def)

lemma uint_or_low:
  fixes x z :: u64
  assumes "uint x < 2 ^ 32"
  shows "uint (push_bit 32 z OR x) = uint (push_bit 32 z) + uint x"
proof -
  have "take_bit 32 x = x"
    using assms by (intro word_uint_eqI) (simp add: unsigned_take_bit_eq take_bit_int_eq_self)
  then have "\<not> bit x n" if "32 \<le> n" for n
    using that by (metis bit_take_bit_iff not_less)
  then have "push_bit 32 z OR x = push_bit 32 z + x"
    by (intro disjunctive_add_eq_or [symmetric] bit_word_eqI) (auto simp: bit_simps)
  moreover have "uint (push_bit 32 z) = (uint z mod 2 ^ 32) * 2 ^ 32"
    unfolding uint_push_bit by (simp add: mult_mod_left)
  moreover have "uint z mod 2 ^ 32 \<le> 2 ^ 32 - 1"
    using pos_mod_bound [of "2 ^ 32" "uint z"] by simp
  ultimately show ?thesis
    using assms by (simp add: uint_word_ariths)
qed

definition first_digit :: "u64 \<Rightarrow> u64 \<Rightarrow> u64" where
  "first_digit a0 b =
    (if push_bit 32 (drop_bit 32 b) \<le> a0 then 0xFFFFFFFF00000000 else push_bit 32 (a0 div drop_bit 32 b))"

lemma split_divisor:
  assumes "2 ^ 63 \<le> uint b"
  shows "uint (push_bit 32 (drop_bit 32 b)) = uint (drop_bit 32 b) * 2 ^ 32"
    and "val128 (drop_bit 32 b, push_bit 32 b) = uint b * 2 ^ 32"
proof -
  show "uint (push_bit 32 (drop_bit 32 b)) = uint (drop_bit 32 b) * 2 ^ 32"
    unfolding uint_push_bit uint_drop_bit
    by (intro mod_pos_pos_trivial)
       (use uint64_bounds [of b] le_div_iff [of "2 ^ 32" "uint b div 2 ^ 32" "uint b"] in \<open>simp_all add: pos_imp_zdiv_nonneg_iff\<close>)
  define u v where "u = uint b div 2 ^ 32" and "v = uint b mod 2 ^ 32"
  have "uint b = u * 2 ^ 32 + v"
    by (simp add: u_def v_def)
  then have "uint b * 2 ^ 32 = u * 2 ^ 64 + v * 2 ^ 32"
    by simp
  then have "uint b * 2 ^ 32 = uint b div 2 ^ 32 * 2 ^ 64 + uint b mod 2 ^ 32 * 2 ^ 32"
    by (simp only: u_def v_def)
  then show "val128 (drop_bit 32 b, push_bit 32 b) = uint b * 2 ^ 32"
    unfolding val128_def fst_conv snd_conv uint_push_bit uint_drop_bit by (simp add: mult_mod_left)
qed

lemma digit_word:
  assumes "uint n < uint b" and "2 ^ 63 \<le> uint b" and "digit_estimate (uint n) (uint (drop_bit 32 b)) < 2 ^ 32"
  shows "uint (if push_bit 32 (drop_bit 32 b) \<le> n then 0xFFFFFFFF else n div drop_bit 32 b)
     = digit_estimate (uint n) (uint (drop_bit 32 b))"
    and "uint (first_digit n b) = digit_estimate (uint n) (uint (drop_bit 32 b)) * 2 ^ 32"
proof -
  have less: "push_bit 32 (drop_bit 32 b) \<le> n \<longleftrightarrow> uint (drop_bit 32 b) * 2 ^ 32 \<le> uint n"
    by (simp only: word_le_def split_divisor [OF assms(2)])
  show one: "uint (if push_bit 32 (drop_bit 32 b) \<le> n then 0xFFFFFFFF else n div drop_bit 32 b)
     = digit_estimate (uint n) (uint (drop_bit 32 b))"
    by (simp only: less digit_estimate_def if_distrib [of uint] uint_div_distrib) simp
  have "first_digit n b = push_bit 32 (if push_bit 32 (drop_bit 32 b) \<le> n then 0xFFFFFFFF else n div drop_bit 32 b)"
    by (simp add: first_digit_def)
  then have "uint (first_digit n b) = digit_estimate (uint n) (uint (drop_bit 32 b)) * 2 ^ 32 mod 2 ^ 64"
    by (simp only: uint_push_bit one) simp
  moreover have "0 \<le> digit_estimate (uint n) (uint (drop_bit 32 b))"
    by (simp add: one [symmetric])
  ultimately show "uint (first_digit n b) = digit_estimate (uint n) (uint (drop_bit 32 b)) * 2 ^ 32"
    using assms(3) by simp
qed

lemma estimate_run:
  assumes b: "2 ^ 63 \<le> uint b" and a: "a0 < b" and A: "A = val128 (a0, a1)"
  shows "\<exists>z h l. while_option negative_rem (correct 0x100000000 (drop_bit 32 b) (push_bit 32 b))
        (first_digit a0 b, case mul64To128 b (first_digit a0 b) of (t0, t1) \<Rightarrow> sub128 a0 a1 t0 t1) = Some (push_bit 32 z, h, l)
    \<and> uint z = A div (uint b * 2 ^ 32) \<and> uint z < 2 ^ 32 \<and> val128 (h, l) = A mod (uint b * 2 ^ 32)"
proof -
  define B where "B = uint b"
  define D where "D = B * 2 ^ 32"
  define N where "N = A div 2 ^ 32"
  define Z where "Z = digit_estimate (uint a0) (uint (drop_bit 32 b))"
  define n where "n = nat (Z - A div D)"
  define R where "R = A - B * (Z * 2 ^ 32)"
  have B: "2 ^ 63 \<le> B" "B < 2 ^ 64"
    using b uint64_bounds [of b] by (simp_all add: B_def)
  have A0: "0 \<le> A" "A < B * 2 ^ 64"
    using a uint64_bounds [of a0] uint64_bounds [of a1] by (auto simp: A val128_def B_def word_less_def)
  have N: "0 \<le> N" "N < B * 2 ^ 32"
    using A0 by (simp_all add: N_def div_less_iff pos_imp_zdiv_nonneg_iff)
  have "uint a0 = A div 2 ^ 64"
    unfolding A val128_def using uint64_bounds [of a1] by simp
  also have "\<dots> = N div 2 ^ 32"
    by (simp add: N_def zdiv_zmult2_eq [symmetric])
  finally have a0: "uint a0 = N div 2 ^ 32" .
  have "N div B = A div D"
    unfolding N_def D_def using B by (simp add: zdiv_zmult2_eq [symmetric] mult.commute)
  then have Z: "A div D \<le> Z" "Z \<le> A div D + 2" "Z < 2 ^ 32" "0 \<le> Z"
    using digit_estimate_bounds [OF B N] by (simp_all add: Z_def a0 uint_drop_bit B_def)
  have z: "uint (first_digit a0 b) = Z * 2 ^ 32"
    unfolding Z_def using digit_word(2) [of a0 b] a b Z(3) by (simp add: Z_def word_less_def)
  have D: "0 < D" "D < 2 ^ 96" "D = val128 (drop_bit 32 b, push_bit 32 b)"
    using B by (simp_all add: D_def split_divisor [OF b] B_def)
  have AD: "A = A div D * D + A mod D" "0 \<le> A mod D" "A mod D < D" "0 \<le> A div D"
    using D(1) A0 by (simp_all add: pos_imp_zdiv_nonneg_iff)
  have nZ: "int n = Z - A div D" "n \<le> 2"
    using Z by (simp_all add: n_def nat_le_iff)
  have RD: "R + int n * D = A mod D"
    unfolding nZ using AD(1) by (simp add: R_def D_def algebra_simps)
  have nD: "0 \<le> int n * D" "int n * D \<le> 2 * D"
    using nZ(2) D(1) by simp_all
  obtain t0 t1 where t: "mul64To128 b (first_digit a0 b) = (t0, t1)"
    by (cases "mul64To128 b (first_digit a0 b)")
  obtain h l where s: "sub128 a0 a1 t0 t1 = (h, l)"
    by (cases "sub128 a0 a1 t0 t1")
  have "val128 (h, l) = R mod 2 ^ 128"
    using sub128_val [of a0 a1 t0 t1] mul64To128_val [of b "first_digit a0 b"]
    by (simp only: s t z R_def A B_def)
  moreover have D2: "2 * D \<le> 2 ^ 127"
    using D(2) by simp
  moreover have "- (2 ^ 127) \<le> R" "R < 2 ^ 127" "0 \<le> R + int n * D" "R + int n * D - D < 0" "D < 2 ^ 127"
    using RD AD(2,3) D(1) nD D2 by linarith+
  ultimately obtain h' l' where run: "while_option negative_rem (correct 0x100000000 (drop_bit 32 b) (push_bit 32 b))
        (first_digit a0 b, h, l) = Some (first_digit a0 b - of_nat n * 0x100000000, h', l')"
      "val128 (h', l') = R + int n * D"
    using correct_loop [OF D(1) _ D(3), of h l R n] by (fastforce simp: left_diff_distrib)
  have "first_digit a0 b = word_of_int (Z * 2 ^ 32)"
    unfolding z [symmetric] by simp
  then have "first_digit a0 b - of_nat n * 0x100000000 = word_of_int (Z * 2 ^ 32) - word_of_int (int n) * word_of_int (2 ^ 32)"
    by simp
  also have "\<dots> = word_of_int ((Z - int n) * 2 ^ 32)"
    by (simp add: left_diff_distrib)
  also have "\<dots> = push_bit 32 (word_of_int (A div D))"
    by (simp add: nZ(1) push_bit_eq_mult)
  finally have "first_digit a0 b - of_nat n * 0x100000000 = push_bit 32 (word_of_int (A div D))" .
  moreover have "uint (word_of_int (A div D) :: u64) = A div D"
    using Z AD(4) by (simp add: uint_word_of_int)
  ultimately show ?thesis
    using run RD Z unfolding D_def B_def by (auto simp: t s intro!: exI)
qed

lemma estimateDiv128To64_unfold:
  "estimateDiv128To64 a0 a1 b =
    (if b \<le> a0 then 0xFFFFFFFFFFFFFFFF
     else
       let (z, rem0, rem1) = while_do negative_rem (correct 0x100000000 (drop_bit 32 b) (push_bit 32 b))
             (first_digit a0 b, case mul64To128 b (first_digit a0 b) of (t0, t1) \<Rightarrow> sub128 a0 a1 t0 t1);
           rem0 = push_bit 32 rem0 OR drop_bit 32 rem1
       in z OR (if push_bit 32 (drop_bit 32 b) \<le> rem0 then 0xFFFFFFFF else rem0 div drop_bit 32 b))"
proof -
  obtain t0 t1 where t: "mul64To128 b (first_digit a0 b) = (t0, t1)"
    by (cases "mul64To128 b (first_digit a0 b)")
  obtain h l where s: "sub128 a0 a1 t0 t1 = (h, l)"
    by (cases "sub128 a0 a1 t0 t1")
  show ?thesis
    unfolding estimateDiv128To64_def first_digit_def [symmetric] negative_rem_eq correct_def [symmetric] Let_def t
      prod.case s by (rule refl)
qed

lemma estimateDiv128To64_run:
  assumes b: "2 ^ 63 \<le> uint b" and a: "a0 < b" and A: "A = val128 (a0, a1)"
  shows "uint (estimateDiv128To64 a0 a1 b)
    = A div (uint b * 2 ^ 32) * 2 ^ 32 + digit_estimate (A mod (uint b * 2 ^ 32) div 2 ^ 32) (uint b div 2 ^ 32)"
proof -
  obtain z h l where run: "while_option negative_rem (correct 0x100000000 (drop_bit 32 b) (push_bit 32 b))
        (first_digit a0 b, case mul64To128 b (first_digit a0 b) of (t0, t1) \<Rightarrow> sub128 a0 a1 t0 t1) = Some (push_bit 32 z, h, l)"
    and z: "uint z = A div (uint b * 2 ^ 32)" "uint z < 2 ^ 32" and hl: "val128 (h, l) = A mod (uint b * 2 ^ 32)"
    using estimate_run [OF assms] by blast
  define R where "R = A mod (uint b * 2 ^ 32)"
  have R: "0 \<le> R" "R < uint b * 2 ^ 32"
    using b by (simp_all add: R_def)
  define x where "x = push_bit 32 h OR drop_bit 32 l"
  have "uint b * 2 ^ 32 < 2 ^ 96"
    using uint64_bounds [of b] by simp
  then have "(uint h * 2 ^ 64 + uint l) div 2 ^ 64 < 2 ^ 32"
    using hl R unfolding val128_def fst_conv snd_conv by (subst div_less_iff) (simp_all add: R_def)
  then have h: "uint h < 2 ^ 32"
    using uint64_bounds [of l] by simp
  have "uint x = uint h * 2 ^ 32 + uint l div 2 ^ 32"
    unfolding x_def using uint_or_low [of "drop_bit 32 l" h] uint64_bounds [of l] h
    by (simp add: uint_drop_bit uint_push_bit)
  also have "\<dots> = (uint h * 2 ^ 64 + uint l) div 2 ^ 32"
    by simp
  also have "\<dots> = R div 2 ^ 32"
    using hl by (simp add: val128_def R_def)
  finally have x: "uint x = R div 2 ^ 32" .
  have B: "uint b < 2 ^ 64"
    using uint64_bounds by simp
  have xb: "uint x < uint b"
    unfolding x using R(2) by (simp add: div_less_iff)
  define y where "y = (if push_bit 32 (drop_bit 32 b) \<le> x then 0xFFFFFFFF else x div drop_bit 32 b)"
  have "digit_estimate (uint x) (uint (drop_bit 32 b)) < 2 ^ 32"
    unfolding x uint_drop_bit using digit_estimate_bounds(3) [OF b B R] .
  then have y: "uint y = digit_estimate (R div 2 ^ 32) (uint b div 2 ^ 32)"
    unfolding y_def using digit_word(1) [OF xb b] by (simp only: x uint_drop_bit)
  have "estimateDiv128To64 a0 a1 b = push_bit 32 z OR y"
    using a unfolding estimateDiv128To64_unfold while_do_def run
    by (simp only: option.case Let_def prod.case x_def [symmetric] y_def [symmetric] not_le [symmetric] if_False
        simp_thms cong: if_cong)
  moreover have "uint (push_bit 32 z) = uint z * 2 ^ 32"
    using z(2) by (simp add: uint_push_bit)
  ultimately show ?thesis
    using uint_or_low [of y z] digit_estimate_bounds(3) [OF b B R] by (simp add: y z R_def)
qed

lemma estimateDiv128To64_between:
  assumes b: "2 ^ 63 \<le> uint b" and a: "a0 < b"
  shows "val128 (a0, a1) div uint b \<le> uint (estimateDiv128To64 a0 a1 b)"
    and "uint (estimateDiv128To64 a0 a1 b) \<le> val128 (a0, a1) div uint b + 2"
proof -
  define A B where "A = val128 (a0, a1)" and "B = uint b"
  define Q R where "Q = A div (B * 2 ^ 32)" and "R = A mod (B * 2 ^ 32)"
  have B: "2 ^ 63 \<le> B" "B < 2 ^ 64"
    using b uint64_bounds [of b] by (simp_all add: B_def)
  have R: "0 \<le> R" "R < B * 2 ^ 32"
    using B by (simp_all add: R_def)
  have "A = Q * (B * 2 ^ 32) + R"
    by (simp only: Q_def R_def div_mult_mod_eq)
  then have "A = R + Q * 2 ^ 32 * B"
    by simp
  then have q: "A div B = Q * 2 ^ 32 + R div B"
    using B by simp
  have "uint (estimateDiv128To64 a0 a1 b) = Q * 2 ^ 32 + digit_estimate (R div 2 ^ 32) (B div 2 ^ 32)"
    using estimateDiv128To64_run [OF b a A_def] by (simp add: Q_def R_def B_def)
  then show "val128 (a0, a1) div uint b \<le> uint (estimateDiv128To64 a0 a1 b)"
      "uint (estimateDiv128To64 a0 a1 b) \<le> val128 (a0, a1) div uint b + 2"
    using digit_estimate_bounds(1,2) [OF B R] q by (simp_all add: A_def B_def)
qed

subsection \<open>The quotient of two significands\<close>

lemma div_correct_eq: "div_correct b = while_do negative_rem (correct 1 0 b)"
  by (simp add: div_correct_def negative_rem_def correct_def)

text \<open>The correction of an estimate \<open>z\<close> of a quotient finds the quotient and the remainder.\<close>

lemma div_loop:
  assumes b: "2 ^ 63 \<le> uint b" and a: "a0 < b"
    and z: "val128 (a0, a1) div uint b \<le> uint z" "uint z \<le> val128 (a0, a1) div uint b + 2"
  shows "while_option negative_rem (correct 1 0 b)
      (z, case mul64To128 b z of (t0, t1) \<Rightarrow> sub128 a0 a1 t0 t1)
    = Some (word_of_int (val128 (a0, a1) div uint b), 0, word_of_int (val128 (a0, a1) mod uint b))"
proof -
  define A B where "A = val128 (a0, a1)" and "B = uint b"
  define n where "n = nat (uint z - A div B)"
  define R where "R = A - B * uint z"
  have B: "2 ^ 63 \<le> B" "0 < B" "2 * B \<le> 2 ^ 127" "B < 2 ^ 127" "B = val128 (0, b)"
    using b uint64_bounds [of b] by (simp_all add: B_def val128_def)
  have AB: "A = A div B * B + A mod B" "0 \<le> A mod B" "A mod B < B"
    using B(2) by simp_all
  have n: "int n = uint z - A div B" "n \<le> 2"
    using z by (simp_all add: n_def A_def B_def nat_le_iff)
  have RB: "R + int n * B = A mod B"
    unfolding n using AB(1) by (simp add: R_def algebra_simps)
  have nB: "0 \<le> int n * B" "int n * B \<le> 2 * B"
    using n(2) B(2) by simp_all
  obtain t0 t1 where t: "mul64To128 b z = (t0, t1)"
    by (cases "mul64To128 b z")
  obtain h l where s: "sub128 a0 a1 t0 t1 = (h, l)"
    by (cases "sub128 a0 a1 t0 t1")
  have "val128 (h, l) = R mod 2 ^ 128"
    using sub128_val [of a0 a1 t0 t1] mul64To128_val [of b z] by (simp only: s t R_def A_def B_def)
  moreover have "- (2 ^ 127) \<le> R" "R < 2 ^ 127" "0 \<le> R + int n * B" "R + int n * B - B < 0"
    using RB AB(2,3) B(2-4) nB by linarith+
  ultimately obtain h' l' where run: "while_option negative_rem (correct 1 0 b) (z, h, l) = Some (z - of_nat n * 1, h', l')"
      and v: "val128 (h', l') = R + int n * B"
    using correct_loop [OF B(2,4,5), of h l R n 1 z] by (fastforce simp: left_diff_distrib)
  have hl: "h' = 0" "l' = word_of_int (A mod B)"
    using val128_small [of h' l'] v RB AB(3) uint64_bounds [of b] by (simp_all add: B_def)
  have "z - of_nat n = word_of_int (uint z - int n)"
    by simp
  then have "z - of_nat n * 1 = word_of_int (A div B)"
    by (simp add: n)
  then show ?thesis
    using run by (simp add: t s hl A_def B_def)
qed

end
