(* ===== verification/SoftFloatLaws.thy ===== *)
theory SoftFloatLaws
  imports MultiWord
begin

section \<open>Correct rounding\<close>

text \<open>
  The product and the quotient of two normal extended numbers are the exact value rounded in the
  current mode: the significand is that of the specification \<open>rounded\<close>, the inexact flag is raised
  exactly when the value is not representable.  The rounding routine is told the bits that follow the
  significand by a second word; \<open>tail_of\<close> says what that word has to tell.
\<close>

unbundle bit_operations_syntax

text \<open>
  The exact value is \<open>q + r / d\<close> units in the last place; \<open>rounds_up\<close> tells whether its magnitude is
  rounded up.
\<close>

definition rounds_up :: "u8 \<Rightarrow> bool \<Rightarrow> int \<Rightarrow> int \<Rightarrow> int \<Rightarrow> bool" where
  "rounds_up mode sign q r d =
    (if mode = float_round_nearest_even then d < 2 * r \<or> 2 * r = d \<and> odd q
     else if mode = float_round_to_zero then False
     else if sign then mode = float_round_down \<and> r \<noteq> 0
     else mode = float_round_up \<and> r \<noteq> 0)"

definition rounded :: "u8 \<Rightarrow> bool \<Rightarrow> int \<Rightarrow> int \<Rightarrow> int \<Rightarrow> int" where
  "rounded mode sign q r d = q + of_bool (rounds_up mode sign q r d)"

text \<open>A significand of 64 bits that overflowed by rounding is halved.\<close>

definition packed_rounded :: "bool \<Rightarrow> int \<Rightarrow> int \<Rightarrow> floatx80" where
  "packed_rounded sign e m =
    (if m = 2 ^ 64 then packFloatx80 sign (e + 1) 0x8000000000000000 else packFloatx80 sign e (word_of_int m))"

definition tail_of :: "u64 \<Rightarrow> int \<Rightarrow> int \<Rightarrow> bool" where
  "tail_of w r d \<longleftrightarrow> (w = 0 \<longleftrightarrow> r = 0) \<and> (neg64 w \<longleftrightarrow> d \<le> 2 * r) \<and> (w = 0x8000000000000000 \<longleftrightarrow> 2 * r = d)"

lemma neg64_uint: "neg64 w \<longleftrightarrow> 2 ^ 63 \<le> uint w"
  using neg64_iff [of w 0] by (simp add: val128_def)

lemma push_1_zero: "push_bit 1 w = 0 \<longleftrightarrow> w = 0 \<or> w = 0x8000000000000000" for w :: u64
proof -
  have "push_bit 1 w = 0 \<longleftrightarrow> uint w * 2 mod 2 ^ 64 = 0"
    using uint_push_bit [of 1 w] by (simp only: uint_0_iff [symmetric]) simp
  also have "\<dots> \<longleftrightarrow> uint w = 0 \<or> uint w = 2 ^ 63"
  proof -
    have "uint w * 2 mod 2 ^ 64 = uint w mod 2 ^ 63 * 2"
      by (simp add: mult_mod_left)
    moreover have "uint w mod 2 ^ 63 = (if uint w < 2 ^ 63 then uint w else uint w - 2 ^ 63)"
      using uint64_bounds [of w] mod_unique_int [of "uint w - 2 ^ 63" "2 ^ 63" "uint w" 1] by auto
    ultimately show ?thesis
      by simp
  qed
  also have "\<dots> \<longleftrightarrow> w = 0 \<or> w = 0x8000000000000000"
    by (simp add: word_uint_eq_iff)
  finally show ?thesis .
qed

lemma even_clear: "even x \<Longrightarrow> x AND NOT 1 = x" for x :: u64
proof (intro bit_word_eqI)
  fix n
  assume "even x" "n < LENGTH(64)"
  then show "bit (x AND NOT 1) n = bit x n"
    by (cases "n = 0") (simp_all add: bit_and_iff bit_not_iff bit_1_iff bit_0 even_and_iff)
qed

lemmas even_clear_numeral = even_clear [simplified]

lemma even_succ_clear: "even m \<Longrightarrow> (m + 1) AND NOT 1 = m" for m :: u64
proof -
  assume "even m"
  then have "m + 1 = m OR 1"
    by (simp add: or_one_eq)
  moreover have "(m OR 1) AND NOT 1 = m AND NOT 1"
    by (intro bit_word_eqI) (auto simp: bit_simps)
  ultimately show ?thesis
    using even_clear [OF \<open>even m\<close>] by simp
qed

lemmas even_succ_clear_numeral = even_succ_clear [simplified]

lemma even_uint: "even (uint m) \<longleftrightarrow> even m" for m :: u64
  by (simp add: even_iff_mod_2_eq_zero) (metis bit_0 bit_uint_iff even_iff_mod_2_eq_zero len_gt_0)

lemma packed_word:
  "packed_rounded sign e (uint m) = packFloatx80 sign e m"
  "packed_rounded sign e (uint m + 1) = (if m + 1 = 0 then packFloatx80 sign (e + 1) 0x8000000000000000
     else packFloatx80 sign e (m + 1))"
proof -
  show "packed_rounded sign e (uint m) = packFloatx80 sign e m"
    using uint64_bounds [of m] by (simp add: packed_rounded_def)
  have "m + 1 = word_of_int (uint m + 1)"
    by simp
  moreover have "uint m + 1 = 2 ^ 64 \<longleftrightarrow> m + 1 = 0"
  proof
    assume "uint m + 1 = 2 ^ 64"
    then have "word_of_int (uint m + 1) = (word_of_int (2 ^ 64) :: u64)"
      by (simp only:)
    then show "m + 1 = 0"
      by simp
  next
    assume "m + 1 = 0"
    then show "uint m + 1 = 2 ^ 64"
      using uint_add_carry [of m 1] by simp
  qed
  ultimately show "packed_rounded sign e (uint m + 1) = (if m + 1 = 0 then packFloatx80 sign (e + 1) 0x8000000000000000
     else packFloatx80 sign e (m + 1))"
    by (simp add: packed_rounded_def)
qed

lemma roundAndPack80_rounded:
  assumes e: "0 < e" "e < 0x7FFE" and m: "neg64 m" and w: "tail_of w r d" and r: "0 \<le> r" "r < d"
  shows "roundAndPack80 sign e m w st
    = (packed_rounded sign e (rounded (float_rounding_mode st) sign (uint m) r d),
       raise_if (r \<noteq> 0) float_flag_inexact st)"
proof -
  have inc: "increment80 sign w st \<longleftrightarrow>
     (if nearest_even st then d \<le> 2 * r else rounds_up (float_rounding_mode st) sign (uint m) r d)"
    using w by (simp add: increment80_def rounds_up_def nearest_even_def tail_of_def Let_def)
  have up: "rounds_up (float_rounding_mode st) sign (uint m) r d \<longleftrightarrow> d < 2 * r \<or> 2 * r = d \<and> odd m"
    if "nearest_even st"
    using that by (simp add: rounds_up_def nearest_even_def even_uint)
  have m0: "m \<noteq> 0"
    using m by (auto simp: neg64_def)
  have flag: "nearest_even (raise_if c f st) = nearest_even st" for c f
    by (simp add: nearest_even_def raise_if_def float_raise_def)
  have w0: "w \<noteq> 0 \<longleftrightarrow> r \<noteq> 0"
    using w by (simp add: tail_of_def)
  have tie: "push_bit 1 w = 0 \<longleftrightarrow> 2 * r = d" if "d \<le> 2 * r"
    using w r that unfolding push_1_zero by (auto simp: tail_of_def)
  show ?thesis
  proof (cases "increment80 sign w st")
    case False
    then have "\<not> rounds_up (float_rounding_mode st) sign (uint m) r d"
      using inc up by (auto split: if_splits)
    then show ?thesis
      using False e m0 w0 by (simp add: roundAndPack80_def Let_def rounded_def packed_word)
  next
    case True
    show ?thesis
    proof (cases "nearest_even st \<and> 2 * r = d \<and> even m")
      case tied: True
      then have "m + 1 \<noteq> 0"
        by (metis add_eq_0_iff2 even_minus odd_one)
      then show ?thesis
        using True tied e w0 tie up
        by (simp add: roundAndPack80_def Let_def rounded_def packed_word flag even_succ_clear_numeral)
    next
      case False
      then have "rounds_up (float_rounding_mode st) sign (uint m) r d"
        using True inc up by (auto split: if_splits)
      moreover have "(m + 1) AND NOT (of_bool (push_bit 1 w = 0 \<and> nearest_even st)) = m + 1"
        using False tie True inc even_clear [of "m + 1"] by (auto split: if_splits)
      ultimately show ?thesis
        using True e w0 by (simp add: roundAndPack80_def Let_def rounded_def packed_word flag)
    qed
  qed
qed

subsection \<open>The quotient\<close>

lemma sticky_bit:
  "uint (z OR of_bool c) = uint z + of_bool (c \<and> even (uint z))" for z :: u64
proof (cases c)
  case True
  have "uint (z OR 1) = uint z + of_bool (even z)"
  proof (cases "even z")
    case True
    moreover have "uint z + 1 < 2 ^ 64"
    proof -
      have "uint z \<noteq> 2 ^ 64 - 1"
        using True even_uint [of z] by auto
      then show ?thesis
        using uint64_bounds [of z] by simp
    qed
    ultimately show ?thesis
      by (simp add: or_one_eq uint_word_ariths)
  qed (simp add: or_one_eq)
  then show ?thesis
    using True by (simp add: even_uint)
qed simp

lemma tail_of_quotient:
  assumes d: "0 < d" and r: "0 \<le> r" "r < d"
    and s: "uint s = r * 2 ^ 64 div d + of_bool (r * 2 ^ 64 mod d \<noteq> 0 \<and> even (r * 2 ^ 64 div d))"
  shows "tail_of s r d"
proof -
  define q t where "q = r * 2 ^ 64 div d" and "t = r * 2 ^ 64 mod d"
  have qt: "r * 2 ^ 64 = q * d + t" "0 \<le> t" "t < d"
    using d by (simp_all only: q_def t_def div_mult_mod_eq) simp_all
  have s: "uint s = q + of_bool (t \<noteq> 0 \<and> even q)"
    using s by (simp only: q_def t_def)
  have "q < 2 ^ 63 \<longleftrightarrow> r * 2 ^ 64 < 2 ^ 63 * d"
    unfolding q_def using d by (rule div_less_iff)
  then have half: "q < 2 ^ 63 \<longleftrightarrow> 2 * r < d"
    by simp
  have "0 \<le> q"
    using r d by (simp add: q_def pos_imp_zdiv_nonneg_iff)
  have "s = 0 \<longleftrightarrow> q = 0 \<and> t = 0"
    unfolding uint_0_iff [symmetric] s using \<open>0 \<le> q\<close> by auto
  also have "\<dots> \<longleftrightarrow> r = 0"
    using qt d by (auto simp: q_def t_def)
  finally have zero: "s = 0 \<longleftrightarrow> r = 0" .
  have "uint s < 2 ^ 63 \<longleftrightarrow> q < 2 ^ 63"
    unfolding s by auto
  then have neg: "neg64 s \<longleftrightarrow> d \<le> 2 * r"
    unfolding neg64_uint using half by linarith
  have "s = 0x8000000000000000 \<longleftrightarrow> uint s = 2 ^ 63"
    by (simp add: word_uint_eq_iff)
  also have "\<dots> \<longleftrightarrow> q = 2 ^ 63 \<and> t = 0"
    unfolding s by auto
  also have "\<dots> \<longleftrightarrow> r * 2 ^ 64 = 2 ^ 63 * d"
    using qt d by (auto simp: q_def t_def)
  finally show ?thesis
    using zero neg by (auto simp: tail_of_def)
qed

lemma div_do:
  assumes b: "2 ^ 63 \<le> uint b" and a: "a0 < b"
    and z: "val128 (a0, a1) div uint b \<le> uint z" "uint z \<le> val128 (a0, a1) div uint b + 2"
    and t: "mul64To128 b z = (t0, t1)"
  shows "div_correct b (z, sub128 a0 a1 t0 t1)
    = (word_of_int (val128 (a0, a1) div uint b), 0, word_of_int (val128 (a0, a1) mod uint b))"
  using div_loop [OF b a z] by (simp add: div_correct_eq while_do_def t)

lemma div_significands_correct:
  assumes b: "2 ^ 63 \<le> uint b" and a: "a0 < b" and A_def: "A = val128 (a0, a1)"
  shows "\<exists>s. div_significands a0 a1 b = (word_of_int (A div uint b), s) \<and> tail_of s (A mod uint b) (uint b)"
proof -
  define r where "r = A mod uint b"
  have B: "0 < uint b" "uint b < 2 ^ 64"
    using b uint64_bounds [of b] by simp_all
  have r: "0 \<le> r" "r < uint b"
    using B by (simp_all add: r_def)
  then have r64: "r < 2 ^ 64"
    using B by simp
  define r1 :: u64 where "r1 = word_of_int r"
  have ur1: "uint r1 = r"
    using r r64 by (simp add: r1_def uint_word_of_int)
  have r1b: "r1 < b"
    using r by (simp add: word_less_def ur1)
  have A1: "val128 (r1, 0) = r * 2 ^ 64"
    by (simp add: val128_def ur1)
  define z1 where "z1 = estimateDiv128To64 r1 0 b"
  define q1 where "q1 = r * 2 ^ 64 div uint b"
  have z1: "q1 \<le> uint z1" "uint z1 \<le> q1 + 2"
    using estimateDiv128To64_between [OF b r1b, of 0] by (simp_all add: A1 z1_def q1_def)
  have q1: "0 \<le> q1" "q1 < 2 ^ 64"
    using r B by (simp_all add: q1_def pos_imp_zdiv_nonneg_iff div_less_iff)
  obtain t0 t1 where t: "mul64To128 b (estimateDiv128To64 a0 a1 b) = (t0, t1)"
    by (cases "mul64To128 b (estimateDiv128To64 a0 a1 b)")
  obtain u0 u1 where u: "mul64To128 b z1 = (u0, u1)"
    by (cases "mul64To128 b z1")
  have first: "div_correct b (estimateDiv128To64 a0 a1 b, sub128 a0 a1 t0 t1) = (word_of_int (A div uint b), 0, r1)"
    using div_do [OF b a estimateDiv128To64_between [OF b a] t] by (simp add: A_def r_def r1_def)
  have second: "div_correct b (z1, sub128 r1 0 u0 u1) = (word_of_int q1, 0, word_of_int (r * 2 ^ 64 mod uint b))"
    using div_do [OF b r1b _ _ u] z1 by (simp add: A1 q1_def)
  obtain h l where hl: "sub128 a0 a1 t0 t1 = (h, l)"
    by (cases "sub128 a0 a1 t0 t1")
  obtain h' l' where hl': "sub128 r1 0 u0 u1 = (h', l')"
    by (cases "sub128 r1 0 u0 u1")
  define s where "s = (if push_bit 1 z1 \<le> 8
    then word_of_int q1 OR of_bool ((word_of_int (r * 2 ^ 64 mod uint b) :: u64) \<noteq> 0) else z1)"
  have "div_significands a0 a1 b = (word_of_int (A div uint b), s)"
    unfolding div_significands_def Let_def t prod.case hl first [unfolded hl] z1_def [symmetric] u hl'
      second [unfolded hl'] s_def by simp
  moreover have "tail_of s r (uint b)"
  proof (cases "push_bit 1 z1 \<le> 8")
    case True
    have "uint (word_of_int q1 :: u64) = q1"
      using q1 by (simp add: uint_word_of_int)
    moreover have "(word_of_int (r * 2 ^ 64 mod uint b) :: u64) \<noteq> 0 \<longleftrightarrow> r * 2 ^ 64 mod uint b \<noteq> 0"
    proof -
      have "r * 2 ^ 64 mod uint b mod 2 ^ 64 = r * 2 ^ 64 mod uint b"
        using B pos_mod_bound [OF B(1), of "r * 2 ^ 64"] pos_mod_sign [OF B(1), of "r * 2 ^ 64"]
        by (intro mod_pos_pos_trivial) simp_all
      then show ?thesis
        by (simp add: uint_0_iff [symmetric] uint_word_of_int del: uint_0_iff)
    qed
    ultimately show ?thesis
      using True B r by (intro tail_of_quotient) (simp_all add: s_def sticky_bit q1_def)
  next
    case False
    then have far: "8 < uint z1 * 2 mod 2 ^ 64"
      using uint_push_bit [of 1 z1] by (simp add: word_less_def not_le)
    have half: "q1 < 2 ^ 63 \<longleftrightarrow> 2 * r < uint b" "2 ^ 63 + 1 \<le> q1 \<Longrightarrow> uint b < 2 * r"
      using B div_less_iff [of "uint b" "r * 2 ^ 64" "2 ^ 63"] le_div_iff [of "uint b" "2 ^ 63 + 1" "r * 2 ^ 64"]
      by (simp_all add: q1_def)
    show ?thesis
    proof (cases "uint z1 < 2 ^ 63")
      case True
      then have "4 < uint z1"
        using far uint64_bounds [of z1] by simp
      moreover from this have "r \<noteq> 0"
        using z1 by (auto simp: q1_def)
      moreover have "2 * r < uint b"
        using half(1) z1(1) True by linarith
      moreover have "z1 \<noteq> 0" "z1 \<noteq> 0x8000000000000000"
        using True \<open>4 < uint z1\<close> by auto
      ultimately show ?thesis
        using False True by (simp add: s_def tail_of_def neg64_uint)
    next
      case high: False
      then have "uint z1 * 2 mod 2 ^ 64 = uint z1 * 2 - 2 ^ 64"
        using uint64_bounds [of z1] by (intro mod_unique_int [where k = 1]) simp_all
      then have "2 ^ 63 + 5 \<le> uint z1"
        using far by simp
      then have "uint b < 2 * r" "r \<noteq> 0" "z1 \<noteq> 0" "z1 \<noteq> 0x8000000000000000"
        using half(2) z1(2) B by auto
      then show ?thesis
        using False high by (simp add: s_def tail_of_def neg64_uint)
    qed
  qed
  ultimately show ?thesis
    by (auto simp: r_def)
qed

subsection \<open>The product\<close>

lemma tail_of_low: "tail_of w (uint w) (2 ^ 64)"
  by (auto simp: tail_of_def neg64_uint word_uint_eq_iff uint_0_iff [symmetric] simp del: uint_0_iff)

lemma shifted_disjoint: "push_bit 1 h AND drop_bit 63 l = 0" for h l :: u64
proof (rule bit_word_eqI)
  fix n
  assume "n < LENGTH(64)"
  show "bit (push_bit 1 h AND drop_bit 63 l) n = bit (0 :: u64) n"
  proof (cases "n = 0")
    case True
    then show ?thesis
      by (simp only: bit_and_iff bit_push_bit_iff) simp
  next
    case False
    then have "\<not> bit l (63 + n)"
      by (auto dest: bit_imp_le_length)
    then show ?thesis
      by (simp add: bit_and_iff bit_drop_bit_eq)
  qed
qed

lemma shift_left_1:
  assumes "uint h < 2 ^ 63"
  shows "val128 (shortShift128Left h l 1) = 2 * val128 (h, l)"
proof -
  have n: "negCount 1 = 63"
    by (simp add: negCount_def)
  have or: "push_bit 1 h OR drop_bit 63 l = push_bit 1 h + drop_bit 63 l"
    by (rule disjunctive_add_eq_or [OF shifted_disjoint, symmetric])
  have top: "uint (drop_bit 63 l) = uint l div 2 ^ 63"
    by (simp only: uint_drop_bit)
  have small: "uint l div 2 ^ 63 < 2" "0 \<le> uint l div 2 ^ 63"
    using uint64_bounds [of l] by (simp_all add: div_less_iff pos_imp_zdiv_nonneg_iff)
  have twice: "uint (push_bit 1 h) = 2 * uint h"
    using assms uint64_bounds [of h] by (simp only: uint_push_bit) simp
  have hi: "uint (push_bit 1 h OR drop_bit 63 l) = 2 * uint h + uint l div 2 ^ 63"
  proof -
    have "2 * uint h + uint l div 2 ^ 63 < 2 ^ 64"
      using assms small power_Suc [of "2 :: int" 63] by simp
    then show ?thesis
      unfolding or uint_plus_if_size word_size twice top by simp
  qed
  have lo: "uint (push_bit 1 l) = uint l mod 2 ^ 63 * 2"
    by (simp only: uint_push_bit) (simp add: mult_mod_left)
  have "uint l = uint l div 2 ^ 63 * 2 ^ 63 + uint l mod 2 ^ 63"
    by (rule div_mult_mod_eq [symmetric])
  then obtain u v where uv: "uint l div 2 ^ 63 = u" "uint l mod 2 ^ 63 = v" and l: "uint l = u * 2 ^ 63 + v"
    by blast
  have "shortShift128Left h l 1 = (push_bit 1 h OR drop_bit 63 l, push_bit 1 l)"
    by (simp only: shortShift128Left_def n if_False one_neq_zero nat_one_as_int [symmetric] simp_thms)
  then have "val128 (shortShift128Left h l 1) = (2 * uint h + u) * 2 ^ 64 + v * 2"
    by (simp only: val128_def fst_conv snd_conv hi lo uv)
  also have "\<dots> = 2 * (uint h * 2 ^ 64 + (u * 2 ^ 63 + v))"
    by simp
  finally show ?thesis
    by (simp only: val128_def fst_conv snd_conv l)
qed

lemma val128_shift_right: "val128 (drop_bit 1 x, push_bit 63 x) = uint x * 2 ^ 63"
proof -
  have "val128 (drop_bit 1 x, push_bit 63 x) = uint x div 2 * 2 ^ 64 + uint x * 2 ^ 63 mod 2 ^ 64"
    by (simp only: val128_def fst_conv snd_conv uint_drop_bit uint_push_bit) simp
  also have "uint x * 2 ^ 63 mod 2 ^ 64 = uint x mod 2 * 2 ^ 63"
    using mult_mod_left [of "uint x" 2 "2 ^ 63"] by simp
  also have "uint x div 2 * 2 ^ 64 + uint x mod 2 * 2 ^ 63 = (uint x div 2 * 2 + uint x mod 2) * 2 ^ 63"
    by (simp only: distrib_right) simp
  finally show ?thesis
    by (simp only: div_mult_mod_eq)
qed

subsection \<open>Products and quotients of normal numbers\<close>

text \<open>A normal number: the explicit integer bit is set, the exponent is neither 0 nor that of infinity.\<close>

definition normal80 :: "floatx80 \<Rightarrow> bool" where
  "normal80 a \<longleftrightarrow> 0 < extractFloatx80Exp a \<and> extractFloatx80Exp a < 0x7FFF \<and> neg64 (extractFloatx80Frac a)"

definition significand :: "floatx80 \<Rightarrow> int" where
  "significand a = uint (extractFloatx80Frac a)"

lemma normal_significand: "normal80 a \<Longrightarrow> 2 ^ 63 \<le> significand a" "significand a < 2 ^ 64"
  using uint64_bounds [of "extractFloatx80Frac a"] by (simp_all add: normal80_def significand_def neg64_uint)

lemma val128_parts:
  assumes "val128 (h, l) = A"
  shows "uint h = A div 2 ^ 64" "uint l = A mod 2 ^ 64"
  using assms uint64_bounds [of l] by (auto simp: val128_def simp del: div_mult_mod_eq)

lemma roundAndPack80_val:
  assumes "0 < e" "e < 0x7FFE" and A: "val128 (h, l) = A" "2 ^ 127 \<le> A"
  shows "roundAndPackFloatx80 floatx80_rounding_precision sign e h l st
    = (packed_rounded sign e (rounded (float_rounding_mode st) sign (A div 2 ^ 64) (A mod 2 ^ 64) (2 ^ 64)),
       raise_if (A mod 2 ^ 64 \<noteq> 0) float_flag_inexact st)"
proof -
  have "neg64 h"
    using A neg64_iff [of h l] by simp
  moreover have "tail_of l (A mod 2 ^ 64) (2 ^ 64)"
    unfolding val128_parts(2) [OF A(1), symmetric] by (rule tail_of_low)
  ultimately show ?thesis
    using roundAndPack80_rounded [of e h l "A mod 2 ^ 64" "2 ^ 64" sign st] assms(1,2)
    by (simp add: roundAndPackFloatx80_def floatx80_rounding_precision_def val128_parts [OF A(1)])
qed

text \<open>
  The exact product, as an exponent and the significand scaled by \<open>2 ^ 64\<close> to have its leading bit at
  position 127.
\<close>

definition exact_product :: "floatx80 \<Rightarrow> floatx80 \<Rightarrow> int \<times> int" where
  "exact_product a b =
    (let E = extractFloatx80Exp a + extractFloatx80Exp b - 0x3FFE; P = significand a * significand b
     in if P < 2 ^ 127 then (E - 1, 2 * P) else (E, P))"

text \<open>
  The exact quotient, as an exponent and the dividend that, divided by the divisor's significand, gives a
  quotient of 64 bits.
\<close>

definition exact_quotient :: "floatx80 \<Rightarrow> floatx80 \<Rightarrow> int \<times> int" where
  "exact_quotient a b =
    (let E = extractFloatx80Exp a - extractFloatx80Exp b + 0x3FFE
     in if significand b \<le> significand a then (E + 1, significand a * 2 ^ 63) else (E, significand a * 2 ^ 64))"

text \<open>The value \<open>q + r / d\<close> rounded in the current mode, with the inexact flag when \<open>r\<close> is not 0.\<close>

definition rounded_result :: "bool \<Rightarrow> int \<Rightarrow> int \<Rightarrow> int \<Rightarrow> float_status \<Rightarrow> floatx80 \<times> float_status" where
  "rounded_result sign e A d st =
    (packed_rounded sign e (rounded (float_rounding_mode st) sign (A div d) (A mod d) d),
     raise_if (A mod d \<noteq> 0) float_flag_inexact st)"

text \<open>
  C31. The product of two normal extended numbers, when its exponent is in range, is the exact product of
  the significands rounded in the current mode, and the inexact flag is raised exactly when rounding lost
  something: the four partial products, their carries, the normalising shift and the tie rule together
  compute the specification.
\<close>

theorem floatx80_mul_rounded:
  assumes a: "normal80 a" and b: "normal80 b" and eA: "exact_product a b = (e, A)" and e: "0 < e" "e < 0x7FFE"
  shows "floatx80_mul a b st = rounded_result (extractFloatx80Sign a \<noteq> extractFloatx80Sign b) e A (2 ^ 64) st"
proof -
  define E P where "E = extractFloatx80Exp a + extractFloatx80Exp b - 0x3FFE" and "P = significand a * significand b"
  have e_def: "e = (if P < 2 ^ 127 then E - 1 else E)" and A_def: "A = (if P < 2 ^ 127 then 2 * P else P)"
    using eA by (auto simp: exact_product_def Let_def E_def P_def split: if_splits)
  obtain z0 z1 where z: "mul64To128 (extractFloatx80Frac a) (extractFloatx80Frac b) = (z0, z1)"
    by fastforce
  then have P: "val128 (z0, z1) = P"
    using mul64To128_val [of "extractFloatx80Frac a" "extractFloatx80Frac b"] by (simp add: P_def significand_def)
  have "2 ^ 63 * 2 ^ 63 \<le> P"
    unfolding P_def using normal_significand(1) [OF a] normal_significand(1) [OF b] by (intro mult_mono) simp_all
  then have P126: "2 ^ 126 \<le> P"
    by simp
  have top: "neg64 z0 \<longleftrightarrow> \<not> P < 2 ^ 127"
    using neg64_iff [of z0 z1] P by auto
  have "z0 \<noteq> 0"
    using P126 P uint64_bounds [of z1] by (auto simp: val128_def)
  have normal: "extractFloatx80Exp a \<noteq> 0" "extractFloatx80Exp a \<noteq> 0x7FFF" "extractFloatx80Exp b \<noteq> 0" "extractFloatx80Exp b \<noteq> 0x7FFF"
    using a b by (simp_all add: normal80_def)
  note unfolded = floatx80_mul_def Let_def z prod.case normal if_False if_True simp_thms top \<open>z0 \<noteq> 0\<close>
  show ?thesis
  proof (cases "P < 2 ^ 127")
    case True
    obtain y0 y1 where y: "shortShift128Left z0 z1 1 = (y0, y1)"
      by fastforce
    have "uint z0 < 2 ^ 63"
      using top True by (simp add: neg64_uint)
    then have "val128 (y0, y1) = A"
      using shift_left_1 [of z0 z1] y P True by (simp add: A_def)
    then show ?thesis
      using roundAndPack80_val [OF e, of y0 y1 A _ st] P126 True
      by (simp add: unfolded y A_def E_def e_def rounded_result_def)
  next
    case False
    then show ?thesis
      using roundAndPack80_val [OF e, of z0 z1 A _ st] P
      by (simp add: unfolded A_def E_def e_def rounded_result_def)
  qed
qed

definition default_status :: float_status where
  "default_status = \<lparr>float_rounding_mode = float_round_nearest_even, float_exception_flags = 0\<rparr>"

lemma floatx80_mul_rounded_witness:
  "floatx80_mul (int32_to_floatx80 3) (packFloatx80 True 0x3FFD 0xAAAAAAAAAAAAAAAB) default_status
    = rounded_result True 0x3FFF ((3 * 2 ^ 62) * 0xAAAAAAAAAAAAAAAB) (2 ^ 64) default_status"
proof -
  let ?a = "int32_to_floatx80 3" and ?b = "packFloatx80 True 0x3FFD 0xAAAAAAAAAAAAAAAB"
  have "normal80 ?a" "normal80 ?b" "exact_product ?a ?b = (0x3FFF, (3 * 2 ^ 62) * 0xAAAAAAAAAAAAAAAB)"
    "extractFloatx80Sign ?a \<noteq> extractFloatx80Sign ?b"
    by code_simp+
  then show ?thesis
    using floatx80_mul_rounded [of ?a ?b "0x3FFF" "(3 * 2 ^ 62) * 0xAAAAAAAAAAAAAAAB" default_status] by simp
qed

text \<open>
  C32. The quotient of two normal extended numbers, when its exponent is in range, is the exact quotient
  rounded in the current mode, inexact exactly when the division leaves a remainder: the digit estimates,
  their corrections and the remainder bit that is or-ed into the second word together decide every tie
  and every directed rounding correctly.
\<close>

theorem floatx80_div_rounded:
  assumes a: "normal80 a" and b: "normal80 b" and eA: "exact_quotient a b = (e, A)" and e: "0 < e" "e < 0x7FFE"
  shows "floatx80_div a b st = rounded_result (extractFloatx80Sign a \<noteq> extractFloatx80Sign b) e A (significand b) st"
proof -
  let ?x = "extractFloatx80Frac a" and ?y = "extractFloatx80Frac b"
  define E where "E = extractFloatx80Exp a - extractFloatx80Exp b + 0x3FFE"
  have eA: "(e, A) = (if ?y \<le> ?x then (E + 1, uint ?x * 2 ^ 63) else (E, uint ?x * 2 ^ 64))"
    using eA [symmetric] by (simp add: exact_quotient_def E_def significand_def word_le_def)
  have normal: "extractFloatx80Exp a \<noteq> 0" "extractFloatx80Exp a \<noteq> 0x7FFF" "extractFloatx80Exp b \<noteq> 0" "extractFloatx80Exp b \<noteq> 0x7FFF"
    using a b by (simp_all add: normal80_def)
  have y: "2 ^ 63 \<le> uint ?y" and x: "2 ^ 63 \<le> uint ?x"
    using normal_significand(1) a b by (simp_all add: significand_def)
  obtain a0 a1 where start: "(if ?y \<le> ?x then let (aSig, rem1) = shift128Right ?x 0 1 in (aSig, rem1, E + 1) else (?x, 0, E)) = (a0, a1, e)"
    and val: "val128 (a0, a1) = A" and less: "a0 < ?y"
  proof (cases "?y \<le> ?x")
    case True
    have "shift128Right ?x 0 1 = (drop_bit 1 ?x, push_bit 63 ?x)"
      by (simp add: shift128Right_def negCount_def del: drop_bit_of_1)
    moreover have "val128 (drop_bit 1 ?x, push_bit 63 ?x) = uint ?x * 2 ^ 63"
      by (rule val128_shift_right)
    moreover have "drop_bit 1 ?x < ?y"
      using y uint64_bounds [of ?x] by (simp add: word_less_def uint_drop_bit div_less_iff del: drop_bit_of_1)
    ultimately show thesis
      using that True eA by simp
  next
    case False
    then show thesis
      using that [of ?x 0] eA by (simp add: val128_def)
  qed
  obtain s where s: "div_significands a0 a1 ?y = (word_of_int (A div uint ?y), s)" "tail_of s (A mod uint ?y) (uint ?y)"
    using div_significands_correct [OF y less val [symmetric]] by blast
  have Q: "2 ^ 63 \<le> A div uint ?y" "A div uint ?y < 2 ^ 64"
    using eA x y uint64_bounds [of ?x] uint64_bounds [of ?y]
    by (auto simp: le_div_iff div_less_iff word_le_def split: if_splits)
  then have q: "uint (word_of_int (A div uint ?y) :: u64) = A div uint ?y"
    by (simp add: uint_word_of_int take_bit_eq_mod)
  have "roundAndPack80 sign e (word_of_int (A div uint ?y)) s st = rounded_result sign e A (uint ?y) st" for sign
    using roundAndPack80_rounded [OF e _ s(2), of "word_of_int (A div uint ?y)" sign st] y Q
    by (simp only: rounded_result_def neg64_uint q) simp
  then show ?thesis
    using start s(1) unfolding floatx80_div_def Let_def
    by (cases "?y \<le> ?x") (auto simp: normal roundAndPackFloatx80_def floatx80_rounding_precision_def
      significand_def E_def [symmetric] split: prod.splits)
qed

lemma floatx80_div_rounded_witness:
  "floatx80_div (int32_to_floatx80 2) (int32_to_floatx80 3) default_status
    = rounded_result False 0x3FFE (2 ^ 127) (3 * 2 ^ 62) default_status"
proof -
  let ?a = "int32_to_floatx80 2" and ?b = "int32_to_floatx80 3"
  have "normal80 ?a" "normal80 ?b" "exact_quotient ?a ?b = (0x3FFE, 2 ^ 127)"
    "extractFloatx80Sign ?a = extractFloatx80Sign ?b" "significand ?b = 3 * 2 ^ 62"
    by code_simp+
  then show ?thesis
    using floatx80_div_rounded [of ?a ?b "0x3FFE" "2 ^ 127" default_status] by simp
qed

subsection \<open>The loops of the division\<close>

text \<open>
  The estimate of a 128-bit dividend divided by a normalised divisor, computed with two 32-bit digits
  whose leading part alone is divided, is never below the quotient and exceeds it by two at most, so the
  loop that corrects it runs at most twice.
\<close>

theorem estimate_within_two:
  assumes "2 ^ 63 \<le> uint b" and "a0 < b"
  shows "val128 (a0, a1) div uint b \<le> uint (estimateDiv128To64 a0 a1 b)
    \<and> uint (estimateDiv128To64 a0 a1 b) \<le> val128 (a0, a1) div uint b + 2"
  by (intro conjI estimateDiv128To64_between assms)

lemma estimate_within_two_witness:
  "val128 (0x7FFFFFFFFFFFFFFE, 0xFFFFFFFFFFFFFFFF) div uint (0x80000000FFFFFFFF :: u64)
      \<le> uint (estimateDiv128To64 0x7FFFFFFFFFFFFFFE 0xFFFFFFFFFFFFFFFF 0x80000000FFFFFFFF)
    \<and> uint (estimateDiv128To64 0x7FFFFFFFFFFFFFFE 0xFFFFFFFFFFFFFFFF 0x80000000FFFFFFFF)
      \<le> val128 (0x7FFFFFFFFFFFFFFE, 0xFFFFFFFFFFFFFFFF) div uint (0x80000000FFFFFFFF :: u64) + 2"
  by (rule estimate_within_two) simp_all

text \<open>
  C33. The two loops a division runs stop: the one inside the estimate, which adds the divisor back until
  the partial remainder is not negative, and the one after it, which ends with the exact quotient and the
  exact remainder.  A loop that did not stop would have no value here.
\<close>

theorem division_loops_stop:
  assumes b: "2 ^ 63 \<le> uint b" and a: "a0 < b"
  shows "(\<exists>y. while_option (\<lambda>(z, rem0, rem1). neg64 rem0)
        (\<lambda>(z, rem0, rem1). (z - 0x100000000, add128 rem0 rem1 (drop_bit 32 b) (push_bit 32 b)))
        (first_digit a0 b, case mul64To128 b (first_digit a0 b) of (t0, t1) \<Rightarrow> sub128 a0 a1 t0 t1) = Some y)
    \<and> while_option (\<lambda>(z, rem0, rem1). neg64 rem0) (\<lambda>(z, rem0, rem1). (z - 1, add128 rem0 rem1 0 b))
        (estimateDiv128To64 a0 a1 b, case mul64To128 b (estimateDiv128To64 a0 a1 b) of (t0, t1) \<Rightarrow> sub128 a0 a1 t0 t1)
      = Some (word_of_int (val128 (a0, a1) div uint b), 0, word_of_int (val128 (a0, a1) mod uint b))"
  using estimate_run [OF b a refl] div_loop [OF b a estimateDiv128To64_between [OF b a]]
  unfolding negative_rem_def correct_def by blast

lemma division_loops_stop_witness:
  "\<exists>y. while_option (\<lambda>(z, rem0, rem1). neg64 rem0)
        (\<lambda>(z, rem0, rem1). (z - 0x100000000, add128 rem0 rem1 (drop_bit 32 0x80000000FFFFFFFF) (push_bit 32 0x80000000FFFFFFFF)))
        (first_digit 0x7FFFFFFFFFFFFFFE 0x80000000FFFFFFFF,
         case mul64To128 0x80000000FFFFFFFF (first_digit 0x7FFFFFFFFFFFFFFE 0x80000000FFFFFFFF) of (t0, t1) \<Rightarrow>
           sub128 0x7FFFFFFFFFFFFFFE 5 t0 t1) = Some y"
  by (rule division_loops_stop [of "0x80000000FFFFFFFF" "0x7FFFFFFFFFFFFFFE" 5, THEN conjunct1]) simp_all



section \<open>Conversions\<close>

text \<open>
  Leading zeros of a word, packing of the fields of an extended number and the round trip of integers.
\<close>

unbundle bit_operations_syntax

lemma scaled_word:
  fixes x :: "'a::len word"
  assumes "uint x * 2 ^ n < 2 ^ LENGTH('a)"
  shows "uint (push_bit n x) = uint x * 2 ^ n"
  using assms by (simp only: uint_push_bit) simp

lemma one_le_uint: "x \<noteq> 0 \<Longrightarrow> 1 \<le> uint x"
  using uint_ge_0 [of x] uint_0_iff [of x] by linarith

text \<open>The leading zeros of a word: that many doublings do not overflow.\<close>

lemma countLeadingZerosHigh_bound:
  assumes "uint y < 2 ^ 8"
  shows "0 \<le> countLeadingZerosHigh y \<and> countLeadingZerosHigh y \<le> 8 \<and> uint y * 2 ^ nat (countLeadingZerosHigh y) < 2 ^ 8
    \<and> (y \<noteq> 0 \<longrightarrow> countLeadingZerosHigh y \<le> 7 \<and> 2 ^ 7 \<le> uint y * 2 ^ nat (countLeadingZerosHigh y))"
  using assms one_le_uint [of y] unfolding countLeadingZerosHigh_def
  by (cases "y = 0") (auto simp add: word_less_def simp del: uint_0_iff)

lemma countLeadingZeros32_shifted:
  fixes x :: u32
  defines "s \<equiv> (if uint x < 2 ^ 16 then if uint x < 2 ^ 8 then 24 else 16 else if uint x < 2 ^ 24 then 8 else (0 :: int))"
  shows "countLeadingZeros32 x = s + countLeadingZerosHigh (drop_bit 24 (push_bit (nat s) x))"
    and "uint x * 2 ^ nat s < 2 ^ 32" and "0 \<le> s" and "x \<noteq> 0 \<Longrightarrow> 2 ^ 24 \<le> uint x * 2 ^ nat s"
proof -
  have 16: "uint (push_bit 16 x) = uint x * 2 ^ 16" if "uint x < 2 ^ 16"
    using that by (intro scaled_word) simp
  show "countLeadingZeros32 x = s + countLeadingZerosHigh (drop_bit 24 (push_bit (nat s) x))"
    using 16 by (auto simp: countLeadingZeros32_def s_def word_less_def Let_def)
  have "uint x < 2 ^ 32"
    using uint_bounded [of x] by simp
  then show "uint x * 2 ^ nat s < 2 ^ 32" "0 \<le> s"
    by (auto simp: s_def)
  show "2 ^ 24 \<le> uint x * 2 ^ nat s" if "x \<noteq> 0"
    using one_le_uint [OF that] by (auto simp: s_def)
qed

lemma countLeadingZeros32_bound:
  assumes "x \<noteq> 0"
  shows "0 \<le> countLeadingZeros32 x" "countLeadingZeros32 x \<le> 31"
    "2 ^ 31 \<le> uint x * 2 ^ nat (countLeadingZeros32 x)" "uint x * 2 ^ nat (countLeadingZeros32 x) < 2 ^ 32"
proof -
  define s where "s = (if uint x < 2 ^ 16 then if uint x < 2 ^ 8 then 24 else 16 else if uint x < 2 ^ 24 then 8 else (0 :: int))"
  define N where "N = uint x * 2 ^ nat s"
  define y where "y = drop_bit 24 (push_bit (nat s) x)"
  define k where "k = countLeadingZerosHigh y"
  have s: "countLeadingZeros32 x = s + k" "N < 2 ^ 32" "0 \<le> s" "2 ^ 24 \<le> N"
    unfolding N_def s_def y_def k_def
    using countLeadingZeros32_shifted [of x] assms by blast+
  have "uint (push_bit (nat s) x) = N"
    unfolding N_def using s(2) by (intro scaled_word) (simp add: N_def)
  then have y: "uint y = N div 2 ^ 24"
    by (simp only: y_def uint_drop_bit)
  have y8: "uint y < 2 ^ 8" "1 \<le> uint y"
    unfolding y using s(2,4) by (simp_all add: div_less_iff le_div_iff)
  then have "y \<noteq> 0"
    by auto
  then have k: "0 \<le> k" "k \<le> 7" "uint y * 2 ^ nat k < 2 ^ 8" "2 ^ 7 \<le> uint y * 2 ^ nat k"
    using countLeadingZerosHigh_bound [OF y8(1)] by (simp_all add: k_def)
  have "s \<le> 24"
    by (simp add: s_def)
  then show "0 \<le> countLeadingZeros32 x" "countLeadingZeros32 x \<le> 31"
    using s(1,3) k(1,2) by simp_all
  have split: "uint x * 2 ^ nat (countLeadingZeros32 x) = N * 2 ^ nat k"
    unfolding s(1) N_def using s(3) k(1) by (simp add: nat_add_distrib power_add)
  have lo: "uint y * 2 ^ 24 \<le> N" and hi: "N < (uint y + 1) * 2 ^ 24"
    using le_div_iff [of "2 ^ 24" "uint y" N] div_less_iff [of "2 ^ 24" N "uint y + 1"] y by simp_all
  have "2 ^ 7 * 2 ^ 24 \<le> uint y * 2 ^ nat k * 2 ^ 24"
    using k(4) by simp
  also have "\<dots> \<le> N * 2 ^ nat k"
    using mult_right_mono [OF lo, of "2 ^ nat k"] by (simp add: ac_simps)
  finally show "2 ^ 31 \<le> uint x * 2 ^ nat (countLeadingZeros32 x)"
    unfolding split by simp
  have "(uint y + 1) * 2 ^ nat k \<le> 2 ^ 8"
  proof -
    have "uint y * 2 ^ nat k < 2 ^ (8 - nat k) * 2 ^ nat k"
      using k by (simp add: power_add [symmetric])
    then have "uint y < 2 ^ (8 - nat k)"
      by simp
    then have "(uint y + 1) * 2 ^ nat k \<le> 2 ^ (8 - nat k) * 2 ^ nat k"
      by (intro mult_right_mono) simp_all
    then show ?thesis
      using k by (simp add: power_add [symmetric])
  qed
  then have "(uint y + 1) * 2 ^ nat k * 2 ^ 24 \<le> 2 ^ 32"
    by simp
  moreover have "N * 2 ^ nat k < (uint y + 1) * 2 ^ 24 * 2 ^ nat k"
    using hi by simp
  moreover have "(uint y + 1) * 2 ^ 24 * 2 ^ nat k = (uint y + 1) * 2 ^ nat k * 2 ^ 24"
    by (simp only: ac_simps)
  ultimately show "uint x * 2 ^ nat (countLeadingZeros32 x) < 2 ^ 32"
    unfolding split by linarith
qed

text \<open>Packing and unpacking a number that is not an infinity or a NaN.\<close>

lemma packed_fields:
  assumes "0 \<le> e" and "e < 2 ^ 15"
  shows "extractFloatx80Exp (packFloatx80 s e m) = e" "extractFloatx80Sign (packFloatx80 s e m) = s"
    "extractFloatx80Frac (packFloatx80 s e m) = m"
proof -
  let ?h = "fx_high (packFloatx80 s e m)"
  have h: "uint ?h = of_bool s * 2 ^ 15 + e"
    using assms by (simp add: packFloatx80_def uint_word_of_int uint_word_ariths mod_simps)
  have "?h AND 0x7FFF = take_bit 15 ?h"
    by (simp add: take_bit_eq_mask mask_eq_exp_minus_1)
  then have "uint (?h AND 0x7FFF) = uint ?h mod 2 ^ 15"
    by (metis unsigned_take_bit_eq take_bit_eq_mod)
  then show "extractFloatx80Exp (packFloatx80 s e m) = e"
    using h assms by (simp add: extractFloatx80Exp_def)
  have "bit ?h 15 \<longleftrightarrow> odd (uint ?h div 2 ^ 15)"
    by (simp only: bit_iff_odd [symmetric] bit_uint_iff) simp
  then show "extractFloatx80Sign (packFloatx80 s e m) = s"
    using h assms by (simp add: extractFloatx80Sign_def)
qed (simp add: extractFloatx80Frac_def packFloatx80_def)

lemma uint_widened: "uint (ucast x :: u64) = uint x" for x :: u32
  by (simp add: unsigned_ucast_eq take_bit_int_eq_self_iff uint_bounded order_less_trans [OF uint_bounded])

lemma roundAndPackInt32_exact:
  assumes x: "uint x \<le> 2 ^ 31" and s: "s \<longleftrightarrow> bit z 31" and z: "z = (if s then - x else x)"
  shows "roundAndPackInt32 s (push_bit 7 (ucast x)) st = (z, st)"
proof -
  let ?w = "push_bit 7 (ucast x) :: u64" and ?i = "round_increment s 0x40 0x7F st :: u64"
  have w: "uint ?w = uint x * 2 ^ 7"
    using x by (subst scaled_word) (simp_all add: uint_widened)
  have bits: "?w AND 0x7F = 0"
  proof -
    have "(0x7F :: u64) = mask 7"
      by (simp add: mask_eq_exp_minus_1)
    then show ?thesis
      by (intro bit_word_eqI) (simp only: bit_simps, auto simp: bit_simps)
  qed
  have i: "uint ?i < 2 ^ 7"
    by (simp add: round_increment_def Let_def)
  have "uint (?w + ?i) = uint x * 2 ^ 7 + uint ?i"
    using x i w by (simp add: uint_plus_if_size word_size)
  then have "uint (drop_bit 7 (?w + ?i)) = uint x"
    using i by (simp add: uint_drop_bit)
  then have sum: "drop_bit 7 (?w + ?i) = ucast x"
    by (simp add: word_uint_eq_iff uint_widened)
  have "drop_bit 32 (ucast x :: u64) = 0"
    by (intro bit_word_eqI) (auto simp: bit_simps dest: bit_imp_le_length)
  moreover have "(ucast (ucast x :: u64) :: u32) = x"
    by (intro bit_word_eqI) (auto simp: bit_simps)
  ultimately show ?thesis
    by (simp add: roundAndPackInt32_def Let_def bits sum raise_if_def z [symmetric] s [symmetric] cong: if_cong split del: if_split)
qed

lemma shift_back:
  assumes x: "uint x * 2 ^ n < 2 ^ 64" and k: "k \<le> n" "0 < k" "n < 64"
  shows "shift64RightJamming (push_bit n x) (int k) = push_bit (n - k) x"
proof -
  have neg: "negCount (int k) = 64 - k"
    using k unfolding negCount_def
    by (subst mod_unique_int [where k = "- 1" and r = "64 - int k"]) (simp_all add: nat_diff_distrib)
  have "push_bit (64 - k) (push_bit n x) = push_bit (64 - k + n) x"
    by (rule push_bit_push_bit)
  also have "\<dots> = 0"
    using k by (intro bit_word_eqI) (simp add: bit_simps)
  finally have lost: "push_bit (64 - k) (push_bit n x) = 0" .
  have n: "uint x * 2 ^ n = uint x * 2 ^ (n - k) * 2 ^ k"
    using k by (simp add: power_add [symmetric])
  have "uint x * 2 ^ (n - k) \<le> uint x * 2 ^ n"
    by (intro mult_left_mono power_increasing) simp_all
  then have "uint (push_bit (n - k) x) = uint x * 2 ^ (n - k)"
    using x by (intro scaled_word) simp
  also have "\<dots> = uint (drop_bit k (push_bit n x))"
    using scaled_word [of x n] x n by (simp add: uint_drop_bit)
  finally show ?thesis
    using k by (simp add: shift64RightJamming_def neg lost word_uint_eq_iff)
qed

lemma top_bit32: "bit a 31 \<longleftrightarrow> 2 ^ 31 \<le> uint a" for a :: u32
proof -
  have "bit a 31 \<longleftrightarrow> odd (uint a div 2 ^ 31)"
    by (simp only: bit_iff_odd [symmetric] bit_uint_iff) simp
  moreover have "uint a div 2 ^ 31 = of_bool (2 ^ 31 \<le> uint a)"
  proof (cases "2 ^ 31 \<le> uint a")
    case True
    have "uint a div 2 ^ 31 = 1"
      using True uint_bounded [of a] by (intro div_pos_geq [THEN trans]) simp_all
    then show ?thesis
      using True by simp
  qed simp
  ultimately show ?thesis
    by simp
qed

lemma magnitude32: "uint (if bit a 31 then - a else a) \<le> 2 ^ 31" for a :: u32
  using uint_sub_if_size [of 0 a] uint_bounded [of a] by (auto simp: top_bit32 word_size)

text \<open>
  A 32-bit integer, converted to extended precision and back, is itself and raises no flag, whatever
  the rounding mode: the smallest integer and zero included.
\<close>

theorem int32_round_trip: "floatx80_to_int32 (int32_to_floatx80 a) st = (a, st)"
proof (cases "a = 0")
  case True
  show ?thesis
    unfolding True by (simp add: int32_to_floatx80_def floatx80_to_int32_def packed_fields shift64RightJamming_def
      roundAndPackInt32_exact [of 0 False 0, simplified])
next
  case False
  define s where "s = bit a 31"
  define x where "x = (if s then - a else a)"
  define n where "n = nat (countLeadingZeros32 x + 32)"
  have "x \<noteq> 0"
    using False by (simp add: x_def)
  then have n: "int n = countLeadingZeros32 x + 32" "32 \<le> n" "n \<le> 63" "uint (ucast x :: u64) * 2 ^ n < 2 ^ 64"
    using countLeadingZeros32_bound [OF \<open>x \<noteq> 0\<close>] by (simp_all add: n_def uint_widened nat_add_distrib power_add)
  have "int32_to_floatx80 a = packFloatx80 s (0x403E - (countLeadingZeros32 x + 32)) (push_bit n (ucast x))"
    using False by (simp add: int32_to_floatx80_def s_def [symmetric] x_def [symmetric] n_def [symmetric] Let_def)
  then have packed: "int32_to_floatx80 a = packFloatx80 s (0x403E - int n) (push_bit n (ucast x))"
    by (simp only: n(1))
  have "uint x \<le> 2 ^ 31"
    unfolding x_def s_def by (rule magnitude32)
  then have "roundAndPackInt32 s (push_bit 7 (ucast x)) st = (a, st)"
    by (rule roundAndPackInt32_exact) (simp_all add: s_def x_def)
  moreover have "shift64RightJamming (push_bit n (ucast x)) (int n - 7) = push_bit 7 (ucast x)"
    using shift_back [OF n(4), of "n - 7"] n(2,3) by simp
  ultimately show ?thesis
    using n(2,3) by (simp add: floatx80_to_int32_def packed packed_fields Let_def)
qed

end
