(* ===== verification/TrapLaws.thy ===== *)
theory TrapLaws
  imports OpsBranch OpsRegister OpsTrap Samples RegisterLaws
begin

section \<open>Calls, frames and returns on the Macintosh Plus\<close>

text \<open>
  JSR, BSR and RTS, LINK and UNLK, TRAP and RTE on the memory bus of the Macintosh Plus.  The facts
  about single accesses come from the memory contract through the interpretation \<open>mac\<close>.
\<close>

unbundle bit_operations_syntax

subsection \<open>Room on the stack\<close>

text \<open>
  The processor is connected to the machine without translation, and the \<open>k\<close> bytes from \<open>a\<close> on are
  in RAM, at addresses the processor does not change and, where it matters, even.
\<close>

definition reaches :: "'d device_buses \<Rightarrow> u32 \<Rightarrow> nat \<Rightarrow> 'd mac_plus machine \<Rightarrow> bool" where
  "reaches dev a k s \<longleftrightarrow> plain (macplus_bus dev) s \<and> a AND 1 = 0 \<and>
     (\<forall>i<k. mac_ram (bus_state s) (a + of_nat i) \<and> ADDRESS_68K s (a + of_nat i) = a + of_nat i)"

lemma even_offset: "a AND 1 = 0 \<Longrightarrow> b AND 1 = 0 \<Longrightarrow> (a + b) AND 1 = (0 :: u32)"
  by (simp add: and_one_eq mod_2_eq_odd)

lemma reaches_16:
  assumes "reaches dev a k s" "of_nat i = b" "i + 2 \<le> k" "b AND 1 = 0"
  shows "plain (macplus_bus dev) s" "may_access s (a + b)" "ram16 (mac_ram (bus_state s)) (a + b)"
proof -
  show "plain (macplus_bus dev) s" using assms(1) by (simp add: reaches_def)
  have i: "mac_ram (bus_state s) (a + of_nat j) \<and> ADDRESS_68K s (a + of_nat j) = a + of_nat j"
    if "j < k" for j using assms(1) that by (simp add: reaches_def)
  show "may_access s (a + b)"
    using i [of i] assms even_offset [of a b] by (simp add: may_access_def reaches_def)
  show "ram16 (mac_ram (bus_state s)) (a + b)"
    using i [of i] i [of "Suc i"] assms(2,3) by (auto simp: ram16_def add_ac)
qed

lemma reaches_32:
  assumes "reaches dev a k s" "of_nat i = b" "i + 4 \<le> k" "b AND 1 = 0"
  shows "plain (macplus_bus dev) s" "may_access s (a + b)" "ram32 (mac_ram (bus_state s)) (a + b)"
proof -
  show "plain (macplus_bus dev) s" "may_access s (a + b)"
    using reaches_16 [OF assms(1,2) _ assms(4)] assms(3) by simp_all
  have "(b + 2) AND 1 = 0" using even_offset [of b 2] assms(4) by simp
  then have "ram16 (mac_ram (bus_state s)) (a + (b + 2))"
    using assms by (intro reaches_16(3) [of dev a k s "i + 2"]) auto
  then show "ram32 (mac_ram (bus_state s)) (a + b)"
    using reaches_16(3) [OF assms(1,2) _ assms(4)] assms(3) by (simp add: ram32_def add_ac)
qed

lemma reaches_cong:
  assumes "activeBus t = activeBus s" "has_pmmu t = has_pmmu s" "address_mask t = address_mask s"
    and "mac_ram (bus_state t) = mac_ram (bus_state s)"
  shows "reaches dev a k t = reaches dev a k s"
  using assms by (simp add: reaches_def plain_def ADDRESS_68K_def)

lemma ram_readable:
  "ram16 (mac_ram b) a \<Longrightarrow> ram16 (mac_readable b) a" "ram32 (mac_ram b) a \<Longrightarrow> ram32 (mac_readable b) a"
  by (simp_all add: ram16_def ram32_def mac_readable_def)

text \<open>\<open>t\<close> has the RAM and ROM of \<open>s\<close> with the bytes \<open>f\<close> in it.\<close>

definition memory_is :: "'d mac_plus machine \<Rightarrow> (u32 \<Rightarrow> u8) \<Rightarrow> 'd mac_plus machine \<Rightarrow> bool" where
  "memory_is s f t \<longleftrightarrow> holding mac_readable mac_ram mac_bytes (bus_state s) f (bus_state t)"

subsection \<open>Subroutines\<close>

lemma push_pc:
  assumes "reaches dev (dar s 15 - 4) 4 s"
  obtains t where "m68ki_push_32 v s = Ret () t" "pc t = pc s" "dar t = (dar s)(15 := dar s 15 - 4)"
    "memory_is s (put32 (dar s 15 - 4) v (mac_bytes (bus_state s))) t" "activeBus t = activeBus s"
    "has_pmmu t = has_pmmu s" "address_mask t = address_mask s" "ir t = ir s"
proof -
  have r: "plain (macplus_bus dev) s" "may_access s (dar s 15 - 4)"
      "ram32 (mac_ram (bus_state s)) (dar s 15 - 4)"
    using reaches_32 [OF assms, of 0 0] by simp_all
  obtain b' where e: "m68ki_push_32 v s = Ret () (s\<lparr>dar := (dar s)(15 := dar s 15 - 4),
      activeFunctionCode := s_flag s OR FUNCTION_CODE_USER_DATA, bus_state := b'\<rparr>)"
    and h: "holding mac_readable mac_ram mac_bytes (bus_state s) (put32 (dar s 15 - 4) v (mac_bytes (bus_state s))) b'"
    by (rule mac.push_32 [OF r(1,2) holding_refl r(3)])
  show thesis by (rule that [OF e]) (use h in \<open>simp_all add: memory_is_def\<close>)
qed

lemma pull_return:
  assumes "reaches dev a 4 u" "dar u 15 = a"
  obtains v where "m68ki_pull_32 u = Ret (be32 (mac_bytes (bus_state u)) a) v"
    "dar v = (dar u)(15 := a + 4)" "memory_is u (mac_bytes (bus_state u)) v" "ir v = ir u"
proof -
  have r: "plain (macplus_bus dev) u" "may_access u (dar u 15)" "ram32 (mac_ram (bus_state u)) (dar u 15)"
    using reaches_32 [OF assms(1), of 0 0] assms(2) by simp_all
  obtain b' where e: "m68ki_pull_32 u = Ret (be32 (mac_bytes (bus_state u)) (dar u 15))
      (u\<lparr>dar := (dar u)(15 := dar u 15 + 4),
         activeFunctionCode := s_flag u OR address_space u, bus_state := b'\<rparr>)"
    and h: "holding mac_readable mac_ram mac_bytes (bus_state u) (mac_bytes (bus_state u)) b'"
    by (rule mac.pull_32 [OF r(1,2) holding_refl ram_readable(2) [OF r(3)]])
  show thesis by (rule that [OF e [unfolded assms(2)]]) (use h in \<open>simp_all add: memory_is_def assms(2)\<close>)
qed

text \<open>
  What a subroutine must keep: its stack pointer at the return address, and the four bytes there.
\<close>

definition may_return ::
    "'d device_buses \<Rightarrow> 'd mac_plus machine \<Rightarrow> 'd mac_plus machine \<Rightarrow> bool" where
  "may_return dev t u \<longleftrightarrow> dar u 15 = dar t 15 \<and> reaches dev (dar t 15) 4 u \<and>
     be32 (mac_bytes (bus_state u)) (dar t 15) = be32 (mac_bytes (bus_state t)) (dar t 15)"

definition calls ::
    "'d device_buses \<Rightarrow> 'd mac_plus op \<Rightarrow> u32 \<Rightarrow> 'd mac_plus machine \<Rightarrow> 'd mac_plus machine \<Rightarrow> bool" where
  "calls dev op target s s' \<longleftrightarrow>
    (\<exists>t. op s = Ret () t \<and> pc t = target \<and> dar t = (dar s')(15 := dar s' 15 - 4) \<and>
       memory_is s' (put32 (dar s' 15 - 4) (pc s') (mac_bytes (bus_state s'))) t \<and> may_return dev t t \<and>
       (\<forall>u. may_return dev t u \<longrightarrow>
          (\<exists>v. m68k_op_rts_32 u = Ret () v \<and> pc v = pc s' \<and> dar v = (dar u)(15 := dar s' 15) \<and>
             memory_is u (mac_bytes (bus_state u)) v)))"

lemma calls_push:
  assumes r: "reaches dev (dar s' 15 - 4) 4 s'"
    and op: "op s = chain (m68ki_push_32 (pc s') s') (\<lambda>_ s. Ret () (s\<lparr>pc := target s\<rparr>))"
    and target: "\<And>t. pc t = pc s' \<Longrightarrow> ir t = ir s' \<Longrightarrow> target t = target s'"
  shows "calls dev op (target s') s s'"
proof -
  let ?a = "dar s' 15 - 4"
  obtain t where t: "m68ki_push_32 (pc s') s' = Ret () t" "pc t = pc s'"
    "dar t = (dar s')(15 := ?a)" "memory_is s' (put32 ?a (pc s') (mac_bytes (bus_state s'))) t"
    "activeBus t = activeBus s'" "has_pmmu t = has_pmmu s'" "address_mask t = address_mask s'" "ir t = ir s'"
    by (rule push_pc [OF r])
  let ?t = "t\<lparr>pc := target t\<rparr>"
  have ram: "mac_ram (bus_state t) = mac_ram (bus_state s')"
    using t(4) by (simp add: memory_is_def holding_def)
  have at_slot: "be32 (mac_bytes (bus_state t)) ?a = pc s'"
    using holding_be(3) [OF t(4) [unfolded memory_is_def]] ram_readable(2) [OF reaches_32(3) [OF r, of 0 0]]
    by simp
  have here: "may_return dev ?t ?t"
    using r reaches_cong [of ?t s'] t ram by (simp add: may_return_def)
  have returns: "\<exists>v. m68k_op_rts_32 u = Ret () v \<and> pc v = pc s' \<and> dar v = (dar u)(15 := dar s' 15) \<and>
      memory_is u (mac_bytes (bus_state u)) v" if u: "may_return dev ?t u" for u
  proof -
    have a: "dar u 15 = ?a" "reaches dev ?a 4 u" "be32 (mac_bytes (bus_state u)) ?a = pc s'"
      using u t(3) at_slot by (simp_all add: may_return_def)
    obtain v where "m68ki_pull_32 u = Ret (be32 (mac_bytes (bus_state u)) ?a) v"
      "dar v = (dar u)(15 := ?a + 4)" "memory_is u (mac_bytes (bus_state u)) v"
      by (rule pull_return [OF a(2,1)])
    then show ?thesis using a(3) by (simp add: m68k_op_rts_32_def m68ki_jump_def memory_is_def)
  qed
  show ?thesis
    unfolding calls_def
    using t here returns target [OF t(2) t(8)] by (intro exI [of _ ?t]) (simp add: op memory_is_def)
qed

text \<open>
  C7. Every JSR handler, once its effective address is known, and BSR with a byte offset store the
  return address in the four bytes below the stack pointer and change no other RAM; and whenever a
  later state has the stack pointer and these four bytes as they were on entry, whatever else the
  subroutine did, RTS goes on after the call with the stack pointer from before it.
\<close>

theorem calls_return:
  assumes "reaches dev (dar s' 15 - 4) 4 s'"
  shows "(\<forall>(jsr, EA) \<in> set [(m68k_op_jsr_32_ai, EA_AY_AI_32), (m68k_op_jsr_32_di, EA_AY_DI_32),
      (m68k_op_jsr_32_ix, EA_AY_IX_32), (m68k_op_jsr_32_aw, EA_AW_32), (m68k_op_jsr_32_al, EA_AL_32),
      (m68k_op_jsr_32_pcdi, EA_PCDI_32), (m68k_op_jsr_32_pcix, EA_PCIX_32)].
      EA s = Ret ea s' \<longrightarrow> calls dev jsr ea s s') \<and>
    calls dev m68k_op_bsr_8 (pc s' + MAKE_INT_8 (MASK_OUT_ABOVE_8 (ir s'))) s' s'"
proof -
  have "calls dev jsr ea s s'"
    if "jsr s = chain (m68ki_push_32 (pc s') s') (\<lambda>_ s. Ret () (m68ki_jump ea s))" for jsr
    using calls_push [OF assms, of jsr s "\<lambda>_. ea"] that by (simp add: m68ki_jump_def)
  note jsr = this
  have bsr: "calls dev m68k_op_bsr_8 (pc s' + MAKE_INT_8 (MASK_OUT_ABOVE_8 (ir s'))) s' s'"
    by (rule calls_push [OF assms, of m68k_op_bsr_8 s' "\<lambda>t. pc t + MAKE_INT_8 (MASK_OUT_ABOVE_8 (ir t))"])
      (simp_all add: m68k_op_bsr_8_def m68ki_branch_8_def)
  show ?thesis
    by (simp add: jsr bsr m68k_op_jsr_32_ai_def m68k_op_jsr_32_di_def m68k_op_jsr_32_ix_def
        m68k_op_jsr_32_aw_def m68k_op_jsr_32_al_def m68k_op_jsr_32_pcdi_def m68k_op_jsr_32_pcix_def)
qed

text \<open>A 68000 in the Macintosh Plus, with a stack.\<close>

definition sample_plus :: "unit mac_plus machine" where
  "sample_plus = (zero_machine (macplus_bus no_devices) sample_mac)
     \<lparr>cpu_type := CPU_TYPE_000, address_mask := 0x00ffffff, sr_mask := 0xa71f, s_flag := 4,
      dar := (\<lambda>_. 0x1000), pc := 0x2000\<rparr>"

lemma sample_plus_fields [simp]:
  "cpu_type sample_plus = CPU_TYPE_000" "address_mask sample_plus = 0x00ffffff"
  "sr_mask sample_plus = 0xa71f" "s_flag sample_plus = 4" "m_flag sample_plus = 0"
  "dar sample_plus = (\<lambda>_. 0x1000)" "pc sample_plus = 0x2000" "ir sample_plus = 0" "vbr sample_plus = 0"
  "activeBus sample_plus = Some (macplus_bus no_devices)" "has_pmmu sample_plus = 0"
  "bus_state sample_plus = sample_mac" "t1_flag sample_plus = 0" "t0_flag sample_plus = 0"
  "int_mask sample_plus = 0" "x_flag sample_plus = 0" "n_flag sample_plus = 0"
  "not_z_flag sample_plus = 0" "v_flag sample_plus = 0" "c_flag sample_plus = 0"
  by (simp_all add: sample_plus_def zero_machine_def)

lemma all_less_4: "(\<forall>i<4. P (i :: nat)) \<longleftrightarrow> P 0 \<and> P 1 \<and> P 2 \<and> P 3"
  and all_less_6: "(\<forall>i<6. P (i :: nat)) \<longleftrightarrow> P 0 \<and> P 1 \<and> P 2 \<and> P 3 \<and> P 4 \<and> P 5"
  by (simp_all add: numeral_eq_Suc all_less_Suc_conj conj_ac)

lemma sample_mac_ram: "mac_ram sample_mac a \<longleftrightarrow> a < 0x100000"
  by (simp add: mac_ram_def sample_mac_def ram_start_def ram_window_def ramBase_def word_less_nat_alt)

lemma calls_return_witness:
  "calls no_devices m68k_op_jsr_32_ai 0x1000 sample_plus sample_plus"
proof -
  have "reaches no_devices (dar sample_plus 15 - 4) 4 sample_plus"
    by (simp add: reaches_def all_less_4 plain_def ADDRESS_68K_def sample_mac_ram)
  from calls_return [OF this, of sample_plus "0x1000"] show ?thesis
    by (simp add: EA_AY_AI_32_def AY_def REG_A_def)
qed



section \<open>TRAP and RTE on the 68000\<close>

text \<open>
  TRAP on a 68000 in the Macintosh Plus enters its handler through the vector in memory with the
  return address and the status register on the supervisor stack, and RTE undoes it.
\<close>

unbundle bit_operations_syntax

subsection \<open>Entering the exception\<close>

lemma init_exception_000:
  assumes "wf_mode s" "m_flag s = 0"
  shows "m68ki_init_exception s = (m68ki_get_sr s, s\<lparr>t1_flag := 0, t0_flag := 0, s_flag := 4,
    sp := (sp s)(sp_bank s := dar s 15), dar := (dar s)(15 := isp_of s)\<rparr>)"
proof -
  have "s_flag s = 0 \<or> s_flag s = 4" using assms(1) by (auto simp: wf_mode_def)
  then show ?thesis
    using assms(2) sp_bank_cases [OF assms(1)]
    by (auto simp: m68ki_init_exception_def m68ki_set_s_flag_def Let_def flag_values register_defs
        isp_of_def sp_bank_def)
qed

text \<open>The three words of the frame, below the address \<open>a\<close>.\<close>

definition frame_bytes :: "u32 \<Rightarrow> u32 \<Rightarrow> u32 \<Rightarrow> (u32 \<Rightarrow> u8) \<Rightarrow> u32 \<Rightarrow> u8" where
  "frame_bytes a v sr f = put16 (a - 6) (ucast sr) (put32 (a - 4) v f)"

lemma frame_read:
  "be16 (frame_bytes a v sr f) (a - 6) = ucast sr" "be32 (frame_bytes a v sr f) (a - 4) = v"
proof -
  have "apart (a + (- 4)) 4 (a + (- 6)) 2"
    unfolding apart_offsets by (simp add: apart_def ball_2 ball_4)
  then show "be32 (frame_bytes a v sr f) (a - 4) = v"
    by (simp add: frame_bytes_def be_put_apart)
  show "be16 (frame_bytes a v sr f) (a - 6) = ucast sr" by (simp add: frame_bytes_def)
qed

lemma frame_apart: "apart x 4 (a - 6) 6 \<Longrightarrow> be32 (frame_bytes a v sr f) x = be32 f x"
proof -
  assume x: "apart x 4 (a - 6) 6"
  have "x + of_nat i \<noteq> (a - 4) + of_nat j" if "i < 4" "j < 4" for i j
    using apartD [OF x that(1), of "j + 2"] that(2) by (simp add: algebra_simps)
  then have "apart x 4 (a - 4) 4" by (simp add: apart_def)
  moreover have "apart x 4 (a - 6) 2" using x by (auto simp: apart_def)
  ultimately show ?thesis by (simp add: frame_bytes_def be_put_apart)
qed

lemma push_frame:
  assumes "reaches dev (dar s 15 - 6) 6 s" "cpu_type s = CPU_TYPE_000"
  obtains b' where "m68ki_stack_frame_0000 v sr vec s = Ret () (s\<lparr>dar := (dar s)(15 := dar s 15 - 6),
      activeFunctionCode := s_flag s OR FUNCTION_CODE_USER_DATA, bus_state := b'\<rparr>)"
    and "holding mac_readable mac_ram mac_bytes (bus_state s) (frame_bytes (dar s 15) v sr (mac_bytes (bus_state s))) b'"
proof -
  have r: "plain (macplus_bus dev) s" "may_access s (dar s 15 - 4)"
      "ram32 (mac_ram (bus_state s)) (dar s 15 - 4)"
    using reaches_32 [OF assms(1), of 2 2] by simp_all
  obtain b1 where e1: "m68ki_push_32 v s = Ret () (s\<lparr>dar := (dar s)(15 := dar s 15 - 4),
      activeFunctionCode := s_flag s OR FUNCTION_CODE_USER_DATA, bus_state := b1\<rparr>)" (is "_ = Ret () ?t")
    and h1: "holding mac_readable mac_ram mac_bytes (bus_state s) (put32 (dar s 15 - 4) v (mac_bytes (bus_state s))) b1"
    by (rule mac.push_32 [OF r(1,2) holding_refl r(3)])
  have "plain (macplus_bus dev) ?t" "may_access ?t (dar ?t 15 - 2)"
      "ram16 (mac_ram (bus_state s)) (dar ?t 15 - 2)"
    using reaches_16 [OF assms(1), of 0 0] by (simp_all add: plain_def may_access_def ADDRESS_68K_def)
  then obtain b2 where "m68ki_push_16 sr ?t = Ret () (?t\<lparr>dar := (dar ?t)(15 := dar ?t 15 - 2),
      activeFunctionCode := s_flag ?t OR FUNCTION_CODE_USER_DATA, bus_state := b2\<rparr>)"
    and "holding mac_readable mac_ram mac_bytes (bus_state s) (put16 (dar ?t 15 - 2) (ucast sr) (put32 (dar s 15 - 4) v (mac_bytes (bus_state s)))) b2"
    using mac.push_16 [of dev ?t "bus_state s", OF _ _ _] h1 by simp metis
  then show thesis
    using e1 assms(2)
    by (intro that [of b2]) (simp_all add: m68ki_stack_frame_0000_def m68ki_stack_frame_3word_def frame_bytes_def)
qed

lemma trap_enters:
  assumes s: "wf_mode s" "m_flag s = 0" "cpu_type s = CPU_TYPE_000"
    and stack: "reaches dev (isp_of s - 6) 6 s"
    and vector: "may_access s (push_bit 2 vec + vbr s)"
      "ram32 (mac_readable (bus_state s)) (push_bit 2 vec + vbr s)"
      "apart (push_bit 2 vec + vbr s) 4 (isp_of s - 6) 6"
  obtains t where "m68ki_exception_trapN vec s = Ret () t"
    "pc t = be32 (mac_bytes (bus_state s)) (push_bit 2 vec + vbr s)"
    "s_flag t = 4" "m_flag t = 0" "t1_flag t = 0" "dar t = (dar s)(15 := isp_of s - 6)"
    "usp_of t = usp_of s"
    "memory_is s (frame_bytes (isp_of s) (pc s) (m68ki_get_sr s) (mac_bytes (bus_state s))) t"
    "cpu_type t = CPU_TYPE_000" "sr_mask t = sr_mask s" "activeBus t = activeBus s"
    "has_pmmu t = has_pmmu s" "address_mask t = address_mask s"
proof -
  let ?f = "frame_bytes (isp_of s) (pc s) (m68ki_get_sr s) (mac_bytes (bus_state s))"
  define s1 where "s1 = s\<lparr>t1_flag := 0, t0_flag := 0, s_flag := 4,
    sp := (sp s)(sp_bank s := dar s 15), dar := (dar s)(15 := isp_of s)\<rparr>"
  have s1: "dar s1 15 = isp_of s" "cpu_type s1 = CPU_TYPE_000" "bus_state s1 = bus_state s" "vbr s1 = vbr s"
      "pc s1 = pc s"
    using s(3) by (simp_all add: s1_def)
  have "reaches dev (dar s1 15 - 6) 6 s1"
    unfolding s1(1) using stack by (rule reaches_cong [THEN iffD2, rotated 4]) (simp_all add: s1_def)
  then obtain b1 where e1: "m68ki_stack_frame_0000 (pc s1) (m68ki_get_sr s) vec s1 =
      Ret () (s1\<lparr>dar := (dar s1)(15 := dar s1 15 - 6),
        activeFunctionCode := s_flag s1 OR FUNCTION_CODE_USER_DATA, bus_state := b1\<rparr>)" (is "_ = Ret () ?s2")
    and h1: "holding mac_readable mac_ram mac_bytes (bus_state s1)
      (frame_bytes (dar s1 15) (pc s1) (m68ki_get_sr s) (mac_bytes (bus_state s1))) b1"
    by (rule push_frame [OF _ s1(2)])
  have "plain (macplus_bus dev) s" using stack by (simp add: reaches_def)
  then have "plain (macplus_bus dev) ?s2" by (simp add: plain_def s1_def)
  moreover have "may_access ?s2 (push_bit 2 vec + vbr ?s2)"
    using vector(1) by (simp add: may_access_def ADDRESS_68K_def s1_def)
  moreover have "holding mac_readable mac_ram mac_bytes (bus_state s) ?f (bus_state ?s2)"
    using h1 by (simp add: s1)
  moreover have "ram32 (mac_readable (bus_state s)) (push_bit 2 vec + vbr ?s2)"
    using vector(2) by (simp add: s1)
  ultimately obtain b2 where e2: "m68ki_jump_vector vec ?s2 = Ret ()
      (?s2\<lparr>activeFunctionCode := s_flag ?s2 OR FUNCTION_CODE_USER_DATA,
      bus_state := b2, pc := be32 ?f (push_bit 2 vec + vbr ?s2)\<rparr>)" (is "_ = Ret () ?s3")
    and h2: "holding mac_readable mac_ram mac_bytes (bus_state s) ?f b2"
    by (rule mac.jump_vector)
  have "m68ki_exception_trapN vec s = Ret () (use_exception_cycles vec ?s3)"
    using e1 e2 unfolding s1_def
    by (simp add: m68ki_exception_trapN_def init_exception_000 [OF s(1,2)])
  moreover have "usp_of (use_exception_cycles vec ?s3) = usp_of s"
    using s sp_bank_cases [OF s(1)]
    by (auto simp: use_exception_cycles_def USE_CYCLES_def usp_of_def s1_def wf_mode_def)
  ultimately show thesis
    using h2 s(2,3) frame_apart [OF vector(3)]
    by (intro that [of "use_exception_cycles vec ?s3"])
      (simp_all add: use_exception_cycles_def USE_CYCLES_def s1_def memory_is_def)
qed

subsection \<open>Leaving it\<close>

lemma sr_word: "sr AND 0xf71f = sr \<Longrightarrow> ucast (ucast sr :: u16) = sr" for sr :: u32
proof -
  assume sr: "sr AND 0xf71f = sr"
  have "ucast (ucast sr :: u16) = sr AND 0xffff" by (simp add: word32_eq bit_simps)
  also have "\<dots> = sr AND (0xf71f AND 0xffff)" using sr by (metis and.assoc)
  also have "\<dots> = sr" using sr by simp
  finally show ?thesis .
qed

lemma set_sr_no_interrupt:
  assumes "nmi_pending s = 0" "int_level s \<le> v AND sr_mask s AND 0x0700"
  shows "m68ki_set_sr v s = Ret () (m68ki_set_sr_noint v s)"
proof -
  have "nmi_pending (m68ki_set_sr_noint v s) = nmi_pending s"
    "int_level (m68ki_set_sr_noint v s) = int_level s"
    "int_mask (m68ki_set_sr_noint v s) = v AND sr_mask s AND 0x0700"
    by (simp_all add: m68ki_set_sr_noint_def m68ki_set_sm_flag_def m68ki_set_ccr_def set_REG_SP_def
        Let_def and.assoc)
  with assms show ?thesis
    by (simp add: m68ki_set_sr_def m68ki_check_interrupts_def leD)
qed

lemma rte_leaves:
  assumes u: "cpu_type u = CPU_TYPE_000" "wf_mode u" "s_flag u = 4" "m_flag u = 0" "sr_mask_ok u"
    and stack: "reaches dev (dar u 15) 6 u"
    and quiet: "nmi_pending u = 0" "int_level u \<le> sr AND sr_mask u AND 0x0700"
    and frame: "be16 (mac_bytes (bus_state u)) (dar u 15) = ucast sr"
      "be32 (mac_bytes (bus_state u)) (dar u 15 + 2) = v" "sr AND sr_mask u = sr"
  obtains w where "m68k_op_rte_32 u = Ret () w" "pc w = v" "m68ki_get_sr w = sr" "wf_mode w"
    "usp_of w = usp_of u" "isp_of w = dar u 15 + 6" "run_mode w = RUN_MODE_NORMAL"
proof -
  have "sr AND 0xf71f = sr"
    using u(5) frame(3) by (metis sr_mask_ok_def and.assoc)
  then have sr: "ucast (ucast sr :: u16) = sr" by (rule sr_word)
  let ?b = "bus_state u" and ?m = "mac_bytes (bus_state u)"
  have r: "plain (macplus_bus dev) u" "may_access u (dar u 15)" "ram16 (mac_readable ?b) (dar u 15)"
    using reaches_16 [OF stack, of 0 0] ram_readable by simp_all
  obtain b1 where e1: "m68ki_pull_16 u = Ret (ucast (be16 ?m (dar u 15)))
      (u\<lparr>dar := (dar u)(15 := dar u 15 + 2),
         activeFunctionCode := s_flag u OR address_space u, bus_state := b1\<rparr>)" (is "_ = Ret _ ?u1")
    and h1: "holding mac_readable mac_ram mac_bytes ?b ?m b1"
    by (rule mac.pull_16 [OF r(1,2) holding_refl r(3)])
  have "plain (macplus_bus dev) ?u1" "may_access ?u1 (dar ?u1 15)"
      "ram32 (mac_readable ?b) (dar ?u1 15)" "holding mac_readable mac_ram mac_bytes ?b ?m (bus_state ?u1)"
    using reaches_32 [OF stack, of 2 2] h1 ram_readable
    by (simp_all add: plain_def may_access_def ADDRESS_68K_def)
  then obtain b2 where e2: "m68ki_pull_32 ?u1 = Ret (be32 ?m (dar ?u1 15))
      (?u1\<lparr>dar := (dar ?u1)(15 := dar ?u1 15 + 4),
         activeFunctionCode := s_flag ?u1 OR address_space ?u1, bus_state := b2\<rparr>)" (is "_ = Ret _ ?u2")
    by (metis mac.pull_32)
  define t where "t = m68ki_jump v ?u2"
  have t: "wf_mode t" "usp_of t = usp_of u" "isp_of t = dar u 15 + 6" "sr_mask_ok t"
    using u by (simp_all add: t_def m68ki_jump_def wf_mode_def usp_of_def isp_of_def sr_mask_ok_def)
  have q: "nmi_pending t = 0" "int_level t \<le> sr AND sr_mask t AND 0x0700"
    using quiet by (simp_all add: t_def m68ki_jump_def)
  let ?w = "m68ki_set_sr_noint sr t\<lparr>instr_mode := INSTRUCTION_YES, run_mode := RUN_MODE_NORMAL\<rparr>"
  have "m68k_op_rte_32 u = Ret () ?w"
    using u e1 e2 sr frame set_sr_no_interrupt [OF q]
    by (simp add: m68k_op_rte_32_def cpu_type_tests rte_finish_def t_def)
  moreover have "pc ?w = v"
    by (simp add: m68ki_set_sr_noint_def m68ki_set_sm_flag_def m68ki_set_ccr_def set_REG_SP_def Let_def
        t_def m68ki_jump_def)
  moreover have "m68ki_get_sr ?w = sr"
    using get_sr_after_set(1) [OF t(4), of sr] frame(3)
    by (simp add: t_def m68ki_jump_def m68ki_get_sr_def m68ki_get_ccr_def COND_EQ_def COND_NE_def)
  moreover have "wf_mode ?w" "usp_of ?w = usp_of u" "isp_of ?w = dar u 15 + 6"
    using same_stacks_set_sr [OF t(1), of sr] t(2,3)
      stacks_of_update [of ?w "m68ki_set_sr_noint sr t"]
    unfolding same_stacks_def by simp_all
  moreover have "run_mode ?w = RUN_MODE_NORMAL"
    by simp
  ultimately show thesis by (rule that)
qed

subsection \<open>The round trip\<close>

text \<open>What a handler must keep: the supervisor stack pointer, the frame, and quiet interrupts.\<close>

definition may_resume ::
    "'d device_buses \<Rightarrow> 'd mac_plus machine \<Rightarrow> 'd mac_plus machine \<Rightarrow> 'd mac_plus machine \<Rightarrow> bool" where
  "may_resume dev s t u \<longleftrightarrow> s_flag u = 4 \<and> m_flag u = 0 \<and> cpu_type u = CPU_TYPE_000 \<and>
     sr_mask u = sr_mask s \<and> dar u 15 = dar t 15 \<and> reaches dev (dar t 15) 6 u \<and>
     be16 (mac_bytes (bus_state u)) (dar t 15) = be16 (mac_bytes (bus_state t)) (dar t 15) \<and>
     be32 (mac_bytes (bus_state u)) (dar t 15 + 2) = be32 (mac_bytes (bus_state t)) (dar t 15 + 2) \<and>
     nmi_pending u = 0 \<and> int_level u \<le> m68ki_get_sr s AND 0x0700"

text \<open>
  C6. TRAP on a 68000 in the Macintosh Plus goes to the address in its vector, in supervisor mode,
  with the status register and the return address in the six bytes below the supervisor stack pointer
  and no other byte of RAM changed.  From every later state that still has the frame and the stack
  pointer, and no interrupt to take, RTE restores program counter, status register, mode and both
  stack pointers; the user stack pointer is the one the handler left.
\<close>

theorem trap_returns:
  assumes s: "wf_mode s" "m_flag s = 0" "cpu_type s = CPU_TYPE_000" "sr_mask_ok s"
      "m68ki_get_sr s AND sr_mask s = m68ki_get_sr s"
    and stack: "reaches dev (isp_of s - 6) 6 s"
    and vector: "vec = EXCEPTION_TRAP_BASE + (ir s AND 0xf)" "may_access s (push_bit 2 vec + vbr s)"
      "ram32 (mac_readable (bus_state s)) (push_bit 2 vec + vbr s)"
      "apart (push_bit 2 vec + vbr s) 4 (isp_of s - 6) 6"
  shows "\<exists>t. m68k_op_trap s = Ret () t \<and> s_flag t = 4 \<and> t1_flag t = 0 \<and>
      pc t = be32 (mac_bytes (bus_state s)) (push_bit 2 vec + vbr s) \<and>
      dar t = (dar s)(15 := isp_of s - 6) \<and> usp_of t = usp_of s \<and>
      memory_is s (frame_bytes (isp_of s) (pc s) (m68ki_get_sr s) (mac_bytes (bus_state s))) t \<and>
      (\<forall>u. may_resume dev s t u \<longrightarrow>
        (\<exists>w. m68k_op_rte_32 u = Ret () w \<and> pc w = pc s \<and> m68ki_get_sr w = m68ki_get_sr s \<and> wf_mode w \<and>
          usp_of w = usp_of u \<and> isp_of w = isp_of s \<and> run_mode w = RUN_MODE_NORMAL))"
proof -
  let ?sr = "m68ki_get_sr s"
  obtain t where t: "m68ki_exception_trapN vec s = Ret () t"
    "pc t = be32 (mac_bytes (bus_state s)) (push_bit 2 vec + vbr s)"
    "s_flag t = 4" "m_flag t = 0" "t1_flag t = 0" "dar t = (dar s)(15 := isp_of s - 6)"
    "usp_of t = usp_of s"
    "memory_is s (frame_bytes (isp_of s) (pc s) ?sr (mac_bytes (bus_state s))) t"
    "cpu_type t = CPU_TYPE_000" "sr_mask t = sr_mask s"
    by (rule trap_enters [OF s(1-3) stack vector(2-4)])
  have "ram16 (mac_readable (bus_state s)) (isp_of s - 6)" "ram32 (mac_readable (bus_state s)) (isp_of s - 6 + 2)"
    using reaches_16 [OF stack, of 0 0] reaches_32 [OF stack, of 2 2] ram_readable by simp_all
  then have f: "be16 (mac_bytes (bus_state t)) (isp_of s - 6) = ucast ?sr"
      "be32 (mac_bytes (bus_state t)) (isp_of s - 4) = pc s"
    using holding_be [OF t(8) [unfolded memory_is_def]] frame_read [of "isp_of s" "pc s" ?sr]
    by (simp_all add: algebra_simps)
  have "\<exists>w. m68k_op_rte_32 u = Ret () w \<and> pc w = pc s \<and> m68ki_get_sr w = ?sr \<and> wf_mode w \<and>
      usp_of w = usp_of u \<and> isp_of w = isp_of s \<and> run_mode w = RUN_MODE_NORMAL" if u: "may_resume dev s t u" for u
  proof -
    have d: "dar t 15 = isp_of s - 6" "dar t 15 + 2 = isp_of s - 4" using t(6) by simp_all
    have c: "s_flag u = 4" "m_flag u = 0" "cpu_type u = CPU_TYPE_000" "sr_mask u = sr_mask s"
        "dar u 15 = dar t 15" "reaches dev (dar t 15) 6 u" "nmi_pending u = 0"
        "int_level u \<le> ?sr AND 0x0700"
        "be16 (mac_bytes (bus_state u)) (dar t 15) = ucast ?sr"
        "be32 (mac_bytes (bus_state u)) (dar t 15 + 2) = pc s"
      using u f unfolding may_resume_def d by simp_all
    have w: "wf_mode u" "sr_mask_ok u" "?sr AND sr_mask u = ?sr" "reaches dev (dar u 15) 6 u"
        "be16 (mac_bytes (bus_state u)) (dar u 15) = ucast ?sr"
        "be32 (mac_bytes (bus_state u)) (dar u 15 + 2) = pc s"
      using c s(4,5) by (simp_all add: wf_mode_def sr_mask_ok_def)
    have "int_level u \<le> ?sr AND sr_mask u AND 0x0700"
      using c(8) w(3) by (metis and.assoc)
    then obtain w where "m68k_op_rte_32 u = Ret () w" "pc w = pc s" "m68ki_get_sr w = ?sr" "wf_mode w"
      "usp_of w = usp_of u" "isp_of w = dar u 15 + 6" "run_mode w = RUN_MODE_NORMAL"
      using rte_leaves [OF c(3) w(1) c(1,2) w(2,4) c(7) _ w(5,6,3)] by blast
    then show ?thesis using c(5) d(1) by simp
  qed
  then show ?thesis
    using t by (intro exI [of _ t]) (simp add: m68k_op_trap_def vector(1))
qed

lemma trap_returns_witness:
  "\<exists>t. m68k_op_trap sample_plus = Ret () t \<and> dar t = (dar sample_plus)(15 := 0xffa)"
proof -
  have "m68ki_get_sr sample_plus = 0x2004"
    by (simp add: m68ki_get_sr_def m68ki_get_ccr_def COND_EQ_def COND_NE_def bool_word_def)
  then have sr: "m68ki_get_sr sample_plus AND sr_mask sample_plus = m68ki_get_sr sample_plus" by simp
  have isp: "isp_of sample_plus = 0x1000" by (simp add: isp_of_def)
  have stack: "reaches no_devices (isp_of sample_plus - 6) 6 sample_plus"
    unfolding isp by (simp add: reaches_def all_less_6 plain_def ADDRESS_68K_def sample_mac_ram)
  have vector: "push_bit 2 (32 + (ir sample_plus AND 0xf)) + vbr sample_plus = 0x80"
    by simp
  have ram: "ram32 (mac_readable (bus_state sample_plus)) 0x80"
    by (simp add: ram32_def ram16_def mac_readable_def sample_mac_ram)
  have "wf_mode sample_plus" "m_flag sample_plus = 0" "cpu_type sample_plus = CPU_TYPE_000"
    "sr_mask_ok sample_plus"
    by (simp_all add: wf_mode_def sr_mask_ok_def)
  moreover have "may_access sample_plus 0x80" by (simp add: may_access_def ADDRESS_68K_def)
  moreover have "apart 0x80 4 (isp_of sample_plus - 6) 6"
    unfolding isp by (simp add: apart_def Ball_def all_less_6 all_less_4)
  ultimately show ?thesis
    using trap_returns [OF _ _ _ _ sr stack refl, unfolded EXCEPTION_TRAP_BASE_def vector] ram isp by auto
qed

end
