(* ===== verification/Spec2Isabelle.thy ===== *)
theory Spec2Isabelle
  imports AccessFrame
    AdbTransceiver
    AppleSoundChip
    CudaController
    DafbVideo
    DecimalLaws
    ExtendedArith
    MacPlusWiring
    NcrLaws
    NuBusBus
    OpcodeDecode
    SoftFloatLaws
    TrapLaws
begin

text \<open>
  CuteMac emulates Macintosh computers.  Its processor is a 68000 family interpreter in C under
  \<open>src/src/cpu/m68k/engine\<close>: \<open>m68kcpu.h\<close> holds the state of the processor, memory access, operand
  fetch and exceptions, \<open>m68kmmu.h\<close> the memory management unit, \<open>m68kcpu.c\<close> the functions the host
  calls and the execution loop, \<open>m68kops.c\<close> one handler per instruction and addressing mode.  The
  C++ class \<open>M68kCpuCore\<close> (\<open>src/src/cpu/m68k/M68kCpuCore.cpp\<close>) connects the interpreter to the
  memory bus of a machine, of which the Macintosh Plus
  (\<open>src/src/machines/macplus/MacPlusMachine.cpp\<close>) is modelled.

  How the parts interact.  The host calls \<open>m68k_execute\<close>, which takes pending interrupts, then
  fetches an instruction word and calls the handler found in a table under it.  A handler reads
  operands through effective addresses, and every access goes through the address error check, the
  translation of the memory management unit and the address mask to the bus.  An odd address on an
  old processor leaves the handler with \<open>longjmp\<close>; so does a bus error after it has pushed a frame
  and loaded its vector.  The loop recovers at one of two points.

  How the C program is represented.
  \<^item> The global structure \<open>m68ki_cpu\<close> and the file scope variables are the record \<open>machine\<close>
    (CpuState), with the C names; the register file \<open>dar\<close> and the stack pointer banks are functions
    of the index.  Integers have their C width as words, so arithmetic wraps as in C.
  \<^item> A C function that can leave by \<open>longjmp\<close> returns a \<open>result\<close>: \<open>Ret\<close> a value and a state, or \<open>Jump\<close>
    the recovery point and a state; \<open>chain\<close> is sequencing.  A failed assertion is a jump too.
  \<^item> The memory bus is the field \<open>bus\<close>, a record of functions over a bus state of any type \<open>'b\<close>
    (\<open>M68kBus.h\<close>); a physical access returns the value and whether it faulted.
  \<^item> Options the repository configures out (\<open>m68kconf.h\<close>: tracing, function code callbacks, the TAS
    and trap callbacks) do nothing, as in the compiled program.

  The theories.
  \<^item> Prelude: words, bits and lists.  CpuState, CpuAccess, Flags: the state, its registers, condition
    codes, status register and stack pointer banks.
  \<^item> Memory: physical accesses.  Mmu: the translation cache, transparent translation and the table
    walks of the 68030 and 68040.  BusError: accesses of the processor, the stack and the bus error
    exception, which in C is recursive through its own pushes; here its body takes the handler of
    nested faults as an argument, and \<open>m68ki_exception_bus_error_unfold\<close> shows that the definition
    satisfies the recursion of the C function.
  \<^item> Operands: prefetch, effective addresses and operands.  Exceptions: the other exceptions and
    interrupts.  PmmuOps: PMOVE, PFLUSH, PLOAD and PTEST.  Api: the functions for the host.
    Execute: the execution loop, with the table of handlers as an argument.
  \<^item> OpsBase and seventeen theories Ops*: the 1965 handlers of \<open>m68kops.c\<close>, with their C names.
  \<^item> MemoryContract: what a bus promises, as the locales \<open>readable_bus\<close> (accesses return and agree with
    a memory) and \<open>memory_bus\<close> (writes change exactly that memory), and what the accesses, pushes and
    pulls of the processor do on it.  MacPlusBus: the bus of the Macintosh Plus, which the
    interpretations there show to keep the contract on its memory.
  \<^item> AccessFrame: what an access leaves alone, and the recursion of the bus error exception.  The locale
    \<open>odd_handler\<close> says what the handler of nested faults promises, that an address error is one of an old
    processor at an odd address; the handler at the bottom of the recursion interprets it, and each body keeps it.
    RegisterLaws, TrapLaws: register access of the host, the three stack pointers, virtual
    interrupts, calls and returns, TRAP and RTE.
  \<^item> AluSpec: reference arithmetic with condition codes and laws of operands, shared by
    the theories of properties ArithLaws, ExtendedArith and DecimalLaws.  Samples: the states the
    witnesses use.

  \<^item> FloatTypes, SoftFloat: the extended precision arithmetic and the conversions of \<open>softfloat/softfloat.c\<close>
    with the helpers of \<open>softfloat-macros\<close> and \<open>softfloat-specialize\<close>; the global flags and rounding
    mode are the record \<open>float_status\<close>.  Fpu, FpuOps: \<open>m68kfpu.c\<close>, with operands in memory, packed
    decimals, the status register, conditions and all instructions.  The C library's transcendental
    functions, \<open>sprintf\<close> and \<open>sscanf\<close> are the record \<open>host_math\<close>.
  \<^item> MultiWord: the two-word arithmetic of SoftFloat against integers, with the division loops.
    SoftFloatLaws: products and quotients are the exact values, correctly rounded, and the
    round trips of conversions.
  \<^item> OpcodeTable: the rows of \<open>m68k_opcode_handler_table\<close>.  OpcodeDecode: the loops that build the
    dispatch table from it, and what the table holds for every instruction word.

  The devices, in C++ under \<open>src/src/devices\<close>, stand on their own: an object is a record with its fields
  (\<open>m_x\<close> is \<open>x\<close> with a prefix for the device), a method a function on it, and what a device uses of Qt
  is the record \<open>host_files\<close> over an arbitrary host (HostFiles).  Event traces for the debugger are
  left out.
  \<^item> MacRtc: the clock chip behind its serial pins, with the parameter RAM and its file, its round trip
    and its invariant.
  \<^item> GcrCodec: the group code of 800K disks and the fields of high density disks, with their round trip
    and check bytes.  FloppyDiskImage: the drive, its images, tracks, head and writes.  FloppyLaws: what
    is read and written under the head against the image as a list of sectors, the numbering of sectors
    and the invariant of the drive.
  \<^item> IwmController: the IWM and SWIM in front of two drives.  IwmLaws: the invariant of its drives, the unlocking of
    the SWIM mode and that eighty steps out reach track zero.
  \<^item> HostFiles also holds what a SCSI controller calls on a target and the contract \<open>scsi_contract\<close>.
    ScsiBlockDevice: the hard disk.  ScsiDiskLaws: the disk interprets the contract and refines a store
    of blocks.  Ncr5380: the controller.  NcrLaws: a command driven over its registers amounts to one
    execution by the target, and writing then reading blocks over the bus returns them.

  \<^item> Via6522: the VIA with its ports, timers, shift register and keyboard; the locale \<open>via_machine\<close> is
    what it asks of the callbacks of its machine, and \<open>via_pins\<close>, whose callback of port B changes only input
    pins, carries what timer 1 and the keyboard do in any such machine.  Z8530Scc: the serial controller with the endpoint, which may itself send, as a
    parameter.  ScsiCdRom: the CD-ROM drive, which interprets \<open>scsi_contract\<close> as well.
    MachineScheduler: the queue of events.  RomPatcher: the patches of ROM images, with SHA-256 as a
    parameter.

  The Macintosh Plus around its bus.  DeviceBuses: the byte lanes of the chips.  MacPlusDevices: the
  record \<open>chips\<close> is what \<open>MacPlusMachine\<close> holds besides the members the bus decoder uses, with the callbacks
  of the VIA, input, sound, picture, ROM and media, reset and construction; disks and CD-ROM drives are
  objects of the controller with a number each, as the source shares pointers.  MacPlusMachine: the same
  object behind the processor, with the step of an instruction and the loops over steps.  MacPlusLaws: the machine's callbacks
  interpret the VIA's contract (\<open>via_host\<close> extends it by an invariant of the machine), both kinds of SCSI
  device that of the controller, and every event keeps the invariant of the machine, the type property.
  MacPlusWiring: the clock chip and the overlay through the VIA over the bus; the callbacks of the machine
  interpret \<open>via_pins\<close>, so timer 1 and the keyboard are followed over the bus while time passes; what the time of an
  instruction does to clock, timers, sound, input and interrupts; the amount of pending sound.

  Devices of the later Macintoshes.  AdbTransceiver: the desktop bus with keyboard and mouse behind the
  VIA, with the callbacks of its machine as a record, and the keys a host reads over it.
  CudaController: the Cuda, which holds the VIA it is attached to, with packets over its wires and the
  parameter RAM.  Ncr53c94: the SCSI controller of the Quadra over the same targets as the NCR 5380,
  with a command and its answer through its registers.  AppleSoundChip: the FIFOs of the sound chip.
  NuBusBus: the slots, with a card as the record of its virtual methods.  SonoraVideo, DafbVideo: video
  controllers and the frames they display (\<open>VideoFrame.h\<close>); an overflow of the width in the DAFB, undefined in
  C++, makes the operation \<open>None\<close>, and \<open>dafb_width_overflows\<close> shows that it can happen.

  Fuel and recursion.  Loops of the source over data are structural recursion.  The bus error
  exception recurses with the depth of nested frames, bounded by the double fault; the scan for a mark
  runs at most once around the track, as in the source; the initiator of NcrLaws reads at most the
  number of bytes it is given, and the theorem asks for at least as many as the target has.

  Not modelled.  The parts of SoftFloat the floating point unit does not call, the disassembler,
  context switching of the engine, the machines other than the Macintosh Plus, the remaining devices (NuBus
  cards, network, modems), the session, its windows and the debugging tools.  The manifest gives
  the reason for each.
\<close>

end
